(* ===== verification/Prelude.thy ===== *)
theory Prelude
  imports Main "HOL-Library.Word"
begin

text \<open>
  Shared vocabulary of the development: the machine integer types of the Rust sources
  as words, the saturating and truncating operations the sources use on them, the
  lookup of a list at an index with Rust's \<^verbatim>\<open>get\<close>, the log records the code hands to
  its logger, and the collections of lemmas the component theories add to.
\<close>

unbundle bit_operations_syntax

named_theorems state_defs \<open>definitions of the operations of the component records\<close>
named_theorems frame \<open>what an operation leaves unchanged\<close>

section \<open>Machine integers\<close>

type_synonym u8 = "8 word"
type_synonym u16 = "16 word"
type_synonym u32 = "32 word"
type_synonym u64 = "64 word"
type_synonym i32 = "32 word"

text \<open>
  An \<^verbatim>\<open>i32\<close> is a 32-bit word read with \<open>sint\<close>. Rust's \<^verbatim>\<open>saturating_add\<close> and
  \<^verbatim>\<open>saturating_sub\<close> on unsigned integers stop at the bounds of the type.
\<close>

definition saturating_add :: "'a::len word \<Rightarrow> 'a word \<Rightarrow> 'a word" where
  "saturating_add a b = (if a \<le> - 1 - b then a + b else - 1)"

definition saturating_sub :: "'a::len word \<Rightarrow> 'a word \<Rightarrow> 'a word" where
  "saturating_sub a b = (if b \<le> a then a - b else 0)"

lemma uint_saturating_add:
  fixes a b :: "'a::len word"
  shows "uint (saturating_add a b) = min (uint a + uint b) (2 ^ LENGTH('a) - 1)"
proof -
  have lt: "uint b < 2 ^ LENGTH('a)" by (rule uint_lt2p)
  have m: "uint (- 1 :: 'a word) = 2 ^ LENGTH('a) - 1"
    by (simp add: unsigned_minus_1_eq_mask mask_eq_exp_minus_1)
  have "b \<le> - 1" by (rule word_order.extremum)
  then have m1: "uint (- 1 - b) = 2 ^ LENGTH('a) - 1 - uint b"
    by (simp only: uint_minus_simple_alt m)
  have le: "a \<le> - 1 - b \<longleftrightarrow> uint a + uint b < 2 ^ LENGTH('a)"
    by (simp only: word_le_def m1) linarith
  show ?thesis
  proof (cases "a \<le> - 1 - b")
    case True
    then have "uint a + uint b < 2 ^ LENGTH('a)" by (simp only: le)
    with True show ?thesis
      by (simp add: saturating_add_def uint_word_ariths mod_pos_pos_trivial)
  next
    case False
    with le have "\<not> uint a + uint b < 2 ^ LENGTH('a)" by blast
    with False show ?thesis by (simp add: saturating_add_def m)
  qed
qed

lemma uint_saturating_sub: "uint (saturating_sub a b) = max (uint a - uint b) 0"
proof (cases "b \<le> a")
  case True
  then have "uint b \<le> uint a" by (simp add: word_le_def)
  moreover have "uint a - uint b < 2 ^ LENGTH('a)"
    using uint_lt2p [of a] uint_ge_0 [of b] by linarith
  ultimately show ?thesis using True
    by (simp add: saturating_sub_def uint_word_ariths mod_pos_pos_trivial)
next
  case False
  then show ?thesis by (simp add: saturating_sub_def word_le_def)
qed

text \<open>Words are equal when all their bits are.\<close>

lemma word_bits_eq_iff: "(x::'a::len word) = y \<longleftrightarrow> (\<forall>n. bit x n = bit y n)"
  by (metis bit_word_eqI)

text \<open>Integer division by a positive divisor, as two bounds.\<close>

lemma int_div_lower: "0 < (d::int) \<Longrightarrow> n div d * d \<le> n"
proof -
  assume "0 < d"
  then have "0 \<le> n mod d" by (rule pos_mod_sign)
  moreover have "n div d * d + n mod d = n" by (rule div_mult_mod_eq)
  ultimately show ?thesis by linarith
qed

lemma int_div_upper: "0 < (d::int) \<Longrightarrow> n < (n div d + 1) * d"
proof -
  assume "0 < d"
  then have "n mod d < d" by (rule pos_mod_bound)
  moreover have "n div d * d + n mod d = n" by (rule div_mult_mod_eq)
  ultimately show ?thesis by (simp only: distrib_right mult_1)
qed

section \<open>Lists at an index\<close>

text \<open>Rust's \<^verbatim>\<open>slice.get(i)\<close>: \<open>None\<close> out of range.\<close>

definition list_get :: "'a list \<Rightarrow> nat \<Rightarrow> 'a option" where
  "list_get xs i = (if i < length xs then Some (xs ! i) else None)"

lemma list_get_Some [simp]: "i < length xs \<Longrightarrow> list_get xs i = Some (xs ! i)"
  by (simp add: list_get_def)

lemma list_get_None [simp]: "length xs \<le> i \<Longrightarrow> list_get xs i = None"
  by (simp add: list_get_def)

text \<open>A loop that stops with \<open>None\<close> at the first missing value, when none is missing.\<close>

lemma those_map_Some: "(\<And>x. x \<in> set xs \<Longrightarrow> f x = Some (g x)) \<Longrightarrow> those (map f xs) = Some (map g xs)"
  by (induction xs) auto

section \<open>Log records\<close>

text \<open>
  A call of \<^verbatim>\<open>log_info!\<close>, \<^verbatim>\<open>log_warn!\<close> or \<^verbatim>\<open>log_error!\<close> is a value of \<open>log_msg\<close>;
  operations that log return the records they emit, oldest first.
\<close>

datatype severity = LogInfo | LogWarn | LogError

type_synonym log_msg = "severity \<times> string"

end
