(* ===== verification/Flight_Float.thy ===== *)
theory Flight_Float
  imports Prelude
begin

text \<open>
  The floating-point numbers of the flight code: Rust's \<^verbatim>\<open>f32\<close> and \<^verbatim>\<open>f64\<close> as IEEE-754
  words, and the trait \<^verbatim>\<open>FlightFloat\<close> of \<^verbatim>\<open>math.rs\<close>. A value of \<open>'r flt\<close> is a word of
  \<open>LENGTH('r)\<close> bits; \<open>32 flt\<close> is \<^verbatim>\<open>f32\<close> and \<open>64 flt\<close> is \<^verbatim>\<open>f64\<close>, so a Rust function
  that is generic over \<^verbatim>\<open>R: FlightFloat\<close> becomes a definition polymorphic in \<open>'r\<close>.
  Every operation is computed on integers: a finite value is an integer multiple of the
  smallest positive value of its format, arithmetic is exact on these integers, and one
  function rounds the exact result to nearest, ties to even. The lemmas show that this
  rounding is exact on representable values and monotone, which is what the bounds of
  the component theories use. A NaN that an operation produces is the canonical quiet
  NaN (Rust leaves its payload open).
\<close>

section \<open>Formats, fields and values\<close>

typedef (overloaded) 'r flt = "UNIV :: 'r::len word set"
  morphisms to_bits Flt by simp

lemma to_bits_Flt [simp]: "to_bits (Flt w) = w"
  by (simp add: Flt_inverse)

lemma Flt_to_bits [simp]: "Flt (to_bits x) = x"
  by (rule to_bits_inverse)

lemma Flt_eq_iff [simp]: "Flt v = Flt w \<longleftrightarrow> v = w"
  by (simp add: Flt_inject)

type_synonym f32 = "32 flt"
type_synonym f64 = "64 flt"

definition mbits :: "'r::len itself \<Rightarrow> nat" where
  "mbits _ = (if LENGTH('r) = 64 then 52 else 23)"

definition ebits :: "'r::len itself \<Rightarrow> nat" where
  "ebits r = LENGTH('r) - 1 - mbits r"

definition ulp_exp :: "'r::len itself \<Rightarrow> nat" where
  "ulp_exp r = 2 ^ (ebits r - 1) - 2 + mbits r"

definition inf_mag :: "'r::len itself \<Rightarrow> int" where
  "inf_mag r = (2 ^ ebits r - 1) * 2 ^ mbits r"

definition sgn_bit :: "'r::len flt \<Rightarrow> bool" where
  "sgn_bit x = bit (to_bits x) (LENGTH('r) - 1)"

definition mag :: "'r::len flt \<Rightarrow> int" where
  "mag x = uint (to_bits x) mod 2 ^ (LENGTH('r) - 1)"

definition mk_flt :: "bool \<Rightarrow> int \<Rightarrow> 'r::len flt" where
  "mk_flt s k = Flt (word_of_int (k + (if s then 2 ^ (LENGTH('r) - 1) else 0)))"

definition flt_key :: "'r::len flt \<Rightarrow> int" where
  "flt_key x = (if sgn_bit x then - mag x else mag x)"

definition is_nan :: "'r::len flt \<Rightarrow> bool" where
  "is_nan x = (inf_mag TYPE('r) < mag x)"

definition is_infinite :: "'r::len flt \<Rightarrow> bool" where
  "is_infinite x = (mag x = inf_mag TYPE('r))"

definition is_finite :: "'r::len flt \<Rightarrow> bool" where
  "is_finite x = (mag x < inf_mag TYPE('r))"

definition flt_nan :: "'r::len flt" where
  "flt_nan = mk_flt False (inf_mag TYPE('r) + 2 ^ (mbits TYPE('r) - 1))"

definition flt_inf :: "bool \<Rightarrow> 'r::len flt" where
  "flt_inf s = mk_flt s (inf_mag TYPE('r))"

text \<open>The value of a magnitude, in units of the smallest positive value.\<close>

definition mag_val :: "nat \<Rightarrow> int \<Rightarrow> int" where
  "mag_val m k = (let e = k div 2 ^ m; f = k mod 2 ^ m in
     if e = 0 then f else (2 ^ m + f) * 2 ^ nat (e - 1))"

definition fval :: "'r::len flt \<Rightarrow> int" where
  "fval x = (if sgn_bit x then - mag_val (mbits TYPE('r)) (mag x)
             else mag_val (mbits TYPE('r)) (mag x))"

section \<open>Rounding\<close>

fun bitlen :: "int \<Rightarrow> nat" where
  "bitlen n = (if n \<le> 0 then 0
     else if n < 2 ^ 32 then Suc (bitlen (n div 2)) else 32 + bitlen (n div 2 ^ 32))"

declare bitlen.simps [simp del]

definition round_half_even :: "int \<Rightarrow> int \<Rightarrow> int" where
  "round_half_even n d = (let q = n div d; r = n mod d in
     if 2 * r < d then q else if d < 2 * r then q + 1 else q + q mod 2)"

definition round_mag :: "nat \<Rightarrow> int \<Rightarrow> int \<Rightarrow> int" where
  "round_mag m n d = (let s = bitlen (n div d) - Suc m
     in int s * 2 ^ m + round_half_even n (d * 2 ^ s))"

definition round_flt :: "bool \<Rightarrow> int \<Rightarrow> int \<Rightarrow> 'r::len flt" where
  "round_flt s n d = mk_flt s (min (round_mag (mbits TYPE('r)) n d) (inf_mag TYPE('r)))"

section \<open>The operations\<close>

text \<open>A decimal literal \<open>n / d\<close> of the source, correctly rounded.\<close>

definition flt_lit :: "int \<Rightarrow> int \<Rightarrow> 'r::len flt" where
  "flt_lit n d = round_flt (n < 0) (\<bar>n\<bar> * 2 ^ ulp_exp TYPE('r)) d"

definition flt_of_int :: "int \<Rightarrow> 'r::len flt" where
  "flt_of_int n = flt_lit n 1"

definition flt_add :: "'r::len flt \<Rightarrow> 'r flt \<Rightarrow> 'r flt" where
  "flt_add x y =
    (if is_nan x \<or> is_nan y \<or> is_infinite x \<and> is_infinite y \<and> sgn_bit x \<noteq> sgn_bit y then flt_nan
     else if is_infinite x then x
     else if is_infinite y then y
     else let z = fval x + fval y in
       if z = 0 then mk_flt (sgn_bit x \<and> sgn_bit y) 0 else round_flt (z < 0) \<bar>z\<bar> 1)"

definition flt_neg :: "'r::len flt \<Rightarrow> 'r flt" where
  "flt_neg x = mk_flt (\<not> sgn_bit x) (mag x)"

definition flt_mul :: "'r::len flt \<Rightarrow> 'r flt \<Rightarrow> 'r flt" where
  "flt_mul x y = (let s = (sgn_bit x \<noteq> sgn_bit y) in
     if is_nan x \<or> is_nan y \<or> is_infinite x \<and> mag y = 0 \<or> mag x = 0 \<and> is_infinite y then flt_nan
     else if is_infinite x \<or> is_infinite y then flt_inf s
     else round_flt s \<bar>fval x * fval y\<bar> (2 ^ ulp_exp TYPE('r)))"

definition flt_div :: "'r::len flt \<Rightarrow> 'r flt \<Rightarrow> 'r flt" where
  "flt_div x y = (let s = (sgn_bit x \<noteq> sgn_bit y) in
     if is_nan x \<or> is_nan y \<or> is_infinite x \<and> is_infinite y \<or> mag x = 0 \<and> mag y = 0 then flt_nan
     else if is_infinite x \<or> mag y = 0 then flt_inf s
     else if is_infinite y then mk_flt s 0
     else round_flt s (\<bar>fval x\<bar> * 2 ^ ulp_exp TYPE('r)) \<bar>fval y\<bar>)"

instantiation flt :: (len) "{plus, minus, uminus, times, inverse, ord, abs, zero, one}"
begin
definition zero_flt :: "'a flt" where "zero_flt = mk_flt False 0"
definition one_flt :: "'a flt" where "one_flt = flt_lit 1 1"
definition plus_flt :: "'a flt \<Rightarrow> 'a flt \<Rightarrow> 'a flt" where "x + y = flt_add x y"
definition uminus_flt :: "'a flt \<Rightarrow> 'a flt" where "- x = flt_neg x"
definition minus_flt :: "'a flt \<Rightarrow> 'a flt \<Rightarrow> 'a flt" where "x - y = flt_add x (flt_neg y)"
definition times_flt :: "'a flt \<Rightarrow> 'a flt \<Rightarrow> 'a flt" where "x * y = flt_mul x y"
definition divide_flt :: "'a flt \<Rightarrow> 'a flt \<Rightarrow> 'a flt" where "x div y = flt_div x y"
definition inverse_flt :: "'a flt \<Rightarrow> 'a flt" where "inverse x = flt_div (flt_lit 1 1) x"
definition abs_flt :: "'a flt \<Rightarrow> 'a flt" where "\<bar>x\<bar> = mk_flt False (mag x)"
definition less_flt :: "'a flt \<Rightarrow> 'a flt \<Rightarrow> bool" where
  "x < y \<longleftrightarrow> \<not> is_nan x \<and> \<not> is_nan y \<and> flt_key x < flt_key y"
definition less_eq_flt :: "'a flt \<Rightarrow> 'a flt \<Rightarrow> bool" where
  "x \<le> y \<longleftrightarrow> \<not> is_nan x \<and> \<not> is_nan y \<and> flt_key x \<le> flt_key y"
instance ..
end

text \<open>Rust's \<^verbatim>\<open>==\<close> on floats: false on NaN, and the two zeros are equal.\<close>

definition flt_eq :: "'r::len flt \<Rightarrow> 'r flt \<Rightarrow> bool" where
  "flt_eq x y \<longleftrightarrow> \<not> is_nan x \<and> \<not> is_nan y \<and> flt_key x = flt_key y"

definition flt_clamp :: "'r::len flt \<Rightarrow> 'r flt \<Rightarrow> 'r flt \<Rightarrow> 'r flt" where
  "flt_clamp x lo hi = (if x < lo then lo else if hi < x then hi else x)"

definition flt_max :: "'r::len flt \<Rightarrow> 'r flt \<Rightarrow> 'r flt" where
  "flt_max x y = (if is_nan x then y else if is_nan y then x else if x < y then y else x)"

definition flt_min :: "'r::len flt \<Rightarrow> 'r flt \<Rightarrow> 'r flt" where
  "flt_min x y = (if is_nan x then y else if is_nan y then x else if y < x then y else x)"

text \<open>Conversion between the formats (\<^verbatim>\<open>from_f32\<close>, \<^verbatim>\<open>from_f64\<close>, \<^verbatim>\<open>to_f32_lossy\<close>).\<close>

definition flt_conv :: "'a::len flt \<Rightarrow> 'b::len flt" where
  "flt_conv x =
    (if is_nan x then flt_nan else if is_infinite x then flt_inf (sgn_bit x)
     else round_flt (sgn_bit x) (\<bar>fval x\<bar> * 2 ^ ulp_exp TYPE('b)) (2 ^ ulp_exp TYPE('a)))"

text \<open>A cast to an integer truncates towards zero and saturates; a NaN gives 0.\<close>

definition flt_trunc :: "'r::len flt \<Rightarrow> int" where
  "flt_trunc x = sgn (fval x) * (\<bar>fval x\<bar> div 2 ^ ulp_exp TYPE('r))"

definition flt_to_int :: "int \<Rightarrow> int \<Rightarrow> 'r::len flt \<Rightarrow> int" where
  "flt_to_int lo hi x =
    (if is_nan x then 0 else if is_infinite x then (if sgn_bit x then lo else hi)
     else max lo (min hi (flt_trunc x)))"

definition flt_to_u16 :: "'r::len flt \<Rightarrow> u16" where
  "flt_to_u16 x = word_of_int (flt_to_int 0 65535 x)"

lemmas flt_op_defs = plus_flt_def uminus_flt_def minus_flt_def times_flt_def divide_flt_def
  inverse_flt_def zero_flt_def one_flt_def abs_flt_def less_flt_def less_eq_flt_def

lemma bitlen_small [simp]: "bitlen 0 = 0" "bitlen 1 = 1"
  by (simp_all add: bitlen.simps)

text \<open>Evaluation of the operations on concrete \<^verbatim>\<open>f32\<close> values by \<open>simp\<close>.\<close>

lemmas flt_eval = flt_op_defs flt_lit_def round_flt_def round_mag_def mk_flt_def mbits_def inf_mag_def
  ebits_def ulp_exp_def bitlen.simps [of "numeral w" for w] round_half_even_def Let_def flt_mul_def
  flt_add_def flt_div_def flt_neg_def fval_def mag_def mag_val_def sgn_bit_def flt_key_def is_nan_def
  is_infinite_def is_finite_def flt_nan_def flt_inf_def flt_of_int_def flt_eq_def flt_clamp_def
  flt_max_def flt_min_def flt_conv_def flt_trunc_def flt_to_int_def flt_to_u16_def

section \<open>The rounding function\<close>

lemma bitlen_bounds: "0 < n \<Longrightarrow> 0 < bitlen n \<and> 2 ^ (bitlen n - 1) \<le> n \<and> n < 2 ^ bitlen n"
proof (induction n rule: bitlen.induct)
  case (1 n)
  show ?case
  proof (cases "n < 2 ^ 32")
    case True
    with 1 have IH: "n div 2 > 0 \<Longrightarrow> 0 < bitlen (n div 2) \<and>
        2 ^ (bitlen (n div 2) - 1) \<le> n div 2 \<and> n div 2 < 2 ^ bitlen (n div 2)" by simp
    have eq: "bitlen n = Suc (bitlen (n div 2))" using True 1 by (subst bitlen.simps) simp
    show ?thesis
    proof (cases "n div 2 > 0")
      case True
      with IH have b: "0 < bitlen (n div 2)" "2 ^ (bitlen (n div 2) - 1) \<le> n div 2"
        "n div 2 < 2 ^ bitlen (n div 2)" by auto
      then obtain l where l: "bitlen (n div 2) = Suc l" by (cases "bitlen (n div 2)") auto
      have "2 * 2 ^ l \<le> n" "n < 4 * 2 ^ l"
        using b int_div_lower [of 2 n] int_div_upper [of 2 n] by (simp_all add: l)
      then show ?thesis by (simp add: eq l)
    next
      case False
      with 1 have "n = 1" by linarith
      then show ?thesis by simp
    qed
  next
    case False
    with 1 have IH: "0 < bitlen (n div 2 ^ 32) \<and> 2 ^ (bitlen (n div 2 ^ 32) - 1) \<le> n div 2 ^ 32 \<and>
        n div 2 ^ 32 < 2 ^ bitlen (n div 2 ^ 32)" by (simp add: pos_imp_zdiv_pos_iff)
    have eq: "bitlen n = 32 + bitlen (n div 2 ^ 32)" using False 1 by (subst bitlen.simps) simp
    from IH obtain l where l: "bitlen (n div 4294967296) = Suc l"
      by (cases "bitlen (n div 4294967296)") auto
    have "2 ^ l \<le> n div 4294967296" "n div 4294967296 < 2 * 2 ^ l" using IH l by simp_all
    with int_div_lower [of 4294967296 n] int_div_upper [of 4294967296 n]
    have "4294967296 * 2 ^ l \<le> n" "n < 8589934592 * 2 ^ l" by simp_all
    then show ?thesis by (simp add: eq l power_add)
  qed
qed

lemma bitlen_le_iff: "0 \<le> n \<Longrightarrow> bitlen n \<le> k \<longleftrightarrow> n < 2 ^ k"
proof (cases "n = 0")
  case False
  assume "0 \<le> n"
  with False have b: "0 < bitlen n" "2 ^ (bitlen n - 1) \<le> n" "n < 2 ^ bitlen n"
    using bitlen_bounds by auto
  show ?thesis
  proof
    assume "bitlen n \<le> k"
    then have "(2::int) ^ bitlen n \<le> 2 ^ k" by simp
    with b show "n < 2 ^ k" by linarith
  next
    assume "n < 2 ^ k"
    with b have "(2::int) ^ (bitlen n - 1) < 2 ^ k" by linarith
    then have "bitlen n - 1 < k" by simp
    with b show "bitlen n \<le> k" by linarith
  qed
qed simp

lemma bitlen_mono: "0 \<le> a \<Longrightarrow> a \<le> b \<Longrightarrow> bitlen a \<le> bitlen b"
  using bitlen_le_iff [of a "bitlen b"] bitlen_le_iff [of b "bitlen b"] by simp

lemma bitlen_eqI: "2 ^ k \<le> n \<Longrightarrow> n < 2 ^ Suc k \<Longrightarrow> bitlen n = Suc k"
proof -
  assume a: "2 ^ k \<le> n" "n < 2 ^ Suc k"
  moreover have "(0::int) < 2 ^ k" by simp
  ultimately have "0 \<le> n" by linarith
  with a bitlen_le_iff [of n "Suc k"] bitlen_le_iff [of n k] show ?thesis by simp
qed

lemma round_half_even_mono:
  assumes "0 < d" "0 < d'" "n * d' \<le> n' * d"
  shows "round_half_even n d \<le> round_half_even n' d'"
proof -
  define q r q' r' where defs: "q = n div d" "r = n mod d" "q' = n' div d'" "r' = n' mod d'"
  have n: "n = q * d + r" "0 \<le> r" "r < d" and n': "n' = q' * d' + r'" "0 \<le> r'" "r' < d'"
    using assms by (simp_all add: defs)
  from assms(3) have le: "q * (d * d') + r * d' \<le> q' * (d * d') + r' * d"
    by (simp add: n n' algebra_simps)
  have pos: "0 < d * d'" using assms by simp
  have "r' * d < d' * d" using n' assms by simp
  moreover have "0 \<le> r * d'" using n assms by simp
  ultimately have "q * (d * d') < (q' + 1) * (d * d')" using le by (simp add: algebra_simps)
  then have qq: "q \<le> q'" using pos by (simp add: mult_less_cancel_right)
  show ?thesis
  proof (cases "q = q'")
    case False
    with qq have "q + 1 \<le> q'" by simp
    then show ?thesis by (auto simp: round_half_even_def Let_def simp flip: defs)
  next
    case True
    with le have rr: "r * d' \<le> r' * d" by simp
    have a: "d' < 2 * r'" if "d < 2 * r"
    proof -
      have "d * d' < 2 * r * d'" using that assms by simp
      with rr have "d' * d < 2 * r' * d" by (simp add: algebra_simps)
      then show ?thesis using assms by (simp add: mult_less_cancel_right)
    qed
    have b: "d' \<le> 2 * r'" if "d \<le> 2 * r"
    proof -
      have "d * d' \<le> 2 * r * d'" using that assms by simp
      with rr have "d' * d \<le> 2 * r' * d" by (simp add: algebra_simps)
      then show ?thesis using assms by (simp add: mult_le_cancel_right)
    qed
    show ?thesis using a b True
      by (auto simp: round_half_even_def Let_def simp flip: defs)
  qed
qed

lemma round_half_even_exact [simp]: "0 < d \<Longrightarrow> round_half_even (k * d) d = k"
  by (simp add: round_half_even_def)

lemma round_half_even_ge: "0 < d \<Longrightarrow> k * d \<le> n \<Longrightarrow> k \<le> round_half_even n d"
  using round_half_even_mono [of d d "k * d" n] by (simp add: mult_right_mono)

lemma round_half_even_le: "0 < d \<Longrightarrow> n \<le> k * d \<Longrightarrow> round_half_even n d \<le> k"
  using round_half_even_mono [of d d n "k * d"] by (simp add: mult_right_mono)

text \<open>The scaled mantissa lies between its smallest normal value and the next power of two.\<close>

lemma round_mag_scaled:
  assumes "0 < d" "0 \<le> n" "s = bitlen (n div d) - Suc m"
  shows "round_half_even n (d * 2 ^ s) \<le> 2 * 2 ^ m" and "0 < s \<Longrightarrow> 2 ^ m \<le> round_half_even n (d * 2 ^ s)"
proof -
  have q0: "0 \<le> n div d" using assms by (simp add: pos_imp_zdiv_nonneg_iff)
  have "bitlen (n div d) \<le> Suc m + s" using assms by simp
  then have "n div d < 2 ^ (Suc m + s)" using bitlen_le_iff [OF q0] by simp
  then have "n div d + 1 \<le> 2 ^ (Suc m + s)" by simp
  moreover have "n < (n div d + 1) * d" by (rule int_div_upper [OF assms(1)])
  ultimately have "n \<le> 2 ^ (Suc m + s) * d"
    using assms(1) by (meson less_imp_le mult_right_mono order.trans)
  then show "round_half_even n (d * 2 ^ s) \<le> 2 * 2 ^ m"
    using assms(1) by (intro round_half_even_le) (simp_all add: power_add algebra_simps)
  assume "0 < s"
  with assms have "\<not> bitlen (n div d) \<le> m + s" by simp
  then have "2 ^ (m + s) \<le> n div d" using bitlen_le_iff [OF q0] by simp
  then have "2 ^ (m + s) * d \<le> n div d * d" using assms(1) by simp
  also have "n div d * d \<le> n" by (rule int_div_lower [OF assms(1)])
  finally show "2 ^ m \<le> round_half_even n (d * 2 ^ s)"
    using assms(1) by (intro round_half_even_ge) (simp_all add: power_add algebra_simps)
qed

lemma round_mag_nonneg: "0 < d \<Longrightarrow> 0 \<le> n \<Longrightarrow> 0 \<le> round_mag m n d"
  unfolding round_mag_def Let_def
  by (intro add_nonneg_nonneg round_half_even_ge) simp_all

lemma round_mag_mono:
  assumes "0 < d" "0 < d'" "0 \<le> n" "n * d' \<le> n' * d"
  shows "round_mag m n d \<le> round_mag m n' d'"
proof -
  define s s' where s: "s = bitlen (n div d) - Suc m" "s' = bitlen (n' div d') - Suc m"
  have n'0: "0 \<le> n'" using assms
    by (metis mult_nonneg_nonneg less_imp_le order_trans zero_le_mult_iff not_less)
  have "n div d * (d * d') \<le> n * d'"
    using mult_right_mono [OF int_div_lower [OF assms(1), of n], of d'] assms(2) by (simp add: mult.assoc)
  also note assms(4)
  also have "n' * d < (n' div d' + 1) * (d * d')"
  proof -
    have "n' * d < (n' div d' + 1) * d' * d"
      using mult_strict_right_mono [OF int_div_upper [OF assms(2), of n'] assms(1)] .
    then show ?thesis by (simp only: mult.assoc mult.commute [of d d'])
  qed
  finally have "n div d < n' div d' + 1"
    using assms by (simp add: mult_less_cancel_right)
  then have "n div d \<le> n' div d'" by simp
  then have "bitlen (n div d) \<le> bitlen (n' div d')"
    using assms by (intro bitlen_mono) (simp_all add: pos_imp_zdiv_nonneg_iff)
  then have ss: "s \<le> s'" using s by simp
  show ?thesis
  proof (cases "s = s'")
    case True
    have "round_half_even n (d * 2 ^ s) \<le> round_half_even n' (d' * 2 ^ s)"
      using assms by (intro round_half_even_mono) (simp_all add: mult.assoc [symmetric])
    with True s show ?thesis by (simp add: round_mag_def Let_def)
  next
    case False
    with ss have lt: "s < s'" by simp
    have "round_half_even n (d * 2 ^ s) \<le> 2 * 2 ^ m"
      by (rule round_mag_scaled(1) [OF assms(1,3) s(1)])
    moreover have "2 ^ m \<le> round_half_even n' (d' * 2 ^ s')"
      using lt by (intro round_mag_scaled(2) [OF assms(2) n'0 s(2)]) simp
    moreover have "(int s + 1) * 2 ^ m \<le> int s' * 2 ^ m"
      using lt by (intro mult_right_mono) simp_all
    ultimately show ?thesis
      by (simp add: round_mag_def Let_def s [symmetric] algebra_simps)
  qed
qed

lemma mag_val_nonneg [simp]: "0 \<le> k \<Longrightarrow> 0 \<le> mag_val m k"
  by (simp add: mag_val_def Let_def)

lemma round_mag_exact:
  assumes "0 < d" "0 \<le> k"
  shows "round_mag m (mag_val m k * d) d = k"
proof -
  define e f where ef: "e = k div 2 ^ m" "f = k mod 2 ^ m"
  have k: "k = e * 2 ^ m + f" unfolding ef by (rule div_mult_mod_eq [symmetric])
  have f: "0 \<le> f" "f < 2 ^ m" and e: "0 \<le> e"
    using assms by (simp_all add: ef pos_imp_zdiv_nonneg_iff)
  show ?thesis
  proof (cases "e = 0")
    case True
    then have "mag_val m k = f" using k f by (simp add: mag_val_def ef [symmetric])
    moreover have "bitlen f \<le> Suc m" using f by (simp add: bitlen_le_iff)
    ultimately show ?thesis using True assms k by (simp add: round_mag_def)
  next
    case False
    define p where p: "p = nat (e - 1)"
    have v: "mag_val m k = (2 ^ m + f) * 2 ^ p"
      using False by (simp add: mag_val_def Let_def ef [symmetric] p)
    have "bitlen (mag_val m k) = Suc (m + p)"
      using f by (intro bitlen_eqI) (simp_all add: v power_add mult_right_mono)
    then have "bitlen (mag_val m k * d div d) - Suc m = p" using assms by simp
    moreover have "round_half_even (mag_val m k * d) (d * 2 ^ p) = 2 ^ m + f"
      using assms round_half_even_exact [of "d * 2 ^ p" "2 ^ m + f"] by (simp add: v algebra_simps)
    moreover have "int p = e - 1" using e False by (simp add: p)
    ultimately show ?thesis
      using k by (simp only: round_mag_def Let_def) (simp add: algebra_simps)
  qed
qed

lemma mag_val_less: "0 \<le> k \<Longrightarrow> 0 \<le> k' \<Longrightarrow> mag_val m k < mag_val m k' \<longleftrightarrow> k < k'"
proof -
  have *: "k \<le> k'" if "0 \<le> k" "0 \<le> k'" "mag_val m k \<le> mag_val m k'" for k k'
    using round_mag_mono [of 1 1 "mag_val m k" "mag_val m k'" m]
      round_mag_exact [of 1 k m] round_mag_exact [of 1 k' m] that by simp
  assume "0 \<le> k" "0 \<le> k'"
  with * [of k k'] * [of k' k] have "mag_val m k \<le> mag_val m k' \<Longrightarrow> k \<le> k'" "mag_val m k' \<le> mag_val m k \<Longrightarrow> k' \<le> k"
    by blast+
  then show ?thesis by (cases k k' rule: linorder_cases) (auto simp: not_less [symmetric])
qed

lemma mag_val_le: "0 \<le> k \<Longrightarrow> 0 \<le> k' \<Longrightarrow> mag_val m k \<le> mag_val m k' \<longleftrightarrow> k \<le> k'"
  using mag_val_less [of k' k m] by (auto simp: not_less [symmetric])

lemma mag_val_small: "0 \<le> k \<Longrightarrow> k < 2 ^ Suc m \<Longrightarrow> mag_val m k = k"
proof -
  assume k: "0 \<le> k" "k < 2 ^ Suc m"
  show ?thesis
  proof (cases "k < 2 ^ m")
    case True
    with k show ?thesis by (simp add: mag_val_def)
  next
    case False
    define f where "f = k - 2 ^ m"
    with False k have "k = f + 2 ^ m" "0 \<le> f" "f < 2 ^ m" by simp_all
    moreover from this have "(f + 2 ^ m) div 2 ^ m = 1" "(f + 2 ^ m) mod 2 ^ m = f"
      by (simp_all add: div_add_self2 div_pos_pos_trivial mod_pos_pos_trivial)
    ultimately show ?thesis by (simp add: mag_val_def)
  qed
qed

lemma mag_val_normal: "0 \<le> f \<Longrightarrow> f < 2 ^ m \<Longrightarrow> mag_val m (int (Suc p) * 2 ^ m + f) = (2 ^ m + f) * 2 ^ p"
proof -
  assume f: "0 \<le> f" "f < 2 ^ m"
  then have "(int (Suc p) * 2 ^ m + f) div 2 ^ m = int (Suc p)" "(int (Suc p) * 2 ^ m + f) mod 2 ^ m = f"
    by (simp_all only: div_mult_self3 mod_mult_self3 power_not_zero zero_neq_numeral not_False_eq_True
        div_pos_pos_trivial mod_pos_pos_trivial simp_thms add_0_right)
  then show ?thesis by (simp add: mag_val_def Let_def)
qed

lemma mag_val_0 [simp]: "mag_val m 0 = 0"
  by (simp add: mag_val_def)

text \<open>Signed magnitudes: the value of a key, and the key an exact value rounds to.\<close>

definition kval :: "nat \<Rightarrow> int \<Rightarrow> int" where
  "kval m k = sgn k * mag_val m \<bar>k\<bar>"

definition skey :: "nat \<Rightarrow> int \<Rightarrow> int \<Rightarrow> int" where
  "skey m z d = sgn z * round_mag m \<bar>z\<bar> d"

lemma round_mag_0 [simp]: "0 < d \<Longrightarrow> round_mag m 0 d = 0"
  using round_mag_exact [of d 0 m] by simp

lemma kval_0 [simp]: "kval m 0 = 0"
  by (simp add: kval_def)

lemma kval_minus [simp]: "kval m (- k) = - kval m k"
  by (simp add: kval_def sgn_minus)

lemma sgn_mult_cases: "(P::int \<Rightarrow> bool) (sgn z * a) \<longleftrightarrow> (z > 0 \<longrightarrow> P a) \<and> (z = 0 \<longrightarrow> P 0) \<and> (z < 0 \<longrightarrow> P (- a))"
  by (cases z "0::int" rule: linorder_cases) auto

lemma kval_mono: "k \<le> k' \<Longrightarrow> kval m k \<le> kval m k'"
proof -
  assume "k \<le> k'"
  moreover have "0 < k \<Longrightarrow> 0 \<le> mag_val m k" "0 < k' \<Longrightarrow> 0 \<le> mag_val m k'" "k < 0 \<Longrightarrow> 0 \<le> mag_val m (- k)"
    by simp_all
  ultimately show ?thesis
    using mag_val_le [of k k' m] mag_val_le [of "- k'" "- k" m]
    by (cases k "0::int" rule: linorder_cases; cases k' "0::int" rule: linorder_cases)
      (auto simp: kval_def intro: order_trans [of _ 0])
qed

lemma skey_exact: "0 < d \<Longrightarrow> skey m (kval m k * d) d = k"
proof -
  assume d: "0 < d"
  show ?thesis
  proof (cases "k = 0")
    case False
    then have "0 < mag_val m \<bar>k\<bar>" using mag_val_less [of 0 "\<bar>k\<bar>" m] by simp
    then have "0 < mag_val m \<bar>k\<bar> * d" using d by simp
    with False show ?thesis using round_mag_exact [of d "\<bar>k\<bar>" m] d
      by (cases "0 < k") (simp_all add: skey_def kval_def)
  qed (simp add: skey_def)
qed

lemma skey_mono:
  assumes "0 < d" "0 < d'" "z * d' \<le> z' * d"
  shows "skey m z d \<le> skey m z' d'"
proof (cases "0 \<le> z")
  case True
  with assms have "0 \<le> z' * d" using order_trans [of 0 "z * d'" "z' * d"] by simp
  with assms have "0 \<le> z'" by (simp add: zero_le_mult_iff)
  with True round_mag_mono [OF assms(1,2) True assms(3)]
    round_mag_nonneg [OF assms(2), of z' m]
  show ?thesis using assms(1,2)
    by (auto simp: skey_def sgn_if)
next
  case False
  then have z: "skey m z d = - round_mag m (- z) d" by (simp add: skey_def)
  show ?thesis
  proof (cases "0 \<le> z'")
    case True
    then show ?thesis
      using z round_mag_nonneg [OF assms(1), of "- z" m] round_mag_nonneg [OF assms(2), of z' m] False
      by (simp add: skey_def sgn_if)
  next
    case nz: False
    then have "round_mag m (- z') d' \<le> round_mag m (- z) d"
      using round_mag_mono [OF assms(2,1), of "- z'" "- z" m] assms(3) by simp
    with nz z show ?thesis by (simp add: skey_def)
  qed
qed

text \<open>Clipping at the infinities, and the two-sided bound that clients use.\<close>

definition clip :: "int \<Rightarrow> int \<Rightarrow> int" where
  "clip b k = max (- b) (min b k)"

lemma clip_skey_between:
  assumes "0 < d" "kval m lo * d \<le> z" "z \<le> kval m hi * d" "- b \<le> lo" "hi \<le> b"
  shows "lo \<le> clip b (skey m z d)" "clip b (skey m z d) \<le> hi"
proof -
  have "skey m (kval m lo * d) d \<le> skey m z d" "skey m z d \<le> skey m (kval m hi * d) d"
    using assms by (auto intro: skey_mono)
  then have "lo \<le> skey m z d" "skey m z d \<le> hi"
    using skey_exact [OF assms(1)] by simp_all
  with assms show "lo \<le> clip b (skey m z d)" "clip b (skey m z d) \<le> hi"
    by (auto simp: clip_def)
qed

section \<open>The two formats of the flight code\<close>

text \<open>
  The interface of the floating-point type: its width is one of the two that implement
  \<^verbatim>\<open>FlightFloat\<close>. The lemmas of this locale hold for every such type; they are
  interpreted for \<^verbatim>\<open>f32\<close> and \<^verbatim>\<open>f64\<close> at the end of the theory.
\<close>

locale flight_float =
  fixes R :: "'r::len itself"
  assumes width: "LENGTH('r) = 32 \<or> LENGTH('r) = 64"
begin

lemma fmt_params:
  "LENGTH('r) = Suc (ebits TYPE('r) + mbits TYPE('r))" "2 \<le> ebits TYPE('r)" "2 \<le> mbits TYPE('r)"
  "ulp_exp TYPE('r) + 2 \<le> 2 ^ ebits TYPE('r) - 1" "mbits TYPE('r) < ulp_exp TYPE('r)"
  "32 \<le> ulp_exp TYPE('r)"
  using width by (auto simp: ebits_def mbits_def ulp_exp_def)

lemma inf_mag_pos: "0 < inf_mag TYPE('r)"
proof -
  have "(2::int) ^ 1 \<le> 2 ^ ebits TYPE('r)" using fmt_params(2) by (intro power_increasing) auto
  then show ?thesis by (simp add: inf_mag_def)
qed

lemma inf_mag_less: "inf_mag TYPE('r) + 2 ^ (mbits TYPE('r) - 1) < 2 ^ (LENGTH('r) - 1)"
proof -
  have "(2::int) ^ (mbits TYPE('r) - 1) < 2 ^ mbits TYPE('r)"
    using fmt_params(3) by (intro power_strict_increasing) auto
  then show ?thesis by (simp add: inf_mag_def fmt_params(1) power_add left_diff_distrib)
qed

lemma inf_mag_less': "k \<le> inf_mag TYPE('r) \<Longrightarrow> k < 2 ^ (LENGTH('r) - 1)"
  using inf_mag_less zero_less_power [of "2::int" "mbits TYPE('r) - 1"] by linarith

lemma mk_flt_fields:
  assumes "0 \<le> k" "k < 2 ^ (LENGTH('r) - 1)"
  shows "mag (mk_flt s k :: 'r flt) = k" "sgn_bit (mk_flt s k :: 'r flt) = s"
proof -
  have two: "(2::int) ^ LENGTH('r) = 2 * 2 ^ (LENGTH('r) - 1)" by (simp add: fmt_params(1))
  define w :: int where "w = k + (if s then 2 ^ (LENGTH('r) - 1) else 0)"
  have w: "0 \<le> w" "w < 2 ^ LENGTH('r)" using assms by (auto simp: w_def two)
  then have u: "uint (to_bits (mk_flt s k :: 'r flt)) = w"
    by (simp add: mk_flt_def w_def [symmetric] uint_word_of_int mod_pos_pos_trivial)
  show "mag (mk_flt s k :: 'r flt) = k"
    using assms by (auto simp: mag_def u w_def mod_pos_pos_trivial)
  have "sgn_bit (mk_flt s k :: 'r flt) = bit w (LENGTH('r) - 1)"
    unfolding sgn_bit_def u [symmetric] by (simp add: bit_uint_iff)
  also have "\<dots> = s"
    using assms by (auto simp: w_def bit_iff_odd div_add_self2 div_pos_pos_trivial)
  finally show "sgn_bit (mk_flt s k :: 'r flt) = s" .
qed

lemma mag_bounds: "0 \<le> mag (x :: 'r flt)" "mag (x :: 'r flt) < 2 ^ (LENGTH('r) - 1)"
  by (simp_all add: mag_def)

lemma round_flt_key:
  assumes "0 \<le> n" "0 < d"
  shows "mag (round_flt s n d :: 'r flt) = min (round_mag (mbits TYPE('r)) n d) (inf_mag TYPE('r))"
    and "sgn_bit (round_flt s n d :: 'r flt) = s"
    and "\<not> is_nan (round_flt s n d :: 'r flt)"
proof -
  have "0 \<le> min (round_mag (mbits TYPE('r)) n d) (inf_mag TYPE('r))"
    using round_mag_nonneg [OF assms(2,1)] inf_mag_pos by simp
  note fields = mk_flt_fields [OF this inf_mag_less']
  show "mag (round_flt s n d :: 'r flt) = min (round_mag (mbits TYPE('r)) n d) (inf_mag TYPE('r))"
    and "sgn_bit (round_flt s n d :: 'r flt) = s"
    unfolding round_flt_def by (simp_all add: fields)
  then show "\<not> is_nan (round_flt s n d :: 'r flt)" by (simp add: is_nan_def)
qed

lemma round_flt_signed:
  assumes "0 < d" "z \<noteq> 0 \<Longrightarrow> s = (z < 0)"
  shows "flt_key (round_flt s \<bar>z\<bar> d :: 'r flt) =
    clip (inf_mag TYPE('r)) (skey (mbits TYPE('r)) z d)"
  using assms round_flt_key [of "\<bar>z\<bar>" d s] inf_mag_pos
    round_mag_nonneg [OF assms(1), of "\<bar>z\<bar>" "mbits TYPE('r)"]
  by (cases z "0::int" rule: linorder_cases)
    (auto simp: flt_key_def skey_def clip_def min_def max_def)

lemma fval_key: "fval (x :: 'r flt) = kval (mbits TYPE('r)) (flt_key x)"
  using mag_bounds(1) [of x] by (cases "mag x = 0") (auto simp: fval_def flt_key_def kval_def)

lemma is_finite_key: "is_finite (x :: 'r flt) \<longleftrightarrow> \<bar>flt_key x\<bar> < inf_mag TYPE('r)"
  using mag_bounds(1) [of x] by (simp add: is_finite_def flt_key_def)

lemma finite_not: "is_finite (x :: 'r flt) \<Longrightarrow> \<not> is_nan x \<and> \<not> is_infinite x"
  by (simp add: is_finite_def is_nan_def is_infinite_def)

lemma is_nan_key: "is_nan (x :: 'r flt) \<longleftrightarrow> inf_mag TYPE('r) < \<bar>flt_key x\<bar>"
  using mag_bounds(1) [of x] by (simp add: is_nan_def flt_key_def)

lemma not_nan_nan: "is_nan (flt_nan :: 'r flt)"
  using inf_mag_less inf_mag_pos
  by (simp add: flt_nan_def is_nan_def mk_flt_fields)

lemma zero_key [simp]: "flt_key (0 :: 'r flt) = 0" "\<not> is_nan (0 :: 'r flt)" "is_finite (0 :: 'r flt)"
  using inf_mag_pos by (simp_all add: zero_flt_def flt_key_def mk_flt_fields is_nan_def is_finite_def)

subsection \<open>Arithmetic on finite values\<close>

lemma add_finite:
  assumes "is_finite (x :: 'r flt)" "is_finite (y :: 'r flt)"
  shows "\<not> is_nan (x + y)"
    and "flt_key (x + y) = clip (inf_mag TYPE('r)) (skey (mbits TYPE('r)) (fval x + fval y) 1)"
proof -
  have eq: "x + y = (if fval x + fval y = 0 then mk_flt (sgn_bit x \<and> sgn_bit y) 0
      else round_flt (fval x + fval y < 0) \<bar>fval x + fval y\<bar> 1)"
    using finite_not [OF assms(1)] finite_not [OF assms(2)]
    by (simp add: plus_flt_def flt_add_def Let_def)
  show "\<not> is_nan (x + y)"
    using round_flt_key(3) [of "\<bar>fval x + fval y\<bar>" 1] inf_mag_pos
    by (simp add: eq is_nan_def mk_flt_fields)
  show "flt_key (x + y) = clip (inf_mag TYPE('r)) (skey (mbits TYPE('r)) (fval x + fval y) 1)"
    using round_flt_signed [of 1 "fval x + fval y" "fval x + fval y < 0"] inf_mag_pos
    by (auto simp: eq flt_key_def mk_flt_fields skey_def clip_def)
qed

lemma fval_sgn:
  "fval (x :: 'r flt) < 0 \<Longrightarrow> sgn_bit x" "0 < fval (x :: 'r flt) \<Longrightarrow> \<not> sgn_bit x"
  "fval (x :: 'r flt) = 0 \<longleftrightarrow> mag x = 0"
  using mag_bounds(1) [of x] mag_val_less [of 0 "mag x" "mbits TYPE('r)"]
    mag_val_nonneg [OF mag_bounds(1), of "mbits TYPE('r)" x]
  by (auto simp: fval_def split: if_splits)

lemma sgn_mul:
  "fval (x :: 'r flt) * fval (y :: 'r flt) \<noteq> 0 \<Longrightarrow> (sgn_bit x \<noteq> sgn_bit y) = (fval x * fval y < 0)"
proof -
  assume "fval x * fval y \<noteq> 0"
  then have "fval x < 0 \<or> 0 < fval x" "fval y < 0 \<or> 0 < fval y" by auto
  then show ?thesis
    using fval_sgn(1,2) [of x] fval_sgn(1,2) [of y] by (auto simp: mult_less_0_iff)
qed

lemma mul_finite:
  assumes "is_finite (x :: 'r flt)" "is_finite (y :: 'r flt)"
  shows "\<not> is_nan (x * y)"
    and "flt_key (x * y) =
      clip (inf_mag TYPE('r)) (skey (mbits TYPE('r)) (fval x * fval y) (2 ^ ulp_exp TYPE('r)))"
proof -
  have eq: "x * y = round_flt (sgn_bit x \<noteq> sgn_bit y) \<bar>fval x * fval y\<bar> (2 ^ ulp_exp TYPE('r))"
    using finite_not [OF assms(1)] finite_not [OF assms(2)]
    by (simp add: times_flt_def flt_mul_def Let_def)
  show "\<not> is_nan (x * y)" unfolding eq by (rule round_flt_key(3)) simp_all
  show "flt_key (x * y) =
      clip (inf_mag TYPE('r)) (skey (mbits TYPE('r)) (fval x * fval y) (2 ^ ulp_exp TYPE('r)))"
    unfolding eq by (rule round_flt_signed, simp, erule sgn_mul)
qed

lemma div_finite:
  assumes "is_finite (x :: 'r flt)" "is_finite (y :: 'r flt)" "fval y \<noteq> 0"
  shows "\<not> is_nan (x / y)"
    and "flt_key (x / y) = clip (inf_mag TYPE('r))
      (skey (mbits TYPE('r)) (sgn (fval y) * fval x * 2 ^ ulp_exp TYPE('r)) \<bar>fval y\<bar>)"
proof -
  have eq: "x / y = round_flt (sgn_bit x \<noteq> sgn_bit y)
      \<bar>sgn (fval y) * fval x * 2 ^ ulp_exp TYPE('r)\<bar> \<bar>fval y\<bar>"
    using finite_not [OF assms(1)] finite_not [OF assms(2)] assms(3)
    by (auto simp: divide_flt_def flt_div_def Let_def fval_sgn(3) abs_mult)
  have s: "sgn (fval y) * fval x * 2 ^ ulp_exp TYPE('r) \<noteq> 0 \<Longrightarrow>
      (sgn_bit x \<noteq> sgn_bit y) = (sgn (fval y) * fval x * 2 ^ ulp_exp TYPE('r) < 0)"
    using sgn_mul [of x y] assms(3)
    by (cases "0 < fval y") (auto simp: mult_less_0_iff zero_less_mult_iff)
  show "\<not> is_nan (x / y)" unfolding eq using assms(3) by (intro round_flt_key(3)) simp_all
  show "flt_key (x / y) = clip (inf_mag TYPE('r))
      (skey (mbits TYPE('r)) (sgn (fval y) * fval x * 2 ^ ulp_exp TYPE('r)) \<bar>fval y\<bar>)"
    unfolding eq using assms(3) by (intro round_flt_signed s) simp_all
qed

subsection \<open>Representable values and literals\<close>

definition representable :: "int \<Rightarrow> bool" where
  "representable z \<longleftrightarrow> (\<exists>k. 0 \<le> k \<and> k < inf_mag TYPE('r) \<and> mag_val (mbits TYPE('r)) k = z)"

lemma representable_scaled:
  "0 \<le> c \<Longrightarrow> c < 2 ^ Suc (mbits TYPE('r)) \<Longrightarrow> p + 3 \<le> 2 ^ ebits TYPE('r) \<Longrightarrow> representable (c * 2 ^ p)"
proof (induction p arbitrary: c)
  case 0
  have "2 * (2::int) ^ mbits TYPE('r) < inf_mag TYPE('r)"
  proof -
    have "(2::int) ^ 2 \<le> 2 ^ ebits TYPE('r)" using fmt_params(2) by (intro power_increasing) auto
    then have "2 * (2::int) ^ mbits TYPE('r) < (2 ^ ebits TYPE('r) - 1) * 2 ^ mbits TYPE('r)"
      by (intro mult_strict_right_mono) simp_all
    then show ?thesis by (simp add: inf_mag_def)
  qed
  with 0 mag_val_small [of c "mbits TYPE('r)"] show ?case
    by (auto simp: representable_def intro!: exI [of _ c])
next
  case (Suc p)
  show ?case
  proof (cases "c < 2 ^ mbits TYPE('r)")
    case True
    with Suc.prems Suc.IH [of "2 * c"] show ?thesis by (simp add: ac_simps)
  next
    case False
    define f where "f = c - 2 ^ mbits TYPE('r)"
    with False Suc.prems have f: "c = 2 ^ mbits TYPE('r) + f" "0 \<le> f" "f < 2 ^ mbits TYPE('r)"
      by simp_all
    have "int p + 4 \<le> 2 ^ ebits TYPE('r)"
      using Suc.prems(3) by (metis add_Suc add_Suc_right numeral_eq_Suc of_nat_add of_nat_le_iff
          of_nat_numeral of_nat_power pred_numeral_simps(2) semiring_norm(26-28) Suc_eq_plus1)
    then have "(int p + 3) * 2 ^ mbits TYPE('r) \<le> inf_mag TYPE('r)"
      unfolding inf_mag_def by (intro mult_right_mono) simp_all
    then have "int (Suc (Suc p)) * 2 ^ mbits TYPE('r) + f < inf_mag TYPE('r)"
      using f by (simp add: algebra_simps)
    with f mag_val_normal [of f "mbits TYPE('r)" "Suc p"] show ?thesis
      by (auto simp: representable_def intro!: exI [of _ "int (Suc (Suc p)) * 2 ^ mbits TYPE('r) + f"])
  qed
qed

lemma flt_lit_exact:
  assumes "representable v" "\<bar>n\<bar> * 2 ^ ulp_exp TYPE('r) = v * d" "0 < d"
  shows "fval (flt_lit n d :: 'r flt) = sgn n * v" "is_finite (flt_lit n d :: 'r flt)"
proof -
  from assms(1) obtain k where k: "0 \<le> k" "k < inf_mag TYPE('r)" "mag_val (mbits TYPE('r)) k = v"
    by (auto simp: representable_def)
  then have "round_mag (mbits TYPE('r)) (v * d) d = k" using round_mag_exact [of d k] assms by auto
  with k assms(2) have eq: "(flt_lit n d :: 'r flt) = mk_flt (n < 0) k"
    by (simp add: flt_lit_def round_flt_def)
  have fields: "mag (mk_flt (n < 0) k :: 'r flt) = k" "sgn_bit (mk_flt (n < 0) k :: 'r flt) = (n < 0)"
    using k inf_mag_less' [of k] by (simp_all add: mk_flt_fields)
  have "v = 0" if "n = 0" using that assms by simp
  with k fields show "fval (flt_lit n d :: 'r flt) = sgn n * v" "is_finite (flt_lit n d :: 'r flt)"
    by (auto simp: eq fval_def sgn_if is_finite_def)
qed

text \<open>A literal \<open>n / 2^j\<close> whose numerator fits the mantissa is represented exactly.\<close>

lemma flt_lit_pow2:
  assumes "\<bar>n\<bar> < 2 ^ Suc (mbits TYPE('r))" "j \<le> ulp_exp TYPE('r)"
  shows "fval (flt_lit n (2 ^ j) :: 'r flt) = n * 2 ^ (ulp_exp TYPE('r) - j)"
    and "is_finite (flt_lit n (2 ^ j) :: 'r flt)"
proof -
  have r: "representable (\<bar>n\<bar> * 2 ^ (ulp_exp TYPE('r) - j))"
    using assms(1) fmt_params(4) by (intro representable_scaled) simp_all
  have "\<bar>n\<bar> * 2 ^ ulp_exp TYPE('r) = \<bar>n\<bar> * 2 ^ (ulp_exp TYPE('r) - j) * 2 ^ j"
    using assms(2) by (simp add: mult.assoc flip: power_add)
  from flt_lit_exact [OF r this]
  show "fval (flt_lit n (2 ^ j) :: 'r flt) = n * 2 ^ (ulp_exp TYPE('r) - j)"
    and "is_finite (flt_lit n (2 ^ j) :: 'r flt)"
    by (simp_all add: sgn_mult_abs flip: mult.assoc)
qed

lemmas flt_lit_int = flt_lit_pow2 [where j = 0, simplified]
lemmas flt_lit_half = flt_lit_pow2 [where j = 1, simplified]

lemma mantissa_room: "65536 < (2::int) ^ Suc (mbits TYPE('r))" "1 \<le> ulp_exp TYPE('r)"
  using width by (auto simp: mbits_def ulp_exp_def)

lemma one_fval [simp]: "fval (1 :: 'r flt) = 2 ^ ulp_exp TYPE('r)" "is_finite (1 :: 'r flt)"
  using flt_lit_int [of 1] mantissa_room by (simp_all add: one_flt_def)

lemma zero_fval [simp]: "fval (0 :: 'r flt) = 0"
  by (simp add: fval_key)

subsection \<open>Order\<close>

lemma le_finite_iff: "is_finite (x :: 'r flt) \<Longrightarrow> is_finite (y :: 'r flt) \<Longrightarrow> x \<le> y \<longleftrightarrow> fval x \<le> fval y"
proof -
  assume a: "is_finite x" "is_finite y"
  have "kval (mbits TYPE('r)) (flt_key x) \<le> kval (mbits TYPE('r)) (flt_key y) \<longleftrightarrow> flt_key x \<le> flt_key y"
    using kval_mono skey_exact [of 1 "mbits TYPE('r)"]
    by (metis mult.right_neutral order_antisym linorder_le_cases zero_less_one)
  with a finite_not show ?thesis by (auto simp: less_eq_flt_def fval_key)
qed

lemma less_le: "(x :: 'r flt) < y \<Longrightarrow> x \<le> y"
  by (simp add: less_flt_def less_eq_flt_def)

lemma flt_le_trans: "(x :: 'r flt) \<le> y \<Longrightarrow> y \<le> z \<Longrightarrow> x \<le> z"
  by (simp add: less_eq_flt_def)

lemma flt_le_refl: "\<not> is_nan (x :: 'r flt) \<Longrightarrow> x \<le> x"
  by (simp add: less_eq_flt_def)

lemma not_less_le: "\<not> is_nan (x :: 'r flt) \<Longrightarrow> \<not> is_nan (y :: 'r flt) \<Longrightarrow> \<not> x < y \<longleftrightarrow> y \<le> x"
  by (auto simp: less_flt_def less_eq_flt_def)

lemma between_finite: "is_finite (lo :: 'r flt) \<Longrightarrow> is_finite hi \<Longrightarrow> lo \<le> x \<Longrightarrow> x \<le> hi \<Longrightarrow> is_finite x"
  unfolding less_eq_flt_def is_finite_key by linarith

lemma flt_clamp_between:
  "\<not> is_nan (x :: 'r flt) \<Longrightarrow> lo \<le> hi \<Longrightarrow> lo \<le> flt_clamp x lo hi \<and> flt_clamp x lo hi \<le> hi"
  by (auto simp: flt_clamp_def less_flt_def less_eq_flt_def)

lemma flt_clamp_id: "lo \<le> (x :: 'r flt) \<Longrightarrow> x \<le> hi \<Longrightarrow> flt_clamp x lo hi = x"
  by (auto simp: flt_clamp_def less_flt_def less_eq_flt_def)

text \<open>
  The two bounds that carry the range theorems: a sum or product of finite values lies
  between two finite values as soon as the exact sum or product does.
\<close>

lemma add_between:
  assumes "is_finite (x :: 'r flt)" "is_finite (y :: 'r flt)" "is_finite (lo :: 'r flt)" "is_finite (hi :: 'r flt)"
    and "fval lo \<le> fval x + fval y" "fval x + fval y \<le> fval hi"
  shows "lo \<le> x + y \<and> x + y \<le> hi"
  using clip_skey_between [of 1 "mbits TYPE('r)" "flt_key lo" "fval x + fval y" "flt_key hi" "inf_mag TYPE('r)"]
    add_finite [OF assms(1,2)] assms(3-) finite_not [OF assms(3)] finite_not [OF assms(4)]
  by (auto simp: less_eq_flt_def fval_key is_finite_key)

lemma mul_between:
  assumes "is_finite (x :: 'r flt)" "is_finite (y :: 'r flt)" "is_finite (lo :: 'r flt)" "is_finite (hi :: 'r flt)"
    and "fval lo * 2 ^ ulp_exp TYPE('r) \<le> fval x * fval y" "fval x * fval y \<le> fval hi * 2 ^ ulp_exp TYPE('r)"
  shows "lo \<le> x * y \<and> x * y \<le> hi"
  using clip_skey_between [of "2 ^ ulp_exp TYPE('r)" "mbits TYPE('r)" "flt_key lo" "fval x * fval y"
      "flt_key hi" "inf_mag TYPE('r)"]
    mul_finite [OF assms(1,2)] assms(3-) finite_not [OF assms(3)] finite_not [OF assms(4)]
  by (auto simp: less_eq_flt_def fval_key is_finite_key)

lemma div_between:
  assumes "is_finite (x :: 'r flt)" "is_finite (y :: 'r flt)" "is_finite (lo :: 'r flt)" "is_finite (hi :: 'r flt)"
    and "0 < fval y"
    and "fval lo * fval y \<le> fval x * 2 ^ ulp_exp TYPE('r)" "fval x * 2 ^ ulp_exp TYPE('r) \<le> fval hi * fval y"
  shows "lo \<le> x / y \<and> x / y \<le> hi"
  using clip_skey_between [of "\<bar>fval y\<bar>" "mbits TYPE('r)" "flt_key lo"
      "sgn (fval y) * fval x * 2 ^ ulp_exp TYPE('r)" "flt_key hi" "inf_mag TYPE('r)"]
    div_finite [OF assms(1,2)] assms(3-) finite_not [OF assms(3)] finite_not [OF assms(4)]
  by (auto simp: less_eq_flt_def fval_key is_finite_key)

end

interpretation f32: flight_float "TYPE(32)"
  by unfold_locales simp

interpretation f64: flight_float "TYPE(64)"
  by unfold_locales simp

section \<open>The trait FlightFloat\<close>

text \<open>
  \<^verbatim>\<open>FlightFloat\<close> of \<^verbatim>\<open>math.rs\<close> for both widths: within one format the conversions are the
  identity, between the formats they are Rust's \<^verbatim>\<open>as\<close> casts.
\<close>

definition from_f32 :: "f32 \<Rightarrow> 'r::len flt" where
  "from_f32 x = (if LENGTH('r) = 32 then Flt (ucast (to_bits x)) else flt_conv x)"

definition from_f64 :: "f64 \<Rightarrow> 'r::len flt" where
  "from_f64 x = (if LENGTH('r) = 64 then Flt (ucast (to_bits x)) else flt_conv x)"

definition to_f32_lossy :: "'r::len flt \<Rightarrow> f32" where
  "to_f32_lossy x = (if LENGTH('r) = 32 then Flt (ucast (to_bits x)) else flt_conv x)"

definition to_f64_lossy :: "'r::len flt \<Rightarrow> f64" where
  "to_f64_lossy x = (if LENGTH('r) = 64 then Flt (ucast (to_bits x)) else flt_conv x)"

definition from_flight_float :: "'t::len flt \<Rightarrow> 'r::len flt" where
  "from_flight_float x = (if LENGTH('r) = 32 then Flt (ucast (to_bits (to_f32_lossy x)))
     else Flt (ucast (to_bits (to_f64_lossy x))))"

definition from_usize :: "nat \<Rightarrow> 'r::len flt" where
  "from_usize n = flt_of_int (int n)"

definition from_u64 :: "u64 \<Rightarrow> 'r::len flt" where
  "from_u64 w = flt_of_int (uint w)"

definition from_i32 :: "i32 \<Rightarrow> 'r::len flt" where
  "from_i32 w = flt_of_int (sint w)"

definition is_finite_value :: "'r::len flt \<Rightarrow> bool" where
  "is_finite_value x = is_finite x"

definition flt_infinity :: "'r::len flt" where
  "flt_infinity = flt_inf False"

definition flt_pi :: "'r::len flt" where
  "flt_pi = from_f64 (flt_lit 314159265358979323846264338327950288 100000000000000000000000000000000000)"

text \<open>An \<^verbatim>\<open>f32\<close> literal converted with \<^verbatim>\<open>R::from_f32\<close>.\<close>

abbreviation lit32 :: "int \<Rightarrow> int \<Rightarrow> 'r::len flt" where
  "lit32 n d \<equiv> from_f32 (flt_lit n d)"

context flight_float
begin

lemma flt_eqI: "mag (x :: 'r flt) = mag y \<Longrightarrow> sgn_bit x = sgn_bit y \<Longrightarrow> x = y"
proof -
  assume m: "mag x = mag y" and s: "sgn_bit x = sgn_bit y"
  have "to_bits x = to_bits y"
  proof (rule bit_word_eqI)
    fix n assume n: "n < LENGTH('r)"
    have b: "bit (mag z) n = bit (to_bits z) n" if "n < LENGTH('r) - 1" for z :: "'r flt"
      using that by (auto simp: mag_def bit_uint_iff bit_take_bit_iff simp flip: take_bit_eq_mod)
    show "bit (to_bits x) n = bit (to_bits y) n"
    proof (cases "n < LENGTH('r) - 1")
      case True
      with m b show ?thesis by metis
    next
      case False
      with n have "n = LENGTH('r) - 1" by simp
      with s show ?thesis by (simp add: sgn_bit_def)
    qed
  qed
  then show "x = y" by (metis Flt_to_bits)
qed

lemma flt_eqI_fval:
  assumes "fval (x :: 'r flt) = fval y" "sgn_bit x = sgn_bit y"
  shows "x = y"
proof (rule flt_eqI [OF _ assms(2)])
  have "mag_val (mbits TYPE('r)) (mag x) = mag_val (mbits TYPE('r)) (mag y)"
    using assms by (simp add: fval_def split: if_splits)
  then show "mag x = mag y"
    using mag_val_less [OF mag_bounds(1) mag_bounds(1), of "mbits TYPE('r)"]
    by (metis linorder_less_linear order_less_irrefl)
qed

lemma sgn_flt_lit: "0 < d \<Longrightarrow> sgn_bit (flt_lit n d :: 'r flt) = (n < 0)"
  by (simp add: flt_lit_def round_flt_key)

lemma flt_lit_0 [simp]: "(flt_lit 0 1 :: 'r flt) = 0"
proof (rule flt_eqI_fval)
  show "fval (flt_lit 0 1 :: 'r flt) = fval (0 :: 'r flt)" by (simp add: flt_lit_int)
  show "sgn_bit (flt_lit 0 1 :: 'r flt) = sgn_bit (0 :: 'r flt)"
    by (simp add: sgn_flt_lit zero_flt_def mk_flt_fields)
qed

lemma flt_lit_1: "(flt_lit 1 1 :: 'r flt) = 1"
  by (simp add: one_flt_def)

lemma conv_flt_lit:
  assumes "\<bar>n\<bar> < 2 ^ 24" "j \<le> 149"
  shows "(flt_conv (flt_lit n (2 ^ j) :: f32) :: 'r flt) = flt_lit n (2 ^ j)"
proof -
  have p32: "mbits TYPE(32) = 23" "ulp_exp TYPE(32) = 149" by (simp_all add: mbits_def ulp_exp_def ebits_def)
  have x: "fval (flt_lit n (2 ^ j) :: f32) = n * 2 ^ (149 - j)" "is_finite (flt_lit n (2 ^ j) :: f32)"
    "sgn_bit (flt_lit n (2 ^ j) :: f32) = (n < 0)"
    using f32.flt_lit_pow2 [of n j] assms by (simp_all add: p32 f32.sgn_flt_lit)
  have eq: "(flt_conv (flt_lit n (2 ^ j) :: f32) :: 'r flt) = flt_lit (n * 2 ^ (149 - j)) (2 ^ 149)"
    using x(2,3) f32.finite_not [OF x(2)]
    by (simp add: flt_conv_def flt_lit_def [of "n * 2 ^ (149 - j)"] x(1) p32 mult_less_0_iff)
  have w: "j \<le> ulp_exp TYPE('r)" "\<bar>n\<bar> < 2 ^ Suc (mbits TYPE('r))"
    using width assms by (auto simp: mbits_def ulp_exp_def ebits_def)
  let ?v = "\<bar>n\<bar> * 2 ^ (ulp_exp TYPE('r) - j)"
  have r: "representable ?v"
    using w fmt_params(4) by (intro representable_scaled) simp_all
  have e: "\<bar>n * 2 ^ (149 - j)\<bar> * 2 ^ ulp_exp TYPE('r) = ?v * 2 ^ 149"
  proof -
    have "(149 - j) + ulp_exp TYPE('r) = (ulp_exp TYPE('r) - j) + 149" using assms(2) w(1) by simp
    then have "(2::int) ^ (149 - j) * 2 ^ ulp_exp TYPE('r) = 2 ^ (ulp_exp TYPE('r) - j) * 2 ^ 149"
      by (simp only: power_add [symmetric])
    then show ?thesis by (simp add: abs_mult mult.assoc)
  qed
  show ?thesis
  proof (rule flt_eqI_fval)
    show "fval (flt_conv (flt_lit n (2 ^ j) :: f32) :: 'r flt) = fval (flt_lit n (2 ^ j) :: 'r flt)"
      using flt_lit_exact(1) [OF r e] w
      by (simp add: eq flt_lit_pow2 sgn_mult sgn_mult_abs flip: mult.assoc)
    show "sgn_bit (flt_conv (flt_lit n (2 ^ j) :: f32) :: 'r flt) = sgn_bit (flt_lit n (2 ^ j) :: 'r flt)"
      by (simp add: eq sgn_flt_lit mult_less_0_iff)
  qed
qed

lemma from_f32_lit:
  assumes "\<bar>n\<bar> < 2 ^ 24" "j \<le> 149"
  shows "(from_f32 (flt_lit n (2 ^ j)) :: 'r flt) = flt_lit n (2 ^ j)"
proof (cases "LENGTH('r) = 32")
  case True
  have "mag (Flt (ucast (to_bits z)) :: 'r flt) = mag z \<and> sgn_bit (Flt (ucast (to_bits z)) :: 'r flt) = sgn_bit z"
    for z :: f32
    by (simp add: mag_def sgn_bit_def True uint_up_ucast is_up_def source_size target_size word_size
        bit_ucast_iff)
  moreover have "mag (flt_lit n (2 ^ j) :: 'r flt) = mag (flt_lit n (2 ^ j) :: f32)"
  proof -
    have "mbits TYPE('r) = mbits TYPE(32)" "inf_mag TYPE('r) = inf_mag TYPE(32)" "ulp_exp TYPE('r) = ulp_exp TYPE(32)"
      using True by (simp_all add: mbits_def inf_mag_def ulp_exp_def ebits_def)
    then show ?thesis by (simp add: flt_lit_def round_flt_key f32.round_flt_key)
  qed
  ultimately show ?thesis
    by (intro flt_eqI) (simp_all add: from_f32_def True sgn_flt_lit f32.sgn_flt_lit)
next
  case False
  then show ?thesis by (simp add: from_f32_def conv_flt_lit [OF assms])
qed

lemma lit32_0: "(lit32 0 1 :: 'r flt) = 0"
  using from_f32_lit [of 0 0] by simp

lemma lit32_1: "(lit32 1 1 :: 'r flt) = 1"
  using from_f32_lit [of 1 0] by (simp add: flt_lit_1)

lemma from_f32_0 [simp]: "(from_f32 0 :: 'r flt) = 0"
  by (rule lit32_0 [unfolded f32.flt_lit_0])

lemma from_f32_1 [simp]: "(from_f32 1 :: 'r flt) = 1"
  by (rule lit32_1 [unfolded f32.flt_lit_1])

end

lemma from_f32_id [simp]: "(from_f32 x :: f32) = x"
  by (simp add: from_f32_def)

end
