(* ===== verification/Params.thy ===== *)
theory Params
  imports Flight_Float
begin

text \<open>
  The parameter table of \<^verbatim>\<open>params.rs\<close>. The Rust enum \<^verbatim>\<open>ParamId\<close> has one variant per
  row of \<^verbatim>\<open>declare_params!\<close> with the row's index as discriminant, so a value of
  \<open>param_id\<close> carries that index; \<open>valid_param_id\<close> says that it is a variant. The array
  \<^verbatim>\<open>[ParamValue; PARAMS_COUNT]\<close> indexed by the enum is a total function on \<open>param_id\<close>.
\<close>

section \<open>Values, identifiers and the table\<close>

datatype param_value = PFloat f32 | PInt i32 | PUint u32 | PBool bool

text \<open>\<^verbatim>\<open>PartialEq\<close> as derived: the payloads are compared, floats with the IEEE \<^verbatim>\<open>==\<close>.\<close>

fun param_value_eq :: "param_value \<Rightarrow> param_value \<Rightarrow> bool" where
  "param_value_eq (PFloat a) (PFloat b) = flt_eq a b"
| "param_value_eq (PInt a) (PInt b) = (a = b)"
| "param_value_eq (PUint a) (PUint b) = (a = b)"
| "param_value_eq (PBool a) (PBool b) = (a = b)"
| "param_value_eq _ _ = False"

datatype param_id = ParamId (param_index: nat)

record param_definition =
  def_id :: param_id
  def_name :: string
  def_default :: param_value

text \<open>The identifiers the code names, at their positions in the table.\<close>

abbreviation PARAM_BAUD_RATE :: param_id where "PARAM_BAUD_RATE \<equiv> ParamId 0"
abbreviation PARAM_SERIAL_DEVICE :: param_id where "PARAM_SERIAL_DEVICE \<equiv> ParamId 1"
abbreviation PARAM_NUM_MOTORS :: param_id where "PARAM_NUM_MOTORS \<equiv> ParamId 2"
abbreviation PARAM_MOTOR_RESISTANCE :: param_id where "PARAM_MOTOR_RESISTANCE \<equiv> ParamId 3"
abbreviation PARAM_MOTOR_KV :: param_id where "PARAM_MOTOR_KV \<equiv> ParamId 4"
abbreviation PARAM_NO_LOAD_CURRENT :: param_id where "PARAM_NO_LOAD_CURRENT \<equiv> ParamId 5"
abbreviation PARAM_PROP_DIAMETER :: param_id where "PARAM_PROP_DIAMETER \<equiv> ParamId 6"
abbreviation PARAM_PROP_CT :: param_id where "PARAM_PROP_CT \<equiv> ParamId 7"
abbreviation PARAM_PROP_CQ :: param_id where "PARAM_PROP_CQ \<equiv> ParamId 8"
abbreviation PARAM_VOLT_MAX :: param_id where "PARAM_VOLT_MAX \<equiv> ParamId 9"
abbreviation PARAM_USE_MOTOR_PARAMETERS :: param_id where "PARAM_USE_MOTOR_PARAMETERS \<equiv> ParamId 10"
abbreviation PARAM_PRIMARY_MIXER_OUTPUT_0 :: param_id where "PARAM_PRIMARY_MIXER_OUTPUT_0 \<equiv> ParamId 11"
abbreviation PARAM_PRIMARY_MIXER_OUTPUT_9 :: param_id where "PARAM_PRIMARY_MIXER_OUTPUT_9 \<equiv> ParamId 20"
abbreviation PARAM_PRIMARY_MIXER_PWM_RATE_0 :: param_id where "PARAM_PRIMARY_MIXER_PWM_RATE_0 \<equiv> ParamId 21"
abbreviation PARAM_PRIMARY_MIXER_PWM_RATE_9 :: param_id where "PARAM_PRIMARY_MIXER_PWM_RATE_9 \<equiv> ParamId 30"
abbreviation PARAM_PRIMARY_MIXER_0_0 :: param_id where "PARAM_PRIMARY_MIXER_0_0 \<equiv> ParamId 31"
abbreviation PARAM_PRIMARY_MIXER_9_9 :: param_id where "PARAM_PRIMARY_MIXER_9_9 \<equiv> ParamId 130"
abbreviation PARAM_SECONDARY_MIXER_0_0 :: param_id where "PARAM_SECONDARY_MIXER_0_0 \<equiv> ParamId 131"
abbreviation PARAM_SECONDARY_MIXER_9_9 :: param_id where "PARAM_SECONDARY_MIXER_9_9 \<equiv> ParamId 230"
abbreviation PARAM_SYSTEM_ID :: param_id where "PARAM_SYSTEM_ID \<equiv> ParamId 231"
abbreviation PARAM_PID_ROLL_RATE_P :: param_id where "PARAM_PID_ROLL_RATE_P \<equiv> ParamId 232"
abbreviation PARAM_PID_ROLL_RATE_I :: param_id where "PARAM_PID_ROLL_RATE_I \<equiv> ParamId 233"
abbreviation PARAM_PID_ROLL_RATE_D :: param_id where "PARAM_PID_ROLL_RATE_D \<equiv> ParamId 234"
abbreviation PARAM_PID_PITCH_RATE_P :: param_id where "PARAM_PID_PITCH_RATE_P \<equiv> ParamId 235"
abbreviation PARAM_PID_PITCH_RATE_I :: param_id where "PARAM_PID_PITCH_RATE_I \<equiv> ParamId 236"
abbreviation PARAM_PID_PITCH_RATE_D :: param_id where "PARAM_PID_PITCH_RATE_D \<equiv> ParamId 237"
abbreviation PARAM_PID_YAW_RATE_P :: param_id where "PARAM_PID_YAW_RATE_P \<equiv> ParamId 238"
abbreviation PARAM_PID_YAW_RATE_I :: param_id where "PARAM_PID_YAW_RATE_I \<equiv> ParamId 239"
abbreviation PARAM_PID_YAW_RATE_D :: param_id where "PARAM_PID_YAW_RATE_D \<equiv> ParamId 240"
abbreviation PARAM_PID_ROLL_ANGLE_P :: param_id where "PARAM_PID_ROLL_ANGLE_P \<equiv> ParamId 241"
abbreviation PARAM_PID_ROLL_ANGLE_I :: param_id where "PARAM_PID_ROLL_ANGLE_I \<equiv> ParamId 242"
abbreviation PARAM_PID_ROLL_ANGLE_D :: param_id where "PARAM_PID_ROLL_ANGLE_D \<equiv> ParamId 243"
abbreviation PARAM_PID_PITCH_ANGLE_P :: param_id where "PARAM_PID_PITCH_ANGLE_P \<equiv> ParamId 244"
abbreviation PARAM_PID_PITCH_ANGLE_I :: param_id where "PARAM_PID_PITCH_ANGLE_I \<equiv> ParamId 245"
abbreviation PARAM_PID_PITCH_ANGLE_D :: param_id where "PARAM_PID_PITCH_ANGLE_D \<equiv> ParamId 246"
abbreviation PARAM_X_EQ_TORQUE :: param_id where "PARAM_X_EQ_TORQUE \<equiv> ParamId 247"
abbreviation PARAM_Y_EQ_TORQUE :: param_id where "PARAM_Y_EQ_TORQUE \<equiv> ParamId 248"
abbreviation PARAM_Z_EQ_TORQUE :: param_id where "PARAM_Z_EQ_TORQUE \<equiv> ParamId 249"
abbreviation PARAM_PID_TAU :: param_id where "PARAM_PID_TAU \<equiv> ParamId 250"
abbreviation PARAM_MOTOR_IDLE_THROTTLE :: param_id where "PARAM_MOTOR_IDLE_THROTTLE \<equiv> ParamId 251"
abbreviation PARAM_FAILSAFE_THROTTLE :: param_id where "PARAM_FAILSAFE_THROTTLE \<equiv> ParamId 252"
abbreviation PARAM_SPIN_MOTORS_WHEN_ARMED :: param_id where "PARAM_SPIN_MOTORS_WHEN_ARMED \<equiv> ParamId 253"
abbreviation PARAM_CHANNEL_OUTPUT_MASK :: param_id where "PARAM_CHANNEL_OUTPUT_MASK \<equiv> ParamId 254"
abbreviation PARAM_INIT_TIME :: param_id where "PARAM_INIT_TIME \<equiv> ParamId 255"
abbreviation PARAM_FILTER_KP_ACC :: param_id where "PARAM_FILTER_KP_ACC \<equiv> ParamId 256"
abbreviation PARAM_FILTER_KI :: param_id where "PARAM_FILTER_KI \<equiv> ParamId 257"
abbreviation PARAM_FILTER_KP_EXT :: param_id where "PARAM_FILTER_KP_EXT \<equiv> ParamId 258"
abbreviation PARAM_FILTER_ACCEL_MARGIN :: param_id where "PARAM_FILTER_ACCEL_MARGIN \<equiv> ParamId 259"
abbreviation PARAM_FILTER_USE_QUAD_INT :: param_id where "PARAM_FILTER_USE_QUAD_INT \<equiv> ParamId 260"
abbreviation PARAM_FILTER_USE_MAT_EXP :: param_id where "PARAM_FILTER_USE_MAT_EXP \<equiv> ParamId 261"
abbreviation PARAM_FILTER_USE_ACC :: param_id where "PARAM_FILTER_USE_ACC \<equiv> ParamId 262"
abbreviation PARAM_CALIBRATE_GYRO_ON_ARM :: param_id where "PARAM_CALIBRATE_GYRO_ON_ARM \<equiv> ParamId 263"
abbreviation PARAM_GYRO_XY_ALPHA :: param_id where "PARAM_GYRO_XY_ALPHA \<equiv> ParamId 264"
abbreviation PARAM_GYRO_Z_ALPHA :: param_id where "PARAM_GYRO_Z_ALPHA \<equiv> ParamId 265"
abbreviation PARAM_ACC_ALPHA :: param_id where "PARAM_ACC_ALPHA \<equiv> ParamId 266"
abbreviation PARAM_GYRO_X_BIAS :: param_id where "PARAM_GYRO_X_BIAS \<equiv> ParamId 267"
abbreviation PARAM_GYRO_Y_BIAS :: param_id where "PARAM_GYRO_Y_BIAS \<equiv> ParamId 268"
abbreviation PARAM_GYRO_Z_BIAS :: param_id where "PARAM_GYRO_Z_BIAS \<equiv> ParamId 269"
abbreviation PARAM_ACC_X_BIAS :: param_id where "PARAM_ACC_X_BIAS \<equiv> ParamId 270"
abbreviation PARAM_ACC_Y_BIAS :: param_id where "PARAM_ACC_Y_BIAS \<equiv> ParamId 271"
abbreviation PARAM_ACC_Z_BIAS :: param_id where "PARAM_ACC_Z_BIAS \<equiv> ParamId 272"
abbreviation PARAM_ACC_X_TEMP_COMP :: param_id where "PARAM_ACC_X_TEMP_COMP \<equiv> ParamId 273"
abbreviation PARAM_ACC_Y_TEMP_COMP :: param_id where "PARAM_ACC_Y_TEMP_COMP \<equiv> ParamId 274"
abbreviation PARAM_ACC_Z_TEMP_COMP :: param_id where "PARAM_ACC_Z_TEMP_COMP \<equiv> ParamId 275"
abbreviation PARAM_MAG_A00_COMP :: param_id where "PARAM_MAG_A00_COMP \<equiv> ParamId 276"
abbreviation PARAM_MAG_A01_COMP :: param_id where "PARAM_MAG_A01_COMP \<equiv> ParamId 277"
abbreviation PARAM_MAG_A02_COMP :: param_id where "PARAM_MAG_A02_COMP \<equiv> ParamId 278"
abbreviation PARAM_MAG_A10_COMP :: param_id where "PARAM_MAG_A10_COMP \<equiv> ParamId 279"
abbreviation PARAM_MAG_A11_COMP :: param_id where "PARAM_MAG_A11_COMP \<equiv> ParamId 280"
abbreviation PARAM_MAG_A12_COMP :: param_id where "PARAM_MAG_A12_COMP \<equiv> ParamId 281"
abbreviation PARAM_MAG_A20_COMP :: param_id where "PARAM_MAG_A20_COMP \<equiv> ParamId 282"
abbreviation PARAM_MAG_A21_COMP :: param_id where "PARAM_MAG_A21_COMP \<equiv> ParamId 283"
abbreviation PARAM_MAG_A22_COMP :: param_id where "PARAM_MAG_A22_COMP \<equiv> ParamId 284"
abbreviation PARAM_MAG_X_BIAS :: param_id where "PARAM_MAG_X_BIAS \<equiv> ParamId 285"
abbreviation PARAM_MAG_Y_BIAS :: param_id where "PARAM_MAG_Y_BIAS \<equiv> ParamId 286"
abbreviation PARAM_MAG_Z_BIAS :: param_id where "PARAM_MAG_Z_BIAS \<equiv> ParamId 287"
abbreviation PARAM_BARO_BIAS :: param_id where "PARAM_BARO_BIAS \<equiv> ParamId 288"
abbreviation PARAM_GROUND_LEVEL :: param_id where "PARAM_GROUND_LEVEL \<equiv> ParamId 289"
abbreviation PARAM_DIFF_PRESS_BIAS :: param_id where "PARAM_DIFF_PRESS_BIAS \<equiv> ParamId 290"
abbreviation PARAM_RC_TYPE :: param_id where "PARAM_RC_TYPE \<equiv> ParamId 291"
abbreviation PARAM_RC_X_CHANNEL :: param_id where "PARAM_RC_X_CHANNEL \<equiv> ParamId 292"
abbreviation PARAM_RC_Y_CHANNEL :: param_id where "PARAM_RC_Y_CHANNEL \<equiv> ParamId 293"
abbreviation PARAM_RC_Z_CHANNEL :: param_id where "PARAM_RC_Z_CHANNEL \<equiv> ParamId 294"
abbreviation PARAM_RC_F_CHANNEL :: param_id where "PARAM_RC_F_CHANNEL \<equiv> ParamId 295"
abbreviation PARAM_RC_F_AXIS :: param_id where "PARAM_RC_F_AXIS \<equiv> ParamId 296"
abbreviation PARAM_RC_ATTITUDE_OVERRIDE_CHANNEL :: param_id where "PARAM_RC_ATTITUDE_OVERRIDE_CHANNEL \<equiv> ParamId 297"
abbreviation PARAM_RC_THROTTLE_OVERRIDE_CHANNEL :: param_id where "PARAM_RC_THROTTLE_OVERRIDE_CHANNEL \<equiv> ParamId 298"
abbreviation PARAM_RC_ATT_CONTROL_TYPE_CHANNEL :: param_id where "PARAM_RC_ATT_CONTROL_TYPE_CHANNEL \<equiv> ParamId 299"
abbreviation PARAM_RC_ARM_CHANNEL :: param_id where "PARAM_RC_ARM_CHANNEL \<equiv> ParamId 300"
abbreviation PARAM_RC_NUM_CHANNELS :: param_id where "PARAM_RC_NUM_CHANNELS \<equiv> ParamId 301"
abbreviation PARAM_RC_SWITCH_5_DIRECTION :: param_id where "PARAM_RC_SWITCH_5_DIRECTION \<equiv> ParamId 302"
abbreviation PARAM_RC_SWITCH_6_DIRECTION :: param_id where "PARAM_RC_SWITCH_6_DIRECTION \<equiv> ParamId 303"
abbreviation PARAM_RC_SWITCH_7_DIRECTION :: param_id where "PARAM_RC_SWITCH_7_DIRECTION \<equiv> ParamId 304"
abbreviation PARAM_RC_SWITCH_8_DIRECTION :: param_id where "PARAM_RC_SWITCH_8_DIRECTION \<equiv> ParamId 305"
abbreviation PARAM_RC_OVERRIDE_DEVIATION :: param_id where "PARAM_RC_OVERRIDE_DEVIATION \<equiv> ParamId 306"
abbreviation PARAM_OVERRIDE_LAG_TIME :: param_id where "PARAM_OVERRIDE_LAG_TIME \<equiv> ParamId 307"
abbreviation PARAM_RC_OVERRIDE_TAKE_MIN_THROTTLE :: param_id where "PARAM_RC_OVERRIDE_TAKE_MIN_THROTTLE \<equiv> ParamId 308"
abbreviation PARAM_RC_MAX_THROTTLE :: param_id where "PARAM_RC_MAX_THROTTLE \<equiv> ParamId 309"
abbreviation PARAM_RC_ATTITUDE_MODE :: param_id where "PARAM_RC_ATTITUDE_MODE \<equiv> ParamId 310"
abbreviation PARAM_ALLOW_UNHEALTHY_ESTIMATOR :: param_id where "PARAM_ALLOW_UNHEALTHY_ESTIMATOR \<equiv> ParamId 311"
abbreviation PARAM_EST_ANGLE_LOCKOUT :: param_id where "PARAM_EST_ANGLE_LOCKOUT \<equiv> ParamId 312"
abbreviation PARAM_RC_MAX_ROLL :: param_id where "PARAM_RC_MAX_ROLL \<equiv> ParamId 313"
abbreviation PARAM_RC_MAX_PITCH :: param_id where "PARAM_RC_MAX_PITCH \<equiv> ParamId 314"
abbreviation PARAM_RC_MAX_ROLLRATE :: param_id where "PARAM_RC_MAX_ROLLRATE \<equiv> ParamId 315"
abbreviation PARAM_RC_MAX_PITCHRATE :: param_id where "PARAM_RC_MAX_PITCHRATE \<equiv> ParamId 316"
abbreviation PARAM_RC_MAX_YAWRATE :: param_id where "PARAM_RC_MAX_YAWRATE \<equiv> ParamId 317"
abbreviation PARAM_PRIMARY_MIXER :: param_id where "PARAM_PRIMARY_MIXER \<equiv> ParamId 318"
abbreviation PARAM_SECONDARY_MIXER :: param_id where "PARAM_SECONDARY_MIXER \<equiv> ParamId 319"
abbreviation PARAM_FIXED_WING :: param_id where "PARAM_FIXED_WING \<equiv> ParamId 320"
abbreviation PARAM_ELEVATOR_REVERSE :: param_id where "PARAM_ELEVATOR_REVERSE \<equiv> ParamId 321"
abbreviation PARAM_AILERON_REVERSE :: param_id where "PARAM_AILERON_REVERSE \<equiv> ParamId 322"
abbreviation PARAM_RUDDER_REVERSE :: param_id where "PARAM_RUDDER_REVERSE \<equiv> ParamId 323"
abbreviation PARAM_IMU_ROLL :: param_id where "PARAM_IMU_ROLL \<equiv> ParamId 324"
abbreviation PARAM_IMU_PITCH :: param_id where "PARAM_IMU_PITCH \<equiv> ParamId 325"
abbreviation PARAM_IMU_YAW :: param_id where "PARAM_IMU_YAW \<equiv> ParamId 326"
abbreviation PARAM_MAG_ROLL :: param_id where "PARAM_MAG_ROLL \<equiv> ParamId 327"
abbreviation PARAM_MAG_PITCH :: param_id where "PARAM_MAG_PITCH \<equiv> ParamId 328"
abbreviation PARAM_MAG_YAW :: param_id where "PARAM_MAG_YAW \<equiv> ParamId 329"
abbreviation PARAM_ARM_THRESHOLD :: param_id where "PARAM_ARM_THRESHOLD \<equiv> ParamId 330"
abbreviation PARAM_BATTERY_VOLTAGE_MULTIPLIER :: param_id where "PARAM_BATTERY_VOLTAGE_MULTIPLIER \<equiv> ParamId 331"
abbreviation PARAM_BATTERY_CURRENT_MULTIPLIER :: param_id where "PARAM_BATTERY_CURRENT_MULTIPLIER \<equiv> ParamId 332"
abbreviation PARAM_BATTERY_VOLTAGE_ALPHA :: param_id where "PARAM_BATTERY_VOLTAGE_ALPHA \<equiv> ParamId 333"
abbreviation PARAM_BATTERY_CURRENT_ALPHA :: param_id where "PARAM_BATTERY_CURRENT_ALPHA \<equiv> ParamId 334"
abbreviation PARAM_OFFBOARD_TIMEOUT :: param_id where "PARAM_OFFBOARD_TIMEOUT \<equiv> ParamId 335"
abbreviation PARAM_RC_OUTPUT_KILL_CHANNEL :: param_id where "PARAM_RC_OUTPUT_KILL_CHANNEL \<equiv> ParamId 336"
abbreviation PARAM_TELEM_HEARTBEAT_HZ :: param_id where "PARAM_TELEM_HEARTBEAT_HZ \<equiv> ParamId 337"
abbreviation PARAM_TELEM_STATUS_HZ :: param_id where "PARAM_TELEM_STATUS_HZ \<equiv> ParamId 338"
abbreviation PARAM_TELEM_IMU_HZ :: param_id where "PARAM_TELEM_IMU_HZ \<equiv> ParamId 339"
abbreviation PARAM_TELEM_ATTITUDE_HZ :: param_id where "PARAM_TELEM_ATTITUDE_HZ \<equiv> ParamId 340"
abbreviation PARAM_TELEM_OUTPUT_RAW_HZ :: param_id where "PARAM_TELEM_OUTPUT_RAW_HZ \<equiv> ParamId 341"
abbreviation PARAM_TELEM_DIFF_PRESSURE_HZ :: param_id where "PARAM_TELEM_DIFF_PRESSURE_HZ \<equiv> ParamId 342"
abbreviation PARAM_TELEM_BARO_HZ :: param_id where "PARAM_TELEM_BARO_HZ \<equiv> ParamId 343"
abbreviation PARAM_TELEM_MAG_HZ :: param_id where "PARAM_TELEM_MAG_HZ \<equiv> ParamId 344"
abbreviation PARAM_TELEM_RANGE_HZ :: param_id where "PARAM_TELEM_RANGE_HZ \<equiv> ParamId 345"
abbreviation PARAM_TELEM_BATTERY_HZ :: param_id where "PARAM_TELEM_BATTERY_HZ \<equiv> ParamId 346"
abbreviation PARAM_TELEM_GNSS_HZ :: param_id where "PARAM_TELEM_GNSS_HZ \<equiv> ParamId 347"
abbreviation PARAM_TELEM_RC_HZ :: param_id where "PARAM_TELEM_RC_HZ \<equiv> ParamId 348"

text \<open>The rows of the table, in declaration order: name and default value.\<close>

definition param_rows_setup :: "(string \<times> param_value) list" where
  "param_rows_setup = [
     (''BAUD_RATE'', PInt 921600),
     (''SERIAL_DEVICE'', PInt 0),
     (''NUM_MOTORS'', PInt 4),
     (''MOTOR_RESISTANCE'', PFloat (flt_lit 42 1000)),
     (''MOTOR_KV'', PFloat (flt_lit 1706 100000)),
     (''NO_LOAD_CURRENT'', PFloat (flt_lit 15 10)),
     (''PROP_DIAMETER'', PFloat (flt_lit 381 1000)),
     (''PROP_CT'', PFloat (flt_lit 75 1000)),
     (''PROP_CQ'', PFloat (flt_lit 45 10000)),
     (''BATT_VOLT_MAX'', PFloat (flt_lit 25 1)),
     (''USE_MOTOR_PARAM'', PInt 0),
     (''PRI_MIXER_OUT_0'', PInt 0),
     (''PRI_MIXER_OUT_1'', PInt 0),
     (''PRI_MIXER_OUT_2'', PInt 0),
     (''PRI_MIXER_OUT_3'', PInt 0),
     (''PRI_MIXER_OUT_4'', PInt 0),
     (''PRI_MIXER_OUT_5'', PInt 0),
     (''PRI_MIXER_OUT_6'', PInt 0),
     (''PRI_MIXER_OUT_7'', PInt 0),
     (''PRI_MIXER_OUT_8'', PInt 0),
     (''PRI_MIXER_OUT_9'', PInt 0),
     (''PRI_MIXER_PWM_0'', PFloat 0),
     (''PRI_MIXER_PWM_1'', PFloat 0),
     (''PRI_MIXER_PWM_2'', PFloat 0),
     (''PRI_MIXER_PWM_3'', PFloat 0),
     (''PRI_MIXER_PWM_4'', PFloat 0),
     (''PRI_MIXER_PWM_5'', PFloat 0),
     (''PRI_MIXER_PWM_6'', PFloat 0),
     (''PRI_MIXER_PWM_7'', PFloat 0),
     (''PRI_MIXER_PWM_8'', PFloat 0),
     (''PRI_MIXER_PWM_9'', PFloat 0)]"

definition param_rows_primary_mixer :: "(string \<times> param_value) list" where
  "param_rows_primary_mixer = [
     (''PRI_MIXER_0_0'', PFloat 0),
     (''PRI_MIXER_1_0'', PFloat 0),
     (''PRI_MIXER_2_0'', PFloat 0),
     (''PRI_MIXER_3_0'', PFloat 0),
     (''PRI_MIXER_4_0'', PFloat 0),
     (''PRI_MIXER_5_0'', PFloat 0),
     (''PRI_MIXER_6_0'', PFloat 0),
     (''PRI_MIXER_7_0'', PFloat 0),
     (''PRI_MIXER_8_0'', PFloat 0),
     (''PRI_MIXER_9_0'', PFloat 0),
     (''PRI_MIXER_0_1'', PFloat 0),
     (''PRI_MIXER_1_1'', PFloat 0),
     (''PRI_MIXER_2_1'', PFloat 0),
     (''PRI_MIXER_3_1'', PFloat 0),
     (''PRI_MIXER_4_1'', PFloat 0),
     (''PRI_MIXER_5_1'', PFloat 0),
     (''PRI_MIXER_6_1'', PFloat 0),
     (''PRI_MIXER_7_1'', PFloat 0),
     (''PRI_MIXER_8_1'', PFloat 0),
     (''PRI_MIXER_9_1'', PFloat 0),
     (''PRI_MIXER_0_2'', PFloat 0),
     (''PRI_MIXER_1_2'', PFloat 0),
     (''PRI_MIXER_2_2'', PFloat 0),
     (''PRI_MIXER_3_2'', PFloat 0),
     (''PRI_MIXER_4_2'', PFloat 0),
     (''PRI_MIXER_5_2'', PFloat 0),
     (''PRI_MIXER_6_2'', PFloat 0),
     (''PRI_MIXER_7_2'', PFloat 0),
     (''PRI_MIXER_8_2'', PFloat 0),
     (''PRI_MIXER_9_2'', PFloat 0),
     (''PRI_MIXER_0_3'', PFloat 0),
     (''PRI_MIXER_1_3'', PFloat 0),
     (''PRI_MIXER_2_3'', PFloat 0),
     (''PRI_MIXER_3_3'', PFloat 0),
     (''PRI_MIXER_4_3'', PFloat 0),
     (''PRI_MIXER_5_3'', PFloat 0),
     (''PRI_MIXER_6_3'', PFloat 0),
     (''PRI_MIXER_7_3'', PFloat 0),
     (''PRI_MIXER_8_3'', PFloat 0),
     (''PRI_MIXER_9_3'', PFloat 0),
     (''PRI_MIXER_0_4'', PFloat 0),
     (''PRI_MIXER_1_4'', PFloat 0),
     (''PRI_MIXER_2_4'', PFloat 0),
     (''PRI_MIXER_3_4'', PFloat 0),
     (''PRI_MIXER_4_4'', PFloat 0),
     (''PRI_MIXER_5_4'', PFloat 0),
     (''PRI_MIXER_6_4'', PFloat 0),
     (''PRI_MIXER_7_4'', PFloat 0),
     (''PRI_MIXER_8_4'', PFloat 0),
     (''PRI_MIXER_9_4'', PFloat 0),
     (''PRI_MIXER_0_5'', PFloat 0),
     (''PRI_MIXER_1_5'', PFloat 0),
     (''PRI_MIXER_2_5'', PFloat 0),
     (''PRI_MIXER_3_5'', PFloat 0),
     (''PRI_MIXER_4_5'', PFloat 0),
     (''PRI_MIXER_5_5'', PFloat 0),
     (''PRI_MIXER_6_5'', PFloat 0),
     (''PRI_MIXER_7_5'', PFloat 0),
     (''PRI_MIXER_8_5'', PFloat 0),
     (''PRI_MIXER_9_5'', PFloat 0),
     (''PRI_MIXER_0_6'', PFloat 0),
     (''PRI_MIXER_1_6'', PFloat 0),
     (''PRI_MIXER_2_6'', PFloat 0),
     (''PRI_MIXER_3_6'', PFloat 0),
     (''PRI_MIXER_4_6'', PFloat 0),
     (''PRI_MIXER_5_6'', PFloat 0),
     (''PRI_MIXER_6_6'', PFloat 0),
     (''PRI_MIXER_7_6'', PFloat 0),
     (''PRI_MIXER_8_6'', PFloat 0),
     (''PRI_MIXER_9_6'', PFloat 0),
     (''PRI_MIXER_0_7'', PFloat 0),
     (''PRI_MIXER_1_7'', PFloat 0),
     (''PRI_MIXER_2_7'', PFloat 0),
     (''PRI_MIXER_3_7'', PFloat 0),
     (''PRI_MIXER_4_7'', PFloat 0),
     (''PRI_MIXER_5_7'', PFloat 0),
     (''PRI_MIXER_6_7'', PFloat 0),
     (''PRI_MIXER_7_7'', PFloat 0),
     (''PRI_MIXER_8_7'', PFloat 0),
     (''PRI_MIXER_9_7'', PFloat 0),
     (''PRI_MIXER_0_8'', PFloat 0),
     (''PRI_MIXER_1_8'', PFloat 0),
     (''PRI_MIXER_2_8'', PFloat 0),
     (''PRI_MIXER_3_8'', PFloat 0),
     (''PRI_MIXER_4_8'', PFloat 0),
     (''PRI_MIXER_5_8'', PFloat 0),
     (''PRI_MIXER_6_8'', PFloat 0),
     (''PRI_MIXER_7_8'', PFloat 0),
     (''PRI_MIXER_8_8'', PFloat 0),
     (''PRI_MIXER_9_8'', PFloat 0),
     (''PRI_MIXER_0_9'', PFloat 0),
     (''PRI_MIXER_1_9'', PFloat 0),
     (''PRI_MIXER_2_9'', PFloat 0),
     (''PRI_MIXER_3_9'', PFloat 0),
     (''PRI_MIXER_4_9'', PFloat 0),
     (''PRI_MIXER_5_9'', PFloat 0),
     (''PRI_MIXER_6_9'', PFloat 0),
     (''PRI_MIXER_7_9'', PFloat 0),
     (''PRI_MIXER_8_9'', PFloat 0),
     (''PRI_MIXER_9_9'', PFloat 0)]"

definition param_rows_secondary_mixer :: "(string \<times> param_value) list" where
  "param_rows_secondary_mixer = [
     (''SEC_MIXER_0_0'', PFloat 0),
     (''SEC_MIXER_1_0'', PFloat 0),
     (''SEC_MIXER_2_0'', PFloat 0),
     (''SEC_MIXER_3_0'', PFloat 0),
     (''SEC_MIXER_4_0'', PFloat 0),
     (''SEC_MIXER_5_0'', PFloat 0),
     (''SEC_MIXER_6_0'', PFloat 0),
     (''SEC_MIXER_7_0'', PFloat 0),
     (''SEC_MIXER_8_0'', PFloat 0),
     (''SEC_MIXER_9_0'', PFloat 0),
     (''SEC_MIXER_0_1'', PFloat 0),
     (''SEC_MIXER_1_1'', PFloat 0),
     (''SEC_MIXER_2_1'', PFloat 0),
     (''SEC_MIXER_3_1'', PFloat 0),
     (''SEC_MIXER_4_1'', PFloat 0),
     (''SEC_MIXER_5_1'', PFloat 0),
     (''SEC_MIXER_6_1'', PFloat 0),
     (''SEC_MIXER_7_1'', PFloat 0),
     (''SEC_MIXER_8_1'', PFloat 0),
     (''SEC_MIXER_9_1'', PFloat 0),
     (''SEC_MIXER_0_2'', PFloat 0),
     (''SEC_MIXER_1_2'', PFloat 0),
     (''SEC_MIXER_2_2'', PFloat 0),
     (''SEC_MIXER_3_2'', PFloat 0),
     (''SEC_MIXER_4_2'', PFloat 0),
     (''SEC_MIXER_5_2'', PFloat 0),
     (''SEC_MIXER_6_2'', PFloat 0),
     (''SEC_MIXER_7_2'', PFloat 0),
     (''SEC_MIXER_8_2'', PFloat 0),
     (''SEC_MIXER_9_2'', PFloat 0),
     (''SEC_MIXER_0_3'', PFloat 0),
     (''SEC_MIXER_1_3'', PFloat 0),
     (''SEC_MIXER_2_3'', PFloat 0),
     (''SEC_MIXER_3_3'', PFloat 0),
     (''SEC_MIXER_4_3'', PFloat 0),
     (''SEC_MIXER_5_3'', PFloat 0),
     (''SEC_MIXER_6_3'', PFloat 0),
     (''SEC_MIXER_7_3'', PFloat 0),
     (''SEC_MIXER_8_3'', PFloat 0),
     (''SEC_MIXER_9_3'', PFloat 0),
     (''SEC_MIXER_0_4'', PFloat 0),
     (''SEC_MIXER_1_4'', PFloat 0),
     (''SEC_MIXER_2_4'', PFloat 0),
     (''SEC_MIXER_3_4'', PFloat 0),
     (''SEC_MIXER_4_4'', PFloat 0),
     (''SEC_MIXER_5_4'', PFloat 0),
     (''SEC_MIXER_6_4'', PFloat 0),
     (''SEC_MIXER_7_4'', PFloat 0),
     (''SEC_MIXER_8_4'', PFloat 0),
     (''SEC_MIXER_9_4'', PFloat 0),
     (''SEC_MIXER_0_5'', PFloat 0),
     (''SEC_MIXER_1_5'', PFloat 0),
     (''SEC_MIXER_2_5'', PFloat 0),
     (''SEC_MIXER_3_5'', PFloat 0),
     (''SEC_MIXER_4_5'', PFloat 0),
     (''SEC_MIXER_5_5'', PFloat 0),
     (''SEC_MIXER_6_5'', PFloat 0),
     (''SEC_MIXER_7_5'', PFloat 0),
     (''SEC_MIXER_8_5'', PFloat 0),
     (''SEC_MIXER_9_5'', PFloat 0),
     (''SEC_MIXER_0_6'', PFloat 0),
     (''SEC_MIXER_1_6'', PFloat 0),
     (''SEC_MIXER_2_6'', PFloat 0),
     (''SEC_MIXER_3_6'', PFloat 0),
     (''SEC_MIXER_4_6'', PFloat 0),
     (''SEC_MIXER_5_6'', PFloat 0),
     (''SEC_MIXER_6_6'', PFloat 0),
     (''SEC_MIXER_7_6'', PFloat 0),
     (''SEC_MIXER_8_6'', PFloat 0),
     (''SEC_MIXER_9_6'', PFloat 0),
     (''SEC_MIXER_0_7'', PFloat 0),
     (''SEC_MIXER_1_7'', PFloat 0),
     (''SEC_MIXER_2_7'', PFloat 0),
     (''SEC_MIXER_3_7'', PFloat 0),
     (''SEC_MIXER_4_7'', PFloat 0),
     (''SEC_MIXER_5_7'', PFloat 0),
     (''SEC_MIXER_6_7'', PFloat 0),
     (''SEC_MIXER_7_7'', PFloat 0),
     (''SEC_MIXER_8_7'', PFloat 0),
     (''SEC_MIXER_9_7'', PFloat 0),
     (''SEC_MIXER_0_8'', PFloat 0),
     (''SEC_MIXER_1_8'', PFloat 0),
     (''SEC_MIXER_2_8'', PFloat 0),
     (''SEC_MIXER_3_8'', PFloat 0),
     (''SEC_MIXER_4_8'', PFloat 0),
     (''SEC_MIXER_5_8'', PFloat 0),
     (''SEC_MIXER_6_8'', PFloat 0),
     (''SEC_MIXER_7_8'', PFloat 0),
     (''SEC_MIXER_8_8'', PFloat 0),
     (''SEC_MIXER_9_8'', PFloat 0),
     (''SEC_MIXER_0_9'', PFloat 0),
     (''SEC_MIXER_1_9'', PFloat 0),
     (''SEC_MIXER_2_9'', PFloat 0),
     (''SEC_MIXER_3_9'', PFloat 0),
     (''SEC_MIXER_4_9'', PFloat 0),
     (''SEC_MIXER_5_9'', PFloat 0),
     (''SEC_MIXER_6_9'', PFloat 0),
     (''SEC_MIXER_7_9'', PFloat 0),
     (''SEC_MIXER_8_9'', PFloat 0),
     (''SEC_MIXER_9_9'', PFloat 0)]"

definition param_rows_control :: "(string \<times> param_value) list" where
  "param_rows_control = [
     (''SYS_ID'', PInt 1),
     (''PID_ROLL_RATE_P'', PFloat (flt_lit 7 100)),
     (''PID_ROLL_RATE_I'', PFloat 0),
     (''PID_ROLL_RATE_D'', PFloat 0),
     (''PID_PITCH_RATE_P'', PFloat (flt_lit 7 100)),
     (''PID_PITCH_RATE_I'', PFloat 0),
     (''PID_PITCH_RATE_D'', PFloat 0),
     (''PID_YAW_RATE_P'', PFloat (flt_lit 25 100)),
     (''PID_YAW_RATE_I'', PFloat 0),
     (''PID_YAW_RATE_D'', PFloat 0),
     (''PID_ROLL_ANG_P'', PFloat (flt_lit 15 100)),
     (''PID_ROLL_ANG_I'', PFloat 0),
     (''PID_ROLL_ANG_D'', PFloat (flt_lit 5 100)),
     (''PID_PITCH_ANG_P'', PFloat (flt_lit 15 100)),
     (''PID_PITCH_ANG_I'', PFloat 0),
     (''PID_PITCH_ANG_D'', PFloat (flt_lit 5 100)),
     (''X_EQ_TORQUE'', PFloat 0),
     (''Y_EQ_TORQUE'', PFloat 0),
     (''Z_EQ_TORQUE'', PFloat 0),
     (''PID_TAU'', PFloat (flt_lit 5 100)),
     (''MOTOR_IDLE_THR'', PFloat (flt_lit 1 10)),
     (''FAILSAFE_THR'', PFloat (flt_lit (- 1) 1)),
     (''ARM_SPIN_MOTORS'', PInt 1),
     (''CHN_OUTPUT_MASK'', PInt 15)]"

definition param_rows_sensors :: "(string \<times> param_value) list" where
  "param_rows_sensors = [
     (''FILT_INIT_T'', PInt 3000),
     (''FILT_ACC_KP'', PFloat (flt_lit 5 10)),
     (''FILT_KI'', PFloat (flt_lit 1 100)),
     (''FILT_EXT_KP'', PFloat (flt_lit 15 10)),
     (''FILT_ACC_MARGIN'', PFloat (flt_lit 1 10)),
     (''FILT_QUAD_INT'', PInt 1),
     (''FILT_MAT_EXP'', PInt 1),
     (''FILT_USE_ACC'', PInt 1),
     (''ARM_CAL_GYRO'', PInt 0),
     (''GYRO_XY_LPF'', PFloat (flt_lit 3 10)),
     (''GYRO_Z_LPF'', PFloat (flt_lit 3 10)),
     (''ACC_LPF'', PFloat (flt_lit 5 10)),
     (''GYRO_X_BIAS'', PFloat 0),
     (''GYRO_Y_BIAS'', PFloat 0),
     (''GYRO_Z_BIAS'', PFloat 0),
     (''ACC_X_BIAS'', PFloat 0),
     (''ACC_Y_BIAS'', PFloat 0),
     (''ACC_Z_BIAS'', PFloat 0),
     (''ACC_X_TEMP_COMP'', PFloat 0),
     (''ACC_Y_TEMP_COMP'', PFloat 0),
     (''ACC_Z_TEMP_COMP'', PFloat 0),
     (''MAG_CAL_A00'', PFloat (flt_lit 1 1)),
     (''MAG_CAL_A01'', PFloat 0),
     (''MAG_CAL_A02'', PFloat 0),
     (''MAG_CAL_A10'', PFloat 0),
     (''MAG_CAL_A11'', PFloat (flt_lit 1 1)),
     (''MAG_CAL_A12'', PFloat 0),
     (''MAG_CAL_A20'', PFloat 0),
     (''MAG_CAL_A21'', PFloat 0),
     (''MAG_CAL_A22'', PFloat (flt_lit 1 1)),
     (''MAG_X_BIAS'', PFloat 0),
     (''MAG_Y_BIAS'', PFloat 0),
     (''MAG_Z_BIAS'', PFloat 0),
     (''BARO_BIAS'', PFloat 0),
     (''GROUND_LEVEL'', PFloat (flt_lit 1387 1)),
     (''DIFF_PRESS_BIAS'', PFloat 0)]"

definition param_rows_rc_vehicle :: "(string \<times> param_value) list" where
  "param_rows_rc_vehicle = [
     (''RC_TYPE'', PInt 0),
     (''RC_X_CHN'', PInt 0),
     (''RC_Y_CHN'', PInt 1),
     (''RC_Z_CHN'', PInt 3),
     (''RC_F_CHN'', PInt 2),
     (''RC_F_AXIS'', PInt 2),
     (''RC_ATT_OVRD_CHN'', PInt 4),
     (''RC_THR_OVRD_CHN'', PInt 4),
     (''RC_ATT_CTRL_CHN'', PInt (- 1)),
     (''RC_ARM_CHN'', PInt (- 1)),
     (''RC_NUM_CHN'', PInt 6),
     (''SWITCH_5_DIR'', PInt 1),
     (''SWITCH_6_DIR'', PInt 1),
     (''SWITCH_7_DIR'', PInt 1),
     (''SWITCH_8_DIR'', PInt 1),
     (''RC_OVRD_DEV'', PFloat (flt_lit 1 10)),
     (''RC_OVRD_LAG_T'', PInt 1000),
     (''TAKE_MIN_THR'', PInt 1),
     (''RC_MAX_THR'', PFloat (flt_lit 7 10)),
     (''RC_ATT_MODE'', PInt 1),
     (''BYPASS_UNH_EST'', PInt 1),
     (''EST_ANG_LOCKOUT'', PInt 0),
     (''RC_MAX_ROLL'', PFloat (flt_lit 786 1000)),
     (''RC_MAX_PITCH'', PFloat (flt_lit 786 1000)),
     (''RC_MAX_ROLLRATE'', PFloat (flt_lit 314159 100000)),
     (''RC_MAX_PITCHRATE'', PFloat (flt_lit 314159 100000)),
     (''RC_MAX_YAWRATE'', PFloat (flt_lit 1507 1000)),
     (''PRIMARY_MIXER'', PInt (- 1)),
     (''SECONDARY_MIXER'', PInt (- 1)),
     (''FIXED_WING'', PInt 0),
     (''REV_ELEVATOR'', PInt 0),
     (''REV_AILERON'', PInt 0),
     (''REV_RUDDER'', PInt 0),
     (''IMU_ROLL'', PFloat 0),
     (''IMU_PITCH'', PFloat 0),
     (''IMU_YAW'', PFloat 0),
     (''MAG_ROLL'', PFloat 0),
     (''MAG_PITCH'', PFloat 0),
     (''MAG_YAW'', PFloat 0),
     (''RC_ARM_THRESHOLD'', PFloat (flt_lit 15 100)),
     (''BATT_VOLT_MULT'', PFloat (flt_lit 1 1)),
     (''BATT_CURR_MULT'', PFloat (flt_lit 1 1)),
     (''BATT_VOLT_LPF'', PFloat (flt_lit 995 1000)),
     (''BATT_CURR_LPF'', PFloat (flt_lit 995 1000)),
     (''OFFBOARD_TIMEOUT'', PInt 100),
     (''RC_KILL_CHN'', PInt (- 1))]"

definition param_rows_telemetry :: "(string \<times> param_value) list" where
  "param_rows_telemetry = [
     (''TEL_HB_HZ'', PInt 1),
     (''TEL_STATUS_HZ'', PInt 10),
     (''TEL_IMU_HZ'', PInt 0),
     (''TEL_ATT_HZ'', PInt 0),
     (''TEL_OUT_HZ'', PInt 50),
     (''TEL_DIFF_HZ'', PInt 0),
     (''TEL_BARO_HZ'', PInt 0),
     (''TEL_MAG_HZ'', PInt 0),
     (''TEL_RANGE_HZ'', PInt 0),
     (''TEL_BATT_HZ'', PInt 0),
     (''TEL_GNSS_HZ'', PInt 0),
     (''TEL_RC_HZ'', PInt 0)]"

definition param_rows :: "(string \<times> param_value) list" where
  "param_rows = param_rows_setup @ param_rows_primary_mixer @ param_rows_secondary_mixer @
     param_rows_control @ param_rows_sensors @ param_rows_rc_vehicle @ param_rows_telemetry"

definition PARAMS_COUNT :: nat where
  "PARAMS_COUNT = 349"

definition PARAM_DEFINITIONS :: "param_definition list" where
  "PARAM_DEFINITIONS = map (\<lambda>(i, n, d). \<lparr>def_id = ParamId i, def_name = n, def_default = d\<rparr>)
     (enumerate 0 param_rows)"

definition valid_param_id :: "param_id \<Rightarrow> bool" where
  "valid_param_id pid \<longleftrightarrow> param_index pid < PARAMS_COUNT"

definition param_as_str :: "param_id \<Rightarrow> string" where
  "param_as_str pid = def_name (PARAM_DEFINITIONS ! param_index pid)"

definition param_from_index :: "nat \<Rightarrow> param_id option" where
  "param_from_index i = map_option def_id (list_get PARAM_DEFINITIONS i)"

section \<open>The parameter store\<close>

record params =
  param_values :: "param_id \<Rightarrow> param_value"

definition get_by_id :: "params \<Rightarrow> param_id \<Rightarrow> param_value" where
  "get_by_id p pid = param_values p pid"

definition set_by_id :: "params \<Rightarrow> param_id \<Rightarrow> param_value \<Rightarrow> params" where
  "set_by_id p pid v = p\<lparr>param_values := (param_values p)(pid := v)\<rparr>"

definition set_defaults :: "params \<Rightarrow> params" where
  "set_defaults p = foldl (\<lambda>q d. set_by_id q (def_id d) (def_default d)) p PARAM_DEFINITIONS"

definition params_new :: params where
  "params_new = set_defaults \<lparr>param_values = (\<lambda>_. PInt 0)\<rparr>"

definition find_param_name :: "string \<Rightarrow> param_definition option" where
  "find_param_name name = find (\<lambda>d. def_name d = name) PARAM_DEFINITIONS"

definition get_by_name :: "params \<Rightarrow> string \<Rightarrow> param_value option" where
  "get_by_name p name = map_option (\<lambda>d. get_by_id p (def_id d)) (find_param_name name)"

definition set_by_name :: "params \<Rightarrow> string \<Rightarrow> param_value \<Rightarrow> params \<times> bool" where
  "set_by_name p name v = (case find_param_name name of
     Some d \<Rightarrow> (set_by_id p (def_id d) v, True) | None \<Rightarrow> (p, False))"

text \<open>
  The three forms in which the code reads a parameter: an integer flag, and an integer or
  a float with the value it takes when the stored variant is another one.
\<close>

definition int_param_set :: "params \<Rightarrow> param_id \<Rightarrow> bool" where
  "int_param_set p pid = (case get_by_id p pid of PInt v \<Rightarrow> v \<noteq> 0 | _ \<Rightarrow> False)"

definition int_param_or :: "params \<Rightarrow> param_id \<Rightarrow> i32 \<Rightarrow> i32" where
  "int_param_or p pid d = (case get_by_id p pid of PInt v \<Rightarrow> v | _ \<Rightarrow> d)"

definition float_param_or :: "params \<Rightarrow> param_id \<Rightarrow> f32 \<Rightarrow> f32" where
  "float_param_or p pid d = (case get_by_id p pid of PFloat v \<Rightarrow> v | _ \<Rightarrow> d)"

section \<open>The interface of the store\<close>

text \<open>
  What the rest of the firmware relies on (the read and write ports of \<^verbatim>\<open>ports.rs\<close>
  expose exactly these two operations): a write is read back, and leaves every other key
  alone. The lemmas about a batch of writes are what the table defaults, the reflected
  mixer parameters and the stored image use.
\<close>

locale keyed_store =
  fixes lookup :: "'s \<Rightarrow> 'k \<Rightarrow> 'v" and store :: "'s \<Rightarrow> 'k \<Rightarrow> 'v \<Rightarrow> 's"
  assumes lookup_store_same: "lookup (store s k v) k = v"
    and lookup_store_other: "k' \<noteq> k \<Longrightarrow> lookup (store s k v) k' = lookup s k'"
begin

lemma lookup_store: "lookup (store s k v) k' = (if k' = k then v else lookup s k')"
  by (simp add: lookup_store_same lookup_store_other)

lemma lookup_batch_other:
  "k \<notin> fst ` set kvs \<Longrightarrow> lookup (foldl (\<lambda>s kv. store s (fst kv) (snd kv)) s kvs) k = lookup s k"
proof (induction kvs arbitrary: s)
  case (Cons kv kvs)
  then show ?case by (auto simp: lookup_store_other)
qed simp

lemma lookup_batch:
  "distinct (map fst kvs) \<Longrightarrow> (k, v) \<in> set kvs \<Longrightarrow>
    lookup (foldl (\<lambda>s kv. store s (fst kv) (snd kv)) s kvs) k = v"
proof (induction kvs arbitrary: s)
  case (Cons kv kvs)
  show ?case
  proof (cases "kv = (k, v)")
    case True
    with Cons.prems have "k \<notin> fst ` set kvs" by simp
    with True show ?thesis by (simp add: lookup_batch_other lookup_store_same)
  next
    case False
    with Cons show ?thesis by simp
  qed
qed simp

end

interpretation params_store: keyed_store get_by_id set_by_id
  by unfold_locales (simp_all add: get_by_id_def set_by_id_def)

lemma get_set_by_id [simp]: "get_by_id (set_by_id p pid v) pid' = (if pid' = pid then v else get_by_id p pid')"
  by (rule params_store.lookup_store)

section \<open>The table is well formed\<close>

lemma length_param_rows [simp]: "length param_rows = 349"
  by (simp add: param_rows_def param_rows_setup_def param_rows_primary_mixer_def
      param_rows_secondary_mixer_def param_rows_control_def param_rows_sensors_def
      param_rows_rc_vehicle_def param_rows_telemetry_def)

lemma length_PARAM_DEFINITIONS [simp]: "length PARAM_DEFINITIONS = 349"
  by (simp add: PARAM_DEFINITIONS_def)

lemma nth_PARAM_DEFINITIONS: "i < 349 \<Longrightarrow> PARAM_DEFINITIONS ! i =
    \<lparr>def_id = ParamId i, def_name = fst (param_rows ! i), def_default = snd (param_rows ! i)\<rparr>"
  by (simp add: PARAM_DEFINITIONS_def nth_enumerate_eq case_prod_beta)

lemma def_id_nth [simp]: "i < 349 \<Longrightarrow> def_id (PARAM_DEFINITIONS ! i) = ParamId i"
  by (simp add: nth_PARAM_DEFINITIONS)

lemma param_from_index_eq: "param_from_index i = (if i < PARAMS_COUNT then Some (ParamId i) else None)"
  by (simp add: param_from_index_def list_get_def PARAMS_COUNT_def)

text \<open>
  The names are pairwise distinct. Names are compared as numbers, which is what the
  simplifier does fastest; the two matrices are told apart from the other rows by their
  prefix and the digit behind it, and compared among themselves by their indices.
\<close>

definition name_code :: "string \<Rightarrow> int" where
  "name_code s = foldl (\<lambda>a c. a * 256 + of_char c) 1 s"

definition matrix_kind :: "string \<Rightarrow> int" where
  "matrix_kind s = (case drop 10 s of [] \<Rightarrow> 0
     | c # _ \<Rightarrow> if (of_char c :: int) \<le> 57 then name_code (take 10 s) else 0)"

lemma distinct_if_keys:
  "distinct xs \<Longrightarrow> distinct ys \<Longrightarrow> \<forall>x \<in> set xs. P x \<Longrightarrow> \<forall>y \<in> set ys. \<not> P y \<Longrightarrow> distinct (xs @ ys)"
  by auto

lemma distinct_via: "distinct (map f xs) \<Longrightarrow> distinct xs"
  by (simp add: distinct_map)

lemma names_primary: "map matrix_kind (map fst param_rows_primary_mixer) = replicate 100 1588233058287709940175455"
  by (simp add: param_rows_primary_mixer_def matrix_kind_def name_code_def numeral_eq_Suc)

lemma names_secondary: "map matrix_kind (map fst param_rows_secondary_mixer) = replicate 100 1602159917717796424077919"
  by (simp add: param_rows_secondary_mixer_def matrix_kind_def name_code_def numeral_eq_Suc)

lemma names_other: "list_all (\<lambda>k. k \<noteq> 1588233058287709940175455 \<and> k \<noteq> 1602159917717796424077919)
    (map matrix_kind (map fst (param_rows_setup @ param_rows_control @ param_rows_sensors @
      param_rows_rc_vehicle @ param_rows_telemetry)))"
  by (simp add: param_rows_setup_def param_rows_control_def param_rows_sensors_def
      param_rows_rc_vehicle_def param_rows_telemetry_def matrix_kind_def name_code_def)

lemma map_eq_replicateD: "map f xs = replicate n k \<Longrightarrow> x \<in> set xs \<Longrightarrow> f x = k"
  by (metis imageI in_set_replicate set_map)

text \<open>The matrix rows are in column-major order: their indices count from 0 to 99.\<close>

definition matrix_index :: "string \<Rightarrow> int" where
  "matrix_index s = (of_char (s ! 12) - 48) * 10 + (of_char (s ! 10) - 48)"

lemma matrix_index_primary: "map matrix_index (map fst param_rows_primary_mixer) = [0..99]"
  by (simp add: param_rows_primary_mixer_def matrix_index_def upto.simps [of 0 99] upto.simps [of 1 99])

lemma matrix_index_secondary: "map matrix_index (map fst param_rows_secondary_mixer) = [0..99]"
  by (simp add: param_rows_secondary_mixer_def matrix_index_def upto.simps [of 0 99] upto.simps [of 1 99])

lemma distinct_primary: "distinct (map matrix_index (map fst param_rows_primary_mixer))"
  unfolding matrix_index_primary by simp

lemma distinct_secondary: "distinct (map matrix_index (map fst param_rows_secondary_mixer))"
  unfolding matrix_index_secondary by simp

lemma distinct_other: "distinct (map name_code (map fst (param_rows_setup @ param_rows_control @
    param_rows_sensors @ param_rows_rc_vehicle @ param_rows_telemetry)))"
  by (simp add: param_rows_setup_def param_rows_control_def param_rows_sensors_def
      param_rows_rc_vehicle_def param_rows_telemetry_def name_code_def)

lemma distinct_param_names: "distinct (map fst param_rows)"
proof -
  let ?other = "param_rows_setup @ param_rows_control @ param_rows_sensors @
    param_rows_rc_vehicle @ param_rows_telemetry"
  have "distinct (map fst param_rows_primary_mixer @ map fst param_rows_secondary_mixer)"
    by (rule distinct_if_keys [where P = "\<lambda>s. matrix_kind s = 1588233058287709940175455",
        OF distinct_via [OF distinct_primary] distinct_via [OF distinct_secondary]])
      (auto dest!: map_eq_replicateD [OF names_primary] map_eq_replicateD [OF names_secondary]
        simp del: map_map set_map)
  moreover have "\<forall>s \<in> set (map fst param_rows_primary_mixer @ map fst param_rows_secondary_mixer).
      matrix_kind s = 1588233058287709940175455 \<or> matrix_kind s = 1602159917717796424077919"
    using map_eq_replicateD [OF names_primary] map_eq_replicateD [OF names_secondary]
    by (auto simp del: map_map set_map)
  moreover have "\<forall>s \<in> set (map fst ?other). \<not> (matrix_kind s = 1588233058287709940175455 \<or> matrix_kind s = 1602159917717796424077919)"
    using names_other by (simp only: list_all_iff list.set_map) blast
  ultimately have "distinct ((map fst param_rows_primary_mixer @ map fst param_rows_secondary_mixer) @
      map fst ?other)"
    using distinct_if_keys [OF _ distinct_via [OF distinct_other],
        where P = "\<lambda>s. matrix_kind s = 1588233058287709940175455 \<or> matrix_kind s = 1602159917717796424077919"]
    by blast
  then show ?thesis
    by (auto simp: param_rows_def)
qed

lemma find_nth_distinct:
  "i < length xs \<Longrightarrow> distinct (map f xs) \<Longrightarrow> find (\<lambda>x. f x = f (xs ! i)) xs = Some (xs ! i)"
proof (induction xs arbitrary: i)
  case (Cons x xs)
  then show ?case by (cases i) (auto simp: nth_eq_iff_index_eq)
qed simp

lemma map_def_name: "map def_name PARAM_DEFINITIONS = map fst param_rows"
  by (rule nth_equalityI) (simp_all add: nth_PARAM_DEFINITIONS)

lemma find_param_name_nth:
  "i < 349 \<Longrightarrow> find_param_name (def_name (PARAM_DEFINITIONS ! i)) = Some (PARAM_DEFINITIONS ! i)"
  unfolding find_param_name_def
  by (rule find_nth_distinct) (simp_all add: map_def_name distinct_param_names)

lemma find_param_name_Some: "find_param_name n = Some d \<Longrightarrow> d \<in> set PARAM_DEFINITIONS \<and> def_name d = n"
  by (auto simp: find_param_name_def find_Some_iff)

lemma get_by_id_params_new:
  assumes "i < 349"
  shows "get_by_id params_new (ParamId i) = def_default (PARAM_DEFINITIONS ! i)"
proof -
  let ?kvs = "map (\<lambda>d. (def_id d, def_default d)) PARAM_DEFINITIONS"
  have keys: "map fst ?kvs = map ParamId [0..<349]"
    by (rule nth_equalityI) simp_all
  have "distinct (map fst ?kvs)"
    unfolding keys by (simp add: distinct_map inj_on_def)
  moreover have "(ParamId i, def_default (PARAM_DEFINITIONS ! i)) \<in> set ?kvs"
    using assms by (auto simp: image_iff in_set_conv_nth intro!: bexI [of _ "PARAM_DEFINITIONS ! i"])
  ultimately have "get_by_id (foldl (\<lambda>s kv. set_by_id s (fst kv) (snd kv))
      \<lparr>param_values = (\<lambda>_. PInt 0)\<rparr> ?kvs) (ParamId i) = def_default (PARAM_DEFINITIONS ! i)"
    by (rule params_store.lookup_batch)
  then show ?thesis by (simp add: params_new_def set_defaults_def foldl_map)
qed

end
