(* ===== verification/State_Machine.thy ===== *)
theory State_Machine
  imports Params
begin

text \<open>
  The arming state machine of \<^verbatim>\<open>state_machine.rs\<close>: the enum \<^verbatim>\<open>StateMachine\<close> with its
  error flags, the \<^verbatim>\<open>on_event\<close> of each state, the update that first changes the flags,
  and the \<^verbatim>\<open>StateManager\<close> with the arming interlock in front of it. Transitions that log
  return the records; the manager returns its new state and the records of the call.
\<close>

section \<open>Flags, events and states\<close>

text \<open>\<^verbatim>\<open>ErrorFlag\<close> is a set of bits of a \<^verbatim>\<open>u16\<close>.\<close>

type_synonym error_flag = u16

definition INVALID_MIXER :: error_flag where "INVALID_MIXER = 1"
definition IMU_NOT_RESPONDING :: error_flag where "IMU_NOT_RESPONDING = 2"
definition RC_LOST :: error_flag where "RC_LOST = 4"
definition UNHEALTHY_ESTIMATOR :: error_flag where "UNHEALTHY_ESTIMATOR = 8"
definition TIME_GOING_BACKWARDS :: error_flag where "TIME_GOING_BACKWARDS = 16"
definition UNCALIBRATED_IMU :: error_flag where "UNCALIBRATED_IMU = 32"
definition BUFFER_OVERRUN :: error_flag where "BUFFER_OVERRUN = 64"
definition INVALID_FAILSAFE :: error_flag where "INVALID_FAILSAFE = 128"

lemmas flag_defs = INVALID_MIXER_def IMU_NOT_RESPONDING_def RC_LOST_def UNHEALTHY_ESTIMATOR_def
  TIME_GOING_BACKWARDS_def UNCALIBRATED_IMU_def BUFFER_OVERRUN_def INVALID_FAILSAFE_def

definition flags_contain :: "error_flag \<Rightarrow> error_flag \<Rightarrow> bool" where
  "flags_contain fs f = (fs AND f = f)"

definition flags_remove :: "error_flag \<Rightarrow> error_flag \<Rightarrow> error_flag" where
  "flags_remove fs f = fs AND NOT f"

datatype event = INITIALIZED | REQUEST_ARM | REQUEST_DISARM | CALIBRATION_COMPLETE
  | CALIBRATION_FAILED | HARDFAULT_REARM_REQUESTED
  | ERROR_OCCURRED error_flag | ERROR_CLEARED error_flag

datatype state_machine = Init (error_flags: error_flag) | Preflight (error_flags: error_flag)
  | Calibrating (error_flags: error_flag) | Armed (error_flags: error_flag)
  | Failsafe (error_flags: error_flag) | ErrorPresent (error_flags: error_flag)
  | ErrorFailsafe (error_flags: error_flag)

definition state_machine_new :: state_machine where
  "state_machine_new = Init 0"

fun map_error_flags :: "(error_flag \<Rightarrow> error_flag) \<Rightarrow> state_machine \<Rightarrow> state_machine" where
  "map_error_flags g (Init fs) = Init (g fs)"
| "map_error_flags g (Preflight fs) = Preflight (g fs)"
| "map_error_flags g (Calibrating fs) = Calibrating (g fs)"
| "map_error_flags g (Armed fs) = Armed (g fs)"
| "map_error_flags g (Failsafe fs) = Failsafe (g fs)"
| "map_error_flags g (ErrorPresent fs) = ErrorPresent (g fs)"
| "map_error_flags g (ErrorFailsafe fs) = ErrorFailsafe (g fs)"

section \<open>Transitions\<close>

definition arm_from_preflight :: "error_flag \<Rightarrow> params \<Rightarrow> state_machine" where
  "arm_from_preflight fs p =
    (if int_param_set p PARAM_CALIBRATE_GYRO_ON_ARM
     then Calibrating (flags_remove fs UNCALIBRATED_IMU) else Armed fs)"

definition arming_blocking_errors :: "error_flag \<Rightarrow> params \<Rightarrow> error_flag" where
  "arming_blocking_errors fs p =
    (if int_param_set p PARAM_ALLOW_UNHEALTHY_ESTIMATOR
     then flags_remove fs UNHEALTHY_ESTIMATOR else fs)"

definition log_arming_errors :: "error_flag \<Rightarrow> log_msg list" where
  "log_arming_errors fs = map (\<lambda>(f, s). (LogError, s)) (filter (\<lambda>(f, s). flags_contain fs f)
    [(INVALID_MIXER, ''Unable to arm: Invalid mixer''),
     (IMU_NOT_RESPONDING, ''Unable to arm: IMU not responding''),
     (RC_LOST, ''Unable to arm: RC signal lost''),
     (UNHEALTHY_ESTIMATOR, ''Unable to arm: Unhealthy estimator''),
     (TIME_GOING_BACKWARDS, ''Unable to arm: Time going backwards''),
     (UNCALIBRATED_IMU, ''Unable to arm: IMU not calibrated''),
     (INVALID_FAILSAFE, ''Unable to arm: Invalid failsafe setting'')])"

fun init_on_event :: "error_flag \<Rightarrow> event \<Rightarrow> state_machine" where
  "init_on_event fs INITIALIZED = Preflight fs"
| "init_on_event fs _ = Init fs"

fun preflight_on_event :: "error_flag \<Rightarrow> event \<Rightarrow> params \<Rightarrow> state_machine" where
  "preflight_on_event fs REQUEST_ARM p = arm_from_preflight fs p"
| "preflight_on_event fs HARDFAULT_REARM_REQUESTED p = Armed fs"
| "preflight_on_event fs (ERROR_OCCURRED _) p = ErrorPresent fs"
| "preflight_on_event fs _ p = Preflight fs"

fun calibrating_on_event :: "error_flag \<Rightarrow> event \<Rightarrow> state_machine" where
  "calibrating_on_event fs CALIBRATION_COMPLETE = Armed (flags_remove fs UNCALIBRATED_IMU)"
| "calibrating_on_event fs CALIBRATION_FAILED = Preflight fs"
| "calibrating_on_event fs (ERROR_OCCURRED _) = ErrorPresent fs"
| "calibrating_on_event fs HARDFAULT_REARM_REQUESTED = Armed fs"
| "calibrating_on_event fs _ = Calibrating fs"

definition armed_on_event :: "error_flag \<Rightarrow> event \<Rightarrow> state_machine" where
  "armed_on_event fs ev = (case ev of
     REQUEST_DISARM \<Rightarrow> if fs \<noteq> 0 then ErrorPresent fs else Preflight fs
   | ERROR_OCCURRED f \<Rightarrow> if f = RC_LOST then Failsafe fs else Armed fs
   | _ \<Rightarrow> Armed fs)"

definition failsafe_on_event :: "error_flag \<Rightarrow> event \<Rightarrow> state_machine" where
  "failsafe_on_event fs ev = (case ev of
     ERROR_CLEARED f \<Rightarrow> if f = RC_LOST then Armed fs else Failsafe fs
   | REQUEST_DISARM \<Rightarrow> ErrorFailsafe fs
   | HARDFAULT_REARM_REQUESTED \<Rightarrow> Armed fs
   | _ \<Rightarrow> Failsafe fs)"

definition error_failsafe_on_event :: "error_flag \<Rightarrow> event \<Rightarrow> state_machine \<times> log_msg list" where
  "error_failsafe_on_event fs ev = (case ev of
     REQUEST_ARM \<Rightarrow> (ErrorFailsafe fs, log_arming_errors fs)
   | HARDFAULT_REARM_REQUESTED \<Rightarrow> (Armed fs, [])
   | ERROR_CLEARED f \<Rightarrow>
       if f = RC_LOST then (if fs = 0 then Preflight fs else ErrorPresent fs, [])
       else (if fs = 0 then Preflight fs else ErrorFailsafe fs, [])
   | _ \<Rightarrow> (ErrorFailsafe fs, []))"

definition error_present_on_event :: "error_flag \<Rightarrow> event \<Rightarrow> params \<Rightarrow> state_machine \<times> log_msg list" where
  "error_present_on_event fs ev p = (case ev of
     REQUEST_ARM \<Rightarrow>
       (let blocking = arming_blocking_errors fs p in
        if blocking = 0 then (arm_from_preflight fs p, [])
        else (ErrorPresent fs, log_arming_errors blocking))
   | HARDFAULT_REARM_REQUESTED \<Rightarrow> (Armed fs, [])
   | ERROR_CLEARED _ \<Rightarrow> (if fs = 0 then Preflight fs else ErrorPresent fs, [])
   | _ \<Rightarrow> (ErrorPresent fs, []))"

fun sm_transition :: "state_machine \<Rightarrow> event \<Rightarrow> params \<Rightarrow> state_machine \<times> log_msg list" where
  "sm_transition (Init fs) ev p = (init_on_event fs ev, [])"
| "sm_transition (Preflight fs) ev p = (preflight_on_event fs ev p, [])"
| "sm_transition (Calibrating fs) ev p = (calibrating_on_event fs ev, [])"
| "sm_transition (Armed fs) ev p = (armed_on_event fs ev, [])"
| "sm_transition (Failsafe fs) ev p = (failsafe_on_event fs ev, [])"
| "sm_transition (ErrorPresent fs) ev p = error_present_on_event fs ev p"
| "sm_transition (ErrorFailsafe fs) ev p = error_failsafe_on_event fs ev"

text \<open>\<^verbatim>\<open>StateMachine::update\<close>: the flags change first, then the state reacts to the event.\<close>

definition sm_update :: "state_machine \<Rightarrow> event \<Rightarrow> params \<Rightarrow> state_machine \<times> log_msg list" where
  "sm_update m ev p = sm_transition (case ev of
     ERROR_OCCURRED f \<Rightarrow> map_error_flags (\<lambda>fs. fs OR f) m
   | ERROR_CLEARED f \<Rightarrow> map_error_flags (\<lambda>fs. flags_remove fs f) m
   | _ \<Rightarrow> m) ev p"

fun sm_is_armed :: "state_machine \<Rightarrow> bool" where
  "sm_is_armed (Armed _) = True"
| "sm_is_armed (Failsafe _) = True"
| "sm_is_armed _ = False"

fun sm_is_in_failsafe :: "state_machine \<Rightarrow> bool" where
  "sm_is_in_failsafe (Failsafe _) = True"
| "sm_is_in_failsafe (ErrorFailsafe _) = True"
| "sm_is_in_failsafe _ = False"

fun sm_is_in_error_state :: "state_machine \<Rightarrow> bool" where
  "sm_is_in_error_state (ErrorPresent _) = True"
| "sm_is_in_error_state (ErrorFailsafe _) = True"
| "sm_is_in_error_state _ = False"

section \<open>The manager\<close>

record arming_safety =
  rc_throttle_low :: bool
  rc_throttle_override_switch_on :: bool

record state_manager =
  machine :: state_machine
  safety :: arming_safety

definition state_manager_new :: state_manager where
  "state_manager_new = \<lparr>machine = state_machine_new,
     safety = \<lparr>rc_throttle_low = False, rc_throttle_override_switch_on = False\<rparr>\<rparr>"

definition sm_is_calibrating :: "state_manager \<Rightarrow> bool" where
  "sm_is_calibrating s = (case machine s of Calibrating _ \<Rightarrow> True | _ \<Rightarrow> False)"

definition update_arming_safety :: "state_manager \<Rightarrow> bool \<Rightarrow> bool \<Rightarrow> state_manager" where
  "update_arming_safety s low on =
     s\<lparr>safety := \<lparr>rc_throttle_low = low, rc_throttle_override_switch_on = on\<rparr>\<rparr>"

definition arming_safety_allows_arm :: "state_manager \<Rightarrow> params \<Rightarrow> bool \<times> log_msg list" where
  "arming_safety_allows_arm s p =
    (if \<not> rc_throttle_low (safety s) then (False, [(LogError, ''Cannot arm with RC throttle high'')])
     else if \<not> int_param_set p PARAM_RC_OVERRIDE_TAKE_MIN_THROTTLE
        \<and> \<not> rc_throttle_override_switch_on (safety s)
     then (False, [(LogError, ''RC throttle override must be active to arm'')])
     else (True, []))"

definition arming_attempt_can_transition :: "state_manager \<Rightarrow> params \<Rightarrow> bool" where
  "arming_attempt_can_transition s p = (case machine s of
     Preflight _ \<Rightarrow> True
   | ErrorPresent fs \<Rightarrow> arming_blocking_errors fs p = 0
   | _ \<Rightarrow> False)"

definition manager_update :: "state_manager \<Rightarrow> event \<Rightarrow> params \<Rightarrow> state_manager \<times> log_msg list" where
  "manager_update s ev p =
    (if ev = REQUEST_ARM \<and> arming_attempt_can_transition s p \<and> \<not> fst (arming_safety_allows_arm s p)
     then (s, snd (arming_safety_allows_arm s p))
     else let (m, logs) = sm_update (machine s) ev p in (s\<lparr>machine := m\<rparr>, logs))"

definition get_errors :: "state_manager \<Rightarrow> error_flag" where
  "get_errors s = error_flags (machine s)"

definition set_error_flag :: "state_manager \<Rightarrow> error_flag \<Rightarrow> bool \<Rightarrow> params \<Rightarrow> state_manager \<times> log_msg list" where
  "set_error_flag s f present p = (let already = flags_contain (get_errors s) f in
     if present then (if \<not> already then manager_update s (ERROR_OCCURRED f) p else (s, []))
     else if already then manager_update s (ERROR_CLEARED f) p else (s, []))"

definition manager_run :: "state_manager \<Rightarrow> params \<Rightarrow> state_manager \<times> log_msg list" where
  "manager_run s p =
    (if get_errors s = 0 then manager_update s (ERROR_CLEARED 0) p
     else manager_update s (ERROR_OCCURRED (get_errors s)) p)"

definition is_armed :: "state_manager \<Rightarrow> bool" where
  "is_armed s = sm_is_armed (machine s)"

definition is_in_failsafe :: "state_manager \<Rightarrow> bool" where
  "is_in_failsafe s = sm_is_in_failsafe (machine s)"

definition is_in_error_state :: "state_manager \<Rightarrow> bool" where
  "is_in_error_state s = sm_is_in_error_state (machine s)"

section \<open>Flag arithmetic\<close>

lemma RC_LOST_bit: "bit RC_LOST n \<longleftrightarrow> n = 2"
proof -
  have "bit (2 ^ 2 :: error_flag) n \<longleftrightarrow> n = 2" unfolding bit_exp_iff by auto
  then show ?thesis by (simp add: RC_LOST_def)
qed

lemma flags_contain_bits: "flags_contain fs f \<longleftrightarrow> (\<forall>n. bit f n \<longrightarrow> bit fs n)"
  unfolding flags_contain_def by (auto simp: bit_and_iff word_bits_eq_iff)

lemma flags_contain_RC_LOST: "flags_contain fs RC_LOST \<longleftrightarrow> bit fs 2"
  by (simp add: flags_contain_bits RC_LOST_bit)

lemma bit_flags_remove: "bit (flags_remove fs f) n \<longleftrightarrow> bit fs n \<and> \<not> bit f n"
  using bit_imp_le_length [of fs n] by (auto simp: flags_remove_def bit_and_iff bit_not_iff)

lemma flags_remove_0 [simp]: "flags_remove fs 0 = fs" "flags_remove 0 f = 0"
  by (simp_all add: flags_remove_def)

definition only_flags :: "error_flag \<Rightarrow> error_flag \<Rightarrow> bool" where
  "only_flags fs allowed \<longleftrightarrow> flags_remove fs allowed = 0"

lemma only_flags_bits: "only_flags fs a \<longleftrightarrow> (\<forall>n. bit fs n \<longrightarrow> bit a n)"
  by (auto simp: only_flags_def word_bits_eq_iff bit_flags_remove)

lemma only_flags_simps [simp]: "only_flags 0 a" "only_flags fs a \<Longrightarrow> only_flags (flags_remove fs f) a"
  by (auto simp: only_flags_bits bit_flags_remove)

section \<open>What the events do to the flags and to the armed status\<close>

lemma error_flags_map [simp]: "error_flags (map_error_flags g m) = g (error_flags m)"
  by (cases m) simp_all

lemma machine_manager_update:
  "machine (fst (manager_update s ev p)) =
    (if ev = REQUEST_ARM \<and> arming_attempt_can_transition s p \<and> \<not> fst (arming_safety_allows_arm s p)
     then machine s else fst (sm_update (machine s) ev p))"
  by (simp add: manager_update_def split: prod.split)

lemma safety_manager_update [simp, frame]: "safety (fst (manager_update s ev p)) = safety s"
  by (simp add: manager_update_def split: prod.split)

lemmas on_event_defs = armed_on_event_def failsafe_on_event_def error_failsafe_on_event_def
  error_present_on_event_def arm_from_preflight_def

text \<open>The flags an event leaves: the named bits, and the IMU bit on calibration.\<close>

definition flags_after :: "state_machine \<Rightarrow> event \<Rightarrow> error_flag" where
  "flags_after m ev = (case ev of
     ERROR_OCCURRED f \<Rightarrow> error_flags m OR f
   | ERROR_CLEARED f \<Rightarrow> flags_remove (error_flags m) f
   | _ \<Rightarrow> error_flags m)"

lemma sm_update_flags:
  "error_flags (fst (sm_update m ev p)) = flags_after m ev
   \<or> error_flags (fst (sm_update m ev p)) = flags_remove (flags_after m ev) UNCALIBRATED_IMU
     \<and> (ev = REQUEST_ARM \<or> ev = CALIBRATION_COMPLETE)"
  by (cases m; cases ev) (auto simp: sm_update_def flags_after_def on_event_defs Let_def)

lemma sm_update_stays_armed:
  "sm_is_armed m \<Longrightarrow> ev \<noteq> REQUEST_DISARM \<Longrightarrow> sm_is_armed (fst (sm_update m ev p))"
  by (cases m; cases ev) (auto simp: sm_update_def on_event_defs)

text \<open>How a machine that is not armed can become armed.\<close>

lemma sm_update_arms:
  "\<not> sm_is_armed m \<Longrightarrow> sm_is_armed (fst (sm_update m ev p)) \<Longrightarrow>
    ev = HARDFAULT_REARM_REQUESTED \<and> (\<forall>fs. m \<noteq> Init fs)
    \<or> ev = CALIBRATION_COMPLETE \<and> (\<exists>fs. m = Calibrating fs)
    \<or> ev = REQUEST_ARM \<and> \<not> int_param_set p PARAM_CALIBRATE_GYRO_ON_ARM
      \<and> ((\<exists>fs. m = Preflight fs) \<or> (\<exists>fs. m = ErrorPresent fs \<and> arming_blocking_errors fs p = 0))"
  by (cases m; cases ev) (auto simp: sm_update_def on_event_defs Let_def split: if_splits)

lemma blocking_only: "arming_blocking_errors fs p = 0 \<Longrightarrow> only_flags fs UNHEALTHY_ESTIMATOR"
  by (simp add: arming_blocking_errors_def only_flags_def split: if_splits)

section \<open>Reachable states\<close>

text \<open>
  The events the firmware raises: an error flag is never empty, and a cleared flag is
  \<^verbatim>\<open>RC_LOST\<close> alone or does not include it.
\<close>

definition wf_event :: "event \<Rightarrow> bool" where
  "wf_event ev = (case ev of
     ERROR_OCCURRED f \<Rightarrow> f \<noteq> 0
   | ERROR_CLEARED f \<Rightarrow> f = RC_LOST \<or> \<not> bit f 2
   | _ \<Rightarrow> True)"

text \<open>
  One step of the manager: an event, a periodic run or a new reading of the sticks, under
  whatever parameters hold at that moment. The start is the state after \<^verbatim>\<open>World::init\<close>
  has sent \<^verbatim>\<open>INITIALIZED\<close> to a new manager.
\<close>

inductive manager_step :: "state_manager \<Rightarrow> state_manager \<Rightarrow> bool" where
  step_event: "wf_event ev \<Longrightarrow> manager_step s (fst (manager_update s ev p))"
| step_run: "manager_step s (fst (manager_run s p))"
| step_safety: "manager_step s (update_arming_safety s low on)"

inductive manager_reachable :: "state_manager \<Rightarrow> bool" where
  reach_start: "manager_reachable (fst (manager_update state_manager_new INITIALIZED p))"
| reach_step: "manager_reachable s \<Longrightarrow> manager_step s t \<Longrightarrow> manager_reachable t"

inductive_cases manager_stepE: "manager_step s t"

text \<open>
  The invariant: a failsafe state carries \<^verbatim>\<open>RC_LOST\<close>, the error state carries an error,
  and a machine that may arm or is calibrating carries no error but an unhealthy estimator.
\<close>

fun sm_ok :: "state_machine \<Rightarrow> bool" where
  "sm_ok (Init fs) = True"
| "sm_ok (Preflight fs) = only_flags fs UNHEALTHY_ESTIMATOR"
| "sm_ok (Calibrating fs) = only_flags fs UNHEALTHY_ESTIMATOR"
| "sm_ok (Armed fs) = True"
| "sm_ok (Failsafe fs) = flags_contain fs RC_LOST"
| "sm_ok (ErrorPresent fs) = (fs \<noteq> 0)"
| "sm_ok (ErrorFailsafe fs) = flags_contain fs RC_LOST"

definition initialized :: "state_machine \<Rightarrow> bool" where
  "initialized m = (\<forall>fs. m \<noteq> Init fs)"

lemma or_neq_0: "f \<noteq> 0 \<Longrightarrow> fs OR f \<noteq> (0 :: error_flag)"
  by (metis or_eq_0_iff)

lemma sm_update_ok:
  assumes "initialized m" "sm_ok m" "wf_event ev"
  shows "sm_ok (fst (sm_update m ev p))" "initialized (fst (sm_update m ev p))"
proof -
  have bit2: "bit fs 2 \<Longrightarrow> fs \<noteq> 0" for fs :: error_flag by auto
  show "sm_ok (fst (sm_update m ev p))"
    using assms
    by (cases m; cases ev)
      (auto simp: sm_update_def on_event_defs Let_def wf_event_def initialized_def or_neq_0
        flags_contain_RC_LOST bit_flags_remove bit_or_iff RC_LOST_bit blocking_only
        dest: bit2 split: if_splits)
  show "initialized (fst (sm_update m ev p))"
    using assms(1)
    by (cases m; cases ev) (auto simp: sm_update_def on_event_defs Let_def initialized_def)
qed

lemma manager_update_ok:
  "initialized (machine s) \<Longrightarrow> sm_ok (machine s) \<Longrightarrow> wf_event ev \<Longrightarrow>
    sm_ok (machine (fst (manager_update s ev p))) \<and> initialized (machine (fst (manager_update s ev p)))"
  using sm_update_ok by (simp add: machine_manager_update)

lemma manager_step_ok:
  "manager_step s t \<Longrightarrow> initialized (machine s) \<Longrightarrow> sm_ok (machine s) \<Longrightarrow>
    sm_ok (machine t) \<and> initialized (machine t)"
  by (erule manager_stepE)
    (auto simp: manager_update_ok manager_run_def update_arming_safety_def wf_event_def)

lemma manager_reachable_ok: "manager_reachable s \<Longrightarrow> sm_ok (machine s) \<and> initialized (machine s)"
proof (induction rule: manager_reachable.induct)
  case (reach_start p)
  then show ?case
    by (simp add: machine_manager_update state_manager_new_def state_machine_new_def sm_update_def
        initialized_def)
next
  case (reach_step s t)
  then show ?case using manager_step_ok by blast
qed

section \<open>Properties\<close>

lemma reachable_arming_flags:
  assumes "manager_reachable s" "\<not> is_armed s" "is_armed (fst (manager_update s ev p))"
    "ev \<noteq> HARDFAULT_REARM_REQUESTED"
  shows "only_flags (get_errors s) UNHEALTHY_ESTIMATOR"
proof -
  have "sm_ok (machine s)" using manager_reachable_ok [OF assms(1)] by simp
  moreover have "\<not> sm_is_armed (machine s)" "sm_is_armed (fst (sm_update (machine s) ev p))"
    using assms(2,3) by (auto simp: is_armed_def machine_manager_update split: if_splits)
  note sm_update_arms [OF this]
  ultimately show ?thesis using assms(4) by (auto simp: get_errors_def dest: blocking_only)
qed

text \<open>
  C2. A disarmed vehicle becomes armed only by a hard-fault re-arm, by the end of a
  calibration, or by an arming request made with the RC throttle low and with the
  throttle override active (or \<^verbatim>\<open>TAKE_MIN_THR\<close> set); and, a hard-fault re-arm apart, only
  when no error but an unhealthy estimator is present.
\<close>

theorem arming_gate:
  assumes "manager_reachable s" and "\<not> is_armed s" and "is_armed (fst (manager_update s ev p))"
  shows "ev = HARDFAULT_REARM_REQUESTED
    \<or> only_flags (get_errors s) UNHEALTHY_ESTIMATOR
      \<and> (ev = CALIBRATION_COMPLETE \<and> sm_is_calibrating s
         \<or> ev = REQUEST_ARM \<and> rc_throttle_low (safety s)
           \<and> (int_param_set p PARAM_RC_OVERRIDE_TAKE_MIN_THROTTLE
              \<or> rc_throttle_override_switch_on (safety s)))"
proof -
  have m: "\<not> sm_is_armed (machine s)" "sm_is_armed (fst (sm_update (machine s) ev p))"
    and safe: "ev = REQUEST_ARM \<Longrightarrow> arming_attempt_can_transition s p \<Longrightarrow> fst (arming_safety_allows_arm s p)"
    using assms(2,3) by (auto simp: is_armed_def machine_manager_update split: if_splits)
  from sm_update_arms [OF m] show ?thesis
    using safe reachable_arming_flags [OF assms]
    by (auto simp: sm_is_calibrating_def arming_attempt_can_transition_def
        arming_safety_allows_arm_def split: if_splits)
qed

text \<open>
  C9. An armed vehicle stays armed under every event but a disarm request: no error and
  no failure takes the motors away.
\<close>

theorem armed_until_disarm_request:
  assumes "is_armed s" and "ev \<noteq> REQUEST_DISARM"
  shows "is_armed (fst (manager_update s ev p))"
  using assms by (simp add: is_armed_def machine_manager_update sm_update_stays_armed)


text \<open>
  The periodic run keeps the error flags and settles the state on them: afterwards
  a machine that is ready to arm has no error at all, and an error state has one.
\<close>

theorem manager_run_settles:
  assumes "manager_reachable s" and "t = fst (manager_run s p)"
  shows "get_errors t = get_errors s \<and> (\<forall>fs. machine t = Preflight fs \<longrightarrow> fs = 0)
    \<and> (\<forall>fs. machine t = ErrorPresent fs \<longrightarrow> fs \<noteq> 0)"
proof -
  have "sm_ok (machine s)" "initialized (machine s)" using manager_reachable_ok [OF assms(1)] by auto
  then show ?thesis unfolding assms(2)
    by (cases "machine s")
      (auto simp: manager_run_def machine_manager_update get_errors_def sm_update_def on_event_defs
        initialized_def arming_attempt_can_transition_def flags_contain_RC_LOST)
qed

text \<open>
  An arming request in the error state with a blocking error leaves the manager
  unchanged and logs exactly the reasons of the blocking errors.
\<close>

theorem arming_refused:
  assumes "machine s = ErrorPresent fs" and "arming_blocking_errors fs p \<noteq> 0"
  shows "manager_update s REQUEST_ARM p = (s, log_arming_errors (arming_blocking_errors fs p))"
  using assms
  by (cases s) (auto simp: manager_update_def arming_attempt_can_transition_def sm_update_def
      error_present_on_event_def Let_def)

subsection \<open>Witnesses\<close>

text \<open>
  All parameters zero; a manager after start-up with the sticks in the arming position,
  the same manager armed, and one in the error state.
\<close>

definition zero_params :: params where
  "zero_params = \<lparr>param_values = (\<lambda>_. PInt 0)\<rparr>"

definition ready_manager :: state_manager where
  "ready_manager = update_arming_safety (fst (manager_update state_manager_new INITIALIZED zero_params)) True True"

definition failed_manager :: state_manager where
  "failed_manager = fst (manager_update ready_manager (ERROR_OCCURRED INVALID_MIXER) zero_params)"

lemma int_param_set_zero [simp]: "int_param_set zero_params pid = False"
  by (simp add: int_param_set_def get_by_id_def zero_params_def)

lemma ready_manager_reachable: "manager_reachable ready_manager"
  unfolding ready_manager_def by (rule reach_step [OF reach_start step_safety])

lemma failed_manager_reachable: "manager_reachable failed_manager"
  unfolding failed_manager_def
  by (rule reach_step [OF ready_manager_reachable step_event]) (simp add: wf_event_def INVALID_MIXER_def)

lemma ready_manager_eq: "ready_manager = \<lparr>machine = Preflight 0,
    safety = \<lparr>rc_throttle_low = True, rc_throttle_override_switch_on = True\<rparr>\<rparr>"
  by (simp add: ready_manager_def state_manager_new_def state_machine_new_def manager_update_def
      sm_update_def update_arming_safety_def)

lemma failed_manager_eq: "failed_manager = \<lparr>machine = ErrorPresent 1,
    safety = \<lparr>rc_throttle_low = True, rc_throttle_override_switch_on = True\<rparr>\<rparr>"
  by (simp add: failed_manager_def ready_manager_eq manager_update_def sm_update_def INVALID_MIXER_def)

lemma ready_manager_arms: "is_armed (fst (manager_update ready_manager REQUEST_ARM zero_params))"
  "\<not> is_armed ready_manager"
  by (simp_all add: ready_manager_eq is_armed_def manager_update_def arming_safety_allows_arm_def
      arming_attempt_can_transition_def sm_update_def arm_from_preflight_def)

theorem arming_gate_witness:
  "\<not> is_armed ready_manager \<and> is_armed (fst (manager_update ready_manager REQUEST_ARM zero_params))
   \<and> rc_throttle_low (safety ready_manager) \<and> only_flags (get_errors ready_manager) UNHEALTHY_ESTIMATOR"
  using arming_gate [OF ready_manager_reachable ready_manager_arms(2,1)] ready_manager_arms by simp

definition armed_manager :: state_manager where
  "armed_manager = fst (manager_update ready_manager REQUEST_ARM zero_params)"

theorem armed_until_disarm_request_witness:
  "is_armed (fst (manager_update armed_manager (ERROR_OCCURRED RC_LOST) zero_params))"
proof -
  have "is_armed armed_manager" using ready_manager_arms(1) by (simp add: armed_manager_def)
  then show ?thesis by (rule armed_until_disarm_request) simp
qed


theorem manager_run_settles_witness:
  "get_errors (fst (manager_run failed_manager zero_params)) = 1"
  using manager_run_settles [OF failed_manager_reachable refl, of zero_params]
  by (simp add: failed_manager_eq get_errors_def)

theorem arming_refused_witness:
  "manager_update failed_manager REQUEST_ARM zero_params =
    (failed_manager, [(LogError, ''Unable to arm: Invalid mixer'')])"
proof -
  have "machine failed_manager = ErrorPresent 1" by (simp add: failed_manager_eq)
  moreover have b: "arming_blocking_errors 1 zero_params = 1" by (simp add: arming_blocking_errors_def)
  ultimately show ?thesis
    using arming_refused [of failed_manager 1 zero_params]
    by (simp add: log_arming_errors_def flags_contain_def flag_defs)
qed

end
