(* ===== verification/Messages.thy ===== *)
theory Messages
  imports State_Machine
begin

text \<open>
  The message types of \<^verbatim>\<open>comm/messages.rs\<close>: the enums and bit sets the protocol shares,
  the message structs the core receives and sends, and the bounded queues of
  \<^verbatim>\<open>heapless::Deque\<close> by their value, a capacity and the elements in order. A fixed byte
  array is a list of bytes. The mailbox \<^verbatim>\<open>Messages\<close> keeps the latest message of each kind,
  and queues the two parameter requests.
\<close>

section \<open>Enums and bit sets\<close>

type_synonym i16 = "16 word"
type_synonym i64 = "64 word"

datatype rosflight_cmd = RcCalibration | AccelCalibration | GyroCalibration | BaroCalibration
  | AirspeedCalibration | ReadParams | WriteParams | SetParamDefaults | Reboot
  | RebootToBootloader | SendVersion | ResetOrigin | SendAllConfigInfos

datatype rosflight_cmd_response = RosflightCmdFailed | RosflightCmdSuccess

datatype offboard_control_mode = ModePassThrough | ModeRollratePitchrateYawrateThrottle
  | ModeRollPitchYawrateThrottle

datatype rosflight_aux_cmd_type = AuxDisabled | AuxServo | AuxMotor

datatype mav_severity = Emergency | Alert | Critical | Error | Warning | Notice | Info | Debug

datatype param_identifier = ParamName "u8 list" | ParamIndex i16

type_synonym offboard_control_ignore = u16

definition IGNORE_FX :: offboard_control_ignore where "IGNORE_FX = 1"
definition IGNORE_FY :: offboard_control_ignore where "IGNORE_FY = 2"
definition IGNORE_FZ :: offboard_control_ignore where "IGNORE_FZ = 4"
definition IGNORE_QX :: offboard_control_ignore where "IGNORE_QX = 8"
definition IGNORE_QY :: offboard_control_ignore where "IGNORE_QY = 16"
definition IGNORE_QZ :: offboard_control_ignore where "IGNORE_QZ = 32"
definition IGNORE_PASS_0 :: offboard_control_ignore where "IGNORE_PASS_0 = 64"
definition IGNORE_PASS_1 :: offboard_control_ignore where "IGNORE_PASS_1 = 128"
definition IGNORE_PASS_2 :: offboard_control_ignore where "IGNORE_PASS_2 = 256"
definition IGNORE_PASS_3 :: offboard_control_ignore where "IGNORE_PASS_3 = 512"

definition is_ignoring_qx :: "offboard_control_ignore \<Rightarrow> bool" where
  "is_ignoring_qx ig = (ig AND IGNORE_QX \<noteq> 0)"

definition is_ignoring_qy :: "offboard_control_ignore \<Rightarrow> bool" where
  "is_ignoring_qy ig = (ig AND IGNORE_QY \<noteq> 0)"

definition is_ignoring_qz :: "offboard_control_ignore \<Rightarrow> bool" where
  "is_ignoring_qz ig = (ig AND IGNORE_QZ \<noteq> 0)"

definition is_ignoring_fx :: "offboard_control_ignore \<Rightarrow> bool" where
  "is_ignoring_fx ig = (ig AND IGNORE_FX \<noteq> 0)"

definition is_ignoring_fy :: "offboard_control_ignore \<Rightarrow> bool" where
  "is_ignoring_fy ig = (ig AND IGNORE_FY \<noteq> 0)"

definition is_ignoring_fz :: "offboard_control_ignore \<Rightarrow> bool" where
  "is_ignoring_fz ig = (ig AND IGNORE_FZ \<noteq> 0)"

lemmas ignore_defs = IGNORE_FX_def IGNORE_FY_def IGNORE_FZ_def IGNORE_QX_def IGNORE_QY_def
  IGNORE_QZ_def IGNORE_PASS_0_def IGNORE_PASS_1_def IGNORE_PASS_2_def IGNORE_PASS_3_def is_ignoring_qx_def is_ignoring_qy_def is_ignoring_qz_def is_ignoring_fx_def
  is_ignoring_fy_def is_ignoring_fz_def

section \<open>Message structs\<close>

record heartbeat_msg =
  hb_type :: u8
  hb_autopilot :: u8
  hb_base_mode :: u8
  hb_custom_mode :: u32
  hb_system_status :: u8
  hb_mavlink_version :: u8

record param_request_read_msg =
  prr_target_system :: u8
  prr_target_component :: u8
  prr_identifier :: param_identifier

record param_request_list_msg =
  prl_target_system :: u8
  prl_target_component :: u8

record param_value_msg =
  pv_param_id :: "u8 list"
  pv_param_value :: param_value
  pv_param_count :: u16
  pv_param_index :: u16

record param_set_msg =
  ps_target_system :: u8
  ps_target_component :: u8
  ps_param_id :: "u8 list"
  ps_param_value :: param_value

record rc_channels_msg =
  rcc_time_boot_ms :: u32
  rcc_chancount :: u8
  rcc_channels :: "u16 list"
  rcc_rssi :: u8

record timesync_msg =
  ts_tc1 :: i64
  ts_ts1 :: i64

record statustext_msg =
  st_severity :: mav_severity
  st_text :: "u8 list"

record offboard_control_msg =
  oc_mode :: offboard_control_mode
  oc_ignore :: offboard_control_ignore
  oc_qx :: f32
  oc_qy :: f32
  oc_qz :: f32
  oc_fx :: f32
  oc_fy :: f32
  oc_fz :: f32
  oc_passthrough :: "f32 list"

record rosflight_cmd_ack_msg =
  ack_command :: rosflight_cmd
  ack_success :: rosflight_cmd_response

record rosflight_aux_cmd_msg =
  aux_type_array :: "rosflight_aux_cmd_type list"
  aux_cmd_array :: "f32 list"

record external_attitude_msg =
  ea_qw :: f32
  ea_qx :: f32
  ea_qy :: f32
  ea_qz :: f32

record rosflight_hard_error_msg =
  he_error_code :: u32
  he_pc :: u32
  he_reset_count :: u32
  he_do_rearm :: u32

section \<open>Bounded queues\<close>

text \<open>
  The value of a \<^verbatim>\<open>heapless::Deque<T, N>\<close>: its capacity \<^verbatim>\<open>N\<close> and its elements, front
  first. By its documentation \<^verbatim>\<open>push_back\<close> gives the element back when the deque is full,
  and \<^verbatim>\<open>pop_front\<close> gives \<^verbatim>\<open>None\<close> when it is empty.
\<close>

record 'a deque =
  dq_cap :: nat
  dq_items :: "'a list"

definition deque_new :: "nat \<Rightarrow> 'a deque" where
  "deque_new n = \<lparr>dq_cap = n, dq_items = []\<rparr>"

definition deque_push_back :: "'a deque \<Rightarrow> 'a \<Rightarrow> 'a deque \<times> bool" where
  "deque_push_back d x =
    (if length (dq_items d) < dq_cap d then (d\<lparr>dq_items := dq_items d @ [x]\<rparr>, True)
     else (d, False))"

definition deque_pop_front :: "'a deque \<Rightarrow> 'a option \<times> 'a deque" where
  "deque_pop_front d = (case dq_items d of [] \<Rightarrow> (None, d)
     | x # xs \<Rightarrow> (Some x, d\<lparr>dq_items := xs\<rparr>))"

definition deque_clear :: "'a deque \<Rightarrow> 'a deque" where
  "deque_clear d = d\<lparr>dq_items := []\<rparr>"

lemmas deque_defs = deque_new_def deque_push_back_def deque_pop_front_def deque_clear_def

definition PARAM_SET_BURST_QUEUE_CAPACITY :: nat where
  "PARAM_SET_BURST_QUEUE_CAPACITY = 512"
definition PARAM_SET_INGRESS_QUEUE_CAPACITY :: nat where
  "PARAM_SET_INGRESS_QUEUE_CAPACITY = PARAM_SET_BURST_QUEUE_CAPACITY"
definition PARAM_SET_EVENT_QUEUE_CAPACITY :: nat where
  "PARAM_SET_EVENT_QUEUE_CAPACITY = PARAM_SET_BURST_QUEUE_CAPACITY"
definition PARAM_READ_INGRESS_QUEUE_CAPACITY :: nat where
  "PARAM_READ_INGRESS_QUEUE_CAPACITY = PARAM_SET_BURST_QUEUE_CAPACITY"

section \<open>The mailbox\<close>

record messages =
  m_heartbeat :: "heartbeat_msg option"
  m_param_request_read :: "param_request_read_msg deque"
  m_param_request_list :: "param_request_list_msg option"
  m_param_set :: "param_set_msg deque"
  m_timesync :: "timesync_msg option"
  m_offboard_control :: "offboard_control_msg option"
  m_cmd :: "rosflight_cmd option"
  m_aux_cmd :: "rosflight_aux_cmd_msg option"
  m_external_attitude :: "external_attitude_msg option"
  m_rc_raw :: "rc_channels_msg option"

definition messages_new :: messages where
  "messages_new = \<lparr>m_heartbeat = None,
    m_param_request_read = deque_new PARAM_READ_INGRESS_QUEUE_CAPACITY,
    m_param_request_list = None, m_param_set = deque_new PARAM_SET_INGRESS_QUEUE_CAPACITY,
    m_timesync = None, m_offboard_control = None, m_cmd = None, m_aux_cmd = None,
    m_external_attitude = None, m_rc_raw = None\<rparr>"

definition has_pending :: "messages \<Rightarrow> bool" where
  "has_pending m \<longleftrightarrow> m_heartbeat m \<noteq> None \<or> dq_items (m_param_request_read m) \<noteq> []
    \<or> m_param_request_list m \<noteq> None \<or> dq_items (m_param_set m) \<noteq> [] \<or> m_timesync m \<noteq> None
    \<or> m_offboard_control m \<noteq> None \<or> m_cmd m \<noteq> None \<or> m_aux_cmd m \<noteq> None
    \<or> m_external_attitude m \<noteq> None \<or> m_rc_raw m \<noteq> None"

text \<open>
  \<^verbatim>\<open>Store<T>\<close>: one instance per message type. A message of a single slot replaces the one
  before it; a parameter request goes to the back of its queue, and is dropped when the
  queue is full.
\<close>

datatype stored_msg = StoreHeartbeat heartbeat_msg | StoreParamRead param_request_read_msg
  | StoreParamList param_request_list_msg | StoreParamSet param_set_msg
  | StoreTimesync timesync_msg | StoreOffboard offboard_control_msg
  | StoreCmd rosflight_cmd | StoreAuxCmd rosflight_aux_cmd_msg
  | StoreExternalAttitude external_attitude_msg

fun store :: "messages \<Rightarrow> stored_msg \<Rightarrow> messages" where
  "store m (StoreHeartbeat x) = m\<lparr>m_heartbeat := Some x\<rparr>"
| "store m (StoreParamRead x) =
    m\<lparr>m_param_request_read := fst (deque_push_back (m_param_request_read m) x)\<rparr>"
| "store m (StoreParamList x) = m\<lparr>m_param_request_list := Some x\<rparr>"
| "store m (StoreParamSet x) = m\<lparr>m_param_set := fst (deque_push_back (m_param_set m) x)\<rparr>"
| "store m (StoreTimesync x) = m\<lparr>m_timesync := Some x\<rparr>"
| "store m (StoreOffboard x) = m\<lparr>m_offboard_control := Some x\<rparr>"
| "store m (StoreCmd x) = m\<lparr>m_cmd := Some x\<rparr>"
| "store m (StoreAuxCmd x) = m\<lparr>m_aux_cmd := Some x\<rparr>"
| "store m (StoreExternalAttitude x) = m\<lparr>m_external_attitude := Some x\<rparr>"

definition take_heartbeat :: "messages \<Rightarrow> heartbeat_msg option \<times> messages" where
  "take_heartbeat m = (m_heartbeat m, m\<lparr>m_heartbeat := None\<rparr>)"

definition take_param_read :: "messages \<Rightarrow> param_request_read_msg option \<times> messages" where
  "take_param_read m = (let (x, d) = deque_pop_front (m_param_request_read m)
    in (x, m\<lparr>m_param_request_read := d\<rparr>))"

definition take_param_list :: "messages \<Rightarrow> param_request_list_msg option \<times> messages" where
  "take_param_list m = (m_param_request_list m, m\<lparr>m_param_request_list := None\<rparr>)"

definition take_param_set :: "messages \<Rightarrow> param_set_msg option \<times> messages" where
  "take_param_set m = (let (x, d) = deque_pop_front (m_param_set m) in (x, m\<lparr>m_param_set := d\<rparr>))"

definition take_timesync :: "messages \<Rightarrow> timesync_msg option \<times> messages" where
  "take_timesync m = (m_timesync m, m\<lparr>m_timesync := None\<rparr>)"

definition take_offboard :: "messages \<Rightarrow> offboard_control_msg option \<times> messages" where
  "take_offboard m = (m_offboard_control m, m\<lparr>m_offboard_control := None\<rparr>)"

definition take_cmd :: "messages \<Rightarrow> rosflight_cmd option \<times> messages" where
  "take_cmd m = (m_cmd m, m\<lparr>m_cmd := None\<rparr>)"

definition take_aux_cmd :: "messages \<Rightarrow> rosflight_aux_cmd_msg option \<times> messages" where
  "take_aux_cmd m = (m_aux_cmd m, m\<lparr>m_aux_cmd := None\<rparr>)"

definition take_external_attitude :: "messages \<Rightarrow> external_attitude_msg option \<times> messages" where
  "take_external_attitude m = (m_external_attitude m, m\<lparr>m_external_attitude := None\<rparr>)"

lemmas take_defs = take_heartbeat_def take_param_read_def take_param_list_def take_param_set_def
  take_timesync_def take_offboard_def take_cmd_def take_aux_cmd_def take_external_attitude_def

lemma store_pending: "has_pending m \<Longrightarrow> has_pending (store m x)"
  by (cases x) (auto simp: has_pending_def deque_push_back_def)

end
