(* ===== verification/Event_Queues.thy ===== *)
theory Event_Queues
  imports Messages
begin

text \<open>
  The event queues of \<^verbatim>\<open>events.rs\<close> through which the systems of a loop talk to each
  other: \<^verbatim>\<open>EventQueue<T, N>\<close> over a bounded deque, the event structs, the queue groups of
  the components and their capacities. The locale \<open>event_channel\<close> states what the clients
  rely on: first in, first out, and a refused push only when the queue is full.
\<close>

section \<open>Event queues\<close>

type_synonym 'a event_queue = "'a deque"

datatype event_queue_error = Full

definition eq_new :: "nat \<Rightarrow> 'a event_queue" where
  "eq_new n = deque_new n"

definition eq_push :: "'a event_queue \<Rightarrow> 'a \<Rightarrow> 'a event_queue \<times> (event_queue_error + unit)" where
  "eq_push q x = (case deque_push_back q x of
     (d, True) \<Rightarrow> (d, Inr ())
   | (d, False) \<Rightarrow> (d, Inl Full))"

definition eq_push_or_log :: "'a event_queue \<Rightarrow> 'a \<Rightarrow> 'a event_queue \<times> bool" where
  "eq_push_or_log q x = (case eq_push q x of (d, Inr _) \<Rightarrow> (d, True) | (d, Inl _) \<Rightarrow> (d, False))"

definition eq_pop :: "'a event_queue \<Rightarrow> 'a option \<times> 'a event_queue" where
  "eq_pop q = deque_pop_front q"

definition eq_iter :: "'a event_queue \<Rightarrow> 'a list" where
  "eq_iter q = dq_items q"

definition eq_clear :: "'a event_queue \<Rightarrow> 'a event_queue" where
  "eq_clear q = deque_clear q"

definition eq_len :: "'a event_queue \<Rightarrow> nat" where
  "eq_len q = length (dq_items q)"

definition eq_is_empty :: "'a event_queue \<Rightarrow> bool" where
  "eq_is_empty q = (dq_items q = [])"

definition eq_is_full :: "'a event_queue \<Rightarrow> bool" where
  "eq_is_full q = (length (dq_items q) = dq_cap q)"

lemmas eq_defs = eq_new_def eq_push_def eq_push_or_log_def eq_pop_def eq_iter_def eq_clear_def
  eq_len_def eq_is_empty_def eq_is_full_def

section \<open>Events\<close>

record param_set_requested =
  psr_value :: param_value
  psr_param_id_bytes :: "u8 list"

record param_read_requested =
  prq_identifier :: param_identifier

record param_changed =
  pc_id :: param_id
  pc_old :: param_value
  pc_new :: param_value
  pc_param_id_bytes :: "u8 list"

datatype param_list_requested = ParamListRequested

record calibration_requested =
  cal_command :: rosflight_cmd

record offboard_control_requested =
  ocr_now_us :: u64
  ocr_msg :: offboard_control_msg

record param_defaults_requested =
  pdr_command :: rosflight_cmd

record board_command_requested =
  bcr_command :: rosflight_cmd

record rc_trim_calibration_requested =
  rtc_command :: rosflight_cmd

record version_requested =
  vr_command :: rosflight_cmd

record reset_origin_requested =
  ror_command :: rosflight_cmd

record config_info_requested =
  cir_command :: rosflight_cmd

record companion_heartbeat_received =
  chr_msg :: heartbeat_msg

record aux_command_received =
  acr_msg :: rosflight_aux_cmd_msg

record external_attitude_received =
  ear_msg :: external_attitude_msg

text \<open>The text of a version message is a parameter where it is made: the build generates it.\<close>

datatype comm_response = RespParamValue param_value_msg | RespCmdAck rosflight_cmd_ack_msg
  | RespVersion "u8 list" | RespStatustext statustext_msg | RespHardError rosflight_hard_error_msg

section \<open>Capacities and queue groups\<close>

definition PARAM_SET_REQUEST_QUEUE_CAPACITY :: nat where
  "PARAM_SET_REQUEST_QUEUE_CAPACITY = PARAM_SET_EVENT_QUEUE_CAPACITY"
definition PARAM_READ_REQUEST_QUEUE_CAPACITY :: nat where
  "PARAM_READ_REQUEST_QUEUE_CAPACITY = PARAM_READ_INGRESS_QUEUE_CAPACITY"
definition PARAM_LIST_REQUEST_QUEUE_CAPACITY :: nat where
  "PARAM_LIST_REQUEST_QUEUE_CAPACITY = 2"
definition PARAM_CHANGED_QUEUE_CAPACITY :: nat where
  "PARAM_CHANGED_QUEUE_CAPACITY = 8"
definition COMM_RESPONSE_QUEUE_CAPACITY :: nat where
  "COMM_RESPONSE_QUEUE_CAPACITY = PARAM_SET_BURST_QUEUE_CAPACITY"
definition CALIBRATION_REQUEST_QUEUE_CAPACITY :: nat where
  "CALIBRATION_REQUEST_QUEUE_CAPACITY = 4"
definition OFFBOARD_CONTROL_REQUEST_QUEUE_CAPACITY :: nat where
  "OFFBOARD_CONTROL_REQUEST_QUEUE_CAPACITY = 4"
definition PARAM_DEFAULTS_REQUEST_QUEUE_CAPACITY :: nat where
  "PARAM_DEFAULTS_REQUEST_QUEUE_CAPACITY = 2"
definition BOARD_COMMAND_REQUEST_QUEUE_CAPACITY :: nat where
  "BOARD_COMMAND_REQUEST_QUEUE_CAPACITY = 4"
definition RC_TRIM_CALIBRATION_REQUEST_QUEUE_CAPACITY :: nat where
  "RC_TRIM_CALIBRATION_REQUEST_QUEUE_CAPACITY = 2"
definition VERSION_REQUEST_QUEUE_CAPACITY :: nat where
  "VERSION_REQUEST_QUEUE_CAPACITY = 2"
definition RESET_ORIGIN_REQUEST_QUEUE_CAPACITY :: nat where
  "RESET_ORIGIN_REQUEST_QUEUE_CAPACITY = 2"
definition CONFIG_INFO_REQUEST_QUEUE_CAPACITY :: nat where
  "CONFIG_INFO_REQUEST_QUEUE_CAPACITY = 2"
definition COMPANION_HEARTBEAT_QUEUE_CAPACITY :: nat where
  "COMPANION_HEARTBEAT_QUEUE_CAPACITY = 2"
definition AUX_COMMAND_QUEUE_CAPACITY :: nat where
  "AUX_COMMAND_QUEUE_CAPACITY = 2"
definition EXTERNAL_ATTITUDE_QUEUE_CAPACITY :: nat where
  "EXTERNAL_ATTITUDE_QUEUE_CAPACITY = 2"

record param_event_queues =
  set_requests :: "param_set_requested event_queue"
  read_requests :: "param_read_requested event_queue"
  list_requests :: "param_list_requested event_queue"
  changes :: "param_changed event_queue"
  full_refresh :: bool

record comm_event_queues =
  responses :: "comm_response event_queue"

record companion_event_queues =
  heartbeats :: "companion_heartbeat_received event_queue"
  aux_commands :: "aux_command_received event_queue"
  external_attitudes :: "external_attitude_received event_queue"

record command_event_queues =
  calibration_requests :: "calibration_requested event_queue"
  offboard_control_requests :: "offboard_control_requested event_queue"
  param_defaults_requests :: "param_defaults_requested event_queue"
  board_command_requests :: "board_command_requested event_queue"
  rc_trim_calibration_requests :: "rc_trim_calibration_requested event_queue"
  version_requests :: "version_requested event_queue"
  reset_origin_requests :: "reset_origin_requested event_queue"
  config_info_requests :: "config_info_requested event_queue"

definition param_event_queues_new :: param_event_queues where
  "param_event_queues_new = \<lparr>set_requests = eq_new PARAM_SET_REQUEST_QUEUE_CAPACITY,
    read_requests = eq_new PARAM_READ_REQUEST_QUEUE_CAPACITY,
    list_requests = eq_new PARAM_LIST_REQUEST_QUEUE_CAPACITY,
    changes = eq_new PARAM_CHANGED_QUEUE_CAPACITY, full_refresh = False\<rparr>"

definition comm_event_queues_new :: comm_event_queues where
  "comm_event_queues_new = \<lparr>responses = eq_new COMM_RESPONSE_QUEUE_CAPACITY\<rparr>"

definition companion_event_queues_new :: companion_event_queues where
  "companion_event_queues_new = \<lparr>heartbeats = eq_new COMPANION_HEARTBEAT_QUEUE_CAPACITY,
    aux_commands = eq_new AUX_COMMAND_QUEUE_CAPACITY,
    external_attitudes = eq_new EXTERNAL_ATTITUDE_QUEUE_CAPACITY\<rparr>"

definition command_event_queues_new :: command_event_queues where
  "command_event_queues_new =
    \<lparr>calibration_requests = eq_new CALIBRATION_REQUEST_QUEUE_CAPACITY,
     offboard_control_requests = eq_new OFFBOARD_CONTROL_REQUEST_QUEUE_CAPACITY,
     param_defaults_requests = eq_new PARAM_DEFAULTS_REQUEST_QUEUE_CAPACITY,
     board_command_requests = eq_new BOARD_COMMAND_REQUEST_QUEUE_CAPACITY,
     rc_trim_calibration_requests = eq_new RC_TRIM_CALIBRATION_REQUEST_QUEUE_CAPACITY,
     version_requests = eq_new VERSION_REQUEST_QUEUE_CAPACITY,
     reset_origin_requests = eq_new RESET_ORIGIN_REQUEST_QUEUE_CAPACITY,
     config_info_requests = eq_new CONFIG_INFO_REQUEST_QUEUE_CAPACITY\<rparr>"

definition param_events_is_empty :: "param_event_queues \<Rightarrow> bool" where
  "param_events_is_empty q = (eq_is_empty (set_requests q) \<and> eq_is_empty (read_requests q)
    \<and> eq_is_empty (list_requests q) \<and> eq_is_empty (changes q) \<and> \<not> full_refresh q)"

definition param_events_clear :: "param_event_queues \<Rightarrow> param_event_queues" where
  "param_events_clear q = q\<lparr>set_requests := eq_clear (set_requests q),
    read_requests := eq_clear (read_requests q), list_requests := eq_clear (list_requests q),
    changes := eq_clear (changes q), full_refresh := False\<rparr>"

definition comm_events_is_empty :: "comm_event_queues \<Rightarrow> bool" where
  "comm_events_is_empty q = eq_is_empty (responses q)"

definition comm_events_clear :: "comm_event_queues \<Rightarrow> comm_event_queues" where
  "comm_events_clear q = q\<lparr>responses := eq_clear (responses q)\<rparr>"

definition companion_events_is_empty :: "companion_event_queues \<Rightarrow> bool" where
  "companion_events_is_empty q = (eq_is_empty (heartbeats q) \<and> eq_is_empty (aux_commands q)
    \<and> eq_is_empty (external_attitudes q))"

definition companion_events_clear :: "companion_event_queues \<Rightarrow> companion_event_queues" where
  "companion_events_clear q = q\<lparr>heartbeats := eq_clear (heartbeats q),
    aux_commands := eq_clear (aux_commands q),
    external_attitudes := eq_clear (external_attitudes q)\<rparr>"

definition command_events_is_empty :: "command_event_queues \<Rightarrow> bool" where
  "command_events_is_empty q = (eq_is_empty (calibration_requests q)
    \<and> eq_is_empty (offboard_control_requests q) \<and> eq_is_empty (param_defaults_requests q)
    \<and> eq_is_empty (board_command_requests q) \<and> eq_is_empty (rc_trim_calibration_requests q)
    \<and> eq_is_empty (version_requests q) \<and> eq_is_empty (reset_origin_requests q)
    \<and> eq_is_empty (config_info_requests q))"

section \<open>What a channel promises\<close>

locale event_channel =
  fixes send :: "'q \<Rightarrow> 'a \<Rightarrow> 'q \<times> bool"
    and recv :: "'q \<Rightarrow> 'a option \<times> 'q"
    and pending :: "'q \<Rightarrow> 'a list"
    and room :: "'q \<Rightarrow> nat"
  assumes send_room: "length (pending q) < room q \<Longrightarrow>
      snd (send q x) \<and> pending (fst (send q x)) = pending q @ [x]"
    and send_full: "\<not> length (pending q) < room q \<Longrightarrow> send q x = (q, False)"
    and recv_empty: "pending q = [] \<Longrightarrow> recv q = (None, q)"
    and recv_Cons: "pending q = x # xs \<Longrightarrow>
      fst (recv q) = Some x \<and> pending (snd (recv q)) = xs"
    and room_send: "room (fst (send q x)) = room q"
    and room_recv: "room (snd (recv q)) = room q"

datatype 'a queue_op = Send 'a | Recv

text \<open>
  A run of a channel returns the channel at the end, the events it accepted and the events
  it delivered, both in order.
\<close>

fun run_channel :: "('q \<Rightarrow> 'a \<Rightarrow> 'q \<times> bool) \<Rightarrow> ('q \<Rightarrow> 'a option \<times> 'q) \<Rightarrow> 'q \<Rightarrow> 'a queue_op list
    \<Rightarrow> 'q \<times> 'a list \<times> 'a list" where
  "run_channel snd_op rcv_op q [] = (q, [], [])"
| "run_channel snd_op rcv_op q (Send x # ops) =
    (let (q1, ok) = snd_op q x; (q2, acc, dl) = run_channel snd_op rcv_op q1 ops
     in (q2, if ok then x # acc else acc, dl))"
| "run_channel snd_op rcv_op q (Recv # ops) =
    (let (r, q1) = rcv_op q; (q2, acc, dl) = run_channel snd_op rcv_op q1 ops
     in (q2, acc, case r of None \<Rightarrow> dl | Some x \<Rightarrow> x # dl))"

context event_channel
begin

lemma run_fifo:
  "run_channel send recv q ops = (q', acc, dl) \<Longrightarrow> pending q @ acc = dl @ pending q'"
proof (induction ops arbitrary: q q' acc dl)
  case Nil
  then show ?case by simp
next
  case (Cons op ops)
  show ?case
  proof (cases op)
    case (Send x)
    obtain q1 ok where s: "send q x = (q1, ok)" by (cases "send q x")
    obtain acc1 where r: "run_channel send recv q1 ops = (q', acc1, dl)"
      and a: "acc = (if ok then x # acc1 else acc1)"
      using Cons.prems by (auto simp: Send s split: prod.splits)
    note ih = Cons.IH [OF r]
    show ?thesis
    proof (cases "length (pending q) < room q")
      case True
      from send_room [OF this, of x] ih show ?thesis by (simp add: s a)
    next
      case False
      from send_full [OF this, of x] ih show ?thesis by (simp add: s a)
    qed
  next
    case Recv
    obtain y q1 where s: "recv q = (y, q1)" by (cases "recv q")
    obtain dl1 where r: "run_channel send recv q1 ops = (q', acc, dl1)"
      and a: "dl = (case y of None \<Rightarrow> dl1 | Some x \<Rightarrow> x # dl1)"
      using Cons.prems by (auto simp: Recv s split: prod.splits)
    note ih = Cons.IH [OF r]
    show ?thesis
    proof (cases "pending q")
      case Nil
      from recv_empty [OF this] ih show ?thesis by (simp add: s a)
    next
      case (Cons x xs)
      from recv_Cons [OF this] ih show ?thesis by (auto simp: s a Cons)
    qed
  qed
qed

lemma send_bounded: "length (pending q) \<le> room q \<Longrightarrow> length (pending (fst (send q x))) \<le> room q"
  by (cases "length (pending q) < room q") (simp_all add: send_room send_full)

lemma recv_bounded: "length (pending q) \<le> room q \<Longrightarrow> length (pending (snd (recv q))) \<le> room q"
proof (cases "pending q")
  case (Cons x xs)
  from recv_Cons [OF this] show "length (pending q) \<le> room q \<Longrightarrow> ?thesis" by (simp add: Cons)
qed (simp add: recv_empty)

lemma run_bounded:
  "run_channel send recv q ops = (q', acc, dl) \<Longrightarrow> length (pending q) \<le> room q \<Longrightarrow>
    room q' = room q \<and> length (pending q') \<le> room q"
proof (induction ops arbitrary: q q' acc dl)
  case Nil
  then show ?case by simp
next
  case (Cons op ops)
  define q1 where "q1 = (case op of Send x \<Rightarrow> fst (send q x) | Recv \<Rightarrow> snd (recv q))"
  have room: "room q1 = room q" by (simp add: q1_def room_send room_recv split: queue_op.split)
  have len: "length (pending q1) \<le> room q1" using Cons.prems(2)
    by (auto simp: q1_def room_send room_recv send_bounded recv_bounded split: queue_op.split)
  obtain acc1 dl1 where "run_channel send recv q1 ops = (q', acc1, dl1)"
    using Cons.prems(1) by (cases op) (auto simp: q1_def split: prod.splits)
  from Cons.IH [OF this len] show ?case by (simp only: room)
qed

end

interpretation eq_channel: event_channel eq_push_or_log eq_pop eq_iter dq_cap
proof unfold_locales
  fix q :: "'a event_queue" and x xs
  show "length (eq_iter q) < dq_cap q \<Longrightarrow>
      snd (eq_push_or_log q x) \<and> eq_iter (fst (eq_push_or_log q x)) = eq_iter q @ [x]"
    by (simp add: eq_defs deque_defs)
  show "\<not> length (eq_iter q) < dq_cap q \<Longrightarrow> eq_push_or_log q x = (q, False)"
    by (simp add: eq_defs deque_defs)
  show "eq_iter q = [] \<Longrightarrow> eq_pop q = (None, q)"
    by (simp add: eq_defs deque_defs)
  show "eq_iter q = x # xs \<Longrightarrow> fst (eq_pop q) = Some x \<and> eq_iter (snd (eq_pop q)) = xs"
    by (simp add: eq_defs deque_defs)
  show "dq_cap (fst (eq_push_or_log q x)) = dq_cap q"
    by (simp add: eq_defs deque_defs)
  show "dq_cap (snd (eq_pop q)) = dq_cap q"
    by (simp add: eq_defs deque_defs split: list.split)
qed

text \<open>
  Whatever operations run on an event queue, what it held and accepted is, in order,
  what it delivered followed by what it still holds: no event is lost, doubled or
  reordered. It never holds more than its capacity, and it refuses a push exactly when it
  is full.
\<close>

theorem event_queue_fifo:
  assumes "run_channel eq_push_or_log eq_pop q ops = (q', acc, dl)" and "eq_len q \<le> dq_cap q"
  shows "eq_iter q @ acc = dl @ eq_iter q' \<and> eq_len q' \<le> dq_cap q
    \<and> (snd (eq_push_or_log q' x) \<longleftrightarrow> \<not> eq_is_full q')"
proof (intro conjI)
  have bounded: "dq_cap q' = dq_cap q \<and> length (eq_iter q') \<le> dq_cap q"
    using eq_channel.run_bounded [OF assms(1)] assms(2) by (simp add: eq_len_def eq_iter_def)
  show "eq_iter q @ acc = dl @ eq_iter q'" by (rule eq_channel.run_fifo [OF assms(1)])
  show "eq_len q' \<le> dq_cap q" using bounded by (simp add: eq_len_def eq_iter_def)
  show "snd (eq_push_or_log q' x) \<longleftrightarrow> \<not> eq_is_full q'"
    using bounded by (auto simp: eq_defs deque_defs)
qed

theorem event_queue_fifo_witness:
  "eq_iter (eq_new 2 :: nat event_queue) @ [1, 2, 4] = [1] @ eq_iter \<lparr>dq_cap = 2, dq_items = [2, 4]\<rparr>
    \<and> eq_len \<lparr>dq_cap = 2, dq_items = [2, 4 :: nat]\<rparr> \<le> 2
    \<and> (snd (eq_push_or_log \<lparr>dq_cap = 2, dq_items = [2, 4 :: nat]\<rparr> 9)
        \<longleftrightarrow> \<not> eq_is_full \<lparr>dq_cap = 2, dq_items = [2, 4 :: nat]\<rparr>)"
proof -
  have r: "run_channel eq_push_or_log eq_pop (eq_new 2) [Send 1, Send 2, Send (3::nat), Recv, Send 4]
      = (\<lparr>dq_cap = 2, dq_items = [2, 4]\<rparr>, [1, 2, 4], [1])"
    by (simp add: eq_defs deque_defs)
  have l: "eq_len (eq_new 2 :: nat event_queue) \<le> dq_cap (eq_new 2 :: nat event_queue)"
    by (simp add: eq_defs deque_defs)
  from event_queue_fifo [OF r l] show ?thesis by (simp add: eq_defs deque_defs)
qed

section \<open>Draining a queue\<close>

text \<open>
  The loop \<^verbatim>\<open>while let Some(e) = queue.pop()\<close> of the services, whose body works on a state
  that does not include the queue. It ends because every turn takes an event away.
\<close>

function drain :: "('a \<Rightarrow> 's \<Rightarrow> 's) \<Rightarrow> 'a event_queue \<Rightarrow> 's \<Rightarrow> 'a event_queue \<times> 's" where
  "drain body q s = (case eq_pop q of (None, q') \<Rightarrow> (q', s) | (Some e, q') \<Rightarrow> drain body q' (body e s))"
  by pat_completeness auto
termination
  by (relation "measure (\<lambda>(body, q, s). eq_len q)")
     (auto simp: eq_defs deque_defs split: list.splits)

declare drain.simps [simp del]

lemma drain_fold: "drain body q s = (eq_clear q, fold body (eq_iter q) s)"
proof (induction "eq_iter q" arbitrary: q s)
  case Nil
  then show ?case by (subst drain.simps, cases q) (simp add: eq_defs deque_defs)
next
  case (Cons e es)
  define q' where "q' = q\<lparr>dq_items := es\<rparr>"
  have q': "eq_pop q = (Some e, q')" "eq_iter q' = es" "eq_clear q' = eq_clear q"
    using Cons.hyps(2) [symmetric] by (simp_all add: q'_def eq_defs deque_defs)
  have "drain body q s = drain body q' (body e s)" by (subst drain.simps) (simp add: q')
  also have "\<dots> = (eq_clear q, fold body es (body e s))"
    using Cons.hyps(1) [of q'] by (simp add: q')
  finally show ?case by (simp add: Cons.hyps(2) [symmetric])
qed

lemma event_queue_cap [simp]:
  "dq_cap (fst (eq_push_or_log q x)) = dq_cap q" "dq_cap (eq_clear q) = dq_cap q"
  by (simp_all add: eq_channel.room_send eq_clear_def deque_clear_def)

lemma eq_push_or_log_pair:
  "eq_push_or_log q x = (if length (dq_items q) < dq_cap q
     then (q\<lparr>dq_items := dq_items q @ [x]\<rparr>, True) else (q, False))"
  by (simp add: eq_defs deque_defs)

end
