(* ===== verification/Log.thy ===== *)
theory Log
  imports Event_Queues
begin

text \<open>
  The logger of \<^verbatim>\<open>log.rs\<close> and \<^verbatim>\<open>log/drain.rs\<close>: the fixed string buffer that truncates, the
  ring buffer of 16 records that overwrites the oldest, the call that formats and queues a
  record, and the drain that turns one record per loop into a response for the companion.
  The locale \<open>lossy_log\<close> states the contract of a buffer that keeps the newest records; the
  ring buffer is shown to meet it through its contents as a list.
\<close>

section \<open>Log strings\<close>

definition LOG_QUEUE_SIZE :: nat where "LOG_QUEUE_SIZE = 16"
definition MAX_LOG_LEN :: nat where "MAX_LOG_LEN = 50"

record log_string =
  ls_buffer :: "u8 list"
  ls_len :: nat

definition log_string_new :: log_string where
  "log_string_new = \<lparr>ls_buffer = replicate MAX_LOG_LEN 0, ls_len = 0\<rparr>"

definition as_str :: "log_string \<Rightarrow> u8 list" where
  "as_str s = take (ls_len s) (ls_buffer s)"

datatype fmt_error = FmtError

definition write_str :: "log_string \<Rightarrow> u8 list \<Rightarrow> log_string \<times> (fmt_error + unit)" where
  "write_str s bytes =
    (let remaining = MAX_LOG_LEN - ls_len s; copy_len = min (length bytes) remaining;
         s' = \<lparr>ls_buffer = take (ls_len s) (ls_buffer s) @ take copy_len bytes
                 @ drop (ls_len s + copy_len) (ls_buffer s),
               ls_len = ls_len s + copy_len\<rparr>
     in (s', if length bytes > remaining then Inl FmtError else Inr ()))"

text \<open>
  \<^verbatim>\<open>core::fmt::Write::write_fmt\<close> writes the pieces of the formatted text one after the other
  and stops at the first error.
\<close>

fun write_fmt :: "log_string \<Rightarrow> u8 list list \<Rightarrow> log_string \<times> (fmt_error + unit)" where
  "write_fmt s [] = (s, Inr ())"
| "write_fmt s (p # ps) = (case write_str s p of
     (s', Inl e) \<Rightarrow> (s', Inl e)
   | (s', Inr _) \<Rightarrow> write_fmt s' ps)"

definition wf_log_string :: "log_string \<Rightarrow> bool" where
  "wf_log_string s \<longleftrightarrow> length (ls_buffer s) = MAX_LOG_LEN \<and> ls_len s \<le> MAX_LOG_LEN"

lemma wf_log_string_new [simp]: "wf_log_string log_string_new"
  by (simp add: wf_log_string_def log_string_new_def)

lemma write_str_appends:
  assumes "wf_log_string s"
  shows "wf_log_string (fst (write_str s p))
    \<and> as_str (fst (write_str s p)) = take MAX_LOG_LEN (as_str s @ p)
    \<and> (snd (write_str s p) = Inr () \<longleftrightarrow> ls_len s + length p \<le> MAX_LOG_LEN)"
  using assms by (auto simp: wf_log_string_def write_str_def as_str_def Let_def min_def)

lemma write_str_full:
  assumes "wf_log_string s" and "ls_len s + length p > MAX_LOG_LEN"
  shows "length (as_str (fst (write_str s p))) = MAX_LOG_LEN"
  using assms by (auto simp: wf_log_string_def write_str_def as_str_def Let_def min_def)

lemma write_fmt_appends:
  "wf_log_string s \<Longrightarrow> wf_log_string (fst (write_fmt s ps))
    \<and> as_str (fst (write_fmt s ps)) = take MAX_LOG_LEN (as_str s @ concat ps)"
proof (induction ps arbitrary: s)
  case Nil
  then show ?case by (auto simp: wf_log_string_def as_str_def min_def)
next
  case (Cons p ps)
  obtain s' r where w: "write_str s p = (s', r)" by (cases "write_str s p")
  from write_str_appends [OF Cons.prems, of p] have s': "wf_log_string s'"
    "as_str s' = take MAX_LOG_LEN (as_str s @ p)"
    "r = Inr () \<longleftrightarrow> ls_len s + length p \<le> MAX_LOG_LEN" by (simp_all add: w)
  have len: "length (as_str s) = ls_len s"
    using Cons.prems by (simp add: wf_log_string_def as_str_def min_def)
  show ?case
  proof (cases r)
    case (Inl e)
    with s'(3) have "MAX_LOG_LEN \<le> length (as_str s @ p)" by (simp add: len)
    with Inl s' show ?thesis by (simp add: w)
  next
    case (Inr u)
    with s'(3) have "length (as_str s @ p) \<le> MAX_LOG_LEN" by (simp add: len)
    with Inr s' Cons.IH [OF s'(1)] show ?thesis by (simp add: w)
  qed
qed

section \<open>The ring buffer\<close>

record log_entry =
  le_severity :: mav_severity
  le_message :: log_string

definition log_entry_empty :: log_entry where
  "log_entry_empty = \<lparr>le_severity = Info, le_message = log_string_new\<rparr>"

record log_queue =
  lq_storage :: "log_entry list"
  lq_head :: nat
  lq_tail :: nat
  lq_full :: bool

definition log_queue_new :: log_queue where
  "log_queue_new = \<lparr>lq_storage = replicate LOG_QUEUE_SIZE log_entry_empty,
    lq_head = 0, lq_tail = 0, lq_full = False\<rparr>"

definition log_push :: "log_queue \<Rightarrow> log_entry \<Rightarrow> log_queue" where
  "log_push q e =
    (let storage = (lq_storage q)[lq_head q := e];
         head = (lq_head q + 1) mod LOG_QUEUE_SIZE;
         tail = (if lq_full q then (lq_tail q + 1) mod LOG_QUEUE_SIZE else lq_tail q)
     in \<lparr>lq_storage = storage, lq_head = head, lq_tail = tail, lq_full = (head = tail)\<rparr>)"

definition log_pop :: "log_queue \<Rightarrow> log_entry option \<times> log_queue" where
  "log_pop q =
    (if \<not> lq_full q \<and> lq_head q = lq_tail q then (None, q)
     else (Some (lq_storage q ! lq_tail q),
           q\<lparr>lq_tail := (lq_tail q + 1) mod LOG_QUEUE_SIZE, lq_full := False\<rparr>))"

text \<open>\<^verbatim>\<open>Logger::log\<close>, with the pieces of the formatted text; a write error is ignored.\<close>

definition logger_log :: "log_queue \<Rightarrow> mav_severity \<Rightarrow> u8 list list \<Rightarrow> log_queue" where
  "logger_log q sev args = log_push q \<lparr>le_severity = sev,
     le_message = fst (write_fmt (le_message log_entry_empty) args)\<rparr>"

definition wf_log_queue :: "log_queue \<Rightarrow> bool" where
  "wf_log_queue q \<longleftrightarrow> length (lq_storage q) = LOG_QUEUE_SIZE \<and> lq_head q < LOG_QUEUE_SIZE
    \<and> lq_tail q < LOG_QUEUE_SIZE \<and> (lq_full q \<longrightarrow> lq_head q = lq_tail q)"

definition log_count :: "log_queue \<Rightarrow> nat" where
  "log_count q = (if lq_full q then LOG_QUEUE_SIZE
     else if lq_tail q \<le> lq_head q then lq_head q - lq_tail q
     else LOG_QUEUE_SIZE + lq_head q - lq_tail q)"

definition log_contents :: "log_queue \<Rightarrow> log_entry list" where
  "log_contents q = map (\<lambda>i. lq_storage q ! ((lq_tail q + i) mod LOG_QUEUE_SIZE)) [0..<log_count q]"

section \<open>A buffer that keeps the newest\<close>

lemma drop_newest:
  "drop (Suc (length (drop (length c - n) c)) - n) (drop (length c - n) c @ [e])
    = drop (Suc (length c) - n) (c @ [e])"
proof (cases "n \<le> length c")
  case True
  then have k: "Suc (length c) - n = Suc (length c - n)" "length (drop (length c - n) c) = n"
    by (simp_all add: Suc_diff_le)
  have "drop (Suc (length c - n)) (c @ [e]) = drop 1 (drop (length c - n) (c @ [e]))" by simp
  also have "\<dots> = drop 1 (drop (length c - n) c @ [e])" by (simp only: drop_append) simp
  finally show ?thesis by (simp only: k) simp
qed simp

locale lossy_log =
  fixes inv :: "'q \<Rightarrow> bool"
    and put :: "'q \<Rightarrow> 'e \<Rightarrow> 'q"
    and get :: "'q \<Rightarrow> 'e option \<times> 'q"
    and contents :: "'q \<Rightarrow> 'e list"
    and size :: nat
  assumes inv_put: "inv q \<Longrightarrow> inv (put q e)"
    and inv_get: "inv q \<Longrightarrow> inv (snd (get q))"
    and bounded: "inv q \<Longrightarrow> length (contents q) \<le> size"
    and contents_put: "inv q \<Longrightarrow>
      contents (put q e) = drop (Suc (length (contents q)) - size) (contents q @ [e])"
    and get_empty: "inv q \<Longrightarrow> contents q = [] \<Longrightarrow> get q = (None, q)"
    and get_Cons: "inv q \<Longrightarrow> contents q = e # es \<Longrightarrow>
      fst (get q) = Some e \<and> contents (snd (get q)) = es"
begin

lemma inv_puts: "inv q \<Longrightarrow> inv (foldl put q es)"
  by (induction es arbitrary: q) (simp_all add: inv_put)

lemma contents_puts:
  "inv q \<Longrightarrow> contents (foldl put q es) = drop (length (contents q) + length es - size) (contents q @ es)"
proof (induction es rule: rev_induct)
  case Nil
  with bounded [of q] show ?case by simp
next
  case (snoc e es)
  let ?c = "contents q @ es"
  from snoc have c: "contents (foldl put q es) = drop (length ?c - size) ?c" by simp
  have "contents (foldl put q (es @ [e]))
      = drop (Suc (length (drop (length ?c - size) ?c)) - size) (drop (length ?c - size) ?c @ [e])"
    by (simp add: contents_put [OF inv_puts [OF snoc.prems]] c)
  also have "\<dots> = drop (Suc (length ?c) - size) (?c @ [e])" by (rule drop_newest)
  finally show ?case by simp
qed

end

lemma ring_index: "t < LOG_QUEUE_SIZE \<Longrightarrow> i \<le> LOG_QUEUE_SIZE \<Longrightarrow> (t + i) mod LOG_QUEUE_SIZE =
    (if t + i < LOG_QUEUE_SIZE then t + i else t + i - LOG_QUEUE_SIZE)"
  by (auto simp: LOG_QUEUE_SIZE_def mod_if)

lemma wf_log_queue_new [simp]: "wf_log_queue log_queue_new"
  by (simp add: wf_log_queue_def log_queue_new_def LOG_QUEUE_SIZE_def)

lemma log_contents_new [simp]: "log_contents log_queue_new = []"
  by (simp add: log_contents_def log_queue_new_def log_count_def)

lemma wf_log_push: "wf_log_queue q \<Longrightarrow> wf_log_queue (log_push q e)"
  by (auto simp: wf_log_queue_def log_push_def Let_def LOG_QUEUE_SIZE_def)

lemma wf_log_pop: "wf_log_queue q \<Longrightarrow> wf_log_queue (snd (log_pop q))"
  by (auto simp: wf_log_queue_def log_pop_def LOG_QUEUE_SIZE_def)

lemma log_count_le: "wf_log_queue q \<Longrightarrow> log_count q \<le> LOG_QUEUE_SIZE"
  by (auto simp: wf_log_queue_def log_count_def)

lemma length_log_contents [simp]: "length (log_contents q) = log_count q"
  by (simp add: log_contents_def)

lemma log_contents_nth:
  "i < log_count q \<Longrightarrow> log_contents q ! i = lq_storage q ! ((lq_tail q + i) mod LOG_QUEUE_SIZE)"
  by (simp add: log_contents_def)

lemma log_count_push:
  "wf_log_queue q \<Longrightarrow> log_count (log_push q e) = min LOG_QUEUE_SIZE (Suc (log_count q))"
  by (auto simp: wf_log_queue_def log_push_def Let_def log_count_def LOG_QUEUE_SIZE_def mod_if
      split: if_splits)

lemma log_not_full: "wf_log_queue q \<Longrightarrow> \<not> lq_full q \<Longrightarrow> log_count q < LOG_QUEUE_SIZE"
  by (auto simp: wf_log_queue_def log_count_def)

lemma log_head: "wf_log_queue q \<Longrightarrow> (lq_tail q + log_count q) mod LOG_QUEUE_SIZE = lq_head q"
  by (auto simp: wf_log_queue_def log_count_def LOG_QUEUE_SIZE_def mod_if)

lemma ring_distinct:
  assumes "i < n" and "n < i + LOG_QUEUE_SIZE"
  shows "(t + i) mod LOG_QUEUE_SIZE \<noteq> (t + n) mod LOG_QUEUE_SIZE"
proof
  assume "(t + i) mod LOG_QUEUE_SIZE = (t + n) mod LOG_QUEUE_SIZE"
  moreover have "t + i \<le> t + n" using assms by simp
  ultimately have "LOG_QUEUE_SIZE dvd (t + n) - (t + i)"
    by (metis mod_eq_dvd_iff_nat)
  with assms show False by (auto dest!: dvd_imp_le)
qed

lemma log_contents_push_room:
  assumes wf: "wf_log_queue q" and nf: "\<not> lq_full q"
  shows "log_contents (log_push q e) = log_contents q @ [e]"
proof (rule nth_equalityI)
  have n: "log_count q < LOG_QUEUE_SIZE" by (rule log_not_full [OF wf nf])
  show "length (log_contents (log_push q e)) = length (log_contents q @ [e])"
    using n by (simp add: log_count_push [OF wf])
  fix i assume "i < length (log_contents (log_push q e))"
  with n have i: "i \<le> log_count q" "i < log_count (log_push q e)" by (auto simp: log_count_push [OF wf])
  have push: "lq_storage (log_push q e) = (lq_storage q)[lq_head q := e]"
    "lq_tail (log_push q e) = lq_tail q" using nf by (simp_all add: log_push_def Let_def)
  have st: "lq_head q < length (lq_storage q)" "lq_tail q < LOG_QUEUE_SIZE"
    using wf by (simp_all add: wf_log_queue_def)
  show "log_contents (log_push q e) ! i = (log_contents q @ [e]) ! i"
  proof (cases "i = log_count q")
    case True
    have "log_contents (log_push q e) ! i = e"
      by (simp only: log_contents_nth [OF i(2)] push) (simp add: True log_head [OF wf] st)
    then show ?thesis by (simp add: True nth_append)
  next
    case False
    with i have l: "i < log_count q" by simp
    from n have "log_count q < i + LOG_QUEUE_SIZE" by simp
    from ring_distinct [OF l this, of "lq_tail q"]
    have "(lq_tail q + i) mod LOG_QUEUE_SIZE \<noteq> lq_head q"
      by (simp add: log_head [OF wf])
    with l show ?thesis
      by (simp add: log_contents_nth [OF i(2)] log_contents_nth [OF l] push nth_append)
  qed
qed

lemma log_contents_push_full:
  assumes wf: "wf_log_queue q" and full: "lq_full q"
  shows "log_contents (log_push q e) = drop 1 (log_contents q @ [e])"
proof (rule nth_equalityI)
  have n: "log_count q = LOG_QUEUE_SIZE" using full by (simp add: log_count_def)
  show "length (log_contents (log_push q e)) = length (drop 1 (log_contents q @ [e]))"
    by (simp add: log_count_push [OF wf] n)
  fix i assume "i < length (log_contents (log_push q e))"
  then have i: "i < LOG_QUEUE_SIZE" "i < log_count (log_push q e)"
    by (simp_all add: log_count_push [OF wf] n)
  have push: "lq_storage (log_push q e) = (lq_storage q)[lq_head q := e]"
    "lq_tail (log_push q e) = (lq_tail q + 1) mod LOG_QUEUE_SIZE"
    using full by (simp_all add: log_push_def Let_def)
  have st: "lq_head q < length (lq_storage q)" "lq_tail q < LOG_QUEUE_SIZE" "lq_head q = lq_tail q"
    using wf full by (simp_all add: wf_log_queue_def)
  have idx: "((lq_tail q + 1) mod LOG_QUEUE_SIZE + i) mod LOG_QUEUE_SIZE
      = (lq_tail q + Suc i) mod LOG_QUEUE_SIZE" by (simp add: mod_simps)
  show "log_contents (log_push q e) ! i = drop 1 (log_contents q @ [e]) ! i"
  proof (cases "Suc i = LOG_QUEUE_SIZE")
    case True
    with st have "(lq_tail q + Suc i) mod LOG_QUEUE_SIZE = lq_head q" by simp
    with True st show ?thesis
      by (simp only: log_contents_nth [OF i(2)] push idx) (simp add: nth_append n)
  next
    case False
    with i have l: "Suc i < log_count q" by (simp add: n)
    have "(lq_tail q + Suc i) mod LOG_QUEUE_SIZE \<noteq> lq_head q"
      using ring_distinct [of "Suc i" LOG_QUEUE_SIZE "lq_tail q"] st l by (simp add: n)
    with l show ?thesis
      by (simp only: log_contents_nth [OF i(2)] push idx)
         (simp add: log_contents_nth [OF l] nth_append)
  qed
qed

lemma log_contents_pop:
  assumes wf: "wf_log_queue q" and c: "log_contents q = e # es"
  shows "fst (log_pop q) = Some e \<and> log_contents (snd (log_pop q)) = es"
proof -
  have n: "log_count q = Suc (length es)" using length_log_contents [of q] by (simp add: c)
  have e: "lq_storage q ! lq_tail q = e"
    using log_contents_nth [of 0 q] wf by (simp add: n c wf_log_queue_def)
  have ne: "\<not> (\<not> lq_full q \<and> lq_head q = lq_tail q)"
    using n by (auto simp: log_count_def LOG_QUEUE_SIZE_def)
  have pop: "log_pop q = (Some e,
      q\<lparr>lq_tail := (lq_tail q + 1) mod LOG_QUEUE_SIZE, lq_full := False\<rparr>)"
    using ne by (simp add: log_pop_def e)
  have cnt: "log_count (snd (log_pop q)) = length es"
    using n wf by (auto simp: pop log_count_def wf_log_queue_def LOG_QUEUE_SIZE_def mod_if
        split: if_splits)
  have "log_contents (snd (log_pop q)) = es"
  proof (rule nth_equalityI)
    show "length (log_contents (snd (log_pop q))) = length es" by (simp add: cnt)
    fix i assume "i < length (log_contents (snd (log_pop q)))"
    then have i: "i < log_count (snd (log_pop q))" "Suc i < log_count q" by (simp_all add: cnt n)
    have "((lq_tail q + 1) mod LOG_QUEUE_SIZE + i) mod LOG_QUEUE_SIZE
        = (lq_tail q + Suc i) mod LOG_QUEUE_SIZE" by (simp add: mod_simps)
    then have "log_contents (snd (log_pop q)) ! i = log_contents q ! Suc i"
      by (simp only: log_contents_nth [OF i(1)] log_contents_nth [OF i(2)]) (simp add: pop)
    then show "log_contents (snd (log_pop q)) ! i = es ! i" by (simp add: c)
  qed
  then show ?thesis by (simp add: pop)
qed

interpretation log_ring: lossy_log wf_log_queue log_push log_pop log_contents LOG_QUEUE_SIZE
proof unfold_locales
  fix q e es
  assume wf: "wf_log_queue q"
  show "wf_log_queue (log_push q e)" by (rule wf_log_push [OF wf])
  show "wf_log_queue (snd (log_pop q))" by (rule wf_log_pop [OF wf])
  show "length (log_contents q) \<le> LOG_QUEUE_SIZE" by (simp add: log_count_le [OF wf])
  show "log_contents (log_push q e)
      = drop (Suc (length (log_contents q)) - LOG_QUEUE_SIZE) (log_contents q @ [e])"
  proof (cases "lq_full q")
    case True
    then have "Suc (log_count q) - LOG_QUEUE_SIZE = 1" by (simp add: log_count_def)
    with log_contents_push_full [OF wf True] show ?thesis by simp
  next
    case False
    from log_not_full [OF wf this] have "Suc (log_count q) - LOG_QUEUE_SIZE = 0" by simp
    with log_contents_push_room [OF wf False] show ?thesis by simp
  qed
  show "log_contents q = [] \<Longrightarrow> log_pop q = (None, q)"
    using wf by (auto simp: log_contents_def log_count_def log_pop_def LOG_QUEUE_SIZE_def
        wf_log_queue_def split: if_splits)
  show "log_contents q = e # es \<Longrightarrow> fst (log_pop q) = Some e \<and> log_contents (snd (log_pop q)) = es"
    by (rule log_contents_pop [OF wf])
qed

text \<open>
  The logger keeps the newest 16 records in the order they were logged, whatever was
  logged, and each record holds the first 50 bytes of its formatted text.
\<close>

theorem logger_keeps_newest:
  "log_contents (foldl (\<lambda>q (sev, args). logger_log q sev args) log_queue_new records)
      = drop (length records - LOG_QUEUE_SIZE)
         (map (\<lambda>(sev, args). \<lparr>le_severity = sev,
            le_message = fst (write_fmt log_string_new args)\<rparr>) records)
    \<and> as_str (fst (write_fmt log_string_new args)) = take MAX_LOG_LEN (concat args)"
proof (intro conjI)
  let ?rec = "\<lambda>(sev, args). \<lparr>le_severity = sev, le_message = fst (write_fmt log_string_new args)\<rparr>"
  have step: "(\<lambda>q (sev, args). logger_log q sev args) = (\<lambda>q r. log_push q (?rec r))"
    by (auto simp: fun_eq_iff logger_log_def log_entry_empty_def)
  have "log_contents (foldl (\<lambda>q (sev, args). logger_log q sev args) log_queue_new records)
      = log_contents (foldl log_push log_queue_new (map ?rec records))"
    by (simp only: step foldl_map)
  also have "\<dots> = drop (length records - LOG_QUEUE_SIZE) (map ?rec records)"
    by (simp add: log_ring.contents_puts [OF wf_log_queue_new])
  finally show "log_contents (foldl (\<lambda>q (sev, args). logger_log q sev args) log_queue_new records)
      = drop (length records - LOG_QUEUE_SIZE) (map ?rec records)" .
  show "as_str (fst (write_fmt log_string_new args)) = take MAX_LOG_LEN (concat args)"
    using write_fmt_appends [OF wf_log_string_new, of args]
    by (simp add: as_str_def log_string_new_def)
qed

section \<open>Draining the log\<close>

definition MAX_LOGS_PER_DRAIN :: nat where "MAX_LOGS_PER_DRAIN = 1"

definition statustext_of :: "log_entry \<Rightarrow> statustext_msg" where
  "statustext_of e = (let bytes = as_str (le_message e); n = min (length bytes) 50 in
    \<lparr>st_severity = le_severity e, st_text = take n bytes @ drop n (replicate 50 0)\<rparr>)"

function drain_loop :: "nat \<Rightarrow> log_queue \<Rightarrow> comm_response event_queue
    \<Rightarrow> nat \<times> log_queue \<times> comm_response event_queue" where
  "drain_loop drained logs resp =
    (if drained < MAX_LOGS_PER_DRAIN then
       (case log_pop logs of
          (None, logs') \<Rightarrow> (drained, logs', resp)
        | (Some e, logs') \<Rightarrow> (case eq_push resp (RespStatustext (statustext_of e)) of
              (resp', Inl _) \<Rightarrow> (drained, logs', resp')
            | (resp', Inr _) \<Rightarrow> drain_loop (drained + 1) logs' resp'))
     else (drained, logs, resp))"
  by pat_completeness auto
termination
  by (relation "measure (\<lambda>(drained, _, _). MAX_LOGS_PER_DRAIN - drained)") auto

declare drain_loop.simps [simp del]

definition drain_logs_to_comm_responses :: "bool \<Rightarrow> log_queue \<Rightarrow> comm_response event_queue
    \<Rightarrow> nat \<times> log_queue \<times> comm_response event_queue" where
  "drain_logs_to_comm_responses connected logs resp =
    (if \<not> connected then (0, logs, resp) else drain_loop 0 logs resp)"

lemma drain_loop_done [simp]: "drain_loop 1 logs resp = (1, logs, resp)"
  by (subst drain_loop.simps) (simp add: MAX_LOGS_PER_DRAIN_def)

text \<open>
  One loop forwards at most one log record: with the companion connected and room in
  the response queue, the oldest record moves from the log to the back of the responses;
  without a connection nothing moves; and when the responses are full the oldest record is
  taken from the log and lost.
\<close>

theorem drain_moves_oldest:
  assumes "wf_log_queue logs" and "log_contents logs = e # es"
  shows "drain_logs_to_comm_responses False logs resp = (0, logs, resp)
    \<and> (\<exists>logs'. log_contents logs' = es \<and> drain_logs_to_comm_responses True logs resp =
        (if eq_len resp < dq_cap resp
         then (1, logs', resp\<lparr>dq_items := eq_iter resp @ [RespStatustext (statustext_of e)]\<rparr>)
         else (0, logs', resp)))"
proof -
  obtain logs' where pop: "log_pop logs = (Some e, logs')" and c: "log_contents logs' = es"
    using log_ring.get_Cons [OF assms] by (metis prod.collapse)
  have "drain_logs_to_comm_responses True logs resp =
      (if eq_len resp < dq_cap resp
       then (1, logs', resp\<lparr>dq_items := eq_iter resp @ [RespStatustext (statustext_of e)]\<rparr>)
       else (0, logs', resp))"
    by (simp add: drain_logs_to_comm_responses_def drain_loop.simps [of 0]
        MAX_LOGS_PER_DRAIN_def pop eq_push_def eq_len_def eq_iter_def deque_push_back_def
        drain_loop_done [simplified])
  with c show ?thesis by (auto simp: drain_logs_to_comm_responses_def)
qed

definition sample_record :: log_entry where
  "sample_record = \<lparr>le_severity = Warning, le_message = fst (write_fmt log_string_new [[104, 105]])\<rparr>"

theorem drain_moves_oldest_witness:
  "drain_logs_to_comm_responses False (log_push log_queue_new sample_record) (eq_new 1)
      = (0, log_push log_queue_new sample_record, eq_new 1)
    \<and> (\<exists>logs'. log_contents logs' = [] \<and>
      drain_logs_to_comm_responses True (log_push log_queue_new sample_record) (eq_new 1) =
        (if eq_len (eq_new 1 :: comm_response event_queue) < dq_cap (eq_new 1 :: comm_response event_queue)
         then (1, logs', (eq_new 1)\<lparr>dq_items := eq_iter (eq_new 1)
             @ [RespStatustext (statustext_of sample_record)]\<rparr>)
         else (0, logs', eq_new 1)))"
proof -
  have "log_contents (log_push log_queue_new sample_record) = [sample_record]"
    using log_ring.contents_put [OF wf_log_queue_new, of sample_record]
    by (simp add: LOG_QUEUE_SIZE_def)
  from drain_moves_oldest [OF wf_log_push [OF wf_log_queue_new] this, of "eq_new 1"] show ?thesis
    by simp
qed

end
