(* ===== verification/Override_Bits.thy ===== *)
theory Override_Bits
  imports Messages
begin

text \<open>
  The bits of the RC override mask of \<^verbatim>\<open>command.rs\<close>, which the command manager sets and the
  mixer reads, and the groups of bits the mixer tests.
\<close>

definition OVERRIDE_NO_OVERRIDE :: u16 where "OVERRIDE_NO_OVERRIDE = 0"
definition OVERRIDE_ATT_SWITCH :: u16 where "OVERRIDE_ATT_SWITCH = 1"
definition OVERRIDE_THR_SWITCH :: u16 where "OVERRIDE_THR_SWITCH = 2"
definition OVERRIDE_X :: u16 where "OVERRIDE_X = 4"
definition OVERRIDE_Y :: u16 where "OVERRIDE_Y = 8"
definition OVERRIDE_Z :: u16 where "OVERRIDE_Z = 16"
definition OVERRIDE_T :: u16 where "OVERRIDE_T = 32"
definition OVERRIDE_OFFBOARD_X_INACTIVE :: u16 where "OVERRIDE_OFFBOARD_X_INACTIVE = 64"
definition OVERRIDE_OFFBOARD_Y_INACTIVE :: u16 where "OVERRIDE_OFFBOARD_Y_INACTIVE = 128"
definition OVERRIDE_OFFBOARD_Z_INACTIVE :: u16 where "OVERRIDE_OFFBOARD_Z_INACTIVE = 256"
definition OVERRIDE_OFFBOARD_T_INACTIVE :: u16 where "OVERRIDE_OFFBOARD_T_INACTIVE = 512"

lemmas override_defs = OVERRIDE_NO_OVERRIDE_def OVERRIDE_ATT_SWITCH_def OVERRIDE_THR_SWITCH_def
  OVERRIDE_X_def OVERRIDE_Y_def OVERRIDE_Z_def OVERRIDE_T_def OVERRIDE_OFFBOARD_X_INACTIVE_def
  OVERRIDE_OFFBOARD_Y_INACTIVE_def OVERRIDE_OFFBOARD_Z_INACTIVE_def
  OVERRIDE_OFFBOARD_T_INACTIVE_def

definition X_OVERRIDDEN :: u16 where
  "X_OVERRIDDEN = OVERRIDE_ATT_SWITCH OR OVERRIDE_X OR OVERRIDE_OFFBOARD_X_INACTIVE"
definition Y_OVERRIDDEN :: u16 where
  "Y_OVERRIDDEN = OVERRIDE_ATT_SWITCH OR OVERRIDE_Y OR OVERRIDE_OFFBOARD_Y_INACTIVE"
definition Z_OVERRIDDEN :: u16 where
  "Z_OVERRIDDEN = OVERRIDE_ATT_SWITCH OR OVERRIDE_Z OR OVERRIDE_OFFBOARD_Z_INACTIVE"
definition T_OVERRIDDEN :: u16 where
  "T_OVERRIDDEN = OVERRIDE_THR_SWITCH OR OVERRIDE_T OR OVERRIDE_OFFBOARD_T_INACTIVE"
definition ATTITUDE_OVERRIDDEN :: u16 where
  "ATTITUDE_OVERRIDDEN = X_OVERRIDDEN OR Y_OVERRIDDEN OR Z_OVERRIDDEN"

lemma ATTITUDE_OVERRIDDEN_value: "ATTITUDE_OVERRIDDEN = 0x1dd"
  by (simp add: ATTITUDE_OVERRIDDEN_def X_OVERRIDDEN_def Y_OVERRIDDEN_def Z_OVERRIDDEN_def override_defs)

lemma T_OVERRIDDEN_value: "T_OVERRIDDEN = 0x222"
  by (simp add: T_OVERRIDDEN_def override_defs)

end
