(* ===== verification/Mixer.thy ===== *)
theory Mixer
  imports Flight_Float Params Override_Bits
begin

text \<open>
  The mixer of \<^verbatim>\<open>mixer.rs\<close> and \<^verbatim>\<open>mixer/matrix.rs\<close>: the canned matrices, the choice of the
  primary and secondary mixer from the parameters, the write-back of a canned mixer into
  the parameter table, and the mix of the controller output into actuator commands. The
  singular value decomposition and the matrix product of \<^verbatim>\<open>nalgebra\<close> and the square root
  are the parameters \<open>linalg\<close> of the definitions that use them; a matrix is a list of rows.
\<close>

section \<open>Types and constants\<close>

datatype mixer_output_type = OutAux | OutMotor | OutServo | OutGpio

datatype mixer_status = Healthy | InvalidMixer

definition NUM_MIXER_OUTPUTS :: nat where "NUM_MIXER_OUTPUTS = 10"
definition NUM_MIXERS :: i32 where "NUM_MIXERS = 12"
definition CUSTOM_MIXER :: i32 where "CUSTOM_MIXER = 11"

text \<open>The parameters that stand for \<^verbatim>\<open>nalgebra\<close>: \<open>svd\<close> returns U, V transposed and the
  singular values.\<close>

record (overloaded) ('r::len) linalg =
  la_svd :: "'r flt list list \<Rightarrow> 'r flt list list option \<times> 'r flt list list option \<times> 'r flt list"
  la_mul :: "'r flt list list \<Rightarrow> 'r flt list list \<Rightarrow> 'r flt list list"
  la_sqrt :: "'r flt \<Rightarrow> 'r flt"

record (overloaded) ('r::len) controller_output =
  co_u :: "'r flt list"

record (overloaded) ('r::len) mixer_run =
  mr_commands :: "'r flt list"
  mr_status :: mixer_status

text \<open>The part of \<^verbatim>\<open>MixerCtx\<close> the matrix mixer reads.\<close>

record (overloaded) ('r::len) mixer_ctx =
  mc_params :: params
  mc_rc_override :: u16
  mc_air_density :: "'r flt"
  mc_battery_voltage :: "'r flt option"

record (overloaded) ('r::len) mixer_params =
  mp_idle_throttle :: "'r flt"
  mp_num_motors :: nat
  mp_fixed_wing :: bool
  mp_use_motor_parameters :: bool
  mp_throttle_axis :: nat

record (overloaded) ('r::len) matrix_mixer =
  mm_params :: "'r mixer_params"
  mm_status :: mixer_status
  mm_output_types :: "mixer_output_type list"
  mm_default_pwm_rates :: "'r flt list"
  mm_primary_mixer :: "'r flt list list"
  mm_secondary_mixer :: "'r flt list list"

record (overloaded) ('r::len) canned_mixer_config =
  cc_output_types :: "mixer_output_type list"
  cc_default_pwm_rates :: "'r flt list"
  cc_matrix :: "'r flt list list"

definition QUAD_X_OUTPUT_TYPES :: "mixer_output_type list" where
  "QUAD_X_OUTPUT_TYPES = [OutMotor, OutMotor, OutMotor, OutMotor, OutAux, OutAux, OutAux,
     OutAux, OutAux, OutAux]"

definition ALL_MOTOR_OUTPUT_TYPES :: "mixer_output_type list" where
  "ALL_MOTOR_OUTPUT_TYPES = replicate NUM_MIXER_OUTPUTS OutMotor"

definition FIXEDWING_OUTPUT_TYPES :: "mixer_output_type list" where
  "FIXEDWING_OUTPUT_TYPES = [OutServo, OutServo, OutServo, OutAux, OutMotor, OutAux, OutAux,
     OutAux, OutAux, OutAux]"

text \<open>The types the canned hexacopter and octocopter mixers spell out in place.\<close>

definition HEX_OUTPUT_TYPES :: "mixer_output_type list" where
  "HEX_OUTPUT_TYPES = [OutMotor, OutMotor, OutMotor, OutMotor, OutMotor, OutMotor, OutAux,
     OutAux, OutAux, OutAux]"

definition OCTO_OUTPUT_TYPES :: "mixer_output_type list" where
  "OCTO_OUTPUT_TYPES = [OutMotor, OutMotor, OutMotor, OutMotor, OutMotor, OutMotor, OutMotor,
     OutMotor, OutAux, OutAux]"

definition lit_row :: "int \<Rightarrow> int list \<Rightarrow> f64 list" where
  "lit_row d ns = map (\<lambda>n. flt_lit n d) ns"

definition ESC_CALIBRATION_PWM_RATES :: "f64 list" where
  "ESC_CALIBRATION_PWM_RATES = replicate NUM_MIXER_OUTPUTS (flt_lit 50 1)"
definition QUAD_X_PWM_RATES :: "f64 list" where
  "QUAD_X_PWM_RATES = lit_row 1 [490, 490, 490, 490, 50, 50, 50, 50, 50, 50]"
definition HEX_PWM_RATES :: "f64 list" where
  "HEX_PWM_RATES = lit_row 1 [490, 490, 490, 490, 490, 490, 490, 490, 50, 50]"
definition OCTO_PWM_RATES :: "f64 list" where
  "OCTO_PWM_RATES = lit_row 1 [490, 490, 490, 490, 490, 490, 490, 490, 50, 50]"
definition FIXEDWING_PWM_RATES :: "f64 list" where
  "FIXEDWING_PWM_RATES = replicate NUM_MIXER_OUTPUTS (flt_lit 50 1)"

definition QUAD_X_MIXER :: "f64 list list" where
  "QUAD_X_MIXER = [
    lit_row 1 [0, 0, 0, 0, 0, 0, 0, 0, 0, 0],
    lit_row 1 [0, 0, 0, 0, 0, 0, 0, 0, 0, 0],
    lit_row 100 [- 25, - 25, - 25, - 25, 0, 0, 0, 0, 0, 0],
    lit_row 10000 [- 7071, - 7071, 7071, 7071, 0, 0, 0, 0, 0, 0],
    lit_row 10000 [7071, - 7071, - 7071, 7071, 0, 0, 0, 0, 0, 0],
    lit_row 1 [1, - 1, 1, - 1, 0, 0, 0, 0, 0, 0],
    lit_row 1 [0, 0, 0, 0, 0, 0, 0, 0, 0, 0],
    lit_row 1 [0, 0, 0, 0, 0, 0, 0, 0, 0, 0],
    lit_row 1 [0, 0, 0, 0, 0, 0, 0, 0, 0, 0],
    lit_row 1 [0, 0, 0, 0, 0, 0, 0, 0, 0, 0]]"

definition ESC_CALIBRATION_MATRIX :: "f64 list list" where
  "ESC_CALIBRATION_MATRIX = [
    lit_row 1 [0, 0, 0, 0, 0, 0, 0, 0, 0, 0],
    lit_row 1 [0, 0, 0, 0, 0, 0, 0, 0, 0, 0],
    lit_row 10 [1, 1, 1, 1, 1, 1, 1, 1, 1, 1],
    lit_row 1 [0, 0, 0, 0, 0, 0, 0, 0, 0, 0],
    lit_row 1 [0, 0, 0, 0, 0, 0, 0, 0, 0, 0],
    lit_row 1 [0, 0, 0, 0, 0, 0, 0, 0, 0, 0],
    lit_row 1 [0, 0, 0, 0, 0, 0, 0, 0, 0, 0],
    lit_row 1 [0, 0, 0, 0, 0, 0, 0, 0, 0, 0],
    lit_row 1 [0, 0, 0, 0, 0, 0, 0, 0, 0, 0],
    lit_row 1 [0, 0, 0, 0, 0, 0, 0, 0, 0, 0]]"

definition QUAD_PLUS_MATRIX :: "f64 list list" where
  "QUAD_PLUS_MATRIX = [
    lit_row 1 [0, 0, 0, 0, 0, 0, 0, 0, 0, 0],
    lit_row 1 [0, 0, 0, 0, 0, 0, 0, 0, 0, 0],
    lit_row 100 [- 25, - 25, - 25, - 25, 0, 0, 0, 0, 0, 0],
    lit_row 1 [0, - 1, 0, 1, 0, 0, 0, 0, 0, 0],
    lit_row 1 [1, 0, - 1, 0, 0, 0, 0, 0, 0, 0],
    lit_row 1 [1, - 1, 1, - 1, 0, 0, 0, 0, 0, 0],
    lit_row 1 [0, 0, 0, 0, 0, 0, 0, 0, 0, 0],
    lit_row 1 [0, 0, 0, 0, 0, 0, 0, 0, 0, 0],
    lit_row 1 [0, 0, 0, 0, 0, 0, 0, 0, 0, 0],
    lit_row 1 [0, 0, 0, 0, 0, 0, 0, 0, 0, 0]]"

definition FIXEDWING_MATRIX :: "f64 list list" where
  "FIXEDWING_MATRIX = [
    lit_row 1 [0, 0, 0, 0, 1, 0, 0, 0, 0, 0],
    lit_row 1 [0, 0, 0, 0, 0, 0, 0, 0, 0, 0],
    lit_row 1 [0, 0, 0, 0, 0, 0, 0, 0, 0, 0],
    lit_row 1 [1, 0, 0, 0, 0, 0, 0, 0, 0, 0],
    lit_row 1 [0, 1, 0, 0, 0, 0, 0, 0, 0, 0],
    lit_row 1 [0, 0, 1, 0, 0, 0, 0, 0, 0, 0],
    lit_row 1 [0, 0, 0, 0, 0, 0, 0, 0, 0, 0],
    lit_row 1 [0, 0, 0, 0, 0, 0, 0, 0, 0, 0],
    lit_row 1 [0, 0, 0, 0, 0, 0, 0, 0, 0, 0],
    lit_row 1 [0, 0, 0, 0, 0, 0, 0, 0, 0, 0]]"

definition INVERTED_VTAIL_MATRIX :: "f64 list list" where
  "INVERTED_VTAIL_MATRIX = [
    lit_row 1 [0, 0, 0, 0, 1, 0, 0, 0, 0, 0],
    lit_row 1 [0, 0, 0, 0, 0, 0, 0, 0, 0, 0],
    lit_row 1 [0, 0, 0, 0, 0, 0, 0, 0, 0, 0],
    lit_row 1 [1, 0, 0, 0, 0, 0, 0, 0, 0, 0],
    lit_row 10 [0, - 5, 5, 0, 0, 0, 0, 0, 0, 0],
    lit_row 10 [0, 5, 5, 0, 0, 0, 0, 0, 0, 0],
    lit_row 1 [0, 0, 0, 0, 0, 0, 0, 0, 0, 0],
    lit_row 1 [0, 0, 0, 0, 0, 0, 0, 0, 0, 0],
    lit_row 1 [0, 0, 0, 0, 0, 0, 0, 0, 0, 0],
    lit_row 1 [0, 0, 0, 0, 0, 0, 0, 0, 0, 0]]"

definition HEX_PLUS_MATRIX :: "f64 list list" where
  "HEX_PLUS_MATRIX = [
    lit_row 1 [0, 0, 0, 0, 0, 0, 0, 0, 0, 0],
    lit_row 1 [0, 0, 0, 0, 0, 0, 0, 0, 0, 0],
    lit_row 10000 [- 1667, - 1667, - 1667, - 1667, - 1667, - 1667, 0, 0, 0, 0],
    lit_row 1000 [0, - 866, - 866, 0, 866, 866, 0, 0, 0, 0],
    lit_row 10 [10, 5, - 5, - 10, - 5, 5, 0, 0, 0, 0],
    lit_row 1 [1, - 1, 1, - 1, 1, - 1, 0, 0, 0, 0],
    lit_row 1 [0, 0, 0, 0, 0, 0, 0, 0, 0, 0],
    lit_row 1 [0, 0, 0, 0, 0, 0, 0, 0, 0, 0],
    lit_row 1 [0, 0, 0, 0, 0, 0, 0, 0, 0, 0],
    lit_row 1 [0, 0, 0, 0, 0, 0, 0, 0, 0, 0]]"

definition HEX_X_MATRIX :: "f64 list list" where
  "HEX_X_MATRIX = [
    lit_row 1 [0, 0, 0, 0, 0, 0, 0, 0, 0, 0],
    lit_row 1 [0, 0, 0, 0, 0, 0, 0, 0, 0, 0],
    lit_row 10000 [- 1667, - 1667, - 1667, - 1667, - 1667, - 1667, 0, 0, 0, 0],
    lit_row 10 [- 5, - 10, - 5, 5, 10, 5, 0, 0, 0, 0],
    lit_row 1000 [866, 0, - 866, - 866, 0, 866, 0, 0, 0, 0],
    lit_row 1 [1, - 1, 1, - 1, 1, - 1, 0, 0, 0, 0],
    lit_row 1 [0, 0, 0, 0, 0, 0, 0, 0, 0, 0],
    lit_row 1 [0, 0, 0, 0, 0, 0, 0, 0, 0, 0],
    lit_row 1 [0, 0, 0, 0, 0, 0, 0, 0, 0, 0],
    lit_row 1 [0, 0, 0, 0, 0, 0, 0, 0, 0, 0]]"

definition OCTO_PLUS_MATRIX :: "f64 list list" where
  "OCTO_PLUS_MATRIX = [
    lit_row 1 [0, 0, 0, 0, 0, 0, 0, 0, 0, 0],
    lit_row 1 [0, 0, 0, 0, 0, 0, 0, 0, 0, 0],
    lit_row 1000 [- 125, - 125, - 125, - 125, - 125, - 125, - 125, - 125, 0, 0],
    lit_row 10000 [0, - 7071, - 10000, - 7071, 0, 7071, 10000, 7071, 0, 0],
    lit_row 10000 [10000, 7071, 0, - 7071, - 10000, - 7071, 0, 7071, 0, 0],
    lit_row 1 [1, - 1, 1, - 1, 1, - 1, 1, - 1, 0, 0],
    lit_row 1 [0, 0, 0, 0, 0, 0, 0, 0, 0, 0],
    lit_row 1 [0, 0, 0, 0, 0, 0, 0, 0, 0, 0],
    lit_row 1 [0, 0, 0, 0, 0, 0, 0, 0, 0, 0],
    lit_row 1 [0, 0, 0, 0, 0, 0, 0, 0, 0, 0]]"

definition OCTO_X_MATRIX :: "f64 list list" where
  "OCTO_X_MATRIX = [
    lit_row 1 [0, 0, 0, 0, 0, 0, 0, 0, 0, 0],
    lit_row 1 [0, 0, 0, 0, 0, 0, 0, 0, 0, 0],
    lit_row 1000 [- 125, - 125, - 125, - 125, - 125, - 125, - 125, - 125, 0, 0],
    lit_row 10000 [- 3827, - 9239, - 9239, - 3827, 3827, 9239, 9239, 3827, 0, 0],
    lit_row 10000 [9239, 3827, - 3827, - 9239, - 9239, - 3827, 3827, 9239, 0, 0],
    lit_row 1 [1, - 1, 1, - 1, 1, - 1, 1, - 1, 0, 0],
    lit_row 1 [0, 0, 0, 0, 0, 0, 0, 0, 0, 0],
    lit_row 1 [0, 0, 0, 0, 0, 0, 0, 0, 0, 0],
    lit_row 1 [0, 0, 0, 0, 0, 0, 0, 0, 0, 0],
    lit_row 1 [0, 0, 0, 0, 0, 0, 0, 0, 0, 0]]"

definition Y6_MATRIX :: "f64 list list" where
  "Y6_MATRIX = [
    lit_row 1 [0, 0, 0, 0, 0, 0, 0, 0, 0, 0],
    lit_row 1 [0, 0, 0, 0, 0, 0, 0, 0, 0, 0],
    lit_row 10000 [- 1667, - 1667, - 1667, - 1667, - 1667, - 1667, 0, 0, 0, 0],
    lit_row 1000 [- 866, - 866, 0, 0, 866, 866, 0, 0, 0, 0],
    lit_row 10 [5, 5, - 10, - 10, 5, 5, 0, 0, 0, 0],
    lit_row 1 [1, - 1, 1, - 1, 1, - 1, 0, 0, 0, 0],
    lit_row 1 [0, 0, 0, 0, 0, 0, 0, 0, 0, 0],
    lit_row 1 [0, 0, 0, 0, 0, 0, 0, 0, 0, 0],
    lit_row 1 [0, 0, 0, 0, 0, 0, 0, 0, 0, 0],
    lit_row 1 [0, 0, 0, 0, 0, 0, 0, 0, 0, 0]]"

definition X8_MATRIX :: "f64 list list" where
  "X8_MATRIX = [
    lit_row 1 [0, 0, 0, 0, 0, 0, 0, 0, 0, 0],
    lit_row 1 [0, 0, 0, 0, 0, 0, 0, 0, 0, 0],
    lit_row 1000 [- 125, - 125, - 125, - 125, - 125, - 125, - 125, - 125, 0, 0],
    lit_row 10000 [- 7071, - 7071, - 7071, - 7071, 7071, 7071, 7071, 7071, 0, 0],
    lit_row 10000 [7071, 7071, - 7071, - 7071, - 7071, - 7071, 7071, 7071, 0, 0],
    lit_row 1 [1, - 1, 1, - 1, 1, - 1, 1, - 1, 0, 0],
    lit_row 1 [0, 0, 0, 0, 0, 0, 0, 0, 0, 0],
    lit_row 1 [0, 0, 0, 0, 0, 0, 0, 0, 0, 0],
    lit_row 1 [0, 0, 0, 0, 0, 0, 0, 0, 0, 0],
    lit_row 1 [0, 0, 0, 0, 0, 0, 0, 0, 0, 0]]"

section \<open>Canned mixers\<close>

definition matrix_from_default :: "f64 list list \<Rightarrow> 'r::len flt list list" where
  "matrix_from_default m = map (map from_f64) m"

definition rates_from_default :: "f64 list \<Rightarrow> 'r::len flt list" where
  "rates_from_default rs = map from_f64 rs"

definition mat_transpose :: "'a list list \<Rightarrow> 'a list list" where
  "mat_transpose m = map (\<lambda>j. map (\<lambda>row. row ! j) m) [0..<NUM_MIXER_OUTPUTS]"

definition inverted_multirotor_mixer ::
    "'r::len linalg \<Rightarrow> 'r flt list list \<Rightarrow> 'r flt list list" where
  "inverted_multirotor_mixer L mixer = (case la_svd L mixer of
     (None, _, _) \<Rightarrow> mixer
   | (Some u, None, _) \<Rightarrow> mixer
   | (Some u, Some v_t, singular_values) \<Rightarrow>
      (let sigma_inverse = map (\<lambda>i. map (\<lambda>j.
             if i = j \<and> \<not> flt_eq (singular_values ! i) (lit32 0 1)
             then lit32 1 1 / singular_values ! i else 0) [0..<NUM_MIXER_OUTPUTS])
             [0..<NUM_MIXER_OUTPUTS];
           pinv = la_mul L (la_mul L (mat_transpose v_t) sigma_inverse) (mat_transpose u)
       in map (\<lambda>j. map (\<lambda>i. pinv ! i ! j) [0..<NUM_MIXER_OUTPUTS]) [0..<NUM_MIXER_OUTPUTS]))"

definition rank_one_pseudoinverse_mixer :: "'r::len flt list list \<Rightarrow> 'r flt list list" where
  "rank_one_pseudoinverse_mixer mixer =
    (let norm_squared = fold (\<lambda>row acc. fold (\<lambda>v acc. acc + v * v) row acc) mixer (lit32 0 1)
     in if norm_squared < from_f64 (flt_lit 1 1000000000000) then mixer
        else map (\<lambda>row. map (\<lambda>v. v / norm_squared) row) mixer)"

definition raw_canned_mixer_matrix :: "i32 \<Rightarrow> f64 list list option" where
  "raw_canned_mixer_matrix choice =
    (if choice = 0 then Some ESC_CALIBRATION_MATRIX
     else if choice = 1 then Some QUAD_PLUS_MATRIX
     else if choice = 2 then Some QUAD_X_MIXER
     else if choice = 3 then Some HEX_PLUS_MATRIX
     else if choice = 4 then Some HEX_X_MATRIX
     else if choice = 5 then Some OCTO_PLUS_MATRIX
     else if choice = 6 then Some OCTO_X_MATRIX
     else if choice = 7 then Some Y6_MATRIX
     else if choice = 8 then Some X8_MATRIX
     else if choice = 9 then Some FIXEDWING_MATRIX
     else if choice = 10 then Some INVERTED_VTAIL_MATRIX
     else None)"

definition canned_mixer :: "'r::len linalg \<Rightarrow> i32 \<Rightarrow> 'r canned_mixer_config option" where
  "canned_mixer L choice =
    (let multi = (\<lambda>types rates m. Some \<lparr>cc_output_types = types,
           cc_default_pwm_rates = rates_from_default rates,
           cc_matrix = inverted_multirotor_mixer L (matrix_from_default m)\<rparr>)
     in if choice = 0 then Some \<lparr>cc_output_types = ALL_MOTOR_OUTPUT_TYPES,
           cc_default_pwm_rates = rates_from_default ESC_CALIBRATION_PWM_RATES,
           cc_matrix = rank_one_pseudoinverse_mixer (matrix_from_default ESC_CALIBRATION_MATRIX)\<rparr>
     else if choice = 1 then multi QUAD_X_OUTPUT_TYPES QUAD_X_PWM_RATES QUAD_PLUS_MATRIX
     else if choice = 2 then multi QUAD_X_OUTPUT_TYPES QUAD_X_PWM_RATES QUAD_X_MIXER
     else if choice = 3 then multi HEX_OUTPUT_TYPES HEX_PWM_RATES HEX_PLUS_MATRIX
     else if choice = 4 then multi HEX_OUTPUT_TYPES HEX_PWM_RATES HEX_X_MATRIX
     else if choice = 7 then multi HEX_OUTPUT_TYPES HEX_PWM_RATES Y6_MATRIX
     else if choice = 5 then multi OCTO_OUTPUT_TYPES OCTO_PWM_RATES OCTO_PLUS_MATRIX
     else if choice = 6 then multi OCTO_OUTPUT_TYPES OCTO_PWM_RATES OCTO_X_MATRIX
     else if choice = 8 then multi OCTO_OUTPUT_TYPES OCTO_PWM_RATES X8_MATRIX
     else if choice = 9 then Some \<lparr>cc_output_types = FIXEDWING_OUTPUT_TYPES,
           cc_default_pwm_rates = rates_from_default FIXEDWING_PWM_RATES,
           cc_matrix = matrix_from_default FIXEDWING_MATRIX\<rparr>
     else if choice = 10 then Some \<lparr>cc_output_types = FIXEDWING_OUTPUT_TYPES,
           cc_default_pwm_rates = rates_from_default FIXEDWING_PWM_RATES,
           cc_matrix = matrix_from_default INVERTED_VTAIL_MATRIX\<rparr>
     else None)"

definition canned_secondary_mixer :: "'r::len linalg \<Rightarrow> i32 \<Rightarrow> 'r canned_mixer_config option" where
  "canned_secondary_mixer L choice = (case canned_mixer L choice of
     None \<Rightarrow> None
   | Some config \<Rightarrow>
      if choice = CUSTOM_MIXER then Some config
      else (case raw_canned_mixer_matrix choice of
         None \<Rightarrow> None
       | Some m \<Rightarrow>
          Some (config\<lparr>cc_matrix := inverted_multirotor_mixer L (matrix_from_default m)\<rparr>)))"

section \<open>Mixers from the parameters\<close>

definition mixer_param_float :: "params \<Rightarrow> param_id \<Rightarrow> 'r::len flt" where
  "mixer_param_float p pid = (case get_by_id p pid of PFloat v \<Rightarrow> from_f32 v | _ \<Rightarrow> lit32 0 1)"

definition mixer_param_int :: "params \<Rightarrow> param_id \<Rightarrow> i32" where
  "mixer_param_int p pid = (case get_by_id p pid of PInt v \<Rightarrow> v | _ \<Rightarrow> 0)"

definition param_in_range :: "param_id \<Rightarrow> param_id \<Rightarrow> param_id \<Rightarrow> bool" where
  "param_in_range pid lo hi \<longleftrightarrow>
    param_index lo \<le> param_index pid \<and> param_index pid \<le> param_index hi"

definition is_mixer_config_param :: "param_id \<Rightarrow> bool" where
  "is_mixer_config_param pid \<longleftrightarrow> pid = PARAM_PRIMARY_MIXER \<or> pid = PARAM_SECONDARY_MIXER
    \<or> param_in_range pid PARAM_PRIMARY_MIXER_OUTPUT_0 PARAM_PRIMARY_MIXER_OUTPUT_9
    \<or> param_in_range pid PARAM_PRIMARY_MIXER_PWM_RATE_0 PARAM_PRIMARY_MIXER_PWM_RATE_9
    \<or> param_in_range pid PARAM_PRIMARY_MIXER_0_0 PARAM_PRIMARY_MIXER_9_9
    \<or> param_in_range pid PARAM_SECONDARY_MIXER_0_0 PARAM_SECONDARY_MIXER_9_9"

definition is_mixer_runtime_param :: "param_id \<Rightarrow> bool" where
  "is_mixer_runtime_param pid \<longleftrightarrow> pid = PARAM_MOTOR_IDLE_THROTTLE \<or> pid = PARAM_NUM_MOTORS
    \<or> pid = PARAM_FIXED_WING \<or> pid = PARAM_USE_MOTOR_PARAMETERS \<or> pid = PARAM_RC_F_AXIS"

text \<open>
  The three readers of a custom mixer. \<open>those\<close> gives \<open>None\<close> as soon as an index is outside
  the table, which is the early return of the loops.
\<close>

definition mixer_from_params :: "params \<Rightarrow> param_id \<Rightarrow> param_id \<Rightarrow> 'r::len flt list list option" where
  "mixer_from_params p choice_id first_id =
    (if mixer_param_int p choice_id \<noteq> CUSTOM_MIXER then None
     else those (map (\<lambda>row. those (map (\<lambda>col.
        map_option (mixer_param_float p)
          (param_from_index (param_index first_id + col * NUM_MIXER_OUTPUTS + row)))
        [0..<NUM_MIXER_OUTPUTS])) [0..<NUM_MIXER_OUTPUTS]))"

definition mixer_output_type_from_rosflight :: "i32 \<Rightarrow> mixer_output_type" where
  "mixer_output_type_from_rosflight v =
    (if v = 1 then OutServo else if v = 2 then OutMotor else if v = 3 then OutGpio else OutAux)"

fun mixer_output_type_to_rosflight :: "mixer_output_type \<Rightarrow> i32" where
  "mixer_output_type_to_rosflight OutAux = 0"
| "mixer_output_type_to_rosflight OutServo = 1"
| "mixer_output_type_to_rosflight OutMotor = 2"
| "mixer_output_type_to_rosflight OutGpio = 3"

definition output_types_from_params :: "params \<Rightarrow> mixer_output_type list option" where
  "output_types_from_params p =
    (if mixer_param_int p PARAM_PRIMARY_MIXER \<noteq> CUSTOM_MIXER then None
     else those (map (\<lambda>output.
        map_option (\<lambda>pid. mixer_output_type_from_rosflight (mixer_param_int p pid))
          (param_from_index (param_index PARAM_PRIMARY_MIXER_OUTPUT_0 + output)))
        [0..<NUM_MIXER_OUTPUTS]))"

definition pwm_rates_from_params :: "params \<Rightarrow> 'r::len flt list option" where
  "pwm_rates_from_params p =
    (if mixer_param_int p PARAM_PRIMARY_MIXER \<noteq> CUSTOM_MIXER then None
     else those (map (\<lambda>output.
        map_option (mixer_param_float p)
          (param_from_index (param_index PARAM_PRIMARY_MIXER_PWM_RATE_0 + output)))
        [0..<NUM_MIXER_OUTPUTS]))"

section \<open>Write-back of a canned mixer\<close>

text \<open>
  The loop of \<^verbatim>\<open>save_mixer_matrix_params\<close> in its order, columns outside: it returns at the
  first index outside the table.
\<close>

fun save_matrix_cells :: "params \<Rightarrow> nat \<Rightarrow> f64 list list \<Rightarrow> (nat \<times> nat) list \<Rightarrow> params" where
  "save_matrix_cells p first m [] = p"
| "save_matrix_cells p first m ((col, row) # cells) =
    (case param_from_index (first + col * NUM_MIXER_OUTPUTS + row) of
       None \<Rightarrow> p
     | Some pid \<Rightarrow>
        save_matrix_cells (set_by_id p pid (PFloat (to_f32_lossy (m ! row ! col)))) first m cells)"

definition save_mixer_matrix_params :: "params \<Rightarrow> param_id \<Rightarrow> f64 list list \<Rightarrow> params" where
  "save_mixer_matrix_params p first_id m = save_matrix_cells p (param_index first_id) m
    (List.product [0..<NUM_MIXER_OUTPUTS] [0..<length m])"

definition save_primary_outputs :: "params \<Rightarrow> 64 canned_mixer_config \<Rightarrow> params" where
  "save_primary_outputs p config = fold (\<lambda>output p.
     let p1 = (case param_from_index (param_index PARAM_PRIMARY_MIXER_OUTPUT_0 + output) of
           None \<Rightarrow> p
         | Some pid \<Rightarrow> set_by_id p pid
             (PInt (mixer_output_type_to_rosflight (cc_output_types config ! output))))
     in (case param_from_index (param_index PARAM_PRIMARY_MIXER_PWM_RATE_0 + output) of
           None \<Rightarrow> p1
         | Some pid \<Rightarrow> set_by_id p1 pid
             (PFloat (to_f32_lossy (cc_default_pwm_rates config ! output)))))
     [0..<NUM_MIXER_OUTPUTS] p"

definition save_primary_mixer_params :: "params \<Rightarrow> 64 canned_mixer_config \<Rightarrow> params" where
  "save_primary_mixer_params p config =
    save_mixer_matrix_params (save_primary_outputs p config) PARAM_PRIMARY_MIXER_0_0 (cc_matrix config)"

definition save_secondary_mixer_params :: "params \<Rightarrow> f64 list list \<Rightarrow> params" where
  "save_secondary_mixer_params p m = save_mixer_matrix_params p PARAM_SECONDARY_MIXER_0_0 m"

definition sync_reflected_mixer_params :: "64 linalg \<Rightarrow> params \<Rightarrow> param_id \<Rightarrow> params" where
  "sync_reflected_mixer_params L p changed =
    (if changed = PARAM_PRIMARY_MIXER then
       (case canned_mixer L (mixer_param_int p PARAM_PRIMARY_MIXER) of
          None \<Rightarrow> p
        | Some config \<Rightarrow>
           (let p1 = save_primary_mixer_params p config;
                secondary_choice = mixer_param_int p1 PARAM_SECONDARY_MIXER
            in if \<not> (0 \<le> sint secondary_choice \<and> sint secondary_choice < sint NUM_MIXERS)
               then save_secondary_mixer_params p1 (cc_matrix config) else p1))
     else if changed = PARAM_SECONDARY_MIXER then
       (case canned_secondary_mixer L (mixer_param_int p PARAM_SECONDARY_MIXER) of
          None \<Rightarrow> p
        | Some config \<Rightarrow> save_secondary_mixer_params p (cc_matrix config))
     else p)"

section \<open>Configuration\<close>

definition refresh_runtime_params :: "'r::len matrix_mixer \<Rightarrow> params \<Rightarrow> 'r matrix_mixer" where
  "refresh_runtime_params mm p =
    (let primary_choice = mixer_param_int p PARAM_PRIMARY_MIXER;
         fixed_wing = (mixer_param_int p PARAM_FIXED_WING \<noteq> 0 \<or> primary_choice = 9 \<or> primary_choice = 10)
     in mm\<lparr>mm_params :=
       \<lparr>mp_idle_throttle = mixer_param_float p PARAM_MOTOR_IDLE_THROTTLE,
        mp_num_motors = nat (max (sint (mixer_param_int p PARAM_NUM_MOTORS)) 0),
        mp_fixed_wing = fixed_wing,
        mp_use_motor_parameters =
          (\<not> fixed_wing \<and> mixer_param_int p PARAM_USE_MOTOR_PARAMETERS \<noteq> 0),
        mp_throttle_axis = nat (max 0 (min 2 (sint (mixer_param_int p PARAM_RC_F_AXIS))))\<rparr>\<rparr>)"

definition refresh_mixer_config ::
    "'r::len linalg \<Rightarrow> 'r matrix_mixer \<Rightarrow> params \<Rightarrow> 'r matrix_mixer \<times> mixer_status" where
  "refresh_mixer_config L mm p =
    (let primary_choice = mixer_param_int p PARAM_PRIMARY_MIXER
     in if sint NUM_MIXERS \<le> sint primary_choice then (mm, InvalidMixer)
     else
      (let mm1 = (case canned_mixer L primary_choice of
             Some config \<Rightarrow> mm\<lparr>mm_output_types := cc_output_types config,
               mm_default_pwm_rates := cc_default_pwm_rates config,
               mm_primary_mixer := cc_matrix config\<rparr>
           | None \<Rightarrow> mm\<lparr>mm_output_types := (case output_types_from_params p of
                 None \<Rightarrow> QUAD_X_OUTPUT_TYPES | Some t \<Rightarrow> t),
               mm_default_pwm_rates := (case pwm_rates_from_params p of
                 None \<Rightarrow> replicate NUM_MIXER_OUTPUTS (lit32 50 1) | Some r \<Rightarrow> r),
               mm_primary_mixer :=
                (case mixer_from_params p PARAM_PRIMARY_MIXER PARAM_PRIMARY_MIXER_0_0 of
                 None \<Rightarrow> matrix_from_default QUAD_X_MIXER | Some m \<Rightarrow> m)\<rparr>);
           secondary = (case canned_secondary_mixer L (mixer_param_int p PARAM_SECONDARY_MIXER) of
             Some config \<Rightarrow> cc_matrix config
           | None \<Rightarrow>
              (case mixer_from_params p PARAM_SECONDARY_MIXER PARAM_SECONDARY_MIXER_0_0 of
                 None \<Rightarrow> mm_primary_mixer mm1 | Some m \<Rightarrow> m))
       in (mm1\<lparr>mm_secondary_mixer := secondary\<rparr>, Healthy)))"

definition mixer_refresh_params ::
    "'r::len linalg \<Rightarrow> 'r matrix_mixer \<Rightarrow> params \<Rightarrow> 'r matrix_mixer \<times> mixer_status option" where
  "mixer_refresh_params L mm p =
    (let (mm1, status) = refresh_mixer_config L mm p;
         mm2 = refresh_runtime_params (mm1\<lparr>mm_status := status\<rparr>) p
     in (mm2, Some status))"

definition mixer_on_param_changed ::
    "'r::len linalg \<Rightarrow> 'r matrix_mixer \<Rightarrow> params \<Rightarrow> param_id \<Rightarrow> 'r matrix_mixer \<times> mixer_status option" where
  "mixer_on_param_changed L mm p pid =
    (let mm1 = (if is_mixer_runtime_param pid then refresh_runtime_params mm p else mm)
     in if is_mixer_config_param pid then mixer_refresh_params L mm1 p else (mm1, None))"

definition matrix_mixer_new :: "'r::len linalg \<Rightarrow> params \<Rightarrow> 'r matrix_mixer" where
  "matrix_mixer_new L p =
    fst (mixer_refresh_params L
      \<lparr>mm_params = \<lparr>mp_idle_throttle = (case get_by_id p PARAM_MOTOR_IDLE_THROTTLE of
            PFloat v \<Rightarrow> from_f32 v | _ \<Rightarrow> lit32 1 10),
          mp_num_motors = 4, mp_fixed_wing = False, mp_use_motor_parameters = False,
          mp_throttle_axis = 2\<rparr>,
        mm_status = Healthy, mm_output_types = QUAD_X_OUTPUT_TYPES,
        mm_default_pwm_rates = replicate NUM_MIXER_OUTPUTS (lit32 50 1),
        mm_primary_mixer = matrix_from_default QUAD_X_MIXER,
        mm_secondary_mixer = matrix_from_default QUAD_X_MIXER\<rparr> p)"

section \<open>Mixing\<close>

definition use_primary_row_for_override :: "nat \<Rightarrow> u16 \<Rightarrow> bool" where
  "use_primary_row_for_override input ov \<longleftrightarrow>
    (3 \<le> input \<and> input \<le> 5 \<and> ov AND ATTITUDE_OVERRIDDEN \<noteq> 0) \<or>
    (input \<le> 2 \<and> ov AND T_OVERRIDDEN \<noteq> 0)"

definition selected_mixer_row :: "'r::len matrix_mixer \<Rightarrow> nat \<Rightarrow> u16 \<Rightarrow> 'r flt list" where
  "selected_mixer_row mm input ov =
    (if use_primary_row_for_override input ov then mm_primary_mixer mm ! input
     else mm_secondary_mixer mm ! input)"

definition mix_single_output_with_selected_rows ::
    "'r::len matrix_mixer \<Rightarrow> nat \<Rightarrow> 'r controller_output \<Rightarrow> u16 \<Rightarrow> 'r flt" where
  "mix_single_output_with_selected_rows mm output commands ov =
    fold (\<lambda>input value. let command = co_u commands ! input in
      if flt_eq command (lit32 0 1) then value
      else value + command * (selected_mixer_row mm input ov ! output))
      [0..<NUM_MIXER_OUTPUTS] (lit32 0 1)"

definition mix_outputs_with_selected_rows ::
    "'r::len matrix_mixer \<Rightarrow> 'r controller_output \<Rightarrow> u16 \<Rightarrow> 'r flt list \<Rightarrow> 'r flt list" where
  "mix_outputs_with_selected_rows mm commands ov outputs =
    fold (\<lambda>input outs. let command = co_u commands ! input in
      if flt_eq command (lit32 0 1) then outs
      else let row = selected_mixer_row mm input ov in
        map (\<lambda>output. if mm_output_types mm ! output \<noteq> OutAux
          then outs ! output + command * (row ! output) else outs ! output) [0..<NUM_MIXER_OUTPUTS])
      [0..<NUM_MIXER_OUTPUTS] outputs"

definition mix_motor_parameter_output :: "'r::len linalg \<Rightarrow> 'r matrix_mixer \<Rightarrow> nat
    \<Rightarrow> 'r controller_output \<Rightarrow> u16 \<Rightarrow> 'r mixer_ctx \<Rightarrow> 'r flt" where
  "mix_motor_parameter_output L mm output commands ov ctx =
    (let omega_squared = flt_max (mix_single_output_with_selected_rows mm output commands ov) (lit32 0 1);
         k_q = mixer_param_float (mc_params ctx) PARAM_MOTOR_KV
     in if k_q < lit32 1 10000000 then lit32 0 1
     else case mc_battery_voltage ctx of None \<Rightarrow> lit32 0 1 | Some battery_voltage \<Rightarrow>
     if battery_voltage < lit32 1 10000 then lit32 0 1
     else
      (let resistance = mixer_param_float (mc_params ctx) PARAM_MOTOR_RESISTANCE;
           diameter = mixer_param_float (mc_params ctx) PARAM_PROP_DIAMETER;
           cq = mixer_param_float (mc_params ctx) PARAM_PROP_CQ;
           kv = mixer_param_float (mc_params ctx) PARAM_MOTOR_KV;
           no_load_current = mixer_param_float (mc_params ctx) PARAM_NO_LOAD_CURRENT;
           diameter_5 = diameter * diameter * diameter * diameter * diameter;
           pi_2 = flt_pi * flt_pi;
           voltage = mc_air_density ctx * diameter_5 / (lit32 4 1 * pi_2) * omega_squared * cq
             * resistance / k_q + resistance * no_load_current + kv * la_sqrt L omega_squared
       in voltage / battery_voltage))"

definition throttle_command :: "'r::len controller_output \<Rightarrow> nat \<Rightarrow> 'r flt" where
  "throttle_command commands axis = co_u commands ! min axis 2"

definition apply_fixedwing_reversals :: "'r::len controller_output \<Rightarrow> params \<Rightarrow> 'r controller_output" where
  "apply_fixedwing_reversals c p =
    (let rev = (\<lambda>pid i u. if mixer_param_int p pid \<noteq> 0 then u[i := u ! i * lit32 (- 1) 1] else u)
     in c\<lparr>co_u := rev PARAM_RUDDER_REVERSE 5 (rev PARAM_ELEVATOR_REVERSE 4
          (rev PARAM_AILERON_REVERSE 3 (co_u c)))\<rparr>)"

text \<open>
  The steps of \<^verbatim>\<open>mix\<close>: the commands after the reversals or the idle cut of the yaw, the
  outputs and the largest motor output before scaling, and the scaling of the motors.
\<close>

definition mix_commands :: "'r::len matrix_mixer \<Rightarrow> 'r controller_output \<Rightarrow> 'r mixer_ctx
    \<Rightarrow> 'r controller_output" where
  "mix_commands mm controls ctx =
    (if mp_fixed_wing (mm_params mm) then apply_fixedwing_reversals controls (mc_params ctx)
     else if \<bar>throttle_command controls (mp_throttle_axis (mm_params mm))\<bar> < mp_idle_throttle (mm_params mm)
     then controls\<lparr>co_u := (co_u controls)[5 := lit32 0 1]\<rparr>
     else controls)"

definition mix_raw_outputs :: "'r::len linalg \<Rightarrow> 'r matrix_mixer \<Rightarrow> 'r controller_output
    \<Rightarrow> 'r mixer_ctx \<Rightarrow> 'r flt list" where
  "mix_raw_outputs L mm commands ctx =
    (let zeros = replicate NUM_MIXER_OUTPUTS (lit32 0 1) in
     if mp_use_motor_parameters (mm_params mm) then
       map (\<lambda>output. if mm_output_types mm ! output = OutAux then zeros ! output
         else if mm_output_types mm ! output = OutMotor
         then mix_motor_parameter_output L mm output commands (mc_rc_override ctx) ctx
         else mix_single_output_with_selected_rows mm output commands (mc_rc_override ctx))
         [0..<NUM_MIXER_OUTPUTS]
     else mix_outputs_with_selected_rows mm commands (mc_rc_override ctx) zeros)"

definition max_motor_output :: "mixer_output_type list \<Rightarrow> 'r::len flt list \<Rightarrow> 'r flt" where
  "max_motor_output types outs = fold (\<lambda>output m.
     if types ! output = OutMotor \<and> m < \<bar>outs ! output\<bar> then \<bar>outs ! output\<bar> else m)
     [0..<NUM_MIXER_OUTPUTS] (lit32 1 1)"

definition scale_motors :: "mixer_output_type list \<Rightarrow> 'r::len flt list \<Rightarrow> 'r flt list" where
  "scale_motors types outs =
    (let max_output = max_motor_output types outs;
         scale_factor = (if lit32 1 1 < max_output then lit32 1 1 / max_output else lit32 1 1)
     in map (\<lambda>output. if types ! output \<noteq> OutMotor then outs ! output
          else outs ! output * scale_factor) [0..<NUM_MIXER_OUTPUTS])"

definition mix :: "'r::len linalg \<Rightarrow> 'r matrix_mixer \<Rightarrow> 'r controller_output \<Rightarrow> 'r mixer_ctx
    \<Rightarrow> 'r mixer_run" where
  "mix L mm controls ctx =
    (if mm_status mm = InvalidMixer
     then \<lparr>mr_commands = replicate NUM_MIXER_OUTPUTS (lit32 0 1), mr_status = mm_status mm\<rparr>
     else \<lparr>mr_commands = scale_motors (mm_output_types mm)
             (mix_raw_outputs L mm (mix_commands mm controls ctx) ctx),
           mr_status = mm_status mm\<rparr>)"

end
