(* ===== verification/Float_Scaling.thy ===== *)
theory Float_Scaling
  imports Flight_Float
begin

text \<open>
  The rounding error of a quotient and what it means for the mixer's normalisation: a value
  multiplied by the rounded reciprocal of a bound on its magnitude stays within [-1, 1].
  The product may exceed 1 by half a unit in the last place, and the tie rounds to 1.
\<close>

lemma round_half_even_error: "0 < d \<Longrightarrow> 2 * round_half_even n d * d \<le> 2 * n + d"
proof -
  assume d: "0 < d"
  define q r where qr: "q = n div d" "r = n mod d"
  then have n: "n = q * d + r" "0 \<le> r" "r < d" using d by simp_all
  consider "2 * r < d" | "d < 2 * r" | "2 * r = d" by linarith
  then show ?thesis
  proof cases
    case 1
    then have "round_half_even n d = q" by (simp add: round_half_even_def flip: qr)
    then show ?thesis using n 1 by (simp add: algebra_simps)
  next
    case 2
    then have "round_half_even n d = q + 1" by (simp add: round_half_even_def flip: qr)
    then show ?thesis using n 2 by (simp add: algebra_simps)
  next
    case 3
    then have "round_half_even n d = q + q mod 2" by (simp add: round_half_even_def flip: qr)
    moreover have "q mod 2 * d \<le> 1 * d" using d by (intro mult_right_mono) simp_all
    ultimately show ?thesis using n 3 by (simp add: algebra_simps)
  qed
qed

lemma round_mag_error:
  assumes "0 < d" and "2 ^ m \<le> n div d"
  shows "mag_val m (round_mag m n d) * d * 2 ^ Suc m \<le> n * (2 ^ Suc m + 1)"
proof -
  define q s where q: "q = n div d" and s: "s = bitlen q - Suc m"
  have q0: "0 < q" using assms(2) zero_less_power [of "2::int" m] unfolding q by linarith
  have n0: "0 \<le> n" using q0 assms(1) by (simp add: q pos_imp_zdiv_pos_iff)
  have "\<not> bitlen q \<le> m" using assms(2) q0 by (simp add: bitlen_le_iff q)
  then have b: "bitlen q = Suc (s + m)" by (simp add: s)
  then have qs: "2 ^ (s + m) \<le> q" using bitlen_bounds [OF q0] by simp
  have Dn: "d * 2 ^ s * 2 ^ m \<le> n"
  proof -
    have "d * 2 ^ (s + m) \<le> d * q" using qs assms(1) by simp
    also have "\<dots> \<le> n" using int_div_lower [OF assms(1), of n] by (simp add: q mult.commute)
    finally show ?thesis by (simp add: power_add mult.assoc)
  qed
  define h where h: "h = round_half_even n (d * 2 ^ s)"
  have lo: "2 ^ m \<le> h"
    unfolding h using Dn assms(1) by (intro round_half_even_ge) (simp_all add: algebra_simps)
  have hi: "h \<le> 2 * 2 ^ m"
    unfolding h by (rule round_mag_scaled(1) [OF assms(1) n0]) (simp add: s q)
  have mv: "mag_val m (round_mag m n d) = h * 2 ^ s"
  proof (cases "h = 2 * 2 ^ m")
    case True
    then have "round_mag m n d = int (Suc (Suc s)) * 2 ^ m + 0"
      by (simp add: round_mag_def Let_def h [symmetric] s [symmetric] q [symmetric] algebra_simps)
    then show ?thesis using mag_val_normal [of 0 m "Suc s"] True by (simp only:) simp
  next
    case False
    then have f: "0 \<le> h - 2 ^ m" "h - 2 ^ m < 2 ^ m" using lo hi by simp_all
    have "round_mag m n d = int (Suc s) * 2 ^ m + (h - 2 ^ m)"
      by (simp add: round_mag_def Let_def h [symmetric] s [symmetric] q [symmetric] algebra_simps)
    then show ?thesis using mag_val_normal [OF f, of s] by (simp only:) simp
  qed
  have "2 * h * (d * 2 ^ s) \<le> 2 * n + d * 2 ^ s"
    unfolding h using assms(1) by (intro round_half_even_error) simp
  then have "2 * h * (d * 2 ^ s) * 2 ^ m \<le> (2 * n + d * 2 ^ s) * 2 ^ m"
    by (intro mult_right_mono) simp_all
  also have "\<dots> \<le> 2 * n * 2 ^ m + n" using Dn by (simp add: algebra_simps)
  finally show ?thesis by (simp add: mv algebra_simps)
qed

lemma round_mag_tie_one:
  assumes "0 \<le> n" "n * 2 ^ Suc m \<le> 2 ^ (2 * u) * (2 ^ Suc m + 1)" "1 \<le> m" "m < u"
  shows "round_mag m n (2 ^ u) \<le> int (Suc (u - m)) * 2 ^ m"
proof -
  define D :: int where D: "D = 2 ^ u * 2 ^ (u - m)"
  have uu: "2 * u = Suc m + (u - Suc m) + (u - m) + (m)" "u = m + (u - m)" "u = Suc m + (u - Suc m)"
    using assms(4) by simp_all
  have D2: "D = 2 * 2 ^ (u - m - 1 + u)" using assms(4) by (simp add: D flip: power_add power_Suc)
  define n0 :: int where n0: "n0 = 2 ^ m * D + 2 ^ (u - m - 1 + u)"
  have sq: "2 ^ (2 * u) = 2 ^ m * D" using assms(4) by (simp add: D flip: power_add)
  have n0': "n0 * 2 ^ Suc m = 2 ^ (2 * u) * (2 ^ Suc m + 1)"
  proof -
    have "2 ^ (u - m - 1 + u) * 2 ^ Suc m = (2::int) ^ (2 * u)" using assms(4) by (simp flip: power_add power_Suc)
    then show ?thesis by (simp only: n0 distrib_right distrib_left sq mult_1_right)
  qed
  have "n * 2 ^ Suc m \<le> n0 * 2 ^ Suc m" using assms(2) by (simp only: n0')
  then have "n \<le> n0" by simp
  then have "round_mag m n (2 ^ u) \<le> round_mag m n0 (2 ^ u)"
    using assms(1) by (intro round_mag_mono) simp_all
  also have "round_mag m n0 (2 ^ u) = int (Suc (u - m)) * 2 ^ m"
  proof -
    have n0u: "n0 = (2 ^ u + 2 ^ (u - m - 1)) * 2 ^ u"
    proof -
      have "2 ^ m * D = (2::int) ^ u * 2 ^ u" using assms(4) by (simp add: D flip: power_add)
      then show ?thesis by (simp add: n0 algebra_simps power_add)
    qed
    then have dv: "n0 div 2 ^ u = 2 ^ u + 2 ^ (u - m - 1)" by simp
    have "(2::int) ^ (u - m - 1) < 2 ^ u" using assms by (intro power_strict_increasing) simp_all
    then have "bitlen (n0 div 2 ^ u) = Suc u" by (intro bitlen_eqI) (simp_all add: dv)
    then have s: "bitlen (n0 div 2 ^ u) - Suc m = u - m" by simp
    have Dp: "0 < D" by (simp add: D)
    have qr: "n0 div D = 2 ^ m" "n0 mod D = 2 ^ (u - m - 1 + u)"
    proof -
      have lt: "2 ^ (u - m - 1 + u) < D" "(0::int) \<le> 2 ^ (u - m - 1 + u)" by (simp_all add: D2)
      then show "n0 div D = 2 ^ m" "n0 mod D = 2 ^ (u - m - 1 + u)"
        using Dp by (simp_all add: n0 div_pos_pos_trivial mod_pos_pos_trivial)
    qed
    have "even ((2::int) ^ m)" using assms(3) by simp
    then have "round_half_even n0 D = 2 ^ m"
      unfolding round_half_even_def Let_def qr by (simp add: D2 even_iff_mod_2_eq_zero)
    then show ?thesis
      by (simp add: round_mag_def Let_def s D [symmetric]) (simp add: algebra_simps)
  qed
  finally show ?thesis .
qed

context flight_float
begin

lemma key_one: "flt_key (1 :: 'r flt) = int (Suc (ulp_exp TYPE('r) - mbits TYPE('r))) * 2 ^ mbits TYPE('r)"
proof -
  let ?k = "int (Suc (ulp_exp TYPE('r) - mbits TYPE('r))) * 2 ^ mbits TYPE('r)"
  have "mag_val (mbits TYPE('r)) ?k = 2 ^ ulp_exp TYPE('r)"
    using mag_val_normal [of 0 "mbits TYPE('r)" "ulp_exp TYPE('r) - mbits TYPE('r)"] fmt_params(5)
    by (simp flip: power_add)
  then have "kval (mbits TYPE('r)) ?k = fval (1 :: 'r flt)" by (simp add: kval_def)
  then have "kval (mbits TYPE('r)) ?k = kval (mbits TYPE('r)) (flt_key (1 :: 'r flt))"
    by (simp only: fval_key)
  then show ?thesis using skey_exact [of 1 "mbits TYPE('r)"] by (metis mult.right_neutral zero_less_one)
qed

lemma uminus_key [simp]: "flt_key (- x :: 'r flt) = - flt_key x" "is_finite (- x :: 'r flt) = is_finite x"
  "is_nan (- x :: 'r flt) = is_nan x" "fval (- x :: 'r flt) = - fval x"
  using mag_bounds [of x]
  by (simp_all add: uminus_flt_def flt_neg_def flt_key_def is_finite_def is_nan_def fval_def mk_flt_fields)

lemma abs_key [simp]: "flt_key (\<bar>x\<bar> :: 'r flt) = \<bar>flt_key x\<bar>" "is_finite (\<bar>x\<bar> :: 'r flt) = is_finite x"
  "is_nan (\<bar>x\<bar> :: 'r flt) = is_nan x" "fval (\<bar>x\<bar> :: 'r flt) = \<bar>fval x\<bar>"
proof -
  have "0 \<le> mag_val (mbits TYPE('r)) (mag x)" using mag_bounds(1) by simp
  then show "flt_key (\<bar>x\<bar> :: 'r flt) = \<bar>flt_key x\<bar>" "is_finite (\<bar>x\<bar> :: 'r flt) = is_finite x"
    "is_nan (\<bar>x\<bar> :: 'r flt) = is_nan x" "fval (\<bar>x\<bar> :: 'r flt) = \<bar>fval x\<bar>"
    using mag_bounds [of x]
    by (simp_all add: abs_flt_def flt_key_def is_finite_def is_nan_def fval_def mk_flt_fields)
qed

lemma scale_by_reciprocal:
  assumes "is_finite (v :: 'r flt)" "is_finite (b :: 'r flt)" "2 ^ ulp_exp TYPE('r) \<le> fval b"
    and "fval b \<le> 2 ^ (2 * ulp_exp TYPE('r) - mbits TYPE('r))" and "\<bar>fval v\<bar> \<le> fval b"
  shows "- 1 \<le> v * (1 / b) \<and> v * (1 / b) \<le> 1"
proof -
  let ?m = "mbits TYPE('r)" and ?u = "ulp_exp TYPE('r)" and ?i = "1 / b"
  have b0: "0 < fval b" using assms(3) zero_less_power [of "2::int" ?u] by linarith
  have sq: "fval (1 :: 'r flt) * 2 ^ ?u = 2 ^ (2 * ?u)" by (simp add: mult_2 power_add)
  have up: "0 \<le> ?i \<and> ?i \<le> 1"
    by (rule div_between [OF one_fval(2) assms(2) zero_key(3) one_fval(2) b0])
       (use b0 assms(3) in simp_all)
  then have fin: "is_finite ?i" by (intro between_finite [OF zero_key(3) one_fval(2)]) simp_all
  have i0: "0 \<le> fval ?i" using up by (simp add: le_finite_iff fin)
  have key: "flt_key ?i = clip (inf_mag TYPE('r)) (skey ?m (2 ^ (2 * ?u)) (fval b))"
    using div_finite(2) [OF one_fval(2) assms(2)] b0
    by (simp only: sq sgn_pos abs_of_pos mult_1_left less_imp_neq [OF b0, symmetric] not_False_eq_True
        simp_thms)
  have pos: "0 \<le> round_mag ?m (2 ^ (2 * ?u)) (fval b)" using b0 by (intro round_mag_nonneg) simp_all
  have "fval ?i \<le> mag_val ?m (round_mag ?m (2 ^ (2 * ?u)) (fval b))"
  proof -
    have "flt_key ?i \<le> round_mag ?m (2 ^ (2 * ?u)) (fval b)"
      unfolding key using pos inf_mag_pos by (simp add: clip_def skey_def)
    then have "kval ?m (flt_key ?i) \<le> kval ?m (round_mag ?m (2 ^ (2 * ?u)) (fval b))" by (rule kval_mono)
    also have "\<dots> = mag_val ?m (round_mag ?m (2 ^ (2 * ?u)) (fval b))"
      using pos by (simp add: kval_def sgn_if)
    finally show ?thesis by (simp only: fval_key)
  qed
  then have "fval ?i * fval b * 2 ^ Suc ?m
      \<le> mag_val ?m (round_mag ?m (2 ^ (2 * ?u)) (fval b)) * fval b * 2 ^ Suc ?m"
    using b0 by (intro mult_right_mono) simp_all
  also have "\<dots> \<le> 2 ^ (2 * ?u) * (2 ^ Suc ?m + 1)"
  proof (rule round_mag_error [OF b0])
    have "2 ^ ?m * fval b \<le> 2 ^ ?m * 2 ^ (2 * ?u - ?m)" using assms(4) by simp
    also have "\<dots> = (2::int) ^ (2 * ?u)" using fmt_params(5) by (simp flip: power_add)
    finally have "2 ^ ?m * fval b div fval b \<le> 2 ^ (2 * ?u) div fval b" using b0 by (rule zdiv_mono1)
    then show "2 ^ ?m \<le> 2 ^ (2 * ?u) div fval b" using b0 by simp
  qed
  finally have bound: "fval ?i * fval b * 2 ^ Suc ?m \<le> 2 ^ (2 * ?u) * (2 ^ Suc ?m + 1)" .
  let ?z = "fval v * fval ?i"
  have "\<bar>?z\<bar> \<le> fval ?i * fval b"
    using mult_right_mono [OF assms(5) i0] i0 by (simp add: abs_mult mult.commute)
  then have "\<bar>?z\<bar> * 2 ^ Suc ?m \<le> 2 ^ (2 * ?u) * (2 ^ Suc ?m + 1)"
    using bound by (meson mult_right_mono order_trans zero_le_numeral zero_le_power)
  then have "round_mag ?m \<bar>?z\<bar> (2 ^ ?u) \<le> flt_key (1 :: 'r flt)"
    unfolding key_one using fmt_params(3,5) by (intro round_mag_tie_one) simp_all
  moreover have "0 \<le> round_mag ?m \<bar>?z\<bar> (2 ^ ?u)" by (intro round_mag_nonneg) simp_all
  ultimately have "\<bar>skey ?m ?z (2 ^ ?u)\<bar> \<le> flt_key (1 :: 'r flt)"
    by (auto simp: skey_def sgn_if)
  then have "\<bar>flt_key (v * ?i)\<bar> \<le> flt_key (1 :: 'r flt)"
    unfolding mul_finite(2) [OF assms(1) fin] using inf_mag_pos by (auto simp: clip_def)
  with mul_finite(1) [OF assms(1) fin] finite_not [OF one_fval(2)] show ?thesis
    by (auto simp: less_eq_flt_def)
qed

lemma mul_one [simp]: "is_finite (x :: 'r flt) \<Longrightarrow> x * 1 = x"
proof (rule flt_eqI)
  assume x: "is_finite x"
  have s1: "\<not> sgn_bit (1 :: 'r flt)" using fval_sgn(1) [of "1 :: 'r flt"] sgn_flt_lit [of 1 1] by (simp add: flt_lit_1)
  have eq: "x * 1 = round_flt (sgn_bit x) \<bar>fval x * 2 ^ ulp_exp TYPE('r)\<bar> (2 ^ ulp_exp TYPE('r))"
    using finite_not [OF x] finite_not [OF one_fval(2)] s1
    by (simp add: times_flt_def flt_mul_def Let_def)
  have f: "\<bar>fval x * 2 ^ ulp_exp TYPE('r)\<bar> = mag_val (mbits TYPE('r)) (mag x) * 2 ^ ulp_exp TYPE('r)"
    using mag_bounds(1) [of x] by (simp add: fval_def abs_mult)
  show "sgn_bit (x * 1) = sgn_bit x" unfolding eq by (rule round_flt_key(2)) simp_all
  show "mag (x * 1) = mag x"
    unfolding eq f using x mag_bounds(1) [of x]
    by (simp add: round_flt_key round_mag_exact is_finite_def)
qed

lemma flt_lit_2_100: "fval (flt_lit (2 ^ 100) 1 :: 'r flt) = 2 ^ (100 + ulp_exp TYPE('r))"
  "is_finite (flt_lit (2 ^ 100) 1 :: 'r flt)"
proof -
  have "representable (1 * 2 ^ (100 + ulp_exp TYPE('r)))"
    using width by (intro representable_scaled) (auto simp: mbits_def ulp_exp_def ebits_def)
  from flt_lit_exact [OF this, of "2 ^ 100" 1]
  show "fval (flt_lit (2 ^ 100) 1 :: 'r flt) = 2 ^ (100 + ulp_exp TYPE('r))"
    "is_finite (flt_lit (2 ^ 100) 1 :: 'r flt)"
    by (simp_all add: power_add)
qed

lemma abs_bounded_finite: "\<bar>x :: 'r flt\<bar> \<le> y \<Longrightarrow> is_finite y \<Longrightarrow> is_finite x \<and> \<bar>fval x\<bar> \<le> fval y"
proof -
  assume le: "\<bar>x\<bar> \<le> y" and y: "is_finite y"
  have "is_finite \<bar>x\<bar>" using le y unfolding less_eq_flt_def is_finite_key abs_key(1) by linarith
  with le y show ?thesis by (simp add: le_finite_iff)
qed

end

end
