(* ===== verification/Mixer_Safety.thy ===== *)
theory Mixer_Safety
  imports Mixer Float_Scaling
begin

text \<open>
  What the mixer promises: motor commands normalised to [-1, 1], a zero output under an
  invalid choice, the behaviour of an out-of-range choice on both sides, and that a canned
  mixer written back into the parameter table is read back as the same custom mixer.
\<close>

section \<open>Normalised motor commands\<close>

context flight_float
begin

lemma max_motor_fold:
  assumes "\<forall>i \<in> set is. types ! i = OutMotor \<longrightarrow> is_finite (outs ! i :: 'r flt) \<and> \<bar>fval (outs ! i)\<bar> \<le> B"
    and "is_finite m0" "fval m0 \<le> B"
  defines "mx \<equiv> fold (\<lambda>output m. if types ! output = OutMotor \<and> m < \<bar>outs ! output\<bar>
      then \<bar>outs ! output\<bar> else m) is m0"
  shows "is_finite mx \<and> fval m0 \<le> fval mx \<and> fval mx \<le> B \<and>
    (\<forall>i \<in> set is. types ! i = OutMotor \<longrightarrow> \<bar>fval (outs ! i)\<bar> \<le> fval mx) \<and>
    ((\<forall>i \<in> set is. types ! i = OutMotor \<longrightarrow> \<not> m0 < \<bar>outs ! i\<bar>) \<longrightarrow> mx = m0)"
  using assms(1-3) unfolding mx_def
proof (induction "is" arbitrary: m0)
  case Nil
  then show ?case by simp
next
  case (Cons i "is")
  let ?m1 = "if types ! i = OutMotor \<and> m0 < \<bar>outs ! i\<bar> then \<bar>outs ! i\<bar> else m0"
  have m1: "is_finite ?m1" "fval ?m1 \<le> B" "fval m0 \<le> fval ?m1"
    using Cons.prems less_le [of m0 "\<bar>outs ! i\<bar>"] by (auto simp: le_finite_iff)
  have i: "\<bar>fval (outs ! i)\<bar> \<le> fval ?m1" if "types ! i = OutMotor"
  proof (cases "m0 < \<bar>outs ! i\<bar>")
    case False
    have "is_finite (outs ! i)" using Cons.prems that by simp
    with False Cons.prems(2) finite_not not_less_le [of m0 "\<bar>outs ! i\<bar>"]
    have "\<bar>outs ! i\<bar> \<le> m0" by auto
    with \<open>is_finite (outs ! i)\<close> Cons.prems(2) False show ?thesis by (simp add: le_finite_iff)
  qed (use that in simp)
  from Cons.IH [of ?m1] Cons.prems m1(1,2)
  have ih: "is_finite (fold (\<lambda>output m. if types ! output = OutMotor \<and> m < \<bar>outs ! output\<bar>
      then \<bar>outs ! output\<bar> else m) is ?m1) \<and> fval ?m1 \<le> fval (fold (\<lambda>output m.
      if types ! output = OutMotor \<and> m < \<bar>outs ! output\<bar> then \<bar>outs ! output\<bar> else m) is ?m1)
      \<and> fval (fold (\<lambda>output m. if types ! output = OutMotor \<and> m < \<bar>outs ! output\<bar>
      then \<bar>outs ! output\<bar> else m) is ?m1) \<le> B \<and> (\<forall>i \<in> set is. types ! i = OutMotor \<longrightarrow>
      \<bar>fval (outs ! i)\<bar> \<le> fval (fold (\<lambda>output m. if types ! output = OutMotor \<and> m < \<bar>outs ! output\<bar>
      then \<bar>outs ! output\<bar> else m) is ?m1)) \<and>
      ((\<forall>i \<in> set is. types ! i = OutMotor \<longrightarrow> \<not> ?m1 < \<bar>outs ! i\<bar>) \<longrightarrow>
        fold (\<lambda>output m. if types ! output = OutMotor \<and> m < \<bar>outs ! output\<bar>
      then \<bar>outs ! output\<bar> else m) is ?m1 = ?m1)" by simp
  with i m1(3) show ?case by (auto simp del: fold_simps simp add: fold_simps(2))
qed

lemma scale_motors_bounds:
  assumes bound: "\<forall>i < NUM_MIXER_OUTPUTS. types ! i = OutMotor \<longrightarrow> \<bar>outs ! i :: 'r flt\<bar> \<le> flt_lit (2 ^ 100) 1"
    and out: "out < NUM_MIXER_OUTPUTS" "types ! out = OutMotor"
  shows "- 1 \<le> scale_motors types outs ! out \<and> scale_motors types outs ! out \<le> 1 \<and>
    ((\<forall>i < NUM_MIXER_OUTPUTS. types ! i = OutMotor \<longrightarrow> \<bar>outs ! i\<bar> \<le> 1) \<longrightarrow>
      scale_motors types outs ! out = outs ! out)"
proof -
  let ?B = "2 ^ (100 + ulp_exp TYPE('r)) :: int" and ?mx = "max_motor_output types outs"
  have fin: "\<forall>i \<in> set [0..<NUM_MIXER_OUTPUTS]. types ! i = OutMotor \<longrightarrow>
      is_finite (outs ! i) \<and> \<bar>fval (outs ! i)\<bar> \<le> ?B"
  proof (intro ballI impI)
    fix i assume "i \<in> set [0..<NUM_MIXER_OUTPUTS]" and "types ! i = OutMotor"
    then have "\<bar>outs ! i\<bar> \<le> flt_lit (2 ^ 100) 1" using bound by (simp only: set_upt atLeastLessThan_iff)
    from abs_bounded_finite [OF this flt_lit_2_100(2)]
    show "is_finite (outs ! i) \<and> \<bar>fval (outs ! i)\<bar> \<le> ?B" by (simp only: flt_lit_2_100(1))
  qed
  have "(2::int) ^ ulp_exp TYPE('r) \<le> ?B" by (intro power_increasing) simp_all
  from max_motor_fold [OF fin one_fval(2)] this
  have mx: "is_finite ?mx" "2 ^ ulp_exp TYPE('r) \<le> fval ?mx" "fval ?mx \<le> ?B"
    "\<bar>fval (outs ! out)\<bar> \<le> fval ?mx" "is_finite (outs ! out)"
    and one: "(\<forall>i < NUM_MIXER_OUTPUTS. types ! i = OutMotor \<longrightarrow> \<not> 1 < \<bar>outs ! i\<bar>) \<longrightarrow> ?mx = 1"
    using out fin by (simp_all add: max_motor_output_def lit32_1)
  have cap: "?B \<le> 2 ^ (2 * ulp_exp TYPE('r) - mbits TYPE('r))"
    using width by (intro power_increasing) (auto simp: mbits_def ulp_exp_def ebits_def)
  have val: "scale_motors types outs ! out = outs ! out * (if 1 < ?mx then 1 / ?mx else 1)"
    using out by (simp add: scale_motors_def Let_def lit32_1)
  have "- 1 \<le> scale_motors types outs ! out \<and> scale_motors types outs ! out \<le> 1"
  proof (cases "1 < ?mx")
    case True
    with scale_by_reciprocal [OF mx(5,1,2) order_trans [OF mx(3) cap] mx(4)] show ?thesis
      by (simp add: val)
  next
    case False
    then have "?mx \<le> 1" using not_less_le [of 1 ?mx] finite_not [OF mx(1)] finite_not [OF one_fval(2)] by simp
    then have "fval ?mx \<le> 2 ^ ulp_exp TYPE('r)" using mx(1) by (simp add: le_finite_iff)
    with mx(4) have "\<bar>fval (outs ! out)\<bar> \<le> 2 ^ ulp_exp TYPE('r)" by (rule order_trans)
    with False show ?thesis by (simp add: val mx(5) le_finite_iff abs_le_iff)
  qed
  moreover have "scale_motors types outs ! out = outs ! out"
    if a: "\<forall>i < NUM_MIXER_OUTPUTS. types ! i = OutMotor \<longrightarrow> \<bar>outs ! i\<bar> \<le> 1"
  proof -
    have "?mx = 1" using one a by (auto simp: less_flt_def less_eq_flt_def)
    then show ?thesis by (simp add: val mx(5) less_flt_def)
  qed
  ultimately show ?thesis by blast
qed

end

text \<open>
  C26. Under a healthy mixer whose motor outputs before scaling are at most 2^100 in
  magnitude, every motor command lies in [-1, 1], exactly: no rounding takes it past the
  bound. When no motor output exceeds 1 the commands are the outputs, unscaled.
\<close>

theorem mix_motor_commands_normalised:
  fixes L :: "'r::len linalg" and mm :: "'r matrix_mixer"
  assumes "LENGTH('r) = 32 \<or> LENGTH('r) = 64" and "mm_status mm = Healthy"
    and "\<forall>i < NUM_MIXER_OUTPUTS. mm_output_types mm ! i = OutMotor \<longrightarrow>
      \<bar>mix_raw_outputs L mm (mix_commands mm controls ctx) ctx ! i\<bar> \<le> flt_lit (2 ^ 100) 1"
    and "out < NUM_MIXER_OUTPUTS" and "mm_output_types mm ! out = OutMotor"
  shows "- 1 \<le> mr_commands (mix L mm controls ctx) ! out
    \<and> mr_commands (mix L mm controls ctx) ! out \<le> 1
    \<and> ((\<forall>i < NUM_MIXER_OUTPUTS. mm_output_types mm ! i = OutMotor \<longrightarrow>
          \<bar>mix_raw_outputs L mm (mix_commands mm controls ctx) ctx ! i\<bar> \<le> 1) \<longrightarrow>
        mr_commands (mix L mm controls ctx) ! out
          = mix_raw_outputs L mm (mix_commands mm controls ctx) ctx ! out)"
  using flight_float.scale_motors_bounds [OF flight_float.intro [OF assms(1)] assms(3-5)] assms(2)
  by (simp add: mix_def)

text \<open>A mixer and inputs for the concrete instances: one motor asks for 2, one for 1.\<close>

definition no_linalg :: "'r::len linalg" where
  "no_linalg = \<lparr>la_svd = (\<lambda>_. (None, None, [])), la_mul = (\<lambda>a b. a), la_sqrt = (\<lambda>x. x)\<rparr>"

definition sample_row :: "int list \<Rightarrow> f32 list" where
  "sample_row ns = map (\<lambda>n. flt_lit n 1) ns"

definition sample_matrix :: "f32 list list" where
  "sample_matrix = [sample_row [0, 0, 0, 0, 0, 0, 0, 0, 0, 0], sample_row [0, 0, 0, 0, 0, 0, 0, 0, 0, 0],
     sample_row [2, 1, 0, 0, 0, 0, 0, 0, 0, 0], [], [], [], [], [], [], []]"

definition sample_mixer :: "32 matrix_mixer" where
  "sample_mixer = \<lparr>mm_params = \<lparr>mp_idle_throttle = flt_lit 0 1, mp_num_motors = 4,
      mp_fixed_wing = False, mp_use_motor_parameters = False, mp_throttle_axis = 2\<rparr>,
    mm_status = Healthy, mm_output_types = QUAD_X_OUTPUT_TYPES, mm_default_pwm_rates = [],
    mm_primary_mixer = sample_matrix, mm_secondary_mixer = sample_matrix\<rparr>"

definition sample_controls :: "32 controller_output" where
  "sample_controls = \<lparr>co_u = sample_row [0, 0, 1, 0, 0, 0, 0, 0, 0, 0]\<rparr>"

definition sample_ctx :: "32 mixer_ctx" where
  "sample_ctx = \<lparr>mc_params = zero_params, mc_rc_override = 0, mc_air_density = flt_lit 1 1,
     mc_battery_voltage = None\<rparr>"

lemma outputs_upt: "[0..<NUM_MIXER_OUTPUTS] = [0, 1, 2, 3, 4, 5, 6, 7, 8, 9]"
  by (simp add: NUM_MIXER_OUTPUTS_def upt_rec)

lemma outputs_replicate: "replicate NUM_MIXER_OUTPUTS x = [x, x, x, x, x, x, x, x, x, x]"
  by (simp add: NUM_MIXER_OUTPUTS_def eval_nat_numeral)

text \<open>The few \<^verbatim>\<open>f32\<close> values the concrete run meets.\<close>

lemma sample_values: "flt_eq (0 :: f32) 0" "\<not> flt_eq (flt_lit 1 1 :: f32) 0" "\<not> \<bar>flt_lit 1 1 :: f32\<bar> < 0"
  "0 + flt_lit 1 1 * 0 = (0 :: f32)" "0 + flt_lit 1 1 * flt_lit 1 1 = (flt_lit 1 1 :: f32)"
  "0 + flt_lit 1 1 * flt_lit 2 1 = (flt_lit 2 1 :: f32)"
  by (simp_all add: flt_eval)

lemma sample_raw:
  "mix_raw_outputs no_linalg sample_mixer (mix_commands sample_mixer sample_controls sample_ctx) sample_ctx
    = sample_row [2, 1, 0, 0, 0, 0, 0, 0, 0, 0]"
  by (simp add: mix_raw_outputs_def mix_commands_def sample_mixer_def sample_controls_def sample_ctx_def
      sample_row_def sample_matrix_def mix_outputs_with_selected_rows_def outputs_upt outputs_replicate
      QUAD_X_OUTPUT_TYPES_def selected_mixer_row_def use_primary_row_for_override_def
      throttle_command_def sample_values)

lemma all_outputs: "(\<forall>i < NUM_MIXER_OUTPUTS. P i) \<longleftrightarrow> list_all P [0, 1, 2, 3, 4, 5, 6, 7, 8, 9]"
proof -
  have "(\<forall>i < NUM_MIXER_OUTPUTS. P i) \<longleftrightarrow> list_all P [0..<NUM_MIXER_OUTPUTS]"
    by (auto simp: list_all_iff)
  then show ?thesis by (simp only: outputs_upt)
qed

theorem mix_motor_commands_normalised_witness:
  "- 1 \<le> mr_commands (mix no_linalg sample_mixer sample_controls sample_ctx) ! 0
    \<and> mr_commands (mix no_linalg sample_mixer sample_controls sample_ctx) ! 0 \<le> 1"
proof -
  have v: "\<bar>flt_lit 2 1 :: f32\<bar> \<le> flt_lit (2 ^ 100) 1" "\<bar>flt_lit 1 1 :: f32\<bar> \<le> flt_lit (2 ^ 100) 1"
    by (simp_all add: flt_eval)
  have t: "mm_output_types sample_mixer = QUAD_X_OUTPUT_TYPES" by (simp add: sample_mixer_def)
  have a: "\<forall>i < NUM_MIXER_OUTPUTS. mm_output_types sample_mixer ! i = OutMotor \<longrightarrow>
      \<bar>mix_raw_outputs no_linalg sample_mixer (mix_commands sample_mixer sample_controls sample_ctx) sample_ctx ! i\<bar>
        \<le> flt_lit (2 ^ 100) 1"
    unfolding all_outputs sample_raw t using v
    by (simp add: sample_row_def QUAD_X_OUTPUT_TYPES_def) (simp add: flt_eval)
  show ?thesis
    using mix_motor_commands_normalised [where out = 0, OF _ _ a]
    by (simp add: sample_mixer_def QUAD_X_OUTPUT_TYPES_def NUM_MIXER_OUTPUTS_def)
qed

section \<open>Choices of the mixer\<close>

text \<open>
  A primary choice past the last mixer is refused: the refresh reports an invalid
  mixer and keeps the matrices it had, and from then on every mix returns zero commands.
\<close>

theorem invalid_choice_mixes_zero:
  fixes mm :: "'r::len matrix_mixer"
  assumes "sint NUM_MIXERS \<le> sint (mixer_param_int p PARAM_PRIMARY_MIXER)"
  shows "snd (mixer_refresh_params L mm p) = Some InvalidMixer
    \<and> mm_primary_mixer (fst (mixer_refresh_params L mm p)) = mm_primary_mixer mm
    \<and> mm_secondary_mixer (fst (mixer_refresh_params L mm p)) = mm_secondary_mixer mm
    \<and> mix L (fst (mixer_refresh_params L mm p)) controls ctx =
        \<lparr>mr_commands = replicate NUM_MIXER_OUTPUTS (lit32 0 1), mr_status = InvalidMixer\<rparr>"
  using assms
  by (simp add: mixer_refresh_params_def refresh_mixer_config_def refresh_runtime_params_def Let_def mix_def)

theorem invalid_choice_mixes_zero_witness:
  "snd (mixer_refresh_params no_linalg sample_mixer (set_by_id params_new PARAM_PRIMARY_MIXER (PInt 255)))
      = Some InvalidMixer"
proof -
  have "sint NUM_MIXERS \<le> sint (mixer_param_int (set_by_id params_new PARAM_PRIMARY_MIXER (PInt 255))
      PARAM_PRIMARY_MIXER)"
    by (simp add: mixer_param_int_def NUM_MIXERS_def)
  from invalid_choice_mixes_zero [OF this, where L = no_linalg and mm = sample_mixer] show ?thesis by blast
qed

text \<open>
  The range check of the primary choice has no lower bound: a negative choice is
  accepted as healthy and flies the quad-X motor layout with the quad-X matrix before
  inversion, whatever the custom mixer parameters say.
\<close>

theorem negative_choice_is_accepted:
  fixes mm :: "'r::len matrix_mixer"
  assumes "sint (mixer_param_int p PARAM_PRIMARY_MIXER) < 0"
  shows "snd (mixer_refresh_params L mm p) = Some Healthy
    \<and> mm_output_types (fst (mixer_refresh_params L mm p)) = QUAD_X_OUTPUT_TYPES
    \<and> mm_primary_mixer (fst (mixer_refresh_params L mm p)) = matrix_from_default QUAD_X_MIXER"
proof -
  let ?c = "mixer_param_int p PARAM_PRIMARY_MIXER"
  have ne: "?c \<noteq> 0" "?c \<noteq> 1" "?c \<noteq> 2" "?c \<noteq> 3" "?c \<noteq> 4" "?c \<noteq> 5" "?c \<noteq> 6" "?c \<noteq> 7" "?c \<noteq> 8"
    "?c \<noteq> 9" "?c \<noteq> 10" "?c \<noteq> CUSTOM_MIXER"
    using assms by (auto simp: CUSTOM_MIXER_def)
  have low: "\<not> sint NUM_MIXERS \<le> sint ?c" using assms by (simp add: NUM_MIXERS_def)
  have c: "canned_mixer L ?c = (None :: 'r canned_mixer_config option)"
    using ne by (simp add: canned_mixer_def Let_def)
  have "output_types_from_params p = None" "mixer_from_params p PARAM_PRIMARY_MIXER fid = (None :: 'r flt list list option)" for fid
    using ne by (simp_all add: output_types_from_params_def mixer_from_params_def)
  with low c show ?thesis
    by (simp add: mixer_refresh_params_def refresh_mixer_config_def refresh_runtime_params_def Let_def)
qed

theorem negative_choice_is_accepted_witness:
  "snd (mixer_refresh_params no_linalg sample_mixer (set_by_id params_new PARAM_PRIMARY_MIXER (PInt (- 1))))
      = Some Healthy"
proof -
  have "sint (mixer_param_int (set_by_id params_new PARAM_PRIMARY_MIXER (PInt (- 1))) PARAM_PRIMARY_MIXER) < 0"
    by (simp add: mixer_param_int_def)
  from negative_choice_is_accepted [OF this, where L = no_linalg and mm = sample_mixer] show ?thesis by blast
qed

section \<open>A canned mixer written back\<close>

definition mat10 :: "'a list list \<Rightarrow> bool" where
  "mat10 m \<longleftrightarrow> length m = NUM_MIXER_OUTPUTS \<and> (\<forall>row \<in> set m. length row = NUM_MIXER_OUTPUTS)"

lemma mat10_default [simp]: "mat10 (matrix_from_default m :: 'r::len flt list list) = mat10 m"
  by (simp add: mat10_def matrix_from_default_def)

lemma mat10_inverted [simp]: "mat10 m \<Longrightarrow> mat10 (inverted_multirotor_mixer L m)"
  by (auto simp: inverted_multirotor_mixer_def Let_def mat10_def split: prod.split option.split)

lemma mat10_rank_one [simp]: "mat10 m \<Longrightarrow> mat10 (rank_one_pseudoinverse_mixer m)"
  by (auto simp: rank_one_pseudoinverse_mixer_def Let_def mat10_def)

lemma mat10_canned:
  "mat10 ESC_CALIBRATION_MATRIX" "mat10 QUAD_PLUS_MATRIX" "mat10 QUAD_X_MIXER" "mat10 HEX_PLUS_MATRIX"
  "mat10 HEX_X_MATRIX" "mat10 OCTO_PLUS_MATRIX" "mat10 OCTO_X_MATRIX" "mat10 Y6_MATRIX" "mat10 X8_MATRIX"
  "mat10 FIXEDWING_MATRIX" "mat10 INVERTED_VTAIL_MATRIX"
  by (simp_all add: mat10_def NUM_MIXER_OUTPUTS_def lit_row_def ESC_CALIBRATION_MATRIX_def
      QUAD_PLUS_MATRIX_def QUAD_X_MIXER_def HEX_PLUS_MATRIX_def HEX_X_MATRIX_def OCTO_PLUS_MATRIX_def
      OCTO_X_MATRIX_def Y6_MATRIX_def X8_MATRIX_def FIXEDWING_MATRIX_def INVERTED_VTAIL_MATRIX_def)

lemma canned_mixer_shape:
  assumes "canned_mixer L choice = Some config"
  shows "mat10 (cc_matrix config)" "length (cc_output_types config) = NUM_MIXER_OUTPUTS"
    "length (cc_default_pwm_rates config) = NUM_MIXER_OUTPUTS"
  using assms
  by (auto simp: canned_mixer_def Let_def mat10_canned rates_from_default_def lit_row_def NUM_MIXER_OUTPUTS_def
      ALL_MOTOR_OUTPUT_TYPES_def QUAD_X_OUTPUT_TYPES_def HEX_OUTPUT_TYPES_def OCTO_OUTPUT_TYPES_def
      FIXEDWING_OUTPUT_TYPES_def ESC_CALIBRATION_PWM_RATES_def QUAD_X_PWM_RATES_def HEX_PWM_RATES_def
      OCTO_PWM_RATES_def FIXEDWING_PWM_RATES_def split: if_splits)

definition cell_writes :: "nat \<Rightarrow> f64 list list \<Rightarrow> (nat \<times> nat) list \<Rightarrow> (param_id \<times> param_value) list" where
  "cell_writes first m cells = map (\<lambda>(col, row).
     (ParamId (first + col * NUM_MIXER_OUTPUTS + row), PFloat (to_f32_lossy (m ! row ! col)))) cells"

lemma save_matrix_cells_writes:
  "\<forall>(col, row) \<in> set cells. first + col * NUM_MIXER_OUTPUTS + row < PARAMS_COUNT \<Longrightarrow>
    save_matrix_cells p first m cells
      = foldl (\<lambda>s kv. set_by_id s (fst kv) (snd kv)) p (cell_writes first m cells)"
  by (induction cells arbitrary: p) (auto simp: cell_writes_def param_from_index_eq)

lemma cell_index_inj: "c * 10 + r = c' * 10 + r' \<Longrightarrow> r < 10 \<Longrightarrow> r' < (10::nat) \<Longrightarrow> c = c' \<and> r = r'"
  by presburger

lemma saved_cell:
  assumes "length m = NUM_MIXER_OUTPUTS" "first + 100 \<le> PARAMS_COUNT" "col < NUM_MIXER_OUTPUTS" "row < NUM_MIXER_OUTPUTS"
  shows "get_by_id (save_mixer_matrix_params p (ParamId first) m) (ParamId (first + col * NUM_MIXER_OUTPUTS + row))
    = PFloat (to_f32_lossy (m ! row ! col))"
proof -
  let ?cells = "List.product [0..<NUM_MIXER_OUTPUTS] [0..<length m]"
  have inj: "inj_on (\<lambda>(col, row). ParamId (first + col * NUM_MIXER_OUTPUTS + row)) (set ?cells)"
    using assms(1) by (auto simp: inj_on_def NUM_MIXER_OUTPUTS_def dest: cell_index_inj)
  have "map fst (cell_writes first m ?cells)
      = map (\<lambda>(col, row). ParamId (first + col * NUM_MIXER_OUTPUTS + row)) ?cells"
    by (auto simp: cell_writes_def)
  then have d: "distinct (map fst (cell_writes first m ?cells))"
    using inj by (simp add: distinct_map distinct_product)
  have i: "(ParamId (first + col * NUM_MIXER_OUTPUTS + row), PFloat (to_f32_lossy (m ! row ! col)))
      \<in> set (cell_writes first m ?cells)"
    using assms by (force simp: cell_writes_def)
  have ok: "\<forall>(col, row) \<in> set ?cells. first + col * NUM_MIXER_OUTPUTS + row < PARAMS_COUNT"
    using assms(1,2) by (auto simp: NUM_MIXER_OUTPUTS_def PARAMS_COUNT_def)
  show ?thesis
    using params_store.lookup_batch [OF d i]
    by (simp add: save_mixer_matrix_params_def save_matrix_cells_writes [OF ok])
qed

lemma saved_other:
  assumes "length m = NUM_MIXER_OUTPUTS" "first + 100 \<le> PARAMS_COUNT" "k < first \<or> first + 100 \<le> k"
  shows "get_by_id (save_mixer_matrix_params p (ParamId first) m) (ParamId k) = get_by_id p (ParamId k)"
proof -
  let ?cells = "List.product [0..<NUM_MIXER_OUTPUTS] [0..<length m]"
  have ok: "\<forall>(col, row) \<in> set ?cells. first + col * NUM_MIXER_OUTPUTS + row < PARAMS_COUNT"
    using assms(1,2) by (auto simp: NUM_MIXER_OUTPUTS_def PARAMS_COUNT_def)
  have "ParamId k \<notin> fst ` set (cell_writes first m ?cells)"
    using assms by (auto simp: cell_writes_def NUM_MIXER_OUTPUTS_def)
  from params_store.lookup_batch_other [OF this] show ?thesis
    by (simp add: save_mixer_matrix_params_def save_matrix_cells_writes [OF ok])
qed

definition output_writes :: "64 canned_mixer_config \<Rightarrow> (param_id \<times> param_value) list" where
  "output_writes config = concat (map (\<lambda>o'.
     [(ParamId (11 + o'), PInt (mixer_output_type_to_rosflight (cc_output_types config ! o'))),
      (ParamId (21 + o'), PFloat (to_f32_lossy (cc_default_pwm_rates config ! o')))])
     [0..<NUM_MIXER_OUTPUTS])"

lemma save_primary_outputs_writes:
  "save_primary_outputs p config = foldl (\<lambda>s kv. set_by_id s (fst kv) (snd kv)) p (output_writes config)"
  by (simp add: save_primary_outputs_def output_writes_def outputs_upt param_from_index_eq PARAMS_COUNT_def)

lemma saved_outputs:
  assumes "o' < NUM_MIXER_OUTPUTS"
  shows "get_by_id (save_primary_outputs p config) (ParamId (11 + o'))
      = PInt (mixer_output_type_to_rosflight (cc_output_types config ! o'))"
    and "get_by_id (save_primary_outputs p config) (ParamId (21 + o'))
      = PFloat (to_f32_lossy (cc_default_pwm_rates config ! o'))"
proof -
  have d: "distinct (map fst (output_writes config))"
    by (simp add: output_writes_def outputs_upt)
  show "get_by_id (save_primary_outputs p config) (ParamId (11 + o'))
      = PInt (mixer_output_type_to_rosflight (cc_output_types config ! o'))"
    and "get_by_id (save_primary_outputs p config) (ParamId (21 + o'))
      = PFloat (to_f32_lossy (cc_default_pwm_rates config ! o'))"
    unfolding save_primary_outputs_writes
    using assms by (intro params_store.lookup_batch [OF d]; force simp: output_writes_def)+
qed

lemma saved_outputs_other:
  "k < 11 \<or> 31 \<le> k \<Longrightarrow> get_by_id (save_primary_outputs p config) (ParamId k) = get_by_id p (ParamId k)"
  unfolding save_primary_outputs_writes
  by (rule params_store.lookup_batch_other) (auto simp: output_writes_def outputs_upt)

lemma output_type_round_trip [simp]:
  "mixer_output_type_from_rosflight (mixer_output_type_to_rosflight t) = t"
  by (cases t) (simp_all add: mixer_output_type_from_rosflight_def)

lemma sync_primary_values:
  fixes L :: "64 linalg"
  assumes c: "canned_mixer L (mixer_param_int p PARAM_PRIMARY_MIXER) = Some config"
  defines "p' \<equiv> sync_reflected_mixer_params L p PARAM_PRIMARY_MIXER"
  shows "\<And>o'. o' < NUM_MIXER_OUTPUTS \<Longrightarrow> get_by_id p' (ParamId (11 + o'))
      = PInt (mixer_output_type_to_rosflight (cc_output_types config ! o'))"
    and "\<And>o'. o' < NUM_MIXER_OUTPUTS \<Longrightarrow> get_by_id p' (ParamId (21 + o'))
      = PFloat (to_f32_lossy (cc_default_pwm_rates config ! o'))"
    and "\<And>col row. col < NUM_MIXER_OUTPUTS \<Longrightarrow> row < NUM_MIXER_OUTPUTS \<Longrightarrow>
      get_by_id p' (ParamId (31 + col * NUM_MIXER_OUTPUTS + row)) = PFloat (to_f32_lossy (cc_matrix config ! row ! col))"
proof -
  have len: "length (cc_matrix config) = NUM_MIXER_OUTPUTS"
    using canned_mixer_shape(1) [OF c] by (simp add: mat10_def)
  have frame: "get_by_id p' (ParamId k) = get_by_id (save_primary_mixer_params p config) (ParamId k)" if "k < 131" for k
    using c that saved_other [OF len, of 131 k]
    by (simp add: p'_def sync_reflected_mixer_params_def Let_def save_secondary_mixer_params_def PARAMS_COUNT_def)
  fix o' assume o': "o' < NUM_MIXER_OUTPUTS"
  then have lt: "o' < 10" by (simp add: NUM_MIXER_OUTPUTS_def)
  have m: "get_by_id (save_primary_mixer_params p config) (ParamId k) = get_by_id (save_primary_outputs p config) (ParamId k)"
    if "k < 31" for k
    using that saved_other [OF len, of 31 k] by (simp add: save_primary_mixer_params_def PARAMS_COUNT_def)
  show "get_by_id p' (ParamId (11 + o'))
      = PInt (mixer_output_type_to_rosflight (cc_output_types config ! o'))"
    using lt frame m saved_outputs(1) [OF o'] by simp
  show "get_by_id p' (ParamId (21 + o')) = PFloat (to_f32_lossy (cc_default_pwm_rates config ! o'))"
    using lt frame m saved_outputs(2) [OF o'] by simp
next
  have len: "length (cc_matrix config) = NUM_MIXER_OUTPUTS"
    using canned_mixer_shape(1) [OF c] by (simp add: mat10_def)
  have frame: "get_by_id p' (ParamId k) = get_by_id (save_primary_mixer_params p config) (ParamId k)" if "k < 131" for k
    using c that saved_other [OF len, of 131 k]
    by (simp add: p'_def sync_reflected_mixer_params_def Let_def save_secondary_mixer_params_def PARAMS_COUNT_def)
  fix col row assume cr: "col < NUM_MIXER_OUTPUTS" "row < NUM_MIXER_OUTPUTS"
  then have lt: "31 + col * NUM_MIXER_OUTPUTS + row < 131" by (simp add: NUM_MIXER_OUTPUTS_def)
  have le: "31 + 100 \<le> PARAMS_COUNT" by (simp add: PARAMS_COUNT_def)
  show "get_by_id p' (ParamId (31 + col * NUM_MIXER_OUTPUTS + row)) = PFloat (to_f32_lossy (cc_matrix config ! row ! col))"
    using frame [OF lt] saved_cell [OF len le cr] by (simp add: save_primary_mixer_params_def)
qed

text \<open>
  Round trip of the reflected parameters: after a canned primary mixer has been
  written back into the table, switching the choice to the custom mixer reads back the
  same output types, the same rates and the same matrix, each number as the \<^verbatim>\<open>f32\<close> the
  table stores.
\<close>

theorem canned_mixer_round_trip:
  fixes L :: "64 linalg"
  assumes "canned_mixer L (mixer_param_int p PARAM_PRIMARY_MIXER) = Some config"
    and "p' = set_by_id (sync_reflected_mixer_params L p PARAM_PRIMARY_MIXER) PARAM_PRIMARY_MIXER (PInt CUSTOM_MIXER)"
  shows "output_types_from_params p' = Some (cc_output_types config)
    \<and> pwm_rates_from_params p'
        = Some (map (\<lambda>x. from_f32 (to_f32_lossy x) :: 'r::len flt) (cc_default_pwm_rates config))
    \<and> mixer_from_params p' PARAM_PRIMARY_MIXER PARAM_PRIMARY_MIXER_0_0
        = Some (map (map (\<lambda>x. from_f32 (to_f32_lossy x) :: 'r flt)) (cc_matrix config))"
proof (intro conjI)
  note shape = canned_mixer_shape [OF assms(1)] and vals = sync_primary_values [OF assms(1)]
  have choice: "mixer_param_int p' PARAM_PRIMARY_MIXER = CUSTOM_MIXER"
    by (simp add: assms(2) mixer_param_int_def)
  have idx: "param_from_index i = Some (ParamId i)" if "i < 131" for i
    using that by (simp add: param_from_index_eq PARAMS_COUNT_def)
  have get: "get_by_id p' (ParamId i) = get_by_id (sync_reflected_mixer_params L p PARAM_PRIMARY_MIXER) (ParamId i)"
    if "i < 131" for i using that by (simp add: assms(2))
  have small: "11 + o' < 131" "21 + o' < 131" if "o' < NUM_MIXER_OUTPUTS" for o'
    using that by (simp_all add: NUM_MIXER_OUTPUTS_def)
  have "those (map (\<lambda>o'. map_option (\<lambda>pid. mixer_output_type_from_rosflight (mixer_param_int p' pid))
      (param_from_index (11 + o'))) [0..<NUM_MIXER_OUTPUTS])
      = Some (map (\<lambda>o'. cc_output_types config ! o') [0..<NUM_MIXER_OUTPUTS])"
    by (rule those_map_Some) (simp add: idx small get vals mixer_param_int_def)
  also have "map (\<lambda>o'. cc_output_types config ! o') [0..<NUM_MIXER_OUTPUTS] = cc_output_types config"
    using shape(2) by (metis map_nth)
  finally show "output_types_from_params p' = Some (cc_output_types config)"
    by (simp add: output_types_from_params_def choice)
  have "those (map (\<lambda>o'. map_option (mixer_param_float p') (param_from_index (21 + o'))) [0..<NUM_MIXER_OUTPUTS])
      = Some (map (\<lambda>o'. from_f32 (to_f32_lossy (cc_default_pwm_rates config ! o')) :: 'r flt) [0..<NUM_MIXER_OUTPUTS])"
    by (rule those_map_Some) (simp add: idx small get vals mixer_param_float_def)
  also have "map (\<lambda>o'. from_f32 (to_f32_lossy (cc_default_pwm_rates config ! o')) :: 'r flt) [0..<NUM_MIXER_OUTPUTS]
      = map (\<lambda>x. from_f32 (to_f32_lossy x)) (cc_default_pwm_rates config)"
    using shape(3) by (intro nth_equalityI) simp_all
  finally show "pwm_rates_from_params p' = Some (map (\<lambda>x. from_f32 (to_f32_lossy x) :: 'r flt) (cc_default_pwm_rates config))"
    by (simp add: pwm_rates_from_params_def choice)
  have cell: "31 + col * NUM_MIXER_OUTPUTS + row < 131" if "row < NUM_MIXER_OUTPUTS" "col < NUM_MIXER_OUTPUTS" for row col
    using that by (simp add: NUM_MIXER_OUTPUTS_def)
  have "those (map (\<lambda>row. those (map (\<lambda>col. map_option (mixer_param_float p')
        (param_from_index (31 + col * NUM_MIXER_OUTPUTS + row))) [0..<NUM_MIXER_OUTPUTS])) [0..<NUM_MIXER_OUTPUTS])
      = Some (map (\<lambda>row. map (\<lambda>col. from_f32 (to_f32_lossy (cc_matrix config ! row ! col)) :: 'r flt)
          [0..<NUM_MIXER_OUTPUTS]) [0..<NUM_MIXER_OUTPUTS])"
    by (intro those_map_Some) (simp add: idx cell get vals mixer_param_float_def)
  also have "map (\<lambda>row. map (\<lambda>col. from_f32 (to_f32_lossy (cc_matrix config ! row ! col)) :: 'r flt)
          [0..<NUM_MIXER_OUTPUTS]) [0..<NUM_MIXER_OUTPUTS]
      = map (map (\<lambda>x. from_f32 (to_f32_lossy x))) (cc_matrix config)"
    using shape(1) by (auto simp: mat10_def intro!: nth_equalityI)
  finally show "mixer_from_params p' PARAM_PRIMARY_MIXER PARAM_PRIMARY_MIXER_0_0
      = Some (map (map (\<lambda>x. from_f32 (to_f32_lossy x) :: 'r flt)) (cc_matrix config))"
    by (simp add: mixer_from_params_def choice)
qed

theorem canned_mixer_round_trip_witness:
  "output_types_from_params (set_by_id (sync_reflected_mixer_params no_linalg
      (set_by_id params_new PARAM_PRIMARY_MIXER (PInt 9)) PARAM_PRIMARY_MIXER) PARAM_PRIMARY_MIXER
      (PInt CUSTOM_MIXER)) = Some FIXEDWING_OUTPUT_TYPES"
proof -
  have "canned_mixer no_linalg (mixer_param_int (set_by_id params_new PARAM_PRIMARY_MIXER (PInt 9)) PARAM_PRIMARY_MIXER)
      = Some (\<lparr>cc_output_types = FIXEDWING_OUTPUT_TYPES,
           cc_default_pwm_rates = rates_from_default FIXEDWING_PWM_RATES,
           cc_matrix = matrix_from_default FIXEDWING_MATRIX\<rparr> :: 64 canned_mixer_config)"
    by (simp add: canned_mixer_def mixer_param_int_def)
  from canned_mixer_round_trip [where 'r = 64, OF this refl] show ?thesis by simp
qed

end
