(* ===== verification/Param_Service.thy ===== *)
theory Param_Service
  imports Event_Queues Mixer
begin

text \<open>
  The parameter service of \<^verbatim>\<open>params/service.rs\<close>: the set, read and list requests of the
  companion, the responses and change events they cause, and the two parts of \<^verbatim>\<open>comm.rs\<close>
  it uses, the fixed name bytes and the parameters that are telemetry rates. The
  write-back of a canned mixer takes the linear algebra of the mixer as its parameter.
\<close>

section \<open>Names as bytes\<close>

definition string_bytes :: "string \<Rightarrow> u8 list" where
  "string_bytes s = map (\<lambda>c. word_of_nat (of_char c)) s"

definition str_to_fixed_bytes :: "string \<Rightarrow> u8 list" where
  "str_to_fixed_bytes s = (let bytes = string_bytes s; n = min (length bytes) 16
     in take n bytes @ replicate (16 - n) 0)"

text \<open>\<^verbatim>\<open>core::str::from_utf8\<close> accepts exactly the well-formed sequences.\<close>

definition utf8_cont :: "u8 \<Rightarrow> bool" where
  "utf8_cont b \<longleftrightarrow> 0x80 \<le> b \<and> b \<le> 0xBF"

fun utf8_valid :: "u8 list \<Rightarrow> bool" where
  "utf8_valid [] = True"
| "utf8_valid (b # bs) =
    (if b < 0x80 then utf8_valid bs
     else if 0xC2 \<le> b \<and> b \<le> 0xDF then
       (case bs of c # r \<Rightarrow> utf8_cont c \<and> utf8_valid r | _ \<Rightarrow> False)
     else if 0xE0 \<le> b \<and> b \<le> 0xEF then
       (case bs of c # d # r \<Rightarrow> (if b = 0xE0 then 0xA0 \<le> c \<and> c \<le> 0xBF
            else if b = 0xED then 0x80 \<le> c \<and> c \<le> 0x9F else utf8_cont c)
          \<and> utf8_cont d \<and> utf8_valid r | _ \<Rightarrow> False)
     else if 0xF0 \<le> b \<and> b \<le> 0xF4 then
       (case bs of c # d # e # r \<Rightarrow> (if b = 0xF0 then 0x90 \<le> c \<and> c \<le> 0xBF
            else if b = 0xF4 then 0x80 \<le> c \<and> c \<le> 0x8F else utf8_cont c)
          \<and> utf8_cont d \<and> utf8_cont e \<and> utf8_valid r | _ \<Rightarrow> False)
     else False)"

definition param_id_from_name_bytes :: "u8 list \<Rightarrow> param_id option" where
  "param_id_from_name_bytes bytes =
    (let name = takeWhile (\<lambda>b. b \<noteq> 0) bytes in
     if \<not> utf8_valid name then None
     else map_option def_id (find (\<lambda>d. string_bytes (def_name d) = name
            \<or> str_to_fixed_bytes (def_name d) = bytes) PARAM_DEFINITIONS))"

definition param_id_from_identifier :: "param_identifier \<Rightarrow> param_id option" where
  "param_id_from_identifier ident = (case ident of
     ParamIndex index \<Rightarrow>
       if 0 \<le> sint index then map_option def_id (list_get PARAM_DEFINITIONS (nat (sint index)))
       else None
   | ParamName bytes \<Rightarrow> param_id_from_name_bytes bytes)"

section \<open>Telemetry rate parameters\<close>

datatype named_telemetry_stream = TelHeartbeat | TelStatus | TelImu | TelAttitude | TelOutputRaw
  | TelDiffPressure | TelBaro | TelMag | TelRange | TelBattery | TelGnss | TelRc

definition MAX_TELEMETRY_RATE_HZ :: i32 where "MAX_TELEMETRY_RATE_HZ = 2000"

definition telemetry_stream_for_param :: "param_id \<Rightarrow> named_telemetry_stream option" where
  "telemetry_stream_for_param pid =
    (if pid = PARAM_TELEM_HEARTBEAT_HZ then Some TelHeartbeat
     else if pid = PARAM_TELEM_STATUS_HZ then Some TelStatus
     else if pid = PARAM_TELEM_IMU_HZ then Some TelImu
     else if pid = PARAM_TELEM_ATTITUDE_HZ then Some TelAttitude
     else if pid = PARAM_TELEM_OUTPUT_RAW_HZ then Some TelOutputRaw
     else if pid = PARAM_TELEM_DIFF_PRESSURE_HZ then Some TelDiffPressure
     else if pid = PARAM_TELEM_BARO_HZ then Some TelBaro
     else if pid = PARAM_TELEM_MAG_HZ then Some TelMag
     else if pid = PARAM_TELEM_RANGE_HZ then Some TelRange
     else if pid = PARAM_TELEM_BATTERY_HZ then Some TelBattery
     else if pid = PARAM_TELEM_GNSS_HZ then Some TelGnss
     else if pid = PARAM_TELEM_RC_HZ then Some TelRc
     else None)"

section \<open>The service\<close>

text \<open>\<^verbatim>\<open>ParamServiceCtx\<close>: the parameters, the list state and the two queue groups.\<close>

record param_service =
  svc_params :: params
  svc_next_index :: "nat option"
  svc_events :: param_event_queues
  svc_comm :: comm_event_queues

definition param_list_is_active :: "nat option \<Rightarrow> bool" where
  "param_list_is_active next_index = (next_index \<noteq> None)"

definition is_mixer_choice_param :: "param_id \<Rightarrow> bool" where
  "is_mixer_choice_param pid \<longleftrightarrow> pid = PARAM_PRIMARY_MIXER \<or> pid = PARAM_SECONDARY_MIXER"

fun same_param_type :: "param_value \<Rightarrow> param_value \<Rightarrow> bool" where
  "same_param_type (PFloat _) (PFloat _) = True"
| "same_param_type (PInt _) (PInt _) = True"
| "same_param_type (PUint _) (PUint _) = True"
| "same_param_type (PBool _) (PBool _) = True"
| "same_param_type _ _ = False"

definition push_response :: "comm_event_queues \<Rightarrow> comm_response \<Rightarrow> comm_event_queues" where
  "push_response comm r = comm\<lparr>responses := fst (eq_push_or_log (responses comm) r)\<rparr>"

definition param_value_response :: "u8 list \<Rightarrow> param_value \<Rightarrow> param_id \<Rightarrow> comm_response" where
  "param_value_response name v pid = RespParamValue \<lparr>pv_param_id = name, pv_param_value = v,
     pv_param_count = word_of_nat PARAMS_COUNT, pv_param_index = word_of_nat (param_index pid)\<rparr>"

definition emit_param_value_response ::
    "comm_event_queues \<Rightarrow> param_value \<Rightarrow> param_id \<Rightarrow> comm_event_queues" where
  "emit_param_value_response comm v pid =
    push_response comm (param_value_response (str_to_fixed_bytes (param_as_str pid)) v pid)"

text \<open>The loop returns at the first index outside the table.\<close>

fun emit_param_range :: "comm_event_queues \<Rightarrow> params \<Rightarrow> nat \<Rightarrow> nat \<Rightarrow> comm_event_queues" where
  "emit_param_range comm p first_index 0 = comm"
| "emit_param_range comm p first_index (Suc len) = (case param_from_index first_index of
     None \<Rightarrow> comm
   | Some pid \<Rightarrow> emit_param_range (emit_param_value_response comm (get_by_id p pid) pid) p
       (Suc first_index) len)"

definition NUM_MIXER_OUTPUT_PARAMS :: nat where "NUM_MIXER_OUTPUT_PARAMS = 10"
definition NUM_MIXER_MATRIX_PARAMS :: nat where "NUM_MIXER_MATRIX_PARAMS = 100"

definition emit_reflected_mixer_param_responses ::
    "comm_event_queues \<Rightarrow> params \<Rightarrow> param_id \<Rightarrow> comm_event_queues" where
  "emit_reflected_mixer_param_responses comm p changed =
    (if changed = PARAM_PRIMARY_MIXER then
       (let c1 = emit_param_range comm p (param_index PARAM_PRIMARY_MIXER_OUTPUT_0) NUM_MIXER_OUTPUT_PARAMS;
            c2 = emit_param_range c1 p (param_index PARAM_PRIMARY_MIXER_PWM_RATE_0) NUM_MIXER_OUTPUT_PARAMS
        in emit_param_range c2 p (param_index PARAM_PRIMARY_MIXER_0_0) NUM_MIXER_MATRIX_PARAMS)
     else if changed = PARAM_SECONDARY_MIXER then
       emit_param_range comm p (param_index PARAM_SECONDARY_MIXER_0_0) NUM_MIXER_MATRIX_PARAMS
     else comm)"

definition emit_param_change :: "param_changed event_queue \<Rightarrow> param_id \<Rightarrow> param_value \<Rightarrow> param_value
    \<Rightarrow> param_changed event_queue" where
  "emit_param_change q pid old new = fst (eq_push_or_log q \<lparr>pc_id = pid, pc_old = old, pc_new = new,
     pc_param_id_bytes = str_to_fixed_bytes (param_as_str pid)\<rparr>)"

definition set_param_and_emit_change :: "params \<Rightarrow> param_changed event_queue \<Rightarrow> param_id
    \<Rightarrow> param_value \<Rightarrow> params \<times> param_changed event_queue" where
  "set_param_and_emit_change p q pid v =
    (let old = get_by_id p pid in
     if param_value_eq old v then (p, q)
     else let p' = set_by_id p pid v in (p', emit_param_change q pid old (get_by_id p' pid)))"

definition mark_all_params_changed :: "param_event_queues \<Rightarrow> param_event_queues" where
  "mark_all_params_changed ev = ev\<lparr>full_refresh := True\<rparr>"

text \<open>
  The body of \<^verbatim>\<open>apply_param_requests\<close> for one request: the checks that drop the request,
  the reply to a value that is already set, and the change with its responses.
\<close>

definition set_request_accepted :: "param_id \<Rightarrow> param_value \<Rightarrow> bool" where
  "set_request_accepted pid v \<longleftrightarrow>
    same_param_type (def_default (PARAM_DEFINITIONS ! param_index pid)) v \<and>
    (telemetry_stream_for_param pid \<noteq> None \<longrightarrow>
      (case v of PInt i \<Rightarrow> - 1 \<le> sint i \<and> sint i \<le> sint MAX_TELEMETRY_RATE_HZ | _ \<Rightarrow> False))"

definition apply_set_request :: "64 linalg \<Rightarrow> param_set_requested \<Rightarrow> param_service \<Rightarrow> param_service" where
  "apply_set_request L req s = (case param_id_from_name_bytes (psr_param_id_bytes req) of
     None \<Rightarrow> s
   | Some pid \<Rightarrow>
      if \<not> set_request_accepted pid (psr_value req) then s
      else if param_value_eq (get_by_id (svc_params s) pid) (psr_value req) then
       (let (p1, c1) = (if is_mixer_choice_param pid then
              (let p1 = sync_reflected_mixer_params L (svc_params s) pid
               in (p1, emit_reflected_mixer_param_responses (svc_comm s) p1 pid))
            else (svc_params s, svc_comm s))
        in s\<lparr>svc_params := p1, svc_comm := emit_param_value_response c1 (get_by_id p1 pid) pid\<rparr>)
      else
       (let (p1, ch) = set_param_and_emit_change (svc_params s) (changes (svc_events s)) pid (psr_value req);
            p2 = sync_reflected_mixer_params L p1 pid;
            c1 = emit_reflected_mixer_param_responses (svc_comm s) p2 pid;
            c2 = push_response c1 (param_value_response (psr_param_id_bytes req) (get_by_id p2 pid) pid)
        in s\<lparr>svc_params := p2, svc_events := (svc_events s)\<lparr>changes := ch\<rparr>, svc_comm := c2\<rparr>))"

definition apply_param_requests :: "64 linalg \<Rightarrow> param_service \<Rightarrow> param_service" where
  "apply_param_requests L s =
    (let (q, s') = drain (apply_set_request L) (set_requests (svc_events s)) s
     in s'\<lparr>svc_events := (svc_events s')\<lparr>set_requests := q\<rparr>\<rparr>)"

definition apply_read_request :: "param_read_requested \<Rightarrow> param_service \<Rightarrow> param_service" where
  "apply_read_request req s = (case param_id_from_identifier (prq_identifier req) of
     None \<Rightarrow> s
   | Some pid \<Rightarrow> s\<lparr>svc_comm :=
       emit_param_value_response (svc_comm s) (get_by_id (svc_params s) pid) pid\<rparr>)"

definition service_param_read_requests :: "param_service \<Rightarrow> param_service" where
  "service_param_read_requests s =
    (let (q, s') = drain apply_read_request (read_requests (svc_events s)) s
     in s'\<lparr>svc_events := (svc_events s')\<lparr>read_requests := q\<rparr>\<rparr>)"

definition service_param_list_requests :: "param_service \<Rightarrow> param_service" where
  "service_param_list_requests s =
    (let (q, next_index) = drain (\<lambda>_ _. Some 0) (list_requests (svc_events s)) (svc_next_index s);
         s' = s\<lparr>svc_events := (svc_events s)\<lparr>list_requests := q\<rparr>, svc_next_index := next_index\<rparr>
     in case next_index of
       None \<Rightarrow> s'
     | Some index \<Rightarrow> (case list_get PARAM_DEFINITIONS index of
         None \<Rightarrow> s'\<lparr>svc_next_index := None\<rparr>
       | Some def \<Rightarrow>
          s'\<lparr>svc_comm := push_response (svc_comm s') (param_value_response
               (str_to_fixed_bytes (def_name def)) (get_by_id (svc_params s') (def_id def)) (def_id def)),
             svc_next_index := (if index + 1 < PARAMS_COUNT then Some (index + 1) else None)\<rparr>))"

definition service_param_events :: "64 linalg \<Rightarrow> param_service \<Rightarrow> param_service" where
  "service_param_events L s =
    apply_param_requests L (service_param_list_requests (service_param_read_requests s))"

end
