(* ===== verification/Param_Service_Safety.thy ===== *)
theory Param_Service_Safety
  imports Param_Service Mixer_Safety
begin

text \<open>
  What the parameter service promises: names resolve, no request changes the variant of a
  parameter or takes a telemetry rate out of range, a request that is accepted is stored and
  answered, and a list request is served one parameter per loop until every one was sent.
\<close>

section \<open>Names\<close>

definition wire_name :: "string \<Rightarrow> bool" where
  "wire_name n \<longleftrightarrow> length n \<le> 16 \<and> list_all (\<lambda>c. 0 < (of_char c :: nat) \<and> (of_char c :: nat) < 128) n"

lemma wire_names_setup: "list_all wire_name (map fst param_rows_setup)"
  by (simp add: param_rows_setup_def wire_name_def)

lemma wire_names_primary: "list_all wire_name (map fst param_rows_primary_mixer)"
  by (simp add: param_rows_primary_mixer_def wire_name_def)

lemma wire_names_secondary: "list_all wire_name (map fst param_rows_secondary_mixer)"
  by (simp add: param_rows_secondary_mixer_def wire_name_def)

lemma wire_names_rest: "list_all wire_name (map fst (param_rows_control @ param_rows_sensors
    @ param_rows_rc_vehicle @ param_rows_telemetry))"
  by (simp add: param_rows_control_def param_rows_sensors_def param_rows_rc_vehicle_def
      param_rows_telemetry_def wire_name_def)

lemma wire_names: "i < 349 \<Longrightarrow> wire_name (fst (param_rows ! i))"
proof -
  assume "i < 349"
  then have "fst (param_rows ! i) \<in> set (map fst param_rows)" by auto
  then show ?thesis
    using wire_names_setup wire_names_primary wire_names_secondary wire_names_rest
    by (auto simp: param_rows_def list_all_iff)
qed

lemma ascii_byte: "(of_char c :: nat) < 128 \<Longrightarrow> unat (word_of_nat (of_char c) :: u8) = of_char c"
  by (simp add: unat_of_nat take_bit_nat_eq_self)

lemma string_bytes_inj:
  assumes w: "wire_name m" "wire_name n" and eq: "string_bytes m = string_bytes n"
  shows "m = n"
proof (rule nth_equalityI)
  have "length (string_bytes m) = length (string_bytes n)" by (simp only: eq)
  then show len: "length m = length n" by (simp add: string_bytes_def)
  fix i assume i: "i < length m"
  then have c: "of_char (m ! i) < (128::nat)" "of_char (n ! i) < (128::nat)"
    using w len by (auto simp: wire_name_def list_all_length)
  have "unat (string_bytes m ! i) = unat (string_bytes n ! i)" by (simp only: eq)
  then show "m ! i = n ! i" using i len c by (simp add: string_bytes_def ascii_byte)
qed

lemma string_bytes_nonzero: "wire_name n \<Longrightarrow> b \<in> set (string_bytes n) \<Longrightarrow> b \<noteq> 0 \<and> b < 0x80"
proof -
  assume "wire_name n" and "b \<in> set (string_bytes n)"
  then obtain c where c: "b = word_of_nat (of_char c)" "0 < (of_char c :: nat)" "(of_char c :: nat) < 128"
    by (auto simp: wire_name_def string_bytes_def list_all_iff)
  then have u: "unat b = of_char c" by (simp add: ascii_byte)
  then have "unat b \<noteq> 0" "unat b < 128" using c by simp_all
  then show "b \<noteq> 0 \<and> b < 0x80" by (auto simp: word_less_nat_alt)
qed

lemma utf8_ascii: "\<forall>b \<in> set bs. b < 0x80 \<Longrightarrow> utf8_valid bs"
  by (induction bs) auto

lemma fixed_bytes: "wire_name n \<Longrightarrow> str_to_fixed_bytes n = string_bytes n @ replicate (16 - length n) 0"
  by (simp add: str_to_fixed_bytes_def Let_def wire_name_def string_bytes_def)

lemma takeWhile_fixed: "wire_name n \<Longrightarrow> takeWhile (\<lambda>b. b \<noteq> 0) (str_to_fixed_bytes n) = string_bytes n"
  using string_bytes_nonzero by (fastforce simp: fixed_bytes takeWhile_append)

lemma string_names_eq:
  "wire_name m \<Longrightarrow> wire_name n \<Longrightarrow>
    (string_bytes m = string_bytes n \<or> str_to_fixed_bytes m = str_to_fixed_bytes n) \<longleftrightarrow> m = n"
  using string_bytes_inj takeWhile_fixed by metis

lemma name_resolves:
  assumes "valid_param_id pid"
  shows "param_id_from_name_bytes (str_to_fixed_bytes (param_as_str pid)) = Some pid
    \<and> length (str_to_fixed_bytes (param_as_str pid)) = 16"
proof -
  obtain i where i: "pid = ParamId i" "i < 349"
    using assms by (cases pid) (simp add: valid_param_id_def PARAMS_COUNT_def)
  let ?n = "def_name (PARAM_DEFINITIONS ! i)"
  have w: "wire_name (def_name d)" if "d \<in> set PARAM_DEFINITIONS" for d
    using that wire_names by (auto simp: in_set_conv_nth nth_PARAM_DEFINITIONS)
  have wn: "wire_name ?n" by (rule w) (simp add: i)
  have u: "utf8_valid (string_bytes ?n)"
    using string_bytes_nonzero [OF wn] by (intro utf8_ascii) blast
  have "find (\<lambda>d. string_bytes (def_name d) = string_bytes ?n
        \<or> str_to_fixed_bytes (def_name d) = str_to_fixed_bytes ?n) PARAM_DEFINITIONS
      = find (\<lambda>d. def_name d = ?n) PARAM_DEFINITIONS"
    using string_names_eq [OF w wn] by (intro find_cong) simp_all
  also have "\<dots> = Some (PARAM_DEFINITIONS ! i)"
    using find_param_name_nth [OF i(2)] by (simp add: find_param_name_def)
  finally have f: "find (\<lambda>d. string_bytes (def_name d) = string_bytes ?n
        \<or> str_to_fixed_bytes (def_name d) = str_to_fixed_bytes ?n) PARAM_DEFINITIONS
      = Some (PARAM_DEFINITIONS ! i)" .
  have "length (str_to_fixed_bytes ?n) = 16"
    using wn by (simp add: fixed_bytes wire_name_def string_bytes_def)
  then show ?thesis
    unfolding param_id_from_name_bytes_def i(1) param_as_str_def param_id.sel takeWhile_fixed [OF wn]
    by (simp add: u f i(2))
qed

text \<open>
  Names on the wire: every parameter's name, cut or padded to 16 bytes the way the
  service sends it, resolves back to that parameter.
\<close>

theorem param_name_round_trip:
  assumes "valid_param_id pid"
  shows "param_id_from_name_bytes (str_to_fixed_bytes (param_as_str pid)) = Some pid
    \<and> length (str_to_fixed_bytes (param_as_str pid)) = 16"
  by (rule name_resolves [OF assms])

theorem param_name_round_trip_witness:
  "param_id_from_name_bytes (str_to_fixed_bytes (param_as_str PARAM_FIXED_WING)) = Some PARAM_FIXED_WING
    \<and> length (str_to_fixed_bytes (param_as_str PARAM_FIXED_WING)) = 16"
  by (rule param_name_round_trip) (simp add: valid_param_id_def PARAMS_COUNT_def)

section \<open>Every parameter keeps its variant\<close>

definition telemetry_range_ok :: "param_id \<Rightarrow> param_value \<Rightarrow> bool" where
  "telemetry_range_ok pid v \<longleftrightarrow> telemetry_stream_for_param pid = None \<or>
    (case v of PInt i \<Rightarrow> - 1 \<le> sint i \<and> sint i \<le> sint MAX_TELEMETRY_RATE_HZ | _ \<Rightarrow> False)"

definition params_ok :: "params \<Rightarrow> bool" where
  "params_ok p \<longleftrightarrow> (\<forall>i < PARAMS_COUNT.
    same_param_type (def_default (PARAM_DEFINITIONS ! i)) (get_by_id p (ParamId i))
    \<and> telemetry_range_ok (ParamId i) (get_by_id p (ParamId i)))"

lemma same_param_type_refl [simp]: "same_param_type v v"
  by (cases v) simp_all

lemma accepted_ok: "set_request_accepted (ParamId i) v \<Longrightarrow>
    same_param_type (def_default (PARAM_DEFINITIONS ! i)) v \<and> telemetry_range_ok (ParamId i) v"
  by (auto simp: set_request_accepted_def telemetry_range_ok_def)

lemma params_ok_set:
  "params_ok p \<Longrightarrow> same_param_type (def_default (PARAM_DEFINITIONS ! i)) v \<Longrightarrow>
    telemetry_range_ok (ParamId i) v \<Longrightarrow> params_ok (set_by_id p (ParamId i) v)"
  by (auto simp: params_ok_def)

text \<open>The variants of the rows the reflected mixer writes.\<close>

fun is_PInt :: "param_value \<Rightarrow> bool" where "is_PInt (PInt _) = True" | "is_PInt _ = False"
fun is_PFloat :: "param_value \<Rightarrow> bool" where "is_PFloat (PFloat _) = True" | "is_PFloat _ = False"

lemma reflected_setup:
  "list_all is_PInt (map snd (take 10 (drop 11 param_rows_setup)))"
  "list_all is_PFloat (map snd (take 10 (drop 21 param_rows_setup)))" "length param_rows_setup = 31"
  by (simp_all add: param_rows_setup_def)

lemma reflected_matrices:
  "list_all is_PFloat (map snd (param_rows_primary_mixer @ param_rows_secondary_mixer))"
  "length (param_rows_primary_mixer @ param_rows_secondary_mixer) = 200"
  by (simp_all add: param_rows_primary_mixer_def param_rows_secondary_mixer_def)

lemma reflected_defaults:
  "11 \<le> i \<Longrightarrow> i < 21 \<Longrightarrow> is_PInt (def_default (PARAM_DEFINITIONS ! i))"
  "21 \<le> i \<Longrightarrow> i < 231 \<Longrightarrow> is_PFloat (def_default (PARAM_DEFINITIONS ! i))"
proof -
  have s: "param_rows ! i = param_rows_setup ! i" if "i < 31" for i
    using that reflected_setup(3) by (simp add: param_rows_def nth_append)
  have m: "param_rows ! i = (param_rows_primary_mixer @ param_rows_secondary_mixer) ! (i - 31)"
    if "31 \<le> i" "i < 231" for i
  proof -
    have lt: "i - 31 < length (param_rows_primary_mixer @ param_rows_secondary_mixer)"
      using that reflected_matrices(2) by simp
    have "param_rows ! i = ((param_rows_primary_mixer @ param_rows_secondary_mixer) @ param_rows_control @
        param_rows_sensors @ param_rows_rc_vehicle @ param_rows_telemetry) ! (i - 31)"
      using that reflected_setup(3) by (simp add: param_rows_def nth_append [of param_rows_setup])
    with lt show ?thesis by (simp only: nth_append if_True)
  qed
  show "is_PInt (def_default (PARAM_DEFINITIONS ! i))" if i: "11 \<le> i" "i < 21"
  proof -
    have "is_PInt (map snd (take 10 (drop 11 param_rows_setup)) ! (i - 11))"
      using i reflected_setup(1) [unfolded list_all_length, rule_format, of "i - 11"] reflected_setup(3)
      by simp
    then show ?thesis using i s [of i] reflected_setup(3) by (simp add: nth_PARAM_DEFINITIONS)
  qed
  show "is_PFloat (def_default (PARAM_DEFINITIONS ! i))" if i: "21 \<le> i" "i < 231"
  proof (cases "i < 31")
    case True
    have "is_PFloat (map snd (take 10 (drop 21 param_rows_setup)) ! (i - 21))"
      using True i reflected_setup(2) [unfolded list_all_length, rule_format, of "i - 21"] reflected_setup(3)
      by simp
    then show ?thesis using i True s [of i] reflected_setup(3) by (simp add: nth_PARAM_DEFINITIONS)
  next
    case False
    then have "is_PFloat (map snd (param_rows_primary_mixer @ param_rows_secondary_mixer) ! (i - 31))"
      using i reflected_matrices(1) [unfolded list_all_length, rule_format, of "i - 31"] reflected_matrices(2)
      by simp
    then show ?thesis using i False m [of i] reflected_matrices(2)
      by (simp add: nth_PARAM_DEFINITIONS del: map_append)
  qed
qed

lemma telemetry_stream_high: "i < 337 \<Longrightarrow> telemetry_stream_for_param (ParamId i) = None"
  by (simp add: telemetry_stream_for_param_def)

definition reflected_write :: "param_id \<times> param_value \<Rightarrow> bool" where
  "reflected_write kv \<longleftrightarrow> (\<exists>i. fst kv = ParamId i \<and>
    (11 \<le> i \<and> i < 21 \<and> is_PInt (snd kv) \<or> 21 \<le> i \<and> i < 231 \<and> is_PFloat (snd kv)))"

lemma is_PInt_same: "is_PInt a \<Longrightarrow> is_PInt b \<Longrightarrow> same_param_type a b"
  by (cases a; cases b) simp_all

lemma is_PFloat_same: "is_PFloat a \<Longrightarrow> is_PFloat b \<Longrightarrow> same_param_type a b"
  by (cases a; cases b) simp_all

lemma params_ok_writes:
  "params_ok p \<Longrightarrow> list_all reflected_write kvs \<Longrightarrow>
    params_ok (foldl (\<lambda>s kv. set_by_id s (fst kv) (snd kv)) p kvs)"
proof (induction kvs arbitrary: p)
  case (Cons kv kvs)
  from Cons.prems(2) obtain i where i: "fst kv = ParamId i"
      "11 \<le> i \<and> i < 21 \<and> is_PInt (snd kv) \<or> 21 \<le> i \<and> i < 231 \<and> is_PFloat (snd kv)"
    by (auto simp: reflected_write_def)
  then have "same_param_type (def_default (PARAM_DEFINITIONS ! i)) (snd kv)"
    using reflected_defaults [of i] is_PInt_same is_PFloat_same by blast
  moreover have "telemetry_range_ok (ParamId i) (snd kv)"
    using i telemetry_stream_high [of i] by (auto simp: telemetry_range_ok_def)
  ultimately have "params_ok (set_by_id p (fst kv) (snd kv))"
    using Cons.prems(1) i(1) by (simp add: params_ok_set)
  with Cons.IH Cons.prems(2) show ?case by simp
qed simp

lemma reflected_cells:
  "length m = NUM_MIXER_OUTPUTS \<Longrightarrow> first \<in> {31, 131} \<Longrightarrow>
    list_all reflected_write (cell_writes first m (List.product [0..<NUM_MIXER_OUTPUTS] [0..<length m]))"
  by (auto simp: list_all_iff cell_writes_def reflected_write_def NUM_MIXER_OUTPUTS_def)

lemma reflected_outputs: "list_all reflected_write (output_writes config)"
  by (auto simp: list_all_iff output_writes_def reflected_write_def NUM_MIXER_OUTPUTS_def)

lemma params_ok_matrix:
  assumes "params_ok p" "length m = NUM_MIXER_OUTPUTS" "first \<in> {31, 131}"
  shows "params_ok (save_mixer_matrix_params p (ParamId first) m)"
proof -
  have ok: "\<forall>(col, row) \<in> set (List.product [0..<NUM_MIXER_OUTPUTS] [0..<length m]).
      first + col * NUM_MIXER_OUTPUTS + row < PARAMS_COUNT"
    using assms(2,3) by (auto simp: NUM_MIXER_OUTPUTS_def PARAMS_COUNT_def)
  show ?thesis
    unfolding save_mixer_matrix_params_def param_id.sel save_matrix_cells_writes [OF ok]
    by (rule params_ok_writes [OF assms(1) reflected_cells [OF assms(2,3)]])
qed

lemma raw_canned_mat10: "raw_canned_mixer_matrix choice = Some m \<Longrightarrow> mat10 m"
  by (auto simp: raw_canned_mixer_matrix_def mat10_canned split: if_splits)

lemma canned_secondary_mat10:
  assumes "canned_secondary_mixer L choice = Some config"
  shows "mat10 (cc_matrix config)"
proof -
  obtain c0 where c0: "canned_mixer L choice = Some c0"
    using assms by (auto simp: canned_secondary_mixer_def split: option.splits)
  show ?thesis
  proof (cases "choice = CUSTOM_MIXER")
    case True
    with assms c0 canned_mixer_shape(1) [OF c0] show ?thesis by (simp add: canned_secondary_mixer_def)
  next
    case False
    then obtain m where m: "raw_canned_mixer_matrix choice = Some m"
      "config = c0\<lparr>cc_matrix := inverted_multirotor_mixer L (matrix_from_default m)\<rparr>"
      using assms c0 by (auto simp: canned_secondary_mixer_def split: option.splits)
    with raw_canned_mat10 [OF m(1)] show ?thesis by simp
  qed
qed

lemma params_ok_sync: "params_ok p \<Longrightarrow> params_ok (sync_reflected_mixer_params L p pid)"
proof -
  assume ok: "params_ok p"
  have matrix: "params_ok (save_mixer_matrix_params q (ParamId first) m)"
    if "params_ok q" "mat10 m" "first \<in> {31, 131}" for q m first
    using that by (intro params_ok_matrix) (simp_all add: mat10_def)
  have outputs: "params_ok (save_primary_outputs q config)" if "params_ok q" for q config
    unfolding save_primary_outputs_writes by (rule params_ok_writes [OF that reflected_outputs])
  show ?thesis
  proof (cases "pid = PARAM_PRIMARY_MIXER")
    case True
    then show ?thesis
      using ok canned_mixer_shape(1) [of L "mixer_param_int p PARAM_PRIMARY_MIXER"]
      by (auto simp: sync_reflected_mixer_params_def Let_def save_primary_mixer_params_def
          save_secondary_mixer_params_def matrix outputs split: option.split)
  next
    case False
    then show ?thesis
      using ok canned_secondary_mat10 [of L "mixer_param_int p PARAM_SECONDARY_MIXER"]
      by (auto simp: sync_reflected_mixer_params_def save_secondary_mixer_params_def matrix
          split: option.split)
  qed
qed

lemma params_ok_apply:
  assumes "params_ok (svc_params s)"
  shows "params_ok (svc_params (apply_set_request L req s))"
proof (cases "param_id_from_name_bytes (psr_param_id_bytes req)")
  case None
  with assms show ?thesis by (simp add: apply_set_request_def)
next
  case (Some pid)
  obtain i where i: "pid = ParamId i" by (cases pid) simp
  show ?thesis
  proof (cases "set_request_accepted pid (psr_value req)")
    case False
    with Some assms show ?thesis by (simp add: apply_set_request_def)
  next
    case True
    have "params_ok (set_by_id (svc_params s) pid (psr_value req))"
      using assms True accepted_ok [of i] by (simp add: i params_ok_set)
    with Some True assms show ?thesis
      by (simp add: apply_set_request_def set_param_and_emit_change_def Let_def case_prod_beta params_ok_sync)
  qed
qed

lemma svc_params_read [simp]: "svc_params (apply_read_request req s) = svc_params s"
  by (simp add: apply_read_request_def split: option.split)

lemma svc_params_reads [simp]: "svc_params (service_param_read_requests s) = svc_params s"
proof -
  have "svc_params (fold apply_read_request reqs s) = svc_params s" for reqs
    by (induction reqs arbitrary: s) simp_all
  then show ?thesis by (simp add: service_param_read_requests_def drain_fold)
qed

lemma svc_params_list [simp]: "svc_params (service_param_list_requests s) = svc_params s"
  by (simp add: service_param_list_requests_def drain_fold Let_def split: option.split)

lemma params_ok_requests:
  "params_ok (svc_params s) \<Longrightarrow> params_ok (svc_params (apply_param_requests L s))"
proof -
  have "params_ok (svc_params s) \<Longrightarrow> params_ok (svc_params (fold (apply_set_request L) reqs s))" for reqs s
    by (induction reqs arbitrary: s) (simp_all add: params_ok_apply)
  then show "params_ok (svc_params s) \<Longrightarrow> ?thesis"
    by (simp add: apply_param_requests_def drain_fold)
qed

lemma telemetry_defaults:
  "list_all (\<lambda>v. case v of PInt i \<Rightarrow> - 1 \<le> sint i \<and> sint i \<le> sint MAX_TELEMETRY_RATE_HZ | _ \<Rightarrow> False)
    (map snd param_rows_telemetry)" "length param_rows_telemetry = 12"
  by (simp_all add: param_rows_telemetry_def MAX_TELEMETRY_RATE_HZ_def)

lemma telemetry_default_ok: "i < 349 \<Longrightarrow> telemetry_range_ok (ParamId i) (def_default (PARAM_DEFINITIONS ! i))"
proof (cases "i < 337")
  case True
  then show ?thesis by (simp add: telemetry_range_ok_def telemetry_stream_high)
next
  case False
  assume i: "i < 349"
  have len: "length (param_rows_setup @ param_rows_primary_mixer @ param_rows_secondary_mixer @
      param_rows_control @ param_rows_sensors @ param_rows_rc_vehicle) = 337"
    using length_param_rows telemetry_defaults(2) by (simp add: param_rows_def)
  have "param_rows ! i = param_rows_telemetry ! (i - 337)"
    using False i len nth_append [of "param_rows_setup @ param_rows_primary_mixer @ param_rows_secondary_mixer @
      param_rows_control @ param_rows_sensors @ param_rows_rc_vehicle" param_rows_telemetry i]
    by (simp add: param_rows_def)
  moreover have "i - 337 < 12" using i False by simp
  ultimately show ?thesis
    using telemetry_defaults(1) [unfolded list_all_length, rule_format, of "i - 337"] telemetry_defaults(2) i
    by (simp add: telemetry_range_ok_def nth_PARAM_DEFINITIONS)
qed

lemma params_ok_new: "params_ok params_new"
  by (simp add: params_ok_def PARAMS_COUNT_def get_by_id_params_new telemetry_default_ok)

text \<open>
  C30. No traffic changes the variant of a parameter: from a table whose values have the
  variants of their defaults and whose telemetry rates lie between -1 and 2000, serving any
  set, read and list requests leads to such a table again.
\<close>

theorem service_keeps_params_typed:
  assumes "params_ok (svc_params s)"
  shows "params_ok (svc_params (service_param_events L s))"
  using assms by (simp add: service_param_events_def params_ok_requests)

definition fresh_service :: param_service where
  "fresh_service = \<lparr>svc_params = params_new, svc_next_index = None,
     svc_events = param_event_queues_new, svc_comm = comm_event_queues_new\<rparr>"

theorem service_keeps_params_typed_witness:
  "params_ok (svc_params (service_param_events no_linalg fresh_service))"
  by (rule service_keeps_params_typed) (simp add: fresh_service_def params_ok_new)

section \<open>An accepted request\<close>

lemma sync_frame:
  assumes "k < 11 \<or> 231 \<le> k"
  shows "get_by_id (sync_reflected_mixer_params L p pid) (ParamId k) = get_by_id p (ParamId k)"
proof -
  have m: "get_by_id (save_mixer_matrix_params q (ParamId first) m) (ParamId k) = get_by_id q (ParamId k)"
    if "mat10 m" "first \<in> {31, 131}" for q first m
    using that assms by (intro saved_other) (auto simp: mat10_def PARAMS_COUNT_def)
  have o': "get_by_id (save_primary_outputs q config) (ParamId k) = get_by_id q (ParamId k)" for q config
    using assms by (intro saved_outputs_other) auto
  show ?thesis
    using canned_mixer_shape(1) [of L "mixer_param_int p PARAM_PRIMARY_MIXER"]
      canned_secondary_mat10 [of L "mixer_param_int p PARAM_SECONDARY_MIXER"]
    by (auto simp: sync_reflected_mixer_params_def Let_def save_primary_mixer_params_def
        save_secondary_mixer_params_def m o' split: option.split)
qed

lemma sync_other [simp]: "\<not> is_mixer_choice_param pid \<Longrightarrow> sync_reflected_mixer_params L p pid = p"
  by (simp add: is_mixer_choice_param_def sync_reflected_mixer_params_def)

lemma emit_reflected_other [simp]:
  "\<not> is_mixer_choice_param pid \<Longrightarrow> emit_reflected_mixer_param_responses c p pid = c"
  by (simp add: is_mixer_choice_param_def emit_reflected_mixer_param_responses_def)

lemma stored_after_sync: "get_by_id (sync_reflected_mixer_params L (set_by_id p pid v) pid) pid = v"
proof (cases "is_mixer_choice_param pid")
  case True
  then obtain k where "pid = ParamId k" "231 \<le> k" by (auto simp: is_mixer_choice_param_def)
  then show ?thesis by (simp add: sync_frame)
qed simp

text \<open>
  An accepted request for a new value stores it. The change is announced to the other
  components unless the change queue is full: then the value is stored and no component
  hears of it. For a parameter that is not a mixer choice no other parameter changes, and
  with room in the response queue the reply is the new value.
\<close>

theorem accepted_request_is_stored:
  assumes "param_id_from_name_bytes (psr_param_id_bytes req) = Some pid"
    and "set_request_accepted pid (psr_value req)"
    and "\<not> param_value_eq (get_by_id (svc_params s) pid) (psr_value req)"
  shows "get_by_id (svc_params (apply_set_request L req s)) pid = psr_value req
    \<and> eq_iter (changes (svc_events (apply_set_request L req s))) =
        (if eq_len (changes (svc_events s)) < dq_cap (changes (svc_events s))
         then eq_iter (changes (svc_events s)) @ [\<lparr>pc_id = pid, pc_old = get_by_id (svc_params s) pid,
                pc_new = psr_value req, pc_param_id_bytes = str_to_fixed_bytes (param_as_str pid)\<rparr>]
         else eq_iter (changes (svc_events s)))
    \<and> (\<not> is_mixer_choice_param pid \<longrightarrow>
        (\<forall>k. k \<noteq> pid \<longrightarrow> get_by_id (svc_params (apply_set_request L req s)) k = get_by_id (svc_params s) k)
        \<and> (\<not> eq_is_full (responses (svc_comm s)) \<and> eq_len (responses (svc_comm s)) \<le> dq_cap (responses (svc_comm s)) \<longrightarrow>
            eq_iter (responses (svc_comm (apply_set_request L req s))) = eq_iter (responses (svc_comm s))
              @ [param_value_response (psr_param_id_bytes req) (psr_value req) pid]))"
  using assms
  by (auto simp: apply_set_request_def set_param_and_emit_change_def emit_param_change_def Let_def
      stored_after_sync push_response_def eq_push_or_log_pair eq_len_def eq_iter_def eq_is_full_def)

lemma system_id_default: "def_default (PARAM_DEFINITIONS ! 231) = PInt 1"
proof -
  have l: "length (param_rows_setup @ param_rows_primary_mixer @ param_rows_secondary_mixer) = 231"
    using reflected_setup(3) reflected_matrices(2) by simp
  have "param_rows ! 231 = (param_rows_control @ param_rows_sensors @ param_rows_rc_vehicle @ param_rows_telemetry) ! 0"
    using nth_append_length_plus [of "param_rows_setup @ param_rows_primary_mixer @ param_rows_secondary_mixer" _ 0]
    unfolding l by (simp add: param_rows_def)
  then show ?thesis by (simp add: nth_PARAM_DEFINITIONS param_rows_control_def)
qed

definition system_id_request :: param_set_requested where
  "system_id_request = \<lparr>psr_value = PInt 42,
     psr_param_id_bytes = str_to_fixed_bytes (param_as_str PARAM_SYSTEM_ID)\<rparr>"

theorem accepted_request_is_stored_witness:
  "get_by_id (svc_params (apply_set_request no_linalg system_id_request fresh_service)) PARAM_SYSTEM_ID = PInt 42"
proof -
  have n: "param_id_from_name_bytes (psr_param_id_bytes system_id_request) = Some PARAM_SYSTEM_ID"
    using name_resolves [of PARAM_SYSTEM_ID] by (simp add: system_id_request_def valid_param_id_def PARAMS_COUNT_def)
  have a: "set_request_accepted PARAM_SYSTEM_ID (psr_value system_id_request)"
    by (simp add: set_request_accepted_def system_id_request_def system_id_default telemetry_stream_for_param_def)
  have c: "\<not> param_value_eq (get_by_id (svc_params fresh_service) PARAM_SYSTEM_ID) (psr_value system_id_request)"
    by (simp add: fresh_service_def get_by_id_params_new system_id_default system_id_request_def)
  from accepted_request_is_stored [OF n a c, of no_linalg] show ?thesis
    by (simp add: system_id_request_def)
qed

section \<open>Listing the parameters\<close>

definition param_row_response :: "params \<Rightarrow> nat \<Rightarrow> comm_response" where
  "param_row_response p i = param_value_response (str_to_fixed_bytes (param_as_str (ParamId i)))
     (get_by_id p (ParamId i)) (ParamId i)"

lemma list_step:
  assumes "svc_next_index s = Some i" "i < PARAMS_COUNT" "eq_iter (list_requests (svc_events s)) = []"
    and "eq_len (responses (svc_comm s)) < dq_cap (responses (svc_comm s))"
  shows "svc_next_index (service_param_list_requests s) = (if Suc i < PARAMS_COUNT then Some (Suc i) else None)"
    and "eq_iter (list_requests (svc_events (service_param_list_requests s))) = []"
    and "eq_iter (responses (svc_comm (service_param_list_requests s)))
      = eq_iter (responses (svc_comm s)) @ [param_row_response (svc_params s) i]"
    and "dq_cap (responses (svc_comm (service_param_list_requests s))) = dq_cap (responses (svc_comm s))"
  using assms
  by (simp_all add: service_param_list_requests_def drain_fold Let_def PARAMS_COUNT_def push_response_def
      eq_push_or_log_pair eq_iter_def eq_len_def eq_clear_def deque_clear_def param_row_response_def param_as_str_def)

lemma list_steps:
  assumes "svc_next_index s = Some 0" "eq_iter (list_requests (svc_events s)) = []"
    and "eq_len (responses (svc_comm s)) + PARAMS_COUNT \<le> dq_cap (responses (svc_comm s))"
    and "k \<le> PARAMS_COUNT"
  shows "svc_next_index ((service_param_list_requests ^^ k) s) = (if k < PARAMS_COUNT then Some k else None)
    \<and> eq_iter (list_requests (svc_events ((service_param_list_requests ^^ k) s))) = []
    \<and> eq_iter (responses (svc_comm ((service_param_list_requests ^^ k) s)))
        = eq_iter (responses (svc_comm s)) @ map (param_row_response (svc_params s)) [0..<k]
    \<and> dq_cap (responses (svc_comm ((service_param_list_requests ^^ k) s))) = dq_cap (responses (svc_comm s))
    \<and> svc_params ((service_param_list_requests ^^ k) s) = svc_params s"
  using assms(4)
proof (induction k)
  case 0
  with assms(1,2) show ?case by (simp add: PARAMS_COUNT_def)
next
  case (Suc k)
  let ?t = "(service_param_list_requests ^^ k) s"
  from Suc have t: "svc_next_index ?t = Some k" "k < PARAMS_COUNT" "eq_iter (list_requests (svc_events ?t)) = []"
    "eq_iter (responses (svc_comm ?t)) = eq_iter (responses (svc_comm s)) @ map (param_row_response (svc_params s)) [0..<k]"
    "dq_cap (responses (svc_comm ?t)) = dq_cap (responses (svc_comm s))" "svc_params ?t = svc_params s"
    by simp_all
  have room: "eq_len (responses (svc_comm ?t)) < dq_cap (responses (svc_comm ?t))"
    using t assms(3) by (simp add: eq_len_def eq_iter_def)
  show ?case using list_step [OF t(1-3) room] t by simp
qed

text \<open>
  A parameter list request is served to the end: with room in the response queue,
  one loop per parameter sends every parameter of the table once, in order, with its
  current value, and then the listing is over.
\<close>

theorem list_request_sends_every_parameter:
  assumes "svc_next_index s = Some 0" and "eq_iter (list_requests (svc_events s)) = []"
    and "eq_len (responses (svc_comm s)) + PARAMS_COUNT \<le> dq_cap (responses (svc_comm s))"
  shows "eq_iter (responses (svc_comm ((service_param_list_requests ^^ PARAMS_COUNT) s)))
      = eq_iter (responses (svc_comm s)) @ map (param_row_response (svc_params s)) [0..<PARAMS_COUNT]
    \<and> svc_next_index ((service_param_list_requests ^^ PARAMS_COUNT) s) = None"
  using list_steps [OF assms order.refl] by simp

theorem list_request_sends_every_parameter_witness:
  "svc_next_index ((service_param_list_requests ^^ PARAMS_COUNT) (fresh_service\<lparr>svc_next_index := Some 0\<rparr>)) = None"
proof -
  let ?s = "fresh_service\<lparr>svc_next_index := Some 0\<rparr>"
  have "eq_iter (list_requests (svc_events ?s)) = []"
    "eq_len (responses (svc_comm ?s)) + PARAMS_COUNT \<le> dq_cap (responses (svc_comm ?s))"
    by (simp_all add: fresh_service_def param_event_queues_new_def comm_event_queues_new_def eq_defs
        deque_defs COMM_RESPONSE_QUEUE_CAPACITY_def PARAM_SET_BURST_QUEUE_CAPACITY_def PARAMS_COUNT_def)
  from list_request_sends_every_parameter [OF _ this] show ?thesis by simp
qed

end
