(* ===== verification/Param_Storage.thy ===== *)
theory Param_Storage
  imports Param_Service
begin

text \<open>
  The nonvolatile parameter image of \<^verbatim>\<open>params/storage.rs\<close>: the byte layout of ROSflight's
  \<^verbatim>\<open>params_t\<close>, the encoder and the decoder. The version number is generated by the build,
  so it is the parameter \<open>version\<close> of both.
\<close>

section \<open>Layout\<close>

definition ROSFLIGHT_C_PARAM_STORAGE_SIZE :: nat where "ROSFLIGHT_C_PARAM_STORAGE_SIZE = 7004"
definition ROSFLIGHT_C_PARAM_COUNT :: nat where "ROSFLIGHT_C_PARAM_COUNT = 333"
definition ROSFLIGHT_C_PARAM_NAME_SIZE :: nat where "ROSFLIGHT_C_PARAM_NAME_SIZE = 16"
definition PARAM_STORAGE_VALUE_SIZE :: nat where "PARAM_STORAGE_VALUE_SIZE = 4"
definition PARAM_STORAGE_TYPE_SIZE :: nat where "PARAM_STORAGE_TYPE_SIZE = 1"
definition PARAM_STORAGE_VALUES_OFFSET :: nat where "PARAM_STORAGE_VALUES_OFFSET = 8"
definition PARAM_STORAGE_NAMES_OFFSET :: nat where
  "PARAM_STORAGE_NAMES_OFFSET =
    PARAM_STORAGE_VALUES_OFFSET + ROSFLIGHT_C_PARAM_COUNT * PARAM_STORAGE_VALUE_SIZE"
definition PARAM_STORAGE_TYPES_OFFSET :: nat where
  "PARAM_STORAGE_TYPES_OFFSET =
    PARAM_STORAGE_NAMES_OFFSET + ROSFLIGHT_C_PARAM_COUNT * ROSFLIGHT_C_PARAM_NAME_SIZE"
definition PARAM_STORAGE_MAGIC_EF_OFFSET :: nat where
  "PARAM_STORAGE_MAGIC_EF_OFFSET =
    PARAM_STORAGE_TYPES_OFFSET + ROSFLIGHT_C_PARAM_COUNT * PARAM_STORAGE_TYPE_SIZE"
definition PARAM_STORAGE_CHECKSUM_OFFSET :: nat where
  "PARAM_STORAGE_CHECKSUM_OFFSET = PARAM_STORAGE_MAGIC_EF_OFFSET + 1"

lemmas layout_defs = ROSFLIGHT_C_PARAM_STORAGE_SIZE_def ROSFLIGHT_C_PARAM_COUNT_def
  ROSFLIGHT_C_PARAM_NAME_SIZE_def PARAM_STORAGE_VALUE_SIZE_def PARAM_STORAGE_TYPE_SIZE_def
  PARAM_STORAGE_VALUES_OFFSET_def PARAM_STORAGE_NAMES_OFFSET_def PARAM_STORAGE_TYPES_OFFSET_def
  PARAM_STORAGE_MAGIC_EF_OFFSET_def PARAM_STORAGE_CHECKSUM_OFFSET_def

section \<open>The stored parameters\<close>

definition ROSFLIGHT_C_TAIL_ORDER :: "param_id list" where
  "ROSFLIGHT_C_TAIL_ORDER = [PARAM_OFFBOARD_TIMEOUT, PARAM_BATTERY_VOLTAGE_MULTIPLIER,
     PARAM_BATTERY_CURRENT_MULTIPLIER, PARAM_BATTERY_VOLTAGE_ALPHA, PARAM_BATTERY_CURRENT_ALPHA]"

definition rust_only_params :: "param_id list" where
  "rust_only_params = [PARAM_CHANNEL_OUTPUT_MASK, PARAM_ALLOW_UNHEALTHY_ESTIMATOR,
     PARAM_EST_ANGLE_LOCKOUT, PARAM_RC_OUTPUT_KILL_CHANNEL, PARAM_TELEM_HEARTBEAT_HZ,
     PARAM_TELEM_STATUS_HZ, PARAM_TELEM_IMU_HZ, PARAM_TELEM_ATTITUDE_HZ, PARAM_TELEM_OUTPUT_RAW_HZ,
     PARAM_TELEM_DIFF_PRESSURE_HZ, PARAM_TELEM_BARO_HZ, PARAM_TELEM_MAG_HZ, PARAM_TELEM_RANGE_HZ,
     PARAM_TELEM_BATTERY_HZ, PARAM_TELEM_GNSS_HZ, PARAM_TELEM_RC_HZ]"

definition is_rosflight_c_param :: "param_id \<Rightarrow> bool" where
  "is_rosflight_c_param pid \<longleftrightarrow> pid \<notin> set rust_only_params"

fun rosflight_c_param_type :: "param_value \<Rightarrow> u8 option" where
  "rosflight_c_param_type (PInt _) = Some 0"
| "rosflight_c_param_type (PFloat _) = Some 1"
| "rosflight_c_param_type (PUint _) = None"
| "rosflight_c_param_type (PBool _) = None"

definition is_rosflight_c_tail_param :: "param_id \<Rightarrow> bool" where
  "is_rosflight_c_tail_param pid \<longleftrightarrow> pid \<in> set ROSFLIGHT_C_TAIL_ORDER"

definition rosflight_c_params :: "param_definition list" where
  "rosflight_c_params =
    filter (\<lambda>d. is_rosflight_c_param (def_id d) \<and> \<not> is_rosflight_c_tail_param (def_id d)) PARAM_DEFINITIONS
    @ map (\<lambda>pid. PARAM_DEFINITIONS ! param_index pid) ROSFLIGHT_C_TAIL_ORDER"

section \<open>Bytes\<close>

definition u32_to_le_bytes :: "u32 \<Rightarrow> u8 list" where
  "u32_to_le_bytes w = [ucast w, ucast (drop_bit 8 w), ucast (drop_bit 16 w), ucast (drop_bit 24 w)]"

definition u32_from_le_bytes :: "u8 list \<Rightarrow> u32" where
  "u32_from_le_bytes bs = ucast (bs ! 0) OR push_bit 8 (ucast (bs ! 1)) OR push_bit 16 (ucast (bs ! 2))
     OR push_bit 24 (ucast (bs ! 3))"

definition u16_to_le_bytes :: "u16 \<Rightarrow> u8 list" where
  "u16_to_le_bytes w = [ucast w, ucast (drop_bit 8 w)]"

definition u16_from_le_bytes :: "u8 list \<Rightarrow> u16" where
  "u16_from_le_bytes bs = ucast (bs ! 0) OR push_bit 8 (ucast (bs ! 1))"

definition slice_bytes :: "nat \<Rightarrow> nat \<Rightarrow> u8 list \<Rightarrow> u8 list" where
  "slice_bytes offset n bytes = take n (drop offset bytes)"

text \<open>\<^verbatim>\<open>bytes[offset..offset + data.len()].copy_from_slice(data)\<close>.\<close>

definition copy_at :: "nat \<Rightarrow> u8 list \<Rightarrow> u8 list \<Rightarrow> u8 list" where
  "copy_at offset data bytes = take offset bytes @ data @ drop (offset + length data) bytes"

definition rosflight_c_checksum :: "u8 list \<Rightarrow> u8" where
  "rosflight_c_checksum bytes = fold (\<lambda>byte checksum. checksum XOR byte)
     (slice_bytes PARAM_STORAGE_VALUES_OFFSET
       (PARAM_STORAGE_MAGIC_EF_OFFSET - PARAM_STORAGE_VALUES_OFFSET) bytes) 0"

fun encode_param_value :: "param_value \<Rightarrow> param_value \<Rightarrow> u8 list option" where
  "encode_param_value (PFloat v) (PFloat _) = Some (u32_to_le_bytes (to_bits v))"
| "encode_param_value (PInt v) (PInt _) = Some (u32_to_le_bytes v)"
| "encode_param_value _ _ = None"

fun decode_param_value :: "u8 list \<Rightarrow> param_value \<Rightarrow> param_value option" where
  "decode_param_value bytes (PFloat _) = Some (PFloat (Flt (u32_from_le_bytes bytes)))"
| "decode_param_value bytes (PInt _) = Some (PInt (u32_from_le_bytes bytes))"
| "decode_param_value bytes (PUint _) = None"
| "decode_param_value bytes (PBool _) = None"

section \<open>Encoding\<close>

text \<open>
  The loop over the stored parameters: it returns the image and whether every row could be
  written. A row that cannot be written ends it with the image as it is then.
\<close>

definition encode_row :: "params \<Rightarrow> nat \<Rightarrow> param_definition \<Rightarrow> u8 list \<Rightarrow> u8 list \<times> bool" where
  "encode_row p index d bytes =
    (case encode_param_value (get_by_id p (def_id d)) (def_default d) of
       None \<Rightarrow> (bytes, False)
     | Some encoded \<Rightarrow>
       (let b1 = copy_at (PARAM_STORAGE_VALUES_OFFSET + index * PARAM_STORAGE_VALUE_SIZE) encoded bytes;
            name = string_bytes (def_name d)
        in if length name > ROSFLIGHT_C_PARAM_NAME_SIZE then (b1, False)
        else let b2 = copy_at (PARAM_STORAGE_NAMES_OFFSET + index * ROSFLIGHT_C_PARAM_NAME_SIZE) name b1
        in case rosflight_c_param_type (def_default d) of
             None \<Rightarrow> (b2, False)
           | Some t \<Rightarrow> (b2[PARAM_STORAGE_TYPES_OFFSET + index * PARAM_STORAGE_TYPE_SIZE := t], True)))"

fun encode_rows :: "params \<Rightarrow> nat \<Rightarrow> param_definition list \<Rightarrow> u8 list \<Rightarrow> u8 list \<times> bool" where
  "encode_rows p index [] bytes = (bytes, True)"
| "encode_rows p index (d # ds) bytes = (case encode_row p index d bytes of
     (b, False) \<Rightarrow> (b, False)
   | (b, True) \<Rightarrow> encode_rows p (Suc index) ds b)"

definition encode_rosflight_c_params :: "u32 \<Rightarrow> params \<Rightarrow> u8 list \<Rightarrow> u8 list \<times> bool" where
  "encode_rosflight_c_params version p bytes =
    (let b0 = replicate (length bytes) 0;
         b1 = copy_at 0 (u32_to_le_bytes version) b0;
         b2 = copy_at 4 (u16_to_le_bytes (word_of_nat ROSFLIGHT_C_PARAM_STORAGE_SIZE)) b1;
         b3 = b2[6 := 0xBE]
     in case encode_rows p 0 rosflight_c_params b3 of
       (b4, False) \<Rightarrow> (b4, False)
     | (b4, True) \<Rightarrow>
        if length rosflight_c_params \<noteq> ROSFLIGHT_C_PARAM_COUNT then (b4, False)
        else let b5 = b4[PARAM_STORAGE_MAGIC_EF_OFFSET := 0xEF]
        in (b5[PARAM_STORAGE_CHECKSUM_OFFSET := rosflight_c_checksum b5], True))"

section \<open>Decoding\<close>

definition decode_row :: "u8 list \<Rightarrow> nat \<Rightarrow> param_definition \<Rightarrow> params \<Rightarrow> params option" where
  "decode_row bytes index d p =
    (let stored_name = slice_bytes (PARAM_STORAGE_NAMES_OFFSET + index * ROSFLIGHT_C_PARAM_NAME_SIZE)
           ROSFLIGHT_C_PARAM_NAME_SIZE bytes;
         expected_name = string_bytes (def_name d)
     in if take (length expected_name) stored_name \<noteq> expected_name
          \<or> length expected_name < ROSFLIGHT_C_PARAM_NAME_SIZE \<and> stored_name ! length expected_name \<noteq> 0
        then None
     else case rosflight_c_param_type (def_default d) of
       None \<Rightarrow> None
     | Some t \<Rightarrow>
        if bytes ! (PARAM_STORAGE_TYPES_OFFSET + index * PARAM_STORAGE_TYPE_SIZE) \<noteq> t then None
        else map_option (set_by_id p (def_id d))
          (decode_param_value (slice_bytes (PARAM_STORAGE_VALUES_OFFSET + index * PARAM_STORAGE_VALUE_SIZE)
             PARAM_STORAGE_VALUE_SIZE bytes) (def_default d)))"

fun decode_rows :: "u8 list \<Rightarrow> nat \<Rightarrow> param_definition list \<Rightarrow> params \<Rightarrow> params option" where
  "decode_rows bytes index [] p = Some p"
| "decode_rows bytes index (d # ds) p = (case decode_row bytes index d p of
     None \<Rightarrow> None
   | Some p' \<Rightarrow> decode_rows bytes (Suc index) ds p')"

definition decode_rosflight_c_params_in_order :: "u8 list \<Rightarrow> param_definition list \<Rightarrow> params option" where
  "decode_rosflight_c_params_in_order bytes defs = (case decode_rows bytes 0 defs params_new of
     None \<Rightarrow> None
   | Some p \<Rightarrow> if length defs = ROSFLIGHT_C_PARAM_COUNT then Some p else None)"

definition decode_rosflight_c_params :: "u32 \<Rightarrow> u8 list \<Rightarrow> params option" where
  "decode_rosflight_c_params version bytes =
    (if u32_from_le_bytes (slice_bytes 0 4 bytes) \<noteq> version
        \<or> unat (u16_from_le_bytes (slice_bytes 4 2 bytes)) \<noteq> ROSFLIGHT_C_PARAM_STORAGE_SIZE
        \<or> bytes ! 6 \<noteq> 0xBE
        \<or> bytes ! PARAM_STORAGE_MAGIC_EF_OFFSET \<noteq> 0xEF
        \<or> bytes ! PARAM_STORAGE_CHECKSUM_OFFSET \<noteq> rosflight_c_checksum bytes
     then None
     else decode_rosflight_c_params_in_order bytes rosflight_c_params)"

end
