(* ===== verification/Param_Storage_Safety.thy ===== *)
theory Param_Storage_Safety
  imports Param_Storage Param_Service_Safety
begin

text \<open>
  The parameter image round trip: what is encoded is decoded to the same stored values,
  with the defaults for the parameters the image does not hold; and a single wrong byte in
  the checksummed part makes the decoder refuse the image.
\<close>

section \<open>Bytes\<close>

lemma length_copy_at [simp]: "offset + length data \<le> length bytes \<Longrightarrow> length (copy_at offset data bytes) = length bytes"
  by (simp add: copy_at_def)

lemma nth_copy_at:
  "offset + length data \<le> length bytes \<Longrightarrow> i < length bytes \<Longrightarrow>
    copy_at offset data bytes ! i
      = (if offset \<le> i \<and> i < offset + length data then data ! (i - offset) else bytes ! i)"
  by (auto simp: copy_at_def nth_append min_def)

lemma u32_le_round_trip [simp]: "u32_from_le_bytes (u32_to_le_bytes w) = w"
proof (rule bit_word_eqI)
  fix n assume n: "n < LENGTH(32)"
  have "n < 8 \<or> 8 \<le> n \<and> n - 8 < 8 \<or> 16 \<le> n \<and> n - 16 < 8 \<or> 24 \<le> n \<and> n - 24 < 8" using n by auto
  with n show "bit (u32_from_le_bytes (u32_to_le_bytes w)) n = bit w n"
    by (auto simp: u32_from_le_bytes_def u32_to_le_bytes_def bit_or_iff bit_push_bit_iff bit_ucast_iff
        bit_drop_bit_eq)
qed

lemma u16_le_round_trip [simp]: "u16_from_le_bytes (u16_to_le_bytes w) = w"
  by (rule bit_word_eqI)
     (auto simp: u16_from_le_bytes_def u16_to_le_bytes_def bit_or_iff bit_push_bit_iff bit_ucast_iff bit_drop_bit_eq)

lemma length_le_bytes [simp]: "length (u32_to_le_bytes w) = 4" "length (u16_to_le_bytes v) = 2"
  by (simp_all add: u32_to_le_bytes_def u16_to_le_bytes_def)

lemma slice_bytes_eqI:
  "offset + length data \<le> length bytes \<Longrightarrow> (\<And>i. i < length data \<Longrightarrow> bytes ! (offset + i) = data ! i) \<Longrightarrow>
    slice_bytes offset (length data) bytes = data"
  by (rule nth_equalityI) (simp_all add: slice_bytes_def)

section \<open>The stored rows\<close>

definition storable :: "param_value \<Rightarrow> bool" where
  "storable v \<longleftrightarrow> is_PInt v \<or> is_PFloat v"

definition storable_row :: "param_definition \<Rightarrow> bool" where
  "storable_row d \<longleftrightarrow> storable (def_default d) \<and> wire_name (def_name d)"

lemma storable_rows: "list_all storable (map snd param_rows)"
  by (simp add: param_rows_def param_rows_setup_def param_rows_primary_mixer_def
      param_rows_secondary_mixer_def param_rows_control_def param_rows_sensors_def
      param_rows_rc_vehicle_def param_rows_telemetry_def storable_def)

lemma definition_storable: "d \<in> set PARAM_DEFINITIONS \<Longrightarrow> storable_row d"
proof -
  assume "d \<in> set PARAM_DEFINITIONS"
  then obtain i where i: "i < 349" "d = PARAM_DEFINITIONS ! i" by (auto simp: in_set_conv_nth)
  then show ?thesis
    using storable_rows wire_names [of i] by (simp add: storable_row_def nth_PARAM_DEFINITIONS list_all_length)
qed

definition c_param_ids :: "param_id list" where
  "c_param_ids = map def_id rosflight_c_params"

lemma map_def_id: "map def_id PARAM_DEFINITIONS = map ParamId [0..<349]"
  by (rule nth_equalityI) simp_all

lemma c_param_ids_eq:
  "c_param_ids = filter (\<lambda>pid. is_rosflight_c_param pid \<and> \<not> is_rosflight_c_tail_param pid) (map ParamId [0..<349])
    @ ROSFLIGHT_C_TAIL_ORDER"
proof -
  have "map def_id (filter (\<lambda>d. is_rosflight_c_param (def_id d) \<and> \<not> is_rosflight_c_tail_param (def_id d)) PARAM_DEFINITIONS)
      = filter (\<lambda>pid. is_rosflight_c_param pid \<and> \<not> is_rosflight_c_tail_param pid) (map def_id PARAM_DEFINITIONS)"
    by (simp add: filter_map o_def)
  then show ?thesis
    by (simp add: c_param_ids_def rosflight_c_params_def map_def_id ROSFLIGHT_C_TAIL_ORDER_def)
qed

lemma distinct_c_params: "distinct c_param_ids"
  by (auto simp: c_param_ids_eq distinct_map inj_on_def is_rosflight_c_tail_param_def ROSFLIGHT_C_TAIL_ORDER_def
      intro!: distinct_filter)

lemma c_params_subset: "set rosflight_c_params \<subseteq> set PARAM_DEFINITIONS"
  by (auto simp: rosflight_c_params_def ROSFLIGHT_C_TAIL_ORDER_def)

lemma set_c_param_ids: "set c_param_ids = {pid. valid_param_id pid \<and> is_rosflight_c_param pid}"
proof -
  have "pid \<in> ParamId ` {0..<349}" if "valid_param_id pid" for pid
    using that by (cases pid) (simp add: valid_param_id_def PARAMS_COUNT_def)
  then show ?thesis
    by (auto simp: c_param_ids_eq is_rosflight_c_tail_param_def valid_param_id_def PARAMS_COUNT_def
        ROSFLIGHT_C_TAIL_ORDER_def is_rosflight_c_param_def rust_only_params_def)
qed

lemma length_c_params [simp]: "length rosflight_c_params = 333"
proof -
  have "length c_param_ids = card (set c_param_ids)" by (simp add: distinct_card distinct_c_params)
  also have "set c_param_ids = ParamId ` {0..<349} - set rust_only_params"
  proof -
    have "pid \<in> ParamId ` {0..<349} \<longleftrightarrow> valid_param_id pid" for pid
      by (cases pid) (auto simp: valid_param_id_def PARAMS_COUNT_def)
    then show ?thesis by (auto simp: set_c_param_ids is_rosflight_c_param_def)
  qed
  also have "card \<dots> = card (ParamId ` {0..<349}) - card (set rust_only_params)"
    by (rule card_Diff_subset) (auto simp: rust_only_params_def)
  also have "card (set rust_only_params) = 16" by (simp add: rust_only_params_def)
  also have "card (ParamId ` {0..<349}) = 349" by (simp add: card_image inj_on_def)
  finally show ?thesis by (simp add: c_param_ids_def)
qed

section \<open>One row\<close>

lemmas offsets = layout_defs

definition row_ranges :: "nat \<Rightarrow> nat \<Rightarrow> bool" where
  "row_ranges i pos \<longleftrightarrow> 8 + 4 * i \<le> pos \<and> pos < 12 + 4 * i \<or> 1340 + 16 * i \<le> pos \<and> pos < 1356 + 16 * i
    \<or> pos = 6668 + i"

lemma row_ranges_disjoint: "row_ranges i pos \<Longrightarrow> row_ranges k pos \<Longrightarrow> i < 333 \<Longrightarrow> k < 333 \<Longrightarrow> i = k"
  unfolding row_ranges_def by linarith

definition row_stored :: "params \<Rightarrow> nat \<Rightarrow> param_definition \<Rightarrow> u8 list \<Rightarrow> bool" where
  "row_stored p i d b \<longleftrightarrow>
    (\<exists>enc. encode_param_value (get_by_id p (def_id d)) (def_default d) = Some enc
      \<and> (\<forall>k < 4. b ! (8 + 4 * i + k) = enc ! k))
    \<and> (\<forall>k < 16. b ! (1340 + 16 * i + k)
        = (if k < length (def_name d) then string_bytes (def_name d) ! k else 0))
    \<and> rosflight_c_param_type (def_default d) = Some (b ! (6668 + i))"

lemma row_stored_cong:
  "row_stored p i d b \<Longrightarrow> (\<And>pos. row_ranges i pos \<Longrightarrow> b' ! pos = b ! pos) \<Longrightarrow> row_stored p i d b'"
  by (auto simp: row_stored_def row_ranges_def)

definition encodable :: "params \<Rightarrow> param_definition \<Rightarrow> bool" where
  "encodable p d \<longleftrightarrow> storable_row d \<and> same_param_type (def_default d) (get_by_id p (def_id d))"

lemma encodable_value:
  assumes "encodable p d"
  obtains enc t where "encode_param_value (get_by_id p (def_id d)) (def_default d) = Some enc" "length enc = 4"
    "rosflight_c_param_type (def_default d) = Some t"
    "decode_param_value enc (def_default d) = Some (get_by_id p (def_id d))"
  using assms that
  by (cases "def_default d"; cases "get_by_id p (def_id d)")
     (auto simp: encodable_def storable_row_def storable_def)

lemma length_string_bytes [simp]: "length (string_bytes n) = length n"
  by (simp add: string_bytes_def)

lemma encode_row_ok:
  assumes d: "encodable p d" and i: "i < 333" and len: "length bytes = 7004"
    and zero: "\<forall>pos. 1340 + 16 * i \<le> pos \<and> pos < 1356 + 16 * i \<longrightarrow> bytes ! pos = 0"
  shows "\<exists>b. encode_row p i d bytes = (b, True) \<and> length b = 7004 \<and> row_stored p i d b
    \<and> (\<forall>pos < 7004. \<not> row_ranges i pos \<longrightarrow> b ! pos = bytes ! pos)"
proof -
  obtain enc t where e: "encode_param_value (get_by_id p (def_id d)) (def_default d) = Some enc" "length enc = 4"
    "rosflight_c_param_type (def_default d) = Some t" by (rule encodable_value [OF d])
  have nl: "length (def_name d) \<le> 16" using d by (simp add: encodable_def storable_row_def wire_name_def)
  let ?b1 = "copy_at (8 + 4 * i) enc bytes"
  let ?b2 = "copy_at (1340 + 16 * i) (string_bytes (def_name d)) ?b1"
  let ?b3 = "?b2[6668 + i := t]"
  have run: "encode_row p i d bytes = (?b3, True)"
    using e nl by (simp add: encode_row_def Let_def offsets mult.commute)
  have l1: "length ?b1 = 7004" using i e(2) len by (subst length_copy_at) simp_all
  have l2: "length ?b2 = 7004" using i nl l1 by (subst length_copy_at) simp_all
  have nth1: "?b1 ! pos = (if 8 + 4 * i \<le> pos \<and> pos < 12 + 4 * i then enc ! (pos - (8 + 4 * i)) else bytes ! pos)"
    if "pos < 7004" for pos
    using that i e(2) len by (subst nth_copy_at) simp_all
  have nth2: "?b2 ! pos = (if 1340 + 16 * i \<le> pos \<and> pos < 1340 + 16 * i + length (def_name d)
      then string_bytes (def_name d) ! (pos - (1340 + 16 * i)) else ?b1 ! pos)" if "pos < 7004" for pos
    using that i nl l1 by (subst nth_copy_at) simp_all
  have nth3: "?b3 ! pos = (if pos = 6668 + i then t else ?b2 ! pos)" if "pos < 7004" for pos
    using that l2 by simp
  have "\<forall>k < 4. ?b3 ! (8 + 4 * i + k) = enc ! k"
    using i by (auto simp: nth3 nth2 nth1)
  moreover have "\<forall>k < 16. ?b3 ! (1340 + 16 * i + k)
        = (if k < length (def_name d) then string_bytes (def_name d) ! k else 0)"
    using i zero by (auto simp: nth3 nth2 nth1)
  moreover have "?b3 ! (6668 + i) = t" using i by (simp add: nth3)
  ultimately have "row_stored p i d ?b3" using e by (simp add: row_stored_def)
  moreover have "\<forall>pos < 7004. \<not> row_ranges i pos \<longrightarrow> ?b3 ! pos = bytes ! pos"
    using nl by (auto simp: nth3 nth2 nth1 row_ranges_def)
  ultimately show ?thesis using run l2 by simp
qed

lemma decode_row_ok:
  assumes d: "encodable p d" and i: "i < 333" and len: "length b = 7004" and st: "row_stored p i d b"
  shows "decode_row b i d q = Some (set_by_id q (def_id d) (get_by_id p (def_id d)))"
proof -
  obtain enc t where e: "encode_param_value (get_by_id p (def_id d)) (def_default d) = Some enc" "length enc = 4"
    "rosflight_c_param_type (def_default d) = Some t"
    "decode_param_value enc (def_default d) = Some (get_by_id p (def_id d))" by (rule encodable_value [OF d])
  have nl: "length (def_name d) \<le> 16" using d by (simp add: encodable_def storable_row_def wire_name_def)
  have "slice_bytes (8 + 4 * i) (length enc) b = enc"
    using st e i len by (intro slice_bytes_eqI) (auto simp: row_stored_def)
  then have v: "slice_bytes (8 + 4 * i) 4 b = enc" by (simp add: e(2))
  have sn: "slice_bytes (1340 + 16 * i) 16 b ! k = b ! (1340 + 16 * i + k)" if "k < 16" for k
    using that i len by (simp add: slice_bytes_def)
  have sl: "length (slice_bytes (1340 + 16 * i) 16 b) = 16" using i len by (simp add: slice_bytes_def)
  have nm: "\<forall>k < 16. b ! (1340 + 16 * i + k) = (if k < length (def_name d) then string_bytes (def_name d) ! k else 0)"
    and ty: "b ! (6668 + i) = t" using st e by (auto simp: row_stored_def)
  have n1: "take (length (def_name d)) (slice_bytes (1340 + 16 * i) 16 b) = string_bytes (def_name d)"
    using nl nm sl by (intro nth_equalityI) (auto simp: sn)
  have n2: "length (def_name d) < 16 \<Longrightarrow> slice_bytes (1340 + 16 * i) 16 b ! length (def_name d) = 0"
    using nm by (simp add: sn)
  show ?thesis
    using n1 n2 v ty e by (auto simp: decode_row_def Let_def offsets mult.commute)
qed

section \<open>All rows\<close>

lemma encode_rows_ok:
  assumes "\<forall>d \<in> set ds. encodable p d" "i + length ds \<le> 333" "length bytes = 7004"
    and "\<forall>pos. 1340 + 16 * i \<le> pos \<and> pos < 6668 \<longrightarrow> bytes ! pos = 0"
  shows "\<exists>b. encode_rows p i ds bytes = (b, True) \<and> length b = 7004
    \<and> (\<forall>k < length ds. row_stored p (i + k) (ds ! k) b)
    \<and> (\<forall>pos < 7004. (\<forall>k. i \<le> k \<and> k < i + length ds \<longrightarrow> \<not> row_ranges k pos) \<longrightarrow> b ! pos = bytes ! pos)"
  using assms
proof (induction ds arbitrary: i bytes)
  case (Cons d ds)
  have i: "i < 333" "\<forall>d \<in> set ds. encodable p d" "Suc i + length ds \<le> 333" using Cons.prems(1,2) by auto
  have z: "\<forall>pos. 1340 + 16 * i \<le> pos \<and> pos < 1356 + 16 * i \<longrightarrow> bytes ! pos = 0"
    using Cons.prems(4) i(1) by auto
  obtain b1 where b1: "encode_row p i d bytes = (b1, True)" "length b1 = 7004" "row_stored p i d b1"
    "\<forall>pos < 7004. \<not> row_ranges i pos \<longrightarrow> b1 ! pos = bytes ! pos"
    using encode_row_ok [OF _ i(1) Cons.prems(3) z] Cons.prems(1) by fastforce
  have z1: "\<forall>pos. 1340 + 16 * Suc i \<le> pos \<and> pos < 6668 \<longrightarrow> b1 ! pos = 0"
    using b1(4) Cons.prems(4) i(1) by (auto simp: row_ranges_def)
  obtain b where b: "encode_rows p (Suc i) ds b1 = (b, True)" "length b = 7004"
    "\<forall>k < length ds. row_stored p (Suc i + k) (ds ! k) b"
    "\<forall>pos < 7004. (\<forall>k. Suc i \<le> k \<and> k < Suc i + length ds \<longrightarrow> \<not> row_ranges k pos) \<longrightarrow> b ! pos = b1 ! pos"
    using Cons.IH [OF i(2,3) b1(2) z1] by blast
  have keep: "b ! pos = b1 ! pos" if "row_ranges i pos" for pos
  proof -
    have "pos < 7004" using that i(1) by (auto simp: row_ranges_def)
    moreover have "\<not> row_ranges k pos" if "Suc i \<le> k" "k < Suc i + length ds" for k
      using row_ranges_disjoint [OF \<open>row_ranges i pos\<close>, of k] that i by auto
    ultimately show ?thesis using b(4) by simp
  qed
  have first: "row_stored p i d b" by (rule row_stored_cong [OF b1(3) keep])
  have "row_stored p (i + k) ((d # ds) ! k) b" if "k < length (d # ds)" for k
    using that first b(3) by (cases k) auto
  moreover have "b ! pos = bytes ! pos"
    if "pos < 7004" "\<forall>k. i \<le> k \<and> k < i + length (d # ds) \<longrightarrow> \<not> row_ranges k pos" for pos
  proof -
    have "\<not> row_ranges i pos" using that(2) by auto
    moreover have "\<forall>k. Suc i \<le> k \<and> k < Suc i + length ds \<longrightarrow> \<not> row_ranges k pos" using that(2) by auto
    ultimately show ?thesis using that(1) b(4) b1(4) by simp
  qed
  ultimately show ?case using b1(1) b(1,2) by (intro exI [of _ b]) auto
qed auto

definition stored_pairs :: "params \<Rightarrow> param_definition list \<Rightarrow> (param_id \<times> param_value) list" where
  "stored_pairs p ds = map (\<lambda>d. (def_id d, get_by_id p (def_id d))) ds"

lemma decode_rows_ok:
  assumes "\<forall>d \<in> set ds. encodable p d" "i + length ds \<le> 333" "length b = 7004"
    and "\<forall>k < length ds. row_stored p (i + k) (ds ! k) b"
  shows "decode_rows b i ds q = Some (foldl (\<lambda>s kv. set_by_id s (fst kv) (snd kv)) q (stored_pairs p ds))"
  using assms
proof (induction ds arbitrary: i q)
  case (Cons d ds)
  have "decode_row b i d q = Some (set_by_id q (def_id d) (get_by_id p (def_id d)))"
    using Cons.prems by (intro decode_row_ok) auto
  moreover have "\<forall>k < length ds. row_stored p (Suc i + k) (ds ! k) b" using Cons.prems(4) by auto
  ultimately show ?case using Cons.IH [of "Suc i"] Cons.prems by (simp add: stored_pairs_def)
qed (simp add: stored_pairs_def)

lemma stored_pairs_lookup:
  assumes "valid_param_id pid"
  shows "get_by_id (foldl (\<lambda>s kv. set_by_id s (fst kv) (snd kv)) q (stored_pairs p rosflight_c_params)) pid
    = (if is_rosflight_c_param pid then get_by_id p pid else get_by_id q pid)"
proof -
  have keys: "map fst (stored_pairs p rosflight_c_params) = c_param_ids"
    by (simp add: stored_pairs_def c_param_ids_def o_def)
  have m: "pid \<in> set c_param_ids \<longleftrightarrow> is_rosflight_c_param pid" using assms by (simp add: set_c_param_ids)
  show ?thesis
  proof (cases "is_rosflight_c_param pid")
    case True
    then have "(pid, get_by_id p pid) \<in> set (stored_pairs p rosflight_c_params)"
      using m by (auto simp: c_param_ids_def stored_pairs_def)
    then show ?thesis using True params_store.lookup_batch [of "stored_pairs p rosflight_c_params"]
      by (simp add: keys distinct_c_params)
  next
    case False
    then have "pid \<notin> fst ` set (stored_pairs p rosflight_c_params)"
      using m keys by (metis list.set_map)
    then show ?thesis using False by (simp add: params_store.lookup_batch_other)
  qed
qed

section \<open>The whole image\<close>

text \<open>What the decoder looks at outside the rows.\<close>

definition image_frame :: "u32 \<Rightarrow> u8 list \<Rightarrow> bool" where
  "image_frame version b \<longleftrightarrow> length b = 7004 \<and> (\<forall>k < 4. b ! k = u32_to_le_bytes version ! k)
    \<and> (\<forall>k < 2. b ! (4 + k) = u16_to_le_bytes 7004 ! k) \<and> b ! 6 = 0xBE \<and> b ! 7001 = 0xEF
    \<and> b ! 7002 = rosflight_c_checksum b"

lemma u32_from_le_inj:
  assumes "length a = 4" "length b = 4" "u32_from_le_bytes a = u32_from_le_bytes b"
  shows "a = b"
proof -
  have parts: "ucast (drop_bit (8 * k) (u32_from_le_bytes xs)) = xs ! k" if "length xs = 4" "k < 4" for xs k
  proof (rule bit_word_eqI)
    fix n assume n: "n < LENGTH(8)"
    have "k = 0 \<or> k = 1 \<or> k = 2 \<or> k = 3" using that(2) by auto
    with n show "bit (ucast (drop_bit (8 * k) (u32_from_le_bytes xs)) :: u8) n = bit (xs ! k) n"
      by (auto simp: u32_from_le_bytes_def bit_or_iff bit_push_bit_iff bit_ucast_iff bit_drop_bit_eq
          dest: bit_imp_le_length)
  qed
  show ?thesis using assms parts [of a] parts [of b] by (intro nth_equalityI) (simp, metis)
qed

lemma u16_from_le_inj:
  assumes "length a = 2" "length b = 2" "u16_from_le_bytes a = u16_from_le_bytes b"
  shows "a = b"
proof -
  have parts: "ucast (drop_bit (8 * k) (u16_from_le_bytes xs)) = xs ! k" if "length xs = 2" "k < 2" for xs k
  proof (rule bit_word_eqI)
    fix n assume n: "n < LENGTH(8)"
    have "k = 0 \<or> k = 1" using that(2) by auto
    with n show "bit (ucast (drop_bit (8 * k) (u16_from_le_bytes xs)) :: u8) n = bit (xs ! k) n"
      by (auto simp: u16_from_le_bytes_def bit_or_iff bit_push_bit_iff bit_ucast_iff bit_drop_bit_eq
          dest: bit_imp_le_length)
  qed
  show ?thesis using assms parts [of a] parts [of b] by (intro nth_equalityI) (simp, metis)
qed

lemma frame_iff:
  assumes "length b = 7004"
  shows "image_frame version b \<longleftrightarrow> u32_from_le_bytes (slice_bytes 0 4 b) = version
    \<and> unat (u16_from_le_bytes (slice_bytes 4 2 b)) = ROSFLIGHT_C_PARAM_STORAGE_SIZE
    \<and> b ! 6 = 0xBE \<and> b ! PARAM_STORAGE_MAGIC_EF_OFFSET = 0xEF
    \<and> b ! PARAM_STORAGE_CHECKSUM_OFFSET = rosflight_c_checksum b"
proof -
  have l: "length (slice_bytes 0 4 b) = 4" "length (slice_bytes 4 2 b) = 2"
    using assms by (simp_all add: slice_bytes_def)
  have "u32_from_le_bytes (slice_bytes 0 4 b) = version \<longleftrightarrow> slice_bytes 0 4 b = u32_to_le_bytes version"
    using u32_from_le_inj [OF l(1), of "u32_to_le_bytes version"] by auto
  also have "\<dots> \<longleftrightarrow> (\<forall>k < 4. b ! k = u32_to_le_bytes version ! k)"
    using assms l by (auto simp: list_eq_iff_nth_eq slice_bytes_def)
  finally have v: "u32_from_le_bytes (slice_bytes 0 4 b) = version
      \<longleftrightarrow> (\<forall>k < 4. b ! k = u32_to_le_bytes version ! k)" .
  have "unat (u16_from_le_bytes (slice_bytes 4 2 b)) = 7004 \<longleftrightarrow> u16_from_le_bytes (slice_bytes 4 2 b) = 7004"
    by (simp add: word_unat_eq_iff)
  also have "\<dots> \<longleftrightarrow> slice_bytes 4 2 b = u16_to_le_bytes 7004"
    using u16_from_le_inj [OF l(2), of "u16_to_le_bytes 7004"] by auto
  also have "\<dots> \<longleftrightarrow> (\<forall>k < 2. b ! (4 + k) = u16_to_le_bytes 7004 ! k)"
    using assms l by (auto simp: list_eq_iff_nth_eq slice_bytes_def)
  finally show ?thesis using assms v by (simp add: image_frame_def offsets)
qed

lemma decode_eq:
  assumes "length b = 7004"
  shows "decode_rosflight_c_params version b
    = (if image_frame version b then decode_rosflight_c_params_in_order b rosflight_c_params else None)"
  unfolding decode_rosflight_c_params_def frame_iff [OF assms] by simp

definition same_variants :: "params \<Rightarrow> bool" where
  "same_variants p \<longleftrightarrow>
    (\<forall>i < PARAMS_COUNT. same_param_type (def_default (PARAM_DEFINITIONS ! i)) (get_by_id p (ParamId i)))"

lemma encodable_rows:
  assumes "same_variants p" "d \<in> set rosflight_c_params"
  shows "encodable p d"
proof -
  have d: "d \<in> set PARAM_DEFINITIONS" using assms(2) c_params_subset by auto
  then obtain i where "i < 349" "d = PARAM_DEFINITIONS ! i" by (auto simp: in_set_conv_nth)
  with d assms(1) show ?thesis
    by (simp add: encodable_def definition_storable same_variants_def PARAMS_COUNT_def)
qed

lemma checksum_cong:
  assumes "length a = 7004" "length b = 7004" "\<And>i. 8 \<le> i \<Longrightarrow> i < 7001 \<Longrightarrow> a ! i = b ! i"
  shows "rosflight_c_checksum a = rosflight_c_checksum b"
proof -
  have "slice_bytes 8 6993 a = slice_bytes 8 6993 b"
    using assms by (intro nth_equalityI) (simp_all add: slice_bytes_def)
  then show ?thesis by (simp add: rosflight_c_checksum_def offsets)
qed

lemma encode_image:
  assumes p: "same_variants p" and len: "length bytes = 7004"
  obtains b where "encode_rosflight_c_params version p bytes = (b, True)" "image_frame version b"
    "\<forall>k < 333. row_stored p k (rosflight_c_params ! k) b"
proof -
  let ?b1 = "copy_at 0 (u32_to_le_bytes version) (replicate 7004 0)"
  let ?b2 = "copy_at 4 (u16_to_le_bytes 7004) ?b1"
  let ?b3 = "?b2[6 := 0xBE]"
  have l: "length ?b1 = 7004" "length ?b2 = 7004" "length ?b3 = 7004" by simp_all
  have n1: "?b1 ! i = (if i < 4 then u32_to_le_bytes version ! i else 0)" if "i < 7004" for i
    using that by (subst nth_copy_at) simp_all
  have n2: "?b2 ! i = (if 4 \<le> i \<and> i < 6 then u16_to_le_bytes 7004 ! (i - 4) else ?b1 ! i)" if "i < 7004" for i
    using that by (subst nth_copy_at) simp_all
  have n3: "?b3 ! i = (if i = 6 then 0xBE else ?b2 ! i)" if "i < 7004" for i
    using that l(2) by simp
  have z: "\<forall>pos. 1340 + 16 * 0 \<le> pos \<and> pos < 6668 \<longrightarrow> ?b3 ! pos = 0" by (simp add: n3 n2 n1)
  obtain b4 where b4: "encode_rows p 0 rosflight_c_params ?b3 = (b4, True)" "length b4 = 7004"
    "\<forall>k < 333. row_stored p k (rosflight_c_params ! k) b4"
    "\<forall>pos < 7004. (\<forall>k. 0 \<le> k \<and> k < 333 \<longrightarrow> \<not> row_ranges k pos) \<longrightarrow> b4 ! pos = ?b3 ! pos"
    using encode_rows_ok [of rosflight_c_params p 0, OF _ _ l(3) z] encodable_rows [OF p] by auto
  let ?b5 = "b4[7001 := 0xEF]"
  let ?b = "?b5[7002 := rosflight_c_checksum ?b5]"
  have run: "encode_rosflight_c_params version p bytes = (?b, True)"
    using b4(1) len by (simp add: encode_rosflight_c_params_def Let_def offsets)
  have nb: "?b ! i = (if i = 7002 then rosflight_c_checksum ?b5 else if i = 7001 then 0xEF else b4 ! i)"
    if "i < 7004" for i using that b4(2) by simp
  have low: "b4 ! i = ?b3 ! i" if "i < 8" for i
    using b4(4) that by (auto simp: row_ranges_def)
  have "rosflight_c_checksum ?b = rosflight_c_checksum ?b5"
    using b4(2) by (intro checksum_cong) simp_all
  then have "image_frame version ?b"
    using b4(2) unfolding image_frame_def by (simp add: nb low n3 n2 n1)
  moreover have "row_stored p k (rosflight_c_params ! k) ?b" if "k < 333" for k
  proof (rule row_stored_cong)
    show "row_stored p k (rosflight_c_params ! k) b4" using b4(3) that by simp
    show "?b ! pos = b4 ! pos" if "row_ranges k pos" for pos
      using that \<open>k < 333\<close> by (subst nb) (auto simp: row_ranges_def)
  qed
  ultimately show ?thesis using that [OF run] by blast
qed

lemma decode_image:
  assumes p: "same_variants p" and b: "image_frame version b" "\<forall>k < 333. row_stored p k (rosflight_c_params ! k) b"
  shows "decode_rosflight_c_params version b
    = Some (foldl (\<lambda>s kv. set_by_id s (fst kv) (snd kv)) params_new (stored_pairs p rosflight_c_params))"
proof -
  have len: "length b = 7004" using b(1) by (simp add: image_frame_def)
  have "decode_rows b 0 rosflight_c_params params_new
      = Some (foldl (\<lambda>s kv. set_by_id s (fst kv) (snd kv)) params_new (stored_pairs p rosflight_c_params))"
    using b(2) encodable_rows [OF p] len by (intro decode_rows_ok) auto
  then show ?thesis
    using b(1) by (simp add: decode_eq len decode_rosflight_c_params_in_order_def offsets)
qed

text \<open>
  C28. The parameter image round trip. When every value has the variant its row declares (which
  the parameter service keeps), the encoder succeeds on any 7004-byte buffer, whatever it
  held, and the decoder of the same firmware version reads back exactly the stored value of
  every ROSflight parameter and the default of the 16 parameters the image does not hold.
\<close>

theorem param_image_round_trip:
  assumes "same_variants p" "length bytes = ROSFLIGHT_C_PARAM_STORAGE_SIZE"
  shows "snd (encode_rosflight_c_params version p bytes)
    \<and> (\<exists>p'. decode_rosflight_c_params version (fst (encode_rosflight_c_params version p bytes)) = Some p'
        \<and> (\<forall>pid. valid_param_id pid \<longrightarrow>
            get_by_id p' pid = (if is_rosflight_c_param pid then get_by_id p pid else get_by_id params_new pid)))"
proof -
  obtain b where b: "encode_rosflight_c_params version p bytes = (b, True)" "image_frame version b"
    "\<forall>k < 333. row_stored p k (rosflight_c_params ! k) b"
    using encode_image [of p bytes version] assms by (auto simp: offsets)
  show ?thesis using decode_image [OF assms(1) b(2,3)] b(1) by (simp add: stored_pairs_lookup)
qed

lemma same_variants_new: "same_variants params_new"
  by (simp add: same_variants_def PARAMS_COUNT_def get_by_id_params_new)

lemma same_param_type_trans: "same_param_type a b \<Longrightarrow> same_param_type b c \<Longrightarrow> same_param_type a c"
  by (cases a; cases b; cases c) simp_all

lemma same_variants_set:
  "same_variants p \<Longrightarrow> same_param_type (get_by_id p pid) v \<Longrightarrow> same_variants (set_by_id p pid v)"
  by (auto simp: same_variants_def intro: same_param_type_trans)

lemma params_ok_same_variants: "params_ok p \<Longrightarrow> same_variants p"
  by (simp add: params_ok_def same_variants_def)

lemma telem_baro_default: "def_default (PARAM_DEFINITIONS ! 343) = PInt 0"
proof -
  let ?front = "param_rows_setup @ param_rows_primary_mixer @ param_rows_secondary_mixer @ param_rows_control
    @ param_rows_sensors @ param_rows_rc_vehicle"
  have "length param_rows = 349" by (rule length_param_rows)
  then have l: "length ?front = 337" by (simp add: param_rows_def param_rows_telemetry_def)
  have "param_rows ! 343 = param_rows_telemetry ! 6"
    using nth_append_length_plus [of ?front param_rows_telemetry 6] unfolding l by (simp add: param_rows_def)
  then show ?thesis by (simp add: nth_PARAM_DEFINITIONS param_rows_telemetry_def)
qed

definition stored_table :: params where
  "stored_table = set_by_id (set_by_id params_new PARAM_TELEM_BARO_HZ (PInt 20)) PARAM_SYSTEM_ID (PInt 42)"

lemma stored_table_ok: "same_variants stored_table"
  by (auto simp: stored_table_def get_by_id_params_new system_id_default telem_baro_default
      intro!: same_variants_set same_variants_new)

theorem param_image_round_trip_witness:
  "\<exists>p'. decode_rosflight_c_params 7 (fst (encode_rosflight_c_params 7 stored_table (replicate 7004 0xAA))) = Some p'
    \<and> get_by_id p' PARAM_SYSTEM_ID = PInt 42 \<and> get_by_id p' PARAM_TELEM_BARO_HZ = PInt 0"
proof -
  have "length (replicate 7004 (0xAA :: u8)) = ROSFLIGHT_C_PARAM_STORAGE_SIZE" by (simp add: offsets)
  from param_image_round_trip [OF stored_table_ok this, of 7] obtain p' where
    p': "decode_rosflight_c_params 7 (fst (encode_rosflight_c_params 7 stored_table (replicate 7004 0xAA))) = Some p'"
    "\<forall>pid. valid_param_id pid \<longrightarrow> get_by_id p' pid
      = (if is_rosflight_c_param pid then get_by_id stored_table pid else get_by_id params_new pid)" by blast
  have "get_by_id p' PARAM_SYSTEM_ID = PInt 42" "get_by_id p' PARAM_TELEM_BARO_HZ = PInt 0"
    using p'(2) by (simp_all add: valid_param_id_def PARAMS_COUNT_def is_rosflight_c_param_def rust_only_params_def
        stored_table_def get_by_id_params_new telem_baro_default)
  then show ?thesis using p'(1) by blast
qed

section \<open>A damaged image\<close>

lemma fold_xor_acc: "fold (\<lambda>b c. c XOR b) xs (a XOR (y :: u8)) = fold (\<lambda>b c. c XOR b) xs a XOR y"
proof (induction xs arbitrary: a)
  case (Cons x xs)
  have "(a XOR y) XOR x = (a XOR x) XOR y" by (simp add: ac_simps)
  then show ?case using Cons [of "a XOR x"] by simp
qed simp

lemma fold_xor_update:
  "j < length xs \<Longrightarrow> fold (\<lambda>b c. c XOR b) (xs[j := x]) (a :: u8) = fold (\<lambda>b c. c XOR b) xs a XOR (xs ! j XOR x)"
proof (induction xs arbitrary: j a)
  case (Cons y ys)
  show ?case
  proof (cases j)
    case 0
    have "a XOR x = (a XOR y) XOR (y XOR x)" by (simp add: xor.assoc [symmetric]) (simp add: xor.assoc)
    with 0 show ?thesis by (simp add: fold_xor_acc)
  next
    case (Suc n)
    with Cons show ?thesis by simp
  qed
qed simp

lemma slice_update:
  "offset \<le> k \<Longrightarrow> k < offset + n \<Longrightarrow> offset + n \<le> length b \<Longrightarrow>
    slice_bytes offset n (b[k := x]) = (slice_bytes offset n b)[k - offset := x]"
  by (rule nth_equalityI) (auto simp: slice_bytes_def nth_list_update)

lemma checksum_update:
  assumes "length b = 7004" "8 \<le> k" "k < 7001"
  shows "rosflight_c_checksum (b[k := x]) = rosflight_c_checksum b XOR (b ! k XOR x)"
proof -
  have "slice_bytes 8 6993 b ! (k - 8) = b ! k" "length (slice_bytes 8 6993 b) = 6993"
    using assms by (simp_all add: slice_bytes_def)
  then show ?thesis using assms fold_xor_update [of "k - 8" "slice_bytes 8 6993 b" x 0]
    by (simp add: rosflight_c_checksum_def offsets slice_update)
qed

lemma xor_eq_self: "(a :: u8) XOR (b XOR x) = a \<longleftrightarrow> x = b"
  by (metis xor.assoc xor.commute xor.left_neutral xor.right_neutral xor_self_eq)

lemma frame_update:
  assumes f: "image_frame version b" and k: "k < 7003" "k \<noteq> 7" and x: "x \<noteq> b ! k"
  shows "\<not> image_frame version (b[k := x])"
proof -
  have len: "length b = 7004" using f by (simp add: image_frame_def)
  consider "k < 4" | "4 \<le> k" "k < 6" | "k = 6" | "8 \<le> k" "k < 7001" | "k = 7001" | "k = 7002"
    using k by linarith
  then show ?thesis
  proof cases
    case 1
    then show ?thesis using f x len by (auto simp: image_frame_def)
  next
    case 2
    then have "k = 4 + (k - 4)" "k - 4 < 2" by auto
    then obtain j where j: "k = 4 + j" "j < 2" by blast
    then show ?thesis using f x len by (auto simp: image_frame_def)
  next
    case 4
    then have "rosflight_c_checksum (b[k := x]) \<noteq> rosflight_c_checksum b"
      using x len by (simp add: checksum_update xor_eq_self)
    then show ?thesis using f 4 by (auto simp: image_frame_def)
  next
    case 6
    then have "rosflight_c_checksum (b[k := x]) = rosflight_c_checksum b"
      using len by (intro checksum_cong) auto
    then show ?thesis using f x 6 by (auto simp: image_frame_def)
  qed (use f x len in \<open>auto simp: image_frame_def\<close>)
qed

text \<open>
  C29. A damaged image is refused. If the decoder accepts an image, then changing any one of
  its first 7003 bytes, except the unused padding byte 7, makes the decoder refuse it: the
  version, the size, both magic bytes, every value, name and type byte and the checksum.
\<close>

theorem damaged_image_is_refused:
  assumes "length b = ROSFLIGHT_C_PARAM_STORAGE_SIZE" "decode_rosflight_c_params version b \<noteq> None"
    and "k \<le> PARAM_STORAGE_CHECKSUM_OFFSET" "k \<noteq> 7" "x \<noteq> b ! k"
  shows "decode_rosflight_c_params version (b[k := x]) = None"
proof -
  have len: "length b = 7004" and k: "k < 7003" using assms(1,3) by (simp_all add: offsets)
  have "image_frame version b" using assms(2) by (simp add: decode_eq len split: if_splits)
  from frame_update [OF this k assms(4,5)] show ?thesis by (simp add: decode_eq len)
qed

theorem damaged_image_is_refused_witness:
  "\<exists>b. decode_rosflight_c_params 7 b \<noteq> None \<and> decode_rosflight_c_params 7 (b[8 := b ! 8 XOR 1]) = None"
proof -
  have "length (replicate 7004 (0 :: u8)) = 7004" by simp
  from encode_image [OF stored_table_ok this, of 7] obtain b where
    b: "image_frame 7 b" "\<forall>k < 333. row_stored stored_table k (rosflight_c_params ! k) b" by blast
  have d: "decode_rosflight_c_params 7 b \<noteq> None" using decode_image [OF stored_table_ok b] by simp
  have ne: "b ! 8 XOR 1 \<noteq> b ! 8" using xor_eq_self [of "b ! 8" 0 1] by simp
  have "decode_rosflight_c_params 7 (b[8 := b ! 8 XOR 1]) = None"
    using b(1) by (intro damaged_image_is_refused d ne) (simp_all add: offsets image_frame_def)
  then show ?thesis using d by blast
qed

end
