(* ===== verification/Packets.thy ===== *)
theory Packets
  imports Flight_Float
begin

text \<open>
  The packets of \<^verbatim>\<open>packets.rs\<close> that sensors and receivers hand to the core, and the GNSS
  validity timestamp computed from the last pulse per second.
\<close>

section \<open>Packets\<close>

datatype range_type = Sonar | Lidar

datatype gnss_fix_type = NoFix | DeadReckoningOnly | TwoD | ThreeD | GnssPlusDeadReckoning | TimeFixOnly

definition gnss_fix_from_u8 :: "u8 \<Rightarrow> gnss_fix_type" where
  "gnss_fix_from_u8 value =
    (if value = 0 then NoFix else if value = 1 then DeadReckoningOnly else if value = 2 then TwoD
     else if value = 3 then ThreeD else if value = 4 then GnssPlusDeadReckoning
     else if value = 5 then TimeFixOnly else NoFix)"

record packet_header =
  ph_timestamp :: u64
  ph_status :: u16

definition packet_header_default :: packet_header where
  "packet_header_default = \<lparr>ph_timestamp = 0, ph_status = 0\<rparr>"

record adc_packet =
  adc_header :: packet_header
  adc_temperature :: f32
  adc_v_bku :: f32
  adc_v_ref :: f32
  adc_volts :: "f32 list"

record battery_packet =
  bat_header :: packet_header
  bat_voltage :: f32
  bat_current :: f32

record (overloaded) ('r::len) imu_packet =
  imu_header :: packet_header
  imu_accel :: "'r flt list"
  imu_gyro :: "'r flt list"
  imu_temperature :: f32
  imu_seq :: u32

record baro_packet =
  baro_header :: packet_header
  baro_pressure :: f32
  baro_temperature :: f32
  baro_altitude :: f32

record pitot_packet =
  pitot_header :: packet_header
  differential_pressure :: f32
  pitot_temperature :: f32
  indicated_airspeed :: f32

record mag_packet =
  mag_header :: packet_header
  mag_flux :: "f32 list"
  mag_temperature :: f32

record rc_packet =
  rcp_header :: packet_header
  n_chan :: u32
  rcp_chan :: "f32 list"
  lol :: bool

record range_packet =
  range_header :: packet_header
  range_value :: f32
  min_range :: f32
  max_range :: f32
  range_kind :: range_type

record gnss_packet =
  gnss_header :: packet_header
  unix_seconds :: "64 word"
  unix_nanos :: i32
  gnss_lat :: f64
  gnss_lon :: f64
  height_msl :: f32
  vel_n :: f32
  vel_e :: f32
  vel_d :: f32
  h_acc :: f32
  v_acc :: f32
  s_acc :: f32
  gnss_month :: u8
  gnss_year :: u16
  gnss_day :: u8
  gnss_hour :: u8
  gnss_min :: u8
  gnss_sec :: u8
  gnss_nano :: i32
  fix_type :: gnss_fix_type
  num_sats :: u8
  mag_dec :: f32
  time_correction :: u64

record attitude_packet =
  att_header :: packet_header
  att_q :: "f32 list"
  att_rate :: "f32 list"

definition RC_PACKET_CHANNELS :: nat where "RC_PACKET_CHANNELS = 24"
definition ADC_MAX_CHANNELS :: nat where "ADC_MAX_CHANNELS = 21"

text \<open>The arrays of the packets have fixed lengths in the source.\<close>

definition wf_rc_packet :: "rc_packet \<Rightarrow> bool" where
  "wf_rc_packet p \<longleftrightarrow> length (rcp_chan p) = RC_PACKET_CHANNELS"

definition imu_cast :: "('r::len) imu_packet \<Rightarrow> ('t::len) imu_packet" where
  "imu_cast p = \<lparr>imu_header = imu_header p,
     imu_accel = [from_flight_float (imu_accel p ! 0), from_flight_float (imu_accel p ! 1),
       from_flight_float (imu_accel p ! 2)],
     imu_gyro = [from_flight_float (imu_gyro p ! 0), from_flight_float (imu_gyro p ! 1),
       from_flight_float (imu_gyro p ! 2)],
     imu_temperature = imu_temperature p, imu_seq = imu_seq p\<rparr>"

section \<open>GNSS time\<close>

text \<open>
  The receiver's signed fraction of a second added to the last pulse, or 22 ms before the
  packet was complete. \<^verbatim>\<open>unsigned_abs\<close> of an \<^verbatim>\<open>i32\<close> is the word \<open>- v\<close> when it is negative.
\<close>

definition rosflight_c_gnss_timestamp :: "u64 \<Rightarrow> u64 \<Rightarrow> i32 \<Rightarrow> bool \<Rightarrow> u64" where
  "rosflight_c_gnss_timestamp pps completion utc_nanos time_and_fix_valid =
    (if pps \<noteq> 0 \<and> pps < completion \<and> time_and_fix_valid then
       if sint utc_nanos < 0 then saturating_sub pps (ucast (- utc_nanos) div 1000)
       else saturating_add pps (scast utc_nanos div 1000)
     else saturating_sub completion 22000)"

end
