(* ===== verification/Rc.thy ===== *)
theory Rc
  imports Packets State_Machine
begin

text \<open>
  The radio control handler of \<^verbatim>\<open>rc.rs\<close>: the channel mapping read from the parameters, the
  copy of a received packet, the health check, the sticks and switches computed from the
  channels, and the arming and disarming signals it gives to the state machine. The
  \<^verbatim>\<open>log_switch_mappings\<close> of the source only logs.
\<close>

section \<open>State\<close>

definition STICKS_COUNT :: nat where "STICKS_COUNT = 4"
definition SWITCHES_COUNT :: nat where "SWITCHES_COUNT = 5"
definition RC_STRUCT_CHANNELS :: nat where "RC_STRUCT_CHANNELS = 16"
definition RC_TIMEOUT_US :: u64 where "RC_TIMEOUT_US = 500000"

datatype stick = StickX | StickY | StickZ | StickF

fun stick_index :: "stick \<Rightarrow> nat" where
  "stick_index StickX = 0"
| "stick_index StickY = 1"
| "stick_index StickZ = 2"
| "stick_index StickF = 3"

datatype switch = SwitchArm | SwitchAttOverride | SwitchThrottleOverride | SwitchAttType | SwitchOutputKill

fun switch_index :: "switch \<Rightarrow> nat" where
  "switch_index SwitchArm = 0"
| "switch_index SwitchAttOverride = 1"
| "switch_index SwitchThrottleOverride = 2"
| "switch_index SwitchAttType = 3"
| "switch_index SwitchOutputKill = 4"

record stick_config =
  st_channel :: i32
  one_sided :: bool

record switch_config =
  sw_channel :: i32
  sw_mapped :: bool
  sw_direction :: i32

record rc_struct =
  rc_header :: packet_header
  rc_chan :: "f32 list"
  rc_num_channels :: nat
  frame_lost :: bool
  failsafe_activated :: bool

definition rc_struct_default :: rc_struct where
  "rc_struct_default = \<lparr>rc_header = packet_header_default, rc_chan = replicate RC_STRUCT_CHANNELS 0,
     rc_num_channels = 0, frame_lost = False, failsafe_activated = False\<rparr>"

record rc =
  rc_raw :: rc_struct
  rc_new_command :: bool
  sticks :: "stick_config list"
  switches :: "switch_config list"
  stick_values :: "f32 list"
  switch_values :: "bool list"
  prev_time_ms :: u32
  arming_position_ms :: u32

definition rc_new :: rc where
  "rc_new = \<lparr>rc_raw = rc_struct_default, rc_new_command = False,
     sticks = replicate STICKS_COUNT \<lparr>st_channel = 0, one_sided = False\<rparr>,
     switches = replicate SWITCHES_COUNT \<lparr>sw_channel = 0, sw_mapped = False, sw_direction = 0\<rparr>,
     stick_values = replicate STICKS_COUNT 0, switch_values = replicate SWITCHES_COUNT False,
     prev_time_ms = 0, arming_position_ms = 0\<rparr>"

section \<open>Getters\<close>

definition rc_stick :: "rc \<Rightarrow> stick \<Rightarrow> f32" where
  "rc_stick r s = stick_values r ! stick_index s"

definition switch_on :: "rc \<Rightarrow> switch \<Rightarrow> bool" where
  "switch_on r s = switch_values r ! switch_index s"

definition switch_mapped :: "rc \<Rightarrow> switch \<Rightarrow> bool" where
  "switch_mapped r s = sw_mapped (switches r ! switch_index s)"

text \<open>\<^verbatim>\<open>new_command\<close> reads the flag and clears it.\<close>

definition take_new_command :: "rc \<Rightarrow> bool \<times> rc" where
  "take_new_command r = (if rc_new_command r then (True, r\<lparr>rc_new_command := False\<rparr>) else (False, r))"

definition read_raw_chan :: "rc \<Rightarrow> nat \<Rightarrow> f32" where
  "read_raw_chan r i = (if i < rc_num_channels (rc_raw r) then rc_chan (rc_raw r) ! i else 0)"

section \<open>Mapping\<close>

definition init_sticks :: "rc \<Rightarrow> params \<Rightarrow> rc" where
  "init_sticks r p = r\<lparr>sticks := [
     \<lparr>st_channel = int_param_or p PARAM_RC_X_CHANNEL 0, one_sided = False\<rparr>,
     \<lparr>st_channel = int_param_or p PARAM_RC_Y_CHANNEL 1, one_sided = False\<rparr>,
     \<lparr>st_channel = int_param_or p PARAM_RC_Z_CHANNEL 3, one_sided = False\<rparr>,
     \<lparr>st_channel = int_param_or p PARAM_RC_F_CHANNEL 2, one_sided = True\<rparr>]\<rparr>"

definition switch_channel_param :: "nat \<Rightarrow> param_id option" where
  "switch_channel_param i =
    (if i = switch_index SwitchArm then Some PARAM_RC_ARM_CHANNEL
     else if i = switch_index SwitchAttOverride then Some PARAM_RC_ATTITUDE_OVERRIDE_CHANNEL
     else if i = switch_index SwitchThrottleOverride then Some PARAM_RC_THROTTLE_OVERRIDE_CHANNEL
     else if i = switch_index SwitchAttType then Some PARAM_RC_ATT_CONTROL_TYPE_CHANNEL
     else if i = switch_index SwitchOutputKill then Some PARAM_RC_OUTPUT_KILL_CHANNEL
     else None)"

definition switch_direction_param :: "i32 \<Rightarrow> param_id option" where
  "switch_direction_param channel =
    (if channel = 4 then Some PARAM_RC_SWITCH_5_DIRECTION
     else if channel = 5 then Some PARAM_RC_SWITCH_6_DIRECTION
     else if channel = 6 then Some PARAM_RC_SWITCH_7_DIRECTION
     else if channel = 7 then Some PARAM_RC_SWITCH_8_DIRECTION
     else None)"

definition switch_config_for :: "params \<Rightarrow> nat \<Rightarrow> switch_config" where
  "switch_config_for p i =
    (let num = int_param_or p PARAM_RC_NUM_CHANNELS 6;
         channel = (case switch_channel_param i of
           Some pid \<Rightarrow> int_param_or p pid 255 | None \<Rightarrow> 255)
     in \<lparr>sw_channel = channel, sw_mapped = (3 < sint channel \<and> sint channel < sint num),
         sw_direction = (case switch_direction_param channel of
           Some pid \<Rightarrow> int_param_or p pid 1 | None \<Rightarrow> 1)\<rparr>)"

definition update_switch_mappings :: "rc \<Rightarrow> params \<Rightarrow> rc" where
  "update_switch_mappings r p = r\<lparr>switches := map (switch_config_for p) [0..<SWITCHES_COUNT]\<rparr>"

definition rc_init :: "rc \<Rightarrow> params \<Rightarrow> rc" where
  "rc_init r p = (update_switch_mappings (init_sticks r p) p)\<lparr>rc_new_command := False\<rparr>"

definition rc_param_change_callback :: "rc \<Rightarrow> param_id \<Rightarrow> params \<Rightarrow> rc" where
  "rc_param_change_callback r pid p =
    (if pid \<in> {PARAM_RC_X_CHANNEL, PARAM_RC_Y_CHANNEL, PARAM_RC_Z_CHANNEL, PARAM_RC_F_CHANNEL}
     then init_sticks r p
     else if pid \<in> {PARAM_RC_ATTITUDE_OVERRIDE_CHANNEL, PARAM_RC_THROTTLE_OVERRIDE_CHANNEL,
       PARAM_RC_ATT_CONTROL_TYPE_CHANNEL, PARAM_RC_ARM_CHANNEL, PARAM_RC_OUTPUT_KILL_CHANNEL,
       PARAM_RC_SWITCH_5_DIRECTION, PARAM_RC_SWITCH_6_DIRECTION, PARAM_RC_SWITCH_7_DIRECTION,
       PARAM_RC_SWITCH_8_DIRECTION}
     then update_switch_mappings r p else r)"

section \<open>Reception\<close>

definition rc_receive :: "rc \<Rightarrow> rc_packet \<Rightarrow> rc" where
  "rc_receive r packet =
    (let len = min (unat (n_chan packet)) (length (rc_chan (rc_raw r)))
     in r\<lparr>rc_raw := \<lparr>rc_header = rcp_header packet,
        rc_chan = take len (rcp_chan packet) @ drop len (rc_chan (rc_raw r)),
        rc_num_channels = len, frame_lost = lol packet, failsafe_activated = lol packet\<rparr>\<rparr>)"

definition channel_in_frame :: "rc \<Rightarrow> i32 \<Rightarrow> bool" where
  "channel_in_frame r channel \<longleftrightarrow> 0 \<le> sint channel \<and> nat (sint channel) < rc_num_channels (rc_raw r)"

definition stick_value :: "rc \<Rightarrow> nat \<Rightarrow> f32" where
  "stick_value r i =
    (let config = sticks r ! i in
     if \<not> channel_in_frame r (st_channel config) then stick_values r ! i
     else let pwm = rc_chan (rc_raw r) ! nat (sint (st_channel config))
     in if one_sided config then pwm else flt_lit 2 1 * (pwm - flt_lit 5 10))"

definition switch_value :: "rc \<Rightarrow> nat \<Rightarrow> bool" where
  "switch_value r i =
    (let config = switches r ! i in
     if sw_mapped config then
       if \<not> channel_in_frame r (sw_channel config) then False
       else let pwm = rc_chan (rc_raw r) ! nat (sint (sw_channel config))
       in if sint (sw_direction config) < 0 then pwm < flt_lit 2 10 else flt_lit 8 10 \<le> pwm
     else False)"

definition process_sticks_and_switches :: "rc \<Rightarrow> rc" where
  "process_sticks_and_switches r = r\<lparr>stick_values := map (stick_value r) [0..<STICKS_COUNT],
     switch_values := map (switch_value r) [0..<SWITCHES_COUNT]\<rparr>"

section \<open>Health\<close>

text \<open>
  \<^verbatim>\<open>val as usize\<close> of a negative \<^verbatim>\<open>i32\<close> is at least \<^verbatim>\<open>2^31\<close> whatever the width of
  \<^verbatim>\<open>usize\<close>, and more than the 16 channels a frame can have; the model takes the 32-bit
  value. The sum of the time stamp wraps at 64 bits.
\<close>

definition check_rc_health :: "rc \<Rightarrow> u64 \<Rightarrow> params \<Rightarrow> bool" where
  "check_rc_health r now_us p =
    (if ph_timestamp (rc_header (rc_raw r)) + RC_TIMEOUT_US < now_us then False
     else if frame_lost (rc_raw r) \<or> failsafe_activated (rc_raw r) then False
     else let num_channels = unat (int_param_or p PARAM_RC_NUM_CHANNELS 6)
     in if rc_num_channels (rc_raw r) < num_channels then False
     else \<not> list_ex (\<lambda>val. val < flt_lit (-25) 100 \<or> flt_lit 125 100 < val)
       (take num_channels (rc_chan (rc_raw r))))"

section \<open>Arming signals\<close>

abbreviation sm_event :: "state_manager \<Rightarrow> event \<Rightarrow> params \<Rightarrow> state_manager" where
  "sm_event s ev p \<equiv> fst (manager_update s ev p)"

definition rc_arm_threshold :: "params \<Rightarrow> f32" where
  "rc_arm_threshold p = float_param_or p PARAM_ARM_THRESHOLD (flt_lit 15 100)"

definition throttle_override_on :: "rc \<Rightarrow> bool" where
  "throttle_override_on r \<longleftrightarrow> switch_mapped r SwitchThrottleOverride \<and> switch_on r SwitchThrottleOverride"

text \<open>The two halves of \<^verbatim>\<open>look_for_arm_disarm_signal\<close>: sticks, and an arming switch.\<close>

definition look_for_stick_signal :: "rc \<Rightarrow> u32 \<Rightarrow> params \<Rightarrow> state_manager \<Rightarrow> rc \<times> state_manager" where
  "look_for_stick_signal r dt p s =
    (let arm_threshold = rc_arm_threshold p; f_stick = rc_stick r StickF; z_stick = rc_stick r StickZ in
     if \<not> is_armed s then
       (let t = (if f_stick < arm_threshold \<and> 1 - arm_threshold < z_stick
                 then saturating_add (arming_position_ms r) dt else 0);
            r' = r\<lparr>arming_position_ms := t\<rparr>
        in if 1000 < t then
          (r', sm_event (update_arming_safety s (f_stick < arm_threshold) (throttle_override_on r')) REQUEST_ARM p)
        else (r', s))
     else
       (let t = (if f_stick < arm_threshold \<and> z_stick < - (1 - arm_threshold)
                 then saturating_add (arming_position_ms r) dt else 0)
        in if 1000 < t then (r\<lparr>arming_position_ms := 0\<rparr>, sm_event s REQUEST_DISARM p)
        else (r\<lparr>arming_position_ms := t\<rparr>, s)))"

definition look_for_switch_signal :: "rc \<Rightarrow> params \<Rightarrow> state_manager \<Rightarrow> state_manager" where
  "look_for_switch_signal r p s =
    (let armed = is_armed s in
     if switch_on r SwitchArm then
       (let s' = update_arming_safety s (rc_stick r StickF < rc_arm_threshold p) (throttle_override_on r)
        in if \<not> armed then sm_event s' REQUEST_ARM p else s')
     else if armed then sm_event s REQUEST_DISARM p else s)"

definition look_for_arm_disarm_signal :: "rc \<Rightarrow> u32 \<Rightarrow> params \<Rightarrow> state_manager \<Rightarrow> rc \<times> state_manager" where
  "look_for_arm_disarm_signal r now_ms p s =
    (let dt = saturating_sub now_ms (prev_time_ms r); r1 = r\<lparr>prev_time_ms := now_ms\<rparr> in
     if \<not> switch_mapped r1 SwitchArm then look_for_stick_signal r1 dt p s
     else (r1, look_for_switch_signal r1 p s))"

definition rc_run :: "rc \<Rightarrow> u32 \<Rightarrow> params \<Rightarrow> state_manager \<Rightarrow> rc \<times> state_manager" where
  "rc_run r now_ms p s =
    (let now_us = ucast now_ms * 1000 in
     if check_rc_health r now_us p then
       (let s1 = sm_event s (ERROR_CLEARED RC_LOST) p;
            r1 = (process_sticks_and_switches r)\<lparr>rc_new_command := True\<rparr>
        in look_for_arm_disarm_signal r1 now_ms p s1)
     else (r\<lparr>rc_new_command := False\<rparr>, sm_event s (ERROR_OCCURRED RC_LOST) p))"

end
