(* ===== verification/Rc_Safety.thy ===== *)
theory Rc_Safety
  imports Rc
begin

text \<open>
  Properties of the radio control handler: the array indices it uses are in range, the
  conditions under which it arms, what a lost link does, and the range of the sticks.
\<close>

section \<open>Well-formed handlers\<close>

definition wf_rc :: "rc \<Rightarrow> bool" where
  "wf_rc r \<longleftrightarrow> length (sticks r) = STICKS_COUNT \<and> length (stick_values r) = STICKS_COUNT
    \<and> length (switches r) = SWITCHES_COUNT \<and> length (switch_values r) = SWITCHES_COUNT
    \<and> length (rc_chan (rc_raw r)) = RC_STRUCT_CHANNELS \<and> rc_num_channels (rc_raw r) \<le> RC_STRUCT_CHANNELS"

lemmas rc_counts = STICKS_COUNT_def SWITCHES_COUNT_def RC_STRUCT_CHANNELS_def RC_PACKET_CHANNELS_def

lemma wf_rc_new: "wf_rc rc_new"
  by (simp add: wf_rc_def rc_new_def rc_struct_default_def)

lemma wf_rc_init_sticks [intro]: "wf_rc r \<Longrightarrow> wf_rc (init_sticks r p)"
  by (simp add: wf_rc_def init_sticks_def STICKS_COUNT_def)

lemma wf_rc_mappings [intro]: "wf_rc r \<Longrightarrow> wf_rc (update_switch_mappings r p)"
  by (simp add: wf_rc_def update_switch_mappings_def)

lemma wf_rc_init [intro]: "wf_rc r \<Longrightarrow> wf_rc (rc_init r p)"
  using wf_rc_mappings [OF wf_rc_init_sticks, of r p p] by (simp add: wf_rc_def rc_init_def)

lemma wf_rc_callback [intro]: "wf_rc r \<Longrightarrow> wf_rc (rc_param_change_callback r pid p)"
  by (auto simp: rc_param_change_callback_def)

lemma wf_rc_receive [intro]: "wf_rc r \<Longrightarrow> wf_rc_packet pk \<Longrightarrow> wf_rc (rc_receive r pk)"
  by (auto simp: wf_rc_def rc_receive_def wf_rc_packet_def Let_def rc_counts)

lemma wf_rc_process [intro]: "wf_rc r \<Longrightarrow> wf_rc (process_sticks_and_switches r)"
  by (simp add: wf_rc_def process_sticks_and_switches_def)

lemma wf_rc_update [simp]: "wf_rc (r\<lparr>rc_new_command := b\<rparr>) = wf_rc r" "wf_rc (r\<lparr>prev_time_ms := t\<rparr>) = wf_rc r"
  "wf_rc (r\<lparr>arming_position_ms := t\<rparr>) = wf_rc r"
  by (simp_all add: wf_rc_def)

lemma wf_rc_look [intro]: "wf_rc r \<Longrightarrow> wf_rc (fst (look_for_arm_disarm_signal r now p s))"
  by (auto simp: look_for_arm_disarm_signal_def look_for_stick_signal_def Let_def)

lemma wf_rc_run [intro]: "wf_rc r \<Longrightarrow> wf_rc (fst (rc_run r now p s))"
  by (auto simp: rc_run_def Let_def intro!: wf_rc_look wf_rc_process)

text \<open>
  The radio control handler never indexes an array out of range: its arrays keep their
  lengths under every operation, a frame never claims more channels than the array holds,
  and a channel accepted as part of the frame, like each channel the health check reads,
  is inside the array.
\<close>

theorem rc_stays_well_formed:
  assumes "wf_rc r" "wf_rc_packet pk"
  shows "wf_rc (rc_receive r pk) \<and> wf_rc (fst (rc_run r now p s)) \<and> wf_rc (rc_init r p)
    \<and> wf_rc (rc_param_change_callback r pid p)
    \<and> (channel_in_frame r c \<longrightarrow> nat (sint c) < length (rc_chan (rc_raw r)))
    \<and> (check_rc_health r t p \<longrightarrow> unat (int_param_or p PARAM_RC_NUM_CHANNELS 6) \<le> length (rc_chan (rc_raw r)))"
proof -
  have "channel_in_frame r c \<longrightarrow> nat (sint c) < length (rc_chan (rc_raw r))"
    using assms(1) by (auto simp: wf_rc_def channel_in_frame_def)
  moreover have "check_rc_health r t p \<longrightarrow>
      unat (int_param_or p PARAM_RC_NUM_CHANNELS 6) \<le> length (rc_chan (rc_raw r))"
    using assms(1) by (auto simp: wf_rc_def check_rc_health_def Let_def split: if_splits)
  ultimately show ?thesis using assms by auto
qed

section \<open>Arming\<close>

lemma event_does_not_arm:
  "\<not> is_armed s \<Longrightarrow> ev \<notin> {REQUEST_ARM, CALIBRATION_COMPLETE, HARDFAULT_REARM_REQUESTED} \<Longrightarrow>
    \<not> is_armed (sm_event s ev p)"
  using sm_update_arms [of "machine s" ev p] by (auto simp: is_armed_def machine_manager_update)

lemma request_arms:
  assumes "\<not> is_armed s" "is_armed (sm_event s REQUEST_ARM p)"
  shows "rc_throttle_low (safety s)
    \<and> (int_param_set p PARAM_RC_OVERRIDE_TAKE_MIN_THROTTLE \<or> rc_throttle_override_switch_on (safety s))"
proof -
  have m: "\<not> sm_is_armed (machine s)" "sm_is_armed (fst (sm_update (machine s) REQUEST_ARM p))"
    and safe: "arming_attempt_can_transition s p \<Longrightarrow> fst (arming_safety_allows_arm s p)"
    using assms by (auto simp: is_armed_def machine_manager_update split: if_splits)
  show ?thesis using sm_update_arms [OF m] safe
    by (auto simp: arming_attempt_can_transition_def arming_safety_allows_arm_def split: if_splits)
qed

lemma safety_update [simp]: "safety (update_arming_safety s low on) = \<lparr>rc_throttle_low = low, rc_throttle_override_switch_on = on\<rparr>"
  "machine (update_arming_safety s low on) = machine s" "is_armed (update_arming_safety s low on) = is_armed s"
  by (simp_all add: update_arming_safety_def is_armed_def)

lemma request_arms_with:
  "\<not> is_armed s \<Longrightarrow> is_armed (sm_event (update_arming_safety s low on) REQUEST_ARM p) \<Longrightarrow>
    low \<and> (int_param_set p PARAM_RC_OVERRIDE_TAKE_MIN_THROTTLE \<or> on)"
  using request_arms [of "update_arming_safety s low on" p] by simp

lemma rc_getters_update [simp]:
  "rc_stick (r\<lparr>arming_position_ms := t\<rparr>) k = rc_stick r k" "switch_on (r\<lparr>arming_position_ms := t\<rparr>) w = switch_on r w"
  "switch_mapped (r\<lparr>arming_position_ms := t\<rparr>) w = switch_mapped r w"
  "rc_stick (r\<lparr>prev_time_ms := u\<rparr>) k = rc_stick r k" "switch_on (r\<lparr>prev_time_ms := u\<rparr>) w = switch_on r w"
  "switch_mapped (r\<lparr>prev_time_ms := u\<rparr>) w = switch_mapped r w"
  "rc_stick (r\<lparr>rc_new_command := b\<rparr>) k = rc_stick r k" "switch_on (r\<lparr>rc_new_command := b\<rparr>) w = switch_on r w"
  "switch_mapped (r\<lparr>rc_new_command := b\<rparr>) w = switch_mapped r w"
  "throttle_override_on (r\<lparr>arming_position_ms := t\<rparr>) = throttle_override_on r"
  "throttle_override_on (r\<lparr>prev_time_ms := u\<rparr>) = throttle_override_on r"
  "throttle_override_on (r\<lparr>rc_new_command := b\<rparr>) = throttle_override_on r"
  by (simp_all add: rc_stick_def switch_on_def switch_mapped_def throttle_override_on_def)

lemma rc_run_arms:
  assumes "\<not> is_armed s" "rc_run r now p s = (r', s')" "is_armed s'"
  shows "check_rc_health r (ucast now * 1000) p \<and> rc_stick r' StickF < rc_arm_threshold p
    \<and> (int_param_set p PARAM_RC_OVERRIDE_TAKE_MIN_THROTTLE \<or> throttle_override_on r')
    \<and> (if switch_mapped r' SwitchArm then switch_on r' SwitchArm
       else 1 - rc_arm_threshold p < rc_stick r' StickZ \<and> 1000 < arming_position_ms r')"
proof -
  have c: "\<not> is_armed (sm_event s (ERROR_CLEARED RC_LOST) p)"
    and o: "\<not> is_armed (sm_event s (ERROR_OCCURRED RC_LOST) p)"
    using event_does_not_arm [OF assms(1)] by auto
  have d: "\<not> is_armed (sm_event (sm_event s (ERROR_CLEARED RC_LOST) p) REQUEST_DISARM p)"
    using event_does_not_arm [OF c] by simp
  show ?thesis using assms(2,3) c o d
    by (auto simp: rc_run_def look_for_arm_disarm_signal_def look_for_stick_signal_def
        look_for_switch_signal_def Let_def dest: request_arms_with split: if_splits)
qed


section \<open>Lost link\<close>

lemma lost_event:
  "is_armed s \<Longrightarrow> is_armed (sm_event s (ERROR_OCCURRED RC_LOST) p) \<and> is_in_failsafe (sm_event s (ERROR_OCCURRED RC_LOST) p)"
  "flags_contain (get_errors (sm_event s (ERROR_OCCURRED RC_LOST) p)) RC_LOST"
  by (cases "machine s";
      auto simp: is_armed_def is_in_failsafe_def get_errors_def machine_manager_update sm_update_def on_event_defs
        flags_contain_RC_LOST bit_or_iff RC_LOST_bit)+

text \<open>
  A frame that fails the health check makes an armed vehicle enter failsafe and stay
  armed, raises \<^verbatim>\<open>RC_LOST\<close> in any state, publishes no command and changes no stick and no
  switch.
\<close>

theorem lost_link_enters_failsafe:
  assumes "\<not> check_rc_health r (ucast now * 1000) p" "rc_run r now p s = (r', s')"
  shows "(is_armed s \<longrightarrow> is_armed s' \<and> is_in_failsafe s') \<and> flags_contain (get_errors s') RC_LOST
    \<and> \<not> rc_new_command r' \<and> stick_values r' = stick_values r \<and> switch_values r' = switch_values r"
  using assms lost_event [of s p] by (auto simp: rc_run_def Let_def)

section \<open>Holding the sticks\<close>

lemma saturating_add_ge: "c < b \<Longrightarrow> c < saturating_add (a :: u32) b"
  using uint_lt2p [of b] by (simp add: word_less_def uint_saturating_add uint_ge_0 add_strict_increasing2)

lemma gap_request:
  assumes "\<not> is_armed s" "check_rc_health r (ucast now * 1000) p" "\<not> switch_mapped r SwitchArm"
    and "prev_time_ms r \<le> now" "1000 < now - prev_time_ms r"
    and "rc_stick (process_sticks_and_switches r) StickF < rc_arm_threshold p"
    and "1 - rc_arm_threshold p < rc_stick (process_sticks_and_switches r) StickZ"
  shows "snd (rc_run r now p s) = sm_event (update_arming_safety (sm_event s (ERROR_CLEARED RC_LOST) p) True
      (throttle_override_on (process_sticks_and_switches r))) REQUEST_ARM p"
proof -
  have "\<not> is_armed (sm_event s (ERROR_CLEARED RC_LOST) p)"
    using event_does_not_arm [OF assms(1)] by simp
  moreover have "1000 < saturating_add a (saturating_sub now (prev_time_ms r))" for a
    using assms(4,5) by (intro saturating_add_ge) (simp add: saturating_sub_def)
  moreover have "\<not> switch_mapped (process_sticks_and_switches r) SwitchArm"
    "prev_time_ms (process_sticks_and_switches r) = prev_time_ms r"
    using assms(3) by (simp_all add: switch_mapped_def process_sticks_and_switches_def)
  ultimately show ?thesis using assms(2,6,7)
    by (simp add: rc_run_def look_for_arm_disarm_signal_def look_for_stick_signal_def Let_def)
qed

text \<open>
  Time between two healthy frames counts as time in which the sticks were held: when
  more than 1000 ms have passed since the last healthy frame (or since start-up), the first
  frame with the sticks in the arming position asks to arm, whatever was counted before.
\<close>

theorem gap_counts_as_holding:
  assumes "\<not> is_armed s" "check_rc_health r (ucast now * 1000) p" "\<not> switch_mapped r SwitchArm"
    and "prev_time_ms r \<le> now" "1000 < now - prev_time_ms r"
    and "rc_stick (process_sticks_and_switches r) StickF < rc_arm_threshold p"
    and "1 - rc_arm_threshold p < rc_stick (process_sticks_and_switches r) StickZ"
  shows "snd (rc_run r now p s) = sm_event (update_arming_safety (sm_event s (ERROR_CLEARED RC_LOST) p) True
      (throttle_override_on (process_sticks_and_switches r))) REQUEST_ARM p"
  by (rule gap_request [OF assms])

section \<open>Range of the sticks\<close>

lemma stick_range:
  fixes x :: f32
  assumes "flt_lit (-25) 100 \<le> x" "x \<le> flt_lit 125 100"
  shows "flt_lit (-3) 2 \<le> flt_lit 2 1 * (x - flt_lit 5 10) \<and> flt_lit 2 1 * (x - flt_lit 5 10) \<le> flt_lit 3 2"
proof -
  have f: "is_finite (flt_lit (-25) 100 :: f32)" "is_finite (flt_lit 125 100 :: f32)"
    "is_finite (flt_neg (flt_lit 5 10) :: f32)" "is_finite (flt_lit 2 1 :: f32)"
    "is_finite (flt_lit (-3) 4 :: f32)" "is_finite (flt_lit 3 4 :: f32)"
    "is_finite (flt_lit (-3) 2 :: f32)" "is_finite (flt_lit 3 2 :: f32)"
    by (simp_all add: flt_eval)
  have v: "fval (flt_lit (-25) 100 :: f32) = - (2 ^ 147)" "fval (flt_lit 125 100 :: f32) = 5 * 2 ^ 147"
    "fval (flt_neg (flt_lit 5 10) :: f32) = - (2 ^ 148)" "fval (flt_lit 2 1 :: f32) = 2 ^ 150"
    "fval (flt_lit (-3) 4 :: f32) = - (3 * 2 ^ 147)" "fval (flt_lit 3 4 :: f32) = 3 * 2 ^ 147"
    "fval (flt_lit (-3) 2 :: f32) = - (3 * 2 ^ 148)" "fval (flt_lit 3 2 :: f32) = 3 * 2 ^ 148"
    "ulp_exp TYPE(32) = 149"
    by (simp_all add: flt_eval)
  have x: "is_finite x" using f32.between_finite [OF f(1,2) assms] .
  have bx: "- (2 ^ 147) \<le> fval x" "fval x \<le> 5 * 2 ^ 147"
    using assms f32.le_finite_iff [OF f(1) x] f32.le_finite_iff [OF x f(2)] v by simp_all
  have d: "flt_lit (-3) 4 \<le> x - flt_lit 5 10" "x - flt_lit 5 10 \<le> flt_lit 3 4"
    using f32.add_between [OF x f(3) f(5,6)] bx v by (simp_all add: minus_flt_def plus_flt_def)
  have df: "is_finite (x - flt_lit 5 10)" using f32.between_finite [OF f(5,6) d] .
  have bd: "- (3 * 2 ^ 147) \<le> fval (x - flt_lit 5 10)" "fval (x - flt_lit 5 10) \<le> 3 * 2 ^ 147"
    using d f32.le_finite_iff [OF f(5) df] f32.le_finite_iff [OF df f(6)] v by simp_all
  show ?thesis using f32.mul_between [OF f(4) df f(7,8)] bd v by simp
qed

text \<open>
  The range of the sticks. After a healthy frame, a stick whose channel is one of the
  \<^verbatim>\<open>RC_NUM_CHN\<close> channels the health check covers, and whose channel is not a NaN, lies in
  \<^verbatim>\<open>[-1.5, 1.5]\<close>; a one-sided stick lies in \<^verbatim>\<open>[-0.25, 1.25]\<close>.
\<close>

theorem healthy_sticks_bounded:
  assumes "wf_rc r" "check_rc_health r (ucast now * 1000) p"
    and "0 \<le> sint (st_channel (sticks r ! stick_index k))"
    and "sint (st_channel (sticks r ! stick_index k)) < uint (int_param_or p PARAM_RC_NUM_CHANNELS 6)"
    and "\<not> is_nan (rc_chan (rc_raw r) ! nat (sint (st_channel (sticks r ! stick_index k))))"
  shows "if one_sided (sticks r ! stick_index k)
     then flt_lit (-25) 100 \<le> rc_stick (fst (rc_run r now p s)) k
        \<and> rc_stick (fst (rc_run r now p s)) k \<le> flt_lit 125 100
     else flt_lit (-3) 2 \<le> rc_stick (fst (rc_run r now p s)) k
        \<and> rc_stick (fst (rc_run r now p s)) k \<le> flt_lit 3 2"
proof -
  let ?c = "nat (sint (st_channel (sticks r ! stick_index k)))" and ?n = "unat (int_param_or p PARAM_RC_NUM_CHANNELS 6)"
  let ?x = "rc_chan (rc_raw r) ! ?c"
  have c: "?c < ?n" using assms(3,4) by (simp add: nat_less_iff)
  have n: "?n \<le> rc_num_channels (rc_raw r)" "list_all (\<lambda>v. \<not> (v < flt_lit (-25) 100 \<or> flt_lit 125 100 < v)) (take ?n (rc_chan (rc_raw r)))"
    using assms(2) by (auto simp: check_rc_health_def Let_def list_ex_iff list_all_iff split: if_splits)
  have l: "?n \<le> length (rc_chan (rc_raw r))" using n(1) assms(1) by (simp add: wf_rc_def)
  have v: "\<not> ?x < flt_lit (-25) 100" "\<not> flt_lit 125 100 < ?x"
    using n(2) [unfolded list_all_length, rule_format, of ?c] c l by simp_all
  have nn: "\<not> is_nan (flt_lit (-25) 100 :: f32)" "\<not> is_nan (flt_lit 125 100 :: f32)" by (simp_all add: flt_eval)
  have b: "flt_lit (-25) 100 \<le> ?x" "?x \<le> flt_lit 125 100"
    using v f32.not_less_le [OF assms(5) nn(1)] f32.not_less_le [OF nn(2) assms(5)] by simp_all
  have k: "stick_index k < 4" by (cases k) simp_all
  have run: "rc_stick (fst (rc_run r now p s)) k = stick_value r (stick_index k)"
  proof -
    have "rc_stick (fst (look_for_arm_disarm_signal q now p t)) k = rc_stick q k" for q t
      by (simp add: look_for_arm_disarm_signal_def look_for_stick_signal_def Let_def)
    then show ?thesis using assms(2) k
      by (simp add: rc_run_def Let_def rc_stick_def process_sticks_and_switches_def STICKS_COUNT_def)
  qed
  have "channel_in_frame r (st_channel (sticks r ! stick_index k))"
    using assms(3) c n(1) by (simp add: channel_in_frame_def)
  then have "stick_value r (stick_index k) = (if one_sided (sticks r ! stick_index k) then ?x
      else flt_lit 2 1 * (?x - flt_lit 5 10))"
    by (simp add: stick_value_def Let_def)
  then show ?thesis using b stick_range [OF b] by (simp add: run)
qed

section \<open>Witnesses\<close>

text \<open>
  A receiver with the throttle on channel 0 and the yaw stick on channel 1, both in the
  arming position, in the first frame after start-up, five seconds later.
\<close>

definition arming_params :: params where
  "arming_params = set_by_id (set_by_id (set_by_id zero_params PARAM_RC_Z_CHANNEL (PInt 1))
     PARAM_RC_OVERRIDE_TAKE_MIN_THROTTLE (PInt 1)) PARAM_RC_NUM_CHANNELS (PInt 2)"

definition arming_packet :: rc_packet where
  "arming_packet = \<lparr>rcp_header = \<lparr>ph_timestamp = 5000000, ph_status = 0\<rparr>, n_chan = 2,
     rcp_chan = [0, 1] @ replicate 22 0, lol = False\<rparr>"

definition arming_rc :: rc where
  "arming_rc = rc_receive (rc_init rc_new arming_params) arming_packet"

definition idle_manager :: state_manager where
  "idle_manager = \<lparr>machine = Preflight 0, safety = \<lparr>rc_throttle_low = False, rc_throttle_override_switch_on = False\<rparr>\<rparr>"

lemma wf_arming_packet: "wf_rc_packet arming_packet"
  by (simp add: wf_rc_packet_def arming_packet_def RC_PACKET_CHANNELS_def)

lemma wf_arming_rc: "wf_rc arming_rc"
  unfolding arming_rc_def by (intro wf_rc_receive wf_rc_init wf_rc_new wf_arming_packet)

lemma arming_raw: "rc_raw arming_rc = \<lparr>rc_header = \<lparr>ph_timestamp = 5000000, ph_status = 0\<rparr>,
    rc_chan = [0, 1] @ replicate 14 0, rc_num_channels = 2, frame_lost = False, failsafe_activated = False\<rparr>"
  by (simp add: arming_rc_def rc_receive_def arming_packet_def rc_init_def update_switch_mappings_def init_sticks_def
      rc_new_def rc_struct_default_def RC_STRUCT_CHANNELS_def Let_def)

lemma arming_param_values: "int_param_or arming_params PARAM_RC_NUM_CHANNELS 6 = 2"
  "int_param_or arming_params PARAM_RC_X_CHANNEL 0 = 0" "int_param_or arming_params PARAM_RC_Y_CHANNEL 1 = 0"
  "int_param_or arming_params PARAM_RC_Z_CHANNEL 3 = 1" "int_param_or arming_params PARAM_RC_F_CHANNEL 2 = 0"
  "int_param_or arming_params PARAM_RC_ARM_CHANNEL 255 = 0"
  "rc_arm_threshold arming_params = flt_lit 15 100"
  "\<not> int_param_set arming_params PARAM_CALIBRATE_GYRO_ON_ARM"
  "int_param_set arming_params PARAM_RC_OVERRIDE_TAKE_MIN_THROTTLE"
  by (simp_all add: arming_params_def int_param_or_def rc_arm_threshold_def float_param_or_def int_param_set_def
      get_by_id_def set_by_id_def zero_params_def)

lemma arming_healthy: "check_rc_health arming_rc (ucast (5000 :: u32) * 1000) arming_params"
proof -
  have z: "\<not> (0 :: f32) < flt_lit (-25) 100" "\<not> flt_lit 125 100 < (0 :: f32)"
    "\<not> (1 :: f32) < flt_lit (-25) 100" "\<not> flt_lit 125 100 < (1 :: f32)" by (simp_all add: flt_eval)
  show ?thesis
    by (simp add: check_rc_health_def Let_def arming_raw arming_param_values z RC_TIMEOUT_US_def)
qed

lemma arming_sticks: "sticks arming_rc = [\<lparr>st_channel = 0, one_sided = False\<rparr>, \<lparr>st_channel = 0, one_sided = False\<rparr>,
    \<lparr>st_channel = 1, one_sided = False\<rparr>, \<lparr>st_channel = 0, one_sided = True\<rparr>]"
  by (simp add: arming_rc_def rc_receive_def Let_def rc_init_def update_switch_mappings_def init_sticks_def arming_param_values)

lemma arming_rest: "\<not> switch_mapped arming_rc SwitchArm" "prev_time_ms arming_rc = 0" "arming_position_ms arming_rc = 0"
  by (simp_all add: arming_rc_def rc_receive_def Let_def rc_init_def update_switch_mappings_def init_sticks_def
      switch_mapped_def switch_config_for_def switch_channel_param_def SWITCHES_COUNT_def arming_param_values rc_new_def)

lemma arming_stick_values: "rc_stick (process_sticks_and_switches arming_rc) StickF = 0"
  "rc_stick (process_sticks_and_switches arming_rc) StickZ = flt_lit 2 1 * (1 - flt_lit 5 10)"
  by (simp_all add: rc_stick_def process_sticks_and_switches_def STICKS_COUNT_def stick_value_def Let_def
      arming_sticks channel_in_frame_def arming_raw)

lemma arming_position: "rc_stick (process_sticks_and_switches arming_rc) StickF < rc_arm_threshold arming_params"
  "1 - rc_arm_threshold arming_params < rc_stick (process_sticks_and_switches arming_rc) StickZ"
proof -
  have "(0 :: f32) < flt_lit 15 100" "1 - flt_lit 15 100 < flt_lit 2 1 * (1 - flt_lit 5 10 :: f32)"
    by (simp_all add: flt_eval)
  then show "rc_stick (process_sticks_and_switches arming_rc) StickF < rc_arm_threshold arming_params"
    "1 - rc_arm_threshold arming_params < rc_stick (process_sticks_and_switches arming_rc) StickZ"
    by (simp_all add: arming_stick_values arming_param_values)
qed

lemma idle_not_armed: "\<not> is_armed idle_manager" by (simp add: idle_manager_def is_armed_def)

theorem rc_stays_well_formed_witness: "wf_rc (rc_receive (rc_init rc_new arming_params) arming_packet)"
  using rc_stays_well_formed [OF wf_rc_init [OF wf_rc_new] wf_arming_packet] by simp

lemma idle_arms: "is_armed (sm_event (update_arming_safety (sm_event idle_manager (ERROR_CLEARED RC_LOST) arming_params)
    True on) REQUEST_ARM arming_params)"
  by (simp add: idle_manager_def manager_update_def sm_update_def arming_attempt_can_transition_def
      arming_safety_allows_arm_def update_arming_safety_def arm_from_preflight_def arming_param_values is_armed_def)

lemma arming_run_arms: "is_armed (snd (rc_run arming_rc 5000 arming_params idle_manager))"
proof -
  have "snd (rc_run arming_rc 5000 arming_params idle_manager)
      = sm_event (update_arming_safety (sm_event idle_manager (ERROR_CLEARED RC_LOST) arming_params) True
      (throttle_override_on (process_sticks_and_switches arming_rc))) REQUEST_ARM arming_params"
    using arming_rest arming_position arming_healthy idle_not_armed by (intro gap_request) simp_all
  then show ?thesis by (simp add: idle_arms)
qed

theorem gap_counts_as_holding_witness:
  "is_armed (snd (rc_run arming_rc 5000 arming_params idle_manager))"
proof -
  have "snd (rc_run arming_rc 5000 arming_params idle_manager)
      = sm_event (update_arming_safety (sm_event idle_manager (ERROR_CLEARED RC_LOST) arming_params) True
      (throttle_override_on (process_sticks_and_switches arming_rc))) REQUEST_ARM arming_params"
    using arming_rest arming_position arming_healthy idle_not_armed by (intro gap_counts_as_holding) simp_all
  then show ?thesis by (simp add: idle_arms)
qed


definition lost_packet :: rc_packet where
  "lost_packet = arming_packet\<lparr>lol := True\<rparr>"

theorem lost_link_enters_failsafe_witness:
  "is_in_failsafe (snd (rc_run (rc_receive arming_rc lost_packet) 5001 arming_params armed_manager))"
proof -
  have "\<not> check_rc_health (rc_receive arming_rc lost_packet) (ucast (5001 :: u32) * 1000) arming_params"
    by (simp add: check_rc_health_def rc_receive_def lost_packet_def Let_def)
  from lost_link_enters_failsafe [OF this surjective_pairing] show ?thesis
    using ready_manager_arms(1) by (simp add: armed_manager_def)
qed

theorem healthy_sticks_bounded_witness:
  "rc_stick (fst (rc_run arming_rc 5000 arming_params idle_manager)) StickZ \<le> flt_lit 3 2"
proof -
  have "\<not> is_nan (1 :: f32)" by (simp add: flt_eval)
  then show ?thesis
    using healthy_sticks_bounded [OF wf_arming_rc arming_healthy, of StickZ idle_manager]
    by (simp add: arming_sticks arming_param_values arming_raw)
qed

end
