(* ===== verification/Command.thy ===== *)
theory Command
  imports Override_Bits Rc
begin

text \<open>
  The command manager of \<^verbatim>\<open>command.rs\<close>: the RC, offboard and failsafe commands, the
  lockout that keeps the attitude in rate mode while the estimator is unhealthy, the
  interpretation of the sticks, and the muxing of RC and offboard commands with the mask
  that says which source each axis takes. The log calls of the lockout machine are the
  records its steps return; the other calls of the state machine keep only its new state.
\<close>

section \<open>Commands\<close>

datatype control_type = CtRate | CtAngle | CtThrottle | CtPassthrough

definition ATTITUDE_RATE_MODE :: i32 where "ATTITUDE_RATE_MODE = 0"

record control_channel =
  active :: bool
  control_type :: control_type
  chan_value :: f32

definition control_channel_default :: control_channel where
  "control_channel_default = \<lparr>active = False, control_type = CtRate, chan_value = 0\<rparr>"

record combined_control =
  stamp_ms :: u32
  cc_qx :: control_channel
  cc_qy :: control_channel
  cc_qz :: control_channel
  cc_fx :: control_channel
  cc_fy :: control_channel
  cc_fz :: control_channel
  passthrough :: "control_channel list"

definition combined_control_default :: combined_control where
  "combined_control_default = \<lparr>stamp_ms = 0, cc_qx = control_channel_default,
     cc_qy = control_channel_default, cc_qz = control_channel_default,
     cc_fx = control_channel_default, cc_fy = control_channel_default,
     cc_fz = control_channel_default, passthrough = replicate 4 control_channel_default\<rparr>"

section \<open>The angle mode lockout\<close>

datatype lockout_state = LockInactive
  | SwitchResetRequired (estimator_recovered: bool) (rate_wait_logged: bool)
  | ParamRateUntilExplicitAngle

record lockout_machine =
  lock_state :: lockout_state
  denial_active :: bool

record lockout_input =
  li_fixed_wing :: bool
  li_estimator_unhealthy :: bool
  li_offboard_angle_requested :: bool
  li_rc_angle_requested :: bool
  li_rc_attitude_source_requested :: bool
  li_att_type_switch_mapped :: bool
  li_att_type_switch_rate :: bool
  li_param_mode_rate :: bool

record lockout_output =
  force_rc_attitude :: bool
  force_rc_rate :: bool
  force_param_rate :: bool

definition lockout_output_default :: lockout_output where
  "lockout_output_default = \<lparr>force_rc_attitude = False, force_rc_rate = False, force_param_rate = False\<rparr>"

definition lockout_default :: lockout_machine where
  "lockout_default = \<lparr>lock_state = LockInactive, denial_active = False\<rparr>"

definition lockout_reset :: "lockout_machine \<Rightarrow> lockout_machine" where
  "lockout_reset m = m\<lparr>lock_state := LockInactive, denial_active := False\<rparr>"

definition log_recovered :: log_msg where
  "log_recovered = (LogInfo, ''Firmware Lockout: Estimator healthy: angle mode can be re-enabled'')"

definition lockout_advance :: "lockout_machine \<Rightarrow> lockout_input \<Rightarrow> lockout_machine \<times> log_msg list" where
  "lockout_advance m i = (case lock_state m of
     LockInactive \<Rightarrow> (m, [])
   | SwitchResetRequired was_recovered wait_logged \<Rightarrow>
      (let recovered = was_recovered \<or> \<not> li_estimator_unhealthy i in
       if recovered \<and> li_att_type_switch_rate i then
         (m\<lparr>lock_state := LockInactive\<rparr>, if \<not> was_recovered then [log_recovered] else [])
       else
         (m\<lparr>lock_state := SwitchResetRequired recovered
              (wait_logged \<or> li_att_type_switch_rate i \<and> \<not> recovered)\<rparr>,
          (if \<not> was_recovered \<and> recovered then [log_recovered] else [])
          @ (if li_att_type_switch_rate i \<and> \<not> recovered \<and> \<not> wait_logged
             then [(LogInfo, ''Firmware Lockout: Angle mode switch will be available once estimator reacquires'')]
             else [])))
   | ParamRateUntilExplicitAngle \<Rightarrow>
      if \<not> li_estimator_unhealthy i \<and> li_param_mode_rate i
      then (m\<lparr>lock_state := LockInactive\<rparr>, [log_recovered]) else (m, []))"

definition is_switch_reset :: "lockout_state \<Rightarrow> bool" where
  "is_switch_reset s = (case s of SwitchResetRequired _ _ \<Rightarrow> True | _ \<Rightarrow> False)"

definition lockout_enter :: "lockout_machine \<Rightarrow> lockout_input \<Rightarrow> lockout_machine \<times> log_msg list" where
  "lockout_enter m i =
    (if denial_active m then (m, [])
     else let m1 = m\<lparr>denial_active := True\<rparr>;
              l1 = [(LogError, ''Firmware Lockout: Unhealthy estimator: forced RC rate mode'')]
     in if li_att_type_switch_mapped i then
       (if \<not> is_switch_reset (lock_state m1) then m1\<lparr>lock_state := SwitchResetRequired False False\<rparr> else m1,
        l1 @ [(LogError, ''Firmware Lockout: Move RC attitude switch to rate before angle mode can be re-enabled'')])
     else (m1\<lparr>lock_state := ParamRateUntilExplicitAngle\<rparr>,
        l1 @ (if \<not> li_param_mode_rate i then
          [(LogError, ''Firmware Lockout: RC_ATT_MODE set to rate; set RC_ATT_MODE to angle after estimator recovery to re-enable angle mode'')]
          else [])))"

definition unsafe_angle_requested :: "lockout_input \<Rightarrow> bool" where
  "unsafe_angle_requested i \<longleftrightarrow> li_estimator_unhealthy i \<and>
    (li_offboard_angle_requested i \<or> li_rc_attitude_source_requested i \<and> li_rc_angle_requested i)"

definition lockout_step :: "lockout_machine \<Rightarrow> lockout_input \<Rightarrow> (lockout_output \<times> lockout_machine) \<times> log_msg list" where
  "lockout_step m i =
    (if li_fixed_wing i then ((lockout_output_default, lockout_reset m), [])
     else let (m1, l1) = lockout_advance m i;
              lockout_active = (lock_state m1 \<noteq> LockInactive);
              angle = unsafe_angle_requested i;
              (m2, l2) = (if angle then lockout_enter m1 i else (m1\<lparr>denial_active := False\<rparr>, []))
     in ((\<lparr>force_rc_attitude = (li_estimator_unhealthy i \<and> li_offboard_angle_requested i),
           force_rc_rate = (lockout_active \<or> angle),
           force_param_rate = (\<not> li_att_type_switch_mapped i \<and> angle \<and> \<not> li_param_mode_rate i)\<rparr>, m2),
         l1 @ l2))"

section \<open>The manager\<close>

record command_manager =
  rc_command :: combined_control
  offboard_command :: combined_control
  combined_command :: combined_control
  multirotor_failsafe_command :: combined_control
  fixedwing_failsafe_command :: combined_control
  last_offboard_command_us :: u64
  last_stick_override_time :: "u32 list"
  rc_throttle_override :: bool
  rc_attitude_override :: bool
  cm_rc_override :: u16
  rc_angle_mode_lockout :: lockout_machine

definition failsafe_channel :: "control_type \<Rightarrow> control_channel" where
  "failsafe_channel t = \<lparr>active = True, control_type = t, chan_value = 0\<rparr>"

definition command_manager_new :: command_manager where
  "command_manager_new = \<lparr>rc_command = combined_control_default,
     offboard_command = combined_control_default, combined_command = combined_control_default,
     multirotor_failsafe_command = combined_control_default\<lparr>
       cc_qx := failsafe_channel CtAngle, cc_qy := failsafe_channel CtAngle,
       cc_qz := failsafe_channel CtRate, cc_fx := failsafe_channel CtThrottle,
       cc_fy := failsafe_channel CtThrottle, cc_fz := failsafe_channel CtThrottle\<rparr>,
     fixedwing_failsafe_command = combined_control_default\<lparr>
       cc_qx := failsafe_channel CtPassthrough, cc_qy := failsafe_channel CtPassthrough,
       cc_qz := failsafe_channel CtPassthrough, cc_fx := failsafe_channel CtPassthrough,
       cc_fy := failsafe_channel CtPassthrough, cc_fz := failsafe_channel CtPassthrough\<rparr>,
     last_offboard_command_us = 0, last_stick_override_time = [0, 0, 0],
     rc_throttle_override = False, rc_attitude_override = False, cm_rc_override = 0,
     rc_angle_mode_lockout = lockout_default\<rparr>"

definition with_value :: "control_channel \<Rightarrow> f32 \<Rightarrow> control_channel" where
  "with_value c v = c\<lparr>chan_value := v\<rparr>"

definition with_type :: "control_channel \<Rightarrow> control_type \<Rightarrow> control_channel" where
  "with_type c t = c\<lparr>control_type := t\<rparr>"

definition with_active :: "control_channel \<Rightarrow> bool \<Rightarrow> control_channel" where
  "with_active c a = c\<lparr>active := a\<rparr>"

text \<open>\<^verbatim>\<open>PARAM_RC_F_AXIS\<close> as the two matches read it: 0 is x, 1 is y, all else (any other
  type included) is z.\<close>

definition set_f_values :: "params \<Rightarrow> combined_control \<Rightarrow> f32 \<Rightarrow> combined_control" where
  "set_f_values p c v =
    (let axis = int_param_or p PARAM_RC_F_AXIS 2 in
     c\<lparr>cc_fx := with_value (cc_fx c) (if axis = 0 then v else 0),
       cc_fy := with_value (cc_fy c) (if axis = 1 then v else 0),
       cc_fz := with_value (cc_fz c) (if axis \<noteq> 0 \<and> axis \<noteq> 1 then v else 0)\<rparr>)"

definition is_fixed_wing :: "params \<Rightarrow> bool" where
  "is_fixed_wing p = int_param_set p PARAM_FIXED_WING"

definition update_failsafe_config :: "command_manager \<Rightarrow> params \<Rightarrow> state_manager \<Rightarrow> command_manager \<times> state_manager" where
  "update_failsafe_config cm p s =
    (let throttle = float_param_or p PARAM_FAILSAFE_THROTTLE 0;
         bad = (\<not> is_fixed_wing p \<and> (throttle < 0 \<or> 1 < throttle));
         s' = (if bad then sm_event s (ERROR_OCCURRED INVALID_FAILSAFE) p
               else sm_event s (ERROR_CLEARED INVALID_FAILSAFE) p);
         v = (if bad then 0 else throttle);
         fw = fixedwing_failsafe_command cm
     in (cm\<lparr>multirotor_failsafe_command := set_f_values p (multirotor_failsafe_command cm) v,
          fixedwing_failsafe_command := fw\<lparr>cc_fx := with_value (cc_fx fw) 0,
            cc_fy := with_value (cc_fy fw) 0, cc_fz := with_value (cc_fz fw) 0\<rparr>\<rparr>, s'))"

definition command_init :: "command_manager \<Rightarrow> params \<Rightarrow> state_manager \<Rightarrow> command_manager \<times> state_manager" where
  "command_init cm p s = update_failsafe_config cm p s"

section \<open>Offboard commands\<close>

definition deactivate_all :: "combined_control \<Rightarrow> combined_control" where
  "deactivate_all c = c\<lparr>cc_qx := with_active (cc_qx c) False, cc_qy := with_active (cc_qy c) False,
     cc_qz := with_active (cc_qz c) False, cc_fx := with_active (cc_fx c) False,
     cc_fy := with_active (cc_fy c) False, cc_fz := with_active (cc_fz c) False,
     passthrough := map (\<lambda>ch. with_active ch False) (passthrough c)\<rparr>"

definition offboard_timeout_us :: "params \<Rightarrow> u64" where
  "offboard_timeout_us p = ucast (int_param_or p PARAM_OFFBOARD_TIMEOUT 100) * 1000"

definition update_offboard_timeout :: "command_manager \<Rightarrow> u64 \<Rightarrow> params \<Rightarrow> command_manager" where
  "update_offboard_timeout cm now_us p =
    (if now_us \<le> last_offboard_command_us cm + offboard_timeout_us p then cm
     else cm\<lparr>offboard_command := deactivate_all (offboard_command cm)\<rparr>)"

definition ignores :: "offboard_control_msg \<Rightarrow> offboard_control_ignore \<Rightarrow> bool" where
  "ignores msg f = (oc_ignore msg AND f = f)"

definition set_control_types :: "control_type \<Rightarrow> control_type \<Rightarrow> control_type \<Rightarrow> control_type
    \<Rightarrow> combined_control \<Rightarrow> combined_control" where
  "set_control_types x y z f c = c\<lparr>cc_qx := with_type (cc_qx c) x, cc_qy := with_type (cc_qy c) y,
     cc_qz := with_type (cc_qz c) z, cc_fx := with_type (cc_fx c) f, cc_fy := with_type (cc_fy c) f,
     cc_fz := with_type (cc_fz c) f\<rparr>"

definition set_offboard_values :: "offboard_control_msg \<Rightarrow> combined_control \<Rightarrow> combined_control" where
  "set_offboard_values msg c = c\<lparr>cc_qx := with_value (cc_qx c) (oc_qx msg),
     cc_qy := with_value (cc_qy c) (oc_qy msg), cc_qz := with_value (cc_qz c) (oc_qz msg),
     cc_fx := with_value (cc_fx c) (oc_fx msg), cc_fy := with_value (cc_fy c) (oc_fy msg),
     cc_fz := with_value (cc_fz c) (oc_fz msg),
     passthrough := map (\<lambda>(ch, v). with_type (with_value ch v) CtPassthrough)
       (zip (passthrough c) (oc_passthrough msg))
       @ drop (length (oc_passthrough msg)) (passthrough c)\<rparr>"

definition set_offboard_active :: "offboard_control_msg \<Rightarrow> combined_control \<Rightarrow> combined_control" where
  "set_offboard_active msg c = c\<lparr>cc_qx := with_active (cc_qx c) (\<not> ignores msg IGNORE_QX),
     cc_qy := with_active (cc_qy c) (\<not> ignores msg IGNORE_QY),
     cc_qz := with_active (cc_qz c) (\<not> ignores msg IGNORE_QZ),
     cc_fx := with_active (cc_fx c) (\<not> ignores msg IGNORE_FX),
     cc_fy := with_active (cc_fy c) (\<not> ignores msg IGNORE_FY),
     cc_fz := with_active (cc_fz c) (\<not> ignores msg IGNORE_FZ),
     passthrough := (passthrough c)[0 := with_active (passthrough c ! 0) (\<not> ignores msg IGNORE_PASS_0),
       1 := with_active (passthrough c ! 1) (\<not> ignores msg IGNORE_PASS_1),
       2 := with_active (passthrough c ! 2) (\<not> ignores msg IGNORE_PASS_2),
       3 := with_active (passthrough c ! 3) (\<not> ignores msg IGNORE_PASS_3)]\<rparr>"

fun set_offboard_mode :: "offboard_control_mode \<Rightarrow> combined_control \<Rightarrow> combined_control" where
  "set_offboard_mode ModePassThrough c =
     set_control_types CtPassthrough CtPassthrough CtPassthrough CtPassthrough c"
| "set_offboard_mode ModeRollratePitchrateYawrateThrottle c =
     set_control_types CtRate CtRate CtRate CtThrottle c"
| "set_offboard_mode ModeRollPitchYawrateThrottle c =
     set_control_types CtAngle CtAngle CtRate CtThrottle c"

definition set_new_offboard_command :: "command_manager \<Rightarrow> u64 \<Rightarrow> offboard_control_msg \<Rightarrow> command_manager" where
  "set_new_offboard_command cm now_us msg =
    cm\<lparr>last_offboard_command_us := now_us,
      offboard_command := set_offboard_mode (oc_mode msg) (set_offboard_active msg
        (set_offboard_values msg ((offboard_command cm)\<lparr>stamp_ms := ucast (now_us div 1000)\<rparr>)))\<rparr>"

section \<open>Interpretation of the sticks\<close>

definition rc_attitude_mode :: "params \<Rightarrow> i32" where
  "rc_attitude_mode p = int_param_or p PARAM_RC_ATTITUDE_MODE 200"

definition roll_pitch_type :: "rc \<Rightarrow> params \<Rightarrow> control_type option \<Rightarrow> control_type" where
  "roll_pitch_type r p forced = (case forced of
     Some t \<Rightarrow> t
   | None \<Rightarrow>
      if switch_mapped r SwitchAttType then
        (if switch_on r SwitchAttType then CtAngle else CtRate)
      else if rc_attitude_mode p = ATTITUDE_RATE_MODE then CtRate else CtAngle)"

definition scale_value :: "control_channel \<Rightarrow> f32 \<Rightarrow> control_channel" where
  "scale_value c k = c\<lparr>chan_value := chan_value c * k\<rparr>"

definition scale_roll_pitch :: "control_type \<Rightarrow> params \<Rightarrow> combined_control \<Rightarrow> combined_control" where
  "scale_roll_pitch t p c = (case t of
     CtRate \<Rightarrow> c\<lparr>cc_qx := scale_value (cc_qx c) (float_param_or p PARAM_RC_MAX_ROLLRATE 1),
       cc_qy := scale_value (cc_qy c) (float_param_or p PARAM_RC_MAX_PITCHRATE 1)\<rparr>
   | CtAngle \<Rightarrow> c\<lparr>cc_qx := scale_value (cc_qx c) (float_param_or p PARAM_RC_MAX_ROLL 1),
       cc_qy := scale_value (cc_qy c) (float_param_or p PARAM_RC_MAX_PITCH 1)\<rparr>
   | _ \<Rightarrow> c)"

definition activate_all :: "combined_control \<Rightarrow> combined_control" where
  "activate_all c = c\<lparr>cc_qx := with_active (cc_qx c) True, cc_qy := with_active (cc_qy c) True,
     cc_qz := with_active (cc_qz c) True, cc_fx := with_active (cc_fx c) True,
     cc_fy := with_active (cc_fy c) True, cc_fz := with_active (cc_fz c) True\<rparr>"

definition interpret_rc :: "command_manager \<Rightarrow> rc \<Rightarrow> params \<Rightarrow> control_type option \<Rightarrow> command_manager" where
  "interpret_rc cm r p forced =
    (let c0 = rc_command cm;
         c1 = c0\<lparr>cc_qx := with_value (cc_qx c0) (rc_stick r StickX),
           cc_qy := with_value (cc_qy c0) (rc_stick r StickY),
           cc_qz := with_value (cc_qz c0) (rc_stick r StickZ)\<rparr>;
         c2 = activate_all (set_f_values p c1 (rc_stick r StickF))
     in if is_fixed_wing p then
       cm\<lparr>rc_command := set_control_types CtPassthrough CtPassthrough CtPassthrough CtPassthrough c2\<rparr>
     else let t = roll_pitch_type r p forced;
              c3 = scale_roll_pitch t p (set_control_types t t CtRate CtThrottle c2)
     in cm\<lparr>rc_command := c3\<lparr>cc_qz := scale_value (cc_qz c3) (float_param_or p PARAM_RC_MAX_YAWRATE 1)\<rparr>\<rparr>)"

section \<open>Muxing\<close>

definition attitude_stick_deviated :: "command_manager \<Rightarrow> rc \<Rightarrow> stick \<Rightarrow> f32 \<Rightarrow> u32 \<Rightarrow> u32 \<Rightarrow> bool \<times> command_manager" where
  "attitude_stick_deviated cm r k deviation lag_time_ms now_ms =
    (if now_ms < saturating_add (last_stick_override_time cm ! stick_index k) lag_time_ms then (True, cm)
     else if \<bar>rc_stick r k\<bar> \<le> deviation then (False, cm)
     else (True, cm\<lparr>last_stick_override_time := (last_stick_override_time cm)[stick_index k := now_ms]\<rparr>))"

definition att_override_on :: "rc \<Rightarrow> bool" where
  "att_override_on r \<longleftrightarrow> switch_mapped r SwitchAttOverride \<and> switch_on r SwitchAttOverride"

definition when_bit :: "bool \<Rightarrow> u16 \<Rightarrow> u16" where
  "when_bit b m = (if b then m else 0)"

text \<open>
  The source updates the mask and the combined command axis by axis; the deviation of the
  sticks changes only \<^verbatim>\<open>last_stick_override_time\<close>, so the three deviations are taken first.
\<close>

definition do_attitude_muxing :: "command_manager \<Rightarrow> params \<Rightarrow> rc \<Rightarrow> u32 \<Rightarrow> bool \<Rightarrow> u16 \<times> command_manager" where
  "do_attitude_muxing cm p r now_ms force =
    (let deviation = float_param_or p PARAM_RC_OVERRIDE_DEVIATION (flt_lit 1 10);
         lag = int_param_or p PARAM_OVERRIDE_LAG_TIME 200;
         sw = att_override_on r;
         (x, cm1) = attitude_stick_deviated cm r StickX deviation lag now_ms;
         (y, cm2) = attitude_stick_deviated cm1 r StickY deviation lag now_ms;
         (z, cm3) = attitude_stick_deviated cm2 r StickZ deviation lag now_ms;
         off = offboard_command cm; rcc = rc_command cm;
         mask = when_bit (sw \<or> force) OVERRIDE_ATT_SWITCH
           OR when_bit x OVERRIDE_X OR when_bit (\<not> active (cc_qx off)) OVERRIDE_OFFBOARD_X_INACTIVE
           OR when_bit y OVERRIDE_Y OR when_bit (\<not> active (cc_qy off)) OVERRIDE_OFFBOARD_Y_INACTIVE
           OR when_bit z OVERRIDE_Z OR when_bit (\<not> active (cc_qz off)) OVERRIDE_OFFBOARD_Z_INACTIVE
     in (mask, cm3\<lparr>combined_command := (combined_command cm3)\<lparr>
       cc_qx := (if force \<or> sw \<or> x \<or> \<not> active (cc_qx off) then cc_qx rcc else cc_qx off),
       cc_qy := (if force \<or> sw \<or> y \<or> \<not> active (cc_qy off) then cc_qy rcc else cc_qy off),
       cc_qz := (if sw \<or> z \<or> \<not> active (cc_qz off) then cc_qz rcc else cc_qz off)\<rparr>\<rparr>))"

definition throttle_sources :: "command_manager \<Rightarrow> params \<Rightarrow> f32 \<times> control_channel" where
  "throttle_sources cm p =
    (let axis = int_param_or p PARAM_RC_F_AXIS 200; rcc = rc_command cm; off = offboard_command cm in
     if axis = 0 then (chan_value (cc_fx rcc), cc_fx off)
     else if axis = 1 then (chan_value (cc_fy rcc), cc_fy off)
     else (chan_value (cc_fz rcc), cc_fz off))"

definition throttle_take_min :: "params \<Rightarrow> bool" where
  "throttle_take_min p = (case get_by_id p PARAM_RC_OVERRIDE_TAKE_MIN_THROTTLE of PInt v \<Rightarrow> v \<noteq> 0 | _ \<Rightarrow> True)"

definition do_throttle_muxing :: "command_manager \<Rightarrow> params \<Rightarrow> rc \<Rightarrow> u16 \<times> command_manager" where
  "do_throttle_muxing cm p r =
    (let (rc_throttle, off_channel) = throttle_sources cm p;
         mask = when_bit (throttle_override_on r) OVERRIDE_THR_SWITCH
           OR (if active off_channel
               then when_bit (throttle_take_min p \<and> rc_throttle < chan_value off_channel) OVERRIDE_T
               else OVERRIDE_OFFBOARD_T_INACTIVE);
         src = (if mask \<noteq> OVERRIDE_NO_OVERRIDE then rc_command cm else offboard_command cm)
     in (mask, cm\<lparr>combined_command := (combined_command cm)\<lparr>
       cc_fx := cc_fx src, cc_fy := cc_fy src, cc_fz := cc_fz src\<rparr>\<rparr>))"

definition do_muxing :: "command_manager \<Rightarrow> params \<Rightarrow> rc \<Rightarrow> u32 \<Rightarrow> bool \<Rightarrow> command_manager" where
  "do_muxing cm p r now_ms force =
    (let (att, cm1) = do_attitude_muxing cm p r now_ms force;
         (thr, cm2) = do_throttle_muxing cm1 p r
     in cm2\<lparr>cm_rc_override := att OR thr, rc_attitude_override := (att \<noteq> OVERRIDE_NO_OVERRIDE),
       rc_throttle_override := (thr \<noteq> OVERRIDE_NO_OVERRIDE),
       combined_command := (combined_command cm2)\<lparr>passthrough := passthrough (offboard_command cm2)\<rparr>\<rparr>)"

section \<open>The estimator lockout in the manager\<close>

definition offboard_angle_requested :: "command_manager \<Rightarrow> bool" where
  "offboard_angle_requested cm \<longleftrightarrow>
    active (cc_qx (offboard_command cm)) \<and> control_type (cc_qx (offboard_command cm)) = CtAngle
    \<or> active (cc_qy (offboard_command cm)) \<and> control_type (cc_qy (offboard_command cm)) = CtAngle"

definition rc_attitude_source_requested :: "command_manager \<Rightarrow> rc \<Rightarrow> bool" where
  "rc_attitude_source_requested cm r \<longleftrightarrow> att_override_on r
    \<or> \<not> active (cc_qx (offboard_command cm)) \<or> \<not> active (cc_qy (offboard_command cm))"

definition param_rc_attitude_mode_is_rate :: "params \<Rightarrow> bool" where
  "param_rc_attitude_mode_is_rate p = (case get_by_id p PARAM_RC_ATTITUDE_MODE of
     PInt v \<Rightarrow> v = ATTITUDE_RATE_MODE | _ \<Rightarrow> False)"

definition rc_angle_mode_selected :: "params \<Rightarrow> rc \<Rightarrow> bool" where
  "rc_angle_mode_selected p r =
    (if switch_mapped r SwitchAttType then switch_on r SwitchAttType
     else \<not> param_rc_attitude_mode_is_rate p)"

definition estimator_angle_lockout_enabled :: "params \<Rightarrow> bool" where
  "estimator_angle_lockout_enabled p = int_param_set p PARAM_EST_ANGLE_LOCKOUT"

definition lockout_input_of :: "command_manager \<Rightarrow> params \<Rightarrow> rc \<Rightarrow> state_manager \<Rightarrow> lockout_input" where
  "lockout_input_of cm p r s = \<lparr>li_fixed_wing = is_fixed_wing p,
     li_estimator_unhealthy = flags_contain (get_errors s) UNHEALTHY_ESTIMATOR,
     li_offboard_angle_requested = offboard_angle_requested cm,
     li_rc_angle_requested = rc_angle_mode_selected p r,
     li_rc_attitude_source_requested = rc_attitude_source_requested cm r,
     li_att_type_switch_mapped = switch_mapped r SwitchAttType,
     li_att_type_switch_rate = (\<not> switch_on r SwitchAttType),
     li_param_mode_rate = param_rc_attitude_mode_is_rate p\<rparr>"

definition estimator_mode_safety :: "command_manager \<Rightarrow> params \<Rightarrow> rc \<Rightarrow> state_manager \<Rightarrow> lockout_output \<times> command_manager" where
  "estimator_mode_safety cm p r s =
    (if is_fixed_wing p \<or> \<not> estimator_angle_lockout_enabled p then
       (lockout_output_default, cm\<lparr>rc_angle_mode_lockout := lockout_reset (rc_angle_mode_lockout cm)\<rparr>)
     else let ((out, m), _) = lockout_step (rc_angle_mode_lockout cm) (lockout_input_of cm p r s)
     in (out, cm\<lparr>rc_angle_mode_lockout := m\<rparr>))"

section \<open>The run\<close>

text \<open>The result is \<^verbatim>\<open>force_rc_attitude_mode_rate\<close> of \<^verbatim>\<open>CommandRunResult\<close>.\<close>

definition command_run :: "command_manager \<Rightarrow> u32 \<Rightarrow> params \<Rightarrow> rc \<Rightarrow> state_manager
    \<Rightarrow> bool \<times> command_manager \<times> rc \<times> state_manager" where
  "command_run cm now_ms p r s =
    (let now_us = ucast now_ms * 1000;
         s1 = (if \<not> check_rc_health r now_us p then sm_event s (ERROR_OCCURRED RC_LOST) p else s)
     in if is_in_failsafe s1 then
       (False, cm\<lparr>combined_command := (if is_fixed_wing p then fixedwing_failsafe_command cm
          else multirotor_failsafe_command cm)\<rparr>, r, s1)
     else
       let cm1 = update_offboard_timeout cm now_us p;
           (out, cm2) = estimator_mode_safety cm1 p r s1;
           (has_new_rc, r1) = take_new_command r;
           cm3 = (if has_new_rc \<or> force_rc_rate out
             then interpret_rc cm2 r1 p (if force_rc_rate out then Some CtRate else None) else cm2)
       in (force_param_rate out, do_muxing cm3 p r1 now_ms (force_rc_attitude out), r1, s1))"

section \<open>Getters\<close>

definition get_control_mode :: "command_manager \<Rightarrow> control_type" where
  "get_control_mode cm = control_type (cc_qx (combined_command cm))"

definition rc_override_active :: "command_manager \<Rightarrow> bool" where
  "rc_override_active cm = (cm_rc_override cm \<noteq> OVERRIDE_NO_OVERRIDE)"

definition is_offboard_active :: "command_manager \<Rightarrow> bool" where
  "is_offboard_active cm = (let c = offboard_command cm in active (cc_qx c) \<or> active (cc_qy c)
     \<or> active (cc_qz c) \<or> active (cc_fx c) \<or> active (cc_fy c) \<or> active (cc_fz c))"

fun offboard_mode_of :: "control_type \<Rightarrow> offboard_control_mode" where
  "offboard_mode_of CtRate = ModeRollratePitchrateYawrateThrottle"
| "offboard_mode_of CtPassthrough = ModePassThrough"
| "offboard_mode_of CtAngle = ModeRollPitchYawrateThrottle"
| "offboard_mode_of CtThrottle = ModeRollPitchYawrateThrottle"

end
