(* ===== verification/Command_Safety.thy ===== *)
theory Command_Safety
  imports Command Rc_Safety
begin

text \<open>
  Properties of the command manager: the failsafe command is the one that flies in
  failsafe, the override mask says which source each axis takes, a silent companion loses
  control, the lockout keeps angle mode away from an unhealthy estimator and how it is
  released, and the one way around it.
\<close>

section \<open>Bits of the override mask\<close>

lemma when_bit_simps [simp]: "when_bit True m = m" "when_bit False m = 0"
  by (simp_all add: when_bit_def)

text \<open>The mask tests of the mixer on the mask the muxing builds.\<close>

lemma attitude_mask_bits:
  "(when_bit a OVERRIDE_ATT_SWITCH OR when_bit x OVERRIDE_X OR when_bit xi OVERRIDE_OFFBOARD_X_INACTIVE
     OR when_bit y OVERRIDE_Y OR when_bit yi OVERRIDE_OFFBOARD_Y_INACTIVE
     OR when_bit z OVERRIDE_Z OR when_bit zi OVERRIDE_OFFBOARD_Z_INACTIVE) AND X_OVERRIDDEN \<noteq> 0 \<longleftrightarrow> a \<or> x \<or> xi"
  "(when_bit a OVERRIDE_ATT_SWITCH OR when_bit x OVERRIDE_X OR when_bit xi OVERRIDE_OFFBOARD_X_INACTIVE
     OR when_bit y OVERRIDE_Y OR when_bit yi OVERRIDE_OFFBOARD_Y_INACTIVE
     OR when_bit z OVERRIDE_Z OR when_bit zi OVERRIDE_OFFBOARD_Z_INACTIVE) AND Y_OVERRIDDEN \<noteq> 0 \<longleftrightarrow> a \<or> y \<or> yi"
  "(when_bit a OVERRIDE_ATT_SWITCH OR when_bit x OVERRIDE_X OR when_bit xi OVERRIDE_OFFBOARD_X_INACTIVE
     OR when_bit y OVERRIDE_Y OR when_bit yi OVERRIDE_OFFBOARD_Y_INACTIVE
     OR when_bit z OVERRIDE_Z OR when_bit zi OVERRIDE_OFFBOARD_Z_INACTIVE) AND Z_OVERRIDDEN \<noteq> 0 \<longleftrightarrow> a \<or> z \<or> zi"
  "(when_bit a OVERRIDE_ATT_SWITCH OR when_bit x OVERRIDE_X OR when_bit xi OVERRIDE_OFFBOARD_X_INACTIVE
     OR when_bit y OVERRIDE_Y OR when_bit yi OVERRIDE_OFFBOARD_Y_INACTIVE
     OR when_bit z OVERRIDE_Z OR when_bit zi OVERRIDE_OFFBOARD_Z_INACTIVE) AND T_OVERRIDDEN = 0"
  by (cases a; cases x; cases xi; cases y; cases yi; cases z; cases zi;
      simp add: override_defs X_OVERRIDDEN_def Y_OVERRIDDEN_def Z_OVERRIDDEN_def T_OVERRIDDEN_def)+

lemma throttle_mask_bits:
  "(when_bit a OVERRIDE_THR_SWITCH OR (if b then when_bit c OVERRIDE_T else OVERRIDE_OFFBOARD_T_INACTIVE))
     AND T_OVERRIDDEN \<noteq> 0 \<longleftrightarrow> a \<or> (if b then c else True)"
  "(when_bit a OVERRIDE_THR_SWITCH OR (if b then when_bit c OVERRIDE_T else OVERRIDE_OFFBOARD_T_INACTIVE))
     = 0 \<longleftrightarrow> \<not> (a \<or> (if b then c else True))"
  "(when_bit a OVERRIDE_THR_SWITCH OR (if b then when_bit c OVERRIDE_T else OVERRIDE_OFFBOARD_T_INACTIVE))
     AND X_OVERRIDDEN = 0"
  "(when_bit a OVERRIDE_THR_SWITCH OR (if b then when_bit c OVERRIDE_T else OVERRIDE_OFFBOARD_T_INACTIVE))
     AND Y_OVERRIDDEN = 0"
  "(when_bit a OVERRIDE_THR_SWITCH OR (if b then when_bit c OVERRIDE_T else OVERRIDE_OFFBOARD_T_INACTIVE))
     AND Z_OVERRIDDEN = 0"
  by (cases a; cases b; cases c;
      simp add: override_defs X_OVERRIDDEN_def Y_OVERRIDDEN_def Z_OVERRIDDEN_def T_OVERRIDDEN_def)+

lemma or_and_distrib: "((a :: u16) OR b) AND c = (a AND c) OR (b AND c)"
  by (rule bit.conj_disj_distrib2)

section \<open>What the operations leave alone\<close>

lemma channel_updates [simp]:
  "active (with_value c v) = active c" "control_type (with_value c v) = control_type c"
  "chan_value (with_value c v) = v" "active (with_type c t) = active c" "control_type (with_type c t) = t"
  "chan_value (with_type c t) = chan_value c" "active (with_active c a) = a"
  "control_type (with_active c a) = control_type c" "chan_value (with_active c a) = chan_value c"
  "active (scale_value c k) = active c" "control_type (scale_value c k) = control_type c"
  by (simp_all add: with_value_def with_type_def with_active_def scale_value_def)

text \<open>\<open>same_sources\<close>: only the muxing state and the combined command differ.\<close>

definition same_sources :: "command_manager \<Rightarrow> command_manager \<Rightarrow> bool" where
  "same_sources a b \<longleftrightarrow> rc_command a = rc_command b \<and> offboard_command a = offboard_command b
    \<and> multirotor_failsafe_command a = multirotor_failsafe_command b
    \<and> fixedwing_failsafe_command a = fixedwing_failsafe_command b"

text \<open>Whether a stick takes its axis, and whether the throttle comes from the radio.\<close>

definition axis_deviated :: "command_manager \<Rightarrow> params \<Rightarrow> rc \<Rightarrow> u32 \<Rightarrow> stick \<Rightarrow> bool" where
  "axis_deviated cm p r now k = fst (attitude_stick_deviated cm r k
     (float_param_or p PARAM_RC_OVERRIDE_DEVIATION (flt_lit 1 10)) (int_param_or p PARAM_OVERRIDE_LAG_TIME 200) now)"

definition throttle_from_rc :: "command_manager \<Rightarrow> params \<Rightarrow> rc \<Rightarrow> bool" where
  "throttle_from_rc cm p r \<longleftrightarrow> throttle_override_on r \<or> (if active (snd (throttle_sources cm p))
     then throttle_take_min p \<and> fst (throttle_sources cm p) < chan_value (snd (throttle_sources cm p)) else True)"

lemma deviated_frame:
  "same_sources (snd (attitude_stick_deviated cm r k d l n)) cm"
  "combined_command (snd (attitude_stick_deviated cm r k d l n)) = combined_command cm"
  "k' \<noteq> k \<Longrightarrow> fst (attitude_stick_deviated (snd (attitude_stick_deviated cm r k d l n)) r k' d l n)
     = fst (attitude_stick_deviated cm r k' d l n)"
  "k'' \<noteq> k \<Longrightarrow> k'' \<noteq> k' \<Longrightarrow>
     fst (attitude_stick_deviated (snd (attitude_stick_deviated (snd (attitude_stick_deviated cm r k d l n)) r k' d l n)) r k'' d l n)
     = fst (attitude_stick_deviated cm r k'' d l n)"
  by (cases k; cases k'; cases k''; simp add: attitude_stick_deviated_def same_sources_def)+

lemma do_throttle_muxing_eq:
  "do_throttle_muxing cm p r = (when_bit (throttle_override_on r) OVERRIDE_THR_SWITCH
     OR (if active (snd (throttle_sources cm p))
         then when_bit (throttle_take_min p \<and> fst (throttle_sources cm p) < chan_value (snd (throttle_sources cm p))) OVERRIDE_T
         else OVERRIDE_OFFBOARD_T_INACTIVE),
     let src = (if throttle_from_rc cm p r then rc_command cm else offboard_command cm)
     in cm\<lparr>combined_command := (combined_command cm)\<lparr>cc_fx := cc_fx src, cc_fy := cc_fy src, cc_fz := cc_fz src\<rparr>\<rparr>)"
  using throttle_mask_bits(2) by (simp add: do_throttle_muxing_def Let_def case_prod_beta throttle_from_rc_def OVERRIDE_NO_OVERRIDE_def)

lemma sources_cong:
  "same_sources a b \<Longrightarrow> throttle_sources a p = throttle_sources b p"
  "same_sources a b \<Longrightarrow> throttle_from_rc a p r = throttle_from_rc b p r"
  by (simp_all add: same_sources_def throttle_sources_def throttle_from_rc_def)

lemma same_sources_trans: "same_sources a b \<Longrightarrow> same_sources b c \<Longrightarrow> same_sources a c"
  by (simp add: same_sources_def)

lemma same_sources_combined [simp]: "same_sources (a\<lparr>combined_command := c\<rparr>) b = same_sources a b"
  "same_sources (a\<lparr>cm_rc_override := m\<rparr>) b = same_sources a b"
  "same_sources (a\<lparr>rc_attitude_override := u\<rparr>) b = same_sources a b"
  "same_sources (a\<lparr>rc_throttle_override := u\<rparr>) b = same_sources a b" "same_sources a a"
  by (simp_all add: same_sources_def)

lemma do_attitude_muxing_eq:
  "fst (do_attitude_muxing cm p r now force) = (when_bit (att_override_on r \<or> force) OVERRIDE_ATT_SWITCH
     OR when_bit (axis_deviated cm p r now StickX) OVERRIDE_X OR when_bit (\<not> active (cc_qx (offboard_command cm))) OVERRIDE_OFFBOARD_X_INACTIVE
     OR when_bit (axis_deviated cm p r now StickY) OVERRIDE_Y OR when_bit (\<not> active (cc_qy (offboard_command cm))) OVERRIDE_OFFBOARD_Y_INACTIVE
     OR when_bit (axis_deviated cm p r now StickZ) OVERRIDE_Z OR when_bit (\<not> active (cc_qz (offboard_command cm))) OVERRIDE_OFFBOARD_Z_INACTIVE)"
  "same_sources (snd (do_attitude_muxing cm p r now force)) cm"
  "combined_command (snd (do_attitude_muxing cm p r now force)) = (combined_command cm)\<lparr>
     cc_qx := (if force \<or> att_override_on r \<or> axis_deviated cm p r now StickX \<or> \<not> active (cc_qx (offboard_command cm))
               then cc_qx (rc_command cm) else cc_qx (offboard_command cm)),
     cc_qy := (if force \<or> att_override_on r \<or> axis_deviated cm p r now StickY \<or> \<not> active (cc_qy (offboard_command cm))
               then cc_qy (rc_command cm) else cc_qy (offboard_command cm)),
     cc_qz := (if att_override_on r \<or> axis_deviated cm p r now StickZ \<or> \<not> active (cc_qz (offboard_command cm))
               then cc_qz (rc_command cm) else cc_qz (offboard_command cm))\<rparr>"
proof -
  let ?d = "\<lambda>c k. attitude_stick_deviated c r k (float_param_or p PARAM_RC_OVERRIDE_DEVIATION (flt_lit 1 10))
     (int_param_or p PARAM_OVERRIDE_LAG_TIME 200) now"
  show "same_sources (snd (do_attitude_muxing cm p r now force)) cm"
    using deviated_frame(1) by (simp add: do_attitude_muxing_def Let_def case_prod_beta) (meson same_sources_trans)
  show "fst (do_attitude_muxing cm p r now force) = (when_bit (att_override_on r \<or> force) OVERRIDE_ATT_SWITCH
     OR when_bit (axis_deviated cm p r now StickX) OVERRIDE_X OR when_bit (\<not> active (cc_qx (offboard_command cm))) OVERRIDE_OFFBOARD_X_INACTIVE
     OR when_bit (axis_deviated cm p r now StickY) OVERRIDE_Y OR when_bit (\<not> active (cc_qy (offboard_command cm))) OVERRIDE_OFFBOARD_Y_INACTIVE
     OR when_bit (axis_deviated cm p r now StickZ) OVERRIDE_Z OR when_bit (\<not> active (cc_qz (offboard_command cm))) OVERRIDE_OFFBOARD_Z_INACTIVE)"
    by (simp add: do_attitude_muxing_def Let_def case_prod_beta axis_deviated_def deviated_frame)
  show "combined_command (snd (do_attitude_muxing cm p r now force)) = (combined_command cm)\<lparr>
     cc_qx := (if force \<or> att_override_on r \<or> axis_deviated cm p r now StickX \<or> \<not> active (cc_qx (offboard_command cm))
               then cc_qx (rc_command cm) else cc_qx (offboard_command cm)),
     cc_qy := (if force \<or> att_override_on r \<or> axis_deviated cm p r now StickY \<or> \<not> active (cc_qy (offboard_command cm))
               then cc_qy (rc_command cm) else cc_qy (offboard_command cm)),
     cc_qz := (if att_override_on r \<or> axis_deviated cm p r now StickZ \<or> \<not> active (cc_qz (offboard_command cm))
               then cc_qz (rc_command cm) else cc_qz (offboard_command cm))\<rparr>"
    by (simp add: do_attitude_muxing_def Let_def case_prod_beta axis_deviated_def deviated_frame)
qed

lemma muxing_sources: "same_sources (do_muxing cm p r now force) cm"
  using do_attitude_muxing_eq(2) [of cm p r now force]
  by (simp add: do_muxing_def Let_def case_prod_beta do_throttle_muxing_eq)

lemma combined_muxing:
  fixes cm p r now force
  defines "c \<equiv> combined_command (do_muxing cm p r now force)"
  shows "cc_qx c = (if force \<or> att_override_on r \<or> axis_deviated cm p r now StickX \<or> \<not> active (cc_qx (offboard_command cm))
               then cc_qx (rc_command cm) else cc_qx (offboard_command cm))"
    "cc_qy c = (if force \<or> att_override_on r \<or> axis_deviated cm p r now StickY \<or> \<not> active (cc_qy (offboard_command cm))
               then cc_qy (rc_command cm) else cc_qy (offboard_command cm))"
    "cc_qz c = (if att_override_on r \<or> axis_deviated cm p r now StickZ \<or> \<not> active (cc_qz (offboard_command cm))
               then cc_qz (rc_command cm) else cc_qz (offboard_command cm))"
    "cc_fx c = cc_fx (if throttle_from_rc cm p r then rc_command cm else offboard_command cm)"
    "cc_fy c = cc_fy (if throttle_from_rc cm p r then rc_command cm else offboard_command cm)"
    "cc_fz c = cc_fz (if throttle_from_rc cm p r then rc_command cm else offboard_command cm)"
    "passthrough c = passthrough (offboard_command cm)"
  using do_attitude_muxing_eq(2) [of cm p r now force, unfolded same_sources_def]
  by (simp_all add: c_def do_muxing_def Let_def case_prod_beta do_throttle_muxing_eq do_attitude_muxing_eq(3)
      sources_cong [OF do_attitude_muxing_eq(2) [of cm p r now force]])

lemma mask_muxing:
  fixes cm p r now force
  defines "m \<equiv> cm_rc_override (do_muxing cm p r now force)"
  shows "m AND X_OVERRIDDEN \<noteq> 0 \<longleftrightarrow> (att_override_on r \<or> force) \<or> axis_deviated cm p r now StickX \<or> \<not> active (cc_qx (offboard_command cm))"
    "m AND Y_OVERRIDDEN \<noteq> 0 \<longleftrightarrow> (att_override_on r \<or> force) \<or> axis_deviated cm p r now StickY \<or> \<not> active (cc_qy (offboard_command cm))"
    "m AND Z_OVERRIDDEN \<noteq> 0 \<longleftrightarrow> (att_override_on r \<or> force) \<or> axis_deviated cm p r now StickZ \<or> \<not> active (cc_qz (offboard_command cm))"
    "m AND T_OVERRIDDEN \<noteq> 0 \<longleftrightarrow> throttle_from_rc cm p r"
proof -
  note s = sources_cong [OF do_attitude_muxing_eq(2) [of cm p r now force]]
  have m: "m = fst (do_attitude_muxing cm p r now force) OR fst (do_throttle_muxing cm p r)"
    by (simp add: m_def do_muxing_def Let_def case_prod_beta do_throttle_muxing_eq s)
  show "m AND X_OVERRIDDEN \<noteq> 0 \<longleftrightarrow> (att_override_on r \<or> force) \<or> axis_deviated cm p r now StickX \<or> \<not> active (cc_qx (offboard_command cm))"
    unfolding m or_and_distrib by (simp add: do_attitude_muxing_eq(1) do_throttle_muxing_eq throttle_mask_bits attitude_mask_bits)
  show "m AND Y_OVERRIDDEN \<noteq> 0 \<longleftrightarrow> (att_override_on r \<or> force) \<or> axis_deviated cm p r now StickY \<or> \<not> active (cc_qy (offboard_command cm))"
    unfolding m or_and_distrib by (simp add: do_attitude_muxing_eq(1) do_throttle_muxing_eq throttle_mask_bits attitude_mask_bits)
  show "m AND Z_OVERRIDDEN \<noteq> 0 \<longleftrightarrow> (att_override_on r \<or> force) \<or> axis_deviated cm p r now StickZ \<or> \<not> active (cc_qz (offboard_command cm))"
    unfolding m or_and_distrib by (simp add: do_attitude_muxing_eq(1) do_throttle_muxing_eq throttle_mask_bits attitude_mask_bits)
  show "m AND T_OVERRIDDEN \<noteq> 0 \<longleftrightarrow> throttle_from_rc cm p r"
    unfolding m or_and_distrib
    by (simp add: do_attitude_muxing_eq(1) do_throttle_muxing_eq throttle_mask_bits attitude_mask_bits throttle_from_rc_def)
qed

text \<open>
  C21. The override mask the mixer reads is the truth about the muxing: roll, pitch and the
  three forces of the combined command come from the radio exactly when the mask tests
  positive for their axis and from the companion otherwise, and so does yaw unless the
  lockout forces the radio attitude.
\<close>

theorem override_mask_names_the_source:
  assumes "cm' = do_muxing cm p r now force"
  shows "cc_qx (combined_command cm') = cc_qx (if cm_rc_override cm' AND X_OVERRIDDEN \<noteq> 0 then rc_command cm' else offboard_command cm')
    \<and> cc_qy (combined_command cm') = cc_qy (if cm_rc_override cm' AND Y_OVERRIDDEN \<noteq> 0 then rc_command cm' else offboard_command cm')
    \<and> (\<not> force \<or> att_override_on r \<longrightarrow>
       cc_qz (combined_command cm') = cc_qz (if cm_rc_override cm' AND Z_OVERRIDDEN \<noteq> 0 then rc_command cm' else offboard_command cm'))
    \<and> (let src = (if cm_rc_override cm' AND T_OVERRIDDEN \<noteq> 0 then rc_command cm' else offboard_command cm') in
       cc_fx (combined_command cm') = cc_fx src \<and> cc_fy (combined_command cm') = cc_fy src
       \<and> cc_fz (combined_command cm') = cc_fz src)"
proof -
  have s: "rc_command cm' = rc_command cm" "offboard_command cm' = offboard_command cm"
    using muxing_sources [of cm p r now force] by (simp_all add: assms same_sources_def)
  show ?thesis unfolding s unfolding assms mask_muxing combined_muxing Let_def by auto
qed

text \<open>
  When the lockout forces the radio attitude, the mask marks yaw as taken over too,
  but with the yaw stick centred and no override switch the yaw command is still the
  companion's.
\<close>

theorem forced_attitude_mislabels_yaw:
  assumes "cm' = do_muxing cm p r now True" and "\<not> att_override_on r"
    and "\<not> axis_deviated cm p r now StickZ" and "active (cc_qz (offboard_command cm))"
  shows "cm_rc_override cm' AND Z_OVERRIDDEN \<noteq> 0 \<and> cc_qz (combined_command cm') = cc_qz (offboard_command cm)"
  using assms(2-) by (simp add: assms(1) mask_muxing combined_muxing)

section \<open>One run of the manager\<close>

text \<open>The state machine after the health check that starts the run.\<close>

definition after_health :: "rc \<Rightarrow> u32 \<Rightarrow> params \<Rightarrow> state_manager \<Rightarrow> state_manager" where
  "after_health r now p s = (if \<not> check_rc_health r (ucast now * 1000) p
     then sm_event s (ERROR_OCCURRED RC_LOST) p else s)"

abbreviation run_manager :: "command_manager \<Rightarrow> u32 \<Rightarrow> params \<Rightarrow> rc \<Rightarrow> state_manager \<Rightarrow> command_manager" where
  "run_manager cm now p r s \<equiv> fst (snd (command_run cm now p r s))"

definition prepared :: "command_manager \<Rightarrow> u32 \<Rightarrow> params \<Rightarrow> rc \<Rightarrow> state_manager \<Rightarrow> lockout_output \<times> command_manager" where
  "prepared cm now p r s =
    (let (out, cm2) = estimator_mode_safety (update_offboard_timeout cm (ucast now * 1000) p) p r (after_health r now p s)
     in (out, if rc_new_command r \<or> force_rc_rate out
              then interpret_rc cm2 r p (if force_rc_rate out then Some CtRate else None) else cm2))"

lemma new_command_frame [simp]:
  "rc_stick (snd (take_new_command r)) k = rc_stick r k" "switch_on (snd (take_new_command r)) w = switch_on r w"
  "switch_mapped (snd (take_new_command r)) w = switch_mapped r w" "fst (take_new_command r) = rc_new_command r"
  by (simp_all add: take_new_command_def)

lemma new_command_readers [simp]:
  "roll_pitch_type (snd (take_new_command r)) p t = roll_pitch_type r p t"
  "attitude_stick_deviated cm (snd (take_new_command r)) k d l n = attitude_stick_deviated cm r k d l n"
  "att_override_on (snd (take_new_command r)) = att_override_on r"
  "throttle_override_on (snd (take_new_command r)) = throttle_override_on r"
  by (simp_all add: roll_pitch_type_def attitude_stick_deviated_def att_override_on_def throttle_override_on_def
      split: option.split)

lemma interpret_new_command [simp]: "interpret_rc cm (snd (take_new_command r)) p t = interpret_rc cm r p t"
  by (simp add: interpret_rc_def Let_def)

lemma muxing_new_command [simp]: "do_muxing cm p (snd (take_new_command r)) now force = do_muxing cm p r now force"
  by (simp add: do_muxing_def do_attitude_muxing_def do_throttle_muxing_def)

lemma run_manager_eq:
  "run_manager cm now p r s =
    (if is_in_failsafe (after_health r now p s) then
       cm\<lparr>combined_command := (if is_fixed_wing p then fixedwing_failsafe_command cm else multirotor_failsafe_command cm)\<rparr>
     else do_muxing (snd (prepared cm now p r s)) p r now (force_rc_attitude (fst (prepared cm now p r s))))"
  by (simp add: command_run_def prepared_def after_health_def Let_def case_prod_beta)

lemma estimator_sources: "same_sources (snd (estimator_mode_safety cm p r s)) cm"
  by (simp add: estimator_mode_safety_def same_sources_def case_prod_beta)

lemma interpret_frame [simp]: "offboard_command (interpret_rc cm r p t) = offboard_command cm"
  "multirotor_failsafe_command (interpret_rc cm r p t) = multirotor_failsafe_command cm"
  "fixedwing_failsafe_command (interpret_rc cm r p t) = fixedwing_failsafe_command cm"
  by (simp_all add: interpret_rc_def Let_def)

lemma timeout_frame:
  "multirotor_failsafe_command (update_offboard_timeout cm t p) = multirotor_failsafe_command cm"
  "fixedwing_failsafe_command (update_offboard_timeout cm t p) = fixedwing_failsafe_command cm"
  "rc_command (update_offboard_timeout cm t p) = rc_command cm"
  "rc_angle_mode_lockout (update_offboard_timeout cm t p) = rc_angle_mode_lockout cm"
  by (simp_all add: update_offboard_timeout_def)

lemma prepared_frame:
  "offboard_command (snd (prepared cm now p r s)) = offboard_command (update_offboard_timeout cm (ucast now * 1000) p)"
  "multirotor_failsafe_command (snd (prepared cm now p r s)) = multirotor_failsafe_command cm"
  "fixedwing_failsafe_command (snd (prepared cm now p r s)) = fixedwing_failsafe_command cm"
  using estimator_sources [of "update_offboard_timeout cm (ucast now * 1000) p" p r "after_health r now p s",
      unfolded same_sources_def]
  by (simp_all add: prepared_def case_prod_beta timeout_frame)

section \<open>A silent companion\<close>

text \<open>
  A companion that has been silent for longer than the offboard timeout has no
  influence: outside failsafe, every axis of the combined command is the radio's and no
  offboard channel, the pass-through channels included, is active.
\<close>

theorem silent_companion_loses_control:
  assumes "\<not> is_in_failsafe (after_health r now p s)"
    and "last_offboard_command_us cm + offboard_timeout_us p < ucast now * 1000"
    and "cm' = run_manager cm now p r s"
  shows "\<not> is_offboard_active cm'
    \<and> cc_qx (combined_command cm') = cc_qx (rc_command cm') \<and> cc_qy (combined_command cm') = cc_qy (rc_command cm')
    \<and> cc_qz (combined_command cm') = cc_qz (rc_command cm') \<and> cc_fx (combined_command cm') = cc_fx (rc_command cm')
    \<and> cc_fy (combined_command cm') = cc_fy (rc_command cm') \<and> cc_fz (combined_command cm') = cc_fz (rc_command cm')
    \<and> list_all (\<lambda>ch. \<not> active ch) (passthrough (combined_command cm'))"
proof -
  let ?c = "snd (prepared cm now p r s)"
  have off: "offboard_command ?c = deactivate_all (offboard_command cm)"
    using assms(2) by (simp add: prepared_frame update_offboard_timeout_def linorder_not_le)
  have run: "cm' = do_muxing ?c p r now (force_rc_attitude (fst (prepared cm now p r s)))"
    using assms(1) by (simp add: assms(3) run_manager_eq)
  have s: "rc_command cm' = rc_command ?c" "offboard_command cm' = offboard_command ?c"
    using muxing_sources [of ?c p r now] by (simp_all add: run same_sources_def)
  have d: "\<not> active (cc_qx (deactivate_all c)) \<and> \<not> active (cc_qy (deactivate_all c)) \<and> \<not> active (cc_qz (deactivate_all c))
     \<and> \<not> active (cc_fx (deactivate_all c)) \<and> \<not> active (cc_fy (deactivate_all c)) \<and> \<not> active (cc_fz (deactivate_all c))
     \<and> list_all (\<lambda>ch. \<not> active ch) (passthrough (deactivate_all c))" for c
    by (simp add: deactivate_all_def list_all_iff)
  have t: "throttle_from_rc ?c p r"
    using d by (simp add: throttle_from_rc_def throttle_sources_def Let_def off)
  show ?thesis unfolding is_offboard_active_def Let_def s unfolding run combined_muxing
    using d t by (simp add: off)
qed

section \<open>Failsafe\<close>

definition throttle_value_ok :: "f32 \<Rightarrow> bool" where
  "throttle_value_ok v \<longleftrightarrow> is_nan v \<or> 0 \<le> v \<and> v \<le> 1"

definition throttle_ok :: "control_channel \<Rightarrow> bool" where
  "throttle_ok c \<longleftrightarrow> active c \<and> control_type c = CtThrottle \<and> throttle_value_ok (chan_value c)"

definition failsafe_ok :: "combined_control \<Rightarrow> bool" where
  "failsafe_ok c \<longleftrightarrow> cc_qx c = failsafe_channel CtAngle \<and> cc_qy c = failsafe_channel CtAngle
    \<and> cc_qz c = failsafe_channel CtRate \<and> throttle_ok (cc_fx c) \<and> throttle_ok (cc_fy c) \<and> throttle_ok (cc_fz c)"

lemma throttle_value_ok_0 [simp]: "throttle_value_ok 0"
  by (simp add: throttle_value_ok_def flt_eval)

lemma throttle_value_okI: "\<not> v < 0 \<Longrightarrow> \<not> 1 < v \<Longrightarrow> throttle_value_ok v"
proof -
  assume v: "\<not> v < 0" "\<not> 1 < v"
  have "\<not> is_nan (1 :: f32)" by (simp add: flt_eval)
  then show ?thesis using v f32.not_less_le [of v 0] f32.not_less_le [of 1 v]
    by (auto simp: throttle_value_ok_def)
qed

lemma failsafe_ok_set: "failsafe_ok c \<Longrightarrow> throttle_value_ok v \<Longrightarrow> failsafe_ok (set_f_values p c v)"
  by (simp add: failsafe_ok_def set_f_values_def Let_def throttle_ok_def)

lemma failsafe_ok_new: "failsafe_ok (multirotor_failsafe_command command_manager_new)"
  by (simp add: command_manager_new_def failsafe_ok_def throttle_ok_def failsafe_channel_def)

lemma failsafe_ok_config: "failsafe_ok (multirotor_failsafe_command cm) \<Longrightarrow> \<not> is_fixed_wing p \<Longrightarrow>
    failsafe_ok (multirotor_failsafe_command (fst (update_failsafe_config cm p s)))"
  by (auto simp: update_failsafe_config_def Let_def failsafe_ok_set throttle_value_okI)

text \<open>
  The managers of a multirotor: configured under parameters that are not those of a fixed
  wing, then run, given offboard commands and configured again in any order.
\<close>

inductive manager_of_multirotor :: "command_manager \<Rightarrow> bool" where
  mr_new: "manager_of_multirotor command_manager_new"
| mr_config: "manager_of_multirotor cm \<Longrightarrow> \<not> is_fixed_wing p \<Longrightarrow>
    manager_of_multirotor (fst (update_failsafe_config cm p s))"
| mr_offboard: "manager_of_multirotor cm \<Longrightarrow> manager_of_multirotor (set_new_offboard_command cm t msg)"
| mr_run: "manager_of_multirotor cm \<Longrightarrow> manager_of_multirotor (run_manager cm now p r s)"

lemma run_keeps_failsafe: "multirotor_failsafe_command (run_manager cm now p r s) = multirotor_failsafe_command cm"
  using muxing_sources [of "snd (prepared cm now p r s)" p r now]
  by (simp add: run_manager_eq same_sources_def prepared_frame)

lemma multirotor_failsafe_ok: "manager_of_multirotor cm \<Longrightarrow> failsafe_ok (multirotor_failsafe_command cm)"
  by (induction rule: manager_of_multirotor.induct)
     (simp_all add: failsafe_ok_new failsafe_ok_config run_keeps_failsafe set_new_offboard_command_def)


text \<open>
  The check of \<^verbatim>\<open>FAILSAFE_THR\<close>: on a multirotor the error is present afterwards exactly
  when the value is below 0 or above 1, and then the throttle is 0; every other value is
  used as it is, and that includes a NaN.
\<close>

theorem failsafe_throttle_check:
  fixes p cm s
  defines "v \<equiv> float_param_or p PARAM_FAILSAFE_THROTTLE 0"
  assumes "\<not> is_fixed_wing p" "int_param_or p PARAM_RC_F_AXIS 2 \<notin> {0, 1}"
  shows "(flags_contain (get_errors (snd (update_failsafe_config cm p s))) INVALID_FAILSAFE \<longleftrightarrow> v < 0 \<or> 1 < v)
    \<and> chan_value (cc_fz (multirotor_failsafe_command (fst (update_failsafe_config cm p s))))
        = (if v < 0 \<or> 1 < v then 0 else v)
    \<and> (is_nan v \<longrightarrow> \<not> flags_contain (get_errors (snd (update_failsafe_config cm p s))) INVALID_FAILSAFE)"
proof -
  have bit7: "bit INVALID_FAILSAFE n \<longleftrightarrow> n = 7" for n
  proof -
    have "bit (2 ^ 7 :: error_flag) n \<longleftrightarrow> n = 7" unfolding bit_exp_iff by auto
    then show ?thesis by (simp add: INVALID_FAILSAFE_def)
  qed
  have occurred: "flags_contain (get_errors (sm_event s (ERROR_OCCURRED INVALID_FAILSAFE) p)) INVALID_FAILSAFE"
    using sm_update_flags [of "machine s" "ERROR_OCCURRED INVALID_FAILSAFE" p]
    by (auto simp: get_errors_def machine_manager_update flags_after_def flags_contain_bits bit_or_iff)
  have cleared: "\<not> flags_contain (get_errors (sm_event s (ERROR_CLEARED INVALID_FAILSAFE) p)) INVALID_FAILSAFE"
    using sm_update_flags [of "machine s" "ERROR_CLEARED INVALID_FAILSAFE" p]
    by (auto simp: get_errors_def machine_manager_update flags_after_def flags_contain_bits bit_flags_remove bit7)
  have nan: "is_nan v \<Longrightarrow> \<not> v < 0 \<and> \<not> 1 < v" by (simp add: less_flt_def)
  show ?thesis
    using occurred cleared nan assms(2,3)
    by (auto simp: update_failsafe_config_def Let_def v_def set_f_values_def)
qed

section \<open>The lockout\<close>

lemma interpret_types:
  assumes "\<not> is_fixed_wing p"
  shows "control_type (cc_qx (rc_command (interpret_rc cm r p t))) = roll_pitch_type r p t"
    "control_type (cc_qy (rc_command (interpret_rc cm r p t))) = roll_pitch_type r p t"
  using assms by (simp_all add: interpret_rc_def Let_def scale_roll_pitch_def set_control_types_def split: control_type.split)

lemma roll_pitch_forced [simp]: "roll_pitch_type r p (Some t) = t"
  by (simp add: roll_pitch_type_def)

lemma roll_pitch_rate: "\<not> rc_angle_mode_selected p r \<Longrightarrow> roll_pitch_type r p None = CtRate"
  by (auto simp: rc_angle_mode_selected_def roll_pitch_type_def rc_attitude_mode_def int_param_or_def
      param_rc_attitude_mode_is_rate_def split: if_splits param_value.splits)

lemma prepared_eq:
  assumes "\<not> is_fixed_wing p" "estimator_angle_lockout_enabled p"
  shows "fst (prepared cm now p r s) = fst (fst (lockout_step (rc_angle_mode_lockout cm)
      (lockout_input_of (update_offboard_timeout cm (ucast now * 1000) p) p r (after_health r now p s))))"
  using assms by (simp add: prepared_def estimator_mode_safety_def case_prod_beta timeout_frame)

lemma step_forces:
  "\<not> li_fixed_wing i \<Longrightarrow> unsafe_angle_requested i \<Longrightarrow> force_rc_rate (fst (fst (lockout_step m i)))"
  "\<not> li_fixed_wing i \<Longrightarrow> force_rc_attitude (fst (fst (lockout_step m i)))
      = (li_estimator_unhealthy i \<and> li_offboard_angle_requested i)"
  by (simp_all add: lockout_step_def case_prod_beta Let_def)

text \<open>
  The lockout. While the estimator is unhealthy and the lockout is enabled, a multirotor
  outside failsafe that has just received an RC frame does not fly in angle mode: neither
  roll nor pitch of the combined command is an angle, provided that the radio is not asked
  for angles or that it is a source of the attitude by the override switch or by an
  inactive offboard axis.
\<close>

theorem unhealthy_estimator_locks_angle_mode:
  assumes "\<not> is_fixed_wing p" "estimator_angle_lockout_enabled p" "rc_new_command r"
    and "\<not> is_in_failsafe (after_health r now p s)"
    and "flags_contain (get_errors (after_health r now p s)) UNHEALTHY_ESTIMATOR"
    and "\<not> rc_angle_mode_selected p r
      \<or> rc_attitude_source_requested (update_offboard_timeout cm (ucast now * 1000) p) r"
  shows "control_type (cc_qx (combined_command (run_manager cm now p r s))) \<noteq> CtAngle
    \<and> control_type (cc_qy (combined_command (run_manager cm now p r s))) \<noteq> CtAngle"
proof -
  let ?c1 = "update_offboard_timeout cm (ucast now * 1000) p"
  let ?i = "lockout_input_of ?c1 p r (after_health r now p s)"
  let ?out = "fst (prepared cm now p r s)" and ?c = "snd (prepared cm now p r s)"
  have fw: "\<not> li_fixed_wing ?i" and u: "li_estimator_unhealthy ?i"
    using assms(1,5) by (simp_all add: lockout_input_of_def)
  have out: "?out = fst (fst (lockout_step (rc_angle_mode_lockout cm) ?i))" by (rule prepared_eq [OF assms(1,2)])
  have att: "force_rc_attitude ?out \<longleftrightarrow> offboard_angle_requested ?c1"
    using step_forces(2) [OF fw] u by (simp add: out lockout_input_of_def)
  have unsafe: "force_rc_rate ?out" if "offboard_angle_requested ?c1 \<or> rc_angle_mode_selected p r"
    unfolding out using that assms(6) u
    by (intro step_forces(1) [OF fw]) (auto simp: unsafe_angle_requested_def lockout_input_of_def)
  have "roll_pitch_type r p (if force_rc_rate ?out then Some CtRate else None) = CtRate"
    using unsafe roll_pitch_rate [of p r] by (cases "force_rc_rate ?out") auto
  then have rc: "control_type (cc_qx (rc_command ?c)) = CtRate" "control_type (cc_qy (rc_command ?c)) = CtRate"
    using assms(3) interpret_types [OF assms(1)] by (simp_all add: prepared_def case_prod_beta)
  have off: "\<not> force_rc_attitude ?out \<Longrightarrow> active (cc_qx (offboard_command ?c)) \<Longrightarrow> control_type (cc_qx (offboard_command ?c)) \<noteq> CtAngle"
    "\<not> force_rc_attitude ?out \<Longrightarrow> active (cc_qy (offboard_command ?c)) \<Longrightarrow> control_type (cc_qy (offboard_command ?c)) \<noteq> CtAngle"
    using att by (auto simp: prepared_frame offboard_angle_requested_def)
  show ?thesis using rc off assms(4) by (simp add: run_manager_eq combined_muxing)
qed

text \<open>
  The way around the lockout: with both offboard attitude axes active in rate mode, no
  override switch, the lockout not yet entered and the radio in angle mode, deflecting the
  roll stick makes the combined command a roll angle, with an unhealthy estimator and the
  lockout enabled as much as without.
\<close>

theorem stick_override_bypasses_lockout:
  assumes "\<not> is_fixed_wing p" "rc_new_command r" "\<not> is_in_failsafe (after_health r now p s)"
    and "c1 = update_offboard_timeout cm (ucast now * 1000) p"
    and "lock_state (rc_angle_mode_lockout cm) = LockInactive" "rc_angle_mode_selected p r"
    and "\<not> rc_attitude_source_requested c1 r" "\<not> offboard_angle_requested c1"
    and "axis_deviated cm p r now StickX"
  shows "control_type (cc_qx (combined_command (run_manager cm now p r s))) = CtAngle"
proof -
  let ?out = "fst (prepared cm now p r s)" and ?c = "snd (prepared cm now p r s)"
  have i: "\<not> unsafe_angle_requested (lockout_input_of c1 p r (after_health r now p s))"
    using assms(7,8) by (simp add: unsafe_angle_requested_def lockout_input_of_def)
  have o: "\<not> force_rc_rate ?out \<and> \<not> force_rc_attitude ?out"
  proof (cases "estimator_angle_lockout_enabled p")
    case True
    then show ?thesis using i assms(1,5,8) prepared_eq [OF assms(1) True]
      by (simp add: lockout_step_def lockout_advance_def Let_def case_prod_beta assms(4) lockout_input_of_def)
  next
    case False
    then show ?thesis by (simp add: prepared_def estimator_mode_safety_def lockout_output_default_def case_prod_beta)
  qed
  have "roll_pitch_type r p None = CtAngle"
    using assms(6) by (auto simp: rc_angle_mode_selected_def roll_pitch_type_def rc_attitude_mode_def
        int_param_or_def param_rc_attitude_mode_is_rate_def ATTITUDE_RATE_MODE_def split: if_splits param_value.splits)
  then have "control_type (cc_qx (rc_command ?c)) = CtAngle"
    using o assms(2) interpret_types [OF assms(1)] by (simp add: prepared_def case_prod_beta)
  moreover have "axis_deviated ?c p r now StickX"
  proof -
    have "last_stick_override_time ?c = last_stick_override_time cm"
      by (simp add: prepared_def case_prod_beta interpret_rc_def Let_def estimator_mode_safety_def update_offboard_timeout_def)
    then show ?thesis using assms(9) by (auto simp: axis_deviated_def attitude_stick_deviated_def split: if_splits)
  qed
  ultimately show ?thesis using assms(3) o by (simp add: run_manager_eq combined_muxing)
qed

text \<open>The outputs of the lockout machine over a sequence of inputs.\<close>

fun lockout_outputs :: "lockout_machine \<Rightarrow> lockout_input list \<Rightarrow> lockout_output list" where
  "lockout_outputs m [] = []"
| "lockout_outputs m (i # is) = fst (fst (lockout_step m i)) # lockout_outputs (snd (fst (lockout_step m i))) is"

text \<open>\<open>released rec is\<close>: some input has the switch in the rate position, and the estimator
  was healthy in that input or one before it (or \<open>rec\<close>).\<close>

fun released :: "bool \<Rightarrow> lockout_input list \<Rightarrow> bool" where
  "released healthy_seen [] = False"
| "released healthy_seen (i # is) = (let seen = healthy_seen \<or> \<not> li_estimator_unhealthy i in
     seen \<and> li_att_type_switch_rate i \<or> released seen is)"

lemma locked_step:
  assumes "lock_state m = SwitchResetRequired healthy_seen w" "\<not> li_fixed_wing i" "li_att_type_switch_mapped i"
    and "\<not> ((healthy_seen \<or> \<not> li_estimator_unhealthy i) \<and> li_att_type_switch_rate i)"
  shows "force_rc_rate (fst (fst (lockout_step m i)))
    \<and> (\<exists>w'. lock_state (snd (fst (lockout_step m i))) = SwitchResetRequired (healthy_seen \<or> \<not> li_estimator_unhealthy i) w')"
  using assms by (auto simp: lockout_step_def lockout_advance_def lockout_enter_def Let_def is_switch_reset_def
      split: lockout_state.split)

text \<open>
  The lockout is held until the pilot gives it up. Once the machine waits for the attitude
  switch, it forces rate mode in every step of every sequence of inputs in which the
  switch is never in the rate position at or after a moment when the estimator is healthy.
\<close>

theorem lockout_held_until_switch_reset:
  assumes "lock_state m = SwitchResetRequired healthy_seen w"
    and "list_all (\<lambda>i. \<not> li_fixed_wing i \<and> li_att_type_switch_mapped i) is"
    and "\<not> released healthy_seen is"
  shows "list_all force_rc_rate (lockout_outputs m is)"
  using assms
proof (induction "is" arbitrary: m healthy_seen w)
  case (Cons i rest)
  have i: "\<not> li_fixed_wing i" "li_att_type_switch_mapped i"
    "\<not> ((healthy_seen \<or> \<not> li_estimator_unhealthy i) \<and> li_att_type_switch_rate i)"
    "\<not> released (healthy_seen \<or> \<not> li_estimator_unhealthy i) rest"
    using Cons.prems(2,3) by (auto simp: Let_def)
  from locked_step [OF Cons.prems(1) i(1-3)] obtain w' where
    s: "force_rc_rate (fst (fst (lockout_step m i)))"
    "lock_state (snd (fst (lockout_step m i))) = SwitchResetRequired (healthy_seen \<or> \<not> li_estimator_unhealthy i) w'"
    by blast
  from Cons.IH [OF s(2)] show ?case using Cons.prems(2) i(4) s(1) by simp
qed simp

section \<open>Witnesses\<close>

lemma zero_params_values [simp]: "int_param_or zero_params pid d = 0" "float_param_or zero_params pid v = v"
  by (simp_all add: int_param_or_def float_param_or_def get_by_id_def zero_params_def)

lemma rc_new_silent: "\<not> check_rc_health rc_new (ucast (1000 :: u32) * 1000) p"
  by (simp add: check_rc_health_def rc_new_def rc_struct_default_def packet_header_default_def RC_TIMEOUT_US_def)

lemma rc_new_getters [simp]: "\<not> att_override_on rc_new" "\<not> throttle_override_on rc_new" "rc_stick rc_new k = 0"
  "\<not> switch_mapped rc_new w"
proof -
  have "switch_index w < 5" for w by (cases w) simp_all
  moreover have "stick_index k < 4" by (cases k) simp_all
  ultimately show "\<not> att_override_on rc_new" "\<not> throttle_override_on rc_new" "rc_stick rc_new k = 0"
    "\<not> switch_mapped rc_new w"
    by (simp_all add: att_override_on_def throttle_override_on_def rc_stick_def switch_mapped_def rc_new_def
        SWITCHES_COUNT_def STICKS_COUNT_def)
qed

theorem override_mask_names_the_source_witness:
  "cc_qx (combined_command (do_muxing command_manager_new zero_params rc_new 1000 False))
    = cc_qx (rc_command (do_muxing command_manager_new zero_params rc_new 1000 False))"
proof -
  have "cm_rc_override (do_muxing command_manager_new zero_params rc_new 1000 False) AND X_OVERRIDDEN \<noteq> 0"
    by (simp add: mask_muxing command_manager_new_def combined_control_default_def control_channel_default_def)
  then show ?thesis using override_mask_names_the_source [OF refl, of command_manager_new zero_params rc_new 1000 False] by simp
qed

definition companion_yaw :: command_manager where
  "companion_yaw = command_manager_new\<lparr>offboard_command := combined_control_default\<lparr>
     cc_qx := \<lparr>active = True, control_type = CtRate, chan_value = 1\<rparr>,
     cc_qy := \<lparr>active = True, control_type = CtRate, chan_value = 1\<rparr>,
     cc_qz := \<lparr>active = True, control_type = CtRate, chan_value = 1\<rparr>\<rparr>,
     last_offboard_command_us := 1000000\<rparr>"

lemma zero_le_deviation: "\<bar>0\<bar> \<le> (flt_lit 1 10 :: f32)"
  by (simp add: flt_eval)

theorem forced_attitude_mislabels_yaw_witness:
  "cm_rc_override (do_muxing companion_yaw zero_params rc_new 1000 True) AND Z_OVERRIDDEN \<noteq> 0
    \<and> chan_value (cc_qz (combined_command (do_muxing companion_yaw zero_params rc_new 1000 True))) = 1"
proof -
  have d: "\<not> axis_deviated companion_yaw zero_params rc_new 1000 StickZ"
    using zero_le_deviation
    by (simp add: axis_deviated_def attitude_stick_deviated_def companion_yaw_def command_manager_new_def
        saturating_add_def)
  have "active (cc_qz (offboard_command companion_yaw))" by (simp add: companion_yaw_def)
  from forced_attitude_mislabels_yaw [OF refl rc_new_getters(1) d this] show ?thesis by (simp add: companion_yaw_def)
qed

lemma idle_not_in_failsafe: "\<not> is_in_failsafe (after_health rc_new 1000 p idle_manager)"
  using rc_new_silent
  by (simp add: after_health_def idle_manager_def is_in_failsafe_def machine_manager_update sm_update_def)

theorem silent_companion_loses_control_witness:
  "\<not> is_offboard_active (run_manager command_manager_new 1000 zero_params rc_new idle_manager)"
proof -
  have "last_offboard_command_us command_manager_new + offboard_timeout_us zero_params < ucast (1000 :: u32) * 1000"
    by (simp add: command_manager_new_def offboard_timeout_us_def)
  from silent_companion_loses_control [OF idle_not_in_failsafe this refl] show ?thesis by blast
qed

lemma armed_in_failsafe: "is_in_failsafe (after_health rc_new 1000 p armed_manager)"
proof -
  have "machine armed_manager = Armed 0"
    by (simp add: armed_manager_def ready_manager_eq manager_update_def sm_update_def arming_attempt_can_transition_def
        arming_safety_allows_arm_def arm_from_preflight_def)
  then show ?thesis using rc_new_silent
    by (simp add: after_health_def is_in_failsafe_def machine_manager_update sm_update_def armed_on_event_def)
qed

lemma zero_not_fixed_wing: "\<not> is_fixed_wing zero_params"
  by (simp add: is_fixed_wing_def)


definition nan_params :: params where
  "nan_params = set_by_id (set_by_id zero_params PARAM_RC_F_AXIS (PInt 2)) PARAM_FAILSAFE_THROTTLE (PFloat flt_nan)"

theorem failsafe_throttle_check_witness:
  "\<not> flags_contain (get_errors (snd (update_failsafe_config command_manager_new nan_params idle_manager))) INVALID_FAILSAFE"
proof -
  have n: "is_nan (flt_nan :: f32)" by (rule f32.not_nan_nan)
  have p: "\<not> is_fixed_wing nan_params" "int_param_or nan_params PARAM_RC_F_AXIS 2 \<notin> {0, 1}"
    "float_param_or nan_params PARAM_FAILSAFE_THROTTLE 0 = flt_nan"
    by (simp_all add: nan_params_def is_fixed_wing_def int_param_set_def int_param_or_def float_param_or_def
        get_by_id_def set_by_id_def zero_params_def)
  from failsafe_throttle_check [OF p(1,2), of command_manager_new idle_manager]
  have "is_nan (float_param_or nan_params PARAM_FAILSAFE_THROTTLE 0) \<longrightarrow>
    \<not> flags_contain (get_errors (snd (update_failsafe_config command_manager_new nan_params idle_manager))) INVALID_FAILSAFE"
    by blast
  then show ?thesis using n p(3) by simp
qed

definition lockout_params :: params where
  "lockout_params = set_by_id (set_by_id zero_params PARAM_EST_ANGLE_LOCKOUT (PInt 1)) PARAM_RC_ATTITUDE_MODE (PInt 1)"

lemma lockout_param_values: "\<not> is_fixed_wing lockout_params" "estimator_angle_lockout_enabled lockout_params"
  "\<not> param_rc_attitude_mode_is_rate lockout_params" "int_param_or lockout_params PARAM_OVERRIDE_LAG_TIME 200 = 0"
  "float_param_or lockout_params PARAM_RC_OVERRIDE_DEVIATION (flt_lit 1 10) = flt_lit 1 10"
  "int_param_or lockout_params PARAM_OFFBOARD_TIMEOUT 100 = 0"
  by (simp_all add: lockout_params_def is_fixed_wing_def int_param_set_def estimator_angle_lockout_enabled_def
      param_rc_attitude_mode_is_rate_def int_param_or_def float_param_or_def get_by_id_def set_by_id_def
      zero_params_def ATTITUDE_RATE_MODE_def)

definition unhealthy_manager :: state_manager where
  "unhealthy_manager = idle_manager\<lparr>machine := ErrorPresent UNHEALTHY_ESTIMATOR\<rparr>"

definition new_frame_rc :: rc where
  "new_frame_rc = rc_new\<lparr>rc_new_command := True, stick_values := [1, 0, 0, 0]\<rparr>"

lemma new_frame_getters: "rc_new_command new_frame_rc" "\<not> switch_mapped new_frame_rc w" "\<not> att_override_on new_frame_rc"
  "rc_stick new_frame_rc StickX = 1" "rc_angle_mode_selected lockout_params new_frame_rc"
proof -
  have m: "\<not> switch_mapped new_frame_rc w" for w
    using rc_new_getters(4) [of w] by (simp add: new_frame_rc_def switch_mapped_def)
  show "\<not> switch_mapped new_frame_rc w" "\<not> att_override_on new_frame_rc"
    "rc_angle_mode_selected lockout_params new_frame_rc"
    by (simp_all add: m att_override_on_def rc_angle_mode_selected_def lockout_param_values)
  show "rc_new_command new_frame_rc" "rc_stick new_frame_rc StickX = 1"
    by (simp_all add: new_frame_rc_def rc_stick_def)
qed

lemma unhealthy_after: "\<not> is_in_failsafe (after_health new_frame_rc 1000 p unhealthy_manager)"
  "flags_contain (get_errors (after_health new_frame_rc 1000 p unhealthy_manager)) UNHEALTHY_ESTIMATOR"
  by (simp_all add: after_health_def unhealthy_manager_def is_in_failsafe_def get_errors_def machine_manager_update
      sm_update_def error_present_on_event_def flags_contain_def flag_defs)

theorem unhealthy_estimator_locks_angle_mode_witness:
  "control_type (cc_qx (combined_command (run_manager command_manager_new 1000 lockout_params new_frame_rc unhealthy_manager))) \<noteq> CtAngle"
proof -
  have "rc_attitude_source_requested (update_offboard_timeout command_manager_new (ucast (1000 :: u32) * 1000) lockout_params) new_frame_rc"
    by (simp add: rc_attitude_source_requested_def update_offboard_timeout_def command_manager_new_def
        combined_control_default_def control_channel_default_def deactivate_all_def)
  then show ?thesis
    using unhealthy_estimator_locks_angle_mode [OF lockout_param_values(1,2) new_frame_getters(1) unhealthy_after, of command_manager_new]
    by blast
qed

theorem stick_override_bypasses_lockout_witness:
  "control_type (cc_qx (combined_command (run_manager companion_yaw 1000 lockout_params new_frame_rc unhealthy_manager))) = CtAngle
    \<and> estimator_angle_lockout_enabled lockout_params
    \<and> flags_contain (get_errors (after_health new_frame_rc 1000 lockout_params unhealthy_manager)) UNHEALTHY_ESTIMATOR"
proof -
  have u: "update_offboard_timeout companion_yaw (ucast (1000 :: u32) * 1000) lockout_params = companion_yaw"
    by (simp add: update_offboard_timeout_def companion_yaw_def offboard_timeout_us_def lockout_param_values)
  have one: "\<not> \<bar>1\<bar> \<le> (flt_lit 1 10 :: f32)" by (simp add: flt_eval)
  have "axis_deviated companion_yaw lockout_params new_frame_rc 1000 StickX"
    using one by (simp add: axis_deviated_def attitude_stick_deviated_def new_frame_getters lockout_param_values)
  moreover have "\<not> rc_attitude_source_requested companion_yaw new_frame_rc" "\<not> offboard_angle_requested companion_yaw"
    "lock_state (rc_angle_mode_lockout companion_yaw) = LockInactive"
    by (simp_all add: rc_attitude_source_requested_def offboard_angle_requested_def companion_yaw_def new_frame_getters
        command_manager_new_def lockout_default_def)
  ultimately show ?thesis
    using stick_override_bypasses_lockout [OF lockout_param_values(1) new_frame_getters(1) unhealthy_after(1) u [symmetric]]
      new_frame_getters(5) unhealthy_after(2) lockout_param_values(2) by simp
qed

definition still_angle :: lockout_input where
  "still_angle = \<lparr>li_fixed_wing = False, li_estimator_unhealthy = False, li_offboard_angle_requested = False,
     li_rc_angle_requested = True, li_rc_attitude_source_requested = True, li_att_type_switch_mapped = True,
     li_att_type_switch_rate = False, li_param_mode_rate = False\<rparr>"

theorem lockout_held_until_switch_reset_witness:
  "list_all force_rc_rate (lockout_outputs \<lparr>lock_state = SwitchResetRequired False False, denial_active = True\<rparr>
     [still_angle, still_angle, still_angle])"
  by (rule lockout_held_until_switch_reset [of _ False False]) (simp_all add: still_angle_def Let_def)

end
