(* ===== verification/Rc_Command_State.thy ===== *)
theory Rc_Command_State
  imports Command_Safety Param_Service
begin

text \<open>
  One pass of radio, command manager and state machine, \<^verbatim>\<open>rc/command_state.rs\<close>: a fresh
  packet is received and run, the command manager runs, a forced rate mode is written back
  to the parameter, and the state machine settles. The properties of this theory span the
  three components.
\<close>

record rc_pass =
  pass_rc :: rc
  pass_command :: command_manager
  pass_state :: state_manager
  pass_params :: params
  pass_events :: "param_event_queues option"

definition force_rate_param :: "params \<Rightarrow> param_event_queues option \<Rightarrow> params \<times> param_event_queues option" where
  "force_rate_param p ev = (case ev of
     Some q \<Rightarrow> (let (p', ch) = set_param_and_emit_change p (changes q) PARAM_RC_ATTITUDE_MODE (PInt ATTITUDE_RATE_MODE)
       in (p', Some (q\<lparr>changes := ch\<rparr>)))
   | None \<Rightarrow> (set_by_id p PARAM_RC_ATTITUDE_MODE (PInt ATTITUDE_RATE_MODE), None))"

definition run_rc_command_state :: "u32 \<Rightarrow> rc_packet option \<Rightarrow> rc_pass \<Rightarrow> rc_pass" where
  "run_rc_command_state now_ms fresh w =
    (let (r1, s1) = (case fresh of
           Some packet \<Rightarrow> rc_run (rc_receive (pass_rc w) packet) now_ms (pass_params w) (pass_state w)
         | None \<Rightarrow> (pass_rc w, pass_state w));
         (force, cm, r2, s2) = command_run (pass_command w) now_ms (pass_params w) r1 s1;
         (p, ev) = (if force then force_rate_param (pass_params w) (pass_events w) else (pass_params w, pass_events w))
     in \<lparr>pass_rc = r2, pass_command = cm, pass_state = fst (manager_run s2 p), pass_params = p, pass_events = ev\<rparr>)"

section \<open>Arming\<close>

lemma command_run_state: "snd (snd (snd (command_run cm now p r s))) = after_health r now p s"
  by (simp add: command_run_def after_health_def Let_def case_prod_beta)

lemma manager_run_does_not_arm: "\<not> is_armed s \<Longrightarrow> \<not> is_armed (fst (manager_run s p))"
  using event_does_not_arm by (simp add: manager_run_def)

lemma after_health_does_not_arm: "\<not> is_armed s \<Longrightarrow> \<not> is_armed (after_health r now p s)"
  using event_does_not_arm by (simp add: after_health_def)

text \<open>What a pass does to the state machine and the command, without the parameters it may write.\<close>

lemma pass_eq:
  fixes now fresh w
  defines "rs \<equiv> (case fresh of
           Some packet \<Rightarrow> rc_run (rc_receive (pass_rc w) packet) now (pass_params w) (pass_state w)
         | None \<Rightarrow> (pass_rc w, pass_state w))"
  shows "\<exists>p'. pass_state (run_rc_command_state now fresh w)
      = fst (manager_run (after_health (fst rs) now (pass_params w) (snd rs)) p')"
    "pass_command (run_rc_command_state now fresh w) = run_manager (pass_command w) now (pass_params w) (fst rs) (snd rs)"
proof -
  obtain f cm r2 st where c: "command_run (pass_command w) now (pass_params w) (fst rs) (snd rs) = (f, cm, r2, st)"
    by (cases "command_run (pass_command w) now (pass_params w) (fst rs) (snd rs)")
  have st: "st = after_health (fst rs) now (pass_params w) (snd rs)"
    using command_run_state [of "pass_command w" now "pass_params w" "fst rs" "snd rs"] by (simp add: c)
  have rs: "(case fresh of Some packet \<Rightarrow> rc_run (rc_receive (pass_rc w) packet) now (pass_params w) (pass_state w)
         | None \<Rightarrow> (pass_rc w, pass_state w)) = (fst rs, snd rs)" by (simp add: rs_def)
  show "\<exists>p'. pass_state (run_rc_command_state now fresh w)
      = fst (manager_run (after_health (fst rs) now (pass_params w) (snd rs)) p')"
    unfolding run_rc_command_state_def rs by (auto simp: c st case_prod_beta)
  show "pass_command (run_rc_command_state now fresh w) = run_manager (pass_command w) now (pass_params w) (fst rs) (snd rs)"
    unfolding run_rc_command_state_def rs by (simp add: c case_prod_beta)
qed

text \<open>
  C3. A pass arms the vehicle only when it is given a packet that is not marked as lost and
  makes the handler healthy, with the throttle stick below the arming threshold, with the
  throttle override active (or \<^verbatim>\<open>TAKE_MIN_THR\<close> set), and with the arming switch on or the
  yaw stick held: an old frame never arms, and neither the command manager nor the settling
  of the state machine does.
\<close>

theorem pass_arms_only_on_fresh_frame:
  assumes "\<not> is_armed (pass_state w)" "is_armed (pass_state (run_rc_command_state now fresh w))"
  shows "\<exists>packet r'. fresh = Some packet \<and> \<not> lol packet
    \<and> r' = fst (rc_run (rc_receive (pass_rc w) packet) now (pass_params w) (pass_state w))
    \<and> check_rc_health (rc_receive (pass_rc w) packet) (ucast now * 1000) (pass_params w)
    \<and> rc_stick r' StickF < rc_arm_threshold (pass_params w)
    \<and> (int_param_set (pass_params w) PARAM_RC_OVERRIDE_TAKE_MIN_THROTTLE \<or> throttle_override_on r')
    \<and> (if switch_mapped r' SwitchArm then switch_on r' SwitchArm
       else 1 - rc_arm_threshold (pass_params w) < rc_stick r' StickZ \<and> 1000 < arming_position_ms r')"
proof -
  let ?rs = "case fresh of
           Some packet \<Rightarrow> rc_run (rc_receive (pass_rc w) packet) now (pass_params w) (pass_state w)
         | None \<Rightarrow> (pass_rc w, pass_state w)"
  have a: "is_armed (snd ?rs)"
  proof (rule ccontr)
    assume "\<not> is_armed (snd ?rs)"
    then have "\<not> is_armed (pass_state (run_rc_command_state now fresh w))"
      using pass_eq(1) [of now fresh w] manager_run_does_not_arm [OF after_health_does_not_arm] by fastforce
    with assms(2) show False by simp
  qed
  then obtain packet where f: "fresh = Some packet" using assms(1) by (cases fresh) auto
  obtain r' s' where run: "rc_run (rc_receive (pass_rc w) packet) now (pass_params w) (pass_state w) = (r', s')"
    by fastforce
  have "is_armed s'" using a by (simp add: f run)
  note c = rc_run_arms [OF assms(1) run this]
  moreover have "\<not> lol packet"
    using conjunct1 [OF c] by (auto simp: check_rc_health_def rc_receive_def Let_def split: if_splits)
  ultimately show ?thesis using f run by auto
qed

section \<open>A lost radio\<close>

lemma health_new_command [simp]: "check_rc_health (r\<lparr>rc_new_command := b\<rparr>) t p = check_rc_health r t p"
  by (simp add: check_rc_health_def)

lemma manager_run_in_failsafe:
  assumes "is_armed s" "is_in_failsafe s" "flags_contain (get_errors s) RC_LOST"
  shows "is_armed (fst (manager_run s p)) \<and> is_in_failsafe (fst (manager_run s p))"
proof -
  have "get_errors s \<noteq> 0" using assms(3) by (auto simp: flags_contain_RC_LOST)
  then show ?thesis using assms(1,2)
    by (cases "machine s")
       (simp_all add: manager_run_def is_armed_def is_in_failsafe_def machine_manager_update sm_update_def on_event_defs)
qed

text \<open>
  C4. When an armed multirotor has no healthy frame, because the last one is older than half a
  second or because the received one is lost, short or out of range, one pass puts it in
  failsafe: it stays armed and its combined command is the level failsafe command.
\<close>

theorem lost_radio_flies_failsafe:
  assumes "is_armed (pass_state w)" "manager_of_multirotor (pass_command w)" "\<not> is_fixed_wing (pass_params w)"
    and "r = (case fresh of Some packet \<Rightarrow> rc_receive (pass_rc w) packet | None \<Rightarrow> pass_rc w)"
    and "\<not> check_rc_health r (ucast now * 1000) (pass_params w)"
    and "w' = run_rc_command_state now fresh w"
  shows "is_armed (pass_state w') \<and> is_in_failsafe (pass_state w') \<and> failsafe_ok (combined_command (pass_command w'))"
proof -
  define rs where "rs = (case fresh of
           Some packet \<Rightarrow> rc_run (rc_receive (pass_rc w) packet) now (pass_params w) (pass_state w)
         | None \<Rightarrow> (pass_rc w, pass_state w))"
  have h: "\<not> check_rc_health (fst rs) (ucast now * 1000) (pass_params w)" and a: "is_armed (snd rs)"
    using assms(1,4,5) lost_event(1) by (auto simp: rs_def rc_run_def Let_def split: option.splits)
  let ?s = "after_health (fst rs) now (pass_params w) (snd rs)"
  have s: "is_armed ?s" "is_in_failsafe ?s" "flags_contain (get_errors ?s) RC_LOST"
    using h lost_event [of "snd rs"] a by (simp_all add: after_health_def)
  have "is_armed (pass_state w') \<and> is_in_failsafe (pass_state w')"
    using pass_eq(1) [of now fresh w, folded rs_def] manager_run_in_failsafe [OF s] by (auto simp: assms(6))
  moreover have "failsafe_ok (combined_command (pass_command w'))"
    using pass_eq(2) [of now fresh w, folded rs_def] multirotor_failsafe_ok [OF assms(2)] assms(3) s(2)
    by (simp add: assms(6) run_manager_eq)
  ultimately show ?thesis by blast
qed

section \<open>Witnesses\<close>

lemma health_after_run: "check_rc_health (fst (rc_run r now p s)) t q = check_rc_health r t q"
proof -
  have "rc_raw (fst (look_for_arm_disarm_signal x now p y)) = rc_raw x" for x y
    by (simp add: look_for_arm_disarm_signal_def look_for_stick_signal_def Let_def)
  then have "rc_raw (fst (rc_run r now p s)) = rc_raw r"
    by (simp add: rc_run_def Let_def process_sticks_and_switches_def)
  then show ?thesis by (simp add: check_rc_health_def)
qed

definition idle_pass :: rc_pass where
  "idle_pass = \<lparr>pass_rc = rc_init rc_new arming_params, pass_command = command_manager_new,
     pass_state = idle_manager, pass_params = arming_params, pass_events = None\<rparr>"

lemma idle_pass_arms: "is_armed (pass_state (run_rc_command_state 5000 (Some arming_packet) idle_pass))"
proof -
  have h: "check_rc_health (fst (rc_run arming_rc 5000 arming_params idle_manager)) (ucast (5000 :: u32) * 1000) arming_params"
    unfolding health_after_run by (rule arming_healthy)
  obtain p' where "pass_state (run_rc_command_state 5000 (Some arming_packet) idle_pass)
      = fst (manager_run (snd (rc_run arming_rc 5000 arming_params idle_manager)) p')"
    using pass_eq(1) [of 5000 "Some arming_packet" idle_pass] h
    by (auto simp: idle_pass_def arming_rc_def after_health_def)
  then show ?thesis using arming_run_arms
    by (auto simp: manager_run_def is_armed_def machine_manager_update sm_update_stays_armed)
qed

theorem pass_arms_only_on_fresh_frame_witness:
  "\<exists>packet. Some arming_packet = Some packet \<and> \<not> lol packet"
  using pass_arms_only_on_fresh_frame [OF _ idle_pass_arms] idle_not_armed by (auto simp: idle_pass_def)

theorem lost_radio_flies_failsafe_witness:
  "failsafe_ok (combined_command (pass_command (run_rc_command_state 1000 None
     \<lparr>pass_rc = rc_new, pass_command = command_manager_new, pass_state = armed_manager,
       pass_params = zero_params, pass_events = None\<rparr>)))"
  using lost_radio_flies_failsafe [of "\<lparr>pass_rc = rc_new, pass_command = command_manager_new, pass_state = armed_manager,
       pass_params = zero_params, pass_events = None\<rparr>" rc_new None 1000, OF _ _ _ _ _ refl]
    rc_new_silent ready_manager_arms(1) mr_new zero_not_fixed_wing by (simp add: armed_manager_def)

end
