(* ===== verification/Command_Service.thy ===== *)
theory Command_Service
  imports Command Param_Service
begin

text \<open>
  The command requests of the companion, \<^verbatim>\<open>command/service.rs\<close>: calibrations, offboard
  commands, parameter defaults, RC trim, board commands, version and the two unsupported
  requests, each answered through the response queue. The board and the trim calculation of
  the controller are behind traits, so they are arguments of the operations. The
  calibration flags of \<^verbatim>\<open>sensors/processors.rs\<close> are here because these requests set them.
\<close>

section \<open>Calibration flags\<close>

type_synonym calibration_flags = u16

definition CAL_GYRO :: calibration_flags where "CAL_GYRO = 1"
definition CAL_ACCEL :: calibration_flags where "CAL_ACCEL = 2"
definition CAL_BARO :: calibration_flags where "CAL_BARO = 4"
definition CAL_PITOT :: calibration_flags where "CAL_PITOT = 8"
definition CAL_GYRO_FAILED :: calibration_flags where "CAL_GYRO_FAILED = 16"
definition CAL_ACCEL_FAILED :: calibration_flags where "CAL_ACCEL_FAILED = 32"
definition CAL_BARO_FAILED :: calibration_flags where "CAL_BARO_FAILED = 64"
definition CAL_PITOT_FAILED :: calibration_flags where "CAL_PITOT_FAILED = 128"
definition CAL_IMU :: calibration_flags where "CAL_IMU = CAL_GYRO OR CAL_ACCEL"

lemmas calibration_flag_defs = CAL_GYRO_def CAL_ACCEL_def CAL_BARO_def CAL_PITOT_def CAL_GYRO_FAILED_def
  CAL_ACCEL_FAILED_def CAL_BARO_FAILED_def CAL_PITOT_FAILED_def CAL_IMU_def

section \<open>Context\<close>

text \<open>What \<^verbatim>\<open>BoardIo\<close> and \<^verbatim>\<open>RcTrimCalibrator\<close> are asked for here.\<close>

record ('b, 'c) command_io =
  io_reboot :: "'b \<Rightarrow> bool \<times> 'b"
  io_reboot_to_bootloader :: "'b \<Rightarrow> bool \<times> 'b"
  io_read_params :: "'b \<Rightarrow> params \<Rightarrow> bool \<times> params \<times> 'b"
  io_write_params :: "'b \<Rightarrow> params \<Rightarrow> bool \<times> 'b"
  io_trim_torques :: "'c \<Rightarrow> combined_control \<Rightarrow> params \<Rightarrow> f32 list \<times> 'c"

record ('b, 'c) command_ctx =
  cx_requests :: command_event_queues
  cx_param_events :: param_event_queues
  cx_comm :: comm_event_queues
  cx_state :: state_manager
  cx_command :: command_manager
  cx_controller :: 'c
  cx_board :: 'b
  cx_flags :: calibration_flags
  cx_params :: params

definition cmd_ack :: "rosflight_cmd \<Rightarrow> rosflight_cmd_response \<Rightarrow> comm_response" where
  "cmd_ack cmd success = RespCmdAck \<lparr>ack_command = cmd, ack_success = success\<rparr>"

definition emit_cmd_ack :: "rosflight_cmd \<Rightarrow> rosflight_cmd_response \<Rightarrow> ('b, 'c) command_ctx \<Rightarrow> ('b, 'c) command_ctx" where
  "emit_cmd_ack cmd success c = c\<lparr>cx_comm := push_response (cx_comm c) (cmd_ack cmd success)\<rparr>"

definition set_and_emit :: "param_id \<Rightarrow> param_value \<Rightarrow> ('b, 'c) command_ctx \<Rightarrow> ('b, 'c) command_ctx" where
  "set_and_emit pid v c =
    (let (p, ch) = set_param_and_emit_change (cx_params c) (changes (cx_param_events c)) pid v
     in c\<lparr>cx_params := p, cx_param_events := (cx_param_events c)\<lparr>changes := ch\<rparr>\<rparr>)"

definition zero_gyro_biases :: "('b, 'c) command_ctx \<Rightarrow> ('b, 'c) command_ctx" where
  "zero_gyro_biases c = set_and_emit PARAM_GYRO_Z_BIAS (PFloat 0)
     (set_and_emit PARAM_GYRO_Y_BIAS (PFloat 0) (set_and_emit PARAM_GYRO_X_BIAS (PFloat 0) c))"

definition zero_accel_biases :: "('b, 'c) command_ctx \<Rightarrow> ('b, 'c) command_ctx" where
  "zero_accel_biases c = set_and_emit PARAM_ACC_Z_BIAS (PFloat 0)
     (set_and_emit PARAM_ACC_Y_BIAS (PFloat 0) (set_and_emit PARAM_ACC_X_BIAS (PFloat 0) c))"

definition change_flags :: "calibration_flags \<Rightarrow> calibration_flags \<Rightarrow> ('b, 'c) command_ctx \<Rightarrow> ('b, 'c) command_ctx" where
  "change_flags removed inserted c = c\<lparr>cx_flags := flags_remove (cx_flags c) removed OR inserted\<rparr>"

section \<open>One request\<close>

definition apply_calibration_request :: "calibration_requested \<Rightarrow> ('b, 'c) command_ctx \<Rightarrow> ('b, 'c) command_ctx" where
  "apply_calibration_request req c =
    (let cmd = cal_command req in
     if is_armed (cx_state c) then emit_cmd_ack cmd RosflightCmdFailed c
     else emit_cmd_ack cmd RosflightCmdSuccess (case cmd of
       AccelCalibration \<Rightarrow> zero_accel_biases (zero_gyro_biases
         (change_flags (CAL_GYRO_FAILED OR CAL_ACCEL_FAILED) CAL_IMU c))
     | GyroCalibration \<Rightarrow> zero_gyro_biases (change_flags CAL_GYRO_FAILED CAL_GYRO c)
     | BaroCalibration \<Rightarrow> change_flags CAL_BARO_FAILED CAL_BARO c
     | AirspeedCalibration \<Rightarrow> set_and_emit PARAM_DIFF_PRESS_BIAS (PFloat 0)
         (change_flags CAL_PITOT_FAILED CAL_PITOT c)
     | _ \<Rightarrow> c))"

definition apply_offboard_control_request :: "offboard_control_requested \<Rightarrow> ('b, 'c) command_ctx \<Rightarrow> ('b, 'c) command_ctx" where
  "apply_offboard_control_request req c =
    c\<lparr>cx_command := set_new_offboard_command (cx_command c) (ocr_now_us req) (ocr_msg req)\<rparr>"

definition apply_param_defaults_request :: "param_defaults_requested \<Rightarrow> ('b, 'c) command_ctx \<Rightarrow> ('b, 'c) command_ctx" where
  "apply_param_defaults_request req c =
    (if is_armed (cx_state c) then emit_cmd_ack (pdr_command req) RosflightCmdFailed c
     else emit_cmd_ack (pdr_command req) RosflightCmdSuccess
       (c\<lparr>cx_params := set_defaults (cx_params c), cx_param_events := mark_all_params_changed (cx_param_events c)\<rparr>))"

definition apply_rc_trim_calibration_request :: "('b, 'c) command_io \<Rightarrow> rc_trim_calibration_requested
    \<Rightarrow> ('b, 'c) command_ctx \<Rightarrow> ('b, 'c) command_ctx" where
  "apply_rc_trim_calibration_request io req c =
    (if is_armed (cx_state c) then emit_cmd_ack (rtc_command req) RosflightCmdFailed c
     else
      (let (torques, ctl) = io_trim_torques io (cx_controller c) (rc_command (cx_command c)) (cx_params c);
           add = (\<lambda>pid t c. set_and_emit pid (PFloat (float_param_or (cx_params c) pid 0 + t)) c)
       in emit_cmd_ack (rtc_command req) RosflightCmdSuccess
         (add PARAM_Z_EQ_TORQUE (torques ! 2) (add PARAM_Y_EQ_TORQUE (torques ! 1)
           (add PARAM_X_EQ_TORQUE (torques ! 0) (c\<lparr>cx_controller := ctl\<rparr>))))))"

definition board_result :: "bool \<Rightarrow> rosflight_cmd_response" where
  "board_result completed = (if completed then RosflightCmdSuccess else RosflightCmdFailed)"

definition apply_board_command_request :: "('b, 'c) command_io \<Rightarrow> board_command_requested
    \<Rightarrow> ('b, 'c) command_ctx \<Rightarrow> ('b, 'c) command_ctx" where
  "apply_board_command_request io req c =
    (let cmd = bcr_command req in
     if is_armed (cx_state c) then emit_cmd_ack cmd RosflightCmdFailed c
     else (case cmd of
       Reboot \<Rightarrow> (let c1 = emit_cmd_ack cmd RosflightCmdSuccess c
         in c1\<lparr>cx_board := snd (io_reboot io (cx_board c1))\<rparr>)
     | RebootToBootloader \<Rightarrow> (let c1 = emit_cmd_ack cmd RosflightCmdSuccess c
         in c1\<lparr>cx_board := snd (io_reboot_to_bootloader io (cx_board c1))\<rparr>)
     | ReadParams \<Rightarrow>
        (let (completed, p, b) = io_read_params io (cx_board c) (cx_params c);
             c1 = c\<lparr>cx_params := p, cx_board := b\<rparr>
         in emit_cmd_ack cmd (board_result completed) (if completed
           then c1\<lparr>cx_param_events := mark_all_params_changed (cx_param_events c1)\<rparr> else c1))
     | WriteParams \<Rightarrow>
        (let (completed, b) = io_write_params io (cx_board c) (cx_params c)
         in emit_cmd_ack cmd (board_result completed) (c\<lparr>cx_board := b\<rparr>))
     | _ \<Rightarrow> emit_cmd_ack cmd RosflightCmdFailed c))"

definition version_bytes :: "u8 list" where
  "version_bytes = (let s = string_bytes ''v2.0.0-veloxity-1.0''; len = min (length s) 50
     in take len s @ replicate (50 - len) 0)"

definition apply_version_request :: "version_requested \<Rightarrow> ('b, 'c) command_ctx \<Rightarrow> ('b, 'c) command_ctx" where
  "apply_version_request req c =
    (if is_armed (cx_state c) then emit_cmd_ack (vr_command req) RosflightCmdFailed c
     else emit_cmd_ack (vr_command req) RosflightCmdSuccess
       (c\<lparr>cx_comm := push_response (cx_comm c) (RespVersion version_bytes)\<rparr>))"

definition apply_reset_origin_request :: "reset_origin_requested \<Rightarrow> ('b, 'c) command_ctx \<Rightarrow> ('b, 'c) command_ctx" where
  "apply_reset_origin_request req c = emit_cmd_ack (ror_command req) RosflightCmdFailed c"

definition apply_config_info_request :: "config_info_requested \<Rightarrow> ('b, 'c) command_ctx \<Rightarrow> ('b, 'c) command_ctx" where
  "apply_config_info_request req c = emit_cmd_ack (cir_command req) RosflightCmdFailed c"

section \<open>The queues\<close>

definition apply_calibration_requests :: "('b, 'c) command_ctx \<Rightarrow> ('b, 'c) command_ctx" where
  "apply_calibration_requests c =
    (let (q, c') = drain apply_calibration_request (calibration_requests (cx_requests c)) c
     in c'\<lparr>cx_requests := (cx_requests c')\<lparr>calibration_requests := q\<rparr>\<rparr>)"

definition apply_offboard_control_requests :: "('b, 'c) command_ctx \<Rightarrow> ('b, 'c) command_ctx" where
  "apply_offboard_control_requests c =
    (let (q, c') = drain apply_offboard_control_request (offboard_control_requests (cx_requests c)) c
     in c'\<lparr>cx_requests := (cx_requests c')\<lparr>offboard_control_requests := q\<rparr>\<rparr>)"

definition apply_param_defaults_requests :: "('b, 'c) command_ctx \<Rightarrow> ('b, 'c) command_ctx" where
  "apply_param_defaults_requests c =
    (let (q, c') = drain apply_param_defaults_request (param_defaults_requests (cx_requests c)) c
     in c'\<lparr>cx_requests := (cx_requests c')\<lparr>param_defaults_requests := q\<rparr>\<rparr>)"

definition apply_rc_trim_calibration_requests :: "('b, 'c) command_io \<Rightarrow> ('b, 'c) command_ctx \<Rightarrow> ('b, 'c) command_ctx" where
  "apply_rc_trim_calibration_requests io c =
    (let (q, c') = drain (apply_rc_trim_calibration_request io) (rc_trim_calibration_requests (cx_requests c)) c
     in c'\<lparr>cx_requests := (cx_requests c')\<lparr>rc_trim_calibration_requests := q\<rparr>\<rparr>)"

definition apply_board_command_requests :: "('b, 'c) command_io \<Rightarrow> ('b, 'c) command_ctx \<Rightarrow> ('b, 'c) command_ctx" where
  "apply_board_command_requests io c =
    (let (q, c') = drain (apply_board_command_request io) (board_command_requests (cx_requests c)) c
     in c'\<lparr>cx_requests := (cx_requests c')\<lparr>board_command_requests := q\<rparr>\<rparr>)"

definition apply_version_requests :: "('b, 'c) command_ctx \<Rightarrow> ('b, 'c) command_ctx" where
  "apply_version_requests c =
    (let (q, c') = drain apply_version_request (version_requests (cx_requests c)) c
     in c'\<lparr>cx_requests := (cx_requests c')\<lparr>version_requests := q\<rparr>\<rparr>)"

definition apply_reset_origin_requests :: "('b, 'c) command_ctx \<Rightarrow> ('b, 'c) command_ctx" where
  "apply_reset_origin_requests c =
    (let (q, c') = drain apply_reset_origin_request (reset_origin_requests (cx_requests c)) c
     in c'\<lparr>cx_requests := (cx_requests c')\<lparr>reset_origin_requests := q\<rparr>\<rparr>)"

definition apply_config_info_requests :: "('b, 'c) command_ctx \<Rightarrow> ('b, 'c) command_ctx" where
  "apply_config_info_requests c =
    (let (q, c') = drain apply_config_info_request (config_info_requests (cx_requests c)) c
     in c'\<lparr>cx_requests := (cx_requests c')\<lparr>config_info_requests := q\<rparr>\<rparr>)"

definition apply_command_requests :: "('b, 'c) command_io \<Rightarrow> ('b, 'c) command_ctx \<Rightarrow> ('b, 'c) command_ctx" where
  "apply_command_requests io c =
    apply_config_info_requests (apply_reset_origin_requests (apply_version_requests
      (apply_board_command_requests io (apply_rc_trim_calibration_requests io
        (apply_param_defaults_requests (apply_offboard_control_requests
          (apply_calibration_requests c)))))))"

section \<open>An armed vehicle\<close>

text \<open>Handlers that only answer: a drain of such a handler appends its answers.\<close>

definition answers :: "(('b, 'c) command_ctx \<Rightarrow> bool) \<Rightarrow> ('e \<Rightarrow> ('b, 'c) command_ctx \<Rightarrow> ('b, 'c) command_ctx)
    \<Rightarrow> ('e \<Rightarrow> rosflight_cmd) \<Rightarrow> bool" where
  "answers P handler cmd \<longleftrightarrow> (\<forall>e c. P c \<longrightarrow> handler e c = emit_cmd_ack (cmd e) RosflightCmdFailed c)"

definition refusals :: "rosflight_cmd list \<Rightarrow> ('b, 'c) command_ctx \<Rightarrow> ('b, 'c) command_ctx" where
  "refusals cmds c = c\<lparr>cx_comm := fold (\<lambda>cmd q. push_response q (cmd_ack cmd RosflightCmdFailed)) cmds (cx_comm c)\<rparr>"

lemma refusals_Nil [simp]: "refusals [] c = c"
  by (simp add: refusals_def)

lemma refusals_append: "refusals b (refusals a c) = refusals (a @ b) c"
  by (simp add: refusals_def)

lemma refusals_state [simp]: "cx_state (refusals cmds c) = cx_state c" "cx_requests (refusals cmds c) = cx_requests c"
  "cx_command (refusals cmds c) = cx_command c"
  "refusals cmds (c\<lparr>cx_requests := q\<rparr>) = (refusals cmds c)\<lparr>cx_requests := q\<rparr>"
  "refusals cmds (c\<lparr>cx_command := m\<rparr>) = (refusals cmds c)\<lparr>cx_command := m\<rparr>"
  by (simp_all add: refusals_def)

lemma armed_answers:
  "answers (\<lambda>c. is_armed (cx_state c)) apply_calibration_request cal_command"
  "answers (\<lambda>c. is_armed (cx_state c)) apply_param_defaults_request pdr_command"
  "answers (\<lambda>c. is_armed (cx_state c)) (apply_rc_trim_calibration_request io) rtc_command"
  "answers (\<lambda>c. is_armed (cx_state c)) (apply_board_command_request io) bcr_command"
  "answers (\<lambda>c. is_armed (cx_state c)) apply_version_request vr_command"
  "answers (\<lambda>c. is_armed (cx_state c)) apply_reset_origin_request ror_command"
  "answers (\<lambda>c. is_armed (cx_state c)) apply_config_info_request cir_command"
  by (simp_all add: answers_def apply_calibration_request_def apply_param_defaults_request_def
      apply_rc_trim_calibration_request_def apply_board_command_request_def apply_version_request_def
      apply_reset_origin_request_def apply_config_info_request_def Let_def)

lemma fold_answers:
  assumes "answers (\<lambda>c. is_armed (cx_state c)) handler cmd" "is_armed (cx_state c)"
  shows "fold handler es c = refusals (map cmd es) c"
  using assms(2)
proof (induction es arbitrary: c)
  case (Cons e es)
  have "handler e c = refusals [cmd e] c"
    using assms(1) Cons.prems by (simp add: answers_def emit_cmd_ack_def refusals_def)
  then show ?case using Cons by (simp add: refusals_append)
qed simp

definition pending_commands :: "command_event_queues \<Rightarrow> rosflight_cmd list" where
  "pending_commands q = map cal_command (eq_iter (calibration_requests q))
    @ map pdr_command (eq_iter (param_defaults_requests q)) @ map rtc_command (eq_iter (rc_trim_calibration_requests q))
    @ map bcr_command (eq_iter (board_command_requests q)) @ map vr_command (eq_iter (version_requests q))
    @ map ror_command (eq_iter (reset_origin_requests q)) @ map cir_command (eq_iter (config_info_requests q))"

lemma armed_drain:
  assumes "is_armed (cx_state c)"
  shows "drain apply_calibration_request q c = (eq_clear q, refusals (map cal_command (eq_iter q)) c)"
    "drain apply_param_defaults_request q' c = (eq_clear q', refusals (map pdr_command (eq_iter q')) c)"
    "drain (apply_rc_trim_calibration_request io) q2 c = (eq_clear q2, refusals (map rtc_command (eq_iter q2)) c)"
    "drain (apply_board_command_request io) q3 c = (eq_clear q3, refusals (map bcr_command (eq_iter q3)) c)"
    "drain apply_version_request q4 c = (eq_clear q4, refusals (map vr_command (eq_iter q4)) c)"
    "drain apply_reset_origin_request q5 c = (eq_clear q5, refusals (map ror_command (eq_iter q5)) c)"
    "drain apply_config_info_request q6 c = (eq_clear q6, refusals (map cir_command (eq_iter q6)) c)"
  by (simp_all add: drain_fold fold_answers [OF _ assms] armed_answers)

lemma offboard_drain:
  "fold apply_offboard_control_request es c
    = c\<lparr>cx_command := fold (\<lambda>e m. set_new_offboard_command m (ocr_now_us e) (ocr_msg e)) es (cx_command c)\<rparr>"
  by (induction es arbitrary: c) (simp_all add: apply_offboard_control_request_def)

lemma fold_push_responses:
  "eq_len (responses q) + length cmds \<le> dq_cap (responses q) \<Longrightarrow>
    eq_iter (responses (fold (\<lambda>cmd q. push_response q (cmd_ack cmd r)) cmds q))
      = eq_iter (responses q) @ map (\<lambda>cmd. cmd_ack cmd r) cmds"
proof (induction cmds arbitrary: q)
  case (Cons cmd cmds)
  then show ?case by (simp add: push_response_def eq_push_or_log_pair eq_len_def eq_iter_def eq_defs deque_defs)
qed simp

definition offboard_run :: "offboard_control_requested list \<Rightarrow> command_manager \<Rightarrow> command_manager" where
  "offboard_run es m = fold (\<lambda>e m. set_new_offboard_command m (ocr_now_us e) (ocr_msg e)) es m"

definition requests_cleared :: "command_event_queues \<Rightarrow> command_event_queues" where
  "requests_cleared q = q\<lparr>calibration_requests := eq_clear (calibration_requests q),
     offboard_control_requests := eq_clear (offboard_control_requests q),
     param_defaults_requests := eq_clear (param_defaults_requests q),
     board_command_requests := eq_clear (board_command_requests q),
     rc_trim_calibration_requests := eq_clear (rc_trim_calibration_requests q),
     version_requests := eq_clear (version_requests q), reset_origin_requests := eq_clear (reset_origin_requests q),
     config_info_requests := eq_clear (config_info_requests q)\<rparr>"

lemma armed_requests:
  assumes "is_armed (cx_state c)"
  shows "apply_command_requests io c = (refusals (pending_commands (cx_requests c)) c)
    \<lparr>cx_command := offboard_run (eq_iter (offboard_control_requests (cx_requests c))) (cx_command c),
      cx_requests := requests_cleared (cx_requests c)\<rparr>"
  using assms
  by (simp add: apply_command_requests_def apply_calibration_requests_def apply_offboard_control_requests_def
      apply_param_defaults_requests_def apply_rc_trim_calibration_requests_def apply_board_command_requests_def
      apply_version_requests_def apply_reset_origin_requests_def apply_config_info_requests_def
      armed_drain drain_fold [of apply_offboard_control_request] offboard_drain refusals_append Let_def pending_commands_def
      offboard_run_def requests_cleared_def)


text \<open>A board that would reboot, and an armed context with a queued reboot and a calibration.\<close>

definition stub_io :: "(nat, unit) command_io" where
  "stub_io = \<lparr>io_reboot = (\<lambda>n. (True, n + 1)), io_reboot_to_bootloader = (\<lambda>n. (True, n + 1)),
     io_read_params = (\<lambda>n p. (True, p, n + 1)), io_write_params = (\<lambda>n p. (True, n + 1)),
     io_trim_torques = (\<lambda>u m p. ([0, 0, 0], u))\<rparr>"

definition armed_context :: "(nat, unit) command_ctx" where
  "armed_context = \<lparr>cx_requests = command_event_queues_new\<lparr>
       board_command_requests := fst (eq_push (eq_new 4) \<lparr>bcr_command = Reboot\<rparr>),
       calibration_requests := fst (eq_push (eq_new 4) \<lparr>cal_command = GyroCalibration\<rparr>)\<rparr>,
     cx_param_events = param_event_queues_new, cx_comm = comm_event_queues_new, cx_state = armed_manager,
     cx_command = command_manager_new, cx_controller = (), cx_board = 0, cx_flags = 0, cx_params = params_new\<rparr>"


end
