(* ===== verification/Pwm.thy ===== *)
theory Pwm
  imports Mixer State_Machine
begin

text \<open>
  The outputs: the DSHOT frame and the output protocols of \<^verbatim>\<open>pwm.rs\<close>, the synchronisation of
  the enabled channels, the gate in front of the driver and the composition of the outputs
  of \<^verbatim>\<open>pwm/output_sync.rs\<close>, and the RP2350 driver of \<^verbatim>\<open>platforms/rp2350\<close>. The trait
  \<^verbatim>\<open>PwmDriver\<close> is a record of operations on the driver's state (with the board it flushes to
  in it); a result is the new state and the error, if any.
\<close>

section \<open>DSHOT\<close>

datatype pwm_error = ChannelOutOfRange | GenericError | InvalidRate | UnsupportedProtocol

datatype pwm_output_protocol = StandardPwm | Dshot

definition STANDARD_PWM_DEFAULT_RATE_HZ :: f32 where "STANDARD_PWM_DEFAULT_RATE_HZ = flt_lit 50 1"

record dshot_command =
  ds_throttle :: u16
  ds_telemetry :: bool

definition DSHOT_STOP :: u16 where "DSHOT_STOP = 0"
definition DSHOT_MIN_THROTTLE :: u16 where "DSHOT_MIN_THROTTLE = 48"
definition DSHOT_MAX_THROTTLE :: u16 where "DSHOT_MAX_THROTTLE = 2047"
definition DSHOT_FRAME_BITS :: nat where "DSHOT_FRAME_BITS = 16"

definition dshot_stop :: dshot_command where
  "dshot_stop = \<lparr>ds_throttle = DSHOT_STOP, ds_telemetry = False\<rparr>"

definition dshot_from_normalized :: "'r::len flt \<Rightarrow> dshot_command" where
  "dshot_from_normalized v =
    (let normalized = flt_clamp v (lit32 0 1) (lit32 1 1);
         span = from_u64 (ucast (DSHOT_MAX_THROTTLE - DSHOT_MIN_THROTTLE))
     in \<lparr>ds_throttle = flt_to_u16 (to_f32_lossy (normalized * span + from_u64 (ucast DSHOT_MIN_THROTTLE))),
         ds_telemetry = False\<rparr>)"

definition dshot_frame :: "dshot_command \<Rightarrow> u16" where
  "dshot_frame c =
    (let v = push_bit 1 (ds_throttle c AND 0x07ff) OR (if ds_telemetry c then 1 else 0);
         crc = (v XOR drop_bit 4 v XOR drop_bit 8 v) AND 0x000f
     in push_bit 4 v OR crc)"

definition dshot_bit_is_high :: "u16 \<Rightarrow> nat \<Rightarrow> bool" where
  "dshot_bit_is_high frame i \<longleftrightarrow> frame AND drop_bit (min i (DSHOT_FRAME_BITS - 1)) 0x8000 \<noteq> 0"

section \<open>Output rates\<close>

definition output_protocol_for_rate :: "'r::len flt \<Rightarrow> pwm_error + pwm_output_protocol" where
  "output_protocol_for_rate rate =
    (if \<not> is_finite rate \<or> rate < lit32 0 1 then Inl InvalidRate
     else if rate \<le> lit32 490 1 then Inr StandardPwm
     else if lit32 150000 1 \<le> rate \<and> rate \<le> lit32 1200000 1 then Inr Dshot
     else Inl InvalidRate)"

definition effective_output_rate_hz :: "'r::len flt \<Rightarrow> pwm_error + 'r flt" where
  "effective_output_rate_hz rate = (case output_protocol_for_rate rate of
     Inl e \<Rightarrow> Inl e
   | Inr StandardPwm \<Rightarrow> if flt_eq rate (lit32 0 1) then Inr (from_f32 STANDARD_PWM_DEFAULT_RATE_HZ) else Inr rate
   | Inr Dshot \<Rightarrow> Inr rate)"

definition safe_disarmed_command :: "mixer_output_type \<Rightarrow> 'r::len flt" where
  "safe_disarmed_command t = (case t of
     OutMotor \<Rightarrow> lit32 0 1 | OutGpio \<Rightarrow> lit32 0 1 | OutAux \<Rightarrow> lit32 5 10 | OutServo \<Rightarrow> lit32 5 10)"

section \<open>The driver interface\<close>

record (overloaded) ('r::len, 'p) pwm_ops =
  po_len :: nat
  po_enable :: "'p \<Rightarrow> nat \<Rightarrow> 'p \<times> pwm_error option"
  po_disable :: "'p \<Rightarrow> nat \<Rightarrow> 'p \<times> pwm_error option"
  po_enable_all :: "'p \<Rightarrow> 'p \<times> pwm_error option"
  po_disable_all :: "'p \<Rightarrow> 'p"
  po_flush :: "'p \<Rightarrow> 'p"
  po_send_commands :: "'p \<Rightarrow> 'r flt list \<Rightarrow> 'p \<times> pwm_error option"

definition PWM_OUTPUT_CHANNELS :: nat where "PWM_OUTPUT_CHANNELS = 14"

definition send_disarmed_commands :: "('r::len, 'p) pwm_ops \<Rightarrow> 'p \<Rightarrow> mixer_output_type list \<Rightarrow> 'p \<times> pwm_error option" where
  "send_disarmed_commands ops p output_types = po_send_commands ops p
     (map (\<lambda>channel. if channel < po_len ops then safe_disarmed_command
          (case list_get output_types channel of Some t \<Rightarrow> t | None \<Rightarrow> OutAux) else lit32 5 10)
        [0..<PWM_OUTPUT_CHANNELS])"

section \<open>Enabled channels\<close>

text \<open>\<^verbatim>\<open>PwmOutputState\<close> is its mask.\<close>

definition pwm_output_state_new :: "bool \<Rightarrow> u32" where
  "pwm_output_state_new enabled = (if enabled then - 1 else 0)"

definition output_is_enabled :: "u32 \<Rightarrow> bool" where
  "output_is_enabled out = (out \<noteq> 0)"

definition available_mask :: "nat \<Rightarrow> u32" where
  "available_mask channel_count = (if channel_count = 32 then - 1 else push_bit channel_count 1 - 1)"

definition desired_mask :: "bool \<Rightarrow> i32 \<Rightarrow> u32 \<Rightarrow> u32" where
  "desired_mask kill channel_output_mask available =
    (if kill then 0 else if channel_output_mask = - 1 then available
     else if 0 \<le> sint channel_output_mask then channel_output_mask AND available else 0)"

text \<open>
  One of the two loops: the channels of the mask are disabled (or enabled) in order, the
  applied mask follows each success, and the first failure ends the function. The result is
  the driver, the applied mask, the output state and the error.
\<close>

fun sync_channels :: "('p \<Rightarrow> nat \<Rightarrow> 'p \<times> pwm_error option) \<Rightarrow> (u32 \<Rightarrow> u32 \<Rightarrow> u32) \<Rightarrow> u32 \<Rightarrow> nat list
    \<Rightarrow> 'p \<Rightarrow> u32 \<Rightarrow> u32 \<Rightarrow> 'p \<times> u32 \<times> u32 \<times> pwm_error option" where
  "sync_channels act upd m [] p applied out = (p, applied, out, None)"
| "sync_channels act upd m (channel # cs) p applied out =
    (if m AND push_bit channel 1 \<noteq> 0 then
       (case act p channel of
          (p', Some e) \<Rightarrow> (p', applied, out, Some e)
        | (p', None) \<Rightarrow> sync_channels act upd m cs p' (upd applied (push_bit channel 1)) (upd applied (push_bit channel 1)))
     else sync_channels act upd m cs p applied out)"

definition sync_pwm_output_state :: "('r::len, 'p) pwm_ops \<Rightarrow> bool \<Rightarrow> i32 \<Rightarrow> 'p \<Rightarrow> u32 \<Rightarrow> 'p \<times> u32 \<times> (pwm_error + bool)" where
  "sync_pwm_output_state ops kill channel_output_mask p out =
    (let channel_count = min (po_len ops) 32; available = available_mask channel_count;
         desired = desired_mask kill channel_output_mask available; current = out AND available
     in if desired = current then (p, current, Inr False)
     else if desired = available \<and> current = 0 then
       (case po_enable_all ops p of (p', Some e) \<Rightarrow> (p', out, Inl e) | (p', None) \<Rightarrow> (p', desired, Inr True))
     else if desired = 0 then (po_flush ops (po_disable_all ops p), 0, Inr True)
     else (case sync_channels (po_disable ops) (\<lambda>a b. a AND NOT b) (current AND NOT desired) [0..<channel_count] p current out of
         (p1, applied1, out1, Some e) \<Rightarrow> (p1, out1, Inl e)
       | (p1, applied1, out1, None) \<Rightarrow>
          (let p2 = (if current AND NOT desired \<noteq> 0 then po_flush ops p1 else p1)
           in case sync_channels (po_enable ops) (\<lambda>a b. a OR b) (desired AND NOT current) [0..<channel_count] p2 applied1 out1 of
             (p3, applied2, out2, Some e) \<Rightarrow> (p3, out2, Inl e)
           | (p3, applied2, out2, None) \<Rightarrow> (p3, out2, Inr True))))"

definition write_pwm_commands :: "('r::len, 'p) pwm_ops \<Rightarrow> 'p \<Rightarrow> u32 \<Rightarrow> 'r flt list \<Rightarrow> mixer_output_type list
    \<Rightarrow> state_manager \<Rightarrow> 'p \<times> (pwm_error + bool)" where
  "write_pwm_commands ops p out commands output_types s =
    (if \<not> output_is_enabled out then (p, Inr False)
     else (case (if is_armed s then po_send_commands ops p commands else send_disarmed_commands ops p output_types) of
         (p', Some e) \<Rightarrow> (p', Inl e)
       | (p', None) \<Rightarrow> (p', Inr True)))"

section \<open>Composition of the outputs\<close>

definition channel_output_enabled :: "i32 \<Rightarrow> nat \<Rightarrow> bool" where
  "channel_output_enabled m channel \<longleftrightarrow> m = - 1 \<or> 0 \<le> sint m \<and> channel < 32 \<and> m AND push_bit channel 1 \<noteq> 0"

definition aux_output_for_channel :: "rosflight_aux_cmd_msg option \<Rightarrow> nat \<Rightarrow> mixer_output_type \<times> 'r::len flt" where
  "aux_output_for_channel aux channel = (case aux of
     None \<Rightarrow> (OutAux, lit32 0 1)
   | Some cmd \<Rightarrow> (case aux_type_array cmd ! channel of
       AuxDisabled \<Rightarrow> (OutAux, lit32 0 1)
     | AuxServo \<Rightarrow> (OutServo, from_f32 (aux_cmd_array cmd ! channel))
     | AuxMotor \<Rightarrow> (OutMotor, from_f32 (aux_cmd_array cmd ! channel))))"

definition raw_output_for_type :: "mixer_output_type \<Rightarrow> 'r::len flt \<Rightarrow> state_manager \<Rightarrow> 'r flt \<Rightarrow> bool \<Rightarrow> 'r flt" where
  "raw_output_for_type t v s idle spin = (case t of
     OutAux \<Rightarrow> lit32 0 1
   | OutServo \<Rightarrow> flt_clamp v (lit32 (- 1) 1) (lit32 1 1) * lit32 5 10 + lit32 5 10
   | OutGpio \<Rightarrow> (if lit32 0 1 < v then lit32 1 1 else lit32 0 1)
   | OutMotor \<Rightarrow>
      (if \<not> is_armed s then lit32 0 1
       else if lit32 1 1 < v then lit32 1 1
       else if v < idle \<and> spin then idle
       else if v < lit32 0 1 then lit32 0 1
       else v))"

definition output_of_channel :: "'r::len flt list \<Rightarrow> mixer_output_type list \<Rightarrow> rosflight_aux_cmd_msg option
    \<Rightarrow> nat \<Rightarrow> mixer_output_type \<times> 'r flt" where
  "output_of_channel commands types aux channel =
    (let t = (case list_get types channel of Some t \<Rightarrow> t | None \<Rightarrow> OutAux);
         v = (case list_get commands channel of Some v \<Rightarrow> v | None \<Rightarrow> lit32 0 1)
     in if t = OutAux then aux_output_for_channel aux channel else (t, v))"

definition compose_pwm_outputs :: "'r::len flt list \<Rightarrow> mixer_output_type list \<Rightarrow> rosflight_aux_cmd_msg option
    \<Rightarrow> state_manager \<Rightarrow> params \<Rightarrow> 'r flt list" where
  "compose_pwm_outputs commands types aux s p =
    (let idle = from_f32 (float_param_or p PARAM_MOTOR_IDLE_THROTTLE 0);
         spin = int_param_set p PARAM_SPIN_MOTORS_WHEN_ARMED;
         m = int_param_or p PARAM_CHANNEL_OUTPUT_MASK 0
     in map (\<lambda>channel.
         let (t, v) = output_of_channel commands types aux channel
         in if \<not> is_armed s then safe_disarmed_command t
            else if \<not> channel_output_enabled m channel then safe_disarmed_command t
            else raw_output_for_type t v s idle spin) [0..<PWM_OUTPUT_CHANNELS])"

section \<open>The RP2350 driver\<close>

definition MAX_PWM_OUTPUTS :: nat where "MAX_PWM_OUTPUTS = 12"

record pio_pwm =
  pio_enabled_mask :: u16
  pio_values :: "u16 list"
  pio_rates_hz :: "f32 list"

definition pio_pwm_new :: pio_pwm where
  "pio_pwm_new = \<lparr>pio_enabled_mask = 0, pio_values = replicate MAX_PWM_OUTPUTS 0,
     pio_rates_hz = replicate MAX_PWM_OUTPUTS 0\<rparr>"

definition pio_is_enabled :: "pio_pwm \<Rightarrow> bool" where
  "pio_is_enabled d = (pio_enabled_mask d = push_bit MAX_PWM_OUTPUTS 1 - 1)"

definition pio_enable :: "pio_pwm \<Rightarrow> nat \<Rightarrow> pio_pwm \<times> pwm_error option" where
  "pio_enable d channel = (if MAX_PWM_OUTPUTS \<le> channel then (d, Some ChannelOutOfRange)
     else (d\<lparr>pio_enabled_mask := pio_enabled_mask d OR push_bit channel 1\<rparr>, None))"

definition pio_disable :: "pio_pwm \<Rightarrow> nat \<Rightarrow> pio_pwm \<times> pwm_error option" where
  "pio_disable d channel = (if MAX_PWM_OUTPUTS \<le> channel then (d, Some ChannelOutOfRange)
     else (d\<lparr>pio_enabled_mask := pio_enabled_mask d AND NOT (push_bit channel 1)\<rparr>, None))"

text \<open>A loop that stops at the first error.\<close>

fun try_each :: "('p \<Rightarrow> 'c \<Rightarrow> 'p \<times> pwm_error option) \<Rightarrow> 'c list \<Rightarrow> 'p \<Rightarrow> 'p \<times> pwm_error option" where
  "try_each act [] p = (p, None)"
| "try_each act (c # cs) p = (case act p c of (p', Some e) \<Rightarrow> (p', Some e) | (p', None) \<Rightarrow> try_each act cs p')"

definition pio_enable_all :: "pio_pwm \<Rightarrow> pio_pwm \<times> pwm_error option" where
  "pio_enable_all d = try_each pio_enable [0..<MAX_PWM_OUTPUTS] d"

definition pio_disable_all :: "pio_pwm \<Rightarrow> pio_pwm" where
  "pio_disable_all d = d\<lparr>pio_enabled_mask := 0\<rparr>"

definition pio_set_duty_cycle :: "pio_pwm \<Rightarrow> nat \<Rightarrow> u16 \<Rightarrow> pio_pwm \<times> pwm_error option" where
  "pio_set_duty_cycle d channel duty = (if MAX_PWM_OUTPUTS \<le> channel then (d, Some ChannelOutOfRange)
     else (d\<lparr>pio_values := (pio_values d)[channel := duty]\<rparr>, None))"

definition pio_flush :: "pio_pwm \<Rightarrow> pio_pwm" where
  "pio_flush d = d"

definition pio_configure_output_rates :: "pio_pwm \<Rightarrow> f32 list \<Rightarrow> pio_pwm \<times> pwm_error option" where
  "pio_configure_output_rates d rates = (d\<lparr>pio_rates_hz :=
     map snd (zip (pio_rates_hz d) rates) @ drop (length rates) (pio_rates_hz d)\<rparr>, None)"

definition pio_duty :: "f32 \<Rightarrow> u16" where
  "pio_duty command = flt_to_u16 (flt_clamp command 0 1 * flt_of_int 65535)"

definition pio_send_commands :: "pio_pwm \<Rightarrow> f32 list \<Rightarrow> pio_pwm \<times> pwm_error option" where
  "pio_send_commands d commands =
    (case try_each (\<lambda>d (channel, c). pio_set_duty_cycle d channel (pio_duty c))
        (take MAX_PWM_OUTPUTS (enumerate 0 commands)) d of
       (d', Some e) \<Rightarrow> (d', Some e)
     | (d', None) \<Rightarrow> (pio_flush d', None))"

definition pio_ops :: "(32, pio_pwm) pwm_ops" where
  "pio_ops = \<lparr>po_len = MAX_PWM_OUTPUTS, po_enable = pio_enable, po_disable = pio_disable,
     po_enable_all = pio_enable_all, po_disable_all = pio_disable_all, po_flush = pio_flush,
     po_send_commands = pio_send_commands\<rparr>"

end
