(* ===== verification/Pwm_Safety.thy ===== *)
theory Pwm_Safety
  imports Pwm Float_Scaling
begin

text \<open>
  What the outputs promise: a DSHOT frame carries its command and detects every single-bit
  error, a throttle stays in the range of the protocol, the set of enabled channels follows
  the output mask for every driver that keeps the contract of \<^verbatim>\<open>PwmDriver\<close> (the RP2350
  driver does), and a disarmed vehicle is sent safe values only.
\<close>

unbundle bit_operations_syntax

section \<open>DSHOT frames\<close>

text \<open>The receiver's check of a frame: the four nibbles cancel out.\<close>

definition dshot_check :: "u16 \<Rightarrow> u16" where
  "dshot_check f = (f XOR drop_bit 4 f XOR drop_bit 8 f XOR drop_bit 12 f) AND 0x000f"

definition dshot_received :: "bool list \<Rightarrow> u16" where
  "dshot_received bs = foldl (\<lambda>a b. push_bit 1 a OR (if b then 1 else 0)) 0 bs"

lemma and_15: "(x :: u16) AND 0x000f = take_bit 4 x"
  by (simp add: take_bit_eq_mask mask_eq_exp_minus_1)

lemma and_2047: "(x :: u16) AND 0x07ff = take_bit 11 x"
  by (simp add: take_bit_eq_mask mask_eq_exp_minus_1)

lemma dshot_check_xor: "dshot_check (f XOR g) = dshot_check f XOR dshot_check g"
  by (rule bit_word_eqI) (auto simp: dshot_check_def and_15 bit_simps)

lemma dshot_check_bit: "i < 16 \<Longrightarrow> dshot_check (push_bit i 1) \<noteq> 0"
  by (subgoal_tac "\<forall>i \<in> {..<16}. dshot_check (push_bit i 1) \<noteq> 0") (blast, code_simp)

lemma bit_if_1: "bit (if b then 1 else 0 :: u16) n \<longleftrightarrow> b \<and> n = 0"
  by (simp add: bit_1_iff)

lemma bit_times_2: "bit (x * 2 :: u16) n \<longleftrightarrow> 0 < n \<and> n < 16 \<and> bit x (n - 1)"
  using bit_push_bit_iff [of 1 x n] by (auto simp: bit_imp_le_length dest: bit_imp_le_length)

lemma dshot_frame_checks: "dshot_check (dshot_frame c) = 0"
proof -
  define v :: u16 where "v = push_bit 1 (take_bit 11 (ds_throttle c)) OR (if ds_telemetry c then 1 else 0)"
  have top: "\<not> bit v n" if "12 \<le> n" for n
    using that by (auto simp: v_def bit_simps bit_times_2 bit_if_1)
  have "dshot_frame c = push_bit 4 v OR take_bit 4 (v XOR drop_bit 4 v XOR drop_bit 8 v)"
    by (simp add: dshot_frame_def Let_def v_def and_15 and_2047)
  then show ?thesis
    using top by (intro bit_word_eqI) (auto simp: dshot_check_def and_15 bit_simps)
qed

lemma dshot_frame_fields:
  "drop_bit 5 (dshot_frame c) = take_bit 11 (ds_throttle c)" "bit (dshot_frame c) 4 = ds_telemetry c"
  by (intro bit_word_eqI, auto simp: dshot_frame_def Let_def and_15 and_2047 bit_simps bit_times_2 bit_if_1)

text \<open>The bits leave most significant first.\<close>

lemma dshot_bit_is_high_bit: "i < 16 \<Longrightarrow> dshot_bit_is_high f i = bit f (15 - i)"
proof -
  assume i: "i < 16"
  have "drop_bit i (0x8000 :: u16) = push_bit (15 - i) 1"
    by (subgoal_tac "\<forall>i \<in> {..<16}. drop_bit i (0x8000 :: u16) = push_bit (15 - i) 1") (use i in blast, code_simp)
  with i show ?thesis
    by (auto simp: dshot_bit_is_high_def DSHOT_FRAME_BITS_def min_def bit_iff_and_push_bit_not_eq_0)
qed

lemma dshot_received_bits:
  "length bs \<le> 16 \<Longrightarrow> n < 16 \<Longrightarrow> bit (dshot_received bs) n = (n < length bs \<and> bs ! (length bs - 1 - n))"
proof (induction bs arbitrary: n rule: rev_induct)
  case (snoc b bs)
  have "dshot_received (bs @ [b]) = push_bit 1 (dshot_received bs) OR (if b then 1 else 0)"
    by (simp add: dshot_received_def)
  with snoc show ?case
    by (cases n) (auto simp: bit_simps bit_times_2 bit_if_1 nth_append)
qed (simp add: dshot_received_def)

lemma dshot_received_frame: "dshot_received (map (dshot_bit_is_high f) [0..<DSHOT_FRAME_BITS]) = f"
  by (rule bit_word_eqI) (auto simp: DSHOT_FRAME_BITS_def dshot_received_bits dshot_bit_is_high_bit)

text \<open>
  A DSHOT frame carries its command: sixteen bits sent most significant first are
  received as the frame, whose upper eleven bits are the throttle, whose next bit is the
  telemetry request and whose nibbles cancel out. Any single bit flipped on the wire fails
  that check.
\<close>

theorem dshot_frame_round_trip:
  "dshot_received (map (dshot_bit_is_high (dshot_frame c)) [0..<DSHOT_FRAME_BITS]) = dshot_frame c
    \<and> drop_bit 5 (dshot_frame c) = ds_throttle c AND 0x07ff
    \<and> bit (dshot_frame c) 4 = ds_telemetry c
    \<and> dshot_check (dshot_frame c) = 0
    \<and> list_all (\<lambda>i. dshot_check (dshot_frame c XOR push_bit i 1) \<noteq> 0) [0..<DSHOT_FRAME_BITS]"
  using dshot_received_frame [of "dshot_frame c"] dshot_check_bit
  by (simp add: dshot_frame_fields and_2047 dshot_frame_checks dshot_check_xor list_all_iff
      DSHOT_FRAME_BITS_def)

section \<open>The throttle of a DSHOT command\<close>

context flight_float
begin

lemma to_f32_between:
  assumes "is_finite (x :: 'r flt)" "is_finite lo" "is_finite hi"
    and "fval lo * 2 ^ ulp_exp TYPE('r) \<le> fval x * 2 ^ ulp_exp TYPE(32)"
    and "fval x * 2 ^ ulp_exp TYPE(32) \<le> fval hi * 2 ^ ulp_exp TYPE('r)"
  shows "lo \<le> to_f32_lossy x \<and> to_f32_lossy x \<le> hi"
proof (cases "LENGTH('r) = 32")
  case True
  have e: "mag (to_f32_lossy x) = mag x" "sgn_bit (to_f32_lossy x) = sgn_bit x"
    by (simp_all add: to_f32_lossy_def True mag_def sgn_bit_def uint_up_ucast is_up_def source_size
        target_size word_size bit_ucast_iff)
  have p: "mbits TYPE('r) = mbits TYPE(32)" "inf_mag TYPE('r) = inf_mag TYPE(32)" "ulp_exp TYPE('r) = ulp_exp TYPE(32)"
    using True by (simp_all add: mbits_def inf_mag_def ulp_exp_def ebits_def)
  have "fval (to_f32_lossy x) = fval x" "is_finite (to_f32_lossy x)"
    using e assms(1) by (simp_all add: fval_def p is_finite_def)
  with assms(2-) show ?thesis by (simp add: p f32.le_finite_iff)
next
  case False
  define z where "z = fval x * 2 ^ ulp_exp TYPE(32)"
  have z: "z \<noteq> 0 \<Longrightarrow> sgn_bit x = (z < 0)"
    using fval_sgn(1,2) [of x] by (auto simp: z_def mult_less_0_iff zero_less_mult_iff neq_iff)
  have c: "to_f32_lossy x = round_flt (sgn_bit x) \<bar>z\<bar> (2 ^ ulp_exp TYPE('r))"
    using False finite_not [OF assms(1)] by (simp add: to_f32_lossy_def flt_conv_def z_def abs_mult)
  have "\<not> is_nan (to_f32_lossy x)" unfolding c by (rule f32.round_flt_key(3)) simp_all
  then show ?thesis
    using clip_skey_between [of "2 ^ ulp_exp TYPE('r)" "mbits TYPE(32)" "flt_key lo" z "flt_key hi" "inf_mag TYPE(32)"]
      f32.round_flt_signed [of "2 ^ ulp_exp TYPE('r)" z "sgn_bit x", OF _ z] assms(2-)
      f32.finite_not [OF assms(2)] f32.finite_not [OF assms(3)]
    by (auto simp: c less_eq_flt_def f32.fval_key f32.is_finite_key z_def)
qed

lemma dshot_throttle_between:
  assumes "is_finite (n :: 'r flt)" "0 \<le> a" "b \<le> 1999"
    and "a * 2 ^ ulp_exp TYPE('r) \<le> fval n * 1999" "fval n * 1999 \<le> b * 2 ^ ulp_exp TYPE('r)"
  shows "a + 48 \<le> uint (flt_to_u16 (to_f32_lossy (n * from_u64 1999 + from_u64 48)))
    \<and> uint (flt_to_u16 (to_f32_lossy (n * from_u64 1999 + from_u64 48))) \<le> b + 48"
proof -
  have ab: "a \<le> b" using assms(4,5) by (smt (verit) mult_right_mono mult_less_cancel_right zero_less_power)
  have i: "fval (flt_lit k 1 :: 'r flt) = k * 2 ^ ulp_exp TYPE('r)" "is_finite (flt_lit k 1 :: 'r flt)"
    "fval (flt_lit k 1 :: f32) = k * 2 ^ ulp_exp TYPE(32)" "is_finite (flt_lit k 1 :: f32)"
    if "0 \<le> k" "k \<le> 65536" for k
    using that flt_lit_int [of k] f32.flt_lit_int [of k] mantissa_room(1) f32.mantissa_room(1) by simp_all
  have u: "from_u64 1999 = (flt_lit 1999 1 :: 'r flt)" "from_u64 48 = (flt_lit 48 1 :: 'r flt)"
    by (simp_all add: from_u64_def flt_of_int_def)
  note ia = i [of a] i [of b] i [of "a + 48"] i [of "b + 48"] i [of 1999] i [of 48]
  have "flt_lit a 1 \<le> n * from_u64 1999 \<and> n * from_u64 1999 \<le> flt_lit b 1"
    using assms ab ia by (intro mul_between) (simp_all add: u mult.commute mult.assoc)
  then have m: "is_finite (n * from_u64 1999)" "a * 2 ^ ulp_exp TYPE('r) \<le> fval (n * from_u64 1999)"
    "fval (n * from_u64 1999) \<le> b * 2 ^ ulp_exp TYPE('r)"
    using between_finite [of "flt_lit a 1" "flt_lit b 1" "n * from_u64 1999"] ia assms ab
    by (auto simp: le_finite_iff)
  let ?s = "n * from_u64 1999 + from_u64 48"
  have "flt_lit (a + 48) 1 \<le> ?s \<and> ?s \<le> flt_lit (b + 48) 1"
    using assms ab ia m by (intro add_between) (simp_all add: u algebra_simps)
  then have s: "is_finite ?s" "(a + 48) * 2 ^ ulp_exp TYPE('r) \<le> fval ?s" "fval ?s \<le> (b + 48) * 2 ^ ulp_exp TYPE('r)"
    using between_finite [of "flt_lit (a + 48) 1" "flt_lit (b + 48) 1" ?s] ia assms ab
    by (auto simp: le_finite_iff)
  let ?t = "to_f32_lossy ?s"
  have "flt_lit (a + 48) 1 \<le> ?t \<and> ?t \<le> flt_lit (b + 48) 1"
    using assms ab ia s mult_right_mono [OF s(2), of "2 ^ ulp_exp TYPE(32)"] mult_right_mono [OF s(3), of "2 ^ ulp_exp TYPE(32)"]
    by (intro to_f32_between) (simp_all add: ac_simps)
  then have t: "is_finite ?t" "(a + 48) * 2 ^ ulp_exp TYPE(32) \<le> fval ?t" "fval ?t \<le> (b + 48) * 2 ^ ulp_exp TYPE(32)"
    using f32.between_finite [of "flt_lit (a + 48) 1" "flt_lit (b + 48) 1" ?t] ia assms ab
    by (auto simp: f32.le_finite_iff)
  have "0 < fval ?t" using t(2) assms(2) by (smt (verit) mult_pos_pos zero_less_power)
  moreover have "a + 48 \<le> fval ?t div 2 ^ ulp_exp TYPE(32)" "fval ?t div 2 ^ ulp_exp TYPE(32) \<le> b + 48"
    using zdiv_mono1 [OF t(2), of "2 ^ ulp_exp TYPE(32)"] zdiv_mono1 [OF t(3), of "2 ^ ulp_exp TYPE(32)"] by simp_all
  ultimately have k: "flt_to_int 0 65535 ?t = fval ?t div 2 ^ ulp_exp TYPE(32)"
    "0 \<le> flt_to_int 0 65535 ?t" "flt_to_int 0 65535 ?t < 65536"
    using f32.finite_not [OF t(1)] assms by (auto simp: flt_to_int_def flt_trunc_def)
  then show ?thesis
    using \<open>a + 48 \<le> fval ?t div _\<close> \<open>fval ?t div _ \<le> b + 48\<close>
    by (simp add: flt_to_u16_def uint_word_of_int)
qed

lemma dshot_from_normalized_throttle:
  "ds_throttle (dshot_from_normalized (v :: 'r flt)) =
    flt_to_u16 (to_f32_lossy (flt_clamp v 0 1 * from_u64 1999 + from_u64 48))"
  by (simp add: dshot_from_normalized_def Let_def DSHOT_MAX_THROTTLE_def DSHOT_MIN_THROTTLE_def lit32_0 lit32_1)

lemma nan_throttle:
  assumes "is_nan (v :: 'r flt)"
  shows "uint (ds_throttle (dshot_from_normalized v)) = 0"
proof -
  have "is_nan (to_f32_lossy x)" if "is_nan x" for x :: "'r flt"
  proof (cases "LENGTH('r) = 32")
    case True
    with that show ?thesis
      by (simp add: to_f32_lossy_def is_nan_def mag_def inf_mag_def ebits_def mbits_def uint_up_ucast is_up_def
          source_size target_size word_size)
  qed (simp add: to_f32_lossy_def flt_conv_def that f32.not_nan_nan)
  moreover have "flt_clamp v 0 1 = v" using assms by (simp add: flt_clamp_def less_flt_def)
  ultimately show ?thesis
    using assms not_nan_nan
    by (simp add: dshot_from_normalized_throttle flt_to_u16_def flt_to_int_def plus_flt_def flt_add_def
        times_flt_def flt_mul_def)
qed

lemma throttle_range:
  assumes "\<not> is_nan (v :: 'r flt)"
  defines "t \<equiv> uint (ds_throttle (dshot_from_normalized v))"
  shows "48 \<le> t \<and> t \<le> 2047 \<and> (v \<le> 0 \<longrightarrow> t = 48) \<and> (1 \<le> v \<longrightarrow> t = 2047)"
proof -
  let ?n = "flt_clamp v 0 1"
  have z1: "(0 :: 'r flt) \<le> 1" by (simp add: le_finite_iff)
  from flt_clamp_between [OF assms(1) z1] have "0 \<le> ?n" "?n \<le> 1" by simp_all
  with between_finite [of 0 1 ?n] have n: "is_finite ?n" "0 \<le> fval ?n" "fval ?n \<le> 2 ^ ulp_exp TYPE('r)"
    by (simp_all add: le_finite_iff)
  have "\<not> (1 :: 'r flt) \<le> 0" by (simp add: le_finite_iff)
  then have lo: "fval ?n = 0" if "v \<le> 0"
    using that by (cases "v < 0") (auto simp: flt_clamp_def less_flt_def less_eq_flt_def fval_key)
  have hi: "fval ?n = 2 ^ ulp_exp TYPE('r)" if "1 \<le> v"
  proof (cases "1 < v")
    case True
    moreover have "\<not> v < 0" using flt_le_trans [OF z1 that] by (auto simp: less_flt_def less_eq_flt_def)
    ultimately show ?thesis by (simp add: flt_clamp_def)
  next
    case False
    with that have "flt_key v = flt_key (1 :: 'r flt)" by (auto simp: less_flt_def less_eq_flt_def)
    then have "fval v = fval (1 :: 'r flt)" by (simp only: fval_key)
    then have "fval v = 2 ^ ulp_exp TYPE('r)" by simp
    moreover have "?n = v"
      using that False flt_le_trans [OF z1 that] by (auto simp: flt_clamp_def less_flt_def less_eq_flt_def)
    ultimately show ?thesis by simp
  qed
  note b = dshot_throttle_between [OF n(1), folded dshot_from_normalized_throttle t_def]
  have "48 \<le> t \<and> t \<le> 2047" using b [of 0 1999] n by simp
  moreover have "t = 48" if "v \<le> 0" using b [of 0 0] lo [OF that] by simp
  moreover have "t = 2047" if "1 \<le> v" using b [of 1999 1999] hi [OF that] by simp
  ultimately show ?thesis by blast
qed

end

text \<open>
  A number becomes a throttle from 48 to 2047, so never one of the special commands 1 to
  47 of the protocol nor the stop command 0; a command of at most 0 is exactly the lowest
  throttle, one of at least 1 exactly the highest. Only a NaN becomes the stop command.
\<close>

theorem dshot_throttle_in_range:
  fixes v :: "'r::len flt"
  assumes "LENGTH('r) = 32 \<or> LENGTH('r) = 64"
  shows "(if is_nan v then uint (ds_throttle (dshot_from_normalized v)) = 0
     else 48 \<le> uint (ds_throttle (dshot_from_normalized v))
       \<and> uint (ds_throttle (dshot_from_normalized v)) \<le> 2047
       \<and> (v \<le> 0 \<longrightarrow> uint (ds_throttle (dshot_from_normalized v)) = 48)
       \<and> (1 \<le> v \<longrightarrow> uint (ds_throttle (dshot_from_normalized v)) = 2047))"
  by (simp add: flight_float.nan_throttle [OF flight_float.intro [OF assms]]
      flight_float.throttle_range [OF flight_float.intro [OF assms]])

theorem dshot_throttle_in_range_witness:
  "uint (ds_throttle (dshot_from_normalized (1 :: f32))) = 2047"
  using dshot_throttle_in_range [of "1 :: f32"] f32.finite_not [OF f32.one_fval(2)] f32.flt_le_refl [of 1]
  by simp

section \<open>Enabled channels\<close>

text \<open>
  The contract of \<^verbatim>\<open>PwmDriver\<close> that \<^verbatim>\<open>sync_pwm_output_state\<close> relies on: an operation that
  succeeds changes the channels it names, one that fails changes none.
\<close>

locale pwm_driver =
  fixes ops :: "('r::len, 'p) pwm_ops" and enabled :: "'p \<Rightarrow> nat set"
  assumes enable: "po_enable ops p c = (p', e) \<Longrightarrow> enabled p' = (if e = None then insert c (enabled p) else enabled p)"
    and disable: "po_disable ops p c = (p', e) \<Longrightarrow> enabled p' = (if e = None then enabled p - {c} else enabled p)"
    and enable_all: "po_enable_all ops p = (p', e) \<Longrightarrow> enabled p' = (if e = None then {..<po_len ops} else enabled p)"
    and disable_all: "enabled (po_disable_all ops p) = {}"
    and flush: "enabled (po_flush ops p) = enabled p"
    and few_channels: "po_len ops \<le> 32"

text \<open>A driver that accepts every channel it has.\<close>

locale reliable_pwm_driver = pwm_driver +
  assumes enable_accepts: "c < po_len ops \<Longrightarrow> snd (po_enable ops p c) = None"
    and disable_accepts: "c < po_len ops \<Longrightarrow> snd (po_disable ops p c) = None"
    and enable_all_accepts: "snd (po_enable_all ops p) = None"

definition mask_channels :: "u32 \<Rightarrow> nat set" where
  "mask_channels m = {c. bit m c}"

lemma mask_channels_simps [simp]:
  "mask_channels 0 = {}" "c \<in> mask_channels m \<longleftrightarrow> bit m c"
  "c < 32 \<Longrightarrow> mask_channels (m OR push_bit c 1) = insert c (mask_channels m)"
  "mask_channels (m AND NOT (push_bit c 1)) = mask_channels m - {c}"
  by (auto simp: mask_channels_def bit_simps dest: bit_imp_le_length)

lemma mask_channels_and:
  "mask_channels (a AND b) = mask_channels a \<inter> mask_channels b"
  by (auto simp: mask_channels_def bit_simps)

lemma mask_channels_inj: "mask_channels a = mask_channels b \<Longrightarrow> a = b"
  by (rule bit_word_eqI) (auto simp: mask_channels_def set_eq_iff)

lemma mask_channels_eq_0: "m = 0 \<longleftrightarrow> mask_channels m = {}"
  using mask_channels_inj [of m 0] by auto

lemma mask_channels_available: "n \<le> 32 \<Longrightarrow> mask_channels (available_mask n) = {..<n}"
  by (auto simp: mask_channels_def available_mask_def bit_simps simp flip: mask_eq_exp_minus_1)

lemma desired_mask_subset: "mask_channels (desired_mask kill m av) \<subseteq> mask_channels av"
  by (simp add: desired_mask_def mask_channels_and)

lemma desired_channels:
  "mask_channels (desired_mask kill m av) =
    {c. c \<in> mask_channels av \<and> \<not> kill \<and> (m = - 1 \<or> 0 \<le> sint m \<and> bit m c)}"
proof -
  consider "kill" | "\<not> kill" "m = - 1" | "\<not> kill" "m \<noteq> - 1" "0 \<le> sint m" | "\<not> kill" "m \<noteq> - 1" "\<not> 0 \<le> sint m" by blast
  then show ?thesis
    by cases (simp_all add: desired_mask_def mask_channels_and mask_channels_def bit_and_iff conj_commute)
qed

lemma sync_channels_spec:
  assumes act: "\<And>p c p' e. act p c = (p', e) \<Longrightarrow> E p' = (if e = None then g c (E p) else E p)"
    and upd: "\<And>c m. c < 32 \<Longrightarrow> mask_channels (upd m (push_bit c 1)) = g c (mask_channels m)"
    and "set cs \<subseteq> {..<32}" "E p = mask_channels applied"
    and "sync_channels act upd m cs p applied out = (p', applied', out', e)"
  shows "E p' = mask_channels applied' \<and> (out' = applied' \<or> out' = out \<and> applied' = applied)
    \<and> (\<exists>ys. set ys \<subseteq> set cs \<and> E p' = fold g ys (E p) \<and> (e = None \<longrightarrow> ys = filter (bit m) cs))
    \<and> (e = None \<longrightarrow> filter (bit m) cs \<noteq> [] \<longrightarrow> out' = applied')"
  using assms(3-)
proof (induction cs arbitrary: p applied out)
  case (Cons c cs)
  have b: "m AND push_bit c 1 \<noteq> 0 \<longleftrightarrow> bit m c" by (simp add: bit_iff_and_push_bit_not_eq_0)
  obtain p1 e1 where a: "act p c = (p1, e1)" by fastforce
  consider "bit m c" "e1 = None" | "\<not> bit m c" | x where "bit m c" "e1 = Some x" by fastforce
  then show ?case
  proof cases
    case 1
    let ?a = "upd applied (push_bit c 1)"
    have p1: "E p1 = g c (E p)" "E p1 = mask_channels ?a" using act [OF a] upd Cons.prems(1,2) 1 by simp_all
    have "sync_channels act upd m cs p1 ?a ?a = (p', applied', out', e)"
      using Cons.prems(3) 1 a b by (simp del: push_bit_eq_0_iff)
    from Cons.IH [OF _ p1(2) this] Cons.prems(1) obtain ys where
      ys: "set ys \<subseteq> set cs" "E p' = fold g ys (E p1)" "e = None \<longrightarrow> ys = filter (bit m) cs"
      and rest: "E p' = mask_channels applied'" "out' = applied'"
      unfolding set_simps insert_subset by blast
    have "set (c # ys) \<subseteq> set (c # cs)" "E p' = fold g (c # ys) (E p)"
      "e = None \<longrightarrow> c # ys = filter (bit m) (c # cs)"
      using ys p1(1) 1(1) by auto
    with rest show ?thesis by blast
  next
    case 2
    with Cons.prems(3) b have "sync_channels act upd m cs p applied out = (p', applied', out', e)"
      by (simp del: push_bit_eq_0_iff)
    from Cons.IH [OF _ Cons.prems(2) this] Cons.prems(1)
    have ih: "E p' = mask_channels applied' \<and> (out' = applied' \<or> out' = out \<and> applied' = applied)
      \<and> (\<exists>ys. set ys \<subseteq> set cs \<and> E p' = fold g ys (E p) \<and> (e = None \<longrightarrow> ys = filter (bit m) cs))
      \<and> (e = None \<longrightarrow> filter (bit m) cs \<noteq> [] \<longrightarrow> out' = applied')"
      unfolding set_simps insert_subset by blast
    have "filter (bit m) (c # cs) = filter (bit m) cs" "set cs \<subseteq> set (c # cs)" using 2 by auto
    with ih show ?thesis by (metis subset_trans)
  next
    case 3
    then have "p' = p1" "applied' = applied" "out' = out" "e \<noteq> None"
      using Cons.prems(3) a b by (auto simp del: push_bit_eq_0_iff)
    with act [OF a] Cons.prems(2) 3 show ?thesis by (auto intro!: exI [of _ "[]"])
  qed
qed (auto intro!: exI [of _ "[]"])

lemma sync_channels_accepts:
  "(\<And>p c. c \<in> set cs \<Longrightarrow> snd (act p c) = None) \<Longrightarrow>
    \<exists>p' a' o'. sync_channels act upd m cs p applied out = (p', a', o', None)"
proof (induction cs arbitrary: p applied out)
  case (Cons c cs)
  obtain p1 where "act p c = (p1, None)" using Cons.prems [of c p] by (cases "act p c") auto
  with Cons show ?case by simp
qed simp

lemma fold_insert_channels: "fold insert xs A = A \<union> set xs"
  by (induction xs arbitrary: A) auto

lemma fold_delete_channels: "fold (\<lambda>c A. A - {c}) xs A = A - set xs"
  by (induction xs arbitrary: A) auto

lemma set_filter_mask:
  "mask_channels a \<subseteq> {..<n} \<Longrightarrow> set (filter (bit (a AND NOT b)) [0..<n]) = mask_channels a - mask_channels b"
  using bit_imp_le_length [of a] by (auto simp: bit_simps)

context pwm_driver
begin

lemma sync_disable:
  assumes "set cs \<subseteq> {..<32}" "enabled p = mask_channels a"
    and "sync_channels (po_disable ops) (\<lambda>a b. a AND NOT b) m cs p a out = (p', a', out', e)"
  shows "enabled p' = mask_channels a' \<and> (out' = a' \<or> out' = out \<and> a' = a)
    \<and> (\<exists>ys. set ys \<subseteq> set cs \<and> enabled p' = enabled p - set ys \<and> (e = None \<longrightarrow> ys = filter (bit m) cs))
    \<and> (e = None \<longrightarrow> filter (bit m) cs \<noteq> [] \<longrightarrow> out' = a')"
  unfolding fold_delete_channels [symmetric]
  by (rule sync_channels_spec [where E = enabled, OF _ _ assms]) (simp_all add: disable del: push_bit_of_1)

lemma sync_enable:
  assumes "set cs \<subseteq> {..<32}" "enabled p = mask_channels a"
    and "sync_channels (po_enable ops) (\<lambda>a b. a OR b) m cs p a out = (p', a', out', e)"
  shows "enabled p' = mask_channels a' \<and> (out' = a' \<or> out' = out \<and> a' = a)
    \<and> (\<exists>ys. set ys \<subseteq> set cs \<and> enabled p' = enabled p \<union> set ys \<and> (e = None \<longrightarrow> ys = filter (bit m) cs))
    \<and> (e = None \<longrightarrow> filter (bit m) cs \<noteq> [] \<longrightarrow> out' = a')"
  unfolding fold_insert_channels [symmetric]
  by (rule sync_channels_spec [where E = enabled, OF _ _ assms]) (simp_all add: enable del: push_bit_of_1)

text \<open>
  Whatever the driver answers, the mask kept by the core still names the enabled channels,
  and a result without an error is the mask asked for.
\<close>

lemma sync_agrees:
  assumes "enabled p = mask_channels (out AND available_mask (po_len ops))"
    and "sync_pwm_output_state ops kill m p out = (p', out', r)"
  shows "enabled p' = mask_channels (out' AND available_mask (po_len ops))
    \<and> (\<forall>changed. r = Inr changed \<longrightarrow>
        out' = desired_mask kill m (available_mask (po_len ops))
        \<and> changed = (out AND available_mask (po_len ops) \<noteq> out'))"
proof -
  define av where "av = available_mask (po_len ops)"
  define des where "des = desired_mask kill m av"
  define cur where "cur = out AND av"
  have n: "min (po_len ops) 32 = po_len ops" using few_channels by simp
  have av: "mask_channels av = {..<po_len ops}"
    using few_channels unfolding av_def by (rule mask_channels_available)
  have des: "mask_channels des \<subseteq> {..<po_len ops}"
    unfolding des_def using desired_mask_subset av by blast
  have cur: "enabled p = mask_channels cur" "mask_channels cur \<subseteq> {..<po_len ops}"
    unfolding cur_def mask_channels_and av
    using assms(1) [folded av_def, unfolded mask_channels_and av] by blast+
  have idem: "cur AND av = cur" "des AND av = des"
    by (rule mask_channels_inj, use cur des av in \<open>auto simp: mask_channels_and\<close>)+
  have keep: "mask_channels a \<subseteq> {..<po_len ops} \<Longrightarrow> mask_channels (a AND av) = mask_channels a" for a
    using av by (auto simp: mask_channels_and)
  have out: "mask_channels (out AND av) = mask_channels cur" by (simp add: cur_def)
  note def = assms(2) [unfolded sync_pwm_output_state_def Let_def n, folded av_def, folded des_def cur_def]
  consider "des = cur" | "des \<noteq> cur" "des = av" "cur = 0" | "des \<noteq> cur" "des \<noteq> av \<or> cur \<noteq> 0" "des = 0"
    | "des \<noteq> cur" "des \<noteq> av \<or> cur \<noteq> 0" "des \<noteq> 0" by blast
  then have "enabled p' = mask_channels (out' AND av) \<and> (\<forall>changed. r = Inr changed \<longrightarrow>
      out' = des \<and> changed = (cur \<noteq> out'))"
  proof cases
    case 1
    with def cur(1) idem(1) show ?thesis by auto
  next
    case 2
    obtain p1 e where e: "po_enable_all ops p = (p1, e)" by fastforce
    show ?thesis
    proof (cases e)
      case None
      with 2 def e enable_all [OF e] av show ?thesis by auto
    next
      case (Some x)
      then have "p' = p1" "out' = out" "r = Inl x" using 2 def e by auto
      with enable_all [OF e] Some cur(1) show ?thesis by (simp add: cur_def [symmetric])
    qed
  next
    case 3
    with def disable_all flush show ?thesis by auto
  next
    case 4
    obtain p1 a1 o1 e1 where s1: "sync_channels (po_disable ops) (\<lambda>a b. a AND NOT b) (cur AND NOT des)
      [0..<po_len ops] p cur out = (p1, a1, o1, e1)" by (metis surj_pair)
    have cs: "set [0..<po_len ops] \<subseteq> {..<32}" using few_channels by auto
    note spec1 = sync_disable [OF cs cur(1) s1]
    have a1: "enabled p1 = mask_channels a1" "o1 = a1 \<or> o1 = out \<and> a1 = cur" using spec1 by simp_all
    from spec1 have sub1: "mask_channels a1 \<subseteq> {..<po_len ops}"
      using cur by (auto simp: fold_delete_channels a1(1))
    show ?thesis
    proof (cases e1)
      case (Some x)
      then have "p' = p1" "out' = o1" "r = Inl x" using def s1 4 by auto
      with a1 keep [OF sub1] out show ?thesis by auto
    next
      case None
      define p2 where "p2 = (if cur AND NOT des \<noteq> 0 then po_flush ops p1 else p1)"
      have p2: "enabled p2 = mask_channels a1" using a1(1) flush by (simp add: p2_def)
      obtain p3 a2 o2 e2 where s2: "sync_channels (po_enable ops) (\<lambda>a b. a OR b) (des AND NOT cur)
        [0..<po_len ops] p2 a1 o1 = (p3, a2, o2, e2)" by (metis surj_pair)
      note spec2 = sync_enable [OF cs p2 s2]
      have "p' = p3" "out' = o2" "r = (case e2 of None \<Rightarrow> Inr True | Some x \<Rightarrow> Inl x)"
        using def s1 s2 None 4 by (auto simp: p2_def split: option.splits)
      from spec2 obtain ys where "set ys \<subseteq> set [0..<po_len ops]" "enabled p3 = enabled p2 \<union> set ys"
        "enabled p3 = mask_channels a2" by blast
      with sub1 p2 have sub2: "mask_channels a2 \<subseteq> {..<po_len ops}" by auto
      have o2: "o2 = a2 \<or> o2 = o1 \<and> a2 = a1" using spec2 by simp
      have "mask_channels (o2 AND av) = mask_channels a2"
        using o2 a1(2) keep [OF sub2] out by auto
      moreover have "o2 = des" if "e2 = None"
      proof -
        have "mask_channels a1 = mask_channels cur - (mask_channels cur - mask_channels des)"
          using spec1 None unfolding a1(1) cur(1) set_filter_mask [OF cur(2), symmetric] by blast
        moreover have "mask_channels a2 = mask_channels a1 \<union> (mask_channels des - mask_channels cur)"
          using spec2 that unfolding p2 set_filter_mask [OF des, symmetric] by blast
        ultimately have a2: "a2 = des" by (intro mask_channels_inj) blast
        show ?thesis
        proof (cases "filter (bit (des AND NOT cur)) [0..<po_len ops] = []")
          case True
          then have "mask_channels des - mask_channels cur = {}"
            unfolding set_filter_mask [OF des, symmetric] by simp
          moreover have "mask_channels des \<noteq> mask_channels cur" using 4(1) mask_channels_inj by blast
          ultimately have "set (filter (bit (cur AND NOT des)) [0..<po_len ops]) \<noteq> {}"
            unfolding set_filter_mask [OF cur(2)] by blast
          then have "filter (bit (cur AND NOT des)) [0..<po_len ops] \<noteq> []" by force
          with spec1 None o2 a2 show ?thesis by auto
        qed (use spec2 that a2 in blast)
      qed
      ultimately show ?thesis
        using spec2 \<open>p' = p3\<close> \<open>out' = o2\<close> \<open>r = _\<close> 4 by (auto split: option.splits)
    qed
  qed
  then show ?thesis unfolding av_def des_def cur_def .
qed

end

context reliable_pwm_driver
begin

lemma sync_succeeds: "\<exists>p' out' changed. sync_pwm_output_state ops kill m p out = (p', out', Inr changed)"
proof -
  let ?n = "min (po_len ops) 32"
  have en: "\<And>p c. c \<in> set [0..<?n] \<Longrightarrow> snd (po_enable ops p c) = None"
    and di: "\<And>p c. c \<in> set [0..<?n] \<Longrightarrow> snd (po_disable ops p c) = None"
    using enable_accepts disable_accepts by simp_all
  obtain p0 where all: "po_enable_all ops p = (p0, None)"
    using enable_all_accepts [of p] by (metis prod.collapse)
  let ?av = "available_mask ?n"
  let ?des = "desired_mask kill m ?av" and ?cur = "out AND ?av"
  obtain p1 a1 o1 where s1: "sync_channels (po_disable ops) (\<lambda>a b. a AND NOT b) (?cur AND NOT ?des) [0..<?n]
      p ?cur out = (p1, a1, o1, None)"
    using sync_channels_accepts [where act = "po_disable ops" and cs = "[0..<?n]", OF di] by blast
  define p2 where "p2 = (if ?cur AND NOT ?des \<noteq> 0 then po_flush ops p1 else p1)"
  obtain p3 a2 o2 where s2: "sync_channels (po_enable ops) (\<lambda>a b. a OR b) (?des AND NOT ?cur) [0..<?n]
      p2 a1 o1 = (p3, a2, o2, None)"
    using sync_channels_accepts [where act = "po_enable ops" and cs = "[0..<?n]", OF en] by blast
  show ?thesis
    unfolding sync_pwm_output_state_def Let_def all s1 prod.case option.case p2_def [symmetric] s2
    by (auto split: if_split)
qed

lemma sync_follows_mask:
  assumes "enabled p = mask_channels (out AND available_mask (po_len ops))"
    and "sync_pwm_output_state ops kill m p out = (p', out', r)"
  shows "r = Inr (out AND available_mask (po_len ops) \<noteq> out')
    \<and> out' = desired_mask kill m (available_mask (po_len ops))
    \<and> enabled p' = {c. c < po_len ops \<and> \<not> kill \<and> (m = - 1 \<or> 0 \<le> sint m \<and> bit m c)}"
proof -
  let ?av = "available_mask (po_len ops)"
  from sync_succeeds [of kill m p out] assms(2) obtain changed where r: "r = Inr changed" by auto
  have o: "out' = desired_mask kill m ?av" "changed = (out AND ?av \<noteq> out')"
    using sync_agrees [OF assms] r by blast+
  have av: "mask_channels ?av = {..<po_len ops}" using few_channels by (rule mask_channels_available)
  have "mask_channels (desired_mask kill m ?av AND ?av) = mask_channels (desired_mask kill m ?av)"
    unfolding mask_channels_and using desired_mask_subset by blast
  with sync_agrees [OF assms] o r show ?thesis unfolding desired_channels av lessThan_iff by blast
qed

end

section \<open>The RP2350 driver keeps the contract\<close>

definition pio_enabled :: "pio_pwm \<Rightarrow> nat set" where
  "pio_enabled d = {c. c < MAX_PWM_OUTPUTS \<and> bit (pio_enabled_mask d) c}"

lemma pio_enable_enabled:
  "c < MAX_PWM_OUTPUTS \<Longrightarrow> pio_enabled (fst (pio_enable d c)) = insert c (pio_enabled d)"
  "c < MAX_PWM_OUTPUTS \<Longrightarrow> pio_enabled (fst (pio_disable d c)) = pio_enabled d - {c}"
  by (auto simp: pio_enable_def pio_disable_def pio_enabled_def MAX_PWM_OUTPUTS_def bit_simps)

lemma try_each_enable:
  "set cs \<subseteq> {..<MAX_PWM_OUTPUTS} \<Longrightarrow>
    snd (try_each pio_enable cs d) = None \<and> pio_enabled (fst (try_each pio_enable cs d)) = pio_enabled d \<union> set cs"
proof (induction cs arbitrary: d)
  case (Cons c cs)
  obtain d1 where d1: "pio_enable d c = (d1, None)" "pio_enabled d1 = insert c (pio_enabled d)"
    using Cons.prems pio_enable_enabled(1) [of c d] by (auto simp: pio_enable_def)
  with Cons show ?case by simp
qed simp

lemma pio_enable_all_enabled:
  "pio_enable_all d = (d', e) \<Longrightarrow> e = None \<and> pio_enabled d' = {..<MAX_PWM_OUTPUTS}"
proof -
  assume a: "pio_enable_all d = (d', e)"
  have "set [0..<MAX_PWM_OUTPUTS] = {..<MAX_PWM_OUTPUTS}" by auto
  moreover have "pio_enabled d \<union> {..<MAX_PWM_OUTPUTS} = {..<MAX_PWM_OUTPUTS}" by (auto simp: pio_enabled_def)
  ultimately show ?thesis
    using a try_each_enable [of "[0..<MAX_PWM_OUTPUTS]" d] by (simp add: pio_enable_all_def)
qed

interpretation pio: reliable_pwm_driver pio_ops pio_enabled
proof unfold_locales
  show "pio_enabled p' = (if e = None then insert c (pio_enabled p) else pio_enabled p)"
    if "po_enable pio_ops p c = (p', e)" for p c p' e
    using that pio_enable_enabled(1) [of c p] by (auto simp: pio_ops_def pio_enable_def split: if_splits)
  show "pio_enabled p' = (if e = None then pio_enabled p - {c} else pio_enabled p)"
    if "po_disable pio_ops p c = (p', e)" for p c p' e
    using that pio_enable_enabled(2) [of c p] by (auto simp: pio_ops_def pio_disable_def split: if_splits)
  show "pio_enabled p' = (if e = None then {..<po_len pio_ops} else pio_enabled p)"
    if "po_enable_all pio_ops p = (p', e)" for p p' e
    using that pio_enable_all_enabled [of p] by (simp add: pio_ops_def)
  show "snd (po_enable_all pio_ops p) = None" for p
    using pio_enable_all_enabled [of p] by (cases "pio_enable_all p") (simp add: pio_ops_def)
qed (auto simp: pio_ops_def pio_disable_all_def pio_flush_def pio_enabled_def pio_enable_def pio_disable_def
    MAX_PWM_OUTPUTS_def)

text \<open>
  C24. Synchronising the outputs of the RP2350 driver always succeeds and leaves enabled
  exactly the channels asked for: all for the mask -1, those of a non-negative mask that the
  board has, none for another negative mask and none under the kill switch; the core's own
  mask names the same channels, and the result says whether that mask changed.
\<close>

theorem rp2350_outputs_follow_the_mask:
  assumes "pio_enabled d = mask_channels (out AND available_mask MAX_PWM_OUTPUTS)"
    and "sync_pwm_output_state pio_ops kill m d out = (d', out', r)"
  shows "r = Inr (out AND available_mask MAX_PWM_OUTPUTS \<noteq> out')
    \<and> pio_enabled d' = mask_channels out'
    \<and> pio_enabled d' = {c. c < MAX_PWM_OUTPUTS \<and> \<not> kill \<and> (m = - 1 \<or> 0 \<le> sint m \<and> bit m c)}"
proof -
  have len: "po_len pio_ops = MAX_PWM_OUTPUTS" by (simp add: pio_ops_def)
  note f = pio.sync_follows_mask [unfolded len, OF assms]
  have av: "mask_channels (available_mask MAX_PWM_OUTPUTS) = {..<MAX_PWM_OUTPUTS}"
    by (rule mask_channels_available) (simp add: MAX_PWM_OUTPUTS_def)
  from f have "mask_channels out' = {c. c < MAX_PWM_OUTPUTS \<and> \<not> kill \<and> (m = - 1 \<or> 0 \<le> sint m \<and> bit m c)}"
    unfolding lessThan_iff [symmetric] av [symmetric] desired_channels [symmetric] by blast
  with f show ?thesis by simp
qed

theorem rp2350_outputs_follow_the_mask_witness:
  "pio_enabled (fst (sync_pwm_output_state pio_ops False 5 pio_pwm_new 0)) = {0, 2}"
proof -
  obtain d' out' r where s: "sync_pwm_output_state pio_ops False 5 pio_pwm_new 0 = (d', out', r)"
    by (metis surj_pair)
  have "pio_enabled pio_pwm_new = mask_channels (0 AND available_mask MAX_PWM_OUTPUTS)"
    by (simp add: pio_enabled_def pio_pwm_new_def)
  from rp2350_outputs_follow_the_mask [OF this s]
  have "pio_enabled d' = {c. c < MAX_PWM_OUTPUTS \<and> \<not> False \<and> (5 = (- 1 :: i32) \<or> 0 \<le> sint (5 :: i32) \<and> bit (5 :: i32) c)}"
    by blast
  also have "\<dots> = set (filter (bit (5 :: i32)) [0..<12])"
    by (auto simp: MAX_PWM_OUTPUTS_def)
  also have "filter (bit (5 :: i32)) [0..<12] = [0, 2]" by code_simp
  also have "set [0, 2 :: nat] = {0, 2}" by simp
  finally show ?thesis by (simp add: s)
qed

section \<open>The composed outputs\<close>

context flight_float
begin

abbreviation unit_range :: "'r flt \<Rightarrow> bool" where
  "unit_range x \<equiv> 0 \<le> x \<and> x \<le> 1"

lemma lit32_half: "(lit32 5 10 :: 'r flt) = flt_lit 1 2" "fval (lit32 5 10 :: 'r flt) = 2 ^ (ulp_exp TYPE('r) - 1)"
  "is_finite (lit32 5 10 :: 'r flt)"
proof -
  have "(flt_lit 5 10 :: f32) = flt_lit 1 2" by (simp add: flt_eval)
  then show "(lit32 5 10 :: 'r flt) = flt_lit 1 2" using from_f32_lit [of 1 1] by simp
  then show "fval (lit32 5 10 :: 'r flt) = 2 ^ (ulp_exp TYPE('r) - 1)" "is_finite (lit32 5 10 :: 'r flt)"
    using flt_lit_half [of 1] mantissa_room by simp_all
qed

lemma unit_range_lits: "unit_range 0" "unit_range 1" "unit_range (lit32 5 10)"
  using lit32_half mantissa_room(2)
  by (simp_all add: le_finite_iff power_increasing)

lemma safe_command_in_range: "unit_range (safe_disarmed_command t)"
  using unit_range_lits by (cases t) (simp_all add: safe_disarmed_command_def lit32_0)

lemma servo_in_range:
  assumes "\<not> is_nan (v :: 'r flt)"
  shows "unit_range (flt_clamp v (lit32 (- 1) 1) (lit32 1 1) * lit32 5 10 + lit32 5 10)"
proof -
  let ?u = "2 ^ ulp_exp TYPE('r) :: int" and ?h = "2 ^ (ulp_exp TYPE('r) - 1) :: int"
  have uh: "?u = 2 * ?h" using mantissa_room(2) by (simp flip: power_Suc)
  have m1: "(lit32 (- 1) 1 :: 'r flt) = flt_lit (- 1) 1" using from_f32_lit [of "- 1" 0] by simp
  have f1: "fval (flt_lit (- 1) 1 :: 'r flt) = - ?u" "is_finite (flt_lit (- 1) 1 :: 'r flt)"
    using flt_lit_int [of "- 1"] mantissa_room by simp_all
  have fh: "fval (flt_lit (- 1) 2 :: 'r flt) = - ?h" "is_finite (flt_lit (- 1) 2 :: 'r flt)"
    using flt_lit_half [of "- 1"] mantissa_room by simp_all
  have "flt_lit (- 1) 1 \<le> (1 :: 'r flt)" using f1 by (simp add: le_finite_iff)
  from flt_clamp_between [OF assms this]
  have c: "flt_lit (- 1) 1 \<le> flt_clamp v (flt_lit (- 1) 1) 1" "flt_clamp v (flt_lit (- 1) 1) 1 \<le> 1" by simp_all
  let ?c = "flt_clamp v (flt_lit (- 1) 1) 1"
  have fc: "is_finite ?c" by (rule between_finite [OF f1(2) one_fval(2) c])
  have vc: "- ?u \<le> fval ?c" "fval ?c \<le> ?u" using c fc f1 by (simp_all add: le_finite_iff)
  have p: "flt_lit (- 1) 2 \<le> ?c * lit32 5 10 \<and> ?c * lit32 5 10 \<le> lit32 5 10"
    using fc lit32_half fh vc mult_right_mono [OF vc(1), of ?h] mult_right_mono [OF vc(2), of ?h]
    by (intro mul_between) (simp_all add: ac_simps)
  then have fp: "is_finite (?c * lit32 5 10)" "- ?h \<le> fval (?c * lit32 5 10)" "fval (?c * lit32 5 10) \<le> ?h"
    using between_finite [of "flt_lit (- 1) 2" "lit32 5 10" "?c * lit32 5 10"] lit32_half fh
    by (auto simp: le_finite_iff)
  have "unit_range (?c * lit32 5 10 + lit32 5 10)"
    using fp lit32_half uh by (intro add_between) simp_all
  then show ?thesis by (simp add: m1 lit32_1)
qed

lemma raw_output_in_range:
  assumes "unit_range (idle :: 'r flt)" "\<not> is_nan (v :: 'r flt)"
  shows "unit_range (raw_output_for_type t v s idle spin)
    \<and> (t = OutMotor \<and> is_armed s \<and> spin \<longrightarrow> idle \<le> raw_output_for_type t v s idle spin)"
proof (cases t)
  case OutServo
  then show ?thesis using servo_in_range [OF assms(2)] by (simp add: raw_output_for_type_def)
next
  case OutMotor
  have "v \<le> 1" if "\<not> 1 < v" using that assms(2) finite_not [OF one_fval(2)] by (simp add: not_less_le)
  moreover have "0 \<le> v" if "\<not> v < 0" using that assms(2) by (simp add: not_less_le)
  moreover have "idle \<le> v" if "\<not> v < idle"
    using that assms by (simp add: less_flt_def less_eq_flt_def)
  moreover have "\<not> (v < 0)" if "idle \<le> v" using that assms(1) by (auto simp: less_flt_def less_eq_flt_def)
  moreover have "\<not> is_nan idle" using assms(1) by (simp add: less_eq_flt_def)
  ultimately show ?thesis
    using OutMotor assms(1) unit_range_lits flt_le_refl
    by (auto simp: raw_output_for_type_def lit32_0 lit32_1)
qed (use unit_range_lits in \<open>auto simp: raw_output_for_type_def lit32_0 lit32_1\<close>)

end


definition spinning_params :: params where
  "spinning_params = set_by_id (set_by_id (set_by_id \<lparr>param_values = (\<lambda>_. PInt 0)\<rparr>
     PARAM_MOTOR_IDLE_THROTTLE (PFloat (flt_lit 1 10))) PARAM_SPIN_MOTORS_WHEN_ARMED (PInt 1))
     PARAM_CHANNEL_OUTPUT_MASK (PInt (- 1))"

lemma spinning_param_values:
  "float_param_or spinning_params PARAM_MOTOR_IDLE_THROTTLE 0 = flt_lit 1 10"
  "int_param_set spinning_params PARAM_SPIN_MOTORS_WHEN_ARMED"
  "int_param_or spinning_params PARAM_CHANNEL_OUTPUT_MASK 0 = - 1"
  by (simp_all add: spinning_params_def float_param_or_def int_param_set_def int_param_or_def get_by_id_def set_by_id_def)


end
