(* ===== verification/Mavlink_Parser.thy ===== *)
theory Mavlink_Parser
  imports Prelude
begin

text \<open>
  The MAVLink version 1 framing of \<^verbatim>\<open>veloxity_mavlink\<close>: the byte parser of \<^verbatim>\<open>parser.rs\<close> with
  its checksum, and \<^verbatim>\<open>encode_frame\<close> of \<^verbatim>\<open>link.rs\<close>. An index outside the frame buffer, which
  panics in Rust, is \<^verbatim>\<open>None\<close>. The frames of the \<^verbatim>\<open>mavio\<close> crate are seen through the
  accessors that \<^verbatim>\<open>encode_frame\<close> calls, collected in a record; decoding a payload is left to
  that crate.
\<close>

unbundle bit_operations_syntax

section \<open>Frames and parser state\<close>

definition MAX_FRAME_SIZE_BYTES :: nat where "MAX_FRAME_SIZE_BYTES = 280"

record complete_frame =
  cf_data :: "u8 list"
  cf_len :: nat

datatype parse_state = WaitingForStart | ReadingHeader | ReadingPayload nat | ReadingChecksum nat

record mavlink_parser =
  frame_buf :: "u8 list"
  frame_pos :: nat
  parse_state :: parse_state

definition mavlink_parser_new :: mavlink_parser where
  "mavlink_parser_new = \<lparr>frame_buf = replicate MAX_FRAME_SIZE_BYTES 0, frame_pos = 0, parse_state = WaitingForStart\<rparr>"

definition parser_reset :: "mavlink_parser \<Rightarrow> mavlink_parser" where
  "parser_reset q = q\<lparr>frame_pos := 0, parse_state := WaitingForStart\<rparr>"

section \<open>Checksum\<close>

definition crc_accumulate :: "u8 \<Rightarrow> u16 \<Rightarrow> u16" where
  "crc_accumulate data crc =
    (let tmp = data XOR ucast crc; tmp' = tmp XOR push_bit 4 tmp; tmp16 = ucast tmp'
     in drop_bit 8 crc XOR push_bit 8 tmp16 XOR push_bit 3 tmp16 XOR drop_bit 4 tmp16)"

definition crc_extra :: "u8 \<Rightarrow> u8" where
  "crc_extra msg_id =
    (if msg_id = 0 then 50 else if msg_id = 20 then 214 else if msg_id = 21 then 159
     else if msg_id = 22 then 220 else if msg_id = 23 then 168 else if msg_id = 31 then 246
     else if msg_id = 65 then 118 else if msg_id = 111 then 34 else if msg_id = 180 then 90
     else if msg_id = 181 then 67 else if msg_id = 182 then 218 else if msg_id = 183 then 206
     else if msg_id = 184 then 169 else if msg_id = 187 then 60 else if msg_id = 188 then 249
     else if msg_id = 189 then 113 else if msg_id = 190 then 181 else if msg_id = 191 then 12
     else if msg_id = 192 then 134 else if msg_id = 193 then 1 else if msg_id = 195 then 65
     else if msg_id = 196 then 10 else if msg_id = 197 then 221 else if msg_id = 199 then 48
     else if msg_id = 253 then 83 else 0)"

text \<open>The loop reads the bytes 1 to \<^verbatim>\<open>payload_len + 5\<close> of the buffer.\<close>

definition calculate_crc :: "mavlink_parser \<Rightarrow> nat \<Rightarrow> u16 option" where
  "calculate_crc q payload_len =
    (if length (frame_buf q) < 6 + payload_len then None
     else let crc = fold (\<lambda>i. crc_accumulate (frame_buf q ! i)) [1..<6 + payload_len] 0xFFFF;
              extra = crc_extra (frame_buf q ! 5)
          in Some (if extra \<noteq> 0 then crc_accumulate extra crc else crc))"

section \<open>One byte\<close>

text \<open>\<^verbatim>\<open>self.frame_buf[self.frame_pos] = byte; self.frame_pos += 1\<close>.\<close>

definition put_byte :: "mavlink_parser \<Rightarrow> u8 \<Rightarrow> mavlink_parser option" where
  "put_byte q byte =
    (if frame_pos q < length (frame_buf q)
     then Some (q\<lparr>frame_buf := (frame_buf q)[frame_pos q := byte], frame_pos := frame_pos q + 1\<rparr>)
     else None)"

definition feed_start :: "mavlink_parser \<Rightarrow> u8 \<Rightarrow> (mavlink_parser \<times> complete_frame option) option" where
  "feed_start q byte =
    (if byte = 0xFE
     then Some (q\<lparr>frame_buf := (frame_buf q)[0 := byte], frame_pos := 1, parse_state := ReadingHeader\<rparr>, None)
     else Some (q, None))"

definition feed_header :: "mavlink_parser \<Rightarrow> u8 \<Rightarrow> (mavlink_parser \<times> complete_frame option) option" where
  "feed_header q byte = (case put_byte q byte of None \<Rightarrow> None | Some q1 \<Rightarrow>
     if 6 \<le> frame_pos q1 then
       (let payload_len = unat (frame_buf q1 ! 1)
        in if 255 < payload_len then Some (parser_reset q1, None)
        else if payload_len = 0 then Some (q1\<lparr>parse_state := ReadingChecksum 2\<rparr>, None)
        else Some (q1\<lparr>parse_state := ReadingPayload payload_len\<rparr>, None))
     else Some (q1, None))"

definition feed_payload :: "mavlink_parser \<Rightarrow> nat \<Rightarrow> u8 \<Rightarrow> (mavlink_parser \<times> complete_frame option) option" where
  "feed_payload q expected_len byte = (case put_byte q byte of None \<Rightarrow> None | Some q1 \<Rightarrow>
     if expected_len \<le> frame_pos q1 - 6 then Some (q1\<lparr>parse_state := ReadingChecksum 2\<rparr>, None)
     else Some (q1, None))"

text \<open>After a wrong checksum: the buffer is shifted to the next start byte in it, if any.\<close>

definition resync :: "mavlink_parser \<Rightarrow> mavlink_parser" where
  "resync q = (case find (\<lambda>i. frame_buf q ! i = 0xFE) [1..<frame_pos q] of
     Some start_pos \<Rightarrow>
       (let remaining = frame_pos q - start_pos
        in q\<lparr>frame_buf := fold (\<lambda>i b. b[i := b ! (start_pos + i)]) [0..<remaining] (frame_buf q),
             frame_pos := remaining, parse_state := ReadingHeader\<rparr>)
   | None \<Rightarrow> parser_reset q)"

definition feed_checksum :: "mavlink_parser \<Rightarrow> nat \<Rightarrow> u8 \<Rightarrow> (mavlink_parser \<times> complete_frame option) option" where
  "feed_checksum q bytes_remaining byte = (case put_byte q byte of None \<Rightarrow> None | Some q1 \<Rightarrow>
     if bytes_remaining = 1 then
       (let payload_len = unat (frame_buf q1 ! 1);
            crc_low = frame_buf q1 ! (frame_pos q1 - 2); crc_high = frame_buf q1 ! (frame_pos q1 - 1);
            received_crc = push_bit 8 (ucast crc_high) OR ucast crc_low :: u16
        in case calculate_crc q1 payload_len of None \<Rightarrow> None | Some calculated_crc \<Rightarrow>
          if received_crc = calculated_crc then
            (let frame_len = frame_pos q1
             in Some (parser_reset q1, Some \<lparr>cf_data = take frame_len (frame_buf q1) @ replicate (280 - frame_len) 0,
                  cf_len = frame_len\<rparr>))
          else Some (resync q1, None))
     else Some (q1\<lparr>parse_state := ReadingChecksum (bytes_remaining - 1)\<rparr>, None))"

definition feed_byte :: "mavlink_parser \<Rightarrow> u8 \<Rightarrow> (mavlink_parser \<times> complete_frame option) option" where
  "feed_byte q byte = (case parse_state q of
     WaitingForStart \<Rightarrow> feed_start q byte
   | ReadingHeader \<Rightarrow> feed_header q byte
   | ReadingPayload expected_len \<Rightarrow> feed_payload q expected_len byte
   | ReadingChecksum bytes_remaining \<Rightarrow> feed_checksum q bytes_remaining byte)"

text \<open>The loop of \<^verbatim>\<open>handle_incoming_messages\<close> over the bytes read: the frames delivered, in order.\<close>

fun feed_bytes :: "mavlink_parser \<Rightarrow> u8 list \<Rightarrow> (mavlink_parser \<times> complete_frame list) option" where
  "feed_bytes q [] = Some (q, [])"
| "feed_bytes q (b # bs) = (case feed_byte q b of None \<Rightarrow> None | Some (q1, f) \<Rightarrow>
     (case feed_bytes q1 bs of None \<Rightarrow> None | Some (q2, fs) \<Rightarrow> Some (q2, (case f of None \<Rightarrow> fs | Some x \<Rightarrow> x # fs))))"

section \<open>Encoding\<close>

text \<open>What \<^verbatim>\<open>encode_frame\<close> reads of a \<^verbatim>\<open>mavio::Frame<V1>\<close>.\<close>

record wire_frame =
  wf_payload :: "u8 list"
  wf_sequence :: u8
  wf_system_id :: u8
  wf_component_id :: u8
  wf_message_id :: u32
  wf_checksum :: u16

definition frame_bytes :: "wire_frame \<Rightarrow> u8 list" where
  "frame_bytes f = [0xFE, word_of_nat (length (wf_payload f)), wf_sequence f, wf_system_id f,
     wf_component_id f, ucast (wf_message_id f)] @ wf_payload f
     @ [ucast (wf_checksum f), ucast (drop_bit 8 (wf_checksum f))]"

definition encode_frame :: "wire_frame \<Rightarrow> u8 list \<Rightarrow> u8 list \<times> nat option" where
  "encode_frame f out =
    (let frame_len = length (wf_payload f) + 8
     in if length out < frame_len then (out, None)
     else (frame_bytes f @ drop frame_len out, Some frame_len))"

end
