(* ===== verification/Mavlink_Parser_Safety.thy ===== *)
theory Mavlink_Parser_Safety
  imports Mavlink_Parser
begin

text \<open>
  What the framing promises: the checksum is the CRC of the protocol and detects a corrupted
  byte, a stream of valid frames is delivered frame by frame, every delivered frame has
  passed its checksum, and a run of start bytes overruns the buffer.
\<close>

unbundle bit_operations_syntax

section \<open>The checksum is CRC-16/MCRF4XX\<close>

text \<open>The reference, one bit at a time with the reflected polynomial \<^verbatim>\<open>0x8408\<close>.\<close>

definition crc_bit :: "u16 \<Rightarrow> u16" where
  "crc_bit c = (if bit c 0 then drop_bit 1 c XOR 0x8408 else drop_bit 1 c)"

definition crc_byte :: "u8 \<Rightarrow> u16 \<Rightarrow> u16" where
  "crc_byte data crc = (crc_bit ^^ 8) (crc XOR ucast data)"

lemma crc_bit_xor: "crc_bit (a XOR b) = crc_bit a XOR crc_bit b"
  by (simp add: crc_bit_def bit_xor_iff drop_bit_xor ac_simps)

lemma crc_bits_xor: "(crc_bit ^^ n) (a XOR b) = (crc_bit ^^ n) a XOR (crc_bit ^^ n) b"
  by (induction n) (simp_all add: crc_bit_xor)

text \<open>Two maps that distribute over \<open>XOR\<close> are equal when they agree on the eight single bits.\<close>

lemma xor_linear_eq:
  fixes g h :: "u8 \<Rightarrow> u16"
  assumes g: "\<And>a b. g (a XOR b) = g a XOR g b" and h: "\<And>a b. h (a XOR b) = h a XOR h b"
    and basis: "\<And>i. i < 8 \<Longrightarrow> g (push_bit i 1) = h (push_bit i 1)"
  shows "g t = h t"
proof -
  have "g (take_bit n t) = h (take_bit n t)" if "n \<le> 8" for n
    using that
  proof (induction n)
    case 0
    have "g 0 = 0" "h 0 = 0" using g [of 0 0] h [of 0 0] by simp_all
    then show ?case by simp
  next
    case (Suc n)
    have 0: "g 0 = 0" "h 0 = 0" using g [of 0 0] h [of 0 0] by simp_all
    have "take_bit (Suc n) t = take_bit n t XOR (if bit t n then push_bit n 1 else 0)"
      using Suc.prems by (intro bit_word_eqI) (auto simp: bit_simps less_Suc_eq)
    with Suc g h basis [of n] 0 show ?case by auto
  qed
  moreover have "take_bit 8 t = t" by (rule bit_word_eqI) (simp add: bit_simps)
  ultimately show ?thesis by (metis order_refl)
qed

definition crc_table :: "u8 \<Rightarrow> u16" where
  "crc_table t = (let t16 = ucast (t XOR push_bit 4 t)
     in push_bit 8 t16 XOR push_bit 3 t16 XOR drop_bit 4 t16)"

lemma crc_table_xor: "crc_table (a XOR b) = crc_table a XOR crc_table b"
  by (simp add: crc_table_def Let_def unsigned_xor_eq push_bit_xor drop_bit_xor ac_simps)

lemma crc_table_bits: "crc_table t = (crc_bit ^^ 8) (ucast t)"
proof (rule xor_linear_eq)
  show "crc_table (a XOR b) = crc_table a XOR crc_table b" for a b by (rule crc_table_xor)
  show "(crc_bit ^^ 8) (ucast (a XOR b)) = (crc_bit ^^ 8) (ucast a) XOR (crc_bit ^^ 8) (ucast b)" for a b :: u8
    by (simp add: unsigned_xor_eq crc_bits_xor)
  have "list_all (\<lambda>i. crc_table (push_bit i 1) = (crc_bit ^^ 8) (ucast (push_bit i 1 :: u8))) [0..<8]"
    by code_simp
  then show "crc_table (push_bit i 1) = (crc_bit ^^ 8) (ucast (push_bit i 1 :: u8))" if "i < 8" for i
    using that by (simp add: list_all_iff)
qed

lemma crc_bits_high: "n \<le> 8 \<Longrightarrow> (crc_bit ^^ n) (push_bit 8 (h :: u16)) = drop_bit n (push_bit 8 h)"
proof (induction n)
  case (Suc n)
  have "\<not> bit (drop_bit n (push_bit 8 h)) 0" using Suc.prems by (simp add: bit_simps)
  with Suc show ?case by (simp add: crc_bit_def)
qed simp

text \<open>
  The checksum of the parser is the CRC of the protocol: accumulating a byte is eight
  steps of the shift register with the reflected polynomial \<^verbatim>\<open>0x8408\<close>.
\<close>

theorem crc_accumulate_is_crc: "crc_accumulate data crc = crc_byte data crc"
proof -
  have split: "crc XOR ucast data = push_bit 8 (drop_bit 8 crc) XOR ucast (data XOR ucast crc :: u8)"
    by (rule bit_word_eqI) (auto simp: bit_simps dest: bit_imp_le_length)
  have "(crc_bit ^^ 8) (push_bit 8 (drop_bit 8 crc)) = drop_bit 8 crc"
    unfolding crc_bits_high [OF order_refl]
    by (rule bit_word_eqI) (auto simp: bit_simps dest: bit_imp_le_length)
  then show ?thesis
    unfolding crc_byte_def split crc_bits_xor crc_table_bits [symmetric]
    by (simp add: crc_accumulate_def crc_table_def Let_def)
qed

lemma inj_crc_bit: "inj crc_bit"
proof (rule injI)
  fix a b assume eq: "crc_bit a = crc_bit b"
  have top: "bit (crc_bit c) 15 = bit c 0" for c
    using bit_imp_le_length [of c 16] by (auto simp: crc_bit_def bit_simps bit_numeral_rec)
  have low: "bit (crc_bit c) n = (bit c (Suc n) \<noteq> (bit c 0 \<and> bit (0x8408 :: u16) n))" if "n < 16" for c n
    using that by (simp add: crc_bit_def bit_simps)
  show "a = b"
  proof (rule bit_word_eqI)
    fix n assume n: "n < LENGTH(16)"
    from eq top have 0: "bit a 0 = bit b 0" by metis
    show "bit a n = bit b n"
    proof (cases n)
      case (Suc k)
      with n low [of k a] low [of k b] eq 0 show ?thesis by auto
    qed (use 0 in simp)
  qed
qed

lemma crc_accumulate_inj:
  "crc_accumulate d a = crc_accumulate d b \<longleftrightarrow> a = b"
  "crc_accumulate d a = crc_accumulate e a \<longleftrightarrow> d = e"
proof -
  have i: "crc_byte d a = crc_byte e b \<longleftrightarrow> a XOR ucast d = b XOR ucast e" for a b d e
    using inj_fn [OF inj_crc_bit, of 8] by (simp add: crc_byte_def inj_eq)
  have x: "x XOR z = y XOR z \<longleftrightarrow> x = y" for x y z :: u16
    by (metis xor.assoc xor_self_eq xor.right_neutral)
  have "ucast (ucast y :: u16) = y" for y :: u8
    by (rule bit_word_eqI) (simp add: bit_simps)
  then have u: "(ucast y :: u16) = ucast z \<longleftrightarrow> y = z" for y z :: u8 by metis
  show "crc_accumulate d a = crc_accumulate d b \<longleftrightarrow> a = b"
    by (simp add: i crc_accumulate_is_crc x)
  show "crc_accumulate d a = crc_accumulate e a \<longleftrightarrow> d = e"
    using x [of "ucast d" a "ucast e"] u [of d e] by (simp add: i crc_accumulate_is_crc xor.commute)
qed

lemma crc_fold_inj: "fold crc_accumulate bs a = fold crc_accumulate bs b \<longleftrightarrow> a = b"
  by (induction bs arbitrary: a b) (simp_all add: crc_accumulate_inj(1))

lemma crc_fold_update:
  "i < length bs \<Longrightarrow> b \<noteq> bs ! i \<Longrightarrow> fold crc_accumulate (bs[i := b]) c \<noteq> fold crc_accumulate bs c"
  by (induction bs arbitrary: i c) (auto simp: crc_fold_inj crc_accumulate_inj split: nat.splits)

section \<open>Frames on the wire\<close>

definition wire_crc :: "u8 list \<Rightarrow> u16" where
  "wire_crc w = (let crc = fold crc_accumulate (drop 1 w) 0xFFFF; extra = crc_extra (w ! 5)
     in if extra \<noteq> 0 then crc_accumulate extra crc else crc)"

definition wire_checksum :: "u8 list \<Rightarrow> u16" where
  "wire_checksum w = push_bit 8 (ucast (w ! (length w - 1))) OR ucast (w ! (length w - 2))"

definition valid_wire :: "u8 list \<Rightarrow> bool" where
  "valid_wire w \<longleftrightarrow> 8 \<le> length w \<and> w ! 0 = 0xFE \<and> length w = 8 + unat (w ! 1)
     \<and> wire_checksum w = wire_crc (take (length w - 2) w)"

definition frame_of_wire :: "u8 list \<Rightarrow> complete_frame" where
  "frame_of_wire w = \<lparr>cf_data = w @ replicate (280 - length w) 0, cf_len = length w\<rparr>"

text \<open>The buffer of a parser that has read \<open>bs\<close> since the start byte.\<close>

definition loaded :: "mavlink_parser \<Rightarrow> parse_state \<Rightarrow> u8 list \<Rightarrow> bool" where
  "loaded q st bs \<longleftrightarrow> parse_state q = st \<and> frame_pos q = length bs
     \<and> take (length bs) (frame_buf q) = bs \<and> length (frame_buf q) = 280"

lemma loaded_nth: "loaded q st bs \<Longrightarrow> i < length bs \<Longrightarrow> frame_buf q ! i = bs ! i"
  by (metis loaded_def nth_take)

lemma loaded_append:
  assumes "loaded q st bs" obtains r where "frame_buf q = bs @ r"
proof
  show "frame_buf q = bs @ drop (length bs) (frame_buf q)"
    using assms append_take_drop_id [of "length bs" "frame_buf q"] by (simp add: loaded_def)
qed

lemma loaded_length: "loaded q st bs \<Longrightarrow> length bs \<le> 280"
  by (metis loaded_def length_take min.cobounded1 min.absorb_iff2 nat_le_linear take_all_iff)

lemma loaded_put:
  assumes "loaded q st bs" "length bs < 280"
  obtains q1 where "put_byte q b = Some q1" "loaded q1 st (bs @ [b])"
proof
  show "put_byte q b = Some (q\<lparr>frame_buf := (frame_buf q)[frame_pos q := b], frame_pos := frame_pos q + 1\<rparr>)"
    using assms by (simp add: put_byte_def loaded_def)
  show "loaded (q\<lparr>frame_buf := (frame_buf q)[frame_pos q := b], frame_pos := frame_pos q + 1\<rparr>) st (bs @ [b])"
    using assms by (simp add: loaded_def take_Suc_conv_app_nth)
qed

lemma calculate_crc_loaded:
  assumes "loaded q st bs" "6 + n \<le> length bs"
  shows "calculate_crc q n = Some (wire_crc (take (6 + n) bs))"
proof -
  obtain r where r: "frame_buf q = bs @ r" using loaded_append [OF assms(1)] .
  have "map ((!) (frame_buf q)) [1..<6 + n] = drop 1 (take (6 + n) bs)"
    using assms(2) by (intro nth_equalityI) (simp_all add: r nth_append)
  then have "fold crc_accumulate (map ((!) (frame_buf q)) [1..<6 + n]) 0xFFFF =
      fold crc_accumulate (drop 1 (take (6 + n) bs)) 0xFFFF" by (rule arg_cong)
  then have "fold (\<lambda>i. crc_accumulate (frame_buf q ! i)) [1..<6 + n] 0xFFFF =
      fold crc_accumulate (drop 1 (take (6 + n) bs)) 0xFFFF"
    by (simp only: fold_map comp_def)
  moreover have "\<not> length (frame_buf q) < 6 + n"
    using assms loaded_length [OF assms(1)] by (simp add: loaded_def)
  ultimately show ?thesis
    using assms by (simp add: calculate_crc_def wire_crc_def Let_def loaded_nth)
qed

section \<open>Steps\<close>

lemma unat_u8: "unat (w :: u8) \<le> 255"
proof -
  have "unat w < 2 ^ LENGTH(8)" by (rule unsigned_less)
  then show ?thesis by simp
qed

lemma loaded_state: "loaded q st bs \<Longrightarrow> loaded (q\<lparr>parse_state := st'\<rparr>) st' bs"
  by (simp add: loaded_def)

lemma feed_start_byte:
  assumes "parse_state q = WaitingForStart" "length (frame_buf q) = 280"
  obtains q1 where "feed_byte q 0xFE = Some (q1, None)" "loaded q1 ReadingHeader [0xFE]"
proof
  show "feed_byte q 0xFE = Some (q\<lparr>frame_buf := (frame_buf q)[0 := 0xFE], frame_pos := 1, parse_state := ReadingHeader\<rparr>, None)"
    using assms by (simp add: feed_byte_def feed_start_def)
  show "loaded (q\<lparr>frame_buf := (frame_buf q)[0 := 0xFE], frame_pos := 1, parse_state := ReadingHeader\<rparr>) ReadingHeader [0xFE]"
    using assms(2) by (cases "frame_buf q") (simp_all add: loaded_def)
qed

lemma feed_header_byte:
  fixes b :: u8
  assumes "loaded q ReadingHeader bs" "1 \<le> length bs" "length bs < 280"
  defines "st \<equiv> if length bs < 5 then ReadingHeader
    else if (bs @ [b]) ! 1 = 0 then ReadingChecksum 2 else ReadingPayload (unat ((bs @ [b]) ! 1))"
  obtains q1 where "feed_byte q b = Some (q1, None)" "loaded q1 st (bs @ [b])"
proof -
  obtain q1 where q1: "put_byte q b = Some q1" "loaded q1 ReadingHeader (bs @ [b])"
    using loaded_put [OF assms(1,3)] .
  have n: "frame_buf q1 ! 1 = (bs @ [b]) ! 1" by (rule loaded_nth [OF q1(2)]) (use assms(2) in auto)
  have p: "frame_pos q1 = Suc (length bs)" "parse_state q = ReadingHeader" "parse_state q1 = ReadingHeader"
    using q1(2) assms(1) by (simp_all add: loaded_def)
  have small: "\<not> 255 < unat w" for w :: u8 using unat_u8 [of w] by simp
  have "feed_byte q b = Some (q1\<lparr>parse_state := st\<rparr>, None)"
    using p q1(1) small n
    by (auto simp: feed_byte_def feed_header_def st_def Let_def unat_eq_0)
  then show ?thesis using that loaded_state [OF q1(2)] by blast
qed

lemma feed_payload_byte:
  assumes "loaded q (ReadingPayload n) bs" "6 \<le> length bs" "length bs < 280"
  defines "st \<equiv> if n \<le> length bs - 5 then ReadingChecksum 2 else ReadingPayload n"
  obtains q1 where "feed_byte q b = Some (q1, None)" "loaded q1 st (bs @ [b])"
proof -
  obtain q1 where q1: "put_byte q b = Some q1" "loaded q1 (ReadingPayload n) (bs @ [b])"
    using loaded_put [OF assms(1,3)] .
  have p: "frame_pos q1 = Suc (length bs)" "parse_state q = ReadingPayload n" "parse_state q1 = ReadingPayload n"
    using q1(2) assms(1) by (simp_all add: loaded_def)
  have "feed_byte q b = Some (q1\<lparr>parse_state := st\<rparr>, None)"
    using p q1(1) assms(2) by (auto simp: feed_byte_def feed_payload_def st_def)
  then show ?thesis using that loaded_state [OF q1(2)] by blast
qed

lemma feed_checksum_first:
  assumes "loaded q (ReadingChecksum 2) bs" "length bs < 280"
  obtains q1 where "feed_byte q b = Some (q1, None)" "loaded q1 (ReadingChecksum 1) (bs @ [b])"
proof -
  obtain q1 where q1: "put_byte q b = Some q1" "loaded q1 (ReadingChecksum 2) (bs @ [b])"
    using loaded_put [OF assms] .
  have "feed_byte q b = Some (q1\<lparr>parse_state := ReadingChecksum 1\<rparr>, None)"
    using assms(1) q1(1) by (simp add: feed_byte_def feed_checksum_def loaded_def)
  then show ?thesis using that loaded_state [OF q1(2)] by blast
qed

text \<open>
  The last byte: the frame, or a buffer that is searched for the next start byte. The
  declared body may be shorter than what was read, after a resynchronisation.
\<close>

lemma feed_checksum_last:
  fixes b :: u8
  assumes "loaded q (ReadingChecksum 1) bs" "length bs < 280" "7 + unat (bs ! 1) \<le> length bs"
  defines "w \<equiv> bs @ [b]"
  obtains q1 where "loaded q1 (ReadingChecksum 1) w"
    "feed_byte q b = (if wire_checksum w = wire_crc (take (6 + unat (bs ! 1)) w)
       then Some (parser_reset q1, Some (frame_of_wire w)) else Some (resync q1, None))"
proof -
  obtain q1 where q1: "put_byte q b = Some q1" "loaded q1 (ReadingChecksum 1) w"
    using loaded_put [OF assms(1,2)] unfolding w_def .
  have l: "length w = Suc (length bs)" "w ! 1 = bs ! 1" using assms(3) by (simp_all add: w_def nth_append)
  have p: "frame_pos q1 = length w" "parse_state q = ReadingChecksum 1" "take (length w) (frame_buf q1) = w"
    using q1(2) assms(1) by (simp_all add: loaded_def)
  have "frame_buf q1 ! 1 = w ! 1" by (rule loaded_nth [OF q1(2)]) (use l assms(3) in auto)
  then have n: "frame_buf q1 ! 1 = bs ! 1" "frame_buf q1 ! (length w - 2) = w ! (length w - 2)"
    "frame_buf q1 ! (length w - 1) = w ! (length w - 1)"
    using loaded_nth [OF q1(2)] l assms(3) by simp_all
  have "calculate_crc q1 (unat (bs ! 1)) = Some (wire_crc (take (6 + unat (bs ! 1)) w))"
    by (rule calculate_crc_loaded [OF q1(2)]) (use l assms(3) in simp)
  then have "feed_byte q b = (if wire_checksum w = wire_crc (take (6 + unat (bs ! 1)) w)
       then Some (parser_reset q1, Some (frame_of_wire w)) else Some (resync q1, None))"
    using p q1(1) n
    by (simp add: feed_byte_def feed_checksum_def Let_def wire_checksum_def frame_of_wire_def)
  with that q1(2) show ?thesis by blast
qed

lemma feed_bytes_append:
  "feed_bytes q (bs @ cs) = (case feed_bytes q bs of None \<Rightarrow> None | Some (q1, fs) \<Rightarrow>
     (case feed_bytes q1 cs of None \<Rightarrow> None | Some (q2, gs) \<Rightarrow> Some (q2, fs @ gs)))"
  by (induction bs arbitrary: q) (auto split: option.splits prod.splits)

section \<open>A stream of frames\<close>

text \<open>Reading up to the second checksum byte.\<close>

definition state_after :: "u8 list \<Rightarrow> parse_state" where
  "state_after bs = (if length bs < 6 then ReadingHeader
     else if length bs < 6 + unat (bs ! 1) then ReadingPayload (unat (bs ! 1))
     else if length bs = 6 + unat (bs ! 1) then ReadingChecksum 2 else ReadingChecksum 1)"

lemma feed_in_frame:
  assumes "loaded q (state_after bs) bs" "1 \<le> length bs" "6 \<le> length bs \<Longrightarrow> length bs < 7 + unat (bs ! 1)"
  shows "\<exists>q1. feed_byte q b = Some (q1, None) \<and> loaded q1 (state_after (bs @ [b])) (bs @ [b])"
proof -
  have small: "unat (bs ! 1) \<le> 255" by (rule unat_u8)
  have fits: "length bs < 280" using assms(3) small by (cases "6 \<le> length bs") auto
  have nth: "2 \<le> length bs \<Longrightarrow> (bs @ [b]) ! 1 = bs ! 1" by (simp add: nth_append)
  consider "length bs < 6" | "6 \<le> length bs" "length bs < 6 + unat (bs ! 1)" | "length bs = 6 + unat (bs ! 1)"
    using assms(3) by linarith
  then show ?thesis
  proof cases
    case 1
    then have "loaded q ReadingHeader bs" using assms(1) by (simp add: state_after_def)
    from feed_header_byte [OF this assms(2) fits, of b] obtain q1 where
      q1: "feed_byte q b = Some (q1, None)" "loaded q1 (if length bs < 5 then ReadingHeader
        else if (bs @ [b]) ! 1 = 0 then ReadingChecksum 2 else ReadingPayload (unat ((bs @ [b]) ! 1))) (bs @ [b])" .
    have "(if length bs < 5 then ReadingHeader else if (bs @ [b]) ! 1 = 0 then ReadingChecksum 2
        else ReadingPayload (unat ((bs @ [b]) ! 1))) = state_after (bs @ [b])"
      using 1 unat_gt_0 [of "(bs @ [b]) ! 1"] by (auto simp: state_after_def)
    with q1 show ?thesis by auto
  next
    case 2
    then have "loaded q (ReadingPayload (unat (bs ! 1))) bs" using assms(1) by (simp add: state_after_def)
    from feed_payload_byte [OF this 2(1) fits, of b] obtain q1 where
      q1: "feed_byte q b = Some (q1, None)"
        "loaded q1 (if unat (bs ! 1) \<le> length bs - 5 then ReadingChecksum 2 else ReadingPayload (unat (bs ! 1))) (bs @ [b])" .
    have "(if unat (bs ! 1) \<le> length bs - 5 then ReadingChecksum 2 else ReadingPayload (unat (bs ! 1)))
        = state_after (bs @ [b])"
      using 2 nth by (auto simp: state_after_def)
    with q1 show ?thesis by auto
  next
    case 3
    then have "loaded q (ReadingChecksum 2) bs" using assms(1) by (simp add: state_after_def)
    from feed_checksum_first [OF this fits, of b] obtain q1 where
      "feed_byte q b = Some (q1, None)" "loaded q1 (ReadingChecksum 1) (bs @ [b])" .
    moreover have "state_after (bs @ [b]) = ReadingChecksum 1" using 3 nth by (simp add: state_after_def)
    ultimately show ?thesis by auto
  qed
qed

lemma feed_prefix:
  assumes "parse_state q = WaitingForStart" "length (frame_buf q) = 280"
    and "w ! 0 = 0xFE" "length w = 8 + unat (w ! 1)" "1 \<le> k" "k < length w"
  shows "\<exists>q1. feed_bytes q (take k w) = Some (q1, []) \<and> loaded q1 (state_after (take k w)) (take k w)"
  using assms(5,6)
proof (induction k rule: dec_induct)
  case base
  obtain q1 where "feed_byte q 0xFE = Some (q1, None)" "loaded q1 ReadingHeader [0xFE]"
    using feed_start_byte [OF assms(1,2)] .
  moreover have "take 1 w = [0xFE]" using assms(3) base by (cases w) auto
  ultimately show ?case by (simp add: state_after_def)
next
  case (step k)
  then obtain q1 where q1: "feed_bytes q (take k w) = Some (q1, [])" "loaded q1 (state_after (take k w)) (take k w)"
    by auto
  have "take (Suc k) w = take k w @ [w ! k]" using step.prems by (simp add: take_Suc_conv_app_nth)
  moreover have "6 \<le> length (take k w) \<Longrightarrow> length (take k w) < 7 + unat (take k w ! 1)"
    using step.prems assms(4) by simp
  ultimately show ?case
    using feed_in_frame [OF q1(2), of "w ! k"] q1(1) step by (auto simp: feed_bytes_append)
qed

lemma feed_frame:
  assumes "parse_state q = WaitingForStart" "length (frame_buf q) = 280"
    and "w ! 0 = 0xFE" "length w = 8 + unat (w ! 1)"
  shows "\<exists>q1. loaded q1 (ReadingChecksum 1) w \<and> feed_bytes q w =
    (if wire_checksum w = wire_crc (take (length w - 2) w) then Some (parser_reset q1, [frame_of_wire w])
     else Some (resync q1, []))"
proof -
  define bs where "bs = take (length w - 1) w"
  have small: "unat (w ! 1) \<le> 255" by (rule unat_u8)
  have "w \<noteq> []" using assms(4) by auto
  then have w: "bs @ [last w] = w"
    unfolding bs_def butlast_conv_take [symmetric] by (rule append_butlast_last_id)
  have l: "length bs = 7 + unat (w ! 1)" "bs ! 1 = w ! 1" using assms(4) by (simp_all add: bs_def)
  from feed_prefix [OF assms, of "length w - 1"] assms(4) obtain q0 where
    q0: "feed_bytes q bs = Some (q0, [])" "loaded q0 (state_after bs) bs" by (auto simp: bs_def)
  have "state_after bs = ReadingChecksum 1" using l by (simp add: state_after_def)
  with q0(2) have "loaded q0 (ReadingChecksum 1) bs" by simp
  from feed_checksum_last [OF this, of "last w"] l small obtain q1 where
    q1: "loaded q1 (ReadingChecksum 1) w"
      "feed_byte q0 (last w) = (if wire_checksum w = wire_crc (take (6 + unat (w ! 1)) w)
       then Some (parser_reset q1, Some (frame_of_wire w)) else Some (resync q1, None))"
    unfolding w by auto
  have "6 + unat (w ! 1) = length w - 2" using assms(4) by simp
  then have "feed_bytes q (bs @ [last w]) =
    (if wire_checksum w = wire_crc (take (length w - 2) w) then Some (parser_reset q1, [frame_of_wire w])
     else Some (resync q1, []))"
    unfolding feed_bytes_append using q0(1) q1(2) by simp
  with q1(1) show ?thesis unfolding w by blast
qed

lemma feed_garbage:
  "parse_state q = WaitingForStart \<Longrightarrow> 0xFE \<notin> set g \<Longrightarrow> feed_bytes q g = Some (q, [])"
  by (induction g) (auto simp: feed_byte_def feed_start_def)

lemma clean_stream:
  assumes "list_all (\<lambda>(g, w). 0xFE \<notin> set g \<and> valid_wire w) items"
    and "parse_state q = WaitingForStart" "length (frame_buf q) = 280"
  shows "\<exists>q'. parse_state q' = WaitingForStart \<and>
    feed_bytes q (concat (map (\<lambda>(g, w). g @ w) items)) = Some (q', map (frame_of_wire \<circ> snd) items)"
  using assms
proof (induction items arbitrary: q)
  case (Cons i items)
  obtain g w where i: "i = (g, w)" by fastforce
  from Cons.prems i have w: "w ! 0 = 0xFE" "length w = 8 + unat (w ! 1)"
    "wire_checksum w = wire_crc (take (length w - 2) w)" and g: "0xFE \<notin> set g"
    by (auto simp: valid_wire_def)
  from feed_frame [OF Cons.prems(2,3) w(1,2)] w(3) obtain q1 where
    q1: "loaded q1 (ReadingChecksum 1) w" "feed_bytes q w = Some (parser_reset q1, [frame_of_wire w])" by auto
  have "parse_state (parser_reset q1) = WaitingForStart" "length (frame_buf (parser_reset q1)) = 280"
    using q1(1) by (simp_all add: parser_reset_def loaded_def)
  from Cons.IH [OF _ this] Cons.prems(1) obtain q2 where "parse_state q2 = WaitingForStart"
    "feed_bytes (parser_reset q1) (concat (map (\<lambda>(g, w). g @ w) items)) = Some (q2, map (frame_of_wire \<circ> snd) items)"
    by auto
  with q1(2) feed_garbage [OF Cons.prems(2) g] show ?case by (simp add: i feed_bytes_append)
qed simp

text \<open>
  A stream of valid frames, with any bytes but the start byte between them, is delivered
  frame by frame, in order and complete, from every parser that waits for a start byte; no
  index leaves the buffer and the parser waits for a start byte again.
\<close>

theorem clean_stream_is_delivered:
  assumes "list_all (\<lambda>(g, w). 0xFE \<notin> set g \<and> valid_wire w) items"
    and "parse_state q = WaitingForStart" and "length (frame_buf q) = MAX_FRAME_SIZE_BYTES"
  shows "\<exists>q'. parse_state q' = WaitingForStart \<and>
    feed_bytes q (concat (map (\<lambda>(g, w). g @ w) items)) = Some (q', map (frame_of_wire \<circ> snd) items)"
  using clean_stream [OF assms(1,2)] assms(3) by (simp add: MAX_FRAME_SIZE_BYTES_def)

text \<open>A heartbeat, checksum included.\<close>

definition heartbeat_wire :: "u8 list" where
  "heartbeat_wire = [0xFE, 9, 0, 1, 1, 0, 0, 0, 0, 0, 2, 3, 0x51, 4, 3, 0x7D, 0xDD]"

lemma heartbeat_valid: "valid_wire heartbeat_wire"
  by (simp add: valid_wire_def heartbeat_wire_def wire_crc_def wire_checksum_def crc_accumulate_def
      crc_extra_def Let_def)

theorem clean_stream_is_delivered_witness:
  "\<exists>q'. parse_state q' = WaitingForStart \<and>
    feed_bytes mavlink_parser_new ([1, 2] @ heartbeat_wire @ heartbeat_wire) =
      Some (q', [frame_of_wire heartbeat_wire, frame_of_wire heartbeat_wire])"
  using clean_stream_is_delivered [of "[([1, 2], heartbeat_wire), ([], heartbeat_wire)]" mavlink_parser_new]
  by (simp add: heartbeat_valid mavlink_parser_new_def)

section \<open>Corruption\<close>

lemma checksum_bytes_inj:
  "push_bit 8 (ucast (a :: u8) :: u16) OR ucast (b :: u8) = push_bit 8 (ucast c) OR ucast d \<longleftrightarrow> a = c \<and> b = d"
proof
  assume eq: "push_bit 8 (ucast a :: u16) OR ucast b = push_bit 8 (ucast c) OR ucast d"
  have hi: "ucast (drop_bit 8 (push_bit 8 (ucast x :: u16) OR ucast y)) = x" for x y :: u8
    by (rule bit_word_eqI) (auto simp: bit_simps dest: bit_imp_le_length)
  have lo: "ucast (push_bit 8 (ucast x :: u16) OR ucast y) = y" for x y :: u8
    by (rule bit_word_eqI) (auto simp: bit_simps)
  from eq hi [of a b] hi [of c d] lo [of a b] lo [of c d] show "a = c \<and> b = d" by metis
qed auto

lemma corrupted_wire:
  assumes "valid_wire w" "i < length w" "i \<notin> {0, 1, 5}" "b \<noteq> w ! i"
  shows "wire_checksum (w[i := b]) \<noteq> wire_crc (take (length w - 2) (w[i := b]))"
proof (cases "i < length w - 2")
  case True
  have l: "8 \<le> length w" using assms(1) by (simp add: valid_wire_def)
  let ?body = "drop 1 (take (length w - 2) w)"
  have d: "drop 1 (take (length w - 2) (w[i := b])) = ?body[i - 1 := b]"
    using assms(3) True by (simp add: take_update_swap drop_update_swap)
  have m: "take (length w - 2) (w[i := b]) ! 5 = take (length w - 2) w ! 5"
    using assms(3) l by simp
  have "fold crc_accumulate (?body[i - 1 := b]) 0xFFFF \<noteq> fold crc_accumulate ?body 0xFFFF"
    by (rule crc_fold_update) (use True assms(3,4) in auto)
  then have "wire_crc (take (length w - 2) (w[i := b])) \<noteq> wire_crc (take (length w - 2) w)"
    unfolding wire_crc_def Let_def d m by (simp add: crc_accumulate_inj)
  moreover have "wire_checksum (w[i := b]) = wire_checksum w"
    using True by (simp add: wire_checksum_def)
  ultimately show ?thesis using assms(1) by (simp add: valid_wire_def)
next
  case False
  have l: "8 \<le> length w" using assms(1) by (simp add: valid_wire_def)
  have "wire_crc (take (length w - 2) (w[i := b])) = wire_crc (take (length w - 2) w)"
    using False by (simp add: take_update_cancel)
  moreover have "i = length w - 1 \<or> i = length w - 2" using False assms(2) by linarith
  then have "wire_checksum (w[i := b]) \<noteq> wire_checksum w"
    using assms(4) l by (auto simp: wire_checksum_def checksum_bytes_inj nth_list_update)
  ultimately show ?thesis using assms(1) by (simp add: valid_wire_def)
qed

text \<open>
  A valid frame with one byte changed on the wire, any byte but the start byte, the
  length and the message id, is refused: nothing is delivered up to its end.
\<close>

theorem corrupted_frame_is_refused:
  assumes "valid_wire w" and "i < length w" and "i \<notin> {0, 1, 5}" and "b \<noteq> w ! i"
    and "parse_state q = WaitingForStart" and "length (frame_buf q) = MAX_FRAME_SIZE_BYTES"
  shows "map_option snd (feed_bytes q (w[i := b])) = Some []"
proof -
  have w: "w[i := b] ! 0 = 0xFE" "length (w[i := b]) = 8 + unat (w[i := b] ! 1)" "length (frame_buf q) = 280"
    using assms by (simp_all add: valid_wire_def MAX_FRAME_SIZE_BYTES_def)
  show ?thesis
    using feed_frame [OF assms(5) w(3,1,2)] corrupted_wire [OF assms(1-4)] by auto
qed

theorem corrupted_frame_is_refused_witness:
  "map_option snd (feed_bytes mavlink_parser_new (heartbeat_wire[10 := 7])) = Some []"
  by (rule corrupted_frame_is_refused [OF heartbeat_valid])
    (simp_all add: heartbeat_wire_def mavlink_parser_new_def)

section \<open>After a wrong checksum\<close>

lemma shift_buffer:
  "1 \<le> s \<Longrightarrow> s + r \<le> length buf \<Longrightarrow>
    fold (\<lambda>i b. b[i := b ! (s + i)]) [0..<r] buf = take r (drop s buf) @ drop r buf"
proof (induction r)
  case (Suc r)
  let ?b = "take r (drop s buf) @ drop r buf"
  have l: "length (take r (drop s buf)) = r" using Suc.prems by simp
  have "fold (\<lambda>i b. b[i := b ! (s + i)]) [0..<Suc r] buf = ?b[r := ?b ! (s + r)]"
    using Suc by simp
  also have "?b ! (s + r) = buf ! (s + r)" using Suc.prems l by (simp add: nth_append add.commute)
  also have "?b[r := buf ! (s + r)] = take r (drop s buf) @ buf ! (s + r) # drop (Suc r) buf"
    using Suc.prems l by (simp add: list_update_append flip: Cons_nth_drop_Suc [of r buf])
  also have "\<dots> = take (Suc r) (drop s buf) @ drop (Suc r) buf"
    using Suc.prems by (simp add: take_Suc_conv_app_nth)
  finally show ?case .
qed simp

lemma resync_loaded:
  assumes "loaded q st w"
  shows "(\<exists>k. 1 \<le> k \<and> k < length w \<and> w ! k = 0xFE \<and> loaded (resync q) ReadingHeader (drop k w)
      \<and> find (\<lambda>i. w ! i = 0xFE) [1..<length w] = Some k)
    \<or> loaded (resync q) WaitingForStart [] \<and> find (\<lambda>i. w ! i = 0xFE) [1..<length w] = None"
proof -
  have len: "frame_pos q = length w" "length (frame_buf q) = 280" "length w \<le> 280"
    using assms loaded_length [OF assms] by (simp_all add: loaded_def)
  have f: "find (\<lambda>i. frame_buf q ! i = 0xFE) [1..<frame_pos q] = find (\<lambda>i. w ! i = 0xFE) [1..<length w]"
    by (rule find_cong) (use loaded_nth [OF assms] len in auto)
  show ?thesis
  proof (cases "find (\<lambda>i. w ! i = 0xFE) [1..<length w]")
    case None
    then show ?thesis using f len by (simp add: resync_def parser_reset_def loaded_def)
  next
    case (Some k)
    then have k: "1 \<le> k" "k < length w" "w ! k = 0xFE" by (auto simp: find_Some_iff)
    have "take (length w - k) (drop k (frame_buf q)) = drop k w"
      using assms by (metis drop_take loaded_def)
    then have "loaded (resync q) ReadingHeader (drop k w)"
      using Some f k len
      by (simp add: resync_def loaded_def Let_def shift_buffer [unfolded One_nat_def])
    with k Some show ?thesis by blast
  qed
qed

section \<open>What is delivered\<close>

text \<open>
  The states the parser can be in: the buffer starts with a start byte, and the body declared
  by the length byte has been read before the checksum is.
\<close>

definition in_frame :: "parse_state \<Rightarrow> u8 list \<Rightarrow> bool" where
  "in_frame st bs = (case st of
     WaitingForStart \<Rightarrow> True
   | ReadingHeader \<Rightarrow> 1 \<le> length bs \<and> bs ! 0 = 0xFE
   | ReadingPayload n \<Rightarrow> 6 \<le> length bs \<and> bs ! 0 = 0xFE \<and> n = unat (bs ! 1)
   | ReadingChecksum k \<Rightarrow> bs ! 0 = 0xFE \<and> (k = 2 \<and> 6 + unat (bs ! 1) \<le> length bs
       \<or> k = 1 \<and> 7 + unat (bs ! 1) \<le> length bs))"

definition parser_ok :: "mavlink_parser \<Rightarrow> bool" where
  "parser_ok q \<longleftrightarrow> (\<exists>bs. loaded q (parse_state q) bs \<and> in_frame (parse_state q) bs)"

definition frame_checked :: "complete_frame \<Rightarrow> bool" where
  "frame_checked f \<longleftrightarrow> cf_len f \<le> length (cf_data f) \<and> length (cf_data f) = 280 \<and> cf_data f ! 0 = 0xFE
     \<and> 8 + unat (cf_data f ! 1) \<le> cf_len f
     \<and> wire_checksum (take (cf_len f) (cf_data f)) = wire_crc (take (6 + unat (cf_data f ! 1)) (cf_data f))"

lemma parser_okI: "loaded q st bs \<Longrightarrow> in_frame st bs \<Longrightarrow> parser_ok q"
  by (auto simp: parser_ok_def loaded_def)

lemma parser_ok_new: "parser_ok mavlink_parser_new"
  by (rule parser_okI [where bs = "[]" and st = WaitingForStart])
    (simp_all add: loaded_def in_frame_def mavlink_parser_new_def MAX_FRAME_SIZE_BYTES_def)

lemma full_buffer_panics:
  assumes "loaded q st bs" "st \<noteq> WaitingForStart" "\<not> length bs < 280"
  shows "feed_byte q b = None"
proof -
  have "put_byte q b = None" using assms by (simp add: put_byte_def loaded_def)
  with assms(1,2) show ?thesis
    by (cases st) (auto simp: feed_byte_def feed_header_def feed_payload_def feed_checksum_def loaded_def)
qed

lemma feed_byte_ok:
  assumes "parser_ok q" "feed_byte q b = Some (q', f)"
  shows "parser_ok q' \<and> (\<forall>x. f = Some x \<longrightarrow> frame_checked x)"
proof -
  obtain bs where l: "loaded q (parse_state q) bs" "in_frame (parse_state q) bs"
    using assms(1) by (auto simp: parser_ok_def)
  have len: "length bs < 280" if "parse_state q \<noteq> WaitingForStart"
    using full_buffer_panics [OF l(1) that, of b] assms(2) by auto
  have nth: "1 < length bs \<Longrightarrow> (bs @ [b]) ! 1 = bs ! 1" "0 < length bs \<Longrightarrow> (bs @ [b]) ! 0 = bs ! 0"
    by (simp_all add: nth_append)
  show ?thesis
  proof (cases "parse_state q")
    case WaitingForStart
    show ?thesis
    proof (cases "b = 0xFE")
      case True
      have "length (frame_buf q) = 280" using l(1) by (simp add: loaded_def)
      from feed_start_byte [OF WaitingForStart this] obtain q1 where
        "feed_byte q 0xFE = Some (q1, None)" "loaded q1 ReadingHeader [0xFE]" .
      with assms(2) True show ?thesis by (auto intro!: parser_okI simp: in_frame_def)
    next
      case False
      then show ?thesis using assms WaitingForStart by (simp add: feed_byte_def feed_start_def)
    qed
  next
    case ReadingHeader
    then have h: "loaded q ReadingHeader bs" "1 \<le> length bs" "bs ! 0 = 0xFE" "length bs < 280"
      and ne: "bs \<noteq> []"
      using l len by (auto simp: in_frame_def)
    from feed_header_byte [OF h(1,2,4), of b] obtain q1 where q1: "feed_byte q b = Some (q1, None)"
      "loaded q1 (if length bs < 5 then ReadingHeader else if (bs @ [b]) ! 1 = 0 then ReadingChecksum 2
        else ReadingPayload (unat ((bs @ [b]) ! 1))) (bs @ [b])" .
    have "parser_ok q1"
      by (rule parser_okI [OF q1(2)]) (use h ne nth(2) in \<open>auto simp: in_frame_def\<close>)
    with q1(1) assms(2) show ?thesis by simp
  next
    case (ReadingPayload n)
    then have h: "loaded q (ReadingPayload n) bs" "6 \<le> length bs" "bs ! 0 = 0xFE" "n = unat (bs ! 1)" "length bs < 280"
      and ne: "bs \<noteq> []"
      using l len by (auto simp: in_frame_def)
    from feed_payload_byte [OF h(1,2,5), of b] obtain q1 where q1: "feed_byte q b = Some (q1, None)"
      "loaded q1 (if n \<le> length bs - 5 then ReadingChecksum 2 else ReadingPayload n) (bs @ [b])" .
    have "parser_ok q1"
      by (rule parser_okI [OF q1(2)]) (use h ne nth in \<open>auto simp: in_frame_def\<close>)
    with q1(1) assms(2) show ?thesis by simp
  next
    case (ReadingChecksum k)
    with l(2) consider "k = 2" "6 + unat (bs ! 1) \<le> length bs" | "k = 1" "7 + unat (bs ! 1) \<le> length bs"
      by (auto simp: in_frame_def)
    then show ?thesis
    proof cases
      case 1
      with ReadingChecksum l have h: "loaded q (ReadingChecksum 2) bs" "bs ! 0 = 0xFE" "length bs < 280"
        using len by (simp_all add: in_frame_def)
      from feed_checksum_first [OF h(1,3), of b] obtain q1 where q1: "feed_byte q b = Some (q1, None)"
        "loaded q1 (ReadingChecksum 1) (bs @ [b])" .
      have "1 < length bs" "0 < length bs" using 1 by auto
      with h 1 nth have "parser_ok q1" by (intro parser_okI [OF q1(2)]) (auto simp: in_frame_def)
      with q1(1) assms(2) show ?thesis by simp
    next
      case 2
      let ?w = "bs @ [b]"
      from 2 ReadingChecksum l have h: "loaded q (ReadingChecksum 1) bs" "bs ! 0 = 0xFE" "length bs < 280"
        and "bs \<noteq> []"
        using len by (auto simp: in_frame_def)
      from feed_checksum_last [OF h(1,3) 2(2), of b] obtain q1 where q1: "loaded q1 (ReadingChecksum 1) ?w"
        "feed_byte q b = (if wire_checksum ?w = wire_crc (take (6 + unat (bs ! 1)) ?w)
         then Some (parser_reset q1, Some (frame_of_wire ?w)) else Some (resync q1, None))" .
      have w: "?w ! 0 = 0xFE" "?w ! 1 = bs ! 1" "length ?w \<le> 280" "8 + unat (bs ! 1) \<le> length ?w"
        using 2(2) h nth \<open>bs \<noteq> []\<close> by auto
      show ?thesis
      proof (cases "wire_checksum ?w = wire_crc (take (6 + unat (bs ! 1)) ?w)")
        case True
        then have e: "q' = parser_reset q1" "f = Some (frame_of_wire ?w)" using assms(2) q1(2) by simp_all
        have n: "(?w @ r) ! 0 = ?w ! 0" "(?w @ r) ! 1 = bs ! 1" "take (6 + unat (bs ! 1)) (?w @ r) = take (6 + unat (bs ! 1)) ?w"
          for r using w \<open>bs \<noteq> []\<close> by (simp_all add: nth_append)
        have "frame_checked (frame_of_wire ?w)"
          unfolding frame_checked_def frame_of_wire_def complete_frame.select_convs n
          using w True by simp
        moreover have "parser_ok (parser_reset q1)"
          by (rule parser_okI [where bs = "[]" and st = WaitingForStart])
            (use q1(1) in \<open>simp_all add: loaded_def in_frame_def parser_reset_def\<close>)
        ultimately show ?thesis by (simp add: e)
      next
        case False
        then have e: "q' = resync q1" "f = None" using assms(2) q1(2) by simp_all
        from resync_loaded [OF q1(1)] have "parser_ok (resync q1)"
        proof (elim disjE exE conjE)
          fix k assume k: "1 \<le> k" "k < length ?w" "?w ! k = 0xFE" "loaded (resync q1) ReadingHeader (drop k ?w)"
          have "drop k ?w ! 0 = 0xFE" using k(2,3) by (subst nth_drop) simp_all
          moreover have "1 \<le> length (drop k ?w)" using k(2) by simp
          ultimately have "in_frame ReadingHeader (drop k ?w)" by (simp only: in_frame_def parse_state.case)
          then show ?thesis by (rule parser_okI [OF k(4)])
        next
          assume "loaded (resync q1) WaitingForStart []"
          then show ?thesis by (rule parser_okI) (simp add: in_frame_def)
        qed
        with e show ?thesis by simp
      qed
    qed
  qed
qed

lemma feed_bytes_ok:
  "parser_ok q \<Longrightarrow> feed_bytes q bs = Some (q', fs) \<Longrightarrow> parser_ok q' \<and> list_all frame_checked fs"
proof (induction bs arbitrary: q q' fs)
  case (Cons b bs)
  obtain q1 f q2 gs where s: "feed_byte q b = Some (q1, f)" "feed_bytes q1 bs = Some (q2, gs)"
    "q' = q2" "fs = (case f of None \<Rightarrow> gs | Some x \<Rightarrow> x # gs)"
    using Cons.prems(2) by (auto split: option.splits prod.splits)
  from feed_byte_ok [OF Cons.prems(1) s(1)] have ok: "parser_ok q1" "\<forall>x. f = Some x \<longrightarrow> frame_checked x" by auto
  from Cons.IH [OF ok(1) s(2)] ok(2) s(3,4) show ?case by (auto split: option.splits)
qed simp

text \<open>
  Whatever bytes arrive, every frame the parser delivers lies inside the buffer, begins
  with the start byte, is long enough for the body it declares, and its last two bytes are
  the checksum of that body.
\<close>

theorem delivered_frames_are_checked:
  assumes "feed_bytes mavlink_parser_new bs = Some (q, fs)"
  shows "list_all frame_checked fs"
  using feed_bytes_ok [OF parser_ok_new assms] by simp

theorem delivered_frames_are_checked_witness:
  "\<exists>q. feed_bytes mavlink_parser_new heartbeat_wire = Some (q, [frame_of_wire heartbeat_wire])
    \<and> list_all frame_checked [frame_of_wire heartbeat_wire]"
proof -
  have "length (frame_buf mavlink_parser_new) = 280" "parse_state mavlink_parser_new = WaitingForStart"
    by (simp_all add: mavlink_parser_new_def MAX_FRAME_SIZE_BYTES_def)
  with clean_stream [of "[([], heartbeat_wire)]" mavlink_parser_new] heartbeat_valid obtain q where
    q: "feed_bytes mavlink_parser_new heartbeat_wire = Some (q, [frame_of_wire heartbeat_wire])" by auto
  with delivered_frames_are_checked [OF q] show ?thesis by blast
qed

section \<open>A run of start bytes\<close>

lemma replicate_numeral: "replicate (numeral k) x = x # replicate (pred_numeral k) x"
  by (simp add: numeral_eq_Suc)

lemma start_byte_run:
  "fold crc_accumulate (replicate 37 0xFE) 65535 = 29570" "fold crc_accumulate (replicate 37 0xFE) 29570 = 16730"
  "fold crc_accumulate (replicate 37 0xFE) 16730 = 40444" "fold crc_accumulate (replicate 37 0xFE) 40444 = 33810"
  "fold crc_accumulate (replicate 37 0xFE) 33810 = 17601" "fold crc_accumulate (replicate 37 0xFE) 17601 = 33684"
  "fold crc_accumulate (replicate 37 0xFE) 33684 = 20161"
  by (simp_all add: crc_accumulate_def Let_def replicate_numeral)

lemma start_byte_crc: "wire_crc (replicate 260 0xFE) = 20161"
proof -
  let ?r = "replicate 37 0xFE :: u8 list"
  have "replicate 259 (0xFE :: u8) = ?r @ ?r @ ?r @ ?r @ ?r @ ?r @ ?r"
    by (simp flip: replicate_add)
  then have "fold crc_accumulate (replicate 259 0xFE) 65535 = 20161"
    by (simp only: fold_append comp_def start_byte_run)
  moreover have "drop 1 (replicate 260 (0xFE :: u8)) = replicate 259 0xFE" by simp
  moreover have "crc_extra (replicate 260 0xFE ! 5) = 0" by (simp add: crc_extra_def)
  ultimately show ?thesis unfolding wire_crc_def Let_def by simp
qed

lemma start_bytes_checksum:
  assumes "262 \<le> n"
  shows "wire_checksum (replicate n 0xFE) \<noteq> wire_crc (take (6 + unat (replicate n 0xFE ! 1 :: u8)) (replicate n 0xFE))"
proof -
  have "take (6 + unat (replicate n 0xFE ! 1 :: u8)) (replicate n 0xFE) = replicate 260 (0xFE :: u8)"
    using assms by (simp add: min_def)
  moreover have "wire_checksum (replicate n 0xFE) = 65278" using assms by (simp add: wire_checksum_def)
  ultimately show ?thesis using start_byte_crc by simp
qed

lemma resync_start_bytes:
  assumes "loaded q st (replicate (Suc n) 0xFE)" "1 \<le> n"
  shows "loaded (resync q) ReadingHeader (replicate n 0xFE)"
proof -
  have "find (\<lambda>i. replicate (Suc n) (0xFE :: u8) ! i = 0xFE) [1..<length (replicate (Suc n) (0xFE :: u8))] = Some 1"
    using assms(2) by (simp add: upt_conv_Cons del: upt_Suc replicate_Suc)
  with resync_loaded [OF assms(1)] show ?thesis by (simp del: upt_Suc replicate_Suc)
qed

text \<open>Four more start bytes after a wrong checksum leave three more bytes in the buffer.\<close>

lemma start_bytes_round:
  assumes "loaded q ReadingHeader (replicate n 0xFE)" "261 \<le> n" "n + 4 \<le> 280"
  shows "\<exists>q'. feed_bytes q (replicate 4 0xFE) = Some (q', []) \<and> loaded q' ReadingHeader (replicate (n + 3) 0xFE)"
proof -
  have r: "replicate k (0xFE :: u8) @ [0xFE] = replicate (Suc k) 0xFE" for k by (simp flip: replicate_append_same)
  have n1: "replicate (Suc k) (0xFE :: u8) ! 1 = 0xFE" if "1 \<le> k" for k using that by simp
  obtain q1 where q1: "feed_byte q 0xFE = Some (q1, None)" "loaded q1 (ReadingPayload 254) (replicate (Suc n) 0xFE)"
  proof (rule feed_header_byte [OF assms(1), where b = "0xFE"])
    fix q1 assume a: "feed_byte q 0xFE = Some (q1, None)" and "loaded q1 (if length (replicate n (0xFE :: u8)) < 5
      then ReadingHeader else if (replicate n 0xFE @ [0xFE]) ! 1 = (0 :: u8) then ReadingChecksum 2
      else ReadingPayload (unat ((replicate n 0xFE @ [0xFE]) ! 1 :: u8))) (replicate n 0xFE @ [0xFE])"
    then have "loaded q1 (ReadingPayload 254) (replicate (Suc n) 0xFE)"
      using assms(2) n1 [of n] unfolding r by (simp del: replicate_Suc)
    with a show thesis by (rule that)
  qed (use assms(2,3) in simp_all)
  obtain q2 where q2: "feed_byte q1 0xFE = Some (q2, None)" "loaded q2 (ReadingChecksum 2) (replicate (Suc (Suc n)) 0xFE)"
  proof (rule feed_payload_byte [OF q1(2), where b = "0xFE"])
    fix q2 assume a: "feed_byte q1 0xFE = Some (q2, None)" and "loaded q2 (if 254 \<le> length (replicate (Suc n) (0xFE :: u8)) - 5
      then ReadingChecksum 2 else ReadingPayload 254) (replicate (Suc n) 0xFE @ [0xFE])"
    moreover have "254 \<le> length (replicate (Suc n) (0xFE :: u8)) - 5" using assms(2) by simp
    ultimately have "loaded q2 (ReadingChecksum 2) (replicate (Suc (Suc n)) 0xFE)"
      unfolding r by (simp only: if_True)
    with a show thesis by (rule that)
  qed (use assms(2,3) in simp_all)
  obtain q3 where q3: "feed_byte q2 0xFE = Some (q3, None)" "loaded q3 (ReadingChecksum 1) (replicate (Suc (Suc (Suc n))) 0xFE)"
  proof (rule feed_checksum_first [OF q2(2), where b = "0xFE"])
    fix q3 assume "feed_byte q2 0xFE = Some (q3, None)" "loaded q3 (ReadingChecksum 1) (replicate (Suc (Suc n)) 0xFE @ [0xFE])"
    then show thesis unfolding r by (rule that)
  qed (use assms(2,3) in simp_all)
  let ?w = "replicate (Suc (Suc (Suc (Suc n)))) 0xFE :: u8 list"
  have ne: "wire_checksum ?w \<noteq> wire_crc (take (6 + unat (replicate (Suc (Suc (Suc n))) 0xFE ! 1 :: u8)) ?w)"
    using start_bytes_checksum [of "Suc (Suc (Suc (Suc n)))"] assms(2) n1 [of "Suc (Suc (Suc n))"] n1 [of "Suc (Suc n)"]
    by (simp del: replicate_Suc)
  obtain q4 where q4: "loaded q4 (ReadingChecksum 1) ?w" "feed_byte q3 0xFE = Some (resync q4, None)"
  proof (rule feed_checksum_last [OF q3(2), where b = "0xFE"])
    fix q4 assume "loaded q4 (ReadingChecksum 1) (replicate (Suc (Suc (Suc n))) 0xFE @ [0xFE])"
      "feed_byte q3 0xFE = (if wire_checksum (replicate (Suc (Suc (Suc n))) 0xFE @ [0xFE]) =
          wire_crc (take (6 + unat (replicate (Suc (Suc (Suc n))) 0xFE ! 1 :: u8)) (replicate (Suc (Suc (Suc n))) 0xFE @ [0xFE]))
        then Some (parser_reset q4, Some (frame_of_wire (replicate (Suc (Suc (Suc n))) 0xFE @ [0xFE])))
        else Some (resync q4, None))"
    with ne show thesis unfolding r by (intro that) simp_all
  qed (use assms(2,3) n1 [of "Suc (Suc n)"] in \<open>simp_all del: replicate_Suc\<close>)
  from resync_start_bytes [OF q4(1)] have "loaded (resync q4) ReadingHeader (replicate (n + 3) 0xFE)"
    by (simp add: numeral_3_eq_3)
  with q1(1) q2(1) q3(1) q4(2) show ?thesis by (auto simp: replicate_numeral)
qed

lemma start_bytes_rounds:
  "loaded q ReadingHeader (replicate 261 0xFE) \<Longrightarrow> k \<le> 6 \<Longrightarrow>
    \<exists>q'. feed_bytes q (replicate (4 * k) 0xFE) = Some (q', []) \<and> loaded q' ReadingHeader (replicate (261 + 3 * k) 0xFE)"
proof (induction k)
  case (Suc k)
  then obtain q1 where q1: "feed_bytes q (replicate (4 * k) 0xFE) = Some (q1, [])"
    "loaded q1 ReadingHeader (replicate (261 + 3 * k) 0xFE)" by auto
  from start_bytes_round [OF q1(2)] Suc.prems(2) obtain q2 where
    "feed_bytes q1 (replicate 4 0xFE) = Some (q2, [])" "loaded q2 ReadingHeader (replicate (261 + 3 * k + 3) 0xFE)" by auto
  moreover have "replicate (4 * Suc k) (0xFE :: u8) = replicate (4 * k) 0xFE @ replicate 4 0xFE"
    by (simp only: replicate_add [symmetric] mult_Suc_right add.commute)
  moreover have "261 + 3 * Suc k = 261 + 3 * k + 3" by simp
  ultimately show ?case using q1(1) by (simp only: feed_bytes_append) simp
qed auto

text \<open>
  A run of 288 start bytes makes the parser index outside its buffer, which panics: from
  the first wrong checksum on every four bytes read leave three more in the buffer than the
  search for a new start removes.
\<close>

theorem start_bytes_overrun_buffer:
  "feed_bytes mavlink_parser_new (replicate 288 0xFE) = None"
proof -
  have new: "parse_state mavlink_parser_new = WaitingForStart" "length (frame_buf mavlink_parser_new) = 280"
    by (simp_all add: mavlink_parser_new_def MAX_FRAME_SIZE_BYTES_def)
  let ?w = "replicate 262 0xFE :: u8 list"
  have w: "?w ! 0 = 0xFE" "length ?w = 8 + unat (?w ! 1)" by simp_all
  have "take (length ?w - 2) ?w = replicate 260 0xFE" by simp
  then have "wire_checksum ?w \<noteq> wire_crc (take (length ?w - 2) ?w)"
    using start_byte_crc by (simp add: wire_checksum_def)
  with feed_frame [OF new w] obtain q1 where
    q1: "loaded q1 (ReadingChecksum 1) ?w" "feed_bytes mavlink_parser_new ?w = Some (resync q1, [])" by auto
  have eq: "?w = replicate (Suc 261) 0xFE" by (rule arg_cong [where f = "\<lambda>n. replicate n 0xFE"]) simp
  have "loaded (resync q1) ReadingHeader (replicate 261 0xFE)"
    by (rule resync_start_bytes [OF q1(1) [unfolded eq]]) simp
  from start_bytes_rounds [OF this, of 6] obtain q2 where
    q2: "feed_bytes (resync q1) (replicate 24 0xFE) = Some (q2, [])" "loaded q2 ReadingHeader (replicate 279 0xFE)" by auto
  obtain q3 st where q3: "feed_byte q2 0xFE = Some (q3, None)" "loaded q3 st (replicate 279 0xFE @ [0xFE])"
    "st \<noteq> WaitingForStart"
  proof (rule feed_header_byte [OF q2(2), where b = "0xFE"])
    fix q3 assume a: "feed_byte q2 0xFE = Some (q3, None)" "loaded q3 (if length (replicate 279 (0xFE :: u8)) < 5
      then ReadingHeader else if (replicate 279 0xFE @ [0xFE]) ! 1 = (0 :: u8) then ReadingChecksum 2
      else ReadingPayload (unat ((replicate 279 0xFE @ [0xFE]) ! 1 :: u8))) (replicate 279 0xFE @ [0xFE])"
    show thesis by (rule that [OF a]) (simp only: parse_state.distinct simp_thms split: if_split)
  qed simp_all
  have "feed_byte q3 0xFE = None" by (rule full_buffer_panics [OF q3(2,3)]) simp
  with q3(1) have last: "feed_bytes q2 (replicate 2 0xFE) = None" by (simp add: replicate_numeral)
  have "replicate 288 (0xFE :: u8) = ?w @ replicate 24 0xFE @ replicate 2 0xFE"
    by (simp only: replicate_add [symmetric]) simp
  with q1(2) q2(1) last show ?thesis by (simp only: feed_bytes_append) simp
qed

section \<open>Encoding and parsing\<close>

lemma wire_checksum_split: "push_bit 8 (ucast (ucast (drop_bit 8 c) :: u8)) OR ucast (ucast c :: u8) = (c :: u16)"
  by (rule bit_word_eqI) (auto simp: bit_simps dest: bit_imp_le_length)

lemma encoded_frame_valid:
  assumes "length (wf_payload f) \<le> 255"
    and "wf_checksum f = wire_crc (take (length (wf_payload f) + 6) (frame_bytes f))"
  shows "valid_wire (frame_bytes f)"
proof -
  let ?n = "length (wf_payload f)"
  have len: "length (frame_bytes f) = ?n + 8" by (simp add: frame_bytes_def)
  have one: "unat (frame_bytes f ! 1) = ?n" using assms(1) by (simp add: frame_bytes_def unat_of_nat)
  have zero: "frame_bytes f ! 0 = 0xFE" by (simp add: frame_bytes_def)
  have sum: "wire_checksum (frame_bytes f) = wf_checksum f"
    unfolding wire_checksum_def len by (simp add: frame_bytes_def nth_append wire_checksum_split)
  have "?n + 8 - 2 = ?n + 6" by simp
  then show ?thesis
    unfolding valid_wire_def len one zero sum
    by (intro conjI) (simp_all only: assms(2) [symmetric] le_add2 add.commute)
qed

text \<open>
  A frame of at most 255 payload bytes that carries the checksum of the protocol, as the
  frames of the \<^verbatim>\<open>mavio\<close> crate do, is encoded into the bytes from which the parser delivers
  the frame again: same header, same payload, same length. When it does not fit, the output
  is unchanged.
\<close>

theorem encoded_frame_is_delivered:
  assumes "length (wf_payload f) \<le> 255"
    and "wf_checksum f = wire_crc (take (length (wf_payload f) + 6) (frame_bytes f))"
    and "parse_state q = WaitingForStart" and "length (frame_buf q) = MAX_FRAME_SIZE_BYTES"
    and "encode_frame f out = (out', r)"
  shows "(case r of
      None \<Rightarrow> out' = out \<and> length out < length (wf_payload f) + 8
    | Some n \<Rightarrow> n = length (wf_payload f) + 8 \<and> length out' = length out \<and> drop n out' = drop n out
        \<and> map_option snd (feed_bytes q (take n out')) = Some [\<lparr>cf_data = [0xFE, word_of_nat (length (wf_payload f)),
            wf_sequence f, wf_system_id f, wf_component_id f, ucast (wf_message_id f)] @ wf_payload f
            @ [ucast (wf_checksum f), ucast (drop_bit 8 (wf_checksum f))] @ replicate (272 - length (wf_payload f)) 0,
          cf_len = n\<rparr>])"
proof -
  let ?n = "length (wf_payload f) + 8"
  have len: "length (frame_bytes f) = ?n" by (simp add: frame_bytes_def)
  have buf: "length (frame_buf q) = 280" using assms(4) by (simp add: MAX_FRAME_SIZE_BYTES_def)
  have "list_all (\<lambda>(g, w). 0xFE \<notin> set g \<and> valid_wire w) [([], frame_bytes f)]"
    using encoded_frame_valid [OF assms(1,2)] by simp
  from clean_stream [OF this assms(3) buf]
  have "map_option snd (feed_bytes q (frame_bytes f)) = Some [frame_of_wire (frame_bytes f)]" by auto
  moreover have "frame_of_wire (frame_bytes f) = \<lparr>cf_data = [0xFE, word_of_nat (length (wf_payload f)),
      wf_sequence f, wf_system_id f, wf_component_id f, ucast (wf_message_id f)] @ wf_payload f
      @ [ucast (wf_checksum f), ucast (drop_bit 8 (wf_checksum f))] @ replicate (272 - length (wf_payload f)) 0,
      cf_len = ?n\<rparr>"
    by (simp add: frame_of_wire_def frame_bytes_def)
  moreover have "take ?n (frame_bytes f @ xs) = frame_bytes f" "drop ?n (frame_bytes f @ xs) = xs" for xs
    by (simp_all add: len)
  ultimately show ?thesis
    using assms(5) len by (auto simp: encode_frame_def Let_def simp del: feed_bytes.simps split: if_splits)
qed

definition heartbeat_frame :: wire_frame where
  "heartbeat_frame = \<lparr>wf_payload = take 9 (drop 6 heartbeat_wire), wf_sequence = 0, wf_system_id = 1,
     wf_component_id = 1, wf_message_id = 0, wf_checksum = 0xDD7D\<rparr>"

theorem encoded_frame_is_delivered_witness:
  "map_option (map cf_len \<circ> snd) (feed_bytes mavlink_parser_new (take 17 (fst (encode_frame heartbeat_frame (replicate 20 0))))) =
    Some [17]"
proof -
  have b: "frame_bytes heartbeat_frame = heartbeat_wire"
    by (simp add: frame_bytes_def heartbeat_frame_def heartbeat_wire_def)
  have l: "length (wf_payload heartbeat_frame) = 9" "length heartbeat_wire = 17"
    by (simp_all add: heartbeat_frame_def heartbeat_wire_def)
  have "wire_checksum heartbeat_wire = 0xDD7D" by (simp add: wire_checksum_def heartbeat_wire_def)
  then have "wire_crc (take 15 heartbeat_wire) = 0xDD7D"
    using heartbeat_valid l by (simp add: valid_wire_def)
  then have c: "wf_checksum heartbeat_frame = wire_crc (take (length (wf_payload heartbeat_frame) + 6) (frame_bytes heartbeat_frame))"
    unfolding l b by (simp add: heartbeat_frame_def)
  have e: "encode_frame heartbeat_frame (replicate 20 0) = (heartbeat_wire @ replicate 3 0, Some 17)"
    unfolding encode_frame_def b l by simp
  have p: "parse_state mavlink_parser_new = WaitingForStart" "length (frame_buf mavlink_parser_new) = MAX_FRAME_SIZE_BYTES"
    by (simp_all add: mavlink_parser_new_def)
  have "length (wf_payload heartbeat_frame) \<le> 255" by (simp add: l)
  from encoded_frame_is_delivered [OF this c p e]
  obtain x where "map_option snd (feed_bytes mavlink_parser_new (take 17 (heartbeat_wire @ replicate 3 0))) = Some [x]"
    "cf_len x = 17"
    by (simp only: option.case) (metis complete_frame.select_convs(2))
  then show ?thesis
    unfolding e fst_conv option.map_comp [symmetric] by (simp only: option.map list.map)
qed

end
