(* ===== verification/Estimator.thy ===== *)
theory Estimator
  imports Messages Packets Params
begin

text \<open>
  The attitude estimator of \<^verbatim>\<open>estimator/quad.rs\<close>: a complementary filter on the attitude
  quaternion with a gyro bias, corrected by the accelerometer and by an external attitude.
  Square root, powers, the trigonometric functions, the normalisation of a quaternion and the cross
  product come from the standard library and nalgebra and are the fields of \<open>real_ops\<close>, an
  argument of every definition that uses one; sums, differences and scalings of vectors and
  quaternions act on each component.
\<close>

section \<open>Vectors and quaternions\<close>

record (overloaded) ('r::len) vec3 =
  vx :: "'r flt"
  vy :: "'r flt"
  vz :: "'r flt"

record (overloaded) ('r::len) quaternion =
  q_w :: "'r flt"
  q_i :: "'r flt"
  q_j :: "'r flt"
  q_k :: "'r flt"

record (overloaded) ('r::len) real_ops =
  r_sqrt :: "'r flt \<Rightarrow> 'r flt"
  r_sin :: "'r flt \<Rightarrow> 'r flt"
  r_cos :: "'r flt \<Rightarrow> 'r flt"
  r_asin :: "'r flt \<Rightarrow> 'r flt"
  r_atan2 :: "'r flt \<Rightarrow> 'r flt \<Rightarrow> 'r flt"
  r_powf :: "'r flt \<Rightarrow> 'r flt \<Rightarrow> 'r flt"
  q_normalize :: "'r quaternion \<Rightarrow> 'r quaternion"
  v_cross :: "'r vec3 \<Rightarrow> 'r vec3 \<Rightarrow> 'r vec3"

definition vec3_of :: "'r::len flt \<Rightarrow> 'r flt \<Rightarrow> 'r flt \<Rightarrow> 'r vec3" where
  "vec3_of x y z = \<lparr>vx = x, vy = y, vz = z\<rparr>"

definition vec3_zero :: "('r::len) vec3" where
  "vec3_zero = vec3_of (lit32 0 1) (lit32 0 1) (lit32 0 1)"

definition v_add :: "('r::len) vec3 \<Rightarrow> 'r vec3 \<Rightarrow> 'r vec3" where
  "v_add a b = vec3_of (vx a + vx b) (vy a + vy b) (vz a + vz b)"

definition v_sub :: "('r::len) vec3 \<Rightarrow> 'r vec3 \<Rightarrow> 'r vec3" where
  "v_sub a b = vec3_of (vx a - vx b) (vy a - vy b) (vz a - vz b)"

definition v_scale :: "('r::len) vec3 \<Rightarrow> 'r flt \<Rightarrow> 'r vec3" where
  "v_scale a s = vec3_of (vx a * s) (vy a * s) (vz a * s)"

definition v_div :: "('r::len) vec3 \<Rightarrow> 'r flt \<Rightarrow> 'r vec3" where
  "v_div a s = vec3_of (vx a / s) (vy a / s) (vz a / s)"

definition quaternion_of :: "'r::len flt \<Rightarrow> 'r flt \<Rightarrow> 'r flt \<Rightarrow> 'r flt \<Rightarrow> 'r quaternion" where
  "quaternion_of w i j k = \<lparr>q_w = w, q_i = i, q_j = j, q_k = k\<rparr>"

definition quaternion_one :: "('r::len) quaternion" where
  "quaternion_one = quaternion_of (lit32 1 1) (lit32 0 1) (lit32 0 1) (lit32 0 1)"

definition quaternion_zero :: "('r::len) quaternion" where
  "quaternion_zero = quaternion_of (lit32 0 1) (lit32 0 1) (lit32 0 1) (lit32 0 1)"

definition q_add_scaled :: "('r::len) quaternion \<Rightarrow> 'r quaternion \<Rightarrow> 'r flt \<Rightarrow> 'r quaternion" where
  "q_add_scaled q d s = quaternion_of (q_w q + q_w d * s) (q_i q + q_i d * s)
     (q_j q + q_j d * s) (q_k q + q_k d * s)"

definition gravity :: "('r::len) flt" where
  "gravity = lit32 980665 100000"

section \<open>The state\<close>

record (overloaded) ('r::len) attitude_state =
  as_q_hat :: "'r quaternion"
  as_q_dot :: "'r quaternion"
  as_body_rate :: "'r vec3"
  as_b_hat :: "'r vec3"
  as_healthy :: bool

definition attitude_state_default :: "('r::len) attitude_state" where
  "attitude_state_default = \<lparr>as_q_hat = quaternion_one, as_q_dot = quaternion_zero,
     as_body_rate = vec3_zero, as_b_hat = vec3_zero, as_healthy = False\<rparr>"

definition attitude_q :: "('r::len) attitude_state \<Rightarrow> f32 list" where
  "attitude_q s = [to_f32_lossy (q_w (as_q_hat s)), to_f32_lossy (q_i (as_q_hat s)),
     to_f32_lossy (q_j (as_q_hat s)), to_f32_lossy (q_k (as_q_hat s))]"

definition attitude_q_dot :: "('r::len) attitude_state \<Rightarrow> f32 list" where
  "attitude_q_dot s = [to_f32_lossy (q_w (as_q_dot s)), to_f32_lossy (q_i (as_q_dot s)),
     to_f32_lossy (q_j (as_q_dot s)), to_f32_lossy (q_k (as_q_dot s))]"

record (overloaded) ('r::len) quad_estimator =
  k_p :: "'r flt"
  k_i :: "'r flt"
  k_p_ext :: "'r flt"
  q_hat :: "'r quaternion"
  q_dot :: "'r quaternion"
  body_rate :: "'r vec3"
  b_hat :: "'r vec3"
  is_initialized :: bool
  last_acc_update_us :: u64
  last_extatt_update_us :: u64
  accel_lpf :: "'r vec3"
  gyro_lpf :: "'r vec3"
  w_1 :: "'r vec3"
  w_2 :: "'r vec3"
  q_extatt :: "'r quaternion option"
  alpha_acc :: "'r flt"
  alpha_gyro_xy :: "'r flt"
  alpha_gyro_z :: "'r flt"
  accel_margin :: "'r flt"
  init_time_us :: u64
  first_imu_time :: u64
  use_acc :: bool
  use_quad_int :: bool
  use_mat_exp :: bool
  est_fixed_wing :: bool

definition estimator_new :: "'r::len flt \<Rightarrow> 'r flt \<Rightarrow> 'r quad_estimator" where
  "estimator_new kp ki = \<lparr>k_p = kp, k_i = ki, k_p_ext = lit32 15 10, q_hat = quaternion_one,
     q_dot = quaternion_zero, body_rate = vec3_zero, b_hat = vec3_zero, is_initialized = False,
     last_acc_update_us = 0, last_extatt_update_us = 0,
     accel_lpf = vec3_of (lit32 0 1) (lit32 0 1) (- gravity), gyro_lpf = vec3_zero,
     w_1 = vec3_zero, w_2 = vec3_zero, q_extatt = None, alpha_acc = lit32 5 10,
     alpha_gyro_xy = lit32 3 10, alpha_gyro_z = lit32 3 10, accel_margin = lit32 1 10,
     init_time_us = 3000000, first_imu_time = 0, use_acc = True, use_quad_int = True,
     use_mat_exp = True, est_fixed_wing = False\<rparr>"

definition estimator_default :: "('r::len) quad_estimator" where
  "estimator_default = estimator_new (lit32 15 10) (lit32 5 100)"

text \<open>A parameter of another variant leaves the field as it is.\<close>

definition float_param_into :: "params \<Rightarrow> param_id \<Rightarrow> 'r::len flt \<Rightarrow> 'r flt" where
  "float_param_into p pid old = (case get_by_id p pid of PFloat v \<Rightarrow> from_f32 v | _ \<Rightarrow> old)"

definition flag_param_into :: "params \<Rightarrow> param_id \<Rightarrow> bool \<Rightarrow> bool" where
  "flag_param_into p pid old = (case get_by_id p pid of PInt v \<Rightarrow> v \<noteq> 0 | _ \<Rightarrow> old)"

definition estimator_update_params :: "('r::len) quad_estimator \<Rightarrow> params \<Rightarrow> 'r quad_estimator" where
  "estimator_update_params e p = e\<lparr>
     k_p := float_param_into p PARAM_FILTER_KP_ACC (k_p e),
     k_i := float_param_into p PARAM_FILTER_KI (k_i e),
     alpha_acc := float_param_into p PARAM_ACC_ALPHA (alpha_acc e),
     alpha_gyro_xy := float_param_into p PARAM_GYRO_XY_ALPHA (alpha_gyro_xy e),
     alpha_gyro_z := float_param_into p PARAM_GYRO_Z_ALPHA (alpha_gyro_z e),
     accel_margin := float_param_into p PARAM_FILTER_ACCEL_MARGIN (accel_margin e),
     init_time_us := (case get_by_id p PARAM_INIT_TIME of PInt v \<Rightarrow> scast v * 1000 | _ \<Rightarrow> init_time_us e),
     k_p_ext := float_param_into p PARAM_FILTER_KP_EXT (k_p_ext e),
     use_acc := flag_param_into p PARAM_FILTER_USE_ACC (use_acc e),
     use_quad_int := flag_param_into p PARAM_FILTER_USE_QUAD_INT (use_quad_int e),
     use_mat_exp := flag_param_into p PARAM_FILTER_USE_MAT_EXP (use_mat_exp e),
     est_fixed_wing := flag_param_into p PARAM_FIXED_WING (est_fixed_wing e)\<rparr>"

definition reset_state :: "('r::len) quad_estimator \<Rightarrow> 'r quad_estimator" where
  "reset_state e = e\<lparr>q_hat := quaternion_one, q_dot := quaternion_zero, body_rate := vec3_zero,
     b_hat := vec3_zero, accel_lpf := vec3_of (lit32 0 1) (lit32 0 1) (- gravity),
     gyro_lpf := vec3_zero, w_1 := vec3_zero, w_2 := vec3_zero, q_extatt := None,
     is_initialized := False, last_acc_update_us := 0, last_extatt_update_us := 0\<rparr>"

definition reset_adaptive_bias :: "('r::len) quad_estimator \<Rightarrow> 'r quad_estimator" where
  "reset_adaptive_bias e = e\<lparr>b_hat := vec3_zero\<rparr>"

definition set_external_attitude_update ::
  "('r::len) real_ops \<Rightarrow> 'r quad_estimator \<Rightarrow> external_attitude_msg \<Rightarrow> 'r quad_estimator" where
  "set_external_attitude_update R e m = e\<lparr>q_extatt := Some (q_normalize R
     (quaternion_of (from_f32 (ea_qw m)) (from_f32 (ea_qx m)) (from_f32 (ea_qy m)) (from_f32 (ea_qz m))))\<rparr>"

section \<open>Corrections\<close>

definition accel_sqrd_norm :: "('r::len) vec3 \<Rightarrow> 'r flt" where
  "accel_sqrd_norm a = vx a * vx a + vy a * vy a + vz a * vz a"

definition accel_quaternion :: "('r::len) real_ops \<Rightarrow> 'r vec3 \<Rightarrow> 'r flt \<Rightarrow> 'r flt \<times> 'r flt \<times> 'r flt \<times> 'r flt" where
  "accel_quaternion R a n =
    (let ax = vx a / n; ay = vy a / n; az = vz a / n; one = lit32 1 1; z = lit32 0 1;
       (qw, qx, qy) = (if - az < lit32 (- 999999) 1000000 then (lit32 0 1, one, lit32 0 1)
         else (one - az, ay, - ax));
       m = r_sqrt R (qw * qw + qx * qx + qy * qy + z * z)
     in if lit32 0 1 < m then (qw / m, qx / m, qy / m, z / m) else (qw, qx, qy, z))"

definition accel_correction :: "('r::len) real_ops \<Rightarrow> 'r quaternion \<Rightarrow> 'r vec3 \<Rightarrow> 'r vec3" where
  "accel_correction R att a =
    (let n = r_sqrt R (accel_sqrd_norm a) in
     if n \<le> lit32 1 1000000000 then vec3_zero
     else let (qw, qx, qy, qz) = accel_quaternion R a n;
       tw = qw * q_w att - qx * q_i att - qy * q_j att - qz * q_k att;
       ti = qw * q_i att + qx * q_w att - qy * q_k att + qz * q_j att;
       tj = qw * q_j att + qx * q_k att + qy * q_w att - qz * q_i att
     in vec3_of (lit32 (- 2) 1 * tw * ti) (lit32 (- 2) 1 * tw * tj) (lit32 0 1))"

definition quaternion_to_dcm_rows :: "('r::len) quaternion \<Rightarrow> 'r vec3 \<times> 'r vec3 \<times> 'r vec3" where
  "quaternion_to_dcm_rows q = (let w = q_w q; x = q_i q; y = q_j q; z = q_k q in
     (vec3_of (lit32 1 1 - lit32 2 1 * (y * y + z * z)) (lit32 2 1 * (x * y - z * w))
        (lit32 2 1 * (x * z + y * w)),
      vec3_of (lit32 2 1 * (x * y + z * w)) (lit32 1 1 - lit32 2 1 * (x * x + z * z))
        (lit32 2 1 * (y * z - x * w)),
      vec3_of (lit32 2 1 * (x * z - y * w)) (lit32 2 1 * (y * z + x * w))
        (lit32 1 1 - lit32 2 1 * (x * x + y * y))))"

definition extatt_correction :: "('r::len) real_ops \<Rightarrow> 'r quaternion \<Rightarrow> 'r quaternion \<Rightarrow> 'r vec3" where
  "extatt_correction R att ext =
    (let (xhat, yhat, zhat) = quaternion_to_dcm_rows att; (xext, yext, zext) = quaternion_to_dcm_rows ext
     in v_add (v_add (v_cross R xext xhat) (v_cross R yext yhat)) (v_cross R zext zhat))"

definition quaternion_to_euler :: "('r::len) real_ops \<Rightarrow> 'r quaternion \<Rightarrow> 'r vec3" where
  "quaternion_to_euler R q =
    (let two = lit32 2 1; one = lit32 1 1; minus_one = lit32 (- 1) 1;
       sin_roll = two * (q_w q * q_i q + q_j q * q_k q);
       cos_roll = one - two * (q_i q * q_i q + q_j q * q_j q);
       sin_pitch = two * (q_w q * q_j q - q_k q * q_i q);
       sin_yaw = two * (q_w q * q_k q + q_i q * q_j q);
       cos_yaw = one - two * (q_j q * q_j q + q_k q * q_k q)
     in vec3_of (r_atan2 R sin_roll cos_roll) (r_asin R (flt_clamp sin_pitch minus_one one))
          (r_atan2 R sin_yaw cos_yaw))"

section \<open>One estimation\<close>

definition estimator_output :: "('r::len) quad_estimator \<Rightarrow> bool \<Rightarrow> 'r attitude_state" where
  "estimator_output e healthy = \<lparr>as_q_hat = q_hat e, as_q_dot = q_dot e, as_body_rate = body_rate e,
     as_b_hat = b_hat e, as_healthy = healthy\<rparr>"

definition start_estimator :: "('r::len) quad_estimator \<Rightarrow> u64 \<Rightarrow> 'r quad_estimator" where
  "start_estimator e now = e\<lparr>first_imu_time := now, last_acc_update_us := now,
     last_extatt_update_us := now, is_initialized := True\<rparr>"

text \<open>The exponential moving averages over the raw accelerations and rates.\<close>

definition low_pass_step :: "'r::len flt \<Rightarrow> 'r flt \<Rightarrow> 'r flt \<Rightarrow> 'r flt" where
  "low_pass_step alpha raw old = (lit32 1 1 - alpha) * raw + alpha * old"

definition low_pass :: "('r::len) quad_estimator \<Rightarrow> 'r imu_packet \<Rightarrow> 'r quad_estimator" where
  "low_pass e pkt = e\<lparr>
     accel_lpf := vec3_of
       (low_pass_step (alpha_acc e) (imu_accel pkt ! 0) (vx (accel_lpf e)))
       (low_pass_step (alpha_acc e) (imu_accel pkt ! 1) (vy (accel_lpf e)))
       (low_pass_step (alpha_acc e) (imu_accel pkt ! 2) (vz (accel_lpf e))),
     gyro_lpf := vec3_of
       (low_pass_step (alpha_gyro_xy e) (imu_gyro pkt ! 0) (vx (gyro_lpf e)))
       (low_pass_step (alpha_gyro_xy e) (imu_gyro pkt ! 1) (vy (gyro_lpf e)))
       (low_pass_step (alpha_gyro_z e) (imu_gyro pkt ! 2) (vz (gyro_lpf e)))\<rparr>"

definition can_use_accel :: "('r::len) quad_estimator \<Rightarrow> bool" where
  "can_use_accel e =
    (let n = accel_sqrd_norm (accel_lpf e); margin = accel_margin e; one = lit32 1 1; g = gravity;
       lowerbound = (one - margin) * (one - margin) * g * g;
       upperbound = (one + margin) * (one + margin) * g * g
     in use_acc e \<and> lowerbound < n \<and> n < upperbound)"

text \<open>The stages return the proportional gain, the error vector and the estimator.\<close>

definition accel_stage :: "('r::len) real_ops \<Rightarrow> u64 \<Rightarrow> 'r quad_estimator \<Rightarrow>
    'r flt \<times> 'r vec3 \<times> 'r quad_estimator" where
  "accel_stage R now e =
    (if can_use_accel e
     then (k_p e, accel_correction R (q_hat e) (accel_lpf e), e\<lparr>last_acc_update_us := now\<rparr>)
     else (lit32 0 1, vec3_zero, e))"

definition extatt_stage :: "('r::len) real_ops \<Rightarrow> u64 \<Rightarrow> 'r flt \<Rightarrow> 'r flt \<times> 'r vec3 \<times> 'r quad_estimator \<Rightarrow>
    'r flt \<times> 'r vec3 \<times> 'r quad_estimator" where
  "extatt_stage R now dt = (\<lambda>(kp, w_err, e). case q_extatt e of
       None \<Rightarrow> (kp, w_err, e)
     | Some q \<Rightarrow>
       (let extatt_dt = from_u64 (saturating_sub now (last_extatt_update_us e)) * lit32 1 1000000;
          scale_dt = (if lit32 0 1 < dt then extatt_dt / dt else lit32 0 1)
        in (k_p_ext e, v_scale (extatt_correction R (q_hat e) q) scale_dt,
            e\<lparr>q_extatt := None, last_extatt_update_us := now\<rparr>)))"

definition stage_gains :: "u64 \<Rightarrow> ('r::len) quad_estimator \<Rightarrow> 'r flt \<Rightarrow> 'r flt \<times> 'r flt" where
  "stage_gains now e kp =
    (if now < init_time_us e then (k_p e * lit32 10 1, k_i e * lit32 10 1) else (kp, k_i e))"

definition smoothed_gyro_measurement :: "('r::len) quad_estimator \<Rightarrow> bool \<Rightarrow> 'r vec3 \<times> 'r quad_estimator" where
  "smoothed_gyro_measurement e quad =
    (if quad then (v_add (v_add (v_div (w_2 e) (lit32 (- 12) 1)) (v_scale (w_1 e) (lit32 8 12)))
         (v_scale (gyro_lpf e) (lit32 5 12)), e\<lparr>w_2 := w_1 e, w_1 := gyro_lpf e\<rparr>)
     else (gyro_lpf e, e))"

definition angular_rate_terms :: "('r::len) vec3 \<Rightarrow> 'r quaternion \<Rightarrow> 'r quaternion" where
  "angular_rate_terms w c = (let p = vx w; q = vy w; r = vz w in quaternion_of
     ((- p) * q_i c - q * q_j c - r * q_k c) (p * q_w c + r * q_j c - q * q_k c)
     (q * q_w c - r * q_i c + p * q_k c) (r * q_w c + q * q_i c - p * q_j c))"

definition half_rotation :: "('r::len) vec3 \<Rightarrow> 'r quaternion \<Rightarrow> 'r quaternion" where
  "half_rotation w c = (let t = angular_rate_terms w c; h = lit32 5 10 in
     quaternion_of (h * q_w t) (h * q_i t) (h * q_j t) (h * q_k t))"

definition exponential_step :: "('r::len) real_ops \<Rightarrow> 'r vec3 \<Rightarrow> 'r flt \<Rightarrow> 'r flt \<Rightarrow> 'r quaternion \<Rightarrow> 'r quaternion" where
  "exponential_step R w sqrd dt c =
    (let norm_w = r_sqrt R sqrd; half_angle = norm_w * dt / lit32 2 1;
       t1 = r_cos R half_angle; t2 = r_sin R half_angle / norm_w; t = angular_rate_terms w c
     in quaternion_of (t1 * q_w c + t2 * q_w t) (t1 * q_i c + t2 * q_i t)
          (t1 * q_j c + t2 * q_j t) (t1 * q_k c + t2 * q_k t))"

definition integrate_angular_rate :: "('r::len) real_ops \<Rightarrow> 'r quad_estimator \<Rightarrow> 'r vec3 \<Rightarrow> 'r flt \<Rightarrow> bool \<Rightarrow>
    'r quad_estimator" where
  "integrate_angular_rate R e w dt mat_exp =
    (let sqrd = accel_sqrd_norm w in
     if flt_eq sqrd (lit32 0 1) then e\<lparr>q_dot := quaternion_zero\<rparr>
     else let qd = half_rotation w (q_hat e);
       qh = (if mat_exp then exponential_step R w sqrd dt (q_hat e)
             else q_add_scaled (q_hat e) qd dt)
     in e\<lparr>q_dot := qd, q_hat := q_normalize R qh\<rparr>)"

definition attitude_finite :: "('r::len) quaternion \<Rightarrow> bool" where
  "attitude_finite q \<longleftrightarrow> is_finite_value (q_w q) \<and> is_finite_value (q_i q) \<and>
     is_finite_value (q_j q) \<and> is_finite_value (q_k q)"

definition unhealthy_due_to_accel :: "u64 \<Rightarrow> ('r::len) quad_estimator \<Rightarrow> bool" where
  "unhealthy_due_to_accel now e \<longleftrightarrow>
     use_acc e \<and> last_acc_update_us e + 500000 < now \<and> \<not> est_fixed_wing e"

text \<open>What an IMU packet does once the estimator has its first time stamp.\<close>

definition imu_correct :: "('r::len) real_ops \<Rightarrow> u64 \<Rightarrow> 'r flt \<Rightarrow> 'r quad_estimator \<Rightarrow> 'r quad_estimator" where
  "imu_correct R now dt e0 =
    (let (kp0, w_err, e1) = extatt_stage R now dt (accel_stage R now e0);
       (kp, ki) = stage_gains now e1 kp0;
       e2 = e1\<lparr>b_hat := v_sub (b_hat e1) (v_scale w_err (ki * dt))\<rparr>;
       (wbar, e3) = smoothed_gyro_measurement e2 (use_quad_int e2);
       wfinal = v_add (v_sub wbar (b_hat e3)) (v_scale w_err kp);
       e4 = integrate_angular_rate R e3 wfinal dt (use_mat_exp e3)
     in e4\<lparr>body_rate := v_sub (gyro_lpf e4) (b_hat e4)\<rparr>)"

definition estimate_packets :: "('r::len) real_ops \<Rightarrow> 'r quad_estimator \<Rightarrow> 'r imu_packet option \<Rightarrow>
    'r flt \<Rightarrow> 'r attitude_state \<times> 'r quad_estimator" where
  "estimate_packets R e imu dt =
    (if dt < lit32 0 1 then (estimator_output e False, e)
     else case imu of
       None \<Rightarrow> (estimator_output e (attitude_finite (q_hat e)), e)
     | Some pkt \<Rightarrow>
       (let now = ph_timestamp (imu_header pkt) in
        if \<not> is_initialized e
        then (estimator_output e True, start_estimator e now)
        else let e' = imu_correct R now dt (low_pass e pkt) in
          (estimator_output e' (\<not> unhealthy_due_to_accel now e' \<and> attitude_finite (q_hat e')), e')))"

definition estimate :: "('r::len) real_ops \<Rightarrow> 'r quad_estimator \<Rightarrow> 'r imu_packet option \<Rightarrow> 'r flt \<Rightarrow>
    external_attitude_msg option \<Rightarrow> 'r attitude_state \<times> 'r quad_estimator" where
  "estimate R e imu dt ext = estimate_packets R
     (case ext of None \<Rightarrow> e | Some m \<Rightarrow> set_external_attitude_update R e m) imu dt"

end
