(* ===== verification/Estimator_Safety.thy ===== *)
theory Estimator_Safety
  imports Estimator
begin

text \<open>
  What the attitude estimator promises over a flight: a reading is called healthy only
  when gravity was seen within half a second, and a NaN angular rate is never hidden, it
  keeps the estimator unhealthy until it is reset.
\<close>

section \<open>NaN arithmetic\<close>

context flight_float
begin

lemma nan_neg [simp]: "is_nan (flt_neg x :: 'r flt) \<longleftrightarrow> is_nan x"
  using mag_bounds [of x] by (simp add: flt_neg_def is_nan_def mk_flt_fields)

lemma nan_arith:
  "is_nan (x :: 'r flt) \<or> is_nan y \<Longrightarrow> is_nan (x + y)"
  "is_nan (x :: 'r flt) \<or> is_nan y \<Longrightarrow> is_nan (x - y)"
  "is_nan (x :: 'r flt) \<or> is_nan y \<Longrightarrow> is_nan (x * y)"
  "is_nan (x :: 'r flt) \<or> is_nan y \<Longrightarrow> is_nan (x / y)"
  "is_nan (x :: 'r flt) \<Longrightarrow> is_nan (- x)"
  using not_nan_nan
  by (auto simp: plus_flt_def minus_flt_def times_flt_def divide_flt_def uminus_flt_def
      flt_add_def flt_mul_def flt_div_def Let_def)

lemma nan_not_finite: "is_nan (x :: 'r flt) \<Longrightarrow> \<not> is_finite_value x"
  by (simp add: is_finite_value_def is_finite_def is_nan_def)

end

definition vec3_nan :: "('r::len) vec3 \<Rightarrow> bool" where
  "vec3_nan v \<longleftrightarrow> is_nan (vx v) \<or> is_nan (vy v) \<or> is_nan (vz v)"

definition quaternion_nan :: "('r::len) quaternion \<Rightarrow> bool" where
  "quaternion_nan q \<longleftrightarrow> is_nan (q_w q) \<or> is_nan (q_i q) \<or> is_nan (q_j q) \<or> is_nan (q_k q)"

text \<open>What the code relies on: a quaternion with a NaN does not normalise to finite numbers.\<close>

definition normalize_keeps_nan :: "('r::len) real_ops \<Rightarrow> bool" where
  "normalize_keeps_nan R \<longleftrightarrow> (\<forall>q. quaternion_nan q \<longrightarrow> \<not> attitude_finite (q_normalize R q))"

section \<open>A NaN rate\<close>

context flight_float
begin

lemma vec3_nan_arith:
  "vec3_nan (a :: 'r vec3) \<or> vec3_nan b \<Longrightarrow> vec3_nan (v_add a b)"
  "vec3_nan (a :: 'r vec3) \<or> vec3_nan b \<Longrightarrow> vec3_nan (v_sub a b)"
  "vec3_nan (a :: 'r vec3) \<Longrightarrow> vec3_nan (v_scale a s)"
  by (auto simp: vec3_nan_def v_add_def v_sub_def v_scale_def vec3_of_def nan_arith)

lemma nan_norm: "vec3_nan (w :: 'r vec3) \<Longrightarrow> is_nan (accel_sqrd_norm w)"
  by (auto simp: vec3_nan_def accel_sqrd_norm_def nan_arith)

lemma nan_terms: "vec3_nan (w :: 'r vec3) \<Longrightarrow> is_nan (q_w (angular_rate_terms w c))"
  by (auto simp: vec3_nan_def angular_rate_terms_def quaternion_of_def Let_def nan_arith)

lemma nan_integrate:
  assumes "vec3_nan (w :: 'r vec3)" "normalize_keeps_nan N"
  shows "\<not> attitude_finite (q_hat (integrate_angular_rate N e w dt mat_exp))"
proof -
  have "\<not> flt_eq (accel_sqrd_norm w) (lit32 0 1)"
    using nan_norm [OF assms(1)] by (simp add: flt_eq_def)
  moreover have "quaternion_nan (exponential_step N w s dt c)"
      "quaternion_nan (q_add_scaled c (half_rotation w c) dt)" for s c
    using nan_terms [OF assms(1), of c]
    by (simp_all add: quaternion_nan_def exponential_step_def q_add_scaled_def half_rotation_def
        quaternion_of_def Let_def nan_arith)
  ultimately show ?thesis
    using assms(2) by (auto simp: integrate_angular_rate_def normalize_keeps_nan_def Let_def)
qed

end

text \<open>What the stages leave alone.\<close>

lemma accel_stage_frame [frame]:
  "gyro_lpf (snd (snd (accel_stage R now e))) = gyro_lpf e"
  "is_initialized (snd (snd (accel_stage R now e))) = is_initialized e"
  "use_acc (snd (snd (accel_stage R now e))) = use_acc e"
  "est_fixed_wing (snd (snd (accel_stage R now e))) = est_fixed_wing e"
  "last_acc_update_us (snd (snd (accel_stage R now e))) = (if can_use_accel e then now else last_acc_update_us e)"
  by (simp_all add: accel_stage_def)

lemma extatt_stage_frame [frame]:
  "gyro_lpf (snd (snd (extatt_stage R now dt x))) = gyro_lpf (snd (snd x))"
  "is_initialized (snd (snd (extatt_stage R now dt x))) = is_initialized (snd (snd x))"
  "use_acc (snd (snd (extatt_stage R now dt x))) = use_acc (snd (snd x))"
  "est_fixed_wing (snd (snd (extatt_stage R now dt x))) = est_fixed_wing (snd (snd x))"
  "last_acc_update_us (snd (snd (extatt_stage R now dt x))) = last_acc_update_us (snd (snd x))"
  by (simp_all add: extatt_stage_def Let_def case_prod_beta split: option.splits)

lemma smoothed_frame [frame]:
  "gyro_lpf (snd (smoothed_gyro_measurement e q)) = gyro_lpf e"
  "is_initialized (snd (smoothed_gyro_measurement e q)) = is_initialized e"
  "use_acc (snd (smoothed_gyro_measurement e q)) = use_acc e"
  "est_fixed_wing (snd (smoothed_gyro_measurement e q)) = est_fixed_wing e"
  "last_acc_update_us (snd (smoothed_gyro_measurement e q)) = last_acc_update_us e"
  by (simp_all add: smoothed_gyro_measurement_def)

lemma integrate_frame [frame]:
  "gyro_lpf (integrate_angular_rate R e w dt m) = gyro_lpf e"
  "is_initialized (integrate_angular_rate R e w dt m) = is_initialized e"
  "use_acc (integrate_angular_rate R e w dt m) = use_acc e"
  "est_fixed_wing (integrate_angular_rate R e w dt m) = est_fixed_wing e"
  "last_acc_update_us (integrate_angular_rate R e w dt m) = last_acc_update_us e"
  by (simp_all add: integrate_angular_rate_def Let_def)

lemma imu_correct_frame:
  "gyro_lpf (imu_correct R now dt e) = gyro_lpf e"
  "is_initialized (imu_correct R now dt e) = is_initialized e"
  "use_acc (imu_correct R now dt e) = use_acc e"
  "est_fixed_wing (imu_correct R now dt e) = est_fixed_wing e"
  "last_acc_update_us (imu_correct R now dt e) = (if can_use_accel e then now else last_acc_update_us e)"
  by (simp_all add: imu_correct_def Let_def case_prod_beta frame)

lemma low_pass_frame:
  "is_initialized (low_pass e pkt) = is_initialized e"
  "use_acc (low_pass e pkt) = use_acc e"
  "est_fixed_wing (low_pass e pkt) = est_fixed_wing e"
  "last_acc_update_us (low_pass e pkt) = last_acc_update_us e"
  by (simp_all add: low_pass_def)

context flight_float
begin

lemma nan_imu_correct:
  assumes "vec3_nan (gyro_lpf (e :: 'r quad_estimator))" "normalize_keeps_nan N"
  shows "\<not> attitude_finite (q_hat (imu_correct N now dt e))"
proof -
  have "vec3_nan (fst (smoothed_gyro_measurement e' q))" if "gyro_lpf e' = gyro_lpf e"
    for e' :: "'r quad_estimator" and q
    using assms(1) by (simp add: smoothed_gyro_measurement_def that vec3_nan_arith)
  note nan_integrate [OF vec3_nan_arith(1) [OF disjI1 [OF vec3_nan_arith(2) [OF disjI1 [OF this]]]] assms(2)]
  then show ?thesis by (simp add: imu_correct_def Let_def case_prod_beta frame)
qed

lemma nan_low_pass:
  assumes "is_nan (imu_gyro pkt ! 0 :: 'r flt) \<or> is_nan (imu_gyro pkt ! 1) \<or> is_nan (imu_gyro pkt ! 2)
    \<or> vec3_nan (gyro_lpf e)"
  shows "vec3_nan (gyro_lpf (low_pass e pkt))"
  using assms by (auto simp: low_pass_def low_pass_step_def vec3_nan_def vec3_of_def nan_arith)

end

section \<open>Steps of a flight\<close>

text \<open>
  What the firmware does to the estimator between two resets: parameters change, the
  adaptive bias is cleared, an estimate is taken.
\<close>

inductive estimator_step :: "('r::len) real_ops \<Rightarrow> 'r quad_estimator \<Rightarrow> 'r quad_estimator \<Rightarrow> bool"
  for R where
  step_params: "estimator_step R e (estimator_update_params e p)"
| step_bias: "estimator_step R e (reset_adaptive_bias e)"
| step_estimate: "estimator_step R e (snd (estimate R e imu dt ext))"

definition poisoned :: "('r::len) quad_estimator \<Rightarrow> bool" where
  "poisoned e \<longleftrightarrow> is_initialized e \<and> vec3_nan (gyro_lpf e) \<and> \<not> attitude_finite (q_hat e)"

lemma poisoned_external [simp]: "poisoned (set_external_attitude_update R e m) = poisoned e"
  by (simp add: poisoned_def set_external_attitude_update_def)

context flight_float
begin

lemma poisoned_packets:
  assumes "poisoned (e :: 'r quad_estimator)" "normalize_keeps_nan N"
  shows "\<not> as_healthy (fst (estimate_packets N e imu dt))" "poisoned (snd (estimate_packets N e imu dt))"
proof -
  have "\<not> attitude_finite (q_hat (imu_correct N now dt (low_pass e pkt)))"
      "vec3_nan (gyro_lpf (low_pass e pkt))" for now pkt
    using nan_imu_correct [OF nan_low_pass assms(2)] nan_low_pass assms(1) by (auto simp: poisoned_def)
  then show "\<not> as_healthy (fst (estimate_packets N e imu dt))" "poisoned (snd (estimate_packets N e imu dt))"
    using assms by (auto simp: estimate_packets_def poisoned_def estimator_output_def Let_def
        imu_correct_frame low_pass_frame split: option.splits)
qed

lemma poisoned_estimate:
  assumes "poisoned (e :: 'r quad_estimator)" "normalize_keeps_nan N"
  shows "\<not> as_healthy (fst (estimate N e imu dt ext))" "poisoned (snd (estimate N e imu dt ext))"
  using poisoned_packets [OF _ assms(2)] assms(1) by (simp_all add: estimate_def split: option.split)

lemma poisoned_steps:
  assumes "(estimator_step N)\<^sup>*\<^sup>* e e'" "poisoned (e :: 'r quad_estimator)" "normalize_keeps_nan N"
  shows "poisoned e'"
  using assms(1)
proof (induction rule: rtranclp_induct)
  case (step y z)
  have "poisoned (estimator_update_params y p)" "poisoned (reset_adaptive_bias y)" for p
    using step.IH by (simp_all add: poisoned_def estimator_update_params_def reset_adaptive_bias_def)
  with step.hyps(2) poisoned_estimate(2) [OF step.IH assms(3)] show ?case
    by (cases rule: estimator_step.cases) simp_all
qed (simp add: assms(2))

lemma nan_packet_poisons:
  assumes "is_nan (imu_gyro pkt ! 0 :: 'r flt) \<or> is_nan (imu_gyro pkt ! 1) \<or> is_nan (imu_gyro pkt ! 2)"
    "is_initialized e" "\<not> dt < lit32 0 1" "normalize_keeps_nan N"
  shows "poisoned (snd (estimate N e (Some pkt) dt ext))"
proof -
  have nan: "vec3_nan (gyro_lpf (low_pass e' pkt))" for e'
    using assms(1) by (intro nan_low_pass) blast
  have "poisoned (snd (estimate_packets N e' (Some pkt) dt))" if "is_initialized e'" for e'
    using nan_imu_correct [OF nan assms(4)] nan that assms(3)
    by (simp only: poisoned_def estimate_packets_def) (simp add: Let_def imu_correct_frame low_pass_frame)
  moreover have "is_initialized (case ext of None \<Rightarrow> e | Some m \<Rightarrow> set_external_attitude_update N e m)"
    using assms(2) by (simp add: set_external_attitude_update_def split: option.split)
  ultimately show ?thesis by (simp add: estimate_def)
qed

end

text \<open>
  A NaN angular rate is not hidden: once an initialised estimator takes a packet with a
  NaN on any gyro axis, every later estimate is unhealthy, whatever packets, parameters,
  external attitudes and bias resets follow; a reset of the estimator clears the NaN.
\<close>

theorem nan_rate_stays_unhealthy:
  fixes e :: "('r::len) quad_estimator"
  assumes "LENGTH('r) = 32 \<or> LENGTH('r) = 64"
    and "is_nan (imu_gyro pkt ! 0) \<or> is_nan (imu_gyro pkt ! 1) \<or> is_nan (imu_gyro pkt ! 2)"
    and "is_initialized e" "\<not> dt < lit32 0 1" "normalize_keeps_nan R"
    and "(estimator_step R)\<^sup>*\<^sup>* (snd (estimate R e (Some pkt) dt ext)) e'"
  shows "\<not> as_healthy (fst (estimate R e' imu dt' ext'))"
    and "\<not> vec3_nan (gyro_lpf (reset_state e'))" "q_hat (reset_state e') = quaternion_one"
proof -
  note ff = flight_float.intro [OF assms(1)]
  have "poisoned e'"
    using flight_float.poisoned_steps [OF ff assms(6)] flight_float.nan_packet_poisons [OF ff assms(2-5)]
      assms(5) by blast
  then show "\<not> as_healthy (fst (estimate R e' imu dt' ext'))"
    by (rule flight_float.poisoned_estimate(1) [OF ff _ assms(5)])
  show "\<not> vec3_nan (gyro_lpf (reset_state e'))"
    using flight_float.zero_key(2) [OF ff] flight_float.from_f32_0 [OF ff]
    by (simp add: reset_state_def vec3_nan_def vec3_zero_def vec3_of_def)
  show "q_hat (reset_state e') = quaternion_one" by (simp add: reset_state_def)
qed

section \<open>Gravity\<close>

text \<open>
  The time of the last packet whose acceleration passed the gate, or of the packet that
  started the estimator; none before the first packet and after a reset.
\<close>

definition gravity_time :: "('r::len) quad_estimator \<Rightarrow> 'r imu_packet option \<Rightarrow> 'r flt \<Rightarrow> u64 option \<Rightarrow> u64 option" where
  "gravity_time e imu dt t = (case imu of None \<Rightarrow> t | Some pkt \<Rightarrow>
     if dt < lit32 0 1 then t
     else if \<not> is_initialized e \<or> can_use_accel (low_pass e pkt) then Some (ph_timestamp (imu_header pkt))
     else t)"

inductive gravity_history :: "('r::len) real_ops \<Rightarrow> 'r quad_estimator \<Rightarrow> u64 option \<Rightarrow> bool"
  for R where
  history_new: "gravity_history R (estimator_new kp ki) None"
| history_reset: "gravity_history R e t \<Longrightarrow> gravity_history R (reset_state e) None"
| history_params: "gravity_history R e t \<Longrightarrow> gravity_history R (estimator_update_params e p) t"
| history_bias: "gravity_history R e t \<Longrightarrow> gravity_history R (reset_adaptive_bias e) t"
| history_estimate: "gravity_history R e t \<Longrightarrow>
    gravity_history R (snd (estimate R e imu dt ext)) (gravity_time e imu dt t)"

definition gravity_ok :: "('r::len) quad_estimator \<Rightarrow> u64 option \<Rightarrow> bool" where
  "gravity_ok e t \<longleftrightarrow> (is_initialized e \<longleftrightarrow> t \<noteq> None) \<and> (\<forall>x. t = Some x \<longrightarrow> last_acc_update_us e = x)"

lemma gravity_ok_simps [simp]:
  "gravity_ok (set_external_attitude_update R e m) t = gravity_ok e t"
  "gravity_ok (estimator_update_params e p) t = gravity_ok e t"
  "gravity_ok (reset_adaptive_bias e) t = gravity_ok e t"
  "gravity_ok (reset_state e) None" "gravity_ok (estimator_new kp ki) None"
  by (simp_all add: gravity_ok_def set_external_attitude_update_def estimator_update_params_def
      reset_adaptive_bias_def reset_state_def estimator_new_def)

lemma gate_external [simp]:
  "can_use_accel (low_pass (set_external_attitude_update R e m) pkt) = can_use_accel (low_pass e pkt)"
  "is_initialized (set_external_attitude_update R e m) = is_initialized e"
  by (simp_all add: low_pass_def set_external_attitude_update_def can_use_accel_def)

lemma gravity_time_external [simp]:
  "gravity_time (set_external_attitude_update R e m) imu dt t = gravity_time e imu dt t"
  by (simp add: gravity_time_def split: option.split)

lemma gravity_ok_packets:
  "gravity_ok e t \<Longrightarrow> gravity_ok (snd (estimate_packets R e imu dt)) (gravity_time e imu dt t)"
  by (auto simp: gravity_ok_def gravity_time_def estimate_packets_def start_estimator_def Let_def
      imu_correct_frame low_pass_frame split: option.splits)

lemma gravity_ok_estimate:
  "gravity_ok e t \<Longrightarrow> gravity_ok (snd (estimate R e imu dt ext)) (gravity_time e imu dt t)"
  using gravity_ok_packets [of e t R imu dt]
    gravity_ok_packets [of "set_external_attitude_update R e (the ext)" t R imu dt]
  by (auto simp: estimate_def split: option.split)

lemma gravity_history_ok: "gravity_history R e t \<Longrightarrow> gravity_ok e t"
  by (induction rule: gravity_history.induct) (simp_all add: gravity_ok_estimate)

lemma within_half_second: "\<not> x + 500000 < (now :: u64) \<Longrightarrow> uint now \<le> uint x + 500000"
  using uint_add_le [of x 500000] by (simp add: word_less_def)

lemma healthy_packets:
  assumes "gravity_ok e t" "use_acc e" "\<not> est_fixed_wing e"
    "as_healthy (fst (estimate_packets R e (Some pkt) dt))"
  shows "\<exists>x. gravity_time e (Some pkt) dt t = Some x \<and> uint (ph_timestamp (imu_header pkt)) \<le> uint x + 500000"
  using assms by (auto simp: gravity_ok_def gravity_time_def estimate_packets_def estimator_output_def
      unhealthy_due_to_accel_def Let_def imu_correct_frame low_pass_frame within_half_second split: if_splits)

text \<open>
  A healthy attitude is backed by gravity: over any sequence of estimates, parameter
  changes, bias resets and resets, an estimate that the accelerometer has to support (it is
  in use and the vehicle is not a fixed wing) is reported healthy only if its own packet, or
  one at most 500 ms before it, passed the acceleration gate or started the estimator.
\<close>

theorem healthy_needs_recent_gravity:
  assumes "gravity_history R e t" "use_acc e" "\<not> est_fixed_wing e"
    and "as_healthy (fst (estimate R e (Some pkt) dt ext))"
  shows "\<exists>x. gravity_time e (Some pkt) dt t = Some x \<and> uint (ph_timestamp (imu_header pkt)) \<le> uint x + 500000"
proof -
  let ?e = "case ext of None \<Rightarrow> e | Some m \<Rightarrow> set_external_attitude_update R e m"
  have ok: "gravity_ok ?e t" "use_acc ?e" "\<not> est_fixed_wing ?e"
    using gravity_history_ok [OF assms(1)] assms(2,3)
    by (simp_all add: set_external_attitude_update_def split: option.split)
       (simp add: gravity_ok_def)
  have "gravity_time ?e (Some pkt) dt t = gravity_time e (Some pkt) dt t" by (simp split: option.split)
  with healthy_packets [OF ok, of R pkt dt] assms(4) show ?thesis by (simp only: estimate_def)
qed

section \<open>Concrete flights\<close>

definition plain_ops :: "('r::len) real_ops" where
  "plain_ops = \<lparr>r_sqrt = (\<lambda>x. x), r_sin = (\<lambda>x. x), r_cos = (\<lambda>x. 1), r_asin = (\<lambda>x. x),
     r_atan2 = (\<lambda>y x. y), r_powf = (\<lambda>x y. x),
     q_normalize = (\<lambda>q. let n = q_w q * q_w q + q_i q * q_i q + q_j q * q_j q + q_k q * q_k q
       in quaternion_of (q_w q / n) (q_i q / n) (q_j q / n) (q_k q / n)),
     v_cross = (\<lambda>a b. vec3_of (vy a * vz b - vz a * vy b) (vz a * vx b - vx a * vz b)
       (vx a * vy b - vy a * vx b))\<rparr>"

lemma plain_ops_nan: "normalize_keeps_nan (plain_ops :: 32 real_ops)"
  by (auto simp: normalize_keeps_nan_def plain_ops_def quaternion_nan_def attitude_finite_def
      quaternion_of_def Let_def f32.nan_arith f32.nan_not_finite)

definition rest_packet :: "u64 \<Rightarrow> f32 \<Rightarrow> 32 imu_packet" where
  "rest_packet t w = \<lparr>imu_header = \<lparr>ph_timestamp = t, ph_status = 0\<rparr>, imu_accel = [0, 0, 0],
     imu_gyro = [w, 0, 0], imu_temperature = 0, imu_seq = 0\<rparr>"

definition started_estimator :: "32 quad_estimator" where
  "started_estimator = start_estimator estimator_default 1000"

theorem nan_rate_stays_unhealthy_witness:
  "\<not> as_healthy (fst (estimate plain_ops (snd (estimate plain_ops started_estimator
     (Some (rest_packet 2000 flt_nan)) 0 None)) (Some (rest_packet 3000 0)) 0 None))"
  by (rule nan_rate_stays_unhealthy(1) [where e = started_estimator and dt = 0 and ext = None
        and pkt = "rest_packet 2000 flt_nan", OF _ _ _ _ plain_ops_nan rtranclp.rtrancl_refl])
    (simp_all add: rest_packet_def started_estimator_def start_estimator_def f32.not_nan_nan less_flt_def)

lemma started_history: "gravity_history R started_estimator (Some 1000)"
proof -
  have "snd (estimate R estimator_default (Some (rest_packet 1000 0)) 0 None) = started_estimator"
    by (simp add: estimate_def estimate_packets_def estimator_default_def estimator_new_def
        started_estimator_def rest_packet_def less_flt_def)
  moreover have "gravity_time (estimator_default :: 32 quad_estimator) (Some (rest_packet 1000 0)) 0 None = Some 1000"
    by (simp add: gravity_time_def estimator_default_def estimator_new_def rest_packet_def less_flt_def)
  ultimately show ?thesis
    using history_estimate [OF history_new, of R "lit32 15 10" "lit32 5 100" "Some (rest_packet 1000 0)" 0 None]
    by (simp add: estimator_default_def)
qed

lemma still_filters:
  "low_pass_step (flt_lit 3 10) 0 0 = (0 :: f32)"
  "(0 :: f32) / flt_lit (- 12) 1 + 0 * flt_lit 8 12 + 0 * flt_lit 5 12 = 0"
  "(0 :: f32) * (flt_lit 5 100 * flt_lit 10 1 * 0) = 0"
  "(0 :: f32) * (flt_lit 15 10 * flt_lit 10 1) = 0"
  "(0 :: f32) - 0 = 0" "(0 :: f32) + 0 = 0" "(0 :: f32) * 0 = 0"
  by (simp_all add: low_pass_step_def flt_eval)

text \<open>An acceleration that is not a number does not pass the gate.\<close>

definition blind_packet :: "u64 \<Rightarrow> 32 imu_packet" where
  "blind_packet t = (rest_packet t 0)\<lparr>imu_accel := [flt_nan, 0, 0]\<rparr>"

lemma blind_filters:
  "gyro_lpf (low_pass started_estimator (blind_packet t)) = vec3_zero"
  "\<not> can_use_accel (low_pass started_estimator (blind_packet t))"
proof -
  show "gyro_lpf (low_pass started_estimator (blind_packet t)) = vec3_zero"
    by (simp add: low_pass_def blind_packet_def rest_packet_def started_estimator_def start_estimator_def
        estimator_default_def estimator_new_def vec3_zero_def vec3_of_def still_filters)
  have "is_nan (vx (accel_lpf (low_pass started_estimator (blind_packet t))))"
    by (simp add: low_pass_def blind_packet_def vec3_of_def low_pass_step_def f32.nan_arith f32.not_nan_nan)
  then have "is_nan (accel_sqrd_norm (accel_lpf (low_pass started_estimator (blind_packet t))))"
    by (simp add: f32.nan_norm vec3_nan_def)
  then show "\<not> can_use_accel (low_pass started_estimator (blind_packet t))"
    by (simp add: can_use_accel_def Let_def less_flt_def)
qed

lemma started_healthy:
  "as_healthy (fst (estimate plain_ops started_estimator (Some (blind_packet 2000)) 0 None))"
proof -
  let ?e = "low_pass started_estimator (blind_packet 2000)"
  have e: "q_extatt ?e = None" "init_time_us ?e = 3000000" "k_p ?e = flt_lit 15 10" "k_i ?e = flt_lit 5 100"
    "b_hat ?e = vec3_zero" "w_1 ?e = vec3_zero" "w_2 ?e = vec3_zero" "use_quad_int ?e"
    "q_hat ?e = quaternion_one" "last_acc_update_us ?e = 1000" "is_initialized ?e"
    by (simp_all add: low_pass_def started_estimator_def start_estimator_def estimator_default_def estimator_new_def)
  have started_on: "is_initialized started_estimator"
    by (simp add: started_estimator_def start_estimator_def)
  have blind_time: "ph_timestamp (imu_header (blind_packet 2000)) = 2000"
    by (simp add: blind_packet_def rest_packet_def)
  have "imu_correct plain_ops 2000 0 ?e = ?e\<lparr>b_hat := vec3_zero, w_1 := vec3_zero, w_2 := vec3_zero,
      q_dot := quaternion_zero, body_rate := vec3_zero\<rparr>"
    by (simp add: imu_correct_def accel_stage_def blind_filters extatt_stage_def e stage_gains_def
        smoothed_gyro_measurement_def integrate_angular_rate_def accel_sqrd_norm_def v_add_def v_sub_def
        v_scale_def v_div_def vec3_zero_def vec3_of_def still_filters flt_eq_def Let_def
        blind_filters(1) [unfolded vec3_zero_def vec3_of_def, simplified])
  then show ?thesis
    by (simp add: estimate_def estimate_packets_def blind_time started_on less_flt_def
        estimator_output_def unhealthy_due_to_accel_def e attitude_finite_def quaternion_one_def
        quaternion_of_def is_finite_value_def f32.flt_lit_1)
qed

theorem healthy_needs_recent_gravity_witness:
  "\<exists>x. gravity_time started_estimator (Some (blind_packet 2000)) 0 (Some 1000) = Some x \<and>
     uint (ph_timestamp (imu_header (blind_packet 2000))) \<le> uint x + 500000"
  by (rule healthy_needs_recent_gravity [OF started_history _ _ started_healthy])
    (simp_all add: started_estimator_def start_estimator_def estimator_default_def estimator_new_def)

end
