(* ===== verification/Controller.thy ===== *)
theory Controller
  imports Estimator Command Mixer
begin

text \<open>
  The attitude and rate controller of \<^verbatim>\<open>controller/quad.rs\<close>: five PID loops, the thrust
  model of the motors, the torque and force outputs and the equilibrium torques computed
  from the sticks. Square root and the trigonometric functions are those of \<open>real_ops\<close>.
\<close>

section \<open>PID loops\<close>

definition pid_clamp :: "'r::len flt \<Rightarrow> 'r flt \<Rightarrow> 'r flt \<Rightarrow> 'r flt" where
  "pid_clamp value lo hi = (if value < lo then lo else if hi < value then hi else value)"

record (overloaded) ('r::len) pid =
  pid_p :: "'r flt"
  pid_i :: "'r flt"
  pid_d :: "'r flt"
  pid_max :: "'r flt"
  pid_min :: "'r flt"
  pid_tau :: "'r flt"
  integrator :: "'r flt"
  differentiator :: "'r flt"
  prev_x :: "'r flt"
  prev_t :: "'r flt"

definition pid_default :: "('r::len) pid" where
  "pid_default = \<lparr>pid_p = lit32 0 1, pid_i = lit32 0 1, pid_d = lit32 0 1, pid_max = flt_infinity,
     pid_min = - flt_infinity, pid_tau = lit32 5 100, integrator = lit32 0 1,
     differentiator = lit32 0 1, prev_x = lit32 0 1, prev_t = lit32 (- 1) 1\<rparr>"

definition pid_new :: "'r::len flt \<Rightarrow> 'r flt \<Rightarrow> 'r flt \<Rightarrow> 'r flt \<Rightarrow> 'r flt \<Rightarrow> 'r pid" where
  "pid_new p i d max_i tau = \<lparr>pid_p = p, pid_i = i, pid_d = d, pid_max = max_i, pid_min = - max_i,
     pid_tau = tau, integrator = lit32 0 1, differentiator = lit32 0 1, prev_x = lit32 0 1,
     prev_t = lit32 (- 1) 1\<rparr>"

definition run_with_derivative :: "('r::len) pid \<Rightarrow> 'r flt \<Rightarrow> 'r flt \<Rightarrow> 'r flt \<Rightarrow> 'r flt \<Rightarrow> bool \<Rightarrow>
    'r flt \<times> 'r pid" where
  "run_with_derivative c x x_c xdot dt enable_integrator =
    (let error = x_c - x;
       p_term = pid_p c * error;
       d_term = (if lit32 0 1 < pid_d c then pid_d c * xdot else lit32 0 1);
       integrate = (lit32 0 1 < pid_i c \<and> enable_integrator);
       c1 = (if integrate then c\<lparr>integrator := integrator c + error * dt\<rparr> else c);
       i_term = (if integrate then pid_i c * integrator c1 else lit32 0 1);
       output = p_term - d_term + i_term;
       saturated = pid_clamp output (pid_min c) (pid_max c);
       c2 = (if \<not> flt_eq output saturated \<and> lit32 0 1 < pid_i c \<and> \<bar>output - p_term + d_term\<bar> < \<bar>i_term\<bar>
             then c1\<lparr>integrator := (saturated - p_term + d_term) / pid_i c\<rparr> else c1)
     in (saturated, c2))"

definition filtered_derivative :: "('r::len) pid \<Rightarrow> 'r flt \<Rightarrow> 'r flt \<Rightarrow> 'r flt" where
  "filtered_derivative c x dt =
    (lit32 2 1 * pid_tau c - dt) / (lit32 2 1 * pid_tau c + dt) * differentiator c
     + lit32 2 1 / (lit32 2 1 * pid_tau c + dt) * (x - prev_x c)"

definition pid_run :: "('r::len) pid \<Rightarrow> 'r flt \<Rightarrow> 'r flt \<Rightarrow> 'r flt \<Rightarrow> bool \<Rightarrow> 'r flt \<times> 'r pid" where
  "pid_run c x x_c dt enable_integrator =
    (let c1 = (if lit32 1 10000 < dt then c\<lparr>differentiator := filtered_derivative c x dt\<rparr> else c);
       xdot = (if lit32 1 10000 < dt then differentiator c1 else lit32 0 1)
     in run_with_derivative (c1\<lparr>prev_x := x\<rparr>) x x_c xdot dt enable_integrator)"

definition pid_reset :: "('r::len) pid \<Rightarrow> 'r pid" where
  "pid_reset c = c\<lparr>integrator := lit32 0 1, differentiator := lit32 0 1, prev_x := lit32 0 1,
     prev_t := lit32 (- 1) 1\<rparr>"

section \<open>The output\<close>

text \<open>The record \<open>controller_output\<close> is the mixer's input and declared there.\<close>

definition from_forces_torques_and_passthrough ::
  "('r::len) vec3 \<Rightarrow> 'r vec3 \<Rightarrow> 'r flt list \<Rightarrow> 'r controller_output" where
  "from_forces_torques_and_passthrough f t p = \<lparr>co_u = [vx f, vy f, vz f, vx t, vy t, vz t,
     p ! 0, p ! 1, p ! 2, p ! 3]\<rparr>"

definition output_forces :: "('r::len) controller_output \<Rightarrow> 'r vec3" where
  "output_forces c = vec3_of (co_u c ! 0) (co_u c ! 1) (co_u c ! 2)"

definition output_torques :: "('r::len) controller_output \<Rightarrow> 'r vec3" where
  "output_torques c = vec3_of (co_u c ! 3) (co_u c ! 4) (co_u c ! 5)"

definition output_passthrough :: "('r::len) controller_output \<Rightarrow> 'r flt list" where
  "output_passthrough c = [co_u c ! 6, co_u c ! 7, co_u c ! 8, co_u c ! 9]"

definition quad_thrust_command :: "('r::len) controller_output \<Rightarrow> 'r flt" where
  "quad_thrust_command c = - (co_u c ! 2)"

definition controller_output_default :: "('r::len) controller_output" where
  "controller_output_default = \<lparr>co_u = replicate 10 (lit32 0 1)\<rparr>"

section \<open>The thrust model\<close>

record (overloaded) ('r::len) motor_thrust_model =
  resistance :: "'r flt"
  diameter_4 :: "'r flt"
  diameter_5 :: "'r flt"
  mt_cq :: "'r flt"
  mt_ct :: "'r flt"
  mt_kv :: "'r flt"
  no_load_current :: "'r flt"
  num_motors :: "'r flt"
  max_voltage :: "'r flt"
  pi_2 :: "'r flt"

definition motor_thrust_model_default :: "('r::len) motor_thrust_model" where
  "motor_thrust_model_default = \<lparr>resistance = lit32 0 1, diameter_4 = lit32 0 1,
     diameter_5 = lit32 0 1, mt_cq = lit32 0 1, mt_ct = lit32 0 1, mt_kv = lit32 0 1,
     no_load_current = lit32 0 1, num_motors = lit32 0 1, max_voltage = lit32 0 1, pi_2 = lit32 0 1\<rparr>"

definition motor_thrust_model_from :: "params \<Rightarrow> ('r::len) motor_thrust_model" where
  "motor_thrust_model_from p =
    (let diameter = from_f32 (float_param_or p PARAM_PROP_DIAMETER 0); diameter_2 = diameter * diameter
     in \<lparr>resistance = from_f32 (float_param_or p PARAM_MOTOR_RESISTANCE 0),
        diameter_4 = diameter_2 * diameter_2,
        diameter_5 = diameter_2 * diameter_2 * diameter,
        mt_cq = from_f32 (float_param_or p PARAM_PROP_CQ 0),
        mt_ct = from_f32 (float_param_or p PARAM_PROP_CT 0),
        mt_kv = from_f32 (float_param_or p PARAM_MOTOR_KV 0),
        no_load_current = from_f32 (float_param_or p PARAM_NO_LOAD_CURRENT 0),
        num_motors = from_i32 (int_param_or p PARAM_NUM_MOTORS 0),
        max_voltage = from_f32 (float_param_or p PARAM_VOLT_MAX 0),
        pi_2 = flt_pi * flt_pi\<rparr>)"

definition calculate_max_thrust :: "('r::len) real_ops \<Rightarrow> 'r motor_thrust_model \<Rightarrow> 'r flt \<Rightarrow> 'r flt" where
  "calculate_max_thrust R m air_density =
    (let a = resistance m * air_density * diameter_5 m * mt_cq m / (lit32 4 1 * pi_2 m * mt_kv m);
       b = mt_kv m;
       c = no_load_current m * resistance m - max_voltage m;
       omega = (- b + r_sqrt R (b * b - lit32 4 1 * a * c)) / (lit32 2 1 * a)
     in air_density * diameter_4 m * mt_ct m * omega * omega / (lit32 4 1 * pi_2 m) * num_motors m)"

section \<open>The controller\<close>

record (overloaded) ('r::len) quad_controller =
  roll_rate_pid :: "'r pid"
  pitch_rate_pid :: "'r pid"
  yaw_rate_pid :: "'r pid"
  roll_angle_pid :: "'r pid"
  pitch_angle_pid :: "'r pid"
  equilibrium_torques :: "'r vec3"
  rc_max_throttle :: "'r flt"
  use_motor_parameters :: bool
  thrust_model :: "'r motor_thrust_model"

definition controller_new :: "('r::len) pid \<Rightarrow> 'r pid \<Rightarrow> 'r pid \<Rightarrow> 'r pid \<Rightarrow> 'r pid \<Rightarrow> 'r quad_controller" where
  "controller_new rr pr yr ra pa = \<lparr>roll_rate_pid = rr, pitch_rate_pid = pr, yaw_rate_pid = yr,
     roll_angle_pid = ra, pitch_angle_pid = pa, equilibrium_torques = vec3_zero,
     rc_max_throttle = lit32 1 1, use_motor_parameters = False,
     thrust_model = motor_thrust_model_default\<rparr>"

definition controller_default :: "('r::len) quad_controller" where
  "controller_default = controller_new pid_default pid_default pid_default pid_default pid_default"

definition reset_pids :: "('r::len) quad_controller \<Rightarrow> 'r quad_controller" where
  "reset_pids c = c\<lparr>roll_rate_pid := pid_reset (roll_rate_pid c),
     pitch_rate_pid := pid_reset (pitch_rate_pid c), yaw_rate_pid := pid_reset (yaw_rate_pid c),
     roll_angle_pid := pid_reset (roll_angle_pid c), pitch_angle_pid := pid_reset (pitch_angle_pid c)\<rparr>"

text \<open>The gains of one loop; a parameter of another variant gives a zero gain.\<close>

definition with_gains :: "params \<Rightarrow> param_id \<Rightarrow> param_id \<Rightarrow> param_id \<Rightarrow> ('r::len) pid \<Rightarrow> 'r pid" where
  "with_gains ps kp ki kd c = c\<lparr>pid_p := from_f32 (float_param_or ps kp 0),
     pid_i := from_f32 (float_param_or ps ki 0), pid_d := from_f32 (float_param_or ps kd 0),
     pid_tau := from_f32 (float_param_or ps PARAM_PID_TAU 0)\<rparr>"

definition update_gains :: "('r::len) quad_controller \<Rightarrow> params \<Rightarrow> 'r quad_controller" where
  "update_gains c ps = c\<lparr>
     roll_rate_pid := with_gains ps PARAM_PID_ROLL_RATE_P PARAM_PID_ROLL_RATE_I PARAM_PID_ROLL_RATE_D (roll_rate_pid c),
     pitch_rate_pid := with_gains ps PARAM_PID_PITCH_RATE_P PARAM_PID_PITCH_RATE_I PARAM_PID_PITCH_RATE_D (pitch_rate_pid c),
     yaw_rate_pid := with_gains ps PARAM_PID_YAW_RATE_P PARAM_PID_YAW_RATE_I PARAM_PID_YAW_RATE_D (yaw_rate_pid c),
     roll_angle_pid := with_gains ps PARAM_PID_ROLL_ANGLE_P PARAM_PID_ROLL_ANGLE_I PARAM_PID_ROLL_ANGLE_D (roll_angle_pid c),
     pitch_angle_pid := with_gains ps PARAM_PID_PITCH_ANGLE_P PARAM_PID_PITCH_ANGLE_I PARAM_PID_PITCH_ANGLE_D (pitch_angle_pid c),
     equilibrium_torques := vec3_of (from_f32 (float_param_or ps PARAM_X_EQ_TORQUE 0))
       (from_f32 (float_param_or ps PARAM_Y_EQ_TORQUE 0)) (from_f32 (float_param_or ps PARAM_Z_EQ_TORQUE 0)),
     rc_max_throttle := from_f32 (float_param_or ps PARAM_RC_MAX_THROTTLE 0),
     use_motor_parameters := (int_param_or ps PARAM_USE_MOTOR_PARAMETERS 0 \<noteq> 0),
     thrust_model := motor_thrust_model_from ps\<rparr>"

definition force_output :: "'r::len flt \<Rightarrow> control_type \<Rightarrow> bool \<Rightarrow> 'r flt \<Rightarrow> bool \<Rightarrow> 'r flt \<Rightarrow> 'r flt" where
  "force_output v ct is_fz max_throttle use_motor max_thrust =
    (if ct \<noteq> CtThrottle then v
     else let sign = (if is_fz then lit32 (- 1) 1 else lit32 1 1); out = sign * v * max_throttle
       in if use_motor then out * max_thrust else out)"

definition controller_should_update_integrators :: "combined_control \<Rightarrow> 'r::len flt \<Rightarrow> bool" where
  "controller_should_update_integrators cmd dt \<longleftrightarrow> dt < lit32 1 100 \<and>
     (flt_lit 1 10 < chan_value (cc_fx cmd) \<or> flt_lit 1 10 < chan_value (cc_fy cmd) \<or>
      flt_lit 1 10 < chan_value (cc_fz cmd))"

text \<open>Roll and pitch: a rate loop, an angle loop on the measured rate, or the raw value.\<close>

definition roll_pitch_torque :: "('r::len) pid \<Rightarrow> 'r pid \<Rightarrow> control_channel \<Rightarrow> 'r flt \<Rightarrow> 'r flt \<Rightarrow> 'r flt \<Rightarrow> bool \<Rightarrow>
    'r flt \<times> 'r pid \<times> 'r pid" where
  "roll_pitch_torque rate_pid angle_pid ch rate angle dt upd = (case control_type ch of
       CtRate \<Rightarrow> (let (t, c) = pid_run rate_pid rate (from_f32 (chan_value ch)) dt upd in (t, c, angle_pid))
     | CtAngle \<Rightarrow> (let (t, c) = run_with_derivative angle_pid angle (from_f32 (chan_value ch)) rate dt upd
         in (t, rate_pid, c))
     | _ \<Rightarrow> (from_f32 (chan_value ch), rate_pid, angle_pid))"

definition yaw_torque :: "('r::len) pid \<Rightarrow> control_channel \<Rightarrow> 'r flt \<Rightarrow> 'r flt \<Rightarrow> bool \<Rightarrow> 'r flt \<times> 'r pid" where
  "yaw_torque rate_pid ch rate dt upd = (case control_type ch of
       CtRate \<Rightarrow> pid_run rate_pid rate (from_f32 (chan_value ch)) dt upd
     | _ \<Rightarrow> (from_f32 (chan_value ch), rate_pid))"

definition run_pid_control :: "('r::len) real_ops \<Rightarrow> 'r quad_controller \<Rightarrow> 'r attitude_state \<Rightarrow>
    combined_control \<Rightarrow> 'r flt \<Rightarrow> bool \<Rightarrow> bool \<Rightarrow> 'r flt \<Rightarrow> 'r controller_output \<times> 'r quad_controller" where
  "run_pid_control R c st cmd dt add_equilibrium upd air_density =
    (let rates = as_body_rate st;
       euler = quaternion_to_euler R (as_q_hat st);
       (tx, rr, ra) = roll_pitch_torque (roll_rate_pid c) (roll_angle_pid c) (cc_qx cmd) (vx rates) (vx euler) dt upd;
       (ty, pr, pa) = roll_pitch_torque (pitch_rate_pid c) (pitch_angle_pid c) (cc_qy cmd) (vy rates) (vy euler) dt upd;
       (tz, yr) = yaw_torque (yaw_rate_pid c) (cc_qz cmd) (vz rates) dt upd;
       torques = (if add_equilibrium then v_add (vec3_of tx ty tz) (equilibrium_torques c) else vec3_of tx ty tz);
       max_thrust = (if use_motor_parameters c then calculate_max_thrust R (thrust_model c) air_density else lit32 0 1);
       force = (\<lambda>ch is_fz. force_output (from_f32 (chan_value ch)) (control_type ch) is_fz
         (rc_max_throttle c) (use_motor_parameters c) max_thrust);
       forces = vec3_of (force (cc_fx cmd) False) (force (cc_fy cmd) False) (force (cc_fz cmd) True)
     in (from_forces_torques_and_passthrough forces torques
           (map (\<lambda>i. from_f32 (chan_value (passthrough cmd ! i))) [0..<4]),
         c\<lparr>roll_rate_pid := rr, pitch_rate_pid := pr, yaw_rate_pid := yr, roll_angle_pid := ra,
           pitch_angle_pid := pa\<rparr>))"

definition control :: "('r::len) real_ops \<Rightarrow> 'r quad_controller \<Rightarrow> 'r attitude_state \<Rightarrow> state_manager \<Rightarrow>
    combined_control \<Rightarrow> 'r flt \<Rightarrow> 'r flt \<Rightarrow> 'r controller_output \<times> 'r quad_controller" where
  "control R c st sm cmd air_density dt = run_pid_control R c st cmd dt True
     (is_armed sm \<and> controller_should_update_integrators cmd dt) air_density"

text \<open>The trim torques: a copy of the controller runs once, the controller itself is kept.\<close>

definition calculate_equilibrium_torques_from_rc ::
  "('r::len) real_ops \<Rightarrow> 'r quad_controller \<Rightarrow> combined_control \<Rightarrow> params \<Rightarrow> f32 list \<times> 'r quad_controller" where
  "calculate_equilibrium_torques_from_rc R c rc_control ps =
    (let u = co_u (fst (run_pid_control R (reset_pids (update_gains c ps)) attitude_state_default rc_control
       (lit32 0 1) False False (lit32 1225 1000)))
     in ([to_f32_lossy (u ! 3), to_f32_lossy (u ! 4), to_f32_lossy (u ! 5)], c))"

section \<open>Angles\<close>

definition quaternion_from_euler :: "('r::len) real_ops \<Rightarrow> 'r flt \<Rightarrow> 'r flt \<Rightarrow> 'r flt \<Rightarrow> 'r quaternion" where
  "quaternion_from_euler R roll pitch yaw =
    (let h = lit32 5 10; sr = r_sin R (roll * h); cr = r_cos R (roll * h);
       sp = r_sin R (pitch * h); cp = r_cos R (pitch * h); sy = r_sin R (yaw * h); cy = r_cos R (yaw * h)
     in quaternion_of (cr * cp * cy + sr * sp * sy) (sr * cp * cy - cr * sp * sy)
          (cr * sp * cy + sr * cp * sy) (cr * cp * sy - sr * sp * cy))"

definition get_yaw :: "('r::len) real_ops \<Rightarrow> 'r quaternion \<Rightarrow> 'r flt" where
  "get_yaw R q = r_atan2 R (lit32 2 1 * (q_w q * q_k q + q_i q * q_j q))
     (lit32 1 1 - lit32 2 1 * (q_j q * q_j q + q_k q * q_k q))"

end
