(* ===== verification/Controller_Safety.thy ===== *)
theory Controller_Safety
  imports Controller Estimator_Safety
begin

text \<open>
  What the controller promises: its integrators stand still unless the vehicle is armed,
  flies with some throttle and the loop keeps its rate, and the trim torques depend on the
  sticks and the parameters only.
\<close>

section \<open>Integrators\<close>

lemmas pid_frame_defs = run_with_derivative_def pid_run_def Let_def

lemma pid_limits_kept [frame]:
  "pid_min (snd (run_with_derivative c x x_c xdot dt upd)) = pid_min c"
  "pid_max (snd (run_with_derivative c x x_c xdot dt upd)) = pid_max c"
  "pid_min (snd (pid_run c x x_c dt upd)) = pid_min c"
  "pid_max (snd (pid_run c x x_c dt upd)) = pid_max c"
  by (simp_all add: pid_frame_defs)

context flight_float
begin

lemma not_less_abs_zero: "\<not> \<bar>x :: 'r flt\<bar> < \<bar>0\<bar>"
  using mag_bounds [of x] mag_bounds [of 0]
  by (simp add: less_flt_def abs_flt_def flt_key_def mk_flt_fields zero_flt_def)

lemma integrator_held:
  "integrator (snd (run_with_derivative c x x_c xdot (dt :: 'r flt) False)) = integrator c"
  "integrator (snd (pid_run c x x_c (dt :: 'r flt) False)) = integrator c"
  by (simp_all add: pid_frame_defs not_less_abs_zero)

lemma torque_integrators_held:
  "integrator (fst (snd (roll_pitch_torque rp ap ch rate angle (dt :: 'r flt) False))) = integrator rp"
  "integrator (snd (snd (roll_pitch_torque rp ap ch rate angle (dt :: 'r flt) False))) = integrator ap"
  "integrator (snd (yaw_torque rp ch rate (dt :: 'r flt) False)) = integrator rp"
  by (simp_all add: roll_pitch_torque_def yaw_torque_def case_prod_beta Let_def integrator_held
      split: control_type.split)

end

definition controller_integrators :: "('r::len) quad_controller \<Rightarrow> 'r flt list" where
  "controller_integrators c = map integrator [roll_rate_pid c, pitch_rate_pid c, yaw_rate_pid c,
     roll_angle_pid c, pitch_angle_pid c]"

context flight_float
begin

lemma run_holds_integrators:
  "controller_integrators (snd (run_pid_control N c st cmd (dt :: 'r flt) eq False density)) =
   controller_integrators c"
  by (simp add: run_pid_control_def controller_integrators_def Let_def case_prod_beta torque_integrators_held)

end

text \<open>
  No windup on the ground: unless the vehicle is armed, the loop runs faster than 10 ms
  and some axis commands more than a tenth of the throttle, a control step leaves all five
  integrators exactly as they were.
\<close>

theorem idle_controller_holds_integrators:
  fixes c :: "('r::len) quad_controller"
  assumes "LENGTH('r) = 32 \<or> LENGTH('r) = 64"
    and "\<not> is_armed sm \<or> \<not> dt < lit32 1 100 \<or>
      (\<forall>ch \<in> {cc_fx cmd, cc_fy cmd, cc_fz cmd}. \<not> flt_lit 1 10 < chan_value ch)"
  shows "controller_integrators (snd (control R c st sm cmd density dt)) = controller_integrators c"
proof -
  have "\<not> (is_armed sm \<and> controller_should_update_integrators cmd dt)"
    using assms(2) by (auto simp: controller_should_update_integrators_def)
  then show ?thesis
    by (simp only: control_def)
      (simp add: flight_float.run_holds_integrators [OF flight_float.intro [OF assms(1)]])
qed

theorem idle_controller_holds_integrators_witness:
  "controller_integrators (snd (control plain_ops (controller_default :: 32 quad_controller)
     attitude_state_default state_manager_new combined_control_default 1 0)) =
   controller_integrators (controller_default :: 32 quad_controller)"
  by (rule idle_controller_holds_integrators)
    (simp_all add: is_armed_def state_manager_new_def state_machine_new_def)

section \<open>Trim\<close>

definition same_limits :: "('r::len) pid \<Rightarrow> 'r pid \<Rightarrow> bool" where
  "same_limits a b \<longleftrightarrow> pid_min a = pid_min b \<and> pid_max a = pid_max b"

lemma reset_gains_eq:
  "same_limits a b \<Longrightarrow> pid_reset (with_gains ps kp ki kd a) = pid_reset (with_gains ps kp ki kd b)"
  by (simp add: same_limits_def pid_reset_def with_gains_def)

text \<open>
  The trim torques measured from the sticks do not depend on what the controller has flown
  before: controllers with the same limits give the same torques, and the controller that
  measured them is unchanged.
\<close>

theorem trim_forgets_the_flight:
  assumes "same_limits (roll_rate_pid c) (roll_rate_pid c')" "same_limits (pitch_rate_pid c) (pitch_rate_pid c')"
    "same_limits (yaw_rate_pid c) (yaw_rate_pid c')" "same_limits (roll_angle_pid c) (roll_angle_pid c')"
    "same_limits (pitch_angle_pid c) (pitch_angle_pid c')"
  shows "fst (calculate_equilibrium_torques_from_rc R c rc ps) = fst (calculate_equilibrium_torques_from_rc R c' rc ps)"
    and "snd (calculate_equilibrium_torques_from_rc R c rc ps) = c"
proof -
  have "reset_pids (update_gains c ps) = reset_pids (update_gains c' ps)"
    using assms by (simp add: reset_pids_def update_gains_def reset_gains_eq)
  then show "fst (calculate_equilibrium_torques_from_rc R c rc ps) = fst (calculate_equilibrium_torques_from_rc R c' rc ps)"
    by (simp add: calculate_equilibrium_torques_from_rc_def Let_def)
  show "snd (calculate_equilibrium_torques_from_rc R c rc ps) = c"
    by (simp add: calculate_equilibrium_torques_from_rc_def Let_def)
qed

end
