(* ===== verification/Sensor_Processors.thy ===== *)
theory Sensor_Processors
  imports Estimator Command_Service
begin

text \<open>
  The sensor packet processors of \<^verbatim>\<open>sensors/processors.rs\<close>: the calibration of gyroscope,
  accelerometer, barometer and airspeed sensor while their flags are set, the rotation of
  the mounted sensors, the bias corrections and the battery filter. A raw packet is missing,
  an error or a reading; a processor takes it. The processors share the calibration flags,
  the parameter table and the log.
\<close>

section \<open>Packets\<close>

datatype sensor_error = GenericSensorError string

type_synonym 'p raw_packet = "(sensor_error + 'p) option"

definition take_ok_packet :: "'p raw_packet \<Rightarrow> 'p option \<times> 'p raw_packet" where
  "take_ok_packet raw = (case raw of Some (Inr p) \<Rightarrow> (Some p, None) | _ \<Rightarrow> (None, None))"

record sensor_ctx =
  sc_flags :: calibration_flags
  sc_params :: params
  sc_logs :: "log_msg list"

definition sc_insert :: "calibration_flags \<Rightarrow> sensor_ctx \<Rightarrow> sensor_ctx" where
  "sc_insert f c = c\<lparr>sc_flags := sc_flags c OR f\<rparr>"

definition sc_remove :: "calibration_flags \<Rightarrow> sensor_ctx \<Rightarrow> sensor_ctx" where
  "sc_remove f c = c\<lparr>sc_flags := sc_flags c AND NOT f\<rparr>"

definition sc_contains :: "sensor_ctx \<Rightarrow> calibration_flags \<Rightarrow> bool" where
  "sc_contains c f \<longleftrightarrow> sc_flags c AND f = f"

definition sc_set :: "param_id \<Rightarrow> f32 \<Rightarrow> sensor_ctx \<Rightarrow> sensor_ctx" where
  "sc_set pid v c = c\<lparr>sc_params := set_by_id (sc_params c) pid (PFloat v)\<rparr>"

definition sc_log :: "severity \<Rightarrow> string \<Rightarrow> sensor_ctx \<Rightarrow> sensor_ctx" where
  "sc_log s m c = c\<lparr>sc_logs := sc_logs c @ [(s, m)]\<rparr>"

definition sc_float :: "sensor_ctx \<Rightarrow> param_id \<Rightarrow> f32" where
  "sc_float c pid = float_param_or (sc_params c) pid 0"

section \<open>Battery\<close>

record battery_processor =
  previous_voltage :: f32
  previous_current :: f32
  latest_battery :: "battery_packet option"
  battery_initialized :: bool

definition battery_processor_default :: battery_processor where
  "battery_processor_default = \<lparr>previous_voltage = 0, previous_current = 0, latest_battery = None,
     battery_initialized = False\<rparr>"

definition battery_process :: "battery_processor \<Rightarrow> battery_packet raw_packet \<Rightarrow> params \<Rightarrow>
    battery_packet option \<times> battery_processor" where
  "battery_process b raw ps = (case fst (take_ok_packet raw) of
       None \<Rightarrow> (latest_battery b, b)
     | Some pkt \<Rightarrow>
       (let b = (if battery_initialized b then b
          else b\<lparr>previous_voltage := float_param_or ps PARAM_VOLT_MAX 0, previous_current := 0,
                 battery_initialized := True\<rparr>);
          va = float_param_or ps PARAM_BATTERY_VOLTAGE_ALPHA 0;
          ca = float_param_or ps PARAM_BATTERY_CURRENT_ALPHA 0;
          pkt = pkt\<lparr>bat_voltage := bat_voltage pkt * (flt_lit 1 1 - va) + previous_voltage b * va,
                    bat_current := bat_current pkt * (flt_lit 1 1 - ca) + previous_current b * ca\<rparr>
        in (Some pkt, b\<lparr>previous_voltage := bat_voltage pkt, previous_current := bat_current pkt,
              latest_battery := Some pkt\<rparr>)))"

section \<open>Mounting\<close>

definition deg_to_rad :: "('r::len) flt" where
  "deg_to_rad = lit32 17453293 1000000000"

definition vec3_of_list :: "'r::len flt list \<Rightarrow> 'r vec3" where
  "vec3_of_list xs = vec3_of (xs ! 0) (xs ! 1) (xs ! 2)"

definition list_of_vec3 :: "('r::len) vec3 \<Rightarrow> 'r flt list" where
  "list_of_vec3 v = [vx v, vy v, vz v]"

type_synonym 'r rotation = "'r flt list list"

definition rosflight_orientation_matrix :: "('r::len) real_ops \<Rightarrow> 'r flt \<Rightarrow> 'r flt \<Rightarrow> 'r flt \<Rightarrow> 'r rotation" where
  "rosflight_orientation_matrix R roll pitch yaw =
    (let two = lit32 2 1; half = lit32 5 10;
       rc = r_cos R (roll * half); rs = r_sin R (roll * half);
       pc = r_cos R (pitch * half); ps = r_sin R (pitch * half);
       yc = r_cos R (yaw * half); ys = r_sin R (yaw * half);
       w = yc * pc * rc + ys * ps * rs; x = yc * pc * rs - ys * ps * rc;
       y = yc * ps * rc + ys * pc * rs; z = ys * pc * rc - yc * ps * rs;
       norm = r_sqrt R (w * w + x * x + y * y + z * z);
       w = w / norm; x = x / norm; y = y / norm; z = z / norm
     in [[1 - two * y * y - two * z * z, two * (x * y + w * z), two * (x * z - w * y)],
         [two * (x * y - w * z), 1 - two * x * x - two * z * z, two * (y * z + w * x)],
         [two * (x * z + w * y), two * (y * z - w * x), 1 - two * x * x - two * y * y]])"

definition rotate_row :: "'r::len flt list \<Rightarrow> 'r flt list \<Rightarrow> 'r flt" where
  "rotate_row row v = row ! 0 * v ! 0 + row ! 1 * v ! 1 + row ! 2 * v ! 2"

definition rotate_vector_real :: "('r::len) rotation \<Rightarrow> 'r flt list \<Rightarrow> 'r flt list" where
  "rotate_vector_real m v = [rotate_row (m ! 0) v, rotate_row (m ! 1) v, rotate_row (m ! 2) v]"

definition imu_mount_rotation_matrix :: "('r::len) real_ops \<Rightarrow> f32 list \<Rightarrow> 'r rotation" where
  "imu_mount_rotation_matrix R a = rosflight_orientation_matrix R (from_f32 (a ! 0) * deg_to_rad)
     (from_f32 (a ! 1) * deg_to_rad) (from_f32 (a ! 2) * deg_to_rad)"

record (overloaded) ('r::len) imu_mount_rotation =
  angles_deg :: "f32 list"
  mount_matrix :: "'r rotation"

definition mount_rotation_default :: "('r::len) real_ops \<Rightarrow> 'r imu_mount_rotation" where
  "mount_rotation_default R = \<lparr>angles_deg = [0, 0, 0], mount_matrix = imu_mount_rotation_matrix R [0, 0, 0]\<rparr>"

definition mount_angles :: "params \<Rightarrow> f32 list" where
  "mount_angles ps = [float_param_or ps PARAM_IMU_ROLL 0, float_param_or ps PARAM_IMU_PITCH 0,
     float_param_or ps PARAM_IMU_YAW 0]"

definition mount_update :: "('r::len) real_ops \<Rightarrow> 'r imu_mount_rotation \<Rightarrow> params \<Rightarrow> 'r imu_mount_rotation" where
  "mount_update R m ps = (let a = mount_angles ps in
     if list_all2 flt_eq a (angles_deg m) then m
     else m\<lparr>angles_deg := a, mount_matrix := imu_mount_rotation_matrix R a\<rparr>)"

definition rotate_imu_in_place :: "('r::len) real_ops \<Rightarrow> 'r imu_mount_rotation \<Rightarrow> 'r imu_packet \<Rightarrow> params \<Rightarrow>
    'r imu_mount_rotation \<times> 'r imu_packet" where
  "rotate_imu_in_place R m pkt ps = (let m = mount_update R m ps in
     (m, pkt\<lparr>imu_accel := rotate_vector_real (mount_matrix m) (imu_accel pkt),
             imu_gyro := rotate_vector_real (mount_matrix m) (imu_gyro pkt)\<rparr>))"

section \<open>IMU\<close>

record (overloaded) ('r::len) imu_calibration_state =
  gyro_sum :: "'r vec3"
  gyro_count :: u16
  accel_sum :: "'r vec3"
  accel_temp_sum :: "'r flt"
  accel_count :: u16
  max_accel :: "'r vec3"
  min_accel :: "'r vec3"

record (overloaded) ('r::len) imu_processor =
  imu_cal :: "'r imu_calibration_state"
  imu_mount :: "'r imu_mount_rotation"

definition imu_processor_new :: "('r::len) real_ops \<Rightarrow> 'r imu_processor" where
  "imu_processor_new R = \<lparr>imu_cal = \<lparr>gyro_sum = vec3_of 0 0 0, gyro_count = 0, accel_sum = vec3_of 0 0 0,
       accel_temp_sum = 0, accel_count = 0,
       max_accel = vec3_of (lit32 (- 1000) 1) (lit32 (- 1000) 1) (lit32 (- 1000) 1),
       min_accel = vec3_of (lit32 1000 1) (lit32 1000 1) (lit32 1000 1)\<rparr>,
     imu_mount = mount_rotation_default R\<rparr>"

definition vector_norm :: "('r::len) real_ops \<Rightarrow> 'r vec3 \<Rightarrow> 'r flt" where
  "vector_norm R v = r_sqrt R (vx v * vx v + vy v * vy v + vz v * vz v)"

definition set_bias :: "param_id \<Rightarrow> param_id \<Rightarrow> param_id \<Rightarrow> ('r::len) vec3 \<Rightarrow> sensor_ctx \<Rightarrow> sensor_ctx" where
  "set_bias px py pz v c = sc_set pz (to_f32_lossy (vz v)) (sc_set py (to_f32_lossy (vy v))
     (sc_set px (to_f32_lossy (vx v)) c))"

definition finish_gyro :: "('r::len) real_ops \<Rightarrow> 'r vec3 \<Rightarrow> sensor_ctx \<Rightarrow> sensor_ctx" where
  "finish_gyro R bias c = sc_remove CAL_GYRO
     (if vector_norm R bias < lit32 1 1
      then sc_log LogInfo ''Gyro Calibration complete!''
        (set_bias PARAM_GYRO_X_BIAS PARAM_GYRO_Y_BIAS PARAM_GYRO_Z_BIAS bias c)
      else sc_log LogError ''Gyro calibration failed'' (sc_insert CAL_GYRO_FAILED c))"

definition gyro_calibrate :: "('r::len) real_ops \<Rightarrow> 'r imu_packet \<Rightarrow> 'r imu_calibration_state \<times> sensor_ctx \<Rightarrow>
    'r imu_calibration_state \<times> sensor_ctx" where
  "gyro_calibrate R pkt = (\<lambda>(s, c).
    (let s = s\<lparr>gyro_sum := v_add (gyro_sum s) (vec3_of_list (imu_gyro pkt)), gyro_count := gyro_count s + 1\<rparr>
     in if 1000 < gyro_count s
        then (s\<lparr>gyro_sum := vec3_zero, gyro_count := 0\<rparr>,
              finish_gyro R (v_div (gyro_sum s) (from_u64 (ucast (gyro_count s)))) c)
        else (s, c)))"

definition v_max :: "('r::len) vec3 \<Rightarrow> 'r vec3 \<Rightarrow> 'r vec3" where
  "v_max a b = vec3_of (flt_max (vx a) (vx b)) (flt_max (vy a) (vy b)) (flt_max (vz a) (vz b))"

definition v_min :: "('r::len) vec3 \<Rightarrow> 'r vec3 \<Rightarrow> 'r vec3" where
  "v_min a b = vec3_of (flt_min (vx a) (vx b)) (flt_min (vy a) (vy b)) (flt_min (vz a) (vz b))"

definition accel_bias :: "('r::len) imu_calibration_state \<Rightarrow> sensor_ctx \<Rightarrow> 'r vec3" where
  "accel_bias s c =
    (let t = vec3_of (from_f32 (sc_float c PARAM_ACC_X_TEMP_COMP)) (from_f32 (sc_float c PARAM_ACC_Y_TEMP_COMP))
         (from_f32 (sc_float c PARAM_ACC_Z_TEMP_COMP))
     in v_div (v_sub (accel_sum s) (v_scale t (accel_temp_sum s))) (from_u64 (ucast (accel_count s))))"

definition finish_accel :: "('r::len) real_ops \<Rightarrow> 'r imu_calibration_state \<Rightarrow> sensor_ctx \<Rightarrow> sensor_ctx" where
  "finish_accel R s c = sc_remove CAL_ACCEL
     (if vector_norm R (v_sub (max_accel s) (min_accel s)) < lit32 1 1
      then let bias = accel_bias s c in
        if vector_norm R bias < lit32 3 1
        then sc_log LogInfo ''Accelerometer Calibration Complete!''
          (set_bias PARAM_ACC_X_BIAS PARAM_ACC_Y_BIAS PARAM_ACC_Z_BIAS bias c)
        else sc_log LogError ''Accelerometer calibration failed'' (sc_insert CAL_ACCEL_FAILED c)
      else sc_log LogError ''Accelerometer calibration failed: too much movement''
        (sc_insert CAL_ACCEL_FAILED c))"

definition accel_calibrate :: "('r::len) real_ops \<Rightarrow> 'r imu_packet \<Rightarrow> 'r imu_calibration_state \<times> sensor_ctx \<Rightarrow>
    'r imu_calibration_state \<times> sensor_ctx" where
  "accel_calibrate R pkt = (\<lambda>(s, c).
    (let a = vec3_of_list (imu_accel pkt);
       s = s\<lparr>accel_sum := v_add (accel_sum s) (vec3_of (vx a) (vy a) (vz a + lit32 980665 100000)),
         accel_temp_sum := accel_temp_sum s + from_f32 (imu_temperature pkt),
         accel_count := accel_count s + 1, max_accel := v_max (max_accel s) a,
         min_accel := v_min (min_accel s) a\<rparr>
     in if 1000 < accel_count s
        then (s\<lparr>accel_sum := vec3_zero, accel_count := 0, accel_temp_sum := lit32 0 1,
                max_accel := vec3_of (lit32 (- 1000) 1) (lit32 (- 1000) 1) (lit32 (- 1000) 1),
                min_accel := vec3_of (lit32 1000 1) (lit32 1000 1) (lit32 1000 1)\<rparr>,
              finish_accel R s c)
        else (s, c)))"

text \<open>The corrections every IMU packet gets, with the parameters as they are then.\<close>

definition imu_correct_bias :: "params \<Rightarrow> ('r::len) imu_packet \<Rightarrow> 'r imu_packet" where
  "imu_correct_bias ps pkt =
    (let f = (\<lambda>pid. from_f32 (float_param_or ps pid 0)); temp = from_f32 (imu_temperature pkt);
       g = imu_gyro pkt; a = imu_accel pkt
     in pkt\<lparr>imu_gyro := [g ! 0 - f PARAM_GYRO_X_BIAS, g ! 1 - f PARAM_GYRO_Y_BIAS, g ! 2 - f PARAM_GYRO_Z_BIAS],
       imu_accel := [a ! 0 - (f PARAM_ACC_X_TEMP_COMP * temp + f PARAM_ACC_X_BIAS),
         a ! 1 - (f PARAM_ACC_Y_TEMP_COMP * temp + f PARAM_ACC_Y_BIAS),
         a ! 2 - (f PARAM_ACC_Z_TEMP_COMP * temp + f PARAM_ACC_Z_BIAS)]\<rparr>)"

definition imu_calibrate :: "('r::len) real_ops \<Rightarrow> 'r imu_packet \<Rightarrow> 'r imu_calibration_state \<times> sensor_ctx \<Rightarrow>
    'r imu_calibration_state \<times> sensor_ctx" where
  "imu_calibrate R pkt sc =
    (let sc1 = (if sc_contains (snd sc) CAL_GYRO then gyro_calibrate R pkt sc else sc)
     in if sc_contains (snd sc1) CAL_ACCEL then accel_calibrate R pkt sc1 else sc1)"

definition imu_process :: "('r::len) real_ops \<Rightarrow> 'r imu_processor \<Rightarrow> 'r imu_packet raw_packet \<Rightarrow> sensor_ctx \<Rightarrow>
    'r imu_packet option \<times> 'r imu_processor \<times> sensor_ctx" where
  "imu_process R p raw c = (case fst (take_ok_packet raw) of
       None \<Rightarrow> (None, p, c)
     | Some pkt \<Rightarrow>
       (let (m, pkt) = rotate_imu_in_place R (imu_mount p) pkt (sc_params c);
          (s, c) = (if sc_flags c AND CAL_IMU \<noteq> 0 then imu_calibrate R pkt (imu_cal p, c) else (imu_cal p, c))
        in (Some (imu_correct_bias (sc_params c) pkt), \<lparr>imu_cal = s, imu_mount = m\<rparr>, c)))"

section \<open>Barometer and airspeed\<close>

definition SENSOR_CAL_DELAY_CYCLES :: u16 where "SENSOR_CAL_DELAY_CYCLES = 128"
definition SENSOR_CAL_CYCLES :: u16 where "SENSOR_CAL_CYCLES = 127"
definition BARO_MAX_CALIBRATION_VARIANCE :: f32 where "BARO_MAX_CALIBRATION_VARIANCE = flt_lit 25 1"
definition PITOT_MAX_CALIBRATION_VARIANCE :: f32 where "PITOT_MAX_CALIBRATION_VARIANCE = flt_lit 100 1"

definition flt_signum :: "'r::len flt \<Rightarrow> 'r flt" where
  "flt_signum x = (if is_nan x then flt_nan else if sgn_bit x then - 1 else 1)"

definition pressure_to_altitude :: "32 real_ops \<Rightarrow> f32 \<Rightarrow> f32" where
  "pressure_to_altitude R pressure = lit32 44330 1 *
     (lit32 1 1 - r_powf R (pressure / lit32 101325 1) (lit32 190295 1000000))"

definition indicated_airspeed_of :: "32 real_ops \<Rightarrow> f32 \<Rightarrow> f32" where
  "indicated_airspeed_of R dp = r_sqrt R (lit32 2 1 * \<bar>dp\<bar> / lit32 1225 1000) * flt_signum dp"

text \<open>
  Both sensors calibrate with the same running mean and variance; the two structs of the
  source have the same fields and share this record.
\<close>

record welford_state =
  cal_mean :: f32
  cal_m2 :: f32
  cal_count :: u16
  last_iter_ms :: u32
  calibrated :: bool
  request_active :: bool

definition welford_default :: welford_state where
  "welford_default = \<lparr>cal_mean = 0, cal_m2 = 0, cal_count = 0, last_iter_ms = 0, calibrated = False,
     request_active = False\<rparr>"

definition welford_step :: "welford_state \<Rightarrow> f32 \<Rightarrow> welford_state" where
  "welford_step s x =
    (let n = flt_of_int (uint (cal_count s - SENSOR_CAL_DELAY_CYCLES)); delta = x - cal_mean s;
       mean = cal_mean s + delta / n; delta2 = x - mean
     in s\<lparr>cal_mean := mean,
          cal_m2 := cal_m2 s + delta * delta2 / flt_of_int (uint (SENSOR_CAL_CYCLES - 1))\<rparr>)"

definition welford_restart :: "welford_state \<Rightarrow> welford_state" where
  "welford_restart s = s\<lparr>cal_mean := 0, cal_m2 := 0, cal_count := 0\<rparr>"

definition baro_calibrate :: "32 real_ops \<Rightarrow> baro_packet \<Rightarrow> u32 \<Rightarrow> welford_state \<times> sensor_ctx \<Rightarrow> welford_state \<times> sensor_ctx" where
  "baro_calibrate R pkt now = (\<lambda>(s, c).
     if now \<le> last_iter_ms s + 20 then (s, c)
     else let s = s\<lparr>cal_count := cal_count s + 1\<rparr>;
       (s, c) =
        (if SENSOR_CAL_DELAY_CYCLES + SENSOR_CAL_CYCLES < cal_count s then
           let (s, c) = (if cal_m2 s < BARO_MAX_CALIBRATION_VARIANCE
             then (s\<lparr>calibrated := True, request_active := False\<rparr>,
                   sc_log LogInfo ''Baro ground pressure cal successful!'' (sc_remove CAL_BARO
                     (sc_set PARAM_GROUND_LEVEL (pressure_to_altitude R (cal_mean s))
                       (sc_set PARAM_BARO_BIAS (cal_mean s) c))))
             else (s, sc_log LogError ''Too much movement for barometer ground pressure cal''
                     (sc_insert CAL_BARO_FAILED c)))
           in (welford_restart s, c)
         else if SENSOR_CAL_DELAY_CYCLES < cal_count s then (welford_step s (baro_pressure pkt), c)
         else (s, c))
       in (s\<lparr>last_iter_ms := now\<rparr>, c))"

definition baro_process :: "32 real_ops \<Rightarrow> welford_state \<Rightarrow> baro_packet raw_packet \<Rightarrow> u32 \<Rightarrow> sensor_ctx \<Rightarrow>
    baro_packet option \<times> welford_state \<times> sensor_ctx" where
  "baro_process R s raw now c = (case fst (take_ok_packet raw) of
       None \<Rightarrow> (None, s, c)
     | Some pkt \<Rightarrow>
       (let s = (if sc_contains c CAL_BARO \<and> \<not> request_active s
                 then welford_default\<lparr>request_active := True\<rparr> else s);
          (s, c) = (if calibrated s then (s, c) else baro_calibrate R pkt now (s, c))
        in (Some (pkt\<lparr>baro_altitude := pressure_to_altitude R (baro_pressure pkt)\<rparr>), s, c)))"

definition pitot_calibrate :: "pitot_packet \<Rightarrow> u32 \<Rightarrow> welford_state \<times> sensor_ctx \<Rightarrow> welford_state \<times> sensor_ctx" where
  "pitot_calibrate pkt now = (\<lambda>(s, c).
     if now \<le> last_iter_ms s + 20 then (s, c)
     else let s = s\<lparr>cal_count := cal_count s + 1\<rparr>;
       (s, c) =
        (if SENSOR_CAL_DELAY_CYCLES + SENSOR_CAL_CYCLES < cal_count s then
           let (s, c) = (if cal_m2 s < PITOT_MAX_CALIBRATION_VARIANCE
             then (s\<lparr>calibrated := True, request_active := False\<rparr>,
                   sc_remove CAL_PITOT (sc_set PARAM_DIFF_PRESS_BIAS (cal_mean s) c))
             else (s, sc_log LogError ''Airspeed calibration failed'' (sc_insert CAL_PITOT_FAILED c)))
           in (welford_restart s, c)
         else if SENSOR_CAL_DELAY_CYCLES < cal_count s
         then (welford_step s (differential_pressure pkt), c)
         else (s, c))
       in (s\<lparr>last_iter_ms := now\<rparr>, c))"

definition pitot_process :: "32 real_ops \<Rightarrow> welford_state \<Rightarrow> pitot_packet raw_packet \<Rightarrow> u32 \<Rightarrow> sensor_ctx \<Rightarrow>
    pitot_packet option \<times> welford_state \<times> sensor_ctx" where
  "pitot_process R s raw now c = (case fst (take_ok_packet raw) of
       None \<Rightarrow> (None, s, c)
     | Some pkt \<Rightarrow>
       (let s = (if sc_contains c CAL_PITOT \<and> \<not> request_active s
                 then welford_default\<lparr>request_active := True\<rparr> else s);
          (s, c) = (if calibrated s then (s, c) else pitot_calibrate pkt now (s, c));
          dp = differential_pressure pkt - sc_float c PARAM_DIFF_PRESS_BIAS
        in (Some (pkt\<lparr>differential_pressure := dp, indicated_airspeed := indicated_airspeed_of R dp\<rparr>), s, c)))"

section \<open>Magnetometer\<close>

definition rotate_mag_in_place :: "32 real_ops \<Rightarrow> mag_packet \<Rightarrow> params \<Rightarrow> mag_packet" where
  "rotate_mag_in_place R pkt ps =
    (let m = rosflight_orientation_matrix R (float_param_or ps PARAM_MAG_ROLL 0 * deg_to_rad)
         (float_param_or ps PARAM_MAG_PITCH 0 * deg_to_rad) (float_param_or ps PARAM_MAG_YAW 0 * deg_to_rad)
     in pkt\<lparr>mag_flux := rotate_vector_real m (mag_flux pkt)\<rparr>)"

definition mag_process :: "32 real_ops \<Rightarrow> mag_packet raw_packet \<Rightarrow> params \<Rightarrow> mag_packet option" where
  "mag_process R raw ps = (case fst (take_ok_packet raw) of None \<Rightarrow> None
     | Some pkt \<Rightarrow>
       (let pkt = rotate_mag_in_place R pkt ps; f = (\<lambda>pid. float_param_or ps pid 0);
          hard = [mag_flux pkt ! 0 - f PARAM_MAG_X_BIAS, mag_flux pkt ! 1 - f PARAM_MAG_Y_BIAS,
                  mag_flux pkt ! 2 - f PARAM_MAG_Z_BIAS]
        in Some (pkt\<lparr>mag_flux := [
             rotate_row [f PARAM_MAG_A00_COMP, f PARAM_MAG_A01_COMP, f PARAM_MAG_A02_COMP] hard,
             rotate_row [f PARAM_MAG_A10_COMP, f PARAM_MAG_A11_COMP, f PARAM_MAG_A12_COMP] hard,
             rotate_row [f PARAM_MAG_A20_COMP, f PARAM_MAG_A21_COMP, f PARAM_MAG_A22_COMP] hard]\<rparr>)))"

section \<open>The sensor bus\<close>

text \<open>The raw and the processed sensors of \<^verbatim>\<open>sensors.rs\<close>, and the ingestion of one pass.\<close>

record (overloaded) ('r::len) sensor_bus =
  raw_imu :: "'r imu_packet raw_packet"
  raw_mag :: "mag_packet raw_packet"
  raw_baro :: "baro_packet raw_packet"
  raw_pitot :: "pitot_packet raw_packet"
  raw_range :: "range_packet raw_packet"
  raw_gnss :: "gnss_packet raw_packet"
  raw_battery :: "battery_packet raw_packet"
  raw_rc :: "rc_packet raw_packet"
  raw_attitude :: "attitude_packet raw_packet"

definition sensor_bus_clear :: "('r::len) sensor_bus" where
  "sensor_bus_clear = \<lparr>raw_imu = None, raw_mag = None, raw_baro = None, raw_pitot = None,
     raw_range = None, raw_gnss = None, raw_battery = None, raw_rc = None, raw_attitude = None\<rparr>"

record (overloaded) ('r::len) processed_sensors =
  sens_imu :: "'r imu_packet option"
  sens_mag :: "mag_packet option"
  sens_baro :: "baro_packet option"
  sens_pitot :: "pitot_packet option"
  sens_range :: "range_packet option"
  sens_gnss :: "gnss_packet option"
  sens_battery :: "battery_packet option"
  sens_rc :: "rc_packet option"
  sens_attitude :: "attitude_packet option"

definition processed_sensors_clear :: "('r::len) processed_sensors" where
  "processed_sensors_clear = \<lparr>sens_imu = None, sens_mag = None, sens_baro = None, sens_pitot = None,
     sens_range = None, sens_gnss = None, sens_battery = None, sens_rc = None, sens_attitude = None\<rparr>"

definition air_density :: "('r::len) real_ops \<Rightarrow> 'r processed_sensors \<Rightarrow> 'r flt" where
  "air_density R s = (case sens_baro s of None \<Rightarrow> lit32 1225 1000
     | Some b \<Rightarrow> lit32 1225 1000 * r_powf R (from_f32 (baro_pressure b) / lit32 101325 1)
         (from_f64 (flt_lit 809736894596450 1000000000000000)))"

record (overloaded) ('r::len) sensor_processors =
  proc_imu :: "'r imu_processor"
  proc_baro :: welford_state
  proc_pitot :: welford_state
  proc_battery :: battery_processor

definition sensor_processors_default :: "('r::len) real_ops \<Rightarrow> 'r sensor_processors" where
  "sensor_processors_default R = \<lparr>proc_imu = imu_processor_new R, proc_baro = welford_default,
     proc_pitot = welford_default, proc_battery = battery_processor_default\<rparr>"

type_synonym 'r ingestion = "'r sensor_bus \<times> 'r processed_sensors \<times> 'r sensor_processors \<times> sensor_ctx"

definition process_imu_sensor :: "('r::len) real_ops \<Rightarrow> 'r ingestion \<Rightarrow> 'r ingestion" where
  "process_imu_sensor R = (\<lambda>(raw, out, ps, c). case raw_imu raw of
       None \<Rightarrow> (raw, out\<lparr>sens_imu := None\<rparr>, ps, c)
     | Some _ \<Rightarrow> (let (pkt, p, c) = imu_process R (proc_imu ps) (raw_imu raw) c
         in (raw\<lparr>raw_imu := None\<rparr>, out\<lparr>sens_imu := pkt\<rparr>, ps\<lparr>proc_imu := p\<rparr>, c)))"

definition process_baro_sensor :: "32 real_ops \<Rightarrow> u32 \<Rightarrow> ('r::len) ingestion \<Rightarrow> 'r ingestion" where
  "process_baro_sensor S now = (\<lambda>(raw, out, ps, c). case raw_baro raw of
       None \<Rightarrow> (raw, out\<lparr>sens_baro := None\<rparr>, ps, c)
     | Some _ \<Rightarrow> (let (pkt, p, c) = baro_process S (proc_baro ps) (raw_baro raw) now c
         in (raw\<lparr>raw_baro := None\<rparr>, out\<lparr>sens_baro := pkt\<rparr>, ps\<lparr>proc_baro := p\<rparr>, c)))"

definition process_pitot_sensor :: "32 real_ops \<Rightarrow> u32 \<Rightarrow> ('r::len) ingestion \<Rightarrow> 'r ingestion" where
  "process_pitot_sensor S now = (\<lambda>(raw, out, ps, c). case raw_pitot raw of
       None \<Rightarrow> (raw, out\<lparr>sens_pitot := None\<rparr>, ps, c)
     | Some _ \<Rightarrow> (let (pkt, p, c) = pitot_process S (proc_pitot ps) (raw_pitot raw) now c
         in (raw\<lparr>raw_pitot := None\<rparr>, out\<lparr>sens_pitot := pkt\<rparr>, ps\<lparr>proc_pitot := p\<rparr>, c)))"

text \<open>The sensors whose processors keep no calibration, the battery's filter among them.\<close>

definition process_plain_sensors :: "32 real_ops \<Rightarrow> ('r::len) ingestion \<Rightarrow> 'r ingestion" where
  "process_plain_sensors S = (\<lambda>(raw, out, ps, c).
    (let (bat, pb) = (case raw_battery raw of None \<Rightarrow> (sens_battery out, proc_battery ps)
         | Some _ \<Rightarrow> battery_process (proc_battery ps) (raw_battery raw) (sc_params c))
     in (raw\<lparr>raw_range := None, raw_gnss := None, raw_battery := None, raw_rc := None, raw_attitude := None\<rparr>,
         out\<lparr>sens_range := fst (take_ok_packet (raw_range raw)), sens_gnss := fst (take_ok_packet (raw_gnss raw)),
             sens_battery := bat, sens_rc := fst (take_ok_packet (raw_rc raw)),
             sens_attitude := fst (take_ok_packet (raw_attitude raw))\<rparr>,
         ps\<lparr>proc_battery := pb\<rparr>, c)))"

definition process_mag_sensor :: "32 real_ops \<Rightarrow> ('r::len) ingestion \<Rightarrow> 'r ingestion" where
  "process_mag_sensor S = (\<lambda>(raw, out, ps, c).
     (raw\<lparr>raw_mag := None\<rparr>, out\<lparr>sens_mag := mag_process S (raw_mag raw) (sc_params c)\<rparr>, ps, c))"

definition process_sensor_bus :: "('r::len) real_ops \<Rightarrow> 32 real_ops \<Rightarrow> u32 \<Rightarrow> 'r ingestion \<Rightarrow> 'r ingestion" where
  "process_sensor_bus R S now x = process_plain_sensors S (process_pitot_sensor S now
     (process_baro_sensor S now (process_mag_sensor S (process_imu_sensor R x))))"

end
