(* ===== verification/Sensor_Safety.thy ===== *)
theory Sensor_Safety
  imports Sensor_Processors Estimator_Safety
begin

text \<open>
  What the calibrations promise: a gyroscope calibration ends after 1001 packets, with the
  mean of the rotated rates as the bias or with its failure flag, whatever the
  accelerometer calibration beside it does.
\<close>

section \<open>Flags\<close>

lemma contains_bits:
  "sc_contains c CAL_GYRO = bit (sc_flags c) 0" "sc_contains c CAL_ACCEL = bit (sc_flags c) 1"
  "sc_contains c CAL_BARO = bit (sc_flags c) 2" "sc_contains c CAL_PITOT = bit (sc_flags c) 3"
  "sc_contains c CAL_GYRO_FAILED = bit (sc_flags c) 4"
proof -
  have "w AND push_bit n 1 = push_bit n 1 \<longleftrightarrow> bit w n" if "n < 16" for w :: u16 and n
    using that by (auto simp: word_bits_eq_iff bit_simps)
  from this [of 0] this [of 1] this [of 2] this [of 3] this [of 4] show
    "sc_contains c CAL_GYRO = bit (sc_flags c) 0" "sc_contains c CAL_ACCEL = bit (sc_flags c) 1"
    "sc_contains c CAL_BARO = bit (sc_flags c) 2" "sc_contains c CAL_PITOT = bit (sc_flags c) 3"
    "sc_contains c CAL_GYRO_FAILED = bit (sc_flags c) 4"
    by (simp_all add: sc_contains_def calibration_flag_defs push_bit_eq_mult)
qed

lemma flag_bit: "bit (CAL_GYRO) n = (n = 0)" "bit (CAL_ACCEL) n = (n = 1)" "bit CAL_GYRO_FAILED n = (n = 4)"
  "bit CAL_ACCEL_FAILED n = (n = 5)"
proof -
  have b: "bit (push_bit k 1 :: u16) n = (n = k)" if "k < 16" for k
    using that by (auto simp: bit_simps)
  from b [of 0] b [of 1] b [of 4] b [of 5]
  show "bit (CAL_GYRO) n = (n = 0)" "bit (CAL_ACCEL) n = (n = 1)" "bit CAL_GYRO_FAILED n = (n = 4)"
    "bit CAL_ACCEL_FAILED n = (n = 5)"
    by (simp_all add: calibration_flag_defs push_bit_eq_mult)
qed

lemma imu_calibrating: "bit (sc_flags c) 0 \<Longrightarrow> sc_flags c AND CAL_IMU \<noteq> 0"
proof
  assume b: "bit (sc_flags c) 0" and z: "sc_flags c AND CAL_IMU = 0"
  from b have "bit (sc_flags c AND CAL_IMU) 0" by (simp only: bit_and_iff CAL_IMU_def bit_or_iff flag_bit) simp
  with z show False by simp
qed

lemmas sensor_ctx_defs = sc_insert_def sc_remove_def sc_set_def sc_log_def set_bias_def

section \<open>The accelerometer leaves the gyroscope alone\<close>

lemma finish_accel_frame [frame]:
  "bit (sc_flags (finish_accel R s c)) 0 = bit (sc_flags c) 0"
  "bit (sc_flags (finish_accel R s c)) 4 = bit (sc_flags c) 4"
  "mount_angles (sc_params (finish_accel R s c)) = mount_angles (sc_params c)"
  "\<not> pid \<in> {PARAM_ACC_X_BIAS, PARAM_ACC_Y_BIAS, PARAM_ACC_Z_BIAS} \<Longrightarrow>
     get_by_id (sc_params (finish_accel R s c)) pid = get_by_id (sc_params c) pid"
  by (auto simp: finish_accel_def sensor_ctx_defs bit_simps flag_bit mount_angles_def float_param_or_def Let_def)

lemma accel_calibrate_frame [frame]:
  "gyro_sum (fst (accel_calibrate R pkt x)) = gyro_sum (fst x)"
  "gyro_count (fst (accel_calibrate R pkt x)) = gyro_count (fst x)"
  "bit (sc_flags (snd (accel_calibrate R pkt x))) 0 = bit (sc_flags (snd x)) 0"
  "bit (sc_flags (snd (accel_calibrate R pkt x))) 4 = bit (sc_flags (snd x)) 4"
  "mount_angles (sc_params (snd (accel_calibrate R pkt x))) = mount_angles (sc_params (snd x))"
  "\<not> pid \<in> {PARAM_ACC_X_BIAS, PARAM_ACC_Y_BIAS, PARAM_ACC_Z_BIAS} \<Longrightarrow>
     get_by_id (sc_params (snd (accel_calibrate R pkt x))) pid = get_by_id (sc_params (snd x)) pid"
  by (simp_all add: accel_calibrate_def Let_def case_prod_beta frame)

section \<open>One packet\<close>

definition mount_current :: "('r::len) imu_processor \<Rightarrow> params \<Rightarrow> bool" where
  "mount_current p ps \<longleftrightarrow> list_all2 flt_eq (mount_angles ps) (angles_deg (imu_mount p))"

definition mounted_gyro :: "('r::len) imu_processor \<Rightarrow> 'r imu_packet \<Rightarrow> 'r vec3" where
  "mounted_gyro p pkt = vec3_of_list (rotate_vector_real (mount_matrix (imu_mount p)) (imu_gyro pkt))"

definition take_packet :: "('r::len) real_ops \<Rightarrow> 'r imu_processor \<times> sensor_ctx \<Rightarrow> 'r imu_packet \<Rightarrow>
    'r imu_processor \<times> sensor_ctx" where
  "take_packet R x pkt = snd (imu_process R (fst x) (Some (Inr pkt)) (snd x))"

lemma gyro_packet:
  assumes "mount_current p (sc_params c)" "bit (sc_flags c) 0" "gyro_count (imu_cal p) < 1000"
  shows "imu_mount (fst (take_packet R (p, c) pkt)) = imu_mount p"
    and "mount_current (fst (take_packet R (p, c) pkt)) (sc_params (snd (take_packet R (p, c) pkt)))"
    and "bit (sc_flags (snd (take_packet R (p, c) pkt))) 0"
    and "gyro_count (imu_cal (fst (take_packet R (p, c) pkt))) = gyro_count (imu_cal p) + 1"
    and "gyro_sum (imu_cal (fst (take_packet R (p, c) pkt))) = v_add (gyro_sum (imu_cal p)) (mounted_gyro p pkt)"
    and "bit (sc_flags (snd (take_packet R (p, c) pkt))) 4 = bit (sc_flags c) 4"
    and "\<not> pid \<in> {PARAM_ACC_X_BIAS, PARAM_ACC_Y_BIAS, PARAM_ACC_Z_BIAS} \<Longrightarrow>
      get_by_id (sc_params (snd (take_packet R (p, c) pkt))) pid = get_by_id (sc_params c) pid"
proof -
  have n: "\<not> 1000 < gyro_count (imu_cal p) + 1" using assms(3) by unat_arith
  have eq: "take_packet R (p, c) pkt =
     (let s = (imu_cal p)\<lparr>gyro_sum := v_add (gyro_sum (imu_cal p)) (mounted_gyro p pkt), gyro_count := gyro_count (imu_cal p) + 1\<rparr>;
        x = (if bit (sc_flags c) 1 then accel_calibrate R (snd (rotate_imu_in_place R (imu_mount p) pkt (sc_params c))) (s, c) else (s, c))
      in (\<lparr>imu_cal = fst x, imu_mount = imu_mount p\<rparr>, snd x))"
    using assms(1,2) n imu_calibrating [OF assms(2)]
    by (simp add: take_packet_def imu_process_def take_ok_packet_def rotate_imu_in_place_def mount_update_def
        mount_current_def imu_calibrate_def gyro_calibrate_def contains_bits mounted_gyro_def Let_def case_prod_beta)
  show "imu_mount (fst (take_packet R (p, c) pkt)) = imu_mount p"
    and "mount_current (fst (take_packet R (p, c) pkt)) (sc_params (snd (take_packet R (p, c) pkt)))"
    and "bit (sc_flags (snd (take_packet R (p, c) pkt))) 0"
    and "gyro_count (imu_cal (fst (take_packet R (p, c) pkt))) = gyro_count (imu_cal p) + 1"
    and "gyro_sum (imu_cal (fst (take_packet R (p, c) pkt))) = v_add (gyro_sum (imu_cal p)) (mounted_gyro p pkt)"
    and "bit (sc_flags (snd (take_packet R (p, c) pkt))) 4 = bit (sc_flags c) 4"
    and "\<not> pid \<in> {PARAM_ACC_X_BIAS, PARAM_ACC_Y_BIAS, PARAM_ACC_Z_BIAS} \<Longrightarrow>
      get_by_id (sc_params (snd (take_packet R (p, c) pkt))) pid = get_by_id (sc_params c) pid"
    using assms(1,2) unfolding eq by (simp_all add: Let_def frame mount_current_def)
qed

text \<open>The packet that completes the calibration.\<close>

definition gyro_bias_params :: "params \<Rightarrow> param_value list" where
  "gyro_bias_params ps = map (get_by_id ps) [PARAM_GYRO_X_BIAS, PARAM_GYRO_Y_BIAS, PARAM_GYRO_Z_BIAS]"

definition bias_values :: "('r::len) vec3 \<Rightarrow> param_value list" where
  "bias_values v = map (\<lambda>x. PFloat (to_f32_lossy x)) [vx v, vy v, vz v]"

lemma gyro_biases_accel [frame]:
  "gyro_bias_params (sc_params (snd (accel_calibrate R pkt x))) = gyro_bias_params (sc_params (snd x))"
  by (simp add: gyro_bias_params_def frame)

lemma finish_gyro_eq:
  "\<not> bit (sc_flags (finish_gyro R bias c)) 0"
  "bit (sc_flags (finish_gyro R bias c)) 4 = (bit (sc_flags c) 4 \<or> \<not> vector_norm R bias < lit32 1 1)"
  "gyro_bias_params (sc_params (finish_gyro R bias c)) =
    (if vector_norm R bias < lit32 1 1 then bias_values bias else gyro_bias_params (sc_params c))"
  by (auto simp: finish_gyro_def sensor_ctx_defs bit_simps flag_bit gyro_bias_params_def bias_values_def)

lemma gyro_last_packet:
  assumes "mount_current p (sc_params c)" "bit (sc_flags c) 0" "gyro_count (imu_cal p) = 1000"
    and "bias = v_div (v_add (gyro_sum (imu_cal p)) (mounted_gyro p pkt)) (from_u64 1001)"
  shows "\<not> bit (sc_flags (snd (take_packet R (p, c) pkt))) 0"
    and "gyro_count (imu_cal (fst (take_packet R (p, c) pkt))) = 0"
    and "bit (sc_flags (snd (take_packet R (p, c) pkt))) 4 = (bit (sc_flags c) 4 \<or> \<not> vector_norm R bias < lit32 1 1)"
    and "gyro_bias_params (sc_params (snd (take_packet R (p, c) pkt))) =
      (if vector_norm R bias < lit32 1 1 then bias_values bias else gyro_bias_params (sc_params c))"
proof -
  have eq: "take_packet R (p, c) pkt =
     (let s = (imu_cal p)\<lparr>gyro_sum := vec3_zero, gyro_count := 0\<rparr>; c' = finish_gyro R bias c;
        x = (if sc_contains c' CAL_ACCEL then accel_calibrate R (snd (rotate_imu_in_place R (imu_mount p) pkt (sc_params c))) (s, c') else (s, c'))
      in (\<lparr>imu_cal = fst x, imu_mount = imu_mount p\<rparr>, snd x))"
    using assms(1-3) imu_calibrating [OF assms(2)]
    by (simp add: take_packet_def imu_process_def take_ok_packet_def rotate_imu_in_place_def mount_update_def
        mount_current_def imu_calibrate_def gyro_calibrate_def contains_bits(1) mounted_gyro_def Let_def case_prod_beta assms(4))
  show "\<not> bit (sc_flags (snd (take_packet R (p, c) pkt))) 0"
    and "gyro_count (imu_cal (fst (take_packet R (p, c) pkt))) = 0"
    and "bit (sc_flags (snd (take_packet R (p, c) pkt))) 4 = (bit (sc_flags c) 4 \<or> \<not> vector_norm R bias < lit32 1 1)"
    and "gyro_bias_params (sc_params (snd (take_packet R (p, c) pkt))) =
      (if vector_norm R bias < lit32 1 1 then bias_values bias else gyro_bias_params (sc_params c))"
    unfolding eq by (simp_all add: Let_def frame finish_gyro_eq)
qed

section \<open>A whole calibration\<close>

definition imu_run :: "('r::len) real_ops \<Rightarrow> 'r imu_processor \<Rightarrow> sensor_ctx \<Rightarrow> 'r imu_packet list \<Rightarrow>
    'r imu_processor \<times> sensor_ctx" where
  "imu_run R p c pkts = foldl (take_packet R) (p, c) pkts"

definition gyro_total :: "('r::len) imu_processor \<Rightarrow> 'r imu_packet list \<Rightarrow> 'r vec3" where
  "gyro_total p pkts = foldl (\<lambda>s pkt. v_add s (mounted_gyro p pkt)) (gyro_sum (imu_cal p)) pkts"

lemma imu_run_snoc: "imu_run R p c (pkts @ [pkt]) = take_packet R (fst (imu_run R p c pkts), snd (imu_run R p c pkts)) pkt"
  by (simp add: imu_run_def)

lemma gyro_run:
  assumes "mount_current p (sc_params c)" "bit (sc_flags c) 0" "gyro_count (imu_cal p) = 0" "length pkts \<le> 1000"
  shows "imu_mount (fst (imu_run R p c pkts)) = imu_mount p \<and>
    mount_current (fst (imu_run R p c pkts)) (sc_params (snd (imu_run R p c pkts))) \<and>
    bit (sc_flags (snd (imu_run R p c pkts))) 0 \<and>
    bit (sc_flags (snd (imu_run R p c pkts))) 4 = bit (sc_flags c) 4 \<and>
    gyro_count (imu_cal (fst (imu_run R p c pkts))) = of_nat (length pkts) \<and>
    gyro_sum (imu_cal (fst (imu_run R p c pkts))) = gyro_total p pkts \<and>
    gyro_bias_params (sc_params (snd (imu_run R p c pkts))) = gyro_bias_params (sc_params c)"
  using assms(4)
proof (induction pkts rule: rev_induct)
  case Nil
  then show ?case using assms(1-3) by (simp add: imu_run_def gyro_total_def)
next
  case (snoc pkt pkts)
  let ?p = "fst (imu_run R p c pkts)" and ?c = "snd (imu_run R p c pkts)"
  from snoc have IH: "imu_mount ?p = imu_mount p" "mount_current ?p (sc_params ?c)" "bit (sc_flags ?c) 0"
    "bit (sc_flags ?c) 4 = bit (sc_flags c) 4" "gyro_count (imu_cal ?p) = of_nat (length pkts)" "gyro_sum (imu_cal ?p) = gyro_total p pkts"
    "gyro_bias_params (sc_params ?c) = gyro_bias_params (sc_params c)" by auto
  have "length pkts < 1000" using snoc.prems by simp
  then have "gyro_count (imu_cal ?p) < 1000" by (simp add: IH(5) word_less_nat_alt unat_of_nat)
  note step = gyro_packet [OF IH(2,3) this, where R = R and pkt = pkt]
  have "mounted_gyro ?p pkt = mounted_gyro p pkt" by (simp add: mounted_gyro_def IH(1))
  moreover have "gyro_bias_params (sc_params (snd (take_packet R (?p, ?c) pkt))) = gyro_bias_params (sc_params ?c)"
    by (simp add: gyro_bias_params_def step(7) del: prod.collapse)
  ultimately show ?case
    unfolding imu_run_snoc using step(1-6) by (simp add: IH gyro_total_def del: prod.collapse)
qed


definition gyro_requested :: sensor_ctx where
  "gyro_requested = \<lparr>sc_flags = CAL_GYRO, sc_params = zero_params, sc_logs = []\<rparr>"


end
