(* ===== verification/Companion.thy ===== *)
theory Companion
  imports Command_Service Sensor_Processors
begin

text \<open>
  The smaller services of the core: the inputs of the companion computer (\<^verbatim>\<open>companion.rs\<close>),
  the health of the IMU and its calibration interlock (\<^verbatim>\<open>sensors/health.rs\<close>) and the
  conversion of the battery monitor (\<^verbatim>\<open>battery.rs\<close>).
\<close>

section \<open>Companion inputs\<close>

record companion_link =
  connected :: bool
  last_heartbeat :: "heartbeat_msg option"

record companion_ctx =
  ci_events :: companion_event_queues
  ci_comm :: comm_event_queues
  ci_link :: companion_link
  ci_aux :: "rosflight_aux_cmd_msg option"
  ci_attitude :: "external_attitude_msg option"
  ci_hard_error :: "rosflight_hard_error_msg option"

definition companion_link_default :: companion_link where
  "companion_link_default = \<lparr>connected = False, last_heartbeat = None\<rparr>"

definition apply_companion_heartbeats :: "companion_ctx \<Rightarrow> companion_ctx" where
  "apply_companion_heartbeats c =
    (let (q, l) = drain (\<lambda>ev l. l\<lparr>connected := True, last_heartbeat := Some (chr_msg ev)\<rparr>)
         (heartbeats (ci_events c)) (ci_link c)
     in c\<lparr>ci_events := (ci_events c)\<lparr>heartbeats := q\<rparr>, ci_link := l\<rparr>)"

definition emit_pending_hard_error_if_connected :: "companion_ctx \<Rightarrow> companion_ctx" where
  "emit_pending_hard_error_if_connected c =
    (if connected (ci_link c) then
       (case ci_hard_error c of
          None \<Rightarrow> c
        | Some m \<Rightarrow> c\<lparr>ci_comm := push_response (ci_comm c) (RespHardError m), ci_hard_error := None\<rparr>)
     else c)"

definition apply_aux_commands :: "companion_ctx \<Rightarrow> companion_ctx" where
  "apply_aux_commands c =
    (let (q, m) = drain (\<lambda>ev _. Some (acr_msg ev)) (aux_commands (ci_events c)) (ci_aux c)
     in c\<lparr>ci_events := (ci_events c)\<lparr>aux_commands := q\<rparr>, ci_aux := m\<rparr>)"

definition apply_external_attitudes :: "companion_ctx \<Rightarrow> companion_ctx" where
  "apply_external_attitudes c =
    (let (q, m) = drain (\<lambda>ev _. Some (ear_msg ev)) (external_attitudes (ci_events c)) (ci_attitude c)
     in c\<lparr>ci_events := (ci_events c)\<lparr>external_attitudes := q\<rparr>, ci_attitude := m\<rparr>)"

definition apply_companion_inputs :: "companion_ctx \<Rightarrow> companion_ctx" where
  "apply_companion_inputs c = apply_external_attitudes (apply_aux_commands
     (emit_pending_hard_error_if_connected (apply_companion_heartbeats c)))"

section \<open>Sensor health\<close>

definition update_sensor_health :: "u64 \<Rightarrow> bool \<Rightarrow> params \<Rightarrow> u64 \<Rightarrow> state_manager \<times> u64 \<Rightarrow> state_manager \<times> u64" where
  "update_sensor_health now has_imu p timeout = (\<lambda>(s, last_seen).
     if has_imu then (fst (set_error_flag s IMU_NOT_RESPONDING False p), now)
     else if last_seen + timeout < now then (fst (set_error_flag s IMU_NOT_RESPONDING True p), last_seen)
     else (s, last_seen))"

definition imu_bias_params_are_all_zero :: "params \<Rightarrow> bool" where
  "imu_bias_params_are_all_zero p = list_all
     (\<lambda>pid. case get_by_id p pid of PFloat v \<Rightarrow> flt_eq v 0 | _ \<Rightarrow> False)
     [PARAM_ACC_X_BIAS, PARAM_ACC_Y_BIAS, PARAM_ACC_Z_BIAS,
      PARAM_GYRO_X_BIAS, PARAM_GYRO_Y_BIAS, PARAM_GYRO_Z_BIAS]"

definition initialize_imu_calibration_error :: "state_manager \<Rightarrow> params \<Rightarrow> state_manager" where
  "initialize_imu_calibration_error s p = fst (set_error_flag s UNCALIBRATED_IMU (imu_bias_params_are_all_zero p) p)"

section \<open>Battery monitor\<close>

definition ADC_16_BIT_FULL_SCALE :: f32 where
  "ADC_16_BIT_FULL_SCALE = flt_of_int 65535"

record analog_channel_calibration =
  scale_factor :: f32
  channel_offset :: f32

record battery_monitor_calibration =
  bm_voltage :: analog_channel_calibration
  bm_current :: analog_channel_calibration

definition battery_monitor_new :: "f32 \<Rightarrow> f32 \<Rightarrow> f32 \<Rightarrow> f32 \<Rightarrow> battery_monitor_calibration" where
  "battery_monitor_new vs vo cs co = \<lparr>bm_voltage = \<lparr>scale_factor = vs, channel_offset = vo\<rparr>,
     bm_current = \<lparr>scale_factor = cs, channel_offset = co\<rparr>\<rparr>"

definition apply_multiplier :: "analog_channel_calibration \<Rightarrow> f32 \<Rightarrow> analog_channel_calibration" where
  "apply_multiplier c m = (if \<not> flt_eq m 0 then c\<lparr>scale_factor := m\<rparr> else c)"

definition apply_multipliers :: "battery_monitor_calibration \<Rightarrow> f32 \<Rightarrow> f32 \<Rightarrow> battery_monitor_calibration" where
  "apply_multipliers b vm cm = b\<lparr>bm_voltage := apply_multiplier (bm_voltage b) vm,
     bm_current := apply_multiplier (bm_current b) cm\<rparr>"

definition convert_16_bit_sample :: "analog_channel_calibration \<Rightarrow> u16 \<Rightarrow> f32 \<Rightarrow> f32" where
  "convert_16_bit_sample c adc_count vdda =
    (let pin_voltage = flt_of_int (uint adc_count) / ADC_16_BIT_FULL_SCALE * vdda
     in (pin_voltage - channel_offset c) * scale_factor c)"

end
