(* ===== verification/Board.thy ===== *)
theory Board
  imports Sensor_Processors
begin

text \<open>
  The board behind the trait \<^verbatim>\<open>BoardIo\<close>: code of another crate for each target, so the
  operations the core calls are the fields of a record that every definition using them takes as
  an argument. Each takes the state of the board and returns the state after the call; reading a
  clock may change it, because the hardware counts on.
\<close>

section \<open>Backup memory\<close>

record backup_data =
  bd_error_code :: u32
  bd_pc :: u32
  bd_reset_count :: u32
  bd_do_rearm :: u32

section \<open>The operations\<close>

record (overloaded) ('r::len, 'b) board_ops =
  bo_clock_micros :: "'b \<Rightarrow> u64 \<times> 'b"
  bo_clock_millis :: "'b \<Rightarrow> u32 \<times> 'b"
  bo_imu_pending :: "'b \<Rightarrow> bool \<times> 'b"
  bo_serial_rx_pending :: "'b \<Rightarrow> bool \<times> 'b"
  bo_update_sensor_bus :: "'b \<Rightarrow> 'r sensor_bus \<Rightarrow> 'r sensor_bus \<times> 'b"
  bo_update_imu_sensor :: "'b \<Rightarrow> 'r sensor_bus \<Rightarrow> 'r sensor_bus \<times> 'b"
  bo_update_service_sensor_bus :: "'b \<Rightarrow> 'r sensor_bus \<Rightarrow> 'r sensor_bus \<times> 'b"
  bo_sensors_errors_count :: "'b \<Rightarrow> u16 \<times> 'b"
  bo_test_pin_2 :: "bool \<Rightarrow> 'b \<Rightarrow> 'b"
  bo_led0 :: "bool \<Rightarrow> 'b \<Rightarrow> 'b"
  bo_led1 :: "bool \<Rightarrow> 'b \<Rightarrow> 'b"
  bo_configure_battery_monitor :: "f32 \<Rightarrow> f32 \<Rightarrow> 'b \<Rightarrow> 'b"
  bo_serial_flush :: "'b \<Rightarrow> 'b"
  bo_serial_flush_budgeted :: "nat \<Rightarrow> 'b \<Rightarrow> 'b"
  bo_run_deferred_board_actions :: "'b \<Rightarrow> 'b"
  bo_read_params :: "'b \<Rightarrow> params \<Rightarrow> bool \<times> params \<times> 'b"
  bo_write_params :: "'b \<Rightarrow> params \<Rightarrow> bool \<times> 'b"
  bo_reboot :: "'b \<Rightarrow> bool \<times> 'b"
  bo_reboot_to_bootloader :: "'b \<Rightarrow> bool \<times> 'b"
  bo_backup_memory_read :: "'b \<Rightarrow> backup_data option \<times> 'b"
  bo_backup_memory_clear :: "'b \<Rightarrow> bool \<times> 'b"

end
