(* ===== verification/Control_Pipeline.thy ===== *)
theory Control_Pipeline
  imports Controller Companion Pwm Board
begin

text \<open>
  The control pipeline of \<^verbatim>\<open>control.rs\<close> for the quadrotor of \<^verbatim>\<open>vehicle.rs\<close>: a fresh IMU
  packet runs estimator, controller, mixer and outputs in this order, and the health each of
  them reports becomes an error flag of the state machine. The board behind \<^verbatim>\<open>BoardIo\<close>, the
  output driver and the numerical libraries are records of operations; reading a clock may
  change the board, because the hardware counts on.
\<close>

section \<open>What the pipeline calls\<close>

record (overloaded) ('r::len, 'b, 'p) pipeline_env =
  env_linalg :: "'r linalg"
  env_real :: "'r real_ops"
  env_pwm :: "('r, 'p) pwm_ops"
  env_configure_rates :: "'p \<Rightarrow> 'r flt list \<Rightarrow> 'p \<times> pwm_error option"
  env_board :: "('r, 'b) board_ops"

section \<open>The pipeline's state\<close>

record (overloaded) ('r::len) control_pipeline =
  latest_estimator_state :: "'r attitude_state"
  latest_actuator_commands :: "'r flt list option"
  latest_pwm_outputs :: "'r flt list"
  latest_loop_time_us :: u16
  last_imu_time :: u64
  pwm_rates_configured :: bool

definition control_pipeline_default :: "('r::len) control_pipeline" where
  "control_pipeline_default = \<lparr>latest_estimator_state = attitude_state_default,
     latest_actuator_commands = None, latest_pwm_outputs = replicate PWM_OUTPUT_CHANNELS (lit32 0 1),
     latest_loop_time_us = 0, last_imu_time = 0, pwm_rates_configured = False\<rparr>"

record control_timing =
  tm_estimator_us :: u16
  tm_controller_us :: u16
  tm_mixer_us :: u16
  tm_pwm_us :: u16

definition set_latest :: "('r::len) attitude_state \<Rightarrow> 'r flt list \<Rightarrow> 'r flt list \<Rightarrow> u16 \<Rightarrow>
    'r control_pipeline \<Rightarrow> 'r control_pipeline" where
  "set_latest st cmds outs t p = p\<lparr>latest_estimator_state := st, latest_actuator_commands := Some cmds,
     latest_pwm_outputs := outs, latest_loop_time_us := t\<rparr>"

definition elapsed_u16 :: "u64 \<Rightarrow> u64 \<Rightarrow> u16" where
  "elapsed_u16 start_us end_us = ucast (min (saturating_sub end_us start_us) 65535)"

record (overloaded) ('r::len, 'b, 'p) pipeline_ctx =
  pl_board :: 'b
  pl_params :: params
  pl_sensors :: "'r processed_sensors"
  pl_external_attitude :: "external_attitude_msg option"
  pl_aux :: "rosflight_aux_cmd_msg option"
  pl_command :: command_manager
  pl_state :: state_manager
  pl_estimator :: "'r quad_estimator"
  pl_controller :: "'r quad_controller"
  pl_mixer :: "'r matrix_mixer"
  pl_pipeline :: "'r control_pipeline"
  pl_pwm_output :: u32
  pl_pwm :: 'p
  pl_timing :: "control_timing option"

definition pl_flag :: "error_flag \<Rightarrow> bool \<Rightarrow> ('r::len, 'b, 'p) pipeline_ctx \<Rightarrow> ('r, 'b, 'p) pipeline_ctx" where
  "pl_flag f present c = c\<lparr>pl_state := fst (set_error_flag (pl_state c) f present (pl_params c))\<rparr>"

definition pl_clock :: "('r::len, 'b, 'p) pipeline_env \<Rightarrow> ('r, 'b, 'p) pipeline_ctx \<Rightarrow> u64 \<times> ('r, 'b, 'p) pipeline_ctx" where
  "pl_clock V c = (let (t, b) = bo_clock_micros (env_board V) (pl_board c) in (t, c\<lparr>pl_board := b\<rparr>))"

definition pl_pin :: "('r::len, 'b, 'p) pipeline_env \<Rightarrow> bool \<Rightarrow> ('r, 'b, 'p) pipeline_ctx \<Rightarrow> ('r, 'b, 'p) pipeline_ctx" where
  "pl_pin V high c = c\<lparr>pl_board := bo_test_pin_2 (env_board V) high (pl_board c)\<rparr>"

text \<open>A stage is timed only when the caller asks for timing.\<close>

definition timed :: "('r::len, 'b, 'p) pipeline_env \<Rightarrow> (u16 \<Rightarrow> control_timing \<Rightarrow> control_timing) \<Rightarrow>
    (('r, 'b, 'p) pipeline_ctx \<Rightarrow> 'a \<times> ('r, 'b, 'p) pipeline_ctx) \<Rightarrow>
    ('r, 'b, 'p) pipeline_ctx \<Rightarrow> 'a \<times> ('r, 'b, 'p) pipeline_ctx" where
  "timed V upd stage c =
    (if pl_timing c = None then stage c
     else let (t0, c1) = pl_clock V c; (x, c2) = stage c1; (t1, c3) = pl_clock V c2
       in (x, c3\<lparr>pl_timing := map_option (upd (elapsed_u16 t0 t1)) (pl_timing c3)\<rparr>))"

section \<open>The stages\<close>

definition estimator_stage :: "('r::len, 'b, 'p) pipeline_env \<Rightarrow> 'r flt \<Rightarrow> external_attitude_msg option \<Rightarrow>
    ('r, 'b, 'p) pipeline_ctx \<Rightarrow> 'r attitude_state \<times> ('r, 'b, 'p) pipeline_ctx" where
  "estimator_stage V dt ext c =
    (let (st, e) = estimate (env_real V) (pl_estimator c) (sens_imu (pl_sensors c)) dt ext
     in (st, c\<lparr>pl_estimator := e\<rparr>))"

definition controller_stage :: "('r::len, 'b, 'p) pipeline_env \<Rightarrow> 'r flt \<Rightarrow> 'r attitude_state \<Rightarrow>
    ('r, 'b, 'p) pipeline_ctx \<Rightarrow> 'r controller_output \<times> ('r, 'b, 'p) pipeline_ctx" where
  "controller_stage V dt st c =
    (let (out, k) = control (env_real V) (pl_controller c) st (pl_state c)
       (combined_command (pl_command c)) (air_density (env_real V) (pl_sensors c)) dt
     in (out, c\<lparr>pl_controller := k\<rparr>))"

definition mixer_stage :: "('r::len, 'b, 'p) pipeline_env \<Rightarrow> 'r controller_output \<Rightarrow>
    ('r, 'b, 'p) pipeline_ctx \<Rightarrow> 'r mixer_run \<times> ('r, 'b, 'p) pipeline_ctx" where
  "mixer_stage V controls c =
    (let run = mix (env_linalg V) (pl_mixer c) controls
         \<lparr>mc_params = pl_params c, mc_rc_override = cm_rc_override (pl_command c),
          mc_air_density = air_density (env_real V) (pl_sensors c),
          mc_battery_voltage = map_option (\<lambda>b. from_f32 (bat_voltage b)) (sens_battery (pl_sensors c))\<rparr>
     in (run, pl_flag INVALID_MIXER (mr_status run = InvalidMixer) c))"

definition configure_rates_once :: "('r::len, 'b, 'p) pipeline_env \<Rightarrow> ('r, 'b, 'p) pipeline_ctx \<Rightarrow> ('r, 'b, 'p) pipeline_ctx" where
  "configure_rates_once V c =
    (if pwm_rates_configured (pl_pipeline c) then c
     else (case env_configure_rates V (pl_pwm c) (mm_default_pwm_rates (pl_mixer c)) of
         (p, None) \<Rightarrow> c\<lparr>pl_pwm := p, pl_pipeline := (pl_pipeline c)\<lparr>pwm_rates_configured := True\<rparr>\<rparr>
       | (p, Some _) \<Rightarrow> c\<lparr>pl_pwm := p\<rparr>))"

definition pwm_stage :: "('r::len, 'b, 'p) pipeline_env \<Rightarrow> 'r flt list \<Rightarrow>
    ('r, 'b, 'p) pipeline_ctx \<Rightarrow> 'r flt list \<times> ('r, 'b, 'p) pipeline_ctx" where
  "pwm_stage V cmds c0 =
    (let c = configure_rates_once V c0;
       outs = compose_pwm_outputs cmds (mm_output_types (pl_mixer c)) (pl_aux c) (pl_state c) (pl_params c);
       p = fst (write_pwm_commands (env_pwm V) (pl_pwm c) (pl_pwm_output c) outs
         (mm_output_types (pl_mixer c)) (pl_state c))
     in (outs, c\<lparr>pl_pwm := p\<rparr>))"

section \<open>The pipeline\<close>

definition run_stages :: "('r::len, 'b, 'p) pipeline_env \<Rightarrow> 'r flt \<Rightarrow> ('r, 'b, 'p) pipeline_ctx \<Rightarrow> ('r, 'b, 'p) pipeline_ctx" where
  "run_stages V dt c0 =
    (let (loop_start, c1) = pl_clock V c0;
       ext = pl_external_attitude c1;
       (st, c2) = timed V (\<lambda>t tm. tm\<lparr>tm_estimator_us := t\<rparr>) (estimator_stage V dt ext)
         (c1\<lparr>pl_external_attitude := None\<rparr>);
       c3 = pl_flag UNHEALTHY_ESTIMATOR (\<not> as_healthy st) c2;
       (controls, c4) = timed V (\<lambda>t tm. tm\<lparr>tm_controller_us := t\<rparr>) (controller_stage V dt st) c3;
       (run, c5) = timed V (\<lambda>t tm. tm\<lparr>tm_mixer_us := t\<rparr>) (mixer_stage V controls) c4;
       (outs, c6) = timed V (\<lambda>t tm. tm\<lparr>tm_pwm_us := t\<rparr>) (pwm_stage V (mr_commands run)) c5;
       (loop_end, c7) = pl_clock V c6
     in pl_pin V False (c7\<lparr>pl_pipeline := set_latest st (mr_commands run) outs
          (elapsed_u16 loop_start loop_end) (pl_pipeline c7)\<rparr>))"

definition run_control_pipeline_if_new_imu :: "('r::len, 'b, 'p) pipeline_env \<Rightarrow> ('r, 'b, 'p) pipeline_ctx \<Rightarrow>
    bool \<times> ('r, 'b, 'p) pipeline_ctx" where
  "run_control_pipeline_if_new_imu V c = (case sens_imu (pl_sensors c) of
       None \<Rightarrow> (False, c)
     | Some pkt \<Rightarrow>
       (let now = ph_timestamp (imu_header pkt); last = last_imu_time (pl_pipeline c);
          c1 = c\<lparr>pl_pipeline := (pl_pipeline c)\<lparr>last_imu_time := now\<rparr>\<rparr>
        in if last = 0 then (False, c1)
           else if now \<le> last then (False, pl_flag TIME_GOING_BACKWARDS True c)
           else (True, run_stages V (from_u64 (saturating_sub now last) * lit32 1 1000000)
             (pl_pin V True (pl_flag TIME_GOING_BACKWARDS False c1)))))"

end
