(* ===== verification/Telemetry.thy ===== *)
theory Telemetry
  imports Board Param_Service Command Estimator
begin

text \<open>
  The outgoing half of the communication manager of \<^verbatim>\<open>comm.rs\<close>: the messages of the downlink,
  the rates of the telemetry streams, the deadlines that decide which stream is due, the two
  senders (all due streams at once, or the most overdue one) and the freshness that keeps a
  sensor sample from being sent twice. The link behind \<^verbatim>\<open>CommInterface\<close> is a record of
  operations; its send methods are one function of the message.
\<close>

section \<open>Downlink messages\<close>

record attitude_quaternion_msg =
  aq_time_boot_ms :: u32
  aq_q1 :: f32
  aq_q2 :: f32
  aq_q3 :: f32
  aq_q4 :: f32
  aq_rollspeed :: f32
  aq_pitchspeed :: f32
  aq_yawspeed :: f32

record small_imu_msg =
  si_time_boot_us :: u64
  si_xacc :: f32
  si_yacc :: f32
  si_zacc :: f32
  si_xgyro :: f32
  si_ygyro :: f32
  si_zgyro :: f32
  si_temperature :: f32

record small_mag_msg =
  sm_xmag :: f32
  sm_ymag :: f32
  sm_zmag :: f32

record small_baro_msg =
  sb_altitude :: f32
  sb_pressure :: f32
  sb_temperature :: f32

record diff_pressure_msg =
  dp_velocity :: f32
  dp_diff_pressure :: f32
  dp_temperature :: f32

record small_range_msg =
  sr_type :: range_type
  sr_range :: f32
  sr_max_range :: f32
  sr_min_range :: f32

record rosflight_output_raw_msg =
  or_stamp :: u64
  or_values :: "f32 list"

record rosflight_status_msg =
  rs_armed :: u8
  rs_failsafe :: u8
  rs_rc_override :: u16
  rs_offboard :: u8
  rs_error_code :: error_flag
  rs_control_mode :: offboard_control_mode
  rs_num_errors :: i16
  rs_loop_time_us :: i16

record rosflight_gnss_msg =
  gn_seconds :: i64
  gn_nanos :: i32
  gn_fix_type :: gnss_fix_type
  gn_num_sat :: u8
  gn_lat :: f64
  gn_lon :: f64
  gn_height_msl :: f32
  gn_vel_n :: f32
  gn_vel_e :: f32
  gn_vel_d :: f32
  gn_h_acc :: f32
  gn_v_acc :: f32
  gn_s_acc :: f32
  gn_rosflight_timestamp :: u64

record battery_status_msg =
  bs_battery_voltage :: f32
  bs_battery_current :: f32

datatype downlink_message = DlHeartbeat heartbeat_msg | DlParamValue param_value_msg
  | DlStatus rosflight_status_msg | DlTimesync timesync_msg | DlVersion "u8 list"
  | DlOutputRaw rosflight_output_raw_msg | DlAttitude attitude_quaternion_msg
  | DlBaro small_baro_msg | DlDiffPressure diff_pressure_msg | DlImu small_imu_msg
  | DlMag small_mag_msg | DlRcRaw rc_channels_msg | DlRange small_range_msg
  | DlGnss rosflight_gnss_msg | DlCmdAck rosflight_cmd_ack_msg | DlRcChannels rc_channels_msg
  | DlBatteryStatus battery_status_msg | DlStatustext statustext_msg
  | DlHardError rosflight_hard_error_msg

text \<open>\<^verbatim>\<open>CommInterface\<close>: a link sends one message through the board, or reads what arrived into the mailbox.\<close>

record ('b, 'l) comm_interface =
  cl_send :: "'b \<Rightarrow> u8 \<Rightarrow> downlink_message \<Rightarrow> 'l \<Rightarrow> 'b \<times> 'l"
  cl_handle_incoming :: "'b \<Rightarrow> messages \<Rightarrow> 'l \<Rightarrow> 'b \<times> messages \<times> 'l"

section \<open>Rates\<close>

definition OUTPUT_RAW_IMU_DIVISOR :: u64 where "OUTPUT_RAW_IMU_DIVISOR = 8"
definition TELEMETRY_RATE_DISABLED :: u16 where "TELEMETRY_RATE_DISABLED = - 1"

record telemetry_rates =
  heartbeat_hz :: u16
  status_hz :: u16
  imu_hz :: u16
  attitude_hz :: u16
  output_raw_hz :: u16
  diff_pressure_hz :: u16
  baro_hz :: u16
  mag_hz :: u16
  range_hz :: u16
  battery_hz :: u16
  gnss_hz :: u16
  rc_hz :: u16
  output_raw_imu_divisor :: u64

definition telemetry_rate_param :: "params \<Rightarrow> param_id \<Rightarrow> u16" where
  "telemetry_rate_param p pid = (case get_by_id p pid of
     PInt v \<Rightarrow> (if sint v < 0 then TELEMETRY_RATE_DISABLED
       else word_of_int (min (sint v) (sint MAX_TELEMETRY_RATE_HZ)))
   | _ \<Rightarrow> TELEMETRY_RATE_DISABLED)"

definition rates_from_params :: "params \<Rightarrow> telemetry_rates" where
  "rates_from_params p = \<lparr>heartbeat_hz = telemetry_rate_param p PARAM_TELEM_HEARTBEAT_HZ,
     status_hz = telemetry_rate_param p PARAM_TELEM_STATUS_HZ,
     imu_hz = telemetry_rate_param p PARAM_TELEM_IMU_HZ,
     attitude_hz = telemetry_rate_param p PARAM_TELEM_ATTITUDE_HZ,
     output_raw_hz = telemetry_rate_param p PARAM_TELEM_OUTPUT_RAW_HZ,
     diff_pressure_hz = telemetry_rate_param p PARAM_TELEM_DIFF_PRESSURE_HZ,
     baro_hz = telemetry_rate_param p PARAM_TELEM_BARO_HZ,
     mag_hz = telemetry_rate_param p PARAM_TELEM_MAG_HZ,
     range_hz = telemetry_rate_param p PARAM_TELEM_RANGE_HZ,
     battery_hz = telemetry_rate_param p PARAM_TELEM_BATTERY_HZ,
     gnss_hz = telemetry_rate_param p PARAM_TELEM_GNSS_HZ,
     rc_hz = telemetry_rate_param p PARAM_TELEM_RC_HZ, output_raw_imu_divisor = 0\<rparr>"

definition rates_upstream :: telemetry_rates where
  "rates_upstream = \<lparr>heartbeat_hz = 1, status_hz = 10, imu_hz = 0, attitude_hz = 0,
     output_raw_hz = 0, diff_pressure_hz = 0, baro_hz = 0, mag_hz = 0, range_hz = 0,
     battery_hz = 0, gnss_hz = 0, rc_hz = 0, output_raw_imu_divisor = OUTPUT_RAW_IMU_DIVISOR\<rparr>"

definition rates_bounded_high_rate_transport :: telemetry_rates where
  "rates_bounded_high_rate_transport = \<lparr>heartbeat_hz = 1, status_hz = 10, imu_hz = 400,
     attitude_hz = 50, output_raw_hz = 50, diff_pressure_hz = 50, baro_hz = 25, mag_hz = 25,
     range_hz = 50, battery_hz = 25, gnss_hz = 10, rc_hz = 100, output_raw_imu_divisor = 0\<rparr>"

section \<open>Deadlines\<close>

definition saturating_mul :: "u64 \<Rightarrow> u64 \<Rightarrow> u64" where
  "saturating_mul a b = (if uint a * uint b < 2 ^ 64 then a * b else - 1)"

definition interval_us :: "u16 \<Rightarrow> u64" where
  "interval_us rate_hz = 1000000 div ucast rate_hz"

text \<open>\<^verbatim>\<open>stream_due\<close> returns its answer and the new value of \<^verbatim>\<open>last_us\<close>.\<close>

definition stream_due :: "u64 \<Rightarrow> u64 \<Rightarrow> u16 \<Rightarrow> bool \<times> u64" where
  "stream_due now last_us rate =
    (if rate = TELEMETRY_RATE_DISABLED then (False, last_us)
     else if rate = 0 then (True, if last_us = 0 then now else last_us)
     else if last_us = 0 then (True, now)
     else if interval_us rate \<le> saturating_sub now last_us then
       (True, saturating_add last_us
          (saturating_mul (saturating_sub now last_us div interval_us rate) (interval_us rate)))
     else (False, last_us))"

definition stream_due_deadline_us :: "u64 \<Rightarrow> u64 \<Rightarrow> u16 \<Rightarrow> u64 option" where
  "stream_due_deadline_us now last_us rate =
    (if rate = TELEMETRY_RATE_DISABLED then None
     else if rate = 0 then Some (if last_us = 0 then 0 else now)
     else if last_us = 0 then Some 0
     else if interval_us rate \<le> saturating_sub now last_us then Some (saturating_add last_us (interval_us rate))
     else None)"

definition fixed_rate_due :: "u64 \<Rightarrow> u64 \<Rightarrow> u16 \<Rightarrow> bool" where
  "fixed_rate_due now last_us rate =
    (if rate = TELEMETRY_RATE_DISABLED then False
     else if rate = 0 then True
     else interval_us rate \<le> saturating_sub now last_us)"

definition fixed_rate_due_deadline_us :: "u64 \<Rightarrow> u64 \<Rightarrow> u16 \<Rightarrow> u64 option" where
  "fixed_rate_due_deadline_us now last_us rate =
    (if rate = TELEMETRY_RATE_DISABLED then None
     else if rate = 0 then Some now
     else if interval_us rate \<le> saturating_sub now last_us then Some (saturating_add last_us (interval_us rate))
     else None)"

section \<open>The manager's state\<close>

record telemetry_rate_state =
  imu_us :: u64
  attitude_us :: u64
  output_raw_us :: u64
  diff_pressure_us :: u64
  baro_us :: u64
  mag_us :: u64
  range_us :: u64
  battery_us :: u64
  gnss_us :: u64
  rc_us :: u64

definition telemetry_rate_state_default :: telemetry_rate_state where
  "telemetry_rate_state_default = \<lparr>imu_us = 0, attitude_us = 0, output_raw_us = 0,
     diff_pressure_us = 0, baro_us = 0, mag_us = 0, range_us = 0, battery_us = 0, gnss_us = 0,
     rc_us = 0\<rparr>"

record telemetry_freshness_state =
  fresh_imu :: "u64 option"
  fresh_attitude :: "u64 option"
  fresh_output_raw :: "u64 option"
  fresh_diff_pressure :: "u64 option"
  fresh_baro :: "u64 option"
  fresh_mag :: "u64 option"
  fresh_range :: "u64 option"
  fresh_battery :: "u64 option"
  fresh_gnss :: "u64 option"
  fresh_rc :: "u64 option"

definition telemetry_freshness_default :: telemetry_freshness_state where
  "telemetry_freshness_default = \<lparr>fresh_imu = None, fresh_attitude = None, fresh_output_raw = None,
     fresh_diff_pressure = None, fresh_baro = None, fresh_mag = None, fresh_range = None,
     fresh_battery = None, fresh_gnss = None, fresh_rc = None\<rparr>"

fun last_sent :: "telemetry_freshness_state \<Rightarrow> named_telemetry_stream \<Rightarrow> u64 option" where
  "last_sent f TelImu = fresh_imu f"
| "last_sent f TelAttitude = fresh_attitude f"
| "last_sent f TelOutputRaw = fresh_output_raw f"
| "last_sent f TelDiffPressure = fresh_diff_pressure f"
| "last_sent f TelBaro = fresh_baro f"
| "last_sent f TelMag = fresh_mag f"
| "last_sent f TelRange = fresh_range f"
| "last_sent f TelBattery = fresh_battery f"
| "last_sent f TelGnss = fresh_gnss f"
| "last_sent f TelRc = fresh_rc f"
| "last_sent f TelHeartbeat = None"
| "last_sent f TelStatus = None"

fun mark_sent :: "named_telemetry_stream \<Rightarrow> u64 \<Rightarrow> telemetry_freshness_state \<Rightarrow> telemetry_freshness_state" where
  "mark_sent TelImu t f = f\<lparr>fresh_imu := Some t\<rparr>"
| "mark_sent TelAttitude t f = f\<lparr>fresh_attitude := Some t\<rparr>"
| "mark_sent TelOutputRaw t f = f\<lparr>fresh_output_raw := Some t\<rparr>"
| "mark_sent TelDiffPressure t f = f\<lparr>fresh_diff_pressure := Some t\<rparr>"
| "mark_sent TelBaro t f = f\<lparr>fresh_baro := Some t\<rparr>"
| "mark_sent TelMag t f = f\<lparr>fresh_mag := Some t\<rparr>"
| "mark_sent TelRange t f = f\<lparr>fresh_range := Some t\<rparr>"
| "mark_sent TelBattery t f = f\<lparr>fresh_battery := Some t\<rparr>"
| "mark_sent TelGnss t f = f\<lparr>fresh_gnss := Some t\<rparr>"
| "mark_sent TelRc t f = f\<lparr>fresh_rc := Some t\<rparr>"
| "mark_sent TelHeartbeat t f = f"
| "mark_sent TelStatus t f = f"

record 'l comm_manager =
  last_heartbeat_us :: u64
  last_status_send_us :: u64
  output_raw_imu_count :: u64
  cm_rates :: telemetry_rates
  cm_rate_state :: telemetry_rate_state
  cm_freshness :: telemetry_freshness_state
  sysid :: u8
  comm_link :: 'l
  cm_msgs :: messages

definition comm_manager_new :: "'l \<Rightarrow> u64 \<Rightarrow> 'l comm_manager" where
  "comm_manager_new link now = \<lparr>last_heartbeat_us = now, last_status_send_us = now,
     output_raw_imu_count = 0, cm_rates = rates_upstream, cm_rate_state = telemetry_rate_state_default,
     cm_freshness = telemetry_freshness_default, sysid = 1, comm_link = link, cm_msgs = messages_new\<rparr>"

definition set_telemetry_rates :: "telemetry_rates \<Rightarrow> 'l comm_manager \<Rightarrow> 'l comm_manager" where
  "set_telemetry_rates r m = m\<lparr>cm_rates := r, cm_rate_state := telemetry_rate_state_default,
     output_raw_imu_count := 0\<rparr>"

definition configure_telemetry_from_params :: "params \<Rightarrow> 'l comm_manager \<Rightarrow> 'l comm_manager" where
  "configure_telemetry_from_params p m = set_telemetry_rates (rates_from_params p) m"

text \<open>
  The slots of a stream: its rate, and the time it was last due. Every match arm of the source
  reads and writes the fields of its own stream.
\<close>

fun stream_rate :: "telemetry_rates \<Rightarrow> named_telemetry_stream \<Rightarrow> u16" where
  "stream_rate r TelHeartbeat = heartbeat_hz r"
| "stream_rate r TelStatus = status_hz r"
| "stream_rate r TelImu = imu_hz r"
| "stream_rate r TelAttitude = attitude_hz r"
| "stream_rate r TelOutputRaw = output_raw_hz r"
| "stream_rate r TelDiffPressure = diff_pressure_hz r"
| "stream_rate r TelBaro = baro_hz r"
| "stream_rate r TelMag = mag_hz r"
| "stream_rate r TelRange = range_hz r"
| "stream_rate r TelBattery = battery_hz r"
| "stream_rate r TelGnss = gnss_hz r"
| "stream_rate r TelRc = rc_hz r"

fun stream_last :: "'l comm_manager \<Rightarrow> named_telemetry_stream \<Rightarrow> u64" where
  "stream_last m TelHeartbeat = last_heartbeat_us m"
| "stream_last m TelStatus = last_status_send_us m"
| "stream_last m TelImu = imu_us (cm_rate_state m)"
| "stream_last m TelAttitude = attitude_us (cm_rate_state m)"
| "stream_last m TelOutputRaw = output_raw_us (cm_rate_state m)"
| "stream_last m TelDiffPressure = diff_pressure_us (cm_rate_state m)"
| "stream_last m TelBaro = baro_us (cm_rate_state m)"
| "stream_last m TelMag = mag_us (cm_rate_state m)"
| "stream_last m TelRange = range_us (cm_rate_state m)"
| "stream_last m TelBattery = battery_us (cm_rate_state m)"
| "stream_last m TelGnss = gnss_us (cm_rate_state m)"
| "stream_last m TelRc = rc_us (cm_rate_state m)"

fun set_stream_last :: "named_telemetry_stream \<Rightarrow> u64 \<Rightarrow> 'l comm_manager \<Rightarrow> 'l comm_manager" where
  "set_stream_last TelHeartbeat t m = m\<lparr>last_heartbeat_us := t\<rparr>"
| "set_stream_last TelStatus t m = m\<lparr>last_status_send_us := t\<rparr>"
| "set_stream_last TelImu t m = m\<lparr>cm_rate_state := (cm_rate_state m)\<lparr>imu_us := t\<rparr>\<rparr>"
| "set_stream_last TelAttitude t m = m\<lparr>cm_rate_state := (cm_rate_state m)\<lparr>attitude_us := t\<rparr>\<rparr>"
| "set_stream_last TelOutputRaw t m = m\<lparr>cm_rate_state := (cm_rate_state m)\<lparr>output_raw_us := t\<rparr>\<rparr>"
| "set_stream_last TelDiffPressure t m = m\<lparr>cm_rate_state := (cm_rate_state m)\<lparr>diff_pressure_us := t\<rparr>\<rparr>"
| "set_stream_last TelBaro t m = m\<lparr>cm_rate_state := (cm_rate_state m)\<lparr>baro_us := t\<rparr>\<rparr>"
| "set_stream_last TelMag t m = m\<lparr>cm_rate_state := (cm_rate_state m)\<lparr>mag_us := t\<rparr>\<rparr>"
| "set_stream_last TelRange t m = m\<lparr>cm_rate_state := (cm_rate_state m)\<lparr>range_us := t\<rparr>\<rparr>"
| "set_stream_last TelBattery t m = m\<lparr>cm_rate_state := (cm_rate_state m)\<lparr>battery_us := t\<rparr>\<rparr>"
| "set_stream_last TelGnss t m = m\<lparr>cm_rate_state := (cm_rate_state m)\<lparr>gnss_us := t\<rparr>\<rparr>"
| "set_stream_last TelRc t m = m\<lparr>cm_rate_state := (cm_rate_state m)\<lparr>rc_us := t\<rparr>\<rparr>"

fun set_stream_rate :: "named_telemetry_stream \<Rightarrow> u16 \<Rightarrow> telemetry_rates \<Rightarrow> telemetry_rates" where
  "set_stream_rate TelHeartbeat v r = r\<lparr>heartbeat_hz := v\<rparr>"
| "set_stream_rate TelStatus v r = r\<lparr>status_hz := v\<rparr>"
| "set_stream_rate TelImu v r = r\<lparr>imu_hz := v\<rparr>"
| "set_stream_rate TelAttitude v r = r\<lparr>attitude_hz := v\<rparr>"
| "set_stream_rate TelOutputRaw v r = r\<lparr>output_raw_hz := v\<rparr>"
| "set_stream_rate TelDiffPressure v r = r\<lparr>diff_pressure_hz := v\<rparr>"
| "set_stream_rate TelBaro v r = r\<lparr>baro_hz := v\<rparr>"
| "set_stream_rate TelMag v r = r\<lparr>mag_hz := v\<rparr>"
| "set_stream_rate TelRange v r = r\<lparr>range_hz := v\<rparr>"
| "set_stream_rate TelBattery v r = r\<lparr>battery_hz := v\<rparr>"
| "set_stream_rate TelGnss v r = r\<lparr>gnss_hz := v\<rparr>"
| "set_stream_rate TelRc v r = r\<lparr>rc_hz := v\<rparr>"

definition update_telemetry_param :: "params \<Rightarrow> param_id \<Rightarrow> u64 \<Rightarrow> 'l comm_manager \<Rightarrow> bool \<times> 'l comm_manager" where
  "update_telemetry_param p pid now m = (case telemetry_stream_for_param pid of
     None \<Rightarrow> (False, m)
   | Some s \<Rightarrow>
      (let m1 = set_stream_last s now (m\<lparr>cm_rates := set_stream_rate s (telemetry_rate_param p pid) (cm_rates m)\<rparr>)
       in (True, if s = TelOutputRaw
             then m1\<lparr>cm_rates := (cm_rates m1)\<lparr>output_raw_imu_divisor := 0\<rparr>, output_raw_imu_count := 0\<rparr>
             else m1)))"

section \<open>The messages of the streams\<close>

record (overloaded) ('r::len) telemetry_ctx =
  tx_now_us :: u64
  tx_state :: state_manager
  tx_command :: command_manager
  tx_params :: params
  tx_estimator :: "'r attitude_state"
  tx_sensors :: "'r processed_sensors"
  tx_actuators :: "'r flt list"
  tx_sensor_errors :: u16
  tx_loop_time_us :: u16

definition MAV_TYPE_FIXED_WING :: u8 where "MAV_TYPE_FIXED_WING = 1"
definition MAV_TYPE_QUADROTOR :: u8 where "MAV_TYPE_QUADROTOR = 2"

definition heartbeat_message :: "params \<Rightarrow> downlink_message" where
  "heartbeat_message p = DlHeartbeat \<lparr>hb_type = (if int_param_or p PARAM_FIXED_WING 0 \<noteq> 0
       then MAV_TYPE_FIXED_WING else MAV_TYPE_QUADROTOR),
     hb_autopilot = 0, hb_base_mode = 0, hb_custom_mode = 0, hb_system_status = 0, hb_mavlink_version = 0\<rparr>"

definition status_message :: "('r::len) telemetry_ctx \<Rightarrow> downlink_message" where
  "status_message c = DlStatus \<lparr>rs_armed = of_bool (is_armed (tx_state c)),
     rs_failsafe = of_bool (is_in_failsafe (tx_state c)), rs_rc_override = cm_rc_override (tx_command c),
     rs_offboard = of_bool (is_offboard_active (tx_command c)), rs_error_code = get_errors (tx_state c),
     rs_control_mode = offboard_mode_of (get_control_mode (tx_command c)),
     rs_num_errors = tx_sensor_errors c, rs_loop_time_us = tx_loop_time_us c\<rparr>"

definition imu_message :: "('r::len) imu_packet \<Rightarrow> downlink_message" where
  "imu_message k = DlImu \<lparr>si_time_boot_us = ph_timestamp (imu_header k),
     si_xacc = to_f32_lossy (imu_accel k ! 0), si_yacc = to_f32_lossy (imu_accel k ! 1),
     si_zacc = to_f32_lossy (imu_accel k ! 2), si_xgyro = to_f32_lossy (imu_gyro k ! 0),
     si_ygyro = to_f32_lossy (imu_gyro k ! 1), si_zgyro = to_f32_lossy (imu_gyro k ! 2),
     si_temperature = imu_temperature k\<rparr>"

definition attitude_message :: "('r::len) attitude_state \<Rightarrow> 'r imu_packet \<Rightarrow> downlink_message" where
  "attitude_message st k = (let q = attitude_q st; qd = attitude_q_dot st in DlAttitude
     \<lparr>aq_time_boot_ms = ucast (ph_timestamp (imu_header k) div 1000),
      aq_q1 = q ! 0, aq_q2 = q ! 1, aq_q3 = q ! 2, aq_q4 = q ! 3,
      aq_rollspeed = flt_of_int 2 * (q ! 0 * qd ! 1 - q ! 1 * qd ! 0 - q ! 2 * qd ! 3 + q ! 3 * qd ! 2),
      aq_pitchspeed = flt_of_int 2 * (q ! 0 * qd ! 2 - q ! 1 * qd ! 3 - q ! 2 * qd ! 0 + q ! 3 * qd ! 1),
      aq_yawspeed = flt_of_int 2 * (q ! 0 * qd ! 3 - q ! 1 * qd ! 2 - q ! 2 * qd ! 1 + q ! 3 * qd ! 0)\<rparr>)"

definition gnss_message :: "gnss_packet \<Rightarrow> downlink_message" where
  "gnss_message k = DlGnss \<lparr>gn_seconds = unix_seconds k, gn_nanos = unix_nanos k, gn_fix_type = fix_type k,
     gn_num_sat = num_sats k, gn_lat = gnss_lat k, gn_lon = gnss_lon k, gn_height_msl = height_msl k,
     gn_vel_n = vel_n k, gn_vel_e = vel_e k, gn_vel_d = vel_d k, gn_h_acc = h_acc k,
     gn_v_acc = v_acc k, gn_s_acc = s_acc k, gn_rosflight_timestamp = ph_timestamp (gnss_header k)\<rparr>"

definition diff_pressure_message :: "pitot_packet \<Rightarrow> downlink_message" where
  "diff_pressure_message k = DlDiffPressure \<lparr>dp_velocity = indicated_airspeed k,
     dp_diff_pressure = differential_pressure k, dp_temperature = pitot_temperature k\<rparr>"

definition baro_message :: "baro_packet \<Rightarrow> downlink_message" where
  "baro_message k = DlBaro \<lparr>sb_altitude = baro_altitude k, sb_pressure = baro_pressure k,
     sb_temperature = baro_temperature k\<rparr>"

definition mag_message :: "mag_packet \<Rightarrow> downlink_message" where
  "mag_message k = DlMag \<lparr>sm_xmag = mag_flux k ! 0, sm_ymag = mag_flux k ! 1, sm_zmag = mag_flux k ! 2\<rparr>"

definition range_message :: "range_packet \<Rightarrow> downlink_message" where
  "range_message k = DlRange \<lparr>sr_type = range_kind k, sr_range = range_value k,
     sr_max_range = max_range k, sr_min_range = min_range k\<rparr>"

definition battery_message :: "battery_packet \<Rightarrow> downlink_message" where
  "battery_message k = DlBatteryStatus \<lparr>bs_battery_voltage = bat_voltage k, bs_battery_current = bat_current k\<rparr>"

definition rc_message :: "rc_packet \<Rightarrow> u32 \<Rightarrow> downlink_message" where
  "rc_message k now_ms = (let count = min (min (unat (n_chan k)) 8) RC_PACKET_CHANNELS in DlRcRaw
     \<lparr>rcc_time_boot_ms = now_ms, rcc_chancount = word_of_nat count,
      rcc_channels = map (\<lambda>v. flt_to_u16 (v * flt_of_int 1000 + flt_of_int 1000)) (take count (rcp_chan k))
        @ replicate (RC_PACKET_CHANNELS - count) 0, rcc_rssi = 0\<rparr>)"

definition output_raw_message :: "'r::len flt list \<Rightarrow> u32 \<Rightarrow> downlink_message" where
  "output_raw_message values now_ms = DlOutputRaw \<lparr>or_stamp = ucast now_ms,
     or_values = map to_f32_lossy (take 14 values) @ replicate (14 - length values) 0\<rparr>"

fun telemetry_stream_sample_timestamp :: "named_telemetry_stream \<Rightarrow> ('r::len) processed_sensors \<Rightarrow> u64 option" where
  "telemetry_stream_sample_timestamp TelImu s = map_option (\<lambda>k. ph_timestamp (imu_header k)) (sens_imu s)"
| "telemetry_stream_sample_timestamp TelAttitude s = map_option (\<lambda>k. ph_timestamp (imu_header k)) (sens_imu s)"
| "telemetry_stream_sample_timestamp TelOutputRaw s = map_option (\<lambda>k. ph_timestamp (imu_header k)) (sens_imu s)"
| "telemetry_stream_sample_timestamp TelRc s = map_option (\<lambda>k. ph_timestamp (rcp_header k)) (sens_rc s)"
| "telemetry_stream_sample_timestamp TelGnss s = map_option (\<lambda>k. ph_timestamp (gnss_header k)) (sens_gnss s)"
| "telemetry_stream_sample_timestamp TelDiffPressure s = map_option (\<lambda>k. ph_timestamp (pitot_header k)) (sens_pitot s)"
| "telemetry_stream_sample_timestamp TelBaro s = map_option (\<lambda>k. ph_timestamp (baro_header k)) (sens_baro s)"
| "telemetry_stream_sample_timestamp TelMag s = map_option (\<lambda>k. ph_timestamp (mag_header k)) (sens_mag s)"
| "telemetry_stream_sample_timestamp TelRange s = map_option (\<lambda>k. ph_timestamp (range_header k)) (sens_range s)"
| "telemetry_stream_sample_timestamp TelBattery s = map_option (\<lambda>k. ph_timestamp (bat_header k)) (sens_battery s)"
| "telemetry_stream_sample_timestamp TelHeartbeat s = None"
| "telemetry_stream_sample_timestamp TelStatus s = None"

section \<open>Which stream is due\<close>

definition is_sensor_stream :: "named_telemetry_stream \<Rightarrow> bool" where
  "is_sensor_stream s \<longleftrightarrow> s \<noteq> TelHeartbeat \<and> s \<noteq> TelStatus"

definition output_raw_divisor_due :: "'l comm_manager \<Rightarrow> bool" where
  "output_raw_divisor_due m \<longleftrightarrow> output_raw_imu_divisor (cm_rates m) \<noteq> 0
     \<and> output_raw_imu_count m mod output_raw_imu_divisor (cm_rates m) = 0"

text \<open>
  The first check returns \<^verbatim>\<open>None\<close> for a sensor stream without a sample, or whose sample was sent,
  so the later \<^verbatim>\<open>and_then\<close> on the same packet always continues.
\<close>

definition named_telemetry_stream_deadline :: "'l comm_manager \<Rightarrow> u64 \<Rightarrow> ('r::len) processed_sensors
    \<Rightarrow> named_telemetry_stream \<Rightarrow> u64 option" where
  "named_telemetry_stream_deadline m now sensors s =
    (let rate = stream_rate (cm_rates m) s; last_us = stream_last m s
     in if \<not> is_sensor_stream s then fixed_rate_due_deadline_us now last_us rate
     else (case telemetry_stream_sample_timestamp s sensors of
         None \<Rightarrow> None
       | Some t \<Rightarrow>
          if last_sent (cm_freshness m) s = Some t then None
          else if s = TelOutputRaw \<and> rate = 0 then (if output_raw_divisor_due m then Some now else None)
          else stream_due_deadline_us now last_us rate))"

definition considered_streams :: "('r::len) processed_sensors \<Rightarrow> named_telemetry_stream list" where
  "considered_streams s = [TelHeartbeat, TelStatus]
     @ (if sens_imu s \<noteq> None then [TelImu, TelAttitude, TelOutputRaw] else [])
     @ (if sens_rc s \<noteq> None then [TelRc] else []) @ (if sens_gnss s \<noteq> None then [TelGnss] else [])
     @ (if sens_pitot s \<noteq> None then [TelDiffPressure] else [])
     @ (if sens_baro s \<noteq> None then [TelBaro] else []) @ (if sens_mag s \<noteq> None then [TelMag] else [])
     @ (if sens_range s \<noteq> None then [TelRange] else [])
     @ (if sens_battery s \<noteq> None then [TelBattery] else [])"

definition consider_stream :: "(named_telemetry_stream \<Rightarrow> u64 option) \<Rightarrow> named_telemetry_stream
    \<Rightarrow> (named_telemetry_stream \<times> u64) option \<Rightarrow> (named_telemetry_stream \<times> u64) option" where
  "consider_stream deadline_of s selected = (case deadline_of s of
     None \<Rightarrow> selected
   | Some d \<Rightarrow> (case selected of
       None \<Rightarrow> Some (s, d)
     | Some (_, best) \<Rightarrow> if d < best then Some (s, d) else selected))"

definition select_due_named_telemetry_stream :: "'l comm_manager \<Rightarrow> u64 \<Rightarrow> ('r::len) processed_sensors
    \<Rightarrow> named_telemetry_stream option" where
  "select_due_named_telemetry_stream m now sensors = map_option fst
     (fold (consider_stream (named_telemetry_stream_deadline m now sensors)) (considered_streams sensors) None)"

definition named_telemetry_due :: "'l comm_manager \<Rightarrow> u64 \<Rightarrow> ('r::len) processed_sensors \<Rightarrow> bool" where
  "named_telemetry_due m now sensors \<longleftrightarrow> select_due_named_telemetry_stream m now sensors \<noteq> None"

section \<open>Sending\<close>

type_synonym ('l, 'b) comm_run = "'l comm_manager \<times> 'b"

definition send_message :: "('b, 'l) comm_interface \<Rightarrow> downlink_message \<Rightarrow> ('l, 'b) comm_run \<Rightarrow> ('l, 'b) comm_run" where
  "send_message L msg = (\<lambda>(m, b). let (b', l) = cl_send L b (sysid m) msg (comm_link m)
     in (m\<lparr>comm_link := l\<rparr>, b'))"

definition check_stream_due :: "u64 \<Rightarrow> named_telemetry_stream \<Rightarrow> 'l comm_manager \<Rightarrow> bool \<times> 'l comm_manager" where
  "check_stream_due now s m = (let (due, t) = stream_due now (stream_last m s) (stream_rate (cm_rates m) s)
     in (due, set_stream_last s t m))"

definition send_rc_raw :: "('r::len, 'b) board_ops \<Rightarrow> ('b, 'l) comm_interface \<Rightarrow> rc_packet
    \<Rightarrow> ('l, 'b) comm_run \<Rightarrow> ('l, 'b) comm_run" where
  "send_rc_raw B L k = (\<lambda>(m, b). let (now_ms, b1) = bo_clock_millis B b
     in send_message L (rc_message k now_ms) (m, b1))"

definition send_output_raw :: "('r::len, 'b) board_ops \<Rightarrow> ('b, 'l) comm_interface \<Rightarrow> 'r flt list
    \<Rightarrow> ('l, 'b) comm_run \<Rightarrow> ('l, 'b) comm_run" where
  "send_output_raw B L values = (\<lambda>(m, b). let (now_ms, b1) = bo_clock_millis B b
     in send_message L (output_raw_message values now_ms) (m, b1))"

text \<open>The message of a sensor stream, if its sample is there.\<close>

definition send_sample :: "('r::len, 'b) board_ops \<Rightarrow> ('b, 'l) comm_interface \<Rightarrow> 'r telemetry_ctx
    \<Rightarrow> named_telemetry_stream \<Rightarrow> ('l, 'b) comm_run \<Rightarrow> ('l, 'b) comm_run" where
  "send_sample B L c s x = (let sn = tx_sensors c in case s of
     TelImu \<Rightarrow> (case sens_imu sn of None \<Rightarrow> x | Some k \<Rightarrow> send_message L (imu_message k) x)
   | TelAttitude \<Rightarrow> (case sens_imu sn of None \<Rightarrow> x | Some k \<Rightarrow> send_message L (attitude_message (tx_estimator c) k) x)
   | TelOutputRaw \<Rightarrow> send_output_raw B L (tx_actuators c) x
   | TelRc \<Rightarrow> (case sens_rc sn of None \<Rightarrow> x | Some k \<Rightarrow> send_rc_raw B L k x)
   | TelGnss \<Rightarrow> (case sens_gnss sn of None \<Rightarrow> x | Some k \<Rightarrow> send_message L (gnss_message k) x)
   | TelDiffPressure \<Rightarrow> (case sens_pitot sn of None \<Rightarrow> x | Some k \<Rightarrow> send_message L (diff_pressure_message k) x)
   | TelBaro \<Rightarrow> (case sens_baro sn of None \<Rightarrow> x | Some k \<Rightarrow> send_message L (baro_message k) x)
   | TelMag \<Rightarrow> (case sens_mag sn of None \<Rightarrow> x | Some k \<Rightarrow> send_message L (mag_message k) x)
   | TelRange \<Rightarrow> (case sens_range sn of None \<Rightarrow> x | Some k \<Rightarrow> send_message L (range_message k) x)
   | TelBattery \<Rightarrow> (case sens_battery sn of None \<Rightarrow> x | Some k \<Rightarrow> send_message L (battery_message k) x)
   | TelHeartbeat \<Rightarrow> send_message L (heartbeat_message (tx_params c)) x
   | TelStatus \<Rightarrow> send_message L (status_message c) x)"

definition mark_stream_sent :: "named_telemetry_stream \<Rightarrow> u64 \<Rightarrow> ('l, 'b) comm_run \<Rightarrow> ('l, 'b) comm_run" where
  "mark_stream_sent s t = (\<lambda>(m, b). (m\<lparr>cm_freshness := mark_sent s t (cm_freshness m)\<rparr>, b))"

section \<open>One stream at a time\<close>

datatype realtime_telemetry_priority_gate = DueDeadline | FreshSample

record realtime_telemetry_priority =
  pri_stream :: named_telemetry_stream
  pri_gate :: realtime_telemetry_priority_gate

definition send_fixed_rate :: "('r::len, 'b) board_ops \<Rightarrow> ('b, 'l) comm_interface \<Rightarrow> 'r telemetry_ctx
    \<Rightarrow> named_telemetry_stream \<Rightarrow> ('l, 'b) comm_run \<Rightarrow> ('l, 'b) comm_run" where
  "send_fixed_rate B L c s x = (let (m, b) = send_sample B L c s x in (set_stream_last s (tx_now_us c) m, b))"

definition send_if_due :: "('r::len, 'b) board_ops \<Rightarrow> ('b, 'l) comm_interface \<Rightarrow> 'r telemetry_ctx
    \<Rightarrow> named_telemetry_stream \<Rightarrow> ('l, 'b) comm_run \<Rightarrow> bool \<times> ('l, 'b) comm_run" where
  "send_if_due B L c s = (\<lambda>(m, b).
     if telemetry_stream_sample_timestamp s (tx_sensors c) = None then (False, (m, b))
     else (let (due, m1) = check_stream_due (tx_now_us c) s m
       in if due then (True, send_sample B L c s (m1, b)) else (False, (m1, b))))"

definition imu_sample_unsent :: "('r::len) telemetry_ctx \<Rightarrow> 'l comm_manager \<Rightarrow> bool" where
  "imu_sample_unsent c m \<longleftrightarrow> (case telemetry_stream_sample_timestamp TelImu (tx_sensors c) of
     None \<Rightarrow> False | Some t \<Rightarrow> last_sent (cm_freshness m) TelImu \<noteq> Some t)"

definition send_imu_if_due :: "('r::len, 'b) board_ops \<Rightarrow> ('b, 'l) comm_interface \<Rightarrow> 'r telemetry_ctx
    \<Rightarrow> ('l, 'b) comm_run \<Rightarrow> bool \<times> ('l, 'b) comm_run" where
  "send_imu_if_due B L c = (\<lambda>(m, b). if imu_sample_unsent c m then send_if_due B L c TelImu (m, b) else (False, (m, b)))"

definition send_imu_if_fresh :: "('r::len, 'b) board_ops \<Rightarrow> ('b, 'l) comm_interface \<Rightarrow> 'r telemetry_ctx
    \<Rightarrow> ('l, 'b) comm_run \<Rightarrow> bool \<times> ('l, 'b) comm_run" where
  "send_imu_if_fresh B L c = (\<lambda>(m, b).
     if imu_sample_unsent c m then (True, send_fixed_rate B L c TelImu (m, b)) else (False, (m, b)))"

definition send_output_raw_if_due :: "('r::len, 'b) board_ops \<Rightarrow> ('b, 'l) comm_interface \<Rightarrow> 'r telemetry_ctx
    \<Rightarrow> ('l, 'b) comm_run \<Rightarrow> bool \<times> ('l, 'b) comm_run" where
  "send_output_raw_if_due B L c = (\<lambda>(m, b).
     if sens_imu (tx_sensors c) = None then (False, (m, b))
     else (let (due, m1) = (if output_raw_hz (cm_rates m) = 0 then (output_raw_divisor_due m, m)
                            else check_stream_due (tx_now_us c) TelOutputRaw m);
             m2 = m1\<lparr>output_raw_imu_count := output_raw_imu_count m1 + 1\<rparr>
       in if due then (True, send_output_raw B L (tx_actuators c) (m2, b)) else (False, (m2, b))))"

definition send_selected_named_telemetry_stream_with_gate :: "('r::len, 'b) board_ops \<Rightarrow> ('b, 'l) comm_interface
    \<Rightarrow> 'r telemetry_ctx \<Rightarrow> named_telemetry_stream \<Rightarrow> realtime_telemetry_priority_gate \<Rightarrow> ('l, 'b) comm_run
    \<Rightarrow> bool \<times> ('l, 'b) comm_run" where
  "send_selected_named_telemetry_stream_with_gate B L c s gate x =
    (let (sent, x1) =
       (if \<not> is_sensor_stream s then (True, send_fixed_rate B L c s x)
        else if s = TelImu then
          (case gate of DueDeadline \<Rightarrow> send_imu_if_due B L c x | FreshSample \<Rightarrow> send_imu_if_fresh B L c x)
        else if s = TelOutputRaw then send_output_raw_if_due B L c x
        else send_if_due B L c s x)
     in (sent, if sent then (case telemetry_stream_sample_timestamp s (tx_sensors c) of
           None \<Rightarrow> x1 | Some t \<Rightarrow> mark_stream_sent s t x1) else x1))"

definition send_selected_named_telemetry_stream :: "('r::len, 'b) board_ops \<Rightarrow> ('b, 'l) comm_interface
    \<Rightarrow> 'r telemetry_ctx \<Rightarrow> named_telemetry_stream \<Rightarrow> ('l, 'b) comm_run \<Rightarrow> bool \<times> ('l, 'b) comm_run" where
  "send_selected_named_telemetry_stream B L c s x =
    send_selected_named_telemetry_stream_with_gate B L c s DueDeadline x"

definition send_one_named_telemetry_stream :: "('r::len, 'b) board_ops \<Rightarrow> ('b, 'l) comm_interface
    \<Rightarrow> 'r telemetry_ctx \<Rightarrow> ('l, 'b) comm_run \<Rightarrow> bool \<times> ('l, 'b) comm_run" where
  "send_one_named_telemetry_stream B L c x =
    (case select_due_named_telemetry_stream (fst x) (tx_now_us c) (tx_sensors c) of
       None \<Rightarrow> (False, x)
     | Some s \<Rightarrow> send_selected_named_telemetry_stream B L c s x)"

definition send_named_telemetry_stream_if_due :: "('r::len, 'b) board_ops \<Rightarrow> ('b, 'l) comm_interface
    \<Rightarrow> 'r telemetry_ctx \<Rightarrow> named_telemetry_stream \<Rightarrow> ('l, 'b) comm_run \<Rightarrow> bool \<times> ('l, 'b) comm_run" where
  "send_named_telemetry_stream_if_due B L c s x =
    (case named_telemetry_stream_deadline (fst x) (tx_now_us c) (tx_sensors c) s of
       None \<Rightarrow> (False, x)
     | Some _ \<Rightarrow> send_selected_named_telemetry_stream B L c s x)"

definition send_named_telemetry_stream_with_gate :: "('r::len, 'b) board_ops \<Rightarrow> ('b, 'l) comm_interface
    \<Rightarrow> 'r telemetry_ctx \<Rightarrow> realtime_telemetry_priority \<Rightarrow> ('l, 'b) comm_run \<Rightarrow> bool \<times> ('l, 'b) comm_run" where
  "send_named_telemetry_stream_with_gate B L c pri x = (case pri_gate pri of
     DueDeadline \<Rightarrow> send_named_telemetry_stream_if_due B L c (pri_stream pri) x
   | FreshSample \<Rightarrow>
      (if pri_stream pri \<noteq> TelImu then send_named_telemetry_stream_if_due B L c (pri_stream pri) x
       else send_selected_named_telemetry_stream_with_gate B L c (pri_stream pri) (pri_gate pri) x))"

section \<open>All due streams at once\<close>

definition send_fixed_rate_if_due :: "('r::len, 'b) board_ops \<Rightarrow> ('b, 'l) comm_interface \<Rightarrow> 'r telemetry_ctx
    \<Rightarrow> named_telemetry_stream \<Rightarrow> ('l, 'b) comm_run \<Rightarrow> ('l, 'b) comm_run" where
  "send_fixed_rate_if_due B L c s x =
    (if fixed_rate_due (tx_now_us c) (stream_last (fst x) s) (stream_rate (cm_rates (fst x)) s)
     then send_fixed_rate B L c s x else x)"

definition send_fresh_if_due :: "('r::len, 'b) board_ops \<Rightarrow> ('b, 'l) comm_interface \<Rightarrow> 'r telemetry_ctx
    \<Rightarrow> named_telemetry_stream \<Rightarrow> ('l, 'b) comm_run \<Rightarrow> ('l, 'b) comm_run" where
  "send_fresh_if_due B L c s x = (case telemetry_stream_sample_timestamp s (tx_sensors c) of
     None \<Rightarrow> x
   | Some t \<Rightarrow>
      (if last_sent (cm_freshness (fst x)) s = Some t then x
       else (case send_if_due B L c s x of
           (True, x1) \<Rightarrow> mark_stream_sent s t x1
         | (False, x1) \<Rightarrow> x1)))"

definition send_fresh_output_raw :: "('r::len, 'b) board_ops \<Rightarrow> ('b, 'l) comm_interface \<Rightarrow> 'r telemetry_ctx
    \<Rightarrow> ('l, 'b) comm_run \<Rightarrow> ('l, 'b) comm_run" where
  "send_fresh_output_raw B L c x =
    (if output_raw_hz (cm_rates (fst x)) \<noteq> 0 then send_fresh_if_due B L c TelOutputRaw x
     else (case telemetry_stream_sample_timestamp TelOutputRaw (tx_sensors c) of
         None \<Rightarrow> x
       | Some t \<Rightarrow>
          (if last_sent (cm_freshness (fst x)) TelOutputRaw = Some t then x
           else (let (m1, b1) = mark_stream_sent TelOutputRaw t
                   (if output_raw_divisor_due (fst x) then send_output_raw B L (tx_actuators c) x else x)
             in (m1\<lparr>output_raw_imu_count := output_raw_imu_count m1 + 1\<rparr>, b1)))))"

definition send_named_telemetry_streams :: "('r::len, 'b) board_ops \<Rightarrow> ('b, 'l) comm_interface
    \<Rightarrow> 'r telemetry_ctx \<Rightarrow> ('l, 'b) comm_run \<Rightarrow> ('l, 'b) comm_run" where
  "send_named_telemetry_streams B L c x =
    fold (send_fresh_if_due B L c) [TelDiffPressure, TelBaro, TelMag, TelRange, TelBattery, TelGnss, TelRc]
     (send_fresh_output_raw B L c (send_fresh_if_due B L c TelAttitude (send_fresh_if_due B L c TelImu
       (send_fixed_rate_if_due B L c TelStatus (send_fixed_rate_if_due B L c TelHeartbeat x)))))"

end
