(* ===== verification/Comm_Manager.thy ===== *)
theory Comm_Manager
  imports Telemetry
begin

text \<open>
  The incoming half of the communication manager of \<^verbatim>\<open>comm.rs\<close>: what arrived in the mailbox
  becomes events for the other services, a time request is answered at once, and the responses
  the services queued are sent. The loops end because each round takes a message from a queue.
\<close>

section \<open>Taking messages from the mailbox\<close>

record ('l, 'b) comm_ctx =
  ca_manager :: "'l comm_manager"
  ca_param_events :: param_event_queues
  ca_comm_events :: comm_event_queues
  ca_command_events :: command_event_queues
  ca_companion_events :: companion_event_queues
  ca_board :: 'b

definition targets_this_system :: "'l comm_manager \<Rightarrow> u8 \<Rightarrow> bool" where
  "targets_this_system m target \<longleftrightarrow> target = sysid m"

definition process_incoming_messages :: "('b, 'l) comm_interface \<Rightarrow> ('l, 'b) comm_run \<Rightarrow> ('l, 'b) comm_run" where
  "process_incoming_messages L = (\<lambda>(m, b). let (b', ms, l) = cl_handle_incoming L b (cm_msgs m) (comm_link m)
     in (m\<lparr>cm_msgs := ms, comm_link := l\<rparr>, b'))"

definition has_pending_messages :: "'l comm_manager \<Rightarrow> bool" where
  "has_pending_messages m = has_pending (cm_msgs m)"

definition set_msgs :: "messages \<Rightarrow> ('l, 'b) comm_ctx \<Rightarrow> ('l, 'b) comm_ctx" where
  "set_msgs ms c = c\<lparr>ca_manager := (ca_manager c)\<lparr>cm_msgs := ms\<rparr>\<rparr>"

definition act_on_heartbeat :: "('l, 'b) comm_ctx \<Rightarrow> ('l, 'b) comm_ctx" where
  "act_on_heartbeat c = (case take_heartbeat (cm_msgs (ca_manager c)) of
     (None, ms) \<Rightarrow> set_msgs ms c
   | (Some msg, ms) \<Rightarrow> (set_msgs ms c)\<lparr>ca_companion_events := (ca_companion_events c)
       \<lparr>heartbeats := fst (eq_push_or_log (heartbeats (ca_companion_events c)) \<lparr>chr_msg = msg\<rparr>)\<rparr>\<rparr>)"

text \<open>\<^verbatim>\<open>while let Some(msg) = take()\<close>: all the read requests leave the mailbox.\<close>

function read_requests_loop :: "u8 \<Rightarrow> messages \<Rightarrow> param_read_requested event_queue
    \<Rightarrow> messages \<times> param_read_requested event_queue" where
  "read_requests_loop sys ms q = (case take_param_read ms of
     (None, ms') \<Rightarrow> (ms', q)
   | (Some msg, ms') \<Rightarrow> read_requests_loop sys ms' (if prr_target_system msg = sys
       then fst (eq_push_or_log q \<lparr>prq_identifier = prr_identifier msg\<rparr>) else q))"
  by pat_completeness auto
termination
  by (relation "measure (\<lambda>(sys, ms, q). length (dq_items (m_param_request_read ms)))")
    (auto simp: take_param_read_def deque_pop_front_def split: list.splits)

declare read_requests_loop.simps [simp del]

definition act_on_read_requests :: "('l, 'b) comm_ctx \<Rightarrow> ('l, 'b) comm_ctx" where
  "act_on_read_requests c =
    (let (ms, q) = read_requests_loop (sysid (ca_manager c)) (cm_msgs (ca_manager c)) (read_requests (ca_param_events c))
     in (set_msgs ms c)\<lparr>ca_param_events := (ca_param_events c)\<lparr>read_requests := q\<rparr>\<rparr>)"

definition act_on_list_request :: "('l, 'b) comm_ctx \<Rightarrow> ('l, 'b) comm_ctx" where
  "act_on_list_request c = (case take_param_list (cm_msgs (ca_manager c)) of
     (None, ms) \<Rightarrow> set_msgs ms c
   | (Some msg, ms) \<Rightarrow> if targets_this_system (ca_manager c) (prl_target_system msg)
       then (set_msgs ms c)\<lparr>ca_param_events := (ca_param_events c)
         \<lparr>list_requests := fst (eq_push_or_log (list_requests (ca_param_events c)) ParamListRequested)\<rparr>\<rparr>
       else set_msgs ms c)"

definition on_link :: "(('l, 'b) comm_run \<Rightarrow> ('l, 'b) comm_run) \<Rightarrow> ('l, 'b) comm_ctx \<Rightarrow> ('l, 'b) comm_ctx" where
  "on_link f c = (let (m, b) = f (ca_manager c, ca_board c) in c\<lparr>ca_manager := m, ca_board := b\<rparr>)"

text \<open>The answer's time is a product of 64-bit words: it wraps, as in a release build.\<close>

definition act_on_timesync :: "('r::len, 'b) board_ops \<Rightarrow> ('b, 'l) comm_interface \<Rightarrow> ('l, 'b) comm_ctx \<Rightarrow> ('l, 'b) comm_ctx" where
  "act_on_timesync B L c = (case take_timesync (cm_msgs (ca_manager c)) of
     (None, ms) \<Rightarrow> set_msgs ms c
   | (Some msg, ms) \<Rightarrow>
      (if ts_tc1 msg = 0
       then (let (now, b) = bo_clock_micros B (ca_board c)
         in on_link (send_message L (DlTimesync (msg\<lparr>ts_tc1 := now * 1000\<rparr>))) ((set_msgs ms c)\<lparr>ca_board := b\<rparr>))
       else set_msgs ms c))"

definition act_on_offboard_control :: "('r::len, 'b) board_ops \<Rightarrow> ('l, 'b) comm_ctx \<Rightarrow> ('l, 'b) comm_ctx" where
  "act_on_offboard_control B c = (case take_offboard (cm_msgs (ca_manager c)) of
     (None, ms) \<Rightarrow> set_msgs ms c
   | (Some msg, ms) \<Rightarrow> (let (now, b) = bo_clock_micros B (ca_board c); ev = ca_command_events c
       in (set_msgs ms c)\<lparr>ca_board := b, ca_command_events := ev\<lparr>offboard_control_requests :=
            fst (eq_push_or_log (offboard_control_requests ev) \<lparr>ocr_now_us = now, ocr_msg = msg\<rparr>)\<rparr>\<rparr>))"

definition act_on_aux_cmd :: "('l, 'b) comm_ctx \<Rightarrow> ('l, 'b) comm_ctx" where
  "act_on_aux_cmd c = (case take_aux_cmd (cm_msgs (ca_manager c)) of
     (None, ms) \<Rightarrow> set_msgs ms c
   | (Some msg, ms) \<Rightarrow> (set_msgs ms c)\<lparr>ca_companion_events := (ca_companion_events c)
       \<lparr>aux_commands := fst (eq_push_or_log (aux_commands (ca_companion_events c)) \<lparr>acr_msg = msg\<rparr>)\<rparr>\<rparr>)"

definition act_on_external_attitude :: "('l, 'b) comm_ctx \<Rightarrow> ('l, 'b) comm_ctx" where
  "act_on_external_attitude c = (case take_external_attitude (cm_msgs (ca_manager c)) of
     (None, ms) \<Rightarrow> set_msgs ms c
   | (Some msg, ms) \<Rightarrow> (set_msgs ms c)\<lparr>ca_companion_events := (ca_companion_events c)
       \<lparr>external_attitudes := fst (eq_push_or_log (external_attitudes (ca_companion_events c)) \<lparr>ear_msg = msg\<rparr>)\<rparr>\<rparr>)"

text \<open>Set requests leave the mailbox only while the event queue has room.\<close>

definition set_request_of :: "param_set_msg \<Rightarrow> param_set_requested" where
  "set_request_of msg = \<lparr>psr_value = ps_param_value msg, psr_param_id_bytes = ps_param_id msg\<rparr>"

function set_requests_loop :: "u8 \<Rightarrow> messages \<Rightarrow> param_set_requested event_queue
    \<Rightarrow> messages \<times> param_set_requested event_queue" where
  "set_requests_loop sys ms q =
    (if eq_is_full q then (ms, q)
     else (case take_param_set ms of
       (None, ms') \<Rightarrow> (ms', q)
     | (Some msg, ms') \<Rightarrow> set_requests_loop sys ms' (if ps_target_system msg = sys
         then fst (eq_push_or_log q (set_request_of msg)) else q)))"
  by pat_completeness auto
termination
  by (relation "measure (\<lambda>(sys, ms, q). length (dq_items (m_param_set ms)))")
    (auto simp: take_param_set_def deque_pop_front_def split: list.splits)

declare set_requests_loop.simps [simp del]

definition act_on_set_requests :: "('l, 'b) comm_ctx \<Rightarrow> ('l, 'b) comm_ctx" where
  "act_on_set_requests c =
    (let (ms, q) = set_requests_loop (sysid (ca_manager c)) (cm_msgs (ca_manager c)) (set_requests (ca_param_events c))
     in (set_msgs ms c)\<lparr>ca_param_events := (ca_param_events c)\<lparr>set_requests := q\<rparr>\<rparr>)"

section \<open>Commands\<close>

text \<open>The queue a command is pushed to, with the answer of the push.\<close>

definition push_command :: "rosflight_cmd \<Rightarrow> command_event_queues \<Rightarrow> command_event_queues \<times> bool" where
  "push_command cmd ev = (case cmd of
     RcCalibration \<Rightarrow> (let (q, ok) = eq_push_or_log (rc_trim_calibration_requests ev) \<lparr>rtc_command = cmd\<rparr>
       in (ev\<lparr>rc_trim_calibration_requests := q\<rparr>, ok))
   | SetParamDefaults \<Rightarrow> (let (q, ok) = eq_push_or_log (param_defaults_requests ev) \<lparr>pdr_command = cmd\<rparr>
       in (ev\<lparr>param_defaults_requests := q\<rparr>, ok))
   | SendVersion \<Rightarrow> (let (q, ok) = eq_push_or_log (version_requests ev) \<lparr>vr_command = cmd\<rparr>
       in (ev\<lparr>version_requests := q\<rparr>, ok))
   | ResetOrigin \<Rightarrow> (let (q, ok) = eq_push_or_log (reset_origin_requests ev) \<lparr>ror_command = cmd\<rparr>
       in (ev\<lparr>reset_origin_requests := q\<rparr>, ok))
   | SendAllConfigInfos \<Rightarrow> (let (q, ok) = eq_push_or_log (config_info_requests ev) \<lparr>cir_command = cmd\<rparr>
       in (ev\<lparr>config_info_requests := q\<rparr>, ok))
   | _ \<Rightarrow> if cmd \<in> {AccelCalibration, GyroCalibration, BaroCalibration, AirspeedCalibration}
       then (let (q, ok) = eq_push_or_log (calibration_requests ev) \<lparr>cal_command = cmd\<rparr>
         in (ev\<lparr>calibration_requests := q\<rparr>, ok))
       else (let (q, ok) = eq_push_or_log (board_command_requests ev) \<lparr>bcr_command = cmd\<rparr>
         in (ev\<lparr>board_command_requests := q\<rparr>, ok)))"

definition act_on_command :: "('l, 'b) comm_ctx \<Rightarrow> ('l, 'b) comm_ctx" where
  "act_on_command c = (case take_cmd (cm_msgs (ca_manager c)) of
     (None, ms) \<Rightarrow> set_msgs ms c
   | (Some cmd, ms) \<Rightarrow>
      (let (ev, queued) = push_command cmd (ca_command_events c); c1 = (set_msgs ms c)\<lparr>ca_command_events := ev\<rparr>
       in if queued then c1
          else c1\<lparr>ca_comm_events := push_response (ca_comm_events c1)
            (RespCmdAck \<lparr>ack_command = cmd, ack_success = RosflightCmdFailed\<rparr>)\<rparr>))"

definition act_on_messages :: "('r::len, 'b) board_ops \<Rightarrow> ('b, 'l) comm_interface \<Rightarrow> ('l, 'b) comm_ctx \<Rightarrow> ('l, 'b) comm_ctx" where
  "act_on_messages B L c = act_on_command (act_on_set_requests (act_on_external_attitude (act_on_aux_cmd
     (act_on_offboard_control B (act_on_timesync B L (act_on_list_request (act_on_read_requests
       (act_on_heartbeat c))))))))"

section \<open>Responses\<close>

definition adopt_sysid :: "comm_response \<Rightarrow> 'l comm_manager \<Rightarrow> 'l comm_manager" where
  "adopt_sysid r m = (case r of
     RespParamValue v \<Rightarrow> (if pv_param_index v = word_of_nat (param_index PARAM_SYSTEM_ID)
       then (case pv_param_value v of PInt i \<Rightarrow> m\<lparr>sysid := ucast i\<rparr> | _ \<Rightarrow> m) else m)
   | _ \<Rightarrow> m)"

fun response_message :: "comm_response \<Rightarrow> downlink_message" where
  "response_message (RespParamValue v) = DlParamValue v"
| "response_message (RespCmdAck a) = DlCmdAck a"
| "response_message (RespVersion v) = DlVersion v"
| "response_message (RespStatustext t) = DlStatustext t"
| "response_message (RespHardError e) = DlHardError e"

definition send_response :: "('b, 'l) comm_interface \<Rightarrow> comm_response \<Rightarrow> ('l, 'b) comm_run \<Rightarrow> ('l, 'b) comm_run" where
  "send_response L r = (\<lambda>(m, b). send_message L (response_message r) (adopt_sysid r m, b))"

function send_responses_loop :: "('b, 'l) comm_interface \<Rightarrow> nat \<Rightarrow> nat \<Rightarrow> comm_response event_queue \<Rightarrow> ('l, 'b) comm_run
    \<Rightarrow> nat \<times> comm_response event_queue \<times> ('l, 'b) comm_run" where
  "send_responses_loop L max_responses sent q x =
    (if sent < max_responses then (case eq_pop q of
       (None, q') \<Rightarrow> (sent, q', x)
     | (Some r, q') \<Rightarrow> send_responses_loop L max_responses (sent + 1) q' (send_response L r x))
     else (sent, q, x))"
  by pat_completeness auto
termination
  by (relation "measure (\<lambda>(L, max_responses, sent, q, x). length (dq_items q))")
    (auto simp: eq_pop_def deque_pop_front_def split: list.splits)

declare send_responses_loop.simps [simp del]

definition send_comm_responses_limited :: "('b, 'l) comm_interface \<Rightarrow> nat \<Rightarrow> comm_event_queues \<Rightarrow> ('l, 'b) comm_run
    \<Rightarrow> nat \<times> comm_event_queues \<times> ('l, 'b) comm_run" where
  "send_comm_responses_limited L max_responses ev x =
    (let (sent, q, x') = send_responses_loop L max_responses 0 (responses ev) x in (sent, ev\<lparr>responses := q\<rparr>, x'))"

text \<open>\<^verbatim>\<open>usize::MAX\<close> on a 32-bit target.\<close>

definition send_comm_responses :: "('b, 'l) comm_interface \<Rightarrow> comm_event_queues \<Rightarrow> ('l, 'b) comm_run
    \<Rightarrow> comm_event_queues \<times> ('l, 'b) comm_run" where
  "send_comm_responses L ev x = snd (send_comm_responses_limited L (2 ^ 32 - 1) ev x)"

end
