(* ===== verification/Telemetry_Safety.thy ===== *)
theory Telemetry_Safety
  imports Comm_Manager
begin

text \<open>
  What the telemetry of \<^verbatim>\<open>comm.rs\<close> promises: the scheduler and the sender agree on what is
  due, the most overdue stream goes first, a stream keeps its rate, a sensor sample is sent at
  most once, and the requests of the companion are not lost between the mailbox and the services.
\<close>

section \<open>Due and deadline\<close>

lemma stream_due_iff: "fst (stream_due now l r) \<longleftrightarrow> stream_due_deadline_us now l r \<noteq> None"
  by (simp add: stream_due_def stream_due_deadline_us_def)

lemma fixed_rate_due_iff: "fixed_rate_due now l r \<longleftrightarrow> fixed_rate_due_deadline_us now l r \<noteq> None"
  by (simp add: fixed_rate_due_def fixed_rate_due_deadline_us_def)

lemma check_due_iff: "fst (check_stream_due now s m)
    \<longleftrightarrow> stream_due_deadline_us now (stream_last m s) (stream_rate (cm_rates m) s) \<noteq> None"
  by (simp add: check_stream_due_def case_prod_beta stream_due_iff)

lemma send_message_keeps [simp]: "cm_freshness (fst (send_message L msg x)) = cm_freshness (fst x)"
  "cm_rates (fst (send_message L msg x)) = cm_rates (fst x)"
  "output_raw_imu_count (fst (send_message L msg x)) = output_raw_imu_count (fst x)"
  by (simp_all add: send_message_def case_prod_beta Let_def)

lemma send_sample_keeps [simp]: "cm_freshness (fst (send_sample B L c s x)) = cm_freshness (fst x)"
  "cm_rates (fst (send_sample B L c s x)) = cm_rates (fst x)"
  "output_raw_imu_count (fst (send_sample B L c s x)) = output_raw_imu_count (fst x)"
  by (auto simp: send_sample_def send_rc_raw_def send_output_raw_def case_prod_beta Let_def
      split: named_telemetry_stream.split option.split)

lemma send_if_due_True: "fst (send_if_due B L c s (m, b)) \<longleftrightarrow>
    telemetry_stream_sample_timestamp s (tx_sensors c) \<noteq> None
    \<and> stream_due_deadline_us (tx_now_us c) (stream_last m s) (stream_rate (cm_rates m) s) \<noteq> None"
  by (auto simp: send_if_due_def case_prod_beta Let_def check_due_iff)

lemma send_output_raw_if_due_True: "fst (send_output_raw_if_due B L c (m, b)) \<longleftrightarrow>
    sens_imu (tx_sensors c) \<noteq> None \<and> (if output_raw_hz (cm_rates m) = 0 then output_raw_divisor_due m
      else stream_due_deadline_us (tx_now_us c) (stream_last m TelOutputRaw) (output_raw_hz (cm_rates m)) \<noteq> None)"
  by (auto simp: send_output_raw_if_due_def case_prod_beta Let_def check_due_iff)

lemma deadline_sends:
  assumes "named_telemetry_stream_deadline m (tx_now_us c) (tx_sensors c) s = Some d"
  shows "fst (send_selected_named_telemetry_stream B L c s (m, b))"
proof (cases "is_sensor_stream s")
  case False
  then show ?thesis
    by (simp add: send_selected_named_telemetry_stream_def send_selected_named_telemetry_stream_with_gate_def)
next
  case True
  obtain t where t: "telemetry_stream_sample_timestamp s (tx_sensors c) = Some t"
    and fresh: "last_sent (cm_freshness m) s \<noteq> Some t"
    using assms True by (auto simp: named_telemetry_stream_deadline_def Let_def split: option.splits if_splits)
  consider "s = TelOutputRaw" | "s = TelImu" | "s \<noteq> TelOutputRaw" "s \<noteq> TelImu" by blast
  then show ?thesis
  proof cases
    case 1
    with assms t True fresh show ?thesis
      by (auto simp: send_selected_named_telemetry_stream_def send_selected_named_telemetry_stream_with_gate_def
          send_output_raw_if_due_True case_prod_beta named_telemetry_stream_deadline_def split: if_splits)
  next
    case 2
    with assms t True fresh show ?thesis
      by (auto simp: send_selected_named_telemetry_stream_def send_selected_named_telemetry_stream_with_gate_def
          send_imu_if_due_def imu_sample_unsent_def send_if_due_True case_prod_beta
          named_telemetry_stream_deadline_def split: if_splits)
  next
    case 3
    with assms t True fresh show ?thesis
      by (auto simp: send_selected_named_telemetry_stream_def send_selected_named_telemetry_stream_with_gate_def
          send_if_due_True case_prod_beta named_telemetry_stream_deadline_def split: if_splits)
  qed
qed

section \<open>The selection\<close>

text \<open>The fold keeps the first stream of the smallest deadline.\<close>

lemma consider_fold:
  assumes "fold (consider_stream f) ss sel = r" and "\<And>s d. sel = Some (s, d) \<Longrightarrow> f s = Some d"
  shows "(r = None \<longleftrightarrow> sel = None \<and> (\<forall>s \<in> set ss. f s = None)) \<and>
    (\<forall>s d. r = Some (s, d) \<longrightarrow> f s = Some d \<and> (\<forall>s' \<in> set ss. \<forall>d'. f s' = Some d' \<longrightarrow> d \<le> d')
      \<and> (\<forall>s' d'. sel = Some (s', d') \<longrightarrow> d \<le> d'))"
  using assms
proof (induction ss arbitrary: sel)
  case Nil
  then show ?case by auto
next
  case (Cons a ss)
  let ?sel = "consider_stream f a sel"
  have ok: "\<And>s d. ?sel = Some (s, d) \<Longrightarrow> f s = Some d"
    using Cons.prems(2) by (auto simp: consider_stream_def split: option.splits if_splits prod.splits)
  have r: "fold (consider_stream f) ss ?sel = r" using Cons.prems(1) by simp
  have none: "?sel = None \<longleftrightarrow> sel = None \<and> f a = None"
    by (auto simp: consider_stream_def split: option.splits)
  have le: "\<exists>s d. ?sel = Some (s, d) \<and> d \<le> d'" if "f a = Some d' \<or> (\<exists>s'. sel = Some (s', d'))" for d'
    using that by (auto simp: consider_stream_def split: option.splits)
  note ih = Cons.IH [OF r ok]
  show ?case
  proof (intro conjI allI impI)
    show "r = None \<longleftrightarrow> sel = None \<and> (\<forall>s \<in> set (a # ss). f s = None)" using ih none by auto
  next
    fix s d assume rs: "r = Some (s, d)"
    with ih have d: "f s = Some d" "\<And>s' d'. s' \<in> set ss \<Longrightarrow> f s' = Some d' \<Longrightarrow> d \<le> d'"
      "\<And>s' d'. ?sel = Some (s', d') \<Longrightarrow> d \<le> d'" by blast+
    show "f s = Some d" by (rule d)
    show "\<forall>s' \<in> set (a # ss). \<forall>d'. f s' = Some d' \<longrightarrow> d \<le> d'"
    proof (intro ballI allI impI)
      fix s' d' assume "s' \<in> set (a # ss)" and f: "f s' = Some d'"
      then consider "s' \<in> set ss" | "f a = Some d'" by auto
      then show "d \<le> d'" using d(2) [OF _ f] d(3) le [of d'] by cases (blast intro: order_trans)+
    qed
    show "d \<le> d'" if "sel = Some (s', d')" for s' d'
      using d(3) le [of d'] that by (blast intro: order_trans)
  qed
qed

lemmas selection = consider_fold [OF refl, of None, simplified]

lemma selected_has_deadline:
  assumes "select_due_named_telemetry_stream m now sn = Some s"
  shows "\<exists>d. named_telemetry_stream_deadline m now sn s = Some d \<and>
    (\<forall>s' \<in> set (considered_streams sn). \<forall>d'. named_telemetry_stream_deadline m now sn s' = Some d' \<longrightarrow> d \<le> d')"
  using assms selection [of "named_telemetry_stream_deadline m now sn" "considered_streams sn"]
  by (auto simp: select_due_named_telemetry_stream_def)

lemma nothing_selected: "select_due_named_telemetry_stream m now sn = None \<longleftrightarrow>
    (\<forall>s \<in> set (considered_streams sn). named_telemetry_stream_deadline m now sn s = None)"
  using selection [of "named_telemetry_stream_deadline m now sn" "considered_streams sn"]
  by (simp add: select_due_named_telemetry_stream_def)

text \<open>
  The scheduler's question and the sender's work agree: the one-stream sender reports a message
  exactly when the scheduler finds a stream due, so a due stream is never skipped and an idle
  report means nothing is due. The two sides decide with different code, the deadline of each
  stream on one side and the rate gate that advances it on the other.
\<close>

theorem due_stream_is_sent:
  "fst (send_one_named_telemetry_stream B L c (m, b))
    \<longleftrightarrow> named_telemetry_due m (tx_now_us c) (tx_sensors c)"
proof (cases "select_due_named_telemetry_stream m (tx_now_us c) (tx_sensors c)")
  case None
  then show ?thesis by (simp add: send_one_named_telemetry_stream_def named_telemetry_due_def)
next
  case (Some s)
  from selected_has_deadline [OF this] obtain d where
    "named_telemetry_stream_deadline m (tx_now_us c) (tx_sensors c) s = Some d" by blast
  then have "fst (send_selected_named_telemetry_stream B L c s (m, b))" by (rule deadline_sends)
  with Some show ?thesis by (simp add: send_one_named_telemetry_stream_def named_telemetry_due_def)
qed

text \<open>
  The most overdue stream goes first: no stream the sender looks at has an earlier deadline
  than the one it picks, and it picks none only when none has a deadline.
\<close>

theorem most_overdue_first:
  "case select_due_named_telemetry_stream m now sn of
     None \<Rightarrow> list_all (\<lambda>s. named_telemetry_stream_deadline m now sn s = None) (considered_streams sn)
   | Some s \<Rightarrow> (case named_telemetry_stream_deadline m now sn s of
       None \<Rightarrow> False
     | Some d \<Rightarrow> list_all (\<lambda>s'. case named_telemetry_stream_deadline m now sn s' of
         None \<Rightarrow> True | Some d' \<Rightarrow> d \<le> d') (considered_streams sn))"
proof (cases "select_due_named_telemetry_stream m now sn")
  case None
  with nothing_selected [of m now sn] show ?thesis by (simp add: list_all_iff)
next
  case (Some s)
  from selected_has_deadline [OF this] obtain d where "named_telemetry_stream_deadline m now sn s = Some d"
    and "\<forall>s' \<in> set (considered_streams sn). \<forall>d'. named_telemetry_stream_deadline m now sn s' = Some d' \<longrightarrow> d \<le> d'"
    by blast
  with Some show ?thesis by (auto simp: list_all_iff split: option.split)
qed

section \<open>The rate of a stream\<close>

lemma uint_pos: "w \<noteq> 0 \<Longrightarrow> 0 < uint w"
  using uint_ge_0 [of w] by (simp only: order_less_le uint_0_iff [symmetric]) (auto simp: uint_0_iff)

lemma uint_interval_pos:
  assumes "rate \<noteq> 0" and "rate \<noteq> TELEMETRY_RATE_DISABLED"
  shows "0 < uint (interval_us rate)"
proof -
  have "0 < uint rate" using assms(1) by (rule uint_pos)
  moreover have "uint rate < 2 ^ 16" using uint_lt2p [of rate] by simp
  moreover have "uint (ucast rate :: u64) = uint rate" 
    using uint_lt2p [of rate] by (simp add: unsigned_ucast_eq take_bit_int_eq_self)
  ultimately show ?thesis
    by (simp add: interval_us_def uint_div_distrib pos_imp_zdiv_pos_iff)
qed

text \<open>One question to \<^verbatim>\<open>stream_due\<close> after the clock moved on.\<close>

lemma stream_due_advances:
  assumes rate: "rate \<noteq> 0" "rate \<noteq> TELEMETRY_RATE_DISABLED" and l: "l \<noteq> 0" and now: "uint l \<le> uint now"
  shows "uint l + of_bool (fst (stream_due now l rate)) * uint (interval_us rate)
      \<le> uint (snd (stream_due now l rate))
    \<and> uint (snd (stream_due now l rate)) \<le> uint now"
proof (cases "interval_us rate \<le> saturating_sub now l")
  case False
  with rate l now show ?thesis by (simp add: stream_due_def)
next
  case True
  let ?iv = "uint (interval_us rate)" and ?e = "saturating_sub now l"
  define k where "k = uint ?e div ?iv"
  have iv: "0 < ?iv" by (rule uint_interval_pos [OF rate])
  have e: "uint ?e = uint now - uint l" using now by (simp add: uint_saturating_sub)
  have le: "?iv \<le> uint ?e" using True by (simp add: word_le_def)
  have k1: "1 \<le> k" using le iv by (simp add: k_def pos_imp_zdiv_pos_iff int_one_le_iff_zero_less)
  have k2: "k * ?iv \<le> uint ?e" using minus_mod_eq_div_mult [of "uint ?e" ?iv] iv by (simp add: k_def pos_mod_sign flip: minus_mod_eq_div_mult)
  have lt: "uint ?e < 2 ^ 64" using uint_lt2p [of ?e] by simp
  have d: "uint (?e div interval_us rate) = k" by (simp add: uint_div_distrib k_def)
  have m: "uint (saturating_mul (?e div interval_us rate) (interval_us rate)) = k * ?iv"
    using k1 k2 lt iv by (simp add: saturating_mul_def d uint_word_ariths mod_pos_pos_trivial)
  have nw: "uint now < 2 ^ 64" using uint_lt2p [of now] by simp
  have "uint (snd (stream_due now l rate)) = uint l + k * ?iv"
    using rate l True k2 e nw
    by (simp add: stream_due_def uint_saturating_add m)
  moreover have "fst (stream_due now l rate)" using rate l True by (simp add: stream_due_def)
  moreover have "?iv \<le> k * ?iv" using k1 iv by (simp add: mult_le_cancel_right1)
  ultimately show ?thesis using k2 e by simp
qed

text \<open>The number of sends over a run of the clock, and the time the stream keeps at its end.\<close>

fun run_stream :: "u16 \<Rightarrow> u64 list \<Rightarrow> u64 \<Rightarrow> nat \<times> u64" where
  "run_stream rate [] l = (0, l)"
| "run_stream rate (now # ts) l = (let (due, l') = stream_due now l rate; (n, l'') = run_stream rate ts l'
     in (of_bool due + n, l''))"

lemma run_stream_bound:
  assumes rate: "rate \<noteq> 0" "rate \<noteq> TELEMETRY_RATE_DISABLED"
  shows "l \<noteq> 0 \<Longrightarrow> sorted_wrt (\<lambda>a b. uint a \<le> uint b) (l # ts) \<Longrightarrow>
    uint l + int (fst (run_stream rate ts l)) * uint (interval_us rate) \<le> uint (List.last (l # ts))"
proof (induction ts arbitrary: l)
  case Nil
  then show ?case by simp
next
  case (Cons now ts)
  define l' where "l' = snd (stream_due now l rate)"
  define due where "due = fst (stream_due now l rate)"
  have now: "uint l \<le> uint now" and ts: "\<And>t. t \<in> set ts \<Longrightarrow> uint now \<le> uint t"
    and sts: "sorted_wrt (\<lambda>a b. uint a \<le> uint b) ts" using Cons.prems(2) by simp_all
  have l': "uint l + of_bool due * uint (interval_us rate) \<le> uint l'" "uint l' \<le> uint now"
    using stream_due_advances [OF rate Cons.prems(1) now] by (simp_all add: l'_def due_def)
  have "0 < uint l" using Cons.prems(1) by (rule uint_pos)
  moreover have "0 \<le> of_bool due * uint (interval_us rate)" by simp
  ultimately have "0 < uint l'" using l'(1) by linarith
  then have "l' \<noteq> 0" by auto
  moreover have "sorted_wrt (\<lambda>a b. uint a \<le> uint b) (l' # ts)"
    using l'(2) ts sts by (auto intro: order_trans)
  ultimately have ih: "uint l' + int (fst (run_stream rate ts l')) * uint (interval_us rate)
      \<le> uint (List.last (l' # ts))"
    by (rule Cons.IH)
  have last: "uint (List.last (l' # ts)) \<le> uint (List.last (l # now # ts))" using l'(2) by simp
  have "fst (run_stream rate (now # ts) l) = of_bool due + fst (run_stream rate ts l')"
    by (simp add: due_def l'_def case_prod_beta Let_def)
  with ih last l'(1) show ?case by (simp add: algebra_simps)
qed

text \<open>
  A stream keeps its rate: over a run of a clock that never goes back, the sends of a stream
  with a started period take at least one whole interval each, so n sends need the clock to
  advance by n intervals from the period's start. No late answer makes up for a missed one by
  sending in a burst.
\<close>

theorem stream_rate_bound:
  assumes "rate \<noteq> 0" and "rate \<noteq> TELEMETRY_RATE_DISABLED" and "start \<noteq> 0"
    and "sorted_wrt (\<lambda>a b. uint a \<le> uint b) (start # ts)"
  shows "int (fst (run_stream rate ts start)) * uint (interval_us rate)
    \<le> uint (List.last (start # ts)) - uint start"
  using run_stream_bound [OF assms] by simp

theorem stream_rate_bound_witness:
  "int (fst (run_stream 100 [10500, 20000, 95000, 95001] 10000)) * uint (interval_us 100)
    \<le> uint (List.last [10000, 10500, 20000, 95000, 95001 :: u64]) - uint (10000 :: u64)
  \<and> fst (run_stream 100 [10500, 20000, 95000, 95001] 10000) = 2"
proof
  show "int (fst (run_stream 100 [10500, 20000, 95000, 95001] 10000)) * uint (interval_us 100)
    \<le> uint (List.last [10000, 10500, 20000, 95000, 95001 :: u64]) - uint (10000 :: u64)"
    by (rule stream_rate_bound) (simp_all add: TELEMETRY_RATE_DISABLED_def)
  show "fst (run_stream 100 [10500, 20000, 95000, 95001] 10000) = 2" by code_simp
qed

section \<open>One message for each sample\<close>

lemma last_sent_mark: "is_sensor_stream s \<Longrightarrow> last_sent (mark_sent s t f) s = Some t"
  by (cases s) (simp_all add: is_sensor_stream_def)

lemma sent_marks:
  assumes "is_sensor_stream s"
    and "send_selected_named_telemetry_stream_with_gate B L c s g x = (True, y)"
  shows "\<exists>t. telemetry_stream_sample_timestamp s (tx_sensors c) = Some t
    \<and> last_sent (cm_freshness (fst y)) s = Some t"
proof -
  define r where "r = (if s = TelImu then
      (case g of DueDeadline \<Rightarrow> send_imu_if_due B L c x | FreshSample \<Rightarrow> send_imu_if_fresh B L c x)
    else if s = TelOutputRaw then send_output_raw_if_due B L c x else send_if_due B L c s x)"
  have y: "y = (case telemetry_stream_sample_timestamp s (tx_sensors c) of
      None \<Rightarrow> snd r | Some t \<Rightarrow> mark_stream_sent s t (snd r))"
    using assms by (simp add: send_selected_named_telemetry_stream_with_gate_def case_prod_beta Let_def
        flip: r_def del: telemetry_stream_sample_timestamp.simps split: if_splits)
  have "telemetry_stream_sample_timestamp s (tx_sensors c) \<noteq> None"
    using assms
    by (cases x; cases s) (auto simp: send_selected_named_telemetry_stream_with_gate_def case_prod_beta Let_def
        is_sensor_stream_def send_if_due_def send_imu_if_due_def send_imu_if_fresh_def
        send_output_raw_if_due_def imu_sample_unsent_def
        split: if_splits option.splits realtime_telemetry_priority_gate.splits)
  then obtain t where "telemetry_stream_sample_timestamp s (tx_sensors c) = Some t" by blast
  with y last_sent_mark [OF assms(1)] show ?thesis by (simp add: mark_stream_sent_def case_prod_beta)
qed

lemma sent_sample_has_no_deadline:
  assumes "is_sensor_stream s" and "telemetry_stream_sample_timestamp s sn = Some t"
    and "last_sent (cm_freshness m) s = Some t"
  shows "named_telemetry_stream_deadline m now sn s = None"
  using assms by (simp add: named_telemetry_stream_deadline_def)


section \<open>The divisor of the raw outputs\<close>

text \<open>
  With a divisor instead of a rate, the one-stream sender counts only the samples it selects
  for \<^verbatim>\<open>OUTPUT_RAW\<close>, while the sender of all streams counts every fresh one: once the count is
  no multiple of the divisor, the one-stream sender never sends the raw outputs again.
\<close>

definition output_raw_stalled :: "'l comm_manager \<Rightarrow> bool" where
  "output_raw_stalled m \<longleftrightarrow> output_raw_hz (cm_rates m) = 0 \<and> \<not> output_raw_divisor_due m"

lemma set_stream_last_keeps [simp]: "cm_rates (set_stream_last s t m) = cm_rates m"
  "output_raw_imu_count (set_stream_last s t m) = output_raw_imu_count m"
  "cm_freshness (set_stream_last s t m) = cm_freshness m"
  by (cases s; simp)+

lemma stalled_cong: "cm_rates m' = cm_rates m \<Longrightarrow> output_raw_imu_count m' = output_raw_imu_count m \<Longrightarrow>
    output_raw_stalled m' = output_raw_stalled m"
  by (simp add: output_raw_stalled_def output_raw_divisor_due_def)

lemma other_streams_keep_count:
  assumes "s \<noteq> TelOutputRaw"
  shows "cm_rates (fst (snd (send_selected_named_telemetry_stream B L c s x))) = cm_rates (fst x)
    \<and> output_raw_imu_count (fst (snd (send_selected_named_telemetry_stream B L c s x))) = output_raw_imu_count (fst x)"
  using assms
  by (cases x) (auto simp: send_selected_named_telemetry_stream_def send_selected_named_telemetry_stream_with_gate_def
      send_fixed_rate_def send_imu_if_due_def send_if_due_def check_stream_due_def mark_stream_sent_def
      case_prod_beta Let_def split: option.split)

lemma stalled_not_selected:
  assumes "output_raw_stalled m" and "select_due_named_telemetry_stream m now sn = Some s"
  shows "s \<noteq> TelOutputRaw"
  using selected_has_deadline [OF assms(2)] assms(1)
  by (auto simp: named_telemetry_stream_deadline_def output_raw_stalled_def is_sensor_stream_def
      split: option.splits if_splits)

theorem output_raw_stays_stalled:
  assumes "output_raw_stalled (fst x)"
  shows "output_raw_stalled (fst (snd (send_one_named_telemetry_stream B L c x)))"
proof (cases "select_due_named_telemetry_stream (fst x) (tx_now_us c) (tx_sensors c)")
  case None
  with assms show ?thesis by (simp add: send_one_named_telemetry_stream_def)
next
  case (Some s)
  have "output_raw_stalled (fst (snd (send_selected_named_telemetry_stream B L c s x))) = output_raw_stalled (fst x)"
    using other_streams_keep_count [OF stalled_not_selected [OF assms Some], of B L c x]
    by (elim conjE) (rule stalled_cong)
  with Some assms show ?thesis by (simp add: send_one_named_telemetry_stream_def)
qed

lemma upstream_rates_stall:
  "output_raw_stalled ((comm_manager_new link now)\<lparr>output_raw_imu_count := 1\<rparr>)"
  by (simp add: output_raw_stalled_def comm_manager_new_def rates_upstream_def output_raw_divisor_due_def
      OUTPUT_RAW_IMU_DIVISOR_def)

section \<open>Requests are not lost\<close>

lemma set_requests_loop_conserves:
  "dq_cap (snd (set_requests_loop sys ms q)) = dq_cap q \<and>
    (length (dq_items q) \<le> dq_cap q \<longrightarrow>
      eq_iter (snd (set_requests_loop sys ms q))
        @ map set_request_of (filter (\<lambda>m. ps_target_system m = sys) (dq_items (m_param_set (fst (set_requests_loop sys ms q)))))
      = eq_iter q @ map set_request_of (filter (\<lambda>m. ps_target_system m = sys) (dq_items (m_param_set ms))))
    \<and> (dq_items (m_param_set (fst (set_requests_loop sys ms q))) = [] \<or> eq_is_full (snd (set_requests_loop sys ms q)))"
proof (induction sys ms q rule: set_requests_loop.induct)
  case (1 sys ms q)
  show ?case
  proof (cases "eq_is_full q")
    case True
    then show ?thesis by (simp add: set_requests_loop.simps [of sys ms q])
  next
    case nf: False
    show ?thesis
    proof (cases "dq_items (m_param_set ms)")
      case Nil
      with nf show ?thesis
        by (simp add: set_requests_loop.simps [of sys ms q] take_param_set_def deque_pop_front_def)
    next
      case (Cons msg rest)
      let ?ms = "ms\<lparr>m_param_set := (m_param_set ms)\<lparr>dq_items := rest\<rparr>\<rparr>"
      let ?q = "if ps_target_system msg = sys then fst (eq_push_or_log q (set_request_of msg)) else q"
      have t: "take_param_set ms = (Some msg, ?ms)"
        by (simp add: take_param_set_def deque_pop_front_def Cons)
      have eq: "set_requests_loop sys ms q = set_requests_loop sys ?ms ?q"
        using nf by (simp add: set_requests_loop.simps [of sys ms q] t)
      note ih = "1.IH" [OF nf t [symmetric] refl]
      have room: "length (dq_items ?q) \<le> dq_cap ?q \<and> eq_iter ?q = eq_iter q @
          (if ps_target_system msg = sys then [set_request_of msg] else [])" if "length (dq_items q) \<le> dq_cap q"
        using nf that by (auto simp: eq_is_full_def eq_push_or_log_def eq_push_def deque_push_back_def eq_iter_def)
      have cap: "dq_cap ?q = dq_cap q"
        by (auto simp: eq_push_or_log_def eq_push_def deque_push_back_def)
      from ih room cap show ?thesis by (auto simp: eq Cons)
    qed
  qed
qed

text \<open>
  No set request is lost on its way from the mailbox to the parameter service: the requests
  waiting in the event queue followed by those for this system still in the mailbox are the
  same list before and after, so each is delivered once and in order, and whatever stays in the
  mailbox stays only because the event queue is full.
\<close>

theorem set_requests_are_not_lost:
  assumes "act_on_set_requests c = c'"
    and "eq_len (set_requests (ca_param_events c)) \<le> dq_cap (set_requests (ca_param_events c))"
  shows "eq_iter (set_requests (ca_param_events c'))
      @ map set_request_of (filter (\<lambda>m. targets_this_system (ca_manager c) (ps_target_system m))
          (dq_items (m_param_set (cm_msgs (ca_manager c')))))
    = eq_iter (set_requests (ca_param_events c))
      @ map set_request_of (filter (\<lambda>m. targets_this_system (ca_manager c) (ps_target_system m))
          (dq_items (m_param_set (cm_msgs (ca_manager c)))))
    \<and> (dq_items (m_param_set (cm_msgs (ca_manager c'))) = [] \<or> eq_is_full (set_requests (ca_param_events c')))"
  using assms set_requests_loop_conserves [of "sysid (ca_manager c)" "cm_msgs (ca_manager c)" "set_requests (ca_param_events c)"]
  by (auto simp: act_on_set_requests_def case_prod_beta Let_def set_msgs_def targets_this_system_def eq_len_def)

lemma push_command_refused: "\<not> snd (push_command cmd ev) \<Longrightarrow> fst (push_command cmd ev) = ev"
  by (cases cmd) (auto simp: push_command_def eq_push_or_log_def eq_push_def deque_push_back_def
      case_prod_beta Let_def split: if_splits)

text \<open>
  Every command is answered or queued: with room for a response, a command in the mailbox
  either reaches the queue of its service, or a failed acknowledgement of it is the last response.
\<close>

theorem command_is_queued_or_refused:
  assumes "m_cmd (cm_msgs (ca_manager c)) = Some cmd"
    and "eq_len (responses (ca_comm_events c)) < dq_cap (responses (ca_comm_events c))"
  shows "m_cmd (cm_msgs (ca_manager (act_on_command c))) = None \<and>
    (if snd (push_command cmd (ca_command_events c))
     then ca_command_events (act_on_command c) = fst (push_command cmd (ca_command_events c))
       \<and> ca_comm_events (act_on_command c) = ca_comm_events c
     else ca_command_events (act_on_command c) = ca_command_events c
       \<and> eq_iter (responses (ca_comm_events (act_on_command c))) = eq_iter (responses (ca_comm_events c))
         @ [RespCmdAck \<lparr>ack_command = cmd, ack_success = RosflightCmdFailed\<rparr>])"
  using assms push_command_refused [of cmd "ca_command_events c"]
  by (simp add: act_on_command_def take_cmd_def case_prod_beta Let_def set_msgs_def push_response_def
      eq_len_def eq_push_or_log_def eq_push_def deque_push_back_def eq_iter_def)

section \<open>Evaluated\<close>

text \<open>A manager on a link that counts its messages, and a board whose clock stands still.\<close>

definition counting_link :: "(unit, nat) comm_interface" where
  "counting_link = \<lparr>cl_send = (\<lambda>b sys msg n. (b, n + 1)), cl_handle_incoming = (\<lambda>b ms n. (b, ms, n))\<rparr>"

definition still_board :: "(32, unit) board_ops" where
  "still_board = \<lparr>bo_clock_micros = (\<lambda>b. (0, b)), bo_clock_millis = (\<lambda>b. (0, b)),
     bo_imu_pending = (\<lambda>b. (False, b)), bo_serial_rx_pending = (\<lambda>b. (False, b)),
     bo_update_sensor_bus = (\<lambda>b s. (s, b)), bo_update_imu_sensor = (\<lambda>b s. (s, b)),
     bo_update_service_sensor_bus = (\<lambda>b s. (s, b)), bo_sensors_errors_count = (\<lambda>b. (0, b)),
     bo_test_pin_2 = (\<lambda>_ b. b), bo_led0 = (\<lambda>_ b. b), bo_led1 = (\<lambda>_ b. b),
     bo_configure_battery_monitor = (\<lambda>_ _ b. b), bo_serial_flush = (\<lambda>b. b),
     bo_serial_flush_budgeted = (\<lambda>_ b. b), bo_run_deferred_board_actions = (\<lambda>b. b),
     bo_read_params = (\<lambda>b p. (False, p, b)), bo_write_params = (\<lambda>b p. (False, b)),
     bo_reboot = (\<lambda>b. (False, b)), bo_reboot_to_bootloader = (\<lambda>b. (False, b)),
     bo_backup_memory_read = (\<lambda>b. (None, b)), bo_backup_memory_clear = (\<lambda>b. (False, b))\<rparr>"

definition started_comm :: "nat comm_manager" where
  "started_comm = comm_manager_new 0 1000"

definition baro_only :: "32 processed_sensors" where
  "baro_only = processed_sensors_clear\<lparr>sens_baro := Some \<lparr>baro_header = \<lparr>ph_timestamp = 5000, ph_status = 0\<rparr>,
     baro_pressure = 0, baro_temperature = 0, baro_altitude = 0\<rparr>\<rparr>"

definition baro_ctx :: "32 telemetry_ctx" where
  "baro_ctx = \<lparr>tx_now_us = 6000, tx_state = state_manager_new, tx_command = command_manager_new,
     tx_params = zero_params, tx_estimator = attitude_state_default, tx_sensors = baro_only,
     tx_actuators = [], tx_sensor_errors = 0, tx_loop_time_us = 0\<rparr>"

definition baro_sent :: "(nat, unit) comm_run" where
  "baro_sent = snd (send_selected_named_telemetry_stream_with_gate still_board counting_link baro_ctx TelBaro
     DueDeadline (started_comm, ()))"

lemma baro_goes_out:
  "send_selected_named_telemetry_stream_with_gate still_board counting_link baro_ctx TelBaro DueDeadline
     (started_comm, ()) = (True, baro_sent)"
  by (simp add: baro_sent_def prod_eq_iff send_selected_named_telemetry_stream_with_gate_def is_sensor_stream_def
      send_if_due_def check_stream_due_def stream_due_def started_comm_def comm_manager_new_def rates_upstream_def
      telemetry_rate_state_default_def baro_ctx_def baro_only_def case_prod_beta Let_def TELEMETRY_RATE_DISABLED_def)


definition full_set_queue :: "(nat, unit) comm_ctx" where
  "full_set_queue = \<lparr>ca_manager = started_comm\<lparr>cm_msgs := store (store messages_new
       (StoreParamSet \<lparr>ps_target_system = 1, ps_target_component = 0, ps_param_id = [65], ps_param_value = PInt 1\<rparr>))
       (StoreParamSet \<lparr>ps_target_system = 1, ps_target_component = 0, ps_param_id = [66], ps_param_value = PInt 2\<rparr>)\<rparr>,
     ca_param_events = param_event_queues_new\<lparr>set_requests := eq_new 1\<rparr>,
     ca_comm_events = comm_event_queues_new, ca_command_events = command_event_queues_new,
     ca_companion_events = companion_event_queues_new, ca_board = ()\<rparr>"

theorem set_requests_are_not_lost_witness:
  "eq_iter (set_requests (ca_param_events (act_on_set_requests full_set_queue)))
      @ map set_request_of (filter (\<lambda>m. targets_this_system (ca_manager full_set_queue) (ps_target_system m))
          (dq_items (m_param_set (cm_msgs (ca_manager (act_on_set_requests full_set_queue))))))
    = [\<lparr>psr_value = PInt 1, psr_param_id_bytes = [65]\<rparr>, \<lparr>psr_value = PInt 2, psr_param_id_bytes = [66]\<rparr>]
  \<and> (dq_items (m_param_set (cm_msgs (ca_manager (act_on_set_requests full_set_queue)))) = []
    \<or> eq_is_full (set_requests (ca_param_events (act_on_set_requests full_set_queue))))"
  using set_requests_are_not_lost [OF refl, of full_set_queue]
  by (simp add: full_set_queue_def targets_this_system_def started_comm_def comm_manager_new_def messages_new_def
      deque_new_def eq_new_def eq_iter_def eq_len_def deque_push_back_def set_request_of_def
      PARAM_SET_INGRESS_QUEUE_CAPACITY_def PARAM_SET_BURST_QUEUE_CAPACITY_def)

definition reboot_command :: "(nat, unit) comm_ctx" where
  "reboot_command = full_set_queue\<lparr>ca_manager := started_comm\<lparr>cm_msgs := store messages_new (StoreCmd Reboot)\<rparr>\<rparr>"

lemma reboot_command_fields:
  "m_cmd (cm_msgs (ca_manager reboot_command)) = Some Reboot"
  "ca_comm_events reboot_command = comm_event_queues_new"
  "ca_command_events reboot_command = command_event_queues_new"
  by (simp_all add: reboot_command_def full_set_queue_def)

theorem command_is_queued_or_refused_witness:
  "m_cmd (cm_msgs (ca_manager (act_on_command reboot_command))) = None \<and>
    (if snd (push_command Reboot command_event_queues_new)
     then ca_command_events (act_on_command reboot_command) = fst (push_command Reboot command_event_queues_new)
       \<and> ca_comm_events (act_on_command reboot_command) = comm_event_queues_new
     else ca_command_events (act_on_command reboot_command) = command_event_queues_new
       \<and> eq_iter (responses (ca_comm_events (act_on_command reboot_command))) = eq_iter (responses comm_event_queues_new)
         @ [RespCmdAck \<lparr>ack_command = Reboot, ack_success = RosflightCmdFailed\<rparr>])"
  using command_is_queued_or_refused [of reboot_command Reboot]
  by (simp only: reboot_command_fields) (simp add: comm_event_queues_new_def eq_new_def deque_new_def
      eq_len_def COMM_RESPONSE_QUEUE_CAPACITY_def PARAM_SET_BURST_QUEUE_CAPACITY_def)

theorem output_raw_stays_stalled_witness:
  "output_raw_stalled (fst (snd (send_one_named_telemetry_stream still_board counting_link baro_ctx
     (started_comm\<lparr>output_raw_imu_count := 1\<rparr>, ()))))"
  using upstream_rates_stall [of 0 1000]
  by (intro output_raw_stays_stalled) (simp add: started_comm_def)

end
