(* ===== verification/Control_Pipeline_Safety.thy ===== *)
theory Control_Pipeline_Safety
  imports Control_Pipeline Telemetry_Safety Estimator_Safety Mixer_Safety
begin

text \<open>
  What the control pipeline of \<^verbatim>\<open>control.rs\<close> does to the outputs: a pass drives them with what
  the mixer computed when the vehicle is armed and with the safe commands otherwise, and a pass
  without a newer IMU sample leaves them as they are.
\<close>

section \<open>Error flags\<close>

lemma errors_event [simp]:
  "get_errors (fst (manager_update s (ERROR_OCCURRED f) p)) = get_errors s OR f"
  "get_errors (fst (manager_update s (ERROR_CLEARED f) p)) = flags_remove (get_errors s) f"
  using sm_update_flags [of "machine s" "ERROR_OCCURRED f" p] sm_update_flags [of "machine s" "ERROR_CLEARED f" p]
  by (simp_all add: get_errors_def machine_manager_update flags_after_def)

lemma error_flag_set: "flags_contain (get_errors (fst (set_error_flag s f True p))) f"
  by (simp add: set_error_flag_def Let_def) (simp add: flags_contain_bits bit_or_iff)

lemma error_flag_cleared:
  assumes "f \<noteq> 0"
  shows "\<not> flags_contain (get_errors (fst (set_error_flag s f False p))) f"
proof -
  obtain n where "bit f n" using assms by (auto simp: word_bits_eq_iff)
  then show ?thesis
    by (simp add: set_error_flag_def Let_def) (auto simp: flags_contain_bits bit_flags_remove)
qed

lemma error_event_keeps_armed:
  "is_armed (fst (manager_update s (ERROR_OCCURRED f) p)) = is_armed s"
  "is_armed (fst (manager_update s (ERROR_CLEARED f) p)) = is_armed s"
  using sm_update_arms [of "machine s" "ERROR_OCCURRED f" p] sm_update_arms [of "machine s" "ERROR_CLEARED f" p]
    sm_update_stays_armed [of "machine s" "ERROR_OCCURRED f" p] sm_update_stays_armed [of "machine s" "ERROR_CLEARED f" p]
  by (auto simp: is_armed_def machine_manager_update)

lemma error_flag_keeps_armed [simp]: "is_armed (fst (set_error_flag s f present p)) = is_armed s"
  by (simp add: set_error_flag_def Let_def error_event_keeps_armed)

section \<open>What the stages keep\<close>

lemmas stage_defs = timed_def pl_clock_def pl_pin_def pl_flag_def estimator_stage_def controller_stage_def
  mixer_stage_def Let_def case_prod_beta

lemma estimator_stage_frame [frame]:
  "pl_state (snd (timed V u (estimator_stage V dt ext) c)) = pl_state c"
  "pl_pwm (snd (timed V u (estimator_stage V dt ext) c)) = pl_pwm c"
  "pl_mixer (snd (timed V u (estimator_stage V dt ext) c)) = pl_mixer c"
  "pl_params (snd (timed V u (estimator_stage V dt ext) c)) = pl_params c"
  "pl_pipeline (snd (timed V u (estimator_stage V dt ext) c)) = pl_pipeline c"
  "pl_pwm_output (snd (timed V u (estimator_stage V dt ext) c)) = pl_pwm_output c"
  by (simp_all add: stage_defs)

lemma controller_stage_frame [frame]:
  "pl_state (snd (timed V u (controller_stage V dt st) c)) = pl_state c"
  "pl_pwm (snd (timed V u (controller_stage V dt st) c)) = pl_pwm c"
  "pl_mixer (snd (timed V u (controller_stage V dt st) c)) = pl_mixer c"
  "pl_params (snd (timed V u (controller_stage V dt st) c)) = pl_params c"
  "pl_pipeline (snd (timed V u (controller_stage V dt st) c)) = pl_pipeline c"
  "pl_pwm_output (snd (timed V u (controller_stage V dt st) c)) = pl_pwm_output c"
  by (simp_all add: stage_defs)

lemma mixer_stage_frame [frame]:
  "is_armed (pl_state (snd (timed V u (mixer_stage V ctl) c))) = is_armed (pl_state c)"
  "pl_pwm (snd (timed V u (mixer_stage V ctl) c)) = pl_pwm c"
  "pl_mixer (snd (timed V u (mixer_stage V ctl) c)) = pl_mixer c"
  "pl_params (snd (timed V u (mixer_stage V ctl) c)) = pl_params c"
  "pl_pipeline (snd (timed V u (mixer_stage V ctl) c)) = pl_pipeline c"
  "pl_pwm_output (snd (timed V u (mixer_stage V ctl) c)) = pl_pwm_output c"
  by (simp_all add: stage_defs)

lemma pl_flag_frame [frame]:
  "is_armed (pl_state (pl_flag f b c)) = is_armed (pl_state c)" "pl_pwm (pl_flag f b c) = pl_pwm c"
  "pl_mixer (pl_flag f b c) = pl_mixer c" "pl_params (pl_flag f b c) = pl_params c"
  "pl_pipeline (pl_flag f b c) = pl_pipeline c" "pl_pwm_output (pl_flag f b c) = pl_pwm_output c"
  by (simp_all add: pl_flag_def)

lemma pl_clock_frame [frame]:
  "pl_state (snd (pl_clock V c)) = pl_state c" "pl_pwm (snd (pl_clock V c)) = pl_pwm c"
  "pl_mixer (snd (pl_clock V c)) = pl_mixer c" "pl_params (snd (pl_clock V c)) = pl_params c"
  "pl_pipeline (snd (pl_clock V c)) = pl_pipeline c" "pl_pwm_output (snd (pl_clock V c)) = pl_pwm_output c"
  by (simp_all add: pl_clock_def case_prod_beta Let_def)

lemma pl_pin_frame [frame]:
  "pl_state (pl_pin V h c) = pl_state c" "pl_pwm (pl_pin V h c) = pl_pwm c" "pl_mixer (pl_pin V h c) = pl_mixer c"
  "pl_params (pl_pin V h c) = pl_params c" "pl_pipeline (pl_pin V h c) = pl_pipeline c"
  "pl_pwm_output (pl_pin V h c) = pl_pwm_output c"
  by (simp_all add: pl_pin_def)

text \<open>The driver a pass finds once the rates are configured.\<close>

definition configured_driver :: "('r::len, 'b, 'p) pipeline_env \<Rightarrow> 'p \<Rightarrow> 'r matrix_mixer \<Rightarrow> bool \<Rightarrow> 'p" where
  "configured_driver V p mm done_before =
    (if done_before then p else fst (env_configure_rates V p (mm_default_pwm_rates mm)))"

lemma configure_rates_once_frame [frame]:
  "pl_pwm (configure_rates_once V c)
     = configured_driver V (pl_pwm c) (pl_mixer c) (pwm_rates_configured (pl_pipeline c))"
  "pl_mixer (configure_rates_once V c) = pl_mixer c" "pl_params (configure_rates_once V c) = pl_params c"
  "pl_aux (configure_rates_once V c) = pl_aux c"
  "pl_state (configure_rates_once V c) = pl_state c" "pl_pwm_output (configure_rates_once V c) = pl_pwm_output c"
  by (simp_all add: configure_rates_once_def configured_driver_def split: prod.split option.split)

lemma pwm_stage_drives:
  "pl_pwm (snd (timed V u (pwm_stage V cmds) c)) = fst (write_pwm_commands (env_pwm V)
     (configured_driver V (pl_pwm c) (pl_mixer c) (pwm_rates_configured (pl_pipeline c))) (pl_pwm_output c)
     (fst (timed V u (pwm_stage V cmds) c)) (mm_output_types (pl_mixer c)) (pl_state c))"
  by (simp add: timed_def pl_clock_def pwm_stage_def frame Let_def case_prod_beta)

lemma pwm_stage_state [frame]: "pl_state (snd (timed V u (pwm_stage V cmds) c)) = pl_state c"
  by (simp add: timed_def pl_clock_def pwm_stage_def frame Let_def case_prod_beta)

section \<open>A pass of the pipeline\<close>

definition drive_outputs :: "('r::len, 'b, 'p) pipeline_env \<Rightarrow> 'p \<Rightarrow> ('r, 'b, 'p) pipeline_ctx \<Rightarrow> 'r flt list \<Rightarrow> 'p" where
  "drive_outputs V p c outs =
    (if \<not> output_is_enabled (pl_pwm_output c) then p
     else if is_armed (pl_state c) then fst (po_send_commands (env_pwm V) p outs)
     else fst (send_disarmed_commands (env_pwm V) p (mm_output_types (pl_mixer c))))"

lemma write_armed: "is_armed s = is_armed (pl_state c) \<Longrightarrow>
    fst (write_pwm_commands (env_pwm V) p (pl_pwm_output c) outs (mm_output_types (pl_mixer c)) s) = drive_outputs V p c outs"
  by (simp add: write_pwm_commands_def drive_outputs_def split: prod.split option.split)

lemma run_stages_drives:
  "pl_pwm (run_stages V dt c) = drive_outputs V
     (configured_driver V (pl_pwm c) (pl_mixer c) (pwm_rates_configured (pl_pipeline c))) c
     (latest_pwm_outputs (pl_pipeline (run_stages V dt c)))"
  by (simp add: run_stages_def Let_def case_prod_beta frame set_latest_def pwm_stage_drives write_armed)

text \<open>
  C5. A pass that runs drives the outputs: with outputs enabled, an armed vehicle's driver receives
  the commands the pipeline reports as its latest, and any other vehicle's driver receives the
  safe disarmed commands, whatever the mixer computed. Whether the vehicle is armed is what the
  state machine said before the pass: the errors a pass raises never change it.
\<close>

theorem pass_drives_outputs:
  assumes "run_control_pipeline_if_new_imu V c = (True, c')" and "output_is_enabled (pl_pwm_output c)"
  shows "pl_pwm c' = (let p = configured_driver V (pl_pwm c) (pl_mixer c) (pwm_rates_configured (pl_pipeline c)) in
      if is_armed (pl_state c) then fst (po_send_commands (env_pwm V) p (latest_pwm_outputs (pl_pipeline c')))
      else fst (send_disarmed_commands (env_pwm V) p (mm_output_types (pl_mixer c))))
    \<and> is_armed (pl_state c') = is_armed (pl_state c)"
proof -
  obtain dt where c': "c' = run_stages V dt (pl_pin V True (pl_flag TIME_GOING_BACKWARDS False
      (c\<lparr>pl_pipeline := (pl_pipeline c)\<lparr>last_imu_time := ph_timestamp (imu_header (the (sens_imu (pl_sensors c))))\<rparr>\<rparr>)))"
    using assms(1) by (auto simp: run_control_pipeline_if_new_imu_def Let_def split: option.splits if_splits)
  have "is_armed (pl_state c') = is_armed (pl_state c)"
    by (simp add: c' run_stages_def Let_def case_prod_beta frame)
  moreover have "pl_pwm c' = drive_outputs V
      (configured_driver V (pl_pwm c) (pl_mixer c) (pwm_rates_configured (pl_pipeline c))) c
      (latest_pwm_outputs (pl_pipeline c'))"
    using run_stages_drives [of V dt] by (simp add: c' frame drive_outputs_def)
  ultimately show ?thesis using assms(2) by (simp add: drive_outputs_def Let_def)
qed

text \<open>
  A pass that does not run changes no output: without a processed IMU sample, on the first one,
  or when its time does not advance, the driver keeps the commands of the last pass. A vehicle
  that is disarmed while its IMU is silent therefore keeps driving its motors; only the mask of
  the channels and the kill switch still reach the driver.
\<close>

theorem refused_pass_keeps_outputs:
  assumes "run_control_pipeline_if_new_imu V c = (False, c')"
  shows "pl_pwm c' = pl_pwm c \<and> latest_pwm_outputs (pl_pipeline c') = latest_pwm_outputs (pl_pipeline c)
    \<and> pl_controller c' = pl_controller c \<and> pl_estimator c' = pl_estimator c \<and> pl_board c' = pl_board c"
  using assms by (auto simp: run_control_pipeline_if_new_imu_def Let_def pl_flag_def split: option.splits if_splits)

text \<open>
  A sample that is not newer than the last one is refused: the pass raises
  \<^verbatim>\<open>TIME_GOING_BACKWARDS\<close>, which blocks arming, keeps the time of the last sample, and drives
  nothing. A pass that runs has cleared the error.
\<close>

theorem stale_sample_is_refused:
  assumes "sens_imu (pl_sensors c) = Some pkt" and "last_imu_time (pl_pipeline c) \<noteq> 0"
    and "ph_timestamp (imu_header pkt) \<le> last_imu_time (pl_pipeline c)"
  shows "fst (run_control_pipeline_if_new_imu V c) = False
    \<and> flags_contain (get_errors (pl_state (snd (run_control_pipeline_if_new_imu V c)))) TIME_GOING_BACKWARDS
    \<and> pl_pipeline (snd (run_control_pipeline_if_new_imu V c)) = pl_pipeline c
    \<and> pl_pwm (snd (run_control_pipeline_if_new_imu V c)) = pl_pwm c"
  using assms error_flag_set
  by (simp add: run_control_pipeline_if_new_imu_def pl_flag_def)

section \<open>Evaluated\<close>

text \<open>A pass at rest: the RP2350 driver, a disarmed vehicle, and the sample \<open>k\<close> as the newest.\<close>

definition rest_env :: "(32, unit, pio_pwm) pipeline_env" where
  "rest_env = \<lparr>env_linalg = no_linalg, env_real = plain_ops, env_pwm = pio_ops,
     env_configure_rates = pio_configure_output_rates, env_board = still_board\<rparr>"

definition rest_ctx :: "32 imu_packet option \<Rightarrow> (32, unit, pio_pwm) pipeline_ctx" where
  "rest_ctx k = \<lparr>pl_board = (), pl_params = zero_params,
     pl_sensors = processed_sensors_clear\<lparr>sens_imu := k\<rparr>, pl_external_attitude = None, pl_aux = None,
     pl_command = command_manager_new, pl_state = ready_manager, pl_estimator = started_estimator,
     pl_controller = controller_default, pl_mixer = sample_mixer,
     pl_pipeline = control_pipeline_default\<lparr>last_imu_time := 1000\<rparr>, pl_pwm_output = 1,
     pl_pwm = pio_pwm_new, pl_timing = None\<rparr>"

lemma rest_ctx_fields [simp]:
  "pl_sensors (rest_ctx k) = processed_sensors_clear\<lparr>sens_imu := k\<rparr>" "pl_state (rest_ctx k) = ready_manager"
  "pl_mixer (rest_ctx k) = sample_mixer" "pl_pwm (rest_ctx k) = pio_pwm_new" "pl_pwm_output (rest_ctx k) = 1"
  "pl_pipeline (rest_ctx k) = control_pipeline_default\<lparr>last_imu_time := 1000\<rparr>"
  "pwm_rates_configured control_pipeline_default = False" "env_pwm rest_env = pio_ops"
  by (simp_all add: rest_ctx_def control_pipeline_default_def rest_env_def)

lemma ready_not_armed [simp]: "\<not> is_armed ready_manager"
  by (simp add: ready_manager_eq is_armed_def)

lemma rest_pass_runs: "run_control_pipeline_if_new_imu rest_env (rest_ctx (Some (rest_packet 3500 0)))
    = (True, snd (run_control_pipeline_if_new_imu rest_env (rest_ctx (Some (rest_packet 3500 0)))))"
  by (simp add: run_control_pipeline_if_new_imu_def rest_packet_def)

theorem pass_drives_outputs_witness:
  "pl_pwm (snd (run_control_pipeline_if_new_imu rest_env (rest_ctx (Some (rest_packet 3500 0)))))
     = fst (send_disarmed_commands pio_ops (configured_driver rest_env pio_pwm_new sample_mixer False)
         (mm_output_types sample_mixer))
   \<and> \<not> is_armed (pl_state (snd (run_control_pipeline_if_new_imu rest_env (rest_ctx (Some (rest_packet 3500 0))))))"
  using pass_drives_outputs [OF rest_pass_runs] by (simp add: output_is_enabled_def)

theorem refused_pass_keeps_outputs_witness:
  "pl_pwm (snd (run_control_pipeline_if_new_imu rest_env (rest_ctx None))) = pio_pwm_new"
  using refused_pass_keeps_outputs [of rest_env "rest_ctx None" "rest_ctx None"]
  by (simp add: run_control_pipeline_if_new_imu_def processed_sensors_clear_def)

theorem stale_sample_is_refused_witness:
  "flags_contain (get_errors (pl_state (snd (run_control_pipeline_if_new_imu rest_env
      (rest_ctx (Some (rest_packet 900 0))))))) TIME_GOING_BACKWARDS
   \<and> pl_pwm (snd (run_control_pipeline_if_new_imu rest_env (rest_ctx (Some (rest_packet 900 0))))) = pio_pwm_new"
  using stale_sample_is_refused [of "rest_ctx (Some (rest_packet 900 0))" "rest_packet 900 0" rest_env]
  by (simp add: rest_packet_def)

end
