(* ===== verification/World.thy ===== *)
theory World
  imports Control_Pipeline Comm_Manager Log Rc_Command_State
begin

text \<open>
  The world of \<^verbatim>\<open>world.rs\<close> with the control half of \<^verbatim>\<open>world/control.rs\<close>, for the quadrotor of
  \<^verbatim>\<open>vehicle.rs\<close>: one record holds the state of every component, and the stages run a component
  on its part of it. Board, link, output driver and numerical libraries are the operations of an
  environment. The messages the components log are not collected: \<open>w_logs\<close> is the ring buffer
  as the loop finds it.
\<close>

section \<open>Averaging the IMU between control updates\<close>

record (overloaded) ('r::len) imu_accumulator =
  accel_sum :: "'r flt list"
  gyro_sum :: "'r flt list"
  temperature_sum :: f32
  sample_count :: u16
  latest_header :: packet_header
  latest_seq :: u32

definition imu_accumulator_default :: "('r::len) imu_accumulator" where
  "imu_accumulator_default = \<lparr>accel_sum = replicate 3 (lit32 0 1), gyro_sum = replicate 3 (lit32 0 1),
     temperature_sum = 0, sample_count = 0, latest_header = packet_header_default, latest_seq = 0\<rparr>"

definition has_samples :: "('r::len) imu_accumulator \<Rightarrow> bool" where
  "has_samples a \<longleftrightarrow> sample_count a \<noteq> 0"

definition push_sample :: "('r::len) imu_packet \<Rightarrow> 'r imu_accumulator \<Rightarrow> 'r imu_accumulator" where
  "push_sample k a = \<lparr>accel_sum = map (\<lambda>i. accel_sum a ! i + imu_accel k ! i) [0, 1, 2],
     gyro_sum = map (\<lambda>i. gyro_sum a ! i + imu_gyro k ! i) [0, 1, 2],
     temperature_sum = temperature_sum a + imu_temperature k,
     sample_count = saturating_add (sample_count a) 1,
     latest_header = imu_header k, latest_seq = imu_seq k\<rparr>"

definition take_average :: "('r::len) imu_accumulator \<Rightarrow> 'r imu_packet option \<times> 'r imu_accumulator" where
  "take_average a =
    (if sample_count a = 0 then (None, a)
     else (let n = from_u64 (ucast (sample_count a)) in
       (Some \<lparr>imu_header = latest_header a, imu_accel = map (\<lambda>i. accel_sum a ! i / n) [0, 1, 2],
          imu_gyro = map (\<lambda>i. gyro_sum a ! i / n) [0, 1, 2],
          imu_temperature = temperature_sum a / flt_of_int (uint (sample_count a)), imu_seq = latest_seq a\<rparr>,
        imu_accumulator_default)))"

section \<open>Reports and policies\<close>

record world_report =
  had_rx :: bool
  had_raw_sensor :: bool
  had_raw_imu :: bool
  had_raw_baro :: bool
  had_raw_rc :: bool
  had_processed_imu :: bool
  had_processed_baro :: bool
  had_processed_rc :: bool
  telemetry_due :: bool
  telemetry_deferred :: bool
  ran_control :: bool
  elapsed_after_control_us :: u32
  estimator_us :: u16
  controller_us :: u16
  mixer_us :: u16
  pwm_us :: u16

definition world_report_default :: world_report where
  "world_report_default = \<lparr>had_rx = False, had_raw_sensor = False, had_raw_imu = False,
     had_raw_baro = False, had_raw_rc = False, had_processed_imu = False, had_processed_baro = False,
     had_processed_rc = False, telemetry_due = False, telemetry_deferred = False, ran_control = False,
     elapsed_after_control_us = 0, estimator_us = 0, controller_us = 0, mixer_us = 0, pwm_us = 0\<rparr>"

definition merge_from :: "world_report \<Rightarrow> world_report \<Rightarrow> world_report" where
  "merge_from a b = \<lparr>had_rx = (had_rx a \<or> had_rx b), had_raw_sensor = (had_raw_sensor a \<or> had_raw_sensor b),
     had_raw_imu = (had_raw_imu a \<or> had_raw_imu b), had_raw_baro = (had_raw_baro a \<or> had_raw_baro b),
     had_raw_rc = (had_raw_rc a \<or> had_raw_rc b), had_processed_imu = (had_processed_imu a \<or> had_processed_imu b),
     had_processed_baro = (had_processed_baro a \<or> had_processed_baro b),
     had_processed_rc = (had_processed_rc a \<or> had_processed_rc b),
     telemetry_due = (telemetry_due a \<or> telemetry_due b),
     telemetry_deferred = (telemetry_deferred a \<or> telemetry_deferred b),
     ran_control = (ran_control a \<or> ran_control b),
     elapsed_after_control_us = saturating_add (elapsed_after_control_us a) (elapsed_after_control_us b),
     estimator_us = saturating_add (estimator_us a) (estimator_us b),
     controller_us = saturating_add (controller_us a) (controller_us b),
     mixer_us = saturating_add (mixer_us a) (mixer_us b), pwm_us = saturating_add (pwm_us a) (pwm_us b)\<rparr>"

datatype scheduler_decision = ImuControl | ControlUpdate | Service | Idle

record realtime_service_policy =
  min_spacing_us :: u64
  telemetry_streams_per_phase :: nat
  continue_when_idle :: bool
  drain_telemetry_with_available_slack :: bool

definition policy_with_spacing :: "u64 \<Rightarrow> nat \<Rightarrow> realtime_service_policy" where
  "policy_with_spacing spacing n = \<lparr>min_spacing_us = spacing, telemetry_streams_per_phase = n,
     continue_when_idle = False, drain_telemetry_with_available_slack = False\<rparr>"

definition policy_continuous :: "nat \<Rightarrow> realtime_service_policy" where
  "policy_continuous n = \<lparr>min_spacing_us = 0, telemetry_streams_per_phase = n,
     continue_when_idle = False, drain_telemetry_with_available_slack = False\<rparr>"

definition policy_continuous_polling :: "nat \<Rightarrow> realtime_service_policy" where
  "policy_continuous_polling n = \<lparr>min_spacing_us = 0, telemetry_streams_per_phase = n,
     continue_when_idle = True, drain_telemetry_with_available_slack = False\<rparr>"

definition policy_continuous_slack_driven :: realtime_service_policy where
  "policy_continuous_slack_driven = \<lparr>min_spacing_us = 0, telemetry_streams_per_phase = 0,
     continue_when_idle = True, drain_telemetry_with_available_slack = True\<rparr>"

section \<open>The state\<close>

definition IMU_TIMEOUT_US :: u64 where "IMU_TIMEOUT_US = 100000"
definition REALTIME_SERVICE_RESPONSE_BUDGET :: nat where "REALTIME_SERVICE_RESPONSE_BUDGET = 1"
definition REALTIME_SERVICE_MIN_CONTROL_SLACK_US :: u64 where "REALTIME_SERVICE_MIN_CONTROL_SLACK_US = 200"

record (overloaded) ('r::len, 'b, 'l, 'p) world_env =
  we_pipeline :: "('r, 'b, 'p) pipeline_env"
  we_link :: "('b, 'l) comm_interface"
  we_linalg64 :: "64 linalg"
  we_real32 :: "32 real_ops"
  we_pwm_is_enabled :: "'p \<Rightarrow> bool"

definition we_board :: "('r::len, 'b, 'l, 'p) world_env \<Rightarrow> ('r, 'b) board_ops" where
  "we_board V = env_board (we_pipeline V)"

record (overloaded) ('r::len, 'b, 'l, 'p) world =
  w_board :: 'b
  w_params :: params
  w_param_list :: "nat option"
  w_param_events :: param_event_queues
  w_comm_events :: comm_event_queues
  w_command_events :: command_event_queues
  w_companion_events :: companion_event_queues
  w_companion_link :: companion_link
  w_hard_error :: "rosflight_hard_error_msg option"
  w_aux :: "rosflight_aux_cmd_msg option"
  w_external_attitude :: "external_attitude_msg option"
  w_comm :: "'l comm_manager"
  w_raw :: "'r sensor_bus"
  w_sensors :: "'r processed_sensors"
  w_accumulator :: "'r imu_accumulator"
  w_processors :: "'r sensor_processors"
  w_rc :: rc
  w_command :: command_manager
  w_state :: state_manager
  w_flags :: calibration_flags
  w_estimator :: "'r quad_estimator"
  w_controller :: "'r quad_controller"
  w_mixer :: "'r matrix_mixer"
  w_pipeline :: "'r control_pipeline"
  w_pwm_output :: u32
  w_pwm :: 'p
  w_last_imu_seen :: u64
  w_control_hz :: u16
  w_last_control_update_us :: u64
  w_last_realtime_control_us :: u64
  w_next_realtime_service_us :: u64
  w_logs :: log_queue

text \<open>A call of a board operation that returns a value.\<close>

definition ask_board :: "('b \<Rightarrow> 'a \<times> 'b) \<Rightarrow> ('r::len, 'b, 'l, 'p) world \<Rightarrow> 'a \<times> ('r, 'b, 'l, 'p) world" where
  "ask_board f w = (let (x, b) = f (w_board w) in (x, w\<lparr>w_board := b\<rparr>))"

definition tell_board :: "('b \<Rightarrow> 'b) \<Rightarrow> ('r::len, 'b, 'l, 'p) world \<Rightarrow> ('r, 'b, 'l, 'p) world" where
  "tell_board f w = w\<lparr>w_board := f (w_board w)\<rparr>"

definition w_event :: "event \<Rightarrow> ('r::len, 'b, 'l, 'p) world \<Rightarrow> ('r, 'b, 'l, 'p) world" where
  "w_event e w = w\<lparr>w_state := fst (manager_update (w_state w) e (w_params w))\<rparr>"

section \<open>Starting\<close>

definition configure_battery_monitor :: "('r::len, 'b) board_ops \<Rightarrow> params \<Rightarrow> 'b \<Rightarrow> 'b" where
  "configure_battery_monitor B p = bo_configure_battery_monitor B
     (float_param_or p PARAM_BATTERY_VOLTAGE_MULTIPLIER 0) (float_param_or p PARAM_BATTERY_CURRENT_MULTIPLIER 0)"

definition hard_error_of :: "backup_data \<Rightarrow> rosflight_hard_error_msg" where
  "hard_error_of d = \<lparr>he_error_code = bd_error_code d, he_pc = bd_pc d,
     he_reset_count = bd_reset_count d, he_do_rearm = bd_do_rearm d\<rparr>"

definition read_hard_error :: "('r::len, 'b) board_ops \<Rightarrow> 'b \<Rightarrow> rosflight_hard_error_msg option \<times> 'b" where
  "read_hard_error B b = (case bo_backup_memory_read B b of
     (None, b1) \<Rightarrow> (None, b1)
   | (Some d, b1) \<Rightarrow> (Some (hard_error_of d), snd (bo_backup_memory_clear B b1)))"

definition world_init :: "('r::len, 'b, 'l, 'p) world_env \<Rightarrow> 'b \<Rightarrow> params \<Rightarrow> 'l \<Rightarrow> state_manager \<Rightarrow>
    'r quad_estimator \<Rightarrow> 'r quad_controller \<Rightarrow> 'r matrix_mixer \<Rightarrow> 'p \<Rightarrow> log_queue \<Rightarrow> ('r, 'b, 'l, 'p) world" where
  "world_init V board0 params0 link state0 estimator controller mixer pwm logs =
    (let B = we_board V;
       ps = sync_reflected_mixer_params (we_linalg64 V)
         (sync_reflected_mixer_params (we_linalg64 V) params0 PARAM_PRIMARY_MIXER) PARAM_SECONDARY_MIXER;
       s1 = fst (manager_update state0 INITIALIZED ps);
       s2 = initialize_imu_calibration_error s1 ps;
       r = rc_init rc_new ps;
       (cm, s3) = command_init command_manager_new ps s2;
       b1 = configure_battery_monitor B ps board0;
       (now, b2) = bo_clock_micros B b1;
       (hard, b3) = read_hard_error B b2;
       rearm = (case hard of None \<Rightarrow> False | Some m \<Rightarrow> he_do_rearm m \<noteq> 0);
       w = \<lparr>w_board = b3, w_params = ps, w_param_list = None, w_param_events = param_event_queues_new,
         w_comm_events = comm_event_queues_new, w_command_events = command_event_queues_new,
         w_companion_events = companion_event_queues_new, w_companion_link = companion_link_default,
         w_hard_error = hard, w_aux = None, w_external_attitude = None,
         w_comm = configure_telemetry_from_params ps (comm_manager_new link now),
         w_raw = sensor_bus_clear, w_sensors = processed_sensors_clear,
         w_accumulator = imu_accumulator_default,
         w_processors = sensor_processors_default (env_real (we_pipeline V)), w_rc = r, w_command = cm,
         w_state = s3, w_flags = 0, w_estimator = estimator, w_controller = controller, w_mixer = mixer,
         w_pipeline = control_pipeline_default, w_pwm_output = pwm_output_state_new (we_pwm_is_enabled V pwm),
         w_pwm = pwm, w_last_imu_seen = now, w_control_hz = 0, w_last_control_update_us = now,
         w_last_realtime_control_us = now, w_next_realtime_service_us = now, w_logs = logs\<rparr>;
       w1 = (if rearm then w_event HARDFAULT_REARM_REQUESTED w else w)
     in w1\<lparr>w_estimator := estimator_update_params (w_estimator w1) ps,
           w_controller := update_gains (w_controller w1) ps\<rparr>)"

section \<open>The control deadline\<close>

definition control_interval_us :: "u16 \<Rightarrow> u64" where
  "control_interval_us hz = 1000000 div ucast hz"

definition control_update_due_at :: "('r::len, 'b, 'l, 'p) world \<Rightarrow> u64 \<Rightarrow> bool" where
  "control_update_due_at w now \<longleftrightarrow> w_control_hz w \<noteq> 0
     \<and> control_interval_us (w_control_hz w) \<le> saturating_sub now (w_last_control_update_us w)"

definition consume_control_update_deadline :: "u64 \<Rightarrow> ('r::len, 'b, 'l, 'p) world \<Rightarrow> ('r, 'b, 'l, 'p) world" where
  "consume_control_update_deadline now w =
    (if w_control_hz w = 0 then w
     else (let iv = control_interval_us (w_control_hz w);
             n = saturating_sub now (w_last_control_update_us w) div iv
       in w\<lparr>w_last_control_update_us := saturating_add (w_last_control_update_us w) (saturating_mul n iv)\<rparr>))"

definition control_update_can_run_at :: "('r::len, 'b, 'l, 'p) world \<Rightarrow> u64 \<Rightarrow> bool" where
  "control_update_can_run_at w now \<longleftrightarrow> control_update_due_at w now \<and> has_samples (w_accumulator w)"

definition realtime_service_has_control_slack :: "('r::len, 'b, 'l, 'p) world \<Rightarrow> u64 \<Rightarrow> bool" where
  "realtime_service_has_control_slack w now =
    (if w_control_hz w = 0 then True
     else if \<not> has_samples (w_accumulator w) then True
     else (let elapsed = saturating_sub now (w_last_control_update_us w)
       in uint elapsed + uint REALTIME_SERVICE_MIN_CONTROL_SLACK_US < 2 ^ 64
         \<and> elapsed + REALTIME_SERVICE_MIN_CONTROL_SLACK_US < control_interval_us (w_control_hz w)))"

definition realtime_service_can_continue :: "('r::len, 'b, 'l, 'p) world_env \<Rightarrow> ('r, 'b, 'l, 'p) world
    \<Rightarrow> bool \<times> ('r, 'b, 'l, 'p) world" where
  "realtime_service_can_continue V w =
    (let (pending, w1) = ask_board (bo_imu_pending (we_board V)) w
     in if pending then (False, w1)
        else (let (now, w2) = ask_board (bo_clock_micros (we_board V)) w1
          in (\<not> control_update_can_run_at w2 now \<and> realtime_service_has_control_slack w2 now, w2)))"

definition realtime_scheduler_step :: "('r::len, 'b, 'l, 'p) world_env \<Rightarrow> ('r, 'b, 'l, 'p) world
    \<Rightarrow> scheduler_decision \<times> ('r, 'b, 'l, 'p) world" where
  "realtime_scheduler_step V w =
    (let (pending, w1) = ask_board (bo_imu_pending (we_board V)) w
     in if pending then (ImuControl, w1)
        else (let (now, w2) = ask_board (bo_clock_micros (we_board V)) w1
          in if control_update_can_run_at w2 now then (ControlUpdate, w2)
             else if w_next_realtime_service_us w2 \<le> now \<and> realtime_service_has_control_slack w2 now
               then (Service, w2)
             else (Idle, w2)))"

definition set_control_loop_rates :: "('r::len, 'b, 'l, 'p) world_env \<Rightarrow> u16 \<Rightarrow> ('r, 'b, 'l, 'p) world
    \<Rightarrow> ('r, 'b, 'l, 'p) world" where
  "set_control_loop_rates V hz w = (let (now, w1) = ask_board (bo_clock_micros (we_board V)) (w\<lparr>w_control_hz := hz\<rparr>)
     in w1\<lparr>w_last_control_update_us := now\<rparr>)"

section \<open>Control\<close>

definition pipeline_ctx_of :: "('r::len, 'b, 'l, 'p) world \<Rightarrow> ('r, 'b, 'p) pipeline_ctx" where
  "pipeline_ctx_of w = \<lparr>pl_board = w_board w, pl_params = w_params w, pl_sensors = w_sensors w,
     pl_external_attitude = w_external_attitude w, pl_aux = w_aux w, pl_command = w_command w,
     pl_state = w_state w, pl_estimator = w_estimator w, pl_controller = w_controller w,
     pl_mixer = w_mixer w, pl_pipeline = w_pipeline w, pl_pwm_output = w_pwm_output w,
     pl_pwm = w_pwm w, pl_timing = None\<rparr>"

definition with_pipeline :: "('r::len, 'b, 'p) pipeline_ctx \<Rightarrow> ('r, 'b, 'l, 'p) world \<Rightarrow> ('r, 'b, 'l, 'p) world" where
  "with_pipeline c w = w\<lparr>w_board := pl_board c, w_external_attitude := pl_external_attitude c,
     w_state := pl_state c, w_estimator := pl_estimator c, w_controller := pl_controller c,
     w_mixer := pl_mixer c, w_pipeline := pl_pipeline c, w_pwm := pl_pwm c\<rparr>"

definition run_control_and_mixing_stage_if_new_imu :: "('r::len, 'b, 'l, 'p) world_env \<Rightarrow>
    ('r, 'b, 'l, 'p) world \<Rightarrow> bool \<times> ('r, 'b, 'l, 'p) world" where
  "run_control_and_mixing_stage_if_new_imu V w =
    (let (ran, c) = run_control_pipeline_if_new_imu (we_pipeline V) (pipeline_ctx_of w) in (ran, with_pipeline c w))"

definition run_control_and_mixing_stage_with_accumulated_imu :: "('r::len, 'b, 'l, 'p) world_env \<Rightarrow>
    ('r, 'b, 'l, 'p) world \<Rightarrow> bool \<times> ('r, 'b, 'l, 'p) world" where
  "run_control_and_mixing_stage_with_accumulated_imu V w = (case take_average (w_accumulator w) of
     (None, a) \<Rightarrow> (False, w\<lparr>w_accumulator := a\<rparr>)
   | (Some averaged, a) \<Rightarrow>
      (let latest = sens_imu (w_sensors w);
         (ran, w1) = run_control_and_mixing_stage_if_new_imu V
           (w\<lparr>w_accumulator := a, w_sensors := (w_sensors w)\<lparr>sens_imu := Some averaged\<rparr>\<rparr>)
       in (ran, w1\<lparr>w_sensors := (w_sensors w1)\<lparr>sens_imu := latest\<rparr>\<rparr>)))"

definition run_control_and_mixing_stage_if_control_due :: "('r::len, 'b, 'l, 'p) world_env \<Rightarrow> u64 \<Rightarrow>
    ('r, 'b, 'l, 'p) world \<Rightarrow> bool \<times> ('r, 'b, 'l, 'p) world" where
  "run_control_and_mixing_stage_if_control_due V now w =
    (if w_control_hz w \<noteq> 0 then
       (if \<not> control_update_can_run_at w now then (False, w)
        else run_control_and_mixing_stage_with_accumulated_imu V (consume_control_update_deadline now w))
     else if sens_imu (w_sensors w) = None then (False, w)
     else run_control_and_mixing_stage_if_new_imu V w)"

definition stamp_control :: "('r::len, 'b, 'l, 'p) world_env \<Rightarrow> bool \<times> ('r, 'b, 'l, 'p) world
    \<Rightarrow> bool \<times> ('r, 'b, 'l, 'p) world" where
  "stamp_control V = (\<lambda>(ran, w). if ran
     then (let (now, w1) = ask_board (bo_clock_micros (we_board V)) w in (True, w1\<lparr>w_last_realtime_control_us := now\<rparr>))
     else (False, w))"

definition run_control_update_tick :: "('r::len, 'b, 'l, 'p) world_env \<Rightarrow> ('r, 'b, 'l, 'p) world
    \<Rightarrow> bool \<times> ('r, 'b, 'l, 'p) world" where
  "run_control_update_tick V w = (let (now, w1) = ask_board (bo_clock_micros (we_board V)) w
     in stamp_control V (run_control_and_mixing_stage_if_control_due V now w1))"

section \<open>Radio, outputs and lamps\<close>

definition run_pwm_output_stage :: "('r::len, 'b, 'l, 'p) world_env \<Rightarrow> ('r, 'b, 'l, 'p) world
    \<Rightarrow> bool \<times> ('r, 'b, 'l, 'p) world" where
  "run_pwm_output_stage V w =
    (let kill = (switch_mapped (w_rc w) SwitchOutputKill \<and> switch_on (w_rc w) SwitchOutputKill);
       (p, out, r) = sync_pwm_output_state (env_pwm (we_pipeline V)) kill
         (int_param_or (w_params w) PARAM_CHANNEL_OUTPUT_MASK 0) (w_pwm w) (w_pwm_output w)
     in (case r of Inl _ \<Rightarrow> False | Inr changed \<Rightarrow> changed, w\<lparr>w_pwm := p, w_pwm_output := out\<rparr>))"

definition update_board_leds :: "('r::len, 'b, 'l, 'p) world_env \<Rightarrow> u32 \<Rightarrow> ('r, 'b, 'l, 'p) world
    \<Rightarrow> ('r, 'b, 'l, 'p) world" where
  "update_board_leds V now_ms w =
    (let w1 = tell_board (bo_led0 (we_board V) (cm_rc_override (w_command w) \<noteq> 0)) w;
       lit = (if is_in_failsafe (w_state w) then (now_ms div 100) mod 2 = 0
              else if is_in_error_state (w_state w) then (now_ms div 500) mod 2 = 0
              else is_armed (w_state w))
     in tell_board (bo_led1 (we_board V) lit) w1)"

definition run_rc_command_state_stages :: "('r::len, 'b, 'l, 'p) world_env \<Rightarrow> rc_packet option \<Rightarrow>
    ('r, 'b, 'l, 'p) world \<Rightarrow> ('r, 'b, 'l, 'p) world" where
  "run_rc_command_state_stages V fresh w0 =
    (let (now_ms, w) = ask_board (bo_clock_millis (we_board V)) w0;
       pass = run_rc_command_state now_ms fresh \<lparr>pass_rc = w_rc w, pass_command = w_command w,
         pass_state = w_state w, pass_params = w_params w, pass_events = Some (w_param_events w)\<rparr>;
       w1 = w\<lparr>w_rc := pass_rc pass, w_command := pass_command pass, w_state := pass_state pass,
         w_params := pass_params pass,
         w_param_events := (case pass_events pass of None \<Rightarrow> w_param_events w | Some ev \<Rightarrow> ev)\<rparr>;
       w2 = snd (run_pwm_output_stage V w1)
     in update_board_leds V now_ms w2)"

end
