(* ===== verification/World_Service.thy ===== *)
theory World_Service
  imports World
begin

text \<open>
  The service half of the world, \<^verbatim>\<open>world/service.rs\<close>, \<^verbatim>\<open>world/telemetry.rs\<close> and
  \<^verbatim>\<open>params/reactions.rs\<close>: what a parameter change sets off in the other components, the
  communication, sensor and telemetry stages, the loop \<^verbatim>\<open>run_once\<close>, the IMU tick and the
  prioritised service loop of the realtime boards. The two loops that ask the board whether to
  go on may run for ever when its clock stands still; they are partial functions.
\<close>

section \<open>Reactions to parameter changes\<close>

definition mixer_status_event :: "mixer_status \<Rightarrow> event" where
  "mixer_status_event st = (if st = InvalidMixer then ERROR_OCCURRED INVALID_MIXER else ERROR_CLEARED INVALID_MIXER)"

definition invalidate_pwm_rates :: "('r::len) control_pipeline \<Rightarrow> 'r control_pipeline" where
  "invalidate_pwm_rates p = p\<lparr>pwm_rates_configured := False\<rparr>"

definition mixer_reacted :: "('r::len) matrix_mixer \<times> mixer_status option \<Rightarrow> ('r, 'b, 'l, 'p) world
    \<Rightarrow> ('r, 'b, 'l, 'p) world" where
  "mixer_reacted r w = (case r of
     (mm, None) \<Rightarrow> w\<lparr>w_mixer := mm\<rparr>
   | (mm, Some st) \<Rightarrow> w_event (mixer_status_event st)
       (w\<lparr>w_mixer := mm, w_pipeline := invalidate_pwm_rates (w_pipeline w)\<rparr>))"

definition react_mixer_refresh :: "('r::len, 'b, 'l, 'p) world_env \<Rightarrow> ('r, 'b, 'l, 'p) world \<Rightarrow> ('r, 'b, 'l, 'p) world" where
  "react_mixer_refresh V w = mixer_reacted (mixer_refresh_params (env_linalg (we_pipeline V)) (w_mixer w) (w_params w)) w"

definition react_mixer_change :: "('r::len, 'b, 'l, 'p) world_env \<Rightarrow> param_changed \<Rightarrow> ('r, 'b, 'l, 'p) world
    \<Rightarrow> ('r, 'b, 'l, 'p) world" where
  "react_mixer_change V ch w =
    mixer_reacted (mixer_on_param_changed (env_linalg (we_pipeline V)) (w_mixer w) (w_params w) (pc_id ch)) w"

definition refresh_failsafe :: "('r::len, 'b, 'l, 'p) world \<Rightarrow> ('r, 'b, 'l, 'p) world" where
  "refresh_failsafe w = (let (cm, s) = update_failsafe_config (w_command w) (w_params w) (w_state w)
     in w\<lparr>w_command := cm, w_state := s\<rparr>)"

definition react_rc_change :: "param_changed \<Rightarrow> ('r::len, 'b, 'l, 'p) world \<Rightarrow> ('r, 'b, 'l, 'p) world" where
  "react_rc_change ch w = w\<lparr>w_rc := rc_param_change_callback (w_rc w) (pc_id ch) (w_params w)\<rparr>"

definition react_command_change :: "param_changed \<Rightarrow> ('r::len, 'b, 'l, 'p) world \<Rightarrow> ('r, 'b, 'l, 'p) world" where
  "react_command_change ch w =
    (if pc_id ch = PARAM_FAILSAFE_THROTTLE \<or> pc_id ch = PARAM_FIXED_WING then refresh_failsafe w else w)"

definition apply_param_reactions :: "('r::len, 'b, 'l, 'p) world_env \<Rightarrow> ('r, 'b, 'l, 'p) world \<Rightarrow> ('r, 'b, 'l, 'p) world" where
  "apply_param_reactions V w =
    (let full = full_refresh (w_param_events w); chs = eq_iter (changes (w_param_events w));
       w1 = (if full then
               (let w1 = react_mixer_refresh V w in refresh_failsafe (w1\<lparr>w_rc := rc_init (w_rc w1) (w_params w1)\<rparr>))
             else fold react_command_change chs (fold react_rc_change chs (fold (react_mixer_change V) chs w)));
       w2 = (if full \<or> chs \<noteq> [] then w1\<lparr>w_estimator := estimator_update_params (w_estimator w1) (w_params w1),
               w_controller := update_gains (w_controller w1) (w_params w1)\<rparr> else w1)
     in w2\<lparr>w_param_events := (w_param_events w2)\<lparr>changes := eq_clear (changes (w_param_events w2)), full_refresh := False\<rparr>\<rparr>)"

text \<open>The world's own reactions come first: battery monitor and telemetry rates.\<close>

definition world_param_reactions :: "('r::len, 'b, 'l, 'p) world_env \<Rightarrow> ('r, 'b, 'l, 'p) world \<Rightarrow> ('r, 'b, 'l, 'p) world" where
  "world_param_reactions V w =
    (let full = full_refresh (w_param_events w); chs = eq_iter (changes (w_param_events w));
       w1 = (if full \<or> (\<exists>ch \<in> set chs. pc_id ch \<in> {PARAM_BATTERY_VOLTAGE_MULTIPLIER, PARAM_BATTERY_CURRENT_MULTIPLIER})
             then tell_board (configure_battery_monitor (we_board V) (w_params w)) w else w);
       w2 = (if full then w1\<lparr>w_comm := configure_telemetry_from_params (w_params w1) (w_comm w1)\<rparr>
             else (let (now, w2) = ask_board (bo_clock_micros (we_board V)) w1
               in w2\<lparr>w_comm := fold (\<lambda>ch m. snd (update_telemetry_param (w_params w2) (pc_id ch) now m)) chs (w_comm w2)\<rparr>))
     in apply_param_reactions V w2)"

section \<open>Communication and parameters\<close>

definition process_comm_stage :: "('r::len, 'b, 'l, 'p) world_env \<Rightarrow> ('r, 'b, 'l, 'p) world \<Rightarrow> ('r, 'b, 'l, 'p) world" where
  "process_comm_stage V w =
    (let (m, b) = process_incoming_messages (we_link V) (w_comm w, w_board w)
     in if \<not> has_pending_messages m then w\<lparr>w_comm := m, w_board := b\<rparr>
        else (let c = act_on_messages (we_board V) (we_link V) \<lparr>ca_manager = m, ca_param_events = w_param_events w,
               ca_comm_events = w_comm_events w, ca_command_events = w_command_events w,
               ca_companion_events = w_companion_events w, ca_board = b\<rparr>
          in w\<lparr>w_comm := ca_manager c, w_param_events := ca_param_events c, w_comm_events := ca_comm_events c,
               w_command_events := ca_command_events c, w_companion_events := ca_companion_events c,
               w_board := ca_board c\<rparr>))"

definition has_pending_companion_work :: "('r::len, 'b, 'l, 'p) world \<Rightarrow> bool" where
  "has_pending_companion_work w \<longleftrightarrow> \<not> companion_events_is_empty (w_companion_events w)
     \<or> connected (w_companion_link w) \<and> w_hard_error w \<noteq> None"

definition apply_companion_events :: "('r::len, 'b, 'l, 'p) world \<Rightarrow> ('r, 'b, 'l, 'p) world" where
  "apply_companion_events w =
    (let c = apply_companion_inputs \<lparr>ci_events = w_companion_events w, ci_comm = w_comm_events w,
       ci_link = w_companion_link w, ci_aux = w_aux w, ci_attitude = w_external_attitude w,
       ci_hard_error = w_hard_error w\<rparr>
     in w\<lparr>w_companion_events := ci_events c, w_comm_events := ci_comm c, w_companion_link := ci_link c,
          w_aux := ci_aux c, w_external_attitude := ci_attitude c, w_hard_error := ci_hard_error c\<rparr>)"

definition command_io_of :: "('r::len, 'b, 'l, 'p) world_env \<Rightarrow> ('b, 'r quad_controller) command_io" where
  "command_io_of V = \<lparr>io_reboot = bo_reboot (we_board V), io_reboot_to_bootloader = bo_reboot_to_bootloader (we_board V),
     io_read_params = bo_read_params (we_board V), io_write_params = bo_write_params (we_board V),
     io_trim_torques = calculate_equilibrium_torques_from_rc (env_real (we_pipeline V))\<rparr>"

definition apply_command_events :: "('r::len, 'b, 'l, 'p) world_env \<Rightarrow> ('r, 'b, 'l, 'p) world \<Rightarrow> ('r, 'b, 'l, 'p) world" where
  "apply_command_events V w =
    (let c = apply_command_requests (command_io_of V) \<lparr>cx_requests = w_command_events w,
       cx_param_events = w_param_events w, cx_comm = w_comm_events w, cx_state = w_state w,
       cx_command = w_command w, cx_controller = w_controller w, cx_board = w_board w,
       cx_flags = w_flags w, cx_params = w_params w\<rparr>
     in w\<lparr>w_command_events := cx_requests c, w_param_events := cx_param_events c, w_comm_events := cx_comm c,
          w_command := cx_command c, w_controller := cx_controller c, w_board := cx_board c,
          w_flags := cx_flags c, w_params := cx_params c\<rparr>)"

definition has_pending_param_work :: "('r::len, 'b, 'l, 'p) world \<Rightarrow> bool" where
  "has_pending_param_work w \<longleftrightarrow> \<not> eq_is_empty (set_requests (w_param_events w))
     \<or> \<not> eq_is_empty (read_requests (w_param_events w)) \<or> \<not> eq_is_empty (list_requests (w_param_events w))
     \<or> param_list_is_active (w_param_list w)"

definition world_service_param_events :: "('r::len, 'b, 'l, 'p) world_env \<Rightarrow> ('r, 'b, 'l, 'p) world \<Rightarrow> ('r, 'b, 'l, 'p) world" where
  "world_service_param_events V w =
    (let s = service_param_events (we_linalg64 V) \<lparr>svc_params = w_params w, svc_next_index = w_param_list w,
       svc_events = w_param_events w, svc_comm = w_comm_events w\<rparr>
     in w\<lparr>w_params := svc_params s, w_param_list := svc_next_index s, w_param_events := svc_events s,
          w_comm_events := svc_comm s\<rparr>)"

definition world_set_param :: "param_id \<Rightarrow> param_value \<Rightarrow> ('r::len, 'b, 'l, 'p) world \<Rightarrow> ('r, 'b, 'l, 'p) world" where
  "world_set_param pid v w = (let (p, ch) = set_param_and_emit_change (w_params w) (changes (w_param_events w)) pid v
     in w\<lparr>w_params := p, w_param_events := (w_param_events w)\<lparr>changes := ch\<rparr>\<rparr>)"

definition request_gyro_calibration_if_needed :: "('r::len, 'b, 'l, 'p) world \<Rightarrow> ('r, 'b, 'l, 'p) world" where
  "request_gyro_calibration_if_needed w =
    (if sm_is_calibrating (w_state w) \<and> \<not> flags_contain (w_flags w) CAL_GYRO then
       (let w1 = world_set_param PARAM_GYRO_Z_BIAS (PFloat 0) (world_set_param PARAM_GYRO_Y_BIAS (PFloat 0)
          (world_set_param PARAM_GYRO_X_BIAS (PFloat 0) (w\<lparr>w_flags := flags_remove (w_flags w) CAL_GYRO_FAILED\<rparr>)))
        in w1\<lparr>w_flags := w_flags w1 OR CAL_GYRO\<rparr>)
     else w)"

definition run_communication_and_parameter_service_stage :: "('r::len, 'b, 'l, 'p) world_env
    \<Rightarrow> ('r, 'b, 'l, 'p) world \<Rightarrow> ('r, 'b, 'l, 'p) world" where
  "run_communication_and_parameter_service_stage V w =
    (let w1 = process_comm_stage V w;
       w2 = (if has_pending_companion_work w1 then apply_companion_events w1 else w1);
       w3 = (if \<not> command_events_is_empty (w_command_events w2) then apply_command_events V w2 else w2);
       w4 = (if has_pending_param_work w3 then world_service_param_events V w3 else w3);
       w5 = request_gyro_calibration_if_needed w4
     in if full_refresh (w_param_events w5) \<or> \<not> eq_is_empty (changes (w_param_events w5))
        then world_param_reactions V w5 else w5)"

section \<open>Sensors\<close>

definition run_ingestion :: "('r ingestion \<Rightarrow> 'r ingestion) \<Rightarrow> ('r::len, 'b, 'l, 'p) world \<Rightarrow> ('r, 'b, 'l, 'p) world" where
  "run_ingestion f w = (let (raw, out, ps, c) = f (w_raw w, w_sensors w, w_processors w,
       \<lparr>sc_flags = w_flags w, sc_params = w_params w, sc_logs = []\<rparr>)
     in w\<lparr>w_raw := raw, w_sensors := out, w_processors := ps, w_flags := sc_flags c, w_params := sc_params c\<rparr>)"

definition calibration_finished :: "calibration_flags \<Rightarrow> calibration_flags \<Rightarrow> calibration_flags \<Rightarrow> calibration_flags \<Rightarrow> bool" where
  "calibration_finished before after f failed \<longleftrightarrow> flags_contain before f \<and> \<not> flags_contain after f
     \<and> \<not> flags_contain after failed"

definition after_imu_calibration :: "calibration_flags \<Rightarrow> ('r::len, 'b, 'l, 'p) world \<Rightarrow> ('r, 'b, 'l, 'p) world" where
  "after_imu_calibration before w =
    (let w1 = (if calibration_finished before (w_flags w) CAL_GYRO CAL_GYRO_FAILED
               then w\<lparr>w_estimator := reset_adaptive_bias (w_estimator w)\<rparr> else w)
     in if calibration_finished before (w_flags w1) CAL_ACCEL CAL_ACCEL_FAILED
        then w1\<lparr>w_state := fst (set_error_flag (w_state w1) UNCALIBRATED_IMU False (w_params w1)),
                w_estimator := reset_state (w_estimator w1), w_pipeline := control_pipeline_default\<rparr>
        else w1)"

definition emit_change_of :: "param_id \<Rightarrow> param_value \<Rightarrow> ('r::len, 'b, 'l, 'p) world \<Rightarrow> ('r, 'b, 'l, 'p) world" where
  "emit_change_of pid old w = w\<lparr>w_param_events := (w_param_events w)\<lparr>changes :=
     emit_param_change (changes (w_param_events w)) pid old (get_by_id (w_params w) pid)\<rparr>\<rparr>"

definition process_sensor_bus_after_update :: "('r::len, 'b, 'l, 'p) world_env \<Rightarrow> ('r, 'b, 'l, 'p) world
    \<Rightarrow> ('r, 'b, 'l, 'p) world" where
  "process_sensor_bus_after_update V w0 =
    (let (now_ms, w) = ask_board (bo_clock_millis (we_board V)) w0; before = w_flags w;
       bias = get_by_id (w_params w) PARAM_BARO_BIAS; ground = get_by_id (w_params w) PARAM_GROUND_LEVEL;
       w1 = run_ingestion (process_sensor_bus (env_real (we_pipeline V)) (we_real32 V) now_ms) w;
       w2 = (if calibration_finished before (w_flags w1) CAL_BARO CAL_BARO_FAILED
             then emit_change_of PARAM_GROUND_LEVEL ground (emit_change_of PARAM_BARO_BIAS bias w1) else w1)
     in after_imu_calibration before w2)"

definition process_imu_sensor_after_update :: "('r::len, 'b, 'l, 'p) world_env \<Rightarrow> ('r, 'b, 'l, 'p) world
    \<Rightarrow> ('r, 'b, 'l, 'p) world" where
  "process_imu_sensor_after_update V w0 =
    (let (now_ms, w) = ask_board (bo_clock_millis (we_board V)) w0
     in after_imu_calibration (w_flags w) (run_ingestion (process_imu_sensor (env_real (we_pipeline V))) w))"

definition record_control_imu_candidate :: "('r::len, 'b, 'l, 'p) world \<Rightarrow> ('r, 'b, 'l, 'p) world" where
  "record_control_imu_candidate w = (case sens_imu (w_sensors w) of
     None \<Rightarrow> w | Some k \<Rightarrow> w\<lparr>w_accumulator := push_sample k (w_accumulator w)\<rparr>)"

text \<open>\<^verbatim>\<open>update_sensor_bus\<close> of the board reads its sensors into the raw packets.\<close>

definition read_sensors :: "('b \<Rightarrow> 'r sensor_bus \<Rightarrow> 'r sensor_bus \<times> 'b) \<Rightarrow> ('r::len, 'b, 'l, 'p) world
    \<Rightarrow> ('r, 'b, 'l, 'p) world" where
  "read_sensors f w = (let (raw, b) = f (w_board w) (w_raw w) in w\<lparr>w_raw := raw, w_board := b\<rparr>)"

definition update_sensor_health_and_calibration :: "u64 \<Rightarrow> ('r::len, 'b, 'l, 'p) world \<Rightarrow> ('r, 'b, 'l, 'p) world" where
  "update_sensor_health_and_calibration now w =
    (let (s, seen) = update_sensor_health now (sens_imu (w_sensors w) \<noteq> None) (w_params w) IMU_TIMEOUT_US
         (w_state w, w_last_imu_seen w);
       w1 = w\<lparr>w_state := s, w_last_imu_seen := seen\<rparr>;
       failed = (sm_is_calibrating s \<and> flags_contain (w_flags w1) CAL_GYRO_FAILED);
       completed = (sm_is_calibrating s \<and> \<not> flags_contain (w_flags w1) CAL_GYRO)
     in if failed then (let w2 = w_event CALIBRATION_FAILED w1 in w2\<lparr>w_flags := flags_remove (w_flags w2) CAL_GYRO_FAILED\<rparr>)
        else if completed then w_event CALIBRATION_COMPLETE w1 else w1)"

definition run_sensor_ingestion_stage :: "('r::len, 'b, 'l, 'p) world_env \<Rightarrow> ('r, 'b, 'l, 'p) world \<Rightarrow> ('r, 'b, 'l, 'p) world" where
  "run_sensor_ingestion_stage V w =
    process_sensor_bus_after_update V (read_sensors (bo_update_sensor_bus (we_board V)) w)"

definition run_sensor_ingestion_and_health_stage_without_log_drain :: "('r::len, 'b, 'l, 'p) world_env
    \<Rightarrow> ('r, 'b, 'l, 'p) world \<Rightarrow> ('r, 'b, 'l, 'p) world" where
  "run_sensor_ingestion_and_health_stage_without_log_drain V w =
    (let (now, w1) = ask_board (bo_clock_micros (we_board V)) w
     in update_sensor_health_and_calibration now (run_sensor_ingestion_stage V w1))"

section \<open>Responses\<close>

definition drain_logs :: "('r::len, 'b, 'l, 'p) world \<Rightarrow> ('r, 'b, 'l, 'p) world" where
  "drain_logs w = (let (_, logs, q) = drain_logs_to_comm_responses (connected (w_companion_link w)) (w_logs w)
       (responses (w_comm_events w))
     in w\<lparr>w_logs := logs, w_comm_events := (w_comm_events w)\<lparr>responses := q\<rparr>\<rparr>)"

definition drain_logs_and_send_responses_limited :: "('r::len, 'b, 'l, 'p) world_env \<Rightarrow> nat
    \<Rightarrow> ('r, 'b, 'l, 'p) world \<Rightarrow> ('r, 'b, 'l, 'p) world" where
  "drain_logs_and_send_responses_limited V max_responses w =
    (let w1 = drain_logs w in if comm_events_is_empty (w_comm_events w1) then w1
     else (let (_, ev, m, b) = send_comm_responses_limited (we_link V) max_responses (w_comm_events w1) (w_comm w1, w_board w1)
       in w1\<lparr>w_comm_events := ev, w_comm := m, w_board := b\<rparr>))"

definition drain_logs_and_send_responses :: "('r::len, 'b, 'l, 'p) world_env \<Rightarrow> ('r, 'b, 'l, 'p) world
    \<Rightarrow> ('r, 'b, 'l, 'p) world" where
  "drain_logs_and_send_responses V w =
    (let w1 = drain_logs w in if comm_events_is_empty (w_comm_events w1) then w1
     else (let (ev, m, b) = send_comm_responses (we_link V) (w_comm_events w1) (w_comm w1, w_board w1)
       in w1\<lparr>w_comm_events := ev, w_comm := m, w_board := b\<rparr>))"

definition run_sensor_ingestion_and_health_stage :: "('r::len, 'b, 'l, 'p) world_env \<Rightarrow> ('r, 'b, 'l, 'p) world
    \<Rightarrow> ('r, 'b, 'l, 'p) world" where
  "run_sensor_ingestion_and_health_stage V w =
    drain_logs_and_send_responses V (run_sensor_ingestion_and_health_stage_without_log_drain V w)"

section \<open>Telemetry\<close>

definition telemetry_ctx_of :: "u64 \<Rightarrow> u16 \<Rightarrow> ('r::len, 'b, 'l, 'p) world \<Rightarrow> 'r telemetry_ctx" where
  "telemetry_ctx_of now errors w = \<lparr>tx_now_us = now, tx_state = w_state w, tx_command = w_command w,
     tx_params = w_params w, tx_estimator = latest_estimator_state (w_pipeline w), tx_sensors = w_sensors w,
     tx_actuators = latest_pwm_outputs (w_pipeline w), tx_sensor_errors = errors,
     tx_loop_time_us = latest_loop_time_us (w_pipeline w)\<rparr>"

definition run_telemetry_stage :: "('r::len, 'b, 'l, 'p) world_env \<Rightarrow> ('r, 'b, 'l, 'p) world \<Rightarrow> ('r, 'b, 'l, 'p) world" where
  "run_telemetry_stage V w =
    (let (now, w1) = ask_board (bo_clock_micros (we_board V)) w
     in if \<not> named_telemetry_due (w_comm w1) now (w_sensors w1) then w1
        else (let (errors, w2) = ask_board (bo_sensors_errors_count (we_board V)) w1;
               (m, b) = send_named_telemetry_streams (we_board V) (we_link V) (telemetry_ctx_of now errors w2) (w_comm w2, w_board w2)
          in w2\<lparr>w_comm := m, w_board := b\<rparr>))"

definition send_with :: "(('r::len) telemetry_ctx \<Rightarrow> ('l, 'b) comm_run \<Rightarrow> bool \<times> ('l, 'b) comm_run) \<Rightarrow>
    ('r, 'b, 'l, 'p) world_env \<Rightarrow> ('r, 'b, 'l, 'p) world \<Rightarrow> bool \<times> ('r, 'b, 'l, 'p) world" where
  "send_with f V w =
    (let (now, w1) = ask_board (bo_clock_micros (we_board V)) w;
       (errors, w2) = ask_board (bo_sensors_errors_count (we_board V)) w1;
       (sent, m, b) = f (telemetry_ctx_of now errors w2) (w_comm w2, w_board w2)
     in (sent, w2\<lparr>w_comm := m, w_board := b\<rparr>))"

definition send_realtime_telemetry_stream :: "('r::len, 'b, 'l, 'p) world_env \<Rightarrow> ('r, 'b, 'l, 'p) world
    \<Rightarrow> bool \<times> ('r, 'b, 'l, 'p) world" where
  "send_realtime_telemetry_stream V = send_with (send_one_named_telemetry_stream (we_board V) (we_link V)) V"

definition send_realtime_telemetry_stream_by_priority :: "('r::len, 'b, 'l, 'p) world_env
    \<Rightarrow> realtime_telemetry_priority \<Rightarrow> ('r, 'b, 'l, 'p) world \<Rightarrow> bool \<times> ('r, 'b, 'l, 'p) world" where
  "send_realtime_telemetry_stream_by_priority V pri =
    send_with (\<lambda>c. send_named_telemetry_stream_with_gate (we_board V) (we_link V) c pri) V"

text \<open>The budgeted loop sends at most \<open>max_streams\<close> streams, after \<open>sent\<close> of them.\<close>

function telemetry_budget_loop :: "('r::len, 'b, 'l, 'p) world_env \<Rightarrow> nat \<Rightarrow> nat \<Rightarrow> ('r, 'b, 'l, 'p) world
    \<Rightarrow> nat \<times> ('r, 'b, 'l, 'p) world" where
  "telemetry_budget_loop V max_streams sent w =
    (if sent < max_streams then (case send_realtime_telemetry_stream V w of
         (True, w1) \<Rightarrow> telemetry_budget_loop V max_streams (sent + 1) w1
       | (False, w1) \<Rightarrow> (sent, w1))
     else (sent, w))"
  by pat_completeness auto
termination by (relation "measure (\<lambda>(V, max_streams, sent, w). max_streams - sent)") auto

declare telemetry_budget_loop.simps [simp del]

definition run_realtime_telemetry_stage_budgeted :: "('r::len, 'b, 'l, 'p) world_env \<Rightarrow> nat \<Rightarrow> ('r, 'b, 'l, 'p) world
    \<Rightarrow> nat \<times> ('r, 'b, 'l, 'p) world" where
  "run_realtime_telemetry_stage_budgeted V max_streams w = telemetry_budget_loop V max_streams 0 w"

partial_function (option) telemetry_slack_loop :: "('r::len, 'b, 'l, 'p) world_env \<Rightarrow> nat \<Rightarrow> ('r, 'b, 'l, 'p) world
    \<Rightarrow> (nat \<times> ('r, 'b, 'l, 'p) world) option" where
  "telemetry_slack_loop V sent w = (case realtime_service_can_continue V w of (go_on, w1) \<Rightarrow>
     if \<not> go_on then Some (sent, w1)
     else (case send_realtime_telemetry_stream V w1 of (ok, w2) \<Rightarrow>
       if ok then telemetry_slack_loop V (sent + 1) w2 else Some (sent, w2)))"

definition run_realtime_telemetry_stage_with_available_slack :: "('r::len, 'b, 'l, 'p) world_env
    \<Rightarrow> ('r, 'b, 'l, 'p) world \<Rightarrow> (nat \<times> ('r, 'b, 'l, 'p) world) option" where
  "run_realtime_telemetry_stage_with_available_slack V w = telemetry_slack_loop V 0 w"

text \<open>The priority list stops when the budget is spent; the rest of the budget goes to the normal order.\<close>

fun priority_loop :: "('r::len, 'b, 'l, 'p) world_env \<Rightarrow> nat \<Rightarrow> realtime_telemetry_priority list \<Rightarrow> nat
    \<Rightarrow> ('r, 'b, 'l, 'p) world \<Rightarrow> nat \<times> ('r, 'b, 'l, 'p) world" where
  "priority_loop V max_streams [] sent w = telemetry_budget_loop V max_streams sent w"
| "priority_loop V max_streams (p # ps) sent w =
    (if max_streams \<le> sent then (sent, w)
     else (let (ok, w1) = send_realtime_telemetry_stream_by_priority V p w
       in priority_loop V max_streams ps (if ok then sent + 1 else sent) w1))"

definition run_realtime_telemetry_stage_prioritized :: "('r::len, 'b, 'l, 'p) world_env
    \<Rightarrow> realtime_telemetry_priority list \<Rightarrow> nat \<Rightarrow> ('r, 'b, 'l, 'p) world \<Rightarrow> nat \<times> ('r, 'b, 'l, 'p) world" where
  "run_realtime_telemetry_stage_prioritized V ps max_streams w = priority_loop V max_streams ps 0 w"

section \<open>The loops\<close>

definition run_once :: "('r::len, 'b, 'l, 'p) world_env \<Rightarrow> ('r, 'b, 'l, 'p) world \<Rightarrow> ('r, 'b, 'l, 'p) world" where
  "run_once V w =
    (let w1 = run_sensor_ingestion_and_health_stage V (run_communication_and_parameter_service_stage V w);
       w2 = run_rc_command_state_stages V (sens_rc (w_sensors w1)) w1;
       w3 = run_telemetry_stage V (snd (run_control_and_mixing_stage_if_new_imu V w2))
     in tell_board (bo_run_deferred_board_actions (we_board V)) (tell_board (bo_serial_flush (we_board V)) w3))"

definition run_imu_control_tick :: "('r::len, 'b, 'l, 'p) world_env \<Rightarrow> ('r, 'b, 'l, 'p) world
    \<Rightarrow> bool \<times> ('r, 'b, 'l, 'p) world" where
  "run_imu_control_tick V w =
    (let (now, w1) = ask_board (bo_clock_micros (we_board V)) w;
       w2 = process_imu_sensor_after_update V (read_sensors (bo_update_imu_sensor (we_board V)) w1);
       w3 = update_sensor_health_and_calibration now (record_control_imu_candidate w2)
     in stamp_control V (run_control_and_mixing_stage_if_control_due V now w3))"

text \<open>A processed packet is kept when its sensor had nothing new.\<close>

definition keep_latest :: "('r::len) sensor_bus \<Rightarrow> 'r processed_sensors \<Rightarrow> 'r processed_sensors \<Rightarrow> 'r processed_sensors" where
  "keep_latest raw old new = \<lparr>
     sens_imu = (if raw_imu raw = None then sens_imu old else sens_imu new),
     sens_mag = (if raw_mag raw = None then sens_mag old else sens_mag new),
     sens_baro = (if raw_baro raw = None then sens_baro old else sens_baro new),
     sens_pitot = (if raw_pitot raw = None then sens_pitot old else sens_pitot new),
     sens_range = (if raw_range raw = None then sens_range old else sens_range new),
     sens_gnss = (if raw_gnss raw = None then sens_gnss old else sens_gnss new),
     sens_battery = (if raw_battery raw = None then sens_battery old else sens_battery new),
     sens_rc = (if raw_rc raw = None then sens_rc old else sens_rc new),
     sens_attitude = (if raw_attitude raw = None then sens_attitude old else sens_attitude new)\<rparr>"

definition run_service_sensor_stage :: "('r::len, 'b, 'l, 'p) world_env \<Rightarrow> ('r, 'b, 'l, 'p) world
    \<Rightarrow> world_report \<times> ('r, 'b, 'l, 'p) world" where
  "run_service_sensor_stage V w =
    (let (now, w1) = ask_board (bo_clock_micros (we_board V)) w;
       w2 = read_sensors (bo_update_service_sensor_bus (we_board V)) w1; raw = w_raw w2;
       w3 = process_sensor_bus_after_update V w2;
       w4 = update_sensor_health_and_calibration now (w3\<lparr>w_sensors := keep_latest raw (w_sensors w1) (w_sensors w3)\<rparr>)
     in (world_report_default\<lparr>had_raw_sensor := (raw_imu raw \<noteq> None \<or> raw_mag raw \<noteq> None \<or> raw_baro raw \<noteq> None
           \<or> raw_pitot raw \<noteq> None \<or> raw_range raw \<noteq> None \<or> raw_gnss raw \<noteq> None \<or> raw_battery raw \<noteq> None
           \<or> raw_rc raw \<noteq> None \<or> raw_attitude raw \<noteq> None),
         had_raw_imu := (raw_imu raw \<noteq> None), had_raw_baro := (raw_baro raw \<noteq> None), had_raw_rc := (raw_rc raw \<noteq> None),
         had_processed_imu := (sens_imu (w_sensors w4) \<noteq> None), had_processed_baro := (sens_baro (w_sensors w4) \<noteq> None),
         had_processed_rc := (sens_rc (w_sensors w4) \<noteq> None)\<rparr>, w4))"

text \<open>Every part of a service step first asks whether control can wait.\<close>

definition if_slack :: "('r::len, 'b, 'l, 'p) world_env \<Rightarrow> (('r, 'b, 'l, 'p) world \<Rightarrow> 'a \<times> ('r, 'b, 'l, 'p) world) \<Rightarrow> 'a
    \<Rightarrow> ('r, 'b, 'l, 'p) world \<Rightarrow> 'a \<times> ('r, 'b, 'l, 'p) world" where
  "if_slack V f skipped w = (let (go_on, w1) = realtime_service_can_continue V w
     in if go_on then f w1 else (skipped, w1))"

definition service_telemetry :: "('r::len, 'b, 'l, 'p) world_env \<Rightarrow> realtime_service_policy \<Rightarrow> ('r, 'b, 'l, 'p) world
    \<Rightarrow> (bool \<times> ('r, 'b, 'l, 'p) world) option" where
  "service_telemetry V policy w =
    (let (go_on, w1) = realtime_service_can_continue V w
     in if \<not> go_on then Some (False, w1)
        else if drain_telemetry_with_available_slack policy
          then map_option (\<lambda>(n, w2). (n \<noteq> 0, w2)) (run_realtime_telemetry_stage_with_available_slack V w1)
        else Some (let (n, w2) = run_realtime_telemetry_stage_budgeted V (telemetry_streams_per_phase policy) w1
          in (n \<noteq> 0, w2)))"

definition service_input :: "('r::len, 'b, 'l, 'p) world_env \<Rightarrow> ('r, 'b, 'l, 'p) world \<Rightarrow> bool \<times> ('r, 'b, 'l, 'p) world" where
  "service_input V w = (let (rx, w1) = ask_board (bo_serial_rx_pending (we_board V)) w
     in (rx, run_communication_and_parameter_service_stage V w1))"

definition service_rc :: "('r::len, 'b, 'l, 'p) world_env \<Rightarrow> bool \<Rightarrow> ('r, 'b, 'l, 'p) world \<Rightarrow> bool \<times> ('r, 'b, 'l, 'p) world" where
  "service_rc V fresh w = (let w1 = run_rc_command_state_stages V (if fresh then sens_rc (w_sensors w) else None) w
     in (fresh \<and> sens_rc (w_sensors w1) \<noteq> None, w1))"

text \<open>The parts of a step after its telemetry.\<close>

definition service_rest :: "('r::len, 'b, 'l, 'p) world_env \<Rightarrow> bool \<Rightarrow> ('r, 'b, 'l, 'p) world
    \<Rightarrow> world_report \<times> ('r, 'b, 'l, 'p) world" where
  "service_rest V sent w =
    (let (sensors, w1) = if_slack V (run_service_sensor_stage V) world_report_default w;
       r1 = merge_from (world_report_default\<lparr>telemetry_due := sent\<rparr>) sensors;
       (rx, w2) = if_slack V (service_input V) False w1;
       r2 = r1\<lparr>had_rx := (had_rx r1 \<or> rx)\<rparr>;
       (rc, w3) = if_slack V (\<lambda>w. let (rc, w') = service_rc V (had_raw_rc sensors) w in (Some rc, w')) None w2;
       r3 = (case rc of None \<Rightarrow> r2 | Some b \<Rightarrow> r2\<lparr>had_processed_rc := b\<rparr>);
       (_, w4) = if_slack V (\<lambda>w. ((), drain_logs_and_send_responses_limited V REALTIME_SERVICE_RESPONSE_BUDGET w)) () w3;
       (_, w5) = if_slack V (\<lambda>w. ((), tell_board (bo_serial_flush_budgeted (we_board V) 1) w)) () w4;
       (_, w6) = if_slack V (\<lambda>w. ((), tell_board (bo_run_deferred_board_actions (we_board V)) w)) () w5
     in (r3, w6))"

definition run_prioritized_service_step :: "('r::len, 'b, 'l, 'p) world_env \<Rightarrow> realtime_service_policy
    \<Rightarrow> ('r, 'b, 'l, 'p) world \<Rightarrow> (world_report \<times> ('r, 'b, 'l, 'p) world) option" where
  "run_prioritized_service_step V policy w =
    map_option (\<lambda>(sent, w1). service_rest V sent w1) (service_telemetry V policy w)"

definition had_service_activity :: "world_report \<Rightarrow> bool" where
  "had_service_activity r \<longleftrightarrow> had_rx r \<or> had_raw_sensor r \<or> telemetry_due r \<or> telemetry_deferred r"

partial_function (option) service_loop :: "('r::len, 'b, 'l, 'p) world_env \<Rightarrow> realtime_service_policy
    \<Rightarrow> world_report \<Rightarrow> ('r, 'b, 'l, 'p) world \<Rightarrow> (world_report \<times> ('r, 'b, 'l, 'p) world) option" where
  "service_loop V policy r w = (case realtime_service_can_continue V w of (go_on, w1) \<Rightarrow>
     if \<not> go_on then Some (r, w1)
     else (case run_prioritized_service_step V policy w1 of
         None \<Rightarrow> None
       | Some sw \<Rightarrow>
          if min_spacing_us policy \<noteq> 0 \<or> \<not> had_service_activity (fst sw) \<and> \<not> continue_when_idle policy
          then Some (merge_from r (fst sw), snd sw)
          else service_loop V policy (merge_from r (fst sw)) (snd sw)))"

definition run_prioritized_service_steps_with_policy :: "('r::len, 'b, 'l, 'p) world_env \<Rightarrow> realtime_service_policy
    \<Rightarrow> ('r, 'b, 'l, 'p) world \<Rightarrow> (world_report \<times> ('r, 'b, 'l, 'p) world) option" where
  "run_prioritized_service_steps_with_policy V policy w =
    (let (start, w1) = ask_board (bo_clock_micros (we_board V)) w;
       (rx, w2) = ask_board (bo_serial_rx_pending (we_board V)) w1
     in map_option (\<lambda>(r, w3).
         let (t1, w4) = ask_board (bo_clock_micros (we_board V)) w3;
           w5 = w4\<lparr>w_next_realtime_service_us := saturating_add t1 (min_spacing_us policy)\<rparr>;
           (t2, w6) = ask_board (bo_clock_micros (we_board V)) w5
         in (r\<lparr>elapsed_after_control_us := ucast (min (saturating_sub t2 start) 0xFFFFFFFF)\<rparr>, w6))
       (service_loop V policy (world_report_default\<lparr>had_rx := rx\<rparr>) w2))"

end
