(* ===== verification/World_Safety.thy ===== *)
theory World_Safety
  imports World_Service Control_Pipeline_Safety
begin

text \<open>
  What holds between the components of the world: when the vehicle can come up armed, what the
  order of the stages does to a gyro calibration on arming and to a silent IMU, and that a
  service stage leaves no parameter change without a reaction.
\<close>

section \<open>Frames\<close>

lemma ask_board_frame [simp]:
  "w_state (snd (ask_board f w)) = w_state w" "w_flags (snd (ask_board f w)) = w_flags w"
  "w_sensors (snd (ask_board f w)) = w_sensors w" "w_params (snd (ask_board f w)) = w_params w"
  "w_raw (snd (ask_board f w)) = w_raw w" "w_processors (snd (ask_board f w)) = w_processors w"
  "w_param_events (snd (ask_board f w)) = w_param_events w" "w_pwm (snd (ask_board f w)) = w_pwm w"
  "fst (ask_board f w) = fst (f (w_board w))" "w_board (snd (ask_board f w)) = snd (f (w_board w))"
  by (simp_all add: ask_board_def case_prod_beta Let_def)

lemma w_event_frame [simp]: "w_flags (w_event e w) = w_flags w" "w_sensors (w_event e w) = w_sensors w"
  "w_params (w_event e w) = w_params w" "w_state (w_event e w) = fst (manager_update (w_state w) e (w_params w))"
  "w_last_imu_seen (w_event e w) = w_last_imu_seen w" "w_board (w_event e w) = w_board w" "w_param_events (w_event e w) = w_param_events w"
  by (simp_all add: w_event_def)

section \<open>Calibration events\<close>

lemma calibration_failed_errors [simp]:
  "get_errors (fst (manager_update s CALIBRATION_FAILED p)) = get_errors s"
  using sm_update_flags [of "machine s" CALIBRATION_FAILED p]
  by (simp add: get_errors_def machine_manager_update flags_after_def)

lemma calibration_complete_errors:
  "only_flags (get_errors (fst (manager_update s CALIBRATION_COMPLETE p))) (get_errors s)"
  using sm_update_flags [of "machine s" CALIBRATION_COMPLETE p]
  by (auto simp: get_errors_def machine_manager_update flags_after_def only_flags_bits bit_flags_remove)

lemma not_contained_mono: "only_flags a b \<Longrightarrow> \<not> flags_contain b f \<Longrightarrow> \<not> flags_contain a f"
  by (auto simp: only_flags_bits flags_contain_bits)

lemma calibration_complete_arms:
  assumes "sm_is_calibrating s"
  shows "is_armed (fst (manager_update s CALIBRATION_COMPLETE p))"
  using assms by (cases "machine s")
    (simp_all add: sm_is_calibrating_def is_armed_def machine_manager_update sm_update_def)

lemma cleared_flag_keeps_calibrating:
  assumes "sm_is_calibrating s"
  shows "sm_is_calibrating (fst (set_error_flag s f False p))"
  using assms by (cases "machine s")
    (simp_all add: sm_is_calibrating_def set_error_flag_def machine_manager_update sm_update_def Let_def)

section \<open>The health stage\<close>

lemma health_with_imu:
  assumes "sens_imu (w_sensors w) \<noteq> None"
  shows "w_last_imu_seen (update_sensor_health_and_calibration now w) = now
    \<and> \<not> flags_contain (get_errors (w_state (update_sensor_health_and_calibration now w))) IMU_NOT_RESPONDING
    \<and> w_sensors (update_sensor_health_and_calibration now w) = w_sensors w"
proof -
  let ?s = "fst (set_error_flag (w_state w) IMU_NOT_RESPONDING False (w_params w))"
  have clear: "\<not> flags_contain (get_errors ?s) IMU_NOT_RESPONDING"
    by (rule error_flag_cleared) (simp add: IMU_NOT_RESPONDING_def)
  from not_contained_mono [OF calibration_complete_errors clear] clear assms show ?thesis
    by (simp add: update_sensor_health_and_calibration_def update_sensor_health_def Let_def case_prod_beta)
qed

lemma health_completes_calibration:
  assumes "sens_imu (w_sensors w) \<noteq> None" and "sm_is_calibrating (w_state w)"
    and "\<not> flags_contain (w_flags w) CAL_GYRO" and "\<not> flags_contain (w_flags w) CAL_GYRO_FAILED"
  shows "is_armed (w_state (update_sensor_health_and_calibration now w))"
  using assms calibration_complete_arms cleared_flag_keeps_calibrating
  by (simp add: update_sensor_health_and_calibration_def update_sensor_health_def Let_def case_prod_beta)

section \<open>The service sensor stage\<close>

lemma after_imu_calibration_frame [simp]: "w_sensors (after_imu_calibration f w) = w_sensors w"
  "w_flags (after_imu_calibration f w) = w_flags w"
  "w_flags w = f \<Longrightarrow> w_state (after_imu_calibration f w) = w_state w"
  by (auto simp: after_imu_calibration_def Let_def calibration_finished_def)

lemma emit_change_of_frame [simp]: "w_sensors (emit_change_of pid old w) = w_sensors w"
  "w_flags (emit_change_of pid old w) = w_flags w" "w_state (emit_change_of pid old w) = w_state w"
  by (simp_all add: emit_change_of_def)

lemma run_ingestion_state [simp]: "w_state (run_ingestion f w) = w_state w"
  by (simp add: run_ingestion_def case_prod_beta Let_def)

text \<open>
  C7. A realtime board never learns that its IMU went silent. The service stage keeps the last
  processed sample when the sensors it reads bring no new one, and the health check takes any
  sample that is there for a fresh one: it moves the time the IMU was last seen to now and
  clears \<^verbatim>\<open>IMU_NOT_RESPONDING\<close>. So with a sample from any time in the past the error is
  absent after every service stage, however long the IMU has been silent.
\<close>

theorem service_hides_silent_imu:
  assumes "sens_imu (w_sensors w) = Some k"
    and "raw_imu (fst (bo_update_service_sensor_bus (we_board V)
      (snd (bo_clock_micros (we_board V) (w_board w))) (w_raw w))) = None"
  shows "sens_imu (w_sensors (snd (run_service_sensor_stage V w))) = Some k
    \<and> w_last_imu_seen (snd (run_service_sensor_stage V w)) = fst (bo_clock_micros (we_board V) (w_board w))
    \<and> \<not> flags_contain (get_errors (w_state (snd (run_service_sensor_stage V w)))) IMU_NOT_RESPONDING"
  using assms
  by (simp add: run_service_sensor_stage_def Let_def case_prod_beta read_sensors_def keep_latest_def health_with_imu)

lemma silent_bus_flags:
  fixes w :: "('r::len, 'c, 'l, 'p) world"
  assumes "w_raw w = sensor_bus_clear"
  shows "w_flags (process_sensor_bus_after_update V w) = w_flags w
    \<and> w_state (process_sensor_bus_after_update V w) = w_state w"
proof -
  have "w_flags (run_ingestion (process_sensor_bus R S t) (snd (ask_board g w))) = w_flags w"
    for R S t and g :: "'c \<Rightarrow> u32 \<times> 'c"
    by (simp add: run_ingestion_def assms process_sensor_bus_def process_plain_sensors_def process_mag_sensor_def
        process_baro_sensor_def process_pitot_sensor_def process_imu_sensor_def sensor_bus_clear_def
        Let_def case_prod_beta)
  then show ?thesis
    by (auto simp: process_sensor_bus_after_update_def Let_def case_prod_beta calibration_finished_def
        after_imu_calibration_def)
qed


section \<open>The communication stage\<close>

lemma world_set_param_frame [simp]: "w_state (world_set_param pid v w) = w_state w"
  "w_flags (world_set_param pid v w) = w_flags w"
  by (simp_all add: world_set_param_def case_prod_beta Let_def)

lemma process_comm_stage_frame [simp]: "w_state (process_comm_stage V w) = w_state w"
  "w_flags (process_comm_stage V w) = w_flags w"
  by (simp_all add: process_comm_stage_def case_prod_beta Let_def)

lemma apply_companion_events_frame [simp]: "w_state (apply_companion_events w) = w_state w"
  by (simp add: apply_companion_events_def Let_def)

lemma apply_command_events_frame [simp]: "w_state (apply_command_events V w) = w_state w"
  by (simp add: apply_command_events_def Let_def)

lemma world_service_param_events_frame [simp]: "w_state (world_service_param_events V w) = w_state w"
  by (simp add: world_service_param_events_def Let_def)

lemma flags_insert: "flags_contain (fs OR f) f"
  by (simp add: flags_contain_bits bit_or_iff)

lemma request_sets_gyro:
  assumes "sm_is_calibrating (w_state w)"
  shows "flags_contain (w_flags (request_gyro_calibration_if_needed w)) CAL_GYRO"
  using assms by (simp add: request_gyro_calibration_if_needed_def Let_def flags_insert)

lemma fold_keeps: "(\<And>x s. g (f x s) = g s) \<Longrightarrow> g (fold f xs s) = g s"
  by (induction xs arbitrary: s) simp_all

lemma reactions_frame [simp]: "w_flags (mixer_reacted r w) = w_flags w"
  "w_flags (react_mixer_refresh V w) = w_flags w" "w_flags (react_mixer_change V ch w) = w_flags w"
  "w_flags (refresh_failsafe w) = w_flags w" "w_flags (react_rc_change ch w) = w_flags w"
  "w_flags (react_command_change ch w) = w_flags w"
  by (simp_all add: mixer_reacted_def react_mixer_refresh_def react_mixer_change_def refresh_failsafe_def
      react_rc_change_def react_command_change_def case_prod_beta Let_def split: option.split)

lemma reactions_keep_flags [simp]: "w_flags (world_param_reactions V w) = w_flags w"
  by (simp add: world_param_reactions_def apply_param_reactions_def tell_board_def Let_def case_prod_beta
      fold_keeps [where g = w_flags])

text \<open>The communication stage up to the reactions.\<close>

definition before_reactions :: "('r::len, 'b, 'l, 'p) world_env \<Rightarrow> ('r, 'b, 'l, 'p) world \<Rightarrow> ('r, 'b, 'l, 'p) world" where
  "before_reactions V w =
    (let w1 = process_comm_stage V w;
       w2 = (if has_pending_companion_work w1 then apply_companion_events w1 else w1);
       w3 = (if \<not> command_events_is_empty (w_command_events w2) then apply_command_events V w2 else w2);
       w4 = (if has_pending_param_work w3 then world_service_param_events V w3 else w3)
     in request_gyro_calibration_if_needed w4)"

lemma comm_stage_eq: "run_communication_and_parameter_service_stage V w =
    (if full_refresh (w_param_events (before_reactions V w))
        \<or> \<not> eq_is_empty (changes (w_param_events (before_reactions V w)))
     then world_param_reactions V (before_reactions V w) else before_reactions V w)"
  by (simp only: run_communication_and_parameter_service_stage_def before_reactions_def Let_def)

lemma before_reactions_calibrates:
  assumes "sm_is_calibrating (w_state w)"
  shows "flags_contain (w_flags (before_reactions V w)) CAL_GYRO"
  using assms by (simp add: before_reactions_def Let_def request_sets_gyro)

text \<open>
  In the order of \<^verbatim>\<open>run_once\<close> the calibration is not skipped: whenever the state machine
  calibrates, the communication stage that opens the loop leaves the gyro calibration under
  way, before the sensor stage of the same loop asks whether it has finished.
\<close>

theorem loop_requests_calibration:
  assumes "sm_is_calibrating (w_state w)"
  shows "flags_contain (w_flags (run_communication_and_parameter_service_stage V w)) CAL_GYRO"
  using before_reactions_calibrates [OF assms] by (simp add: comm_stage_eq)

section \<open>Parameter changes\<close>

lemma reactions_clear: "eq_iter (changes (w_param_events (world_param_reactions V w))) = []
    \<and> \<not> full_refresh (w_param_events (world_param_reactions V w))"
  by (simp add: world_param_reactions_def apply_param_reactions_def Let_def case_prod_beta eq_iter_def
      eq_clear_def deque_clear_def)

text \<open>
  No change of a parameter outlives the stage that made it: after the communication stage
  there is no change waiting and no refresh pending, so mixer, radio, command manager,
  estimator, controller, battery monitor and telemetry have all reacted before the sensors run.
\<close>

theorem changes_are_reacted_to:
  "eq_iter (changes (w_param_events (run_communication_and_parameter_service_stage V w))) = []
    \<and> \<not> full_refresh (w_param_events (run_communication_and_parameter_service_stage V w))"
  by (simp add: comm_stage_eq eq_is_empty_def eq_iter_def reactions_clear [unfolded eq_iter_def])

section \<open>Starting\<close>

lemma start_not_armed:
  "\<not> is_armed (fst (manager_update state_manager_new INITIALIZED p))"
  by (simp add: is_armed_def machine_manager_update state_manager_new_def state_machine_new_def sm_update_def)

lemma failsafe_config_keeps_armed:
  "is_armed (snd (update_failsafe_config cm p s)) = is_armed s"
  by (simp add: update_failsafe_config_def Let_def error_event_keeps_armed)

text \<open>The board when \<^verbatim>\<open>World::init\<close> reads the backup memory.\<close>

definition boot_board :: "('r::len, 'b, 'l, 'p) world_env \<Rightarrow> 'b \<Rightarrow> params \<Rightarrow> 'b" where
  "boot_board V b ps = snd (bo_clock_micros (we_board V) (configure_battery_monitor (we_board V)
     (sync_reflected_mixer_params (we_linalg64 V)
       (sync_reflected_mixer_params (we_linalg64 V) ps PARAM_PRIMARY_MIXER) PARAM_SECONDARY_MIXER) b))"

text \<open>
  C10. The vehicle comes up disarmed: right after \<^verbatim>\<open>World::init\<close> with a new state machine it is armed
  only when the backup memory of a hard fault asked to rearm, and that memory was cleared.
\<close>

theorem init_arms_only_after_hard_fault:
  assumes "is_armed (w_state (world_init V b ps link state_manager_new e c m pwm logs))"
  shows "(case fst (bo_backup_memory_read (we_board V) (boot_board V b ps)) of
      None \<Rightarrow> False | Some d \<Rightarrow> bd_do_rearm d \<noteq> 0)
    \<and> w_board (world_init V b ps link state_manager_new e c m pwm logs)
      = snd (bo_backup_memory_clear (we_board V) (snd (bo_backup_memory_read (we_board V) (boot_board V b ps))))"
  using assms
  by (auto simp: world_init_def Let_def case_prod_beta read_hard_error_def hard_error_of_def boot_board_def
      initialize_imu_calibration_error_def command_init_def failsafe_config_keeps_armed start_not_armed
      split: if_splits option.splits prod.splits)

section \<open>Evaluated\<close>

definition rest_world_env :: "backup_data option \<Rightarrow> (32, unit, nat, pio_pwm) world_env" where
  "rest_world_env d = \<lparr>we_pipeline = rest_env\<lparr>env_board := still_board\<lparr>bo_backup_memory_read := (\<lambda>b. (d, b)),
       bo_update_service_sensor_bus := (\<lambda>b raw. (sensor_bus_clear, b))\<rparr>\<rparr>,
     we_link = counting_link, we_linalg64 = no_linalg, we_real32 = plain_ops, we_pwm_is_enabled = pio_is_enabled\<rparr>"

lemma rest_world_board [simp]:
  "bo_backup_memory_read (we_board (rest_world_env d)) = (\<lambda>b. (d, b))"
  "bo_update_service_sensor_bus (we_board (rest_world_env d)) = (\<lambda>b raw. (sensor_bus_clear, b))"
  "bo_clock_micros (we_board (rest_world_env d)) = (\<lambda>b. (0, b))"
  "bo_backup_memory_clear (we_board (rest_world_env d)) = (\<lambda>b. (False, b))"
  by (simp_all add: rest_world_env_def we_board_def rest_env_def still_board_def)

definition booted :: "backup_data option \<Rightarrow> (32, unit, nat, pio_pwm) world" where
  "booted d = world_init (rest_world_env d) () zero_params 0 state_manager_new estimator_default
     controller_default sample_mixer pio_pwm_new log_queue_new"

definition calibrating_world :: "(32, unit, nat, pio_pwm) world" where
  "calibrating_world = (booted None)\<lparr>w_state := state_manager_new\<lparr>machine := Calibrating 0\<rparr>, w_flags := 0,
     w_sensors := processed_sensors_clear\<lparr>sens_imu := Some (rest_packet 3500 0)\<rparr>\<rparr>"

lemma calibrating_world_fields [simp]:
  "w_state calibrating_world = state_manager_new\<lparr>machine := Calibrating 0\<rparr>" "w_flags calibrating_world = 0"
  "sens_imu (w_sensors calibrating_world) = Some (rest_packet 3500 0)"
  by (simp_all add: calibrating_world_def)

theorem service_hides_silent_imu_witness:
  "sens_imu (w_sensors (snd (run_service_sensor_stage (rest_world_env None) calibrating_world))) = Some (rest_packet 3500 0)
    \<and> w_last_imu_seen (snd (run_service_sensor_stage (rest_world_env None) calibrating_world)) = 0
    \<and> \<not> flags_contain (get_errors (w_state (snd (run_service_sensor_stage (rest_world_env None) calibrating_world))))
        IMU_NOT_RESPONDING"
  using service_hides_silent_imu [of calibrating_world "rest_packet 3500 0" "rest_world_env None"]
  by (simp add: sensor_bus_clear_def)


theorem loop_requests_calibration_witness:
  "flags_contain (w_flags (run_communication_and_parameter_service_stage (rest_world_env None) calibrating_world)) CAL_GYRO"
  by (rule loop_requests_calibration) (simp add: sm_is_calibrating_def)

lemma initialized_event: "initialized (machine s) \<Longrightarrow> initialized (machine (fst (manager_update s ev p)))"
  by (cases "machine s"; cases ev)
    (auto simp: initialized_def machine_manager_update sm_update_def on_event_defs Let_def)

lemma rearm_event_arms: "initialized (machine s) \<Longrightarrow> is_armed (fst (manager_update s HARDFAULT_REARM_REQUESTED p))"
  by (cases "machine s")
    (auto simp: initialized_def is_armed_def machine_manager_update sm_update_def on_event_defs Let_def)

lemma booted_initialized: "initialized (machine (snd (command_init cm p (initialize_imu_calibration_error
    (fst (manager_update state_manager_new INITIALIZED p')) q))))"
proof -
  have "initialized (machine (fst (manager_update state_manager_new INITIALIZED p')))"
    by (simp add: initialized_def machine_manager_update state_manager_new_def state_machine_new_def sm_update_def)
  then show ?thesis
    by (simp add: command_init_def update_failsafe_config_def initialize_imu_calibration_error_def
        set_error_flag_def Let_def initialized_event)
qed

lemma booted_rearms: "is_armed (w_state (booted (Some \<lparr>bd_error_code = 1, bd_pc = 0, bd_reset_count = 1, bd_do_rearm = 1\<rparr>)))"
  by (simp add: booted_def world_init_def Let_def case_prod_beta read_hard_error_def hard_error_of_def
      rearm_event_arms booted_initialized)

theorem init_arms_only_after_hard_fault_witness:
  "w_board (booted (Some \<lparr>bd_error_code = 1, bd_pc = 0, bd_reset_count = 1, bd_do_rearm = 1\<rparr>)) = ()
    \<and> (1 :: u32) \<noteq> 0"
  using init_arms_only_after_hard_fault [OF booted_rearms [unfolded booted_def]] by simp

end
