(* ===== verification/World_Liveness.thy ===== *)
theory World_Liveness
  imports World_Safety
begin

text \<open>
  The realtime service loop ends. Its policy may tell it to go on while it is idle, and a
  telemetry stream of rate 0 is always due, so neither the work nor the clock ends the loop:
  the next IMU interrupt does. The measure \<open>\<mu>\<close> of a board bounds how many more times it can be
  asked before an IMU sample is pending; no call of the service may raise it.
\<close>

section \<open>A board whose IMU answers\<close>

definition lowers :: "('b \<Rightarrow> nat) \<Rightarrow> ('b \<Rightarrow> 'a \<times> 'b) \<Rightarrow> bool" where
  "lowers \<mu> f \<longleftrightarrow> (\<forall>b. \<mu> (snd (f b)) \<le> \<mu> b)"

definition imu_answers :: "('r::len, 'b) board_ops \<Rightarrow> ('b, 'l) comm_interface \<Rightarrow> ('b \<Rightarrow> nat) \<Rightarrow> bool" where
  "imu_answers B L \<mu> \<longleftrightarrow>
     (\<forall>b. fst (bo_imu_pending B b) \<or> \<mu> (snd (bo_imu_pending B b)) < \<mu> b) \<and> lowers \<mu> (bo_imu_pending B)
     \<and> lowers \<mu> (bo_clock_micros B) \<and> lowers \<mu> (bo_clock_millis B) \<and> lowers \<mu> (bo_serial_rx_pending B)
     \<and> lowers \<mu> (bo_sensors_errors_count B) \<and> lowers \<mu> (bo_reboot B) \<and> lowers \<mu> (bo_reboot_to_bootloader B)
     \<and> (\<forall>b raw. \<mu> (snd (bo_update_service_sensor_bus B b raw)) \<le> \<mu> b)
     \<and> (\<forall>b h. \<mu> (bo_led0 B h b) \<le> \<mu> b) \<and> (\<forall>b h. \<mu> (bo_led1 B h b) \<le> \<mu> b)
     \<and> (\<forall>b v i. \<mu> (bo_configure_battery_monitor B v i b) \<le> \<mu> b)
     \<and> (\<forall>b n. \<mu> (bo_serial_flush_budgeted B n b) \<le> \<mu> b)
     \<and> (\<forall>b. \<mu> (bo_run_deferred_board_actions B b) \<le> \<mu> b)
     \<and> (\<forall>b p. \<mu> (snd (snd (bo_read_params B b p))) \<le> \<mu> b) \<and> (\<forall>b p. \<mu> (snd (bo_write_params B b p)) \<le> \<mu> b)
     \<and> (\<forall>b sys msg l. \<mu> (fst (cl_send L b sys msg l)) \<le> \<mu> b)
     \<and> (\<forall>b ms l. \<mu> (fst (cl_handle_incoming L b ms l)) \<le> \<mu> b)"

lemma lowersD: "lowers \<mu> f \<Longrightarrow> \<mu> (snd (f b)) \<le> \<mu> b"
  by (simp add: lowers_def)

text \<open>Below, \<open>B\<close> and \<open>L\<close> are the board and the link of \<open>V\<close>, and \<open>level w\<close> is the measure of its board.\<close>

definition service_env_ok :: "('r::len, 'b, 'l, 'p) world_env \<Rightarrow> ('b \<Rightarrow> nat) \<Rightarrow> bool" where
  "service_env_ok V \<mu> \<longleftrightarrow> imu_answers (we_board V) (we_link V) \<mu>"

lemma env_ops:
  assumes "service_env_ok V \<mu>"
  shows "lowers \<mu> (bo_imu_pending (we_board V))" "lowers \<mu> (bo_clock_micros (we_board V))"
    "lowers \<mu> (bo_clock_millis (we_board V))" "lowers \<mu> (bo_serial_rx_pending (we_board V))"
    "lowers \<mu> (bo_sensors_errors_count (we_board V))" "lowers \<mu> (bo_reboot (we_board V))"
    "lowers \<mu> (bo_reboot_to_bootloader (we_board V))"
    "\<mu> (snd (bo_update_service_sensor_bus (we_board V) b raw)) \<le> \<mu> b"
    "\<mu> (bo_led0 (we_board V) h b) \<le> \<mu> b" "\<mu> (bo_led1 (we_board V) h b) \<le> \<mu> b"
    "\<mu> (bo_configure_battery_monitor (we_board V) v i b) \<le> \<mu> b"
    "\<mu> (bo_serial_flush_budgeted (we_board V) n b) \<le> \<mu> b"
    "\<mu> (bo_run_deferred_board_actions (we_board V) b) \<le> \<mu> b"
    "\<mu> (snd (snd (bo_read_params (we_board V) b p))) \<le> \<mu> b" "\<mu> (snd (bo_write_params (we_board V) b p)) \<le> \<mu> b"
    "\<mu> (fst (cl_send (we_link V) b sys msg l)) \<le> \<mu> b" "\<mu> (fst (cl_handle_incoming (we_link V) b ms l)) \<le> \<mu> b"
    "fst (bo_imu_pending (we_board V) b) \<or> \<mu> (snd (bo_imu_pending (we_board V) b)) < \<mu> b"
  using assms by (simp_all add: service_env_ok_def imu_answers_def)

lemma ask_level: "lowers \<mu> f \<Longrightarrow> \<mu> (w_board (snd (ask_board f w))) \<le> \<mu> (w_board w)"
  by (simp add: lowers_def)

section \<open>Telemetry\<close>

lemma send_message_level:
  assumes "service_env_ok V \<mu>"
  shows "\<mu> (snd (send_message (we_link V) msg x)) \<le> \<mu> (snd x)"
  using env_ops(16) [OF assms] by (simp add: send_message_def case_prod_beta Let_def)

lemma clock_then_send_level:
  assumes "service_env_ok V \<mu>"
  shows "\<mu> (snd (send_message (we_link V) msg (m, snd (bo_clock_millis (we_board V) b)))) \<le> \<mu> b"
  using send_message_level [OF assms, of msg "(m, snd (bo_clock_millis (we_board V) b))"]
    lowersD [OF env_ops(3) [OF assms], of b] by simp

lemma send_raw_level:
  assumes "service_env_ok V \<mu>"
  shows "\<mu> (snd (send_rc_raw (we_board V) (we_link V) k x)) \<le> \<mu> (snd x)"
    "\<mu> (snd (send_output_raw (we_board V) (we_link V) vs x)) \<le> \<mu> (snd x)"
  using clock_then_send_level [OF assms]
  by (simp_all add: send_rc_raw_def send_output_raw_def case_prod_beta Let_def)

lemma send_sample_level:
  assumes "service_env_ok V \<mu>"
  shows "\<mu> (snd (send_sample (we_board V) (we_link V) c s x)) \<le> \<mu> (snd x)"
  using send_raw_level [OF assms] send_message_level [OF assms, of _ x]
  by (simp add: send_sample_def Let_def split: named_telemetry_stream.split option.split)

lemma send_selected_level:
  assumes "service_env_ok V \<mu>"
  shows "\<mu> (snd (snd (send_selected_named_telemetry_stream (we_board V) (we_link V) c s (m, b)))) \<le> \<mu> b"
proof -
  have sample: "\<mu> (snd (send_sample (we_board V) (we_link V) c s' (m', b))) \<le> \<mu> b" for s' m'
    using send_sample_level [OF assms, of c s' "(m', b)"] by simp
  have raw: "\<mu> (snd (send_output_raw (we_board V) (we_link V) vs (m', b))) \<le> \<mu> b" for vs m'
    using send_raw_level(2) [OF assms, of vs "(m', b)"] by simp
  show ?thesis
    using sample raw
    by (simp add: send_selected_named_telemetry_stream_def send_selected_named_telemetry_stream_with_gate_def
        send_fixed_rate_def send_imu_if_due_def send_if_due_def send_output_raw_if_due_def mark_stream_sent_def
        case_prod_beta Let_def split: option.split)
qed

lemma send_one_level:
  assumes "service_env_ok V \<mu>"
  shows "\<mu> (snd (snd (send_one_named_telemetry_stream (we_board V) (we_link V) c (m, b)))) \<le> \<mu> b"
  using send_selected_level [OF assms] by (simp add: send_one_named_telemetry_stream_def split: option.split)

lemma send_stream_level:
  assumes "service_env_ok V \<mu>"
  shows "\<mu> (w_board (snd (send_realtime_telemetry_stream V w))) \<le> \<mu> (w_board w)"
proof -
  let ?b = "snd (bo_sensors_errors_count (we_board V) (snd (bo_clock_micros (we_board V) (w_board w))))"
  have "\<mu> ?b \<le> \<mu> (w_board w)"
    using lowersD [OF env_ops(5) [OF assms]] lowersD [OF env_ops(2) [OF assms]] by (rule order_trans)
  moreover have "\<mu> (w_board (snd (send_realtime_telemetry_stream V w))) \<le> \<mu> ?b"
    by (simp add: send_realtime_telemetry_stream_def send_with_def Let_def case_prod_beta send_one_level [OF assms])
  ultimately show ?thesis by (rule order_trans [rotated])
qed

lemma budget_loop_level:
  assumes "service_env_ok V \<mu>"
  shows "\<mu> (w_board (snd (telemetry_budget_loop V n sent w))) \<le> \<mu> (w_board w)"
proof (induction "n - sent" arbitrary: sent w)
  case 0
  then show ?case by (simp add: telemetry_budget_loop.simps [of V n])
next
  case (Suc k)
  have le: "\<mu> (w_board (snd (send_realtime_telemetry_stream V w))) \<le> \<mu> (w_board w)"
    by (rule send_stream_level [OF assms])
  have "\<mu> (w_board (snd (telemetry_budget_loop V n (sent + 1) w1))) \<le> \<mu> (w_board w1)" for w1
    using Suc(2) by (intro Suc(1)) simp
  with le Suc(2) show ?case
    by (simp add: telemetry_budget_loop.simps [of V n sent] split: prod.split bool.split)
      (metis (no_types, lifting) order_trans snd_conv)
qed

section \<open>The loop of the telemetry drain\<close>

lemma can_continue_level:
  assumes "service_env_ok V \<mu>" and "realtime_service_can_continue V w = (go_on, w1)"
  shows "\<mu> (w_board w1) \<le> \<mu> (w_board w) \<and> (go_on \<longrightarrow> \<mu> (w_board w1) < \<mu> (w_board w))"
proof -
  let ?p = "bo_imu_pending (we_board V) (w_board w)"
  have t: "\<mu> (snd (bo_clock_micros (we_board V) (snd ?p))) \<le> \<mu> (snd ?p)"
    by (rule lowersD [OF env_ops(2) [OF assms(1)]])
  have p: "\<mu> (snd ?p) \<le> \<mu> (w_board w)" by (rule lowersD [OF env_ops(1) [OF assms(1)]])
  show ?thesis
  proof (cases "fst ?p")
    case True
    with assms(2) p show ?thesis by (simp add: realtime_service_can_continue_def Let_def case_prod_beta)
        (metis ask_board_frame(10) prod.sel)
  next
    case False
    with env_ops(18) [OF assms(1), of "w_board w"] have "\<mu> (snd ?p) < \<mu> (w_board w)" by simp
    with t False assms(2) show ?thesis
      by (auto simp: realtime_service_can_continue_def Let_def case_prod_beta)
  qed
qed

lemma slack_loop_ends:
  assumes "service_env_ok V \<mu>"
  shows "\<exists>n w'. telemetry_slack_loop V sent w = Some (n, w') \<and> \<mu> (w_board w') \<le> \<mu> (w_board w)"
proof (induction "\<mu> (w_board w)" arbitrary: sent w rule: less_induct)
  case less
  obtain go_on w1 where c: "realtime_service_can_continue V w = (go_on, w1)"
    by (cases "realtime_service_can_continue V w")
  note lvl = can_continue_level [OF assms c]
  obtain ok w2 where s: "send_realtime_telemetry_stream V w1 = (ok, w2)"
    by (cases "send_realtime_telemetry_stream V w1")
  have w2: "\<mu> (w_board w2) \<le> \<mu> (w_board w1)" using send_stream_level [OF assms, of w1] by (simp add: s)
  show ?case
  proof (cases "go_on \<and> ok")
    case True
    with lvl w2 have "\<mu> (w_board w2) < \<mu> (w_board w)" by simp
    from less [OF this, of "sent + 1"] True this show ?thesis
      by (subst telemetry_slack_loop.simps) (auto simp: c s)
  next
    case False
    with lvl w2 show ?thesis by (subst telemetry_slack_loop.simps) (auto simp: c s)
  qed
qed

section \<open>The other stages\<close>

lemma fold_le: "(\<And>x s. (g (f x s) :: nat) \<le> g s) \<Longrightarrow> g (fold f xs s) \<le> g s"
proof (induction xs arbitrary: s)
  case (Cons x xs)
  from Cons.IH [OF Cons.prems, of "f x s"] Cons.prems [of x s] show ?case by simp
qed simp

lemma set_msgs_board [simp]: "ca_board (set_msgs ms c) = ca_board c"
  by (simp add: set_msgs_def)

lemma act_board [simp]: "ca_board (act_on_heartbeat c) = ca_board c" "ca_board (act_on_read_requests c) = ca_board c"
  "ca_board (act_on_list_request c) = ca_board c" "ca_board (act_on_aux_cmd c) = ca_board c"
  "ca_board (act_on_external_attitude c) = ca_board c" "ca_board (act_on_set_requests c) = ca_board c"
  "ca_board (act_on_command c) = ca_board c"
  by (simp_all add: act_on_heartbeat_def act_on_read_requests_def act_on_list_request_def act_on_aux_cmd_def
      act_on_external_attitude_def act_on_set_requests_def act_on_command_def Let_def case_prod_beta
      split: prod.split option.split)

lemma act_on_timesync_level:
  assumes "service_env_ok V \<mu>"
  shows "\<mu> (ca_board (act_on_timesync (we_board V) (we_link V) c)) \<le> \<mu> (ca_board c)"
proof -
  have "\<mu> (snd (send_message (we_link V) msg (m, snd (bo_clock_micros (we_board V) b)))) \<le> \<mu> b" for msg m b
    using send_message_level [OF assms, of msg "(m, snd (bo_clock_micros (we_board V) b))"]
      lowersD [OF env_ops(2) [OF assms], of b] by simp
  then show ?thesis
    by (simp add: act_on_timesync_def on_link_def Let_def case_prod_beta split: prod.split option.split)
qed

lemma act_on_messages_level:
  assumes "service_env_ok V \<mu>"
  shows "\<mu> (ca_board (act_on_messages (we_board V) (we_link V) c)) \<le> \<mu> (ca_board c)"
proof -
  have "\<mu> (ca_board (act_on_offboard_control (we_board V) c)) \<le> \<mu> (ca_board c)" for c :: "('c, 'b) comm_ctx"
    using lowersD [OF env_ops(2) [OF assms]]
    by (simp add: act_on_offboard_control_def Let_def case_prod_beta split: prod.split option.split)
  from order_trans [OF this act_on_timesync_level [OF assms], of "act_on_list_request (act_on_read_requests (act_on_heartbeat c))"]
  show ?thesis by (simp add: act_on_messages_def)
qed

lemma process_comm_level:
  assumes "service_env_ok V \<mu>"
  shows "\<mu> (w_board (process_comm_stage V w)) \<le> \<mu> (w_board w)"
proof -
  have "\<mu> (snd (process_incoming_messages (we_link V) (w_comm w, w_board w))) \<le> \<mu> (w_board w)"
    using env_ops(17) [OF assms] by (simp add: process_incoming_messages_def Let_def case_prod_beta)
  moreover have "\<mu> (ca_board (act_on_messages (we_board V) (we_link V) c)) \<le> \<mu> (ca_board c)" for c :: "('c, 'b) comm_ctx"
    by (rule act_on_messages_level [OF assms])
  ultimately show ?thesis
    by (simp add: process_comm_stage_def Let_def case_prod_beta) (metis (no_types, lifting) comm_ctx.select_convs(6) order_trans)
qed

lemma companion_board [simp]: "w_board (apply_companion_events w) = w_board w"
  "w_board (world_service_param_events V w) = w_board w" "w_board (world_set_param pid v w) = w_board w"
  by (simp_all add: apply_companion_events_def world_service_param_events_def world_set_param_def Let_def case_prod_beta)

lemma request_board [simp]: "w_board (request_gyro_calibration_if_needed w) = w_board w"
  by (simp add: request_gyro_calibration_if_needed_def Let_def)

text \<open>Only the board's own commands reach the board.\<close>

lemma emit_board [simp]: "cx_board (emit_cmd_ack cmd r c) = cx_board c" "cx_board (set_and_emit pid v c) = cx_board c"
  "cx_board (change_flags a b c) = cx_board c"
  by (simp_all add: emit_cmd_ack_def set_and_emit_def change_flags_def Let_def case_prod_beta)

lemma request_boards [simp]: "cx_board (apply_calibration_request req1 c) = cx_board c"
  "cx_board (apply_offboard_control_request req2 c) = cx_board c"
  "cx_board (apply_param_defaults_request req3 c) = cx_board c"
  "cx_board (apply_rc_trim_calibration_request io req4 c) = cx_board c"
  "cx_board (apply_version_request req5 c) = cx_board c" "cx_board (apply_reset_origin_request req6 c) = cx_board c"
  "cx_board (apply_config_info_request req7 c) = cx_board c"
  by (simp_all add: apply_calibration_request_def apply_offboard_control_request_def apply_param_defaults_request_def
      apply_rc_trim_calibration_request_def apply_version_request_def apply_reset_origin_request_def
      apply_config_info_request_def zero_gyro_biases_def zero_accel_biases_def Let_def case_prod_beta
      split: rosflight_cmd.split)

lemma board_command_level:
  assumes "service_env_ok V \<mu>"
  shows "\<mu> (cx_board (apply_board_command_request (command_io_of V) req c)) \<le> \<mu> (cx_board c)"
  using lowersD [OF env_ops(6) [OF assms]] lowersD [OF env_ops(7) [OF assms]] env_ops(14,15) [OF assms]
  by (simp add: apply_board_command_request_def command_io_of_def Let_def case_prod_beta split: rosflight_cmd.split)

lemma drain_board: "(\<And>x c. cx_board (f x c) = cx_board c) \<Longrightarrow> cx_board (snd (drain f q c)) = cx_board c"
  by (simp add: drain_fold fold_keeps [where g = cx_board])

lemma requests_boards [simp]: "cx_board (apply_calibration_requests c) = cx_board c"
  "cx_board (apply_offboard_control_requests c) = cx_board c" "cx_board (apply_param_defaults_requests c) = cx_board c"
  "cx_board (apply_rc_trim_calibration_requests io c) = cx_board c" "cx_board (apply_version_requests c) = cx_board c"
  "cx_board (apply_reset_origin_requests c) = cx_board c" "cx_board (apply_config_info_requests c) = cx_board c"
  by (simp_all add: apply_calibration_requests_def apply_offboard_control_requests_def apply_param_defaults_requests_def
      apply_rc_trim_calibration_requests_def apply_version_requests_def apply_reset_origin_requests_def
      apply_config_info_requests_def Let_def case_prod_beta drain_board)

lemma board_requests_level:
  assumes "service_env_ok V \<mu>"
  shows "\<mu> (cx_board (apply_board_command_requests (command_io_of V) c)) \<le> \<mu> (cx_board c)"
  using fold_le [where g = "\<lambda>c. \<mu> (cx_board c)", OF board_command_level [OF assms]]
  by (simp add: apply_board_command_requests_def Let_def drain_fold)

lemma apply_command_level:
  assumes "service_env_ok V \<mu>"
  shows "\<mu> (w_board (apply_command_events V w)) \<le> \<mu> (w_board w)"
proof -
  have "\<mu> (cx_board (apply_command_requests (command_io_of V) c)) \<le> \<mu> (cx_board c)" for c
    using board_requests_level [OF assms, of "apply_rc_trim_calibration_requests (command_io_of V)
      (apply_param_defaults_requests (apply_offboard_control_requests (apply_calibration_requests c)))"]
    by (simp add: apply_command_requests_def)
  from this [of "\<lparr>cx_requests = w_command_events w, cx_param_events = w_param_events w, cx_comm = w_comm_events w,
      cx_state = w_state w, cx_command = w_command w, cx_controller = w_controller w, cx_board = w_board w,
      cx_flags = w_flags w, cx_params = w_params w\<rparr>"] show ?thesis
    by (simp add: apply_command_events_def Let_def)
qed

lemma reaction_boards [simp]: "w_board (mixer_reacted r w) = w_board w"
  "w_board (react_mixer_refresh V w) = w_board w" "w_board (react_mixer_change V ch w) = w_board w"
  "w_board (refresh_failsafe w) = w_board w" "w_board (react_rc_change ch w) = w_board w"
  "w_board (react_command_change ch w) = w_board w"
  by (simp_all add: mixer_reacted_def react_mixer_refresh_def react_mixer_change_def refresh_failsafe_def
      react_rc_change_def react_command_change_def case_prod_beta Let_def split: option.split)

lemma apply_reactions_board [simp]: "w_board (apply_param_reactions V w) = w_board w"
  by (simp add: apply_param_reactions_def Let_def fold_keeps [where g = w_board])

lemma reactions_level:
  assumes "service_env_ok V \<mu>"
  shows "\<mu> (w_board (world_param_reactions V w)) \<le> \<mu> (w_board w)"
proof -
  have conf: "\<mu> (configure_battery_monitor (we_board V) p b) \<le> \<mu> b" for p b
    by (simp add: configure_battery_monitor_def env_ops(11) [OF assms])
  note clock = lowersD [OF env_ops(2) [OF assms]]
  show ?thesis
    using conf clock order_trans [OF clock conf]
    by (simp add: world_param_reactions_def tell_board_def Let_def case_prod_beta)
qed

lemma comm_stage_level:
  assumes "service_env_ok V \<mu>"
  shows "\<mu> (w_board (run_communication_and_parameter_service_stage V w)) \<le> \<mu> (w_board w)"
proof -
  have "\<mu> (w_board (before_reactions V w)) \<le> \<mu> (w_board w)"
    using process_comm_level [OF assms, of w] apply_command_level [OF assms]
    by (simp add: before_reactions_def Let_def) (metis (no_types, lifting) companion_board(1) order_trans)
  with reactions_level [OF assms, of "before_reactions V w"] show ?thesis by (simp add: comm_stage_eq)
qed

lemma service_input_level:
  assumes "service_env_ok V \<mu>"
  shows "\<mu> (w_board (snd (service_input V w))) \<le> \<mu> (w_board w)"
  using order_trans [OF comm_stage_level [OF assms] ask_level [OF env_ops(4) [OF assms]], of w]
  by (simp add: service_input_def Let_def case_prod_beta)

section \<open>Sensors, radio and responses\<close>

lemma ingestion_board [simp]: "w_board (run_ingestion f w) = w_board w" "w_board (after_imu_calibration g w) = w_board w"
  "w_board (emit_change_of pid old w) = w_board w"
  by (simp_all add: run_ingestion_def after_imu_calibration_def emit_change_of_def Let_def case_prod_beta)

lemma health_board [simp]: "w_board (update_sensor_health_and_calibration now w) = w_board w"
  by (simp add: update_sensor_health_and_calibration_def Let_def case_prod_beta)

lemma process_bus_board [simp]:
  "w_board (process_sensor_bus_after_update V w) = snd (bo_clock_millis (we_board V) (w_board w))"
  by (simp add: process_sensor_bus_after_update_def Let_def case_prod_beta)

lemma sensor_stage_level:
  assumes "service_env_ok V \<mu>"
  shows "\<mu> (w_board (snd (run_service_sensor_stage V w))) \<le> \<mu> (w_board w)"
  using order_trans [OF lowersD [OF env_ops(3) [OF assms]]
      order_trans [OF env_ops(8) [OF assms] lowersD [OF env_ops(2) [OF assms], of "w_board w"]]]
  by (simp add: run_service_sensor_stage_def read_sensors_def Let_def case_prod_beta)

lemma rc_stage_level:
  assumes "service_env_ok V \<mu>"
  shows "\<mu> (w_board (snd (service_rc V fresh w))) \<le> \<mu> (w_board w)"
  using order_trans [OF env_ops(10) [OF assms] order_trans [OF env_ops(9) [OF assms]
      lowersD [OF env_ops(3) [OF assms], of "w_board w"]]]
  by (simp add: service_rc_def run_rc_command_state_stages_def run_pwm_output_stage_def update_board_leds_def
      tell_board_def Let_def case_prod_beta)

lemma send_responses_level:
  assumes "service_env_ok V \<mu>"
  shows "\<mu> (snd (snd (snd (send_responses_loop (we_link V) n sent q x)))) \<le> \<mu> (snd x)"
proof (induction "length (dq_items q)" arbitrary: sent q x)
  case 0
  then show ?case
    by (simp add: send_responses_loop.simps [of _ n sent q] eq_pop_def deque_pop_front_def)
next
  case (Suc k)
  then obtain r rs where q: "dq_items q = r # rs" by (cases "dq_items q") auto
  have le: "\<mu> (snd (send_response (we_link V) r x)) \<le> \<mu> (snd x)"
    using send_message_level [OF assms] by (simp add: send_response_def case_prod_beta) (metis snd_conv)
  have "\<mu> (snd (snd (snd (send_responses_loop (we_link V) n (sent + 1) (q\<lparr>dq_items := rs\<rparr>) y)))) \<le> \<mu> (snd y)" for y
    using Suc(2) by (intro Suc(1)) (simp add: q)
  from order_trans [OF this le] show ?case
    by (simp add: send_responses_loop.simps [of _ n sent q] eq_pop_def deque_pop_front_def q)
qed

lemma drain_logs_board [simp]: "w_board (drain_logs w) = w_board w"
  by (simp add: drain_logs_def Let_def case_prod_beta)

lemma responses_level:
  assumes "service_env_ok V \<mu>"
  shows "\<mu> (w_board (drain_logs_and_send_responses_limited V n w)) \<le> \<mu> (w_board w)"
  using send_responses_level [OF assms, of n 0 "responses (w_comm_events (drain_logs w))" "(w_comm (drain_logs w), w_board w)"]
  by (simp add: drain_logs_and_send_responses_limited_def send_comm_responses_limited_def Let_def case_prod_beta)

section \<open>The service loop\<close>

lemma if_slack_level:
  assumes "service_env_ok V \<mu>" and "\<And>w. \<mu> (w_board (snd (f w))) \<le> \<mu> (w_board w)"
  shows "\<mu> (w_board (snd (if_slack V f d w))) \<le> \<mu> (w_board w)"
proof -
  obtain go_on w1 where c: "realtime_service_can_continue V w = (go_on, w1)"
    by (cases "realtime_service_can_continue V w")
  from can_continue_level [OF assms(1) c] order_trans [OF assms(2) [of w1]] show ?thesis
    by (simp add: if_slack_def c)
qed

lemma service_rest_level:
  assumes "service_env_ok V \<mu>"
  shows "\<mu> (w_board (snd (service_rest V sent w))) \<le> \<mu> (w_board w)"
proof -
  note slack = order_trans [OF if_slack_level [OF assms]]
  have rc: "\<mu> (w_board (snd (let (rc, w') = service_rc V fresh w in (Some rc, w')))) \<le> \<mu> (w_board w)" for fresh w
    using rc_stage_level [OF assms, of fresh w] by (simp add: case_prod_beta)
  show ?thesis
    unfolding service_rest_def Let_def case_prod_beta snd_conv fst_conv
    by (intro slack order_refl)
      (simp_all add: tell_board_def env_ops [OF assms] responses_level [OF assms]
        rc [unfolded Let_def case_prod_beta snd_conv] service_input_level [OF assms] sensor_stage_level [OF assms])
qed

lemma service_telemetry_returns:
  assumes "service_env_ok V \<mu>"
  shows "\<exists>sent w'. service_telemetry V policy w = Some (sent, w') \<and> \<mu> (w_board w') \<le> \<mu> (w_board w)"
proof -
  obtain go_on w1 where c: "realtime_service_can_continue V w = (go_on, w1)"
    by (cases "realtime_service_can_continue V w")
  note lvl = can_continue_level [OF assms c]
  obtain n w2 where s: "telemetry_slack_loop V 0 w1 = Some (n, w2)" "\<mu> (w_board w2) \<le> \<mu> (w_board w1)"
    using slack_loop_ends [OF assms] by blast
  show ?thesis
    using lvl s budget_loop_level [OF assms, of "telemetry_streams_per_phase policy" 0 w1]
    by (auto simp: service_telemetry_def c run_realtime_telemetry_stage_with_available_slack_def
        run_realtime_telemetry_stage_budgeted_def case_prod_beta)
qed

lemma service_step_returns:
  assumes "service_env_ok V \<mu>"
  shows "\<exists>r w'. run_prioritized_service_step V policy w = Some (r, w') \<and> \<mu> (w_board w') \<le> \<mu> (w_board w)"
proof -
  obtain sent w1 where t: "service_telemetry V policy w = Some (sent, w1)" "\<mu> (w_board w1) \<le> \<mu> (w_board w)"
    using service_telemetry_returns [OF assms] by blast
  have "\<mu> (w_board (snd (service_rest V sent w1))) \<le> \<mu> (w_board w)"
    using service_rest_level [OF assms, of sent w1] t(2) by (rule order_trans)
  with t(1) show ?thesis
    by (cases "service_rest V sent w1") (simp add: run_prioritized_service_step_def)
qed

lemma service_loop_ends:
  assumes "service_env_ok V \<mu>"
  shows "\<exists>x. service_loop V policy r w = Some x"
proof (induction "\<mu> (w_board w)" arbitrary: r w rule: less_induct)
  case less
  obtain go_on w1 where c: "realtime_service_can_continue V w = (go_on, w1)"
    by (cases "realtime_service_can_continue V w")
  note lvl = can_continue_level [OF assms c]
  obtain sr w2 where s: "run_prioritized_service_step V policy w1 = Some (sr, w2)" "\<mu> (w_board w2) \<le> \<mu> (w_board w1)"
    using service_step_returns [OF assms] by blast
  show ?case
  proof (cases go_on)
    case True
    with lvl s have "\<mu> (w_board w2) < \<mu> (w_board w)" by simp
    from less [OF this] True show ?thesis
      by (subst service_loop.simps) (simp add: c s)
  next
    case False
    then show ?thesis by (subst service_loop.simps) (simp add: c)
  qed
qed

text \<open>
  C8. The service phase of the realtime boards returns. Whatever its policy, the rates of the
  telemetry and the work that arrives, it ends on every board whose IMU answers: one on which
  the question whether a sample is pending is answered with yes after finitely many polls, and
  no other call puts this off. No work that the service finds for itself keeps it from the
  next control update for ever.
\<close>

theorem service_phase_returns:
  assumes "imu_answers (we_board V) (we_link V) \<mu>"
  shows "run_prioritized_service_steps_with_policy V policy w \<noteq> None"
proof -
  have ok: "service_env_ok V \<mu>" using assms by (simp add: service_env_ok_def)
  show ?thesis
    using service_loop_ends [OF ok]
    by (simp add: run_prioritized_service_steps_with_policy_def Let_def case_prod_beta)
qed

section \<open>Evaluated\<close>

text \<open>A board that answers after as many polls as its state says.\<close>

definition countdown_board :: "(32, nat) board_ops" where
  "countdown_board = \<lparr>bo_clock_micros = (\<lambda>b. (0, b)), bo_clock_millis = (\<lambda>b. (0, b)),
     bo_imu_pending = (\<lambda>b. (b = 0, b - 1)), bo_serial_rx_pending = (\<lambda>b. (False, b)),
     bo_update_sensor_bus = (\<lambda>b s. (s, b)), bo_update_imu_sensor = (\<lambda>b s. (s, b)),
     bo_update_service_sensor_bus = (\<lambda>b s. (s, b)), bo_sensors_errors_count = (\<lambda>b. (0, b)),
     bo_test_pin_2 = (\<lambda>_ b. b), bo_led0 = (\<lambda>_ b. b), bo_led1 = (\<lambda>_ b. b),
     bo_configure_battery_monitor = (\<lambda>_ _ b. b), bo_serial_flush = (\<lambda>b. b),
     bo_serial_flush_budgeted = (\<lambda>_ b. b), bo_run_deferred_board_actions = (\<lambda>b. b),
     bo_read_params = (\<lambda>b p. (False, p, b)), bo_write_params = (\<lambda>b p. (False, b)),
     bo_reboot = (\<lambda>b. (False, b)), bo_reboot_to_bootloader = (\<lambda>b. (False, b)),
     bo_backup_memory_read = (\<lambda>b. (None, b)), bo_backup_memory_clear = (\<lambda>b. (False, b))\<rparr>"

definition silent_link :: "(nat, nat) comm_interface" where
  "silent_link = \<lparr>cl_send = (\<lambda>b sys msg n. (b, n + 1)), cl_handle_incoming = (\<lambda>b ms n. (b, ms, n))\<rparr>"

definition countdown_env :: "(32, nat, nat, pio_pwm) world_env" where
  "countdown_env = \<lparr>we_pipeline = \<lparr>env_linalg = no_linalg, env_real = plain_ops, env_pwm = pio_ops,
       env_configure_rates = pio_configure_output_rates, env_board = countdown_board\<rparr>,
     we_link = silent_link, we_linalg64 = no_linalg, we_real32 = plain_ops, we_pwm_is_enabled = pio_is_enabled\<rparr>"

definition countdown_world :: "(32, nat, nat, pio_pwm) world" where
  "countdown_world = world_init countdown_env 100 zero_params 0 state_manager_new estimator_default
     controller_default sample_mixer pio_pwm_new log_queue_new"

theorem service_phase_returns_witness:
  "run_prioritized_service_steps_with_policy countdown_env policy_continuous_slack_driven countdown_world \<noteq> None"
  by (rule service_phase_returns [where \<mu> = "\<lambda>b. b"])
    (auto simp: imu_answers_def lowers_def countdown_env_def we_board_def countdown_board_def silent_link_def)

end
