(* ===== verification/World_Invariant.thy ===== *)
theory World_Invariant
  imports World_Liveness
begin

text \<open>
  The runs of the world as a step relation: a run of the loop of the slow boards, an IMU tick, a
  control tick or a service phase of the realtime boards, or a change of the control rate. In
  every world such steps reach, the state machine satisfies the invariant that
  \<open>State_Machine\<close> shows for its own steps: no component ever sends it an event outside of them.
\<close>

section \<open>Events keep the state machine reachable\<close>

definition own_flag :: "error_flag \<Rightarrow> bool" where
  "own_flag f \<longleftrightarrow> f \<in> {INVALID_MIXER, IMU_NOT_RESPONDING, UNHEALTHY_ESTIMATOR, TIME_GOING_BACKWARDS,
     UNCALIBRATED_IMU, INVALID_FAILSAFE, RC_LOST}"

lemma own_flag_wf: "own_flag f \<Longrightarrow> wf_event (ERROR_OCCURRED f) \<and> wf_event (ERROR_CLEARED f)"
  by (auto simp: own_flag_def wf_event_def flag_defs)

lemma own_flags [simp]: "own_flag INVALID_MIXER" "own_flag IMU_NOT_RESPONDING" "own_flag UNHEALTHY_ESTIMATOR"
  "own_flag TIME_GOING_BACKWARDS" "own_flag UNCALIBRATED_IMU" "own_flag INVALID_FAILSAFE" "own_flag RC_LOST"
  by (simp_all add: own_flag_def)

lemma reach_event: "manager_reachable s \<Longrightarrow> wf_event ev \<Longrightarrow> manager_reachable (fst (manager_update s ev p))"
  by (rule reach_step [OF _ step_event])

lemma reach_flag_event:
  assumes "manager_reachable s" and "own_flag f"
  shows "manager_reachable (fst (manager_update s (ERROR_OCCURRED f) p))"
    "manager_reachable (fst (manager_update s (ERROR_CLEARED f) p))"
  using reach_event [OF assms(1)] own_flag_wf [OF assms(2)] by blast+

lemma reach_flag:
  assumes "manager_reachable s" and "own_flag f"
  shows "manager_reachable (fst (set_error_flag s f present p))"
  using assms(1) reach_flag_event [OF assms] by (simp add: set_error_flag_def Let_def)

lemma reach_safety: "manager_reachable s \<Longrightarrow> manager_reachable (update_arming_safety s low on)"
  by (rule reach_step [OF _ step_safety])

lemma plain_events [simp]: "wf_event REQUEST_ARM" "wf_event REQUEST_DISARM" "wf_event CALIBRATION_COMPLETE"
  "wf_event CALIBRATION_FAILED" "wf_event HARDFAULT_REARM_REQUESTED" "wf_event INITIALIZED"
  by (simp_all add: wf_event_def)

section \<open>The components\<close>

lemma reach_failsafe_config: "manager_reachable s \<Longrightarrow> manager_reachable (snd (update_failsafe_config cm p s))"
  by (simp add: update_failsafe_config_def Let_def reach_flag_event)

lemma reach_rc_run:
  assumes "manager_reachable s"
  shows "manager_reachable (snd (rc_run r now p s))"
proof -
  have sig: "manager_reachable (snd (look_for_arm_disarm_signal r now p s))" if "manager_reachable s" for r s
    using that
    by (simp add: look_for_arm_disarm_signal_def look_for_stick_signal_def look_for_switch_signal_def Let_def
        reach_event reach_safety)
  show ?thesis
    using assms by (simp add: rc_run_def Let_def reach_flag_event sig)
qed

lemma reach_rc_pass:
  assumes "manager_reachable (pass_state w)"
  shows "manager_reachable (pass_state (run_rc_command_state now fresh w))"
proof -
  have cmd: "manager_reachable (snd (snd (snd (command_run cm now p r s))))" if "manager_reachable s" for cm p r s
    using that by (simp add: command_run_state after_health_def reach_flag_event)
  have run: "manager_reachable (fst (manager_run s p))" if "manager_reachable s" for s p
    by (rule reach_step [OF that step_run])
  show ?thesis
    using assms reach_rc_run
    by (simp add: run_rc_command_state_def Let_def case_prod_beta run cmd split: option.split)
qed

lemma reach_pl_flag: "manager_reachable (pl_state c) \<Longrightarrow> own_flag f \<Longrightarrow> manager_reachable (pl_state (pl_flag f b c))"
  by (simp add: pl_flag_def reach_flag)

lemma reach_mixer_stage: "manager_reachable (pl_state c) \<Longrightarrow>
    manager_reachable (pl_state (snd (timed V u (mixer_stage V ctl) c)))"
  by (simp add: stage_defs reach_flag)

lemma reach_pipeline:
  assumes "manager_reachable (pl_state c)"
  shows "manager_reachable (pl_state (snd (run_control_pipeline_if_new_imu V c)))"
  using assms
  by (simp add: run_control_pipeline_if_new_imu_def run_stages_def Let_def case_prod_beta frame reach_mixer_stage
      reach_pl_flag split: option.split)

section \<open>The stages\<close>

lemma reach_control:
  assumes "manager_reachable (w_state w)"
  shows "manager_reachable (w_state (snd (run_control_and_mixing_stage_if_new_imu V w)))"
  using reach_pipeline [of "pipeline_ctx_of w" "we_pipeline V"] assms
  by (simp add: run_control_and_mixing_stage_if_new_imu_def case_prod_beta with_pipeline_def pipeline_ctx_of_def)

lemma reach_control_due:
  assumes "manager_reachable (w_state w)"
  shows "manager_reachable (w_state (snd (run_control_and_mixing_stage_if_control_due V now w)))"
proof -
  have cons: "w_state (consume_control_update_deadline now w) = w_state w"
    by (simp add: consume_control_update_deadline_def Let_def)
  have acc: "manager_reachable (w_state (snd (run_control_and_mixing_stage_with_accumulated_imu V w)))"
    if "manager_reachable (w_state w)" for w
    using that
    by (simp add: run_control_and_mixing_stage_with_accumulated_imu_def Let_def case_prod_beta reach_control
        split: prod.split option.split)
  show ?thesis
    using assms
    by (simp add: run_control_and_mixing_stage_if_control_due_def acc cons reach_control)
qed

lemma stamp_control_state [simp]: "w_state (snd (stamp_control V x)) = w_state (snd x)"
  by (simp add: stamp_control_def Let_def case_prod_beta)

lemma reach_health:
  assumes "manager_reachable (w_state w)"
  shows "manager_reachable (w_state (update_sensor_health_and_calibration now w))"
  using assms
  by (simp add: update_sensor_health_and_calibration_def update_sensor_health_def Let_def case_prod_beta
      reach_event reach_flag)

lemma reach_after_calibration:
  assumes "manager_reachable (w_state w)"
  shows "manager_reachable (w_state (after_imu_calibration f w))"
  using assms by (simp add: after_imu_calibration_def Let_def reach_flag)

lemma reach_bus:
  assumes "manager_reachable (w_state w)"
  shows "manager_reachable (w_state (process_sensor_bus_after_update V w))"
  using assms by (simp add: process_sensor_bus_after_update_def Let_def case_prod_beta reach_after_calibration)

lemma read_sensors_state [simp]: "w_state (read_sensors f w) = w_state w"
  by (simp add: read_sensors_def Let_def case_prod_beta)

lemma reach_imu_tick:
  assumes "manager_reachable (w_state w)"
  shows "manager_reachable (w_state (snd (run_imu_control_tick V w)))"
proof -
  have rec: "w_state (record_control_imu_candidate w) = w_state w" for w :: "('a, 'b, 'c, 'd) world"
    by (simp add: record_control_imu_candidate_def split: option.split)
  have imu: "manager_reachable (w_state (process_imu_sensor_after_update V w))" if "manager_reachable (w_state w)" for w
    using that by (simp add: process_imu_sensor_after_update_def Let_def case_prod_beta reach_after_calibration)
  show ?thesis
    using assms by (simp add: run_imu_control_tick_def Let_def case_prod_beta reach_control_due reach_health rec imu)
qed

lemma reach_mixer_reacted:
  assumes "manager_reachable (w_state w)"
  shows "manager_reachable (w_state (mixer_reacted r w))"
  using assms
  by (simp add: mixer_reacted_def mixer_status_event_def reach_flag_event split: prod.split option.split)

lemma reach_refresh_failsafe: "manager_reachable (w_state w) \<Longrightarrow> manager_reachable (w_state (refresh_failsafe w))"
  by (simp add: refresh_failsafe_def Let_def case_prod_beta reach_failsafe_config)

lemma fold_inv: "P s \<Longrightarrow> (\<And>x s. P s \<Longrightarrow> P (f x s)) \<Longrightarrow> P (fold f xs s)"
  by (induction xs arbitrary: s) simp_all

lemma reach_reactions:
  assumes "manager_reachable (w_state w)"
  shows "manager_reachable (w_state (world_param_reactions V w))"
proof -
  let ?P = "\<lambda>w. manager_reachable (w_state w)"
  have mixer: "?P (fold (react_mixer_change V) chs w)" if "?P w" for chs and w :: "('a, 'b, 'c, 'd) world"
    using that by (rule fold_inv [where P = ?P]) (simp add: react_mixer_change_def reach_mixer_reacted)
  have rc: "w_state (fold react_rc_change chs w) = w_state w" for chs and w :: "('a, 'b, 'c, 'd) world"
    by (rule fold_keeps) (simp add: react_rc_change_def)
  have cmd: "?P (fold react_command_change chs w)" if "?P w" for chs and w :: "('a, 'b, 'c, 'd) world"
    using that by (rule fold_inv [where P = ?P]) (simp add: react_command_change_def reach_refresh_failsafe)
  have "?P (apply_param_reactions V w)" if "?P w" for w
    using that
    by (simp add: apply_param_reactions_def Let_def mixer rc cmd reach_refresh_failsafe react_mixer_refresh_def
        reach_mixer_reacted)
  then show ?thesis
    using assms by (simp add: world_param_reactions_def tell_board_def Let_def case_prod_beta)
qed

lemma before_reactions_state [simp]: "w_state (before_reactions V w) = w_state w"
  by (simp add: before_reactions_def request_gyro_calibration_if_needed_def Let_def)

lemma reach_comm:
  assumes "manager_reachable (w_state w)"
  shows "manager_reachable (w_state (run_communication_and_parameter_service_stage V w))"
  using assms by (simp add: comm_stage_eq reach_reactions)

lemma reach_rc_stages:
  assumes "manager_reachable (w_state w)"
  shows "manager_reachable (w_state (run_rc_command_state_stages V fresh w))"
  using assms
  by (simp add: run_rc_command_state_stages_def run_pwm_output_stage_def update_board_leds_def tell_board_def
      Let_def case_prod_beta reach_rc_pass)

lemma responses_state [simp]: "w_state (drain_logs_and_send_responses V w) = w_state w"
  "w_state (drain_logs_and_send_responses_limited V n w) = w_state w"
  by (simp_all add: drain_logs_and_send_responses_def drain_logs_and_send_responses_limited_def drain_logs_def
      Let_def case_prod_beta)

lemma telemetry_state [simp]: "w_state (run_telemetry_stage V w) = w_state w"
  "w_state (snd (send_realtime_telemetry_stream V w)) = w_state w"
  by (simp_all add: run_telemetry_stage_def send_realtime_telemetry_stream_def send_with_def Let_def case_prod_beta)

lemma tell_board_state [simp]: "w_state (tell_board f w) = w_state w"
  by (simp add: tell_board_def)

lemma reach_run_once:
  assumes "manager_reachable (w_state w)"
  shows "manager_reachable (w_state (run_once V w))"
  using assms
  by (simp add: run_once_def Let_def run_sensor_ingestion_and_health_stage_def
      run_sensor_ingestion_and_health_stage_without_log_drain_def run_sensor_ingestion_stage_def case_prod_beta
      reach_control reach_rc_stages reach_health reach_bus reach_comm)

section \<open>The service phase\<close>

lemma can_continue_state [simp]: "w_state (snd (realtime_service_can_continue V w)) = w_state w"
  by (simp add: realtime_service_can_continue_def Let_def case_prod_beta)

lemma budget_loop_state [simp]: "w_state (snd (telemetry_budget_loop V n sent w)) = w_state w"
proof (induction "n - sent" arbitrary: sent w)
  case 0
  then show ?case by (simp add: telemetry_budget_loop.simps [of V n])
next
  case (Suc k)
  have "w_state (snd (telemetry_budget_loop V n (sent + 1) w1)) = w_state w1" for w1
    using Suc(2) by (intro Suc(1)) simp
  moreover obtain ok w1 where "send_realtime_telemetry_stream V w = (ok, w1)" by (cases "send_realtime_telemetry_stream V w")
  moreover from this have "w_state w1 = w_state w" using telemetry_state(2) [of V w] by simp
  ultimately show ?case by (cases ok) (simp_all add: telemetry_budget_loop.simps [of V n sent])
qed

lemma slack_loop_state:
  assumes "telemetry_slack_loop V sent w = Some x"
  shows "w_state (snd x) = w_state w"
  using assms
proof (rule telemetry_slack_loop.raw_induct [where P = "\<lambda>V sent w x. w_state (snd x) = w_state w", rotated])
  fix loop :: "('a, 'b, 'c, 'd) world_env \<Rightarrow> nat \<Rightarrow> ('a, 'b, 'c, 'd) world \<Rightarrow> (nat \<times> ('a, 'b, 'c, 'd) world) option"
    and V sent w x
  assume ih: "\<And>V sent w x. loop V sent w = Some x \<Longrightarrow> w_state (snd x) = w_state w"
    and body: "(case realtime_service_can_continue V w of (go_on, w1) \<Rightarrow>
       if \<not> go_on then Some (sent, w1)
       else (case send_realtime_telemetry_stream V w1 of (ok, w2) \<Rightarrow>
         if ok then loop V (sent + 1) w2 else Some (sent, w2))) = Some x"
  obtain go_on w1 where c: "realtime_service_can_continue V w = (go_on, w1)"
    by (cases "realtime_service_can_continue V w")
  obtain ok w2 where s: "send_realtime_telemetry_stream V w1 = (ok, w2)"
    by (cases "send_realtime_telemetry_stream V w1")
  have w1: "w_state w1 = w_state w" using can_continue_state [of V w] by (simp add: c)
  have w2: "w_state w2 = w_state w1" using telemetry_state(2) [of V w1] by (simp add: s)
  show "w_state (snd x) = w_state w"
    using body w1 w2 ih [of V "sent + 1" w2 x] by (auto simp: c s split: if_splits)
qed

lemma reach_if_slack:
  assumes "manager_reachable (w_state w)" and "\<And>w. manager_reachable (w_state w) \<Longrightarrow> manager_reachable (w_state (snd (f w)))"
  shows "manager_reachable (w_state (snd (if_slack V f d w)))"
proof -
  obtain go_on w1 where c: "realtime_service_can_continue V w = (go_on, w1)"
    by (cases "realtime_service_can_continue V w")
  have "w_state w1 = w_state w" using can_continue_state [of V w] by (simp add: c)
  with assms show ?thesis by (simp add: if_slack_def c)
qed

lemma reach_sensor_stage:
  assumes "manager_reachable (w_state w)"
  shows "manager_reachable (w_state (snd (run_service_sensor_stage V w)))"
  using assms by (simp add: run_service_sensor_stage_def Let_def case_prod_beta reach_health reach_bus)

lemma reach_service_parts:
  assumes "manager_reachable (w_state w)"
  shows "manager_reachable (w_state (snd (service_input V w)))"
    "manager_reachable (w_state (snd (service_rc V fresh w)))"
  using assms by (simp_all add: service_input_def service_rc_def Let_def case_prod_beta reach_comm reach_rc_stages)

lemma reach_service_rest:
  assumes "manager_reachable (w_state w)"
  shows "manager_reachable (w_state (snd (service_rest V sent w)))"
  unfolding service_rest_def Let_def case_prod_beta snd_conv fst_conv
  by (intro reach_if_slack) (simp_all add: assms reach_sensor_stage reach_service_parts)

lemma reach_service_step:
  assumes "manager_reachable (w_state w)" and "run_prioritized_service_step V policy w = Some x"
  shows "manager_reachable (w_state (snd x))"
proof -
  obtain sent w1 where t: "service_telemetry V policy w = Some (sent, w1)" and x: "x = service_rest V sent w1"
    using assms(2) by (auto simp: run_prioritized_service_step_def)
  obtain go_on w0 where c: "realtime_service_can_continue V w = (go_on, w0)"
    by (cases "realtime_service_can_continue V w")
  have w0: "w_state w0 = w_state w" using can_continue_state [of V w] by (simp add: c)
  have "w_state w1 = w_state w0"
    using t slack_loop_state [of V 0 w0] budget_loop_state [of V "telemetry_streams_per_phase policy" 0 w0]
    by (auto simp: service_telemetry_def c run_realtime_telemetry_stage_with_available_slack_def
        run_realtime_telemetry_stage_budgeted_def case_prod_beta split: if_splits)
  with w0 assms(1) show ?thesis by (simp add: x reach_service_rest)
qed

lemma reach_service_loop:
  assumes "service_loop V policy r w = Some x" and "manager_reachable (w_state w)"
  shows "manager_reachable (w_state (snd x))"
proof -
  have "manager_reachable (w_state w) \<longrightarrow> manager_reachable (w_state (snd x))"
    using assms(1)
  proof (rule service_loop.raw_induct
      [where P = "\<lambda>V policy r w x. manager_reachable (w_state w) \<longrightarrow> manager_reachable (w_state (snd x))", rotated])
    fix loop :: "('a, 'b, 'c, 'd) world_env \<Rightarrow> realtime_service_policy \<Rightarrow> world_report \<Rightarrow> ('a, 'b, 'c, 'd) world
        \<Rightarrow> (world_report \<times> ('a, 'b, 'c, 'd) world) option" and V policy r w x
    assume ih: "\<And>V policy r w x. loop V policy r w = Some x \<Longrightarrow>
        manager_reachable (w_state w) \<longrightarrow> manager_reachable (w_state (snd x))"
      and body: "(case realtime_service_can_continue V w of (go_on, w1) \<Rightarrow>
         if \<not> go_on then Some (r, w1)
         else (case run_prioritized_service_step V policy w1 of
             None \<Rightarrow> None
           | Some sw \<Rightarrow>
              if min_spacing_us policy \<noteq> 0 \<or> \<not> had_service_activity (fst sw) \<and> \<not> continue_when_idle policy
              then Some (merge_from r (fst sw), snd sw)
              else loop V policy (merge_from r (fst sw)) (snd sw))) = Some x"
    obtain go_on w1 where c: "realtime_service_can_continue V w = (go_on, w1)"
      by (cases "realtime_service_can_continue V w")
    have w1: "w_state w1 = w_state w" using can_continue_state [of V w] by (simp add: c)
    show "manager_reachable (w_state w) \<longrightarrow> manager_reachable (w_state (snd x))"
      using body w1 ih [of V policy "merge_from r r'" w' x for r' w'] reach_service_step [of w1 V policy]
      by (auto simp: c split: if_splits option.splits)
  qed
  with assms(2) show ?thesis by simp
qed

lemma reach_service_phase:
  assumes "manager_reachable (w_state w)"
    and "run_prioritized_service_steps_with_policy V policy w = Some (report, w')"
  shows "manager_reachable (w_state w')"
proof -
  obtain r w3 rx where l: "service_loop V policy (world_report_default\<lparr>had_rx := rx\<rparr>)
      (snd (ask_board (bo_serial_rx_pending (we_board V)) (snd (ask_board (bo_clock_micros (we_board V)) w)))) = Some (r, w3)"
    and s: "w_state w' = w_state w3"
    using assms(2) by (auto simp: run_prioritized_service_steps_with_policy_def Let_def case_prod_beta)
  from reach_service_loop [OF l] assms(1) s show ?thesis by simp
qed

section \<open>Reachable worlds\<close>

inductive world_step :: "('r::len, 'b, 'l, 'p) world_env \<Rightarrow> ('r, 'b, 'l, 'p) world \<Rightarrow> ('r, 'b, 'l, 'p) world \<Rightarrow> bool"
  for V where
  step_once: "world_step V w (run_once V w)"
| step_imu: "world_step V w (snd (run_imu_control_tick V w))"
| step_control: "world_step V w (snd (run_control_update_tick V w))"
| step_service: "run_prioritized_service_steps_with_policy V policy w = Some (report, w') \<Longrightarrow> world_step V w w'"
| step_rates: "world_step V w (set_control_loop_rates V hz w)"

inductive_cases world_stepE: "world_step V w w'"

inductive world_reachable :: "('r::len, 'b, 'l, 'p) world_env \<Rightarrow> ('r, 'b, 'l, 'p) world \<Rightarrow> bool" for V where
  world_start: "world_reachable V (world_init V b ps link state_manager_new e c m pwm logs)"
| world_next: "world_reachable V w \<Longrightarrow> world_step V w w' \<Longrightarrow> world_reachable V w'"

lemma reach_init: "manager_reachable (w_state (world_init V b ps link state_manager_new e c m pwm logs))"
  by (simp add: world_init_def Let_def case_prod_beta command_init_def reach_failsafe_config reach_flag
      initialize_imu_calibration_error_def reach_start reach_event)

lemma world_reachable_manager: "world_reachable V w \<Longrightarrow> manager_reachable (w_state w)"
proof (induction rule: world_reachable.induct)
  case (world_start b ps link e c m pwm logs)
  then show ?case by (rule reach_init)
next
  case (world_next w w')
  from world_next(2,3) show ?case
    by (auto elim!: world_stepE simp: reach_run_once reach_imu_tick run_control_update_tick_def Let_def case_prod_beta
        reach_control_due set_control_loop_rates_def intro: reach_service_phase)
qed

text \<open>
  C1. In every world the firmware can reach, by any interleaving of loop runs, IMU ticks, control
  ticks and service phases, from any parameters and with any board, link and driver, the state
  machine is past its start and carries the errors of its state: a failsafe has
  \<^verbatim>\<open>RC_LOST\<close>, an error state has an error, and a vehicle that waits or calibrates has no error
  but an unhealthy estimator.
\<close>

theorem reachable_worlds_ok:
  assumes "world_reachable V w"
  shows "sm_ok (machine (w_state w)) \<and> initialized (machine (w_state w))"
  by (rule manager_reachable_ok [OF world_reachable_manager [OF assms]])

theorem reachable_worlds_ok_witness:
  "sm_ok (machine (w_state (run_once countdown_env countdown_world)))
    \<and> initialized (machine (w_state (run_once countdown_env countdown_world)))"
  by (rule reachable_worlds_ok [of countdown_env])
    (rule world_next [OF _ step_once], unfold countdown_world_def, rule world_start)

end
