(* ===== verification/Rp2350_Mailbox.thy ===== *)
theory Rp2350_Mailbox
  imports Telemetry
begin

text \<open>
  The mailbox between the two cores of the RP2350, \<^verbatim>\<open>platforms/rp2350/src/comms.rs\<close>: frames to
  and from the radio link in slots with a priority, and downlink messages that the second core
  encodes, critical ones in a queue and telemetry in one slot per stream. A critical section
  makes each operation on the slots and queues one step; the counters are kept in a critical
  section of their own, and as they only count, an operation and its counters are one step here.
  The byte pipe of \<^verbatim>\<open>embassy_sync\<close> is a record of operations.
\<close>

section \<open>Priorities and capacities\<close>

definition REPLACEABLE_TELEMETRY :: u8 where "REPLACEABLE_TELEMETRY = 32"
definition DEFAULT_PRIORITY :: u8 where "DEFAULT_PRIORITY = 128"
definition CRITICAL_PRIORITY :: u8 where "CRITICAL_PRIORITY = 224"

definition MAVLINK_V1_MAX_FRAME_BYTES :: nat where "MAVLINK_V1_MAX_FRAME_BYTES = 263"
definition SERIAL_RX_FRAME_MAX_BYTES :: nat where "SERIAL_RX_FRAME_MAX_BYTES = 280"
definition TX_FRAME_CAPACITY :: nat where "TX_FRAME_CAPACITY = 64"
definition RX_FRAME_CAPACITY :: nat where "RX_FRAME_CAPACITY = 32"
definition DOWNLINK_CRITICAL_CAPACITY :: nat where "DOWNLINK_CRITICAL_CAPACITY = 64"
definition DOWNLINK_TELEMETRY_STREAMS :: nat where "DOWNLINK_TELEMETRY_STREAMS = 10"

record serial_rx_frame =
  srf_data :: "u8 list"
  srf_len :: nat

section \<open>State\<close>

record queued_downlink =
  qd_system_id :: u8
  qd_msg :: downlink_message

fun downlink_telemetry_stream :: "downlink_message \<Rightarrow> nat option" where
  "downlink_telemetry_stream (DlOutputRaw _) = Some 0"
| "downlink_telemetry_stream (DlAttitude _) = Some 1"
| "downlink_telemetry_stream (DlBaro _) = Some 2"
| "downlink_telemetry_stream (DlDiffPressure _) = Some 3"
| "downlink_telemetry_stream (DlImu _) = Some 4"
| "downlink_telemetry_stream (DlMag _) = Some 5"
| "downlink_telemetry_stream (DlRcRaw _) = Some 6"
| "downlink_telemetry_stream (DlRcChannels _) = Some 6"
| "downlink_telemetry_stream (DlRange _) = Some 7"
| "downlink_telemetry_stream (DlGnss _) = Some 8"
| "downlink_telemetry_stream (DlBatteryStatus _) = Some 9"
| "downlink_telemetry_stream _ = None"

record mailbox_stats =
  rx_pushed :: u32
  rx_read :: u32
  rx_dropped :: u32
  rx_priority_min :: u8
  rx_priority_max :: u8
  rx_drop_priority_min :: u8
  rx_drop_priority_max :: u8
  rx_frames_pushed :: u32
  rx_frames_dropped :: u32
  rx_frames_replaced :: u32
  rx_frame_bytes :: u32
  rx_pending_frames :: u32
  tx_written :: u32
  tx_drained :: u32
  tx_dropped :: u32
  tx_replaced :: u32
  tx_pending :: u32
  tx_pending_frames :: u32
  tx_priority_min :: u8
  tx_priority_max :: u8
  tx_drop_priority_min :: u8
  tx_drop_priority_max :: u8
  comms_state :: u32
  core1_heartbeats :: u32
  uart_tx_batches :: u32
  uart_tx_bytes :: u32
  uart_tx_max_batch :: u32
  uart_rx_chunks :: u32
  uart_rx_bytes :: u32
  uart_tx_errors :: u32
  uart_rx_errors :: u32
  uart_rx_parse_errors :: u32
  downlink_enqueued :: u32
  downlink_drained :: u32
  downlink_dropped :: u32
  downlink_replaced :: u32
  downlink_pending :: u32
  downlink_priority_min :: u8
  downlink_priority_max :: u8
  downlink_drop_priority_min :: u8
  downlink_drop_priority_max :: u8

definition mailbox_stats_new :: mailbox_stats where
  "mailbox_stats_new = \<lparr>rx_pushed = 0, rx_read = 0, rx_dropped = 0, rx_priority_min = 0,
     rx_priority_max = 0, rx_drop_priority_min = 0, rx_drop_priority_max = 0, rx_frames_pushed = 0,
     rx_frames_dropped = 0, rx_frames_replaced = 0, rx_frame_bytes = 0, rx_pending_frames = 0,
     tx_written = 0, tx_drained = 0, tx_dropped = 0, tx_replaced = 0, tx_pending = 0,
     tx_pending_frames = 0, tx_priority_min = 0, tx_priority_max = 0, tx_drop_priority_min = 0,
     tx_drop_priority_max = 0, comms_state = 0, core1_heartbeats = 0, uart_tx_batches = 0,
     uart_tx_bytes = 0, uart_tx_max_batch = 0, uart_rx_chunks = 0, uart_rx_bytes = 0,
     uart_tx_errors = 0, uart_rx_errors = 0, uart_rx_parse_errors = 0, downlink_enqueued = 0,
     downlink_drained = 0, downlink_dropped = 0, downlink_replaced = 0, downlink_pending = 0,
     downlink_priority_min = 0, downlink_priority_max = 0, downlink_drop_priority_min = 0,
     downlink_drop_priority_max = 0\<rparr>"

text \<open>
  The three arrays and the count the mailbox has for the outgoing frames, and again for the
  incoming ones. A frame keeps the bytes of an older one behind its length.
\<close>

record frame_slots =
  fs_frames :: "u8 list list"
  fs_lens :: "u16 list"
  fs_priorities :: "u8 list"
  fs_len :: nat

definition frame_slots_new :: "nat \<Rightarrow> nat \<Rightarrow> frame_slots" where
  "frame_slots_new capacity max_bytes = \<lparr>fs_frames = replicate capacity (replicate max_bytes 0),
     fs_lens = replicate capacity 0, fs_priorities = replicate capacity 0, fs_len = 0\<rparr>"

record mavlink_mailbox =
  mb_stats :: mailbox_stats
  mb_tx :: frame_slots
  mb_rx :: frame_slots
  downlink_critical :: "queued_downlink deque"
  downlink_telemetry :: "queued_downlink option list"
  downlink_telemetry_ready :: "nat deque"

definition mavlink_mailbox_new :: mavlink_mailbox where
  "mavlink_mailbox_new = \<lparr>mb_stats = mailbox_stats_new,
     mb_tx = frame_slots_new TX_FRAME_CAPACITY MAVLINK_V1_MAX_FRAME_BYTES,
     mb_rx = frame_slots_new RX_FRAME_CAPACITY SERIAL_RX_FRAME_MAX_BYTES,
     downlink_critical = deque_new DOWNLINK_CRITICAL_CAPACITY,
     downlink_telemetry = replicate DOWNLINK_TELEMETRY_STREAMS None,
     downlink_telemetry_ready = deque_new DOWNLINK_TELEMETRY_STREAMS\<rparr>"

section \<open>Downlink messages\<close>

definition push_critical :: "queued_downlink \<Rightarrow> mavlink_mailbox \<Rightarrow> bool \<times> mavlink_mailbox" where
  "push_critical msg m = (let (q, ok) = deque_push_back (downlink_critical m) msg in (ok, m\<lparr>downlink_critical := q\<rparr>))"

definition push_downlink_message :: "queued_downlink \<Rightarrow> u8 \<Rightarrow> mavlink_mailbox \<Rightarrow> bool \<times> mavlink_mailbox" where
  "push_downlink_message msg priority m =
    (if DEFAULT_PRIORITY \<le> priority then push_critical msg m
     else (case downlink_telemetry_stream (qd_msg msg) of
         None \<Rightarrow> push_critical msg m
       | Some stream \<Rightarrow>
          (let replaced = downlink_telemetry m ! stream \<noteq> None;
             m1 = m\<lparr>downlink_telemetry := (downlink_telemetry m)[stream := Some msg]\<rparr>
           in if replaced
              then (True, m1\<lparr>mb_stats := (mb_stats m1)\<lparr>downlink_replaced := downlink_replaced (mb_stats m1) + 1\<rparr>\<rparr>)
              else (let (q, ok) = deque_push_back (downlink_telemetry_ready m1) stream
                in (ok, m1\<lparr>downlink_telemetry_ready := q\<rparr>)))))"

text \<open>\<^verbatim>\<open>while let Some(stream) = ready.pop_front()\<close>: a stream whose slot is empty is passed over.\<close>

function pop_telemetry :: "mavlink_mailbox \<Rightarrow> queued_downlink option \<times> mavlink_mailbox" where
  "pop_telemetry m = (case deque_pop_front (downlink_telemetry_ready m) of
     (None, q) \<Rightarrow> (None, m\<lparr>downlink_telemetry_ready := q\<rparr>)
   | (Some stream, q) \<Rightarrow>
      (case downlink_telemetry m ! stream of
         Some msg \<Rightarrow> (Some msg, m\<lparr>downlink_telemetry_ready := q,
             downlink_telemetry := (downlink_telemetry m)[stream := None]\<rparr>)
       | None \<Rightarrow> pop_telemetry (m\<lparr>downlink_telemetry_ready := q\<rparr>)))"
  by pat_completeness auto
termination
  by (relation "measure (\<lambda>m. length (dq_items (downlink_telemetry_ready m)))")
    (auto simp: deque_pop_front_def split: list.splits)

declare pop_telemetry.simps [simp del]

definition pop_downlink_message :: "mavlink_mailbox \<Rightarrow> queued_downlink option \<times> mavlink_mailbox" where
  "pop_downlink_message m = (case deque_pop_front (downlink_critical m) of
     (Some msg, q) \<Rightarrow> (Some msg, m\<lparr>downlink_critical := q\<rparr>)
   | (None, q) \<Rightarrow> pop_telemetry (m\<lparr>downlink_critical := q\<rparr>))"

definition telemetry_pending_count :: "mavlink_mailbox \<Rightarrow> nat" where
  "telemetry_pending_count m = fold (\<lambda>i count. if downlink_telemetry m ! i \<noteq> None then count + 1 else count)
     [0..<DOWNLINK_TELEMETRY_STREAMS] 0"

section \<open>Frames\<close>

definition highest_slot :: "frame_slots \<Rightarrow> nat" where
  "highest_slot s = fold (\<lambda>i best. if fs_priorities s ! best < fs_priorities s ! i then i else best) [1..<fs_len s] 0"

definition lowest_slot :: "frame_slots \<Rightarrow> nat" where
  "lowest_slot s = fold (\<lambda>i lowest. if fs_priorities s ! i < fs_priorities s ! lowest then i else lowest) [1..<fs_len s] 0"

definition lowest_rx_priority_slot :: "frame_slots \<Rightarrow> nat option" where
  "lowest_rx_priority_slot s = (if fs_len s = 0 then None else Some (lowest_slot s))"

text \<open>The end of both push operations, and of both pops: the last frame moves into the free slot.\<close>

definition put_frame :: "nat \<Rightarrow> u8 list \<Rightarrow> u8 \<Rightarrow> frame_slots \<Rightarrow> frame_slots" where
  "put_frame slot bytes priority s = s\<lparr>
     fs_frames := (fs_frames s)[slot := bytes @ drop (length bytes) (fs_frames s ! slot)],
     fs_lens := (fs_lens s)[slot := word_of_nat (length bytes)],
     fs_priorities := (fs_priorities s)[slot := priority]\<rparr>"

definition remove_slot :: "nat \<Rightarrow> frame_slots \<Rightarrow> frame_slots" where
  "remove_slot slot s =
    (let last = fs_len s - 1;
       s1 = (if slot \<noteq> last then s\<lparr>fs_frames := (fs_frames s)[slot := fs_frames s ! last],
              fs_lens := (fs_lens s)[slot := fs_lens s ! last],
              fs_priorities := (fs_priorities s)[slot := fs_priorities s ! last]\<rparr> else s)
     in s1\<lparr>fs_len := last\<rparr>)"

definition push_tx_frame :: "u8 list \<Rightarrow> u8 \<Rightarrow> mavlink_mailbox \<Rightarrow> bool \<times> mavlink_mailbox" where
  "push_tx_frame bytes priority m =
    (if MAVLINK_V1_MAX_FRAME_BYTES < length bytes then (False, m)
     else if fs_len (mb_tx m) < TX_FRAME_CAPACITY
       then (True, m\<lparr>mb_tx := put_frame (fs_len (mb_tx m)) bytes priority ((mb_tx m)\<lparr>fs_len := fs_len (mb_tx m) + 1\<rparr>)\<rparr>)
     else (let slot = lowest_slot (mb_tx m)
       in if priority \<le> fs_priorities (mb_tx m) ! slot then (False, m)
          else (True, m\<lparr>mb_stats := (mb_stats m)\<lparr>tx_replaced := tx_replaced (mb_stats m) + 1\<rparr>,
                        mb_tx := put_frame slot bytes priority (mb_tx m)\<rparr>)))"

text \<open>\<^verbatim>\<open>pop_tx_frame\<close> writes the front of \<open>out\<close> and returns the length.\<close>

definition pop_tx_frame :: "u8 list \<Rightarrow> mavlink_mailbox \<Rightarrow> nat \<times> u8 list \<times> mavlink_mailbox" where
  "pop_tx_frame out m =
    (if fs_len (mb_tx m) = 0 then (0, out, m)
     else (let slot = highest_slot (mb_tx m); n = unat (fs_lens (mb_tx m) ! slot)
       in if length out < n then (0, out, m)
          else (n, take n (fs_frames (mb_tx m) ! slot) @ drop n out, m\<lparr>mb_tx := remove_slot slot (mb_tx m)\<rparr>)))"

definition pending_bytes :: "mavlink_mailbox \<Rightarrow> u32" where
  "pending_bytes m = fold (\<lambda>i total. total + ucast (fs_lens (mb_tx m) ! i)) [0..<fs_len (mb_tx m)] 0"

definition push_rx_frame :: "u8 list \<Rightarrow> u8 \<Rightarrow> mavlink_mailbox \<Rightarrow> bool \<times> mavlink_mailbox" where
  "push_rx_frame bytes priority m =
    (if SERIAL_RX_FRAME_MAX_BYTES < length bytes then (False, m)
     else if fs_len (mb_rx m) < RX_FRAME_CAPACITY
       then (True, m\<lparr>mb_rx := put_frame (fs_len (mb_rx m)) bytes priority ((mb_rx m)\<lparr>fs_len := fs_len (mb_rx m) + 1\<rparr>)\<rparr>)
     else (case lowest_rx_priority_slot (mb_rx m) of
         None \<Rightarrow> (False, m)
       | Some slot \<Rightarrow> (if priority \<le> fs_priorities (mb_rx m) ! slot then (False, m)
          else (True, m\<lparr>mb_stats := (mb_stats m)\<lparr>rx_frames_replaced := rx_frames_replaced (mb_stats m) + 1\<rparr>,
                        mb_rx := put_frame slot bytes priority (mb_rx m)\<rparr>))))"

definition pop_rx_frame :: "mavlink_mailbox \<Rightarrow> serial_rx_frame option \<times> mavlink_mailbox" where
  "pop_rx_frame m =
    (if fs_len (mb_rx m) = 0 then (None, m)
     else (let slot = highest_slot (mb_rx m); n = unat (fs_lens (mb_rx m) ! slot)
       in (Some \<lparr>srf_data = take n (fs_frames (mb_rx m) ! slot) @ replicate (SERIAL_RX_FRAME_MAX_BYTES - n) 0, srf_len = n\<rparr>,
           m\<lparr>mb_rx := remove_slot slot (mb_rx m)\<rparr>)))"

section \<open>The shared mailbox\<close>

text \<open>The byte pipe: what it holds is read and written in pieces, \<^verbatim>\<open>None\<close> for an error.\<close>

record 'p pipe_ops =
  pipe_try_read :: "u8 list \<Rightarrow> 'p \<Rightarrow> (nat \<times> u8 list) option \<times> 'p"
  pipe_try_write :: "u8 list \<Rightarrow> 'p \<Rightarrow> nat option \<times> 'p"
  pipe_free_capacity :: "'p \<Rightarrow> nat"

record 'p shared_mailbox =
  sh_mailbox :: mavlink_mailbox
  sh_rx_bytes :: 'p
  sh_comms_state :: u32

definition update_stats :: "(mailbox_stats \<Rightarrow> mailbox_stats) \<Rightarrow> 'p shared_mailbox \<Rightarrow> 'p shared_mailbox" where
  "update_stats f s = s\<lparr>sh_mailbox := (sh_mailbox s)\<lparr>mb_stats := f (mb_stats (sh_mailbox s))\<rparr>\<rparr>"

definition priority_min :: "u8 \<Rightarrow> u8 \<Rightarrow> u8" where
  "priority_min current v = (if current = 0 then v else min current v)"

function write_all :: "'p pipe_ops \<Rightarrow> u8 list \<Rightarrow> 'p \<Rightarrow> bool \<times> 'p" where
  "write_all P bytes p =
    (if bytes = [] then (True, p)
     else (case pipe_try_write P bytes p of
         (Some n, p1) \<Rightarrow> (if n = 0 then (False, p1) else write_all P (drop n bytes) p1)
       | (None, p1) \<Rightarrow> (False, p1)))"
  by pat_completeness auto
termination by (relation "measure (\<lambda>(P, bytes, p). length bytes)") auto

declare write_all.simps [simp del]

definition write_all_if_fits :: "'p pipe_ops \<Rightarrow> u8 list \<Rightarrow> 'p \<Rightarrow> bool \<times> 'p" where
  "write_all_if_fits P bytes p = (if pipe_free_capacity P p < length bytes then (False, p) else write_all P bytes p)"

definition read_into :: "'p pipe_ops \<Rightarrow> u8 list \<Rightarrow> 'p shared_mailbox \<Rightarrow> nat \<times> u8 list \<times> 'p shared_mailbox" where
  "read_into P out s =
    (let (r, p) = pipe_try_read P out (sh_rx_bytes s);
       (n, out1) = (case r of None \<Rightarrow> (0, out) | Some x \<Rightarrow> x)
     in (n, out1, update_stats (\<lambda>t. t\<lparr>rx_read := rx_read t + word_of_nat n\<rparr>) (s\<lparr>sh_rx_bytes := p\<rparr>)))"

definition write_from_priority :: "u8 list \<Rightarrow> u8 \<Rightarrow> 'p shared_mailbox \<Rightarrow> nat \<times> 'p shared_mailbox" where
  "write_from_priority bytes priority s =
    (let (sent, m) = push_tx_frame bytes priority (sh_mailbox s); s1 = s\<lparr>sh_mailbox := m\<rparr>
     in if sent then (length bytes, update_stats (\<lambda>t. t\<lparr>tx_written := tx_written t + word_of_nat (length bytes),
            tx_priority_min := priority_min (tx_priority_min t) priority,
            tx_priority_max := max (tx_priority_max t) priority\<rparr>) s1)
        else (0, update_stats (\<lambda>t. t\<lparr>tx_dropped := tx_dropped t + word_of_nat (length bytes),
            tx_drop_priority_min := priority_min (tx_drop_priority_min t) priority,
            tx_drop_priority_max := max (tx_drop_priority_max t) priority\<rparr>) s1))"

definition write_from :: "u8 list \<Rightarrow> 'p shared_mailbox \<Rightarrow> nat \<times> 'p shared_mailbox" where
  "write_from bytes s = write_from_priority bytes DEFAULT_PRIORITY s"

definition enqueue_downlink :: "u8 \<Rightarrow> downlink_message \<Rightarrow> u8 \<Rightarrow> 'p shared_mailbox \<Rightarrow> nat \<times> 'p shared_mailbox" where
  "enqueue_downlink system_id msg priority s =
    (let (sent, m) = push_downlink_message \<lparr>qd_system_id = system_id, qd_msg = msg\<rparr> priority (sh_mailbox s);
       s1 = s\<lparr>sh_mailbox := m\<rparr>
     in if sent then (1, update_stats (\<lambda>t. t\<lparr>downlink_enqueued := downlink_enqueued t + 1,
            downlink_priority_min := priority_min (downlink_priority_min t) priority,
            downlink_priority_max := max (downlink_priority_max t) priority\<rparr>) s1)
        else (0, update_stats (\<lambda>t. t\<lparr>downlink_dropped := downlink_dropped t + 1,
            downlink_drop_priority_min := priority_min (downlink_drop_priority_min t) priority,
            downlink_drop_priority_max := max (downlink_drop_priority_max t) priority\<rparr>) s1))"

definition sh_pop_downlink_message :: "'p shared_mailbox \<Rightarrow> queued_downlink option \<times> 'p shared_mailbox" where
  "sh_pop_downlink_message s =
    (let (msg, m) = pop_downlink_message (sh_mailbox s); s1 = s\<lparr>sh_mailbox := m\<rparr>
     in (msg, if msg \<noteq> None then update_stats (\<lambda>t. t\<lparr>downlink_drained := downlink_drained t + 1\<rparr>) s1 else s1))"

definition push_rx_priority :: "'p pipe_ops \<Rightarrow> u8 list \<Rightarrow> u8 \<Rightarrow> 'p shared_mailbox \<Rightarrow> nat \<times> 'p shared_mailbox" where
  "push_rx_priority P bytes priority s =
    (let (sent, p) = write_all_if_fits P bytes (sh_rx_bytes s); s1 = s\<lparr>sh_rx_bytes := p\<rparr>
     in if sent then (length bytes, update_stats (\<lambda>t. t\<lparr>rx_pushed := rx_pushed t + word_of_nat (length bytes),
            rx_priority_min := priority_min (rx_priority_min t) priority,
            rx_priority_max := max (rx_priority_max t) priority\<rparr>) s1)
        else (0, update_stats (\<lambda>t. t\<lparr>rx_dropped := rx_dropped t + word_of_nat (length bytes)\<rparr>) s1))"

definition push_rx :: "'p pipe_ops \<Rightarrow> u8 list \<Rightarrow> 'p shared_mailbox \<Rightarrow> nat \<times> 'p shared_mailbox" where
  "push_rx P bytes s = push_rx_priority P bytes DEFAULT_PRIORITY s"

definition push_rx_frame_priority :: "u8 list \<Rightarrow> u8 \<Rightarrow> 'p shared_mailbox \<Rightarrow> nat \<times> 'p shared_mailbox" where
  "push_rx_frame_priority bytes priority s =
    (let (sent, m) = push_rx_frame bytes priority (sh_mailbox s); s1 = s\<lparr>sh_mailbox := m\<rparr>
     in if sent then (length bytes, update_stats (\<lambda>t. t\<lparr>rx_frames_pushed := rx_frames_pushed t + 1,
            rx_frame_bytes := rx_frame_bytes t + word_of_nat (length bytes),
            rx_priority_min := priority_min (rx_priority_min t) priority,
            rx_priority_max := max (rx_priority_max t) priority\<rparr>) s1)
        else (0, update_stats (\<lambda>t. t\<lparr>rx_frames_dropped := rx_frames_dropped t + 1,
            rx_drop_priority_min := priority_min (rx_drop_priority_min t) priority,
            rx_drop_priority_max := max (rx_drop_priority_max t) priority\<rparr>) s1))"

definition sh_pop_rx_frame :: "'p shared_mailbox \<Rightarrow> serial_rx_frame option \<times> 'p shared_mailbox" where
  "sh_pop_rx_frame s = (let (f, m) = pop_rx_frame (sh_mailbox s) in (f, s\<lparr>sh_mailbox := m\<rparr>))"

definition has_pending_rx_frame :: "'p shared_mailbox \<Rightarrow> bool" where
  "has_pending_rx_frame s \<longleftrightarrow> fs_len (mb_rx (sh_mailbox s)) \<noteq> 0"

definition drain_tx_into :: "u8 list \<Rightarrow> 'p shared_mailbox \<Rightarrow> nat \<times> u8 list \<times> 'p shared_mailbox" where
  "drain_tx_into out s = (let (n, out1, m) = pop_tx_frame out (sh_mailbox s)
     in (n, out1, update_stats (\<lambda>t. t\<lparr>tx_drained := tx_drained t + word_of_nat n\<rparr>) (s\<lparr>sh_mailbox := m\<rparr>)))"

text \<open>
  Frames are taken into the rest of the buffer until it is full or no frame is taken. Each frame is
  taken in its own critical section; the other core may push between two of them, which is a step
  before or after this one as far as the frames taken up to then go.
\<close>

function drain_tx_loop :: "nat \<Rightarrow> u8 list \<Rightarrow> mavlink_mailbox \<Rightarrow> nat \<times> u8 list \<times> mavlink_mailbox" where
  "drain_tx_loop taken out m =
    (if taken < length out then
       (let (n, rest, m1) = pop_tx_frame (drop taken out) m
        in if n = 0 then (taken, take taken out @ rest, m1)
           else drain_tx_loop (taken + n) (take taken out @ rest) m1)
     else (taken, out, m))"
  by pat_completeness auto
termination
proof (relation "measure (\<lambda>(taken, out, m). fs_len (mb_tx m))")
  fix taken :: nat and out m x n y rest m1
  assume "x = pop_tx_frame (drop taken out) m" "(n, y) = x" "(rest, m1) = y" "n \<noteq> 0"
  then show "((taken + n, take taken out @ rest, m1), (taken, out, m)) \<in> measure (\<lambda>(taken, out, m). fs_len (mb_tx m))"
    by (auto simp: pop_tx_frame_def remove_slot_def Let_def split: if_splits)
qed simp

declare drain_tx_loop.simps [simp del]

definition drain_tx_batch_into :: "u8 list \<Rightarrow> 'p shared_mailbox \<Rightarrow> nat \<times> u8 list \<times> 'p shared_mailbox" where
  "drain_tx_batch_into out s = (let (taken, out1, m) = drain_tx_loop 0 out (sh_mailbox s)
     in (taken, out1, update_stats (\<lambda>t. t\<lparr>tx_drained := tx_drained t + word_of_nat taken\<rparr>) (s\<lparr>sh_mailbox := m\<rparr>)))"

definition record_core1_heartbeat :: "'p shared_mailbox \<Rightarrow> 'p shared_mailbox" where
  "record_core1_heartbeat = update_stats (\<lambda>t. t\<lparr>core1_heartbeats := core1_heartbeats t + 1\<rparr>)"

definition record_uart_tx_batch :: "nat \<Rightarrow> 'p shared_mailbox \<Rightarrow> 'p shared_mailbox" where
  "record_uart_tx_batch n = update_stats (\<lambda>t. t\<lparr>uart_tx_batches := uart_tx_batches t + 1,
     uart_tx_bytes := uart_tx_bytes t + word_of_nat n, uart_tx_max_batch := max (uart_tx_max_batch t) (word_of_nat n)\<rparr>)"

definition record_uart_rx_chunk :: "nat \<Rightarrow> 'p shared_mailbox \<Rightarrow> 'p shared_mailbox" where
  "record_uart_rx_chunk n = update_stats (\<lambda>t. t\<lparr>uart_rx_chunks := uart_rx_chunks t + 1,
     uart_rx_bytes := uart_rx_bytes t + word_of_nat n\<rparr>)"

definition record_uart_tx_error :: "'p shared_mailbox \<Rightarrow> 'p shared_mailbox" where
  "record_uart_tx_error = update_stats (\<lambda>t. t\<lparr>uart_tx_errors := uart_tx_errors t + 1\<rparr>)"

definition record_uart_rx_error :: "'p shared_mailbox \<Rightarrow> 'p shared_mailbox" where
  "record_uart_rx_error = update_stats (\<lambda>t. t\<lparr>uart_rx_errors := uart_rx_errors t + 1\<rparr>)"

definition record_uart_rx_parse_error :: "'p shared_mailbox \<Rightarrow> 'p shared_mailbox" where
  "record_uart_rx_parse_error = update_stats (\<lambda>t. t\<lparr>uart_rx_parse_errors := uart_rx_parse_errors t + 1\<rparr>)"

definition set_comms_state :: "u32 \<Rightarrow> 'p shared_mailbox \<Rightarrow> 'p shared_mailbox" where
  "set_comms_state st s = s\<lparr>sh_comms_state := st\<rparr>"

definition mailbox_stats_now :: "'p shared_mailbox \<Rightarrow> mailbox_stats" where
  "mailbox_stats_now s = (let m = sh_mailbox s
     in (mb_stats m)\<lparr>tx_pending := pending_bytes m, tx_pending_frames := word_of_nat (fs_len (mb_tx m)),
          rx_pending_frames := word_of_nat (fs_len (mb_rx m)),
          downlink_pending := word_of_nat (length (dq_items (downlink_critical m)) + telemetry_pending_count m),
          comms_state := sh_comms_state s\<rparr>)"

definition has_pending_tx :: "'p shared_mailbox \<Rightarrow> bool" where
  "has_pending_tx s \<longleftrightarrow> tx_pending (mailbox_stats_now s) \<noteq> 0 \<or> downlink_pending (mailbox_stats_now s) \<noteq> 0"

end
