(* ===== verification/Rp2350_Mailbox_Safety.thy ===== *)
theory Rp2350_Mailbox_Safety
  imports Rp2350_Mailbox "HOL-Library.Multiset" "HOL-Library.AList"
begin

text \<open>
  What the mailbox between the cores promises: the frame slots are a bounded priority queue, the
  downlink a queue of critical messages in front of the newest telemetry of each stream, and
  what the slots do not keep, the order of frames of one priority.
\<close>

section \<open>A bounded priority queue\<close>

type_synonym frame = "u8 list \<times> u8"

definition pq_push :: "nat \<Rightarrow> nat \<Rightarrow> frame \<Rightarrow> frame multiset \<Rightarrow> bool \<Rightarrow> frame multiset \<Rightarrow> bool" where
  "pq_push room max_bytes x M ok M' \<longleftrightarrow>
    (if max_bytes < length (fst x) then \<not> ok \<and> M' = M
     else if size M < room then ok \<and> M' = add_mset x M
     else if \<exists>y \<in># M. snd y < snd x
       then ok \<and> (\<exists>y \<in># M. (\<forall>z \<in># M. snd y \<le> snd z) \<and> snd y < snd x \<and> M' = add_mset x (M - {#y#}))
     else \<not> ok \<and> M' = M)"

definition pq_pop :: "frame multiset \<Rightarrow> u8 list \<Rightarrow> frame multiset \<Rightarrow> bool" where
  "pq_pop M bytes M' \<longleftrightarrow> (\<exists>p. (bytes, p) \<in># M \<and> (\<forall>z \<in># M. snd z \<le> p) \<and> M' = M - {#(bytes, p)#})"

locale priority_frames =
  fixes wf :: "'s \<Rightarrow> bool"
    and content :: "'s \<Rightarrow> frame multiset"
    and push :: "u8 list \<Rightarrow> u8 \<Rightarrow> 's \<Rightarrow> bool \<times> 's"
    and pop :: "'s \<Rightarrow> u8 list \<times> 's"
    and room :: nat
    and max_bytes :: nat
  assumes push_law: "wf s \<Longrightarrow> pq_push room max_bytes (b, p) (content s) (fst (push b p s)) (content (snd (push b p s)))"
    and push_wf: "wf s \<Longrightarrow> wf (snd (push b p s))"
    and pop_law: "wf s \<Longrightarrow> content s \<noteq> {#} \<Longrightarrow> pq_pop (content s) (fst (pop s)) (content (snd (pop s)))"
    and pop_wf: "wf s \<Longrightarrow> content s \<noteq> {#} \<Longrightarrow> wf (snd (pop s))"
begin

lemma push_keeps:
  assumes "wf s" "y \<in># content s" "p \<le> snd y"
  shows "y \<in># content (snd (push b p s))"
  using push_law [OF assms(1), of b p] assms(2,3)
  by (auto simp: pq_push_def not_less [symmetric] in_diff_count split: if_splits)

lemma pop_takes_highest:
  assumes "wf s" "y \<in># content s" "y \<notin># content (snd (pop s))"
  shows "fst (pop s) = fst y \<and> (\<forall>z \<in># content s. snd z \<le> snd y)"
proof -
  have "content s \<noteq> {#}" using assms(2) by auto
  from pop_law [OF assms(1) this] obtain p where p: "(fst (pop s), p) \<in># content s"
    "\<forall>z \<in># content s. snd z \<le> p" "content (snd (pop s)) = content s - {#(fst (pop s), p)#}"
    by (auto simp: pq_pop_def)
  with assms(2,3) have "y = (fst (pop s), p)" by (auto simp: in_diff_count split: if_splits)
  with p(2) show ?thesis by simp
qed

end

section \<open>The slots\<close>

definition wf_slots :: "nat \<Rightarrow> nat \<Rightarrow> frame_slots \<Rightarrow> bool" where
  "wf_slots room max_bytes s \<longleftrightarrow> length (fs_frames s) = room \<and> length (fs_lens s) = room
     \<and> length (fs_priorities s) = room \<and> fs_len s \<le> room
     \<and> (\<forall>i < room. length (fs_frames s ! i) = max_bytes) \<and> (\<forall>i < fs_len s. unat (fs_lens s ! i) \<le> max_bytes)"

definition slot_frame :: "frame_slots \<Rightarrow> nat \<Rightarrow> frame" where
  "slot_frame s i = (take (unat (fs_lens s ! i)) (fs_frames s ! i), fs_priorities s ! i)"

definition pending_frames :: "frame_slots \<Rightarrow> frame list" where
  "pending_frames s = map (slot_frame s) [0..<fs_len s]"

lemma length_pending [simp]: "length (pending_frames s) = fs_len s"
  by (simp add: pending_frames_def)

lemma nth_pending: "i < fs_len s \<Longrightarrow> pending_frames s ! i = slot_frame s i"
  by (simp add: pending_frames_def)

lemma wf_slots_new: "wf_slots room max_bytes (frame_slots_new room max_bytes)" "fs_len (frame_slots_new room max_bytes) = 0"
  by (simp_all add: wf_slots_def frame_slots_new_def)

text \<open>The scans: the first slot with the largest and the smallest priority.\<close>

lemma scan_slots:
  fixes key :: "nat \<Rightarrow> 'k::linorder"
  shows "fold (\<lambda>i best. if key best < key i then i else best) [1..<Suc n] 0 \<le> n
    \<and> (\<forall>i \<le> n. key i \<le> key (fold (\<lambda>i best. if key best < key i then i else best) [1..<Suc n] 0))"
proof (induction n)
  case 0
  show ?case by simp
next
  case (Suc n)
  let ?b = "fold (\<lambda>i best. if key best < key i then i else best) [1..<Suc n] 0"
  have step: "fold (\<lambda>i best. if key best < key i then i else best) [1..<Suc (Suc n)] 0 = (if key ?b < key (Suc n) then Suc n else ?b)"
    by simp
  show ?case
  proof (cases "key ?b < key (Suc n)")
    case True
    then have "key i \<le> key (Suc n)" if "i \<le> Suc n" for i
      using Suc that by (cases "i = Suc n") (auto simp: le_Suc_eq intro: order.trans)
    then show ?thesis by (simp only: step True if_True) simp
  next
    case False
    then show ?thesis using Suc by (simp only: step if_False le_Suc_eq not_less) auto
  qed
qed

lemma highest_slot_max:
  assumes "fs_len s \<noteq> 0"
  shows "highest_slot s < fs_len s \<and> (\<forall>i < fs_len s. fs_priorities s ! i \<le> fs_priorities s ! highest_slot s)"
proof -
  obtain n where n: "fs_len s = Suc n" using assms by (cases "fs_len s") auto
  show ?thesis using scan_slots [of "\<lambda>i. fs_priorities s ! i" n]
    unfolding highest_slot_def n less_Suc_eq_le .
qed

lemma lowest_slot_min:
  assumes "fs_len s \<noteq> 0"
  shows "lowest_slot s < fs_len s \<and> (\<forall>i < fs_len s. fs_priorities s ! lowest_slot s \<le> fs_priorities s ! i)"
proof -
  obtain n where n: "fs_len s = Suc n" using assms by (cases "fs_len s") auto
  have less: "(- uint a < - uint b) = (b < a)" "(- uint a \<le> - uint b) = (b \<le> a)" for a b :: u8
    by (simp_all add: word_less_def word_le_def)
  show ?thesis using scan_slots [of "\<lambda>i. - uint (fs_priorities s ! i)" n]
    unfolding lowest_slot_def n less_Suc_eq_le less .
qed

text \<open>The three array operations on the list of pending frames.\<close>

lemma take_put: "length bytes \<le> length old \<Longrightarrow> take (length bytes) (bytes @ drop (length bytes) old) = bytes"
  by simp

lemma unat_length: "n \<le> max_bytes \<Longrightarrow> max_bytes < 2 ^ 16 \<Longrightarrow> unat (word_of_nat n :: u16) = n"
  by (simp add: unsigned_of_nat take_bit_nat_eq_self)

lemma pending_put:
  assumes "wf_slots room max_bytes s" "slot < fs_len s" "length bytes \<le> max_bytes" "max_bytes < 2 ^ 16"
  shows "pending_frames (put_frame slot bytes p s) = (pending_frames s)[slot := (bytes, p)]"
    and "wf_slots room max_bytes (put_frame slot bytes p s)" "fs_len (put_frame slot bytes p s) = fs_len s"
proof -
  have n: "unat (word_of_nat (length bytes) :: u16) = length bytes"
    by (rule unat_length [OF assms(3,4)])
  have lens: "length (fs_frames s) = room" "length (fs_lens s) = room" "length (fs_priorities s) = room"
    "fs_len s \<le> room" "slot < room"
    using assms(1,2) by (auto simp: wf_slots_def)
  show len: "fs_len (put_frame slot bytes p s) = fs_len s" by (simp add: put_frame_def)
  show "pending_frames (put_frame slot bytes p s) = (pending_frames s)[slot := (bytes, p)]"
  proof (rule nth_equalityI)
    fix i assume "i < length (pending_frames (put_frame slot bytes p s))"
    then have i: "i < fs_len s" by (simp add: len)
    show "pending_frames (put_frame slot bytes p s) ! i = (pending_frames s)[slot := (bytes, p)] ! i"
      using i lens n by (cases "i = slot") (simp_all add: nth_pending len slot_frame_def put_frame_def)
  qed (simp add: len)
  show "wf_slots room max_bytes (put_frame slot bytes p s)"
    using assms lens n by (auto simp: wf_slots_def put_frame_def nth_list_update)
qed

lemma pending_append:
  assumes "wf_slots room max_bytes s" "fs_len s < room" "length bytes \<le> max_bytes" "max_bytes < 2 ^ 16"
  shows "pending_frames (put_frame (fs_len s) bytes p (s\<lparr>fs_len := fs_len s + 1\<rparr>)) = pending_frames s @ [(bytes, p)]"
    and "wf_slots room max_bytes (put_frame (fs_len s) bytes p (s\<lparr>fs_len := fs_len s + 1\<rparr>))"
proof -
  have n: "unat (word_of_nat (length bytes) :: u16) = length bytes"
    by (rule unat_length [OF assms(3,4)])
  have lens: "length (fs_frames s) = room" "length (fs_lens s) = room" "length (fs_priorities s) = room"
    using assms(1,2) by (auto simp: wf_slots_def)
  let ?s = "put_frame (fs_len s) bytes p (s\<lparr>fs_len := fs_len s + 1\<rparr>)"
  have len: "fs_len (put_frame (fs_len s) bytes p (s\<lparr>fs_len := Suc (fs_len s)\<rparr>)) = Suc (fs_len s)"
    by (simp add: put_frame_def)
  show "pending_frames ?s = pending_frames s @ [(bytes, p)]"
  proof (rule nth_equalityI)
    fix i assume "i < length (pending_frames ?s)"
    then have i: "i < Suc (fs_len s)" by (simp add: len)
    show "pending_frames ?s ! i = (pending_frames s @ [(bytes, p)]) ! i"
      using i lens n assms(2) by (cases "i = fs_len s")
        (simp_all add: nth_pending nth_append len slot_frame_def put_frame_def)
  qed (simp add: len)
  show "wf_slots room max_bytes ?s"
    using assms lens n by (auto simp: wf_slots_def put_frame_def nth_list_update less_Suc_eq)
qed

lemma pending_remove:
  assumes "wf_slots room max_bytes s" "slot < fs_len s"
  shows "pending_frames (remove_slot slot s) = butlast ((pending_frames s)[slot := last (pending_frames s)])"
    and "wf_slots room max_bytes (remove_slot slot s)" "fs_len (remove_slot slot s) = fs_len s - 1"
proof -
  have lens: "length (fs_frames s) = room" "length (fs_lens s) = room" "length (fs_priorities s) = room" "slot < room"
    "fs_len s \<le> room"
    using assms by (auto simp: wf_slots_def)
  show len: "fs_len (remove_slot slot s) = fs_len s - 1" by (simp add: remove_slot_def Let_def)
  have last: "last (pending_frames s) = slot_frame s (fs_len s - 1)"
    using assms(2) by (subst last_conv_nth) (auto simp: nth_pending simp flip: length_0_conv)
  show "pending_frames (remove_slot slot s) = butlast ((pending_frames s)[slot := last (pending_frames s)])"
  proof (rule nth_equalityI)
    fix i assume "i < length (pending_frames (remove_slot slot s))"
    then have i: "i < fs_len s - 1" by (simp add: len)
    then have "i < fs_len s" by simp
    then show "pending_frames (remove_slot slot s) ! i = butlast ((pending_frames s)[slot := last (pending_frames s)]) ! i"
      using i lens assms(2) by (cases "i = slot")
        (simp_all add: nth_pending nth_butlast len last slot_frame_def remove_slot_def Let_def)
  qed (simp add: len)
  show "wf_slots room max_bytes (remove_slot slot s)"
    using assms lens by (auto simp: wf_slots_def remove_slot_def Let_def nth_list_update)
qed

lemma mset_remove:
  assumes "wf_slots room max_bytes s" "slot < fs_len s"
  shows "mset (pending_frames (remove_slot slot s)) = mset (pending_frames s) - {#slot_frame s slot#}"
proof -
  let ?xs = "pending_frames s"
  have ne: "?xs \<noteq> []" using assms(2) by (auto simp flip: length_0_conv)
  have upd: "mset (?xs[slot := last ?xs]) = add_mset (last ?xs) (mset ?xs - {#?xs ! slot#})"
    using assms(2) by (simp add: mset_update)
  have split: "mset (?xs[slot := last ?xs]) = add_mset (last ?xs) (mset (butlast (?xs[slot := last ?xs])))"
  proof -
    have l: "last (?xs[slot := last ?xs]) = last ?xs"
      using ne assms(2) by (cases "slot = fs_len s - 1") (simp_all add: last_conv_nth)
    have "?xs[slot := last ?xs] \<noteq> []" using ne by simp
    then have "mset (?xs[slot := last ?xs]) = mset (butlast (?xs[slot := last ?xs]) @ [last (?xs[slot := last ?xs])])"
      by (metis append_butlast_last_id)
    then show ?thesis by (simp add: l)
  qed
  from upd split show ?thesis
    using assms(2) by (simp add: pending_remove(1) [OF assms] nth_pending)
qed

text \<open>The cases of a push and the pop, on the slots.\<close>

lemma slots_full:
  assumes "wf_slots room max_bytes s" "\<not> fs_len s < room" "0 < room"
  shows "fs_len s = room" "lowest_slot s < fs_len s" "slot_frame s (lowest_slot s) \<in># mset (pending_frames s)"
    "\<And>z. z \<in># mset (pending_frames s) \<Longrightarrow> fs_priorities s ! lowest_slot s \<le> snd z"
proof -
  show len: "fs_len s = room" using assms by (auto simp: wf_slots_def)
  then have min: "lowest_slot s < fs_len s" "\<forall>i < fs_len s. fs_priorities s ! lowest_slot s \<le> fs_priorities s ! i"
    using lowest_slot_min [of s] assms(3) by auto
  then show "lowest_slot s < fs_len s" "slot_frame s (lowest_slot s) \<in># mset (pending_frames s)"
    by (auto simp: pending_frames_def)
  show "\<And>z. z \<in># mset (pending_frames s) \<Longrightarrow> fs_priorities s ! lowest_slot s \<le> snd z"
    using min(2) by (auto simp: pending_frames_def slot_frame_def)
qed

lemma pq_push_put:
  assumes "wf_slots room max_bytes s" "\<not> fs_len s < room" "0 < room" "max_bytes < 2 ^ 16" "length bytes \<le> max_bytes"
    and "fs_priorities s ! lowest_slot s < p"
  shows "pq_push room max_bytes (bytes, p) (mset (pending_frames s)) True
    (mset (pending_frames (put_frame (lowest_slot s) bytes p s)))"
proof -
  note full = slots_full [OF assms(1-3)]
  let ?y = "slot_frame s (lowest_slot s)"
  have "mset (pending_frames (put_frame (lowest_slot s) bytes p s))
      = add_mset (bytes, p) (mset (pending_frames s) - {#?y#})"
    using full(2) by (simp add: pending_put(1) [OF assms(1) full(2) assms(5,4)] mset_update nth_pending)
  moreover have "snd ?y = fs_priorities s ! lowest_slot s" by (simp add: slot_frame_def)
  ultimately have "\<exists>y \<in># mset (pending_frames s). (\<forall>z \<in># mset (pending_frames s). snd y \<le> snd z) \<and> snd y < p
      \<and> mset (pending_frames (put_frame (lowest_slot s) bytes p s)) = add_mset (bytes, p) (mset (pending_frames s) - {#y#})"
    using full(3,4) assms(6) by (intro bexI [of _ ?y]) auto
  moreover from this have "\<exists>y \<in># mset (pending_frames s). snd y < p" by auto
  ultimately show ?thesis using assms(5) full(1) by (simp add: pq_push_def)
qed

lemma pq_push_refused:
  assumes "wf_slots room max_bytes s" "\<not> fs_len s < room" "0 < room" "p \<le> fs_priorities s ! lowest_slot s"
  shows "pq_push room max_bytes (bytes, p) (mset (pending_frames s)) False (mset (pending_frames s))"
proof -
  note full = slots_full [OF assms(1-3)]
  have "\<not> snd z < p" if "z \<in># mset (pending_frames s)" for z
    using full(4) [OF that] assms(4) by auto
  then show ?thesis using full(1) by (auto simp: pq_push_def)
qed

lemma pq_pop_slots:
  assumes "wf_slots room max_bytes s" "fs_len s \<noteq> 0"
  shows "pq_pop (mset (pending_frames s)) (fst (slot_frame s (highest_slot s))) (mset (pending_frames (remove_slot (highest_slot s) s)))"
proof -
  have max: "highest_slot s < fs_len s" "\<forall>i < fs_len s. fs_priorities s ! i \<le> fs_priorities s ! highest_slot s"
    using highest_slot_max [OF assms(2)] by auto
  let ?y = "slot_frame s (highest_slot s)"
  have "?y \<in># mset (pending_frames s)" using max(1) by (auto simp: pending_frames_def)
  moreover have "\<forall>z \<in># mset (pending_frames s). snd z \<le> snd ?y"
    using max(2) by (auto simp: pending_frames_def slot_frame_def)
  ultimately show ?thesis unfolding pq_pop_def mset_remove [OF assms(1) max(1)]
    by (intro exI [of _ "snd ?y"]) simp
qed

section \<open>Both directions are bounded priority queues\<close>

lemmas capacities = MAVLINK_V1_MAX_FRAME_BYTES_def SERIAL_RX_FRAME_MAX_BYTES_def TX_FRAME_CAPACITY_def RX_FRAME_CAPACITY_def
  DOWNLINK_CRITICAL_CAPACITY_def DOWNLINK_TELEMETRY_STREAMS_def

definition tx_wf :: "mavlink_mailbox \<Rightarrow> bool" where
  "tx_wf m = wf_slots TX_FRAME_CAPACITY MAVLINK_V1_MAX_FRAME_BYTES (mb_tx m)"

definition tx_content :: "mavlink_mailbox \<Rightarrow> frame multiset" where
  "tx_content m = mset (pending_frames (mb_tx m))"

definition tx_pop :: "mavlink_mailbox \<Rightarrow> u8 list \<times> mavlink_mailbox" where
  "tx_pop m = (let (n, out, m') = pop_tx_frame (replicate MAVLINK_V1_MAX_FRAME_BYTES 0) m in (take n out, m'))"

definition rx_wf :: "mavlink_mailbox \<Rightarrow> bool" where
  "rx_wf m = wf_slots RX_FRAME_CAPACITY SERIAL_RX_FRAME_MAX_BYTES (mb_rx m)"

definition rx_content :: "mavlink_mailbox \<Rightarrow> frame multiset" where
  "rx_content m = mset (pending_frames (mb_rx m))"

definition rx_pop :: "mavlink_mailbox \<Rightarrow> u8 list \<times> mavlink_mailbox" where
  "rx_pop m = (case pop_rx_frame m of (Some f, m') \<Rightarrow> (take (srf_len f) (srf_data f), m') | (None, m') \<Rightarrow> ([], m'))"

lemma content_empty: "mset (pending_frames s) = {#} \<longleftrightarrow> fs_len s = 0"
  by (metis length_pending size_eq_0_iff_empty size_mset)

lemma slot_length: "wf_slots room max_bytes s \<Longrightarrow> i < fs_len s \<Longrightarrow> unat (fs_lens s ! i) \<le> max_bytes"
  "wf_slots room max_bytes s \<Longrightarrow> i < fs_len s \<Longrightarrow> length (fs_frames s ! i) = max_bytes"
  by (simp_all add: wf_slots_def)

text \<open>What both pushes do to the slots of their direction.\<close>

definition slots_push :: "nat \<Rightarrow> nat \<Rightarrow> u8 list \<Rightarrow> u8 \<Rightarrow> frame_slots \<Rightarrow> bool \<times> frame_slots" where
  "slots_push room max_bytes bytes p s =
    (if max_bytes < length bytes then (False, s)
     else if fs_len s < room then (True, put_frame (fs_len s) bytes p (s\<lparr>fs_len := fs_len s + 1\<rparr>))
     else if p \<le> fs_priorities s ! lowest_slot s then (False, s)
     else (True, put_frame (lowest_slot s) bytes p s))"

lemma slots_push_law:
  assumes wf: "wf_slots room max_bytes s" and caps: "0 < room" "max_bytes < 2 ^ 16"
  shows "pq_push room max_bytes (b, p) (mset (pending_frames s))
      (fst (slots_push room max_bytes b p s)) (mset (pending_frames (snd (slots_push room max_bytes b p s))))
    \<and> wf_slots room max_bytes (snd (slots_push room max_bytes b p s))"
proof -
  consider (long) "max_bytes < length b"
    | (room) "length b \<le> max_bytes" "fs_len s < room"
    | (refused) "length b \<le> max_bytes" "\<not> fs_len s < room" "p \<le> fs_priorities s ! lowest_slot s"
    | (replaced) "length b \<le> max_bytes" "\<not> fs_len s < room" "fs_priorities s ! lowest_slot s < p"
    by (meson not_less)
  then show ?thesis
  proof cases
    case long
    then show ?thesis using wf by (simp add: slots_push_def pq_push_def)
  next
    case room
    then show ?thesis using pending_append [OF wf room(2,1) caps(2), of p]
      by (simp add: slots_push_def pq_push_def)
  next
    case refused
    then show ?thesis using pq_push_refused [OF wf refused(2) caps(1) refused(3), of b] wf
      by (simp add: slots_push_def)
  next
    case replaced
    have "\<not> p \<le> fs_priorities s ! lowest_slot s" using replaced(3) by (simp only: not_le)
    with replaced(1,2) have "slots_push room max_bytes b p s = (True, put_frame (lowest_slot s) b p s)"
      by (simp add: slots_push_def)
    then show ?thesis
      using pq_push_put [OF wf replaced(2) caps replaced(1,3)]
        pending_put(2) [OF wf slots_full(2) [OF wf replaced(2) caps(1)] replaced(1) caps(2), of p]
      by simp
  qed
qed

lemma push_tx_slots: "fst (push_tx_frame b p m) = fst (slots_push TX_FRAME_CAPACITY MAVLINK_V1_MAX_FRAME_BYTES b p (mb_tx m))"
  "mb_tx (snd (push_tx_frame b p m)) = snd (slots_push TX_FRAME_CAPACITY MAVLINK_V1_MAX_FRAME_BYTES b p (mb_tx m))"
  by (simp_all add: push_tx_frame_def slots_push_def Let_def)

lemma push_rx_slots: "fst (push_rx_frame b p m) = fst (slots_push RX_FRAME_CAPACITY SERIAL_RX_FRAME_MAX_BYTES b p (mb_rx m))"
  "mb_rx (snd (push_rx_frame b p m)) = snd (slots_push RX_FRAME_CAPACITY SERIAL_RX_FRAME_MAX_BYTES b p (mb_rx m))"
  by (simp_all add: push_rx_frame_def slots_push_def lowest_rx_priority_slot_def RX_FRAME_CAPACITY_def)

lemma tx_pop_slots:
  assumes "tx_wf m" "fs_len (mb_tx m) \<noteq> 0"
  shows "tx_pop m = (fst (slot_frame (mb_tx m) (highest_slot (mb_tx m))), m\<lparr>mb_tx := remove_slot (highest_slot (mb_tx m)) (mb_tx m)\<rparr>)"
  using slot_length [OF assms(1) [unfolded tx_wf_def] conjunct1 [OF highest_slot_max [OF assms(2)]]] assms(2)
  by (simp add: tx_pop_def pop_tx_frame_def slot_frame_def Let_def min_def)

lemma rx_pop_slots:
  assumes "rx_wf m" "fs_len (mb_rx m) \<noteq> 0"
  shows "rx_pop m = (fst (slot_frame (mb_rx m) (highest_slot (mb_rx m))), m\<lparr>mb_rx := remove_slot (highest_slot (mb_rx m)) (mb_rx m)\<rparr>)"
  using slot_length [OF assms(1) [unfolded rx_wf_def] conjunct1 [OF highest_slot_max [OF assms(2)]]] assms(2)
  by (simp add: rx_pop_def pop_rx_frame_def slot_frame_def Let_def min_def)

interpretation tx: priority_frames tx_wf tx_content push_tx_frame tx_pop TX_FRAME_CAPACITY MAVLINK_V1_MAX_FRAME_BYTES
proof
  fix m b p
  assume wf: "tx_wf m"
  have caps: "0 < TX_FRAME_CAPACITY" "MAVLINK_V1_MAX_FRAME_BYTES < 2 ^ 16" by (simp_all add: capacities)
  note law = slots_push_law [OF wf [unfolded tx_wf_def] caps, of b p]
  show "pq_push TX_FRAME_CAPACITY MAVLINK_V1_MAX_FRAME_BYTES (b, p) (tx_content m) (fst (push_tx_frame b p m))
      (tx_content (snd (push_tx_frame b p m)))"
    using law by (simp add: push_tx_slots tx_content_def)
  show "tx_wf (snd (push_tx_frame b p m))"
    using law by (simp add: push_tx_slots tx_wf_def)
  assume "tx_content m \<noteq> {#}"
  then have len: "fs_len (mb_tx m) \<noteq> 0" by (simp only: tx_content_def content_empty not_False_eq_True)
  show "pq_pop (tx_content m) (fst (tx_pop m)) (tx_content (snd (tx_pop m)))"
    using pq_pop_slots [OF wf [unfolded tx_wf_def] len] by (simp add: tx_pop_slots [OF wf len] tx_content_def)
  show "tx_wf (snd (tx_pop m))"
    using pending_remove(2) [OF wf [unfolded tx_wf_def] conjunct1 [OF highest_slot_max [OF len]]]
    by (simp add: tx_pop_slots [OF wf len] tx_wf_def)
qed

interpretation rx: priority_frames rx_wf rx_content push_rx_frame rx_pop RX_FRAME_CAPACITY SERIAL_RX_FRAME_MAX_BYTES
proof
  fix m b p
  assume wf: "rx_wf m"
  have caps: "0 < RX_FRAME_CAPACITY" "SERIAL_RX_FRAME_MAX_BYTES < 2 ^ 16" by (simp_all add: capacities)
  note law = slots_push_law [OF wf [unfolded rx_wf_def] caps, of b p]
  show "pq_push RX_FRAME_CAPACITY SERIAL_RX_FRAME_MAX_BYTES (b, p) (rx_content m) (fst (push_rx_frame b p m))
      (rx_content (snd (push_rx_frame b p m)))"
    using law by (simp add: push_rx_slots rx_content_def)
  show "rx_wf (snd (push_rx_frame b p m))"
    using law by (simp add: push_rx_slots rx_wf_def)
  assume "rx_content m \<noteq> {#}"
  then have len: "fs_len (mb_rx m) \<noteq> 0" by (simp only: rx_content_def content_empty not_False_eq_True)
  show "pq_pop (rx_content m) (fst (rx_pop m)) (rx_content (snd (rx_pop m)))"
    using pq_pop_slots [OF wf [unfolded rx_wf_def] len] by (simp add: rx_pop_slots [OF wf len] rx_content_def)
  show "rx_wf (snd (rx_pop m))"
    using pending_remove(2) [OF wf [unfolded rx_wf_def] conjunct1 [OF highest_slot_max [OF len]]]
    by (simp add: rx_pop_slots [OF wf len] rx_wf_def)
qed

section \<open>Claims on the frames\<close>

lemma tx_new: "tx_wf mavlink_mailbox_new" "tx_content mavlink_mailbox_new = {#}"
  by (simp_all add: tx_wf_def tx_content_def mavlink_mailbox_new_def wf_slots_new pending_frames_def)

lemma rx_new: "rx_wf mavlink_mailbox_new" "rx_content mavlink_mailbox_new = {#}"
  by (simp_all add: rx_wf_def rx_content_def mavlink_mailbox_new_def wf_slots_new pending_frames_def)

lemma push_new_tx:
  assumes "length b \<le> 263"
  shows "tx_wf (snd (push_tx_frame b p mavlink_mailbox_new))" "tx_content (snd (push_tx_frame b p mavlink_mailbox_new)) = {#(b, p)#}"
  using tx.push_wf [OF tx_new(1), of b p] tx.push_law [OF tx_new(1), of b p] assms
  by (simp_all add: tx_new(2) pq_push_def capacities)

text \<open>
  C14. The frames to the radio link are a priority queue of 64: a mailbox with sound slots takes a
  frame of at most 263 bytes while there is room, and then only in the place of a frame of the
  smallest priority if that is smaller than its own; every other frame stays. The second core gets
  a pending frame of the largest priority, and only that one leaves. The slots stay sound.
\<close>

theorem outgoing_frames_are_priority_queue:
  assumes "tx_wf m"
  shows "pq_push 64 263 (b, p) (tx_content m) (fst (push_tx_frame b p m)) (tx_content (snd (push_tx_frame b p m)))
    \<and> tx_wf (snd (push_tx_frame b p m))
    \<and> (tx_content m \<noteq> {#} \<longrightarrow> pq_pop (tx_content m) (fst (tx_pop m)) (tx_content (snd (tx_pop m))) \<and> tx_wf (snd (tx_pop m)))"
  using tx.push_law [OF assms, of b p] tx.push_wf [OF assms, of b p] tx.pop_law [OF assms] tx.pop_wf [OF assms]
  by (simp add: TX_FRAME_CAPACITY_def MAVLINK_V1_MAX_FRAME_BYTES_def)

theorem outgoing_frames_are_priority_queue_witness:
  "pq_push 64 263 ([1, 2], 32) {#([7], 128)#} True {#([7], 128), ([1, 2], 32)#}
    \<and> fst (push_tx_frame [1, 2] 32 (snd (push_tx_frame [7] 128 mavlink_mailbox_new)))
    \<and> pq_pop {#([7], 128)#} (fst (tx_pop (snd (push_tx_frame [7] 128 mavlink_mailbox_new)))) {#}"
proof -
  have m: "tx_wf (snd (push_tx_frame [7] 128 mavlink_mailbox_new))"
    "tx_content (snd (push_tx_frame [7] 128 mavlink_mailbox_new)) = {#([7], 128)#}"
    by (rule push_new_tx, simp)+
  note q = outgoing_frames_are_priority_queue [OF m(1), of "[1, 2]" 32, unfolded m(2)]
  from q have push: "fst (push_tx_frame [1, 2] 32 (snd (push_tx_frame [7] 128 mavlink_mailbox_new)))"
    by (simp add: pq_push_def)
  from q have pop: "pq_pop {#([7], 128)#} (fst (tx_pop (snd (push_tx_frame [7] 128 mavlink_mailbox_new))))
      (tx_content (snd (tx_pop (snd (push_tx_frame [7] 128 mavlink_mailbox_new)))))"
    by simp
  then have "pq_pop {#([7], 128)#} (fst (tx_pop (snd (push_tx_frame [7] 128 mavlink_mailbox_new)))) {#}"
    by (auto simp: pq_pop_def)
  with push show ?thesis by (simp add: pq_push_def)
qed

text \<open>
  A frame from the ground that waits in the mailbox is never pushed out by one of the same or
  a smaller priority, and leaves only as the frame the first core takes, of the largest priority
  of those waiting.
\<close>

theorem waiting_frames_are_not_lost:
  assumes "rx_wf m" "y \<in># rx_content m"
  shows "(p \<le> snd y \<longrightarrow> y \<in># rx_content (snd (push_rx_frame b p m)))
    \<and> (y \<notin># rx_content (snd (rx_pop m)) \<longrightarrow> fst (rx_pop m) = fst y \<and> (\<forall>z \<in># rx_content m. snd z \<le> snd y))"
  using rx.push_keeps [OF assms, of p b] rx.pop_takes_highest [OF assms] by blast

lemma push_new_rx:
  assumes "length b \<le> 280"
  shows "rx_wf (snd (push_rx_frame b p mavlink_mailbox_new))" "rx_content (snd (push_rx_frame b p mavlink_mailbox_new)) = {#(b, p)#}"
  using rx.push_wf [OF rx_new(1), of b p] rx.push_law [OF rx_new(1), of b p] assms
  by (simp_all add: rx_new(2) pq_push_def capacities)

theorem waiting_frames_are_not_lost_witness:
  "([9], 128) \<in># rx_content (snd (push_rx_frame [5] 128 (snd (push_rx_frame [9] 128 mavlink_mailbox_new))))"
proof -
  have m: "rx_wf (snd (push_rx_frame [9] 128 mavlink_mailbox_new))"
    "rx_content (snd (push_rx_frame [9] 128 mavlink_mailbox_new)) = {#([9], 128)#}"
    by (rule push_new_rx, simp)+
  show ?thesis using waiting_frames_are_not_lost [OF m(1), of "([9], 128)" 128 "[5]"] by (simp add: m(2))
qed

text \<open>The lists behind the queues, to follow the order.\<close>

lemma rx_push_list:
  assumes "rx_wf m" "fs_len (mb_rx m) < RX_FRAME_CAPACITY" "length b \<le> SERIAL_RX_FRAME_MAX_BYTES"
  shows "rx_wf (snd (push_rx_frame b p m))"
    "pending_frames (mb_rx (snd (push_rx_frame b p m))) = pending_frames (mb_rx m) @ [(b, p)]"
  using pending_append [OF assms(1) [unfolded rx_wf_def] assms(2,3), of p] assms(2,3)
  by (simp_all add: push_rx_slots rx_wf_def slots_push_def SERIAL_RX_FRAME_MAX_BYTES_def)

lemma highest_slot_list:
  "highest_slot s = fold (\<lambda>i best. if snd (pending_frames s ! best) < snd (pending_frames s ! i) then i else best)
     [1..<length (pending_frames s)] 0"
proof -
  have "fold (\<lambda>i best. if snd (pending_frames s ! best) < snd (pending_frames s ! i) then i else best) [1..<n] 0
      = fold (\<lambda>i best. if fs_priorities s ! best < fs_priorities s ! i then i else best) [1..<n] 0
      \<and> (0 < n \<longrightarrow> fold (\<lambda>i best. if fs_priorities s ! best < fs_priorities s ! i then i else best) [1..<n] 0 < n)"
    if "n \<le> fs_len s" for n
    using that
  proof (induction n)
    case (Suc n)
    then show ?case by (cases n) (auto simp: nth_pending slot_frame_def)
  qed simp
  from conjunct1 [OF this [OF order.refl]] show ?thesis by (simp add: highest_slot_def)
qed

lemma rx_pop_list:
  assumes "rx_wf m" "fs_len (mb_rx m) \<noteq> 0" "xs = pending_frames (mb_rx m)" "k = highest_slot (mb_rx m)"
  shows "fst (rx_pop m) = fst (xs ! k)" "rx_wf (snd (rx_pop m))"
    "pending_frames (mb_rx (snd (rx_pop m))) = butlast (xs[k := List.last xs])"
  using pending_remove(1,2) [OF assms(1) [unfolded rx_wf_def] conjunct1 [OF highest_slot_max [OF assms(2)]]]
    conjunct1 [OF highest_slot_max [OF assms(2)]]
  by (simp_all add: rx_pop_slots [OF assms(1,2)] nth_pending rx_wf_def assms(3,4))

lemma pop_first:
  assumes "rx_wf m" "pending_frames (mb_rx m) = (b, p) # xs" "\<forall>x \<in> set xs. snd x = p"
  shows "fst (rx_pop m) = b" "rx_wf (snd (rx_pop m))"
    "pending_frames (mb_rx (snd (rx_pop m))) = (if xs = [] then [] else List.last xs # butlast xs)"
proof -
  have len: "fs_len (mb_rx m) = Suc (length xs)" using assms(2) by (metis length_Cons length_pending)
  have same: "snd (((b, p) # xs) ! i) = p" if "i < Suc (length xs)" for i
    using that assms(3) by (cases i) auto
  have "fold (\<lambda>i best. if snd (((b, p) # xs) ! best) < snd (((b, p) # xs) ! i) then i else best) [1..<n] 0 = 0"
    if "n \<le> Suc (length xs)" for n
    using that
  proof (induction n)
    case (Suc n)
    have "\<not> snd (((b, p) # xs) ! 0) < snd (((b, p) # xs) ! n)"
      using Suc.prems by (simp only: same)
    with Suc show ?case by (cases n) simp_all
  qed simp
  from this [of "Suc (length xs)"] have k: "highest_slot (mb_rx m) = 0"
    by (simp add: highest_slot_list assms(2))
  note pop = rx_pop_list [OF assms(1) _ assms(2) [symmetric] k [symmetric], unfolded len]
  show "fst (rx_pop m) = b" "rx_wf (snd (rx_pop m))"
    "pending_frames (mb_rx (snd (rx_pop m))) = (if xs = [] then [] else List.last xs # butlast xs)"
    using pop by simp_all
qed

text \<open>
  Frames of one priority overtake each other: of three frames from the ground that enter an
  empty mailbox with the same priority, the first core takes the first, then the third, then the
  second, because the last frame moves into the slot that a pop frees. Of three settings of one parameter
  that wait together, the second is the last to be carried out.
\<close>

theorem incoming_frames_overtake:
  assumes "rx_wf m" "\<not> has_pending_rx_frame \<lparr>sh_mailbox = m, sh_rx_bytes = (), sh_comms_state = 0\<rparr>"
    and "length a \<le> 280" "length b \<le> 280" "length c \<le> 280"
  shows "let m3 = snd (push_rx_frame c p (snd (push_rx_frame b p (snd (push_rx_frame a p m)))))
    in fst (rx_pop m3) = a \<and> fst (rx_pop (snd (rx_pop m3))) = c \<and> fst (rx_pop (snd (rx_pop (snd (rx_pop m3))))) = b"
proof -
  have len: "fs_len (mb_rx m) = length (pending_frames (mb_rx m))" for m by simp
  have empty: "pending_frames (mb_rx m) = []" using assms(2) by (simp add: has_pending_rx_frame_def pending_frames_def)
  note caps = RX_FRAME_CAPACITY_def SERIAL_RX_FRAME_MAX_BYTES_def
  define m1 where "m1 = snd (push_rx_frame a p m)"
  have m1: "rx_wf m1" "pending_frames (mb_rx m1) = [(a, p)]"
    unfolding m1_def using rx_push_list [OF assms(1), of a p] assms(3) empty by (simp_all add: caps len del: length_pending)
  define m2 where "m2 = snd (push_rx_frame b p m1)"
  have m2: "rx_wf m2" "pending_frames (mb_rx m2) = [(a, p), (b, p)]"
    unfolding m2_def using rx_push_list [OF m1(1), of b p] assms(4) m1(2) by (simp_all add: caps len del: length_pending)
  define m3 where "m3 = snd (push_rx_frame c p m2)"
  have m3: "rx_wf m3" "pending_frames (mb_rx m3) = [(a, p), (b, p), (c, p)]"
    unfolding m3_def using rx_push_list [OF m2(1), of c p] assms(5) m2(2) by (simp_all add: caps len del: length_pending)
  note p1 = pop_first [OF m3, simplified]
  note p2 = pop_first [OF p1(2,3), simplified]
  note p3 = pop_first [OF p2(2,3), simplified]
  show ?thesis using p1(1) p2(1) p3(1) by (simp add: Let_def m3_def m2_def m1_def)
qed

theorem incoming_frames_overtake_witness:
  "let m3 = snd (push_rx_frame [3] 128 (snd (push_rx_frame [2] 128 (snd (push_rx_frame [1] 128 mavlink_mailbox_new)))))
    in fst (rx_pop m3) = [1] \<and> fst (rx_pop (snd (rx_pop m3))) = [3] \<and> fst (rx_pop (snd (rx_pop (snd (rx_pop m3))))) = [2]"
  by (rule incoming_frames_overtake [OF rx_new(1)])
    (simp_all add: has_pending_rx_frame_def mavlink_mailbox_new_def frame_slots_new_def)

section \<open>The downlink\<close>

type_synonym downlink_spec = "queued_downlink list \<times> (nat \<times> queued_downlink) list"

definition dl_push :: "queued_downlink \<Rightarrow> u8 \<Rightarrow> downlink_spec \<Rightarrow> bool \<times> downlink_spec" where
  "dl_push msg priority d = (case (if priority < 128 then downlink_telemetry_stream (qd_msg msg) else None) of
     Some stream \<Rightarrow> (True, fst d, AList.update stream msg (snd d))
   | None \<Rightarrow> if length (fst d) < 64 then (True, fst d @ [msg], snd d) else (False, d))"

fun dl_pop :: "downlink_spec \<Rightarrow> queued_downlink option \<times> downlink_spec" where
  "dl_pop (x # critical, telemetry) = (Some x, critical, telemetry)"
| "dl_pop ([], (stream, x) # telemetry) = (Some x, [], telemetry)"
| "dl_pop ([], []) = (None, [], [])"

definition dl_abs :: "mavlink_mailbox \<Rightarrow> downlink_spec" where
  "dl_abs m = (dq_items (downlink_critical m),
     map (\<lambda>i. (i, the (downlink_telemetry m ! i))) (dq_items (downlink_telemetry_ready m)))"

definition wf_downlink :: "mavlink_mailbox \<Rightarrow> bool" where
  "wf_downlink m \<longleftrightarrow> dq_cap (downlink_critical m) = DOWNLINK_CRITICAL_CAPACITY
     \<and> length (dq_items (downlink_critical m)) \<le> DOWNLINK_CRITICAL_CAPACITY
     \<and> length (downlink_telemetry m) = DOWNLINK_TELEMETRY_STREAMS
     \<and> dq_cap (downlink_telemetry_ready m) = DOWNLINK_TELEMETRY_STREAMS
     \<and> distinct (dq_items (downlink_telemetry_ready m))
     \<and> (\<forall>i. i \<in> set (dq_items (downlink_telemetry_ready m)) \<longleftrightarrow> i < DOWNLINK_TELEMETRY_STREAMS \<and> downlink_telemetry m ! i \<noteq> None)"

lemma stream_bound: "downlink_telemetry_stream msg = Some i \<Longrightarrow> i < DOWNLINK_TELEMETRY_STREAMS"
  by (cases msg) (auto simp: DOWNLINK_TELEMETRY_STREAMS_def)

lemma ready_iff:
  "wf_downlink m \<Longrightarrow> i \<in> set (dq_items (downlink_telemetry_ready m)) \<longleftrightarrow> i < DOWNLINK_TELEMETRY_STREAMS \<and> downlink_telemetry m ! i \<noteq> None"
  unfolding wf_downlink_def by blast

lemma wf_downlink_new: "wf_downlink mavlink_mailbox_new"
  by (auto simp: wf_downlink_def mavlink_mailbox_new_def deque_new_def)

lemma ready_room:
  assumes "wf_downlink m" "i < DOWNLINK_TELEMETRY_STREAMS" "i \<notin> set (dq_items (downlink_telemetry_ready m))"
  shows "length (dq_items (downlink_telemetry_ready m)) < DOWNLINK_TELEMETRY_STREAMS"
proof -
  let ?r = "dq_items (downlink_telemetry_ready m)"
  have "set ?r \<subseteq> {..<DOWNLINK_TELEMETRY_STREAMS} - {i}" using assms(3) ready_iff [OF assms(1)] by blast
  then have "card (set ?r) \<le> card ({..<DOWNLINK_TELEMETRY_STREAMS} - {i})" by (intro card_mono) simp_all
  then have "card (set ?r) \<le> DOWNLINK_TELEMETRY_STREAMS - 1" using assms(2) by simp
  moreover have "card (set ?r) = length ?r" using assms(1) by (simp add: wf_downlink_def distinct_card)
  ultimately show ?thesis using assms(2) by simp
qed

lemma update_in_place:
  "distinct ks \<Longrightarrow> k \<in> set ks \<Longrightarrow> AList.update k v (map (\<lambda>i. (i, f i)) ks) = map (\<lambda>i. (i, if i = k then v else f i)) ks"
  by (induction ks) auto

lemma update_appends: "k \<notin> set ks \<Longrightarrow> AList.update k v (map (\<lambda>i. (i, f i)) ks) = map (\<lambda>i. (i, f i)) ks @ [(k, v)]"
  by (induction ks) auto

lemma push_critical_refines:
  assumes "wf_downlink m"
  shows "(case push_critical msg m of (ok, m') \<Rightarrow>
      (ok, dl_abs m') = (if length (fst (dl_abs m)) < 64 then (True, fst (dl_abs m) @ [msg], snd (dl_abs m)) else (False, dl_abs m))
      \<and> wf_downlink m')"
  using assms by (simp add: push_critical_def deque_push_back_def dl_abs_def wf_downlink_def DOWNLINK_CRITICAL_CAPACITY_def)

lemma push_stream_refines:
  assumes "wf_downlink m" "downlink_telemetry_stream (qd_msg msg) = Some i" "priority < 128"
  shows "(case push_downlink_message msg priority m of (ok, m') \<Rightarrow>
      (ok, dl_abs m') = (True, fst (dl_abs m), AList.update i msg (snd (dl_abs m))) \<and> wf_downlink m')"
proof -
  have i: "i < DOWNLINK_TELEMETRY_STREAMS" by (rule stream_bound [OF assms(2)])
  have p: "\<not> DEFAULT_PRIORITY \<le> priority" using assms(3) by (simp add: DEFAULT_PRIORITY_def not_le)
  have len: "length (downlink_telemetry m) = DOWNLINK_TELEMETRY_STREAMS" using assms(1) by (simp add: wf_downlink_def)
  have dist: "distinct (dq_items (downlink_telemetry_ready m))" using assms(1) by (simp add: wf_downlink_def)
  show ?thesis
  proof (cases "i \<in> set (dq_items (downlink_telemetry_ready m))")
    case True
    then have "downlink_telemetry m ! i \<noteq> None" using assms(1) by (simp add: wf_downlink_def)
    then show ?thesis using assms(1) i len True
      by (auto simp: push_downlink_message_def p assms(2) dl_abs_def update_in_place [OF dist True] nth_list_update wf_downlink_def)
  next
    case False
    then have "downlink_telemetry m ! i = None" using assms(1) i by (simp add: wf_downlink_def)
    then show ?thesis using assms(1) i len False ready_room [OF assms(1) i False]
      by (auto simp: push_downlink_message_def p assms(2) dl_abs_def update_appends [OF False] nth_list_update wf_downlink_def
          deque_push_back_def)
  qed
qed

lemma push_downlink_refines:
  assumes "wf_downlink m"
  shows "(case push_downlink_message msg priority m of (ok, m') \<Rightarrow>
      (ok, dl_abs m') = dl_push msg priority (dl_abs m) \<and> wf_downlink m')"
proof (cases "priority < 128 \<and> downlink_telemetry_stream (qd_msg msg) \<noteq> None")
  case True
  then obtain i where "priority < 128" "downlink_telemetry_stream (qd_msg msg) = Some i" by auto
  then show ?thesis using push_stream_refines [OF assms, of msg i priority] by (simp add: dl_push_def)
next
  case False
  then have "push_downlink_message msg priority m = push_critical msg m"
    "(if priority < 128 then downlink_telemetry_stream (qd_msg msg) else None) = None"
    by (auto simp: push_downlink_message_def DEFAULT_PRIORITY_def not_le)
  then show ?thesis using push_critical_refines [OF assms, of msg] by (simp add: dl_push_def)
qed

lemma pop_downlink_refines:
  assumes "wf_downlink m"
  shows "(case pop_downlink_message m of (r, m') \<Rightarrow> (r, dl_abs m') = dl_pop (dl_abs m) \<and> wf_downlink m')"
proof (cases "dq_items (downlink_critical m)")
  case (Cons x xs)
  then show ?thesis using assms by (simp add: pop_downlink_message_def deque_pop_front_def dl_abs_def wf_downlink_def)
next
  case Nil
  show ?thesis
  proof (cases "dq_items (downlink_telemetry_ready m)")
    case Nil': Nil
    then show ?thesis using assms Nil
      by (simp add: pop_downlink_message_def deque_pop_front_def pop_telemetry.simps dl_abs_def wf_downlink_def)
  next
    case (Cons i js)
    have i: "i < DOWNLINK_TELEMETRY_STREAMS" "downlink_telemetry m ! i \<noteq> None" "i \<notin> set js" "distinct js"
      using ready_iff [OF assms, of i] assms Cons by (simp_all add: wf_downlink_def)
    from i(2) obtain msg where msg: "downlink_telemetry m ! i = Some msg" by auto
    let ?m = "m\<lparr>downlink_telemetry_ready := (downlink_telemetry_ready m)\<lparr>dq_items := js\<rparr>,
      downlink_telemetry := (downlink_telemetry m)[i := None]\<rparr>"
    have pop: "pop_downlink_message m = (Some msg, ?m)"
      using Nil Cons msg by (simp add: pop_downlink_message_def deque_pop_front_def pop_telemetry.simps)
    have "j \<in> set js \<longleftrightarrow> j < DOWNLINK_TELEMETRY_STREAMS \<and> downlink_telemetry ?m ! j \<noteq> None" for j
      using ready_iff [OF assms, of j] Cons i assms by (cases "j = i") (simp_all add: wf_downlink_def)
    then have "wf_downlink ?m" using assms i(4) by (simp add: wf_downlink_def)
    moreover have "(Some msg, dl_abs ?m) = dl_pop (dl_abs m)"
      using Nil Cons msg i(3) by (auto simp: dl_abs_def intro!: map_cong) (metis nth_list_update_neq)
    ultimately show ?thesis by (simp add: pop)
  qed
qed

text \<open>
  C20. The downlink of the mailbox refines a queue of at most 64 critical messages in front of a
  list that holds the newest message of each telemetry stream, in the order in which the streams
  became pending: a message of a telemetry stream below the default priority takes the place of the
  pending one or goes to the end and is never refused; any other waits in the critical queue.
\<close>

theorem downlink_keeps_newest_telemetry:
  assumes "wf_downlink m"
  shows "(case push_downlink_message msg priority m of (ok, m') \<Rightarrow>
        (ok, dl_abs m') = dl_push msg priority (dl_abs m) \<and> wf_downlink m')
    \<and> (case pop_downlink_message m of (r, m') \<Rightarrow> (r, dl_abs m') = dl_pop (dl_abs m) \<and> wf_downlink m')"
  by (rule conjI [OF push_downlink_refines [OF assms] pop_downlink_refines [OF assms]])

theorem downlink_keeps_newest_telemetry_witness:
  "\<forall>r. case push_downlink_message \<lparr>qd_system_id = 1, qd_msg = DlRange r\<rparr> 32 mavlink_mailbox_new of (ok, m') \<Rightarrow>
      (ok, dl_abs m') = (True, [], [(7, \<lparr>qd_system_id = 1, qd_msg = DlRange r\<rparr>)]) \<and> wf_downlink m'"
proof
  fix r
  have "dl_abs mavlink_mailbox_new = ([], [])" by (simp add: dl_abs_def mavlink_mailbox_new_def deque_new_def)
  then show "case push_downlink_message \<lparr>qd_system_id = 1, qd_msg = DlRange r\<rparr> 32 mavlink_mailbox_new of (ok, m') \<Rightarrow>
      (ok, dl_abs m') = (True, [], [(7, \<lparr>qd_system_id = 1, qd_msg = DlRange r\<rparr>)]) \<and> wf_downlink m'"
    using downlink_keeps_newest_telemetry [OF wf_downlink_new, of "\<lparr>qd_system_id = 1, qd_msg = DlRange r\<rparr>" 32]
    by (simp add: dl_push_def)
qed

section \<open>Every mailbox the two cores can reach\<close>

text \<open>Each call of either core is one step; the arguments are whatever the caller passes.\<close>

inductive mailbox_step :: "'p pipe_ops \<Rightarrow> 'p shared_mailbox \<Rightarrow> 'p shared_mailbox \<Rightarrow> bool" for P :: "'p pipe_ops" where
  read: "read_into P out s = (n, out', s') \<Longrightarrow> mailbox_step P s s'"
| write_frame: "write_from_priority bytes priority s = (n, s') \<Longrightarrow> mailbox_step P s s'"
| enqueue: "enqueue_downlink system_id msg priority s = (n, s') \<Longrightarrow> mailbox_step P s s'"
| pop_downlink: "sh_pop_downlink_message s = (r, s') \<Longrightarrow> mailbox_step P s s'"
| push_bytes: "push_rx_priority P bytes priority s = (n, s') \<Longrightarrow> mailbox_step P s s'"
| push_frame: "push_rx_frame_priority bytes priority s = (n, s') \<Longrightarrow> mailbox_step P s s'"
| pop_frame: "sh_pop_rx_frame s = (f, s') \<Longrightarrow> mailbox_step P s s'"
| drain: "drain_tx_into out s = (n, out', s') \<Longrightarrow> mailbox_step P s s'"
| drain_batch: "drain_tx_batch_into out s = (n, out', s') \<Longrightarrow> mailbox_step P s s'"
| heartbeat: "mailbox_step P s (record_core1_heartbeat s)"
| tx_batch: "mailbox_step P s (record_uart_tx_batch n s)"
| rx_chunk: "mailbox_step P s (record_uart_rx_chunk n s)"
| tx_error: "mailbox_step P s (record_uart_tx_error s)"
| rx_error: "mailbox_step P s (record_uart_rx_error s)"
| rx_parse_error: "mailbox_step P s (record_uart_rx_parse_error s)"
| comms: "mailbox_step P s (set_comms_state st s)"

inductive mailbox_reachable :: "'p pipe_ops \<Rightarrow> 'p shared_mailbox \<Rightarrow> bool" for P :: "'p pipe_ops" where
  start: "sh_mailbox s = mavlink_mailbox_new \<Longrightarrow> mailbox_reachable P s"
| step: "mailbox_reachable P s \<Longrightarrow> mailbox_step P s s' \<Longrightarrow> mailbox_reachable P s'"

definition mailbox_ok :: "mavlink_mailbox \<Rightarrow> bool" where
  "mailbox_ok m \<longleftrightarrow> tx_wf m \<and> rx_wf m \<and> wf_downlink m"

lemma ok_frame:
  "mb_tx m' = mb_tx m \<Longrightarrow> mb_rx m' = mb_rx m \<Longrightarrow> downlink_critical m' = downlink_critical m
    \<Longrightarrow> downlink_telemetry m' = downlink_telemetry m \<Longrightarrow> downlink_telemetry_ready m' = downlink_telemetry_ready m
    \<Longrightarrow> mailbox_ok m' = mailbox_ok m"
  by (simp add: mailbox_ok_def tx_wf_def rx_wf_def wf_downlink_def)

lemma ok_update_stats [simp]: "mailbox_ok (sh_mailbox (update_stats f s)) = mailbox_ok (sh_mailbox s)"
  unfolding update_stats_def by (rule ok_frame) simp_all

lemma ok_frames_only:
  "downlink_critical m' = downlink_critical m \<Longrightarrow> downlink_telemetry m' = downlink_telemetry m
    \<Longrightarrow> downlink_telemetry_ready m' = downlink_telemetry_ready m \<Longrightarrow> wf_downlink m' = wf_downlink m"
  by (simp add: wf_downlink_def)

lemma push_tx_ok: "mailbox_ok m \<Longrightarrow> mailbox_ok (snd (push_tx_frame b p m))"
  using tx.push_wf [of m b p] ok_frames_only [of "snd (push_tx_frame b p m)" m]
  by (simp add: mailbox_ok_def rx_wf_def) (simp add: push_tx_frame_def Let_def)

lemma push_rx_ok: "mailbox_ok m \<Longrightarrow> mailbox_ok (snd (push_rx_frame b p m))"
  using rx.push_wf [of m b p] ok_frames_only [of "snd (push_rx_frame b p m)" m]
  by (simp add: mailbox_ok_def tx_wf_def) (simp add: push_rx_frame_def split: option.splits)

lemma pop_tx_ok:
  assumes "mailbox_ok m"
  shows "mailbox_ok (snd (snd (pop_tx_frame out m)))"
proof (cases "fs_len (mb_tx m) = 0")
  case True
  then show ?thesis using assms by (simp add: pop_tx_frame_def)
next
  case False
  have "wf_slots TX_FRAME_CAPACITY MAVLINK_V1_MAX_FRAME_BYTES (mb_tx m)" using assms by (simp add: mailbox_ok_def tx_wf_def)
  from pending_remove(2) [OF this conjunct1 [OF highest_slot_max [OF False]]] show ?thesis
    using assms by (simp add: pop_tx_frame_def Let_def mailbox_ok_def tx_wf_def rx_wf_def wf_downlink_def)
qed

lemma pop_rx_ok:
  assumes "mailbox_ok m"
  shows "mailbox_ok (snd (pop_rx_frame m))"
proof (cases "fs_len (mb_rx m) = 0")
  case True
  then show ?thesis using assms by (simp add: pop_rx_frame_def)
next
  case False
  have "wf_slots RX_FRAME_CAPACITY SERIAL_RX_FRAME_MAX_BYTES (mb_rx m)" using assms by (simp add: mailbox_ok_def rx_wf_def)
  from pending_remove(2) [OF this conjunct1 [OF highest_slot_max [OF False]]] show ?thesis
    using assms by (simp add: pop_rx_frame_def Let_def mailbox_ok_def tx_wf_def rx_wf_def wf_downlink_def)
qed

lemma drain_ok: "mailbox_ok m \<Longrightarrow> mailbox_ok (snd (snd (drain_tx_loop taken out m)))"
proof (induction taken out m rule: drain_tx_loop.induct)
  case (1 taken out m)
  obtain n rest m1 where p: "pop_tx_frame (drop taken out) m = (n, rest, m1)" by (metis prod_cases3)
  have "mailbox_ok m1" using pop_tx_ok [OF "1.prems", of "drop taken out"] by (simp add: p)
  then show ?case
    using "1.IH" [OF _ p [symmetric] refl] "1.prems" by (subst drain_tx_loop.simps) (simp add: p)
qed

lemma pop_telemetry_frames: "mb_tx (snd (pop_telemetry m)) = mb_tx m" "mb_rx (snd (pop_telemetry m)) = mb_rx m"
  by (induction m rule: pop_telemetry.induct; subst pop_telemetry.simps; simp split: prod.splits option.splits)+

lemma downlink_frames:
  "mb_tx (snd (push_downlink_message msg p m)) = mb_tx m" "mb_rx (snd (push_downlink_message msg p m)) = mb_rx m"
  "mb_tx (snd (pop_downlink_message m)) = mb_tx m" "mb_rx (snd (pop_downlink_message m)) = mb_rx m"
  by (auto simp: push_downlink_message_def push_critical_def pop_downlink_message_def pop_telemetry_frames Let_def
      split: prod.splits option.splits)

lemma push_downlink_ok: "mailbox_ok m \<Longrightarrow> mailbox_ok (snd (push_downlink_message msg p m))"
  using push_downlink_refines [of m msg p] by (auto simp: mailbox_ok_def tx_wf_def rx_wf_def downlink_frames split: prod.splits)

lemma pop_downlink_ok: "mailbox_ok m \<Longrightarrow> mailbox_ok (snd (pop_downlink_message m))"
  using pop_downlink_refines [of m] by (auto simp: mailbox_ok_def tx_wf_def rx_wf_def downlink_frames split: prod.splits)

lemmas mailbox_op_defs = read_into_def write_from_priority_def enqueue_downlink_def sh_pop_downlink_message_def
  push_rx_priority_def push_rx_frame_priority_def sh_pop_rx_frame_def drain_tx_into_def drain_tx_batch_into_def
  record_core1_heartbeat_def record_uart_tx_batch_def record_uart_rx_chunk_def record_uart_tx_error_def
  record_uart_rx_error_def record_uart_rx_parse_error_def set_comms_state_def

lemma step_ok:
  assumes "mailbox_step P s s'" "mailbox_ok (sh_mailbox s)"
  shows "mailbox_ok (sh_mailbox s')"
proof -
  note ok = push_tx_ok push_rx_ok pop_tx_ok pop_rx_ok drain_ok push_downlink_ok pop_downlink_ok
  have ops: "push_tx_frame b p m = (r, m') \<Longrightarrow> mailbox_ok m \<Longrightarrow> mailbox_ok m'"
    "push_rx_frame b p m = (r, m') \<Longrightarrow> mailbox_ok m \<Longrightarrow> mailbox_ok m'"
    "pop_tx_frame out m = (n, o', m') \<Longrightarrow> mailbox_ok m \<Longrightarrow> mailbox_ok m'"
    "pop_rx_frame m = (f, m') \<Longrightarrow> mailbox_ok m \<Longrightarrow> mailbox_ok m'"
    "drain_tx_loop taken out m = (n, o', m') \<Longrightarrow> mailbox_ok m \<Longrightarrow> mailbox_ok m'"
    "push_downlink_message msg p m = (r, m') \<Longrightarrow> mailbox_ok m \<Longrightarrow> mailbox_ok m'"
    "pop_downlink_message m = (q, m') \<Longrightarrow> mailbox_ok m \<Longrightarrow> mailbox_ok m'"
    for b p m r m' out n o' f taken msg q
    using ok [of m] by (metis snd_conv)+
  from assms show ?thesis
    by (cases) (auto simp: mailbox_op_defs Let_def split: prod.splits if_splits option.splits intro: ops)
qed

text \<open>
  C19. In every mailbox the two cores can reach, in whatever order they call it, both sets of slots
  are sound, each stream is at most once in the ready queue and exactly when its slot holds a
  message, and the queues hold at most 64 frames, 32 frames, 64 critical messages and 10 streams.
\<close>

theorem reachable_mailboxes_ok:
  assumes "mailbox_reachable P s"
  shows "mailbox_ok (sh_mailbox s) \<and> fs_len (mb_tx (sh_mailbox s)) \<le> 64 \<and> fs_len (mb_rx (sh_mailbox s)) \<le> 32
    \<and> length (dq_items (downlink_critical (sh_mailbox s))) \<le> 64 \<and> length (dq_items (downlink_telemetry_ready (sh_mailbox s))) \<le> 10"
proof -
  have ok: "mailbox_ok (sh_mailbox s)"
    using assms
  proof induction
    case (start s)
    then show ?case by (simp add: mailbox_ok_def tx_new rx_new wf_downlink_new)
  next
    case (step s s')
    then show ?case by (rule_tac step_ok)
  qed
  have "set (dq_items (downlink_telemetry_ready (sh_mailbox s))) \<subseteq> {..<DOWNLINK_TELEMETRY_STREAMS}"
    using ready_iff [of "sh_mailbox s"] ok by (auto simp: mailbox_ok_def)
  then have "card (set (dq_items (downlink_telemetry_ready (sh_mailbox s)))) \<le> DOWNLINK_TELEMETRY_STREAMS"
    by (metis card_lessThan card_mono finite_lessThan)
  then show ?thesis using ok
    by (simp add: mailbox_ok_def tx_wf_def rx_wf_def wf_slots_def wf_downlink_def distinct_card capacities)
qed

theorem reachable_mailboxes_ok_witness:
  "mailbox_ok (sh_mailbox (set_comms_state 3 \<lparr>sh_mailbox = mavlink_mailbox_new, sh_rx_bytes = (), sh_comms_state = 0\<rparr>))"
  by (rule conjunct1 [OF reachable_mailboxes_ok])
    (rule mailbox_reachable.step [OF mailbox_reachable.start mailbox_step.comms], simp)

end
