(* ===== verification/Mavlink_Conversions.thy ===== *)
theory Mavlink_Conversions
  imports Telemetry
begin

text \<open>
  The conversions between the messages of the core and those of the MAVLink dialect,
  \<^verbatim>\<open>comms/veloxity_mavlink/src/conversions.rs\<close>. The structs and enums of the dialect are generated
  from \<^verbatim>\<open>mavlink_definitions/rosflight.xml\<close>: a record for each message with the fields of its
  definition, a datatype for each enum (prefix \<open>Mav\<close>). \<^verbatim>\<open>f32::to_bits\<close> and \<^verbatim>\<open>from_bits\<close> are the
  morphisms of \<open>flt\<close>.
\<close>

section \<open>The dialect\<close>

datatype mav_rosflight_cmd = MavRcCalibration | MavAccelCalibration | MavGyroCalibration
  | MavBaroCalibration | MavAirspeedCalibration | MavReadParams | MavWriteParams
  | MavSetParamDefaults | MavReboot | MavRebootToBootloader | MavSendVersion | MavResetOrigin
  | MavSendAllConfigInfos

datatype mav_rosflight_cmd_response = MavCmdFailed | MavCmdSuccess

datatype mav_aux_cmd_type = MavAuxDisabled | MavAuxServo | MavAuxMotor

datatype mav_offboard_control_mode = MavModePassThrough | MavModeRollratePitchrateYawrateThrottle
  | MavModeRollPitchYawrateThrottle | MavModeRollPitchYawrateAltitude
  | MavModeXvelYvelYawrateAltitude | MavModeXposYposYawAltitude

datatype mav_offboard_control_ignore = MavIgnoreNone | MavIgnoreValue0 | MavIgnoreValue1
  | MavIgnoreValue2 | MavIgnoreValue3 | MavIgnoreValue4 | MavIgnoreValue5 | MavIgnoreValue6
  | MavIgnoreValue7 | MavIgnoreValue8 | MavIgnoreValue9

datatype mav_range_type = MavRangeSonar | MavRangeLidar

datatype mav_gnss_fix_type = MavGnssFixNoFix | MavGnssFixDeadReckoningOnly | MavGnssFix2d
  | MavGnssFix3d | MavGnssFixGnssPlusDeadReckoning | MavGnssFixTimeFixOnly

datatype mav_param_type = MavUint8 | MavInt8 | MavUint16 | MavInt16 | MavUint32 | MavInt32
  | MavUint64 | MavInt64 | MavReal32 | MavReal64

datatype mav_severity_code = MavEmergency | MavAlert | MavCritical | MavError | MavWarning
  | MavNotice | MavInfo | MavDebug

text \<open>The values of the ignore flags in the definition, which \<^verbatim>\<open>as u16\<close> reads.\<close>

fun mav_ignore_bits :: "mav_offboard_control_ignore \<Rightarrow> u16" where
  "mav_ignore_bits MavIgnoreNone = 0"
| "mav_ignore_bits MavIgnoreValue0 = 1"
| "mav_ignore_bits MavIgnoreValue1 = 2"
| "mav_ignore_bits MavIgnoreValue2 = 4"
| "mav_ignore_bits MavIgnoreValue3 = 8"
| "mav_ignore_bits MavIgnoreValue4 = 16"
| "mav_ignore_bits MavIgnoreValue5 = 32"
| "mav_ignore_bits MavIgnoreValue6 = 64"
| "mav_ignore_bits MavIgnoreValue7 = 128"
| "mav_ignore_bits MavIgnoreValue8 = 256"
| "mav_ignore_bits MavIgnoreValue9 = 512"

record mav_heartbeat =
  mhb_type :: u8
  mhb_autopilot :: u8
  mhb_base_mode :: u8
  mhb_custom_mode :: u32
  mhb_system_status :: u8
  mhb_mavlink_version :: u8

record mav_param_request_read =
  mpr_target_system :: u8
  mpr_target_component :: u8
  mpr_param_id :: "u8 list"
  mpr_param_index :: i16

record mav_param_request_list =
  mpl_target_system :: u8
  mpl_target_component :: u8

record mav_param_value =
  mpv_param_id :: "u8 list"
  mpv_param_value :: f32
  mpv_param_type :: mav_param_type
  mpv_param_count :: u16
  mpv_param_index :: u16

record mav_param_set =
  mps_target_system :: u8
  mps_target_component :: u8
  mps_param_id :: "u8 list"
  mps_param_value :: f32
  mps_param_type :: mav_param_type

record mav_attitude_quaternion =
  maq_time_boot_ms :: u32
  maq_q1 :: f32
  maq_q2 :: f32
  maq_q3 :: f32
  maq_q4 :: f32
  maq_rollspeed :: f32
  maq_pitchspeed :: f32
  maq_yawspeed :: f32

record mav_rc_channels =
  mrc_time_boot_ms :: u32
  mrc_chancount :: u8
  mrc_chan1_raw :: u16
  mrc_chan2_raw :: u16
  mrc_chan3_raw :: u16
  mrc_chan4_raw :: u16
  mrc_chan5_raw :: u16
  mrc_chan6_raw :: u16
  mrc_chan7_raw :: u16
  mrc_chan8_raw :: u16
  mrc_chan9_raw :: u16
  mrc_chan10_raw :: u16
  mrc_chan11_raw :: u16
  mrc_chan12_raw :: u16
  mrc_chan13_raw :: u16
  mrc_chan14_raw :: u16
  mrc_chan15_raw :: u16
  mrc_chan16_raw :: u16
  mrc_chan17_raw :: u16
  mrc_chan18_raw :: u16
  mrc_rssi :: u8

record mav_timesync =
  mts_tc1 :: i64
  mts_ts1 :: i64

record mav_offboard_control =
  moc_mode :: mav_offboard_control_mode
  moc_ignore :: mav_offboard_control_ignore
  moc_u :: "f32 list"

record mav_small_imu =
  msi_time_boot_us :: u64
  msi_xacc :: f32
  msi_yacc :: f32
  msi_zacc :: f32
  msi_xgyro :: f32
  msi_ygyro :: f32
  msi_zgyro :: f32
  msi_temperature :: f32

record mav_small_mag =
  msm_xmag :: f32
  msm_ymag :: f32
  msm_zmag :: f32

record mav_small_baro =
  msb_altitude :: f32
  msb_pressure :: f32
  msb_temperature :: f32

record mav_diff_pressure =
  mdp_velocity :: f32
  mdp_diff_pressure :: f32
  mdp_temperature :: f32

record mav_small_range =
  msr_type :: mav_range_type
  msr_range :: f32
  msr_max_range :: f32
  msr_min_range :: f32

record mav_rosflight_cmd_ack =
  mca_command :: mav_rosflight_cmd
  mca_success :: mav_rosflight_cmd_response

record mav_rosflight_output_raw =
  mor_stamp :: u64
  mor_values :: "f32 list"

record mav_rosflight_status =
  mst_armed :: u8
  mst_failsafe :: u8
  mst_rc_override :: u16
  mst_offboard :: u8
  mst_error_code :: u8
  mst_control_mode :: mav_offboard_control_mode
  mst_num_errors :: i16
  mst_loop_time_us :: i16

record mav_rosflight_aux_cmd =
  mac_type_array :: "mav_aux_cmd_type list"
  mac_aux_cmd_array :: "f32 list"

record mav_external_attitude =
  mea_qw :: f32
  mea_qx :: f32
  mea_qy :: f32
  mea_qz :: f32

record mav_rosflight_hard_error =
  mhe_error_code :: u32
  mhe_pc :: u32
  mhe_reset_count :: u32
  mhe_do_rearm :: u32

record mav_rosflight_gnss =
  mgn_seconds :: i64
  mgn_nanos :: i32
  mgn_fix_type :: mav_gnss_fix_type
  mgn_num_sat :: u8
  mgn_lat :: f64
  mgn_lon :: f64
  mgn_height :: f32
  mgn_vel_n :: f32
  mgn_vel_e :: f32
  mgn_vel_d :: f32
  mgn_h_acc :: f32
  mgn_v_acc :: f32
  mgn_s_acc :: f32
  mgn_rosflight_timestamp :: u64

record mav_battery_status =
  mbs_battery_voltage :: f32
  mbs_battery_current :: f32

record mav_statustext =
  mtx_severity :: mav_severity_code
  mtx_text :: "u8 list"

datatype mav_message = MavHeartbeat mav_heartbeat | MavParamRequestRead mav_param_request_read
  | MavParamRequestList mav_param_request_list | MavParamValue mav_param_value | MavParamSet mav_param_set
  | MavAttitudeQuaternion mav_attitude_quaternion | MavRcChannels mav_rc_channels | MavTimesync mav_timesync
  | MavOffboardControl mav_offboard_control | MavSmallImu mav_small_imu | MavSmallMag mav_small_mag
  | MavSmallBaro mav_small_baro | MavDiffPressure mav_diff_pressure | MavSmallRange mav_small_range
  | MavRosflightCmd mav_rosflight_cmd | MavRosflightCmdAck mav_rosflight_cmd_ack
  | MavRosflightOutputRaw mav_rosflight_output_raw | MavRosflightStatus mav_rosflight_status
  | MavRosflightVersion "u8 list" | MavRosflightAuxCmd mav_rosflight_aux_cmd
  | MavExternalAttitude mav_external_attitude | MavRosflightHardError mav_rosflight_hard_error
  | MavRosflightGnss mav_rosflight_gnss | MavRosflightBatteryStatus mav_battery_status
  | MavStatustext mav_statustext

section \<open>Messages received\<close>

fun aux_cmd_type_of_mav :: "mav_aux_cmd_type \<Rightarrow> rosflight_aux_cmd_type" where
  "aux_cmd_type_of_mav MavAuxDisabled = AuxDisabled"
| "aux_cmd_type_of_mav MavAuxMotor = AuxMotor"
| "aux_cmd_type_of_mav MavAuxServo = AuxServo"

fun rosflight_cmd_of_mav :: "mav_rosflight_cmd \<Rightarrow> rosflight_cmd" where
  "rosflight_cmd_of_mav MavRcCalibration = RcCalibration"
| "rosflight_cmd_of_mav MavAccelCalibration = AccelCalibration"
| "rosflight_cmd_of_mav MavGyroCalibration = GyroCalibration"
| "rosflight_cmd_of_mav MavBaroCalibration = BaroCalibration"
| "rosflight_cmd_of_mav MavAirspeedCalibration = AirspeedCalibration"
| "rosflight_cmd_of_mav MavReadParams = ReadParams"
| "rosflight_cmd_of_mav MavWriteParams = WriteParams"
| "rosflight_cmd_of_mav MavSetParamDefaults = SetParamDefaults"
| "rosflight_cmd_of_mav MavReboot = Reboot"
| "rosflight_cmd_of_mav MavRebootToBootloader = RebootToBootloader"
| "rosflight_cmd_of_mav MavSendVersion = SendVersion"
| "rosflight_cmd_of_mav MavResetOrigin = ResetOrigin"
| "rosflight_cmd_of_mav MavSendAllConfigInfos = SendAllConfigInfos"

definition timesync_of_mav :: "mav_timesync \<Rightarrow> timesync_msg" where
  "timesync_of_mav m =
  \<lparr>ts_tc1 = mts_tc1 m, ts_ts1 = mts_ts1 m\<rparr>"

definition external_attitude_of_mav :: "mav_external_attitude \<Rightarrow> external_attitude_msg" where
  "external_attitude_of_mav m =
  \<lparr>ea_qw = mea_qw m, ea_qx = mea_qx m, ea_qy = mea_qy m, ea_qz = mea_qz m\<rparr>"

definition comm_ignore_of :: "u16 \<Rightarrow> offboard_control_ignore" where
  "comm_ignore_of ig =
    (if ig AND mav_ignore_bits MavIgnoreValue0 \<noteq> 0 then IGNORE_FX else 0) OR
    (if ig AND mav_ignore_bits MavIgnoreValue1 \<noteq> 0 then IGNORE_FY else 0) OR
    (if ig AND mav_ignore_bits MavIgnoreValue2 \<noteq> 0 then IGNORE_FZ else 0) OR
    (if ig AND mav_ignore_bits MavIgnoreValue3 \<noteq> 0 then IGNORE_QX else 0) OR
    (if ig AND mav_ignore_bits MavIgnoreValue4 \<noteq> 0 then IGNORE_QY else 0) OR
    (if ig AND mav_ignore_bits MavIgnoreValue5 \<noteq> 0 then IGNORE_QZ else 0) OR
    (if ig AND mav_ignore_bits MavIgnoreValue6 \<noteq> 0 then IGNORE_PASS_0 else 0) OR
    (if ig AND mav_ignore_bits MavIgnoreValue7 \<noteq> 0 then IGNORE_PASS_1 else 0) OR
    (if ig AND mav_ignore_bits MavIgnoreValue8 \<noteq> 0 then IGNORE_PASS_2 else 0) OR
    (if ig AND mav_ignore_bits MavIgnoreValue9 \<noteq> 0 then IGNORE_PASS_3 else 0)"

fun offboard_mode_of_mav :: "mav_offboard_control_mode \<Rightarrow> offboard_control_mode" where
  "offboard_mode_of_mav MavModePassThrough = ModePassThrough"
| "offboard_mode_of_mav MavModeRollratePitchrateYawrateThrottle = ModeRollratePitchrateYawrateThrottle"
| "offboard_mode_of_mav MavModeRollPitchYawrateThrottle = ModeRollPitchYawrateThrottle"
| "offboard_mode_of_mav _ = ModePassThrough"

definition offboard_of_mav :: "mav_offboard_control \<Rightarrow> offboard_control_msg" where
  "offboard_of_mav m =
  \<lparr>oc_mode = offboard_mode_of_mav (moc_mode m), oc_ignore = comm_ignore_of (mav_ignore_bits (moc_ignore m)),
    oc_qx = moc_u m ! 3, oc_qy = moc_u m ! 4, oc_qz = moc_u m ! 5,
    oc_fx = moc_u m ! 0, oc_fy = moc_u m ! 1, oc_fz = moc_u m ! 2,
    oc_passthrough = [moc_u m ! 6, moc_u m ! 7, moc_u m ! 8, moc_u m ! 9]\<rparr>"

definition aux_cmd_of_mav :: "mav_rosflight_aux_cmd \<Rightarrow> rosflight_aux_cmd_msg" where
  "aux_cmd_of_mav m =
  \<lparr>aux_type_array = map aux_cmd_type_of_mav (mac_type_array m), aux_cmd_array = mac_aux_cmd_array m\<rparr>"

definition heartbeat_of_mav :: "mav_heartbeat \<Rightarrow> heartbeat_msg" where
  "heartbeat_of_mav m =
  \<lparr>hb_type = mhb_type m, hb_autopilot = mhb_autopilot m, hb_base_mode = mhb_base_mode m,
    hb_custom_mode = mhb_custom_mode m, hb_system_status = mhb_system_status m,
    hb_mavlink_version = mhb_mavlink_version m\<rparr>"

definition param_request_read_of_mav :: "mav_param_request_read \<Rightarrow> param_request_read_msg" where
  "param_request_read_of_mav m =
  \<lparr>prr_target_system = mpr_target_system m, prr_target_component = mpr_target_component m,
    prr_identifier = (if mpr_param_index m = - 1 then ParamName (mpr_param_id m)
      else ParamIndex (mpr_param_index m))\<rparr>"

definition param_request_list_of_mav :: "mav_param_request_list \<Rightarrow> param_request_list_msg" where
  "param_request_list_of_mav m =
  \<lparr>prl_target_system = mpl_target_system m, prl_target_component = mpl_target_component m\<rparr>"

fun param_value_of_mav :: "mav_param_type \<Rightarrow> f32 \<Rightarrow> param_value" where
  "param_value_of_mav MavReal32 v = PFloat v"
| "param_value_of_mav MavReal64 v = PFloat v"
| "param_value_of_mav MavInt8 v = PInt (to_bits v)"
| "param_value_of_mav MavInt16 v = PInt (to_bits v)"
| "param_value_of_mav MavInt32 v = PInt (to_bits v)"
| "param_value_of_mav MavInt64 v = PInt (to_bits v)"
| "param_value_of_mav MavUint8 v = PUint (to_bits v)"
| "param_value_of_mav MavUint16 v = PUint (to_bits v)"
| "param_value_of_mav MavUint32 v = PUint (to_bits v)"
| "param_value_of_mav MavUint64 v = PUint (to_bits v)"

definition param_set_of_mav :: "mav_param_set \<Rightarrow> param_set_msg" where
  "param_set_of_mav m =
  \<lparr>ps_target_system = mps_target_system m, ps_target_component = mps_target_component m,
    ps_param_id = mps_param_id m, ps_param_value = param_value_of_mav (mps_param_type m) (mps_param_value m)\<rparr>"

section \<open>Messages sent\<close>

definition mav_of_timesync :: "timesync_msg \<Rightarrow> mav_timesync" where
  "mav_of_timesync m =
  \<lparr>mts_tc1 = ts_tc1 m, mts_ts1 = ts_ts1 m\<rparr>"

fun mav_of_offboard_mode :: "offboard_control_mode \<Rightarrow> mav_offboard_control_mode" where
  "mav_of_offboard_mode ModePassThrough = MavModePassThrough"
| "mav_of_offboard_mode ModeRollratePitchrateYawrateThrottle = MavModeRollratePitchrateYawrateThrottle"
| "mav_of_offboard_mode ModeRollPitchYawrateThrottle = MavModeRollPitchYawrateThrottle"

text \<open>\<^verbatim>\<open>from_bits_truncate\<close> keeps the defined bits of the code, and all eight are defined.\<close>

definition mav_of_status :: "rosflight_status_msg \<Rightarrow> mav_rosflight_status" where
  "mav_of_status m =
  \<lparr>mst_armed = rs_armed m, mst_failsafe = rs_failsafe m,
    mst_rc_override = rs_rc_override m, mst_offboard = rs_offboard m,
    mst_error_code = ucast (rs_error_code m),
    mst_control_mode = mav_of_offboard_mode (rs_control_mode m),
    mst_num_errors = rs_num_errors m, mst_loop_time_us = rs_loop_time_us m\<rparr>"

definition mav_of_imu :: "small_imu_msg \<Rightarrow> mav_small_imu" where
  "mav_of_imu m =
  \<lparr>msi_time_boot_us = si_time_boot_us m, msi_xacc = si_xacc m, msi_yacc = si_yacc m,
    msi_zacc = si_zacc m, msi_xgyro = si_xgyro m, msi_ygyro = si_ygyro m,
    msi_zgyro = si_zgyro m, msi_temperature = si_temperature m\<rparr>"

fun mav_of_range_type :: "range_type \<Rightarrow> mav_range_type" where
  "mav_of_range_type Sonar = MavRangeSonar"
| "mav_of_range_type Lidar = MavRangeLidar"

definition mav_of_range :: "small_range_msg \<Rightarrow> mav_small_range" where
  "mav_of_range m =
  \<lparr>msr_type = mav_of_range_type (sr_type m), msr_range = sr_range m,
    msr_max_range = sr_max_range m, msr_min_range = sr_min_range m\<rparr>"

definition mav_of_mag :: "small_mag_msg \<Rightarrow> mav_small_mag" where
  "mav_of_mag m =
  \<lparr>msm_xmag = sm_xmag m, msm_ymag = sm_ymag m, msm_zmag = sm_zmag m\<rparr>"

definition mav_of_baro :: "small_baro_msg \<Rightarrow> mav_small_baro" where
  "mav_of_baro m =
  \<lparr>msb_altitude = sb_altitude m, msb_pressure = sb_pressure m,
    msb_temperature = sb_temperature m\<rparr>"

definition mav_of_heartbeat :: "heartbeat_msg \<Rightarrow> mav_heartbeat" where
  "mav_of_heartbeat m =
  \<lparr>mhb_type = hb_type m, mhb_autopilot = hb_autopilot m, mhb_base_mode = hb_base_mode m,
    mhb_custom_mode = hb_custom_mode m, mhb_system_status = hb_system_status m,
    mhb_mavlink_version = hb_mavlink_version m\<rparr>"

definition mav_of_diff_pressure :: "diff_pressure_msg \<Rightarrow> mav_diff_pressure" where
  "mav_of_diff_pressure m =
  \<lparr>mdp_velocity = dp_velocity m, mdp_diff_pressure = dp_diff_pressure m,
    mdp_temperature = dp_temperature m\<rparr>"

definition mav_of_attitude :: "attitude_quaternion_msg \<Rightarrow> mav_attitude_quaternion" where
  "mav_of_attitude m =
  \<lparr>maq_time_boot_ms = aq_time_boot_ms m, maq_q1 = aq_q1 m, maq_q2 = aq_q2 m,
    maq_q3 = aq_q3 m, maq_q4 = aq_q4 m, maq_rollspeed = aq_rollspeed m,
    maq_pitchspeed = aq_pitchspeed m, maq_yawspeed = aq_yawspeed m\<rparr>"

definition mav_of_output_raw :: "rosflight_output_raw_msg \<Rightarrow> mav_rosflight_output_raw" where
  "mav_of_output_raw m =
  \<lparr>mor_stamp = or_stamp m, mor_values = or_values m\<rparr>"

fun mav_of_gnss_fix_type :: "gnss_fix_type \<Rightarrow> mav_gnss_fix_type" where
  "mav_of_gnss_fix_type NoFix = MavGnssFixNoFix"
| "mav_of_gnss_fix_type DeadReckoningOnly = MavGnssFixDeadReckoningOnly"
| "mav_of_gnss_fix_type TwoD = MavGnssFix2d"
| "mav_of_gnss_fix_type ThreeD = MavGnssFix3d"
| "mav_of_gnss_fix_type GnssPlusDeadReckoning = MavGnssFixGnssPlusDeadReckoning"
| "mav_of_gnss_fix_type TimeFixOnly = MavGnssFixTimeFixOnly"

definition mav_of_gnss :: "rosflight_gnss_msg \<Rightarrow> mav_rosflight_gnss" where
  "mav_of_gnss m =
  \<lparr>mgn_seconds = gn_seconds m, mgn_nanos = gn_nanos m,
    mgn_fix_type = mav_of_gnss_fix_type (gn_fix_type m), mgn_num_sat = gn_num_sat m,
    mgn_lat = gn_lat m, mgn_lon = gn_lon m, mgn_height = gn_height_msl m,
    mgn_vel_n = gn_vel_n m, mgn_vel_e = gn_vel_e m, mgn_vel_d = gn_vel_d m,
    mgn_h_acc = gn_h_acc m, mgn_v_acc = gn_v_acc m, mgn_s_acc = gn_s_acc m,
    mgn_rosflight_timestamp = gn_rosflight_timestamp m\<rparr>"

fun mav_of_value :: "param_value \<Rightarrow> f32 \<times> mav_param_type" where
  "mav_of_value (PFloat f) = (f, MavReal32)"
| "mav_of_value (PInt i) = (Flt i, MavInt32)"
| "mav_of_value (PUint u) = (Flt u, MavUint32)"
| "mav_of_value (PBool b) = (Flt (if b then 1 else 0), MavUint32)"

definition mav_of_param_value :: "param_value_msg \<Rightarrow> mav_param_value" where
  "mav_of_param_value m =
  \<lparr>mpv_param_id = pv_param_id m,
    mpv_param_value = fst (mav_of_value (pv_param_value m)),
    mpv_param_type = snd (mav_of_value (pv_param_value m)), mpv_param_count = pv_param_count m,
    mpv_param_index = pv_param_index m\<rparr>"

fun mav_of_rosflight_cmd :: "rosflight_cmd \<Rightarrow> mav_rosflight_cmd" where
  "mav_of_rosflight_cmd RcCalibration = MavRcCalibration"
| "mav_of_rosflight_cmd AccelCalibration = MavAccelCalibration"
| "mav_of_rosflight_cmd GyroCalibration = MavGyroCalibration"
| "mav_of_rosflight_cmd BaroCalibration = MavBaroCalibration"
| "mav_of_rosflight_cmd AirspeedCalibration = MavAirspeedCalibration"
| "mav_of_rosflight_cmd ReadParams = MavReadParams"
| "mav_of_rosflight_cmd WriteParams = MavWriteParams"
| "mav_of_rosflight_cmd SetParamDefaults = MavSetParamDefaults"
| "mav_of_rosflight_cmd Reboot = MavReboot"
| "mav_of_rosflight_cmd RebootToBootloader = MavRebootToBootloader"
| "mav_of_rosflight_cmd SendVersion = MavSendVersion"
| "mav_of_rosflight_cmd ResetOrigin = MavResetOrigin"
| "mav_of_rosflight_cmd SendAllConfigInfos = MavSendAllConfigInfos"

fun mav_of_cmd_response :: "rosflight_cmd_response \<Rightarrow> mav_rosflight_cmd_response" where
  "mav_of_cmd_response RosflightCmdFailed = MavCmdFailed"
| "mav_of_cmd_response RosflightCmdSuccess = MavCmdSuccess"

fun cmd_response_of_mav :: "mav_rosflight_cmd_response \<Rightarrow> rosflight_cmd_response" where
  "cmd_response_of_mav MavCmdFailed = RosflightCmdFailed"
| "cmd_response_of_mav MavCmdSuccess = RosflightCmdSuccess"

definition mav_of_cmd_ack :: "rosflight_cmd_ack_msg \<Rightarrow> mav_rosflight_cmd_ack" where
  "mav_of_cmd_ack m =
  \<lparr>mca_command = mav_of_rosflight_cmd (ack_command m),
    mca_success = mav_of_cmd_response (ack_success m)\<rparr>"

definition mav_of_rc_channels :: "rc_channels_msg \<Rightarrow> mav_rc_channels" where
  "mav_of_rc_channels m =
  \<lparr>mrc_time_boot_ms = rcc_time_boot_ms m, mrc_chancount = rcc_chancount m,
    mrc_chan1_raw = rcc_channels m ! 0, mrc_chan2_raw = rcc_channels m ! 1,
    mrc_chan3_raw = rcc_channels m ! 2, mrc_chan4_raw = rcc_channels m ! 3,
    mrc_chan5_raw = rcc_channels m ! 4, mrc_chan6_raw = rcc_channels m ! 5,
    mrc_chan7_raw = rcc_channels m ! 6, mrc_chan8_raw = rcc_channels m ! 7,
    mrc_chan9_raw = rcc_channels m ! 8, mrc_chan10_raw = rcc_channels m ! 9,
    mrc_chan11_raw = rcc_channels m ! 10, mrc_chan12_raw = rcc_channels m ! 11,
    mrc_chan13_raw = rcc_channels m ! 12, mrc_chan14_raw = rcc_channels m ! 13,
    mrc_chan15_raw = rcc_channels m ! 14, mrc_chan16_raw = rcc_channels m ! 15,
    mrc_chan17_raw = - 1, mrc_chan18_raw = - 1, mrc_rssi = rcc_rssi m\<rparr>"

definition mav_of_battery :: "battery_status_msg \<Rightarrow> mav_battery_status" where
  "mav_of_battery m =
  \<lparr>mbs_battery_voltage = bs_battery_voltage m,
    mbs_battery_current = bs_battery_current m\<rparr>"

fun mav_of_severity :: "mav_severity \<Rightarrow> mav_severity_code" where
  "mav_of_severity Emergency = MavEmergency"
| "mav_of_severity Alert = MavAlert"
| "mav_of_severity Critical = MavCritical"
| "mav_of_severity Error = MavError"
| "mav_of_severity Warning = MavWarning"
| "mav_of_severity Notice = MavNotice"
| "mav_of_severity Info = MavInfo"
| "mav_of_severity Debug = MavDebug"

definition mav_of_statustext :: "statustext_msg \<Rightarrow> mav_statustext" where
  "mav_of_statustext m =
  \<lparr>mtx_severity = mav_of_severity (st_severity m), mtx_text = st_text m\<rparr>"

definition mav_of_hard_error :: "rosflight_hard_error_msg \<Rightarrow> mav_rosflight_hard_error" where
  "mav_of_hard_error m =
  \<lparr>mhe_error_code = he_error_code m, mhe_pc = he_pc m,
    mhe_reset_count = he_reset_count m, mhe_do_rearm = he_do_rearm m\<rparr>"

end
