(* ===== verification/Mavlink_Link.thy ===== *)
theory Mavlink_Link
  imports Mavlink_Conversions Mavlink_Parser Rp2350_Mailbox
begin

text \<open>
  The link, \<^verbatim>\<open>comms/veloxity_mavlink/src/link.rs\<close>: \<^verbatim>\<open>MavlinkInterface\<close>, which queues a message with
  the board or writes the frame itself and takes in what the board received, and
  \<^verbatim>\<open>MavlinkFrameEncoder\<close> of the second core. The frame builder and the decoder of \<^verbatim>\<open>mavio\<close> with the
  generated dialect are the fields of a record, as are the serial operations of the board. At the
  end the board of the RP2350, whose serial operations are those of the mailbox, and the two loops
  of the second core of \<^verbatim>\<open>boards/pico2w/src/bin/veloxity.rs\<close>, one turn each.
\<close>

section \<open>What the link uses\<close>

text \<open>
  \<^verbatim>\<open>Frame::builder()...message(&msg)?.build()\<close> for a system, a component and a sequence number,
  \<^verbatim>\<open>body_length\<close>, and what \<^verbatim>\<open>process_mavlink_frame\<close> obtains from the bytes of a frame.
\<close>

record dialect =
  di_frame :: "u8 \<Rightarrow> u8 \<Rightarrow> u8 \<Rightarrow> mav_message \<Rightarrow> wire_frame option"
  di_body_length :: "wire_frame \<Rightarrow> nat"
  di_decode :: "u8 list \<Rightarrow> mav_message option"

datatype telem_error = GenericTelemError string

record 'b serial_ops =
  so_rx_read :: "u8 list \<Rightarrow> 'b \<Rightarrow> (telem_error + nat) option \<times> u8 list \<times> 'b"
  so_rx_frame_read :: "'b \<Rightarrow> (telem_error + serial_rx_frame) option \<times> 'b"
  so_tx_write_priority :: "u8 list \<Rightarrow> u8 \<Rightarrow> 'b \<Rightarrow> (telem_error + nat) option \<times> 'b"
  so_tx_enqueue_downlink :: "u8 \<Rightarrow> downlink_message \<Rightarrow> u8 \<Rightarrow> 'b \<Rightarrow> (telem_error + nat) option \<times> 'b"

definition RX_BUFF_SIZE :: nat where "RX_BUFF_SIZE = 2048"
definition MAV_COMP_ID_ROSFLIGHT_FIRMWARE :: u8 where "MAV_COMP_ID_ROSFLIGHT_FIRMWARE = 250"
definition MAVLINK_V1_MESSAGE_SIZE :: nat where "MAVLINK_V1_MESSAGE_SIZE = 263"

definition process_mavlink_frame :: "dialect \<Rightarrow> complete_frame \<Rightarrow> mav_message option" where
  "process_mavlink_frame D f = di_decode D (take (cf_len f) (cf_data f))"

section \<open>The message on the wire\<close>

fun mav_of_downlink :: "downlink_message \<Rightarrow> mav_message" where
  "mav_of_downlink (DlHeartbeat m) = MavHeartbeat (mav_of_heartbeat m)"
| "mav_of_downlink (DlParamValue m) = MavParamValue (mav_of_param_value m)"
| "mav_of_downlink (DlStatus m) = MavRosflightStatus (mav_of_status m)"
| "mav_of_downlink (DlTimesync m) = MavTimesync (mav_of_timesync m)"
| "mav_of_downlink (DlVersion m) = MavRosflightVersion m"
| "mav_of_downlink (DlOutputRaw m) = MavRosflightOutputRaw (mav_of_output_raw m)"
| "mav_of_downlink (DlAttitude m) = MavAttitudeQuaternion (mav_of_attitude m)"
| "mav_of_downlink (DlBaro m) = MavSmallBaro (mav_of_baro m)"
| "mav_of_downlink (DlDiffPressure m) = MavDiffPressure (mav_of_diff_pressure m)"
| "mav_of_downlink (DlImu m) = MavSmallImu (mav_of_imu m)"
| "mav_of_downlink (DlMag m) = MavSmallMag (mav_of_mag m)"
| "mav_of_downlink (DlRcRaw m) = MavRcChannels (mav_of_rc_channels m)"
| "mav_of_downlink (DlRcChannels m) = MavRcChannels (mav_of_rc_channels m)"
| "mav_of_downlink (DlRange m) = MavSmallRange (mav_of_range m)"
| "mav_of_downlink (DlGnss m) = MavRosflightGnss (mav_of_gnss m)"
| "mav_of_downlink (DlCmdAck m) = MavRosflightCmdAck (mav_of_cmd_ack m)"
| "mav_of_downlink (DlBatteryStatus m) = MavRosflightBatteryStatus (mav_of_battery m)"
| "mav_of_downlink (DlStatustext m) = MavStatustext (mav_of_statustext m)"
| "mav_of_downlink (DlHardError m) = MavRosflightHardError (mav_of_hard_error m)"

section \<open>The encoder of the second core\<close>

record frame_encoder =
  fe_component_id :: u8
  fe_sequence :: u8

definition frame_encoder_new :: frame_encoder where
  "frame_encoder_new = \<lparr>fe_component_id = MAV_COMP_ID_ROSFLIGHT_FIRMWARE, fe_sequence = 0\<rparr>"

definition frame_builder_with_sequence :: "dialect \<Rightarrow> frame_encoder \<Rightarrow> u8 \<Rightarrow> u8 \<Rightarrow> mav_message \<Rightarrow> wire_frame option" where
  "frame_builder_with_sequence D e system_id sequence msg = di_frame D system_id (fe_component_id e) sequence msg"

definition frame_builder :: "dialect \<Rightarrow> u8 \<Rightarrow> mav_message \<Rightarrow> frame_encoder \<Rightarrow> wire_frame option \<times> frame_encoder" where
  "frame_builder D system_id msg e = (let e1 = e\<lparr>fe_sequence := fe_sequence e + 1\<rparr>
     in (frame_builder_with_sequence D e1 system_id (fe_sequence e) msg, e1))"

definition encode_message :: "dialect \<Rightarrow> u8 \<Rightarrow> mav_message \<Rightarrow> u8 list \<Rightarrow> frame_encoder
    \<Rightarrow> nat option \<times> u8 list \<times> frame_encoder" where
  "encode_message D system_id msg out e = (case frame_builder D system_id msg e of
     (None, e1) \<Rightarrow> (None, out, e1)
   | (Some f, e1) \<Rightarrow> (let (out1, n) = encode_frame f out in (n, out1, e1)))"

definition encode_message_with_sequence :: "dialect \<Rightarrow> frame_encoder \<Rightarrow> u8 \<Rightarrow> u8 \<Rightarrow> mav_message \<Rightarrow> u8 list
    \<Rightarrow> nat option \<times> u8 list" where
  "encode_message_with_sequence D e system_id sequence msg out =
    (case frame_builder_with_sequence D e system_id sequence msg of
       None \<Rightarrow> (None, out)
     | Some f \<Rightarrow> (let (out1, n) = encode_frame f out in (n, out1)))"

definition encode_downlink :: "dialect \<Rightarrow> u8 \<Rightarrow> downlink_message \<Rightarrow> u8 list \<Rightarrow> frame_encoder
    \<Rightarrow> nat option \<times> u8 list \<times> frame_encoder" where
  "encode_downlink D system_id msg out e = encode_message D system_id (mav_of_downlink msg) out e"

definition encode_downlink_with_sequence :: "dialect \<Rightarrow> frame_encoder \<Rightarrow> u8 \<Rightarrow> u8 \<Rightarrow> downlink_message \<Rightarrow> u8 list
    \<Rightarrow> nat option \<times> u8 list" where
  "encode_downlink_with_sequence D e system_id sequence msg out =
    encode_message_with_sequence D e system_id sequence (mav_of_downlink msg) out"

section \<open>Sending\<close>

record mavlink_interface =
  mi_component_id :: u8
  mi_sequence :: u8
  mi_parser :: mavlink_parser

definition mavlink_interface_new :: mavlink_interface where
  "mavlink_interface_new = \<lparr>mi_component_id = MAV_COMP_ID_ROSFLIGHT_FIRMWARE, mi_sequence = 0,
     mi_parser = mavlink_parser_new\<rparr>"

definition next_sequence :: "mavlink_interface \<Rightarrow> u8 \<times> mavlink_interface" where
  "next_sequence l = (mi_sequence l, l\<lparr>mi_sequence := mi_sequence l + 1\<rparr>)"

text \<open>
  A board that takes the message, or refuses it, ends the call; only one that does not queue
  messages at all makes the link build the frame. \<open>None\<close> as a whole is a panic, a frame that does not
  fit the buffer.
\<close>

definition send_downlink_or_message :: "dialect \<Rightarrow> 'b serial_ops \<Rightarrow> u8 \<Rightarrow> downlink_message \<Rightarrow> mav_message \<Rightarrow> u8
    \<Rightarrow> mavlink_interface \<times> 'b \<Rightarrow> (mavlink_interface \<times> 'b) option" where
  "send_downlink_or_message D S system_id downlink msg priority s = (case s of (l, b) \<Rightarrow>
     (case so_tx_enqueue_downlink S system_id downlink priority b of
        (Some _, b1) \<Rightarrow> Some (l, b1)
      | (None, b1) \<Rightarrow>
         (let (sequence, l1) = next_sequence l
          in case di_frame D system_id (mi_component_id l1) sequence msg of
               None \<Rightarrow> Some (l1, b1)
             | Some f \<Rightarrow>
                 if MAVLINK_V1_MESSAGE_SIZE < di_body_length D f then Some (l1, b1)
                 else if MAVLINK_V1_MESSAGE_SIZE < length (frame_bytes f) then None
                 else Some (l1, snd (so_tx_write_priority S (frame_bytes f) priority b1)))))"

definition link_send_heartbeat :: "dialect \<Rightarrow> 'b serial_ops \<Rightarrow> u8 \<Rightarrow> heartbeat_msg
    \<Rightarrow> mavlink_interface \<times> 'b \<Rightarrow> (mavlink_interface \<times> 'b) option" where
  "link_send_heartbeat D S system_id m =
    send_downlink_or_message D S system_id (DlHeartbeat m) (MavHeartbeat (mav_of_heartbeat m)) CRITICAL_PRIORITY"

definition link_send_named_value :: "dialect \<Rightarrow> 'b serial_ops \<Rightarrow> u8 \<Rightarrow> param_value_msg
    \<Rightarrow> mavlink_interface \<times> 'b \<Rightarrow> (mavlink_interface \<times> 'b) option" where
  "link_send_named_value D S system_id m =
    send_downlink_or_message D S system_id (DlParamValue m) (MavParamValue (mav_of_param_value m)) CRITICAL_PRIORITY"

definition link_send_status :: "dialect \<Rightarrow> 'b serial_ops \<Rightarrow> u8 \<Rightarrow> rosflight_status_msg
    \<Rightarrow> mavlink_interface \<times> 'b \<Rightarrow> (mavlink_interface \<times> 'b) option" where
  "link_send_status D S system_id m =
    send_downlink_or_message D S system_id (DlStatus m) (MavRosflightStatus (mav_of_status m)) CRITICAL_PRIORITY"

definition link_send_timesync :: "dialect \<Rightarrow> 'b serial_ops \<Rightarrow> u8 \<Rightarrow> timesync_msg
    \<Rightarrow> mavlink_interface \<times> 'b \<Rightarrow> (mavlink_interface \<times> 'b) option" where
  "link_send_timesync D S system_id m =
    send_downlink_or_message D S system_id (DlTimesync m) (MavTimesync (mav_of_timesync m)) CRITICAL_PRIORITY"

definition link_send_version :: "dialect \<Rightarrow> 'b serial_ops \<Rightarrow> u8 \<Rightarrow> u8 list
    \<Rightarrow> mavlink_interface \<times> 'b \<Rightarrow> (mavlink_interface \<times> 'b) option" where
  "link_send_version D S system_id m =
    send_downlink_or_message D S system_id (DlVersion m) (MavRosflightVersion m) CRITICAL_PRIORITY"

definition link_send_output_raw :: "dialect \<Rightarrow> 'b serial_ops \<Rightarrow> u8 \<Rightarrow> rosflight_output_raw_msg
    \<Rightarrow> mavlink_interface \<times> 'b \<Rightarrow> (mavlink_interface \<times> 'b) option" where
  "link_send_output_raw D S system_id m =
    send_downlink_or_message D S system_id (DlOutputRaw m) (MavRosflightOutputRaw (mav_of_output_raw m)) REPLACEABLE_TELEMETRY"

definition link_send_attitude :: "dialect \<Rightarrow> 'b serial_ops \<Rightarrow> u8 \<Rightarrow> attitude_quaternion_msg
    \<Rightarrow> mavlink_interface \<times> 'b \<Rightarrow> (mavlink_interface \<times> 'b) option" where
  "link_send_attitude D S system_id m =
    send_downlink_or_message D S system_id (DlAttitude m) (MavAttitudeQuaternion (mav_of_attitude m)) REPLACEABLE_TELEMETRY"

definition link_send_baro :: "dialect \<Rightarrow> 'b serial_ops \<Rightarrow> u8 \<Rightarrow> small_baro_msg
    \<Rightarrow> mavlink_interface \<times> 'b \<Rightarrow> (mavlink_interface \<times> 'b) option" where
  "link_send_baro D S system_id m =
    send_downlink_or_message D S system_id (DlBaro m) (MavSmallBaro (mav_of_baro m)) REPLACEABLE_TELEMETRY"

definition link_send_diff_pressure :: "dialect \<Rightarrow> 'b serial_ops \<Rightarrow> u8 \<Rightarrow> diff_pressure_msg
    \<Rightarrow> mavlink_interface \<times> 'b \<Rightarrow> (mavlink_interface \<times> 'b) option" where
  "link_send_diff_pressure D S system_id m =
    send_downlink_or_message D S system_id (DlDiffPressure m) (MavDiffPressure (mav_of_diff_pressure m)) REPLACEABLE_TELEMETRY"

definition link_send_imu :: "dialect \<Rightarrow> 'b serial_ops \<Rightarrow> u8 \<Rightarrow> small_imu_msg
    \<Rightarrow> mavlink_interface \<times> 'b \<Rightarrow> (mavlink_interface \<times> 'b) option" where
  "link_send_imu D S system_id m =
    send_downlink_or_message D S system_id (DlImu m) (MavSmallImu (mav_of_imu m)) REPLACEABLE_TELEMETRY"

definition link_send_mag :: "dialect \<Rightarrow> 'b serial_ops \<Rightarrow> u8 \<Rightarrow> small_mag_msg
    \<Rightarrow> mavlink_interface \<times> 'b \<Rightarrow> (mavlink_interface \<times> 'b) option" where
  "link_send_mag D S system_id m =
    send_downlink_or_message D S system_id (DlMag m) (MavSmallMag (mav_of_mag m)) REPLACEABLE_TELEMETRY"

definition link_send_rc_raw :: "dialect \<Rightarrow> 'b serial_ops \<Rightarrow> u8 \<Rightarrow> rc_channels_msg
    \<Rightarrow> mavlink_interface \<times> 'b \<Rightarrow> (mavlink_interface \<times> 'b) option" where
  "link_send_rc_raw D S system_id m =
    send_downlink_or_message D S system_id (DlRcRaw m) (MavRcChannels (mav_of_rc_channels m)) REPLACEABLE_TELEMETRY"

definition link_send_rc_channels :: "dialect \<Rightarrow> 'b serial_ops \<Rightarrow> u8 \<Rightarrow> rc_channels_msg
    \<Rightarrow> mavlink_interface \<times> 'b \<Rightarrow> (mavlink_interface \<times> 'b) option" where
  "link_send_rc_channels D S system_id m =
    send_downlink_or_message D S system_id (DlRcChannels m) (MavRcChannels (mav_of_rc_channels m)) REPLACEABLE_TELEMETRY"

definition link_send_range :: "dialect \<Rightarrow> 'b serial_ops \<Rightarrow> u8 \<Rightarrow> small_range_msg
    \<Rightarrow> mavlink_interface \<times> 'b \<Rightarrow> (mavlink_interface \<times> 'b) option" where
  "link_send_range D S system_id m =
    send_downlink_or_message D S system_id (DlRange m) (MavSmallRange (mav_of_range m)) REPLACEABLE_TELEMETRY"

definition link_send_gnss :: "dialect \<Rightarrow> 'b serial_ops \<Rightarrow> u8 \<Rightarrow> rosflight_gnss_msg
    \<Rightarrow> mavlink_interface \<times> 'b \<Rightarrow> (mavlink_interface \<times> 'b) option" where
  "link_send_gnss D S system_id m =
    send_downlink_or_message D S system_id (DlGnss m) (MavRosflightGnss (mav_of_gnss m)) REPLACEABLE_TELEMETRY"

definition link_send_cmd_ack :: "dialect \<Rightarrow> 'b serial_ops \<Rightarrow> u8 \<Rightarrow> rosflight_cmd_ack_msg
    \<Rightarrow> mavlink_interface \<times> 'b \<Rightarrow> (mavlink_interface \<times> 'b) option" where
  "link_send_cmd_ack D S system_id m =
    send_downlink_or_message D S system_id (DlCmdAck m) (MavRosflightCmdAck (mav_of_cmd_ack m)) CRITICAL_PRIORITY"

definition link_send_battery_status :: "dialect \<Rightarrow> 'b serial_ops \<Rightarrow> u8 \<Rightarrow> battery_status_msg
    \<Rightarrow> mavlink_interface \<times> 'b \<Rightarrow> (mavlink_interface \<times> 'b) option" where
  "link_send_battery_status D S system_id m =
    send_downlink_or_message D S system_id (DlBatteryStatus m) (MavRosflightBatteryStatus (mav_of_battery m)) REPLACEABLE_TELEMETRY"

definition link_send_statustext :: "dialect \<Rightarrow> 'b serial_ops \<Rightarrow> u8 \<Rightarrow> statustext_msg
    \<Rightarrow> mavlink_interface \<times> 'b \<Rightarrow> (mavlink_interface \<times> 'b) option" where
  "link_send_statustext D S system_id m =
    send_downlink_or_message D S system_id (DlStatustext m) (MavStatustext (mav_of_statustext m)) CRITICAL_PRIORITY"

definition link_send_hard_error :: "dialect \<Rightarrow> 'b serial_ops \<Rightarrow> u8 \<Rightarrow> rosflight_hard_error_msg
    \<Rightarrow> mavlink_interface \<times> 'b \<Rightarrow> (mavlink_interface \<times> 'b) option" where
  "link_send_hard_error D S system_id m =
    send_downlink_or_message D S system_id (DlHardError m) (MavRosflightHardError (mav_of_hard_error m)) CRITICAL_PRIORITY"

text \<open>The send methods together, by the message.\<close>

fun link_send :: "dialect \<Rightarrow> 'b serial_ops \<Rightarrow> u8 \<Rightarrow> downlink_message
    \<Rightarrow> mavlink_interface \<times> 'b \<Rightarrow> (mavlink_interface \<times> 'b) option" where
  "link_send D S system_id (DlHeartbeat m) = link_send_heartbeat D S system_id m"
| "link_send D S system_id (DlParamValue m) = link_send_named_value D S system_id m"
| "link_send D S system_id (DlStatus m) = link_send_status D S system_id m"
| "link_send D S system_id (DlTimesync m) = link_send_timesync D S system_id m"
| "link_send D S system_id (DlVersion m) = link_send_version D S system_id m"
| "link_send D S system_id (DlOutputRaw m) = link_send_output_raw D S system_id m"
| "link_send D S system_id (DlAttitude m) = link_send_attitude D S system_id m"
| "link_send D S system_id (DlBaro m) = link_send_baro D S system_id m"
| "link_send D S system_id (DlDiffPressure m) = link_send_diff_pressure D S system_id m"
| "link_send D S system_id (DlImu m) = link_send_imu D S system_id m"
| "link_send D S system_id (DlMag m) = link_send_mag D S system_id m"
| "link_send D S system_id (DlRcRaw m) = link_send_rc_raw D S system_id m"
| "link_send D S system_id (DlRcChannels m) = link_send_rc_channels D S system_id m"
| "link_send D S system_id (DlRange m) = link_send_range D S system_id m"
| "link_send D S system_id (DlGnss m) = link_send_gnss D S system_id m"
| "link_send D S system_id (DlCmdAck m) = link_send_cmd_ack D S system_id m"
| "link_send D S system_id (DlBatteryStatus m) = link_send_battery_status D S system_id m"
| "link_send D S system_id (DlStatustext m) = link_send_statustext D S system_id m"
| "link_send D S system_id (DlHardError m) = link_send_hard_error D S system_id m"

lemmas link_send_defs = link_send_heartbeat_def link_send_named_value_def link_send_status_def link_send_timesync_def link_send_version_def
  link_send_output_raw_def link_send_attitude_def link_send_baro_def link_send_diff_pressure_def link_send_imu_def
  link_send_mag_def link_send_rc_raw_def link_send_rc_channels_def link_send_range_def link_send_gnss_def
  link_send_cmd_ack_def link_send_battery_status_def link_send_statustext_def link_send_hard_error_def

section \<open>Receiving\<close>

fun process_rosflight_message :: "mav_message \<Rightarrow> messages \<Rightarrow> messages" where
  "process_rosflight_message (MavExternalAttitude es) ms = store ms (StoreExternalAttitude (external_attitude_of_mav es))"
| "process_rosflight_message (MavTimesync ts) ms = store ms (StoreTimesync (timesync_of_mav ts))"
| "process_rosflight_message (MavRosflightCmd cmd) ms = store ms (StoreCmd (rosflight_cmd_of_mav cmd))"
| "process_rosflight_message (MavRosflightAuxCmd aux) ms = store ms (StoreAuxCmd (aux_cmd_of_mav aux))"
| "process_rosflight_message (MavOffboardControl oc) ms = store ms (StoreOffboard (offboard_of_mav oc))"
| "process_rosflight_message (MavParamRequestRead pr) ms = store ms (StoreParamRead (param_request_read_of_mav pr))"
| "process_rosflight_message (MavParamSet ps) ms = store ms (StoreParamSet (param_set_of_mav ps))"
| "process_rosflight_message (MavParamRequestList pl) ms = store ms (StoreParamList (param_request_list_of_mav pl))"
| "process_rosflight_message (MavHeartbeat hb) ms = store ms (StoreHeartbeat (heartbeat_of_mav hb))"
| "process_rosflight_message _ ms = ms"

definition receive_frame :: "dialect \<Rightarrow> complete_frame \<Rightarrow> messages \<Rightarrow> messages" where
  "receive_frame D f ms = (case process_mavlink_frame D f of
     None \<Rightarrow> ms
   | Some message \<Rightarrow> process_rosflight_message message ms)"

definition complete_of_serial :: "serial_rx_frame \<Rightarrow> complete_frame" where
  "complete_of_serial frame = (let n = min (srf_len frame) 280
     in \<lparr>cf_data = take n (srf_data frame) @ replicate (280 - n) 0, cf_len = n\<rparr>)"

text \<open>\<^verbatim>\<open>while let Some(frame) = board.serial_rx_frame_read()\<close>: \<open>None\<close> if the board never stops giving frames.\<close>

partial_function (option) receive_frames :: "dialect \<Rightarrow> 'b serial_ops \<Rightarrow> 'b \<Rightarrow> messages \<Rightarrow> ('b \<times> messages) option" where
  "receive_frames D S b ms = (case so_rx_frame_read S b of
     (None, b1) \<Rightarrow> Some (b1, ms)
   | (Some (Inl _), b1) \<Rightarrow> Some (b1, ms)
   | (Some (Inr frame), b1) \<Rightarrow> receive_frames D S b1 (receive_frame D (complete_of_serial frame) ms))"

fun receive_bytes :: "dialect \<Rightarrow> u8 list \<Rightarrow> mavlink_parser \<times> messages \<Rightarrow> (mavlink_parser \<times> messages) option" where
  "receive_bytes D [] s = Some s"
| "receive_bytes D (b # bs) (q, ms) = (case feed_byte q b of
     None \<Rightarrow> None
   | Some (q1, None) \<Rightarrow> receive_bytes D bs (q1, ms)
   | Some (q1, Some f) \<Rightarrow> receive_bytes D bs (q1, receive_frame D f ms))"

text \<open>A count beyond the buffer is an index out of bounds.\<close>

definition handle_incoming_messages :: "dialect \<Rightarrow> 'b serial_ops \<Rightarrow> 'b \<Rightarrow> messages \<Rightarrow> mavlink_interface
    \<Rightarrow> ('b \<times> messages \<times> mavlink_interface) option" where
  "handle_incoming_messages D S b ms l = (case receive_frames D S b ms of
     None \<Rightarrow> None
   | Some (b1, ms1) \<Rightarrow> (case so_rx_read S (replicate RX_BUFF_SIZE 0) b1 of
        (Some (Inr n), buf, b2) \<Rightarrow> (case receive_bytes D (take n buf) (mi_parser l, ms1) of
           None \<Rightarrow> None
         | Some (q, ms2) \<Rightarrow> if length buf < n then None else Some (b2, ms2, l\<lparr>mi_parser := q\<rparr>))
      | (_, buf, b2) \<Rightarrow> Some (b2, ms1, l)))"

section \<open>The board of the RP2350\<close>

text \<open>The serial operations of \<^verbatim>\<open>boards/pico2w/src/board.rs\<close>.\<close>

definition pico_serial :: "'p pipe_ops \<Rightarrow> 'p shared_mailbox serial_ops" where
  "pico_serial P = \<lparr>
     so_rx_read = (\<lambda>buf s. let (n, buf1, s1) = read_into P buf s in (Some (Inr n), buf1, s1)),
     so_rx_frame_read = (\<lambda>s. let (f, s1) = sh_pop_rx_frame s in (map_option Inr f, s1)),
     so_tx_write_priority = (\<lambda>bytes priority s. let (n, s1) = write_from_priority bytes priority s in (Some (Inr n), s1)),
     so_tx_enqueue_downlink = (\<lambda>system_id msg priority s.
        let (n, s1) = enqueue_downlink system_id msg priority s in (Some (Inr n), s1))\<rparr>"

section \<open>The second core\<close>

definition UART_TX_BATCH_BYTES :: nat where "UART_TX_BATCH_BYTES = 512"
definition UART_RX_CHUNK_BYTES :: nat where "UART_RX_CHUNK_BYTES = 16"

text \<open>
  One turn of \<^verbatim>\<open>uart_tx_task\<close>: what it writes to the UART (nothing when it waits), and the state
  after the write, which succeeds or not.
\<close>

definition uart_tx_turn :: "dialect \<Rightarrow> bool \<Rightarrow> u8 list \<Rightarrow> frame_encoder \<Rightarrow> 'p shared_mailbox
    \<Rightarrow> u8 list option \<times> u8 list \<times> frame_encoder \<times> 'p shared_mailbox" where
  "uart_tx_turn D write_ok tx e s =
    (let (n, tx1, s1) = drain_tx_batch_into tx s;
       (n, tx2, e1, s2) = (if n = 0 then
          (case sh_pop_downlink_message s1 of
             (None, s2) \<Rightarrow> (0, tx1, e, s2)
           | (Some queued, s2) \<Rightarrow>
               (let (r, tx2, e1) = encode_downlink D (qd_system_id queued) (qd_msg queued) tx1 e
                in (case r of None \<Rightarrow> 0 | Some n \<Rightarrow> n, tx2, e1, s2)))
        else (n, tx1, e, s1))
     in if n = 0 then (None, tx2, e1, s2)
        else (Some (take n tx2), tx2, e1, if write_ok then record_uart_tx_batch n s2 else record_uart_tx_error s2))"

definition mavlink_rx_priority :: "u8 \<Rightarrow> u8" where
  "mavlink_rx_priority message_id =
    (if message_id \<in> {0, 23, 111, 188} then CRITICAL_PRIORITY
     else if message_id \<in> {20, 21, 180, 193, 195} then DEFAULT_PRIORITY
     else REPLACEABLE_TELEMETRY)"

fun uart_rx_bytes_loop :: "u8 list \<Rightarrow> mavlink_parser \<times> 'p shared_mailbox \<Rightarrow> (mavlink_parser \<times> 'p shared_mailbox) option" where
  "uart_rx_bytes_loop [] s = Some s"
| "uart_rx_bytes_loop (byte # rx) (q, s) = (case feed_byte q byte of
     None \<Rightarrow> None
   | Some (q1, None) \<Rightarrow> uart_rx_bytes_loop rx (q1, s)
   | Some (q1, Some frame) \<Rightarrow> uart_rx_bytes_loop rx (q1,
       snd (push_rx_frame_priority (take (cf_len frame) (cf_data frame)) (mavlink_rx_priority (cf_data frame ! 5)) s)))"

text \<open>One turn of \<^verbatim>\<open>uart_rx_task\<close>, with the chunk read or the error of the UART.\<close>

definition uart_rx_turn :: "u8 list option \<Rightarrow> mavlink_parser \<times> 'p shared_mailbox \<Rightarrow> (mavlink_parser \<times> 'p shared_mailbox) option" where
  "uart_rx_turn chunk s = (case (chunk, s) of
     (Some rx, (q, m)) \<Rightarrow> uart_rx_bytes_loop rx (q, record_uart_rx_chunk (length rx) m)
   | (None, (q, m)) \<Rightarrow> Some (q, record_uart_rx_error m))"

end
