(* ===== verification/Mavlink_Link_Safety.thy ===== *)
theory Mavlink_Link_Safety
  imports Mavlink_Link Rp2350_Mailbox_Safety Mavlink_Parser_Safety
begin

text \<open>
  What the link promises: the conversions keep parameter values and ignore flags, a frame that one
  side encodes is stored by the other, every frame of the mailbox is handled in the order of
  priority, messages to the ground go where the mailbox of the RP2350 keeps them, and the second
  core takes something in every turn while anything waits.
\<close>

section \<open>Conversions\<close>

text \<open>
  A parameter value that the ground station sends back the way the vehicle reported it has the
  same variant and the same payload, bit for bit, except that a boolean comes back as an unsigned
  integer, which the parameter service then refuses as a value of another type.
\<close>

theorem param_value_echo:
  "param_value_of_mav (snd (mav_of_value v)) (fst (mav_of_value v)) =
    (case v of PBool b \<Rightarrow> PUint (of_bool b) | _ \<Rightarrow> v)"
  by (cases v) auto

lemma flag_of_and: "(if ig AND w \<noteq> 0 then w else 0) = ig AND (w :: u16)" if "w = push_bit n 1"
proof (cases "bit ig n")
  case True
  then have "ig AND w = w"
    unfolding that by (intro bit_word_eqI) (auto simp: bit_simps)
  then show ?thesis by simp
next
  case False
  then have "ig AND w = 0"
    unfolding that by (intro bit_word_eqI) (auto simp: bit_simps)
  then show ?thesis by simp
qed

text \<open>
  The ten checks that build the ignore flags of an offboard setpoint bit by bit compute one
  mask: the flags of the core are the low ten bits of the flags on the wire, and each flag of the
  dialect becomes the flag of the core with the same value.
\<close>

theorem ignore_flags_are_low_bits:
  "comm_ignore_of ig = ig AND 0x3FF \<and> comm_ignore_of (mav_ignore_bits f) = mav_ignore_bits f"
proof -
  have w: "(1::u16) = push_bit 0 1" "(2::u16) = push_bit 1 1" "(4::u16) = push_bit 2 1" "(8::u16) = push_bit 3 1"
    "(16::u16) = push_bit 4 1" "(32::u16) = push_bit 5 1" "(64::u16) = push_bit 6 1" "(128::u16) = push_bit 7 1"
    "(256::u16) = push_bit 8 1" "(512::u16) = push_bit 9 1" by simp_all
  have each: "(if ig AND mav_ignore_bits MavIgnoreValue0 \<noteq> 0 then IGNORE_FX else 0) = ig AND 1"
    "(if ig AND mav_ignore_bits MavIgnoreValue1 \<noteq> 0 then IGNORE_FY else 0) = ig AND 2"
    "(if ig AND mav_ignore_bits MavIgnoreValue2 \<noteq> 0 then IGNORE_FZ else 0) = ig AND 4"
    "(if ig AND mav_ignore_bits MavIgnoreValue3 \<noteq> 0 then IGNORE_QX else 0) = ig AND 8"
    "(if ig AND mav_ignore_bits MavIgnoreValue4 \<noteq> 0 then IGNORE_QY else 0) = ig AND 16"
    "(if ig AND mav_ignore_bits MavIgnoreValue5 \<noteq> 0 then IGNORE_QZ else 0) = ig AND 32"
    "(if ig AND mav_ignore_bits MavIgnoreValue6 \<noteq> 0 then IGNORE_PASS_0 else 0) = ig AND 64"
    "(if ig AND mav_ignore_bits MavIgnoreValue7 \<noteq> 0 then IGNORE_PASS_1 else 0) = ig AND 128"
    "(if ig AND mav_ignore_bits MavIgnoreValue8 \<noteq> 0 then IGNORE_PASS_2 else 0) = ig AND 256"
    "(if ig AND mav_ignore_bits MavIgnoreValue9 \<noteq> 0 then IGNORE_PASS_3 else 0) = ig AND 512" for ig
    by (simp_all only: mav_ignore_bits.simps ignore_defs w [THEN flag_of_and])
  have all: "comm_ignore_of ig = ig AND 0x3FF" for ig
    unfolding comm_ignore_of_def each by (simp flip: bit.conj_disj_distrib)
  show ?thesis by (intro conjI all, cases f) (simp_all add: all)
qed



section \<open>Receiving\<close>

lemma receive_bytes_feed:
  "feed_bytes q bs = Some (q', fs) \<Longrightarrow> receive_bytes D bs (q, ms) = Some (q', fold (receive_frame D) fs ms)"
proof (induction bs arbitrary: q fs ms)
  case (Cons b bs)
  from Cons.prems obtain q1 f q2 fs' where "feed_byte q b = Some (q1, f)" "feed_bytes q1 bs = Some (q2, fs')"
    "q' = q2" "fs = (case f of None \<Rightarrow> fs' | Some x \<Rightarrow> x # fs')"
    by (auto split: option.splits)
  with Cons.IH show ?case by (cases f) auto
qed simp

lemma uart_rx_feed:
  "feed_bytes q bs = Some (q', fs) \<Longrightarrow> uart_rx_bytes_loop bs (q, s) = Some (q', fold (\<lambda>f s. snd (push_rx_frame_priority
     (take (cf_len f) (cf_data f)) (mavlink_rx_priority (cf_data f ! 5)) s)) fs s)"
proof (induction bs arbitrary: q fs s)
  case (Cons b bs)
  from Cons.prems obtain q1 f q2 fs' where "feed_byte q b = Some (q1, f)" "feed_bytes q1 bs = Some (q2, fs')"
    "q' = q2" "fs = (case f of None \<Rightarrow> fs' | Some x \<Rightarrow> x # fs')"
    by (auto split: option.splits)
  with Cons.IH show ?case by (cases f) auto
qed simp

text \<open>What becomes of the bytes of one frame.\<close>

definition deliver :: "dialect \<Rightarrow> u8 list \<Rightarrow> messages \<Rightarrow> messages" where
  "deliver D w ms = (case di_decode D w of None \<Rightarrow> ms | Some m \<Rightarrow> process_rosflight_message m ms)"

lemma receive_frame_of_wire: "receive_frame D (frame_of_wire w) = deliver D w"
  by (rule ext) (simp add: receive_frame_def process_mavlink_frame_def frame_of_wire_def deliver_def)


text \<open>
  The witness: a heartbeat of the first core in a dialect that builds one frame, which this
  development also uses for the parser.
\<close>

definition heartbeat_msg_zero :: heartbeat_msg where
  "heartbeat_msg_zero = \<lparr>hb_type = 2, hb_autopilot = 3, hb_base_mode = 81, hb_custom_mode = 0, hb_system_status = 4,
     hb_mavlink_version = 3\<rparr>"

definition heartbeat_dialect :: dialect where
  "heartbeat_dialect = \<lparr>di_frame = (\<lambda>_ _ _ _. Some heartbeat_frame), di_body_length = (\<lambda>f. length (wf_payload f) + 8),
     di_decode = (\<lambda>w. if w = heartbeat_wire then Some (MavHeartbeat (mav_of_heartbeat heartbeat_msg_zero)) else None)\<rparr>"

lemma heartbeat_frame_wire: "frame_bytes heartbeat_frame = heartbeat_wire" "length (wf_payload heartbeat_frame) = 9"
  by (simp_all add: frame_bytes_def heartbeat_frame_def heartbeat_wire_def)

lemma heartbeat_frame_checked: "wf_checksum heartbeat_frame = wire_crc (take 15 heartbeat_wire)"
proof -
  have "wire_checksum heartbeat_wire = 0xDD7D" by (simp add: wire_checksum_def heartbeat_wire_def)
  moreover have "length heartbeat_wire = 17" by (simp add: heartbeat_wire_def)
  ultimately show ?thesis using heartbeat_valid by (simp add: valid_wire_def heartbeat_frame_def)
qed


section \<open>Frames from the second core\<close>

lemma pop_rx_eq:
  assumes "rx_wf m" "fs_len (mb_rx m) \<noteq> 0"
  obtains f where "pop_rx_frame m = (Some f, snd (rx_pop m))" "receive_frame D (complete_of_serial f) = deliver D (fst (rx_pop m))"
proof -
  let ?s = "mb_rx m"
  have h: "highest_slot ?s < fs_len ?s" using highest_slot_max [OF assms(2)] by simp
  have len: "unat (fs_lens ?s ! highest_slot ?s) \<le> 280" "length (fs_frames ?s ! highest_slot ?s) = 280"
    using slot_length [OF assms(1) [unfolded rx_wf_def] h] by (simp_all add: SERIAL_RX_FRAME_MAX_BYTES_def)
  obtain f where f: "pop_rx_frame m = (Some f, snd (rx_pop m))" "fst (rx_pop m) = take (srf_len f) (srf_data f)"
    "srf_len f \<le> 280" "length (srf_data f) = 280"
    using assms(2) len by (simp add: rx_pop_def pop_rx_frame_def Let_def SERIAL_RX_FRAME_MAX_BYTES_def)
  show thesis
  proof (rule that [OF f(1)])
    show "receive_frame D (complete_of_serial f) = deliver D (fst (rx_pop m))"
      using f(3,4) by (intro ext) (simp add: f(2) receive_frame_def process_mavlink_frame_def complete_of_serial_def
          deliver_def Let_def)
  qed
qed

lemma receive_frames_done:
  "fs_len (mb_rx (sh_mailbox s)) = 0 \<Longrightarrow> receive_frames D (pico_serial P) s ms = Some (s, ms)"
  by (subst receive_frames.simps) (simp add: pico_serial_def sh_pop_rx_frame_def pop_rx_frame_def)

lemma receive_frames_next:
  assumes "rx_wf (sh_mailbox s)" "fs_len (mb_rx (sh_mailbox s)) \<noteq> 0"
  shows "receive_frames D (pico_serial P) s ms = receive_frames D (pico_serial P)
    (s\<lparr>sh_mailbox := snd (rx_pop (sh_mailbox s))\<rparr>) (deliver D (fst (rx_pop (sh_mailbox s))) ms)"
proof -
  obtain f where f: "pop_rx_frame (sh_mailbox s) = (Some f, snd (rx_pop (sh_mailbox s)))"
    "receive_frame D (complete_of_serial f) = deliver D (fst (rx_pop (sh_mailbox s)))"
    using pop_rx_eq [OF assms] .
  show ?thesis
    by (subst receive_frames.simps) (simp add: pico_serial_def sh_pop_rx_frame_def f)
qed

lemma receive_frames_all:
  assumes "rx_wf (sh_mailbox s)"
  shows "\<exists>fs s'. receive_frames D (pico_serial P) s ms = Some (s', fold (\<lambda>x. deliver D (fst x)) fs ms)
    \<and> mset fs = rx_content (sh_mailbox s) \<and> sorted_wrt (\<lambda>x y. snd y \<le> snd x) fs \<and> fs_len (mb_rx (sh_mailbox s')) = 0"
  using assms
proof (induction "size (rx_content (sh_mailbox s))" arbitrary: s ms)
  case 0
  then have c: "rx_content (sh_mailbox s) = {#}" by simp
  then have "fs_len (mb_rx (sh_mailbox s)) = 0" by (simp only: rx_content_def content_empty)
  then show ?case by (intro exI [of _ "[]"] exI [of _ s]) (simp add: receive_frames_done c)
next
  case (Suc n)
  let ?m = "sh_mailbox s" and ?s = "s\<lparr>sh_mailbox := snd (rx_pop (sh_mailbox s))\<rparr>"
  have ne: "rx_content ?m \<noteq> {#}" using Suc(2) by auto
  then have len: "fs_len (mb_rx ?m) \<noteq> 0" by (simp only: rx_content_def content_empty not_False_eq_True)
  from rx.pop_law [OF Suc(3) ne] obtain p where p: "(fst (rx_pop ?m), p) \<in># rx_content ?m"
    "\<forall>z \<in># rx_content ?m. snd z \<le> p" "rx_content (snd (rx_pop ?m)) = rx_content ?m - {#(fst (rx_pop ?m), p)#}"
    by (auto simp: pq_pop_def)
  have "n = size (rx_content (sh_mailbox ?s))" using p(1,3) Suc(2) by (simp add: size_Diff_singleton)
  moreover have "rx_wf (sh_mailbox ?s)" using rx.pop_wf [OF Suc(3) ne] by simp
  ultimately obtain fs s' where fs: "receive_frames D (pico_serial P) ?s (deliver D (fst (rx_pop ?m)) ms)
      = Some (s', fold (\<lambda>x. deliver D (fst x)) fs (deliver D (fst (rx_pop ?m)) ms))"
    "mset fs = rx_content (snd (rx_pop ?m))" "sorted_wrt (\<lambda>x y. snd y \<le> snd x) fs" "fs_len (mb_rx (sh_mailbox s')) = 0"
    using Suc(1) [of ?s "deliver D (fst (rx_pop ?m)) ms"] by auto
  have "snd z \<le> p" if "z \<in> set fs" for z
  proof -
    have "z \<in># rx_content ?m" using that fs(2) p(3) by (metis in_diffD set_mset_mset)
    then show ?thesis using p(2) by blast
  qed
  then show ?case using fs p(1,3)
    by (intro exI [of _ "(fst (rx_pop ?m), p) # fs"] exI [of _ s'])
      (simp add: receive_frames_next [OF Suc(3) len])
qed

text \<open>
  On the RP2350 the loop that takes in frames ends for every content of the mailbox: it decodes
  and stores each waiting frame exactly once, those of a larger priority before those of a smaller
  one, and leaves no frame behind.
\<close>

theorem waiting_frames_are_handled_by_priority:
  assumes "mailbox_ok (sh_mailbox s)"
  shows "\<exists>fs s'. receive_frames D (pico_serial P) s ms = Some (s', fold (\<lambda>x. deliver D (fst x)) fs ms)
    \<and> mset fs = rx_content (sh_mailbox s) \<and> sorted_wrt (\<lambda>x y. snd y \<le> snd x) fs \<and> \<not> has_pending_rx_frame s'"
  using receive_frames_all [of s D P ms] assms by (simp add: mailbox_ok_def has_pending_rx_frame_def)

definition silent_pipe :: "unit pipe_ops" where
  "silent_pipe = \<lparr>pipe_try_read = (\<lambda>_ p. (None, p)), pipe_try_write = (\<lambda>_ p. (None, p)), pipe_free_capacity = (\<lambda>_. 0)\<rparr>"

definition new_mailbox :: "unit shared_mailbox" where
  "new_mailbox = \<lparr>sh_mailbox = mavlink_mailbox_new, sh_rx_bytes = (), sh_comms_state = 0\<rparr>"

lemma new_mailbox_ok: "mailbox_ok (sh_mailbox new_mailbox)" "rx_content (sh_mailbox new_mailbox) = {#}"
  "wf_downlink (sh_mailbox new_mailbox)" "dl_abs (sh_mailbox new_mailbox) = ([], [])" "rx_wf (sh_mailbox new_mailbox)"
  by (simp_all add: mailbox_ok_def tx_new rx_new wf_downlink_new new_mailbox_def)
    (simp add: dl_abs_def mavlink_mailbox_new_def deque_new_def)

theorem waiting_frames_are_handled_by_priority_witness:
  "\<exists>fs s'. receive_frames heartbeat_dialect (pico_serial silent_pipe) new_mailbox messages_new
      = Some (s', fold (\<lambda>x. deliver heartbeat_dialect (fst x)) fs messages_new) \<and> mset fs = {#}"
  using waiting_frames_are_handled_by_priority [OF new_mailbox_ok(1), of heartbeat_dialect silent_pipe messages_new]
  by (simp add: new_mailbox_ok(2)) blast

text \<open>Chunks in a row, each one turn of the second core.\<close>

fun uart_rx_turns :: "u8 list list \<Rightarrow> mavlink_parser \<times> 'p shared_mailbox \<Rightarrow> (mavlink_parser \<times> 'p shared_mailbox) option" where
  "uart_rx_turns [] s = Some s"
| "uart_rx_turns (c # cs) s = (case uart_rx_turn (Some c) s of None \<Rightarrow> None | Some s1 \<Rightarrow> uart_rx_turns cs s1)"

definition frame_of_complete :: "complete_frame \<Rightarrow> frame" where
  "frame_of_complete f = (take (cf_len f) (cf_data f), mavlink_rx_priority (cf_data f ! 5))"

lemma push_frame_slots:
  "mb_rx (sh_mailbox (snd (push_rx_frame_priority w p s))) = mb_rx (snd (push_rx_frame w p (sh_mailbox s)))"
  by (simp add: push_rx_frame_priority_def update_stats_def Let_def case_prod_beta)

lemma push_frame_room:
  assumes "rx_wf (sh_mailbox s)" "length w \<le> 280" "size (rx_content (sh_mailbox s)) < 32"
  shows "rx_wf (sh_mailbox (snd (push_rx_frame_priority w p s)))"
    "rx_content (sh_mailbox (snd (push_rx_frame_priority w p s))) = add_mset (w, p) (rx_content (sh_mailbox s))"
  using rx.push_wf [OF assms(1), of w p] rx.push_law [OF assms(1), of w p] assms(2,3)
  by (simp_all add: push_frame_slots rx_wf_def rx_content_def pq_push_def capacities)

lemma push_frames_room:
  assumes "rx_wf (sh_mailbox s)" "\<forall>f \<in> set fs. cf_len f \<le> 280" "size (rx_content (sh_mailbox s)) + length fs \<le> 32"
  shows "rx_wf (sh_mailbox (fold (\<lambda>f s. snd (push_rx_frame_priority (take (cf_len f) (cf_data f)) (mavlink_rx_priority (cf_data f ! 5)) s)) fs s))
    \<and> rx_content (sh_mailbox (fold (\<lambda>f s. snd (push_rx_frame_priority (take (cf_len f) (cf_data f)) (mavlink_rx_priority (cf_data f ! 5)) s)) fs s))
      = rx_content (sh_mailbox s) + mset (map frame_of_complete fs)"
  using assms
proof (induction fs arbitrary: s)
  case (Cons f fs)
  let ?s = "snd (push_rx_frame_priority (take (cf_len f) (cf_data f)) (mavlink_rx_priority (cf_data f ! 5)) s)"
  have "length (take (cf_len f) (cf_data f)) \<le> 280" using Cons.prems(2) by (simp add: min_le_iff_disj)
  from push_frame_room [OF Cons.prems(1) this] Cons.prems(3) have
    "rx_wf (sh_mailbox ?s)" "rx_content (sh_mailbox ?s) = add_mset (frame_of_complete f) (rx_content (sh_mailbox s))"
    by (simp_all add: frame_of_complete_def)
  with Cons.IH [of ?s] Cons.prems show ?case by simp
qed simp

lemma uart_rx_turns_feed:
  assumes "feed_bytes q (concat cs) = Some (q', fs)" "rx_wf (sh_mailbox s)" "\<forall>f \<in> set fs. cf_len f \<le> 280"
    "size (rx_content (sh_mailbox s)) + length fs \<le> 32"
  shows "\<exists>s'. uart_rx_turns cs (q, s) = Some (q', s') \<and> rx_wf (sh_mailbox s')
    \<and> rx_content (sh_mailbox s') = rx_content (sh_mailbox s) + mset (map frame_of_complete fs)"
  using assms
proof (induction cs arbitrary: q fs s)
  case (Cons c cs)
  from Cons.prems(1) obtain q1 fs1 fs2 where f: "feed_bytes q c = Some (q1, fs1)" "feed_bytes q1 (concat cs) = Some (q', fs2)"
    "fs = fs1 @ fs2"
    by (auto simp: feed_bytes_append split: option.splits)
  define s0 where "s0 = record_uart_rx_chunk (length c) s"
  have s0: "rx_wf (sh_mailbox s0) = rx_wf (sh_mailbox s)" "rx_content (sh_mailbox s0) = rx_content (sh_mailbox s)"
    by (simp_all add: s0_def record_uart_rx_chunk_def update_stats_def rx_wf_def rx_content_def)
  define s1 where "s1 = fold (\<lambda>f s. snd (push_rx_frame_priority (take (cf_len f) (cf_data f)) (mavlink_rx_priority (cf_data f ! 5)) s)) fs1 s0"
  have s1: "rx_wf (sh_mailbox s1)" "rx_content (sh_mailbox s1) = rx_content (sh_mailbox s) + mset (map frame_of_complete fs1)"
    using push_frames_room [of s0 fs1] Cons.prems(2-4) f(3) by (simp_all add: s1_def s0)
  have "uart_rx_turn (Some c) (q, s) = Some (q1, s1)"
    using uart_rx_feed [OF f(1), of s0] by (simp add: uart_rx_turn_def s0_def s1_def)
  moreover from Cons.IH [OF f(2) s1(1)] Cons.prems(3,4) f(3) s1(2) obtain s' where
    "uart_rx_turns cs (q1, s1) = Some (q', s')" "rx_wf (sh_mailbox s')"
    "rx_content (sh_mailbox s') = rx_content (sh_mailbox s1) + mset (map frame_of_complete fs2)" by auto
  ultimately show ?case using s1(2) f(3) by simp
qed simp

text \<open>
  The second core hands on every frame of a clean stream: whatever way the UART cuts the stream
  into chunks, each valid frame enters the mailbox complete and with the priority of its message
  id, as long as there is room for all, and no index leaves a buffer.
\<close>

theorem second_core_forwards_clean_stream:
  assumes "list_all (\<lambda>(g, w). 0xFE \<notin> set g \<and> valid_wire w) items" and "concat chunks = concat (map (\<lambda>(g, w). g @ w) items)"
    and "parse_state q = WaitingForStart" "length (frame_buf q) = 280"
    and "rx_wf (sh_mailbox s)" "size (rx_content (sh_mailbox s)) + length items \<le> 32"
  shows "\<exists>q' s'. uart_rx_turns chunks (q, s) = Some (q', s') \<and> rx_wf (sh_mailbox s') \<and> parse_state q' = WaitingForStart
    \<and> rx_content (sh_mailbox s') = rx_content (sh_mailbox s) + mset (map (\<lambda>(g, w). (w, mavlink_rx_priority (w ! 5))) items)"
proof -
  from clean_stream [OF assms(1,3,4)] obtain q' where q': "parse_state q' = WaitingForStart"
    "feed_bytes q (concat chunks) = Some (q', map (frame_of_wire \<circ> snd) items)" by (auto simp: assms(2))
  have "length w = 8 + unat (w ! 1) \<and> 8 \<le> length w" if "(g, w) \<in> set items" for g w
    using assms(1) that by (auto simp: list_all_iff valid_wire_def)
  then have len: "8 \<le> length w \<and> length w \<le> 280" if "(g, w) \<in> set items" for g w
    using that unat_u8 [of "w ! 1"] by fastforce
  then have "\<forall>f \<in> set (map (frame_of_wire \<circ> snd) items). cf_len f \<le> 280" by (fastforce simp: frame_of_wire_def)
  from uart_rx_turns_feed [OF q'(2) assms(5) this] assms(6) obtain s' where
    s': "uart_rx_turns chunks (q, s) = Some (q', s')" "rx_wf (sh_mailbox s')"
      "rx_content (sh_mailbox s') = rx_content (sh_mailbox s) + mset (map frame_of_complete (map (frame_of_wire \<circ> snd) items))"
    by auto
  have "frame_of_complete (frame_of_wire w) = (w, mavlink_rx_priority (w ! 5))" if "(g, w) \<in> set items" for g w
    using len [OF that] by (simp add: frame_of_complete_def frame_of_wire_def nth_append)
  then have "map frame_of_complete (map (frame_of_wire \<circ> snd) items) = map (\<lambda>(g, w). (w, mavlink_rx_priority (w ! 5))) items"
    by auto
  with s'(3) have "rx_content (sh_mailbox s') = rx_content (sh_mailbox s) + mset (map (\<lambda>(g, w). (w, mavlink_rx_priority (w ! 5))) items)"
    by (simp only:)
  with s'(1,2) q'(1) show ?thesis by blast
qed

theorem second_core_forwards_clean_stream_witness:
  "\<exists>q' s'. uart_rx_turns [take 16 heartbeat_wire, drop 16 heartbeat_wire] (mavlink_parser_new, new_mailbox) = Some (q', s')
    \<and> rx_content (sh_mailbox s') = {#(heartbeat_wire, CRITICAL_PRIORITY)#}"
proof -
  have "mavlink_rx_priority (heartbeat_wire ! 5) = CRITICAL_PRIORITY" by (simp add: heartbeat_wire_def mavlink_rx_priority_def)
  then show ?thesis
    using second_core_forwards_clean_stream [of "[([], heartbeat_wire)]" "[take 16 heartbeat_wire, drop 16 heartbeat_wire]"
        mavlink_parser_new new_mailbox] heartbeat_valid
    by (simp add: new_mailbox_ok mavlink_parser_new_def MAX_FRAME_SIZE_BYTES_def) blast
qed

section \<open>To the ground\<close>

lemma pico_send:
  "send_downlink_or_message D (pico_serial P) system_id msg m p (l, s) = Some (l, snd (enqueue_downlink system_id msg p s))"
  by (simp add: send_downlink_or_message_def pico_serial_def case_prod_beta)

lemma enqueue_mailbox:
  assumes "wf_downlink (sh_mailbox s)"
  shows "dl_abs (sh_mailbox (snd (enqueue_downlink system_id msg p s)))
      = snd (dl_push \<lparr>qd_system_id = system_id, qd_msg = msg\<rparr> p (dl_abs (sh_mailbox s)))"
    and "wf_downlink (sh_mailbox (snd (enqueue_downlink system_id msg p s)))"
proof -
  let ?r = "push_downlink_message \<lparr>qd_system_id = system_id, qd_msg = msg\<rparr> p (sh_mailbox s)"
  have eq: "sh_mailbox (snd (enqueue_downlink system_id msg p s)) = snd ?r
      \<or> (\<exists>t. sh_mailbox (snd (enqueue_downlink system_id msg p s)) = (snd ?r)\<lparr>mb_stats := t\<rparr>)"
    by (auto simp: enqueue_downlink_def update_stats_def Let_def case_prod_beta)
  have "dl_abs (m\<lparr>mb_stats := t\<rparr>) = dl_abs m" "wf_downlink (m\<lparr>mb_stats := t\<rparr>) = wf_downlink m" for m t
    by (simp_all add: dl_abs_def wf_downlink_def)
  moreover have "dl_abs (snd ?r) = snd (dl_push \<lparr>qd_system_id = system_id, qd_msg = msg\<rparr> p (dl_abs (sh_mailbox s)))"
    "wf_downlink (snd ?r)"
    using push_downlink_refines [OF assms, of "\<lparr>qd_system_id = system_id, qd_msg = msg\<rparr>" p]
    by (simp_all add: case_prod_beta) (metis snd_conv)
  ultimately show "dl_abs (sh_mailbox (snd (enqueue_downlink system_id msg p s)))
      = snd (dl_push \<lparr>qd_system_id = system_id, qd_msg = msg\<rparr> p (dl_abs (sh_mailbox s)))"
    "wf_downlink (sh_mailbox (snd (enqueue_downlink system_id msg p s)))"
    using eq by auto
qed

text \<open>
  C18. On the RP2350 the send methods put each message where the mailbox keeps it: those of the ten
  telemetry streams replace the waiting message of their stream and are never refused; every other
  waits in the queue of critical messages, and when 64 wait there it is lost and the link, which
  returns as if it had been sent, keeps no trace of it.
\<close>

theorem messages_go_to_their_queue:
  assumes "wf_downlink (sh_mailbox s)"
  shows "\<exists>s'. link_send D (pico_serial P) system_id msg (l, s) = Some (l, s') \<and> wf_downlink (sh_mailbox s')
    \<and> dl_abs (sh_mailbox s') = (case dl_abs (sh_mailbox s) of (critical, telemetry) \<Rightarrow>
        (case downlink_telemetry_stream msg of
           Some stream \<Rightarrow> (critical, AList.update stream \<lparr>qd_system_id = system_id, qd_msg = msg\<rparr> telemetry)
         | None \<Rightarrow> if length critical < 64 then (critical @ [\<lparr>qd_system_id = system_id, qd_msg = msg\<rparr>], telemetry)
             else (critical, telemetry)))"
proof -
  have "link_send D (pico_serial P) system_id msg (l, s) = Some (l, snd (enqueue_downlink system_id msg
      (if downlink_telemetry_stream msg = None then CRITICAL_PRIORITY else REPLACEABLE_TELEMETRY) s))"
    by (cases msg) (simp_all add: link_send_defs pico_send)
  then show ?thesis
    using enqueue_mailbox [OF assms, of system_id msg]
    by (auto simp: dl_push_def CRITICAL_PRIORITY_def REPLACEABLE_TELEMETRY_def case_prod_beta split: option.splits)
qed

theorem messages_go_to_their_queue_witness:
  "\<exists>s'. link_send heartbeat_dialect (pico_serial silent_pipe) 1 (DlHeartbeat heartbeat_msg_zero) (mavlink_interface_new, new_mailbox)
      = Some (mavlink_interface_new, s')
    \<and> dl_abs (sh_mailbox s') = ([\<lparr>qd_system_id = 1, qd_msg = DlHeartbeat heartbeat_msg_zero\<rparr>], [])"
  using messages_go_to_their_queue [OF new_mailbox_ok(3), of heartbeat_dialect silent_pipe 1 "DlHeartbeat heartbeat_msg_zero"
      mavlink_interface_new]
  by (simp add: new_mailbox_ok) (elim ex_forward conjE, intro conjI)

section \<open>The second core takes something in every turn\<close>

definition dl_waiting :: "mavlink_mailbox \<Rightarrow> nat" where
  "dl_waiting m = length (dq_items (downlink_critical m)) + length (dq_items (downlink_telemetry_ready m))"

definition tx_waiting :: "mavlink_mailbox \<Rightarrow> nat" where
  "tx_waiting m = fs_len (mb_tx m) + dl_waiting m"

lemma pop_tx_takes:
  assumes "tx_wf m" "fs_len (mb_tx m) \<noteq> 0" "263 \<le> length out"
  shows "fs_len (mb_tx (snd (snd (pop_tx_frame out m)))) < fs_len (mb_tx m)"
  using slot_length [OF assms(1) [unfolded tx_wf_def] conjunct1 [OF highest_slot_max [OF assms(2)]]] assms(2,3)
  by (simp add: pop_tx_frame_def remove_slot_def Let_def MAVLINK_V1_MAX_FRAME_BYTES_def)

lemma pop_tx_shape:
  "tx_wf m \<Longrightarrow> length (fst (snd (pop_tx_frame out m))) = length out"
  "fs_len (mb_tx (snd (snd (pop_tx_frame out m)))) \<le> fs_len (mb_tx m)"
  "downlink_critical (snd (snd (pop_tx_frame out m))) = downlink_critical m"
  "downlink_telemetry_ready (snd (snd (pop_tx_frame out m))) = downlink_telemetry_ready m"
proof -
  show "length (fst (snd (pop_tx_frame out m))) = length out" if "tx_wf m"
    using slot_length [OF that [unfolded tx_wf_def], of "highest_slot (mb_tx m)"] highest_slot_max [of "mb_tx m"]
    by (auto simp: pop_tx_frame_def Let_def)
qed (simp_all add: pop_tx_frame_def remove_slot_def Let_def)

lemma drain_shape:
  assumes "mailbox_ok m" "taken \<le> length out"
  shows "length (fst (snd (drain_tx_loop taken out m))) = length out
    \<and> fs_len (mb_tx (snd (snd (drain_tx_loop taken out m)))) \<le> fs_len (mb_tx m)
    \<and> downlink_critical (snd (snd (drain_tx_loop taken out m))) = downlink_critical m
    \<and> downlink_telemetry_ready (snd (snd (drain_tx_loop taken out m))) = downlink_telemetry_ready m
    \<and> fst (drain_tx_loop taken out m) \<le> length out"
  using assms
proof (induction taken out m rule: drain_tx_loop.induct)
  case (1 taken out m)
  obtain n rest m1 where p: "pop_tx_frame (drop taken out) m = (n, rest, m1)" by (metis prod_cases3)
  have wf: "tx_wf m" using "1.prems" by (simp add: mailbox_ok_def)
  have ok: "mailbox_ok m1" using pop_tx_ok [OF "1.prems"(1), of "drop taken out"] by (simp add: p)
  have shape: "length rest = length out - taken" "fs_len (mb_tx m1) \<le> fs_len (mb_tx m)"
    "downlink_critical m1 = downlink_critical m" "downlink_telemetry_ready m1 = downlink_telemetry_ready m"
    using pop_tx_shape(1) [OF wf, of "drop taken out"] pop_tx_shape(2-4) [of "drop taken out" m] by (simp_all add: p)
  have n: "n \<le> length out - taken" using p by (auto simp: pop_tx_frame_def Let_def split: if_splits)
  have step: "drain_tx_loop taken out m = (if taken < length out then if n = 0 then (taken, take taken out @ rest, m1)
      else drain_tx_loop (taken + n) (take taken out @ rest) m1 else (taken, out, m))"
    by (subst drain_tx_loop.simps) (simp add: p)
  have len: "length (take taken out @ rest) = length out" using "1.prems"(2) shape(1) by simp
  show ?case
  proof (cases "taken < length out \<and> n \<noteq> 0")
    case True
    then have "taken + n \<le> length (take taken out @ rest)" using n len by simp
    from "1.IH" [OF conjunct1 [OF True] refl p [symmetric] refl conjunct2 [OF True] ok this] True show ?thesis
      unfolding step using len shape(2-4) by simp
  next
    case False
    then show ?thesis unfolding step using len shape "1.prems"(2) by auto
  qed
qed

lemma waiting_stats [simp]:
  "tx_waiting (sh_mailbox (update_stats f s)) = tx_waiting (sh_mailbox s)"
  "dl_waiting (sh_mailbox (update_stats f s)) = dl_waiting (sh_mailbox s)"
  "mb_tx (sh_mailbox (update_stats f s)) = mb_tx (sh_mailbox s)"
  by (simp_all add: tx_waiting_def dl_waiting_def update_stats_def)

lemma pop_downlink_takes:
  "dl_waiting (snd (pop_downlink_message m)) \<le> dl_waiting m - 1"
  "dl_waiting m = 0 \<Longrightarrow> fst (pop_downlink_message m) = None"
proof -
  have tele: "length (dq_items (downlink_telemetry_ready (snd (pop_telemetry m)))) \<le> length (dq_items (downlink_telemetry_ready m)) - 1
    \<and> downlink_critical (snd (pop_telemetry m)) = downlink_critical m" for m
    by (induction m rule: pop_telemetry.induct, subst (1 2) pop_telemetry.simps)
      (auto simp: deque_pop_front_def split: prod.splits list.splits option.splits)
  show "dl_waiting (snd (pop_downlink_message m)) \<le> dl_waiting m - 1"
    using tele [of m] by (auto simp: pop_downlink_message_def deque_pop_front_def dl_waiting_def split: list.splits)
  show "dl_waiting m = 0 \<Longrightarrow> fst (pop_downlink_message m) = None"
    by (subst pop_downlink_message_def, subst pop_telemetry.simps) (simp add: deque_pop_front_def dl_waiting_def)
qed

lemma sh_pop_takes:
  assumes "sh_pop_downlink_message s = (r, s2)"
  shows "fs_len (mb_tx (sh_mailbox s2)) = fs_len (mb_tx (sh_mailbox s))"
    "dl_waiting (sh_mailbox s2) \<le> dl_waiting (sh_mailbox s) - 1"
    "dl_waiting (sh_mailbox s) = 0 \<Longrightarrow> r = None" "mailbox_ok (sh_mailbox s) \<Longrightarrow> mailbox_ok (sh_mailbox s2)"
  using assms pop_downlink_takes [of "sh_mailbox s"] pop_downlink_ok [of "sh_mailbox s"]
  by (auto simp: sh_pop_downlink_message_def Let_def case_prod_beta downlink_frames split: if_splits)

lemma drain_takes:
  assumes "mailbox_ok m" "fs_len (mb_tx m) \<noteq> 0" "263 \<le> length out"
  shows "fs_len (mb_tx (snd (snd (drain_tx_loop 0 out m)))) < fs_len (mb_tx m)"
proof -
  obtain n rest m1 where p: "pop_tx_frame out m = (n, rest, m1)" by (metis prod_cases3)
  have wf: "tx_wf m" using assms(1) by (simp add: mailbox_ok_def)
  have less: "fs_len (mb_tx m1) < fs_len (mb_tx m)" using pop_tx_takes [OF wf assms(2,3)] by (simp add: p)
  have ok: "mailbox_ok m1" using pop_tx_ok [OF assms(1), of out] by (simp add: p)
  have n: "n \<le> length rest" using p pop_tx_shape(1) [OF wf, of out] by (auto simp: pop_tx_frame_def Let_def split: if_splits)
  have "out \<noteq> []" using assms(3) by auto
  then show ?thesis
    using less drain_shape [OF ok n] by (subst drain_tx_loop.simps) (auto simp: p)
qed

lemma encode_keeps_length: "length (fst (snd (encode_downlink D system_id msg out e))) = length out"
  by (auto simp: encode_downlink_def encode_message_def frame_builder_def encode_frame_def frame_bytes_def Let_def
      split: option.splits)

text \<open>
  The second core makes progress in every turn, whatever waits: with its buffer of 512 bytes a turn
  of the transmitting task takes at least one frame or one message out of a mailbox that holds any;
  when nothing waits it writes nothing. The buffer keeps its size, so that the next turn starts as
  this one did, and a mailbox is empty after as many turns as entries waited.
\<close>

theorem second_core_drains:
  assumes "mailbox_ok (sh_mailbox s)" "length tx = UART_TX_BATCH_BYTES"
    and "uart_tx_turn D write_ok tx e s = (written, tx', e', s')"
  shows "length tx' = UART_TX_BATCH_BYTES \<and> mailbox_ok (sh_mailbox s')
    \<and> tx_waiting (sh_mailbox s') \<le> tx_waiting (sh_mailbox s) - 1 \<and> (tx_waiting (sh_mailbox s) = 0 \<longrightarrow> written = None)"
proof -
  obtain n tx1 m1 where d: "drain_tx_loop 0 tx (sh_mailbox s) = (n, tx1, m1)" by (metis prod_cases3)
  have buf: "263 \<le> length tx" using assms(2) by (simp add: UART_TX_BATCH_BYTES_def)
  have shape: "length tx1 = length tx" "fs_len (mb_tx m1) \<le> fs_len (mb_tx (sh_mailbox s))"
    "downlink_critical m1 = downlink_critical (sh_mailbox s)"
    "downlink_telemetry_ready m1 = downlink_telemetry_ready (sh_mailbox s)"
    using drain_shape [OF assms(1), of 0 tx] by (simp_all add: d)
  have ok1: "mailbox_ok m1" using drain_ok [OF assms(1), of 0 tx] by (simp add: d)
  have less: "fs_len (mb_tx m1) \<le> fs_len (mb_tx (sh_mailbox s)) - 1"
    using drain_takes [OF assms(1) _ buf] shape(2) by (cases "fs_len (mb_tx (sh_mailbox s))") (auto simp: d)
  have idle: "n = 0" if "fs_len (mb_tx (sh_mailbox s)) = 0"
    using d that by (subst (asm) drain_tx_loop.simps) (auto simp: pop_tx_frame_def split: if_splits)
  define s1 where "s1 = update_stats (\<lambda>t. t\<lparr>tx_drained := tx_drained t + word_of_nat n\<rparr>) (s\<lparr>sh_mailbox := m1\<rparr>)"
  have drained: "drain_tx_batch_into tx s = (n, tx1, s1)" by (simp add: drain_tx_batch_into_def d s1_def)
  have s1: "fs_len (mb_tx (sh_mailbox s1)) = fs_len (mb_tx m1)" "dl_waiting (sh_mailbox s1) = dl_waiting (sh_mailbox s)"
    "mailbox_ok (sh_mailbox s1)"
    using shape(3,4) by (simp_all add: s1_def ok1) (simp add: dl_waiting_def)
  show ?thesis
  proof (cases "n = 0")
    case False
    then have turn: "tx' = tx1" "mailbox_ok (sh_mailbox s') = mailbox_ok (sh_mailbox s1)"
      "tx_waiting (sh_mailbox s') = tx_waiting (sh_mailbox s1)"
      using assms(3) by (auto simp: uart_tx_turn_def drained record_uart_tx_batch_def record_uart_tx_error_def split: if_splits)
    have "fs_len (mb_tx (sh_mailbox s)) \<noteq> 0" using idle False by blast
    then show ?thesis using turn s1 shape less assms(2) by (simp add: tx_waiting_def)
  next
    case True
    obtain r s2 where q: "sh_pop_downlink_message s1 = (r, s2)" by fastforce
    note pop = sh_pop_takes [OF q]
    have turn: "length tx' = length tx1" "mailbox_ok (sh_mailbox s') = mailbox_ok (sh_mailbox s2)"
      "tx_waiting (sh_mailbox s') = tx_waiting (sh_mailbox s2)" "r = None \<Longrightarrow> written = None"
      using assms(3) True encode_keeps_length
      by (auto simp: uart_tx_turn_def drained q record_uart_tx_batch_def record_uart_tx_error_def Let_def case_prod_beta
          split: if_splits option.splits)
    have "tx_waiting (sh_mailbox s2) \<le> tx_waiting (sh_mailbox s) - 1"
      using pop(1,2) s1(1,2) less by (simp add: tx_waiting_def)
    moreover have "tx_waiting (sh_mailbox s) = 0 \<Longrightarrow> written = None"
      using pop(3) s1(2) turn(4) by (simp add: tx_waiting_def)
    ultimately show ?thesis using turn pop(4) s1(3) shape(1) assms(2) by simp
  qed
qed

theorem second_core_drains_witness:
  "uart_tx_turn heartbeat_dialect True (replicate 512 0) frame_encoder_new new_mailbox
    = (None, snd (uart_tx_turn heartbeat_dialect True (replicate 512 0) frame_encoder_new new_mailbox))"
proof -
  obtain w tx' e' s' where t: "uart_tx_turn heartbeat_dialect True (replicate 512 0) frame_encoder_new new_mailbox = (w, tx', e', s')"
    by (metis prod_cases4)
  have "tx_waiting (sh_mailbox new_mailbox) = 0"
    by (simp add: tx_waiting_def dl_waiting_def new_mailbox_def mavlink_mailbox_new_def frame_slots_new_def deque_new_def)
  with second_core_drains [OF new_mailbox_ok(1) _ t] show ?thesis by (simp add: t UART_TX_BATCH_BYTES_def)
qed

end
