(* ===== verification/Latest_Queue.thy ===== *)
theory Latest_Queue
  imports Sensor_Processors
begin

text \<open>
  The rings through which the second core of the RP2350 hands sensor packets to the first:
  \<^verbatim>\<open>Ism330dhcxImuQueue\<close>, \<^verbatim>\<open>GnssQueue\<close>, \<^verbatim>\<open>CrsfRcQueue\<close> and \<^verbatim>\<open>BaroQueue\<close> of \<^verbatim>\<open>platforms/rp2350/src/peripherals\<close>.
  The four have the same code for packets of different types and capacities, so the operations take
  the capacity; taking the latest packet drops the others. Each operation runs in a critical
  section and is one step.
\<close>

section \<open>The ring\<close>

record 'a packet_ring =
  rq_packets :: "'a list"
  rq_head :: nat
  rq_len :: nat
  rq_dropped_oldest :: u32

definition ring_new :: "nat \<Rightarrow> 'a \<Rightarrow> 'a packet_ring" where
  "ring_new capacity blank = \<lparr>rq_packets = replicate capacity blank, rq_head = 0, rq_len = 0, rq_dropped_oldest = 0\<rparr>"

definition ring_push :: "nat \<Rightarrow> 'a \<Rightarrow> 'a packet_ring \<Rightarrow> 'a packet_ring" where
  "ring_push capacity packet q =
    (let q1 = (if rq_len q = capacity
         then q\<lparr>rq_head := (rq_head q + 1) mod capacity, rq_len := rq_len q - 1,
                rq_dropped_oldest := rq_dropped_oldest q + 1\<rparr>
         else q);
       tail = (rq_head q1 + rq_len q1) mod capacity
     in q1\<lparr>rq_packets := (rq_packets q1)[tail := packet], rq_len := rq_len q1 + 1\<rparr>)"

definition ring_take_latest :: "nat \<Rightarrow> 'a packet_ring \<Rightarrow> 'a option \<times> 'a packet_ring" where
  "ring_take_latest capacity q =
    (if rq_len q = 0 then (None, q)
     else (let latest = (rq_head q + rq_len q - 1) mod capacity
       in (Some (rq_packets q ! latest), q\<lparr>rq_head := (latest + 1) mod capacity, rq_len := 0\<rparr>)))"

text \<open>The queue of the barometer starts again at the first slot.\<close>

definition ring_take_latest_restart :: "nat \<Rightarrow> 'a packet_ring \<Rightarrow> 'a option \<times> 'a packet_ring" where
  "ring_take_latest_restart capacity q =
    (if rq_len q = 0 then (None, q)
     else (let index = (rq_head q + rq_len q - 1) mod capacity
       in (Some (rq_packets q ! index), q\<lparr>rq_head := 0, rq_len := 0\<rparr>)))"

definition ring_has_pending :: "'a packet_ring \<Rightarrow> bool" where
  "ring_has_pending q \<longleftrightarrow> rq_len q \<noteq> 0"

section \<open>The four queues\<close>

definition IMU_QUEUE_CAPACITY :: nat where "IMU_QUEUE_CAPACITY = 8"
definition GPS_QUEUE_CAPACITY :: nat where "GPS_QUEUE_CAPACITY = 4"
definition RC_QUEUE_CAPACITY :: nat where "RC_QUEUE_CAPACITY = 4"
definition BARO_QUEUE_CAPACITY :: nat where "BARO_QUEUE_CAPACITY = 4"

definition EMPTY_IMU_PACKET :: "32 imu_packet" where
  "EMPTY_IMU_PACKET = \<lparr>imu_header = packet_header_default, imu_accel = [0, 0, 0], imu_gyro = [0, 0, 0],
     imu_temperature = 0, imu_seq = 0\<rparr>"

definition EMPTY_GNSS_PACKET :: gnss_packet where
  "EMPTY_GNSS_PACKET = \<lparr>gnss_header = packet_header_default, unix_seconds = 0, unix_nanos = 0, gnss_lat = 0,
     gnss_lon = 0, height_msl = 0, vel_n = 0, vel_e = 0, vel_d = 0, h_acc = 0, v_acc = 0, s_acc = 0,
     gnss_month = 0, gnss_year = 0, gnss_day = 0, gnss_hour = 0, gnss_min = 0, gnss_sec = 0, gnss_nano = 0,
     fix_type = NoFix, num_sats = 0, mag_dec = 0, time_correction = 0\<rparr>"

definition EMPTY_RC_PACKET :: rc_packet where
  "EMPTY_RC_PACKET = \<lparr>rcp_header = packet_header_default, n_chan = 0, rcp_chan = replicate RC_PACKET_CHANNELS 0, lol = True\<rparr>"

definition EMPTY_BARO_PACKET :: "sensor_error + baro_packet" where
  "EMPTY_BARO_PACKET = Inr \<lparr>baro_header = packet_header_default, baro_pressure = 0, baro_temperature = 0, baro_altitude = 0\<rparr>"

definition imu_queue_new :: "32 imu_packet packet_ring" where
  "imu_queue_new = ring_new IMU_QUEUE_CAPACITY EMPTY_IMU_PACKET"
definition imu_queue_push :: "32 imu_packet \<Rightarrow> 32 imu_packet packet_ring \<Rightarrow> 32 imu_packet packet_ring" where
  "imu_queue_push = ring_push IMU_QUEUE_CAPACITY"
definition imu_queue_take_latest :: "32 imu_packet packet_ring \<Rightarrow> 32 imu_packet option \<times> 32 imu_packet packet_ring" where
  "imu_queue_take_latest = ring_take_latest IMU_QUEUE_CAPACITY"

definition gnss_queue_new :: "(sensor_error + gnss_packet) packet_ring" where
  "gnss_queue_new = ring_new GPS_QUEUE_CAPACITY (Inr EMPTY_GNSS_PACKET)"
definition gnss_queue_push :: "sensor_error + gnss_packet \<Rightarrow> (sensor_error + gnss_packet) packet_ring
    \<Rightarrow> (sensor_error + gnss_packet) packet_ring" where
  "gnss_queue_push = ring_push GPS_QUEUE_CAPACITY"
definition gnss_queue_take_latest :: "(sensor_error + gnss_packet) packet_ring
    \<Rightarrow> (sensor_error + gnss_packet) option \<times> (sensor_error + gnss_packet) packet_ring" where
  "gnss_queue_take_latest = ring_take_latest GPS_QUEUE_CAPACITY"

definition crsf_queue_new :: "rc_packet packet_ring" where
  "crsf_queue_new = ring_new RC_QUEUE_CAPACITY EMPTY_RC_PACKET"
definition crsf_queue_push :: "rc_packet \<Rightarrow> rc_packet packet_ring \<Rightarrow> rc_packet packet_ring" where
  "crsf_queue_push = ring_push RC_QUEUE_CAPACITY"
definition crsf_queue_take_latest :: "rc_packet packet_ring \<Rightarrow> rc_packet option \<times> rc_packet packet_ring" where
  "crsf_queue_take_latest = ring_take_latest RC_QUEUE_CAPACITY"

definition baro_queue_new :: "(sensor_error + baro_packet) packet_ring" where
  "baro_queue_new = ring_new BARO_QUEUE_CAPACITY EMPTY_BARO_PACKET"
definition baro_queue_push :: "sensor_error + baro_packet \<Rightarrow> (sensor_error + baro_packet) packet_ring
    \<Rightarrow> (sensor_error + baro_packet) packet_ring" where
  "baro_queue_push = ring_push BARO_QUEUE_CAPACITY"
definition baro_queue_take_latest :: "(sensor_error + baro_packet) packet_ring
    \<Rightarrow> (sensor_error + baro_packet) option \<times> (sensor_error + baro_packet) packet_ring" where
  "baro_queue_take_latest = ring_take_latest_restart BARO_QUEUE_CAPACITY"

section \<open>A channel that gives the newest value\<close>

locale latest_channel =
  fixes wf :: "'s \<Rightarrow> bool"
    and pending :: "'s \<Rightarrow> 'a list"
    and push :: "'a \<Rightarrow> 's \<Rightarrow> 's"
    and take_latest :: "'s \<Rightarrow> 'a option \<times> 's"
    and room :: nat
  assumes push_wf: "wf s \<Longrightarrow> wf (push x s)"
    and push_pending: "wf s \<Longrightarrow> pending (push x s) = (if length (pending s) = room then tl (pending s) else pending s) @ [x]"
    and take_wf: "wf s \<Longrightarrow> wf (snd (take_latest s))"
    and take_value: "wf s \<Longrightarrow> fst (take_latest s) = (if pending s = [] then None else Some (last (pending s)))"
    and take_empties: "wf s \<Longrightarrow> pending (snd (take_latest s)) = []"
begin

lemma pushes_wf: "wf s \<Longrightarrow> wf (fold push xs s)"
  by (induction xs arbitrary: s) (simp_all add: push_wf)

lemma last_push: "wf s \<Longrightarrow> fst (take_latest (push x s)) = Some x"
  by (simp add: take_value push_wf push_pending)

lemma newest_wins:
  assumes "wf s" "xs \<noteq> []"
  shows "fst (take_latest (fold push xs s)) = Some (last xs)"
proof -
  have "fold push xs s = push (last xs) (fold push (butlast xs) s)"
    using assms(2) by (metis append_butlast_last_id fold_Cons fold_Nil fold_append comp_apply id_apply)
  then show ?thesis by (simp add: last_push pushes_wf assms(1))
qed

lemma taken_once:
  assumes "wf s"
  shows "fst (take_latest (snd (take_latest s))) = None"
  using take_value [OF take_wf [OF assms]] take_empties [OF assms] by simp

end

section \<open>The ring is such a channel\<close>

definition wf_ring :: "nat \<Rightarrow> 'a packet_ring \<Rightarrow> bool" where
  "wf_ring capacity q \<longleftrightarrow> 0 < capacity \<and> length (rq_packets q) = capacity \<and> rq_head q < capacity \<and> rq_len q \<le> capacity"

definition ring_pending :: "nat \<Rightarrow> 'a packet_ring \<Rightarrow> 'a list" where
  "ring_pending capacity q = map (\<lambda>i. rq_packets q ! ((rq_head q + i) mod capacity)) [0..<rq_len q]"

lemma ring_pending_length [simp]: "length (ring_pending capacity q) = rq_len q"
  by (simp add: ring_pending_def)

lemma ring_index_inj:
  assumes "i < (capacity :: nat)" "j < capacity" "(h + i) mod capacity = (h + j) mod capacity"
  shows "i = j"
proof -
  have le: "a = b" if "a \<le> b" "b < capacity" "(h + a) mod capacity = (h + b) mod capacity" for a b
  proof -
    have "capacity dvd (h + b) - (h + a)" using that(1) mod_eq_dvd_iff_nat [of "h + a" "h + b" capacity] that(3) by simp
    then have "capacity dvd b - a" by simp
    then show ?thesis using that(1,2) by (metis diff_is_0_eq dvd_imp_le le_antisym less_imp_diff_less linorder_not_le zero_less_iff_neq_zero)
  qed
  show ?thesis using le [of i j] le [of j i] assms by (cases "i \<le> j") simp_all
qed

lemma ring_push_room:
  assumes "wf_ring capacity q" "rq_len q < capacity"
  shows "ring_pending capacity (q\<lparr>rq_packets := (rq_packets q)[(rq_head q + rq_len q) mod capacity := x], rq_len := rq_len q + 1\<rparr>)
    = ring_pending capacity q @ [x]"
proof (rule nth_equalityI)
  fix i assume i: "i < length (ring_pending capacity (q\<lparr>rq_packets := (rq_packets q)[(rq_head q + rq_len q) mod capacity := x],
      rq_len := rq_len q + 1\<rparr>))"
  have "(rq_head q + i) mod capacity \<noteq> (rq_head q + rq_len q) mod capacity" if "i < rq_len q"
    using ring_index_inj [of i capacity "rq_len q" "rq_head q"] assms that by (auto simp: wf_ring_def)
  then show "ring_pending capacity (q\<lparr>rq_packets := (rq_packets q)[(rq_head q + rq_len q) mod capacity := x], rq_len := rq_len q + 1\<rparr>) ! i
    = (ring_pending capacity q @ [x]) ! i"
    using i assms by (cases "i = rq_len q") (auto simp: ring_pending_def nth_append wf_ring_def simp del: upt_Suc)
qed simp

lemma ring_drop_oldest:
  assumes "wf_ring capacity q" "rq_len q = capacity"
  shows "ring_pending capacity (q\<lparr>rq_head := (rq_head q + 1) mod capacity, rq_len := rq_len q - 1, rq_dropped_oldest := d\<rparr>)
    = tl (ring_pending capacity q)"
  by (rule nth_equalityI) (simp_all add: ring_pending_def nth_tl mod_simps less_diff_conv)

lemma ring_push_law:
  assumes "wf_ring capacity q"
  shows "wf_ring capacity (ring_push capacity x q)"
    "ring_pending capacity (ring_push capacity x q)
      = (if length (ring_pending capacity q) = capacity then tl (ring_pending capacity q) else ring_pending capacity q) @ [x]"
proof -
  let ?q = "if rq_len q = capacity then q\<lparr>rq_head := (rq_head q + 1) mod capacity, rq_len := rq_len q - 1,
      rq_dropped_oldest := rq_dropped_oldest q + 1\<rparr> else q"
  have wf: "wf_ring capacity ?q" "rq_len ?q < capacity" using assms by (auto simp: wf_ring_def)
  have pend: "ring_pending capacity ?q = (if length (ring_pending capacity q) = capacity then tl (ring_pending capacity q) else ring_pending capacity q)"
    using ring_drop_oldest [OF assms] by simp
  have push: "ring_push capacity x q = ?q\<lparr>rq_packets := (rq_packets ?q)[(rq_head ?q + rq_len ?q) mod capacity := x], rq_len := rq_len ?q + 1\<rparr>"
    by (simp only: ring_push_def Let_def)
  show "wf_ring capacity (ring_push capacity x q)"
    unfolding push using wf by (auto simp: wf_ring_def)
  show "ring_pending capacity (ring_push capacity x q)
      = (if length (ring_pending capacity q) = capacity then tl (ring_pending capacity q) else ring_pending capacity q) @ [x]"
    unfolding push ring_push_room [OF wf] pend ..
qed

lemma ring_last:
  assumes "rq_len q \<noteq> 0"
  shows "rq_packets q ! ((rq_head q + rq_len q - 1) mod capacity) = last (ring_pending capacity q)"
  using assms by (subst last_conv_nth) (auto simp: ring_pending_def)

lemma ring_pending_Nil: "ring_pending capacity q = [] \<longleftrightarrow> rq_len q = 0"
  by (simp add: ring_pending_def)

lemma ring_take_law:
  assumes "wf_ring capacity q"
  shows "wf_ring capacity (snd (ring_take_latest capacity q))" "ring_pending capacity (snd (ring_take_latest capacity q)) = []"
    "fst (ring_take_latest capacity q) = (if ring_pending capacity q = [] then None else Some (last (ring_pending capacity q)))"
    "wf_ring capacity (snd (ring_take_latest_restart capacity q))" "ring_pending capacity (snd (ring_take_latest_restart capacity q)) = []"
    "fst (ring_take_latest_restart capacity q) = (if ring_pending capacity q = [] then None else Some (last (ring_pending capacity q)))"
  using assms ring_last [of q capacity]
  by (simp_all add: ring_take_latest_def ring_take_latest_restart_def wf_ring_def ring_pending_Nil Let_def)

lemma wf_ring_new: "0 < capacity \<Longrightarrow> wf_ring capacity (ring_new capacity x)" "ring_pending capacity (ring_new capacity x) = []"
  by (simp_all add: wf_ring_def ring_new_def ring_pending_def)

interpretation imu_ring: latest_channel "wf_ring IMU_QUEUE_CAPACITY" "ring_pending IMU_QUEUE_CAPACITY" imu_queue_push
  imu_queue_take_latest IMU_QUEUE_CAPACITY
  by unfold_locales (simp_all add: imu_queue_push_def imu_queue_take_latest_def ring_push_law ring_take_law)

interpretation gnss_ring: latest_channel "wf_ring GPS_QUEUE_CAPACITY" "ring_pending GPS_QUEUE_CAPACITY" gnss_queue_push
  gnss_queue_take_latest GPS_QUEUE_CAPACITY
  by unfold_locales (simp_all add: gnss_queue_push_def gnss_queue_take_latest_def ring_push_law ring_take_law)

interpretation crsf_ring: latest_channel "wf_ring RC_QUEUE_CAPACITY" "ring_pending RC_QUEUE_CAPACITY" crsf_queue_push
  crsf_queue_take_latest RC_QUEUE_CAPACITY
  by unfold_locales (simp_all add: crsf_queue_push_def crsf_queue_take_latest_def ring_push_law ring_take_law)

interpretation baro_ring: latest_channel "wf_ring BARO_QUEUE_CAPACITY" "ring_pending BARO_QUEUE_CAPACITY" baro_queue_push
  baro_queue_take_latest BARO_QUEUE_CAPACITY
  by unfold_locales (simp_all add: baro_queue_push_def baro_queue_take_latest_def ring_push_law ring_take_law)

text \<open>
  The first core sees the newest packet of each sensor and sees it once: after any number of
  packets of the IMU, the GNSS receiver, the radio and the barometer, in rings that also overflow,
  taking gives the last one pushed, and taking again gives none.
\<close>

theorem newest_packet_is_taken_once:
  assumes "ms \<noteq> []" "gs \<noteq> []" "cs \<noteq> []" "bs \<noteq> []"
  shows "fst (imu_queue_take_latest (fold imu_queue_push ms imu_queue_new)) = Some (last ms)
    \<and> fst (imu_queue_take_latest (snd (imu_queue_take_latest (fold imu_queue_push ms imu_queue_new)))) = None
    \<and> fst (gnss_queue_take_latest (fold gnss_queue_push gs gnss_queue_new)) = Some (last gs)
    \<and> fst (gnss_queue_take_latest (snd (gnss_queue_take_latest (fold gnss_queue_push gs gnss_queue_new)))) = None
    \<and> fst (crsf_queue_take_latest (fold crsf_queue_push cs crsf_queue_new)) = Some (last cs)
    \<and> fst (crsf_queue_take_latest (snd (crsf_queue_take_latest (fold crsf_queue_push cs crsf_queue_new)))) = None
    \<and> fst (baro_queue_take_latest (fold baro_queue_push bs baro_queue_new)) = Some (last bs)
    \<and> fst (baro_queue_take_latest (snd (baro_queue_take_latest (fold baro_queue_push bs baro_queue_new)))) = None"
proof -
  have wf: "wf_ring IMU_QUEUE_CAPACITY imu_queue_new" "wf_ring GPS_QUEUE_CAPACITY gnss_queue_new"
    "wf_ring RC_QUEUE_CAPACITY crsf_queue_new" "wf_ring BARO_QUEUE_CAPACITY baro_queue_new"
    by (simp_all add: imu_queue_new_def gnss_queue_new_def crsf_queue_new_def baro_queue_new_def wf_ring_new
        IMU_QUEUE_CAPACITY_def GPS_QUEUE_CAPACITY_def RC_QUEUE_CAPACITY_def BARO_QUEUE_CAPACITY_def)
  show ?thesis
    using imu_ring.newest_wins [OF wf(1) assms(1)] imu_ring.taken_once [OF imu_ring.pushes_wf [OF wf(1)]]
      gnss_ring.newest_wins [OF wf(2) assms(2)] gnss_ring.taken_once [OF gnss_ring.pushes_wf [OF wf(2)]]
      crsf_ring.newest_wins [OF wf(3) assms(3)] crsf_ring.taken_once [OF crsf_ring.pushes_wf [OF wf(3)]]
      baro_ring.newest_wins [OF wf(4) assms(4)] baro_ring.taken_once [OF baro_ring.pushes_wf [OF wf(4)]]
    by simp
qed

theorem newest_packet_is_taken_once_witness:
  "fst (imu_queue_take_latest (fold imu_queue_push (replicate 9 EMPTY_IMU_PACKET @ [EMPTY_IMU_PACKET\<lparr>imu_seq := 1\<rparr>]) imu_queue_new))
    = Some (EMPTY_IMU_PACKET\<lparr>imu_seq := 1\<rparr>)"
  using newest_packet_is_taken_once [of "replicate 9 EMPTY_IMU_PACKET @ [EMPTY_IMU_PACKET\<lparr>imu_seq := 1\<rparr>]"
      "[Inr EMPTY_GNSS_PACKET]" "[EMPTY_RC_PACKET]" "[EMPTY_BARO_PACKET]"]
  by simp

end
