(* ===== verification/Machine_Ints.thy ===== *)
theory Machine_Ints
  imports Prelude "HOL-Library.Signed_Division"
begin

text \<open>
  Signed machine integers as values: the ranges of the widths the drivers use, and the truncating
  division of Rust, \<^verbatim>\<open>sdiv\<close>.
\<close>

section \<open>Ranges\<close>

definition fits_i32 :: "int \<Rightarrow> bool" where
  "fits_i32 v \<longleftrightarrow> - (2 ^ 31) \<le> v \<and> v < 2 ^ 31"

definition fits_24 :: "int \<Rightarrow> bool" where
  "fits_24 v \<longleftrightarrow> - (2 ^ 23) \<le> v \<and> v < 2 ^ 23"

definition fits_i64 :: "int \<Rightarrow> bool" where
  "fits_i64 v \<longleftrightarrow> - (2 ^ 63) \<le> v \<and> v < 2 ^ 63"

lemma fits_i64_abs: "\<bar>v\<bar> \<le> 2 ^ 62 \<Longrightarrow> fits_i64 v"
  by (auto simp: fits_i64_def abs_le_iff)

lemma sint_word_of_int_fits:
  assumes "- (2 ^ (LENGTH('a :: len) - 1)) \<le> k" "k < 2 ^ (LENGTH('a) - 1)"
  shows "sint (word_of_int k :: 'a word) = k"
  using assms by (simp add: sint_sbintrunc' signed_take_bit_int_eq_self)

section \<open>Truncating division\<close>

lemma sdiv_nonneg: "0 \<le> k \<Longrightarrow> 0 < l \<Longrightarrow> (k :: int) sdiv l = k div l"
  by (auto simp: signed_divide_int_def sgn_if)

lemma sdiv_abs_le:
  assumes "0 < l" "\<bar>k\<bar> \<le> m * l"
  shows "\<bar>(k :: int) sdiv l\<bar> \<le> m"
proof -
  have "\<bar>k\<bar> div l \<le> m * l div l" using assms by (intro zdiv_mono1) simp_all
  then have "\<bar>k\<bar> div l \<le> m" using assms(1) by simp
  moreover have "0 \<le> \<bar>k\<bar> div l" using assms(1) by (simp add: pos_imp_zdiv_nonneg_iff)
  ultimately show ?thesis using assms(1) by (auto simp: signed_divide_int_def sgn_if abs_mult)
qed

lemma abs_mult_le: "\<bar>x\<bar> \<le> a \<Longrightarrow> \<bar>y\<bar> \<le> b \<Longrightarrow> \<bar>(x :: int) * y\<bar> \<le> a * b"
  by (simp add: abs_mult mult_mono')

end
