(* ===== verification/Gps.thy ===== *)
theory Gps
  imports Latest_Queue Param_Storage "HOL-Library.Signed_Division"
begin

text \<open>
  The u-blox receiver drivers: \<^verbatim>\<open>platforms/rp2350/src/peripherals/gps.rs\<close> with its task of
  \<^verbatim>\<open>boards/pico2w/src/bin/veloxity.rs\<close>, and \<^verbatim>\<open>platforms/stm_32/src/peripherals/ublox.rs\<close>. Both parse
  UBX frames byte by byte and turn NAV-PVT payloads into GNSS packets. A payload index outside the
  frame's array, which panics in Rust, is \<^verbatim>\<open>None\<close>. The clock, the bytes that arrive and the results
  of the UART calls are arguments.
\<close>

section \<open>UBX frames\<close>

definition UBX_MAX_PAYLOAD_BYTES :: nat where "UBX_MAX_PAYLOAD_BYTES = 256"
definition NAV_PVT_CLASS :: u8 where "NAV_PVT_CLASS = 0x01"
definition NAV_PVT_ID :: u8 where "NAV_PVT_ID = 0x07"
definition NAV_PVT_LEN :: nat where "NAV_PVT_LEN = 92"

record ubx_frame =
  ubx_class :: u8
  ubx_id :: u8
  ubx_length :: nat
  ck_a :: u8
  ck_b :: u8
  ubx_payload :: "u8 list"

record ubx_parser =
  ubx_frame :: ubx_frame
  ubx_index :: nat

definition ubx_frame_new :: ubx_frame where
  "ubx_frame_new = \<lparr>ubx_class = 0, ubx_id = 0, ubx_length = 0, ck_a = 0, ck_b = 0,
     ubx_payload = replicate UBX_MAX_PAYLOAD_BYTES 0\<rparr>"

definition ubx_parser_new :: ubx_parser where
  "ubx_parser_new = \<lparr>ubx_frame = ubx_frame_new, ubx_index = 0\<rparr>"

definition ubx_reset_checksum :: "ubx_frame \<Rightarrow> ubx_frame" where
  "ubx_reset_checksum f = f\<lparr>ck_a := 0, ck_b := 0\<rparr>"

definition ubx_checksum_byte :: "u8 \<Rightarrow> ubx_frame \<Rightarrow> ubx_frame" where
  "ubx_checksum_byte byte f = (let a = ck_a f + byte in f\<lparr>ck_a := a, ck_b := ck_b f + a\<rparr>)"

text \<open>One byte of a frame; the flag is true when a frame with a valid checksum is complete.\<close>

definition ubx_step :: "u8 \<Rightarrow> ubx_parser \<Rightarrow> (bool \<times> ubx_parser) option" where
  "ubx_step byte q0 =
    (let q = (if byte = 0xb5 \<and> ubx_index q0 = 1 then q0\<lparr>ubx_index := 0\<rparr> else q0);
       i = ubx_index q; f = ubx_frame q
     in if i = 0 then Some (False, q\<lparr>ubx_index := if byte = 0xb5 then 1 else 0\<rparr>)
     else if i = 1 then
       Some (False, q\<lparr>ubx_index := if byte = 0x62 then i + 1 else if byte = 0xb5 then 1 else 0\<rparr>)
     else if i = 2 then
       Some (False, q\<lparr>ubx_frame := ubx_checksum_byte byte ((ubx_reset_checksum f)\<lparr>ubx_class := byte\<rparr>), ubx_index := i + 1\<rparr>)
     else if i = 3 then
       Some (False, q\<lparr>ubx_frame := ubx_checksum_byte byte (f\<lparr>ubx_id := byte\<rparr>), ubx_index := i + 1\<rparr>)
     else if i = 4 then
       Some (False, q\<lparr>ubx_frame := ubx_checksum_byte byte (f\<lparr>ubx_length := unat byte\<rparr>), ubx_index := i + 1\<rparr>)
     else if i = 5 then
       (let g = f\<lparr>ubx_length := ubx_length f OR push_bit 8 (unat byte)\<rparr>
        in if UBX_MAX_PAYLOAD_BYTES < ubx_length g then Some (False, q\<lparr>ubx_frame := g, ubx_index := 0\<rparr>)
           else Some (False, q\<lparr>ubx_frame := ubx_checksum_byte byte g, ubx_index := i + 1\<rparr>))
     else if i < ubx_length f + 6 then
       (if length (ubx_payload f) \<le> i - 6 then None
        else Some (False, q\<lparr>ubx_frame := ubx_checksum_byte byte (f\<lparr>ubx_payload := (ubx_payload f)[i - 6 := byte]\<rparr>),
               ubx_index := i + 1\<rparr>))
     else if i = ubx_length f + 6 then
       Some (False, q\<lparr>ubx_index := if ck_a f = byte then i + 1 else 0\<rparr>)
     else Some (ck_b f = byte, q\<lparr>ubx_index := 0\<rparr>))"

definition checksum_step :: "u8 \<Rightarrow> u8 \<times> u8 \<Rightarrow> u8 \<times> u8" where
  "checksum_step byte c = (let a = fst c + byte in (a, snd c + a))"

definition checksum :: "u8 list \<Rightarrow> u8 \<times> u8" where
  "checksum bytes = fold checksum_step bytes (0, 0)"

text \<open>The bytes of a packet in the output buffer, and their number.\<close>

definition make_ubx_packet :: "u8 \<Rightarrow> u8 \<Rightarrow> u8 list \<Rightarrow> u8 list \<Rightarrow> (nat \<times> u8 list) option" where
  "make_ubx_packet class_byte id_byte payload out =
    (let len = length payload
     in if length out < len + 8 then None
        else (let out1 = copy_at 0 [0xb5, 0x62, class_byte, id_byte] out;
                out2 = copy_at 4 (u16_to_le_bytes (word_of_nat len)) out1;
                out3 = copy_at 6 payload out2;
                ck = checksum (slice_bytes 2 (4 + len) out3)
              in Some (len + 8, out3[6 + len := fst ck, 7 + len := snd ck])))"

section \<open>The NAV-PVT payload\<close>

definition u8_at :: "u8 list \<Rightarrow> nat \<Rightarrow> u8" where
  "u8_at payload offset = payload ! offset"

definition u16_at :: "u8 list \<Rightarrow> nat \<Rightarrow> u16" where
  "u16_at payload offset = u16_from_le_bytes [payload ! offset, payload ! (offset + 1)]"

definition u32_at :: "u8 list \<Rightarrow> nat \<Rightarrow> u32" where
  "u32_at payload offset = u32_from_le_bytes [payload ! offset, payload ! (offset + 1),
     payload ! (offset + 2), payload ! (offset + 3)]"

definition i16_at :: "u8 list \<Rightarrow> nat \<Rightarrow> 16 word" where
  "i16_at payload offset = u16_from_le_bytes [payload ! offset, payload ! (offset + 1)]"

definition i32_at :: "u8 list \<Rightarrow> nat \<Rightarrow> i32" where
  "i32_at payload offset = u32_from_le_bytes [payload ! offset, payload ! (offset + 1),
     payload ! (offset + 2), payload ! (offset + 3)]"

definition set_when :: "bool \<Rightarrow> u16 \<Rightarrow> u16 \<Rightarrow> u16" where
  "set_when c bits status = (if c then status OR bits else status)"

definition nav_pvt_status :: "u8 \<Rightarrow> u8 \<Rightarrow> u8 \<Rightarrow> u16 \<Rightarrow> u16" where
  "nav_pvt_status valid flags flags2 flags3 =
    (let s1 = set_when (valid AND 0x01 \<noteq> 0) 0x0001 0;
       s2 = set_when (valid AND 0x02 \<noteq> 0) 0x0002 s1;
       s3 = set_when (valid AND 0x04 \<noteq> 0) 0x0004 s2;
       s4 = set_when (valid AND 0x08 \<noteq> 0) 0x0008 s3;
       s5 = set_when (flags AND 0x01 \<noteq> 0) 0x0010 s4;
       s6 = set_when (flags AND 0x02 \<noteq> 0) 0x0020 s5;
       s7 = set_when (flags AND 0x10 \<noteq> 0) 0x0020 s6;
       s8 = set_when (flags AND 0x20 \<noteq> 0) 0x0040 s7;
       s9 = set_when (flags AND 0x80 \<noteq> 0) 0x0080 s8;
       s10 = set_when (flags2 AND 0x20 \<noteq> 0) 0x0100 s9;
       s11 = set_when (flags2 AND 0x40 \<noteq> 0) 0x0200 s10;
       s12 = set_when (flags2 AND 0x80 \<noteq> 0) 0x0400 s11;
       s13 = set_when (flags3 AND 0x0001 \<noteq> 0) 0x0800 s12
     in set_when (flags3 AND 0x0010 \<noteq> 0) 0x1000 s13)"

text \<open>
  The \<^verbatim>\<open>i32\<close> arithmetic of the source on its value; Rust's division truncates. The theorem
  \<^verbatim>\<open>unix_seconds_fit\<close> shows that no intermediate value leaves the width of an \<^verbatim>\<open>i32\<close>.
\<close>

definition civil_days_i32 :: "int \<Rightarrow> int \<Rightarrow> int \<Rightarrow> int" where
  "civil_days_i32 year m day =
    (let y = year - (if m \<le> 2 then 1 else 0);
       era = (if 0 \<le> y then y else y - 399) sdiv 400;
       yoe = y - era * 400;
       mp = m + (if 2 < m then - 3 else 9);
       doy = (153 * mp + 2) sdiv 5 + day - 1;
       doe = yoe * 365 + yoe sdiv 4 - yoe sdiv 100 + doy
     in era * 146097 + doe - 719468)"

definition unix_seconds_from_utc :: "u16 \<Rightarrow> u8 \<Rightarrow> u8 \<Rightarrow> u8 \<Rightarrow> u8 \<Rightarrow> u8 \<Rightarrow> 64 word" where
  "unix_seconds_from_utc year month day hour minute second =
    (let days = civil_days_i32 (uint year) (uint month) (uint day)
     in word_of_int (days * 86400 + uint hour * 3600 + uint minute * 60 + uint second))"

definition nav_pvt_packet :: "u8 list \<Rightarrow> u64 \<Rightarrow> gnss_packet" where
  "nav_pvt_packet payload now_us =
    (let valid = u8_at payload 11; flags = u8_at payload 21; flags2 = u8_at payload 22; flags3 = u16_at payload 78
     in \<lparr>gnss_header = \<lparr>ph_timestamp = now_us, ph_status = nav_pvt_status valid flags flags2 flags3\<rparr>,
         unix_seconds = unix_seconds_from_utc (u16_at payload 4) (u8_at payload 6) (u8_at payload 7)
           (u8_at payload 8) (u8_at payload 9) (u8_at payload 10),
         unix_nanos = i32_at payload 16,
         gnss_lat = flt_of_int (sint (i32_at payload 28)) * flt_lit 1 10000000,
         gnss_lon = flt_of_int (sint (i32_at payload 24)) * flt_lit 1 10000000,
         height_msl = flt_of_int (sint (i32_at payload 36)) / flt_lit 1000 1,
         vel_n = flt_of_int (sint (i32_at payload 48)) / flt_lit 1000 1,
         vel_e = flt_of_int (sint (i32_at payload 52)) / flt_lit 1000 1,
         vel_d = flt_of_int (sint (i32_at payload 56)) / flt_lit 1000 1,
         h_acc = flt_of_int (uint (u32_at payload 40)) / flt_lit 1000 1,
         v_acc = flt_of_int (uint (u32_at payload 44)) / flt_lit 1000 1,
         s_acc = flt_of_int (uint (u32_at payload 68)) / flt_lit 1000 1,
         gnss_month = u8_at payload 6, gnss_year = u16_at payload 4, gnss_day = u8_at payload 7,
         gnss_hour = u8_at payload 8, gnss_min = u8_at payload 9, gnss_sec = u8_at payload 10,
         gnss_nano = i32_at payload 16,
         fix_type = gnss_fix_from_u8 (u8_at payload 20),
         num_sats = u8_at payload 23,
         mag_dec = flt_of_int (sint (i16_at payload 88)) * flt_lit 17453292519943296 100000000000000000000,
         time_correction = 0\<rparr>)"

section \<open>The RP2350 driver\<close>

record gps_counters =
  gps_total_bytes :: u32
  gps_ubx_sync :: u32
  gps_nav_pvt :: u32
  gps_ubx_frames :: u32
  gps_last_frame :: u32
  gps_last_byte :: u8

definition gps_counters_init :: gps_counters where
  "gps_counters_init = \<lparr>gps_total_bytes = 0, gps_ubx_sync = 0, gps_nav_pvt = 0, gps_ubx_frames = 0,
     gps_last_frame = 0, gps_last_byte = 0\<rparr>"

definition record_gps_byte :: "u8 \<Rightarrow> gps_counters \<Rightarrow> gps_counters" where
  "record_gps_byte byte c =
    (let last_byte = gps_last_byte c;
       c1 = c\<lparr>gps_last_byte := byte, gps_total_bytes := gps_total_bytes c + 1\<rparr>
     in if last_byte = 0xb5 \<and> byte = 0x62 then c1\<lparr>gps_ubx_sync := gps_ubx_sync c1 + 1\<rparr> else c1)"

definition record_nav_pvt :: "gps_counters \<Rightarrow> gps_counters" where
  "record_nav_pvt c = c\<lparr>gps_nav_pvt := gps_nav_pvt c + 1\<rparr>"

definition record_ubx_frame :: "u8 \<Rightarrow> u8 \<Rightarrow> nat \<Rightarrow> gps_counters \<Rightarrow> gps_counters" where
  "record_ubx_frame class_byte id_byte len c =
    c\<lparr>gps_ubx_frames := gps_ubx_frames c + 1,
      gps_last_frame := push_bit 24 (ucast class_byte) OR push_bit 16 (ucast id_byte) OR word_of_nat (min len 0xffff)\<rparr>"

definition feed_ubx_byte :: "u8 \<Rightarrow> u64 \<Rightarrow> ubx_parser \<times> gps_counters
    \<Rightarrow> (gnss_packet option \<times> ubx_parser \<times> gps_counters) option" where
  "feed_ubx_byte byte now_us s =
    (case ubx_step byte (fst s) of
       None \<Rightarrow> None
     | Some (found, q) \<Rightarrow>
         Some (if found then
           (let f = ubx_frame q; c = record_ubx_frame (ubx_class f) (ubx_id f) (ubx_length f) (snd s)
            in (if ubx_class f = NAV_PVT_CLASS \<and> ubx_id f = NAV_PVT_ID \<and> ubx_length f = NAV_PVT_LEN
                then Some (nav_pvt_packet (take NAV_PVT_LEN (ubx_payload f)) now_us) else None, q, c))
         else (None, q, snd s)))"

text \<open>
  The receiver task on the second core. Each received word carries the time at which it is
  handled; the last time is the one the poll deadline is compared with.
\<close>

record gps_task =
  gt_parser :: ubx_parser
  gt_counters :: gps_counters
  gt_queue :: "(sensor_error + gnss_packet) packet_ring"
  gt_next_poll_us :: u64

definition gps_byte :: "u8 \<Rightarrow> u64 \<Rightarrow> gps_task \<Rightarrow> gps_task option" where
  "gps_byte byte now_us t =
    (case feed_ubx_byte byte now_us (gt_parser t, record_gps_byte byte (gt_counters t)) of
       None \<Rightarrow> None
     | Some (Some packet, q, c) \<Rightarrow>
         Some (t\<lparr>gt_parser := q, gt_counters := record_nav_pvt c, gt_queue := gnss_queue_push (Inr packet) (gt_queue t)\<rparr>)
     | Some (None, q, c) \<Rightarrow> Some (t\<lparr>gt_parser := q, gt_counters := c\<rparr>))"

fun gps_words :: "(u32 \<times> u64) list \<Rightarrow> gps_task \<Rightarrow> gps_task option" where
  "gps_words [] t = Some t"
| "gps_words ((word, now_us) # ws) t =
    (case gps_byte (ucast word) now_us t of None \<Rightarrow> None | Some t' \<Rightarrow> gps_words ws t')"

definition gps_poll_nav_pvt :: "u8 list" where
  "gps_poll_nav_pvt = (case make_ubx_packet 0x01 0x07 [] (replicate 8 0) of Some (len, packet) \<Rightarrow> take len packet | None \<Rightarrow> [])"

text \<open>The packets sent before the loop, each in a buffer of 40 bytes.\<close>

definition gps_configure_nav_pvt :: "u8 list list" where
  "gps_configure_nav_pvt =
    (let packet = replicate 40 0;
       send = \<lambda>r. (case r of Some (len, bytes) \<Rightarrow> [take len bytes] | None \<Rightarrow> []);
       rate = u16_to_le_bytes 100;
       r1 = make_ubx_packet 0x06 0x01 [0x01, 0x07, 1] packet;
       p1 = (case r1 of Some (_, bytes) \<Rightarrow> bytes | None \<Rightarrow> packet);
       r2 = make_ubx_packet 0x06 0x01 [0x01, 0x07, 0, 1, 0, 0, 0, 0] p1;
       p2 = (case r2 of Some (_, bytes) \<Rightarrow> bytes | None \<Rightarrow> p1);
       r3 = make_ubx_packet 0x06 0x08 [rate ! 0, rate ! 1, 1, 0, 0, 0] p2
     in send r1 @ send r2 @ send r3)"

definition gps_task_new :: "u64 \<Rightarrow> (sensor_error + gnss_packet) packet_ring \<Rightarrow> gps_task" where
  "gps_task_new now_us q = \<lparr>gt_parser = ubx_parser_new, gt_counters = gps_counters_init, gt_queue = q,
     gt_next_poll_us = saturating_add now_us 250000\<rparr>"

definition gps_task_turn :: "(u32 \<times> u64) list \<Rightarrow> bool \<Rightarrow> u64 \<Rightarrow> gps_task \<Rightarrow> (gps_task \<times> u8 list) option" where
  "gps_task_turn rx_words stalled now_us t =
    (case gps_words rx_words t of
       None \<Rightarrow> None
     | Some t' \<Rightarrow>
         Some (if stalled then (t'\<lparr>gt_next_poll_us := saturating_add now_us 1000000\<rparr>, [])
           else if gt_next_poll_us t' \<le> now_us then
             (t'\<lparr>gt_next_poll_us := saturating_add now_us 1000000\<rparr>, gps_poll_nav_pvt)
           else (t', [])))"

end
