(* ===== verification/Ublox.thy ===== *)
theory Ublox
  imports Gps
begin

text \<open>
  The u-blox driver of the STM32, \<^verbatim>\<open>platforms/stm_32/src/peripherals/ublox.rs\<close>: the packets that
  configure the receiver, the search for its bit rate, and the loop that parses its bytes and
  publishes GNSS packets. The signals are values: the pulse per second that a \<^verbatim>\<open>try_take\<close> finds is
  an argument, and the packets published are returned in order.
\<close>

section \<open>The payload record\<close>

text \<open>The packed struct over the payload's bytes: the fields follow each other without padding.\<close>

record pvt_payload =
  pv_i_tow :: u32
  pv_year :: u16
  pv_month :: u8
  pv_day :: u8
  pv_hour :: u8
  pv_min :: u8
  pv_sec :: u8
  pv_valid :: u8
  pv_t_acc :: u32
  pv_nano :: i32
  pv_fix_type :: u8
  pv_flags :: u8
  pv_flags2 :: u8
  pv_num_sv :: u8
  pv_lon :: i32
  pv_lat :: i32
  pv_height :: i32
  pv_h_msl :: i32
  pv_h_acc :: u32
  pv_v_acc :: u32
  pv_vel_n :: i32
  pv_vel_e :: i32
  pv_vel_d :: i32
  pv_g_speed :: i32
  pv_head_mot :: i32
  pv_s_acc :: u32
  pv_head_acc :: u32
  pv_p_dop :: u16
  pv_flags3 :: u16
  pv_reserved1 :: u8
  pv_head_veh :: i32
  pv_mag_dec :: "16 word"
  pv_mag_acc :: u32

definition pvt_of_payload :: "u8 list \<Rightarrow> pvt_payload" where
  "pvt_of_payload b = \<lparr>pv_i_tow = u32_at b 0, pv_year = u16_at b 4, pv_month = u8_at b 6, pv_day = u8_at b 7,
     pv_hour = u8_at b 8, pv_min = u8_at b 9, pv_sec = u8_at b 10, pv_valid = u8_at b 11, pv_t_acc = u32_at b 12,
     pv_nano = i32_at b 16, pv_fix_type = u8_at b 20, pv_flags = u8_at b 21, pv_flags2 = u8_at b 22,
     pv_num_sv = u8_at b 23, pv_lon = i32_at b 24, pv_lat = i32_at b 28, pv_height = i32_at b 32,
     pv_h_msl = i32_at b 36, pv_h_acc = u32_at b 40, pv_v_acc = u32_at b 44, pv_vel_n = i32_at b 48,
     pv_vel_e = i32_at b 52, pv_vel_d = i32_at b 56, pv_g_speed = i32_at b 60, pv_head_mot = i32_at b 64,
     pv_s_acc = u32_at b 68, pv_head_acc = u32_at b 72, pv_p_dop = u16_at b 76, pv_flags3 = u16_at b 78,
     pv_reserved1 = u8_at b 80, pv_head_veh = i32_at b 81, pv_mag_dec = i16_at b 85, pv_mag_acc = u32_at b 87\<rparr>"

section \<open>Packets to the receiver\<close>

definition UBLOX_BUFFER_LEN :: nat where "UBLOX_BUFFER_LEN = 512"
definition PPS_PERIOD_US :: u32 where "PPS_PERIOD_US = 1000000"

datatype bitrate = Baud9600 | Baud38400 | Baud57600 | Baud115200 | Baud230400
datatype ubx_protocol = M8 | M9

fun bitrate_value :: "bitrate \<Rightarrow> u32" where
  "bitrate_value Baud9600 = 9600"
| "bitrate_value Baud38400 = 38400"
| "bitrate_value Baud57600 = 57600"
| "bitrate_value Baud115200 = 115200"
| "bitrate_value Baud230400 = 230400"

record ublox_sensor =
  ub_protocol :: ubx_protocol
  ub_baudrate :: bitrate
  ub_nav_period_ms :: u16
  ub_uart_baudrate :: u32

definition make_packet :: "u8 \<Rightarrow> u8 \<Rightarrow> u8 list \<Rightarrow> u8 list \<Rightarrow> bool \<times> u8 list" where
  "make_packet class_byte id_byte payload buffer =
    (let len = length payload
     in if length buffer < len + 8 then (False, buffer)
        else (let b1 = buffer[0 := 0xB5, 1 := 0x62, 2 := class_byte, 3 := id_byte];
                b2 = copy_at 4 (u16_to_le_bytes (word_of_nat len)) b1;
                b3 = copy_at 6 payload b2;
                ck = checksum (slice_bytes 2 (len + 4) b3)
              in (True, b3[len + 6 := fst ck, len + 7 := snd ck])))"

text \<open>
  The answer to a packet: whether the write succeeded, and the bytes read within two seconds.
  The bytes lie at the start of a zeroed buffer, all of whose windows are compared.
\<close>

record uart_answer =
  write_ok :: bool
  read_bytes :: "u8 list option"

definition look_for_ack :: "u8 list \<Rightarrow> u8 list option \<Rightarrow> bool" where
  "look_for_ack ack answer =
    (case answer of
       Some bytes \<Rightarrow>
         (let buffer = copy_at 0 bytes (replicate 256 0)
          in list_ex (\<lambda>i. slice_bytes i (length ack) buffer = ack) [0..<257 - length ack])
     | None \<Rightarrow> False)"

text \<open>The bytes written, if any, and the result.\<close>

definition ublox_tx :: "u8 \<Rightarrow> u8 \<Rightarrow> u8 list \<Rightarrow> uart_answer \<Rightarrow> u8 list option \<times> bool" where
  "ublox_tx class_byte id_byte payload answer =
    (let (made, buffer) = make_packet class_byte id_byte payload (replicate UBLOX_BUFFER_LEN 0)
     in if made then
          (let ack = snd (make_packet 0x05 0x01 [class_byte, id_byte] (replicate 10 0))
           in (Some (take (length payload + 8) buffer), write_ok answer \<and> look_for_ack ack (read_bytes answer)))
        else (None, False))"

definition cfg_prt :: "ublox_sensor \<Rightarrow> uart_answer \<Rightarrow> u8 list option \<times> bool" where
  "cfg_prt s answer =
    (case ub_protocol s of
       M8 \<Rightarrow>
         (let p1 = (replicate 20 0)[0 := 0x01, 4 := 0xC0, 5 := 0x08];
            p2 = copy_at 8 (u32_to_le_bytes (bitrate_value (ub_baudrate s))) p1;
            p3 = p2[12 := 0x01, 14 := 0x01]
          in ublox_tx 0x06 0x00 p3 answer)
     | M9 \<Rightarrow>
         (let p1 = (replicate 34 0)[1 := 0x01];
            p2 = copy_at 4 (u32_to_le_bytes 0x40520001) p1;
            p3 = copy_at 8 (u32_to_le_bytes (bitrate_value (ub_baudrate s))) p2;
            p4 = copy_at 12 (u32_to_le_bytes 0x30210001) p3;
            p5 = copy_at 16 (u16_to_le_bytes (ub_nav_period_ms s)) p4;
            p6 = copy_at 18 (u32_to_le_bytes 0x30210002) p5;
            p7 = copy_at 22 (u16_to_le_bytes 1) p6;
            p8 = copy_at 24 (u32_to_le_bytes 0x20110021) p7;
            p9 = copy_at 29 (u32_to_le_bytes 0x20110011) (p8[28 := 8])
          in ublox_tx 0x06 0x8A (p9[33 := 3]) answer))"

definition cfg_rate :: "ublox_sensor \<Rightarrow> uart_answer \<Rightarrow> u8 list option \<times> bool" where
  "cfg_rate s answer =
    (let p1 = copy_at 0 (u16_to_le_bytes (ub_nav_period_ms s)) (replicate 6 0);
       p2 = copy_at 2 (u16_to_le_bytes 1) p1;
       p3 = copy_at 4 (u16_to_le_bytes 0) p2
     in ublox_tx 0x06 0x08 p3 answer)"

definition cfg_tp5 :: "uart_answer \<Rightarrow> u8 list option \<times> bool" where
  "cfg_tp5 answer =
    (let p1 = (replicate 32 0)[0 := 0, 1 := 1];
       p2 = copy_at 8 (u32_to_le_bytes PPS_PERIOD_US) p1;
       p3 = copy_at 12 (u32_to_le_bytes PPS_PERIOD_US) p2;
       pulse_len_us = 1000;
       p4 = copy_at 16 (u32_to_le_bytes pulse_len_us) p3;
       p5 = copy_at 20 (u32_to_le_bytes pulse_len_us) p4;
       p6 = copy_at 28 (u32_to_le_bytes 0x01F7) p5
     in ublox_tx 0x06 0x31 p6 answer)"

definition cfg_nav5 :: "uart_answer \<Rightarrow> u8 list option \<times> bool" where
  "cfg_nav5 answer = ublox_tx 0x06 0x24 ((replicate 36 0)[0 := 5, 1 := 8, 2 := 3]) answer"

definition cfg_msg :: "u8 \<Rightarrow> u8 \<Rightarrow> u8 \<Rightarrow> uart_answer \<Rightarrow> u8 list option \<times> bool" where
  "cfg_msg class_byte id_byte decimation_rate answer =
    ublox_tx 0x06 0x01 [class_byte, id_byte, decimation_rate] answer"

text \<open>The bit rates tried in turn, thirty times; the answers are those of the attempts in order.\<close>

definition bauds :: "u32 list" where
  "bauds = map bitrate_value [Baud9600, Baud38400, Baud57600, Baud115200, Baud230400]"

fun sync_attempts :: "u32 list \<Rightarrow> uart_answer list \<Rightarrow> ublox_sensor \<Rightarrow> bool \<times> ublox_sensor" where
  "sync_attempts (baud # rest) (answer # replies) s =
    (let s1 = s\<lparr>ub_uart_baudrate := baud\<rparr>
     in if snd (cfg_prt s1 answer) then (True, s1\<lparr>ub_uart_baudrate := bitrate_value (ub_baudrate s1)\<rparr>)
        else sync_attempts rest replies s1)"
| "sync_attempts _ _ s = (False, s)"

definition sync_baudrate :: "uart_answer list \<Rightarrow> ublox_sensor \<Rightarrow> bool \<times> ublox_sensor" where
  "sync_baudrate replies s = sync_attempts (concat (replicate 30 bauds)) replies s"

text \<open>The packets that \<^verbatim>\<open>run\<close> sends before its loop, whatever the answers.\<close>

definition ublox_setup :: "ublox_sensor \<Rightarrow> u8 list option list" where
  "ublox_setup s =
    (let quiet = \<lparr>write_ok = False, read_bytes = None\<rparr>;
       msg = \<lambda>c i r. fst (cfg_msg c i r quiet)
     in [msg 0x0A 0x09 0, msg 0x0A 0x0B 0, msg 0x01 0x04 0, msg 0x01 0x03 0, msg 0x01 0x35 0, msg 0x01 0x20 0,
         msg 0x01 0x01 0, msg 0x01 0x11 0, msg 0x01 0x20 0, msg 0x01 0x01 0, msg 0x01 0x11 0, msg 0x01 0x07 1]
       @ (if ub_protocol s = M8 then [fst (cfg_rate s quiet), fst (cfg_tp5 quiet), fst (cfg_nav5 quiet)] else []))"

section \<open>The byte loop\<close>

text \<open>The framing of the loop, in the order of its statements; the index \<^verbatim>\<open>n\<close> and the frame \<^verbatim>\<open>p\<close>.\<close>

definition ublox_step :: "u8 \<Rightarrow> ubx_parser \<Rightarrow> (bool \<times> ubx_parser) option" where
  "ublox_step c q =
    (let n = (if c = 0xB5 \<and> ubx_index q = 1 then 0 else ubx_index q); p = ubx_frame q;
       sum = \<lambda>p. p\<lparr>ck_a := ck_a p + c, ck_b := ck_b p + (ck_a p + c)\<rparr>;
       go = \<lambda>found n p. Some (found, \<lparr>ubx_frame = p, ubx_index = n\<rparr>)
     in if n = 0 then (if c = 0xB5 then go False (n + 1) p else go False 0 p)
     else if n = 1 then (if c = 0x62 then go False (n + 1) p else if c = 0xB5 then go False 1 p else go False 0 p)
     else if n = 2 then go False (n + 1) (sum (p\<lparr>ck_a := 0, ck_b := 0, ubx_class := c\<rparr>))
     else if n = 3 then go False (n + 1) (sum (p\<lparr>ubx_id := c\<rparr>))
     else if n = 4 then go False (n + 1) (sum (p\<lparr>ubx_length := unat c\<rparr>))
     else if n = 5 then
       (let p = p\<lparr>ubx_length := ubx_length p OR push_bit 8 (unat c)\<rparr>
        in if UBX_MAX_PAYLOAD_BYTES < ubx_length p then go False 0 p else go False (n + 1) (sum p))
     else if n < ubx_length p + 6 then
       (if length (ubx_payload p) \<le> n - 6 then None
        else go False (n + 1) (sum (p\<lparr>ubx_payload := (ubx_payload p)[n - 6 := c]\<rparr>)))
     else if n = ubx_length p + 6 then (if ck_a p \<noteq> c then go False 0 p else go False (n + 1) p)
     else go (ck_b p = c) 0 p)"

definition ublox_packet :: "u8 list \<Rightarrow> u64 \<Rightarrow> u64 \<Rightarrow> gnss_packet" where
  "ublox_packet payload pps_timestamp completion_timestamp_us =
    (let pvt = pvt_of_payload payload;
       status = nav_pvt_status (pv_valid pvt) (pv_flags pvt) (pv_flags2 pvt) (pv_flags3 pvt);
       utc_nanos = pv_nano pvt;
       time_and_fix_valid = (pv_valid pvt AND 0x07 = 0x07 \<and> pv_flags pvt AND 0x01 = 0x01);
       timestamp_us = rosflight_c_gnss_timestamp pps_timestamp completion_timestamp_us utc_nanos time_and_fix_valid;
       seconds = unix_seconds_from_utc (pv_year pvt) (pv_month pvt) (pv_day pvt) (pv_hour pvt) (pv_min pvt) (pv_sec pvt)
     in \<lparr>gnss_header = \<lparr>ph_timestamp = timestamp_us, ph_status = status\<rparr>,
         unix_seconds = (if sint utc_nanos < 0 then seconds - 1 else seconds),
         unix_nanos = (if sint utc_nanos < 0 then utc_nanos + 1000000000 else utc_nanos),
         gnss_lat = flt_of_int (sint (pv_lat pvt)) * flt_lit 1 10000000,
         gnss_lon = flt_of_int (sint (pv_lon pvt)) * flt_lit 1 10000000,
         height_msl = flt_of_int (sint (pv_h_msl pvt)) / flt_lit 1000 1,
         vel_n = flt_of_int (sint (pv_vel_n pvt)) / flt_lit 1000 1,
         vel_e = flt_of_int (sint (pv_vel_e pvt)) / flt_lit 1000 1,
         vel_d = flt_of_int (sint (pv_vel_d pvt)) / flt_lit 1000 1,
         h_acc = flt_of_int (uint (pv_h_acc pvt)) / flt_lit 1000 1,
         v_acc = flt_of_int (uint (pv_v_acc pvt)) / flt_lit 1000 1,
         s_acc = flt_of_int (uint (pv_s_acc pvt)) / flt_lit 1000 1,
         gnss_month = pv_month pvt, gnss_year = pv_year pvt, gnss_day = pv_day pvt, gnss_hour = pv_hour pvt,
         gnss_min = pv_min pvt, gnss_sec = pv_sec pvt, gnss_nano = pv_nano pvt,
         fix_type = gnss_fix_from_u8 (pv_fix_type pvt), num_sats = pv_num_sv pvt,
         mag_dec = flt_of_int (sint (pv_mag_dec pvt)) * flt_lit 17453292519943296 100000000000000000000,
         time_correction = 0\<rparr>)"

record ublox_state =
  us_parser :: ubx_parser
  us_pps_timestamp :: u64

definition ublox_state_new :: ublox_state where
  "ublox_state_new = \<lparr>us_parser = ubx_parser_new, us_pps_timestamp = 0\<rparr>"

definition take_pps :: "u64 option \<Rightarrow> ublox_state \<Rightarrow> ublox_state" where
  "take_pps pps s = (case pps of Some timestamp \<Rightarrow> s\<lparr>us_pps_timestamp := timestamp\<rparr> | None \<Rightarrow> s)"

text \<open>A byte with the time at its end and the pulse that is waiting then.\<close>

definition ublox_byte :: "u8 \<times> u64 \<times> u64 option \<Rightarrow> ublox_state \<Rightarrow> (gnss_packet option \<times> ublox_state) option" where
  "ublox_byte b s =
    (case ublox_step (fst b) (us_parser s) of
       None \<Rightarrow> None
     | Some (found, q) \<Rightarrow>
         (let s1 = s\<lparr>us_parser := q\<rparr>; p = ubx_frame q
          in if found \<and> (ubx_class p = 0x01 \<or> ubx_id p = 0x07) then
               (let s2 = take_pps (snd (snd b)) s1
                in Some (Some (ublox_packet (take 92 (ubx_payload p)) (us_pps_timestamp s2) (fst (snd b))), s2))
             else Some (None, s1)))"

fun ublox_bytes :: "(u8 \<times> u64 \<times> u64 option) list \<Rightarrow> ublox_state \<Rightarrow> (gnss_packet list \<times> ublox_state) option" where
  "ublox_bytes [] s = Some ([], s)"
| "ublox_bytes (b # bs) s =
    (case ublox_byte b s of
       None \<Rightarrow> None
     | Some (packet, s1) \<Rightarrow>
         (case ublox_bytes bs s1 of
            None \<Rightarrow> None
          | Some (packets, s2) \<Rightarrow> Some (case_option [] (\<lambda>p. [p]) packet @ packets, s2)))"

text \<open>One turn of the loop; a failed read is skipped.\<close>

definition ublox_turn :: "u64 option \<Rightarrow> (u8 \<times> u64 \<times> u64 option) list option \<Rightarrow> ublox_state
    \<Rightarrow> (gnss_packet list \<times> ublox_state) option" where
  "ublox_turn pps result s =
    (let s1 = take_pps pps s
     in case result of Some bs \<Rightarrow> ublox_bytes bs s1 | None \<Rightarrow> Some ([], s1))"

end
