(* ===== verification/Gps_Safety.thy ===== *)
theory Gps_Safety
  imports Ublox
begin

text \<open>
  The GNSS drivers: the framing accepts what the packet builder writes and refuses damaged bytes,
  it never leaves its buffer, the time of a fix is the calendar's, and the differences between the
  two drivers.
\<close>

section \<open>Framing\<close>

text \<open>The parser never indexes past the payload array.\<close>

definition wf_ubx :: "ubx_parser \<Rightarrow> bool" where
  "wf_ubx q \<longleftrightarrow> length (ubx_payload (ubx_frame q)) = UBX_MAX_PAYLOAD_BYTES
     \<and> (6 \<le> ubx_index q \<longrightarrow> ubx_length (ubx_frame q) \<le> UBX_MAX_PAYLOAD_BYTES)"

lemma wf_ubx_new [simp]: "wf_ubx ubx_parser_new"
  by (simp add: wf_ubx_def ubx_parser_new_def ubx_frame_new_def)

lemma ubx_step_total:
  assumes "wf_ubx q"
  shows "\<exists>found q'. ubx_step byte q = Some (found, q') \<and> wf_ubx q'"
  using assms by (auto simp: ubx_step_def wf_ubx_def Let_def ubx_checksum_byte_def ubx_reset_checksum_def
      UBX_MAX_PAYLOAD_BYTES_def)

text \<open>The two drivers have the same framing.\<close>

lemma ublox_step_is_ubx_step: "ublox_step c q = ubx_step c q"
  by (cases q) (auto simp: ublox_step_def ubx_step_def Let_def ubx_checksum_byte_def ubx_reset_checksum_def add.assoc)

text \<open>Bytes that complete no frame.\<close>

fun ubx_silent :: "u8 list \<Rightarrow> ubx_parser \<Rightarrow> ubx_parser option" where
  "ubx_silent [] q = Some q"
| "ubx_silent (byte # bytes) q =
    (case ubx_step byte q of Some (False, q') \<Rightarrow> ubx_silent bytes q' | _ \<Rightarrow> None)"

lemma ubx_silent_append:
  "ubx_silent (xs @ ys) q = (case ubx_silent xs q of None \<Rightarrow> None | Some q' \<Rightarrow> ubx_silent ys q')"
  by (induction xs arbitrary: q) (auto split: option.splits bool.splits)

lemma nat_byte_or:
  assumes "x < 256"
  shows "(x :: nat) OR push_bit 8 y = x + 256 * y"
proof -
  have x: "take_bit 8 x = x" using assms by (simp add: take_bit_nat_eq_self_iff)
  have "take_bit 8 x AND push_bit 8 y = 0" by (rule bit_eqI) (auto simp: bit_simps)
  then have "x OR push_bit 8 y = x + push_bit 8 y" unfolding x by (rule disjunctive_add_eq_or [symmetric])
  then show ?thesis by (simp add: push_bit_eq_mult)
qed

lemma length_of_bytes:
  assumes "n < 2 ^ 16"
  shows "unat (u16_to_le_bytes (word_of_nat n) ! 0) OR push_bit 8 (unat (u16_to_le_bytes (word_of_nat n) ! 1)) = n"
proof -
  have "unat (ucast (word_of_nat n :: u16) :: u8) = n mod 256" using assms
    by (simp add: unsigned_ucast_eq unat_of_nat take_bit_nat_def)
  moreover have "unat (ucast (drop_bit 8 (word_of_nat n :: u16)) :: u8) = n div 256" using assms
    by (simp add: unsigned_ucast_eq unat_drop_bit_eq unat_of_nat take_bit_nat_def drop_bit_nat_def)
  moreover have "n mod 256 < 256" by simp
  ultimately show ?thesis by (simp add: u16_to_le_bytes_def nat_byte_or del: mod_less_divisor)
qed

abbreviation ubx_checked :: "u8 \<times> u8 \<Rightarrow> ubx_frame \<Rightarrow> ubx_frame" where
  "ubx_checked c f \<equiv> f\<lparr>ck_a := fst c, ck_b := snd c\<rparr>"

lemma silent_header:
  assumes "ubx_index q = 0" "n \<le> UBX_MAX_PAYLOAD_BYTES"
  shows "ubx_silent (0xb5 # 0x62 # class_byte # id_byte # u16_to_le_bytes (word_of_nat n)) q
    = Some \<lparr>ubx_frame = ubx_checked (checksum (class_byte # id_byte # u16_to_le_bytes (word_of_nat n)))
        ((ubx_frame q)\<lparr>ubx_class := class_byte, ubx_id := id_byte, ubx_length := n\<rparr>), ubx_index = 6\<rparr>"
proof -
  have n: "n < 2 ^ 16" using assms(2) by (simp add: UBX_MAX_PAYLOAD_BYTES_def)
  obtain lo hi where b: "u16_to_le_bytes (word_of_nat n) = [lo, hi]" by (simp add: u16_to_le_bytes_def)
  have "unat lo OR push_bit 8 (unat hi) = n" using length_of_bytes [OF n] b by simp
  with assms show ?thesis
    by (cases q) (simp add: b ubx_step_def Let_def ubx_checksum_byte_def ubx_reset_checksum_def checksum_def checksum_step_def)
qed

lemma silent_payload:
  assumes "length (ubx_payload f) = UBX_MAX_PAYLOAD_BYTES" "ubx_length f \<le> UBX_MAX_PAYLOAD_BYTES"
    "k + length ps \<le> ubx_length f"
  shows "ubx_silent ps \<lparr>ubx_frame = ubx_checked c f, ubx_index = 6 + k\<rparr>
    = Some \<lparr>ubx_frame = ubx_checked (fold checksum_step ps c) (f\<lparr>ubx_payload := copy_at k ps (ubx_payload f)\<rparr>),
        ubx_index = 6 + k + length ps\<rparr>"
  using assms
proof (induction ps arbitrary: f k c)
  case Nil then show ?case by (cases f) (simp add: copy_at_def)
next
  case (Cons x ps)
  let ?f = "f\<lparr>ubx_payload := (ubx_payload f)[k := x]\<rparr>"
  have step: "ubx_step x \<lparr>ubx_frame = ubx_checked c f, ubx_index = 6 + k\<rparr>
    = Some (False, \<lparr>ubx_frame = ubx_checked (checksum_step x c) ?f, ubx_index = 6 + Suc k\<rparr>)"
    using Cons.prems by (cases f) (simp add: ubx_step_def Let_def ubx_checksum_byte_def checksum_step_def)
  have "k < length (ubx_payload f)" using Cons.prems by simp
  then have copy: "copy_at (Suc k) ps ((ubx_payload f)[k := x]) = copy_at k (x # ps) (ubx_payload f)"
    by (simp add: copy_at_def take_Suc_conv_app_nth upd_conv_take_nth_drop take_update_cancel add.commute)
  show ?case using Cons.IH [of ?f "Suc k" "checksum_step x c"] Cons.prems step copy by (cases f) simp
qed

text \<open>The bytes of a frame before its checksum.\<close>

definition ubx_body :: "u8 \<Rightarrow> u8 \<Rightarrow> u8 list \<Rightarrow> u8 list" where
  "ubx_body class_byte id_byte payload = class_byte # id_byte # u16_to_le_bytes (word_of_nat (length payload)) @ payload"

lemma silent_frame:
  assumes "wf_ubx q" "ubx_index q = 0" "length payload \<le> UBX_MAX_PAYLOAD_BYTES"
  shows "ubx_silent (0xb5 # 0x62 # ubx_body class_byte id_byte payload) q
    = Some \<lparr>ubx_frame = ubx_checked (checksum (ubx_body class_byte id_byte payload))
        ((ubx_frame q)\<lparr>ubx_class := class_byte, ubx_id := id_byte, ubx_length := length payload,
           ubx_payload := copy_at 0 payload (ubx_payload (ubx_frame q))\<rparr>), ubx_index = 6 + length payload\<rparr>"
proof -
  let ?h = "0xb5 # 0x62 # class_byte # id_byte # u16_to_le_bytes (word_of_nat (length payload))"
  let ?f = "(ubx_frame q)\<lparr>ubx_class := class_byte, ubx_id := id_byte, ubx_length := length payload\<rparr>"
  have bytes: "0xb5 # 0x62 # ubx_body class_byte id_byte payload = ?h @ payload" by (simp add: ubx_body_def)
  have f: "length (ubx_payload ?f) = UBX_MAX_PAYLOAD_BYTES" using assms(1) by (simp add: wf_ubx_def)
  have "checksum (ubx_body class_byte id_byte payload)
    = fold checksum_step payload (checksum (class_byte # id_byte # u16_to_le_bytes (word_of_nat (length payload))))"
    by (simp add: checksum_def ubx_body_def)
  with silent_payload [OF f, of 0 payload] assms(3) show ?thesis
    unfolding bytes ubx_silent_append silent_header [OF assms(2,3)] by simp
qed


lemma wf_ubx_frame:
  assumes "wf_ubx q" "length payload \<le> UBX_MAX_PAYLOAD_BYTES"
  shows "length (copy_at 0 payload (ubx_payload (ubx_frame q))) = UBX_MAX_PAYLOAD_BYTES"
  using assms by (simp add: wf_ubx_def copy_at_def)

text \<open>The two checksum bytes after a frame's body.\<close>

lemma checksum_refused:
  assumes "x \<noteq> ck_a f" "ubx_length f = n"
  shows "\<exists>q'. ubx_silent [x, y] \<lparr>ubx_frame = f, ubx_index = 6 + n\<rparr> = Some q' \<and> ubx_frame q' = f"
  using assms by (auto simp: ubx_step_def Let_def)

lemma checksum_accepted:
  assumes "ubx_length f = n"
  shows "ubx_silent [ck_a f] \<lparr>ubx_frame = f, ubx_index = 6 + n\<rparr> = Some \<lparr>ubx_frame = f, ubx_index = 7 + n\<rparr>"
    "ubx_step (ck_b f) \<lparr>ubx_frame = f, ubx_index = 7 + n\<rparr> = Some (True, \<lparr>ubx_frame = f, ubx_index = 0\<rparr>)"
  using assms by (simp_all add: ubx_step_def Let_def)

section \<open>The packet builder\<close>

lemma copy_at_length [simp]: "offset + length data \<le> length bytes \<Longrightarrow> length (copy_at offset data bytes) = length bytes"
  by (simp add: copy_at_def)

lemma copy_at_append:
  assumes "length xs = offset"
  shows "copy_at offset data (xs @ ys) = xs @ data @ drop (length data) ys"
  using assms by (simp add: copy_at_def)

lemma make_ubx_packet_bytes:
  assumes "make_ubx_packet class_byte id_byte payload out = Some (n, bytes)"
  shows "take n bytes = 0xb5 # 0x62 # ubx_body class_byte id_byte payload
      @ [fst (checksum (ubx_body class_byte id_byte payload)), snd (checksum (ubx_body class_byte id_byte payload))]"
    "n = length payload + 8"
proof -
  have room: "length payload + 8 \<le> length out" and n: "n = length payload + 8"
    using assms by (auto simp: make_ubx_packet_def Let_def split: if_splits)
  obtain lo hi where len: "u16_to_le_bytes (word_of_nat (length payload)) = [lo, hi]" by (simp add: u16_to_le_bytes_def)
  let ?t = "drop (6 + length payload) out"
  let ?c = "checksum (ubx_body class_byte id_byte payload)"
  obtain x y t where t: "?t = x # y # t"
  proof -
    have "2 \<le> length ?t" using room by simp
    then show ?thesis by (cases ?t; cases "tl ?t") (auto intro: that)
  qed
  have c1: "copy_at 0 [0xb5, 0x62, class_byte, id_byte] out = [0xb5, 0x62, class_byte, id_byte] @ drop 4 out"
    by (simp add: copy_at_def eval_nat_numeral)
  have c2: "copy_at 4 [lo, hi] ([0xb5, 0x62, class_byte, id_byte] @ drop 4 out)
    = [0xb5, 0x62, class_byte, id_byte, lo, hi] @ drop 6 out"
    by (subst copy_at_append) simp_all
  have c3: "copy_at 6 payload ([0xb5, 0x62, class_byte, id_byte, lo, hi] @ drop 6 out)
    = [0xb5, 0x62, class_byte, id_byte, lo, hi] @ payload @ x # y # t"
    by (subst copy_at_append) (use t in \<open>simp_all add: add.commute\<close>)
  have body: "slice_bytes 2 (4 + length payload) ([0xb5, 0x62, class_byte, id_byte, lo, hi] @ payload @ x # y # t)
    = ubx_body class_byte id_byte payload" by (simp add: slice_bytes_def ubx_body_def len eval_nat_numeral)
  have "bytes = ([0xb5, 0x62, class_byte, id_byte, lo, hi] @ payload @ x # y # t)[6 + length payload := fst ?c, 7 + length payload := snd ?c]"
    using assms room by (simp only: make_ubx_packet_def Let_def len c1 c2 c3 body linorder_not_less if_False option.inject prod.inject)
      (simp add: not_less)
  then show "take n bytes = 0xb5 # 0x62 # ubx_body class_byte id_byte payload @ [fst ?c, snd ?c]" "n = length payload + 8"
    using n by (simp_all add: ubx_body_def len list_update_append eval_nat_numeral)
qed

lemma ubx_body_inject:
  "ubx_body c i p = ubx_body c' i' p' \<longleftrightarrow> c = c' \<and> i = i' \<and> p = p'"
proof
  assume "ubx_body c i p = ubx_body c' i' p'"
  then show "c = c' \<and> i = i' \<and> p = p'" by (simp add: ubx_body_def u16_to_le_bytes_def)
qed simp

lemma checksum_sum: "fst (fold checksum_step bytes c) = fst c + sum_list bytes"
  by (induction bytes arbitrary: c) (simp_all add: checksum_step_def Let_def add.assoc)

lemma changed_byte_changes_checksum:
  assumes "i < length bytes" "x \<noteq> bytes ! i"
  shows "fst (checksum (bytes[i := x])) \<noteq> fst (checksum bytes)"
proof -
  have "sum_list (bytes[i := x]) = sum_list (take i bytes) + (x + sum_list (drop (Suc i) bytes))"
    using assms(1) by (simp add: upd_conv_take_nth_drop)
  moreover have "sum_list bytes = sum_list (take i bytes) + (bytes ! i + sum_list (drop (Suc i) bytes))"
    using assms(1) by (subst id_take_nth_drop [OF assms(1)]) simp
  ultimately show ?thesis using assms(2) by (simp add: checksum_def checksum_sum)
qed

section \<open>The drivers over silent bytes\<close>

lemma gps_byte_silent:
  assumes "ubx_step byte (gt_parser t) = Some (False, q)"
  shows "gps_byte byte now t = Some (t\<lparr>gt_parser := q, gt_counters := record_gps_byte byte (gt_counters t)\<rparr>)"
  using assms by (simp add: gps_byte_def feed_ubx_byte_def)

lemma gps_words_silent:
  assumes "ubx_silent (map (\<lambda>w. ucast (fst w)) ws) (gt_parser t) = Some q"
  shows "\<exists>c. gps_words ws t = Some (t\<lparr>gt_parser := q, gt_counters := c\<rparr>)"
  using assms
proof (induction ws arbitrary: t)
  case Nil then show ?case by (auto intro: exI [of _ "gt_counters t"])
next
  case (Cons w ws)
  obtain word now where w: "w = (word, now)" by (cases w)
  from Cons.prems obtain q1 where step: "ubx_step (ucast word) (gt_parser t) = Some (False, q1)"
      and rest: "ubx_silent (map (\<lambda>w. ucast (fst w)) ws) q1 = Some q"
    by (auto simp: w split: option.splits bool.splits)
  let ?t = "t\<lparr>gt_parser := q1, gt_counters := record_gps_byte (ucast word) (gt_counters t)\<rparr>"
  from Cons.IH [of ?t] rest obtain c where "gps_words ws ?t = Some (?t\<lparr>gt_parser := q, gt_counters := c\<rparr>)" by auto
  then show ?case by (auto simp: w gps_byte_silent [OF step])
qed

lemma gps_words_append:
  "gps_words (xs @ ys) t = (case gps_words xs t of None \<Rightarrow> None | Some t' \<Rightarrow> gps_words ys t')"
  by (induction xs t rule: gps_words.induct) (auto split: option.splits)

lemma ublox_bytes_silent:
  assumes "ubx_silent (map fst bs) (us_parser s) = Some q"
  shows "ublox_bytes bs s = Some ([], s\<lparr>us_parser := q\<rparr>)"
  using assms
proof (induction bs arbitrary: s)
  case (Cons b bs)
  from Cons.prems obtain q1 where step: "ubx_step (fst b) (us_parser s) = Some (False, q1)"
      and rest: "ubx_silent (map fst bs) q1 = Some q"
    by (auto split: option.splits bool.splits)
  from Cons.IH [of "s\<lparr>us_parser := q1\<rparr>"] rest
  show ?case by (simp add: ublox_byte_def ublox_step_is_ubx_step step Let_def)
qed simp

lemma ublox_bytes_append:
  "ublox_bytes (xs @ ys) s = (case ublox_bytes xs s of None \<Rightarrow> None
     | Some (ps, s1) \<Rightarrow> (case ublox_bytes ys s1 of None \<Rightarrow> None | Some (ps', s2) \<Rightarrow> Some (ps @ ps', s2)))"
  by (induction xs s rule: ublox_bytes.induct) (auto split: option.splits)

section \<open>A whole frame\<close>

definition ubx_idle :: "ubx_parser \<Rightarrow> bool" where
  "ubx_idle q \<longleftrightarrow> wf_ubx q \<and> ubx_index q = 0"

definition ubx_bytes :: "u8 \<Rightarrow> u8 \<Rightarrow> u8 list \<Rightarrow> u8 list" where
  "ubx_bytes class_byte id_byte payload = (let c = checksum (ubx_body class_byte id_byte payload)
     in 0xb5 # 0x62 # ubx_body class_byte id_byte payload @ [fst c, snd c])"

definition frame_of :: "u8 \<Rightarrow> u8 \<Rightarrow> u8 list \<Rightarrow> ubx_frame \<Rightarrow> ubx_frame" where
  "frame_of class_byte id_byte payload f = ubx_checked (checksum (ubx_body class_byte id_byte payload))
     (f\<lparr>ubx_class := class_byte, ubx_id := id_byte, ubx_length := length payload, ubx_payload := copy_at 0 payload (ubx_payload f)\<rparr>)"

lemma frame_of_simps [simp]:
  "ubx_class (frame_of c i p f) = c" "ubx_id (frame_of c i p f) = i" "ubx_length (frame_of c i p f) = length p"
  "ubx_payload (frame_of c i p f) = copy_at 0 p (ubx_payload f)"
  "ck_a (frame_of c i p f) = fst (checksum (ubx_body c i p))" "ck_b (frame_of c i p f) = snd (checksum (ubx_body c i p))"
  by (simp_all add: frame_of_def)

lemma frame_of_idle:
  assumes "ubx_idle q" "length payload \<le> UBX_MAX_PAYLOAD_BYTES"
  shows "ubx_idle \<lparr>ubx_frame = frame_of c i payload (ubx_frame q), ubx_index = 0\<rparr>"
  using wf_ubx_frame [of q payload] assms by (simp add: ubx_idle_def wf_ubx_def)

lemma silent_body:
  assumes "ubx_idle q" "length payload \<le> UBX_MAX_PAYLOAD_BYTES"
  shows "ubx_silent (0xb5 # 0x62 # ubx_body c i payload) q
    = Some \<lparr>ubx_frame = frame_of c i payload (ubx_frame q), ubx_index = 6 + length payload\<rparr>"
  using silent_frame [of q payload c i] assms by (simp add: ubx_idle_def frame_of_def)

lemma silent_until_checksum_end:
  assumes "ubx_idle q" "length payload \<le> UBX_MAX_PAYLOAD_BYTES"
  shows "ubx_silent (butlast (ubx_bytes c i payload)) q
    = Some \<lparr>ubx_frame = frame_of c i payload (ubx_frame q), ubx_index = 7 + length payload\<rparr>"
proof -
  have "butlast (ubx_bytes c i payload) = (0xb5 # 0x62 # ubx_body c i payload) @ [fst (checksum (ubx_body c i payload))]"
    by (simp add: ubx_bytes_def Let_def butlast_append)
  then show ?thesis
    using silent_body [OF assms] checksum_accepted(1) [of "frame_of c i payload (ubx_frame q)" "length payload"]
    by (simp only: ubx_silent_append option.case frame_of_simps)
qed

lemma checksum_end:
  "ubx_step (last (ubx_bytes c i payload)) \<lparr>ubx_frame = frame_of c i payload f, ubx_index = 7 + length payload\<rparr>
    = Some (True, \<lparr>ubx_frame = frame_of c i payload f, ubx_index = 0\<rparr>)"
  using checksum_accepted(2) [of "frame_of c i payload f" "length payload"]
  by (simp add: ubx_bytes_def Let_def)

lemma ubx_bytes_nonempty [simp]: "ubx_bytes c i payload \<noteq> []"
  by (simp add: ubx_bytes_def Let_def)

lemma split_last:
  assumes "map f xs = ys" "ys \<noteq> []"
  obtains x where "xs = butlast xs @ [x]" "map f (butlast xs) = butlast ys" "f x = last ys" "x = last xs"
  using assms by (metis append_butlast_last_id last_map list.map_disc_iff map_butlast)

lemma gps_words_frame:
  assumes "ubx_idle (gt_parser t)" "length payload \<le> UBX_MAX_PAYLOAD_BYTES"
    "map (\<lambda>w. ucast (fst w)) ws = ubx_bytes class_byte id_byte payload"
  shows "\<exists>c q. ubx_idle q \<and> gps_words ws t = Some (t\<lparr>gt_parser := q, gt_counters := c,
    gt_queue := if class_byte = NAV_PVT_CLASS \<and> id_byte = NAV_PVT_ID \<and> length payload = NAV_PVT_LEN
      then gnss_queue_push (Inr (nav_pvt_packet payload (snd (last ws)))) (gt_queue t) else gt_queue t\<rparr>)"
proof -
  let ?f = "frame_of class_byte id_byte payload (ubx_frame (gt_parser t))"
  obtain w where ws: "ws = butlast ws @ [w]" and front: "map (\<lambda>w. ucast (fst w)) (butlast ws) = butlast (ubx_bytes class_byte id_byte payload)"
      and w: "ucast (fst w) = last (ubx_bytes class_byte id_byte payload)" "w = last ws"
    using split_last [OF assms(3)] by auto
  from gps_words_silent [of "butlast ws" t] silent_until_checksum_end [OF assms(1,2), of class_byte id_byte]
  obtain c where "gps_words (butlast ws) t
      = Some (t\<lparr>gt_parser := \<lparr>ubx_frame = ?f, ubx_index = 7 + length payload\<rparr>, gt_counters := c\<rparr>)"
    unfolding front by auto
  then have "gps_words ws t = gps_words [w] (t\<lparr>gt_parser := \<lparr>ubx_frame = ?f, ubx_index = 7 + length payload\<rparr>, gt_counters := c\<rparr>)"
    by (subst ws) (simp add: gps_words_append)
  also have "\<dots> = gps_byte (last (ubx_bytes class_byte id_byte payload)) (snd w)
      (t\<lparr>gt_parser := \<lparr>ubx_frame = ?f, ubx_index = 7 + length payload\<rparr>, gt_counters := c\<rparr>)"
    using w(1) by (cases w) (simp split: option.splits)
  finally have run: "gps_words ws t = \<dots>" .
  have payload: "take (length payload) (copy_at 0 payload b) = payload" for b by (simp add: copy_at_def)
  show ?thesis
    unfolding run gps_byte_def feed_ubx_byte_def
    using frame_of_idle [OF assms(1,2), of class_byte id_byte] payload [of "ubx_payload (ubx_frame (gt_parser t))"] w(2)
    by (auto simp: checksum_end Let_def) blast+
qed

lemma ublox_bytes_frame:
  assumes "ubx_idle (us_parser s)" "length payload \<le> UBX_MAX_PAYLOAD_BYTES"
    "map fst bs = ubx_bytes class_byte id_byte payload"
  shows "\<exists>q. ubx_idle q \<and> ublox_bytes bs s =
    (if class_byte = 0x01 \<or> id_byte = 0x07
     then (let s' = take_pps (snd (snd (last bs))) s
       in Some ([ublox_packet (take 92 (copy_at 0 payload (ubx_payload (ubx_frame (us_parser s))))) (us_pps_timestamp s') (fst (snd (last bs)))],
            s'\<lparr>us_parser := q\<rparr>))
     else Some ([], s\<lparr>us_parser := q\<rparr>))"
proof -
  let ?f = "frame_of class_byte id_byte payload (ubx_frame (us_parser s))"
  obtain b where bs: "bs = butlast bs @ [b]" and front: "map fst (butlast bs) = butlast (ubx_bytes class_byte id_byte payload)"
      and b: "fst b = last (ubx_bytes class_byte id_byte payload)" "b = last bs"
    using split_last [OF assms(3)] by auto
  have "ublox_bytes (butlast bs) s = Some ([], s\<lparr>us_parser := \<lparr>ubx_frame = ?f, ubx_index = 7 + length payload\<rparr>\<rparr>)"
    by (rule ublox_bytes_silent) (simp only: front silent_until_checksum_end [OF assms(1,2)])
  then have run: "ublox_bytes bs s = ublox_bytes [b] (s\<lparr>us_parser := \<lparr>ubx_frame = ?f, ubx_index = 7 + length payload\<rparr>\<rparr>)"
    by (subst bs) (simp add: ublox_bytes_append split: option.splits)
  show ?thesis
    unfolding run
    using frame_of_idle [OF assms(1,2), of class_byte id_byte] b
    by (auto simp: ublox_byte_def ublox_step_is_ubx_step checksum_end Let_def take_pps_def split: option.splits)
qed

lemma made_bytes:
  assumes "make_ubx_packet c i payload out = Some (n, bytes)"
  shows "take n bytes = ubx_bytes c i payload"
  using make_ubx_packet_bytes(1) [OF assms] by (simp add: ubx_bytes_def Let_def)

lemma gps_words_stream:
  assumes "ubx_idle (gt_parser t)"
    "list_all2 (\<lambda>payload ws. length payload = NAV_PVT_LEN
       \<and> map (\<lambda>w. ucast (fst w)) ws = ubx_bytes NAV_PVT_CLASS NAV_PVT_ID payload) payloads wss"
  shows "map_option gt_queue (gps_words (concat wss) t)
    = Some (fold (\<lambda>(payload, ws). gnss_queue_push (Inr (nav_pvt_packet payload (snd (last ws))))) (zip payloads wss) (gt_queue t))"
  using assms(2,1)
proof (induction arbitrary: t rule: list_all2_induct)
  case (Cons payload payloads ws wss)
  have len: "length payload \<le> UBX_MAX_PAYLOAD_BYTES" using Cons.hyps by (simp add: NAV_PVT_LEN_def UBX_MAX_PAYLOAD_BYTES_def)
  from gps_words_frame [OF Cons.prems len conjunct2 [OF Cons.hyps(1)]] conjunct1 [OF Cons.hyps(1)]
  obtain c q where "ubx_idle q" "gps_words ws t = Some (t\<lparr>gt_parser := q, gt_counters := c,
      gt_queue := gnss_queue_push (Inr (nav_pvt_packet payload (snd (last ws)))) (gt_queue t)\<rparr>)" by auto
  then show ?case by (simp add: gps_words_append Cons.IH)
qed simp

section \<open>The drivers\<close>

text \<open>
  C15. Round trip through the receiver task of the RP2350: the words of NAV-PVT packets, each as
  \<^verbatim>\<open>make_ubx_packet\<close> builds it, push the decoded packets into the GNSS queue, one for each
  and in their order, each stamped with the time of its last byte.
\<close>

theorem nav_pvt_packets_reach_the_queue:
  assumes "ubx_idle (gt_parser t)"
    "list_all2 (\<lambda>payload ws. length payload = NAV_PVT_LEN \<and> (\<exists>n bytes. map (\<lambda>w. ucast (fst w)) ws = take n bytes
       \<and> make_ubx_packet NAV_PVT_CLASS NAV_PVT_ID payload out = Some (n, bytes))) payloads wss"
  shows "map_option gt_queue (gps_words (concat wss) t)
    = Some (fold (\<lambda>(payload, ws). gnss_queue_push (Inr (nav_pvt_packet payload (snd (last ws))))) (zip payloads wss) (gt_queue t))"
  by (rule gps_words_stream [OF assms(1)]) (rule list_all2_mono [OF assms(2)], auto simp: made_bytes)

lemma ubx_idle_new [simp]: "ubx_idle ubx_parser_new"
  by (simp add: ubx_idle_def) (simp add: ubx_parser_new_def)

lemma nav_pvt_packets_reach_the_queue_witness:
  "\<exists>ws bytes. make_ubx_packet NAV_PVT_CLASS NAV_PVT_ID (replicate 92 0) (replicate 100 0) = Some (100, bytes)
     \<and> ws = map (\<lambda>b. (ucast b, 7)) bytes
     \<and> map_option gt_queue (gps_words (concat [ws]) (gps_task_new 0 gnss_queue_new))
       = Some (gnss_queue_push (Inr (nav_pvt_packet (replicate 92 0) (snd (last ws)))) gnss_queue_new)"
proof -
  obtain n bytes where made: "make_ubx_packet NAV_PVT_CLASS NAV_PVT_ID (replicate 92 0) (replicate 100 0) = Some (n, bytes)"
    by (simp add: make_ubx_packet_def Let_def)
  then have n: "n = 100" "length bytes = 100" by (auto simp: make_ubx_packet_def Let_def u16_to_le_bytes_def)
  let ?ws = "map (\<lambda>b. (ucast b :: u32, 7 :: u64)) bytes"
  have ws: "map (\<lambda>w. ucast (fst w)) ?ws = take n bytes" using n by (simp add: comp_def ucast_up_ucast_id is_up)
  have "map_option gt_queue (gps_words (concat [?ws]) (gps_task_new 0 gnss_queue_new))
    = Some (fold (\<lambda>(payload, ws). gnss_queue_push (Inr (nav_pvt_packet payload (snd (last ws)))))
        (zip [replicate 92 0] [?ws]) (gt_queue (gps_task_new 0 gnss_queue_new)))"
    by (rule nav_pvt_packets_reach_the_queue [where out = "replicate 100 0"])
      (use made ws in \<open>auto simp: gps_task_new_def NAV_PVT_LEN_def\<close>)
  then show ?thesis using made n by (auto simp: gps_task_new_def)
qed

text \<open>
  C38. Damage is noticed: when one byte of a frame's class, identifier, length or payload is replaced by
  another and the frame still claims its number of bytes, the RP2350's task pushes no packet and
  the STM32's driver publishes none.
\<close>

theorem damaged_ubx_frame_is_refused:
  assumes "ubx_idle (gt_parser t)" "ubx_idle (us_parser s)" "length payload \<le> UBX_MAX_PAYLOAD_BYTES"
    "i < length (ubx_body c d payload)" "x \<noteq> ubx_body c d payload ! i"
    "(ubx_body c d payload)[i := x] = ubx_body c' d' payload'" "length payload' = length payload"
    "bytes = 0xb5 # 0x62 # ubx_body c' d' payload'
       @ [fst (checksum (ubx_body c d payload)), snd (checksum (ubx_body c d payload))]"
  shows "map_option gt_queue (gps_words (map (\<lambda>b. (ucast b, now)) bytes) t) = Some (gt_queue t)
    \<and> map_option fst (ublox_bytes (map (\<lambda>b. (b, now, pps)) bytes) s) = Some []"
proof -
  let ?k = "checksum (ubx_body c d payload)"
  have len: "length payload' \<le> UBX_MAX_PAYLOAD_BYTES" using assms(3,7) by simp
  have ne: "fst ?k \<noteq> fst (checksum (ubx_body c' d' payload'))"
    using changed_byte_changes_checksum [OF assms(4,5)] unfolding assms(6) by simp
  have silent: "\<exists>q'. ubx_silent bytes q = Some q'" if "ubx_idle q" for q
  proof -
    from checksum_refused [of "fst ?k" "frame_of c' d' payload' (ubx_frame q)" "length payload'" "snd ?k"] ne
    obtain q' where "ubx_silent [fst ?k, snd ?k] \<lparr>ubx_frame = frame_of c' d' payload' (ubx_frame q), ubx_index = 6 + length payload'\<rparr> = Some q'"
      by auto
    moreover have "bytes = (0xb5 # 0x62 # ubx_body c' d' payload') @ [fst ?k, snd ?k]" using assms(8) by simp
    ultimately show ?thesis using silent_body [OF that len, of c' d'] by (simp only: ubx_silent_append option.case) blast
  qed
  from silent [OF assms(1)] obtain q where "ubx_silent bytes (gt_parser t) = Some q" by auto
  then have "\<exists>k. gps_words (map (\<lambda>b. (ucast b, now)) bytes) t = Some (t\<lparr>gt_parser := q, gt_counters := k\<rparr>)"
    by (intro gps_words_silent) (simp add: comp_def ucast_up_ucast_id is_up)
  moreover from silent [OF assms(2)] obtain q where "ubx_silent bytes (us_parser s) = Some q" by auto
  then have "ublox_bytes (map (\<lambda>b. (b, now, pps)) bytes) s = Some ([], s\<lparr>us_parser := q\<rparr>)"
    by (intro ublox_bytes_silent) (simp add: comp_def)
  ultimately show ?thesis by auto
qed

lemma damaged_ubx_frame_is_refused_witness:
  "map_option gt_queue (gps_words (map (\<lambda>b. (ucast b, 3)) [0xb5, 0x62, 1, 7, 1, 0, 5 :: u8, 13, 40]) (gps_task_new 0 gnss_queue_new))
      = Some (gt_queue (gps_task_new 0 gnss_queue_new))
    \<and> map_option fst (ublox_bytes (map (\<lambda>b. (b, 3, Some 2)) [0xb5, 0x62, 1, 7, 1, 0, 5, 13, 40]) ublox_state_new) = Some []"
  by (rule damaged_ubx_frame_is_refused [where payload = "[4 :: u8]" and i = 4 and c = 1 and d = 7 and x = 5
        and c' = 1 and d' = 7 and payload' = "[5 :: u8]"])
    (simp_all add: gps_task_new_def ublox_state_new_def ubx_body_def u16_to_le_bytes_def UBX_MAX_PAYLOAD_BYTES_def
      checksum_def checksum_step_def Let_def)

lemma gps_words_total:
  "wf_ubx (gt_parser t) \<Longrightarrow> \<exists>t'. gps_words ws t = Some t' \<and> wf_ubx (gt_parser t')"
proof (induction ws arbitrary: t)
  case (Cons w ws)
  obtain word now where w: "w = (word, now)" by (cases w)
  obtain found q where q: "ubx_step (ucast word) (gt_parser t) = Some (found, q)" "wf_ubx q"
    using ubx_step_total [OF Cons.prems] by blast
  have "\<exists>t'. gps_byte (ucast word) now t = Some t' \<and> gt_parser t' = q"
    using q(1) by (cases found) (simp_all add: gps_byte_def feed_ubx_byte_def Let_def)
  then obtain t' where "gps_byte (ucast word) now t = Some t'" "gt_parser t' = q" by auto
  with Cons.IH [of t'] q show ?case by (simp add: w)
qed simp

lemma ublox_bytes_total:
  "wf_ubx (us_parser s) \<Longrightarrow> \<exists>ps s'. ublox_bytes bs s = Some (ps, s') \<and> wf_ubx (us_parser s')"
proof (induction bs arbitrary: s)
  case (Cons b bs)
  obtain found q where q: "ublox_step (fst b) (us_parser s) = Some (found, q)" "wf_ubx q"
    using ubx_step_total [OF Cons.prems] unfolding ublox_step_is_ubx_step by blast
  have "\<exists>p s'. ublox_byte b s = Some (p, s') \<and> us_parser s' = q"
    using q(1) by (simp add: ublox_byte_def Let_def take_pps_def split: option.splits)
  then obtain p s' where "ublox_byte b s = Some (p, s')" "us_parser s' = q" by auto
  with Cons.IH [of s'] q show ?case by auto
qed simp

text \<open>
  No received byte makes either driver panic: from their start, the RP2350's task and the
  STM32's driver handle every sequence of bytes without leaving the payload array.
\<close>

theorem received_bytes_never_panic:
  "gps_words ws (gps_task_new now ring) \<noteq> None \<and> ublox_bytes bs ublox_state_new \<noteq> None"
  using gps_words_total [of "gps_task_new now ring" ws] ublox_bytes_total [of ublox_state_new bs]
  by (auto simp: gps_task_new_def ublox_state_new_def)

text \<open>
  The STM32's driver takes other messages for fixes: a frame of class 1 whose identifier is not
  that of NAV-PVT is published as a fix made of its bytes followed by those of older frames; the
  RP2350's task pushes nothing.
\<close>

theorem other_nav_messages_are_published:
  assumes "ubx_idle (us_parser s)" "ubx_idle (gt_parser t)" "length payload \<le> UBX_MAX_PAYLOAD_BYTES" "i \<noteq> NAV_PVT_ID"
  shows "map_option fst (ublox_bytes (map (\<lambda>b. (b, now, None)) (ubx_bytes NAV_PVT_CLASS i payload)) s)
      = Some [ublox_packet (take 92 (copy_at 0 payload (ubx_payload (ubx_frame (us_parser s))))) (us_pps_timestamp s) now]
    \<and> map_option gt_queue (gps_words (map (\<lambda>b. (ucast b, now)) (ubx_bytes NAV_PVT_CLASS i payload)) t) = Some (gt_queue t)"
proof
  have "\<exists>q. ubx_idle q \<and> ublox_bytes (map (\<lambda>b. (b, now, None)) (ubx_bytes NAV_PVT_CLASS i payload)) s
    = Some ([ublox_packet (take 92 (copy_at 0 payload (ubx_payload (ubx_frame (us_parser s))))) (us_pps_timestamp s) now],
        s\<lparr>us_parser := q\<rparr>)"
    using ublox_bytes_frame [OF assms(1,3), of "map (\<lambda>b. (b, now, None)) (ubx_bytes NAV_PVT_CLASS i payload)" NAV_PVT_CLASS i]
    by (simp add: NAV_PVT_CLASS_def comp_def last_map Let_def take_pps_def)
  then show "map_option fst (ublox_bytes (map (\<lambda>b. (b, now, None)) (ubx_bytes NAV_PVT_CLASS i payload)) s)
      = Some [ublox_packet (take 92 (copy_at 0 payload (ubx_payload (ubx_frame (us_parser s))))) (us_pps_timestamp s) now]"
    by auto
  show "map_option gt_queue (gps_words (map (\<lambda>b. (ucast b, now)) (ubx_bytes NAV_PVT_CLASS i payload)) t) = Some (gt_queue t)"
    using gps_words_frame [OF assms(2,3), of "map (\<lambda>b. (ucast b, now)) (ubx_bytes NAV_PVT_CLASS i payload)" NAV_PVT_CLASS i] assms(4)
    by (auto simp: comp_def ucast_up_ucast_id is_up)
qed

lemma other_nav_messages_are_published_witness:
  "map_option fst (ublox_bytes (map (\<lambda>b. (b, 9, None)) (ubx_bytes NAV_PVT_CLASS 3 [1, 2])) ublox_state_new)
      = Some [ublox_packet (1 # 2 # replicate 90 0) 0 9]
    \<and> map_option gt_queue (gps_words (map (\<lambda>b. (ucast b, 9)) (ubx_bytes NAV_PVT_CLASS 3 [1, 2])) (gps_task_new 0 gnss_queue_new))
      = Some gnss_queue_new"
proof -
  have "take 92 (copy_at 0 [1, 2] (ubx_payload (ubx_frame (us_parser ublox_state_new)))) = 1 # 2 # replicate 90 0"
    by (simp add: copy_at_def ublox_state_new_def ubx_parser_new_def ubx_frame_new_def UBX_MAX_PAYLOAD_BYTES_def)
  then show ?thesis
    using other_nav_messages_are_published [of ublox_state_new "gps_task_new 0 gnss_queue_new" "[1, 2]" 3 9]
    by (simp add: gps_task_new_def ublox_state_new_def UBX_MAX_PAYLOAD_BYTES_def NAV_PVT_ID_def)
qed

end
