(* ===== verification/Gps_Time.thy ===== *)
theory Gps_Time
  imports Ublox Machine_Ints
begin

text \<open>
  The time and the fields of a fix: the seconds since 1970 against the calendar, the widths of the
  values between, and what the two drivers make of the same payload.
\<close>

section \<open>The calendar\<close>

definition leap_year :: "nat \<Rightarrow> bool" where
  "leap_year y \<longleftrightarrow> 4 dvd y \<and> \<not> 100 dvd y \<or> 400 dvd y"

definition year_days :: "nat \<Rightarrow> int" where
  "year_days y = (if leap_year y then 366 else 365)"

definition months :: "nat \<Rightarrow> int list" where
  "months y = [31, if leap_year y then 29 else 28, 31, 30, 31, 30, 31, 31, 30, 31, 30, 31]"

text \<open>The days from 1 January 1970 to a date: whole years, whole months, days.\<close>

definition days_since_1970 :: "nat \<Rightarrow> nat \<Rightarrow> nat \<Rightarrow> int" where
  "days_since_1970 y m d = (\<Sum>k\<leftarrow>[1970..<y]. year_days k) + sum_list (take (m - 1) (months y)) + int d - 1"

definition year_start :: "int \<Rightarrow> int" where
  "year_start y = 365 * y + y div 4 - y div 100 + y div 400"

lemma div_step:
  assumes n: "0 < n"
  shows "(y :: int) div n = (y - 1) div n + (if n dvd y then 1 else 0)"
proof (cases "n dvd y")
  case True
  then obtain k where y: "y = n * k" by (rule dvdE)
  have "(n * k - 1) div n = k - 1" using n by (intro int_div_pos_eq [where r = "n - 1"]) (auto simp: algebra_simps)
  with y n show ?thesis by simp
next
  case False
  then have "0 < y mod n" using n by (metis dvd_eq_mod_eq_0 pos_mod_sign order_le_less)
  moreover have "y = n * (y div n) + y mod n" "y mod n < n" using n by simp_all
  ultimately have "(y - 1) div n = y div n"
    using n by (intro int_div_pos_eq [where r = "y mod n - 1"]) linarith+
  with False show ?thesis by simp
qed

lemma year_start_step: "year_start (int y) = year_start (int y - 1) + year_days y"
proof -
  have dvd: "4 dvd int y \<longleftrightarrow> 4 dvd y" "100 dvd int y \<longleftrightarrow> 100 dvd y" "400 dvd int y \<longleftrightarrow> 400 dvd y"
    using int_dvd_int_iff [of 4 y] int_dvd_int_iff [of 100 y] int_dvd_int_iff [of 400 y] by simp_all
  have "400 dvd y \<Longrightarrow> 100 dvd y" "100 dvd y \<Longrightarrow> 4 dvd y" by (auto intro: dvd_trans)
  then show ?thesis
    using div_step [of 4 "int y"] div_step [of 100 "int y"] div_step [of 400 "int y"]
    by (auto simp: year_start_def year_days_def leap_year_def dvd)
qed

lemma years_sum: "1970 \<le> y \<Longrightarrow> (\<Sum>k\<leftarrow>[1970..<y]. year_days k) = year_start (int y - 1) - 719162"
proof (induction y rule: nat_induct_at_least)
  case base then show ?case by (simp add: year_start_def)
next
  case (Suc y) then show ?case using year_start_step [of y] by simp
qed

lemma era_days:
  assumes "0 \<le> y"
  shows "(y sdiv 400) * 146097 + ((y - (y sdiv 400) * 400) * 365 + (y - (y sdiv 400) * 400) sdiv 4
    - (y - (y sdiv 400) * 400) sdiv 100) = year_start y"
proof -
  let ?e = "y div 400" and ?r = "y mod 400"
  have r: "y - ?e * 400 = ?r" by (simp add: minus_div_mult_eq_mod)
  have y: "y = 400 * ?e + ?r" by simp
  have "y div 4 = (?r + (100 * ?e) * 4) div 4" "y div 100 = (?r + (4 * ?e) * 100) div 100"
    by (simp_all add: mult.commute flip: mult.assoc)
  then have "y div 4 = 100 * ?e + ?r div 4" "y div 100 = 4 * ?e + ?r div 100"
    by (simp_all only: div_mult_self1 zero_neq_numeral [symmetric] simp_thms add.commute)
  then show ?thesis using assms y r by (simp add: sdiv_nonneg year_start_def)
qed

lemma month_start:
  assumes "1 \<le> m" "m \<le> (12 :: nat)"
  shows "(153 * (int m + (if 2 < int m then - 3 else 9)) + 2) sdiv 5
    = sum_list (take (m - 1) (months y)) + (if m \<le> 2 then 306 else - 31 - (if leap_year y then 29 else 28))"
proof -
  have "m = 1 \<or> m = 2 \<or> m = 3 \<or> m = 4 \<or> m = 5 \<or> m = 6 \<or> m = 7 \<or> m = 8 \<or> m = 9 \<or> m = 10 \<or> m = 11 \<or> m = 12"
    using assms by presburger
  then show ?thesis by (auto simp: months_def sdiv_nonneg)
qed

lemma civil_days_is_calendar:
  assumes "1970 \<le> y" "1 \<le> m" "m \<le> 12"
  shows "civil_days_i32 (int y) (int m) (int d) = days_since_1970 y m d"
proof (cases "m \<le> 2")
  case True
  have "0 \<le> int y - 1" using assms(1) by simp
  with True era_days [of "int y - 1"] month_start [OF assms(2,3), of y] years_sum [OF assms(1)] assms(1) show ?thesis
    by (simp add: civil_days_i32_def days_since_1970_def Let_def)
next
  case False
  with era_days [of "int y"] month_start [OF assms(2,3), of y] years_sum [OF assms(1)] year_start_step [of y] show ?thesis
    by (simp add: civil_days_i32_def days_since_1970_def Let_def year_days_def)
qed

section \<open>The widths\<close>

lemma era_bounds:
  fixes y :: int
  assumes "- 1 \<le> y" "y \<le> 65535"
  shows "- 1 \<le> (if 0 \<le> y then y else y - 399) sdiv 400" "(if 0 \<le> y then y else y - 399) sdiv 400 \<le> 163"
    "0 \<le> y - ((if 0 \<le> y then y else y - 399) sdiv 400) * 400" "y - ((if 0 \<le> y then y else y - 399) sdiv 400) * 400 < 400"
proof -
  consider "y = - 1" | "0 \<le> y" using assms(1) by linarith
  then show "- 1 \<le> (if 0 \<le> y then y else y - 399) sdiv 400" "(if 0 \<le> y then y else y - 399) sdiv 400 \<le> 163"
    "0 \<le> y - ((if 0 \<le> y then y else y - 399) sdiv 400) * 400" "y - ((if 0 \<le> y then y else y - 399) sdiv 400) * 400 < 400"
    using assms(2) by (cases; simp add: sdiv_nonneg minus_div_mult_eq_mod; simp add: signed_divide_int_def)+
qed

lemma civil_days_values_fit:
  fixes year m d :: int
  assumes "0 \<le> year" "year \<le> 65535" "0 \<le> m" "m \<le> 255" "0 \<le> d" "d \<le> 255"
    "y = year - (if m \<le> 2 then 1 else 0)" "era = (if 0 \<le> y then y else y - 399) sdiv 400" "yoe = y - era * 400"
    "mp = m + (if 2 < m then - 3 else 9)" "doy = (153 * mp + 2) sdiv 5 + d - 1"
    "doe = yoe * 365 + yoe sdiv 4 - yoe sdiv 100 + doy"
  shows "list_all fits_i32 [y, y - 399, era, era * 400, yoe, mp, 153 * mp, 153 * mp + 2, (153 * mp + 2) sdiv 5 + d, doy,
      yoe * 365, yoe * 365 + yoe sdiv 4, yoe * 365 + yoe sdiv 4 - yoe sdiv 100, doe, era * 146097, era * 146097 + doe]
    \<and> - 1000000 \<le> civil_days_i32 year m d \<and> civil_days_i32 year m d < 24000000"
proof -
  have y: "- 1 \<le> y" "y \<le> 65535" using assms by auto
  have era: "- 1 \<le> era" "era \<le> 163" "0 \<le> yoe" "yoe < 400" using era_bounds [OF y] assms(8,9) by simp_all
  have mp: "0 \<le> mp" "mp \<le> 252" using assms(3,4,10) by auto
  have doy: "- 1 \<le> doy" "doy \<le> 7966" "0 \<le> (153 * mp + 2) sdiv 5 + d" "(153 * mp + 2) sdiv 5 + d \<le> 7967"
    using mp assms(5,6) unfolding assms(11) by (simp_all add: sdiv_nonneg)
  have q: "0 \<le> yoe sdiv 4" "yoe sdiv 4 < 100" "0 \<le> yoe sdiv 100" "yoe sdiv 100 < 4"
    using era by (simp_all add: sdiv_nonneg)
  have "civil_days_i32 year m d = era * 146097 + doe - 719468" by (simp add: civil_days_i32_def Let_def assms(7-12))
  then show ?thesis using y era mp doy q assms(12) by (simp add: fits_i32_def)
qed

section \<open>The time of a fix\<close>

lemma civil_days_bounds:
  fixes year :: u16 and month day :: u8
  shows "- 1000000 \<le> civil_days_i32 (uint year) (uint month) (uint day) \<and> civil_days_i32 (uint year) (uint month) (uint day) < 24000000"
  using civil_days_values_fit [of "uint year" "uint month" "uint day", OF _ _ _ _ _ _ refl refl refl refl refl refl]
    uint_lt2p [of year] uint_lt2p [of month] uint_lt2p [of day] by simp

lemma unix_seconds_value:
  "sint (unix_seconds_from_utc year month day h mi s)
    = civil_days_i32 (uint year) (uint month) (uint day) * 86400 + uint h * 3600 + uint mi * 60 + uint s"
proof -
  have b: "uint h < 256" "uint mi < 256" "uint s < 256" using uint_lt2p [of h] uint_lt2p [of mi] uint_lt2p [of s] by simp_all
  have p: "0 \<le> uint h" "0 \<le> uint mi" "0 \<le> uint s" by simp_all
  show ?thesis
    unfolding unix_seconds_from_utc_def Let_def
    by (rule sint_word_of_int_fits; simp; use civil_days_bounds [of year month day] b p in linarith)
qed

text \<open>
  C34. The time of a fix is the calendar's: from 1970 on, for a month from 1 to 12, the seconds that the
  drivers compute without a table are those of the whole years, months and days since 1 January
  1970, leap years included, and the time of day.
\<close>

theorem unix_seconds_is_the_calendar:
  assumes "1970 \<le> unat year" "1 \<le> unat month" "unat month \<le> 12"
  shows "sint (unix_seconds_from_utc year month day h mi s)
    = days_since_1970 (unat year) (unat month) (unat day) * 86400 + uint h * 3600 + uint mi * 60 + uint s"
  using civil_days_is_calendar [OF assms, of "unat day"] by (simp add: unix_seconds_value)

lemma unix_seconds_is_the_calendar_witness:
  "sint (unix_seconds_from_utc 2000 3 1 0 0 5) = days_since_1970 2000 3 1 * 86400 + 0 * 3600 + 0 * 60 + 5"
  using unix_seconds_is_the_calendar [of 2000 3 1 0 0 5] by simp

text \<open>
  No value on the way leaves its width: for every year, month and day that the payload can hold,
  each intermediate value of \<^verbatim>\<open>unix_seconds_from_utc\<close> fits an \<^verbatim>\<open>i32\<close>, so that the arithmetic
  neither panics nor wraps, and the seconds have the exact value.
\<close>

theorem unix_seconds_fit:
  fixes year :: u16 and month day :: u8
  shows "(let y = uint year - (if uint month \<le> 2 then 1 else 0);
      era = (if 0 \<le> y then y else y - 399) sdiv 400;
      yoe = y - era * 400;
      mp = uint month + (if 2 < uint month then - 3 else 9);
      doy = (153 * mp + 2) sdiv 5 + uint day - 1;
      doe = yoe * 365 + yoe sdiv 4 - yoe sdiv 100 + doy
    in list_all fits_i32 [y, y - 399, era, era * 400, yoe, mp, 153 * mp, 153 * mp + 2, (153 * mp + 2) sdiv 5 + uint day, doy,
         yoe * 365, yoe * 365 + yoe sdiv 4, yoe * 365 + yoe sdiv 4 - yoe sdiv 100, doe, era * 146097, era * 146097 + doe,
         era * 146097 + doe - 719468]
       \<and> sint (unix_seconds_from_utc year month day h mi s)
         = (era * 146097 + doe - 719468) * 86400 + uint h * 3600 + uint mi * 60 + uint s)"
  using civil_days_values_fit [of "uint year" "uint month" "uint day", OF _ _ _ _ _ _ refl refl refl refl refl refl]
    uint_lt2p [of year] uint_lt2p [of month] uint_lt2p [of day] unix_seconds_value [of year month day h mi s]
    civil_days_bounds [of year month day]
  by (simp add: Let_def civil_days_i32_def fits_i32_def)

lemma unix_seconds_bounds:
  "- 1000000000000 \<le> sint (unix_seconds_from_utc year month day h mi s)"
  "sint (unix_seconds_from_utc year month day h mi s) < 10000000000000"
proof -
  have b: "uint h < 256" "uint mi < 256" "uint s < 256" using uint_lt2p [of h] uint_lt2p [of mi] uint_lt2p [of s] by simp_all
  have p: "0 \<le> uint h" "0 \<le> uint mi" "0 \<le> uint s" by simp_all
  show "- 1000000000000 \<le> sint (unix_seconds_from_utc year month day h mi s)"
    "sint (unix_seconds_from_utc year month day h mi s) < 10000000000000"
    unfolding unix_seconds_value using civil_days_bounds [of year month day] b p by linarith+
qed

section \<open>The two drivers\<close>

definition gnss_instant :: "gnss_packet \<Rightarrow> int" where
  "gnss_instant p = sint (unix_seconds p) * 10 ^ 9 + sint (unix_nanos p)"

text \<open>
  Both drivers give a payload the same instant, seconds and nanoseconds together, but only the
  STM32's makes the nanoseconds a fraction of a second: the RP2350's packet keeps the receiver's sign.
\<close>

theorem drivers_agree_on_the_instant:
  assumes "- (10 ^ 9) \<le> sint (i32_at payload 16)"
  shows "gnss_instant (ublox_packet payload pps completed) = gnss_instant (nav_pvt_packet payload now)
    \<and> 0 \<le> sint (unix_nanos (ublox_packet payload pps completed))
    \<and> unix_nanos (nav_pvt_packet payload now) = i32_at payload 16"
proof -
  let ?n = "i32_at payload 16"
  let ?s = "unix_seconds_from_utc (u16_at payload 4) (u8_at payload 6) (u8_at payload 7) (u8_at payload 8) (u8_at payload 9) (u8_at payload 10)"
  have nanos: "sint (?n + 1000000000) = sint ?n + 1000000000" if "sint ?n < 0"
  proof -
    have "?n + 1000000000 = word_of_int (sint ?n + 1000000000)" by simp
    also have "sint \<dots> = sint ?n + 1000000000" by (rule sint_word_of_int_fits) (use that assms in simp_all)
    finally show ?thesis .
  qed
  have b: "- 1000000000000 \<le> sint ?s" "sint ?s < 10000000000000" by (rule unix_seconds_bounds)+
  have seconds: "sint (?s - 1) = sint ?s - 1"
  proof -
    have "?s - 1 = word_of_int (sint ?s - 1)" by simp
    also have "sint \<dots> = sint ?s - 1" 
      by (rule sint_word_of_int_fits; simp; use b in linarith)
    finally show ?thesis .
  qed
  show ?thesis
    using nanos seconds assms
    by (simp add: gnss_instant_def ublox_packet_def nav_pvt_packet_def pvt_of_payload_def Let_def)
qed

lemma drivers_agree_on_the_instant_witness:
  "gnss_instant (ublox_packet (replicate 92 255) 5 6) = gnss_instant (nav_pvt_packet (replicate 92 255) 7)
    \<and> 0 \<le> sint (unix_nanos (ublox_packet (replicate 92 255) 5 6))
    \<and> unix_nanos (nav_pvt_packet (replicate 92 255) 7) = i32_at (replicate 92 255) 16"
  by (rule drivers_agree_on_the_instant) (simp add: i32_at_def u32_from_le_bytes_def)

text \<open>
  The STM32's driver does not read the magnetic declination: no value of the payload's bytes 88 and
  89, where NAV-PVT has it, changes its fix, while the RP2350's driver scales exactly these bytes.
\<close>

theorem declination_bytes_are_ignored:
  "ublox_packet (payload[88 := x, 89 := y]) pps completed = ublox_packet payload pps completed
    \<and> mag_dec (nav_pvt_packet (replicate 88 0 @ [x, y] @ rest) now)
      = flt_of_int (sint (u16_from_le_bytes [x, y])) * flt_lit 17453292519943296 100000000000000000000"
  by (simp add: ublox_packet_def pvt_of_payload_def nav_pvt_packet_def u8_at_def u16_at_def u32_at_def i32_at_def i16_at_def
      nth_append Let_def)

end
