(* ===== verification/Rc_Drivers.thy ===== *)
theory Rc_Drivers
  imports Latest_Queue Param_Storage "HOL-Library.Signed_Division"
begin

text \<open>
  The receivers of the remote control: the SBUS driver of the STM32,
  \<^verbatim>\<open>platforms/stm_32/src/peripherals/sbus.rs\<close>, and the CRSF receiver of the RP2350,
  \<^verbatim>\<open>platforms/rp2350/src/peripherals/rc_receiver.rs\<close> with its task of
  \<^verbatim>\<open>boards/pico2w/src/bin/veloxity.rs\<close>. What a read leaves in the buffer, the clock and the packet
  parser of the \<^verbatim>\<open>crsf\<close> crate are arguments. An instant counts microseconds, the tick of the board.
\<close>

section \<open>SBUS\<close>

definition SBUS_11_BIT_CHANNELS :: nat where "SBUS_11_BIT_CHANNELS = 16"
definition SBUS_BINARY_CHANNELS :: nat where "SBUS_BINARY_CHANNELS = 2"
definition SBUS_CHANNELS :: nat where "SBUS_CHANNELS = SBUS_11_BIT_CHANNELS + SBUS_BINARY_CHANNELS"

record sbus_diagnostics =
  sd_read_ok :: u32
  sd_read_err :: u32
  sd_last_read_size :: u32
  sd_size_25 :: u32
  sd_valid_frame :: u32
  sd_bad_header :: u32
  sd_bad_footer :: u32
  sd_signal :: u32
  sd_timeout :: u32
  sd_last_status :: u32

definition sbus_diagnostics_new :: sbus_diagnostics where
  "sbus_diagnostics_new = \<lparr>sd_read_ok = 0, sd_read_err = 0, sd_last_read_size = 0, sd_size_25 = 0, sd_valid_frame = 0,
     sd_bad_header = 0, sd_bad_footer = 0, sd_signal = 0, sd_timeout = 0, sd_last_status = 0\<rparr>"

text \<open>The eleven bits from a bit offset, the lowest first.\<close>

definition sbus_bits :: "u8 list \<Rightarrow> nat \<Rightarrow> u16" where
  "sbus_bits bytes bit_offset =
    (let byte_offset = bit_offset div 8; bit_start = bit_offset mod 8
     in fold (\<lambda>i value.
          let byte_index = byte_offset + (bit_start + i) div 8;
            bit_index = (bit_start + i) mod 8;
            b = drop_bit bit_index (bytes ! byte_index) AND 1
          in value OR push_bit i (ucast b)) [0..<11] 0)"

definition extract_chan :: "u8 list \<Rightarrow> nat \<Rightarrow> f32" where
  "extract_chan bytes bit_offset = flt_of_int (uint (sbus_bits bytes bit_offset))"

text \<open>The state of the loop; \<^verbatim>\<open>chan\<close> is written in full by every frame.\<close>

record sbus_state =
  sb_buffer :: "u8 list"
  sb_chan :: "f32 list"
  sb_timeout :: u64
  sb_rc_chan :: "f32 list"
  sb_diag :: sbus_diagnostics

definition sbus_new :: "u64 \<Rightarrow> sbus_diagnostics \<Rightarrow> sbus_state" where
  "sbus_new now d = \<lparr>sb_buffer = replicate 25 0, sb_chan = replicate SBUS_CHANNELS 0, sb_timeout = now + 1000000,
     sb_rc_chan = replicate RC_PACKET_CHANNELS 0, sb_diag = d\<rparr>"

definition sbus_valid_header :: "u8 list \<Rightarrow> bool" where
  "sbus_valid_header buffer \<longleftrightarrow> buffer ! 0 = 0x0F"

definition sbus_valid_footer :: "u8 list \<Rightarrow> bool" where
  "sbus_valid_footer buffer \<longleftrightarrow> buffer ! 24 = 0x00 \<or> buffer ! 24 = 0x04 \<or> buffer ! 24 = 0x14 \<or> buffer ! 24 = 0x24
     \<or> buffer ! 24 = 0x34"

definition sbus_scaled :: "f32 \<Rightarrow> f32" where
  "sbus_scaled x = (x - flt_lit 172 1) / flt_lit 1639 1"

definition sbus_channels :: "u8 list \<Rightarrow> f32 list" where
  "sbus_channels buffer =
    (let dig = (ucast (buffer ! 23) :: u16)
     in map (\<lambda>i. sbus_scaled (extract_chan buffer (8 + i * 11))) [0..<SBUS_11_BIT_CHANNELS]
        @ [sbus_scaled (flt_of_int (uint (dig AND 0x01))), sbus_scaled (flt_of_int (uint (drop_bit 1 dig AND 0x01)))])"

text \<open>
  A frame in the buffer: the packet, if header and footer are right. The clock is read when the
  packet is made.
\<close>

definition sbus_frame :: "u64 \<Rightarrow> sbus_state \<Rightarrow> rc_packet option \<times> sbus_state" where
  "sbus_frame now s =
    (let buffer = sb_buffer s; d = sb_diag s;
       valid_header = sbus_valid_header buffer; valid_footer = sbus_valid_footer buffer
     in if valid_header \<and> valid_footer then
          (let dig = (ucast (buffer ! 23) :: u16);
             chan = sbus_channels buffer;
             len = (if RC_PACKET_CHANNELS < SBUS_CHANNELS then RC_PACKET_CHANNELS else SBUS_CHANNELS);
             rc_chan = take len chan @ replicate (RC_PACKET_CHANNELS - len) 0;
             packet = \<lparr>rcp_header = \<lparr>ph_timestamp = now, ph_status = dig\<rparr>, n_chan = 24, rcp_chan = rc_chan,
                       lol = (dig AND 0x0C \<noteq> 0)\<rparr>
           in (Some packet, s\<lparr>sb_chan := chan, sb_rc_chan := rc_chan,
                 sb_diag := d\<lparr>sd_valid_frame := sd_valid_frame d + 1, sd_last_status := ucast dig, sd_signal := sd_signal d + 1\<rparr>\<rparr>))
        else (None, s\<lparr>sb_diag := (let d1 = (if \<not> valid_header then d\<lparr>sd_bad_header := sd_bad_header d + 1\<rparr> else d)
               in if valid_header \<and> \<not> valid_footer then d1\<lparr>sd_bad_footer := sd_bad_footer d1 + 1\<rparr> else d1)\<rparr>))"

text \<open>
  The check at the end of a turn. The clock is read for the check, for the new deadline and for the
  packet's time stamp.
\<close>

definition sbus_check :: "u64 \<Rightarrow> u64 \<Rightarrow> u64 \<Rightarrow> sbus_state \<Rightarrow> rc_packet option \<times> sbus_state" where
  "sbus_check now reset stamp s =
    (if sb_timeout s < now then
       (let dig = (0x1C :: u16); d = sb_diag s
        in (Some \<lparr>rcp_header = \<lparr>ph_timestamp = stamp, ph_status = dig\<rparr>, n_chan = 24, rcp_chan = sb_rc_chan s,
                  lol = (dig AND 0x1C \<noteq> 0)\<rparr>,
            s\<lparr>sb_timeout := reset + 1000000,
              sb_diag := d\<lparr>sd_timeout := sd_timeout d + 1, sd_last_status := ucast dig, sd_signal := sd_signal d + 1\<rparr>\<rparr>))
     else (None, s))"

record sbus_clock =
  at_read :: u64
  at_packet :: u64
  at_check :: u64
  at_reset :: u64
  at_stamp :: u64

text \<open>
  One turn: the result of the read, with the number of bytes, and what it left in the buffer. The
  packets sent are returned in order.
\<close>

definition sbus_turn :: "nat option \<times> u8 list \<Rightarrow> sbus_clock \<Rightarrow> sbus_state \<Rightarrow> rc_packet list \<times> sbus_state" where
  "sbus_turn r clock s =
    (let s0 = s\<lparr>sb_buffer := snd r\<rparr>; d = sb_diag s0;
       (sent, s1) = (case fst r of
          Some n \<Rightarrow>
            (let d1 = d\<lparr>sd_read_ok := sd_read_ok d + 1, sd_last_read_size := word_of_nat n,
                        sd_size_25 := if n = length (sb_buffer s0) then sd_size_25 d + 1 else sd_size_25 d\<rparr>
             in sbus_frame (at_packet clock) (s0\<lparr>sb_diag := d1, sb_timeout := at_read clock + 1000000\<rparr>))
        | None \<Rightarrow> (None, s0\<lparr>sb_diag := d\<lparr>sd_read_err := sd_read_err d + 1\<rparr>\<rparr>));
       (late, s2) = sbus_check (at_check clock) (at_reset clock) (at_stamp clock) s1
     in (case_option [] (\<lambda>p. [p]) sent @ case_option [] (\<lambda>p. [p]) late, s2))"

section \<open>CRSF\<close>

definition CRSF_MAX_CHANNELS :: nat where "CRSF_MAX_CHANNELS = 16"

record crsf_stats =
  cs_bytes :: u32
  cs_frames :: u32
  cs_read_errors :: u32
  cs_queue_drops :: u32

definition crsf_stats_new :: crsf_stats where
  "crsf_stats_new = \<lparr>cs_bytes = 0, cs_frames = 0, cs_read_errors = 0, cs_queue_drops = 0\<rparr>"

definition record_crsf_bytes :: "nat \<Rightarrow> crsf_stats \<Rightarrow> crsf_stats" where
  "record_crsf_bytes n c = c\<lparr>cs_bytes := cs_bytes c + word_of_nat n\<rparr>"

definition record_crsf_frame :: "crsf_stats \<Rightarrow> crsf_stats" where
  "record_crsf_frame c = c\<lparr>cs_frames := cs_frames c + 1\<rparr>"

definition record_crsf_read_error :: "crsf_stats \<Rightarrow> crsf_stats" where
  "record_crsf_read_error c = c\<lparr>cs_read_errors := cs_read_errors c + 1\<rparr>"

text \<open>
  The packet parser of the \<^verbatim>\<open>crsf\<close> crate: the bytes it takes, the next result (an error, another
  packet, or the channel values of an RC packet) and the two channel values that stand for 1000 and
  2000 microseconds.
\<close>

datatype crsf_result = CrsfError | CrsfOther | CrsfRcChannels "u16 list"

record 'p crsf_ops =
  crsf_push_bytes :: "u8 list \<Rightarrow> 'p \<Rightarrow> 'p"
  crsf_next_packet :: "'p \<Rightarrow> crsf_result option \<times> 'p"
  channel_value_1000 :: u16
  channel_value_2000 :: u16

definition crsf_channel_to_unit :: "'p crsf_ops \<Rightarrow> u16 \<Rightarrow> f32" where
  "crsf_channel_to_unit ops raw =
    (let width = flt_of_int (uint (channel_value_2000 ops - channel_value_1000 ops))
     in flt_clamp (flt_of_int (uint (saturating_sub raw (channel_value_1000 ops))) / width) 0 1)"

definition rc_channels_to_packet :: "'p crsf_ops \<Rightarrow> u16 list \<Rightarrow> u64 \<Rightarrow> rc_packet" where
  "rc_channels_to_packet ops channels now_us =
    (let values = take RC_PACKET_CHANNELS (map (crsf_channel_to_unit ops) channels)
     in \<lparr>rcp_header = \<lparr>ph_timestamp = now_us, ph_status = 0\<rparr>, n_chan = word_of_nat CRSF_MAX_CHANNELS,
         rcp_chan = values @ replicate (RC_PACKET_CHANNELS - length values) 0, lol = False\<rparr>)"

text \<open>The loop over the results; whether it ends is up to the parser.\<close>

partial_function (option) crsf_drain :: "'p crsf_ops \<Rightarrow> u64 \<Rightarrow> rc_packet option \<Rightarrow> 'p \<Rightarrow> (rc_packet option \<times> 'p) option" where
  "crsf_drain ops now_us latest p =
    (let n = crsf_next_packet ops p
     in case fst n of
          None \<Rightarrow> Some (latest, snd n)
        | Some result \<Rightarrow>
            crsf_drain ops now_us
              (case result of CrsfRcChannels channels \<Rightarrow> Some (rc_channels_to_packet ops channels now_us) | _ \<Rightarrow> latest) (snd n))"

definition crsf_push :: "'p crsf_ops \<Rightarrow> u8 list \<Rightarrow> u64 \<Rightarrow> 'p \<Rightarrow> (rc_packet option \<times> 'p) option" where
  "crsf_push ops bytes now_us p = crsf_drain ops now_us None (crsf_push_bytes ops bytes p)"

record 'p crsf_task =
  ct_parser :: 'p
  ct_stats :: crsf_stats
  ct_queue :: "rc_packet packet_ring"

definition crsf_rx_turn :: "'p crsf_ops \<Rightarrow> u8 list option \<Rightarrow> u64 \<Rightarrow> 'p crsf_task \<Rightarrow> 'p crsf_task option" where
  "crsf_rx_turn ops rx now_us t =
    (case rx of
       Some bytes \<Rightarrow>
         (case crsf_push ops bytes now_us (ct_parser t) of
            None \<Rightarrow> None
          | Some (packet, p) \<Rightarrow>
              (let t1 = t\<lparr>ct_parser := p, ct_stats := record_crsf_bytes (length bytes) (ct_stats t)\<rparr>
               in Some (case packet of
                    Some k \<Rightarrow> t1\<lparr>ct_stats := record_crsf_frame (ct_stats t1), ct_queue := crsf_queue_push k (ct_queue t1)\<rparr>
                  | None \<Rightarrow> t1)))
     | None \<Rightarrow> Some (t\<lparr>ct_stats := record_crsf_read_error (ct_stats t)\<rparr>))"

end
