(* ===== verification/Rc_Drivers_Safety.thy ===== *)
theory Rc_Drivers_Safety
  imports Rc_Drivers
begin

text \<open>
  The receivers of the remote control: SBUS frames carry their sixteen channels, what a short read
  and a silent line do, and the packets of CRSF.
\<close>

section \<open>The bits of a frame\<close>

text \<open>The eleven bits of each channel one after the other, packed into bytes from the lowest bit.\<close>

definition channel_bits :: "u16 list \<Rightarrow> bool list" where
  "channel_bits vs = concat (map (\<lambda>v. map (bit v) [0..<11]) vs)"

definition bytes_of_bits :: "bool list \<Rightarrow> u8 list" where
  "bytes_of_bits bs = map (\<lambda>k. horner_sum of_bool 2 (take 8 (drop (8 * k) bs))) [0..<length bs div 8]"

definition sbus_frame_bytes :: "u16 list \<Rightarrow> u8 \<Rightarrow> u8 list" where
  "sbus_frame_bytes vs flags = 0x0F # bytes_of_bits (channel_bits vs) @ [flags, 0]"

lemma length_channel_bits [simp]: "length (channel_bits vs) = 11 * length vs"
  by (induction vs) (simp_all add: channel_bits_def)

lemma nth_channel_bits:
  assumes "i < length vs" "j < 11"
  shows "channel_bits vs ! (11 * i + j) = bit (vs ! i) j"
  using assms
proof (induction vs arbitrary: i)
  case (Cons v vs)
  show ?case
  proof (cases i)
    case 0 with Cons.prems show ?thesis by (simp add: channel_bits_def nth_append)
  next
    case (Suc k)
    with Cons.IH [of k] Cons.prems show ?thesis by (simp add: channel_bits_def nth_append)
  qed
qed simp

lemma length_bytes_of_bits [simp]: "length (bytes_of_bits bs) = length bs div 8"
  by (simp add: bytes_of_bits_def)

lemma bit_bytes_of_bits:
  assumes "n < length bs" "8 dvd length bs"
  shows "bit (bytes_of_bits bs ! (n div 8)) (n mod 8) = bs ! n"
proof -
  have k: "n div 8 < length bs div 8" using assms by (auto elim!: dvdE intro: less_mult_imp_div_less simp: mult.commute)
  have split: "8 * (n div 8) + n mod 8 = n" by simp
  have "n mod 8 < length bs - 8 * (n div 8)" using assms(1) split by linarith
  then show ?thesis using k
    by (simp add: bytes_of_bits_def bit_horner_sum_bit_word_iff nth_append)
qed

lemma bit_extracted:
  "bit (sbus_bits bytes offset) i \<longleftrightarrow> i < 11 \<and> bit (bytes ! ((offset + i) div 8)) ((offset + i) mod 8)"
proof -
  let ?f = "\<lambda>i (value :: u16). value OR push_bit i (ucast (drop_bit ((offset mod 8 + i) mod 8)
      (bytes ! (offset div 8 + (offset mod 8 + i) div 8)) AND 1))"
  have index: "offset div 8 + (offset mod 8 + k) div 8 = (offset + k) div 8" "(offset mod 8 + k) mod 8 = (offset + k) mod 8" for k
  proof -
    have eq: "offset + k = (offset mod 8 + k) + (offset div 8) * 8" by simp
    show "offset div 8 + (offset mod 8 + k) div 8 = (offset + k) div 8" unfolding eq by (simp only: div_mult_self1)
    show "(offset mod 8 + k) mod 8 = (offset + k) mod 8" by (simp add: mod_simps)
  qed
  have "bit (fold ?f [0..<n] 0) i \<longleftrightarrow> i < n \<and> bit (bytes ! ((offset + i) div 8)) ((offset + i) mod 8)" if "n \<le> 16" for n
    using that
  proof (induction n)
    case (Suc n)
    then show ?case by (auto simp: bit_simps index less_Suc_eq)
  qed simp
  from this [of 11] show ?thesis by (simp add: sbus_bits_def Let_def)
qed

lemma extracted_channel:
  assumes "length vs = 16" "i < 16" "vs ! i < 2048"
  shows "sbus_bits (sbus_frame_bytes vs flags) (8 + i * 11) = vs ! i"
proof (rule bit_word_eqI)
  fix j assume "j < LENGTH(16)"
  have high: "\<not> bit (vs ! i) j" if "11 \<le> j"
  proof -
    have "take_bit 11 (uint (vs ! i)) = uint (vs ! i)" using assms(3) by (simp add: take_bit_int_eq_self_iff word_less_alt)
    then have "\<not> bit (uint (vs ! i)) j" using that by (metis bit_take_bit_iff linorder_not_less)
    then show ?thesis using \<open>j < LENGTH(16)\<close> by (simp add: bit_uint_iff)
  qed
  have low: "bit (sbus_frame_bytes vs flags ! ((8 + i * 11 + j) div 8)) ((8 + i * 11 + j) mod 8) = bit (vs ! i) j" if "j < 11"
  proof -
    let ?n = "11 * i + j"
    have n: "?n < length (channel_bits vs)" using assms(1,2) that by simp
    have "(8 + i * 11 + j) div 8 = Suc (?n div 8)" "(8 + i * 11 + j) mod 8 = ?n mod 8"
      by (simp_all add: mult.commute div_add_self1 add.assoc)
    moreover have "?n div 8 < length (bytes_of_bits (channel_bits vs))" using n assms(1) by simp
    ultimately show ?thesis
      using bit_bytes_of_bits [OF n] nth_channel_bits [of i vs j] assms(1,2) that
      by (simp add: sbus_frame_bytes_def nth_append)
  qed
  show "bit (sbus_bits (sbus_frame_bytes vs flags) (8 + i * 11)) j = bit (vs ! i) j"
    using high low by (cases "j < 11") (simp_all add: bit_extracted)
qed

section \<open>SBUS packets\<close>

lemma sbus_frame_bytes_ends [simp]:
  assumes "length vs = 16"
  shows "sbus_frame_bytes vs flags ! 0 = 0x0F" "sbus_frame_bytes vs flags ! 23 = flags" "sbus_frame_bytes vs flags ! 24 = 0"
    "length (sbus_frame_bytes vs flags) = 25"
  using assms by (simp_all add: sbus_frame_bytes_def nth_append nth_Cons')

definition sbus_packet_channels :: "u16 list \<Rightarrow> u8 \<Rightarrow> f32 list" where
  "sbus_packet_channels vs flags = map (\<lambda>v. sbus_scaled (flt_of_int (uint v))) vs
     @ [sbus_scaled (flt_of_int (uint ((ucast flags :: u16) AND 1))), sbus_scaled (flt_of_int (uint (drop_bit 1 (ucast flags :: u16) AND 1)))]
     @ replicate 6 0"

text \<open>The packet of a buffer; the rest of the state has no part in it.\<close>

definition sbus_packet_of :: "u64 \<Rightarrow> u8 list \<Rightarrow> rc_packet" where
  "sbus_packet_of now buffer = \<lparr>rcp_header = \<lparr>ph_timestamp = now, ph_status = ucast (buffer ! 23)\<rparr>, n_chan = 24,
     rcp_chan = sbus_channels buffer @ replicate 6 0, lol = ((ucast (buffer ! 23) :: u16) AND 0x0C \<noteq> 0)\<rparr>"

lemma length_sbus_channels [simp]: "length (sbus_channels buffer) = 18"
  by (simp add: sbus_channels_def Let_def SBUS_11_BIT_CHANNELS_def del: upt_conv_Cons upt_rec_numeral)

lemma sbus_frame_result:
  "fst (sbus_frame now s) = (if sbus_valid_header (sb_buffer s) \<and> sbus_valid_footer (sb_buffer s)
     then Some (sbus_packet_of now (sb_buffer s)) else None)"
  "sb_timeout (snd (sbus_frame now s)) = sb_timeout s" "sb_buffer (snd (sbus_frame now s)) = sb_buffer s"
  by (simp_all add: sbus_frame_def sbus_packet_of_def Let_def SBUS_CHANNELS_def SBUS_11_BIT_CHANNELS_def SBUS_BINARY_CHANNELS_def
      RC_PACKET_CHANNELS_def)

lemma sbus_turn_read:
  assumes "at_check clock \<le> at_read clock + 1000000"
  shows "fst (sbus_turn (Some n, buffer) clock s)
      = (if sbus_valid_header buffer \<and> sbus_valid_footer buffer then [sbus_packet_of (at_packet clock) buffer] else [])"
    "sb_timeout (snd (sbus_turn (Some n, buffer) clock s)) = at_read clock + 1000000"
    "sb_buffer (snd (sbus_turn (Some n, buffer) clock s)) = buffer"
  using assms by (simp_all add: sbus_turn_def sbus_check_def sbus_frame_result Let_def case_prod_beta not_less [symmetric])

lemma sbus_channels_of_frame:
  assumes "length vs = 16" "\<forall>v\<in>set vs. v < 2048"
  shows "sbus_channels (sbus_frame_bytes vs flags) @ replicate 6 0 = sbus_packet_channels vs flags"
proof -
  have chan: "map (\<lambda>i. sbus_scaled (extract_chan (sbus_frame_bytes vs flags) (8 + i * 11))) [0..<16]
    = map (\<lambda>v. sbus_scaled (flt_of_int (uint v))) vs"
    using assms extracted_channel [OF assms(1)]
    by (intro nth_equalityI) (simp_all add: extract_chan_def del: upt_conv_Cons upt_rec_numeral)
  then show ?thesis
    using assms(1) by (simp add: sbus_channels_def sbus_packet_channels_def Let_def SBUS_11_BIT_CHANNELS_def
        del: upt_conv_Cons upt_rec_numeral)
qed

text \<open>
  C16. Round trip of an SBUS frame: the sixteen channels of eleven bits, packed one after the other from
  the lowest bit, the flags and the footer, come out as the sixteen scaled channels of the packet that
  the turn sends, with the two binary channels, and with a lost link exactly when the receiver says so.
\<close>

theorem sbus_frame_round_trip:
  assumes "length vs = 16" "\<forall>v\<in>set vs. v < 2048" "at_check clock \<le> at_read clock + 1000000"
  shows "fst (sbus_turn (Some 25, sbus_frame_bytes vs flags) clock s)
    = [\<lparr>rcp_header = \<lparr>ph_timestamp = at_packet clock, ph_status = ucast flags\<rparr>, n_chan = 24,
        rcp_chan = sbus_packet_channels vs flags, lol = ((ucast flags :: u16) AND 0x0C \<noteq> 0)\<rparr>]"
  using assms(1) sbus_channels_of_frame [OF assms(1,2)]
  by (simp add: sbus_turn_read [OF assms(3)] sbus_packet_of_def sbus_valid_header_def sbus_valid_footer_def)

definition quiet_clock :: "u64 \<Rightarrow> sbus_clock" where
  "quiet_clock now = \<lparr>at_read = now, at_packet = now, at_check = now, at_reset = now, at_stamp = now\<rparr>"

lemma sbus_frame_round_trip_witness:
  "fst (sbus_turn (Some 25, sbus_frame_bytes (replicate 15 1000 @ [172]) 8) (quiet_clock 70) (sbus_new 0 sbus_diagnostics_new))
    = [\<lparr>rcp_header = \<lparr>ph_timestamp = at_packet (quiet_clock 70), ph_status = ucast (8 :: u8)\<rparr>, n_chan = 24,
        rcp_chan = sbus_packet_channels (replicate 15 1000 @ [172]) 8, lol = ((ucast (8 :: u8) :: u16) AND 0x0C \<noteq> 0)\<rparr>]"
  by (rule sbus_frame_round_trip) (simp_all add: quiet_clock_def)

text \<open>
  A stray byte keeps a lost receiver alive: the number of bytes read is not checked and the buffer
  keeps the last frame, so that after a complete frame each read of the single byte 0x0F sends that
  frame's channels again, as a new packet with the time of the read and the frame's own flags, and puts
  off the timeout by another second.
\<close>

theorem stray_byte_repeats_the_last_frame:
  assumes "length vs = 16" "\<forall>v\<in>set vs. v < 2048" "at_check clock \<le> at_read clock + 1000000"
    "sb_buffer s = sbus_frame_bytes vs flags"
  shows "fst (sbus_turn (Some 1, copy_at 0 [0x0F] (sb_buffer s)) clock s)
      = [\<lparr>rcp_header = \<lparr>ph_timestamp = at_packet clock, ph_status = ucast flags\<rparr>, n_chan = 24,
          rcp_chan = sbus_packet_channels vs flags, lol = ((ucast flags :: u16) AND 0x0C \<noteq> 0)\<rparr>]
    \<and> sb_timeout (snd (sbus_turn (Some 1, copy_at 0 [0x0F] (sb_buffer s)) clock s)) = at_read clock + 1000000
    \<and> sb_buffer (snd (sbus_turn (Some 1, copy_at 0 [0x0F] (sb_buffer s)) clock s)) = sbus_frame_bytes vs flags"
proof -
  have same: "copy_at 0 [0x0F] (sb_buffer s) = sbus_frame_bytes vs flags"
    unfolding assms(4) by (simp add: copy_at_def sbus_frame_bytes_def)
  show ?thesis
    unfolding same sbus_turn_read [OF assms(3)]
    using assms(1) sbus_channels_of_frame [OF assms(1,2)]
    by (simp add: sbus_packet_of_def sbus_valid_header_def sbus_valid_footer_def)
qed

lemma stray_byte_repeats_the_last_frame_witness:
  "fst (sbus_turn (Some 1, copy_at 0 [0x0F] (sbus_frame_bytes (replicate 16 900) 0)) (quiet_clock 5)
      (sbus_new 0 sbus_diagnostics_new\<lparr>sb_buffer := sbus_frame_bytes (replicate 16 900) 0\<rparr>))
    = [\<lparr>rcp_header = \<lparr>ph_timestamp = 5, ph_status = 0\<rparr>, n_chan = 24,
        rcp_chan = sbus_packet_channels (replicate 16 900) 0, lol = False\<rparr>]"
  using stray_byte_repeats_the_last_frame [of "replicate 16 900" "quiet_clock 5"
      "sbus_new 0 sbus_diagnostics_new\<lparr>sb_buffer := sbus_frame_bytes (replicate 16 900) 0\<rparr>" 0]
  by (simp add: quiet_clock_def)

text \<open>A turn whose read fails after the deadline.\<close>

lemma sbus_silence_is_reported:
  assumes "sb_timeout s < at_check clock"
  shows "fst (sbus_turn (None, buffer) clock s)
      = [\<lparr>rcp_header = \<lparr>ph_timestamp = at_stamp clock, ph_status = 0x1C\<rparr>, n_chan = 24, rcp_chan = sb_rc_chan s, lol = True\<rparr>]
    \<and> sb_timeout (snd (sbus_turn (None, buffer) clock s)) = at_reset clock + 1000000"
  using assms by (simp add: sbus_turn_def sbus_check_def Let_def)

section \<open>CRSF packets\<close>

lemma crsf_unit_range:
  assumes "channel_value_1000 ops < channel_value_2000 ops"
  shows "0 \<le> crsf_channel_to_unit ops raw \<and> crsf_channel_to_unit ops raw \<le> 1"
proof -
  let ?w = "uint (channel_value_2000 ops - channel_value_1000 ops)"
  let ?v = "uint (saturating_sub raw (channel_value_1000 ops))"
  have "channel_value_2000 ops - channel_value_1000 ops \<noteq> 0" using assms by auto
  then have "?w \<noteq> 0" by (simp add: uint_0_iff)
  then have w: "0 < ?w" "?w < 65536" using uint_lt2p [of "channel_value_2000 ops - channel_value_1000 ops"]
    by (simp_all add: order_less_le)
  have v: "0 \<le> ?v" "?v < 65536" using uint_lt2p [of "saturating_sub raw (channel_value_1000 ops)"] by simp_all
  have m: "(65536 :: int) < 2 ^ Suc (mbits TYPE(32))" by (simp add: mbits_def)
  have fw: "fval (flt_of_int ?w :: f32) = ?w * 2 ^ ulp_exp TYPE(32)" "is_finite (flt_of_int ?w :: f32)"
    using f32.flt_lit_int [of ?w] w m by (simp_all add: flt_of_int_def)
  have fv: "is_finite (flt_of_int ?v :: f32)" using f32.flt_lit_int [of ?v] v m by (simp add: flt_of_int_def)
  have "\<not> is_nan (flt_of_int ?v / flt_of_int ?w :: f32)"
    using f32.div_finite(1) [OF fv fw(2)] fw(1) w by simp
  then show ?thesis
    unfolding crsf_channel_to_unit_def Let_def
    by (rule f32.flt_clamp_between) (simp add: f32.le_finite_iff)
qed

text \<open>The results that a parser gives until it has none, and the state it is then in.\<close>

fun crsf_yields :: "'p crsf_ops \<Rightarrow> crsf_result list \<Rightarrow> 'p \<Rightarrow> 'p option" where
  "crsf_yields ops [] p = (case crsf_next_packet ops p of (None, p') \<Rightarrow> Some p' | (Some r, p') \<Rightarrow> None)"
| "crsf_yields ops (r # rs) p = (case crsf_next_packet ops p of
     (Some r', p') \<Rightarrow> (if r' = r then crsf_yields ops rs p' else None) | (None, p') \<Rightarrow> None)"

fun rc_results :: "crsf_result list \<Rightarrow> u16 list list" where
  "rc_results [] = []"
| "rc_results (CrsfRcChannels channels # rs) = channels # rc_results rs"
| "rc_results (r # rs) = rc_results rs"

lemma crsf_drain_yields:
  assumes "crsf_yields ops rs p = Some p'"
  shows "crsf_drain ops now latest p
    = Some (if rc_results rs = [] then latest else Some (rc_channels_to_packet ops (last (rc_results rs)) now), p')"
  using assms
proof (induction rs arbitrary: p latest rule: rc_results.induct)
  case 1 then show ?case by (subst crsf_drain.simps) (auto simp: Let_def split: prod.splits option.splits)
next
  case (2 channels rs)
  then show ?case by (subst crsf_drain.simps) (auto simp: Let_def split: prod.splits option.splits if_splits)
next
  case "3_1"
  then show ?case by (subst crsf_drain.simps) (auto simp: Let_def split: prod.splits option.splits if_splits)
next
  case "3_2"
  then show ?case by (subst crsf_drain.simps) (auto simp: Let_def split: prod.splits option.splits if_splits)
qed

text \<open>
  The newest stick positions win: when the bytes of a read complete any number of CRSF packets, the
  receiver's task pushes one packet, that of the last RC packet among them, whose channels lie between
  0 and 1, and errors and other packets change nothing.
\<close>

theorem newest_crsf_channels_win:
  assumes "crsf_yields ops rs (crsf_push_bytes ops bytes (ct_parser t)) = Some p" "rc_results rs \<noteq> []"
    "channel_value_1000 ops < channel_value_2000 ops"
  shows "map_option ct_queue (crsf_rx_turn ops (Some bytes) now t)
      = Some (crsf_queue_push (rc_channels_to_packet ops (last (rc_results rs)) now) (ct_queue t))
    \<and> (\<forall>c \<in> set (rcp_chan (rc_channels_to_packet ops (last (rc_results rs)) now)). 0 \<le> c \<and> c \<le> 1)"
proof -
  have "\<forall>c \<in> set (rcp_chan (rc_channels_to_packet ops channels now)). 0 \<le> c \<and> c \<le> 1" for channels
    using crsf_unit_range [OF assms(3)]
    by (auto simp: rc_channels_to_packet_def Let_def f32.le_finite_iff take_map)
  then show ?thesis
    using crsf_drain_yields [OF assms(1), of now None] assms(2)
    by (simp add: crsf_rx_turn_def crsf_push_def Let_def)
qed

text \<open>A parser that gives prepared results, for the witness.\<close>

definition scripted_crsf :: "crsf_result list crsf_ops" where
  "scripted_crsf = \<lparr>crsf_push_bytes = \<lambda>bytes p. p, crsf_next_packet = \<lambda>p. case p of [] \<Rightarrow> (None, []) | r # rs \<Rightarrow> (Some r, rs),
     channel_value_1000 = 191, channel_value_2000 = 1792\<rparr>"

lemma newest_crsf_channels_win_witness:
  "map_option ct_queue (crsf_rx_turn scripted_crsf (Some [1]) 6
      \<lparr>ct_parser = [CrsfRcChannels [5], CrsfError, CrsfRcChannels [1000]], ct_stats = crsf_stats_new, ct_queue = crsf_queue_new\<rparr>)
    = Some (crsf_queue_push (rc_channels_to_packet scripted_crsf [1000] 6) crsf_queue_new)"
  using newest_crsf_channels_win [of scripted_crsf "[CrsfRcChannels [5], CrsfError, CrsfRcChannels [1000]]" "[1]"
      "\<lparr>ct_parser = [CrsfRcChannels [5], CrsfError, CrsfRcChannels [1000]], ct_stats = crsf_stats_new, ct_queue = crsf_queue_new\<rparr>" "[]" 6]
  by (simp add: scripted_crsf_def)

end
