(* ===== verification/Sensor_Bus.thy ===== *)
theory Sensor_Bus
  imports Sensor_Processors "HOL-Library.Signed_Division"
begin

text \<open>
  The SPI and I2C buses as the sensor drivers use them, and the two barometers:
  \<^verbatim>\<open>platforms/rp2350/src/peripherals/ms5611.rs\<close> and \<^verbatim>\<open>platforms/stm_32/src/peripherals/dps310.rs\<close>. The
  device on the bus is an argument with a state of its own; delays, interrupts that are only waited
  for, and the choice of the slot times are left out. A driver's loop is one turn that returns what it
  publishes.
\<close>

section \<open>Bus operations\<close>

text \<open>
  Whether an operation succeeded, with the bytes received. An SPI transfer receives as many bytes as it
  sends; what is in the buffer after a failure is the device's choice.
\<close>

record 'b bus_ops =
  bus_write :: "u8 list \<Rightarrow> 'b \<Rightarrow> bool \<times> 'b"
  bus_transfer :: "u8 list \<Rightarrow> 'b \<Rightarrow> (bool \<times> u8 list) \<times> 'b"
  bus_read :: "nat \<Rightarrow> 'b \<Rightarrow> (bool \<times> u8 list) \<times> 'b"

type_synonym ('b, 'e, 'a) bus_step = "'b \<Rightarrow> ('e + 'a) \<times> 'b"

definition bus_ok :: "'a \<Rightarrow> ('b, 'e, 'a) bus_step" where
  "bus_ok a = (\<lambda>b. (Inr a, b))"

definition bus_fail :: "'e \<Rightarrow> ('b, 'e, 'a) bus_step" where
  "bus_fail e = (\<lambda>b. (Inl e, b))"

definition then_bus :: "('b, 'e, 'a) bus_step \<Rightarrow> ('a \<Rightarrow> ('b, 'e, 'c) bus_step) \<Rightarrow> ('b, 'e, 'c) bus_step" where
  "then_bus m k = (\<lambda>b. case m b of (Inl e, b') \<Rightarrow> (Inl e, b') | (Inr a, b') \<Rightarrow> k a b')"

definition write_or :: "'b bus_ops \<Rightarrow> 'e \<Rightarrow> u8 list \<Rightarrow> ('b, 'e, unit) bus_step" where
  "write_or ops e tx = (\<lambda>b. case bus_write ops tx b of (ok, b') \<Rightarrow> (if ok then Inr () else Inl e, b'))"

definition transfer_or :: "'b bus_ops \<Rightarrow> 'e \<Rightarrow> u8 list \<Rightarrow> ('b, 'e, u8 list) bus_step" where
  "transfer_or ops e tx = (\<lambda>b. case bus_transfer ops tx b of ((ok, rx), b') \<Rightarrow> (if ok then Inr rx else Inl e, b'))"

definition read_or :: "'b bus_ops \<Rightarrow> 'e \<Rightarrow> nat \<Rightarrow> ('b, 'e, u8 list) bus_step" where
  "read_or ops e n = (\<lambda>b. case bus_read ops n b of ((ok, rx), b') \<Rightarrow> (if ok then Inr rx else Inl e, b'))"

text \<open>The next multiple of the slot after now.\<close>

definition synch_at :: "u64 \<Rightarrow> u64 \<Rightarrow> u64" where
  "synch_at dt now = (now div dt + 1) * dt"

section \<open>MS5611\<close>

definition CMD_RESET :: u8 where "CMD_RESET = 0x1e"
definition CMD_ADC_READ :: u8 where "CMD_ADC_READ = 0x00"
definition CMD_CONVERT_D1_OSR4096 :: u8 where "CMD_CONVERT_D1_OSR4096 = 0x48"
definition CMD_CONVERT_D2_OSR4096 :: u8 where "CMD_CONVERT_D2_OSR4096 = 0x58"
definition CMD_PROM_READ_BASE :: u8 where "CMD_PROM_READ_BASE = 0xa0"

datatype ms5611_error = Ms5611Spi | InvalidProm

fun ms5611_sensor_error :: "ms5611_error \<Rightarrow> sensor_error" where
  "ms5611_sensor_error Ms5611Spi = GenericSensorError ''ms5611 spi error''"
| "ms5611_sensor_error InvalidProm = GenericSensorError ''ms5611 invalid prom''"

record ms5611_calibration =
  pressure_sens :: u16
  pressure_offset :: u16
  temp_coeff_pressure_sens :: u16
  temp_coeff_pressure_offset :: u16
  reference_temp :: u16
  temp_coeff_temp :: u16

record ms5611 =
  ms_calibration :: ms5611_calibration
  ms_initialized :: bool
  ms_last_sample_us :: u64

definition ms5611_new :: ms5611 where
  "ms5611_new = \<lparr>ms_calibration = \<lparr>pressure_sens = 0, pressure_offset = 0, temp_coeff_pressure_sens = 0,
     temp_coeff_pressure_offset = 0, reference_temp = 0, temp_coeff_temp = 0\<rparr>, ms_initialized = False, ms_last_sample_us = 0\<rparr>"

definition ms5611_read_prom_word :: "'b bus_ops \<Rightarrow> u8 \<Rightarrow> ('b, ms5611_error, u16) bus_step" where
  "ms5611_read_prom_word ops index =
    then_bus (transfer_or ops Ms5611Spi [CMD_PROM_READ_BASE + index * 2, 0, 0])
      (\<lambda>rx. bus_ok (push_bit 8 (ucast (rx ! 1)) OR ucast (rx ! 2)))"

fun ms5611_read_prom :: "'b bus_ops \<Rightarrow> u8 list \<Rightarrow> ('b, ms5611_error, u16 list) bus_step" where
  "ms5611_read_prom ops [] = bus_ok []"
| "ms5611_read_prom ops (index # rest) =
    then_bus (ms5611_read_prom_word ops index)
      (\<lambda>w. then_bus (ms5611_read_prom ops rest) (\<lambda>ws. bus_ok (w # ws)))"

definition ms5611_init :: "'b bus_ops \<Rightarrow> ms5611 \<Rightarrow> ('b, ms5611_error, ms5611) bus_step" where
  "ms5611_init ops s =
    then_bus (write_or ops Ms5611Spi [CMD_RESET]) (\<lambda>_.
    then_bus (ms5611_read_prom ops [0, 1, 2, 3, 4, 5, 6, 7]) (\<lambda>prom.
      if list_all (\<lambda>w. w = 0) (take 6 (drop 1 prom)) then bus_fail InvalidProm
      else bus_ok (s\<lparr>ms_calibration := \<lparr>pressure_sens = prom ! 1, pressure_offset = prom ! 2,
             temp_coeff_pressure_sens = prom ! 3, temp_coeff_pressure_offset = prom ! 4,
             reference_temp = prom ! 5, temp_coeff_temp = prom ! 6\<rparr>, ms_initialized := True\<rparr>)))"

definition ms5611_convert_and_read :: "'b bus_ops \<Rightarrow> u8 \<Rightarrow> ('b, ms5611_error, u32) bus_step" where
  "ms5611_convert_and_read ops command =
    then_bus (write_or ops Ms5611Spi [command]) (\<lambda>_.
    then_bus (transfer_or ops Ms5611Spi [CMD_ADC_READ, 0, 0, 0])
      (\<lambda>rx. bus_ok (push_bit 16 (ucast (rx ! 1)) OR push_bit 8 (ucast (rx ! 2)) OR ucast (rx ! 3))))"

text \<open>
  The \<^verbatim>\<open>i64\<close> arithmetic on the values, with Rust's truncating division; the theorem
  \<^verbatim>\<open>compensate_fits\<close> shows that it does not overflow.
\<close>

definition ms5611_compensate_i64 :: "ms5611_calibration \<Rightarrow> int \<Rightarrow> int \<Rightarrow> int \<times> int" where
  "ms5611_compensate_i64 cal d1 d2 =
    (let d_t = d2 - uint (reference_temp cal) * 2 ^ 8;
       temp = 2000 + (d_t * uint (temp_coeff_temp cal)) sdiv 8388608;
       off = uint (pressure_offset cal) * 2 ^ 16 + (uint (temp_coeff_pressure_offset cal) * d_t) sdiv 128;
       sens = uint (pressure_sens cal) * 2 ^ 15 + (uint (temp_coeff_pressure_sens cal) * d_t) sdiv 256
     in (((d1 * sens) sdiv 2097152 - off) sdiv 32768, temp))"

definition ms5611_compensate :: "ms5611_calibration \<Rightarrow> u32 \<Rightarrow> u32 \<Rightarrow> f32 \<times> f32" where
  "ms5611_compensate cal d1 d2 =
    (let (pressure, temp) = ms5611_compensate_i64 cal (uint d1) (uint d2)
     in (flt_of_int pressure, flt_of_int temp / flt_lit 100 1))"

text \<open>
  A sample. The driver's state after it is returned beside the result: an initialisation that succeeded
  stays, whatever happens next.
\<close>

definition ms5611_sample_baro :: "'b bus_ops \<Rightarrow> u64 \<Rightarrow> u64 \<Rightarrow> ms5611 \<Rightarrow> 'b
    \<Rightarrow> ((ms5611_error + baro_packet option) \<times> ms5611) \<times> 'b" where
  "ms5611_sample_baro ops now_us min_interval_us s b =
    (case (if ms_initialized s then bus_ok s b else ms5611_init ops s b) of
       (Inl e, b1) \<Rightarrow> ((Inl e, s), b1)
     | (Inr s1, b1) \<Rightarrow>
         (if now_us < saturating_add (ms_last_sample_us s1) min_interval_us then ((Inr None, s1), b1)
          else (case then_bus (ms5611_convert_and_read ops CMD_CONVERT_D1_OSR4096)
                  (\<lambda>d1. then_bus (ms5611_convert_and_read ops CMD_CONVERT_D2_OSR4096) (\<lambda>d2. bus_ok (d1, d2))) b1 of
                  (Inl e, b2) \<Rightarrow> ((Inl e, s1), b2)
                | (Inr (d1, d2), b2) \<Rightarrow>
                    (let (pressure, temperature) = ms5611_compensate (ms_calibration s1) d1 d2
                     in ((Inr (Some \<lparr>baro_header = \<lparr>ph_timestamp = now_us, ph_status = 0\<rparr>, baro_pressure = pressure,
                            baro_temperature = temperature, baro_altitude = 0\<rparr>), s1\<lparr>ms_last_sample_us := now_us\<rparr>), b2)))))"

section \<open>DPS310\<close>

definition SPI_READ :: u8 where "SPI_READ = 0x80"
definition SPI_WRITE :: u8 where "SPI_WRITE = 0x00"
definition MEAS_CFG_REG :: u8 where "MEAS_CFG_REG = 0x08"
definition ISR_REG :: u8 where "ISR_REG = 0x0A"
definition DPS310_READ_P_CMD :: u8 where "DPS310_READ_P_CMD = 0x00"
definition DPS310_READ_T_CMD :: u8 where "DPS310_READ_T_CMD = 0x03"
definition DPS310_K1 :: f64 where "DPS310_K1 = flt_lit 524288 1"
definition DPS310_K8 :: f64 where "DPS310_K8 = flt_lit 7864320 1"
definition CELSIUS_TO_KELVIN :: f64 where "CELSIUS_TO_KELVIN = flt_lit 27315 100"

definition compliment_i32 :: "u32 \<Rightarrow> nat \<Rightarrow> i32" where
  "compliment_i32 x bits = (if x AND push_bit (bits - 1) 1 \<noteq> 0 then x - push_bit bits 1 else x)"

definition compliment :: "u32 \<Rightarrow> nat \<Rightarrow> f64" where
  "compliment x bits = flt_of_int (sint (compliment_i32 x bits))"

definition spi_read_register :: "'b bus_ops \<Rightarrow> u8 \<Rightarrow> ('b, sensor_error, u8) bus_step" where
  "spi_read_register ops reg =
    then_bus (transfer_or ops (GenericSensorError ''SPI failed: read_register'') [reg OR SPI_READ, 0x00]) (\<lambda>rx. bus_ok (rx ! 1))"

definition spi_write_register :: "'b bus_ops \<Rightarrow> u8 \<Rightarrow> u8 \<Rightarrow> ('b, sensor_error, unit) bus_step" where
  "spi_write_register ops reg v = write_or ops (GenericSensorError ''SPI failed: write_register'') [reg OR SPI_WRITE, v]"

definition dps310_coefficients :: "u8 list \<Rightarrow> f64 list" where
  "dps310_coefficients rx =
    (let buf = map (ucast :: u8 \<Rightarrow> u32) rx
     in [compliment (push_bit 4 (buf ! 1) OR (drop_bit 4 (buf ! 2) AND 0x0F)) 12,
         compliment (push_bit 8 (buf ! 2 AND 0x0F) OR buf ! 3) 12,
         compliment (push_bit 12 (buf ! 4) OR push_bit 4 (buf ! 5) OR (drop_bit 4 (buf ! 6) AND 0x0F)) 20,
         compliment (push_bit 16 (buf ! 6 AND 0x0F) OR push_bit 8 (buf ! 7) OR buf ! 8) 20,
         compliment (push_bit 8 (buf ! 13) OR buf ! 14) 16,
         compliment (push_bit 8 (buf ! 17) OR buf ! 18) 16,
         compliment (push_bit 8 (buf ! 9) OR buf ! 10) 16,
         compliment (push_bit 8 (buf ! 11) OR buf ! 12) 16,
         compliment (push_bit 8 (buf ! 15) OR buf ! 16) 16])"

definition dps310_read_calibration :: "'b bus_ops \<Rightarrow> ('b, sensor_error, f64 list) bus_step" where
  "dps310_read_calibration ops =
    then_bus (transfer_or ops (GenericSensorError ''SPI failed: read_calibration_coefficients'') ((0x10 OR SPI_READ) # replicate 18 0))
      (\<lambda>rx. bus_ok (dps310_coefficients rx))"

definition dps310_initialize :: "'b bus_ops \<Rightarrow> bool \<Rightarrow> ('b, sensor_error, f64 list) bus_step" where
  "dps310_initialize ops three_wire =
    then_bus (spi_write_register ops 0x0C 0x09) (\<lambda>_.
    then_bus (spi_write_register ops 0x09 ((if three_wire then 0x01 else 0x00) OR 0xB0)) (\<lambda>_.
    then_bus (spi_read_register ops 0x0D) (\<lambda>id_byte.
      if id_byte \<noteq> 0x10 then bus_fail (GenericSensorError ''ID mismatch'')
      else then_bus (spi_read_register ops MEAS_CFG_REG) (\<lambda>coef_rdy.
        if coef_rdy AND 0x80 = 0 then bus_fail (GenericSensorError ''Calibration coefficients not ready'')
        else dps310_read_calibration ops))))"

definition dps310_pressure_config :: "'b bus_ops \<Rightarrow> ('b, sensor_error, unit) bus_step" where
  "dps310_pressure_config ops = spi_write_register ops 0x06 0x03"

definition dps310_temperature_config :: "'b bus_ops \<Rightarrow> ('b, sensor_error, unit) bus_step" where
  "dps310_temperature_config ops =
    then_bus (spi_read_register ops 0x28) (\<lambda>source. spi_write_register ops 0x07 (source AND 0x80 OR 0x00))"

definition dps310_measurement_config :: "'b bus_ops \<Rightarrow> ('b, sensor_error, unit) bus_step" where
  "dps310_measurement_config ops = spi_write_register ops MEAS_CFG_REG 0x00"

text \<open>The arithmetic shift of the 24 bits, as a value.\<close>

definition dps310_get_sensor_data :: "'b bus_ops \<Rightarrow> u8 \<Rightarrow> ('b, sensor_error, int) bus_step" where
  "dps310_get_sensor_data ops cmd =
    then_bus (transfer_or ops (GenericSensorError ''SPI failed: get_sensor_data'') [cmd OR SPI_READ, 0, 0, 0]) (\<lambda>rx.
    then_bus (spi_read_register ops ISR_REG) (\<lambda>_.
      bus_ok (sint (push_bit 24 (ucast (rx ! 1)) OR push_bit 16 (ucast (rx ! 2)) OR push_bit 8 (ucast (rx ! 3)) :: i32) div 2 ^ 8)))"

definition dps310_get_pressure :: "'b bus_ops \<Rightarrow> ('b, sensor_error, int \<times> u16) bus_step" where
  "dps310_get_pressure ops =
    then_bus (spi_write_register ops MEAS_CFG_REG 0x01) (\<lambda>_.
    then_bus (spi_read_register ops MEAS_CFG_REG) (\<lambda>status.
    then_bus (dps310_get_sensor_data ops DPS310_READ_P_CMD) (\<lambda>raw. bus_ok (raw, push_bit 8 (ucast status)))))"

definition dps310_get_temperature :: "'b bus_ops \<Rightarrow> ('b, sensor_error, int \<times> u16) bus_step" where
  "dps310_get_temperature ops =
    then_bus (spi_write_register ops MEAS_CFG_REG 0x02) (\<lambda>_.
    then_bus (spi_read_register ops MEAS_CFG_REG) (\<lambda>status.
    then_bus (dps310_get_sensor_data ops DPS310_READ_T_CMD) (\<lambda>raw. bus_ok (raw, ucast status))))"

text \<open>The filter is \<^verbatim>\<open>i32\<close> arithmetic on values; \<^verbatim>\<open>dps310_filter_stays_in_range\<close> gives its range.\<close>

definition dps310_filter :: "int \<Rightarrow> int \<Rightarrow> int" where
  "dps310_filter raw_t previous = previous + (raw_t - previous) sdiv 16"

definition dps310_process_temperature :: "int \<Rightarrow> int \<Rightarrow> f64 list \<Rightarrow> f64 \<times> f64 \<times> int" where
  "dps310_process_temperature raw_t previous cal =
    (let previous' = dps310_filter raw_t previous;
       raw_t_f64 = flt_of_int previous' / DPS310_K1
     in (raw_t_f64, cal ! 0 * flt_lit 1 2 + cal ! 1 * raw_t_f64 + CELSIUS_TO_KELVIN, previous'))"

definition dps310_process_pressure :: "int \<Rightarrow> f64 \<Rightarrow> f64 list \<Rightarrow> f64" where
  "dps310_process_pressure raw_p raw_t_f64 cal =
    (let raw_p_f64 = flt_of_int raw_p / DPS310_K8
     in cal ! 2 + raw_p_f64 * (cal ! 3 + raw_p_f64 * (cal ! 4 + raw_p_f64 * cal ! 5))
        + raw_t_f64 * (cal ! 6 + raw_p_f64 * (cal ! 7 + raw_p_f64 * cal ! 8)))"

text \<open>The start of \<^verbatim>\<open>run\<close>: an error is published and ends the task.\<close>

definition dps310_start :: "'b bus_ops \<Rightarrow> bool \<Rightarrow> ('b, sensor_error, f64 list) bus_step" where
  "dps310_start ops three_wire =
    then_bus (dps310_initialize ops three_wire) (\<lambda>cal.
    then_bus (dps310_pressure_config ops) (\<lambda>_.
    then_bus (dps310_temperature_config ops) (\<lambda>_.
    then_bus (dps310_measurement_config ops) (\<lambda>_. bus_ok cal))))"

text \<open>A turn: the packet or error published, the filtered temperature and the bus.\<close>

definition dps310_turn :: "'b bus_ops \<Rightarrow> f64 list \<Rightarrow> u64 \<Rightarrow> int \<Rightarrow> 'b \<Rightarrow> (sensor_error + baro_packet) \<times> int \<times> 'b" where
  "dps310_turn ops cal timestamp previous b =
    (case then_bus (dps310_get_pressure ops) (\<lambda>p. then_bus (dps310_get_temperature ops) (\<lambda>t. bus_ok (p, t))) b of
       (Inl e, b1) \<Rightarrow> (Inl e, previous, b1)
     | (Inr ((raw_p, status_high), (raw_t, status_low)), b1) \<Rightarrow>
         (let status = status_high AND 0xFF00 OR status_low AND 0x00FF;
            (raw_t_f64, temperature, previous') = dps310_process_temperature raw_t previous cal;
            pressure = dps310_process_pressure raw_p raw_t_f64 cal
          in (if status = 0xD0E0
              then Inr \<lparr>baro_header = \<lparr>ph_timestamp = timestamp, ph_status = status\<rparr>,
                     baro_pressure = to_f32_lossy pressure, baro_temperature = to_f32_lossy temperature, baro_altitude = 0\<rparr>
              else Inl (GenericSensorError ''Bad status''), previous', b1)))"

end
