(* ===== verification/Imu_Drivers.thy ===== *)
theory Imu_Drivers
  imports Sensor_Bus
begin

text \<open>
  The inertial sensors of the STM32 boards: \<^verbatim>\<open>platforms/stm_32/src/peripherals/adis16500.rs\<close> and
  \<^verbatim>\<open>bmi08x.rs\<close>. The devices are arguments; delays and the diagnostics of the feature
  \<^verbatim>\<open>runtime-diagnostics\<close> are left out, and the configuration image of the BMI08x, vendor data, is an
  argument.
\<close>

section \<open>ADIS16500\<close>

datatype dec_rate = DecOdr2000Hz | DecOdr1000Hz | DecOdr400Hz

fun dec_rate_value :: "dec_rate \<Rightarrow> u16" where
  "dec_rate_value DecOdr2000Hz = 0"
| "dec_rate_value DecOdr1000Hz = 1"
| "dec_rate_value DecOdr400Hz = 4"

definition ADIS_BUFFBYTES16 :: nat where "ADIS_BUFFBYTES16 = 22"
definition ADIS_BUFFBYTES32 :: nat where "ADIS_BUFFBYTES32 = 34"
definition BURST_READ :: u8 where "BURST_READ = 0x68"

definition ADIS_SPI_READ :: u8 where "ADIS_SPI_READ = 0x00"
definition ADIS_SPI_WRITE :: u8 where "ADIS_SPI_WRITE = 0x80"

definition adis_read_register :: "'b bus_ops \<Rightarrow> u8 \<Rightarrow> ('b, sensor_error, u16) bus_step" where
  "adis_read_register ops reg =
    then_bus (write_or ops (GenericSensorError ''SPI failed: write_register'') [reg OR ADIS_SPI_READ, 0x00]) (\<lambda>_.
    then_bus (transfer_or ops (GenericSensorError ''SPI failed: read_register'') [0, 0]) (\<lambda>rx.
      bus_ok (ucast (rx ! 1) OR push_bit 8 (ucast (rx ! 0)))))"

definition adis_write_register :: "'b bus_ops \<Rightarrow> u8 \<Rightarrow> u16 \<Rightarrow> ('b, sensor_error, unit) bus_step" where
  "adis_write_register ops reg v =
    then_bus (write_or ops (GenericSensorError ''SPI failed: write_register'') [reg OR ADIS_SPI_WRITE, ucast (v AND 0x00FF)]) (\<lambda>_.
      write_or ops (GenericSensorError ''SPI failed: write_register'') [(reg + 1) OR ADIS_SPI_WRITE, ucast (drop_bit 8 v AND 0x00FF)])"

definition adis_initialize :: "'b bus_ops \<Rightarrow> dec_rate \<Rightarrow> ('b, sensor_error, u16) bus_step" where
  "adis_initialize ops rate =
    then_bus (adis_read_register ops 0x72) (\<lambda>prod_id.
      if prod_id \<noteq> 0x4074 then bus_fail (GenericSensorError ''ADIS16500 ID mismatch'')
      else then_bus (adis_write_register ops 0x5C 0) (\<lambda>_.
        then_bus (adis_write_register ops 0x64 (dec_rate_value rate)) (\<lambda>_.
        then_bus (if dec_rate_value rate = 0 then adis_write_register ops 0x60 0x0085 else adis_write_register ops 0x60 0x0285) (\<lambda>_.
        then_bus (adis_read_register ops 0x02) (\<lambda>diag_stat.
          if diag_stat \<noteq> 0 then bus_fail (GenericSensorError ''ADIS16500 diagnostic status error'')
          else bus_ok diag_stat)))))"

definition adis_read_data_16 :: "'b bus_ops \<Rightarrow> ('b, sensor_error, u8 list) bus_step" where
  "adis_read_data_16 ops = transfer_or ops (GenericSensorError ''SPI failed: read_burst_data_16'')
     ((BURST_READ OR ADIS_SPI_READ) # replicate (ADIS_BUFFBYTES16 - 1) 0)"

definition adis_read_data_32 :: "'b bus_ops \<Rightarrow> ('b, sensor_error, u8 list) bus_step" where
  "adis_read_data_32 ops = transfer_or ops (GenericSensorError ''SPI failed: read_burst_data_32'')
     ((BURST_READ OR ADIS_SPI_READ) # replicate (ADIS_BUFFBYTES32 - 1) 0)"

text \<open>The sixteen-bit words of a burst, signed or unsigned by their reader.\<close>

definition adis_words :: "nat \<Rightarrow> u8 list \<Rightarrow> u16 list" where
  "adis_words n rx = map (\<lambda>i. push_bit 8 (ucast (rx ! (2 * i))) OR (ucast (rx ! (2 * i + 1)) AND 0x00FF)) [0..<n div 2]"

definition adis_checksum :: "nat \<Rightarrow> u8 list \<Rightarrow> u16" where
  "adis_checksum n rx = sum_list (map ucast (take (n - 4) (drop 2 rx)))"

definition adis_validate_16 :: "u8 list \<Rightarrow> u16 list \<Rightarrow> sensor_error + unit" where
  "adis_validate_16 rx data =
    (if adis_checksum ADIS_BUFFBYTES16 rx \<noteq> data ! 10 then Inl (GenericSensorError ''ADIS16500 checksum mismatch'')
     else if data ! 1 \<noteq> 0 then Inl (GenericSensorError ''ADIS16500 status error'')
     else Inr ())"

definition adis_validate_32 :: "u8 list \<Rightarrow> u16 list \<Rightarrow> sensor_error + unit" where
  "adis_validate_32 rx data =
    (if adis_checksum ADIS_BUFFBYTES32 rx \<noteq> data ! 16 then Inl (GenericSensorError ''ADIS16500 checksum mismatch'')
     else if data ! 1 \<noteq> 0 then Inl (GenericSensorError ''ADIS16500 status error'')
     else Inr ())"

definition adis_process_16 :: "u16 list \<Rightarrow> u64 \<Rightarrow> 64 imu_packet" where
  "adis_process_16 data timestamp =
    (let gs = flt_lit 1745329251994 1000000000000000; as = flt_lit 1225 100000;
       v = (\<lambda>i. flt_of_int (sint (data ! i)) :: f64)
     in \<lparr>imu_header = \<lparr>ph_timestamp = timestamp, ph_status = data ! 1\<rparr>,
         imu_accel = [(- v 5) * as, (- v 6) * as, v 7 * as],
         imu_gyro = [(- v 2) * gs, (- v 3) * gs, v 4 * gs],
         imu_temperature = flt_of_int (sint (data ! 8)) * flt_lit 1 10,
         imu_seq = scast (data ! 9)\<rparr>)"

definition adis_process_32 :: "dec_rate \<Rightarrow> u16 list \<Rightarrow> u64 \<Rightarrow> 64 imu_packet" where
  "adis_process_32 rate data timestamp =
    (let gyros_sf = flt_lit 1745329251994 1000000000000000 / flt_of_int 65536;
       accel_sf = flt_lit 12254 1000000 / flt_of_int 65536;
       v = (\<lambda>i. flt_of_int (sint (ucast (data ! i) OR push_bit 16 (ucast (data ! (i + 1))) :: i32)) :: f64);
       sample_period_us = 500 * ((ucast (dec_rate_value rate) :: u32) + 1)
     in \<lparr>imu_header = \<lparr>ph_timestamp = timestamp, ph_status = data ! 1\<rparr>,
         imu_accel = [(- v 8) * accel_sf, (- v 10) * accel_sf, v 12 * accel_sf],
         imu_gyro = [(- v 2) * gyros_sf, (- v 4) * gyros_sf, v 6 * gyros_sf],
         imu_temperature = flt_of_int (sint (data ! 14)) * flt_lit 1 10,
         imu_seq = ucast (data ! 15) * sample_period_us\<rparr>)"

definition adis_turn :: "'b bus_ops \<Rightarrow> dec_rate \<Rightarrow> u64 \<Rightarrow> ('b, sensor_error, 64 imu_packet) bus_step" where
  "adis_turn ops rate timestamp =
    (if dec_rate_value rate = 0 then
       then_bus (adis_read_data_16 ops) (\<lambda>rx.
         (let data = adis_words ADIS_BUFFBYTES16 rx
          in case adis_validate_16 rx data of Inl e \<Rightarrow> bus_fail e | Inr _ \<Rightarrow> bus_ok (adis_process_16 data timestamp)))
     else
       then_bus (adis_read_data_32 ops) (\<lambda>rx.
         (let data = adis_words ADIS_BUFFBYTES32 rx
          in case adis_validate_32 rx data of Inl e \<Rightarrow> bus_fail e | Inr _ \<Rightarrow> bus_ok (adis_process_32 rate data timestamp))))"

section \<open>BMI08x\<close>

datatype accel_range_088 = Max3G | Max6G | Max12G | Max24G
datatype accel_range_085 = Max2g | Max4g | Max8g | Max16g
datatype accel_range = Bmi088 accel_range_088 | Bmi085 accel_range_085
datatype gyro_range = Max125dps | Max250dps | Max500dps | Max1000dps | Max2000dps
datatype bmi_sample_rate = BmiOdr2000Hz | BmiOdr1000Hz | BmiOdr400Hz

fun range_088_value :: "accel_range_088 \<Rightarrow> nat" where
  "range_088_value Max3G = 0" | "range_088_value Max6G = 1" | "range_088_value Max12G = 2" | "range_088_value Max24G = 3"

fun range_085_value :: "accel_range_085 \<Rightarrow> nat" where
  "range_085_value Max2g = 0" | "range_085_value Max4g = 1" | "range_085_value Max8g = 2" | "range_085_value Max16g = 3"

fun gyro_range_value :: "gyro_range \<Rightarrow> u8" where
  "gyro_range_value Max125dps = 0x04" | "gyro_range_value Max250dps = 0x03" | "gyro_range_value Max500dps = 0x02"
| "gyro_range_value Max1000dps = 0x01" | "gyro_range_value Max2000dps = 0x00"

fun gyro_bandwidth_value :: "bmi_sample_rate \<Rightarrow> u8" where
  "gyro_bandwidth_value BmiOdr2000Hz = 0x01" | "gyro_bandwidth_value BmiOdr1000Hz = 0x02" | "gyro_bandwidth_value BmiOdr400Hz = 0x03"

fun bmi_sample_rate_value :: "bmi_sample_rate \<Rightarrow> u8" where
  "bmi_sample_rate_value BmiOdr2000Hz = 0x03" | "bmi_sample_rate_value BmiOdr1000Hz = 0x02" | "bmi_sample_rate_value BmiOdr400Hz = 0x01"

record bmi_config =
  bmi_sample_rate :: bmi_sample_rate
  bmi_range_a :: accel_range
  bmi_range_g :: gyro_range
  bmi_axis_signs :: "f64 list"

text \<open>The two devices behind their chip selects; results of the bus are ignored by the driver.\<close>

record ('a, 'g) bmi_buses =
  dev_a :: 'a
  dev_g :: 'g

definition bmi_transfer_a :: "'a bus_ops \<Rightarrow> u8 list \<Rightarrow> ('a, 'g) bmi_buses \<Rightarrow> u8 list \<times> ('a, 'g) bmi_buses" where
  "bmi_transfer_a ops tx b = (case bus_transfer ops tx (dev_a b) of ((_, rx), d) \<Rightarrow> (rx, b\<lparr>dev_a := d\<rparr>))"

definition bmi_transfer_g :: "'g bus_ops \<Rightarrow> u8 list \<Rightarrow> ('a, 'g) bmi_buses \<Rightarrow> u8 list \<times> ('a, 'g) bmi_buses" where
  "bmi_transfer_g ops tx b = (case bus_transfer ops tx (dev_g b) of ((_, rx), d) \<Rightarrow> (rx, b\<lparr>dev_g := d\<rparr>))"

definition bmi_read_a :: "'a bus_ops \<Rightarrow> u8 \<Rightarrow> ('a, 'g) bmi_buses \<Rightarrow> u8 \<times> ('a, 'g) bmi_buses" where
  "bmi_read_a ops reg b = (case bmi_transfer_a ops [reg OR SPI_READ, 0x00, 0x00] b of (rx, b') \<Rightarrow> (rx ! 2, b'))"

definition bmi_read_g :: "'g bus_ops \<Rightarrow> u8 \<Rightarrow> ('a, 'g) bmi_buses \<Rightarrow> u8 \<times> ('a, 'g) bmi_buses" where
  "bmi_read_g ops reg b = (case bmi_transfer_g ops [reg OR SPI_READ, 0x00] b of (rx, b') \<Rightarrow> (rx ! 1, b'))"

definition bmi_write_a :: "'a bus_ops \<Rightarrow> u8 list \<Rightarrow> ('a, 'g) bmi_buses \<Rightarrow> ('a, 'g) bmi_buses" where
  "bmi_write_a ops tx b = b\<lparr>dev_a := snd (bus_write ops tx (dev_a b))\<rparr>"

definition bmi_write_g :: "'g bus_ops \<Rightarrow> u8 list \<Rightarrow> ('a, 'g) bmi_buses \<Rightarrow> ('a, 'g) bmi_buses" where
  "bmi_write_g ops tx b = b\<lparr>dev_g := snd (bus_write ops tx (dev_g b))\<rparr>"

definition bmi_accel_range :: "accel_range \<Rightarrow> f64" where
  "bmi_accel_range r = (case r of
     Bmi088 rg \<Rightarrow> flt_lit 3 1 * flt_of_int (2 ^ range_088_value rg) * flt_lit 980665 100000
   | Bmi085 rg \<Rightarrow> flt_lit 2 1 * flt_of_int (2 ^ range_085_value rg) * flt_lit 980665 100000)"

definition bmi_gyro_range :: "gyro_range \<Rightarrow> f64" where
  "bmi_gyro_range r = (case r of Max125dps \<Rightarrow> flt_lit 125 1 | Max250dps \<Rightarrow> flt_lit 250 1 | Max500dps \<Rightarrow> flt_lit 500 1
     | Max1000dps \<Rightarrow> flt_lit 1000 1 | Max2000dps \<Rightarrow> flt_lit 2000 1) * flt_lit 17453292519943295 1000000000000000000"

text \<open>The identifiers read at the start, and the ranges that follow from them.\<close>

definition bmi_identify :: "'a bus_ops \<Rightarrow> 'g bus_ops \<Rightarrow> bmi_config \<Rightarrow> ('a, 'g) bmi_buses \<Rightarrow> (f64 \<times> f64) \<times> ('a, 'g) bmi_buses" where
  "bmi_identify oa og c b =
    (let (_, b1) = bmi_read_a oa 0x00 b;
       (accel_id, b2) = bmi_read_a oa 0x00 b1;
       accel_range = (if accel_id = 0x1E then bmi_accel_range (bmi_range_a c)
                      else if accel_id = 0x1F then bmi_accel_range (bmi_range_a c) else 0);
       (gyro_id, b3) = bmi_read_g og 0x00 b2;
       gyro_range = (if gyro_id = 0x0F then bmi_gyro_range (bmi_range_g c) else 0)
     in ((accel_range, gyro_range), b3))"

text \<open>The set-up as the commands it sends; what is read in between is discarded.\<close>

datatype bmi_command = WriteA "u8 list" | ReadA u8 | WriteG "u8 list" | ReadG u8

fun bmi_command_run :: "'a bus_ops \<Rightarrow> 'g bus_ops \<Rightarrow> bmi_command \<Rightarrow> ('a, 'g) bmi_buses \<Rightarrow> ('a, 'g) bmi_buses" where
  "bmi_command_run oa og (WriteA tx) b = bmi_write_a oa tx b"
| "bmi_command_run oa og (ReadA reg) b = snd (bmi_read_a oa reg b)"
| "bmi_command_run oa og (WriteG tx) b = bmi_write_g og tx b"
| "bmi_command_run oa og (ReadG reg) b = snd (bmi_read_g og reg b)"

abbreviation reg_write :: "u8 \<Rightarrow> u8 \<Rightarrow> u8 list" where
  "reg_write reg v \<equiv> [reg OR SPI_WRITE, v]"

fun chunks :: "nat \<Rightarrow> u8 list \<Rightarrow> u8 list list" where
  "chunks n [] = []"
| "chunks n (x # xs) = (x # take (n - 1) xs) # chunks n (drop (n - 1) xs)"

definition bmi_program_blocks :: "u8 list \<Rightarrow> bmi_command list" where
  "bmi_program_blocks img = concat (map (\<lambda>(index, block).
     [WriteA (reg_write 0x5B 0x00), WriteA (reg_write 0x5C (word_of_nat index)),
      WriteA ((0x5E OR SPI_WRITE) # block @ replicate (32 - length block) 0)]) (enumerate 0 (chunks 32 img)))"

definition bmi_setup_first :: "u8 list \<Rightarrow> bmi_config \<Rightarrow> bmi_command list" where
  "bmi_setup_first img c =
    [WriteA (reg_write 0x7E 0xB6), ReadA 0x00, WriteA (reg_write 0x7C 0x00), WriteA (reg_write 0x59 0x00)]
    @ bmi_program_blocks img
    @ [WriteA (reg_write 0x59 0x01), ReadA 0x2A, WriteA (reg_write 0x7C 0x00), WriteA (reg_write 0x7D 0x04),
       ReadG 0x11, WriteG (reg_write 0x11 0x00), ReadG 0x10, WriteG (reg_write 0x10 (gyro_bandwidth_value (bmi_sample_rate c))),
       ReadG 0x0F, WriteG (reg_write 0x0F (gyro_range_value (bmi_range_g c)))]"

definition bmi_sync :: "'a bus_ops \<Rightarrow> bmi_config \<Rightarrow> ('a, 'g) bmi_buses \<Rightarrow> ('a, 'g) bmi_buses" where
  "bmi_sync oa c b =
    (let (sync_cfg, b1) = bmi_transfer_a oa ((0x5E OR SPI_READ) # replicate 7 0) b;
       cfg = sync_cfg[1 := 0x5E OR SPI_WRITE, 6 := bmi_sample_rate_value (bmi_sample_rate c) AND 0x03, 7 := 0]
     in bmi_write_a oa (drop 1 cfg) b1)"

definition bmi_setup_last :: "bmi_command list" where
  "bmi_setup_last =
    (let gyro_interrupt = [ReadG 0x18, WriteG (reg_write 0x18 0x81), ReadG 0x16, WriteG (reg_write 0x16 0x05), WriteG (reg_write 0x15 0x80)]
     in [ReadA 0x54, WriteA (reg_write 0x54 0x13), WriteA (reg_write 0x56 0x01), WriteA (reg_write 0x58 0x04),
         ReadA 0x53, WriteA (reg_write 0x53 0x0A)] @ gyro_interrupt @ gyro_interrupt)"

definition bmi_start :: "'a bus_ops \<Rightarrow> 'g bus_ops \<Rightarrow> u8 list \<Rightarrow> bmi_config \<Rightarrow> ('a, 'g) bmi_buses \<Rightarrow> (f64 \<times> f64) \<times> ('a, 'g) bmi_buses" where
  "bmi_start oa og img c b =
    (let (ranges, b1) = bmi_identify oa og c b;
       b2 = fold (bmi_command_run oa og) (bmi_setup_first img c) b1;
       b3 = bmi_sync oa c b2;
       b4 = fold (bmi_command_run oa og) bmi_setup_last b3
     in ((fst ranges / flt_lit 32767 1 / flt_lit 4 1, snd ranges / flt_lit 32767 1), b4))"

definition bmi_i16 :: "u8 list \<Rightarrow> nat \<Rightarrow> f64" where
  "bmi_i16 rx i = flt_of_int (sint (push_bit 8 (ucast (rx ! (i + 1))) OR ucast (rx ! i) :: 16 word))"

definition bmi_seq :: "u8 list \<Rightarrow> u32" where
  "bmi_seq rx = ucast ((ucast (rx ! 8) OR push_bit 8 (ucast (rx ! 9)) OR push_bit 16 (ucast (rx ! 10)) :: u64) * 625 div 16)"

definition bmi_temperature :: "u8 list \<Rightarrow> f32" where
  "bmi_temperature rx =
    (let t = flt_of_int (uint (push_bit 3 (ucast (rx ! 18)) OR (drop_bit 6 (ucast (rx ! 19)) AND 0x0003) :: u32));
       t1 = (if flt_lit 1023 1 < t then t - flt_lit 2048 1 else t)
     in t1 * flt_lit 125 1000 + (flt_lit 23 1 + flt_lit 27315 100))"

text \<open>A turn after the data ready edge: one packet, whatever the transfers returned.\<close>

definition bmi_turn :: "'a bus_ops \<Rightarrow> 'g bus_ops \<Rightarrow> bmi_config \<Rightarrow> f64 \<times> f64 \<Rightarrow> u64 \<Rightarrow> ('a, 'g) bmi_buses
    \<Rightarrow> (sensor_error + 64 imu_packet) \<times> ('a, 'g) bmi_buses" where
  "bmi_turn oa og c scale timestamp b =
    (let (rx, b1) = bmi_transfer_a oa ((0x12 OR SPI_READ) # replicate 19 0) b;
       (rz, b2) = bmi_transfer_a oa ((0x27 OR SPI_READ) # replicate 3 0) b1;
       (rg, b3) = bmi_transfer_g og ((0x02 OR SPI_READ) # replicate 6 0) b2;
       accel = [fst scale * bmi_i16 rx 14, fst scale * bmi_i16 rx 16, fst scale * bmi_i16 rz 2];
       gyro = [snd scale * bmi_i16 rg 1, snd scale * bmi_i16 rg 3, snd scale * bmi_i16 rg 5];
       signs = bmi_axis_signs c
     in (Inr \<lparr>imu_header = \<lparr>ph_timestamp = timestamp, ph_status = 0\<rparr>,
              imu_accel = map (\<lambda>axis. accel ! axis * signs ! axis) [0..<3],
              imu_gyro = map (\<lambda>axis. gyro ! axis * signs ! axis) [0..<3],
              imu_temperature = bmi_temperature rx, imu_seq = bmi_seq rx\<rparr>, b3))"

end
