(* ===== verification/Aux_Drivers.thy ===== *)
theory Aux_Drivers
  imports Sensor_Bus
begin

text \<open>
  The other sensors of the STM32 boards, \<^verbatim>\<open>platforms/stm_32/src/peripherals\<close>: the magnetometers
  \<^verbatim>\<open>iis2mdc.rs\<close> and \<^verbatim>\<open>ist8308.rs\<close>, the range finder \<^verbatim>\<open>llv3hp.rs\<close> and the pressure sensors
  \<^verbatim>\<open>ms4525.rs\<close> and \<^verbatim>\<open>dlhrl20g.rs\<close>. The operations of an I2C bus take the address of the device. A
  start that fails publishes its error and ends the task; a turn returns what it publishes.
\<close>

section \<open>IIS2MDC\<close>

definition iis2mdc_initialize :: "'b bus_ops \<Rightarrow> ('b, sensor_error, u8) bus_step" where
  "iis2mdc_initialize ops =
    then_bus (spi_read_register ops 0x4F) (\<lambda>who_am_i.
      if who_am_i \<noteq> 0x40 then bus_fail (GenericSensorError ''IIS2MDC Chip ID mismatch'')
      else then_bus (spi_write_register ops 0x60 0x20) (\<lambda>_.
        then_bus (spi_write_register ops 0x60 0x40) (\<lambda>_.
        then_bus (spi_write_register ops 0x60 0x83) (\<lambda>_.
        then_bus (spi_write_register ops 0x61 0x12) (\<lambda>_.
        then_bus (spi_write_register ops 0x62 0x31) (\<lambda>_.
        then_bus (spi_write_register ops 0x63 0x00) (\<lambda>_.
        then_bus (spi_write_register ops 0x64 0x00) (\<lambda>_.
        then_bus (spi_write_register ops 0x65 0x00) (\<lambda>_.
        then_bus (spi_write_register ops 0x66 0x00) (\<lambda>_.
        then_bus (spi_read_register ops 0x67) (\<lambda>status.
        then_bus (transfer_or ops (GenericSensorError ''SPI failed: initialize_sensor'') ((0x45 OR SPI_READ) # replicate 7 0)) (\<lambda>_.
          bus_ok status))))))))))))"

definition iis2mdc_get_data :: "'b bus_ops \<Rightarrow> ('b, sensor_error, u16 \<times> u8 list \<times> u8 list) bus_step" where
  "iis2mdc_get_data ops =
    then_bus (spi_write_register ops 0x60 0x81) (\<lambda>_.
    then_bus (transfer_or ops (GenericSensorError ''SPI failed: get_flux_and_temperature_data'') ((0x67 OR SPI_READ) # replicate 7 0)) (\<lambda>flux_data.
    then_bus (transfer_or ops (GenericSensorError ''SPI failed: get_flux_and_temperature_data'') [0x6E OR SPI_READ, 0, 0]) (\<lambda>raw_temperature.
      bus_ok (ucast (flux_data ! 1), flux_data, raw_temperature))))"

text \<open>The sum of two \<^verbatim>\<open>i16\<close> readings wraps as in a release build; a debug build panics there.\<close>

definition iis2mdc_process_flux :: "u8 list \<Rightarrow> 16 word list \<Rightarrow> f32 list \<times> 16 word list" where
  "iis2mdc_process_flux flux_data previous =
    (let raw = map (\<lambda>i. ucast (flux_data ! (2 + 2 * i)) OR push_bit 8 (ucast (flux_data ! (3 + 2 * i)))) [0..<3];
       v = (\<lambda>i. flt_of_int (sint (raw ! i + previous ! i)));
       scale = flt_lit 15 100000000
     in ([(- v 0) / flt_lit 2 1 * scale, v 1 / flt_lit 2 1 * scale, v 2 / flt_lit 2 1 * scale], raw))"

definition iis2mdc_process_temperature :: "u8 list \<Rightarrow> f32" where
  "iis2mdc_process_temperature raw =
    flt_of_int (sint (ucast (raw ! 1) OR push_bit 8 (ucast (raw ! 2)) :: 16 word)) / flt_lit 8 1 + flt_lit 25 1"

definition iis2mdc_turn :: "'b bus_ops \<Rightarrow> u64 \<Rightarrow> 16 word list \<Rightarrow> 'b \<Rightarrow> (sensor_error + mag_packet) \<times> 16 word list \<times> 'b" where
  "iis2mdc_turn ops timestamp previous b =
    (case iis2mdc_get_data ops b of
       (Inl e, b1) \<Rightarrow> (Inl e, previous, b1)
     | (Inr (status, flux_data, raw_temperature), b1) \<Rightarrow>
         (if status = 0x000F then
            (let (flux, raw) = iis2mdc_process_flux flux_data previous
             in (Inr \<lparr>mag_header = \<lparr>ph_timestamp = timestamp, ph_status = status\<rparr>, mag_flux = flux,
                   mag_temperature = iis2mdc_process_temperature raw_temperature\<rparr>, raw, b1))
          else (Inl (GenericSensorError ''Bad Status''), previous, b1)))"

section \<open>I2C\<close>

definition i2c_write_read :: "'b bus_ops \<Rightarrow> 'e \<Rightarrow> u8 list \<Rightarrow> nat \<Rightarrow> ('b, 'e, u8 list) bus_step" where
  "i2c_write_read ops e register n = then_bus (write_or ops e register) (\<lambda>_. read_or ops e n)"

section \<open>IST8308\<close>

definition IST8308_ADDRESS :: u8 where "IST8308_ADDRESS = 0x0C"

definition ist8308_start :: "(u8 \<Rightarrow> 'b bus_ops) \<Rightarrow> ('b, sensor_error, unit) bus_step" where
  "ist8308_start bus =
    (let ops = bus IST8308_ADDRESS
     in then_bus (i2c_write_read ops (GenericSensorError ''IST8308 Mag failed: reading WAI_REG'') [0x00] 1) (\<lambda>device_id.
        if device_id ! 0 \<noteq> 0x08 then bus_fail (GenericSensorError ''IST8308 Mag failed: bad device ID'')
        else then_bus (write_or ops (GenericSensorError ''IST8308 Mag failed: writing CNTL3_REG'') [0x32, 1]) (\<lambda>_.
          then_bus (i2c_write_read ops (GenericSensorError ''IST8308 Mag failed: reading CNTL3_REG'') [0x32] 1) (\<lambda>cntrl3.
          if cntrl3 ! 0 AND 0x01 \<noteq> 0 then bus_fail (GenericSensorError ''IST8308 Mag failed: bad status CNTL3_REG'')
          else then_bus (write_or ops (GenericSensorError ''IST8308 Mag failed: writing CNTL4_REG'') [0x34, 0]) (\<lambda>_.
            then_bus (write_or ops (GenericSensorError ''IST8308 Mag failed: writing OSRCNTL_REG'') [0x41, push_bit 3 4 OR 4]) (\<lambda>_.
            write_or ops (GenericSensorError ''IST8308 Mag failed: writing CNTL2_REG'') [0x31, 0x01]))))))"

definition ist8308_flux :: "u8 list \<Rightarrow> f32 list" where
  "ist8308_flux d =
    (let v = (\<lambda>i. flt_of_int (sint (push_bit 8 (ucast (d ! (i + 1))) OR ucast (d ! i) :: 16 word)));
       scale_x = flt_lit 1515 10000000000; scale_yz = flt_lit 11515 100000000000
     in [v 1 * scale_x, v 3 * scale_yz, (- v 5) * scale_yz])"

definition ist8308_turn :: "(u8 \<Rightarrow> 'b bus_ops) \<Rightarrow> u64 \<Rightarrow> 'b \<Rightarrow> (sensor_error + mag_packet) list \<times> 'b" where
  "ist8308_turn bus period_start b =
    (let ops = bus IST8308_ADDRESS
     in case then_bus (write_or ops (GenericSensorError ''IST8308 Mag failed: commanding single conversion'') [0x31, 0x01]) (\<lambda>_.
          then_bus (write_or ops (GenericSensorError ''IST8308 Mag failed: selecting STAT1_REG'') [0x10]) (\<lambda>_.
          read_or ops (GenericSensorError ''IST8308 Mag failed: reading STAT1_REG'') 7)) b of
       (Inl e, b1) \<Rightarrow> ([Inl e], b1)
     | (Inr d, b1) \<Rightarrow>
         (if d ! 0 = 0x01
          then ([Inr \<lparr>mag_header = \<lparr>ph_timestamp = period_start + 8900, ph_status = ucast (d ! 0)\<rparr>, mag_flux = ist8308_flux d,
                  mag_temperature = 0\<rparr>], b1)
          else ([], b1)))"

section \<open>LLV3HP\<close>

definition LLV3HP_ADDRESS :: u8 where "LLV3HP_ADDRESS = 0x62"

text \<open>The status byte read last is part of every packet.\<close>

definition llv3hp_start :: "(u8 \<Rightarrow> 'b bus_ops) \<Rightarrow> ('b, sensor_error, u8) bus_step" where
  "llv3hp_start bus =
    (let ops = bus LLV3HP_ADDRESS
     in then_bus (i2c_write_read ops (GenericSensorError ''LLV3HP Lidar failed: reading STATUS'') [0x01] 1) (\<lambda>_.
        then_bus (i2c_write_read ops (GenericSensorError ''LLV3HP Lidar failed: reading STATUS'') [0x01] 1) (\<lambda>status.
        if status ! 0 AND 0x30 \<noteq> 0x30 then bus_fail (GenericSensorError ''LLV3HP Lidar failed: bad STATUS'')
        else then_bus (i2c_write_read ops (GenericSensorError ''LLV3HP Lidar failed: reading HEALTH_STATUS'') [0x48] 1) (\<lambda>health.
          if health ! 0 AND 0x17 \<noteq> 0x17 then bus_fail (GenericSensorError ''LLV3HP Lidar failed: bad HEALTH_STATUS'')
          else then_bus (write_or ops (GenericSensorError ''LLV3HP Lidar failed: writing SIG_COUNT_VAL'') [0x02, 0x80]) (\<lambda>_.
            then_bus (write_or ops (GenericSensorError ''LLV3HP Lidar failed: writing ACQ_CONFIG_REG'') [0x04, 0x08]) (\<lambda>_.
            then_bus (write_or ops (GenericSensorError ''LLV3HP Lidar failed: writing REF_COUNT_VAL'') [0x12, 0x05]) (\<lambda>_.
            then_bus (write_or ops (GenericSensorError ''LLV3HP Lidar failed: writing THRESHOLD_BYPASS'') [0x1C, 0x00]) (\<lambda>_.
              bus_ok (status ! 0))))))))) "

definition llv3hp_turn :: "(u8 \<Rightarrow> 'b bus_ops) \<Rightarrow> u8 \<Rightarrow> u64 \<Rightarrow> 'b \<Rightarrow> (sensor_error + range_packet) list \<times> 'b" where
  "llv3hp_turn bus status slot b =
    (let ops = bus LLV3HP_ADDRESS;
       (commanded, b1) = write_or ops (GenericSensorError ''LLV3HP Lidar failed: writing ACQ_COMMAND'') [0x00, 0x04] b;
       timestamp = slot + 5800;
       (answer, b2) = i2c_write_read ops (GenericSensorError ''LLV3HP Lidar failed: reading DATA'') [0x0F] 2 b1;
       reading = (case answer of
          Inl e \<Rightarrow> Inl e
        | Inr d \<Rightarrow> Inr \<lparr>range_header = \<lparr>ph_timestamp = timestamp, ph_status = ucast status\<rparr>,
            range_value = flt_of_int (uint (push_bit 8 (ucast (d ! 0)) OR ucast (d ! 1) :: u16)) / flt_lit 100 1,
            min_range = 0, max_range = flt_lit 40 1, range_kind = Lidar\<rparr>)
     in (case commanded of Inl e \<Rightarrow> [Inl e, reading] | Inr _ \<Rightarrow> [reading], b2))"

section \<open>MS4525\<close>

definition MS4525_ADDRESS :: u8 where "MS4525_ADDRESS = 0x28"

definition ms4525_start :: "(u8 \<Rightarrow> 'b bus_ops) \<Rightarrow> ('b, sensor_error, unit) bus_step" where
  "ms4525_start bus =
    (let ops = bus MS4525_ADDRESS; e = GenericSensorError ''MS4525 Pitot failed: reading data''
     in then_bus (read_or ops e 2) (\<lambda>_.
        then_bus (read_or ops e 2) (\<lambda>d.
        if drop_bit 6 (d ! 0) AND 0x03 \<noteq> 0x00 then bus_fail (GenericSensorError ''MS4525 Pitot failed: bad status'') else bus_ok ())))"

record ms4525_sums =
  sum_pressure :: u32
  sum_temperature :: u32
  sum_count :: u32

definition ms4525_sums_new :: ms4525_sums where
  "ms4525_sums_new = \<lparr>sum_pressure = 0, sum_temperature = 0, sum_count = 0\<rparr>"

definition ms4525_add :: "u8 list \<Rightarrow> ms4525_sums \<Rightarrow> ms4525_sums" where
  "ms4525_add d s =
    (if drop_bit 6 (d ! 0) AND 0x03 = 0x00 then
       (let pressure = push_bit 8 (ucast (d ! 0) AND 0x3F) OR ucast (d ! 1);
          temperature = drop_bit 5 (0xFFE0 AND (push_bit 8 (ucast (d ! 2)) OR ucast (d ! 3)))
        in s\<lparr>sum_pressure := sum_pressure s + pressure, sum_temperature := sum_temperature s + temperature, sum_count := sum_count s + 1\<rparr>)
     else s)"

definition ms4525_average :: "u64 \<Rightarrow> u8 \<Rightarrow> ms4525_sums \<Rightarrow> pitot_packet" where
  "ms4525_average timestamp status s =
    (let n = flt_of_int (uint (sum_count s)) :: f64;
       avg_pressure = ((flt_of_int (uint (sum_pressure s)) / n - flt_lit 16383 10) / flt_lit 65532 10 - flt_lit 1 1) * flt_lit 689476 100;
       avg_temperature = flt_lit 200 1 * flt_of_int (uint (sum_temperature s)) / n / flt_lit 2047 1 - flt_lit 50 1
     in \<lparr>pitot_header = \<lparr>ph_timestamp = timestamp, ph_status = ucast status\<rparr>, differential_pressure = to_f32_lossy avg_pressure,
         pitot_temperature = to_f32_lossy avg_temperature, indicated_airspeed = 0\<rparr>)"

text \<open>The slots are 2.5 ms apart; a packet is made where the time is a multiple of 10 ms.\<close>

definition ms4525_turn :: "(u8 \<Rightarrow> 'b bus_ops) \<Rightarrow> u64 \<Rightarrow> ms4525_sums \<Rightarrow> 'b
    \<Rightarrow> (sensor_error + pitot_packet) list \<times> ms4525_sums \<times> 'b" where
  "ms4525_turn bus timestamp_us s b =
    (case read_or (bus MS4525_ADDRESS) (GenericSensorError ''MS4525 Pitot failed: reading data'') 4 b of
       (Inl e, b1) \<Rightarrow> ([Inl e], s, b1)
     | (Inr d, b1) \<Rightarrow>
         (let status = drop_bit 6 (d ! 0) AND 0x03; s1 = ms4525_add d s
          in if timestamp_us mod 10000 = 0 then
               ([if 0 < sum_count s1 then Inr (ms4525_average timestamp_us status s1)
                 else Inl (GenericSensorError ''MS4525 Pitot failed: no valid data'')], ms4525_sums_new, b1)
             else ([], s1, b1)))"

section \<open>DLHR L20G\<close>

definition DLHR_ADDRESS :: u8 where "DLHR_ADDRESS = 0x29"

definition dlhr_packet :: "u64 \<Rightarrow> u8 list \<Rightarrow> pitot_packet" where
  "dlhr_packet timestamp d =
    (let u32_pressure = (push_bit 16 (ucast (d ! 1)) OR push_bit 8 (ucast (d ! 2)) OR ucast (d ! 3) :: u32);
       u32_temperature = (push_bit 16 (ucast (d ! 4)) OR push_bit 8 (ucast (d ! 5)) OR ucast (d ! 6) :: u32);
       fs = (flt_lit 5000 1 :: f64);
       pressure = flt_lit 125 100 * fs * (flt_of_int (uint u32_pressure) / flt_lit 16777216 1 - flt_lit 1 10);
       temperature = flt_lit 125 1 * flt_of_int (uint u32_temperature) / flt_lit 16777216 1 - flt_lit 40 1 :: f64
     in \<lparr>pitot_header = \<lparr>ph_timestamp = timestamp, ph_status = ucast (d ! 0)\<rparr>, differential_pressure = to_f32_lossy pressure,
         pitot_temperature = to_f32_lossy temperature, indicated_airspeed = 0\<rparr>)"

text \<open>A failed start of a conversion is published and the turn goes on; \<^verbatim>\<open>drdy\<close> says whether the edge came in time.\<close>

definition dlhr_turn :: "(u8 \<Rightarrow> 'b bus_ops) \<Rightarrow> u64 \<Rightarrow> bool \<Rightarrow> 'b \<Rightarrow> (sensor_error + pitot_packet) list \<times> 'b" where
  "dlhr_turn bus timestamp drdy b =
    (let ops = bus DLHR_ADDRESS;
       (started, b1) = write_or ops (GenericSensorError ''Pitot failed: write_register'') [0xAC] b;
       first = (case started of Inl e \<Rightarrow> [Inl e] | Inr _ \<Rightarrow> [])
     in if drdy then
          (case read_or ops (GenericSensorError ''Pitot failed: reading problem'') 7 b1 of
             (Inl e, b2) \<Rightarrow> (first @ [Inl e], b2)
           | (Inr d, b2) \<Rightarrow> (first @ [Inr (dlhr_packet timestamp d)], b2))
        else (first, b1))"

end
