(* ===== verification/Sensor_Driver_Safety.thy ===== *)
theory Sensor_Driver_Safety
  imports Imu_Drivers Aux_Drivers Machine_Ints Float_Scaling
begin

text \<open>
  The sensor drivers: integer arithmetic keeps its width, damaged bursts are refused, and what the
  drivers publish when a device is silent or its readings are large.
\<close>

section \<open>Integer arithmetic of the barometers\<close>

lemma uint_u16_abs: "\<bar>uint (w :: u16)\<bar> \<le> 65535"
  using uint_lt2p [of w] by simp

text \<open>
  C37. The compensation of the MS5611 does not overflow: for every calibration and every pair of
  readings of twenty-four bits, each intermediate value of the \<^verbatim>\<open>i64\<close> arithmetic fits, and the
  results are the values.
\<close>

theorem compensate_fits:
  assumes "0 \<le> d1" "d1 < 2 ^ 24" "0 \<le> d2" "d2 < 2 ^ 24"
  shows "(let d_t = d2 - uint (reference_temp cal) * 2 ^ 8;
      off = uint (pressure_offset cal) * 2 ^ 16 + (uint (temp_coeff_pressure_offset cal) * d_t) sdiv 128;
      sens = uint (pressure_sens cal) * 2 ^ 15 + (uint (temp_coeff_pressure_sens cal) * d_t) sdiv 256
    in list_all fits_i64 [d_t, d_t * uint (temp_coeff_temp cal), 2000 + (d_t * uint (temp_coeff_temp cal)) sdiv 8388608,
         uint (temp_coeff_pressure_offset cal) * d_t, off, uint (temp_coeff_pressure_sens cal) * d_t, sens,
         d1 * sens, (d1 * sens) sdiv 2097152 - off]
      \<and> ms5611_compensate_i64 cal d1 d2
        = (((d1 * sens) sdiv 2097152 - off) sdiv 32768, 2000 + (d_t * uint (temp_coeff_temp cal)) sdiv 8388608))"
proof -
  define d_t where "d_t = d2 - uint (reference_temp cal) * 2 ^ 8"
  define off where "off = uint (pressure_offset cal) * 2 ^ 16 + (uint (temp_coeff_pressure_offset cal) * d_t) sdiv 128"
  define sens where "sens = uint (pressure_sens cal) * 2 ^ 15 + (uint (temp_coeff_pressure_sens cal) * d_t) sdiv 256"
  have "0 \<le> uint (reference_temp cal) \<and> uint (reference_temp cal) < 65536" using uint_lt2p [of "reference_temp cal"] by simp
  then have d_t: "\<bar>d_t\<bar> \<le> 2 ^ 24" using assms(3,4) by (simp add: d_t_def abs_le_iff; linarith)
  have p: "\<bar>uint c * d_t\<bar> \<le> 2 ^ 40" for c :: u16 using abs_mult_le [OF uint_u16_abs [of c] d_t] by simp
  have t: "\<bar>(d_t * uint (temp_coeff_temp cal)) sdiv 8388608\<bar> \<le> 2 ^ 17"
    using p [of "temp_coeff_temp cal"] by (intro sdiv_abs_le) (simp_all add: mult.commute)
  have o: "\<bar>(uint (temp_coeff_pressure_offset cal) * d_t) sdiv 128\<bar> \<le> 2 ^ 33"
    using p [of "temp_coeff_pressure_offset cal"] by (intro sdiv_abs_le) simp_all
  have s: "\<bar>(uint (temp_coeff_pressure_sens cal) * d_t) sdiv 256\<bar> \<le> 2 ^ 32"
    using p [of "temp_coeff_pressure_sens cal"] by (intro sdiv_abs_le) simp_all
  have "\<bar>uint (pressure_offset cal) * 2 ^ 16\<bar> \<le> 65535 * 2 ^ 16" by (rule abs_mult_le [OF uint_u16_abs]) simp
  with o have off: "\<bar>off\<bar> \<le> 2 ^ 34" unfolding off_def by (intro order.trans [OF abs_triangle_ineq]) simp
  have "\<bar>uint (pressure_sens cal) * 2 ^ 15\<bar> \<le> 65535 * 2 ^ 15" by (rule abs_mult_le [OF uint_u16_abs]) simp
  with s have sens: "\<bar>sens\<bar> \<le> 2 ^ 33" unfolding sens_def by (intro order.trans [OF abs_triangle_ineq]) simp
  have d1: "\<bar>d1\<bar> \<le> 2 ^ 24" using assms(1,2) by simp
  have prod: "\<bar>d1 * sens\<bar> \<le> 2 ^ 57" using abs_mult_le [OF d1 sens] by simp
  then have q: "\<bar>(d1 * sens) sdiv 2097152\<bar> \<le> 2 ^ 36" by (intro sdiv_abs_le) simp_all
  have fits: "fits_i64 d_t" "fits_i64 (d_t * uint (temp_coeff_temp cal))"
    "fits_i64 (2000 + (d_t * uint (temp_coeff_temp cal)) sdiv 8388608)" "fits_i64 (uint (temp_coeff_pressure_offset cal) * d_t)"
    "fits_i64 off" "fits_i64 (uint (temp_coeff_pressure_sens cal) * d_t)" "fits_i64 sens" "fits_i64 (d1 * sens)"
    "fits_i64 ((d1 * sens) sdiv 2097152 - off)"
    using d_t p [of "temp_coeff_temp cal"] p [of "temp_coeff_pressure_offset cal"] p [of "temp_coeff_pressure_sens cal"] t off sens prod q
    by (auto intro!: fits_i64_abs simp: mult.commute [of d_t] abs_le_iff)
  then show ?thesis
    unfolding Let_def ms5611_compensate_i64_def d_t_def [symmetric] off_def [symmetric] sens_def [symmetric] by (simp add: fits)
qed

definition datasheet_calibration :: ms5611_calibration where
  "datasheet_calibration = \<lparr>pressure_sens = 40127, pressure_offset = 36924, temp_coeff_pressure_sens = 23317,
     temp_coeff_pressure_offset = 23282, reference_temp = 33464, temp_coeff_temp = 28312\<rparr>"

lemma datasheet_values:
  "uint (pressure_sens datasheet_calibration) = 40127" "uint (pressure_offset datasheet_calibration) = 36924"
  "uint (temp_coeff_pressure_sens datasheet_calibration) = 23317" "uint (temp_coeff_pressure_offset datasheet_calibration) = 23282"
  "uint (reference_temp datasheet_calibration) = 33464" "uint (temp_coeff_temp datasheet_calibration) = 28312"
  by (simp_all add: datasheet_calibration_def)

lemma compensate_fits_witness: "ms5611_compensate_i64 datasheet_calibration 9085466 8569150 = (100009, 2007)"
  by (rule conjunct2 [OF compensate_fits [of 9085466 8569150 datasheet_calibration, unfolded Let_def datasheet_values], THEN trans])
    simp+

text \<open>
  The readings of the MS5611 have twenty-four bits, so that the theorem covers every sample.
\<close>

lemma three_bytes_24: "uint (push_bit 16 (ucast (a :: u8)) OR push_bit 8 (ucast (b :: u8)) OR ucast (c :: u8) :: u32) < 2 ^ 24"
  (is "uint ?w < _")
proof -
  have high: "\<not> bit (x :: u8) k" if "8 \<le> k" for x k using that bit_imp_le_length [of x k] by auto
  have "take_bit 24 ?w = ?w"
  proof (rule bit_word_eqI)
    fix n show "bit (take_bit 24 ?w) n = bit ?w n" by (cases "n < 24") (simp_all add: bit_simps high)
  qed
  then have "uint ?w = take_bit 24 (uint ?w)" by (simp flip: unsigned_take_bit_eq)
  then show ?thesis by (metis take_bit_int_less_exp)
qed

section \<open>The temperature filter of the DPS310\<close>

lemma shifted_reading_fits: "fits_24 (sint (w :: i32) div 2 ^ 8)"
proof -
  have "- (2 ^ 31) \<le> sint w" "sint w < 2 ^ 31" using sint_ge [of w] sint_lt [of w] by simp_all
  then show ?thesis by (simp add: fits_24_def; linarith)
qed

lemma dps310_filter_fits:
  assumes "fits_24 raw" "fits_24 previous"
  shows "fits_24 (dps310_filter raw previous) \<and> \<bar>raw - dps310_filter raw previous\<bar> \<le> \<bar>raw - previous\<bar>"
proof -
  let ?d = "raw - previous"
  have "\<bar>?d\<bar> div 16 \<le> \<bar>?d\<bar>" "0 \<le> \<bar>?d\<bar> div 16" by simp_all
  then have s: "?d sdiv 16 = sgn ?d * (\<bar>?d\<bar> div 16)" by (simp add: signed_divide_int_def)
  show ?thesis
  proof (cases "0 \<le> ?d")
    case True
    then have "?d sdiv 16 = ?d div 16" by (simp add: signed_divide_int_def sgn_if)
    moreover have "0 \<le> ?d div 16" "?d div 16 \<le> ?d" using True by simp_all
    ultimately show ?thesis using assms True by (simp add: dps310_filter_def fits_24_def)
  next
    case False
    then have "?d sdiv 16 = - ((- ?d) div 16)" using s by (simp add: sgn_if)
    moreover have "0 \<le> (- ?d) div 16" "(- ?d) div 16 \<le> - ?d" using False by (simp_all add: pos_imp_zdiv_nonneg_iff div_le_dividend int_div_less_self)
    ultimately show ?thesis using assms False by (simp add: dps310_filter_def fits_24_def)
  qed
qed

lemma dps310_sensor_data_fits:
  assumes "dps310_get_sensor_data ops cmd b = (Inr raw, b')"
  shows "fits_24 raw"
  using assms shifted_reading_fits
  by (auto simp: dps310_get_sensor_data_def then_bus_def bus_ok_def split: prod.splits sum.splits)

lemma dps310_get_temperature_fits:
  assumes "dps310_get_temperature ops b = (Inr (raw, status), b')"
  shows "fits_24 raw"
  using assms dps310_sensor_data_fits
  by (auto simp: dps310_get_temperature_def then_bus_def bus_ok_def split: prod.splits sum.splits)

text \<open>The turns of the loop, each with its time; the errors and packets published in order.\<close>

fun dps310_turns :: "'b bus_ops \<Rightarrow> f64 list \<Rightarrow> u64 list \<Rightarrow> int \<Rightarrow> 'b \<Rightarrow> (sensor_error + baro_packet) list \<times> int \<times> 'b" where
  "dps310_turns ops cal [] previous b = ([], previous, b)"
| "dps310_turns ops cal (now # slots) previous b =
    (let (p, previous', b') = dps310_turn ops cal now previous b;
       (ps, previous'', b'') = dps310_turns ops cal slots previous' b'
     in (p # ps, previous'', b''))"

lemma dps310_turn_fits:
  assumes "fits_24 previous"
  shows "fits_24 (fst (snd (dps310_turn ops cal now previous b)))"
proof -
  let ?m = "then_bus (dps310_get_pressure ops) (\<lambda>p. then_bus (dps310_get_temperature ops) (\<lambda>t. bus_ok (p, t))) b"
  obtain r b1 where m: "?m = (r, b1)" by (cases ?m)
  show ?thesis
  proof (cases r)
    case (Inl e) then show ?thesis using assms m by (simp add: dps310_turn_def)
  next
    case (Inr x)
    obtain raw_p status_high raw_t status_low where x: "x = ((raw_p, status_high), (raw_t, status_low))" by (cases x) auto
    have raw: "fits_24 raw_t"
      using m dps310_get_temperature_fits unfolding Inr x by (fastforce simp: then_bus_def bus_ok_def split: prod.splits sum.splits)
    show ?thesis
      using m dps310_filter_fits [OF raw assms] unfolding Inr x
      by (simp add: dps310_turn_def dps310_process_temperature_def Let_def)
  qed
qed

text \<open>
  The temperature filter of the DPS310 keeps twenty-four bits: from its start, after any number of
  turns with any device, the filtered reading fits twenty-four bits, so that its \<^verbatim>\<open>i32\<close> difference and
  sum never overflow, and it never moves away from the reading it is given.
\<close>

theorem dps310_filter_stays_in_range:
  assumes "fits_24 raw"
  shows "let previous = fst (snd (dps310_turns ops cal slots 0 b))
    in fits_24 previous \<and> fits_i32 (raw - previous) \<and> fits_i32 (dps310_filter raw previous)
      \<and> \<bar>raw - dps310_filter raw previous\<bar> \<le> \<bar>raw - previous\<bar>"
proof -
  have "fits_24 (fst (snd (dps310_turns ops cal slots previous b)))" if "fits_24 previous" for previous b
    using that
  proof (induction slots arbitrary: previous b)
    case (Cons now slots)
    then show ?case using dps310_turn_fits [OF Cons.prems, of ops cal now b] by (simp add: case_prod_beta Let_def)
  qed simp
  then have fits: "fits_24 (fst (snd (dps310_turns ops cal slots 0 b)))" by (simp add: fits_24_def)
  then show ?thesis
    using dps310_filter_fits [OF assms fits] assms by (auto simp: Let_def fits_24_def fits_i32_def)
qed

text \<open>A device that fails every operation.\<close>

definition dead_bus :: "unit bus_ops" where
  "dead_bus = \<lparr>bus_write = \<lambda>tx b. (False, b), bus_transfer = \<lambda>tx b. ((False, replicate (length tx) 0), b),
     bus_read = \<lambda>n b. ((False, replicate n 0), b)\<rparr>"

lemma dead_dps310: "dps310_turns dead_bus [] [5, 6] 0 () = ([Inl (GenericSensorError ''SPI failed: write_register''),
    Inl (GenericSensorError ''SPI failed: write_register'')], 0, ())"
  by (simp add: dps310_turn_def then_bus_def dps310_get_pressure_def spi_write_register_def write_or_def dead_bus_def)

lemma dps310_filter_stays_in_range_witness: "fits_i32 (dps310_filter 100 0) \<and> \<bar>100 - dps310_filter 100 0\<bar> \<le> 100"
  using dps310_filter_stays_in_range [of 100 dead_bus "[]" "[5, 6]" "()"]
  by (simp add: dead_dps310 Let_def fits_24_def del: dps310_turns.simps)

text \<open>The coefficients of the DPS310 are two's complement numbers of their width.\<close>

lemma compliment_is_twos_complement:
  assumes "1 \<le> n" "n \<le> 31" "uint x < 2 ^ n"
  shows "sint (compliment_i32 x n) = signed_take_bit (n - 1) (uint x)"
proof -
  have bit_n: "bit x (n - 1) \<longleftrightarrow> x AND push_bit (n - 1) 1 \<noteq> 0"
    by (rule bit_iff_and_push_bit_not_eq_0)
  have self: "take_bit n (uint x) = uint x" using assms(3) by (simp add: take_bit_int_eq_self)
  have stb: "signed_take_bit (n - 1) (uint x) = (if bit x (n - 1) then uint x - 2 ^ n else uint x)"
  proof -
    have "signed_take_bit (n - 1) (uint x) = (if bit (uint x) (n - 1) then take_bit n (uint x) - 2 ^ n else take_bit n (uint x))"
      using assms(1) by (simp add: signed_take_bit_eq_if_positive signed_take_bit_eq_take_bit_minus)
    moreover have "n - 1 < 32" using assms(2) by simp
    ultimately show ?thesis using self by (simp add: bit_uint_iff)
  qed
  have le: "(2 :: int) ^ n \<le> 2 ^ 31" using assms(2) by (intro power_increasing) simp_all
  have p: "0 \<le> uint x" "0 < (2 :: int) ^ n" by simp_all
  have r: "- (2 ^ 31) \<le> uint x - 2 ^ n" "uint x - 2 ^ n < 2 ^ 31" "uint x < 2 ^ 31" "- (2 ^ 31) \<le> uint x"
    using le assms(3) p by linarith+
  have "compliment_i32 x n = word_of_int (if bit x (n - 1) then uint x - 2 ^ n else uint x)"
    unfolding compliment_i32_def bit_n [symmetric] by (simp add: push_bit_eq_mult)
  moreover have "sint (word_of_int (if bit x (n - 1) then uint x - 2 ^ n else uint x) :: i32)
    = (if bit x (n - 1) then uint x - 2 ^ n else uint x)"
    by (rule sint_word_of_int_fits) (use r in simp_all)
  ultimately show ?thesis unfolding stb by simp
qed

section \<open>The MS5611 keeps its interval\<close>

text \<open>A device that answers every transfer with the same bytes.\<close>

definition burst_bus :: "u8 list \<Rightarrow> unit bus_ops" where
  "burst_bus rx = \<lparr>bus_write = \<lambda>tx b. (True, b), bus_transfer = \<lambda>tx b. ((True, rx), b), bus_read = \<lambda>n b. ((True, take n rx), b)\<rparr>"

lemma ms5611_init_initialized: "fst (ms5611_init ops s b) = Inr s1 \<Longrightarrow> ms_initialized s1"
  by (auto simp: ms5611_init_def then_bus_def bus_ok_def bus_fail_def split: prod.splits sum.splits if_splits)

text \<open>
  The MS5611 is left alone between samples: after a sample, every call before the interval has passed
  returns no packet, changes nothing of the driver and does not touch the bus.
\<close>

theorem ms5611_samples_are_spaced:
  assumes "ms5611_sample_baro ops t1 gap s b = ((Inr (Some p), s1), b1)" "t2 < saturating_add t1 gap"
  shows "ms5611_sample_baro ops t2 gap s1 b2 = ((Inr None, s1), b2)"
proof -
  have "ms_initialized s1 \<and> ms_last_sample_us s1 = t1"
    using assms(1) ms5611_init_initialized
    by (auto simp: ms5611_sample_baro_def bus_ok_def Let_def case_prod_beta split: prod.splits sum.splits if_splits)
  then show ?thesis using assms(2) by (simp add: ms5611_sample_baro_def bus_ok_def)
qed

lemma ms5611_samples_are_spaced_witness:
  "\<exists>s1. ms5611_sample_baro (burst_bus [0, 1, 2, 3]) 150 100 s1 () = ((Inr None, s1), ()) \<and> ms_last_sample_us s1 = 100"
proof -
  let ?ops = "burst_bus [0, 1, 2, 3]"
  obtain p s1 where s: "ms5611_sample_baro ?ops 100 100 ms5611_new () = ((Inr (Some p), s1), ())" "ms_last_sample_us s1 = 100"
    by (simp add: ms5611_sample_baro_def ms5611_init_def ms5611_read_prom_word_def ms5611_convert_and_read_def then_bus_def bus_ok_def
        bus_fail_def write_or_def transfer_or_def burst_bus_def ms5611_new_def saturating_add_def case_prod_beta Let_def)
  have "(150 :: u64) < saturating_add 100 100" by (simp add: saturating_add_def)
  from ms5611_samples_are_spaced [OF s(1) this, of "()"] s(2) show ?thesis by blast
qed

section \<open>The ADIS16500 checks its bursts\<close>

definition adis_bytes :: "dec_rate \<Rightarrow> nat" where
  "adis_bytes rate = (if dec_rate_value rate = 0 then ADIS_BUFFBYTES16 else ADIS_BUFFBYTES32)"

lemma byte_ucast_distinct:
  assumes "x \<noteq> (y :: u8)"
  shows "(ucast x :: u16) \<noteq> ucast y"
proof
  assume "(ucast x :: u16) = ucast y"
  then have "uint (ucast x :: u16) = uint (ucast y :: u16)" by simp
  then have "uint x = uint y" by (subst (asm) (1 2) uint_up_ucast) (simp_all add: is_up)
  then have "x = y" by (rule word_uint_eqI)
  then show False using assms by simp
qed

lemma adis_checksum_changed:
  assumes "length rx = n" "2 \<le> i" "i < n - 2" "x \<noteq> rx ! i"
  shows "adis_checksum n (rx[i := x]) \<noteq> adis_checksum n rx"
proof -
  let ?ys = "map ucast (take (n - 4) (drop 2 rx)) :: u16 list" and ?k = "i - 2"
  have k: "?k < length ?ys" using assms by simp
  have new: "map ucast (take (n - 4) (drop 2 (rx[i := x]))) = ?ys[?k := ucast x]"
    using assms by (simp add: drop_update_swap take_update_swap map_update)
  have "sum_list (?ys[?k := ucast x]) = sum_list (take ?k ?ys) + (ucast x + sum_list (drop (Suc ?k) ?ys))"
    using k by (simp add: upd_conv_take_nth_drop)
  moreover have "sum_list ?ys = sum_list (take ?k ?ys) + (?ys ! ?k + sum_list (drop (Suc ?k) ?ys))"
    by (subst id_take_nth_drop [OF k]) simp
  moreover have "?ys ! ?k = ucast (rx ! i)"
  proof -
    have "?ys ! ?k = ucast (drop 2 rx ! (i - 2))" using k by simp
    also have "drop 2 rx ! (i - 2) = rx ! (2 + (i - 2))" by (rule nth_drop) (use assms in simp)
    also have "2 + (i - 2) = i" by (rule le_add_diff_inverse [OF assms(2)])
    finally show ?thesis .
  qed
  moreover have "(ucast x :: u16) \<noteq> ucast (rx ! i)" by (rule byte_ucast_distinct [OF assms(4)])
  ultimately show ?thesis unfolding adis_checksum_def new by simp
qed

lemma adis_words_last:
  assumes "length rx = n" "i < n - 2" "even n" "2 \<le> n"
  shows "adis_words n (rx[i := x]) ! (n div 2 - 1) = adis_words n rx ! (n div 2 - 1)"
proof -
  have "2 * (n div 2 - 1) = n - 2" "2 * (n div 2 - 1) + 1 = n - 1" using assms(3,4) by (auto elim!: evenE)
  then show ?thesis using assms by (simp add: adis_words_def)
qed

text \<open>
  C35. A damaged burst is refused: when a burst of the ADIS16500 is accepted, the same burst with one of
  its data bytes replaced by another is answered with the checksum error and no packet, in the
  sixteen-bit and in the thirty-two-bit mode.
\<close>

theorem damaged_burst_is_refused:
  assumes "fst (adis_turn (burst_bus rx) rate now ()) = Inr packet" "length rx = adis_bytes rate"
    "2 \<le> i" "i < adis_bytes rate - 2" "x \<noteq> rx ! i"
  shows "fst (adis_turn (burst_bus (rx[i := x])) rate now ()) = Inl (GenericSensorError ''ADIS16500 checksum mismatch'')"
proof (cases "dec_rate_value rate = 0")
  case True
  then have n: "length rx = 22" "i < 22 - 2" using assms(2,4) by (simp_all add: adis_bytes_def ADIS_BUFFBYTES16_def)
  show ?thesis
    using True assms(1) adis_checksum_changed [OF n(1) assms(3) n(2) assms(5)] adis_words_last [OF n(1) n(2), of x]
    by (auto simp: adis_turn_def then_bus_def adis_read_data_16_def transfer_or_def burst_bus_def adis_validate_16_def
        ADIS_BUFFBYTES16_def bus_ok_def bus_fail_def Let_def split: if_splits)
next
  case False
  then have n: "length rx = 34" "i < 34 - 2" using assms(2,4) by (simp_all add: adis_bytes_def ADIS_BUFFBYTES32_def)
  show ?thesis
    using False assms(1) adis_checksum_changed [OF n(1) assms(3) n(2) assms(5)] adis_words_last [OF n(1) n(2), of x]
    by (auto simp: adis_turn_def then_bus_def adis_read_data_32_def transfer_or_def burst_bus_def adis_validate_32_def
        ADIS_BUFFBYTES32_def bus_ok_def bus_fail_def Let_def split: if_splits)
qed

lemma adis_words_zero: "k < n div 2 \<Longrightarrow> adis_words n (replicate n 0) ! k = 0"
  by (simp add: adis_words_def)

lemma zero_burst_accepted: "\<exists>packet. fst (adis_turn (burst_bus (replicate 22 0)) DecOdr2000Hz 5 ()) = Inr packet"
proof -
  have "adis_words 22 (replicate 22 0) ! 10 = 0" "adis_words 22 (replicate 22 0) ! 1 = 0" by (simp_all only: adis_words_zero)
  moreover have "adis_checksum 22 (replicate 22 0) = 0" by (simp add: adis_checksum_def sum_list_replicate)
  ultimately show ?thesis
    by (simp only: adis_turn_def then_bus_def adis_read_data_16_def transfer_or_def burst_bus_def adis_validate_16_def
        ADIS_BUFFBYTES16_def bus_ok_def bus_fail_def Let_def) simp
qed

lemma damaged_burst_is_refused_witness:
  "fst (adis_turn (burst_bus ((replicate 22 0)[7 := 3])) DecOdr2000Hz 5 ()) = Inl (GenericSensorError ''ADIS16500 checksum mismatch'')"
proof -
  obtain packet where "fst (adis_turn (burst_bus (replicate 22 0)) DecOdr2000Hz 5 ()) = Inr packet"
    using zero_burst_accepted by blast
  then show ?thesis
    by (rule damaged_burst_is_refused) (simp_all add: adis_bytes_def ADIS_BUFFBYTES16_def)
qed

section \<open>The BMI08x never reports an error\<close>

lemma bmi_dead_reads:
  "fst (bmi_read_a dead_bus reg b) = 0" "fst (bmi_read_g dead_bus reg b) = 0"
  "fst (bmi_transfer_a dead_bus tx b) = replicate (length tx) 0" "fst (bmi_transfer_g dead_bus tx b) = replicate (length tx) 0"
  by (simp_all add: bmi_read_a_def bmi_read_g_def bmi_transfer_a_def bmi_transfer_g_def dead_bus_def numeral_eq_Suc)

lemma zero_product:
  assumes "is_finite (x :: f64)" "is_finite y" "fval x * fval y = 0"
  shows "is_finite (x * y) \<and> fval (x * y) = 0"
proof -
  have "0 \<le> x * y \<and> x * y \<le> 0" by (intro f64.mul_between) (simp_all add: assms)
  moreover from this have "is_finite (x * y)" using f64.between_finite [of 0 0 "x * y"] by simp
  ultimately show ?thesis by (simp add: f64.le_finite_iff)
qed

lemma zero_quotient:
  assumes "is_finite (x :: f64)" "is_finite y" "fval x = 0" "0 < fval y"
  shows "is_finite (x / y) \<and> fval (x / y) = 0"
proof -
  have "0 \<le> x / y \<and> x / y \<le> 0" using assms by (intro f64.div_between) simp_all
  moreover from this have "is_finite (x / y)" using f64.between_finite [of 0 0 "x / y"] by simp
  ultimately show ?thesis by (simp add: f64.le_finite_iff)
qed

lemma dead_bmi_scale:
  assumes "fst (bmi_start dead_bus dead_bus img c b) = (sa, sg)"
  shows "is_finite sa \<and> fval sa = 0" "is_finite sg \<and> fval sg = 0"
proof -
  have eq: "fst (bmi_start dead_bus dead_bus img c b) = (0 / flt_lit 32767 1 / flt_lit 4 1, 0 / flt_lit 32767 1)"
    by (simp add: bmi_start_def bmi_identify_def Let_def case_prod_beta bmi_dead_reads)
  have n: "is_finite (flt_lit 32767 1 :: f64)" "0 < fval (flt_lit 32767 1 :: f64)" "is_finite (flt_lit 4 1 :: f64)" "0 < fval (flt_lit 4 1 :: f64)"
    using f64.flt_lit_int [of 32767] f64.flt_lit_int [of 4] by (simp_all add: mbits_def)
  have z: "is_finite (0 / flt_lit 32767 1 :: f64) \<and> fval (0 / flt_lit 32767 1 :: f64) = 0"
    by (rule zero_quotient) (simp_all add: n)
  moreover have "is_finite (0 / flt_lit 32767 1 / flt_lit 4 1 :: f64) \<and> fval (0 / flt_lit 32767 1 / flt_lit 4 1 :: f64) = 0"
    by (rule zero_quotient) (simp_all add: n z)
  ultimately show "is_finite sa \<and> fval sa = 0" "is_finite sg \<and> fval sg = 0" using assms unfolding eq by auto
qed

text \<open>
  C36. A dead inertial sensor looks like a resting one: when every operation on both of its buses fails and
  leaves the buffers as they were, the driver of the BMI08x starts and each turn publishes a packet, not
  an error, whose accelerations and rates are all zero.
\<close>

theorem dead_imu_is_published_at_rest:
  assumes "bmi_axis_signs c = [sx, sy, sz]" "{sx, sy, sz} \<subseteq> {1, - 1}"
  shows "\<exists>packet. fst (bmi_turn dead_bus dead_bus c (fst (bmi_start dead_bus dead_bus img c b)) now
      (snd (bmi_start dead_bus dead_bus img c b))) = Inr packet
    \<and> ph_timestamp (imu_header packet) = now
    \<and> (\<forall>v \<in> set (imu_accel packet) \<union> set (imu_gyro packet). is_finite v \<and> fval v = 0)"
proof -
  obtain sa sg where scale: "fst (bmi_start dead_bus dead_bus img c b) = (sa, sg)" by (cases "fst (bmi_start dead_bus dead_bus img c b)")
  have int0: "is_finite (flt_of_int 0 :: f64)" "fval (flt_of_int 0 :: f64) = 0"
    using f64.flt_lit_int [of 0] by (simp_all add: flt_of_int_def mbits_def)
  have sign: "is_finite s" if "s \<in> {sx, sy, sz}" for s using that assms(2) by auto
  have prod: "is_finite (k * flt_of_int 0 * s) \<and> fval (k * flt_of_int 0 * s) = 0" if "s \<in> {sx, sy, sz}" "k \<in> {sa, sg}" for s k
  proof -
    have k: "is_finite k" "fval k = 0" using dead_bmi_scale [OF scale] that(2) by auto
    have m: "is_finite (k * flt_of_int 0) \<and> fval (k * flt_of_int 0) = 0" by (rule zero_product) (simp_all add: k int0)
    then show ?thesis by (intro zero_product) (simp_all add: sign [OF that(1)])
  qed
  have i16: "bmi_i16 (replicate n 0) i = flt_of_int 0" if "i + 1 < n" for n i using that by (simp add: bmi_i16_def)
  have three: "map f [0..<3] = [f 0, f 1, f 2]" for f :: "nat \<Rightarrow> f64" by (simp add: upt_rec_numeral numeral_eq_Suc)
  show ?thesis
    unfolding bmi_turn_def scale three using prod
    by (simp add: Let_def case_prod_beta bmi_dead_reads i16 assms(1))
qed

lemma dead_imu_is_published_at_rest_witness:
  "\<exists>packet :: 64 imu_packet. ph_timestamp (imu_header packet) = 7 \<and> (\<forall>v \<in> set (imu_accel packet) \<union> set (imu_gyro packet). is_finite v \<and> fval v = 0)"
proof -
  define c where "c = \<lparr>bmi_sample_rate = BmiOdr400Hz, bmi_range_a = Bmi088 Max6G, bmi_range_g = Max500dps, bmi_axis_signs = [1, - 1, 1]\<rparr>"
  have c: "bmi_axis_signs c = [1, - 1, 1]" "{1, - 1, 1 :: f64} \<subseteq> {1, - 1}" by (simp_all add: c_def)
  show ?thesis
    using dead_imu_is_published_at_rest [OF c, of "[]" "\<lparr>dev_a = (), dev_g = ()\<rparr>" 7] by (elim exE conjE) (rule exI, rule conjI)
qed

end
