(* ===== verification/Servo_Timers.thy ===== *)
theory Servo_Timers
  imports Pwm
begin

text \<open>
  The servo outputs of the STM32 boards: \<^verbatim>\<open>platforms/stm_32/src/peripherals/pwm.rs\<close> and the drivers
  that the boards build from it, \<^verbatim>\<open>BoardPwmDriver\<close> of \<^verbatim>\<open>boards/nucleo/src/board.rs\<close> and
  \<^verbatim>\<open>boards/pixracerpro/src/pwm.rs\<close>. A \<^verbatim>\<open>SimplePwm\<close> of embassy is an argument with a state of its own.
  What a board fixes at the start (which timers there are, which output is which channel of which
  timer, what the timers can do) is a configuration apart from the state.
\<close>

section \<open>Timers\<close>

text \<open>The operations of a \<^verbatim>\<open>SimplePwm\<close> that the code calls.\<close>

datatype timer_channel = Ch1 | Ch2 | Ch3 | Ch4

record 't simple_pwm =
  tm_set_frequency :: "u32 \<Rightarrow> 't \<Rightarrow> 't"
  tm_enable :: "timer_channel \<Rightarrow> 't \<Rightarrow> 't"
  tm_disable :: "timer_channel \<Rightarrow> 't \<Rightarrow> 't"
  tm_set_duty :: "timer_channel \<Rightarrow> u32 \<Rightarrow> 't \<Rightarrow> 't"
  tm_max_duty :: "'t \<Rightarrow> u32"

datatype timer_id = TIM1 | TIM2 | TIM3 | TIM4 | TIM5 | TIM8 | TIM12 | TIM13 | TIM14 | TIM15 | TIM16 | TIM17

datatype timer_error = ChanNotSupported | TimerNotSupported | TimerInvalidRate | TimerUnsupportedProtocol

text \<open>The channels that the matches accept for a timer.\<close>

fun timer_has_channel :: "timer_id \<Rightarrow> timer_channel \<Rightarrow> bool" where
  "timer_has_channel TIM12 ch = (ch = Ch1 \<or> ch = Ch2)"
| "timer_has_channel TIM13 ch = (ch = Ch1)"
| "timer_has_channel TIM14 ch = (ch = Ch1)"
| "timer_has_channel TIM15 ch = (ch = Ch1 \<or> ch = Ch2)"
| "timer_has_channel TIM16 ch = (ch = Ch1)"
| "timer_has_channel TIM17 ch = (ch = Ch1)"
| "timer_has_channel t ch = True"

definition timer_set_frequency_hz :: "'t simple_pwm \<Rightarrow> u32 \<Rightarrow> 't \<Rightarrow> 't" where
  "timer_set_frequency_hz tp rate_hz t = tm_set_frequency tp rate_hz t"

definition timer_enable :: "'t simple_pwm \<Rightarrow> timer_id \<Rightarrow> timer_channel \<Rightarrow> 't \<Rightarrow> 't \<times> timer_error option" where
  "timer_enable tp k ch t = (if timer_has_channel k ch then (tm_enable tp ch t, None) else (t, Some ChanNotSupported))"

definition timer_disable :: "'t simple_pwm \<Rightarrow> timer_id \<Rightarrow> timer_channel \<Rightarrow> 't \<Rightarrow> 't \<times> timer_error option" where
  "timer_disable tp k ch t = (if timer_has_channel k ch then (tm_disable tp ch t, None) else (t, Some ChanNotSupported))"

definition timer_set_duty_cycle :: "'t simple_pwm \<Rightarrow> timer_id \<Rightarrow> timer_channel \<Rightarrow> u16 \<Rightarrow> 't \<Rightarrow> 't \<times> timer_error option" where
  "timer_set_duty_cycle tp k ch duty t =
    (if timer_has_channel k ch then (tm_set_duty tp ch (ucast duty) t, None) else (t, Some ChanNotSupported))"

definition duty_to_u16 :: "u32 \<Rightarrow> u16" where
  "duty_to_u16 duty = ucast (min duty 65535)"

definition timer_max_duty_cycle :: "'t simple_pwm \<Rightarrow> 't \<Rightarrow> u16" where
  "timer_max_duty_cycle tp t = duty_to_u16 (tm_max_duty tp t)"

section \<open>Rates, duties and waveforms\<close>

datatype pwm_timer_block_kind = StandardOnly | DshotCapable

fun kind_supports :: "pwm_timer_block_kind \<Rightarrow> pwm_output_protocol \<Rightarrow> bool" where
  "kind_supports k StandardPwm = True"
| "kind_supports DshotCapable Dshot = True"
| "kind_supports StandardOnly Dshot = False"

definition rate_to_hz :: "f64 \<Rightarrow> timer_error + u32" where
  "rate_to_hz rate =
    (if \<not> is_finite rate \<or> rate \<le> flt_lit 0 1 \<or> flt_of_int (2 ^ 32 - 1) < rate then Inl TimerNotSupported
     else Inr (word_of_int (flt_to_int 0 (2 ^ 32 - 1) (rate + flt_lit 5 10))))"

definition dshot_waveform :: "dshot_command \<Rightarrow> u16 \<Rightarrow> u16 list" where
  "dshot_waveform command max_duty =
    (let high = ucast ((ucast max_duty :: u32) * 3 div 4);
       low = ucast ((ucast max_duty :: u32) * 3 div 8);
       frame = dshot_frame command
     in map (\<lambda>i. if dshot_bit_is_high frame i then high else low) [0..<DSHOT_FRAME_BITS] @ [0])"

definition standard_pwm_duty :: "f64 \<Rightarrow> f64 \<Rightarrow> u16 \<Rightarrow> timer_error + u16" where
  "standard_pwm_duty command rate_hz max_duty =
    (if \<not> is_finite rate_hz \<or> rate_hz \<le> flt_lit 0 1 then Inl TimerInvalidRate
     else (let pulse_us = flt_clamp command (flt_lit 0 1) (flt_lit 1 1) * flt_lit 1000 1 + flt_lit 1000 1;
         period_us = flt_lit 1000000 1 / rate_hz;
         raw = pulse_us / period_us * flt_of_int (uint max_duty)
       in Inr (flt_to_u16 (flt_clamp raw (flt_lit 0 1) (flt_of_int (uint max_duty))))))"

section \<open>Servo outputs\<close>

definition DSHOT_FRAME_WORDS :: nat where "DSHOT_FRAME_WORDS = DSHOT_FRAME_BITS + 1"

datatype dshot_dma = Dma2Ch0 | Dma2Ch1

record servo_config =
  sc_timer_ids :: "timer_id list"
  sc_chan_list :: "(nat \<times> timer_channel) list"
  sc_timer_kinds :: "pwm_timer_block_kind list"

record 't servos =
  sv_timers :: "'t list"
  sv_timer_protocols :: "pwm_output_protocol list"
  sv_output_protocols :: "pwm_output_protocol list"
  sv_output_rates_hz :: "f64 list"
  sv_dshot_frames :: "u16 list list"

text \<open>Both boards start with every output at 50 Hz and no waveform.\<close>

definition servos_new :: "servo_config \<Rightarrow> 't list \<Rightarrow> 't servos" where
  "servos_new c timers = \<lparr>sv_timers = timers, sv_timer_protocols = replicate (length (sc_timer_ids c)) StandardPwm,
     sv_output_protocols = replicate (length (sc_chan_list c)) StandardPwm,
     sv_output_rates_hz = replicate (length (sc_chan_list c)) (flt_lit 50 1),
     sv_dshot_frames = replicate (length (sc_chan_list c)) (replicate DSHOT_FRAME_WORDS 0)\<rparr>"

text \<open>One operation on the timer of an output.\<close>

definition on_timer :: "servo_config \<Rightarrow> nat \<Rightarrow> (timer_id \<Rightarrow> timer_channel \<Rightarrow> 't \<Rightarrow> 't \<times> timer_error option) \<Rightarrow> 't servos
    \<Rightarrow> 't servos \<times> timer_error option" where
  "on_timer c ch act s =
    (let (ix, chan) = sc_chan_list c ! ch;
       (t, e) = act (sc_timer_ids c ! ix) chan (sv_timers s ! ix)
     in (s\<lparr>sv_timers := (sv_timers s)[ix := t]\<rparr>, e))"

definition servo_enable :: "'t simple_pwm \<Rightarrow> servo_config \<Rightarrow> 't servos \<Rightarrow> nat \<Rightarrow> 't servos \<times> timer_error option" where
  "servo_enable tp c s ch = on_timer c ch (timer_enable tp) s"

definition servo_disable :: "'t simple_pwm \<Rightarrow> servo_config \<Rightarrow> 't servos \<Rightarrow> nat \<Rightarrow> 't servos \<times> timer_error option" where
  "servo_disable tp c s ch = on_timer c ch (timer_disable tp) s"

definition servo_set_duty_cycle :: "'t simple_pwm \<Rightarrow> servo_config \<Rightarrow> 't servos \<Rightarrow> nat \<Rightarrow> u16 \<Rightarrow> 't servos \<times> timer_error option" where
  "servo_set_duty_cycle tp c s ch duty = on_timer c ch (\<lambda>k chan. timer_set_duty_cycle tp k chan duty) s"

text \<open>
  The rates: first the outputs in order, where an error leaves what was written so far, then the
  timers that have a configuration.
\<close>

fun configure_outputs :: "servo_config \<Rightarrow> (nat \<times> f64) list \<Rightarrow> 't servos \<Rightarrow> (pwm_output_protocol \<times> u32) option list
    \<Rightarrow> 't servos \<times> (timer_error + (pwm_output_protocol \<times> u32) option list)" where
  "configure_outputs c [] s configs = (s, Inr configs)"
| "configure_outputs c ((i, rate) # rest) s configs =
    (let ix = fst (sc_chan_list c ! i)
     in case output_protocol_for_rate rate of
          Inl _ \<Rightarrow> (s, Inl TimerInvalidRate)
        | Inr protocol \<Rightarrow>
            (case effective_output_rate_hz rate of
               Inl _ \<Rightarrow> (s, Inl TimerInvalidRate)
             | Inr effective_rate \<Rightarrow>
                 (if \<not> kind_supports (sc_timer_kinds c ! ix) protocol then (s, Inl TimerUnsupportedProtocol)
                  else (let s1 = s\<lparr>sv_output_rates_hz := (sv_output_rates_hz s)[i := effective_rate],
                               sv_output_protocols := (sv_output_protocols s)[i := protocol]\<rparr>
                    in case rate_to_hz effective_rate of
                         Inl e \<Rightarrow> (s1, Inl e)
                       | Inr hz \<Rightarrow> configure_outputs c rest s1 (configs[ix := Some (protocol, hz)])))))"

definition configure_timers :: "'t simple_pwm \<Rightarrow> (pwm_output_protocol \<times> u32) option list \<Rightarrow> 't servos \<Rightarrow> 't servos" where
  "configure_timers tp configs s = s\<lparr>
     sv_timers := map (\<lambda>(t, cfg). case cfg of Some (_, hz) \<Rightarrow> timer_set_frequency_hz tp hz t | None \<Rightarrow> t) (zip (sv_timers s) configs),
     sv_timer_protocols := map (\<lambda>(p, cfg). case cfg of Some (protocol, _) \<Rightarrow> protocol | None \<Rightarrow> p) (zip (sv_timer_protocols s) configs)\<rparr>"

definition servo_configure_output_rates :: "'t simple_pwm \<Rightarrow> servo_config \<Rightarrow> 't servos \<Rightarrow> f64 list \<Rightarrow> 't servos \<times> timer_error option" where
  "servo_configure_output_rates tp c s rates_hz =
    (case configure_outputs c (enumerate 0 (take (length (sc_chan_list c)) rates_hz)) s (replicate (length (sc_timer_ids c)) None) of
       (s1, Inl e) \<Rightarrow> (s1, Some e)
     | (s1, Inr configs) \<Rightarrow> (configure_timers tp configs s1, None))"

definition servo_output_protocol :: "'t servos \<Rightarrow> nat \<Rightarrow> timer_error + pwm_output_protocol" where
  "servo_output_protocol s ch = (case list_get (sv_output_protocols s) ch of Some p \<Rightarrow> Inr p | None \<Rightarrow> Inl ChanNotSupported)"

definition prepare_dshot_command :: "'t simple_pwm \<Rightarrow> servo_config \<Rightarrow> 't servos \<Rightarrow> nat \<Rightarrow> dshot_command \<Rightarrow> 't servos" where
  "prepare_dshot_command tp c s i command =
    (let ix = fst (sc_chan_list c ! i); max_duty = timer_max_duty_cycle tp (sv_timers s ! ix)
     in s\<lparr>sv_dshot_frames := (sv_dshot_frames s)[i := dshot_waveform command max_duty]\<rparr>)"

definition prepare_dshot_frame :: "'t simple_pwm \<Rightarrow> servo_config \<Rightarrow> 't servos \<Rightarrow> nat \<Rightarrow> f64 \<Rightarrow> 't servos" where
  "prepare_dshot_frame tp c s i command = prepare_dshot_command tp c s i (dshot_from_normalized command)"

definition servo_standard_pwm_duty :: "'t simple_pwm \<Rightarrow> servo_config \<Rightarrow> 't servos \<Rightarrow> nat \<Rightarrow> f64 \<Rightarrow> timer_error + u16" where
  "servo_standard_pwm_duty tp c s i command =
    standard_pwm_duty command (sv_output_rates_hz s ! i) (timer_max_duty_cycle tp (sv_timers s ! fst (sc_chan_list c ! i)))"

text \<open>One output with a pulse.\<close>

definition servo_send_standard :: "'t simple_pwm \<Rightarrow> servo_config \<Rightarrow> 't servos \<Rightarrow> nat \<Rightarrow> f64 \<Rightarrow> 't servos \<times> timer_error option" where
  "servo_send_standard tp c s i command =
    (case servo_standard_pwm_duty tp c s i command of Inl e \<Rightarrow> (s, Some e) | Inr duty \<Rightarrow> servo_set_duty_cycle tp c s i duty)"

text \<open>A loop over outputs that ends at the first error.\<close>

fun until_error :: "('s \<Rightarrow> nat \<Rightarrow> 's \<times> 'e option) \<Rightarrow> nat list \<Rightarrow> 's \<Rightarrow> 's \<times> 'e option" where
  "until_error act [] s = (s, None)"
| "until_error act (i # is) s = (case act s i of (s', Some e) \<Rightarrow> (s', Some e) | (s', None) \<Rightarrow> until_error act is s')"

text \<open>\<^verbatim>\<open>ServoMonstrosity\<close>: an output with DSHOT ends the loop.\<close>

definition servo_send_normalized_commands :: "'t simple_pwm \<Rightarrow> servo_config \<Rightarrow> 't servos \<Rightarrow> f64 list \<Rightarrow> 't servos \<times> timer_error option" where
  "servo_send_normalized_commands tp c s commands =
    (let count = min (length commands) (length (sc_chan_list c))
     in until_error (\<lambda>s i. case sv_output_protocols s ! i of
          StandardPwm \<Rightarrow> servo_send_standard tp c s i (commands ! i)
        | Dshot \<Rightarrow> (prepare_dshot_frame tp c s i (commands ! i), Some TimerUnsupportedProtocol)) [0..<count] s)"

definition servo_send_disarmed_commands :: "'t simple_pwm \<Rightarrow> servo_config \<Rightarrow> 't servos \<Rightarrow> mixer_output_type list \<Rightarrow> 't servos \<times> timer_error option" where
  "servo_send_disarmed_commands tp c s output_types =
    (let count = min (length output_types) (length (sc_chan_list c))
     in until_error (\<lambda>s i. case sv_output_protocols s ! i of
          StandardPwm \<Rightarrow> servo_send_standard tp c s i (safe_disarmed_command (output_types ! i))
        | Dshot \<Rightarrow> (prepare_dshot_command tp c s i dshot_stop, Some TimerUnsupportedProtocol)) [0..<count] s)"

text \<open>\<^verbatim>\<open>PixRacerProServoMonstrosity\<close>: the frame is handed to the DMA channel of the timer, which refuses it.\<close>

definition dma_emit :: "dshot_dma \<Rightarrow> timer_channel \<Rightarrow> u16 list \<Rightarrow> timer_error option" where
  "dma_emit dma chan waveform = Some TimerUnsupportedProtocol"

definition emit_dshot_frame :: "servo_config \<Rightarrow> dshot_dma option list \<Rightarrow> 't servos \<Rightarrow> nat \<Rightarrow> timer_error option" where
  "emit_dshot_frame c dmas s i =
    (let (ix, chan) = sc_chan_list c ! i
     in case dmas ! ix of None \<Rightarrow> Some TimerUnsupportedProtocol | Some dma \<Rightarrow> dma_emit dma chan (sv_dshot_frames s ! i))"

definition pix_send_normalized_commands :: "'t simple_pwm \<Rightarrow> servo_config \<Rightarrow> dshot_dma option list \<Rightarrow> 't servos \<Rightarrow> f64 list
    \<Rightarrow> 't servos \<times> timer_error option" where
  "pix_send_normalized_commands tp c dmas s commands =
    (let count = min (length commands) (length (sc_chan_list c))
     in until_error (\<lambda>s i. case sv_output_protocols s ! i of
          StandardPwm \<Rightarrow> servo_send_standard tp c s i (commands ! i)
        | Dshot \<Rightarrow> (let s1 = prepare_dshot_frame tp c s i (commands ! i) in (s1, emit_dshot_frame c dmas s1 i))) [0..<count] s)"

definition pix_send_disarmed_commands :: "'t simple_pwm \<Rightarrow> servo_config \<Rightarrow> dshot_dma option list \<Rightarrow> 't servos \<Rightarrow> mixer_output_type list
    \<Rightarrow> 't servos \<times> timer_error option" where
  "pix_send_disarmed_commands tp c dmas s output_types =
    (let count = min (length output_types) (length (sc_chan_list c))
     in until_error (\<lambda>s i. case sv_output_protocols s ! i of
          StandardPwm \<Rightarrow> servo_send_standard tp c s i (safe_disarmed_command (output_types ! i))
        | Dshot \<Rightarrow> (let s1 = prepare_dshot_command tp c s i dshot_stop in (s1, emit_dshot_frame c dmas s1 i))) [0..<count] s)"

section \<open>The driver of the Nucleo\<close>

fun timer_error_to_pwm_error :: "timer_error \<Rightarrow> pwm_error" where
  "timer_error_to_pwm_error ChanNotSupported = ChannelOutOfRange"
| "timer_error_to_pwm_error TimerInvalidRate = InvalidRate"
| "timer_error_to_pwm_error TimerUnsupportedProtocol = UnsupportedProtocol"
| "timer_error_to_pwm_error TimerNotSupported = GenericError"

record 't nucleo_pwm =
  nu_servos :: "'t servos"
  nu_enabled :: u16

text \<open>The timers in the order of the array; three of the four share their channels among several outputs.\<close>

definition nucleo_config :: servo_config where
  "nucleo_config = \<lparr>sc_timer_ids = [TIM1, TIM2, TIM3, TIM4],
     sc_chan_list = [(0, Ch1), (0, Ch2), (0, Ch3), (0, Ch4), (1, Ch1), (1, Ch4), (2, Ch1), (2, Ch4), (3, Ch1), (3, Ch2), (3, Ch3), (3, Ch4)],
     sc_timer_kinds = replicate 4 StandardOnly\<rparr>"

definition nucleo_new :: "'t servos \<Rightarrow> 't nucleo_pwm" where
  "nucleo_new s = \<lparr>nu_servos = s, nu_enabled = 0\<rparr>"

definition nucleo_len :: nat where "nucleo_len = length (sc_chan_list nucleo_config)"

definition nucleo_is_enabled :: "'t nucleo_pwm \<Rightarrow> bool" where
  "nucleo_is_enabled d \<longleftrightarrow> nu_enabled d = push_bit nucleo_len 1 - 1"

definition nucleo_enable :: "'t simple_pwm \<Rightarrow> 't nucleo_pwm \<Rightarrow> nat \<Rightarrow> 't nucleo_pwm \<times> pwm_error option" where
  "nucleo_enable tp d channel =
    (if nucleo_len \<le> channel then (d, Some ChannelOutOfRange)
     else (case servo_enable tp nucleo_config (nu_servos d) channel of
        (s, Some _) \<Rightarrow> (d\<lparr>nu_servos := s\<rparr>, Some GenericError)
      | (s, None) \<Rightarrow> (d\<lparr>nu_servos := s, nu_enabled := nu_enabled d OR push_bit channel 1\<rparr>, None)))"

definition nucleo_disable :: "'t simple_pwm \<Rightarrow> 't nucleo_pwm \<Rightarrow> nat \<Rightarrow> 't nucleo_pwm \<times> pwm_error option" where
  "nucleo_disable tp d channel =
    (if nucleo_len \<le> channel then (d, Some ChannelOutOfRange)
     else (case servo_disable tp nucleo_config (nu_servos d) channel of
        (s, Some _) \<Rightarrow> (d\<lparr>nu_servos := s\<rparr>, Some GenericError)
      | (s, None) \<Rightarrow> (d\<lparr>nu_servos := s, nu_enabled := nu_enabled d AND NOT (push_bit channel 1)\<rparr>, None)))"

definition nucleo_enable_all :: "'t simple_pwm \<Rightarrow> 't nucleo_pwm \<Rightarrow> 't nucleo_pwm \<times> pwm_error option" where
  "nucleo_enable_all tp d = until_error (nucleo_enable tp) [0..<nucleo_len] d"

definition nucleo_disable_all :: "'t simple_pwm \<Rightarrow> 't nucleo_pwm \<Rightarrow> 't nucleo_pwm" where
  "nucleo_disable_all tp d = fold (\<lambda>i d. fst (nucleo_disable tp d i)) [0..<nucleo_len] d"

definition nucleo_set_duty_cycle :: "'t simple_pwm \<Rightarrow> 't nucleo_pwm \<Rightarrow> nat \<Rightarrow> u16 \<Rightarrow> 't nucleo_pwm \<times> pwm_error option" where
  "nucleo_set_duty_cycle tp d channel duty =
    (if nucleo_len \<le> channel then (d, Some ChannelOutOfRange)
     else (let (s, e) = servo_set_duty_cycle tp nucleo_config (nu_servos d) channel duty
       in (d\<lparr>nu_servos := s\<rparr>, map_option (\<lambda>_. GenericError) e)))"

definition nucleo_configure_output_rates :: "'t simple_pwm \<Rightarrow> 't nucleo_pwm \<Rightarrow> f64 list \<Rightarrow> 't nucleo_pwm \<times> pwm_error option" where
  "nucleo_configure_output_rates tp d rates_hz =
    (let (s, e) = servo_configure_output_rates tp nucleo_config (nu_servos d) rates_hz
     in (d\<lparr>nu_servos := s\<rparr>, map_option timer_error_to_pwm_error e))"

definition nucleo_flush :: "'t nucleo_pwm \<Rightarrow> 't nucleo_pwm" where
  "nucleo_flush d = d"

definition nucleo_send_commands :: "'t simple_pwm \<Rightarrow> 't nucleo_pwm \<Rightarrow> f64 list \<Rightarrow> 't nucleo_pwm \<times> pwm_error option" where
  "nucleo_send_commands tp d commands =
    (case servo_send_normalized_commands tp nucleo_config (nu_servos d) commands of
       (s, Some e) \<Rightarrow> (d\<lparr>nu_servos := s\<rparr>, Some (timer_error_to_pwm_error e))
     | (s, None) \<Rightarrow> (nucleo_flush (d\<lparr>nu_servos := s\<rparr>), None))"

definition nucleo_ops :: "'t simple_pwm \<Rightarrow> (64, 't nucleo_pwm) pwm_ops" where
  "nucleo_ops tp = \<lparr>po_len = nucleo_len, po_enable = nucleo_enable tp, po_disable = nucleo_disable tp,
     po_enable_all = nucleo_enable_all tp, po_disable_all = nucleo_disable_all tp, po_flush = nucleo_flush,
     po_send_commands = nucleo_send_commands tp\<rparr>"

section \<open>The driver of the PixRacer Pro\<close>

definition NUM_HW_CHANNELS :: nat where "NUM_HW_CHANNELS = 8"

record 't pixracer_pwm =
  px_servos :: "'t servos"
  px_current_values :: "f32 list"
  px_enabled :: u16
  px_max_duty :: "u16 list"

definition pixracer_config :: servo_config where
  "pixracer_config = \<lparr>sc_timer_ids = [TIM1, TIM4, TIM8],
     sc_chan_list = [(0, Ch4), (0, Ch3), (0, Ch2), (0, Ch1), (1, Ch2), (1, Ch3), (2, Ch1), (2, Ch2)],
     sc_timer_kinds = replicate 3 StandardOnly\<rparr>"

definition pixracer_dmas :: "dshot_dma option list" where
  "pixracer_dmas = [None, None, None]"

definition servo_max_duty_cycle :: "'t simple_pwm \<Rightarrow> servo_config \<Rightarrow> 't servos \<Rightarrow> nat \<Rightarrow> u16" where
  "servo_max_duty_cycle tp c s ch = timer_max_duty_cycle tp (sv_timers s ! fst (sc_chan_list c ! ch))"

definition pixracer_new :: "'t simple_pwm \<Rightarrow> 't servos \<Rightarrow> 't pixracer_pwm" where
  "pixracer_new tp s = \<lparr>px_servos = s, px_current_values = replicate NUM_HW_CHANNELS (flt_lit 1000 1), px_enabled = 0,
     px_max_duty = map (servo_max_duty_cycle tp pixracer_config s) [0..<NUM_HW_CHANNELS]\<rparr>"

definition duty_u16_to_pwm_us :: "u16 \<Rightarrow> f32" where
  "duty_u16_to_pwm_us duty =
    (let normalized = flt_of_int (uint duty) / flt_of_int 65535
     in flt_clamp normalized (flt_lit 0 1) (flt_lit 1 1) * flt_lit 1000 1 + flt_lit 1000 1)"

definition pixracer_is_enabled :: "'t pixracer_pwm \<Rightarrow> bool" where
  "pixracer_is_enabled d \<longleftrightarrow> px_enabled d = push_bit NUM_HW_CHANNELS 1 - 1"

definition pixracer_enable :: "'t simple_pwm \<Rightarrow> 't pixracer_pwm \<Rightarrow> nat \<Rightarrow> 't pixracer_pwm \<times> pwm_error option" where
  "pixracer_enable tp d channel =
    (if NUM_HW_CHANNELS \<le> channel then (d, Some ChannelOutOfRange)
     else (case servo_enable tp pixracer_config (px_servos d) channel of
        (s, Some _) \<Rightarrow> (d\<lparr>px_servos := s\<rparr>, Some GenericError)
      | (s, None) \<Rightarrow> (d\<lparr>px_servos := s, px_enabled := px_enabled d OR push_bit channel 1\<rparr>, None)))"

definition pixracer_disable :: "'t simple_pwm \<Rightarrow> 't pixracer_pwm \<Rightarrow> nat \<Rightarrow> 't pixracer_pwm \<times> pwm_error option" where
  "pixracer_disable tp d channel =
    (if NUM_HW_CHANNELS \<le> channel then (d, Some ChannelOutOfRange)
     else (case servo_disable tp pixracer_config (px_servos d) channel of
        (s, Some _) \<Rightarrow> (d\<lparr>px_servos := s\<rparr>, Some GenericError)
      | (s, None) \<Rightarrow> (d\<lparr>px_servos := s, px_enabled := px_enabled d AND NOT (push_bit channel 1)\<rparr>, None)))"

definition pixracer_enable_all :: "'t simple_pwm \<Rightarrow> 't pixracer_pwm \<Rightarrow> 't pixracer_pwm \<times> pwm_error option" where
  "pixracer_enable_all tp d = until_error (pixracer_enable tp) [0..<NUM_HW_CHANNELS] d"

definition pixracer_disable_all :: "'t simple_pwm \<Rightarrow> 't pixracer_pwm \<Rightarrow> 't pixracer_pwm" where
  "pixracer_disable_all tp d = fold (\<lambda>i d. fst (pixracer_disable tp d i)) [0..<NUM_HW_CHANNELS] d"

text \<open>The duty of a value at 400 Hz, whatever the rate of the timer.\<close>

definition pixracer_set_duty_cycle :: "'t simple_pwm \<Rightarrow> 't pixracer_pwm \<Rightarrow> nat \<Rightarrow> u16 \<Rightarrow> 't pixracer_pwm \<times> pwm_error option" where
  "pixracer_set_duty_cycle tp d channel duty =
    (if NUM_HW_CHANNELS \<le> channel then (d, Some ChannelOutOfRange)
     else (let pwm_us = duty_u16_to_pwm_us duty;
         raw_pwm = pwm_us / flt_lit 2500 1 * flt_of_int (uint (px_max_duty d ! channel));
         (s, e) = servo_set_duty_cycle tp pixracer_config (px_servos d) channel (flt_to_u16 raw_pwm)
       in (d\<lparr>px_current_values := (px_current_values d)[channel := pwm_us], px_servos := s\<rparr>, map_option (\<lambda>_. GenericError) e)))"

definition pixracer_configure_output_rates :: "'t simple_pwm \<Rightarrow> 't pixracer_pwm \<Rightarrow> f64 list \<Rightarrow> 't pixracer_pwm \<times> pwm_error option" where
  "pixracer_configure_output_rates tp d rates_hz =
    (case servo_configure_output_rates tp pixracer_config (px_servos d) (take NUM_HW_CHANNELS rates_hz) of
       (s, Some e) \<Rightarrow> (d\<lparr>px_servos := s\<rparr>, Some (timer_error_to_pwm_error e))
     | (s, None) \<Rightarrow> (d\<lparr>px_servos := s, px_max_duty := map (servo_max_duty_cycle tp pixracer_config s) [0..<NUM_HW_CHANNELS]\<rparr>, None))"

definition pixracer_output_protocol :: "'t pixracer_pwm \<Rightarrow> nat \<Rightarrow> pwm_error + pwm_output_protocol" where
  "pixracer_output_protocol d channel =
    (if NUM_HW_CHANNELS \<le> channel then Inl ChannelOutOfRange
     else (case servo_output_protocol (px_servos d) channel of Inl e \<Rightarrow> Inl (timer_error_to_pwm_error e) | Inr p \<Rightarrow> Inr p))"

definition pixracer_flush :: "'t pixracer_pwm \<Rightarrow> 't pixracer_pwm" where
  "pixracer_flush d = d"

definition pixracer_send_commands :: "'t simple_pwm \<Rightarrow> 't pixracer_pwm \<Rightarrow> f64 list \<Rightarrow> 't pixracer_pwm \<times> pwm_error option" where
  "pixracer_send_commands tp d commands =
    (case pix_send_normalized_commands tp pixracer_config pixracer_dmas (px_servos d) (take NUM_HW_CHANNELS commands) of
       (s, Some e) \<Rightarrow> (d\<lparr>px_servos := s\<rparr>, Some (timer_error_to_pwm_error e))
     | (s, None) \<Rightarrow> (pixracer_flush (d\<lparr>px_servos := s\<rparr>), None))"

definition pixracer_send_disarmed_commands :: "'t simple_pwm \<Rightarrow> 't pixracer_pwm \<Rightarrow> mixer_output_type list \<Rightarrow> 't pixracer_pwm \<times> pwm_error option" where
  "pixracer_send_disarmed_commands tp d output_types =
    (case pix_send_disarmed_commands tp pixracer_config pixracer_dmas (px_servos d) (take NUM_HW_CHANNELS output_types) of
       (s, Some e) \<Rightarrow> (d\<lparr>px_servos := s\<rparr>, Some (timer_error_to_pwm_error e))
     | (s, None) \<Rightarrow> (pixracer_flush (d\<lparr>px_servos := s\<rparr>), None))"

definition pixracer_ops :: "'t simple_pwm \<Rightarrow> (64, 't pixracer_pwm) pwm_ops" where
  "pixracer_ops tp = \<lparr>po_len = NUM_HW_CHANNELS, po_enable = pixracer_enable tp, po_disable = pixracer_disable tp,
     po_enable_all = pixracer_enable_all tp, po_disable_all = pixracer_disable_all tp, po_flush = pixracer_flush,
     po_send_commands = pixracer_send_commands tp\<rparr>"

end
