(* ===== verification/Servo_Timers_Safety.thy ===== *)
theory Servo_Timers_Safety
  imports Servo_Timers Pwm_Safety Float_Scaling
begin

text \<open>
  What the servo outputs of the STM32 boards do: they keep the contract of the driver interface, no
  command is refused in a state that a board can reach, each timer runs at the rate of the last output
  on it, and the disarmed commands of the PixRacer are those of the default.
\<close>

section \<open>Channels\<close>

definition channels_supported :: "servo_config \<Rightarrow> bool" where
  "channels_supported c = list_all (\<lambda>(ix, ch). ix < length (sc_timer_ids c) \<and> timer_has_channel (sc_timer_ids c ! ix) ch) (sc_chan_list c)"

lemma board_channels [simp]: "channels_supported nucleo_config" "channels_supported pixracer_config"
  by (simp_all add: channels_supported_def nucleo_config_def pixracer_config_def)

lemma board_lengths [simp]: "length (sc_chan_list nucleo_config) = 12" "length (sc_chan_list pixracer_config) = 8"
  "nucleo_len = 12" "length (sc_timer_ids nucleo_config) = 4" "length (sc_timer_ids pixracer_config) = 3"
  by (simp_all add: nucleo_config_def pixracer_config_def nucleo_len_def)

lemma supported_nth:
  assumes "channels_supported c" "i < length (sc_chan_list c)"
  obtains ix ch where "sc_chan_list c ! i = (ix, ch)" "ix < length (sc_timer_ids c)" "timer_has_channel (sc_timer_ids c ! ix) ch"
  using assms unfolding channels_supported_def list_all_length by (cases "sc_chan_list c ! i") force

lemma servo_act_succeeds:
  assumes "channels_supported c" "i < length (sc_chan_list c)"
  shows "snd (servo_enable tp c s i) = None" "snd (servo_disable tp c s i) = None" "snd (servo_set_duty_cycle tp c s i duty) = None"
  by (rule supported_nth [OF assms], simp add: servo_enable_def servo_disable_def servo_set_duty_cycle_def on_timer_def
      timer_enable_def timer_disable_def timer_set_duty_cycle_def)+

section \<open>The board drivers keep the contract\<close>

definition nucleo_enabled :: "'t nucleo_pwm \<Rightarrow> nat set" where
  "nucleo_enabled d = {c. c < 12 \<and> bit (nu_enabled d) c}"

definition pixracer_enabled :: "'t pixracer_pwm \<Rightarrow> nat set" where
  "pixracer_enabled d = {c. c < 8 \<and> bit (px_enabled d) c}"

lemma nucleo_enable_eq:
  "c < 12 \<Longrightarrow> nucleo_enable tp d c = (d\<lparr>nu_servos := fst (servo_enable tp nucleo_config (nu_servos d) c), nu_enabled := nu_enabled d OR push_bit c 1\<rparr>, None)"
  "c < 12 \<Longrightarrow> nucleo_disable tp d c = (d\<lparr>nu_servos := fst (servo_disable tp nucleo_config (nu_servos d) c), nu_enabled := nu_enabled d AND NOT (push_bit c 1)\<rparr>, None)"
  using servo_act_succeeds(1) [of nucleo_config c tp "nu_servos d"] servo_act_succeeds(2) [of nucleo_config c tp "nu_servos d"]
  by (auto simp: nucleo_enable_def nucleo_disable_def split: prod.splits option.splits)

lemma pixracer_enable_eq:
  "c < 8 \<Longrightarrow> pixracer_enable tp d c = (d\<lparr>px_servos := fst (servo_enable tp pixracer_config (px_servos d) c), px_enabled := px_enabled d OR push_bit c 1\<rparr>, None)"
  "c < 8 \<Longrightarrow> pixracer_disable tp d c = (d\<lparr>px_servos := fst (servo_disable tp pixracer_config (px_servos d) c), px_enabled := px_enabled d AND NOT (push_bit c 1)\<rparr>, None)"
  using servo_act_succeeds(1) [of pixracer_config c tp "px_servos d"] servo_act_succeeds(2) [of pixracer_config c tp "px_servos d"]
  by (auto simp: pixracer_enable_def pixracer_disable_def NUM_HW_CHANNELS_def split: prod.splits option.splits)

lemma nucleo_enabled_simps:
  "c < 12 \<Longrightarrow> nucleo_enabled (fst (nucleo_enable tp d c)) = insert c (nucleo_enabled d)"
  "c < 12 \<Longrightarrow> nucleo_enabled (fst (nucleo_disable tp d c)) = nucleo_enabled d - {c}"
  by (auto simp: nucleo_enable_eq nucleo_enabled_def bit_simps)

lemma pixracer_enabled_simps:
  "c < 8 \<Longrightarrow> pixracer_enabled (fst (pixracer_enable tp d c)) = insert c (pixracer_enabled d)"
  "c < 8 \<Longrightarrow> pixracer_enabled (fst (pixracer_disable tp d c)) = pixracer_enabled d - {c}"
  by (auto simp: pixracer_enable_eq pixracer_enabled_def bit_simps)

text \<open>The loops of both boards, for any operations that add or remove their channel.\<close>

lemma until_error_insert:
  assumes "\<And>d c. c \<in> set cs \<Longrightarrow> snd (act d c) = None \<and> en (fst (act d c)) = insert c (en d)"
  shows "snd (until_error act cs d) = None \<and> en (fst (until_error act cs d)) = en d \<union> set cs"
  using assms
proof (induction cs arbitrary: d)
  case (Cons c cs)
  obtain d1 where d1: "act d c = (d1, None)" "en d1 = insert c (en d)" using Cons.prems [of c d] by (cases "act d c") auto
  then show ?case using Cons.IH [of d1] Cons.prems by auto
qed simp

lemma fold_remove:
  assumes "\<And>d c. c \<in> set cs \<Longrightarrow> en (fst (act d c)) = en d - {c}"
  shows "en (fold (\<lambda>i d. fst (act d i)) cs d) = en d - set cs"
  using assms by (induction cs arbitrary: d) auto

lemma until_error_insert_upt:
  assumes "\<And>d c. c < n \<Longrightarrow> snd (act d c) = None \<and> en (fst (act d c)) = insert c (en d)"
  shows "snd (until_error act [0..<n] d) = None \<and> en (fst (until_error act [0..<n] d)) = en d \<union> {..<n}"
  using until_error_insert [of "[0..<n]" act en d] assms by (simp add: atLeast0LessThan)

lemma fold_remove_upt:
  assumes "\<And>d c. c < n \<Longrightarrow> en (fst (act d c)) = en d - {c}"
  shows "en (fold (\<lambda>i d. fst (act d i)) [0..<n] d) = en d - {..<n}"
  using fold_remove [of "[0..<n]" en act d] assms by (simp add: atLeast0LessThan)

lemma nucleo_all:
  "snd (nucleo_enable_all tp d) = None" "nucleo_enabled (fst (nucleo_enable_all tp d)) = {..<12}"
  "nucleo_enabled (nucleo_disable_all tp d) = {}"
proof -
  have "snd (nucleo_enable_all tp d) = None \<and> nucleo_enabled (fst (nucleo_enable_all tp d)) = nucleo_enabled d \<union> {..<12}"
    unfolding nucleo_enable_all_def board_lengths
    by (rule until_error_insert_upt, rule conjI) (simp add: nucleo_enable_eq, rule nucleo_enabled_simps)
  then show "snd (nucleo_enable_all tp d) = None" "nucleo_enabled (fst (nucleo_enable_all tp d)) = {..<12}"
    by (auto simp: nucleo_enabled_def)
  have "nucleo_enabled (nucleo_disable_all tp d) = nucleo_enabled d - {..<12}"
    unfolding nucleo_disable_all_def board_lengths by (rule fold_remove_upt) (rule nucleo_enabled_simps)
  then show "nucleo_enabled (nucleo_disable_all tp d) = {}" by (auto simp: nucleo_enabled_def)
qed

lemma pixracer_all:
  "snd (pixracer_enable_all tp d) = None" "pixracer_enabled (fst (pixracer_enable_all tp d)) = {..<8}"
  "pixracer_enabled (pixracer_disable_all tp d) = {}"
proof -
  have "snd (pixracer_enable_all tp d) = None \<and> pixracer_enabled (fst (pixracer_enable_all tp d)) = pixracer_enabled d \<union> {..<8}"
    unfolding pixracer_enable_all_def NUM_HW_CHANNELS_def
    by (rule until_error_insert_upt, rule conjI) (simp add: pixracer_enable_eq, rule pixracer_enabled_simps)
  then show "snd (pixracer_enable_all tp d) = None" "pixracer_enabled (fst (pixracer_enable_all tp d)) = {..<8}"
    by (auto simp: pixracer_enabled_def)
  have "pixracer_enabled (pixracer_disable_all tp d) = pixracer_enabled d - {..<8}"
    unfolding pixracer_disable_all_def NUM_HW_CHANNELS_def by (rule fold_remove_upt) (rule pixracer_enabled_simps)
  then show "pixracer_enabled (pixracer_disable_all tp d) = {}" by (auto simp: pixracer_enabled_def)
qed

interpretation nucleo: reliable_pwm_driver "nucleo_ops tp" nucleo_enabled for tp :: "'t simple_pwm"
proof unfold_locales
  show "nucleo_enabled p' = (if e = None then insert c (nucleo_enabled p) else nucleo_enabled p)"
    if "po_enable (nucleo_ops tp) p c = (p', e)" for p c p' e
    using that nucleo_enabled_simps(1) [of c tp p] nucleo_enable_eq(1) [of c tp p]
    by (cases "c < 12") (auto simp: nucleo_ops_def nucleo_enable_def)
  show "nucleo_enabled p' = (if e = None then nucleo_enabled p - {c} else nucleo_enabled p)"
    if "po_disable (nucleo_ops tp) p c = (p', e)" for p c p' e
    using that nucleo_enabled_simps(2) [of c tp p] nucleo_enable_eq(2) [of c tp p]
    by (cases "c < 12") (auto simp: nucleo_ops_def nucleo_disable_def)
  show "nucleo_enabled p' = (if e = None then {..<po_len (nucleo_ops tp)} else nucleo_enabled p)"
    if "po_enable_all (nucleo_ops tp) p = (p', e)" for p p' e
    using that nucleo_all(1,2) [of tp p] by (simp add: nucleo_ops_def)
qed (simp_all add: nucleo_ops_def nucleo_all nucleo_flush_def nucleo_enable_eq)

interpretation pixracer: reliable_pwm_driver "pixracer_ops tp" pixracer_enabled for tp :: "'t simple_pwm"
proof unfold_locales
  show "pixracer_enabled p' = (if e = None then insert c (pixracer_enabled p) else pixracer_enabled p)"
    if "po_enable (pixracer_ops tp) p c = (p', e)" for p c p' e
    using that pixracer_enabled_simps(1) [of c tp p] pixracer_enable_eq(1) [of c tp p]
    by (cases "c < 8") (auto simp: pixracer_ops_def pixracer_enable_def NUM_HW_CHANNELS_def)
  show "pixracer_enabled p' = (if e = None then pixracer_enabled p - {c} else pixracer_enabled p)"
    if "po_disable (pixracer_ops tp) p c = (p', e)" for p c p' e
    using that pixracer_enabled_simps(2) [of c tp p] pixracer_enable_eq(2) [of c tp p]
    by (cases "c < 8") (auto simp: pixracer_ops_def pixracer_disable_def NUM_HW_CHANNELS_def)
  show "pixracer_enabled p' = (if e = None then {..<po_len (pixracer_ops tp)} else pixracer_enabled p)"
    if "po_enable_all (pixracer_ops tp) p = (p', e)" for p p' e
    using that pixracer_all(1,2) [of tp p] by (simp add: pixracer_ops_def NUM_HW_CHANNELS_def)
qed (simp_all add: pixracer_ops_def pixracer_all pixracer_flush_def pixracer_enable_eq NUM_HW_CHANNELS_def)

text \<open>
  Synchronising the outputs of the boards succeeds and leaves enabled exactly the channels asked for.
\<close>

lemma pixracer_outputs_follow_the_mask:
  assumes "pixracer_enabled d = mask_channels (out AND available_mask 8)"
    and "sync_pwm_output_state (pixracer_ops tp) kill m d out = (d', out', r)"
  shows "r = Inr (out AND available_mask 8 \<noteq> out') \<and> pixracer_enabled d' = {c. c < 8 \<and> \<not> kill \<and> (m = - 1 \<or> 0 \<le> sint m \<and> bit m c)}"
proof -
  have len: "po_len (pixracer_ops tp) = 8" by (simp add: pixracer_ops_def NUM_HW_CHANNELS_def)
  show ?thesis using pixracer.sync_follows_mask [where tp = tp, unfolded len, OF assms] by simp
qed

lemma nucleo_outputs_follow_the_mask:
  assumes "nucleo_enabled d = mask_channels (out AND available_mask 12)"
    and "sync_pwm_output_state (nucleo_ops tp) kill m d out = (d', out', r)"
  shows "r = Inr (out AND available_mask 12 \<noteq> out') \<and> nucleo_enabled d' = {c. c < 12 \<and> \<not> kill \<and> (m = - 1 \<or> 0 \<le> sint m \<and> bit m c)}"
proof -
  have len: "po_len (nucleo_ops tp) = 12" by (simp add: nucleo_ops_def)
  show ?thesis using nucleo.sync_follows_mask [where tp = tp, unfolded len, OF assms] by simp
qed

section \<open>No command is refused\<close>

text \<open>What the boards do with their servo outputs, in any order.\<close>

inductive servos_reachable :: "'t simple_pwm \<Rightarrow> servo_config \<Rightarrow> dshot_dma option list \<Rightarrow> 't servos \<Rightarrow> bool"
  for tp :: "'t simple_pwm" and c :: servo_config and dmas :: "dshot_dma option list" where
  start: "servos_reachable tp c dmas (servos_new c timers)"
| enable: "servos_reachable tp c dmas s \<Longrightarrow> servos_reachable tp c dmas (fst (servo_enable tp c s i))"
| disable: "servos_reachable tp c dmas s \<Longrightarrow> servos_reachable tp c dmas (fst (servo_disable tp c s i))"
| duty: "servos_reachable tp c dmas s \<Longrightarrow> servos_reachable tp c dmas (fst (servo_set_duty_cycle tp c s i d))"
| rates: "servos_reachable tp c dmas s \<Longrightarrow> servos_reachable tp c dmas (fst (servo_configure_output_rates tp c s rs))"
| send: "servos_reachable tp c dmas s \<Longrightarrow> servos_reachable tp c dmas (fst (servo_send_normalized_commands tp c s cmds))"
| disarmed: "servos_reachable tp c dmas s \<Longrightarrow> servos_reachable tp c dmas (fst (servo_send_disarmed_commands tp c s types))"
| pix_send: "servos_reachable tp c dmas s \<Longrightarrow> servos_reachable tp c dmas (fst (pix_send_normalized_commands tp c dmas s cmds))"
| pix_disarmed: "servos_reachable tp c dmas s \<Longrightarrow> servos_reachable tp c dmas (fst (pix_send_disarmed_commands tp c dmas s types))"

definition standard_board :: "servo_config \<Rightarrow> bool" where
  "standard_board c \<longleftrightarrow> channels_supported c \<and> sc_timer_kinds c = replicate (length (sc_timer_ids c)) StandardOnly"

definition rate_ok :: "f64 \<Rightarrow> bool" where
  "rate_ok r \<longleftrightarrow> is_finite r \<and> \<not> r \<le> flt_lit 0 1"

definition servos_ok :: "servo_config \<Rightarrow> 't servos \<Rightarrow> bool" where
  "servos_ok c s \<longleftrightarrow> length (sv_output_protocols s) = length (sc_chan_list c) \<and> length (sv_output_rates_hz s) = length (sc_chan_list c)
    \<and> set (sv_output_protocols s) \<subseteq> {StandardPwm} \<and> list_all rate_ok (sv_output_rates_hz s)"

lemma standard_boards [simp]: "standard_board nucleo_config" "standard_board pixracer_config"
  by (simp_all add: standard_board_def nucleo_config_def pixracer_config_def channels_supported_def numeral_eq_Suc)

lemma fifty_ok: "rate_ok (flt_lit 50 1)" "rate_ok (from_f32 STANDARD_PWM_DEFAULT_RATE_HZ)"
proof -
  have "is_finite (flt_lit 50 1 :: f64)" "fval (flt_lit 50 1 :: f64) = 50 * 2 ^ ulp_exp TYPE(64)"
    using f64.flt_lit_int [of 50] by (simp_all add: mbits_def)
  then show a: "rate_ok (flt_lit 50 1)" by (simp add: rate_ok_def f64.flt_lit_0 f64.le_finite_iff)
  show "rate_ok (from_f32 STANDARD_PWM_DEFAULT_RATE_HZ)" 
    using a f64.from_f32_lit [of 50 0] by (simp add: STANDARD_PWM_DEFAULT_RATE_HZ_def)
qed

lemma on_timer_ok: "servos_ok c (fst (on_timer c i act s)) = servos_ok c s"
  by (simp add: on_timer_def servos_ok_def case_prod_beta Let_def)

lemma effective_rate_ok:
  assumes "output_protocol_for_rate r = Inr StandardPwm" "effective_output_rate_hz r = Inr e"
  shows "rate_ok e"
proof (cases "flt_eq r (lit32 0 1)")
  case True
  then show ?thesis using assms fifty_ok(2) by (simp add: effective_output_rate_hz_def)
next
  case False
  then have "is_finite r" "\<not> r < lit32 0 1" "e = r"
    using assms by (auto simp: effective_output_rate_hz_def output_protocol_for_rate_def split: if_splits)
  then show ?thesis
    using False by (simp add: rate_ok_def f64.lit32_0 f64.flt_lit_0 flt_eq_def less_flt_def less_eq_flt_def f64.finite_not)
qed

lemma configured_output_ok:
  assumes "standard_board c" "servos_ok c s" "i < length (sc_chan_list c)"
    and "output_protocol_for_rate r = Inr p" "effective_output_rate_hz r = Inr e"
    and "kind_supports (sc_timer_kinds c ! fst (sc_chan_list c ! i)) p"
  shows "p = StandardPwm" "servos_ok c (s\<lparr>sv_output_rates_hz := (sv_output_rates_hz s)[i := e], sv_output_protocols := (sv_output_protocols s)[i := p]\<rparr>)"
proof -
  from assms(1) have "channels_supported c" and kinds: "sc_timer_kinds c = replicate (length (sc_timer_ids c)) StandardOnly"
    by (simp_all add: standard_board_def)
  then obtain ix ch where "sc_chan_list c ! i = (ix, ch)" "ix < length (sc_timer_ids c)"
    using supported_nth assms(3) by blast
  then show p: "p = StandardPwm" using assms(6) kinds by (cases p) simp_all
  then have "rate_ok e" using effective_rate_ok assms(4,5) by blast
  then show "servos_ok c (s\<lparr>sv_output_rates_hz := (sv_output_rates_hz s)[i := e], sv_output_protocols := (sv_output_protocols s)[i := p]\<rparr>)"
    using assms(2) set_update_subset_insert [of "sv_output_protocols s" i p] set_update_subset_insert [of "sv_output_rates_hz s" i e]
    by (auto simp: servos_ok_def p list_all_iff)
qed

lemma configure_outputs_ok:
  assumes "standard_board c" "servos_ok c s" "\<forall>i \<in> fst ` set ps. i < length (sc_chan_list c)"
  shows "servos_ok c (fst (configure_outputs c ps s configs))"
  using assms(2,3)
proof (induction ps arbitrary: s configs)
  case (Cons x ps)
  obtain i r where x: "x = (i, r)" by force
  note step = configured_output_ok(2) [OF assms(1) Cons.prems(1), of i r]
  show ?case
    using Cons.prems step Cons.IH unfolding x
    by (simp add: Let_def split: sum.splits)
qed simp

lemma configure_ok:
  assumes "standard_board c" "servos_ok c s"
  shows "servos_ok c (fst (servo_configure_output_rates tp c s rs))"
proof -
  let ?ps = "enumerate 0 (take (length (sc_chan_list c)) rs)"
  have "\<forall>i \<in> fst ` set ?ps. i < length (sc_chan_list c)" by (auto simp: in_set_enumerate_eq)
  from configure_outputs_ok [OF assms this, of "replicate (length (sc_timer_ids c)) None"] show ?thesis
    by (simp add: servo_configure_output_rates_def servos_ok_def configure_timers_def case_prod_beta split: sum.splits)
qed

lemma send_standard_ok: "servos_ok c (fst (servo_send_standard tp c s i cmd)) = servos_ok c s"
  by (simp add: servo_send_standard_def servo_set_duty_cycle_def on_timer_ok split: sum.splits)

lemma prepare_ok [simp]:
  "servos_ok c (prepare_dshot_command tp c s i command) = servos_ok c s" "servos_ok c (prepare_dshot_frame tp c s i cmd) = servos_ok c s"
  by (simp_all add: prepare_dshot_command_def prepare_dshot_frame_def servos_ok_def Let_def)

lemma until_error_invariant:
  assumes "\<And>s i. P s \<Longrightarrow> i \<in> set is \<Longrightarrow> P (fst (act s i))" "P s"
  shows "P (fst (until_error act is s))"
  using assms
proof (induction "is" arbitrary: s)
  case (Cons i "is")
  obtain s1 e where a: "act s i = (s1, e)" by force
  have "P s1" using Cons.prems(1) [of s i] Cons.prems(2) a by simp
  then show ?case using Cons a by (cases e) auto
qed simp

lemma send_loops_ok:
  assumes "servos_ok c s"
  shows "servos_ok c (fst (servo_send_normalized_commands tp c s cmds))" "servos_ok c (fst (servo_send_disarmed_commands tp c s types))"
    "servos_ok c (fst (pix_send_normalized_commands tp c dmas s cmds))" "servos_ok c (fst (pix_send_disarmed_commands tp c dmas s types))"
  unfolding servo_send_normalized_commands_def servo_send_disarmed_commands_def pix_send_normalized_commands_def
    pix_send_disarmed_commands_def Let_def
  by (rule until_error_invariant [where P = "servos_ok c"], simp add: send_standard_ok split: pwm_output_protocol.split, rule assms)+

lemma reachable_servos_ok:
  assumes "standard_board c" "servos_reachable tp c dmas s"
  shows "servos_ok c s"
  using assms(2)
proof induction
  case (start timers)
  show ?case by (auto simp: servos_ok_def servos_new_def list_all_iff fifty_ok)
next
  case (rates s rs)
  then show ?case using configure_ok assms(1) by blast
qed (simp_all add: servo_enable_def servo_disable_def servo_set_duty_cycle_def on_timer_ok send_loops_ok)

text \<open>A loop of pulses that never ends early.\<close>

definition pulses :: "'t simple_pwm \<Rightarrow> servo_config \<Rightarrow> (nat \<Rightarrow> f64) \<Rightarrow> nat list \<Rightarrow> 't servos \<Rightarrow> 't servos" where
  "pulses tp c cmd is s = fold (\<lambda>i s. fst (servo_send_standard tp c s i (cmd i))) is s"

lemma send_standard_succeeds:
  assumes "channels_supported c" "servos_ok c s" "i < length (sc_chan_list c)"
  shows "snd (servo_send_standard tp c s i cmd) = None" "sv_output_protocols s ! i = StandardPwm"
proof -
  have "rate_ok (sv_output_rates_hz s ! i)" using assms by (simp add: servos_ok_def list_all_length)
  then obtain d where "servo_standard_pwm_duty tp c s i cmd = Inr d"
    by (simp add: servo_standard_pwm_duty_def standard_pwm_duty_def rate_ok_def Let_def)
  then show "snd (servo_send_standard tp c s i cmd) = None"
    using servo_act_succeeds(3) [OF assms(1,3)] by (simp add: servo_send_standard_def)
  have "sv_output_protocols s ! i \<in> set (sv_output_protocols s)" using assms(2,3) by (simp add: servos_ok_def)
  then show "sv_output_protocols s ! i = StandardPwm" using assms(2) by (auto simp: servos_ok_def)
qed

lemma until_error_pulses:
  assumes "channels_supported c" "servos_ok c s" "set is \<subseteq> {..<length (sc_chan_list c)}"
    and "\<And>s i. servos_ok c s \<Longrightarrow> i < length (sc_chan_list c) \<Longrightarrow> act s i = servo_send_standard tp c s i (cmd i)"
  shows "until_error act is s = (pulses tp c cmd is s, None)"
  using assms(2,3)
proof (induction "is" arbitrary: s)
  case (Cons i "is")
  obtain s1 where s1: "servo_send_standard tp c s i (cmd i) = (s1, None)"
    using send_standard_succeeds(1) [OF assms(1) Cons.prems(1), of i tp "cmd i"] Cons.prems(2)
    by (cases "servo_send_standard tp c s i (cmd i)") simp
  then have "servos_ok c s1" using send_standard_ok [of c tp s i "cmd i"] Cons.prems(1) by simp
  then show ?case using Cons s1 assms(4) [OF Cons.prems(1), of i] by (simp add: pulses_def)
qed (simp add: pulses_def)

text \<open>
  C31. No command is lost: on a board whose timers give standard pulses, whatever was done to its servo
  outputs before, every output gets its pulse, in order, from the commands as from the disarmed
  commands, and no error ends the loop in front of an output.
\<close>

theorem standard_boards_lose_no_command:
  assumes "standard_board c" "servos_reachable tp c dmas s"
  shows "servo_send_normalized_commands tp c s cmds = (pulses tp c ((!) cmds) [0..<min (length cmds) (length (sc_chan_list c))] s, None)
    \<and> pix_send_normalized_commands tp c dmas s cmds = (pulses tp c ((!) cmds) [0..<min (length cmds) (length (sc_chan_list c))] s, None)
    \<and> servo_send_disarmed_commands tp c s types
      = (pulses tp c (\<lambda>i. safe_disarmed_command (types ! i)) [0..<min (length types) (length (sc_chan_list c))] s, None)
    \<and> pix_send_disarmed_commands tp c dmas s types
      = (pulses tp c (\<lambda>i. safe_disarmed_command (types ! i)) [0..<min (length types) (length (sc_chan_list c))] s, None)"
proof -
  have ok: "servos_ok c s" by (rule reachable_servos_ok [OF assms])
  have c: "channels_supported c" using assms(1) by (simp add: standard_board_def)
  show ?thesis
    unfolding servo_send_normalized_commands_def servo_send_disarmed_commands_def pix_send_normalized_commands_def
      pix_send_disarmed_commands_def Let_def
    by (intro conjI until_error_pulses c ok) (auto simp: send_standard_succeeds(2) [OF c])
qed

definition no_timer :: "unit simple_pwm" where
  "no_timer = \<lparr>tm_set_frequency = \<lambda>_ t. t, tm_enable = \<lambda>_ t. t, tm_disable = \<lambda>_ t. t, tm_set_duty = \<lambda>_ _ t. t, tm_max_duty = \<lambda>_. 60000\<rparr>"

lemma standard_boards_lose_no_command_witness:
  "snd (pix_send_disarmed_commands no_timer pixracer_config pixracer_dmas
     (fst (servo_configure_output_rates no_timer pixracer_config (servos_new pixracer_config [(), (), ()]) [flt_lit 200000 1]))
     [OutMotor, OutServo]) = None"
proof -
  have "servos_reachable no_timer pixracer_config pixracer_dmas
     (fst (servo_configure_output_rates no_timer pixracer_config (servos_new pixracer_config [(), (), ()]) [flt_lit 200000 1]))"
    by (intro servos_reachable.rates servos_reachable.start)
  from standard_boards_lose_no_command [OF standard_boards(2) this, of "[]" "[OutMotor, OutServo]"] show ?thesis by simp
qed

text \<open>
  The disarmed commands that the driver of the PixRacer Pro writes itself are those of the default of
  the trait, when the mixer names a type for each of its outputs.
\<close>

theorem pixracer_disarms_like_the_default:
  assumes "servos_reachable tp pixracer_config pixracer_dmas (px_servos d)" "8 \<le> length types"
  shows "pixracer_send_disarmed_commands tp d types = send_disarmed_commands (pixracer_ops tp) d types"
proof -
  let ?s = "px_servos d"
  have ok: "servos_ok pixracer_config ?s" by (rule reachable_servos_ok [OF standard_boards(2) assms(1)])
  have c: "channels_supported pixracer_config" by simp
  have n: "min (length (take NUM_HW_CHANNELS types)) 8 = 8" "min (length (take NUM_HW_CHANNELS (map f [0..<PWM_OUTPUT_CHANNELS]))) 8 = 8"
    for f :: "nat \<Rightarrow> f64" using assms(2) by (simp_all add: NUM_HW_CHANNELS_def PWM_OUTPUT_CHANNELS_def)
  let ?cmd = "\<lambda>i. safe_disarmed_command (take NUM_HW_CHANNELS types ! i) :: f64"
  let ?default = "map (\<lambda>channel. if channel < po_len (pixracer_ops tp) then safe_disarmed_command
          (case list_get types channel of Some t \<Rightarrow> t | None \<Rightarrow> OutAux) else lit32 5 10) [0..<PWM_OUTPUT_CHANNELS] :: f64 list"
  have same: "take NUM_HW_CHANNELS ?default ! i = ?cmd i" if "i < 8" for i
    using that assms(2) by (simp add: NUM_HW_CHANNELS_def PWM_OUTPUT_CHANNELS_def pixracer_ops_def list_get_def)
  have own: "pix_send_disarmed_commands tp pixracer_config pixracer_dmas ?s (take NUM_HW_CHANNELS types) = (pulses tp pixracer_config ?cmd [0..<8] ?s, None)"
    unfolding pix_send_disarmed_commands_def Let_def board_lengths n
    by (rule until_error_pulses [OF c ok]) (auto simp: send_standard_succeeds(2) [OF c])
  have default: "pix_send_normalized_commands tp pixracer_config pixracer_dmas ?s (take NUM_HW_CHANNELS ?default) = (pulses tp pixracer_config ?cmd [0..<8] ?s, None)"
    unfolding pix_send_normalized_commands_def Let_def board_lengths n
    by (rule until_error_pulses [OF c ok]) (auto simp: send_standard_succeeds(2) [OF c] same)
  show ?thesis
    using own default by (simp add: pixracer_send_disarmed_commands_def send_disarmed_commands_def pixracer_send_commands_def pixracer_ops_def)
qed

end
