(* ===== verification/Servo_Pulses.thy ===== *)
theory Servo_Pulses
  imports Servo_Timers_Safety
begin

text \<open>
  The pulses of the STM32 boards: their length at the rates of the built-in mixers, the rate at which each
  timer runs after the rates of the outputs are configured, and what outputs with different rates on
  one timer get.
\<close>

section \<open>The length of a pulse\<close>

text \<open>A binary fraction, exact in double precision.\<close>

definition bin :: "int \<Rightarrow> nat \<Rightarrow> f64" where
  "bin n j = flt_lit n (2 ^ j)"

lemma bin_fval [simp]:
  "\<bar>n\<bar> < 2 ^ 53 \<Longrightarrow> j \<le> 64 \<Longrightarrow> fval (bin n j) = n * 2 ^ (ulp_exp TYPE(64) - j)" "\<bar>n\<bar> < 2 ^ 53 \<Longrightarrow> j \<le> 64 \<Longrightarrow> is_finite (bin n j)"
  unfolding bin_def by (rule f64.flt_lit_pow2; simp add: mbits_def ulp_exp_def ebits_def)+

lemma lit_bin: "flt_lit n 1 = bin n 0" "flt_of_int n = bin n 0"
  by (simp_all add: bin_def flt_of_int_def)

lemma bin_between:
  assumes "bin a j \<le> x" "x \<le> bin b j" "\<bar>a\<bar> < 2 ^ 53" "\<bar>b\<bar> < 2 ^ 53" "j \<le> 64"
  shows "is_finite x" "a * 2 ^ (ulp_exp TYPE(64) - j) \<le> fval x" "fval x \<le> b * 2 ^ (ulp_exp TYPE(64) - j)"
proof -
  show x: "is_finite x" by (rule f64.between_finite [OF _ _ assms(1,2)]) (use assms in simp_all)
  show "a * 2 ^ (ulp_exp TYPE(64) - j) \<le> fval x" "fval x \<le> b * 2 ^ (ulp_exp TYPE(64) - j)"
    using assms by (simp_all add: f64.le_finite_iff x)
qed

lemma pulse_between:
  assumes "\<not> is_nan (command :: f64)"
  shows "bin 1000 0 \<le> flt_clamp command (bin 0 0) (bin 1 0) * bin 1000 0 + bin 1000 0"
    "flt_clamp command (bin 0 0) (bin 1 0) * bin 1000 0 + bin 1000 0 \<le> bin 2000 0"
proof -
  let ?u = "ulp_exp TYPE(64)" and ?x = "flt_clamp command (bin 0 0) (bin 1 0)"
  have "bin 0 0 \<le> ?x" "?x \<le> bin 1 0"
    using f64.flt_clamp_between [OF assms, of "bin 0 0" "bin 1 0"] by (simp_all add: f64.le_finite_iff)
  note x = bin_between [OF this, simplified]
  have "bin 0 0 \<le> ?x * bin 1000 0 \<and> ?x * bin 1000 0 \<le> bin 1000 0"
    by (rule f64.mul_between) (use x in simp_all)
  then have "bin 0 0 \<le> ?x * bin 1000 0" "?x * bin 1000 0 \<le> bin 1000 0" by simp_all
  note p = bin_between [OF this, simplified]
  have "bin 1000 0 \<le> ?x * bin 1000 0 + bin 1000 0 \<and> ?x * bin 1000 0 + bin 1000 0 \<le> bin 2000 0"
    by (rule f64.add_between) (use p in simp_all)
  then show "bin 1000 0 \<le> ?x * bin 1000 0 + bin 1000 0" "?x * bin 1000 0 + bin 1000 0 \<le> bin 2000 0" by simp_all
qed

lemma u16_of_between:
  assumes "bin x 32 \<le> r" "r \<le> bin y 32" "0 \<le> x" "x \<le> y" "y < 2 ^ 48"
  shows "x div 2 ^ 32 \<le> uint (flt_to_u16 r)" "uint (flt_to_u16 r) \<le> y div 2 ^ 32"
proof -
  let ?u = "ulp_exp TYPE(64)"
  define V :: int where "V = 2 ^ (?u - 32)"
  have V: "(0 :: int) < V" "2 ^ ?u = 2 ^ 32 * V" by (simp_all add: V_def ulp_exp_def ebits_def mbits_def flip: power_add)
  have "\<bar>x\<bar> < 2 ^ 53" "\<bar>y\<bar> < 2 ^ 53" using assms(3-5) by simp_all
  note r = bin_between [OF assms(1,2) this, folded V_def, simplified]
  have shift: "k * V div 2 ^ ?u = k div 2 ^ 32" for k using V by (simp add: div_mult_mult2)
  have "x div 2 ^ 32 \<le> fval r div 2 ^ ?u" "fval r div 2 ^ ?u \<le> y div 2 ^ 32"
    unfolding shift [symmetric] using r by (intro zdiv_mono1; simp)+
  moreover have "0 \<le> x div 2 ^ 32" "y div 2 ^ 32 < 65536" using assms(3,5) by (simp_all add: pos_imp_zdiv_nonneg_iff div_less_iff_less_mult)
  moreover have "0 \<le> fval r" using r(2) assms(3) V(1) by (meson mult_nonneg_nonneg order_trans less_imp_le)
  moreover have "flt_trunc r = fval r div 2 ^ ?u" using calculation(5) by (simp add: flt_trunc_def sgn_if)
  moreover have "flt_to_int 0 65535 r = max 0 (min 65535 (flt_trunc r))" using f64.finite_not [OF r(1)] by (simp add: flt_to_int_def)
  ultimately have "flt_to_int 0 65535 r = fval r div 2 ^ ?u" by simp
  moreover have "uint (flt_to_u16 r) = flt_to_int 0 65535 r"
    using \<open>flt_to_int 0 65535 r = fval r div 2 ^ ?u\<close> \<open>x div 2 ^ 32 \<le> fval r div 2 ^ ?u\<close> \<open>fval r div 2 ^ ?u \<le> y div 2 ^ 32\<close>
      \<open>0 \<le> x div 2 ^ 32\<close> \<open>y div 2 ^ 32 < 65536\<close>
    by (simp add: flt_to_u16_def uint_word_of_int)
  ultimately show "x div 2 ^ 32 \<le> uint (flt_to_u16 r)" "uint (flt_to_u16 r) \<le> y div 2 ^ 32"
    using \<open>x div 2 ^ 32 \<le> fval r div 2 ^ ?u\<close> \<open>fval r div 2 ^ ?u \<le> y div 2 ^ 32\<close> by simp_all
qed

text \<open>The duty, from bounds of the period with twenty binary places and of the share of it with thirty-two.\<close>

lemma duty_between:
  assumes "\<not> is_nan command" "is_finite rate" "\<not> rate \<le> flt_lit 0 1"
    and period: "bin a 20 \<le> flt_lit 1000000 1 / rate" "flt_lit 1000000 1 / rate \<le> bin b 20"
    and ab: "0 < a" "a < 2 ^ 53" "0 < b" "b < 2 ^ 53"
    and q: "0 \<le> lo" "lo * b \<le> 1000 * 2 ^ 52" "2000 * 2 ^ 52 \<le> hi * a" "lo \<le> hi" "hi \<le> 2 ^ 32"
  shows "\<exists>d. standard_pwm_duty command rate m = Inr d \<and> lo * uint m div 2 ^ 32 \<le> uint d \<and> uint d \<le> hi * uint m div 2 ^ 32"
proof -
  let ?u = "ulp_exp TYPE(64)"
  define V :: int where "V = 2 ^ (?u - 52)"
  have V: "0 < V" "(2 :: int) ^ ?u = 2 ^ 52 * V" "(2 :: int) ^ (?u - 32) = 2 ^ 20 * V" "(2 :: int) ^ (?u - 20) = 2 ^ 32 * V"
    by (simp_all add: V_def ulp_exp_def ebits_def mbits_def flip: power_add)
  define pulse where "pulse = flt_clamp command (bin 0 0) (bin 1 0) * bin 1000 0 + bin 1000 0"
  define P where "P = flt_lit 1000000 1 / rate"
  have m: "0 \<le> uint m" "uint m < 65536" using uint_lt2p [of m] by simp_all
  note p = bin_between [OF pulse_between [OF assms(1)], folded pulse_def, simplified, unfolded V(2)]
  have "\<bar>a\<bar> < 2 ^ 53" "\<bar>b\<bar> < 2 ^ 53" using ab by simp_all
  note P = bin_between [OF period [folded P_def] this, simplified, unfolded V(4)]
  have "0 < a * (2 ^ 32 * V)" using ab(1) V(1) by simp
  with P(2) have P0: "0 < fval P" by (rule order_less_le_trans [rotated])
  have lohi: "\<bar>lo\<bar> < 2 ^ 53" "\<bar>hi\<bar> < 2 ^ 53" using q by simp_all
  have vlh: "fval (bin lo 32) = lo * (2 ^ 20 * V)" "fval (bin hi 32) = hi * (2 ^ 20 * V)" using lohi V(3) by simp_all
  have "bin lo 32 \<le> pulse / P \<and> pulse / P \<le> bin hi 32"
  proof (rule f64.div_between)
    have "fval (bin lo 32) * fval P \<le> lo * (2 ^ 20 * V) * (b * (2 ^ 32 * V))"
      unfolding vlh using P(3) q(1) V(1) by (intro mult_left_mono) (simp_all add: mult.assoc)
    also have "\<dots> = lo * b * (2 ^ 52 * (V * V))" by simp
    also have "\<dots> \<le> 1000 * 2 ^ 52 * (2 ^ 52 * (V * V))" using q(2) V(1) by (intro mult_right_mono) simp_all
    also have "\<dots> = 1000 * (2 ^ 52 * V) * 2 ^ ?u" using V(2) by simp
    also have "\<dots> \<le> fval pulse * 2 ^ ?u" using p(2) by (intro mult_right_mono) (simp_all add: mult.assoc)
    finally show "fval (bin lo 32) * fval P \<le> fval pulse * 2 ^ ?u" .
    have "fval pulse * 2 ^ ?u \<le> 2000 * (2 ^ 52 * V) * 2 ^ ?u" using p(3) by (intro mult_right_mono) (simp_all add: mult.assoc)
    also have "\<dots> = 2000 * 2 ^ 52 * (2 ^ 52 * (V * V))" using V(2) by simp
    also have "\<dots> \<le> hi * a * (2 ^ 52 * (V * V))" using q(3) V(1) by (intro mult_right_mono) simp_all
    also have "\<dots> = hi * (2 ^ 20 * V) * (a * (2 ^ 32 * V))" by simp
    also have "\<dots> \<le> fval (bin hi 32) * fval P"
      unfolding vlh using P(2) q(1,4) V(1) by (intro mult_left_mono) (simp_all add: mult.assoc)
    finally show "fval pulse * 2 ^ ?u \<le> fval (bin hi 32) * fval P" .
  qed (use p P P0 lohi in simp_all)
  then have "bin lo 32 \<le> pulse / P" "pulse / P \<le> bin hi 32" by simp_all
  note s = bin_between [OF this lohi, simplified, unfolded V(3)]
  have "0 \<le> lo * uint m" "lo * uint m \<le> hi * uint m" "hi * uint m \<le> 2 ^ 32 * uint m"
    using q m by (simp_all add: mult_right_mono)
  then have lm: "\<bar>lo * uint m\<bar> < 2 ^ 53" "\<bar>hi * uint m\<bar> < 2 ^ 53" "hi * uint m < 2 ^ 48" using m by simp_all
  have vm: "fval (flt_of_int (uint m) :: f64) = uint m * (2 ^ 52 * V)" "is_finite (flt_of_int (uint m) :: f64)"
    using m V(2) by (simp_all add: lit_bin)
  have "bin (lo * uint m) 32 \<le> pulse / P * flt_of_int (uint m) \<and> pulse / P * flt_of_int (uint m) \<le> bin (hi * uint m) 32"
  proof (rule f64.mul_between)
    have "lo * (2 ^ 20 * V) * fval (flt_of_int (uint m) :: f64) \<le> fval (pulse / P) * fval (flt_of_int (uint m) :: f64)"
      unfolding vm using s(2) m V(1) by (intro mult_right_mono) (simp_all add: mult.assoc)
    moreover have "lo * (2 ^ 20 * V) * fval (flt_of_int (uint m) :: f64) = fval (bin (lo * uint m) 32) * 2 ^ ?u"
      using lm V(2,3) by (simp add: vm)
    ultimately show "fval (bin (lo * uint m) 32) * 2 ^ ?u \<le> fval (pulse / P) * fval (flt_of_int (uint m) :: f64)" by simp
    have "fval (pulse / P) * fval (flt_of_int (uint m) :: f64) \<le> hi * (2 ^ 20 * V) * fval (flt_of_int (uint m) :: f64)"
      unfolding vm using s(3) m V(1) by (intro mult_right_mono) (simp_all add: mult.assoc)
    moreover have "hi * (2 ^ 20 * V) * fval (flt_of_int (uint m) :: f64) = fval (bin (hi * uint m) 32) * 2 ^ ?u"
      using lm V(2,3) by (simp add: vm)
    ultimately show "fval (pulse / P) * fval (flt_of_int (uint m) :: f64) \<le> fval (bin (hi * uint m) 32) * 2 ^ ?u" by simp
  qed (use s(1) vm(2) lm in simp_all)
  then have raw: "bin (lo * uint m) 32 \<le> pulse / P * flt_of_int (uint m)" "pulse / P * flt_of_int (uint m) \<le> bin (hi * uint m) 32"
    by simp_all
  have "bin 0 0 \<le> bin (lo * uint m) 32"
    using lm \<open>0 \<le> lo * uint m\<close> by (simp add: f64.le_finite_iff)
  moreover have "bin (hi * uint m) 32 \<le> flt_of_int (uint m)"
  proof -
    have "hi * uint m * (2 ^ 20 * V) \<le> 2 ^ 32 * uint m * (2 ^ 20 * V)"
      using q(5) m(1) V(1) by (intro mult_right_mono) simp_all
    then show ?thesis using lm vm V(3) by (simp add: f64.le_finite_iff)
  qed
  ultimately have "flt_clamp (pulse / P * flt_of_int (uint m)) (bin 0 0) (flt_of_int (uint m)) = pulse / P * flt_of_int (uint m)"
    using raw f64.flt_le_trans by (intro f64.flt_clamp_id) blast+
  then have "standard_pwm_duty command rate m = Inr (flt_to_u16 (pulse / P * flt_of_int (uint m)))"
    using assms(2,3) by (simp add: standard_pwm_duty_def Let_def pulse_def P_def lit_bin)
  then show ?thesis
    using u16_of_between [OF raw \<open>0 \<le> lo * uint m\<close> \<open>lo * uint m \<le> hi * uint m\<close> lm(3)] by simp
qed


lemma period_between:
  assumes "\<bar>n\<bar> < 2 ^ 53" "0 < n" "0 \<le> a" "a < 2 ^ 53" "0 \<le> b" "b < 2 ^ 53" "a * n \<le> 1000000 * 2 ^ 20" "1000000 * 2 ^ 20 \<le> b * n"
  shows "bin a 20 \<le> flt_lit 1000000 1 / flt_lit n 1 \<and> flt_lit 1000000 1 / flt_lit n 1 \<le> bin b 20"
proof -
  let ?u = "ulp_exp TYPE(64)"
  define V :: int where "V = 2 ^ (?u - 20)"
  have V: "0 < V" "(2 :: int) ^ ?u = 2 ^ 20 * V" "(2 :: int) ^ (?u - 20) = V"
    by (simp_all add: V_def ulp_exp_def ebits_def mbits_def flip: power_add)
  have "\<bar>a\<bar> < 2 ^ 53" "\<bar>b\<bar> < 2 ^ 53" using assms by simp_all
  then have v: "fval (bin a 20) = a * V" "fval (bin b 20) = b * V" "fval (bin n 0) = n * (2 ^ 20 * V)"
    "fval (bin 1000000 0) = 1000000 * (2 ^ 20 * V)"
    using assms(1) V by simp_all
  have "a * n * (2 ^ 20 * (V * V)) \<le> 1000000 * 2 ^ 20 * (2 ^ 20 * (V * V))" "1000000 * 2 ^ 20 * (2 ^ 20 * (V * V)) \<le> b * n * (2 ^ 20 * (V * V))"
    using assms(7,8) V(1) by (intro mult_right_mono; simp)+
  then have "fval (bin a 20) * fval (bin n 0) \<le> fval (bin 1000000 0) * 2 ^ ?u" "fval (bin 1000000 0) * 2 ^ ?u \<le> fval (bin b 20) * fval (bin n 0)"
    unfolding v V(2) by (simp_all add: ac_simps)
  then show ?thesis unfolding lit_bin
    by (intro f64.div_between) (use assms \<open>\<bar>a\<bar> < 2 ^ 53\<close> \<open>\<bar>b\<bar> < 2 ^ 53\<close> V v in simp_all)
qed

lemma pulses_of_rates:
  assumes "\<not> is_nan command" "rate \<in> {50, 490}"
  shows "\<exists>d. standard_pwm_duty command (flt_lit rate 1) m = Inr d
    \<and> 1000 * rate * uint m - 1000000 \<le> 1000000 * uint d \<and> 1000000 * uint d \<le> 2000 * rate * uint m"
proof -
  have m: "0 \<le> uint m" "uint m < 65536" using uint_lt2p [of m] by simp_all
  have fin: "is_finite (flt_lit rate 1 :: f64)" "\<not> (flt_lit rate 1 :: f64) \<le> flt_lit 0 1"
    using assms(2) by (auto simp: lit_bin f64.le_finite_iff)
  consider "rate = 50" | "rate = 490" using assms(2) by blast
  then show ?thesis
  proof cases
    case 1
    have p: "bin 20971520000 20 \<le> flt_lit 1000000 1 / flt_lit rate 1" "flt_lit 1000000 1 / flt_lit rate 1 \<le> bin 20971520000 20"
      using period_between [of 50 20971520000 20971520000] by (simp_all add: 1)
    obtain d where d: "standard_pwm_duty command (flt_lit rate 1) m = Inr d" "214748364 * uint m div 2 ^ 32 \<le> uint d" "uint d \<le> 429496730 * uint m div 2 ^ 32"
      using duty_between [OF assms(1) fin p, of 214748364 429496730 m] by auto
    have "214748364 * uint m < 4294967296 * (uint d + 1)" "4294967296 * uint d \<le> 429496730 * uint m" using d(2,3) by simp_all
    then have "uint m \<le> 20 * (uint d + 1)" "10 * uint d \<le> uint m" using m by linarith+
    then show ?thesis using d(1) by (simp add: 1)
  next
    case 2
    have p: "bin 2139951020 20 \<le> flt_lit 1000000 1 / flt_lit rate 1" "flt_lit 1000000 1 / flt_lit rate 1 \<le> bin 2139951021 20"
      using period_between [of 490 2139951020 2139951021] by (simp_all add: 2)
    obtain d where d: "standard_pwm_duty command (flt_lit rate 1) m = Inr d" "2104533974 * uint m div 2 ^ 32 \<le> uint d" "uint d \<le> 4209067953 * uint m div 2 ^ 32"
      using duty_between [OF assms(1) fin p, of 2104533974 4209067953 m] by auto
    have "2104533974 * uint m < 4294967296 * (uint d + 1)" "4294967296 * uint d \<le> 4209067953 * uint m" using d(2,3) by simp_all
    then have "49 * uint m \<le> 100 * (uint d + 1)" "50 * uint d \<le> 49 * uint m" using m by linarith+
    then show ?thesis using d(1) by (simp add: 2)
  qed
qed



section \<open>Outputs that share a timer\<close>

text \<open>The last configuration of each timer wins.\<close>

definition std_rate :: "f64 \<Rightarrow> bool" where
  "std_rate r \<longleftrightarrow> is_finite r \<and> \<not> r < lit32 0 1 \<and> r \<le> lit32 490 1"

definition eff_rate :: "f64 \<Rightarrow> f64" where
  "eff_rate r = (if flt_eq r (lit32 0 1) then from_f32 STANDARD_PWM_DEFAULT_RATE_HZ else r)"

definition rate_hz :: "f64 \<Rightarrow> u32" where
  "rate_hz r = word_of_int (flt_to_int 0 (2 ^ 32 - 1) (eff_rate r + flt_lit 5 10))"

lemma std_rate_config:
  assumes "std_rate r"
  shows "output_protocol_for_rate r = Inr StandardPwm" "effective_output_rate_hz r = Inr (eff_rate r)" "rate_to_hz (eff_rate r) = Inr (rate_hz r)"
proof -
  show p: "output_protocol_for_rate r = Inr StandardPwm" and e: "effective_output_rate_hz r = Inr (eff_rate r)"
    using assms by (simp_all add: output_protocol_for_rate_def effective_output_rate_hz_def std_rate_def eff_rate_def)
  have ok: "rate_ok (eff_rate r)" by (rule effective_rate_ok [OF p e])
  have lits: "lit32 490 1 = bin 490 0" "from_f32 STANDARD_PWM_DEFAULT_RATE_HZ = bin 50 0"
    using f64.from_f32_lit [of 490 0] f64.from_f32_lit [of 50 0] by (simp_all add: STANDARD_PWM_DEFAULT_RATE_HZ_def lit_bin)
  have "bin 50 0 \<le> bin 490 0" by (simp add: f64.le_finite_iff)
  then have "eff_rate r \<le> bin 490 0" using assms by (simp add: eff_rate_def std_rate_def lits)
  moreover have "bin 490 0 \<le> flt_of_int (2 ^ 32 - 1)" unfolding lit_bin by (simp add: f64.le_finite_iff)
  ultimately have "eff_rate r \<le> flt_of_int (2 ^ 32 - 1)" using f64.flt_le_trans by blast
  then have "\<not> flt_of_int (2 ^ 32 - 1) < eff_rate r" by (auto simp: less_flt_def less_eq_flt_def)
  then show "rate_to_hz (eff_rate r) = Inr (rate_hz r)" using ok by (simp add: rate_to_hz_def rate_ok_def rate_hz_def)
qed

lemma configure_outputs_result:
  assumes "list_all (std_rate \<circ> snd) ps"
  shows "configure_outputs c ps s configs =
    (s\<lparr>sv_output_rates_hz := fold (\<lambda>(i, r) xs. xs[i := eff_rate r]) ps (sv_output_rates_hz s),
       sv_output_protocols := fold (\<lambda>(i, r) xs. xs[i := StandardPwm]) ps (sv_output_protocols s)\<rparr>,
     Inr (fold (\<lambda>(i, r) xs. xs[fst (sc_chan_list c ! i) := Some (StandardPwm, rate_hz r)]) ps configs))"
  using assms
proof (induction ps arbitrary: s configs)
  case (Cons x ps)
  obtain i r where x: "x = (i, r)" by force
  have "std_rate r" using Cons.prems by (simp add: x)
  then show ?case using Cons.prems by (simp add: x Cons.IH std_rate_config Let_def)
qed simp

lemma fold_update_last:
  assumes "(i, r) \<in> set ps" "k i < length xs" "\<forall>(i', r') \<in> set ps. k i' = k i \<longrightarrow> g r' = g r"
  shows "fold (\<lambda>(i, r) xs. xs[k i := g r]) ps xs ! k i = g r"
proof -
  have len: "length (fold (\<lambda>(i, r) xs. xs[k i := g r]) qs xs) = length xs" for qs
    by (induction qs arbitrary: xs) (auto simp: case_prod_beta)
  have "(\<exists>j r'. (j, r') \<in> set qs \<and> k j = k i) \<Longrightarrow> set qs \<subseteq> set ps \<Longrightarrow> fold (\<lambda>(i, r) xs. xs[k i := g r]) qs xs ! k i = g r" for qs
  proof (induction qs rule: rev_induct)
    case (snoc q qs)
    obtain j r' where q: "q = (j, r')" by force
    show ?case
    proof (cases "k j = k i")
      case True
      then have "g r' = g r" using assms(3) snoc.prems(2) by (auto simp: q)
      then show ?thesis using True assms(2) by (simp add: q len)
    next
      case False
      then show ?thesis using snoc by (auto simp: q)
    qed
  qed simp
  then show ?thesis using assms(1) by blast
qed

text \<open>Whether the outputs on a timer ask for one rate.\<close>

definition rates_fit_timers :: "servo_config \<Rightarrow> f64 list \<Rightarrow> bool" where
  "rates_fit_timers c rs \<longleftrightarrow> (\<forall>(i, r) \<in> set (enumerate 0 (take (length (sc_chan_list c)) rs)).
     \<forall>(j, r') \<in> set (enumerate 0 (take (length (sc_chan_list c)) rs)). fst (sc_chan_list c ! j) = fst (sc_chan_list c ! i) \<longrightarrow> r' = r)"

lemma fitting_rates:
  assumes "channels_supported c" "servos_ok c s" "length (sv_timers s) = length (sc_timer_ids c)"
    and "list_all std_rate rs" "rates_fit_timers c rs" "i < length rs" "i < length (sc_chan_list c)"
  shows "snd (servo_configure_output_rates tp c s rs) = None"
    "sv_output_rates_hz (fst (servo_configure_output_rates tp c s rs)) ! i = eff_rate (rs ! i)"
    "sv_timers (fst (servo_configure_output_rates tp c s rs)) ! fst (sc_chan_list c ! i)
      = tm_set_frequency tp (rate_hz (rs ! i)) (sv_timers s ! fst (sc_chan_list c ! i))"
proof -
  let ?ps = "enumerate 0 (take (length (sc_chan_list c)) rs)" and ?k = "\<lambda>i. fst (sc_chan_list c ! i)"
  have std: "list_all (std_rate \<circ> snd) ?ps"
    using assms(4) by (force simp: list_all_iff in_set_enumerate_eq dest: in_set_takeD)
  note r = configure_outputs_result [OF std, of c s "replicate (length (sc_timer_ids c)) None"]
  show "snd (servo_configure_output_rates tp c s rs) = None" by (simp add: servo_configure_output_rates_def r)
  have i: "(i, rs ! i) \<in> set ?ps" using assms(6,7) by (simp add: in_set_enumerate_eq)
  have "fold (\<lambda>(i, r) xs. xs[i := eff_rate r]) ?ps (sv_output_rates_hz s) ! i = eff_rate (rs ! i)"
  proof (rule fold_update_last [where k = "\<lambda>i. i" and g = eff_rate, OF i])
    show "i < length (sv_output_rates_hz s)" using assms(2,7) by (simp add: servos_ok_def)
    have "r' = rs ! i" if "(i, r') \<in> set ?ps" for r' using that assms(6,7) by (simp only: in_set_enumerate_eq fst_conv snd_conv) simp
    then show "\<forall>(i', r') \<in> set ?ps. i' = i \<longrightarrow> eff_rate r' = eff_rate (rs ! i)" by blast
  qed
  then show "sv_output_rates_hz (fst (servo_configure_output_rates tp c s rs)) ! i = eff_rate (rs ! i)"
    by (simp add: servo_configure_output_rates_def r configure_timers_def)
  have k: "?k i < length (sc_timer_ids c)" by (rule supported_nth [OF assms(1,7)]) simp
  have "fold (\<lambda>(i, r) xs. xs[?k i := Some (StandardPwm, rate_hz r)]) ?ps (replicate (length (sc_timer_ids c)) None) ! ?k i
      = Some (StandardPwm, rate_hz (rs ! i))"
  proof (rule fold_update_last [where k = ?k and g = "\<lambda>r. Some (StandardPwm, rate_hz r)", OF i])
    show "?k i < length (replicate (length (sc_timer_ids c)) (None :: (pwm_output_protocol \<times> u32) option))" using k by simp
    show "\<forall>(i', r') \<in> set ?ps. ?k i' = ?k i \<longrightarrow> Some (StandardPwm, rate_hz r') = Some (StandardPwm, rate_hz (rs ! i))"
      using assms(5) i unfolding rates_fit_timers_def by fast
  qed
  moreover have "length (fold (\<lambda>(i, r) xs. xs[?k i := Some (StandardPwm, rate_hz r)]) qs xs) = length xs" for qs xs
    by (induction qs arbitrary: xs) (auto simp: case_prod_beta)
  ultimately show "sv_timers (fst (servo_configure_output_rates tp c s rs)) ! ?k i = tm_set_frequency tp (rate_hz (rs ! i)) (sv_timers s ! ?k i)"
    using k assms(3) by (simp add: servo_configure_output_rates_def r configure_timers_def timer_set_frequency_hz_def)
qed

lemma std_rate_lits: "std_rate (flt_lit 50 1)" "std_rate (flt_lit 490 1)"
proof -
  have "lit32 490 1 = bin 490 0" "lit32 0 1 = bin 0 0"
    using f64.from_f32_lit [of 490 0] f64.from_f32_lit [of 0 0] by (simp_all add: lit_bin)
  moreover have "\<not> bin 50 0 < bin 0 0" "\<not> bin 490 0 < bin 0 0" "bin 50 0 \<le> bin 490 0" "bin 490 0 \<le> bin 490 0"
    by (simp_all add: f64.not_less_le f64.finite_not f64.le_finite_iff)
  ultimately show "std_rate (flt_lit 50 1)" "std_rate (flt_lit 490 1)" by (simp_all only: std_rate_def lit_bin) simp_all
qed

text \<open>
  C32. The built-in rates reach the timers: on both boards, every table of output rates of the mixer is
  accepted, and afterwards the timer of each output runs at the rate with which the output's pulses
  are computed, although outputs share timers.
\<close>

theorem built_in_rates_reach_the_timers:
  assumes "c \<in> {nucleo_config, pixracer_config}" "servos_reachable tp c dmas s" "length (sv_timers s) = length (sc_timer_ids c)"
    and "rs \<in> {ESC_CALIBRATION_PWM_RATES, QUAD_X_PWM_RATES, HEX_PWM_RATES, OCTO_PWM_RATES, FIXEDWING_PWM_RATES}"
    and "i < length rs" "i < length (sc_chan_list c)"
  shows "snd (servo_configure_output_rates tp c s rs) = None
    \<and> (\<exists>hz. rate_to_hz (sv_output_rates_hz (fst (servo_configure_output_rates tp c s rs)) ! i) = Inr hz
      \<and> sv_timers (fst (servo_configure_output_rates tp c s rs)) ! fst (sc_chan_list c ! i)
        = tm_set_frequency tp hz (sv_timers s ! fst (sc_chan_list c ! i)))"
proof -
  have board: "standard_board c" using assms(1) by auto
  note tables = ESC_CALIBRATION_PWM_RATES_def QUAD_X_PWM_RATES_def HEX_PWM_RATES_def OCTO_PWM_RATES_def FIXEDWING_PWM_RATES_def lit_row_def NUM_MIXER_OUTPUTS_def
  have std: "list_all std_rate rs" using assms(4) by (auto simp: tables std_rate_lits numeral_eq_Suc)
  have fit: "rates_fit_timers c rs" using assms(1,4) by (auto simp: rates_fit_timers_def tables nucleo_config_def pixracer_config_def)
  have "std_rate (rs ! i)" using std assms(5) by (simp add: list_all_length)
  note f = fitting_rates [OF _ reachable_servos_ok [OF board assms(2)] assms(3) std fit assms(5,6), of tp]
  show ?thesis using f board std_rate_config(3) [OF \<open>std_rate (rs ! i)\<close>] by (simp add: standard_board_def)
qed

lemma built_in_rates_reach_the_timers_witness:
  "snd (servo_configure_output_rates no_timer pixracer_config (servos_new pixracer_config [(), (), ()]) QUAD_X_PWM_RATES) = None"
proof -
  have "pixracer_config \<in> {nucleo_config, pixracer_config}" by simp
  moreover have "length (sv_timers (servos_new pixracer_config [(), (), ()])) = length (sc_timer_ids pixracer_config)"
    by (simp add: servos_new_def)
  moreover have "QUAD_X_PWM_RATES \<in> {ESC_CALIBRATION_PWM_RATES, QUAD_X_PWM_RATES, HEX_PWM_RATES, OCTO_PWM_RATES, FIXEDWING_PWM_RATES}" by simp
  moreover have "0 < length QUAD_X_PWM_RATES" by (simp add: QUAD_X_PWM_RATES_def lit_row_def)
  moreover have "0 < length (sc_chan_list pixracer_config)" by simp
  ultimately show ?thesis
    by (rule conjunct1 [OF built_in_rates_reach_the_timers [OF _ servos_reachable.start]])
qed

lemma pixracer_disarms_like_the_default_witness:
  "pixracer_send_disarmed_commands no_timer (pixracer_new no_timer (servos_new pixracer_config [(), (), ()])) (replicate 10 OutMotor)
    = send_disarmed_commands (pixracer_ops no_timer) (pixracer_new no_timer (servos_new pixracer_config [(), (), ()])) (replicate 10 OutMotor)"
  by (rule pixracer_disarms_like_the_default) (simp_all add: pixracer_new_def servos_reachable.start)



end
