(* ===== verification/Spec2Isabelle.thy ===== *)
theory Spec2Isabelle
  imports Prelude Flight_Float Params State_Machine Messages Event_Queues Log Override_Bits Mixer Float_Scaling Mixer_Safety
    Param_Service Param_Service_Safety Param_Storage Param_Storage_Safety
    Packets Rc Rc_Safety Command Command_Safety Rc_Command_State Command_Service
    Pwm Pwm_Safety Mavlink_Parser Mavlink_Parser_Safety
    Estimator Estimator_Safety Controller Controller_Safety Sensor_Processors Sensor_Safety
    Companion Board Control_Pipeline Control_Pipeline_Safety Telemetry Telemetry_Safety Comm_Manager
    World World_Service World_Safety World_Liveness World_Invariant
    Rp2350_Mailbox Rp2350_Mailbox_Safety Mavlink_Conversions Mavlink_Link Mavlink_Link_Safety Latest_Queue
    Machine_Ints Gps Gps_Safety Ublox Gps_Time Rc_Drivers Rc_Drivers_Safety Sensor_Bus Imu_Drivers Aux_Drivers Sensor_Driver_Safety
    Servo_Timers Servo_Timers_Safety Servo_Pulses
begin

text \<open>
  Veloxity is a flight controller firmware in Rust, a port of ROSflight: one core crate
  (\<^verbatim>\<open>crates/veloxity_core\<close>) that knows no hardware, a MAVLink link (\<^verbatim>\<open>comms/veloxity_mavlink\<close>),
  drivers per microcontroller (\<^verbatim>\<open>platforms\<close>) and one binary per board (\<^verbatim>\<open>boards\<close>, \<^verbatim>\<open>sim\<close>). This
  development models the core crate as a whole, from the parameter table to the loop, and around
  it the MAVLink link, the mailbox between the cores of the RP2350, the drivers of the sensors,
  GNSS and radio receivers, and the output drivers of all three boards.

  \<^bold>\<open>How the program works.\<close> \<^verbatim>\<open>World\<close> (\<^verbatim>\<open>world.rs\<close>) owns every component. A slow board calls
  \<^verbatim>\<open>run_once\<close> for ever: communication and parameters, sensors, radio and state, control,
  telemetry. A realtime board asks \<^verbatim>\<open>realtime_scheduler_step\<close> what is due and runs an IMU tick, a
  control tick, or a service phase, a loop of prioritised service steps that stops when control
  needs the processor. Inside a stage the components talk through bounded event queues
  (\<^verbatim>\<open>events.rs\<close>), parameters (\<^verbatim>\<open>params.rs\<close>) whose changes set off reactions, and the state machine
  (\<^verbatim>\<open>state_machine.rs\<close>) that decides whether the vehicle is armed.

  \<^bold>\<open>Theories and sources.\<close>
  \<^item> \<open>Prelude\<close>: machine integers as words, saturating operations, Rust's casts and \<^verbatim>\<open>get\<close>.
  \<^item> \<open>Flight_Float\<close>, \<open>Float_Scaling\<close>: \<^verbatim>\<open>math.rs\<close>; f32 and f64 are 32- and 64-bit words with the
    operations of IEEE 754, rounded to nearest even. \<^verbatim>\<open>R: FlightFloat\<close> is a length variable.
  \<^item> \<open>Params\<close>, \<open>Param_Service\<close>, \<open>Param_Storage\<close>: the table, the requests of the ground station and
    the nonvolatile image (\<^verbatim>\<open>params.rs\<close>, \<^verbatim>\<open>params/service.rs\<close>, \<^verbatim>\<open>params/storage.rs\<close>).
  \<^item> \<open>State_Machine\<close>, \<open>Log\<close>, \<open>Event_Queues\<close>, \<open>Messages\<close>, \<open>Packets\<close>: the files of the same names.
  \<^item> \<open>Rc\<close>, \<open>Command\<close>, \<open>Rc_Command_State\<close>, \<open>Command_Service\<close>, \<open>Override_Bits\<close>: radio, command
    multiplexing, their common pass and the requests of the companion computer.
  \<^item> \<open>Sensor_Processors\<close>, \<open>Estimator\<close>, \<open>Controller\<close>, \<open>Mixer\<close>, \<open>Pwm\<close>: the signal chain from a raw
    packet to the outputs (\<^verbatim>\<open>sensors\<close>, \<^verbatim>\<open>estimator/quad.rs\<close>, \<^verbatim>\<open>controller/quad.rs\<close>,
    \<^verbatim>\<open>mixer/matrix.rs\<close>, \<^verbatim>\<open>pwm\<close>); \<open>Control_Pipeline\<close> composes it as \<^verbatim>\<open>control.rs\<close> does.
  \<^item> \<open>Telemetry\<close>, \<open>Comm_Manager\<close>: the outgoing and the incoming half of \<^verbatim>\<open>comm.rs\<close>;
    \<open>Mavlink_Parser\<close>, \<open>Mavlink_Conversions\<close>, \<open>Mavlink_Link\<close>: \<^verbatim>\<open>veloxity_mavlink\<close>, its framing, the
    conversions between core and dialect messages, and the link with its send methods.
  \<^item> \<open>Companion\<close>, \<open>Board\<close>: \<^verbatim>\<open>companion.rs\<close>, \<^verbatim>\<open>sensors/health.rs\<close>, \<^verbatim>\<open>battery.rs\<close>, and the board trait.
  \<^item> \<open>World\<close>, \<open>World_Service\<close>: \<^verbatim>\<open>world.rs\<close>, \<^verbatim>\<open>world/control.rs\<close>, \<^verbatim>\<open>world/service.rs\<close>,
    \<^verbatim>\<open>world/telemetry.rs\<close> and \<^verbatim>\<open>params/reactions.rs\<close>.
  \<^item> \<open>Rp2350_Mailbox\<close>, \<open>Latest_Queue\<close>: what the two cores of the RP2350 share, frames in
    \<^verbatim>\<open>platforms/rp2350/src/comms.rs\<close> and the rings of sensor packets in its \<^verbatim>\<open>peripherals\<close>.
  \<^item> \<open>Machine_Ints\<close>, \<open>Gps\<close>, \<open>Ublox\<close>, \<open>Gps_Time\<close>: the receivers of \<^verbatim>\<open>gps.rs\<close> (RP2350) and
    \<^verbatim>\<open>ublox.rs\<close> (STM32); \<open>Rc_Drivers\<close>: \<^verbatim>\<open>sbus.rs\<close> and \<^verbatim>\<open>rc_receiver.rs\<close>.
  \<^item> \<open>Sensor_Bus\<close>, \<open>Imu_Drivers\<close>, \<open>Aux_Drivers\<close>: the barometers (\<^verbatim>\<open>ms5611.rs\<close>, \<^verbatim>\<open>dps310.rs\<close>), the
    inertial sensors (\<^verbatim>\<open>adis16500.rs\<close>, \<^verbatim>\<open>bmi08x.rs\<close>) and the other sensors of the STM32.
  \<^item> \<open>Servo_Timers\<close>, \<open>Servo_Pulses\<close>: \<^verbatim>\<open>platforms/stm_32/src/peripherals/pwm.rs\<close> and the output
    drivers of the Nucleo and the PixRacer Pro; \<open>Pwm\<close> has that of the RP2350.
  A struct is a record with the fields of the source (a prefix where the name is taken), an enum
  a datatype, a method a function from the old state to the new one and its result; \<^verbatim>\<open>Result\<close> is
  a sum with the error on the left. Names follow the source.

  \<^bold>\<open>What is shown.\<close> The theories ending in \<open>_Safety\<close>, \<open>_Liveness\<close> and \<open>_Invariant\<close> hold the
  properties. Arming: only on request, with low throttle and no blocking error
  (\<open>State_Machine\<close>), only on a fresh radio frame (\<open>Rc_Command_State\<close>), never by starting
  (\<open>World_Safety\<close>); the state machine's invariant in every world the loops can reach
  (\<open>World_Invariant\<close>). Loss of the radio or of the companion, failsafe, and the source of each
  control axis (\<open>Rc_Safety\<close>, \<open>Command_Safety\<close>). The signal chain: bounds of the mixer and of the
  outputs, what the pipeline writes in a pass and when it refuses one. Round trips of the
  parameter image, the custom mixer, the MAVLink frame and the DSHOT frame. Telemetry: the
  stream that is sent is the most overdue one, a sample goes out once, requests are not lost.
  Termination of the service phase (\<open>World_Liveness\<close>) and of the gyro calibration. The link: a
  frame that one side encodes is received by the other, messages go to the queue of their
  priority, and the mailbox is a queue by priority that keeps the newest telemetry
  (\<open>Mavlink_Link_Safety\<close>, \<open>Rp2350_Mailbox_Safety\<close>). The receivers: damaged frames are refused, a
  written one is read back, the time of a fix is the calendar's (\<open>Gps_Safety\<close>, \<open>Gps_Time\<close>,
  \<open>Rc_Drivers_Safety\<close>). The sensors: damaged bursts are refused and the compensation fits its
  integers (\<open>Sensor_Driver_Safety\<close>). The STM32 outputs: no command is lost, pulses last one to two
  milliseconds, the built-in rates reach the timers (\<open>Servo_Timers_Safety\<close>, \<open>Servo_Pulses\<close>). Some theorems
  state what the code does where that is not what it means to do; their text says so.

  \<^bold>\<open>Interfaces.\<close> Locales state the contract of a component, their interpretations prove it for the
  model: \<open>keyed_store\<close> (the table), \<open>event_channel\<close> (a bounded queue), \<open>lossy_log\<close> (the ring of
  the logger), \<open>flight_float\<close> (both widths), \<open>pwm_driver\<close> and \<open>reliable_pwm_driver\<close> (the output
  drivers of the RP2350, the Nucleo and the PixRacer Pro), \<open>priority_frames\<close> (both directions of the
  mailbox) and \<open>latest_channel\<close> (the four rings between the cores).

  \<^bold>\<open>Loops and bounds.\<close> No definition needs fuel. Loops over queues and budgets end by a measure.
  The two loops that ask the board whether to go on are partial functions on \<open>option\<close>, because a
  board whose clock stands still keeps them running; that they return is a theorem under the
  hypothesis that the IMU interrupts again. Sums of \<^verbatim>\<open>u64\<close> and \<^verbatim>\<open>u32\<close> times wrap, as in a release
  build; \<^verbatim>\<open>usize::MAX\<close> is that of a 32-bit target.

  \<^bold>\<open>Parameters of the model.\<close> Code outside the repository or behind a trait is an argument: the
  board, the link and the output driver for the core; square root, powers and trigonometric
  functions; the singular value decomposition, products and normalisation of nalgebra; the
  version string of the build; the generated dialect with its frame builder and decoder, and the
  byte pipe under the link; the devices on a bus (\<open>bus_ops\<close>), with the configuration image of the
  BMI08x; the parser of CRSF; the timers of the STM32 (\<open>simple_pwm\<close>); what clocks and UARTs answer.

  \<^bold>\<open>Not modelled.\<close> The messages the components log, apart from those of the state machine, the
  lockout and the sensor calibration (they do not enter \<open>w_logs\<close>); the counters of the feature
  \<^verbatim>\<open>runtime-diagnostics\<close> and the scope pins; the construction and polling of the boards; storage
  card, USB, UART telemetry and pulse-per-second drivers, the PIO UART and the use of the vendored
  IMU driver; the simulator's foreign functions and the build tools. Their content is access to
  hardware, to an operating system or to a C caller.
\<close>

end
